(* ===== verification/JsPrelude.thy ===== *)
theory JsPrelude
  imports Main
begin

text \<open>
  What every component shares: JavaScript strings as lists of UTF-16 code units, and the
  generic lemmas on lists and options the component proofs use.

  A code unit is an \<open>int\<close>; a string is the list of its code units, so \<open>length\<close> counts
  what \<open>String.prototype.length\<close> counts and every index of the source is an index of the
  list. \<open>js ''abc''\<close> is the string of an ASCII literal.
\<close>

type_synonym jchar = int
type_synonym jstr = "jchar list"

definition js :: "string \<Rightarrow> jstr" where
  "js s = map of_char s"

lemma js_Nil [simp]: "js [] = []"
  by (simp add: js_def)

lemma js_Cons [simp]: "js (c # s) = of_char c # js s"
  by (simp add: js_def)

named_theorems js_eval \<open>equations that evaluate a definition on a concrete input\<close>

text \<open>The first success of two attempts, as the backtracking of a regular expression and
  JavaScript's \<open>??\<close> on an optional value combine them.\<close>

definition or_else :: "'a option \<Rightarrow> 'a option \<Rightarrow> 'a option" where
  "or_else x y = (case x of None \<Rightarrow> y | Some z \<Rightarrow> Some z)"

lemma or_else_simps [simp]:
  "or_else None y = y"
  "or_else (Some z) y = Some z"
  "or_else x None = x"
  by (simp_all add: or_else_def split: option.splits)

lemma or_else_assoc: "or_else (or_else x y) z = or_else x (or_else y z)"
  by (simp add: or_else_def split: option.splits)

lemma or_else_eq_Some: "or_else x y = Some z \<longleftrightarrow> x = Some z \<or> x = None \<and> y = Some z"
  by (simp add: or_else_def split: option.splits)

lemma or_else_eq_None: "or_else x y = None \<longleftrightarrow> x = None \<and> y = None"
  by (simp add: or_else_def split: option.splits)

text \<open>The second attempt is only looked at when the first one failed.\<close>

lemma or_else_cong [fundef_cong]:
  "x = x' \<Longrightarrow> (x' = None \<Longrightarrow> y = y') \<Longrightarrow> or_else x y = or_else x' y'"
  by (simp add: or_else_def split: option.splits)

text \<open>For evaluation: \<open>cong: or_else_weak_cong\<close> keeps the simplifier out of the second
  attempt until the first one is decided.\<close>

lemma or_else_weak_cong: "x = x' \<Longrightarrow> or_else x y = or_else x' y"
  by simp

lemma distinct_snoc: "distinct (xs @ [x]) \<longleftrightarrow> distinct xs \<and> x \<notin> set xs"
  by auto

lemma takeWhile_dropWhile_split:
  obtains w t where "xs = w @ t" "\<forall>x \<in> set w. P x" "t = [] \<or> \<not> P (hd t)"
proof
  show "xs = takeWhile P xs @ dropWhile P xs" by simp
  show "\<forall>x \<in> set (takeWhile P xs). P x" by (auto dest: set_takeWhileD)
  show "dropWhile P xs = [] \<or> \<not> P (hd (dropWhile P xs))"
    using hd_dropWhile by blast
qed

text \<open>\<open>Array.prototype.findIndex\<close>: \<open>None\<close> is the source's \<open>-1\<close>.\<close>

fun find_index :: "('a \<Rightarrow> bool) \<Rightarrow> 'a list \<Rightarrow> nat option" where
  "find_index P [] = None"
| "find_index P (x # xs) = (if P x then Some 0 else map_option Suc (find_index P xs))"

lemma find_index_Some:
  "find_index P xs = Some i \<Longrightarrow> i < length xs \<and> P (xs ! i) \<and> list_all (\<lambda>x. \<not> P x) (take i xs)"
  by (induction xs arbitrary: i) (auto split: if_splits)

lemma find_index_None: "find_index P xs = None \<longleftrightarrow> (\<forall>x \<in> set xs. \<not> P x)"
  by (induction xs) auto

end
