(* ===== verification/JsMap.thy ===== *)
theory JsMap
  imports JsPrelude
begin

text \<open>
  JavaScript's \<open>Map\<close>: an association list in insertion order. \<open>jm_set\<close> on a key already
  present replaces the value and keeps the key's place; a new key goes to the end. The
  iteration order of \<open>keys()\<close>, \<open>values()\<close> and \<open>entries()\<close> is the list's order.

  The locale \<open>ordered_map\<close> is the contract the components rely on; \<open>jm\<close> below
  interprets it on the model of \<open>Map\<close>.
\<close>

type_synonym ('k, 'v) jmap = "('k \<times> 'v) list"

fun jm_set :: "'k \<Rightarrow> 'v \<Rightarrow> ('k, 'v) jmap \<Rightarrow> ('k, 'v) jmap" where
  "jm_set k v [] = [(k, v)]"
| "jm_set k v ((k', v') # m) = (if k' = k then (k, v) # m else (k', v') # jm_set k v m)"

fun jm_get :: "('k, 'v) jmap \<Rightarrow> 'k \<Rightarrow> 'v option" where
  "jm_get [] k = None"
| "jm_get ((k', v') # m) k = (if k' = k then Some v' else jm_get m k)"

definition jm_keys :: "('k, 'v) jmap \<Rightarrow> 'k list" where
  "jm_keys m = map fst m"

definition jm_values :: "('k, 'v) jmap \<Rightarrow> 'v list" where
  "jm_values m = map snd m"

definition jm_has :: "('k, 'v) jmap \<Rightarrow> 'k \<Rightarrow> bool" where
  "jm_has m k = (jm_get m k \<noteq> None)"

definition jm_inv :: "('k, 'v) jmap \<Rightarrow> bool" where
  "jm_inv m = distinct (jm_keys m)"

locale ordered_map =
  fixes empty :: 'm
    and set_at :: "'k \<Rightarrow> 'v \<Rightarrow> 'm \<Rightarrow> 'm"
    and get :: "'m \<Rightarrow> 'k \<Rightarrow> 'v option"
    and keys :: "'m \<Rightarrow> 'k list"
    and ok :: "'m \<Rightarrow> bool"
  assumes get_empty: "get empty k = None"
    and keys_empty: "keys empty = []"
    and ok_empty: "ok empty"
    and ok_set: "ok m \<Longrightarrow> ok (set_at k v m)"
    and ok_distinct: "ok m \<Longrightarrow> distinct (keys m)"
    and get_set: "get (set_at k v m) k' = (if k' = k then Some v else get m k')"
    and keys_set: "keys (set_at k v m) = (if k \<in> set (keys m) then keys m else keys m @ [k])"
    and get_dom: "get m k = None \<longleftrightarrow> k \<notin> set (keys m)"
begin

text \<open>A loop that sets one entry after another.\<close>

definition set_all :: "('a \<Rightarrow> 'k) \<Rightarrow> ('a \<Rightarrow> 'v) \<Rightarrow> 'a list \<Rightarrow> 'm \<Rightarrow> 'm" where
  "set_all f g xs m = fold (\<lambda>x. set_at (f x) (g x)) xs m"

lemma set_all_simps:
  "set_all f g [] m = m"
  "set_all f g (x # xs) m = set_all f g xs (set_at (f x) (g x) m)"
  by (simp_all add: set_all_def)

lemma ok_set_all: "ok m \<Longrightarrow> ok (set_all f g xs m)"
  by (induction xs arbitrary: m) (auto simp: set_all_simps ok_set)

lemma keys_set_all: "set (keys (set_all f g xs m)) = set (keys m) \<union> f ` set xs"
  by (induction xs arbitrary: m) (auto simp: set_all_simps keys_set)

text \<open>Keys keep the place of their first insertion.\<close>

lemma keys_set_all_prefix: "\<exists>zs. keys (set_all f g xs m) = keys m @ zs"
proof (induction xs arbitrary: m)
  case Nil
  show ?case by (simp add: set_all_simps)
next
  case (Cons x xs)
  obtain zs where "keys (set_all f g xs (set_at (f x) (g x) m)) = keys (set_at (f x) (g x) m) @ zs"
    using Cons.IH by blast
  then show ?case by (auto simp: set_all_simps keys_set)
qed

lemma get_set_all_other: "k \<notin> f ` set xs \<Longrightarrow> get (set_all f g xs m) k = get m k"
  by (induction xs arbitrary: m) (auto simp: set_all_simps get_set)

text \<open>The last entry set under a key is the one read.\<close>

lemma get_set_all_last:
  "get (set_all f g (xs @ x # ys) m) (f x) = Some (g x)" if "f x \<notin> f ` set ys"
proof -
  have "set_all f g (xs @ x # ys) m = set_all f g ys (set_at (f x) (g x) (set_all f g xs m))"
    by (simp add: set_all_def)
  then show ?thesis by (simp add: get_set_all_other [OF that] get_set)
qed

end

lemma jm_keys_simps [simp]: "jm_keys [] = []" "jm_keys (p # m) = fst p # jm_keys m"
  by (simp_all add: jm_keys_def)

lemma jm_keys_append [simp]: "jm_keys (m @ m') = jm_keys m @ jm_keys m'"
  by (simp add: jm_keys_def)

lemma jm_get_set: "jm_get (jm_set k v m) k' = (if k' = k then Some v else jm_get m k')"
  by (induction m) auto

lemma jm_keys_set:
  "jm_keys (jm_set k v m) = (if k \<in> set (jm_keys m) then jm_keys m else jm_keys m @ [k])"
  by (induction m) auto

lemma jm_get_None: "jm_get m k = None \<longleftrightarrow> k \<notin> set (jm_keys m)"
  by (induction m) (auto split: if_splits)

lemma jm_inv_set: "jm_inv m \<Longrightarrow> jm_inv (jm_set k v m)"
  by (auto simp: jm_inv_def jm_keys_set)

interpretation jm: ordered_map "[]" jm_set jm_get jm_keys jm_inv
  by unfold_locales
    (auto simp: jm_get_set jm_keys_set jm_get_None jm_inv_def)

lemma jm_has_iff [simp]: "jm_has m k \<longleftrightarrow> k \<in> set (jm_keys m)"
  by (simp add: jm_has_def jm_get_None)

lemma jm_get_in: "jm_get m k = Some v \<Longrightarrow> (k, v) \<in> set m"
  by (induction m) (auto split: if_splits)

lemma jm_in_get: "jm_inv m \<Longrightarrow> (k, v) \<in> set m \<Longrightarrow> jm_get m k = Some v"
  by (induction m) (force simp: jm_inv_def jm_keys_def)+

lemma jm_get_eq_Some: "jm_inv m \<Longrightarrow> jm_get m k = Some v \<longleftrightarrow> (k, v) \<in> set m"
  by (blast intro: jm_get_in jm_in_get)

lemma jm_get_ex: "k \<in> set (jm_keys m) \<Longrightarrow> \<exists>v. jm_get m k = Some v"
  using jm_get_None by fastforce

lemma jm_set_new: "k \<notin> set (jm_keys m) \<Longrightarrow> jm_set k v m = m @ [(k, v)]"
  by (induction m) auto

lemma jm_set_entries:
  "(k', v') \<in> set (jm_set k v m) \<Longrightarrow> (k', v') = (k, v) \<or> (k', v') \<in> set m"
  by (induction m) (auto split: if_splits)

text \<open>Property checked on every entry survive an update by an entry that has it.\<close>

lemma jm_set_all: "\<forall>(k, v) \<in> set m. P k v \<Longrightarrow> P k v \<Longrightarrow> \<forall>(k, v) \<in> set (jm_set k v m). P k v"
  using jm_set_entries by fastforce

lemma jm_keys_distinct: "jm_inv m \<Longrightarrow> distinct (jm_keys m)"
  by (simp add: jm_inv_def)

end
