(* ===== verification/MermaidTypes.thy ===== *)
theory MermaidTypes
  imports JsMap
begin

text \<open>
  The data of \<open>components/mermaid/parser.ts\<close>: flowchart graphs and sequence diagrams as
  the parser builds them. An optional property (\<open>label?: string\<close>) is an \<open>option\<close>, a
  \<open>Map\<close> is an association list in insertion order, a union of string literals is a
  datatype.
\<close>

record style_def =
  fill :: "jstr option"
  stroke :: "jstr option"
  strokeWidth :: "jstr option"
  color :: "jstr option"
  borderRadius :: "jstr option"

definition empty_style :: style_def where
  "empty_style = \<lparr>fill = None, stroke = None, strokeWidth = None, color = None, borderRadius = None\<rparr>"

datatype node_shape =
    Rectangle
  | Round
  | Stadium
  | Subroutine
  | Cylinder
  | Circle
  | Asymmetric
  | Diamond
  | Hexagon

record flow_node =
  n_id :: jstr
  n_label :: jstr
  n_shape :: node_shape
  n_className :: "jstr option"
  n_style :: "style_def option"
  n_subgraphId :: "jstr option"

datatype edge_style = Solid | Dashed | Thick

record flow_edge =
  e_from :: jstr
  e_to :: jstr
  e_label :: "jstr option"
  e_style :: edge_style
  e_hasArrow :: bool

record subgraph =
  sg_id :: jstr
  sg_title :: jstr
  sg_nodeIds :: "jstr list"

datatype flow_direction = DirTD | DirLR | DirBT | DirRL

record flow_graph =
  g_direction :: flow_direction
  g_nodes :: "(jstr, flow_node) jmap"
  g_edges :: "flow_edge list"
  g_subgraphs :: "subgraph list"
  g_classDefs :: "(jstr, style_def) jmap"

record seq_participant =
  pt_id :: jstr
  pt_label :: jstr

record seq_message =
  m_from :: jstr
  m_to :: jstr
  m_label :: jstr
  m_isDashed :: bool
  m_isArrow :: bool

datatype note_position = NoteOver | NoteLeft | NoteRight

record seq_note =
  nt_participants :: "jstr list"
  nt_label :: jstr
  nt_position :: note_position

datatype seq_item = SeqMessage seq_message | SeqNote seq_note

record seq_diagram =
  sd_participants :: "seq_participant list"
  sd_items :: "seq_item list"

datatype parsed_diagram = ParsedFlow flow_graph | ParsedSeq seq_diagram

end
