(* ===== verification/JsString.thy ===== *)
theory JsString
  imports JsPrelude
begin

text \<open>
  The operations of \<open>String.prototype\<close> the source calls, on code-unit lists: \<open>trim\<close>,
  \<open>startsWith\<close>, \<open>endsWith\<close>, \<open>includes\<close>, \<open>indexOf\<close>, \<open>slice\<close>, \<open>split\<close> and \<open>join\<close> by a
  string, and ASCII case mapping.

  \<open>lower_unit\<close> and \<open>upper_unit\<close> map the ASCII letters, and the Kelvin sign U+212A, which is
  the one code unit outside ASCII whose lower case is an ASCII letter. The case mappings
  of other letters are not modelled: every string the source compares the result with is
  an ASCII literal.
\<close>

definition is_ws :: "jchar \<Rightarrow> bool" where
  "is_ws c = (9 \<le> c \<and> c \<le> 13 \<or> c = 32 \<or> c = 0xA0 \<or> c = 0x1680 \<or>
     0x2000 \<le> c \<and> c \<le> 0x200A \<or> c = 0x2028 \<or> c = 0x2029 \<or> c = 0x202F \<or> c = 0x205F \<or>
     c = 0x3000 \<or> c = 0xFEFF)"

definition is_line_end :: "jchar \<Rightarrow> bool" where
  "is_line_end c = (c = 10 \<or> c = 13 \<or> c = 0x2028 \<or> c = 0x2029)"

definition is_digit :: "jchar \<Rightarrow> bool" where
  "is_digit c = (48 \<le> c \<and> c \<le> 57)"

definition is_upper :: "jchar \<Rightarrow> bool" where
  "is_upper c = (65 \<le> c \<and> c \<le> 90)"

definition is_lower :: "jchar \<Rightarrow> bool" where
  "is_lower c = (97 \<le> c \<and> c \<le> 122)"

definition is_alnum :: "jchar \<Rightarrow> bool" where
  "is_alnum c = (is_upper c \<or> is_lower c \<or> is_digit c)"

definition is_word :: "jchar \<Rightarrow> bool" where
  "is_word c = (is_alnum c \<or> c = 95)"

lemmas jchar_defs = is_ws_def is_line_end_def is_digit_def is_upper_def is_lower_def
  is_alnum_def is_word_def

definition trim_start :: "jstr \<Rightarrow> jstr" where
  "trim_start s = dropWhile is_ws s"

definition trim_end :: "jstr \<Rightarrow> jstr" where
  "trim_end s = rev (dropWhile is_ws (rev s))"

definition js_trim :: "jstr \<Rightarrow> jstr" where
  "js_trim s = trim_end (trim_start s)"

definition lower_unit :: "jchar \<Rightarrow> jchar" where
  "lower_unit c = (if is_upper c then c + 32 else if c = 0x212A then 107 else c)"

definition upper_unit :: "jchar \<Rightarrow> jchar" where
  "upper_unit c = (if is_lower c then c - 32 else c)"

definition to_lower :: "jstr \<Rightarrow> jstr" where
  "to_lower s = map lower_unit s"

definition to_upper :: "jstr \<Rightarrow> jstr" where
  "to_upper s = map upper_unit s"

fun starts_with :: "jstr \<Rightarrow> jstr \<Rightarrow> bool" where
  "starts_with s [] = True"
| "starts_with [] (p # ps) = False"
| "starts_with (c # s) (p # ps) = (c = p \<and> starts_with s ps)"

definition ends_with :: "jstr \<Rightarrow> jstr \<Rightarrow> bool" where
  "ends_with s p = starts_with (rev s) (rev p)"

fun js_includes :: "jstr \<Rightarrow> jstr \<Rightarrow> bool" where
  "js_includes [] p = (p = [])"
| "js_includes (c # s) p = (starts_with (c # s) p \<or> js_includes s p)"

text \<open>\<open>indexOf\<close>: \<open>None\<close> is the source's \<open>-1\<close>.\<close>

fun index_of :: "jstr \<Rightarrow> jstr \<Rightarrow> nat option" where
  "index_of [] p = (if p = [] then Some 0 else None)"
| "index_of (c # s) p = (if starts_with (c # s) p then Some 0 else map_option Suc (index_of s p))"

text \<open>\<open>slice(i, j)\<close> and \<open>substring(i, j)\<close> for \<open>0 \<le> i \<le> j\<close>, and \<open>slice(1, -1)\<close>.\<close>

definition js_slice :: "nat \<Rightarrow> nat \<Rightarrow> jstr \<Rightarrow> jstr" where
  "js_slice i j s = take (j - i) (drop i s)"

definition slice_inner :: "jstr \<Rightarrow> jstr" where
  "slice_inner s = js_slice 1 (length s - 1) s"

text \<open>\<open>split\<close> by a one-unit separator: there is always at least one piece.\<close>

fun split_char :: "jchar \<Rightarrow> jstr \<Rightarrow> jstr list" where
  "split_char d [] = [[]]"
| "split_char d (c # s) =
     (if c = d then [] # split_char d s
      else (case split_char d s of [] \<Rightarrow> [[c]] | w # ws \<Rightarrow> (c # w) # ws))"

fun js_join :: "jstr \<Rightarrow> jstr list \<Rightarrow> jstr" where
  "js_join d [] = []"
| "js_join d [w] = w"
| "js_join d (w # v # ws) = w @ d @ js_join d (v # ws)"

text \<open>The decimal text of a non-negative integer, as a template literal prints it.\<close>

fun nat_text :: "nat \<Rightarrow> jstr" where
  "nat_text n = (if n < 10 then [48 + int n] else nat_text (n div 10) @ [48 + int (n mod 10)])"

declare nat_text.simps [simp del]

text \<open>An optional string or number is falsy when it is absent or empty.\<close>

fun truthy :: "jstr option \<Rightarrow> bool" where
  "truthy None = False"
| "truthy (Some s) = (s \<noteq> [])"

definition str_or :: "jstr option \<Rightarrow> jstr \<Rightarrow> jstr" where
  "str_or x d = (case x of None \<Rightarrow> d | Some s \<Rightarrow> if s = [] then d else s)"

lemmas str_defs = trim_start_def trim_end_def js_trim_def lower_unit_def upper_unit_def
  to_lower_def to_upper_def ends_with_def js_slice_def slice_inner_def str_or_def

subsection \<open>Lemmas\<close>

lemma starts_with_iff: "starts_with s p \<longleftrightarrow> (\<exists>t. s = p @ t)"
  by (induction s p rule: starts_with.induct) auto

lemma starts_with_append [simp]: "starts_with (p @ t) p"
  by (auto simp: starts_with_iff)

lemma ends_with_iff: "ends_with s p \<longleftrightarrow> (\<exists>t. s = t @ p)"
proof -
  have "ends_with s p \<longleftrightarrow> (\<exists>t. rev s = rev p @ t)"
    by (simp add: ends_with_def starts_with_iff)
  also have "\<dots> \<longleftrightarrow> (\<exists>t. s = rev t @ p)"
    by (metis rev_append rev_rev_ident)
  also have "\<dots> \<longleftrightarrow> (\<exists>t. s = t @ p)"
    by (metis rev_rev_ident)
  finally show ?thesis .
qed

lemma js_includes_iff: "js_includes s p \<longleftrightarrow> (\<exists>u v. s = u @ p @ v)"
proof (induction s)
  case (Cons c s)
  have "(\<exists>u v. c # s = u @ p @ v) \<longleftrightarrow> (\<exists>v. c # s = p @ v) \<or> (\<exists>u v. s = u @ p @ v)"
    by (metis append_Cons append_Nil neq_Nil_conv list.inject)
  with Cons show ?case by (simp add: starts_with_iff)
qed simp

lemma index_of_Some:
  "index_of s p = Some i \<Longrightarrow> i + length p \<le> length s \<and> take (length p) (drop i s) = p"
proof (induction s arbitrary: i)
  case (Cons c s)
  show ?case
  proof (cases "starts_with (c # s) p")
    case True
    with Cons.prems have "i = 0" by simp
    from True obtain t where "c # s = p @ t" by (auto simp: starts_with_iff)
    moreover from this have "length (c # s) = length p + length t" by (metis length_append)
    ultimately show ?thesis using \<open>i = 0\<close> by simp
  next
    case False
    with Cons.prems obtain j where "i = Suc j" "index_of s p = Some j" by auto
    with Cons.IH [of j] show ?thesis by simp
  qed
qed (auto split: if_splits)

lemma index_of_None: "index_of s p = None \<longleftrightarrow> \<not> js_includes s p"
  by (induction s) auto

lemma dropWhile_ws_id: "s = [] \<or> \<not> is_ws (hd s) \<Longrightarrow> trim_start s = s"
  by (cases s) (auto simp: trim_start_def)

lemma trim_end_id: "s = [] \<or> \<not> is_ws (last s) \<Longrightarrow> trim_end s = s"
  by (cases s rule: rev_cases) (auto simp: trim_end_def)

text \<open>A string that neither starts nor ends with white space.\<close>

definition trimmed :: "jstr \<Rightarrow> bool" where
  "trimmed s = (s = [] \<or> \<not> is_ws (hd s) \<and> \<not> is_ws (last s))"

lemma js_trim_id [simp]: "trimmed s \<Longrightarrow> js_trim s = s"
  by (auto simp: js_trim_def trimmed_def dropWhile_ws_id trim_end_id)

lemma trim_end_decomp: "\<exists>v. s = trim_end s @ v \<and> (\<forall>c \<in> set v. is_ws c)"
proof (intro exI conjI)
  have "rev s = takeWhile is_ws (rev s) @ dropWhile is_ws (rev s)" by simp
  then show "s = trim_end s @ rev (takeWhile is_ws (rev s))"
    unfolding trim_end_def by (metis rev_append rev_rev_ident)
  show "\<forall>c \<in> set (rev (takeWhile is_ws (rev s))). is_ws c"
    by (auto dest: set_takeWhileD)
qed

lemma trim_end_last: "trim_end s = [] \<or> \<not> is_ws (last (trim_end s))"
proof (cases "dropWhile is_ws (rev s) = []")
  case False
  then have "\<not> is_ws (hd (dropWhile is_ws (rev s)))" by (rule hd_dropWhile)
  with False show ?thesis by (simp add: trim_end_def last_rev)
qed (simp add: trim_end_def)

lemma js_trim_trimmed [simp]: "trimmed (js_trim s)"
proof (cases "js_trim s = []")
  case False
  obtain v where v: "trim_start s = js_trim s @ v"
    using trim_end_decomp [of "trim_start s"] by (auto simp: js_trim_def)
  then have "hd (js_trim s) = hd (trim_start s)" "trim_start s \<noteq> []"
    using False by (auto simp: hd_append)
  then have "\<not> is_ws (hd (js_trim s))"
    by (metis trim_start_def hd_dropWhile)
  moreover have "\<not> is_ws (last (js_trim s))"
    using trim_end_last [of "trim_start s"] False by (simp add: js_trim_def)
  ultimately show ?thesis by (simp add: trimmed_def)
qed (simp add: trimmed_def)

lemma js_trim_idem [simp]: "js_trim (js_trim s) = js_trim s"
  by simp

lemma split_char_nonempty [simp]: "split_char d s \<noteq> []"
  by (induction s) (auto split: list.splits)

lemma split_char_free: "d \<notin> set s \<Longrightarrow> split_char d s = [s]"
  by (induction s) auto

lemma split_char_append:
  "d \<notin> set w \<Longrightarrow> split_char d (w @ d # s) = w # split_char d s"
  by (induction w) auto

text \<open>Splitting by a separator undoes joining pieces free of it.\<close>

lemma split_join:
  "ws \<noteq> [] \<Longrightarrow> \<forall>w \<in> set ws. d \<notin> set w \<Longrightarrow> split_char d (js_join [d] ws) = ws"
  by (induction "[d]" ws rule: js_join.induct) (auto simp: split_char_free split_char_append)

lemma join_split: "js_join [d] (split_char d s) = s"
proof (induction s)
  case (Cons c s)
  obtain w ws where e: "split_char d s = w # ws"
    by (metis neq_Nil_conv split_char_nonempty)
  with Cons show ?case by (cases ws) auto
qed simp

lemma split_char_pieces: "w \<in> set (split_char d s) \<Longrightarrow> d \<notin> set w"
proof (induction s arbitrary: w)
  case (Cons c s)
  obtain v vs where e: "split_char d s = v # vs"
    by (metis neq_Nil_conv split_char_nonempty)
  with Cons show ?case by (auto split: if_splits)
qed simp

lemma nat_text_digits: "c \<in> set (nat_text n) \<Longrightarrow> is_digit c"
proof (induction n arbitrary: c rule: nat_text.induct)
  case (1 n)
  have "n mod 10 < 10" by simp
  with 1 show ?case
    by (subst (asm) nat_text.simps) (auto simp: is_digit_def split: if_splits)
qed

lemma nat_text_nonempty [simp]: "nat_text n \<noteq> []"
  by (subst nat_text.simps) simp

lemma truthy_str_or: "truthy x \<Longrightarrow> str_or x d = the x"
  by (cases x) (auto simp: str_or_def)

end
