(* ===== verification/JsRegex.thy ===== *)
theory JsRegex
  imports JsString
begin

text \<open>
  JavaScript regular expressions. A pattern is a value of \<open>rx\<close>; \<open>run\<close> is the backtracking
  matcher of the language definition: a continuation \<open>K\<close> receives the position after the
  match and the captures, its failure sends the matcher to the next alternative, greedy
  quantifiers try one more iteration first, lazy ones try the continuation first, an
  iteration that consumes nothing is refused, and the captures of a quantified group are
  reset before each iteration.

  A position is the consumed text, reversed, and the rest. Literal patterns of the source
  are written with \<open>rlit\<close> (\<open>rlit_i\<close> under the flag \<open>i\<close>), classes with \<open>RChr\<close>.
\<close>

type_synonym pos = "jstr \<times> jstr"
type_synonym caps = "nat \<Rightarrow> jstr option"

datatype rx =
    REps
  | RChr "jchar \<Rightarrow> bool"
  | RSeq rx rx
  | RAlt rx rx
  | RStar rx
  | RLazy rx
  | RCap nat rx
  | RBos
  | REos
  | RWordB
  | RAhead "(jchar \<Rightarrow> bool) list"
  | RBehind "jchar \<Rightarrow> bool"

fun groups :: "rx \<Rightarrow> nat list" where
  "groups (RSeq a b) = groups a @ groups b"
| "groups (RAlt a b) = groups a @ groups b"
| "groups (RStar a) = groups a"
| "groups (RLazy a) = groups a"
| "groups (RCap n a) = n # groups a"
| "groups _ = []"

definition reset :: "nat list \<Rightarrow> caps \<Rightarrow> caps" where
  "reset ns c = (\<lambda>n. if n \<in> set ns then None else c n)"

lemma reset_Nil [simp]: "reset [] c = c"
  by (simp add: reset_def)

definition word_boundary :: "pos \<Rightarrow> bool" where
  "word_boundary q = (case q of (p, s) \<Rightarrow>
     (p \<noteq> [] \<and> is_word (hd p)) \<noteq> (s \<noteq> [] \<and> is_word (hd s)))"

text \<open>Lookaheads of the source are sequences of classes, lookbehinds one class.\<close>

fun units_match :: "(jchar \<Rightarrow> bool) list \<Rightarrow> jstr \<Rightarrow> bool" where
  "units_match [] s = True"
| "units_match (f # fs) [] = False"
| "units_match (f # fs) (x # s) = (f x \<and> units_match fs s)"

function run :: "rx \<Rightarrow> (pos \<Rightarrow> caps \<Rightarrow> 'a option) \<Rightarrow> pos \<Rightarrow> caps \<Rightarrow> 'a option" where
  "run REps K q c = K q c"
| "run (RChr f) K (p, s) c =
     (case s of [] \<Rightarrow> None | x # t \<Rightarrow> if f x then K (x # p, t) c else None)"
| "run (RSeq a b) K q c = run a (\<lambda>q' c'. run b K q' c') q c"
| "run (RAlt a b) K q c = or_else (run a K q c) (run b K q c)"
| "run (RStar a) K (p, s) c =
     or_else
       (run a (\<lambda>(p', s') c'. if length s' < length s then run (RStar a) K (p', s') c' else None)
          (p, s) (reset (groups a) c))
       (K (p, s) c)"
| "run (RLazy a) K (p, s) c =
     or_else (K (p, s) c)
       (run a (\<lambda>(p', s') c'. if length s' < length s then run (RLazy a) K (p', s') c' else None)
          (p, s) (reset (groups a) c))"
| "run (RCap n a) K (p, s) c =
     run a (\<lambda>(p', s') c'. K (p', s') (c'(n \<mapsto> take (length s - length s') s))) (p, s) c"
| "run RBos K (p, s) c = (if p = [] then K (p, s) c else None)"
| "run REos K (p, s) c = (if s = [] then K (p, s) c else None)"
| "run RWordB K q c = (if word_boundary q then K q c else None)"
| "run (RAhead fs) K (p, s) c = (if units_match fs s then K (p, s) c else None)"
| "run (RBehind f) K (p, s) c = (case p of [] \<Rightarrow> None | x # p' \<Rightarrow> if f x then K (p, s) c else None)"
  by pat_completeness auto
termination
  by (relation "measures [\<lambda>(r, K, q, c). size r, \<lambda>(r, K, q, c). length (snd q)]") auto

subsection \<open>Abbreviated patterns\<close>

definition rseq :: "rx list \<Rightarrow> rx" where
  "rseq rs = foldr RSeq rs REps"

definition rlit :: "jstr \<Rightarrow> rx" where
  "rlit w = foldr (\<lambda>x r. RSeq (RChr (\<lambda>y. y = x)) r) w REps"

definition rlit_i :: "jstr \<Rightarrow> rx" where
  "rlit_i w = foldr (\<lambda>x r. RSeq (RChr (\<lambda>y. upper_unit y = upper_unit x)) r) w REps"

definition ropt :: "rx \<Rightarrow> rx" where
  "ropt r = RAlt r REps"

definition rplus :: "rx \<Rightarrow> rx" where
  "rplus r = RSeq r (RStar r)"

fun ralt :: "rx list \<Rightarrow> rx" where
  "ralt [] = REps"
| "ralt [r] = r"
| "ralt (r # rs) = RAlt r (ralt rs)"

definition r_ws :: rx where "r_ws = RChr is_ws"
definition r_any :: rx where "r_any = RChr (\<lambda>x. True)"
definition r_dot :: rx where "r_dot = RChr (\<lambda>x. \<not> is_line_end x)"

lemmas rx_defs = rseq_def rlit_i_def ropt_def rplus_def r_ws_def r_any_def r_dot_def

subsection \<open>The operations of \<open>RegExp\<close> and \<open>String.prototype\<close>\<close>

definition rx_at :: "rx \<Rightarrow> pos \<Rightarrow> (pos \<times> caps) option" where
  "rx_at r q = run r (\<lambda>q' c. Some (q', c)) q (\<lambda>n. None)"

text \<open>The leftmost match at or after a position: where it starts, where it ends, its captures.\<close>

fun rx_search :: "rx \<Rightarrow> jstr \<Rightarrow> jstr \<Rightarrow> (pos \<times> pos \<times> caps) option" where
  "rx_search r p [] = map_option (Pair (p, [])) (rx_at r (p, []))"
| "rx_search r p (x # s) =
     or_else (map_option (Pair (p, x # s)) (rx_at r (p, x # s))) (rx_search r (x # p) s)"

definition rx_exec :: "rx \<Rightarrow> jstr \<Rightarrow> (pos \<times> pos \<times> caps) option" where
  "rx_exec r s = rx_search r [] s"

definition rx_test :: "rx \<Rightarrow> jstr \<Rightarrow> bool" where
  "rx_test r s = (rx_exec r s \<noteq> None)"

text \<open>\<open>s.match(r)\<close> without the flag \<open>g\<close>: the captures, the whole match as group 0.\<close>

definition rx_match :: "rx \<Rightarrow> jstr \<Rightarrow> caps option" where
  "rx_match r s = map_option (\<lambda>((p, t), (q, u), c). c(0 \<mapsto> take (length t - length u) t)) (rx_exec r s)"

definition rx_replace :: "rx \<Rightarrow> (jstr \<Rightarrow> caps \<Rightarrow> jstr) \<Rightarrow> jstr \<Rightarrow> jstr" where
  "rx_replace r f s = (case rx_exec r s of
     None \<Rightarrow> s
   | Some ((p, t), (q, u), c) \<Rightarrow> rev p @ f (take (length t - length u) t) c @ u)"

text \<open>\<open>s.replace(r, f)\<close> with the flag \<open>g\<close>; after an empty match the next unit is copied.\<close>

function rx_gsub :: "rx \<Rightarrow> (jstr \<Rightarrow> caps \<Rightarrow> jstr) \<Rightarrow> jstr \<Rightarrow> jstr \<Rightarrow> jstr" where
  "rx_gsub r f p s =
     (let skip = (case s of [] \<Rightarrow> [] | x # t \<Rightarrow> x # rx_gsub r f (x # p) t) in
      case rx_at r (p, s) of
        None \<Rightarrow> skip
      | Some ((q, u), c) \<Rightarrow>
          f (take (length s - length u) s) c @
          (if length u < length s then rx_gsub r f q u else skip))"
  by pat_completeness auto
termination
  by (relation "measure (\<lambda>(r, f, p, s). length s)") auto

declare rx_gsub.simps [simp del]

definition rx_replace_all :: "rx \<Rightarrow> (jstr \<Rightarrow> caps \<Rightarrow> jstr) \<Rightarrow> jstr \<Rightarrow> jstr" where
  "rx_replace_all r f s = rx_gsub r f [] s"

text \<open>
  \<open>s.split(r)\<close> for a non-empty \<open>s\<close>: \<open>acc\<close> is the current piece, reversed; the captures
  \<open>1..n\<close> of each separator go between the pieces (\<open>None\<close> is \<open>undefined\<close>).
\<close>

function rx_split_go :: "rx \<Rightarrow> nat \<Rightarrow> jstr \<Rightarrow> jstr \<Rightarrow> jstr \<Rightarrow> jstr option list" where
  "rx_split_go r n acc p s =
     (case s of
        [] \<Rightarrow> [Some (rev acc)]
      | x # t \<Rightarrow>
         (case rx_at r (p, s) of
            None \<Rightarrow> rx_split_go r n (x # acc) (x # p) t
          | Some ((q, u), c) \<Rightarrow>
              if length u < length s \<or> acc \<noteq> [] \<and> length u = length s
              then Some (rev acc) # map c [1..<Suc n] @ rx_split_go r n [] q u
              else rx_split_go r n (x # acc) (x # p) t))"
  by pat_completeness auto
termination
  by (relation "measures [\<lambda>(r, n, acc, p, s). length s, \<lambda>(r, n, acc, p, s). length acc]")
    auto

declare rx_split_go.simps [simp del]

definition rx_split :: "rx \<Rightarrow> nat \<Rightarrow> jstr \<Rightarrow> jstr option list" where
  "rx_split r n s =
     (if s = [] then (if rx_at r ([], []) = None then [Some []] else [])
      else rx_split_go r n [] [] s)"

subsection \<open>Matching lemmas\<close>

lemma run_seq_list [simp]:
  "run (rseq []) K = K"
  "run (rseq (r # rs)) K = run r (run (rseq rs) K)"
  by (intro ext, simp add: rseq_def)+

lemma run_opt [simp]: "run (ropt r) K q c = or_else (run r K q c) (K q c)"
  by (simp add: ropt_def)

lemma run_plus [simp]: "run (rplus r) K q c = run r (run (RStar r) K) q c"
  by (simp add: rplus_def)

lemma run_lit [simp]:
  "run (rlit w) K (p, s) c =
     (if starts_with s w then K (rev w @ p, drop (length w) s) c else None)"
proof (induction w arbitrary: p s)
  case (Cons x w)
  have "run (rlit (x # w)) K (p, s) c = run (RChr (\<lambda>y. y = x)) (run (rlit w) K) (p, s) c"
    by (simp add: rlit_def)
  with Cons show ?case by (cases s) auto
qed (simp add: rlit_def)

lemma run_lit_i [simp]:
  "run (rlit_i w) K (p, s) c =
     (if starts_with (map upper_unit s) (map upper_unit w)
      then K (rev (take (length w) s) @ p, drop (length w) s) c else None)"
proof (induction w arbitrary: p s)
  case (Cons x w)
  have "run (rlit_i (x # w)) K (p, s) c =
    run (RChr (\<lambda>y. upper_unit y = upper_unit x)) (run (rlit_i w) K) (p, s) c"
    by (simp add: rlit_i_def)
  with Cons show ?case by (cases s) auto
qed (simp add: rlit_i_def)

text \<open>Quantified classes.\<close>

lemma run_star_class [simp]:
  "run (RStar (RChr f)) K (p, []) c = K (p, []) c"
  "run (RStar (RChr f)) K (p, x # s) c =
     (if f x then or_else (run (RStar (RChr f)) K (x # p, s) c) (K (p, x # s) c)
      else K (p, x # s) c)"
  by (subst run.simps, simp)+

lemma run_lazy_class [simp]:
  "run (RLazy (RChr f)) K (p, []) c = K (p, []) c"
  "run (RLazy (RChr f)) K (p, x # s) c =
     or_else (K (p, x # s) c)
       (if f x then run (RLazy (RChr f)) K (x # p, s) c else None)"
  by (subst run.simps, simp)+

declare run.simps(5,6) [simp del]

text \<open>
  A greedy class whose continuation cannot start at a unit of the class takes the longest
  run of the class and nothing less.
\<close>

lemma run_star_max:
  assumes "\<forall>x \<in> set w. f x" "t = [] \<or> \<not> f (hd t)"
    and "\<And>p' x s' c'. f x \<Longrightarrow> K (p', x # s') c' = None"
  shows "run (RStar (RChr f)) K (p, w @ t) c = K (rev w @ p, t) c"
  using assms
proof (induction w arbitrary: p)
  case Nil
  then show ?case by (cases t) auto
next
  case (Cons x w)
  then show ?case by simp
qed

lemma run_star_None:
  assumes "\<And>u v. s = u @ v \<Longrightarrow> \<forall>x \<in> set u. f x \<Longrightarrow> K (rev u @ p, v) c = None"
  shows "run (RStar (RChr f)) K (p, s) c = None"
  using assms
proof (induction s arbitrary: p)
  case Nil
  then show ?case using Nil [of "[]" "[]"] by simp
next
  case (Cons x s)
  have "K (p, x # s) c = None" using Cons.prems [of "[]" "x # s"] by simp
  moreover have "run (RStar (RChr f)) K (x # p, s) c = None" if "f x"
  proof (rule Cons.IH)
    fix u v assume "s = u @ v" "\<forall>x \<in> set u. f x"
    then show "K (rev u @ x # p, v) c = None"
      using Cons.prems [of "x # u" v] that by simp
  qed
  ultimately show ?case by simp
qed

text \<open>A lazy class takes the shortest run after which the continuation succeeds.\<close>

lemma run_lazy_first:
  assumes "\<forall>x \<in> set w. f x"
    and "\<And>u v. w = u @ v \<Longrightarrow> v \<noteq> [] \<Longrightarrow> K (rev u @ p, v @ t) c = None"
    and "K (rev w @ p, t) c = Some y"
  shows "run (RLazy (RChr f)) K (p, w @ t) c = Some y"
  using assms
proof (induction w arbitrary: p)
  case Nil
  then show ?case by (cases t) auto
next
  case (Cons x w)
  have "K (p, x # w @ t) c = None" using Cons.prems(2) [of "[]" "x # w"] by simp
  moreover have "run (RLazy (RChr f)) K (x # p, w @ t) c = Some y"
  proof (rule Cons.IH)
    fix u v assume "w = u @ v" "v \<noteq> []"
    then show "K (rev u @ x # p, v @ t) c = None"
      using Cons.prems(2) [of "x # u" v] by simp
  qed (use Cons.prems in simp_all)
  ultimately show ?case using Cons.prems by simp
qed

lemma run_lazy_None:
  assumes "\<And>u v. s = u @ v \<Longrightarrow> \<forall>x \<in> set u. f x \<Longrightarrow> K (rev u @ p, v) c = None"
  shows "run (RLazy (RChr f)) K (p, s) c = None"
  using assms
proof (induction s arbitrary: p)
  case Nil
  then show ?case using Nil [of "[]" "[]"] by simp
next
  case (Cons x s)
  have "K (p, x # s) c = None" using Cons.prems [of "[]" "x # s"] by simp
  moreover have "run (RLazy (RChr f)) K (x # p, s) c = None" if "f x"
  proof (rule Cons.IH)
    fix u v assume "s = u @ v" "\<forall>x \<in> set u. f x"
    then show "K (rev u @ x # p, v) c = None"
      using Cons.prems [of "x # u" v] that by simp
  qed
  ultimately show ?case by simp
qed

text \<open>A greedy class followed by a continuation that accepts its longest run.\<close>

lemma run_star_first:
  assumes "\<forall>x \<in> set w. f x" "t = [] \<or> \<not> f (hd t)" "K (rev w @ p, t) c = Some y"
  shows "run (RStar (RChr f)) K (p, w @ t) c = Some y"
  using assms
proof (induction w arbitrary: p)
  case Nil
  then show ?case by (cases t) auto
qed simp

lemma run_plus_max:
  assumes "w \<noteq> []" "\<forall>x \<in> set w. f x" "t = [] \<or> \<not> f (hd t)"
    and "\<And>p' x s' c'. f x \<Longrightarrow> K (p', x # s') c' = None"
  shows "run (rplus (RChr f)) K (p, w @ t) c = K (rev w @ p, t) c"
proof -
  obtain a v where w: "w = a # v" using assms(1) by (cases w) auto
  have "run (RStar (RChr f)) K (a # p, v @ t) c = K (rev v @ a # p, t) c"
    by (rule run_star_max) (use assms w in auto)
  then show ?thesis using assms(2) w by simp
qed

lemma run_plus_first:
  assumes "w \<noteq> []" "\<forall>x \<in> set w. f x" "t = [] \<or> \<not> f (hd t)" "K (rev w @ p, t) c = Some y"
  shows "run (rplus (RChr f)) K (p, w @ t) c = Some y"
  using assms by (cases w) (auto intro: run_star_first)

lemma run_plus_None:
  assumes "\<And>u v. s = u @ v \<Longrightarrow> u \<noteq> [] \<Longrightarrow> \<forall>x \<in> set u. f x \<Longrightarrow> K (rev u @ p, v) c = None"
  shows "run (rplus (RChr f)) K (p, s) c = None"
proof (cases s)
  case (Cons x t)
  show ?thesis
  proof (cases "f x")
    case True
    have "run (RStar (RChr f)) K (x # p, t) c = None"
    proof (rule run_star_None)
      fix u v assume "t = u @ v" "\<forall>x \<in> set u. f x"
      then show "K (rev u @ x # p, v) c = None"
        using assms [of "x # u" v] True Cons by simp
    qed
    with True Cons show ?thesis by simp
  qed (simp add: Cons)
qed simp

lemma run_cap_plus_max:
  assumes "w \<noteq> []" "\<forall>x \<in> set w. f x" "t = [] \<or> \<not> f (hd t)"
    and "\<And>p' x s' c'. f x \<Longrightarrow> K (p', x # s') c' = None"
  shows "run (RCap n (rplus (RChr f))) K (p, w @ t) c = K (rev w @ p, t) (c(n \<mapsto> w))"
proof -
  have "run (rplus (RChr f))
      (\<lambda>(p', s') c'. K (p', s') (c'(n \<mapsto> take (length (w @ t) - length s') (w @ t)))) (p, w @ t) c =
      (\<lambda>(p', s') c'. K (p', s') (c'(n \<mapsto> take (length (w @ t) - length s') (w @ t)))) (rev w @ p, t) c"
    by (rule run_plus_max) (use assms in auto)
  then show ?thesis by simp
qed

lemma run_cap_plus_None:
  assumes "\<And>u v c'. s = u @ v \<Longrightarrow> u \<noteq> [] \<Longrightarrow> \<forall>x \<in> set u. f x \<Longrightarrow> K (rev u @ p, v) c' = None"
  shows "run (RCap n (rplus (RChr f))) K (p, s) c = None"
proof -
  have "run (rplus (RChr f))
      (\<lambda>(p', s') c'. K (p', s') (c'(n \<mapsto> take (length s - length s') s))) (p, s) c = None"
    by (rule run_plus_None) (use assms in auto)
  then show ?thesis by (simp only: run.simps)
qed

text \<open>A captured greedy class takes the longest prefix its continuation accepts.\<close>

lemma run_star_longest:
  assumes "\<forall>x \<in> set w. f x" "K (rev w @ p, t) c = Some y"
    and "\<And>u v. t = u @ v \<Longrightarrow> u \<noteq> [] \<Longrightarrow> \<forall>x \<in> set u. f x \<Longrightarrow> K (rev u @ rev w @ p, v) c = None"
  shows "run (RStar (RChr f)) K (p, w @ t) c = Some y"
  using assms
proof (induction w arbitrary: p)
  case Nil
  show ?case
  proof (cases t)
    case (Cons x t')
    have "run (RStar (RChr f)) K (x # p, t') c = None" if "f x"
      by (rule run_star_None) (use Nil(3) [of "x # u" v for u v] Cons that in auto)
    with Nil Cons show ?thesis by simp
  qed (use Nil in simp)
qed simp

lemma run_cap_plus_longest:
  assumes "w \<noteq> []" "\<forall>x \<in> set w. f x" "K (rev w @ p, t) (c(n \<mapsto> w)) = Some y"
    and "\<And>u v c'. t = u @ v \<Longrightarrow> u \<noteq> [] \<Longrightarrow> \<forall>x \<in> set u. f x \<Longrightarrow> K (rev u @ rev w @ p, v) c' = None"
  shows "run (RCap n (rplus (RChr f))) K (p, w @ t) c = Some y"
proof -
  obtain a v where w: "w = a # v" using assms(1) by (cases w) auto
  have "run (RStar (RChr f))
      (\<lambda>(p', s') c'. K (p', s') (c'(n \<mapsto> take (length (w @ t) - length s') (w @ t)))) (a # p, v @ t) c = Some y"
    by (rule run_star_longest) (use assms w in auto)
  then show ?thesis using assms(2) w by simp
qed

text \<open>A final greedy class always matches, and leaves the captures alone.\<close>

lemma run_star_end:
  "run (RStar (RChr f)) (\<lambda>q c. Some (q, c)) (p, s) c =
     Some ((rev (takeWhile f s) @ p, dropWhile f s), c)"
  by (induction s arbitrary: p) auto

text \<open>Global replacement of one class, and of the longest runs of a class by one unit.\<close>

lemma gsub_class:
  "rx_gsub (RChr P) (\<lambda>m c. g m) p s = concat (map (\<lambda>x. if P x then g [x] else [x]) s)"
proof (induction s arbitrary: p)
  case Nil
  show ?case by (subst rx_gsub.simps) (simp add: rx_at_def)
next
  case (Cons x s)
  then show ?case by (subst rx_gsub.simps) (simp add: rx_at_def)
qed

fun squeeze :: "(jchar \<Rightarrow> bool) \<Rightarrow> jchar \<Rightarrow> jstr \<Rightarrow> jstr" where
  "squeeze f d [] = []"
| "squeeze f d (x # s) =
     (if f x then (if s \<noteq> [] \<and> f (hd s) then squeeze f d s else d # squeeze f d s) else x # squeeze f d s)"

lemma squeeze_run: "w \<noteq> [] \<Longrightarrow> \<forall>x \<in> set w. f x \<Longrightarrow> t = [] \<or> \<not> f (hd t) \<Longrightarrow> squeeze f d (w @ t) = d # squeeze f d t"
proof (induction w)
  case (Cons x w)
  then show ?case by (cases w) auto
qed simp

lemma gsub_plus_class: "rx_gsub (rplus (RChr f)) (\<lambda>m c. [d]) p s = squeeze f d s"
proof (induction "length s" arbitrary: p s rule: less_induct)
  case less
  show ?case
  proof (cases s)
    case Nil
    then show ?thesis by (subst rx_gsub.simps) (simp add: rx_at_def)
  next
    case (Cons x t)
    show ?thesis
    proof (cases "f x")
      case False
      then show ?thesis using Cons less [of t] by (subst rx_gsub.simps) (simp add: rx_at_def)
    next
      case True
      let ?w = "takeWhile f s" and ?u = "dropWhile f s"
      have "length (dropWhile f t) \<le> length t" by (rule length_dropWhile_le)
      then have w: "?w \<noteq> []" "\<forall>y \<in> set ?w. f y" "?u = [] \<or> \<not> f (hd ?u)" "length ?u < length s"
        using True Cons by (simp, blast dest: set_takeWhileD, metis hd_dropWhile, simp)
      from run_plus_first [OF w(1-3), of "\<lambda>q c. Some (q, c)" p "\<lambda>n. None"]
      have "rx_at (rplus (RChr f)) (p, s) = Some ((rev ?w @ p, ?u), \<lambda>n. None)"
        by (simp add: rx_at_def)
      then have "rx_gsub (rplus (RChr f)) (\<lambda>m c. [d]) p s = d # squeeze f d ?u"
        using w(4) less [of ?u] Cons by (subst rx_gsub.simps) (simp add: Let_def)
      also have "\<dots> = squeeze f d s" using squeeze_run [OF w(1-3), of d] by simp
      finally show ?thesis .
    qed
  qed
qed

text \<open>A literal at the end of a text.\<close>

lemma search_literal_end:
  "rx_search (RSeq (rlit w) REos) p (u @ w) = Some ((rev u @ p, w), (rev w @ rev u @ p, []), \<lambda>n. None)"
proof (induction u arbitrary: p)
  case Nil
  have "starts_with w w" by (simp add: starts_with_iff)
  then have "rx_at (RSeq (rlit w) REos) (p, w) = Some ((rev w @ p, []), \<lambda>n. None)"
    by (simp add: rx_at_def)
  then show ?case by (cases w) simp_all
next
  case (Cons x u)
  have "rx_at (RSeq (rlit w) REos) (p, x # u @ w) = None"
    by (simp add: rx_at_def)
  with Cons show ?case by simp
qed

lemma replace_literal_end: "rx_replace (RSeq (rlit w) REos) (\<lambda>m c. []) (u @ w) = u"
  by (simp add: rx_replace_def rx_exec_def search_literal_end)

text \<open>Anchored patterns are tried at the start only.\<close>

lemma rx_search_anchored: "p \<noteq> [] \<Longrightarrow> rx_search (rseq (RBos # rs)) p s = None"
  by (induction s arbitrary: p) (auto simp: rx_at_def)

lemma rx_exec_anchored:
  "rx_exec (rseq (RBos # rs)) s =
     map_option (Pair ([], s)) (run (rseq rs) (\<lambda>q c. Some (q, c)) ([], s) (\<lambda>n. None))"
  by (cases s) (auto simp: rx_exec_def rx_at_def rx_search_anchored)

lemma rx_match_anchored:
  "rx_match (rseq (RBos # rs)) s =
     map_option (\<lambda>((q, u), c). c(0 \<mapsto> take (length s - length u) s))
       (run (rseq rs) (\<lambda>q c. Some (q, c)) ([], s) (\<lambda>n. None))"
  by (simp add: rx_match_def rx_exec_anchored option.map_comp comp_def case_prod_unfold)

subsection \<open>Soundness of the matcher\<close>

text \<open>The words a pattern can consume, whatever surrounds them.\<close>

inductive consumes :: "rx \<Rightarrow> jstr \<Rightarrow> bool" where
  eps: "consumes REps []"
| chr: "f x \<Longrightarrow> consumes (RChr f) [x]"
| seq: "consumes a u \<Longrightarrow> consumes b v \<Longrightarrow> consumes (RSeq a b) (u @ v)"
| alt1: "consumes a u \<Longrightarrow> consumes (RAlt a b) u"
| alt2: "consumes b u \<Longrightarrow> consumes (RAlt a b) u"
| star_nil: "consumes (RStar a) []"
| star_step: "consumes a u \<Longrightarrow> consumes (RStar a) v \<Longrightarrow> consumes (RStar a) (u @ v)"
| lazy_nil: "consumes (RLazy a) []"
| lazy_step: "consumes a u \<Longrightarrow> consumes (RLazy a) v \<Longrightarrow> consumes (RLazy a) (u @ v)"
| cap: "consumes a u \<Longrightarrow> consumes (RCap n a) u"
| bos: "consumes RBos []"
| eos: "consumes REos []"
| wordb: "consumes RWordB []"
| ahead: "consumes (RAhead a) []"
| behind: "consumes (RBehind f) []"

inductive_cases consumes_elims:
  "consumes REps w" "consumes (RChr f) w" "consumes (RSeq a b) w" "consumes (RAlt a b) w"
  "consumes (RCap n a) w" "consumes RBos w" "consumes REos w"

lemma consumes_nothing:
  "K q c = Some y \<Longrightarrow> consumes r [] \<Longrightarrow>
     \<exists>w t c'. snd q = w @ t \<and> consumes r w \<and> K (rev w @ fst q, t) c' = Some y"
  by (intro exI [of _ "[]"] exI [of _ "snd q"] exI [of _ c]) simp

text \<open>
  Whatever \<open>run\<close> returns, it got it from the continuation, at a position reached by
  consuming a word of the pattern.
\<close>

lemma run_sound:
  "run r K q c = Some y \<Longrightarrow>
     \<exists>w t c'. snd q = w @ t \<and> consumes r w \<and> K (rev w @ fst q, t) c' = Some y"
proof (induction r K q c rule: run.induct)
  case (1 K q c)
  then have "K q c = Some y" by simp
  then show ?case by (rule consumes_nothing [of K q c y]) (rule consumes.intros)
next
  case (2 f K p s c)
  then obtain x t where "s = x # t" "f x" "K (x # p, t) c = Some y"
    by (auto split: list.splits if_splits)
  then show ?case by (intro exI [of _ "[x]"] exI [of _ t] exI [of _ c]) (auto intro: consumes.intros)
next
  case (3 a b K q c)
  from "3.prems" have "run a (\<lambda>q' c'. run b K q' c') q c = Some y" by simp
  from "3.IH"(2) [OF this] obtain u t1 c1
    where 1: "snd q = u @ t1" "consumes a u" "run b K (rev u @ fst q, t1) c1 = Some y" by auto
  from "3.IH"(1) [OF 1(3)] obtain v t c'
    where 2: "t1 = v @ t" "consumes b v" "K (rev v @ rev u @ fst q, t) c' = Some y" by auto
  show ?case
    by (intro exI [of _ "u @ v"] exI [of _ t] exI [of _ c']) (use 1 2 in \<open>auto intro: consumes.seq\<close>)
next
  case (4 a b K q c)
  from "4.prems" consider "run a K q c = Some y" | "run a K q c = None" "run b K q c = Some y"
    by (auto simp: or_else_eq_Some)
  then obtain w t c' where "snd q = w @ t" "consumes a w \<or> consumes b w"
    "K (rev w @ fst q, t) c' = Some y"
  proof cases
    case 1
    from "4.IH"(1) [OF this] show ?thesis using that by auto
  next
    case 2
    from "4.IH"(2) [OF this] show ?thesis using that by auto
  qed
  then show ?case
    by (intro exI [of _ w] exI [of _ t] exI [of _ c']) (auto intro: consumes.alt1 consumes.alt2)
next
  case (5 a K p s c)
  let ?k = "\<lambda>(p', s') c'. if length s' < length s then run (RStar a) K (p', s') c' else None"
  from "5.prems" have "or_else (run a ?k (p, s) (reset (groups a) c)) (K (p, s) c) = Some y"
    by (subst (asm) run.simps(5))
  then consider "run a ?k (p, s) (reset (groups a) c) = Some y" | "K (p, s) c = Some y"
    by (auto simp: or_else_eq_Some)
  then show ?case
  proof cases
    case 1
    from "5.IH"(2) [OF this] obtain u t1 c1 where u: "s = u @ t1" "consumes a u"
      "length t1 < length s" "run (RStar a) K (rev u @ p, t1) c1 = Some y"
      by (auto split: if_splits)
    from "5.IH"(1) [OF u(3,4)] obtain v t c' where
      "t1 = v @ t" "consumes (RStar a) v" "K (rev v @ rev u @ p, t) c' = Some y" by auto
    then show ?thesis
      by (intro exI [of _ "u @ v"] exI [of _ t] exI [of _ c']) (use u in \<open>auto intro: consumes.star_step\<close>)
  next
    case 2
    then show ?thesis by (rule consumes_nothing [of K "(p, s)" c y]) (rule consumes.intros)
  qed
next
  case (6 a K p s c)
  let ?k = "\<lambda>(p', s') c'. if length s' < length s then run (RLazy a) K (p', s') c' else None"
  from "6.prems" have "or_else (K (p, s) c) (run a ?k (p, s) (reset (groups a) c)) = Some y"
    by (subst (asm) run.simps(6))
  then consider "K (p, s) c = None" "run a ?k (p, s) (reset (groups a) c) = Some y" | "K (p, s) c = Some y"
    by (auto simp: or_else_eq_Some)
  then show ?case
  proof cases
    case 1
    from "6.IH"(2) [OF this] obtain u t1 c1 where u: "s = u @ t1" "consumes a u"
      "length t1 < length s" "run (RLazy a) K (rev u @ p, t1) c1 = Some y"
      by (auto split: if_splits)
    from "6.IH"(1) [OF 1(1) u(3,4)] obtain v t c' where
      "t1 = v @ t" "consumes (RLazy a) v" "K (rev v @ rev u @ p, t) c' = Some y" by auto
    then show ?thesis
      by (intro exI [of _ "u @ v"] exI [of _ t] exI [of _ c']) (use u in \<open>auto intro: consumes.lazy_step\<close>)
  next
    case 2
    then show ?thesis by (rule consumes_nothing [of K "(p, s)" c y]) (rule consumes.intros)
  qed
next
  case (7 n a K p s c)
  from "7.IH" [OF "7.prems" [unfolded run.simps]] show ?case
    by (auto intro: consumes.cap)
next
  case (8 K p s c)
  then have "K (p, s) c = Some y" by (simp split: if_splits list.splits)
  then show ?case by (rule consumes_nothing [of K "(p, s)" c y]) (rule consumes.intros)
next
  case (9 K p s c)
  then have "K (p, s) c = Some y" by (simp split: if_splits list.splits)
  then show ?case by (rule consumes_nothing [of K "(p, s)" c y]) (rule consumes.intros)
next
  case (10 K q c)
  then have "K q c = Some y" by (simp split: if_splits list.splits)
  then show ?case by (rule consumes_nothing [of K q c y]) (rule consumes.intros)
next
  case (11 fs K p s c)
  then have "K (p, s) c = Some y" by (simp split: if_splits list.splits)
  then show ?case by (rule consumes_nothing [of K "(p, s)" c y]) (rule consumes.intros)
next
  case (12 f K p s c)
  then have "K (p, s) c = Some y" by (simp split: if_splits list.splits)
  then show ?case by (rule consumes_nothing [of K "(p, s)" c y]) (rule consumes.intros)
qed

text \<open>The position a match ends at is a later position of the same text.\<close>

lemma rx_at_sound:
  "rx_at r (p, s) = Some ((q, u), c) \<Longrightarrow> \<exists>w. s = w @ u \<and> q = rev w @ p \<and> consumes r w"
  using run_sound [of r "\<lambda>q c. Some (q, c)" "(p, s)" "\<lambda>n. None" "((q, u), c)"]
  by (auto simp: rx_at_def)

lemma rx_at_length: "rx_at r (p, s) = Some ((q, u), c) \<Longrightarrow> length u \<le> length s"
  using rx_at_sound by fastforce

end
