(* ===== verification/MermaidNode.thy ===== *)
theory MermaidNode
  imports MermaidTypes JsRegex
begin

text \<open>
  The node level of \<open>components/mermaid/parser.ts\<close>: cleaning of the raw text
  (\<open>sanitizeMermaidText\<close>), style strings (\<open>parseStyleDef\<close>), labels (\<open>cleanLabel\<close>) and node
  tokens (\<open>extractNodeDetails\<close>).
\<close>

definition id_ch :: "jchar \<Rightarrow> bool" where
  "id_ch c = (is_alnum c \<or> c = 95 \<or> c = 46 \<or> c = 45)"

definition class_ch :: "jchar \<Rightarrow> bool" where
  "class_ch c = (is_alnum c \<or> c = 95 \<or> c = 45)"

text \<open>Group \<open>n\<close> of a match; every group read by the source takes part in its match or is
  tested first.\<close>

definition cap :: "caps \<Rightarrow> nat \<Rightarrow> jstr" where
  "cap c n = (case c n of None \<Rightarrow> [] | Some s \<Rightarrow> s)"

subsection \<open>\<open>sanitizeMermaidText\<close>\<close>

definition fence_open_rx :: rx where
  "fence_open_rx = rseq [RBos, rlit (js ''```''), RStar r_ws, rlit_i (js ''mermaid''), RStar r_ws]"

definition fence_close_rx :: rx where
  "fence_close_rx = rseq [rlit (js ''```''), RStar r_ws, REos]"

definition mermaid_line_rx :: rx where
  "mermaid_line_rx = rseq [RBos, rlit (js ''mermaid''), ropt (RChr (\<lambda>c. c = 13)), RChr (\<lambda>c. c = 10)]"

definition strip_fences :: "jstr \<Rightarrow> jstr" where
  "strip_fences code =
     (let cleaned = js_trim code;
          cleaned = js_trim (rx_replace fence_close_rx (\<lambda>_ _. [])
                      (rx_replace fence_open_rx (\<lambda>_ _. []) cleaned))
      in if starts_with cleaned (js ''mermaid'' @ [10]) \<or> starts_with cleaned (js ''mermaid'' @ [13, 10])
         then js_trim (rx_replace mermaid_line_rx (\<lambda>_ _. []) cleaned)
         else cleaned)"

definition normalize_units :: "jstr \<Rightarrow> jstr" where
  "normalize_units s =
     rx_replace_all (RChr (\<lambda>c. c = 0xA0)) (\<lambda>_ _. [32])
       (rx_replace_all (RChr (\<lambda>c. c = 0x201C \<or> c = 0x201D)) (\<lambda>_ _. [34])
         (rx_replace_all (RChr (\<lambda>c. c = 0x2018 \<or> c = 0x2019)) (\<lambda>_ _. [39])
           (rx_replace_all (RChr (\<lambda>c. 0x2010 \<le> c \<and> c \<le> 0x2015)) (\<lambda>_ _. [45]) s)))"

definition decode_entities :: "jstr \<Rightarrow> jstr" where
  "decode_entities s =
     rx_replace_all (rlit (js ''&quot;'')) (\<lambda>_ _. [34])
       (rx_replace_all (rlit (js ''&amp;'')) (\<lambda>_ _. js ''&'')
         (rx_replace_all (rlit (js ''&lt;'')) (\<lambda>_ _. js ''<'')
           (rx_replace_all (rlit (js ''&gt;'')) (\<lambda>_ _. js ''>'') s)))"

definition sanitizeMermaidText :: "jstr \<Rightarrow> jstr" where
  "sanitizeMermaidText code = decode_entities (normalize_units (strip_fences code))"

subsection \<open>\<open>parseStyleDef\<close>\<close>

definition split_class :: "(jchar \<Rightarrow> bool) \<Rightarrow> jstr \<Rightarrow> jstr list" where
  "split_class f s = map (\<lambda>x. case x of None \<Rightarrow> [] | Some w \<Rightarrow> w) (rx_split (RChr f) 0 s)"

definition style_pair :: "style_def \<Rightarrow> jstr \<Rightarrow> style_def" where
  "style_pair st pair =
     (case map js_trim (split_char 58 pair) of
        key # val # _ \<Rightarrow>
          if key = [] \<or> val = [] then st
          else let k = to_lower key in
            if k = js ''fill'' \<or> k = js ''background'' then st\<lparr>fill := Some val\<rparr>
            else if k = js ''stroke'' then st\<lparr>stroke := Some val\<rparr>
            else if k = js ''stroke-width'' then st\<lparr>strokeWidth := Some val\<rparr>
            else if k = js ''color'' then st\<lparr>color := Some val\<rparr>
            else if k = js ''border-radius'' \<or> k = js ''rx'' then st\<lparr>borderRadius := Some val\<rparr>
            else st
      | _ \<Rightarrow> st)"

definition parseStyleDef :: "jstr \<Rightarrow> style_def" where
  "parseStyleDef styleStr =
     foldl style_pair empty_style (split_class (\<lambda>c. c = 44 \<or> c = 59) styleStr)"

subsection \<open>\<open>cleanLabel\<close>\<close>

definition cleanLabel :: "jstr \<Rightarrow> jstr" where
  "cleanLabel raw =
     (let label = js_trim raw in
      if starts_with label [34] \<and> ends_with label [34] \<or> starts_with label [39] \<and> ends_with label [39]
      then slice_inner label else label)"

subsection \<open>\<open>extractNodeDetails\<close>\<close>

record node_details =
  d_id :: jstr
  d_label :: "jstr option"
  d_shape :: "node_shape option"
  d_className :: "jstr option"

definition class_suffix_rx :: rx where
  "class_suffix_rx = rseq [RBos, RCap 1 (RLazy r_dot), rlit (js '':::''), RCap 2 (rplus (RChr class_ch)), REos]"

text \<open>The patterns of the nine shapes, in the order the source tries them: all are
  \<open>^([A-Za-z0-9_.-]+)OPEN\s*([\s\S]*?)\s*CLOSE$\<close>.\<close>

definition shape_rx :: "jstr \<Rightarrow> jstr \<Rightarrow> rx" where
  "shape_rx opn cls = rseq [RBos, RCap 1 (rplus (RChr id_ch)), rlit opn, RStar r_ws,
     RCap 2 (RLazy r_any), RStar r_ws, rlit cls, REos]"

definition shape_table :: "(node_shape \<times> jstr \<times> jstr) list" where
  "shape_table =
    [(Stadium, js ''(['', js ''])''),
     (Subroutine, js ''[['', js '']]''),
     (Cylinder, js ''[('', js '')]''),
     (Circle, js ''(('', js ''))''),
     (Hexagon, js ''{{'', js ''}}''),
     (Diamond, js ''{'', js ''}''),
     (Asymmetric, js ''>'', js '']''),
     (Round, js ''('', js '')''),
     (Rectangle, js ''['', js '']'')]"

fun try_shapes :: "(node_shape \<times> jstr \<times> jstr) list \<Rightarrow> jstr \<Rightarrow> jstr option \<Rightarrow> node_details" where
  "try_shapes [] token className =
     \<lparr>d_id = token, d_label = None, d_shape = Some Rectangle, d_className = className\<rparr>"
| "try_shapes ((sh, opn, cls) # rest) token className =
     (case rx_match (shape_rx opn cls) token of
        Some c \<Rightarrow> \<lparr>d_id = cap c 1, d_label = Some (cleanLabel (cap c 2)), d_shape = Some sh,
                    d_className = className\<rparr>
      | None \<Rightarrow> try_shapes rest token className)"

definition split_class_suffix :: "jstr \<Rightarrow> jstr \<times> jstr option" where
  "split_class_suffix token =
     (case rx_match class_suffix_rx token of
        Some c \<Rightarrow> (js_trim (cap c 1), c 2)
      | None \<Rightarrow> (token, None))"

definition extractNodeDetails :: "jstr \<Rightarrow> node_details" where
  "extractNodeDetails rawToken =
     (case split_class_suffix (js_trim rawToken) of
        (token, className) \<Rightarrow> try_shapes shape_table token className)"

subsection \<open>What the shape patterns match\<close>

lemma id_ch_not_ws: "id_ch c \<Longrightarrow> \<not> is_ws c"
  by (auto simp: id_ch_def jchar_defs)

lemma id_ch_not_line_end: "id_ch c \<Longrightarrow> \<not> is_line_end c"
  by (auto simp: id_ch_def jchar_defs)

lemma class_ch_not_ws: "class_ch c \<Longrightarrow> \<not> is_ws c"
  by (auto simp: class_ch_def jchar_defs)

text \<open>The tail \<open>\s*CLOSE$\<close> accepts only white space before the closing bracket.\<close>

lemma run_close_None:
  assumes "\<not> (\<forall>c \<in> set z. is_ws c)"
  shows "run (rseq [RStar r_ws, rlit cls, REos]) K (p, z @ cls) c = None"
proof -
  have "run (RStar (RChr is_ws)) (run (rseq [rlit cls, REos]) K) (p, z @ cls) c = None"
  proof (rule run_star_None)
    fix u v assume "z @ cls = u @ v" "\<forall>x \<in> set u. is_ws x"
    then have "v \<noteq> cls" using assms by auto
    then show "run (rseq [rlit cls, REos]) K (rev u @ p, v) c = None"
      by (auto simp: starts_with_iff)
  qed
  then show ?thesis by (simp add: r_ws_def)
qed

lemma run_close_Some:
  assumes "\<forall>c \<in> set v. is_ws c" "cls \<noteq> []" "\<not> is_ws (hd cls)"
    and "K (rev cls @ rev v @ p, []) c = Some y"
  shows "run (rseq [RStar r_ws, rlit cls, REos]) K (p, v @ cls) c = Some y"
proof -
  have "run (RStar (RChr is_ws)) (run (rseq [rlit cls, REos]) K) (p, v @ cls) c = Some y"
    by (rule run_star_first) (use assms in \<open>auto simp: starts_with_iff\<close>)
  then show ?thesis by (simp add: r_ws_def)
qed

text \<open>The text between the brackets is captured without its surrounding white space.\<close>

lemma trim_split:
  obtains w v where "s = w @ js_trim s @ v" "\<forall>c \<in> set w. is_ws c" "\<forall>c \<in> set v. is_ws c"
    "js_trim s = [] \<longrightarrow> v = []"
proof -
  obtain v where v: "trim_start s = js_trim s @ v" "\<forall>c \<in> set v. is_ws c"
    using trim_end_decomp [of "trim_start s"] by (auto simp: js_trim_def)
  have s: "s = takeWhile is_ws s @ trim_start s" by (simp add: trim_start_def)
  have w: "\<forall>c \<in> set (takeWhile is_ws s). is_ws c" by (auto dest: set_takeWhileD)
  show ?thesis
  proof (cases "js_trim s = []")
    case True
    then have "\<forall>c \<in> set s. is_ws c" using s v w by (metis UnE append_Nil set_append)
    then show ?thesis using that [of s "[]"] True by simp
  next
    case False
    then show ?thesis using that [of "takeWhile is_ws s" v] s v w by simp
  qed
qed

lemma run_label:
  assumes "cls \<noteq> []" "\<not> is_ws (hd cls)"
  shows "run (rseq [RStar r_ws, RCap 2 (RLazy r_any), RStar r_ws, rlit cls, REos])
     (\<lambda>q c. Some (q, c)) (p, lbl @ cls) c =
     Some ((rev cls @ rev lbl @ p, []), c(2 \<mapsto> js_trim lbl))"
proof -
  obtain w v where lbl: "lbl = w @ js_trim lbl @ v" and w: "\<forall>c \<in> set w. is_ws c"
    and v: "\<forall>c \<in> set v. is_ws c" and vN: "js_trim lbl = [] \<longrightarrow> v = []"
    by (rule trim_split [of lbl])
  let ?m = "js_trim lbl" and ?q = "rev w @ p"
  let ?tail = "run (rseq [RStar r_ws, rlit cls, REos]) (\<lambda>q c. Some (q, c))"
  let ?y = "((rev cls @ rev lbl @ p, []), c(2 \<mapsto> ?m))"
  let ?s = "?m @ v @ cls"
  have lazy: "run (RLazy (RChr (\<lambda>x. True)))
      (\<lambda>(p', s') c'. ?tail (p', s') (c'(2 \<mapsto> take (length ?s - length s') ?s))) (?q, ?m @ v @ cls) c
      = Some ?y"
  proof (rule run_lazy_first)
    fix u u' assume u: "?m = u @ u'" "u' \<noteq> []"
    have "last ?m \<in> set (u' @ v)" using u by simp
    moreover have "\<not> is_ws (last ?m)"
      using js_trim_trimmed [of lbl] u by (simp add: trimmed_def)
    ultimately have "\<not> (\<forall>c \<in> set (u' @ v). is_ws c)" by blast
    from run_close_None [OF this] show
      "(\<lambda>(p', s') c'. ?tail (p', s') (c'(2 \<mapsto> take (length ?s - length s') ?s)))
         (rev u @ ?q, u' @ v @ cls) c = None" by simp
  next
    have "?tail (rev ?m @ ?q, v @ cls) (c(2 \<mapsto> ?m)) = Some ?y"
      by (rule run_close_Some) (use assms v arg_cong [OF lbl, of rev] in auto)
    then show "(\<lambda>(p', s') c'. ?tail (p', s') (c'(2 \<mapsto> take (length ?s - length s') ?s)))
         (rev ?m @ ?q, v @ cls) c = Some ?y" by simp
  qed simp
  have "run (RStar (RChr is_ws))
      (run (rseq [RCap 2 (RLazy r_any), RStar r_ws, rlit cls, REos]) (\<lambda>q c. Some (q, c)))
      (p, w @ ?m @ v @ cls) c = Some ?y"
  proof (rule run_star_first [OF w])
    show "?m @ v @ cls = [] \<or> \<not> is_ws (hd (?m @ v @ cls))"
      using js_trim_trimmed [of lbl] vN assms by (cases "?m = []") (auto simp: trimmed_def)
    show "run (rseq [RCap 2 (RLazy r_any), RStar r_ws, rlit cls, REos]) (\<lambda>q c. Some (q, c))
      (rev w @ p, ?m @ v @ cls) c = Some ?y"
      using lazy by (simp add: r_any_def)
  qed
  moreover have "lbl @ cls = w @ ?m @ v @ cls" using lbl by (metis append_assoc)
  ultimately have "run (RStar (RChr is_ws))
      (run (rseq [RCap 2 (RLazy r_any), RStar r_ws, rlit cls, REos]) (\<lambda>q c. Some (q, c)))
      (p, lbl @ cls) c = Some ?y" by metis
  then show ?thesis by (simp add: r_ws_def)
qed

lemma shape_match_Some:
  assumes i: "i \<noteq> []" "\<forall>c \<in> set i. id_ch c"
    and opn: "opn \<noteq> []" "\<not> id_ch (hd opn)"
    and cls: "cls \<noteq> []" "\<not> is_ws (hd cls)"
  shows "\<exists>c. rx_match (shape_rx opn cls) (i @ opn @ lbl @ cls) = Some c \<and>
     c 1 = Some i \<and> c 2 = Some (js_trim lbl)"
proof -
  let ?K = "run (rseq [rlit opn, RStar r_ws, RCap 2 (RLazy r_any), RStar r_ws, rlit cls, REos])
    (\<lambda>q c. Some (q, c))"
  have "run (RCap 1 (rplus (RChr id_ch))) ?K ([], i @ opn @ lbl @ cls) (\<lambda>n. None) =
    ?K (rev i @ [], opn @ lbl @ cls) ((\<lambda>n. None)(1 \<mapsto> i))"
  proof (rule run_cap_plus_max)
    show "?K (p', x # s') c' = None" if "id_ch x" for p' x s' c'
      using that opn by (cases opn) auto
  qed (use i opn in auto)
  also have "\<dots> = run (rseq [RStar r_ws, RCap 2 (RLazy r_any), RStar r_ws, rlit cls, REos])
      (\<lambda>q c. Some (q, c)) (rev opn @ rev i, lbl @ cls) ((\<lambda>n. None)(1 \<mapsto> i))"
    by simp
  also have "\<dots> = Some ((rev cls @ rev lbl @ rev opn @ rev i, []),
      (\<lambda>n. None)(1 \<mapsto> i, 2 \<mapsto> js_trim lbl))"
    by (simp only: run_label [OF cls])
  finally show ?thesis
    by (simp add: shape_rx_def rx_match_anchored)
qed

lemma shape_match_None:
  assumes t: "t = [] \<or> \<not> id_ch (hd t)" and opn: "opn \<noteq> []" "\<not> id_ch (hd opn)"
    and i: "i \<noteq> []" "\<forall>c \<in> set i. id_ch c" and no: "\<not> starts_with t opn"
  shows "rx_match (shape_rx opn cls) (i @ t) = None"
proof -
  let ?K = "run (rseq [rlit opn, RStar r_ws, RCap 2 (RLazy r_any), RStar r_ws, rlit cls, REos])
    (\<lambda>q c. Some (q, c))"
  have "run (RCap 1 (rplus (RChr id_ch))) ?K ([], i @ t) (\<lambda>n. None) =
    ?K (rev i @ [], t) ((\<lambda>n. None)(1 \<mapsto> i))"
  proof (rule run_cap_plus_max)
    show "?K (p', x # s') c' = None" if "id_ch x" for p' x s' c'
      using that opn by (cases opn) auto
  qed (use i t in auto)
  also have "\<dots> = None" using no by simp
  finally show ?thesis by (simp add: shape_rx_def rx_match_anchored)
qed

subsection \<open>Reading back a node token\<close>

definition class_suffix :: "jstr option \<Rightarrow> jstr" where
  "class_suffix cn = (case cn of None \<Rightarrow> [] | Some n \<Rightarrow> js '':::'' @ n)"

definition class_name_ok :: "jstr option \<Rightarrow> bool" where
  "class_name_ok cn = (case cn of None \<Rightarrow> True | Some n \<Rightarrow> n \<noteq> [] \<and> list_all class_ch n)"

lemma run_class_name:
  "n \<noteq> [] \<Longrightarrow> \<forall>c \<in> set n. class_ch c \<Longrightarrow>
   run (rseq [rlit (js '':::''), RCap 2 (rplus (RChr class_ch)), REos]) (\<lambda>q c. Some (q, c))
     (p, js '':::'' @ n) c = Some ((rev (js '':::'' @ n) @ p, []), c(2 \<mapsto> n))"
proof -
  assume n: "n \<noteq> []" "\<forall>c \<in> set n. class_ch c"
  have "run (rplus (RChr class_ch))
     (\<lambda>(p', s') c'. run REos (\<lambda>q c. Some (q, c)) (p', s') (c'(2 \<mapsto> take (length n - length s') n)))
     (rev (js '':::'') @ p, n @ []) c = Some ((rev n @ rev (js '':::'') @ p, []), c(2 \<mapsto> n))"
    by (rule run_plus_first) (use n in auto)
  then show ?thesis by (simp del: run_plus)
qed

lemma run_class_name_None:
  assumes "x \<in> set u" "\<not> class_ch x" "x \<noteq> 58" "last u = x"
  shows "run (rseq [rlit (js '':::''), RCap 2 (rplus (RChr class_ch)), REos]) (\<lambda>q c. Some (q, c))
     (p, u @ v) c = None"
proof (cases "starts_with (u @ v) (js '':::'')")
  case True
  then obtain t where t: "u @ v = js '':::'' @ t" by (auto simp: starts_with_iff)
  obtain u0 where u0: "u = u0 @ [x]"
    using assms by (metis append_butlast_last_id empty_iff list.set(1))
  have "x \<in> set t"
    using t assms u0 by (auto simp: append_eq_Cons_conv)
  have "run (RCap 2 (rplus (RChr class_ch))) (run REos (\<lambda>q c. Some (q, c)))
      (rev (js '':::'') @ p, t) c = None"
  proof (rule run_cap_plus_None)
    fix w z c' assume "t = w @ z" "\<forall>x \<in> set w. class_ch x"
    then have "z \<noteq> []" using \<open>x \<in> set t\<close> assms by auto
    then show "run REos (\<lambda>q c. Some (q, c)) (rev w @ rev (js '':::'') @ p, z) c' = None" by simp
  qed
  then show ?thesis using t by (simp del: run_plus run.simps(7))
qed simp

lemma split_class_suffix_plain:
  assumes "tok \<noteq> []" "\<not> class_ch (last tok)"
  shows "split_class_suffix tok = (tok, None)"
proof -
  have "run (rseq [RCap 1 (RLazy r_dot), rlit (js '':::''), RCap 2 (rplus (RChr class_ch)), REos])
     (\<lambda>q c. Some (q, c)) ([], tok) (\<lambda>n. None) = None"
  proof -
    have "run (RLazy (RChr (\<lambda>x. \<not> is_line_end x)))
       (\<lambda>(p', s') c'. run (rseq [rlit (js '':::''), RCap 2 (rplus (RChr class_ch)), REos])
          (\<lambda>q c. Some (q, c)) (p', s') (c'(1 \<mapsto> take (length tok - length s') tok)))
       ([], tok) (\<lambda>n. None) = None"
    proof (rule run_lazy_None)
      fix u v assume "tok = u @ v"
      have "run (RCap 2 (rplus (RChr class_ch))) (run REos (\<lambda>q c. Some (q, c)))
        (p, t) c = None" if "js '':::'' @ t = v" for t c and p :: jstr
      proof (rule run_cap_plus_None)
        fix w z c' assume t: "t = w @ z" "w \<noteq> []" "\<forall>x \<in> set w. class_ch x"
        have "z \<noteq> []" using assms t that \<open>tok = u @ v\<close> by fastforce
        then show "run REos (\<lambda>q c. Some (q, c)) (rev w @ p, z) c' = None" by simp
      qed
      then show "(\<lambda>(p', s') c'. run (rseq [rlit (js '':::''), RCap 2 (rplus (RChr class_ch)), REos])
          (\<lambda>q c. Some (q, c)) (p', s') (c'(1 \<mapsto> take (length tok - length s') tok)))
         (rev u @ [], v) (\<lambda>n. None) = None"
        by (auto simp: starts_with_iff simp del: run_plus run.simps(7))
    qed
    then show ?thesis by (simp add: r_dot_def del: run_plus)
  qed
  then show ?thesis
    by (simp add: split_class_suffix_def class_suffix_rx_def rx_match_anchored del: run_seq_list)
qed

lemma split_class_suffix_named:
  assumes tok: "tok \<noteq> []" "\<not> class_ch (last tok)" "last tok \<noteq> 58" "trimmed tok"
    "\<forall>c \<in> set tok. \<not> is_line_end c"
    and n: "n \<noteq> []" "\<forall>c \<in> set n. class_ch c"
  shows "split_class_suffix (tok @ js '':::'' @ n) = (tok, Some n)"
proof -
  let ?s = "tok @ js '':::'' @ n"
  let ?tail = "run (rseq [rlit (js '':::''), RCap 2 (rplus (RChr class_ch)), REos]) (\<lambda>q c. Some (q, c))"
  have "run (RLazy (RChr (\<lambda>x. \<not> is_line_end x)))
     (\<lambda>(p', s') c'. ?tail (p', s') (c'(1 \<mapsto> take (length ?s - length s') ?s)))
     ([], tok @ js '':::'' @ n) (\<lambda>n. None) =
     Some ((rev ?s, []), (\<lambda>n. None)(1 \<mapsto> tok, 2 \<mapsto> n))"
  proof (rule run_lazy_first)
    fix u v assume uv: "tok = u @ v" "v \<noteq> []"
    have "?tail (p, v @ js '':::'' @ n) c = None" for p c
      by (rule run_class_name_None [of "last v"]) (use uv tok in auto)
    then show "(\<lambda>(p', s') c'. ?tail (p', s') (c'(1 \<mapsto> take (length ?s - length s') ?s)))
       (rev u @ [], v @ js '':::'' @ n) (\<lambda>n. None) = None" by (simp del: run_seq_list)
  next
    show "(\<lambda>(p', s') c'. ?tail (p', s') (c'(1 \<mapsto> take (length ?s - length s') ?s)))
       (rev tok @ [], js '':::'' @ n) (\<lambda>n. None) =
       Some ((rev ?s, []), (\<lambda>n. None)(1 \<mapsto> tok, 2 \<mapsto> n))"
      using run_class_name [OF n] by (simp del: run_seq_list js_Cons)
  qed (use tok in auto)
  then have "rx_match class_suffix_rx ?s = Some ((\<lambda>n. None)(1 \<mapsto> tok, 2 \<mapsto> n, 0 \<mapsto> ?s))"
    by (simp add: r_dot_def class_suffix_rx_def rx_match_anchored del: run_plus)
  then show ?thesis using tok by (simp add: split_class_suffix_def cap_def)
qed

lemma try_shapes_skip:
  "\<forall>(sh, opn, cls) \<in> set pre. rx_match (shape_rx opn cls) tok = None \<Longrightarrow>
     try_shapes (pre @ rest) tok cn = try_shapes rest tok cn"
  by (induction pre) auto

text \<open>The opening bracket, with the first unit of the text behind it, is no other opening bracket.\<close>

definition opener_kept :: "jstr \<Rightarrow> jstr \<Rightarrow> bool" where
  "opener_kept opn lbl = (lbl = [] \<or> opn @ [hd lbl] \<notin> set (map (\<lambda>(sh, opn', cls). opn') shape_table))"

text \<open>So the token does not begin with an opener that comes earlier in the table.\<close>

lemma openers_compared:
  "list_all (\<lambda>k. case shape_table ! k of (sh, opn, cls) \<Rightarrow>
       opn @ [hd cls] \<notin> set (map (\<lambda>(sh, opn', cls). opn') shape_table) \<and>
       list_all (\<lambda>(sh', opn', cls'). \<not> starts_with opn opn' \<and>
         (starts_with opn' opn \<longrightarrow> length opn' = Suc (length opn))) (take k shape_table)) [0..<9]"
  by code_simp

lemma shape_table_no_earlier:
  assumes tab: "shape_table = pre @ (sh, opn, cls) # rest" "(sh', opn', cls') \<in> set pre"
    and kept: "opener_kept opn lbl" and cls: "cls \<noteq> []"
  shows "\<not> starts_with (opn @ lbl @ cls) opn'"
proof
  assume "starts_with (opn @ lbl @ cls) opn'"
  then obtain t where t: "opn @ lbl @ cls = opn' @ t" by (auto simp: starts_with_iff)
  have "length pre < 9" using arg_cong [OF tab(1), of length] by (simp add: shape_table_def)
  moreover have "shape_table ! length pre = (sh, opn, cls)" "take (length pre) shape_table = pre"
    unfolding tab(1) by simp_all
  ultimately have c: "opn @ [hd cls] \<notin> set (map (\<lambda>(sh, opn', cls). opn') shape_table)"
    "\<not> starts_with opn opn'" "starts_with opn' opn \<Longrightarrow> length opn' = Suc (length opn)"
    using openers_compared tab(2) by (force simp: list_all_iff)+
  obtain u where u: "opn' = opn @ u" "lbl @ cls = u @ t"
    using t c(2) by (auto simp: append_eq_append_conv2 starts_with_iff)
  then have "length u = 1" using c(3) by (simp add: starts_with_iff)
  then obtain y where y: "u = [y]" by (cases u) auto
  have "(sh', opn', cls') \<in> set shape_table" using tab(2) by (simp add: tab(1))
  then have "opn' \<in> set (map (\<lambda>(sh, opn', cls). opn') shape_table)" by force
  moreover have "y = (if lbl = [] then hd cls else hd lbl)" using u(2) y cls by (cases lbl) auto
  ultimately show False using u(1) y c(1) kept by (auto simp: opener_kept_def split: if_splits)
qed

lemma shape_table_brackets:
  "(sh, opn, cls) \<in> set shape_table \<Longrightarrow>
     opn \<noteq> [] \<and> \<not> id_ch (hd opn) \<and> cls \<noteq> [] \<and> \<not> is_ws (hd cls) \<and> \<not> class_ch (last cls) \<and>
     last cls \<noteq> 58 \<and> \<not> is_ws (last cls) \<and> (\<forall>c \<in> set (opn @ cls). \<not> is_line_end c)"
  unfolding shape_table_def by (auto simp: id_ch_def class_ch_def jchar_defs)

lemma try_shapes_table:
  assumes sh: "(sh, opn, cls) \<in> set shape_table"
    and i: "i \<noteq> []" "\<forall>c \<in> set i. id_ch c"
    and lbl: "opener_kept opn lbl"
  shows "try_shapes shape_table (i @ opn @ lbl @ cls) cn =
     \<lparr>d_id = i, d_label = Some (cleanLabel (js_trim lbl)), d_shape = Some sh, d_className = cn\<rparr>"
proof -
  obtain pre rest where tab: "shape_table = pre @ (sh, opn, cls) # rest"
    using split_list [OF sh] by blast
  have "rx_match (shape_rx opn' cls') (i @ opn @ lbl @ cls) = None"
    if "(sh', opn', cls') \<in> set pre" for sh' opn' cls'
  proof (rule shape_match_None)
    show "\<not> starts_with (opn @ lbl @ cls) opn'"
      using shape_table_no_earlier [OF tab that lbl] shape_table_brackets [OF sh] by blast
    have "(sh', opn', cls') \<in> set shape_table" using that by (subst tab) simp
    from shape_table_brackets [OF this] show "opn' \<noteq> []" "\<not> id_ch (hd opn')" by simp_all
    show "opn @ lbl @ cls = [] \<or> \<not> id_ch (hd (opn @ lbl @ cls))"
      using shape_table_brackets [OF sh] by simp
  qed (use i in auto)
  then have "try_shapes shape_table (i @ opn @ lbl @ cls) cn =
      try_shapes ((sh, opn, cls) # rest) (i @ opn @ lbl @ cls) cn"
    unfolding tab by (intro try_shapes_skip) auto
  moreover obtain c where "rx_match (shape_rx opn cls) (i @ opn @ lbl @ cls) = Some c"
     "c 1 = Some i" "c 2 = Some (js_trim lbl)"
    using shape_match_Some [OF i, of opn cls] shape_table_brackets [OF sh] by blast
  ultimately show ?thesis by (simp add: cap_def)
qed

text \<open>C1: Reading a node token. For each of the nine bracket pairs, the token made of an
  identifier (letters, digits, \<open>_\<close>, \<open>.\<close> and \<open>-\<close>), the opening bracket, a text and the closing bracket,
  with or without the suffix \<open>:::\<close> and a class name (letters, digits, \<open>_\<close> and \<open>-\<close>), is read back as that
  identifier, the cleaned text, the shape of the brackets and the class; white space around the token is
  ignored. The text may hold anything, closing brackets too, under two conditions: its first unit may
  not turn the opening bracket into another one (no text in \<open>[...]\<close> may start with \<open>(\<close> or \<open>[\<close>, none in \<open>(...)\<close>
  with \<open>[\<close> or \<open>(\<close>, none in \<open>{...}\<close> with \<open>{\<close>), and before a class suffix it may not contain a line
  end, because the dot of the suffix pattern does not match one.\<close>

theorem extractNodeDetails_roundtrip:
  assumes "(sh, opn, cls) \<in> set shape_table"
    and "i \<noteq> []" "list_all id_ch i"
    and "opener_kept opn lbl"
    and "class_name_ok cn" "cn = None \<or> \<not> list_ex is_line_end lbl"
    and "js_trim rawToken = i @ opn @ lbl @ cls @ class_suffix cn"
  shows "extractNodeDetails rawToken =
     \<lparr>d_id = i, d_label = Some (cleanLabel lbl), d_shape = Some sh, d_className = cn\<rparr>"
proof -
  let ?tok = "i @ opn @ lbl @ cls"
  note br = shape_table_brackets [OF assms(1)]
  have i: "\<forall>c \<in> set i. id_ch c" using assms(3) by (simp add: list_all_iff)
  have "hd ?tok = hd i" "last ?tok = last cls" "id_ch (hd i)" using assms(2) i br by simp_all
  with br have tok: "?tok \<noteq> []" "\<not> class_ch (last ?tok)" "last ?tok \<noteq> 58" "trimmed ?tok"
    using id_ch_not_ws [of "hd i"] assms(2) by (simp_all add: trimmed_def)
  have "split_class_suffix (?tok @ class_suffix cn) = (?tok, cn)"
  proof (cases cn)
    case None
    then show ?thesis using split_class_suffix_plain [OF tok(1,2)] by (simp add: class_suffix_def)
  next
    case (Some n)
    have "\<forall>c \<in> set ?tok. \<not> is_line_end c"
      using Some assms(6) i br id_ch_not_line_end by (auto simp: list_ex_iff)
    with split_class_suffix_named [OF tok this, of n] show ?thesis
      using Some assms(5) by (simp add: class_suffix_def class_name_ok_def list_all_iff)
  qed
  then have "extractNodeDetails rawToken = try_shapes shape_table ?tok cn"
    using assms(7) by (simp add: extractNodeDetails_def)
  also have "\<dots> = \<lparr>d_id = i, d_label = Some (cleanLabel (js_trim lbl)), d_shape = Some sh, d_className = cn\<rparr>"
    by (rule try_shapes_table [OF assms(1,2) i assms(4)])
  finally show ?thesis by (simp add: cleanLabel_def)
qed

theorem extractNodeDetails_roundtrip_witness:
  "extractNodeDetails (js ''  api[( PostgreSQL (v15) )]:::db '') =
     \<lparr>d_id = js ''api'', d_label = Some (js ''PostgreSQL (v15)''), d_shape = Some Cylinder,
      d_className = Some (js ''db'')\<rparr>"
proof -
  have "extractNodeDetails (js ''  api[( PostgreSQL (v15) )]:::db '') =
     \<lparr>d_id = js ''api'', d_label = Some (cleanLabel (js '' PostgreSQL (v15) '')),
      d_shape = Some Cylinder, d_className = Some (js ''db'')\<rparr>"
    by (rule extractNodeDetails_roundtrip [of _ "js ''[(''" "js '')]''"])
      (simp_all add: shape_table_def opener_kept_def class_name_ok_def class_suffix_def id_ch_def class_ch_def
         str_defs jchar_defs)
  then show ?thesis by (simp add: cleanLabel_def str_defs jchar_defs)
qed

end
