(* ===== verification/MermaidParser.thy ===== *)
theory MermaidParser
  imports MermaidNode
begin

text \<open>
  The diagram level of \<open>components/mermaid/parser.ts\<close>: \<open>parseMermaid\<close> splits the cleaned
  text into lines and hands them to \<open>parseSequenceDiagram\<close> or \<open>parseFlowchart\<close>. Each of
  the two is a loop over the lines; the model is one step function per loop body
  (\<open>seq_line\<close>, \<open>flow_line\<close>) and the fold of it over the lines.

  The source's \<open>currentSubgraph\<close> is \<open>null\<close> or a reference into the \<open>subgraphs\<close> array, and
  a node read from the \<open>nodes\<close> map is a reference into it: in the model the first is an
  optional index, and a mutated node is stored back under its key.
\<close>

subsection \<open>Sequence diagrams\<close>

definition participant_rx :: rx where
  "participant_rx = rseq [RBos, rlit_i (js ''participant''), rplus r_ws, RCap 1 (rplus (RChr id_ch)),
     ropt (rseq [rplus r_ws, rlit_i (js ''as''), rplus r_ws, RCap 2 (rplus r_dot)]), REos]"

definition note_rx :: rx where
  "note_rx = rseq [RBos, rlit_i (js ''Note''), rplus r_ws,
     RCap 1 (ralt [rlit_i (js ''over''), rlit_i (js ''left of''), rlit_i (js ''right of'')]),
     rplus r_ws, RCap 2 (rplus (RChr (\<lambda>c. id_ch c \<or> c = 44))), rlit (js '':''), RStar r_ws,
     RCap 3 (rplus r_dot), REos]"

definition arrow_rx :: rx where
  "arrow_rx = ralt [rseq [rlit (js ''-''), ropt (rlit (js ''-'')), rplus (RChr (\<lambda>c. c = 62))],
     rlit (js ''-x''), rlit (js ''--x'')]"

definition message_rx :: rx where
  "message_rx = rseq [RBos, RCap 1 (rplus (RChr id_ch)), RStar r_ws, RCap 2 arrow_rx, RStar r_ws,
     RCap 3 (rplus (RChr id_ch)), rlit (js '':''), RStar r_ws, RCap 4 (rplus r_dot), REos]"

record seq_state =
  sq_participants :: "(jstr, jstr) jmap"
  sq_items :: "seq_item list"

text \<open>\<open>if (!participantsMap.has(p)) participantsMap.set(p, p)\<close>\<close>

definition ensure_participant :: "jstr \<Rightarrow> (jstr, jstr) jmap \<Rightarrow> (jstr, jstr) jmap" where
  "ensure_participant p m = (if jm_has m p then m else jm_set p p m)"

definition seq_participant_line :: "caps \<Rightarrow> seq_state \<Rightarrow> seq_state" where
  "seq_participant_line c st =
     (let i = cap c 1; label = cleanLabel (str_or (c 2) i)
      in st\<lparr>sq_participants := jm_set i label (sq_participants st)\<rparr>)"

definition note_position_of :: "jstr \<Rightarrow> note_position" where
  "note_position_of posType =
     (if js_includes posType (js ''left'') then NoteLeft
      else if js_includes posType (js ''right'') then NoteRight else NoteOver)"

definition seq_note_line :: "caps \<Rightarrow> seq_state \<Rightarrow> seq_state" where
  "seq_note_line c st =
     (let posType = to_lower (cap c 1);
          rawParts = map js_trim (split_char 44 (cap c 2));
          text = js_trim (cap c 3)
      in st\<lparr>sq_participants := fold ensure_participant rawParts (sq_participants st),
            sq_items := sq_items st @
              [SeqNote \<lparr>nt_participants = rawParts, nt_label = text,
                         nt_position = note_position_of posType\<rparr>]\<rparr>)"

definition seq_message_line :: "caps \<Rightarrow> seq_state \<Rightarrow> seq_state" where
  "seq_message_line c st =
     (let from = cap c 1; arrowOp = cap c 2; to = cap c 3; label = js_trim (cap c 4)
      in st\<lparr>sq_participants := ensure_participant to (ensure_participant from (sq_participants st)),
            sq_items := sq_items st @
              [SeqMessage \<lparr>m_from = from, m_to = to, m_label = label,
                            m_isDashed = js_includes arrowOp (js ''--''), m_isArrow = True\<rparr>]\<rparr>)"

definition seq_line :: "jstr \<Rightarrow> seq_state \<Rightarrow> seq_state" where
  "seq_line line st =
     (if starts_with line (js ''autonumber'') then st
      else case rx_match participant_rx line of
        Some c \<Rightarrow> seq_participant_line c st
      | None \<Rightarrow>
          (case rx_match note_rx line of
             Some c \<Rightarrow> seq_note_line c st
           | None \<Rightarrow>
               (case rx_match message_rx line of
                  Some c \<Rightarrow> seq_message_line c st
                | None \<Rightarrow> st)))"

definition parseSequenceDiagram :: "jstr list \<Rightarrow> seq_diagram" where
  "parseSequenceDiagram lines =
     (let st = fold seq_line (tl lines) \<lparr>sq_participants = [], sq_items = []\<rparr>
      in \<lparr>sd_participants = map (\<lambda>(i, l). \<lparr>pt_id = i, pt_label = l\<rparr>) (sq_participants st),
          sd_items = sq_items st\<rparr>)"

subsection \<open>Flowcharts: the node table\<close>

record flow_state =
  p_nodes :: "(jstr, flow_node) jmap"
  p_edges :: "flow_edge list"
  p_classDefs :: "(jstr, style_def) jmap"
  p_subgraphs :: "subgraph list"
  p_current :: "nat option"

definition empty_flow :: flow_state where
  "empty_flow = \<lparr>p_nodes = [], p_edges = [], p_classDefs = [], p_subgraphs = [], p_current = None\<rparr>"

text \<open>\<open>currentSubgraph?.id\<close>\<close>

definition current_id :: "flow_state \<Rightarrow> jstr option" where
  "current_id st = map_option (\<lambda>i. sg_id (p_subgraphs st ! i)) (p_current st)"

text \<open>The branch of \<open>getOrCreateNode\<close> that finds the node.\<close>

definition update_existing ::
  "flow_state \<Rightarrow> flow_node \<Rightarrow> jstr \<Rightarrow> jstr option \<Rightarrow> node_shape option \<Rightarrow> jstr option \<Rightarrow> flow_node" where
  "update_existing st nd i lbl shp cls =
     (let nd = (if truthy lbl \<and> lbl \<noteq> Some i then nd\<lparr>n_label := the lbl\<rparr> else nd);
          nd = (case shp of None \<Rightarrow> nd | Some sh \<Rightarrow> nd\<lparr>n_shape := sh\<rparr>);
          nd = (if truthy cls then nd\<lparr>n_className := cls\<rparr> else nd)
      in if p_current st \<noteq> None \<and> \<not> truthy (n_subgraphId nd)
         then nd\<lparr>n_subgraphId := current_id st\<rparr> else nd)"

definition new_node ::
  "flow_state \<Rightarrow> jstr \<Rightarrow> jstr option \<Rightarrow> node_shape option \<Rightarrow> jstr option \<Rightarrow> flow_node" where
  "new_node st i lbl shp cls =
     \<lparr>n_id = i, n_label = str_or lbl i,
      n_shape = (case shp of None \<Rightarrow> Rectangle | Some sh \<Rightarrow> sh),
      n_className = cls, n_style = None, n_subgraphId = current_id st\<rparr>"

definition add_to_current :: "jstr \<Rightarrow> flow_state \<Rightarrow> flow_state" where
  "add_to_current i st =
     (case p_current st of
        None \<Rightarrow> st
      | Some k \<Rightarrow> st\<lparr>p_subgraphs := (p_subgraphs st)
          [k := (p_subgraphs st ! k)\<lparr>sg_nodeIds := sg_nodeIds (p_subgraphs st ! k) @ [i]\<rparr>]\<rparr>)"

definition getOrCreateNode ::
  "jstr \<Rightarrow> jstr option \<Rightarrow> node_shape option \<Rightarrow> jstr option \<Rightarrow> flow_state \<Rightarrow> flow_node \<times> flow_state" where
  "getOrCreateNode i lbl shp cls st =
     (case jm_get (p_nodes st) i of
        Some existing \<Rightarrow>
          (let nd = update_existing st existing i lbl shp cls
           in (nd, st\<lparr>p_nodes := jm_set i nd (p_nodes st)\<rparr>))
      | None \<Rightarrow>
          (let nd = new_node st i lbl shp cls
           in (nd, add_to_current i (st\<lparr>p_nodes := jm_set i nd (p_nodes st)\<rparr>))))"

definition touch_node :: "node_details \<Rightarrow> flow_state \<Rightarrow> flow_node \<times> flow_state" where
  "touch_node d st = getOrCreateNode (d_id d) (d_label d) (d_shape d) (d_className d) st"

subsection \<open>Flowcharts: lines\<close>

definition direction_rx :: rx where
  "direction_rx = rseq [RBos, ralt [rlit_i (js ''graph''), rlit_i (js ''flowchart'')], rplus r_ws,
     RCap 1 (ralt [rlit_i (js ''TD''), rlit_i (js ''LR''), rlit_i (js ''BT''), rlit_i (js ''RL''),
       rlit_i (js ''TB'')])]"

definition direction_of :: "jstr \<Rightarrow> flow_direction" where
  "direction_of rawDir =
     (if rawDir = js ''TB'' then DirTD else if rawDir = js ''LR'' then DirLR
      else if rawDir = js ''BT'' then DirBT else if rawDir = js ''RL'' then DirRL else DirTD)"

definition subgraph_rx :: rx where
  "subgraph_rx = rseq [RBos, rlit_i (js ''subgraph''), rplus r_ws, ropt (RCap 1 (rplus (RChr id_ch))),
     RStar r_ws,
     ropt (rseq [rlit (js ''[''), ropt (RChr (\<lambda>c. c = 34)),
       RCap 2 (rplus (RChr (\<lambda>c. c \<noteq> 34 \<and> c \<noteq> 93))), ropt (RChr (\<lambda>c. c = 34)), rlit (js '']'')])]"

definition end_rx :: rx where
  "end_rx = rseq [RBos, rlit_i (js ''end''), REos]"

definition classDef_rx :: rx where
  "classDef_rx = rseq [RBos, rlit_i (js ''classDef''), rplus r_ws, RCap 1 (rplus (RChr class_ch)),
     rplus r_ws, RCap 2 (rplus r_dot), REos]"

definition classAssign_rx :: rx where
  "classAssign_rx = rseq [RBos, rlit_i (js ''class''), rplus r_ws,
     RCap 1 (rplus (RChr (\<lambda>c. id_ch c \<or> c = 44))), rplus r_ws, RCap 2 (rplus (RChr class_ch)), REos]"

definition bar_label_rx :: rx where
  "bar_label_rx = rseq [rlit (js ''|''), rplus (RChr (\<lambda>c. c \<noteq> 124 \<and> c \<noteq> 10 \<and> c \<noteq> 13)), rlit (js ''|'')]"

definition edge_op_rx :: rx where
  "edge_op_rx = rseq [RStar r_ws,
     RCap 1 (ralt [rlit (js ''-->''), rlit (js ''-.->''), rlit (js ''==>''), rlit (js ''---''),
       rseq [rlit (js ''-->''), bar_label_rx], rseq [rlit (js ''-.->''), bar_label_rx],
       rseq [rlit (js ''==>''), bar_label_rx], rseq [rlit (js ''---''), bar_label_rx]]),
     RStar r_ws]"

definition op_label_rx :: rx where
  "op_label_rx = rseq [RBos,
     RCap 1 (ralt [rlit (js ''-->''), rlit (js ''-.->''), rlit (js ''==>''), rlit (js ''---'')]),
     rlit (js ''|''), RCap 2 (rplus (RChr (\<lambda>c. c \<noteq> 124))), rlit (js ''|''), REos]"

definition open_subgraph :: "caps \<Rightarrow> flow_state \<Rightarrow> flow_state" where
  "open_subgraph c st =
     (let n = length (p_subgraphs st);
          subId = str_or (c 1) (js ''sub_'' @ nat_text n);
          subTitle = str_or (c 2) (str_or (c 1) (js ''Subgraph '' @ nat_text (n + 1)))
      in st\<lparr>p_subgraphs := p_subgraphs st @ [\<lparr>sg_id = subId, sg_title = subTitle, sg_nodeIds = []\<rparr>],
            p_current := Some n\<rparr>)"

definition assign_class :: "jstr \<Rightarrow> jstr \<Rightarrow> flow_state \<Rightarrow> flow_state" where
  "assign_class cName i st =
     (case getOrCreateNode i None None None st of
        (nd, st') \<Rightarrow> st'\<lparr>p_nodes := jm_set i (nd\<lparr>n_className := Some cName\<rparr>) (p_nodes st')\<rparr>)"

text \<open>The operator of an edge: its label, style and arrow head.\<close>

definition edge_op :: "jstr \<Rightarrow> jstr option \<times> edge_style \<times> bool" where
  "edge_op opStr =
     (let (cleanOp, label) =
        (case rx_match op_label_rx opStr of
           Some c \<Rightarrow> (cap c 1, Some (cleanLabel (cap c 2)))
         | None \<Rightarrow> (opStr, None))
      in if js_includes cleanOp (js ''-.->'') then (label, Dashed, True)
         else if js_includes cleanOp (js ''==>'') then (label, Thick, True)
         else if js_includes cleanOp (js ''---'') then (label, Solid, False)
         else (label, Solid, True))"

definition add_edge :: "jstr \<Rightarrow> jstr \<Rightarrow> jstr \<Rightarrow> flow_state \<Rightarrow> flow_state" where
  "add_edge leftStr opStr rightStr st =
     (case touch_node (extractNodeDetails leftStr) st of
        (fromNode, st1) \<Rightarrow>
          (case touch_node (extractNodeDetails rightStr) st1 of
             (toNode, st2) \<Rightarrow>
               (case edge_op opStr of
                  (label, style, hasArrow) \<Rightarrow>
                    st2\<lparr>p_edges := p_edges st2 @
                      [\<lparr>e_from = n_id fromNode, e_to = n_id toNode, e_label = label,
                        e_style = style, e_hasArrow = hasArrow\<rparr>]\<rparr>)))"

text \<open>The inner loop over the tokens of a line; the boolean is \<open>hasEdgeMatch\<close>.\<close>

fun edge_tokens :: "jstr list \<Rightarrow> bool \<times> flow_state \<Rightarrow> bool \<times> flow_state" where
  "edge_tokens (l # p # r # rest) (b, st) =
     (let leftStr = js_trim l; opStr = js_trim p; rightStr = js_trim r in
      edge_tokens (r # rest)
        (if leftStr = [] \<or> opStr = [] \<or> rightStr = [] then (b, st)
         else (True, add_edge leftStr opStr rightStr st)))"
| "edge_tokens ts (b, st) = (b, st)"

definition split_edges :: "jstr \<Rightarrow> jstr list" where
  "split_edges line = map (\<lambda>x. case x of None \<Rightarrow> [] | Some w \<Rightarrow> w) (rx_split edge_op_rx 1 line)"

definition node_or_edge_line :: "jstr \<Rightarrow> flow_state \<Rightarrow> flow_state" where
  "node_or_edge_line line st =
     (case edge_tokens (split_edges line) (False, st) of
        (hasEdgeMatch, st') \<Rightarrow>
          if hasEdgeMatch then st'
          else let details = extractNodeDetails line in
            if d_id details \<noteq> [] \<and> \<not> js_includes (d_id details) (js '' '')
            then snd (touch_node details st') else st')"

definition flow_line :: "jstr \<Rightarrow> flow_state \<Rightarrow> flow_state" where
  "flow_line line st =
     (case rx_match subgraph_rx line of
        Some c \<Rightarrow> open_subgraph c st
      | None \<Rightarrow>
          if rx_test end_rx line then st\<lparr>p_current := None\<rparr>
          else (case rx_match classDef_rx line of
            Some c \<Rightarrow> st\<lparr>p_classDefs := jm_set (cap c 1) (parseStyleDef (cap c 2)) (p_classDefs st)\<rparr>
          | None \<Rightarrow>
              (case rx_match classAssign_rx line of
                 Some c \<Rightarrow> fold (assign_class (cap c 2)) (map js_trim (split_char 44 (cap c 1))) st
               | None \<Rightarrow> node_or_edge_line line st)))"

definition apply_class :: "(jstr, style_def) jmap \<Rightarrow> flow_node \<Rightarrow> flow_node" where
  "apply_class defs nd =
     (case n_className nd of
        Some k \<Rightarrow> if k \<noteq> [] \<and> jm_has defs k then nd\<lparr>n_style := jm_get defs k\<rparr> else nd
      | None \<Rightarrow> nd)"

definition parseFlowchart :: "jstr list \<Rightarrow> flow_graph" where
  "parseFlowchart lines =
     (let dirMatch = rx_match direction_rx (hd lines);
          direction = (case dirMatch of None \<Rightarrow> DirTD | Some c \<Rightarrow> direction_of (to_upper (cap c 1)));
          st = fold flow_line (if dirMatch = None then lines else tl lines) empty_flow
      in \<lparr>g_direction = direction,
          g_nodes = map (\<lambda>(i, nd). (i, apply_class (p_classDefs st) nd)) (p_nodes st),
          g_edges = p_edges st, g_subgraphs = p_subgraphs st, g_classDefs = p_classDefs st\<rparr>)"

subsection \<open>\<open>parseMermaid\<close>\<close>

definition newline_rx :: rx where
  "newline_rx = rseq [ropt (RChr (\<lambda>c. c = 13)), RChr (\<lambda>c. c = 10)]"

definition source_lines :: "jstr \<Rightarrow> jstr list" where
  "source_lines code =
     filter (\<lambda>l. l \<noteq> [] \<and> \<not> starts_with l (js ''%%''))
       (map js_trim (map (\<lambda>x. case x of None \<Rightarrow> [] | Some w \<Rightarrow> w) (rx_split newline_rx 0 code)))"

definition sequence_rx :: rx where
  "sequence_rx = rseq [RBos, rlit_i (js ''sequenceDiagram'')]"

definition empty_graph :: flow_graph where
  "empty_graph = \<lparr>g_direction = DirTD, g_nodes = [], g_edges = [], g_subgraphs = [], g_classDefs = []\<rparr>"

definition parseMermaid :: "jstr \<Rightarrow> parsed_diagram" where
  "parseMermaid chartText =
     (let lines = source_lines (sanitizeMermaidText chartText) in
      if lines = [] then ParsedFlow empty_graph
      else if rx_test sequence_rx (hd lines) then ParsedSeq (parseSequenceDiagram lines)
      else ParsedFlow (parseFlowchart lines))"

end
