(* ===== verification/Machine.thy ===== *)
theory Machine
  imports Main
begin

text \<open>
  Contracts of the stateful components. \<open>event_machine\<close> is a state updated by events, with an
  invariant and a preorder along which the state only grows; a loop over a list and a
  component driven by user events are both of this kind. \<open>reachable\<close> closes a step relation
  from its initial states.
\<close>

locale event_machine =
  fixes step :: "'e \<Rightarrow> 's \<Rightarrow> 's"
    and inv :: "'s \<Rightarrow> bool"
    and grows :: "'s \<Rightarrow> 's \<Rightarrow> bool"
  assumes inv_step: "inv s \<Longrightarrow> inv (step l s)"
    and grows_refl: "grows s s"
    and grows_trans: "grows s t \<Longrightarrow> grows t u \<Longrightarrow> grows s u"
    and grows_step: "inv s \<Longrightarrow> grows s (step l s)"
begin

lemma inv_fold: "inv s \<Longrightarrow> inv (fold step ls s)"
  by (induction ls arbitrary: s) (auto intro: inv_step)

lemma grows_fold: "inv s \<Longrightarrow> grows s (fold step ls s)"
  by (induction ls arbitrary: s) (auto intro: grows_refl grows_trans grows_step inv_step)

lemma grows_append: "inv s \<Longrightarrow> grows (fold step ls s) (fold step (ls @ ls') s)"
  by (simp add: grows_fold inv_fold)

end

inductive reachable :: "('s \<Rightarrow> 's \<Rightarrow> bool) \<Rightarrow> 's \<Rightarrow> 's \<Rightarrow> bool" for step init where
  start: "reachable step init init"
| move: "reachable step init s \<Longrightarrow> step s t \<Longrightarrow> reachable step init t"

text \<open>A relation that keeps an invariant: every reachable state satisfies it.\<close>

locale invariant_system =
  fixes step :: "'s \<Rightarrow> 's \<Rightarrow> bool"
    and init :: 's
    and inv :: "'s \<Rightarrow> bool"
  assumes inv_init: "inv init"
    and inv_step: "inv s \<Longrightarrow> step s t \<Longrightarrow> inv t"
begin

lemma inv_reachable: "reachable step init s \<Longrightarrow> inv s"
  by (induction rule: reachable.induct) (auto intro: inv_init inv_step)

end

end
