(* ===== verification/MermaidFlowInv.thy ===== *)
theory MermaidFlowInv
  imports MermaidParser Machine
begin

text \<open>
  What the parser's state satisfies whatever the text is. The contract \<open>event_machine\<close> is
  interpreted on the loop bodies \<open>flow_line\<close> and \<open>seq_line\<close>, so that each of
  \<open>parseFlowchart\<close> and \<open>parseSequenceDiagram\<close> inherits the facts for its whole run.
\<close>

subsection \<open>The flowchart state\<close>

definition keys_of :: "flow_state \<Rightarrow> jstr set" where
  "keys_of st = set (jm_keys (p_nodes st))"

definition members_ok :: "flow_state \<Rightarrow> bool" where
  "members_ok st = (\<forall>sg \<in> set (p_subgraphs st). sg_id sg \<noteq> [] \<and>
     (\<forall>i \<in> set (sg_nodeIds sg). \<exists>nd. jm_get (p_nodes st) i = Some nd \<and> n_subgraphId nd = Some (sg_id sg)))"

definition flow_inv :: "flow_state \<Rightarrow> bool" where
  "flow_inv st = (jm_inv (p_nodes st) \<and> (\<forall>(k, nd) \<in> set (p_nodes st). n_id nd = k) \<and>
     (\<forall>e \<in> set (p_edges st). e_from e \<in> keys_of st \<and> e_to e \<in> keys_of st) \<and>
     (\<forall>k. p_current st = Some k \<longrightarrow> k < length (p_subgraphs st)) \<and>
     distinct (concat (map sg_nodeIds (p_subgraphs st))) \<and>
     members_ok st \<and> jm_inv (p_classDefs st))"

definition grows_flow :: "flow_state \<Rightarrow> flow_state \<Rightarrow> bool" where
  "grows_flow s t = ((\<exists>ks. jm_keys (p_nodes t) = jm_keys (p_nodes s) @ ks) \<and>
     (\<exists>es. p_edges t = p_edges s @ es) \<and> length (p_subgraphs s) \<le> length (p_subgraphs t))"

lemma grows_flow_refl [simp]: "grows_flow s s"
  by (simp add: grows_flow_def)

lemma grows_flow_trans [trans]: "grows_flow s t \<Longrightarrow> grows_flow t u \<Longrightarrow> grows_flow s u"
  by (auto simp: grows_flow_def)

lemma distinct_concat_snoc:
  assumes "k < length xss" "x \<notin> set (concat xss)" "distinct (concat xss)"
  shows "distinct (concat (xss[k := xss ! k @ [x]]))"
proof -
  have "concat xss = concat (take k xss) @ xss ! k @ concat (drop (Suc k) xss)"
    using id_take_nth_drop [OF assms(1)] by (metis concat.simps(2) concat_append)
  then show ?thesis
    using assms by (auto simp: upd_conv_take_nth_drop)
qed

lemma flow_inv_empty [simp]: "flow_inv empty_flow"
  by (simp add: flow_inv_def empty_flow_def keys_of_def members_ok_def jm_inv_def)

text \<open>A node stored back under its key keeps the invariant when it stays in its subgraph.\<close>

lemma flow_inv_put:
  assumes inv: "flow_inv st" and old: "jm_get (p_nodes st) i = Some old" and nd: "n_id nd = i"
    and sub: "\<And>s. n_subgraphId old = Some s \<Longrightarrow> s \<noteq> [] \<Longrightarrow> n_subgraphId nd = Some s"
  shows "flow_inv (st\<lparr>p_nodes := jm_set i nd (p_nodes st)\<rparr>)"
proof -
  have i: "i \<in> keys_of st" using old jm_get_None [of "p_nodes st" i] by (auto simp: keys_of_def)
  have "\<forall>(k, nd) \<in> set (jm_set i nd (p_nodes st)). n_id nd = k"
    by (rule jm_set_all) (use inv nd in \<open>auto simp: flow_inv_def\<close>)
  moreover have "members_ok (st\<lparr>p_nodes := jm_set i nd (p_nodes st)\<rparr>)"
    using inv old sub by (fastforce simp: flow_inv_def members_ok_def jm_get_set)
  ultimately show ?thesis
    using inv i by (simp add: flow_inv_def jm_inv_set keys_of_def jm_keys_set)
qed

lemma flow_inv_new:
  assumes inv: "flow_inv st" and new: "i \<notin> keys_of st" and nd: "n_id nd = i" "n_subgraphId nd = current_id st"
  shows "flow_inv (add_to_current i (st\<lparr>p_nodes := jm_set i nd (p_nodes st)\<rparr>))"
proof -
  let ?st = "st\<lparr>p_nodes := jm_set i nd (p_nodes st)\<rparr>"
  have fresh: "i \<notin> set (sg_nodeIds sg)" if "sg \<in> set (p_subgraphs st)" for sg
    using inv new that jm_get_None [of "p_nodes st" i]
    by (force simp: flow_inv_def members_ok_def keys_of_def)
  have nodes: "\<forall>(k, nd) \<in> set (jm_set i nd (p_nodes st)). n_id nd = k"
    by (rule jm_set_all) (use inv nd in \<open>auto simp: flow_inv_def\<close>)
  have old: "members_ok ?st"
    using inv fresh by (fastforce simp: flow_inv_def members_ok_def jm_get_set)
  have base: "flow_inv ?st"
    using inv nodes old by (auto simp: flow_inv_def jm_inv_set keys_of_def jm_keys_set)
  show ?thesis
  proof (cases "p_current st")
    case None
    then show ?thesis using base by (simp add: add_to_current_def)
  next
    case (Some k)
    let ?sg = "p_subgraphs st ! k"
    have k: "k < length (p_subgraphs st)" using inv Some by (simp add: flow_inv_def)
    have "distinct (concat ((map sg_nodeIds (p_subgraphs st))[k := map sg_nodeIds (p_subgraphs st) ! k @ [i]]))"
      by (rule distinct_concat_snoc) (use k inv fresh in \<open>auto simp: flow_inv_def\<close>)
    then have dist: "distinct (concat (map sg_nodeIds
        ((p_subgraphs st)[k := ?sg\<lparr>sg_nodeIds := sg_nodeIds ?sg @ [i]\<rparr>])))"
      using k by (simp add: map_update)
    let ?new = "?sg\<lparr>sg_nodeIds := sg_nodeIds ?sg @ [i]\<rparr>"
    define has where "has s j = (\<exists>nd. jm_get (p_nodes ?st) j = Some nd \<and> n_subgraphId nd = Some s)" for s j
    have keep: "sg_id sg \<noteq> [] \<and> (\<forall>j \<in> set (sg_nodeIds sg). has (sg_id sg) j)"
      if "sg \<in> set (p_subgraphs st)" for sg
      using old that by (simp add: members_ok_def has_def)
    have hi: "has (sg_id ?sg) i" using nd Some by (simp add: has_def current_id_def jm_get_set)
    have "sg_id sg \<noteq> [] \<and> (\<forall>j \<in> set (sg_nodeIds sg). has (sg_id sg) j)"
      if "sg \<in> set ((p_subgraphs st)[k := ?new])" for sg
    proof -
      have "sg = ?new \<or> sg \<in> set (p_subgraphs st)"
        using that set_update_subset_insert by fastforce
      then show ?thesis using keep [of sg] keep [OF nth_mem [OF k]] hi by auto
    qed
    then have "members_ok (?st\<lparr>p_subgraphs := (p_subgraphs st)[k := ?new]\<rparr>)"
      by (simp add: members_ok_def has_def)
    then show ?thesis
      using base Some dist by (simp add: add_to_current_def flow_inv_def keys_of_def)
  qed
qed

subsection \<open>Every line keeps the invariant\<close>

lemma keys_add_to_current [simp]: "p_nodes (add_to_current i st) = p_nodes st"
  "p_edges (add_to_current i st) = p_edges st" "p_classDefs (add_to_current i st) = p_classDefs st"
  "p_current (add_to_current i st) = p_current st"
  "length (p_subgraphs (add_to_current i st)) = length (p_subgraphs st)"
  by (simp_all add: add_to_current_def split: option.splits)

lemma update_existing_id [simp]: "n_id (update_existing st nd i lbl shp cls) = n_id nd"
  by (simp add: update_existing_def Let_def split: option.splits)

lemma update_existing_subgraph:
  "n_subgraphId nd = Some s \<Longrightarrow> s \<noteq> [] \<Longrightarrow> n_subgraphId (update_existing st nd i lbl shp cls) = Some s"
  by (simp add: update_existing_def Let_def split: option.splits)

lemma getOrCreateNode_ok:
  assumes "flow_inv st" and "getOrCreateNode i lbl shp cls st = (nd, st')"
  shows "flow_inv st'" "grows_flow st st'" "n_id nd = i" "jm_get (p_nodes st') i = Some nd"
    "p_edges st' = p_edges st"
proof -
  have "flow_inv st' \<and> grows_flow st st' \<and> n_id nd = i \<and> jm_get (p_nodes st') i = Some nd \<and>
    p_edges st' = p_edges st"
  proof (cases "jm_get (p_nodes st) i")
    case None
    then have i: "i \<notin> keys_of st" using jm_get_None [of "p_nodes st" i] by (simp add: keys_of_def)
    with flow_inv_new [OF assms(1) i] assms(2) None show ?thesis
      by (auto simp: getOrCreateNode_def Let_def new_node_def grows_flow_def jm_keys_set
          jm_get_set keys_of_def)
  next
    case (Some old)
    then have i: "i \<in> set (jm_keys (p_nodes st))" using jm_get_None [of "p_nodes st" i] by auto
    have old: "n_id old = i"
      using assms(1) jm_get_in [OF Some] by (auto simp: flow_inv_def)
    have "flow_inv (st\<lparr>p_nodes := jm_set i (update_existing st old i lbl shp cls) (p_nodes st)\<rparr>)"
      by (rule flow_inv_put [OF assms(1) Some]) (simp_all add: old update_existing_subgraph)
    then show ?thesis
      using assms(2) Some i old
      by (auto simp: getOrCreateNode_def Let_def grows_flow_def jm_keys_set jm_get_set)
  qed
  then show "flow_inv st'" "grows_flow st st'" "n_id nd = i" "jm_get (p_nodes st') i = Some nd"
    "p_edges st' = p_edges st" by simp_all
qed

lemmas touch_node_ok = getOrCreateNode_ok [OF _ touch_node_def [symmetric, THEN trans]]

lemma jm_get_key: "jm_get (p_nodes st) i = Some nd \<Longrightarrow> i \<in> keys_of st"
  using jm_get_None [of "p_nodes st" i] by (auto simp: keys_of_def)

lemma grows_keys: "grows_flow s t \<Longrightarrow> i \<in> keys_of s \<Longrightarrow> i \<in> keys_of t"
  by (auto simp: grows_flow_def keys_of_def)

lemma flow_inv_edge:
  "flow_inv st \<Longrightarrow> e_from e \<in> keys_of st \<Longrightarrow> e_to e \<in> keys_of st \<Longrightarrow>
     flow_inv (st\<lparr>p_edges := p_edges st @ [e]\<rparr>)"
  by (auto simp: flow_inv_def keys_of_def members_ok_def)

lemma grows_flow_edge: "grows_flow st (st\<lparr>p_edges := p_edges st @ [e]\<rparr>)"
  by (simp add: grows_flow_def)

lemma add_edge_ok:
  assumes "flow_inv st"
  shows "flow_inv (add_edge l p r st) \<and> grows_flow st (add_edge l p r st)"
proof -
  obtain fn st1 where 1: "touch_node (extractNodeDetails l) st = (fn, st1)" by fastforce
  obtain tn st2 where 2: "touch_node (extractNodeDetails r) st1 = (tn, st2)" by fastforce
  obtain lbl sty arr where op: "edge_op p = (lbl, sty, arr)" by (metis prod_cases3)
  note f = getOrCreateNode_ok [OF assms 1 [unfolded touch_node_def]]
  note t = getOrCreateNode_ok [OF f(1) 2 [unfolded touch_node_def]]
  let ?e = "\<lparr>e_from = n_id fn, e_to = n_id tn, e_label = lbl, e_style = sty, e_hasArrow = arr\<rparr>"
  have "n_id fn \<in> keys_of st2"
    using f(3) jm_get_key [OF f(4)] grows_keys [OF t(2)] by simp
  moreover have "n_id tn \<in> keys_of st2" using t(3) jm_get_key [OF t(4)] by simp
  ultimately have "flow_inv (st2\<lparr>p_edges := p_edges st2 @ [?e]\<rparr>)"
    by (intro flow_inv_edge t(1)) simp_all
  then show ?thesis
    using 1 2 op grows_flow_trans [OF f(2) grows_flow_trans [OF t(2) grows_flow_edge]]
    by (simp add: add_edge_def)
qed

lemma edge_tokens_ok:
  "flow_inv st \<Longrightarrow> edge_tokens ts (b, st) = (b', st') \<Longrightarrow> flow_inv st' \<and> grows_flow st st'"
proof (induction ts "(b, st)" arbitrary: b st rule: edge_tokens.induct)
  case (1 l p r rest b st)
  show ?case
  proof (cases "js_trim l = [] \<or> js_trim p = [] \<or> js_trim r = []")
    case True
    with 1 show ?thesis by (simp add: Let_def)
  next
    case False
    let ?st = "add_edge (js_trim l) (js_trim p) (js_trim r) st"
    from add_edge_ok [OF 1(2)] have "flow_inv ?st" "grows_flow st ?st" by auto
    with 1(1) [OF refl refl refl, of True ?st] 1(3) False show ?thesis
      using grows_flow_trans [of st ?st st'] by (simp add: Let_def)
  qed
qed auto

lemma node_or_edge_line_ok:
  assumes "flow_inv st"
  shows "flow_inv (node_or_edge_line line st) \<and> grows_flow st (node_or_edge_line line st)"
proof -
  obtain b st' where e: "edge_tokens (split_edges line) (False, st) = (b, st')" by fastforce
  note ok = edge_tokens_ok [OF assms e]
  let ?d = "extractNodeDetails line"
  obtain nd st2 where t: "touch_node ?d st' = (nd, st2)" by fastforce
  note ok2 = getOrCreateNode_ok [OF conjunct1 [OF ok] t [unfolded touch_node_def]]
  show ?thesis
    using e t ok ok2(1) grows_flow_trans [OF conjunct2 [OF ok] ok2(2)]
    by (simp add: node_or_edge_line_def Let_def)
qed

lemma assign_class_ok:
  assumes "flow_inv st"
  shows "flow_inv (assign_class cn i st) \<and> grows_flow st (assign_class cn i st)"
proof -
  obtain nd st' where g: "getOrCreateNode i None None None st = (nd, st')" by fastforce
  note ok = getOrCreateNode_ok [OF assms g]
  have "flow_inv (st'\<lparr>p_nodes := jm_set i (nd\<lparr>n_className := Some cn\<rparr>) (p_nodes st')\<rparr>)"
    by (rule flow_inv_put [OF ok(1,4)]) (simp_all add: ok(3))
  moreover have "i \<in> set (jm_keys (p_nodes st'))" using jm_get_key [OF ok(4)] by (simp add: keys_of_def)
  ultimately show ?thesis
    using g ok(2) by (simp add: assign_class_def grows_flow_def jm_keys_set)
qed

lemma open_subgraph_ok:
  "flow_inv st \<Longrightarrow> flow_inv (open_subgraph c st) \<and> grows_flow st (open_subgraph c st)"
  by (auto simp: open_subgraph_def Let_def flow_inv_def grows_flow_def members_ok_def keys_of_def
      str_or_def split: option.splits)

lemma fold_assign_class_ok:
  "flow_inv st \<Longrightarrow> flow_inv (fold (assign_class cn) is st) \<and> grows_flow st (fold (assign_class cn) is st)"
proof (induction "is" arbitrary: st)
  case (Cons i js)
  from assign_class_ok [OF Cons.prems] Cons.IH show ?case
    by (auto intro: grows_flow_trans)
qed simp

lemma flow_line_ok:
  assumes "flow_inv st"
  shows "flow_inv (flow_line line st) \<and> grows_flow st (flow_line line st)"
proof -
  have "flow_inv (st\<lparr>p_current := None\<rparr>) \<and> grows_flow st (st\<lparr>p_current := None\<rparr>)"
    using assms by (simp add: flow_inv_def grows_flow_def members_ok_def keys_of_def)
  moreover have "flow_inv (st\<lparr>p_classDefs := jm_set k v (p_classDefs st)\<rparr>) \<and>
      grows_flow st (st\<lparr>p_classDefs := jm_set k v (p_classDefs st)\<rparr>)" for k v
    using assms by (simp add: flow_inv_def grows_flow_def members_ok_def keys_of_def jm_inv_set)
  ultimately show ?thesis
    using open_subgraph_ok [OF assms] fold_assign_class_ok [OF assms] node_or_edge_line_ok [OF assms]
    by (simp add: flow_line_def split: option.splits)
qed

interpretation flow: event_machine flow_line flow_inv grows_flow
  by unfold_locales (auto simp: flow_line_ok intro: grows_flow_trans)

subsection \<open>The graph \<open>parseFlowchart\<close> returns\<close>

definition flow_graph_ok :: "flow_graph \<Rightarrow> bool" where
  "flow_graph_ok g =
     (distinct (jm_keys (g_nodes g)) \<and> list_all (\<lambda>(k, nd). n_id nd = k) (g_nodes g) \<and>
      list_all (\<lambda>e. jm_has (g_nodes g) (e_from e) \<and> jm_has (g_nodes g) (e_to e)) (g_edges g) \<and>
      distinct (concat (map sg_nodeIds (g_subgraphs g))) \<and>
      list_all (\<lambda>sg. list_all (\<lambda>i. case jm_get (g_nodes g) i of
           Some nd \<Rightarrow> n_subgraphId nd = Some (sg_id sg) | None \<Rightarrow> False) (sg_nodeIds sg)) (g_subgraphs g) \<and>
      list_all (\<lambda>(k, nd). n_style nd = (case n_className nd of
           Some c \<Rightarrow> if c = [] then None else jm_get (g_classDefs g) c | None \<Rightarrow> None)) (g_nodes g))"

lemma jm_get_map_values:
  "jm_get (map (\<lambda>(k, v). (k, f v)) m) k = map_option f (jm_get m k)"
  by (induction m) auto

lemma jm_keys_map_values: "jm_keys (map (\<lambda>(k, v). (k, f v)) m) = jm_keys m"
  by (induction m) auto

lemma apply_class_simps [simp]:
  "n_id (apply_class defs nd) = n_id nd" "n_subgraphId (apply_class defs nd) = n_subgraphId nd"
  "n_className (apply_class defs nd) = n_className nd"
  by (simp_all add: apply_class_def split: option.splits)

text \<open>Styles are only set after the loop.\<close>

definition unstyled :: "flow_state \<Rightarrow> bool" where
  "unstyled st = (\<forall>(k, nd) \<in> set (p_nodes st). n_style nd = None)"

lemma unstyled_put: "unstyled st \<Longrightarrow> n_style nd = None \<Longrightarrow> unstyled (st\<lparr>p_nodes := jm_set i nd (p_nodes st)\<rparr>)"
  unfolding unstyled_def by simp (rule jm_set_all)

lemma unstyled_getOrCreate:
  assumes "unstyled st" "getOrCreateNode i lbl shp cls st = (nd, st')"
  shows "unstyled st' \<and> n_style nd = None"
proof (cases "jm_get (p_nodes st) i")
  case None
  have "unstyled (add_to_current i s) = unstyled s" for s by (simp add: unstyled_def)
  then show ?thesis
    using assms None unstyled_put [OF assms(1)]
    by (auto simp: getOrCreateNode_def Let_def new_node_def)
next
  case (Some old)
  then have "n_style old = None" using assms(1) jm_get_in [OF Some] by (auto simp: unstyled_def)
  then have "n_style (update_existing st old i lbl shp cls) = None"
    by (simp add: update_existing_def Let_def split: option.splits)
  then show ?thesis
    using assms Some unstyled_put [OF assms(1)] by (auto simp: getOrCreateNode_def Let_def)
qed

lemma unstyled_touch: "unstyled st \<Longrightarrow> touch_node d st = (nd, st') \<Longrightarrow> unstyled st'"
  using unstyled_getOrCreate by (simp add: touch_node_def)

lemma unstyled_add_edge: "unstyled st \<Longrightarrow> unstyled (add_edge l p r st)"
proof -
  assume u: "unstyled st"
  obtain fn st1 where 1: "touch_node (extractNodeDetails l) st = (fn, st1)" by fastforce
  obtain tn st2 where 2: "touch_node (extractNodeDetails r) st1 = (tn, st2)" by fastforce
  have "unstyled st2" using unstyled_touch [OF unstyled_touch [OF u 1] 2] .
  then show ?thesis using 1 2 by (simp add: add_edge_def unstyled_def split: prod.splits)
qed

lemma unstyled_tokens: "unstyled st \<Longrightarrow> unstyled (snd (edge_tokens ts (b, st)))"
  by (induction ts "(b, st)" arbitrary: b st rule: edge_tokens.induct)
    (simp_all add: Let_def unstyled_add_edge)

lemma unstyled_assign: "unstyled st \<Longrightarrow> unstyled (assign_class cn i st)"
proof -
  assume u: "unstyled st"
  obtain nd st' where g: "getOrCreateNode i None None None st = (nd, st')" by fastforce
  from unstyled_getOrCreate [OF u g] show ?thesis
    using g by (simp add: assign_class_def unstyled_put)
qed

lemma unstyled_line: "unstyled st \<Longrightarrow> unstyled (flow_line line st)"
proof -
  assume u: "unstyled st"
  have "unstyled (fold (assign_class cn) ids st)" for cn ids
    using u by (induction ids arbitrary: st) (simp_all add: unstyled_assign)
  moreover have "unstyled (node_or_edge_line line st)"
    using unstyled_tokens [OF u, of "split_edges line" False] unstyled_touch
    by (auto simp: node_or_edge_line_def Let_def split: prod.splits)
       (metis surjective_pairing)
  ultimately show ?thesis using u
    by (auto simp: flow_line_def open_subgraph_def Let_def unstyled_def split: option.splits)
qed

interpretation unstyled: event_machine flow_line unstyled "\<lambda>_ _. True"
  by unfold_locales (simp_all add: unstyled_line)

lemma flow_graph_ok_final:
  assumes "flow_inv st" "unstyled st"
  shows "flow_graph_ok \<lparr>g_direction = d,
     g_nodes = map (\<lambda>(i, nd). (i, apply_class (p_classDefs st) nd)) (p_nodes st),
     g_edges = p_edges st, g_subgraphs = p_subgraphs st, g_classDefs = p_classDefs st\<rparr>"
proof -
  let ?nodes = "map (\<lambda>(i, nd). (i, apply_class (p_classDefs st) nd)) (p_nodes st)"
  have sub: "case jm_get ?nodes i of
       Some nd \<Rightarrow> n_subgraphId nd = Some (sg_id sg) | None \<Rightarrow> False"
    if "sg \<in> set (p_subgraphs st)" "i \<in> set (sg_nodeIds sg)" for sg i
    using assms(1) that by (fastforce simp: flow_inv_def members_ok_def jm_get_map_values)
  have style: "n_style (apply_class (p_classDefs st) nd) = (case n_className nd of
      Some c \<Rightarrow> if c = [] then None else jm_get (p_classDefs st) c | None \<Rightarrow> None)"
    if "(k, nd) \<in> set (p_nodes st)" for k nd
  proof -
    have "n_style nd = None" using assms(2) that by (auto simp: unstyled_def)
    moreover have "jm_get (p_classDefs st) c = None" if "c \<notin> set (jm_keys (p_classDefs st))" for c
      using that by (simp add: jm_get_None)
    ultimately show ?thesis
      by (simp add: apply_class_def split: option.splits)
  qed
  have nodes: "distinct (jm_keys (p_nodes st))" "\<forall>(k, nd) \<in> set (p_nodes st). n_id nd = k"
    and edges: "\<forall>e \<in> set (p_edges st). e_from e \<in> set (jm_keys (p_nodes st)) \<and> e_to e \<in> set (jm_keys (p_nodes st))"
    and subs: "distinct (concat (map sg_nodeIds (p_subgraphs st)))"
    using assms(1) by (simp_all add: flow_inv_def jm_inv_def keys_of_def)
  have ids: "list_all (\<lambda>(k, nd). n_id nd = k) ?nodes"
    using nodes(2) by (auto simp: list_all_iff)
  have styles: "list_all (\<lambda>(k, nd). n_style nd = (case n_className nd of
      Some c \<Rightarrow> if c = [] then None else jm_get (p_classDefs st) c | None \<Rightarrow> None)) ?nodes"
    unfolding list_all_iff
  proof clarsimp
    fix k nd assume "(k, nd) \<in> set (p_nodes st)"
    from style [OF this] show "n_style (apply_class (p_classDefs st) nd) = (case n_className nd of
      Some c \<Rightarrow> if c = [] then None else jm_get (p_classDefs st) c | None \<Rightarrow> None)" .
  qed
  have members: "list_all (\<lambda>sg. list_all (\<lambda>i. case jm_get ?nodes i of
      Some nd \<Rightarrow> n_subgraphId nd = Some (sg_id sg) | None \<Rightarrow> False) (sg_nodeIds sg)) (p_subgraphs st)"
    using sub by (simp add: list_all_iff)
  have ends: "list_all (\<lambda>e. jm_has ?nodes (e_from e) \<and> jm_has ?nodes (e_to e)) (p_edges st)"
    using edges by (simp add: list_all_iff jm_keys_map_values)
  show ?thesis
    using nodes(1) ids styles members ends subs
    by (simp only: flow_graph_ok_def jm_keys_map_values flow_graph.simps)
qed

lemma parse_ok: "flow_graph_ok (parseFlowchart lines)"
proof -
  have "unstyled empty_flow" by (simp add: unstyled_def empty_flow_def)
  then show ?thesis
    unfolding parseFlowchart_def Let_def
    by (intro flow_graph_ok_final flow.inv_fold unstyled.inv_fold) simp_all
qed

text \<open>C7: Every graph the parser returns is well formed, whatever the lines are: the node map
  has one entry per identifier and each entry's node carries that identifier; both ends
  of every edge are nodes; a node is listed at most once over all the subgraphs, is then
  in the map and names that subgraph; and a node's style is the definition of its class,
  exactly when that class is defined.\<close>

theorem parseFlowchart_well_formed: "flow_graph_ok (parseFlowchart lines)"
  by (rule parse_ok)

subsection \<open>Later mentions of a node\<close>

lemma split_class_suffix_no_colon: "58 \<notin> set tok \<Longrightarrow> split_class_suffix tok = (tok, None)"
proof -
  assume tok: "58 \<notin> set tok"
  have "run (RLazy (RChr (\<lambda>x. \<not> is_line_end x)))
      (\<lambda>(p', s') c'. run (rseq [rlit (js '':::''), RCap 2 (rplus (RChr class_ch)), REos])
         (\<lambda>q c. Some (q, c)) (p', s') (c'(1 \<mapsto> take (length tok - length s') tok))) ([], tok) (\<lambda>n. None) = None"
    by (rule run_lazy_None) (use tok in \<open>auto simp: starts_with_iff\<close>)
  then show ?thesis
    by (simp add: split_class_suffix_def class_suffix_rx_def rx_match_anchored r_dot_def)
qed

lemma extractNodeDetails_plain:
  assumes "i \<noteq> []" "list_all id_ch i"
  shows "extractNodeDetails i = \<lparr>d_id = i, d_label = None, d_shape = Some Rectangle, d_className = None\<rparr>"
proof -
  have i: "\<forall>c \<in> set i. id_ch c" using assms(2) by (simp add: list_all_iff)
  have "trimmed i" using assms(1) i id_ch_not_ws by (simp add: trimmed_def)
  moreover have "\<not> id_ch 58" by (simp add: id_ch_def jchar_defs)
  then have "58 \<notin> set i" using i by blast
  moreover have "try_shapes (shape_table @ []) i None = try_shapes [] i None"
  proof (rule try_shapes_skip, clarify)
    fix sh opn cls assume "(sh, opn, cls) \<in> set shape_table"
    note br = shape_table_brackets [OF this]
    have "rx_match (shape_rx opn cls) (i @ []) = None"
      by (rule shape_match_None) (use br assms(1) i in \<open>auto simp: starts_with_iff\<close>)
    then show "rx_match (shape_rx opn cls) i = None" by simp
  qed
  ultimately show ?thesis by (simp add: extractNodeDetails_def split_class_suffix_no_colon)
qed

text \<open>A plain mention of a node that already has a shape turns it back into a rectangle: the
  token reader reports the shape of a bare identifier as a rectangle, so the guard that
  keeps an absent shape from overwriting never applies. The label and the class survive.\<close>

theorem plain_mention_resets_shape:
  assumes "jm_get (p_nodes st) i = Some nd" "i \<noteq> []" "list_all id_ch i"
  shows "\<exists>nd'. jm_get (p_nodes (snd (touch_node (extractNodeDetails i) st))) i = Some nd' \<and>
     n_shape nd' = Rectangle \<and> n_label nd' = n_label nd \<and> n_className nd' = n_className nd"
  using assms(1)
  by (auto simp: touch_node_def getOrCreateNode_def extractNodeDetails_plain [OF assms(2,3)]
      jm_get_set update_existing_def Let_def)

theorem plain_mention_resets_shape_witness:
  "\<exists>nd'. jm_get (p_nodes (snd (touch_node (extractNodeDetails (js ''ok''))
       (flow_line (js ''ok{Valid?}'') empty_flow)))) (js ''ok'') = Some nd' \<and>
     n_shape nd' = Rectangle \<and> n_label nd' = js ''Valid?'' \<and> n_className nd' = None"
proof -
  have "jm_get (p_nodes (flow_line (js ''ok{Valid?}'') empty_flow)) (js ''ok'') =
    Some \<lparr>n_id = js ''ok'', n_label = js ''Valid?'', n_shape = Diamond, n_className = None,
      n_style = None, n_subgraphId = None\<rparr>"
    by code_simp
  from plain_mention_resets_shape [OF this] show ?thesis
    by (simp add: id_ch_def jchar_defs)
qed

text \<open>A node first mentioned outside every subgraph and mentioned again inside one takes the
  subgraph's id, and the subgraph's member list stays without it: the back reference and
  the list disagree.\<close>

theorem later_mention_not_listed:
  assumes "jm_get (p_nodes st) i = Some nd" "n_subgraphId nd = None" "p_current st = Some k"
  shows "n_subgraphId (fst (getOrCreateNode i lbl shp cls st)) = Some (sg_id (p_subgraphs st ! k)) \<and>
     p_subgraphs (snd (getOrCreateNode i lbl shp cls st)) = p_subgraphs st"
  using assms
  by (simp add: getOrCreateNode_def update_existing_def Let_def current_id_def split: option.splits)

theorem later_mention_not_listed_witness:
  "map sg_nodeIds (g_subgraphs (parseFlowchart (map js [''graph TD'', ''A'', ''subgraph S'', ''A'', ''end'']))) = [[]] \<and>
   n_subgraphId (fst (getOrCreateNode (js ''A'') None (Some Rectangle) None
     (fold flow_line (map js [''A'', ''subgraph S'']) empty_flow))) = Some (js ''S'')"
proof
  let ?st = "fold flow_line (map js [''A'', ''subgraph S'']) empty_flow"
  have "jm_get (p_nodes ?st) (js ''A'') = Some \<lparr>n_id = js ''A'', n_label = js ''A'', n_shape = Rectangle,
      n_className = None, n_style = None, n_subgraphId = None\<rparr>" "p_current ?st = Some 0"
    "sg_id (p_subgraphs ?st ! 0) = js ''S''"
    by code_simp+
  from later_mention_not_listed [OF this(1) _ this(2)] this(3) show
    "n_subgraphId (fst (getOrCreateNode (js ''A'') None (Some Rectangle) None ?st)) = Some (js ''S'')"
    by simp
  show "map sg_nodeIds (g_subgraphs (parseFlowchart
      (map js [''graph TD'', ''A'', ''subgraph S'', ''A'', ''end'']))) = [[]]"
    by code_simp
qed

end
