(* ===== verification/MermaidEdges.thy ===== *)
theory MermaidEdges
  imports MermaidFlowInv
begin

text \<open>
  The edge lines of a flowchart: what the separator pattern of \<open>parseFlowchart\<close> captures,
  and what an edge line therefore contributes to the graph.
\<close>

definition edge_ops :: "jstr set" where
  "edge_ops = {js ''-->'', js ''-.->'', js ''==>'', js ''---''}"

lemma edge_op_rx_caps:
  assumes "rx_at edge_op_rx q = Some (q', c)"
  shows "\<exists>op \<in> edge_ops. c 1 = Some op"
proof -
  let ?alts = "ralt [rlit (js ''-->''), rlit (js ''-.->''), rlit (js ''==>''), rlit (js ''---''),
       rseq [rlit (js ''-->''), bar_label_rx], rseq [rlit (js ''-.->''), bar_label_rx],
       rseq [rlit (js ''==>''), bar_label_rx], rseq [rlit (js ''---''), bar_label_rx]]"
  let ?K = "run (RStar r_ws) (\<lambda>q c. Some (q, c))"
  have "run (RStar r_ws) (run (RCap 1 ?alts) ?K) q (\<lambda>n. None) = Some (q', c)"
    using assms by (simp add: rx_at_def edge_op_rx_def del: ralt.simps)
  from run_sound [OF this] obtain w t c' where
    "run (RCap 1 ?alts) ?K (rev w @ fst q, t) c' = Some (q', c)" by blast
  then show ?thesis
    by (auto simp: r_ws_def run_star_end or_else_eq_Some starts_with_iff edge_ops_def
        split: if_splits)
qed

subsection \<open>Every edge of every chart is unlabelled\<close>

text \<open>The tokens of a line alternate between text and a captured operator.\<close>

fun odd_all :: "('a \<Rightarrow> bool) \<Rightarrow> 'a list \<Rightarrow> bool" where
  "odd_all P (x # y # zs) = (P y \<and> odd_all P zs)"
| "odd_all P _ = True"

lemma odd_all_split_go:
  "odd_all (\<lambda>x. x \<in> Some ` edge_ops) (rx_split_go edge_op_rx 1 acc p s)"
proof (induction edge_op_rx "1 :: nat" acc p s rule: rx_split_go.induct)
  case (1 acc p s)
  show ?case
  proof (cases s)
    case Nil
    then show ?thesis by (subst rx_split_go.simps) simp
  next
    case (Cons x t)
    show ?thesis
    proof (cases "rx_at edge_op_rx (p, s)")
      case None
      with 1(1) [OF Cons] Cons show ?thesis by (subst rx_split_go.simps) simp
    next
      case (Some m)
      obtain q u c where m: "m = ((q, u), c)" by (metis prod.collapse)
      from edge_op_rx_caps [OF Some [unfolded m]] have "c 1 \<in> Some ` edge_ops" by auto
      then show ?thesis
        using 1(2,3) [OF Cons] Some m Cons by (subst rx_split_go.simps) auto
    qed
  qed
qed

lemma odd_all_map: "odd_all P (map f xs) = odd_all (\<lambda>x. P (f x)) xs"
proof -
  have "Q = (\<lambda>x. P (f x)) \<Longrightarrow> odd_all P (map f xs) = odd_all Q xs" for Q
    by (induction Q xs rule: odd_all.induct) auto
  then show ?thesis by blast
qed

lemma odd_all_mono: "odd_all P xs \<Longrightarrow> (\<And>x. P x \<Longrightarrow> Q x) \<Longrightarrow> odd_all Q xs"
  by (induction P xs rule: odd_all.induct) auto

lemma odd_all_split_edges: "odd_all (\<lambda>x. x \<in> edge_ops) (split_edges line)"
proof -
  have "odd_all (\<lambda>x. x \<in> Some ` edge_ops) (rx_split edge_op_rx 1 line)"
    using odd_all_split_go by (simp add: rx_split_def)
  then show ?thesis unfolding split_edges_def odd_all_map by (rule odd_all_mono) auto
qed

lemma edge_op_plain:
  "edge_op (js ''-->'') = (None, Solid, True)"
  "edge_op (js ''-.->'') = (None, Dashed, True)"
  "edge_op (js ''==>'') = (None, Thick, True)"
  "edge_op (js ''---'') = (None, Solid, False)"
  by (simp_all add: edge_op_def op_label_rx_def rx_match_anchored Let_def)

lemma trim_edge_op: "op \<in> edge_ops \<Longrightarrow> js_trim op = op"
  by (auto simp: edge_ops_def str_defs jchar_defs)

lemma edge_op_unlabelled: "op \<in> edge_ops \<Longrightarrow> fst (edge_op (js_trim op)) = None"
  by (auto simp: trim_edge_op) (auto simp: edge_ops_def edge_op_plain [simplified])

definition unlabelled :: "flow_state \<Rightarrow> bool" where
  "unlabelled st = list_all (\<lambda>e. e_label e = None) (p_edges st)"

lemma getOrCreateNode_edges: "p_edges (snd (getOrCreateNode i lbl shp cls st)) = p_edges st"
  by (simp add: getOrCreateNode_def Let_def split: option.splits)

lemma add_edge_edges:
  "p_edges (add_edge l p r st) = p_edges st @
     [\<lparr>e_from = n_id (fst (touch_node (extractNodeDetails l) st)),
       e_to = n_id (fst (touch_node (extractNodeDetails r) (snd (touch_node (extractNodeDetails l) st)))),
       e_label = fst (edge_op p), e_style = fst (snd (edge_op p)), e_hasArrow = snd (snd (edge_op p))\<rparr>]"
  by (simp add: add_edge_def touch_node_def getOrCreateNode_edges split: prod.splits)
    (metis getOrCreateNode_edges snd_conv)

lemma edge_tokens_unlabelled:
  "odd_all (\<lambda>x. x \<in> edge_ops) ts \<Longrightarrow> unlabelled st \<Longrightarrow> unlabelled (snd (edge_tokens ts (b, st)))"
proof (induction ts "(b, st)" arbitrary: b st rule: edge_tokens.induct)
  case (1 l p r rest b st)
  from 1(2) have p: "p \<in> edge_ops" "odd_all (\<lambda>x. x \<in> edge_ops) (r # rest)"
    by (auto elim: odd_all.elims)
  have "unlabelled (add_edge (js_trim l) (js_trim p) (js_trim r) st)"
    using 1(3) edge_op_unlabelled [OF p(1)] by (simp add: unlabelled_def add_edge_edges)
  with 1(1) [OF refl refl refl _ p(2)] 1(3) show ?case by (auto simp: Let_def)
qed auto

lemma assign_class_edges: "p_edges (assign_class cn i st) = p_edges st"
  by (simp add: assign_class_def split: prod.splits) (metis getOrCreateNode_edges snd_conv)

lemma fold_assign_class_edges: "p_edges (fold (assign_class cn) ids st) = p_edges st"
  by (induction ids arbitrary: st) (simp_all add: assign_class_edges)

lemma flow_line_unlabelled: "unlabelled st \<Longrightarrow> unlabelled (flow_line line st)"
proof -
  assume u: "unlabelled st"
  have "unlabelled (node_or_edge_line line st)"
    using edge_tokens_unlabelled [OF odd_all_split_edges u, of line False]
    by (auto simp: node_or_edge_line_def unlabelled_def touch_node_def getOrCreateNode_edges Let_def
        split: prod.splits)
  with u show ?thesis
    by (auto simp: flow_line_def unlabelled_def open_subgraph_def Let_def fold_assign_class_edges
        split: option.splits)
qed

interpretation unlabelled: event_machine flow_line unlabelled "\<lambda>_ _. True"
  by unfold_locales (simp_all add: flow_line_unlabelled)

subsection \<open>Reading back a chain of edges\<close>

text \<open>A token no separator starts in: it contains none of the operators and does not end in a unit an
  operator could have begun with.\<close>

definition op_free :: "jstr \<Rightarrow> bool" where
  "op_free t = (t \<noteq> [] \<and> last t \<notin> {45, 46, 61} \<and> (\<forall>op \<in> edge_ops. \<not> js_includes t op))"

definition edge_free :: "jstr \<Rightarrow> bool" where
  "edge_free t = (op_free t \<and> trimmed t)"

lemma includes_tail: "js_includes v p \<Longrightarrow> js_includes (u @ v) p"
  unfolding js_includes_iff by (metis append.assoc)

lemma op_free_tail: "op_free (u @ v) \<Longrightarrow> v \<noteq> [] \<Longrightarrow> op_free v"
  using includes_tail by (auto simp: op_free_def)

lemma op_free_start:
  assumes "op_free v" "op \<in> edge_ops"
  shows "\<not> starts_with (v @ rest) op"
proof
  assume "starts_with (v @ rest) op"
  then obtain t where "v @ rest = op @ t" by (auto simp: starts_with_iff)
  then obtain u where "v = op @ u \<or> op = v @ u" by (auto simp: append_eq_append_conv2)
  then consider u where "v = op @ u" | u where "op = v @ u" "u \<noteq> []" by (metis append_Nil2)
  then show False
  proof cases
    case 1
    then have "v = [] @ op @ u" by simp
    then have "js_includes v op" unfolding js_includes_iff by blast
    then show False using assms by (simp add: op_free_def)
  next
    case 2
    then show False using assms
      by (auto simp: edge_ops_def op_free_def append_eq_Cons_conv split: if_splits)
  qed
qed

text \<open>A chain: a first token, then links of white space, operator, white space and token.\<close>

type_synonym link = "jstr \<times> jstr \<times> jstr \<times> jstr"

fun chain_text :: "jstr \<Rightarrow> link list \<Rightarrow> jstr" where
  "chain_text a [] = a"
| "chain_text a ((v, op, w, b) # r) = a @ v @ op @ w @ chain_text b r"

definition chain_ok :: "jstr \<Rightarrow> link list \<Rightarrow> bool" where
  "chain_ok a r = (edge_free a \<and>
     list_all (\<lambda>(v, op, w, b). list_all is_ws (v @ w) \<and> op \<in> edge_ops \<and> edge_free b) r)"

abbreviation edge_alts :: rx where
  "edge_alts \<equiv> ralt [rlit (js ''-->''), rlit (js ''-.->''), rlit (js ''==>''), rlit (js ''---''),
       rseq [rlit (js ''-->''), bar_label_rx], rseq [rlit (js ''-.->''), bar_label_rx],
       rseq [rlit (js ''==>''), bar_label_rx], rseq [rlit (js ''---''), bar_label_rx]]"

lemma edge_op_rx_None:
  assumes v: "op_free v" "\<not> is_ws (last v)"
  shows "rx_at edge_op_rx (p, v @ rest) = None"
proof -
  have v0: "v \<noteq> []" using v(1) by (simp add: op_free_def)
  have "run (RStar (RChr is_ws)) (run (RCap 1 edge_alts) (run (RStar r_ws) (\<lambda>q c. Some (q, c))))
      (p, v @ rest) (\<lambda>n. None) = None"
  proof (rule run_star_None)
    fix u z assume uz: "v @ rest = u @ z" "\<forall>x \<in> set u. is_ws x"
    from uz(1) consider v' where "v = u @ v'" "z = v' @ rest" | u' where "u = v @ u'"
      by (auto simp: append_eq_append_conv2)
    then have "\<exists>v'. z = v' @ rest \<and> op_free v'"
    proof cases
      case (1 v')
      have "v' \<noteq> []" using 1 v v0 uz(2) by auto
      then show ?thesis using 1 v(1) op_free_tail by blast
    next
      case (2 u')
      then have "is_ws (last v)" using uz(2) v0 by simp
      with v(2) show ?thesis by simp
    qed
    then have "\<forall>op \<in> edge_ops. \<not> starts_with z op" using op_free_start by blast
    then show "run (RCap 1 edge_alts) (run (RStar r_ws) (\<lambda>q c. Some (q, c))) (rev u @ p, z) (\<lambda>n. None) = None"
      by (simp add: bar_label_rx_def edge_ops_def)
  qed
  then show ?thesis by (simp add: rx_at_def edge_op_rx_def r_ws_def del: ralt.simps run.simps(7))
qed

lemma edge_op_rx_Some:
  assumes op: "op \<in> edge_ops" and v: "\<forall>x \<in> set v. is_ws x" and w: "\<forall>x \<in> set w. is_ws x"
    and b: "\<not> is_ws b"
  shows "\<exists>p' c. rx_at edge_op_rx (p, v @ op @ w @ b # rest) = Some ((p', b # rest), c) \<and> c 1 = Some op"
proof -
  let ?K = "run (RStar r_ws) (\<lambda>q c. Some (q, c))"
  have "takeWhile is_ws (w @ b # rest) = w" "dropWhile is_ws (w @ b # rest) = b # rest"
    using w b by simp_all
  then have k: "?K (q, w @ b # rest) c = Some ((rev w @ q, b # rest), c)" for q c
    by (simp add: r_ws_def run_star_end)
  have "run (RCap 1 edge_alts) ?K (rev v @ p, op @ w @ b # rest) (\<lambda>n. None) =
      Some ((rev w @ rev op @ rev v @ p, b # rest), [1 \<mapsto> op])"
    using op by (auto simp: edge_ops_def k)
  then have "run (RStar (RChr is_ws)) (run (RCap 1 edge_alts) ?K) (p, v @ op @ w @ b # rest) (\<lambda>n. None) =
      Some ((rev w @ rev op @ rev v @ p, b # rest), [1 \<mapsto> op])"
    by (intro run_star_first) (use op v in \<open>auto simp: edge_ops_def is_ws_def\<close>)
  then show ?thesis
    by (simp add: rx_at_def edge_op_rx_def r_ws_def del: ralt.simps run.simps(7))
qed

lemma split_go_token:
  assumes "op_free v" "\<not> is_ws (last v)"
  shows "rx_split_go edge_op_rx 1 acc p (v @ rest) = rx_split_go edge_op_rx 1 (rev v @ acc) (rev v @ p) rest"
  using assms
proof (induction v arbitrary: acc p)
  case (Cons x v)
  have "rx_at edge_op_rx (p, x # v @ rest) = None"
    using edge_op_rx_None [OF Cons.prems, of p rest] by simp
  then have "rx_split_go edge_op_rx 1 acc p (x # v @ rest) = rx_split_go edge_op_rx 1 (x # acc) (x # p) (v @ rest)"
    by (subst rx_split_go.simps) simp
  with Cons op_free_tail [of "[x]" v] show ?case by (cases "v = []") auto
qed (simp add: op_free_def)

lemma split_go_chain:
  "chain_ok a r \<Longrightarrow> rx_split_go edge_op_rx 1 [] p (chain_text a r) =
     Some a # concat (map (\<lambda>(v, op, w, b). [Some op, Some b]) r)"
proof (induction a r arbitrary: p rule: chain_text.induct)
  case (1 a)
  then have "rx_split_go edge_op_rx 1 [] p (a @ []) = rx_split_go edge_op_rx 1 (rev a) (rev a @ p) []"
    by (subst split_go_token) (auto simp: chain_ok_def edge_free_def op_free_def trimmed_def)
  then show ?case by (subst (asm) (2) rx_split_go.simps) simp
next
  case (2 a v op w b r)
  have a: "op_free a" "\<not> is_ws (last a)"
    and op: "op \<in> edge_ops" "\<forall>x \<in> set v. is_ws x" "\<forall>x \<in> set w. is_ws x"
    and b: "edge_free b" and r: "chain_ok b r"
    using 2(2) by (auto simp: chain_ok_def edge_free_def op_free_def trimmed_def list_all_iff)
  obtain x t where x: "chain_text b r = x # t" "\<not> is_ws x"
    using b by (cases b; cases r) (auto simp: edge_free_def op_free_def trimmed_def)
  obtain p' c where m: "rx_at edge_op_rx (rev a @ p, v @ op @ w @ x # t) = Some ((p', x # t), c)"
    "c 1 = Some op" using edge_op_rx_Some [OF op x(2), of "rev a @ p" t] by blast
  have "rx_split_go edge_op_rx 1 [] p (chain_text a ((v, op, w, b) # r)) =
     rx_split_go edge_op_rx 1 (rev a) (rev a @ p) (v @ op @ w @ x # t)"
    using split_go_token [OF a, of "[]" p "v @ op @ w @ x # t"] x by simp
  also have "\<dots> = Some a # Some op # rx_split_go edge_op_rx 1 [] p' (x # t)"
  proof -
    obtain y z where yz: "v @ op @ w @ x # t = y # z" by (cases "v @ op @ w @ x # t") auto
    have "length (x # t) < length (v @ op @ w @ x # t)" using op(1) by (auto simp: edge_ops_def)
    with m yz show ?thesis by (subst rx_split_go.simps) simp
  qed
  finally show ?case using 2(1) [OF r, of p'] x by simp
qed

lemma split_edges_chain:
  "chain_ok a r \<Longrightarrow> split_edges (chain_text a r) = a # concat (map (\<lambda>(v, op, w, b). [op, b]) r)"
proof -
  assume ok: "chain_ok a r"
  have "chain_text a r \<noteq> []"
    using ok by (cases r) (auto simp: chain_ok_def edge_free_def op_free_def)
  then show ?thesis
    using split_go_chain [OF ok, of "[]"]
    by (simp add: split_edges_def rx_split_def map_concat comp_def case_prod_unfold)
qed

text \<open>The edges a chain stands for.\<close>

fun chain_edges :: "jstr \<Rightarrow> link list \<Rightarrow> flow_edge list" where
  "chain_edges a [] = []"
| "chain_edges a ((v, op, w, b) # r) =
     \<lparr>e_from = d_id (extractNodeDetails a), e_to = d_id (extractNodeDetails b), e_label = None,
      e_style = (if op = js ''-.->'' then Dashed else if op = js ''==>'' then Thick else Solid),
      e_hasArrow = (op \<noteq> js ''---'')\<rparr> # chain_edges b r"

fun chain_run :: "jstr \<Rightarrow> link list \<Rightarrow> flow_state \<Rightarrow> flow_state" where
  "chain_run a [] st = st"
| "chain_run a ((v, op, w, b) # r) st = chain_run b r (add_edge a op b st)"

lemma edge_tokens_chain:
  "chain_ok a r \<Longrightarrow> edge_tokens (a # concat (map (\<lambda>(v, op, w, b). [op, b]) r)) (h, st) =
     (h \<or> r \<noteq> [], chain_run a r st)"
proof (induction a r arbitrary: h st rule: chain_text.induct)
  case (2 a v op w b r)
  then have "js_trim a = a" "js_trim b = b" "a \<noteq> []" "b \<noteq> []" "op \<noteq> []" "js_trim op = op" "chain_ok b r"
    by (auto simp: chain_ok_def edge_free_def op_free_def trim_edge_op) (auto simp: edge_ops_def)
  with 2 show ?case by (simp add: Let_def)
qed simp

lemma touch_node_id: "flow_inv st \<Longrightarrow> n_id (fst (touch_node d st)) = d_id d"
  using getOrCreateNode_ok(3) [of st "d_id d" "d_label d" "d_shape d" "d_className d"
      "fst (touch_node d st)" "snd (touch_node d st)"]
  by (simp add: touch_node_def)

lemma touch_node_inv: "flow_inv st \<Longrightarrow> flow_inv (snd (touch_node d st))"
  using getOrCreateNode_ok(1) [of st "d_id d" "d_label d" "d_shape d" "d_className d"
      "fst (touch_node d st)" "snd (touch_node d st)"]
  by (simp add: touch_node_def)

lemma chain_run_edges:
  "chain_ok a r \<Longrightarrow> flow_inv st \<Longrightarrow> p_edges (chain_run a r st) = p_edges st @ chain_edges a r"
proof (induction a r arbitrary: st rule: chain_text.induct)
  case (2 a v op w b r)
  have op: "op \<in> edge_ops" and r: "chain_ok b r"
    using 2(2) by (auto simp: chain_ok_def)
  have "p_edges (add_edge a op b st) = p_edges st @ chain_edges a [(v, op, w, b)]"
    using op by (auto simp: add_edge_edges touch_node_id touch_node_inv 2(3) edge_ops_def
        edge_op_plain [simplified])
  with 2(1) [OF r, of "add_edge a op b st"] add_edge_ok [OF 2(3)] show ?case by simp
qed simp

lemma starts_with_word:
  "starts_with (x @ d # y) kw \<Longrightarrow> d \<notin> set kw \<Longrightarrow> starts_with x kw"
  by (auto simp: starts_with_iff append_eq_append_conv2 Cons_eq_append_conv)

definition no_keyword :: "jstr \<Rightarrow> bool" where
  "no_keyword a = (\<not> starts_with (to_upper a) (js ''SUBGRAPH'') \<and> \<not> starts_with (to_upper a) (js ''CLASS''))"

lemma chain_not_keyword:
  assumes "no_keyword a" "r \<noteq> []" "kw \<in> {js ''SUBGRAPH'', js ''CLASS'', js ''CLASSDEF''}"
    and "chain_ok a r"
  shows "\<not> starts_with (map upper_unit (chain_text a r)) kw"
proof
  assume sw: "starts_with (map upper_unit (chain_text a r)) kw"
  obtain v op w b r' where r: "r = (v, op, w, b) # r'" using assms(2) by (cases r) auto
  have vo: "\<forall>x \<in> set (v @ op). is_ws x \<or> x = 45 \<or> x = 61 \<or> x = 62 \<or> x = 46" "v @ op \<noteq> []"
    using assms(4) r by (auto simp: chain_ok_def list_all_iff edge_ops_def)
  obtain d y where d: "v @ op = d # y" using vo(2) by (cases "v @ op") auto
  have "is_ws d \<or> d = 45 \<or> d = 61 \<or> d = 62 \<or> d = 46" using vo(1) unfolding d by simp
  then have kw: "upper_unit d \<notin> set kw"
    using assms(3) by (auto simp: jchar_defs upper_unit_def)
  have "map upper_unit (chain_text a r) =
     map upper_unit a @ upper_unit d # map upper_unit (y @ w @ chain_text b r')"
    using r arg_cong [OF d, of "map upper_unit"] by simp
  with sw have "starts_with (map upper_unit a @ upper_unit d # map upper_unit (y @ w @ chain_text b r')) kw"
    by simp
  then have "starts_with (to_upper a) kw"
    using starts_with_word [OF _ kw] unfolding to_upper_def by blast
  then show False
    using assms(1,3) by (auto simp: no_keyword_def starts_with_iff)
qed

lemma chain_not_end:
  assumes "chain_ok a r" "r \<noteq> []"
  shows "\<not> rx_test end_rx (chain_text a r)"
proof -
  obtain v op w b r' where r: "r = (v, op, w, b) # r'" using assms(2) by (cases r) auto
  have "a \<noteq> []" "op \<in> edge_ops" using assms r by (auto simp: chain_ok_def edge_free_def op_free_def)
  then have "3 < length (chain_text a r)" using r by (cases a) (auto simp: edge_ops_def)
  then show ?thesis by (simp add: rx_test_def end_rx_def rx_exec_anchored)
qed

lemma flow_line_chain:
  assumes "chain_ok a r" "r \<noteq> []" "no_keyword a"
  shows "flow_line (chain_text a r) st = chain_run a r st"
proof -
  note kw = chain_not_keyword [OF assms(3,2)]
  have "\<not> starts_with (map upper_unit (chain_text a r)) (js ''SUBGRAPH'')"
    "\<not> starts_with (map upper_unit (chain_text a r)) (js ''CLASS'')"
    "\<not> starts_with (map upper_unit (chain_text a r)) (js ''CLASSDEF'')"
    by (rule kw [OF _ assms(1)], simp)+
  then have "rx_match subgraph_rx (chain_text a r) = None" "rx_match classDef_rx (chain_text a r) = None"
    "rx_match classAssign_rx (chain_text a r) = None"
    by (simp_all add: subgraph_rx_def classDef_rx_def classAssign_rx_def rx_match_anchored
        upper_unit_def is_lower_def)
  moreover have "node_or_edge_line (chain_text a r) st = chain_run a r st"
    using split_edges_chain [OF assms(1)] edge_tokens_chain [OF assms(1), of False st] assms(2)
    by (simp add: node_or_edge_line_def)
  ultimately show ?thesis
    using chain_not_end [OF assms(1,2)] by (simp add: flow_line_def)
qed

text \<open>C8: A line that chains tokens by edge operators without labels, with any white space around them, adds exactly
  the edges of the chain, in order, after the edges already there: from each token's node to the next
  one's, dashed for \<open>-.->\<close>, thick for \<open>==>\<close>, without an arrow head for \<open>---\<close>. There is at least
  one operator; a token is not empty, has no white space at its ends, contains none of the four operators
  and does not end in \<open>-\<close>, \<open>.\<close> or \<open>=\<close> (\<open>a--->b\<close> is split after the third hyphen); the line does not begin with
  \<open>subgraph\<close> or \<open>class\<close>, which the parser tries before the edges. The state satisfies the
  parser's invariant \<open>flow_inv\<close>, which every state reached while parsing does.\<close>

theorem flow_line_chain_edges:
  assumes "flow_inv st" "chain_ok a r" "r \<noteq> []" "no_keyword a"
  shows "p_edges (flow_line (chain_text a r) st) = p_edges st @ chain_edges a r"
  using flow_line_chain [OF assms(2-4)] chain_run_edges [OF assms(2,1)] by simp

theorem flow_line_chain_edges_witness:
  "p_edges (flow_line (js ''A[Sign-in = ok] --> B{ok?}-.-> '' @ [9] @ js ''C'') empty_flow) =
     [\<lparr>e_from = js ''A'', e_to = js ''B'', e_label = None, e_style = Solid, e_hasArrow = True\<rparr>,
      \<lparr>e_from = js ''B'', e_to = js ''C'', e_label = None, e_style = Dashed, e_hasArrow = True\<rparr>]"
proof -
  have "chain_ok (js ''A[Sign-in = ok]'') [([32], js ''-->'', [32], js ''B{ok?}''), ([], js ''-.->'', [32, 9], js ''C'')]"
    "no_keyword (js ''A[Sign-in = ok]'')"
    by code_simp+
  from flow_line_chain_edges [OF flow_inv_empty this(1) _ this(2)] show ?thesis
    by code_simp
qed

text \<open>No edge of any flowchart has a label. The separator pattern of the edge lines offers
  the bare operators before the labelled ones, so a label is never part of the captured
  operator.\<close>

theorem parseFlowchart_unlabelled:
  "list_all (\<lambda>e. e_label e = None) (g_edges (parseFlowchart lines))"
proof -
  have "unlabelled empty_flow" by (simp add: unlabelled_def empty_flow_def)
  from unlabelled.inv_fold [OF this] show ?thesis
    unfolding parseFlowchart_def Let_def unlabelled_def by simp
qed

text \<open>A token's operator with its label, as the code reads it: a bar-delimited text after
  the operator is the edge's label, without its quotes, and the operator alone decides
  the style and the arrow head.\<close>

theorem edge_op_labelled:
  assumes "op \<in> edge_ops" "l \<noteq> []" "124 \<notin> set l"
  shows "edge_op (op @ [124] @ l @ [124]) = (Some (cleanLabel l), snd (edge_op op))"
proof -
  let ?K = "run (rseq [rlit (js ''|''), REos]) (\<lambda>q c. Some (q, c))"
  have lbl: "run (RCap 2 (rplus (RChr (\<lambda>c. c \<noteq> 124)))) ?K (p, l @ [124]) c =
      Some ((124 # rev l @ p, []), c(2 \<mapsto> l))" for p c
  proof -
    have "run (RCap 2 (rplus (RChr (\<lambda>c. c \<noteq> 124)))) ?K (p, l @ [124]) c =
      ?K (rev l @ p, [124]) (c(2 \<mapsto> l))"
      by (rule run_cap_plus_max) (use assms in auto)
    then show ?thesis by simp
  qed
  have alts: "run (RCap 1 (ralt [rlit (js ''-->''), rlit (js ''-.->''), rlit (js ''==>''), rlit (js ''---'')]))
      K ([], op @ s) (\<lambda>n. None) = K (rev op, s) [1 \<mapsto> op]" for K :: "pos \<Rightarrow> caps \<Rightarrow> (pos \<times> caps) option" and s
    using assms(1) by (auto simp: edge_ops_def)
  have "run (rseq [RCap 1 (ralt [rlit (js ''-->''), rlit (js ''-.->''), rlit (js ''==>''), rlit (js ''---'')]),
     rlit (js ''|''), RCap 2 (rplus (RChr (\<lambda>c. c \<noteq> 124))), rlit (js ''|''), REos]) (\<lambda>q c. Some (q, c))
     ([], op @ 124 # l @ [124]) (\<lambda>n. None) = Some ((124 # rev l @ 124 # rev op, []), [1 \<mapsto> op, 2 \<mapsto> l])"
    using lbl [of "124 # rev op" "[1 \<mapsto> op]"]
    by (simp only: run_seq_list alts) (simp only: run_lit, simp del: run_plus run.simps(7))
  then obtain c where "rx_match op_label_rx (op @ [124] @ l @ [124]) = Some c" "c 1 = Some op" "c 2 = Some l"
    by (simp add: op_label_rx_def rx_match_anchored del: run_seq_list ralt.simps)
  moreover have "rx_match op_label_rx op = None"
    using assms(1) by (auto simp: edge_ops_def op_label_rx_def rx_match_anchored)
  ultimately show ?thesis by (simp add: edge_op_def cap_def Let_def)
qed

theorem edge_op_labelled_witness:
  "edge_op (js ''-.->|\"Cast Error\"|'') = (Some (js ''Cast Error''), Dashed, True)"
proof -
  have "edge_op (js ''-.->'' @ [124] @ js ''\"Cast Error\"'' @ [124]) =
     (Some (cleanLabel (js ''\"Cast Error\"'')), snd (edge_op (js ''-.->'')))"
    by (rule edge_op_labelled) (simp_all add: edge_ops_def)
  then show ?thesis
    by (simp add: edge_op_plain [simplified] cleanLabel_def str_defs jchar_defs)
qed

end
