(* ===== verification/MermaidText.thy ===== *)
theory MermaidText
  imports MermaidNode
begin

text \<open>
  The text-level functions of the parser: \<open>sanitizeMermaidText\<close> on fenced code, and
  \<open>parseStyleDef\<close> read back from the text of a style.
\<close>

subsection \<open>Fences\<close>

text \<open>A pattern that starts with a literal unit is not found where the unit is absent.\<close>

lemma rx_search_skip:
  assumes "\<And>p y s. y \<noteq> x \<Longrightarrow> rx_at r (p, y # s) = None" "x \<notin> set u" "t \<noteq> []"
  shows "rx_search r p (u @ t) = rx_search r (rev u @ p) t"
  using assms(2) by (induction u arbitrary: p) (auto simp: assms(1))

lemma rx_search_absent:
  assumes "\<And>p y s. y \<noteq> x \<Longrightarrow> rx_at r (p, y # s) = None" "\<And>p. rx_at r (p, []) = None" "x \<notin> set u"
  shows "rx_search r p u = None"
  using assms(3) by (induction u arbitrary: p) (auto simp: assms(1,2))

lemma fence_close_start:
  "y \<noteq> 96 \<Longrightarrow> rx_at fence_close_rx (p, y # s) = None" "rx_at fence_close_rx (p, []) = None"
  by (simp_all add: rx_at_def fence_close_rx_def)

lemma strip_fences_plain:
  assumes "trimmed code" "96 \<notin> set code" "\<not> starts_with code (js ''mermaid'')"
  shows "strip_fences code = code"
proof -
  have "rx_exec fence_open_rx code = None"
    using assms(2) by (auto simp: fence_open_rx_def rx_exec_anchored starts_with_iff)
  moreover have "rx_exec fence_close_rx code = None"
    using rx_search_absent [of 96 fence_close_rx code "[]"] fence_close_start assms(2)
    by (simp add: rx_exec_def)
  moreover have "\<not> starts_with code (js ''mermaid'' @ x)" for x
    using assms(3) by (auto simp: starts_with_iff)
  ultimately show ?thesis
    using assms(1) by (simp add: strip_fences_def rx_replace_def Let_def del: js_Cons)
qed

text \<open>Fenced chart text is read as the code between the fences: \<open>sanitizeMermaidText\<close> maps a
  block that opens with three backquotes and \<open>mermaid\<close> in any letter case, and closes with
  three backquotes, to what it maps the bare code to.\<close>

theorem sanitize_fenced:
  assumes "trimmed code" "code \<noteq> []" "96 \<notin> set code" "\<not> starts_with code (js ''mermaid'')"
    and "to_upper tag = js ''MERMAID''" "list_all is_ws v" "list_all is_ws w"
  shows "sanitizeMermaidText (js ''```'' @ tag @ [10] @ v @ code @ w @ [10] @ js ''```'') =
    sanitizeMermaidText code"
proof -
  let ?close = "w @ [10] @ js ''```''"
  let ?t = "js ''```'' @ tag @ [10] @ v @ code @ ?close"
  have "length (to_upper tag) = length (js ''MERMAID'')" by (simp only: assms(5))
  then have tag: "length tag = 7" "map upper_unit tag = js ''MERMAID''"
    using assms(5) by (simp_all add: to_upper_def)
  obtain m tag' where m: "tag = m # tag'" "\<not> is_ws m"
    using assms(5) by (cases tag) (auto simp: to_upper_def upper_unit_def jchar_defs split: if_splits)
  have code: "\<not> is_ws (hd code)" "\<not> is_ws (last code)" using assms(1,2) by (simp_all add: trimmed_def)
  have v: "\<forall>x \<in> set v. is_ws x" and w: "\<forall>x \<in> set w. is_ws x" using assms(6,7) by (simp_all add: list_all_iff)
  have nl: "is_ws 10" by (simp add: is_ws_def)
  have upper: "upper_unit 109 = 77" "upper_unit 101 = 69" "upper_unit 114 = 82" "upper_unit 97 = 65"
    "upper_unit 105 = 73" "upper_unit 100 = 68" by (simp_all add: upper_unit_def is_lower_def)
  have ws: "run (RStar (RChr is_ws)) (\<lambda>q c. Some (q, c)) (p, (10 # v) @ code @ ?close) c =
      Some ((rev (10 # v) @ p, code @ ?close), c)" for p c
    by (rule run_star_first) (use code v nl assms(2) in auto)
  have lit: "run (RStar (RChr is_ws)) K (p, m # s) c = K (p, m # s) c" for K :: "pos \<Rightarrow> caps \<Rightarrow> (pos \<times> caps) option" and p s c
    using m(2) by simp
  have "run (rseq [rlit (js ''```''), RStar r_ws, rlit_i (js ''mermaid''), RStar r_ws]) (\<lambda>q c. Some (q, c))
      ([], ?t) (\<lambda>n. None) = Some ((rev (10 # v) @ rev tag @ rev (js ''```''), code @ ?close), \<lambda>n. None)"
    using ws [of "rev tag @ rev (js ''```'')" "\<lambda>n. None"] lit tag m upper
    by (simp add: r_ws_def del: run_star_class)
  then have open1: "rx_replace fence_open_rx (\<lambda>_ _. []) ?t = code @ ?close"
    by (simp add: rx_replace_def fence_open_rx_def rx_exec_anchored del: run_seq_list)
  have "rx_search fence_close_rx [] ((code @ w @ [10]) @ js ''```'') =
     rx_search fence_close_rx (rev (code @ w @ [10]) @ []) (js ''```'')"
    by (rule rx_search_skip) (use fence_close_start(1) assms(3) w in \<open>auto simp: is_ws_def\<close>)
  then have close1: "rx_replace fence_close_rx (\<lambda>_ _. []) (code @ ?close) = code @ w @ [10]"
    by (simp add: rx_replace_def rx_exec_def rx_at_def fence_close_rx_def r_ws_def)
  have "trimmed ?t" by (simp add: trimmed_def is_ws_def)
  moreover have "js_trim (code @ w @ [10]) = code"
  proof -
    have "trim_start (code @ w @ [10]) = code @ w @ [10]" using code assms(2) by (simp add: dropWhile_ws_id)
    moreover have "dropWhile is_ws (rev w @ rev code) = rev code"
      using w code assms(2) by (subst dropWhile_append2) (auto simp: dropWhile_eq_self_iff hd_rev)
    ultimately show ?thesis by (simp add: js_trim_def trim_end_def nl)
  qed
  ultimately have "strip_fences ?t = code"
    using open1 close1 assms(4) by (auto simp: strip_fences_def Let_def starts_with_iff simp del: js_Cons)
  then show ?thesis
    using strip_fences_plain [OF assms(1,3,4)] by (simp add: sanitizeMermaidText_def del: js_Cons)
qed

theorem sanitize_fenced_witness:
  "sanitizeMermaidText (js ''```Mermaid'' @ [10] @ js ''graph TD'' @ [10] @ js ''A&gt;b]'' @ [32, 10] @ js ''```'') =
     js ''graph TD'' @ [10] @ js ''A>b]''"
proof -
  let ?code = "js ''graph TD'' @ [10] @ js ''A&gt;b]''"
  have "sanitizeMermaidText (js ''```'' @ js ''Mermaid'' @ [10] @ [] @ ?code @ [32] @ [10] @ js ''```'') =
    sanitizeMermaidText ?code"
    by (rule sanitize_fenced) (simp_all add: str_defs trimmed_def jchar_defs)
  moreover have "sanitizeMermaidText ?code = js ''graph TD'' @ [10] @ js ''A>b]''" by code_simp
  ultimately show ?thesis by simp
qed

subsection \<open>Style strings\<close>

text \<open>Splitting by a class of units.\<close>

fun split_pred :: "(jchar \<Rightarrow> bool) \<Rightarrow> jstr \<Rightarrow> jstr list" where
  "split_pred f [] = [[]]"
| "split_pred f (c # s) =
     (if f c then [] # split_pred f s
      else (case split_pred f s of [] \<Rightarrow> [[c]] | w # ws \<Rightarrow> (c # w) # ws))"

lemma split_pred_nonempty [simp]: "split_pred f s \<noteq> []"
  by (induction s) (auto split: list.splits)

lemma split_go_class:
  "rx_split_go (RChr f) 0 acc p s =
     map Some ((rev acc @ hd (split_pred f s)) # tl (split_pred f s))"
proof (induction s arbitrary: acc p)
  case Nil
  show ?case by (subst rx_split_go.simps) simp
next
  case (Cons x s)
  obtain w ws where e: "split_pred f s = w # ws" by (metis neq_Nil_conv split_pred_nonempty)
  show ?case
    by (subst rx_split_go.simps) (simp add: rx_at_def Cons e)
qed

lemma split_class_pred: "split_class f s = split_pred f s"
proof (cases "s = []")
  case True
  then show ?thesis by (simp add: split_class_def rx_split_def rx_at_def)
next
  case False
  then show ?thesis by (simp add: split_class_def rx_split_def split_go_class comp_def)
qed

lemma split_pred_free: "\<forall>c \<in> set w. \<not> f c \<Longrightarrow> split_pred f w = [w]"
  by (induction w) auto

lemma split_pred_append: "\<forall>c \<in> set w. \<not> f c \<Longrightarrow> f d \<Longrightarrow> split_pred f (w @ d # s) = w # split_pred f s"
  by (induction w) auto

lemma split_pred_join:
  "f d \<Longrightarrow> ws \<noteq> [] \<Longrightarrow> \<forall>w \<in> set ws. \<forall>c \<in> set w. \<not> f c \<Longrightarrow> split_pred f (js_join [d] ws) = ws"
  by (induction "[d]" ws rule: js_join.induct) (auto simp: split_pred_free split_pred_append)

definition style_value_ok :: "jstr option \<Rightarrow> bool" where
  "style_value_ok x = (case x of None \<Rightarrow> True
     | Some v \<Rightarrow> v \<noteq> [] \<and> trimmed v \<and> list_all (\<lambda>c. c \<noteq> 44 \<and> c \<noteq> 59 \<and> c \<noteq> 58) v)"

definition style_field :: "jstr \<Rightarrow> jstr option \<Rightarrow> jstr list" where
  "style_field k x = (case x of None \<Rightarrow> [] | Some v \<Rightarrow> [k @ [58] @ v])"

text \<open>The text of a style: its fields under the keys of a \<open>classDef\<close> line, joined by \<open>d\<close>.\<close>

definition style_text :: "jchar \<Rightarrow> style_def \<Rightarrow> jstr" where
  "style_text d st = js_join [d]
     (style_field (js ''fill'') (fill st) @ style_field (js ''stroke'') (stroke st) @
      style_field (js ''stroke-width'') (strokeWidth st) @ style_field (js ''color'') (color st) @
      style_field (js ''rx'') (borderRadius st))"

lemma split_pair:
  assumes "v \<noteq> []" "trimmed v" "58 \<notin> set v" "58 \<notin> set k" "trimmed k"
  shows "map js_trim (split_char 58 (k @ 58 # v)) = [k, v]"
  using assms by (simp add: split_char_append split_char_free)

lemma style_pair_set:
  assumes "v \<noteq> []" "trimmed v" "58 \<notin> set v"
  shows "style_pair st (js ''fill'' @ 58 # v) = st\<lparr>fill := Some v\<rparr>"
    "style_pair st (js ''stroke'' @ 58 # v) = st\<lparr>stroke := Some v\<rparr>"
    "style_pair st (js ''stroke-width'' @ 58 # v) = st\<lparr>strokeWidth := Some v\<rparr>"
    "style_pair st (js ''color'' @ 58 # v) = st\<lparr>color := Some v\<rparr>"
    "style_pair st (js ''rx'' @ 58 # v) = st\<lparr>borderRadius := Some v\<rparr>"
proof -
  note sp = split_pair [OF assms]
  show "style_pair st (js ''fill'' @ 58 # v) = st\<lparr>fill := Some v\<rparr>"
    "style_pair st (js ''stroke'' @ 58 # v) = st\<lparr>stroke := Some v\<rparr>"
    "style_pair st (js ''stroke-width'' @ 58 # v) = st\<lparr>strokeWidth := Some v\<rparr>"
    "style_pair st (js ''color'' @ 58 # v) = st\<lparr>color := Some v\<rparr>"
    "style_pair st (js ''rx'' @ 58 # v) = st\<lparr>borderRadius := Some v\<rparr>"
    using assms(1) sp [of "js ''fill''"] sp [of "js ''stroke''"] sp [of "js ''stroke-width''"]
      sp [of "js ''color''"] sp [of "js ''rx''"]
    by (simp_all add: style_pair_def Let_def trimmed_def is_ws_def to_lower_def lower_unit_def is_upper_def)
qed

text \<open>A style is read back from its text, with either separator: \<open>parseStyleDef\<close> maps the
  fields of a style, written under the keys of a \<open>classDef\<close> line and joined by commas or by
  semicolons, back to that style.\<close>

theorem parseStyleDef_roundtrip:
  assumes "d = 44 \<or> d = 59"
    and "list_all style_value_ok [fill st, stroke st, strokeWidth st, color st, borderRadius st]"
  shows "parseStyleDef (style_text d st) = st"
proof -
  let ?f = "\<lambda>c :: jchar. c = 44 \<or> c = 59"
  let ?ps = "style_field (js ''fill'') (fill st) @ style_field (js ''stroke'') (stroke st) @
      style_field (js ''stroke-width'') (strokeWidth st) @ style_field (js ''color'') (color st) @
      style_field (js ''rx'') (borderRadius st)"
  have free: "\<forall>w \<in> set ?ps. \<forall>c \<in> set w. \<not> ?f c"
    using assms(2) by (auto simp: style_field_def style_value_ok_def list_all_iff split: option.splits)
  have "foldl style_pair empty_style (split_class ?f (js_join [d] ?ps)) = foldl style_pair empty_style ?ps"
  proof (cases "?ps = []")
    case True
    then show ?thesis by (simp add: split_class_pred style_pair_def js_trim_def trim_start_def trim_end_def)
  next
    case False
    then show ?thesis using split_pred_join [of ?f d ?ps] assms(1) free by (simp add: split_class_pred)
  qed
  moreover have "foldl style_pair s (style_field k x) = (case x of None \<Rightarrow> s | Some v \<Rightarrow> style_pair s (k @ 58 # v))"
    for s k x by (simp add: style_field_def split: option.splits)
  moreover have "v \<noteq> [] \<and> trimmed v \<and> 58 \<notin> set v" if "x = Some v" "style_value_ok x" for x v
    using that by (auto simp: style_value_ok_def list_all_iff)
  ultimately have "parseStyleDef (style_text d st) = \<lparr>fill = fill st, stroke = stroke st,
     strokeWidth = strokeWidth st, color = color st, borderRadius = borderRadius st\<rparr>"
    using assms(2) style_pair_set
    by (simp add: parseStyleDef_def style_text_def empty_style_def del: js_Cons split: option.splits)
  then show ?thesis by simp
qed

theorem parseStyleDef_roundtrip_witness:
  "parseStyleDef (js ''fill:#2a2b36;stroke-width:2px;rx:4'') =
     \<lparr>fill = Some (js ''#2a2b36''), stroke = None, strokeWidth = Some (js ''2px''), color = None,
      borderRadius = Some (js ''4'')\<rparr>"
proof -
  have "style_text 59 \<lparr>fill = Some (js ''#2a2b36''), stroke = None, strokeWidth = Some (js ''2px''), color = None,
      borderRadius = Some (js ''4'')\<rparr> = js ''fill:#2a2b36;stroke-width:2px;rx:4''"
    by (simp add: style_text_def style_field_def)
  then show ?thesis
    using parseStyleDef_roundtrip [of 59 "\<lparr>fill = Some (js ''#2a2b36''), stroke = None,
      strokeWidth = Some (js ''2px''), color = None, borderRadius = Some (js ''4'')\<rparr>"]
    by (simp add: style_value_ok_def trimmed_def is_ws_def)
qed

end
