(* ===== verification/JsNum.thy ===== *)
theory JsNum
  imports Complex_Main JsString
begin

text \<open>
  Numbers of the layout code. Coordinates are rationals: sizes are integers and every other
  coordinate is obtained from integers by additions and halvings, so they are multiples of
  a quarter, which binary64 represents exactly below \<open>2^51\<close>; \<open>Infinity\<close> and \<open>NaN\<close>, which
  the source's \<open>min\<close>/\<open>max\<close> loops start from, are the other constructors of \<open>jsnum\<close>.
\<close>

datatype jsnum = Fin rat | PosInf | NegInf | NaN

fun num_neg :: "jsnum \<Rightarrow> jsnum" where
  "num_neg (Fin a) = Fin (- a)"
| "num_neg PosInf = NegInf"
| "num_neg NegInf = PosInf"
| "num_neg NaN = NaN"

fun num_add :: "jsnum \<Rightarrow> jsnum \<Rightarrow> jsnum" where
  "num_add (Fin a) (Fin b) = Fin (a + b)"
| "num_add NaN y = NaN"
| "num_add x NaN = NaN"
| "num_add PosInf NegInf = NaN"
| "num_add NegInf PosInf = NaN"
| "num_add PosInf y = PosInf"
| "num_add NegInf y = NegInf"
| "num_add x PosInf = PosInf"
| "num_add x NegInf = NegInf"

definition num_sub :: "jsnum \<Rightarrow> jsnum \<Rightarrow> jsnum" where
  "num_sub x y = num_add x (num_neg y)"

text \<open>\<open>x < y\<close>; every comparison with \<open>NaN\<close> is false.\<close>

fun num_lt :: "jsnum \<Rightarrow> jsnum \<Rightarrow> bool" where
  "num_lt (Fin a) (Fin b) = (a < b)"
| "num_lt NaN y = False"
| "num_lt x NaN = False"
| "num_lt x NegInf = False"
| "num_lt PosInf y = False"
| "num_lt x y = True"

text \<open>\<open>Math.min\<close> and \<open>Math.max\<close>; \<open>NaN\<close> wins.\<close>

definition num_min :: "jsnum \<Rightarrow> jsnum \<Rightarrow> jsnum" where
  "num_min x y = (if x = NaN \<or> y = NaN then NaN else if num_lt y x then y else x)"

definition num_max :: "jsnum \<Rightarrow> jsnum \<Rightarrow> jsnum" where
  "num_max x y = (if x = NaN \<or> y = NaN then NaN else if num_lt x y then y else x)"

lemma num_simps [simp]:
  "num_sub (Fin a) (Fin b) = Fin (a - b)"
  "num_min (Fin a) (Fin b) = Fin (min a b)" "num_max (Fin a) (Fin b) = Fin (max a b)"
  "num_min PosInf (Fin b) = Fin b" "num_max NegInf (Fin b) = Fin b"
  by (auto simp: num_sub_def num_min_def num_max_def min_def max_def)

text \<open>The text of a number in a template literal, for numbers of at most two decimal places
  and below \<open>10^21\<close>.\<close>

definition num_text :: "rat \<Rightarrow> jstr" where
  "num_text r =
     (let a = \<bar>r\<bar>; n = nat \<lfloor>a\<rfloor>; h = nat \<lfloor>100 * (a - of_int \<lfloor>a\<rfloor>)\<rfloor>;
          frac = (if h = 0 then []
                  else 46 # (48 + int (h div 10)) # (if h mod 10 = 0 then [] else [48 + int (h mod 10)]))
      in (if r < 0 then [45] else []) @ nat_text n @ frac)"

text \<open>\<open>Math.atan2(y, x) * (180 / Math.PI)\<close> on the axes, where it is a multiple of 90;
  \<open>None\<close> off the axes, where it is not rational.\<close>

definition atan2_degrees :: "rat \<Rightarrow> rat \<Rightarrow> rat option" where
  "atan2_degrees y x =
     (if y = 0 then Some (if x < 0 then 180 else 0)
      else if x = 0 then Some (if 0 < y then 90 else - 90) else None)"

end
