(* ===== verification/MermaidLayout.thy ===== *)
theory MermaidLayout
  imports MermaidTypes JsNum JsRegex "HOL-Library.While_Combinator"
begin

text \<open>
  \<open>components/mermaid/layout.ts\<close>: node sizes (\<open>estimateNodeSize\<close>), the flowchart layout
  (\<open>layoutFlowgraph\<close>: ranks by a breadth-first topological search, placement rank by rank,
  centring, subgraph boxes, edge paths, canvas) and the sequence layout
  (\<open>layoutSequenceDiagram\<close>). The \<open>while\<close> loop of the rank search is \<open>while_option\<close>. A call
  that may not end or may throw is a \<open>js_run\<close>; inside the layout a function whose result is an
  option throws a \<open>TypeError\<close> when it is \<open>None\<close>, which is what a property of the missing result of
  a lookup marked with an exclamation mark does.
\<close>

datatype 'a js_run = Endless | Throws | Returns 'a

fun try_fold :: "('a \<Rightarrow> 's \<Rightarrow> 's option) \<Rightarrow> 'a list \<Rightarrow> 's \<Rightarrow> 's option" where
  "try_fold f [] s = Some s"
| "try_fold f (x # xs) s = (case f x s of None \<Rightarrow> None | Some s' \<Rightarrow> try_fold f xs s')"

record positioned_node =
  pn_node :: flow_node
  pn_x :: rat
  pn_y :: rat
  pn_width :: rat
  pn_height :: rat

record positioned_edge =
  pe_edge :: flow_edge
  pe_pathD :: jstr
  pe_labelX :: rat
  pe_labelY :: rat
  pe_arrowAngle :: "rat option"

record positioned_subgraph =
  ps_subgraph :: subgraph
  ps_x :: jsnum
  ps_y :: jsnum
  ps_width :: jsnum
  ps_height :: jsnum

record flow_layout =
  fl_width :: jsnum
  fl_height :: jsnum
  fl_nodes :: "positioned_node list"
  fl_edges :: "positioned_edge list"
  fl_subgraphs :: "positioned_subgraph list"

subsection \<open>Node sizes\<close>

definition br_rx :: rx where
  "br_rx = ralt [rseq [rlit_i (js ''<br''), RStar r_ws, ropt (rlit (js ''/'')), rlit (js ''>'')],
     RChr (\<lambda>c. c = 10)]"

definition label_lines :: "jstr \<Rightarrow> jstr list" where
  "label_lines s = map (\<lambda>x. case x of None \<Rightarrow> [] | Some w \<Rightarrow> w) (rx_split br_rx 0 s)"

definition estimateNodeSize :: "flow_node \<Rightarrow> rat \<times> rat" where
  "estimateNodeSize node =
     (let lines = label_lines (n_label node);
          maxLineLen = foldl (\<lambda>m l. max m (length l)) 0 lines;
          width = max 150 (of_int \<lceil>of_nat maxLineLen * (17 / 2) + 44 :: rat\<rceil>);
          height = max 48 (of_nat (length lines) * 20 + 28)
      in if n_shape node = Stadium \<or> n_shape node = Circle then (width + 28, height)
         else if n_shape node = Diamond then (width + 44, height + 24)
         else (width, height))"

subsection \<open>Ranks\<close>

definition isHorizontal :: "flow_graph \<Rightarrow> bool" where
  "isHorizontal g = (g_direction g = DirLR \<or> g_direction g = DirRL)"

definition init_degrees :: "flow_node list \<Rightarrow> (jstr, int) jmap" where
  "init_degrees ns = fold (\<lambda>n. jm_set (n_id n) 0) ns []"

definition init_out :: "flow_node list \<Rightarrow> (jstr, jstr list) jmap" where
  "init_out ns = fold (\<lambda>n. jm_set (n_id n) []) ns []"

definition get_or :: "'v \<Rightarrow> 'v option \<Rightarrow> 'v" where
  "get_or d x = (case x of None \<Rightarrow> d | Some v \<Rightarrow> v)"

definition count_in :: "flow_edge \<Rightarrow> (jstr, int) jmap \<Rightarrow> (jstr, int) jmap" where
  "count_in e m = (if jm_has m (e_to e) then jm_set (e_to e) (get_or 0 (jm_get m (e_to e)) + 1) m else m)"

definition add_out :: "flow_edge \<Rightarrow> (jstr, jstr list) jmap \<Rightarrow> (jstr, jstr list) jmap" where
  "add_out e m = (if jm_has m (e_from e)
     then jm_set (e_from e) (get_or [] (jm_get m (e_from e)) @ [e_to e]) m else m)"

record rank_state =
  r_levels :: "(jstr, nat) jmap"
  r_in :: "(jstr, int) jmap"
  r_queue :: "jstr list"
  r_max :: nat

definition seed :: "jstr \<times> int \<Rightarrow> rank_state \<Rightarrow> rank_state" where
  "seed p st = (if snd p = 0
     then st\<lparr>r_queue := r_queue st @ [fst p], r_levels := jm_set (fst p) 0 (r_levels st)\<rparr> else st)"

text \<open>The body of \<open>neighbors.forEach\<close>; \<open>x || 1\<close> is 1 for 0 and for an absent entry.\<close>

definition visit :: "nat \<Rightarrow> jstr \<Rightarrow> rank_state \<Rightarrow> rank_state" where
  "visit currLevel nxt st =
     (let nextLevel = max (get_or 0 (jm_get (r_levels st) nxt)) (currLevel + 1);
          deg = get_or 0 (jm_get (r_in st) nxt);
          newDeg = (if deg = 0 then 1 else deg) - 1
      in st\<lparr>r_levels := jm_set nxt nextLevel (r_levels st),
            r_max := (if r_max st < nextLevel then nextLevel else r_max st),
            r_in := jm_set nxt newDeg (r_in st),
            r_queue := (if newDeg \<le> 0 then r_queue st @ [nxt] else r_queue st)\<rparr>)"

definition rank_step :: "(jstr, jstr list) jmap \<Rightarrow> rank_state \<Rightarrow> rank_state" where
  "rank_step out st =
     (case r_queue st of
        [] \<Rightarrow> st
      | cur # rest \<Rightarrow>
          fold (visit (get_or 0 (jm_get (r_levels st) cur))) (get_or [] (jm_get out cur))
            (st\<lparr>r_queue := rest\<rparr>))"

definition in_degrees :: "flow_graph \<Rightarrow> (jstr, int) jmap" where
  "in_degrees g = fold count_in (g_edges g) (init_degrees (jm_values (g_nodes g)))"

definition out_edges :: "flow_graph \<Rightarrow> (jstr, jstr list) jmap" where
  "out_edges g = fold add_out (g_edges g) (init_out (jm_values (g_nodes g)))"

definition rank_init :: "flow_graph \<Rightarrow> rank_state" where
  "rank_init g = fold seed (in_degrees g)
     \<lparr>r_levels = [], r_in = in_degrees g, r_queue = [], r_max = 0\<rparr>"

definition rank_search :: "flow_graph \<Rightarrow> rank_state option" where
  "rank_search g = while_option (\<lambda>st. r_queue st \<noteq> []) (rank_step (out_edges g)) (rank_init g)"

definition fill_levels :: "flow_node list \<Rightarrow> (jstr, nat) jmap \<Rightarrow> (jstr, nat) jmap" where
  "fill_levels ns m = fold (\<lambda>n m. if jm_has m (n_id n) then m else jm_set (n_id n) 0 m) ns m"

definition group_node ::
  "(jstr, flow_node) jmap \<Rightarrow> jstr \<times> nat \<Rightarrow> flow_node list list \<Rightarrow> flow_node list list" where
  "group_node nodes p grps =
     (case jm_get nodes (fst p) of
        Some node \<Rightarrow> if snd p < length grps then grps[snd p := grps ! snd p @ [node]] else grps
      | None \<Rightarrow> grps)"

definition rank_groups :: "(jstr, flow_node) jmap \<Rightarrow> nat \<Rightarrow> (jstr, nat) jmap \<Rightarrow> flow_node list list" where
  "rank_groups nodes maxLevel levels = fold (group_node nodes) levels (replicate (maxLevel + 1) [])"

definition active_ranks :: "flow_graph \<Rightarrow> rank_state \<Rightarrow> flow_node list list" where
  "active_ranks g st = filter (\<lambda>r. r \<noteq> [])
     (rank_groups (g_nodes g) (r_max st) (fill_levels (jm_values (g_nodes g)) (r_levels st)))"

subsection \<open>Placement\<close>

type_synonym sizes = "(jstr, rat \<times> rat) jmap"
type_synonym places = "(jstr, positioned_node) jmap"

definition node_sizes :: "flow_node list \<Rightarrow> sizes" where
  "node_sizes ns = fold (\<lambda>n. jm_set (n_id n) (estimateNodeSize n)) ns []"

definition size_of :: "sizes \<Rightarrow> flow_node \<Rightarrow> (rat \<times> rat) option" where
  "size_of sizes n = jm_get sizes (n_id n)"

definition main_dim :: "bool \<Rightarrow> rat \<times> rat \<Rightarrow> rat" where
  "main_dim h s = (if h then fst s else snd s)"

definition cross_dim :: "bool \<Rightarrow> rat \<times> rat \<Rightarrow> rat" where
  "cross_dim h s = (if h then snd s else fst s)"

definition level_spacing :: "bool \<Rightarrow> rat" where
  "level_spacing h = (if h then 130 else 90)"

definition node_spacing :: "bool \<Rightarrow> rat" where
  "node_spacing h = (if h then 40 else 45)"

definition place_node :: "bool \<Rightarrow> sizes \<Rightarrow> rat \<Rightarrow> flow_node \<Rightarrow> places \<times> rat \<Rightarrow> (places \<times> rat) option" where
  "place_node h sizes mainCoord node st =
     (case st of (places, crossCoord) \<Rightarrow>
       (case size_of sizes node of
          None \<Rightarrow> None
        | Some sz \<Rightarrow> Some
            (jm_set (n_id node)
               \<lparr>pn_node = node, pn_x = (if h then mainCoord else crossCoord),
                pn_y = (if h then crossCoord else mainCoord),
                pn_width = fst sz, pn_height = snd sz\<rparr> places,
             crossCoord + (cross_dim h sz + node_spacing h))))"

definition max_main :: "bool \<Rightarrow> sizes \<Rightarrow> flow_node list \<Rightarrow> rat option" where
  "max_main h sizes ns = try_fold (\<lambda>n m. case size_of sizes n of
       None \<Rightarrow> None
     | Some sz \<Rightarrow> Some (let d = main_dim h sz in if m < d then d else m)) ns 0"

definition place_rank :: "bool \<Rightarrow> sizes \<Rightarrow> flow_node list \<Rightarrow> places \<times> rat \<Rightarrow> (places \<times> rat) option" where
  "place_rank h sizes rankNodes st =
     (case st of (places, mainCoord) \<Rightarrow>
       (case max_main h sizes rankNodes of
          None \<Rightarrow> None
        | Some maxMain \<Rightarrow>
           (case try_fold (place_node h sizes mainCoord) rankNodes (places, 50) of
              None \<Rightarrow> None
            | Some (places', crossCoord) \<Rightarrow> Some (places', mainCoord + (maxMain + level_spacing h)))))"

subsection \<open>Centring\<close>

definition cross_pos :: "bool \<Rightarrow> positioned_node \<Rightarrow> rat" where
  "cross_pos h p = (if h then pn_y p else pn_x p)"

definition cross_size :: "bool \<Rightarrow> positioned_node \<Rightarrow> rat" where
  "cross_size h p = (if h then pn_height p else pn_width p)"

definition max_cross_extent :: "bool \<Rightarrow> places \<Rightarrow> rat" where
  "max_cross_extent h places =
     foldl (\<lambda>m p. let extent = cross_pos h p + cross_size h p in if m < extent then extent else m)
       0 (jm_values places)"

text \<open>\<open>rankMin\<close> and \<open>rankMax\<close>; \<open>Some None\<close> stands for the infinities they start from, which stay
  only when the rank is empty; the offset is then not a number and nothing is moved.\<close>

definition rank_bounds :: "bool \<Rightarrow> places \<Rightarrow> flow_node list \<Rightarrow> (rat \<times> rat) option option" where
  "rank_bounds h places rankNodes =
     try_fold (\<lambda>n b. case jm_get places (n_id n) of
        None \<Rightarrow> None
      | Some p \<Rightarrow> (let val = cross_pos h p; ext = val + cross_size h p in
          case b of None \<Rightarrow> Some (Some (val, ext))
          | Some (mn, mx) \<Rightarrow> Some (Some (if val < mn then val else mn, if mx < ext then ext else mx))))
      rankNodes None"

definition shift_node :: "bool \<Rightarrow> rat \<Rightarrow> positioned_node \<Rightarrow> positioned_node" where
  "shift_node h d p = (if h then p\<lparr>pn_y := pn_y p + d\<rparr> else p\<lparr>pn_x := pn_x p + d\<rparr>)"

definition shift_at :: "bool \<Rightarrow> rat \<Rightarrow> flow_node \<Rightarrow> places \<Rightarrow> places option" where
  "shift_at h d n places =
     (case jm_get places (n_id n) of None \<Rightarrow> None
      | Some p \<Rightarrow> Some (jm_set (n_id n) (shift_node h d p) places))"

definition centre_rank :: "bool \<Rightarrow> rat \<Rightarrow> flow_node list \<Rightarrow> places \<Rightarrow> places option" where
  "centre_rank h maxCross rankNodes places =
     (case rank_bounds h places rankNodes of
        None \<Rightarrow> None
      | Some None \<Rightarrow> Some places
      | Some (Some (mn, mx)) \<Rightarrow>
          (let offset = (maxCross - (mx - mn)) / 2 - mn in
           if 0 < offset then try_fold (shift_at h offset) rankNodes places else Some places))"

definition place_all :: "bool \<Rightarrow> sizes \<Rightarrow> flow_node list list \<Rightarrow> places option" where
  "place_all h sizes ranks =
     (case try_fold (place_rank h sizes) ranks ([], 50) of
        None \<Rightarrow> None
      | Some (places, mainCoord) \<Rightarrow>
          try_fold (centre_rank h (max_cross_extent h places)) ranks places)"

subsection \<open>Subgraph boxes\<close>

definition grow_box :: "positioned_node \<Rightarrow> jsnum \<times> jsnum \<times> jsnum \<times> jsnum \<Rightarrow> jsnum \<times> jsnum \<times> jsnum \<times> jsnum" where
  "grow_box p b =
     (case b of (minX, minY, maxX, maxY) \<Rightarrow>
       (num_min minX (Fin (pn_x p)), num_min minY (Fin (pn_y p)),
        num_max maxX (Fin (pn_x p + pn_width p)), num_max maxY (Fin (pn_y p + pn_height p))))"

definition member_bounds :: "places \<Rightarrow> jstr list \<Rightarrow> jsnum \<times> jsnum \<times> jsnum \<times> jsnum" where
  "member_bounds places ids =
     foldl (\<lambda>b i. case jm_get places i of None \<Rightarrow> b | Some p \<Rightarrow> grow_box p b)
       (PosInf, PosInf, NegInf, NegInf) ids"

definition position_subgraph :: "places \<Rightarrow> subgraph \<Rightarrow> positioned_subgraph" where
  "position_subgraph places sub =
     (case member_bounds places (sg_nodeIds sub) of (minX, minY, maxX, maxY) \<Rightarrow>
       \<lparr>ps_subgraph = sub, ps_x = num_sub minX (Fin 20), ps_y = num_sub minY (Fin 38),
        ps_width = num_add (num_sub maxX minX) (Fin 40),
        ps_height = num_add (num_sub maxY minY) (Fin 58)\<rparr>)"

subsection \<open>Edge paths\<close>

text \<open>The end points: centres, then the facing sides when the boxes are apart along the main
  axis.\<close>

definition edge_ends :: "bool \<Rightarrow> positioned_node \<Rightarrow> positioned_node \<Rightarrow> (rat \<times> rat) \<times> (rat \<times> rat)" where
  "edge_ends h fromP toP =
     (let startX = pn_x fromP + pn_width fromP / 2; startY = pn_y fromP + pn_height fromP / 2;
          endX = pn_x toP + pn_width toP / 2; endY = pn_y toP + pn_height toP / 2
      in if h then
           (if pn_x fromP + pn_width fromP \<le> pn_x toP
            then ((pn_x fromP + pn_width fromP, startY), (pn_x toP, endY))
            else if pn_x toP + pn_width toP \<le> pn_x fromP
            then ((pn_x fromP, startY), (pn_x toP + pn_width toP, endY))
            else ((startX, startY), (endX, endY)))
         else
           (if pn_y fromP + pn_height fromP \<le> pn_y toP
            then ((startX, pn_y fromP + pn_height fromP), (endX, pn_y toP))
            else if pn_y toP + pn_height toP \<le> pn_y fromP
            then ((startX, pn_y fromP), (endX, pn_y toP + pn_height toP))
            else ((startX, startY), (endX, endY))))"

definition control_points :: "bool \<Rightarrow> rat \<times> rat \<Rightarrow> rat \<times> rat \<Rightarrow> (rat \<times> rat) \<times> (rat \<times> rat)" where
  "control_points h s e =
     (case (s, e) of ((startX, startY), (endX, endY)) \<Rightarrow>
       (let dx = \<bar>endX - startX\<bar>; dy = \<bar>endY - startY\<bar> in
        if h then
          (let curveDist = max 25 (dx / 2); d = (if startX \<le> endX then curveDist else - curveDist)
           in ((startX + d, startY), (endX - d, endY)))
        else
          (let curveDist = max 25 (dy / 2); d = (if startY \<le> endY then curveDist else - curveDist)
           in ((startX, startY + d), (endX, endY - d)))))"

definition point_text :: "rat \<times> rat \<Rightarrow> jstr" where
  "point_text p = num_text (fst p) @ js '' '' @ num_text (snd p)"

definition path_text :: "rat \<times> rat \<Rightarrow> rat \<times> rat \<Rightarrow> rat \<times> rat \<Rightarrow> rat \<times> rat \<Rightarrow> jstr" where
  "path_text s c1 c2 e =
     js ''M '' @ point_text s @ js '' C '' @ point_text c1 @ js '', '' @ point_text c2 @ js '', '' @ point_text e"

definition position_edge :: "bool \<Rightarrow> places \<Rightarrow> flow_edge \<Rightarrow> positioned_edge" where
  "position_edge h places edge =
     (case (jm_get places (e_from edge), jm_get places (e_to edge)) of
        (Some fromP, Some toP) \<Rightarrow>
          (case edge_ends h fromP toP of (s, e) \<Rightarrow>
            (case control_points h s e of (c1, c2) \<Rightarrow>
              \<lparr>pe_edge = edge, pe_pathD = path_text s c1 c2 e,
               pe_labelX = (fst s + fst e) / 2, pe_labelY = (snd s + snd e) / 2,
               pe_arrowAngle = atan2_degrees (snd e - snd c2) (fst e - fst c2)\<rparr>))
      | _ \<Rightarrow> \<lparr>pe_edge = edge, pe_pathD = [], pe_labelX = 0, pe_labelY = 0, pe_arrowAngle = Some 0\<rparr>)"

subsection \<open>Canvas\<close>

definition larger :: "jsnum \<Rightarrow> jsnum \<Rightarrow> jsnum" where
  "larger sofar v = (if num_lt sofar v then v else sofar)"

definition canvas_width :: "positioned_node list \<Rightarrow> positioned_subgraph list \<Rightarrow> jsnum" where
  "canvas_width ps ss =
     num_max (Fin 450) (foldl larger (Fin 0)
       (map (\<lambda>p. Fin (pn_x p + pn_width p + 50)) ps @
        map (\<lambda>s. num_add (num_add (ps_x s) (ps_width s)) (Fin 50)) ss))"

definition canvas_height :: "positioned_node list \<Rightarrow> positioned_subgraph list \<Rightarrow> jsnum" where
  "canvas_height ps ss =
     num_max (Fin 260) (foldl larger (Fin 0)
       (map (\<lambda>p. Fin (pn_y p + pn_height p + 50)) ps @
        map (\<lambda>s. num_add (num_add (ps_y s) (ps_height s)) (Fin 50)) ss))"

definition flow_places :: "flow_graph \<Rightarrow> rank_state \<Rightarrow> places option" where
  "flow_places g st =
     place_all (isHorizontal g) (node_sizes (jm_values (g_nodes g))) (active_ranks g st)"

definition finish_layout :: "flow_graph \<Rightarrow> rank_state \<Rightarrow> flow_layout option" where
  "finish_layout g st =
     (case flow_places g st of
        None \<Rightarrow> None
      | Some places \<Rightarrow>
          (let subs = map (position_subgraph places) (g_subgraphs g)
           in Some \<lparr>fl_width = canvas_width (jm_values places) subs,
              fl_height = canvas_height (jm_values places) subs,
              fl_nodes = jm_values places,
              fl_edges = map (position_edge (isHorizontal g) places) (g_edges g),
              fl_subgraphs = subs\<rparr>))"

definition layoutFlowgraph :: "flow_graph \<Rightarrow> flow_layout js_run" where
  "layoutFlowgraph g =
     (if g_nodes g = []
      then Returns \<lparr>fl_width = Fin 450, fl_height = Fin 220, fl_nodes = [], fl_edges = [], fl_subgraphs = []\<rparr>
      else (case rank_search g of
          None \<Rightarrow> Endless
        | Some st \<Rightarrow> (case finish_layout g st of None \<Rightarrow> Throws | Some l \<Rightarrow> Returns l)))"

subsection \<open>Sequence layout\<close>

record positioned_participant =
  pp_participant :: seq_participant
  pp_x :: rat
  pp_width :: rat

datatype msg_direction = DirRight | DirLeft | DirSelf

record positioned_message =
  pm_fromX :: rat
  pm_toX :: rat
  pm_y :: rat
  pm_label :: jstr
  pm_isDashed :: bool
  pm_isArrow :: bool
  pm_direction :: msg_direction

record positioned_note =
  pnt_x :: rat
  pnt_y :: rat
  pnt_width :: rat
  pnt_height :: rat
  pnt_label :: jstr

record seq_layout =
  sl_width :: rat
  sl_height :: rat
  sl_participants :: "positioned_participant list"
  sl_messages :: "positioned_message list"
  sl_notes :: "positioned_note list"

definition participant_x :: "nat \<Rightarrow> rat" where
  "participant_x idx = 110 + of_nat idx * 210"

definition participant_positions :: "seq_participant list \<Rightarrow> (jstr, rat) jmap" where
  "participant_positions ps =
     fold (\<lambda>(idx, p). jm_set (pt_id p) (participant_x idx)) (List.enumerate 0 ps) []"

record seq_cursor =
  c_messages :: "positioned_message list"
  c_notes :: "positioned_note list"
  c_y :: rat

definition layout_message :: "(jstr, rat) jmap \<Rightarrow> seq_message \<Rightarrow> seq_cursor \<Rightarrow> seq_cursor" where
  "layout_message pos m st =
     (let fromX = get_or 110 (jm_get pos (m_from m)); toX = get_or 110 (jm_get pos (m_to m))
      in st\<lparr>c_messages := c_messages st @
              [\<lparr>pm_fromX = fromX, pm_toX = toX, pm_y = c_y st, pm_label = m_label m,
                pm_isDashed = m_isDashed m, pm_isArrow = m_isArrow m,
                pm_direction = (if m_from m = m_to m then DirSelf
                  else if fromX \<le> toX then DirRight else DirLeft)\<rparr>],
            c_y := c_y st + 65\<rparr>)"

text \<open>\<open>pIds[0]\<close> of an empty list is \<open>undefined\<close>, which is no key of the position map.\<close>

definition layout_note :: "(jstr, rat) jmap \<Rightarrow> seq_note \<Rightarrow> seq_cursor \<Rightarrow> seq_cursor" where
  "layout_note pos n st =
     (let pIds = nt_participants n;
          firstX = (case pIds of [] \<Rightarrow> 110 | p # _ \<Rightarrow> get_or 110 (jm_get pos p));
          lastX = (if pIds = [] then firstX else get_or firstX (jm_get pos (last pIds)));
          (noteX, noteWidth) = (if 1 < length pIds
             then (min firstX lastX - 20, \<bar>lastX - firstX\<bar> + 40) else (firstX - 70, 140))
      in st\<lparr>c_notes := c_notes st @
              [\<lparr>pnt_x = noteX, pnt_y = c_y st - 15, pnt_width = noteWidth, pnt_height = 42,
                pnt_label = nt_label n\<rparr>],
            c_y := c_y st + 65\<rparr>)"

definition layout_item :: "(jstr, rat) jmap \<Rightarrow> seq_item \<Rightarrow> seq_cursor \<Rightarrow> seq_cursor" where
  "layout_item pos it = (case it of SeqMessage m \<Rightarrow> layout_message pos m | SeqNote n \<Rightarrow> layout_note pos n)"

definition layoutSequenceDiagram :: "seq_diagram \<Rightarrow> seq_layout" where
  "layoutSequenceDiagram sq =
     (let pos = participant_positions (sd_participants sq);
          st = fold (layout_item pos) (sd_items sq) \<lparr>c_messages = [], c_notes = [], c_y = 95\<rparr>
      in \<lparr>sl_width = max 550 (110 + of_nat (length (sd_participants sq)) * 210 + 60),
          sl_height = max 300 (c_y st + 60),
          sl_participants = map (\<lambda>(idx, p). \<lparr>pp_participant = p, pp_x = participant_x idx, pp_width = 160\<rparr>)
            (List.enumerate 0 (sd_participants sq)),
          sl_messages = c_messages st, sl_notes = c_notes st\<rparr>)"

end
