(* ===== verification/MermaidRank.thy ===== *)
theory MermaidRank
  imports MermaidLayout MermaidFlowInv "HOL-Library.Multiset"
begin

text \<open>
  The rank search of \<open>layoutFlowgraph\<close>. Its invariant is stated with the set \<open>D\<close> of nodes
  already taken from the queue: a node's counter is the number of edges into it from
  outside \<open>D\<close>, the nodes with counter 0 are \<open>D\<close> and the queue, and an edge out of \<open>D\<close>
  goes to a higher level. Each step moves one node into \<open>D\<close>, so the loop ends after at
  most as many steps as there are nodes.
\<close>

subsection \<open>The tables the search starts from\<close>

definition remaining :: "flow_edge list \<Rightarrow> jstr set \<Rightarrow> jstr \<Rightarrow> nat" where
  "remaining es D k = length (filter (\<lambda>e. e_to e = k \<and> e_from e \<notin> D) es)"

definition targets :: "flow_edge list \<Rightarrow> jstr \<Rightarrow> jstr list" where
  "targets es k = map e_to (filter (\<lambda>e. e_from e = k) es)"

lemma get_or_simps [simp]: "get_or d None = d" "get_or d (Some v) = v"
  by (simp_all add: get_or_def)

lemma fold_jm_set_const:
  "distinct (map f ns) \<Longrightarrow> set (map f ns) \<inter> set (jm_keys m) = {} \<Longrightarrow>
     fold (\<lambda>n. jm_set (f n) (v n)) ns m = m @ map (\<lambda>n. (f n, v n)) ns"
proof (induction ns arbitrary: m)
  case (Cons n ns)
  then have "jm_set (f n) (v n) m = m @ [(f n, v n)]" by (intro jm_set_new) auto
  with Cons show ?case by auto
qed simp

lemma count_in_fold:
  "k \<in> set (jm_keys m) \<Longrightarrow> jm_get m k = Some d \<Longrightarrow>
     jm_get (fold count_in es m) k = Some (d + int (remaining es {} k)) \<and>
     jm_keys (fold count_in es m) = jm_keys m"
proof (induction es arbitrary: m d)
  case (Cons e es)
  have "jm_keys (count_in e m) = jm_keys m" by (simp add: count_in_def jm_keys_set)
  moreover have "jm_get (count_in e m) k = Some (d + (if e_to e = k then 1 else 0))"
    using Cons.prems by (auto simp: count_in_def jm_get_set)
  ultimately show ?case
    using Cons.IH [of "count_in e m"] Cons.prems by (simp add: remaining_def)
qed (simp add: remaining_def)

lemma count_in_keys: "jm_keys (fold count_in es m) = jm_keys m"
proof (induction es arbitrary: m)
  case (Cons e es)
  have "jm_keys (count_in e m) = jm_keys m" by (simp add: count_in_def jm_keys_set)
  with Cons show ?case by simp
qed simp

lemma add_out_fold:
  "k \<in> set (jm_keys m) \<Longrightarrow> jm_get m k = Some xs \<Longrightarrow>
     jm_get (fold add_out es m) k = Some (xs @ targets es k)"
proof (induction es arbitrary: m xs)
  case (Cons e es)
  have "jm_keys (add_out e m) = jm_keys m" by (simp add: add_out_def jm_keys_set)
  moreover have "jm_get (add_out e m) k = Some (xs @ targets [e] k)"
    using Cons.prems by (auto simp: add_out_def jm_get_set targets_def)
  ultimately show ?case
    using Cons.IH [of "add_out e m"] Cons.prems by (simp add: targets_def)
qed (simp add: targets_def)

subsection \<open>One visit\<close>

definition counts_ok :: "jstr set \<Rightarrow> jstr set \<Rightarrow> (jstr \<Rightarrow> nat) \<Rightarrow> rank_state \<Rightarrow> bool" where
  "counts_ok N D rest st =
     (distinct (r_queue st) \<and> set (r_queue st) \<union> D \<subseteq> N \<and> set (r_queue st) \<inter> D = {} \<and>
      (\<forall>k \<in> N. jm_get (r_in st) k = Some (int (rest k))) \<and>
      (\<forall>k \<in> N. rest k = 0 \<longleftrightarrow> k \<in> set (r_queue st) \<union> D) \<and>
      jm_inv (r_levels st) \<and> set (jm_keys (r_levels st)) \<subseteq> N \<and>
      (\<forall>k \<in> set (r_queue st) \<union> D. jm_get (r_levels st) k \<noteq> None) \<and>
      (\<forall>k l. jm_get (r_levels st) k = Some l \<longrightarrow> l \<le> r_max st))"

lemma visit_levels:
  "jm_get (r_levels (visit c nxt st)) k =
     (if k = nxt then Some (max (get_or 0 (jm_get (r_levels st) nxt)) (c + 1)) else jm_get (r_levels st) k)"
  by (simp add: visit_def Let_def jm_get_set)

lemma visit_counts:
  assumes ok: "counts_ok N D rest st" and n: "nxt \<in> N" "0 < rest nxt"
  shows "counts_ok N D (rest(nxt := rest nxt - 1)) (visit c nxt st)"
proof -
  have deg: "jm_get (r_in st) nxt = Some (int (rest nxt))" using ok n by (simp add: counts_ok_def)
  have new: "nxt \<notin> set (r_queue st) \<union> D" using ok n by (auto simp: counts_ok_def)
  have zero: "int (rest nxt) - 1 \<le> 0 \<longleftrightarrow> rest nxt - 1 = 0" using n(2) by auto
  have q: "r_queue (visit c nxt st) = (if rest nxt - 1 = 0 then r_queue st @ [nxt] else r_queue st)"
    using deg n(2) zero by (simp add: visit_def Let_def)
  have i: "jm_get (r_in (visit c nxt st)) k = (if k = nxt then Some (int (rest nxt - 1)) else jm_get (r_in st) k)" for k
    using deg n(2) by (simp add: visit_def Let_def jm_get_set)
  have mx: "r_max (visit c nxt st) = max (r_max st) (max (get_or 0 (jm_get (r_levels st) nxt)) (c + 1))"
    by (simp add: visit_def Let_def max_def)
  have keys: "set (jm_keys (r_levels (visit c nxt st))) \<subseteq> N"
    using ok n(1) by (auto simp: visit_def Let_def jm_keys_set counts_ok_def)
  have inv: "jm_inv (r_levels (visit c nxt st))"
    using ok by (simp add: visit_def Let_def jm_inv_set counts_ok_def)
  have lev: "\<forall>k l. jm_get (r_levels (visit c nxt st)) k = Some l \<longrightarrow> l \<le> r_max (visit c nxt st)"
    using ok by (auto simp: visit_levels mx counts_ok_def split: if_splits) (meson le_max_iff_disj)
  have "\<forall>k \<in> set (r_queue (visit c nxt st)) \<union> D. jm_get (r_levels (visit c nxt st)) k \<noteq> None"
    using ok by (auto simp: visit_levels q counts_ok_def)
  moreover have "distinct (r_queue (visit c nxt st)) \<and> set (r_queue (visit c nxt st)) \<union> D \<subseteq> N \<and>
      set (r_queue (visit c nxt st)) \<inter> D = {}"
    using ok new n(1) by (auto simp: q counts_ok_def)
  moreover have "\<forall>k \<in> N. (rest(nxt := rest nxt - 1)) k = 0 \<longleftrightarrow> k \<in> set (r_queue (visit c nxt st)) \<union> D"
    using ok new by (auto simp: q counts_ok_def)
  moreover have "\<forall>k \<in> N. jm_get (r_in (visit c nxt st)) k = Some (int ((rest(nxt := rest nxt - 1)) k))"
    using ok by (auto simp: i counts_ok_def)
  ultimately show ?thesis using keys inv lev by (simp add: counts_ok_def)
qed

text \<open>All the visits of one node.\<close>

lemma fold_visit:
  assumes "counts_ok N D rest st" "set todo \<subseteq> N" "\<And>k. count_list todo k \<le> rest k"
  shows "counts_ok N D (\<lambda>k. rest k - count_list todo k) (fold (visit c) todo st) \<and>
     (\<forall>k. k \<notin> set todo \<longrightarrow> jm_get (r_levels (fold (visit c) todo st)) k = jm_get (r_levels st) k) \<and>
     (\<forall>k \<in> set todo. \<exists>l. jm_get (r_levels (fold (visit c) todo st)) k = Some l \<and> c < l) \<and>
     (\<forall>k l. jm_get (r_levels st) k = Some l \<longrightarrow>
        (\<exists>l'. jm_get (r_levels (fold (visit c) todo st)) k = Some l' \<and> l \<le> l'))"
  using assms
proof (induction todo arbitrary: rest st)
  case (Cons n todo)
  let ?rest = "rest(n := rest n - 1)"
  have pos: "0 < rest n" using Cons.prems(3) [of n] by simp
  have ok: "counts_ok N D ?rest (visit c n st)"
    using visit_counts [OF Cons.prems(1) _ pos] Cons.prems(2) by simp
  have le: "count_list todo k \<le> ?rest k" for k using Cons.prems(3) [of k] by auto
  note IH = Cons.IH [OF ok _ le]
  have eq: "(\<lambda>k. ?rest k - count_list todo k) = (\<lambda>k. rest k - count_list (n # todo) k)" by auto
  have n: "\<exists>l. jm_get (r_levels (visit c n st)) n = Some l \<and> c < l" by (simp add: visit_levels)
  have mono: "\<exists>l'. jm_get (r_levels (visit c n st)) k = Some l' \<and> l \<le> l'"
    if "jm_get (r_levels st) k = Some l" for k l using that by (auto simp: visit_levels)
  have sub: "set todo \<subseteq> N" using Cons.prems(2) by simp
  show ?case
  proof (intro conjI)
    show "counts_ok N D (\<lambda>k. rest k - count_list (n # todo) k) (fold (visit c) (n # todo) st)"
      using IH [OF sub] unfolding eq by simp
    show "\<forall>k. k \<notin> set (n # todo) \<longrightarrow>
        jm_get (r_levels (fold (visit c) (n # todo) st)) k = jm_get (r_levels st) k"
      using IH [OF sub] by (simp add: visit_levels)
    show "\<forall>k \<in> set (n # todo). \<exists>l. jm_get (r_levels (fold (visit c) (n # todo) st)) k = Some l \<and> c < l"
      using IH [OF sub] n by (auto intro: less_le_trans)
    show "\<forall>k l. jm_get (r_levels st) k = Some l \<longrightarrow>
        (\<exists>l'. jm_get (r_levels (fold (visit c) (n # todo) st)) k = Some l' \<and> l \<le> l')"
      using IH [OF sub] mono by (auto intro: le_trans) (meson le_trans)
  qed
qed simp

subsection \<open>One step of the loop\<close>

definition edges_up :: "flow_edge list \<Rightarrow> jstr set \<Rightarrow> rank_state \<Rightarrow> bool" where
  "edges_up es D st = (\<forall>e \<in> set es. e_from e \<in> D \<longrightarrow>
     (\<exists>a b. jm_get (r_levels st) (e_from e) = Some a \<and> jm_get (r_levels st) (e_to e) = Some b \<and> a < b))"

definition graph_nodes :: "flow_graph \<Rightarrow> jstr set" where
  "graph_nodes g = set (jm_keys (g_nodes g))"

definition search_inv :: "flow_graph \<Rightarrow> jstr set \<Rightarrow> rank_state \<Rightarrow> bool" where
  "search_inv g D st = (counts_ok (graph_nodes g) D (remaining (g_edges g) D) st \<and> edges_up (g_edges g) D st)"

lemma remaining_insert:
  assumes "a \<notin> D"
  shows "remaining es D k = remaining es (insert a D) k + count_list (targets es a) k"
  using assms by (induction es) (auto simp: remaining_def targets_def)

lemma targets_in: "flow_graph_ok g \<Longrightarrow> set (targets (g_edges g) k) \<subseteq> graph_nodes g"
  by (auto simp: flow_graph_ok_def targets_def graph_nodes_def list_all_iff)

lemma flow_graph_ok_values:
  assumes "flow_graph_ok g"
  shows "map n_id (jm_values (g_nodes g)) = jm_keys (g_nodes g)" "distinct (jm_keys (g_nodes g))"
    "\<And>e. e \<in> set (g_edges g) \<Longrightarrow> e_from e \<in> graph_nodes g \<and> e_to e \<in> graph_nodes g"
proof -
  have "map n_id (map snd (g_nodes g)) = map fst (g_nodes g)"
    using assms by (auto simp: flow_graph_ok_def list_all_iff)
  then show "map n_id (jm_values (g_nodes g)) = jm_keys (g_nodes g)"
    by (simp add: jm_values_def jm_keys_def)
  show "distinct (jm_keys (g_nodes g))" using assms by (simp add: flow_graph_ok_def)
  show "e_from e \<in> graph_nodes g \<and> e_to e \<in> graph_nodes g" if "e \<in> set (g_edges g)" for e
    using assms that by (simp add: flow_graph_ok_def list_all_iff graph_nodes_def)
qed

lemma out_edges_get:
  assumes "flow_graph_ok g" "k \<in> graph_nodes g"
  shows "jm_get (out_edges g) k = Some (targets (g_edges g) k)"
proof -
  let ?ns = "jm_values (g_nodes g)"
  note v = flow_graph_ok_values [OF assms(1)]
  have init: "init_out ?ns = map (\<lambda>n. (n_id n, [])) ?ns"
    using fold_jm_set_const [of n_id ?ns "[]" "\<lambda>_. []"] v(1,2) by (simp add: init_out_def)
  have "jm_keys (init_out ?ns) = jm_keys (g_nodes g)"
    using v(1) by (simp add: init jm_keys_def comp_def)
  moreover have "jm_get (init_out ?ns) k = Some []"
  proof (rule jm_in_get)
    show "jm_inv (init_out ?ns)" using calculation v(2) by (simp add: jm_inv_def)
    have "k \<in> n_id ` set ?ns" using assms(2) image_set [of n_id ?ns] v(1) by (simp add: graph_nodes_def)
    then show "(k, []) \<in> set (init_out ?ns)" by (auto simp: init)
  qed
  ultimately show ?thesis
    using add_out_fold [of k "init_out ?ns" "[]" "g_edges g"] assms(2)
    by (simp add: out_edges_def graph_nodes_def)
qed

lemma rank_step_inv:
  assumes g: "flow_graph_ok g" and inv: "search_inv g D st" and q: "r_queue st = cur # rest"
  shows "search_inv g (insert cur D) (rank_step (out_edges g) st)"
proof -
  let ?N = "graph_nodes g" and ?es = "g_edges g"
  let ?st = "st\<lparr>r_queue := rest\<rparr>" and ?todo = "targets (g_edges g) cur"
  have ok: "counts_ok ?N D (remaining ?es D) st" and up: "edges_up ?es D st"
    using inv by (simp_all add: search_inv_def)
  have cur: "cur \<in> ?N" "cur \<notin> D" using ok q by (auto simp: counts_ok_def)
  obtain c where c: "jm_get (r_levels st) cur = Some c" using ok q by (fastforce simp: counts_ok_def)
  have step: "rank_step (out_edges g) st = fold (visit c) ?todo ?st"
    using q c out_edges_get [OF g cur(1)] by (simp add: rank_step_def)
  have ok1: "counts_ok ?N (insert cur D) (remaining ?es D) ?st"
    using ok q by (auto simp: counts_ok_def)
  note split = remaining_insert [OF cur(2), of ?es]
  have "count_list ?todo k \<le> remaining ?es D k" for k using split [of k] by simp
  note f = fold_visit [OF ok1 targets_in [OF g] this, of c]
  have "(\<lambda>k. remaining ?es D k - count_list ?todo k) = remaining ?es (insert cur D)"
    using split by auto
  with f have counts: "counts_ok ?N (insert cur D) (remaining ?es (insert cur D)) (fold (visit c) ?todo ?st)"
    by simp
  have settled: "d \<notin> set ?todo" if "d \<in> insert cur D" for d
  proof
    assume "d \<in> set ?todo"
    then have "0 < count_list ?todo d" using count_list_0_iff [of ?todo d] by auto
    moreover have "d \<in> ?N" "remaining ?es D d = 0"
      using ok1 that by (auto simp: counts_ok_def)
    ultimately show False using split [of d] by simp
  qed
  have "\<exists>a b. jm_get (r_levels (fold (visit c) ?todo ?st)) (e_from e) = Some a \<and>
      jm_get (r_levels (fold (visit c) ?todo ?st)) (e_to e) = Some b \<and> a < b"
    if e: "e \<in> set ?es" "e_from e \<in> insert cur D" for e
  proof -
    have same: "jm_get (r_levels (fold (visit c) ?todo ?st)) (e_from e) = jm_get (r_levels st) (e_from e)"
      using f settled [OF e(2)] by simp
    show ?thesis
    proof (cases "e_from e = cur")
      case True
      then have "e_to e \<in> set ?todo" using e(1) by (auto simp: targets_def)
      then show ?thesis using f same c True by auto
    next
      case False
      then obtain a b where ab: "jm_get (r_levels st) (e_from e) = Some a"
        "jm_get (r_levels st) (e_to e) = Some b" "a < b" using up e by (auto simp: edges_up_def)
      then obtain b' where "jm_get (r_levels (fold (visit c) ?todo ?st)) (e_to e) = Some b'" "b \<le> b'"
        using f by fastforce
      then show ?thesis using same ab by auto
    qed
  qed
  then show ?thesis using counts step by (simp add: search_inv_def edges_up_def)
qed

text \<open>The measure: queued nodes and nodes whose counter is not 0 yet.\<close>

definition unsettled :: "flow_graph \<Rightarrow> rank_state \<Rightarrow> nat" where
  "unsettled g st = length (r_queue st) + card {k \<in> graph_nodes g. jm_get (r_in st) k \<noteq> Some 0}"

lemma unsettled_inv: "search_inv g D st \<Longrightarrow> unsettled g st = card (graph_nodes g - D)"
proof -
  assume inv: "search_inv g D st"
  let ?N = "graph_nodes g" and ?Q = "set (r_queue st)"
  have ok: "counts_ok ?N D (remaining (g_edges g) D) st" using inv by (simp add: search_inv_def)
  have fin: "finite ?N" by (simp add: graph_nodes_def)
  have "{k \<in> ?N. jm_get (r_in st) k \<noteq> Some 0} = ?N - D - ?Q"
    using ok by (auto simp: counts_ok_def)
  moreover have "length (r_queue st) = card ?Q" using ok by (simp add: counts_ok_def distinct_card)
  moreover have "?N - D = (?N - D - ?Q) \<union> ?Q" "(?N - D - ?Q) \<inter> ?Q = {}"
    using ok by (auto simp: counts_ok_def)
  ultimately show ?thesis
    using card_Un_disjoint [of "?N - D - ?Q" ?Q] fin by (simp add: unsettled_def)
qed

lemma seed_fold:
  "jm_inv m \<Longrightarrow> set (jm_keys m) \<inter> set (jm_keys (r_levels st)) = {} \<Longrightarrow>
     fold seed m st = st\<lparr>r_queue := r_queue st @ map fst (filter (\<lambda>p. snd p = 0) m),
        r_levels := r_levels st @ map (\<lambda>p. (fst p, 0)) (filter (\<lambda>p. snd p = 0) m)\<rparr>"
proof (induction m arbitrary: st)
  case (Cons p m)
  have m: "jm_inv m" using Cons.prems(1) by (simp add: jm_inv_def)
  show ?case
  proof (cases "snd p = 0")
    case True
    have "jm_set (fst p) 0 (r_levels st) = r_levels st @ [(fst p, 0)]"
      using Cons.prems(2) by (intro jm_set_new) auto
    then have s: "seed p st = st\<lparr>r_queue := r_queue st @ [fst p], r_levels := r_levels st @ [(fst p, 0)]\<rparr>"
      using True by (simp add: seed_def)
    have "set (jm_keys m) \<inter> set (jm_keys (r_levels (seed p st))) = {}"
      using Cons.prems s by (auto simp: jm_inv_def)
    then show ?thesis using Cons.IH [OF m, of "seed p st"] True s by simp
  next
    case False
    then show ?thesis using Cons.IH [OF m, of st] Cons.prems(2) by (simp add: seed_def)
  qed
qed simp

lemma in_degrees_facts:
  assumes "flow_graph_ok g"
  shows "jm_keys (in_degrees g) = jm_keys (g_nodes g)"
    "k \<in> graph_nodes g \<Longrightarrow> jm_get (in_degrees g) k = Some (int (remaining (g_edges g) {} k))"
proof -
  let ?ns = "jm_values (g_nodes g)"
  note v = flow_graph_ok_values [OF assms(1)]
  have init: "init_degrees ?ns = map (\<lambda>n. (n_id n, 0)) ?ns"
    using fold_jm_set_const [of n_id ?ns "[]" "\<lambda>_. 0"] v(1,2) by (simp add: init_degrees_def)
  have keys: "jm_keys (init_degrees ?ns) = jm_keys (g_nodes g)"
    using v(1) by (simp add: init jm_keys_def comp_def)
  then show "jm_keys (in_degrees g) = jm_keys (g_nodes g)"
    by (simp add: in_degrees_def count_in_keys)
  assume k: "k \<in> graph_nodes g"
  have "jm_get (init_degrees ?ns) k = Some 0"
  proof (rule jm_in_get)
    show "jm_inv (init_degrees ?ns)" using keys v(2) by (simp add: jm_inv_def)
    have "k \<in> n_id ` set ?ns" using k image_set [of n_id ?ns] v(1) by (simp add: graph_nodes_def)
    then show "(k, 0) \<in> set (init_degrees ?ns)" by (auto simp: init)
  qed
  then show "jm_get (in_degrees g) k = Some (int (remaining (g_edges g) {} k))"
    using count_in_fold [of k "init_degrees ?ns" 0 "g_edges g"] k keys
    by (simp add: in_degrees_def graph_nodes_def)
qed

lemma rank_init_inv:
  assumes g: "flow_graph_ok g"
  shows "search_inv g {} (rank_init g)"
proof -
  let ?m = "in_degrees g" and ?z = "filter (\<lambda>p. snd p = 0) (in_degrees g)"
  note facts = in_degrees_facts [OF g]
  have inv: "jm_inv ?m" using facts(1) flow_graph_ok_values(2) [OF g] by (simp add: jm_inv_def)
  have init: "rank_init g = \<lparr>r_levels = map (\<lambda>p. (fst p, 0)) ?z, r_in = ?m, r_queue = map fst ?z, r_max = 0\<rparr>"
    using seed_fold [OF inv, of "\<lparr>r_levels = [], r_in = ?m, r_queue = [], r_max = 0\<rparr>"]
    by (simp add: rank_init_def)
  have dist: "distinct (map fst ?z)"
    using inv by (simp add: jm_inv_def jm_keys_def distinct_map_filter)
  have zero: "k \<in> set (map fst ?z) \<longleftrightarrow> remaining (g_edges g) {} k = 0" if "k \<in> graph_nodes g" for k
  proof -
    have "k \<in> set (map fst ?z) \<longleftrightarrow> jm_get ?m k = Some 0"
      using jm_get_eq_Some [OF inv, of k 0] by force
    then show ?thesis using facts(2) [OF that] by simp
  qed
  have keys: "jm_keys (map (\<lambda>p. (fst p, 0 :: nat)) ?z) = map fst ?z" by (simp add: jm_keys_def comp_def)
  have sub: "set (map fst ?z) \<subseteq> graph_nodes g"
    using arg_cong [OF facts(1), of set] by (force simp: graph_nodes_def jm_keys_def)
  have lev: "jm_get (map (\<lambda>p. (fst p, 0 :: nat)) z) k = (if k \<in> set (map fst z) then Some 0 else None)"
    for k and z :: "(jstr, int) jmap"
    by (induction z) auto
  have "counts_ok (graph_nodes g) {} (remaining (g_edges g) {}) (rank_init g)"
    unfolding counts_ok_def init
    using dist sub zero facts(2) lev keys by (auto simp: jm_inv_def split: if_splits)
  then show ?thesis by (simp add: search_inv_def edges_up_def)
qed

lemma rank_search_ok:
  assumes g: "flow_graph_ok g"
  shows "\<exists>st D. rank_search g = Some st \<and> search_inv g D st \<and> r_queue st = []"
proof -
  let ?b = "\<lambda>st. r_queue st \<noteq> []" and ?c = "rank_step (out_edges g)"
  let ?P = "\<lambda>st. \<exists>D. search_inv g D st"
  have step: "?P (?c st) \<and> unsettled g (?c st) < unsettled g st" if "?P st" "?b st" for st
  proof -
    from that obtain D cur rest where D: "search_inv g D st" "r_queue st = cur # rest"
      by (cases "r_queue st") auto
    have "cur \<in> graph_nodes g - D"
      using D by (auto simp: search_inv_def counts_ok_def)
    then have "card (graph_nodes g - insert cur D) < card (graph_nodes g - D)"
      by (intro psubset_card_mono) (auto simp: graph_nodes_def)
    then show ?thesis
      using rank_step_inv [OF g D] unsettled_inv [OF D(1)] unsettled_inv [OF rank_step_inv [OF g D]] by auto
  qed
  have init: "?P (rank_init g)" using rank_init_inv [OF g] by blast
  obtain st where st: "while_option ?b ?c (rank_init g) = Some st"
    using measure_while_option_Some [of ?P ?b ?c "unsettled g", OF step init] by blast
  have "?P st" by (rule while_option_rule [of ?P, OF _ st init]) (use step in blast)
  moreover have "\<not> ?b st" using while_option_stop [OF st] .
  ultimately show ?thesis using st by (auto simp: rank_search_def)
qed

subsection \<open>Acyclic graphs\<close>

text \<open>A graph with a function that grows along every edge: then the search reaches every node.\<close>

lemma search_reaches_all:
  assumes g: "flow_graph_ok g" and inv: "search_inv g D st" and q: "r_queue st = []"
    and up: "\<forall>e \<in> set (g_edges g). f (e_from e) < (f (e_to e) :: nat)"
  shows "D = graph_nodes g"
proof (rule ccontr)
  assume ne: "D \<noteq> graph_nodes g"
  let ?R = "graph_nodes g - D"
  have ok: "counts_ok (graph_nodes g) D (remaining (g_edges g) D) st" using inv by (simp add: search_inv_def)
  have "?R \<noteq> {}" "finite ?R" using ne ok by (auto simp: counts_ok_def graph_nodes_def)
  then obtain k where k: "k \<in> ?R" "\<forall>j \<in> ?R. f k \<le> f j"
    using arg_min_if_finite [of ?R f] by (meson not_le)
  have "remaining (g_edges g) D k \<noteq> 0" using ok k(1) q by (auto simp: counts_ok_def)
  then obtain e where e: "e \<in> set (g_edges g)" "e_to e = k" "e_from e \<notin> D"
    by (auto simp: remaining_def filter_empty_conv)
  then have "e_from e \<in> ?R" using flow_graph_ok_values(3) [OF g] by blast
  with k(2) have "f k \<le> f (e_from e)" by blast
  moreover have "f (e_from e) < f k" using up e by blast
  ultimately show False by simp
qed

subsection \<open>The groups\<close>

lemma fill_levels_facts:
  assumes "jm_inv m"
  shows "jm_inv (fill_levels ns m) \<and>
     set (jm_keys (fill_levels ns m)) = set (jm_keys m) \<union> n_id ` set ns \<and>
     (\<forall>k. jm_get (fill_levels ns m) k =
        (if k \<in> set (jm_keys m) then jm_get m k else if k \<in> n_id ` set ns then Some 0 else None))"
  using assms
proof (induction ns arbitrary: m)
  case Nil
  then show ?case using jm_get_None by (fastforce simp: fill_levels_def)
next
  case (Cons n ns)
  define m' where "m' = (if jm_has m (n_id n) then m else jm_set (n_id n) 0 m)"
  have m: "jm_inv m'" using Cons.prems by (simp add: m'_def jm_inv_set)
  have f: "fill_levels (n # ns) m = fill_levels ns m'" by (simp add: fill_levels_def m'_def)
  have keys: "set (jm_keys m') = insert (n_id n) (set (jm_keys m))"
    by (auto simp: m'_def jm_keys_set)
  have get: "jm_get m' k = (if k \<in> set (jm_keys m) then jm_get m k else if k = n_id n then Some 0 else None)" for k
    using jm_get_None [of m k] by (auto simp: m'_def jm_get_set)
  show ?case using Cons.IH [OF m] unfolding f by (auto simp: keys get)
qed

lemma group_fold:
  assumes "\<forall>(k, l) \<in> set ps. \<exists>nd. jm_get nodes k = Some nd" "\<forall>(k, l) \<in> set ps. l < length grps"
  shows "fold (group_node nodes) ps grps =
     map (\<lambda>r. grps ! r @ map (\<lambda>p. the (jm_get nodes (fst p))) (filter (\<lambda>p. snd p = r) ps)) [0..<length grps]"
  using assms
proof (induction ps arbitrary: grps)
  case Nil
  then show ?case by (simp add: map_nth)
next
  case (Cons p ps)
  obtain k l nd where p: "p = (k, l)" "jm_get nodes k = Some nd" "l < length grps"
    using Cons.prems by auto
  let ?grps = "grps[l := grps ! l @ [nd]]"
  have g: "group_node nodes p grps = ?grps" using p by (simp add: group_node_def)
  have "fold (group_node nodes) ps ?grps =
     map (\<lambda>r. ?grps ! r @ map (\<lambda>p. the (jm_get nodes (fst p))) (filter (\<lambda>p. snd p = r) ps)) [0..<length ?grps]"
    by (rule Cons.IH) (use Cons.prems in auto)
  then have "fold (group_node nodes) (p # ps) grps =
     map (\<lambda>r. ?grps ! r @ map (\<lambda>p. the (jm_get nodes (fst p))) (filter (\<lambda>p. snd p = r) ps)) [0..<length grps]"
    by (simp add: g)
  also have "\<dots> = map (\<lambda>r. grps ! r @ map (\<lambda>p. the (jm_get nodes (fst p))) (filter (\<lambda>p. snd p = r) (p # ps)))
      [0..<length grps]"
    using p by (intro map_cong) (auto simp: nth_list_update)
  finally show ?case .
qed

definition final_levels :: "flow_graph \<Rightarrow> rank_state \<Rightarrow> (jstr, nat) jmap" where
  "final_levels g st = fill_levels (jm_values (g_nodes g)) (r_levels st)"

definition ranks_ok :: "flow_graph \<Rightarrow> flow_node list list \<Rightarrow> bool" where
  "ranks_ok g rs = (distinct (map n_id (concat rs)) \<and> n_id ` set (concat rs) = graph_nodes g \<and>
     (\<forall>n \<in> set (concat rs). jm_get (g_nodes g) (n_id n) = Some n) \<and> (\<forall>r \<in> set rs. r \<noteq> []))"

lemma mset_concat_filter:
  "\<forall>p \<in> set ps. h p < (n :: nat) \<Longrightarrow> mset (concat (map (\<lambda>r. filter (\<lambda>p. h p = r) ps) [0..<n])) = mset ps"
proof (induction ps)
  case (Cons p ps)
  have "mset (concat (map (\<lambda>r. filter (\<lambda>q. h q = r) (p # ps)) [0..<m])) =
     (if h p < m then {#p#} else {#}) + mset (concat (map (\<lambda>r. filter (\<lambda>q. h q = r) ps) [0..<m]))" for m
    by (induction m) auto
  with Cons show ?case by simp
next
  case Nil
  have "concat (map (\<lambda>r. []) xs) = []" for xs :: "nat list" by (induction xs) auto
  then show ?case by simp
qed

lemma active_ranks_split:
  assumes g: "flow_graph_ok g" and inv: "search_inv g D st"
  shows "ranks_ok g (active_ranks g st)"
    "\<And>k j a b. jm_get (final_levels g st) k = Some a \<Longrightarrow> jm_get (final_levels g st) j = Some b \<Longrightarrow> a < b \<Longrightarrow>
       \<exists>X Y. active_ranks g st = X @ Y \<and> k \<in> n_id ` set (concat X) \<and> j \<in> n_id ` set (concat Y)"
proof -
  let ?L = "final_levels g st" and ?n = "r_max st + 1" and ?N = "graph_nodes g"
  let ?grp = "\<lambda>r. map (\<lambda>p. the (jm_get (g_nodes g) (fst p))) (filter (\<lambda>p. snd p = r) ?L)"
  have ok: "counts_ok ?N D (remaining (g_edges g) D) st" using inv by (simp add: search_inv_def)
  have nset: "n_id ` set (jm_values (g_nodes g)) = ?N"
    using image_set [of n_id "jm_values (g_nodes g)"] flow_graph_ok_values(1) [OF g]
    by (simp add: graph_nodes_def)
  have L: "jm_inv ?L" "set (jm_keys ?L) = ?N"
    using fill_levels_facts [of "r_levels st" "jm_values (g_nodes g)"] ok nset
    by (auto simp: final_levels_def counts_ok_def)
  have le: "l < ?n" if "jm_get ?L k = Some l" for k l
    using fill_levels_facts [of "r_levels st" "jm_values (g_nodes g)"] ok that
    by (auto simp: final_levels_def counts_ok_def less_Suc_eq_le split: if_splits)
  have entry: "jm_get ?L k = Some l" if "(k, l) \<in> set ?L" for k l
    using jm_in_get [OF L(1) that] .
  have node: "\<exists>nd. jm_get (g_nodes g) k = Some nd \<and> n_id nd = k" if kN: "k \<in> ?N" for k
  proof -
    obtain nd where "jm_get (g_nodes g) k = Some nd" using jm_get_ex [of k "g_nodes g"] kN by (auto simp: graph_nodes_def)
    moreover from jm_get_in [OF this] have "n_id nd = k" using g by (auto simp: flow_graph_ok_def list_all_iff)
    ultimately show ?thesis by blast
  qed
  have kN: "k \<in> ?N" if "(k, l) \<in> set ?L" for k l
    using that L(2) by (force simp: jm_keys_def)
  have grps: "rank_groups (g_nodes g) (r_max st) ?L = map ?grp [0..<?n]"
  proof -
    have "rank_groups (g_nodes g) (r_max st) ?L =
      map (\<lambda>r. replicate ?n [] ! r @ ?grp r) [0..<length (replicate ?n ([] :: flow_node list))]"
      unfolding rank_groups_def by (rule group_fold) (use node kN entry le in \<open>fastforce+\<close>)
    also have "\<dots> = map ?grp [0..<?n]" by (intro map_cong) (auto simp del: replicate_Suc)
    finally show ?thesis .
  qed
  have act: "active_ranks g st = filter (\<lambda>r. r \<noteq> []) (map ?grp [0..<?n])"
    by (simp only: active_ranks_def grps [unfolded final_levels_def] final_levels_def)
  have concat_filter: "concat (filter (\<lambda>r. r \<noteq> []) xs) = concat xs" for xs :: "flow_node list list"
    by (induction xs) auto
  have flat: "concat (active_ranks g st) =
     map (\<lambda>p. the (jm_get (g_nodes g) (fst p))) (concat (map (\<lambda>r. filter (\<lambda>p. snd p = r) ?L) [0..<?n]))"
    by (simp only: act concat_filter map_concat) (simp add: comp_def)
  have perm: "mset (concat (map (\<lambda>r. filter (\<lambda>p. snd p = r) ?L) [0..<?n])) = mset ?L"
    by (rule mset_concat_filter) (use le [OF entry] in auto)
  then have sets: "set (concat (map (\<lambda>r. filter (\<lambda>p. snd p = r) ?L) [0..<?n])) = set ?L"
    by (metis set_mset_mset)
  have ids: "n_id (the (jm_get (g_nodes g) (fst p))) = fst p" if "p \<in> set ?L" for p
    using node [OF kN] that by (metis option.sel prod.collapse)
  have "map n_id (concat (active_ranks g st)) = map fst (concat (map (\<lambda>r. filter (\<lambda>p. snd p = r) ?L) [0..<?n]))"
    unfolding flat map_map using ids sets by (intro map_cong) auto
  then have mid: "mset (map n_id (concat (active_ranks g st))) = mset (jm_keys ?L)"
    using arg_cong [OF perm, of "image_mset fst"] by (simp add: jm_keys_def)
  have "distinct (map n_id (concat (active_ranks g st)))"
    using mset_eq_imp_distinct_iff [OF mid] L(1) by (simp add: jm_inv_def)
  moreover have "n_id ` set (concat (active_ranks g st)) = ?N"
    using mset_eq_setD [OF mid] L(2) by simp
  moreover have "\<forall>n \<in> set (concat (active_ranks g st)). jm_get (g_nodes g) (n_id n) = Some n"
    unfolding flat set_map sets using node kN by fastforce
  moreover have "\<forall>r \<in> set (active_ranks g st). r \<noteq> []" by (simp only: act) auto
  ultimately show "ranks_ok g (active_ranks g st)" by (simp add: ranks_ok_def)
  fix k j a b assume ab: "jm_get ?L k = Some a" "jm_get ?L j = Some b" "a < b"
  let ?X = "filter (\<lambda>r. r \<noteq> []) (map ?grp [0..<b])" and ?Y = "filter (\<lambda>r. r \<noteq> []) (map ?grp [b..<?n])"
  have "[0..<?n] = [0..<b] @ [b..<?n]"
    using upt_add_eq_append [of 0 b "?n - b"] le [OF ab(2)] by simp
  then have "active_ranks g st = ?X @ ?Y" by (simp only: act map_append filter_append)
  moreover have in_grp: "k \<in> n_id ` set (?grp l)" if "jm_get ?L k = Some l" for k l
  proof -
    have "(k, l) \<in> set ?L" by (rule jm_get_in [OF that])
    with ids [OF this] show ?thesis by force
  qed
  have spread: "x \<in> n_id ` set (concat (map h ls))" if "x \<in> n_id ` set (h l)" "l \<in> set ls"
    for x l and h :: "nat \<Rightarrow> flow_node list" and ls
    using that by fastforce
  have "k \<in> n_id ` set (concat ?X)"
    unfolding concat_filter by (rule spread [of _ _ a]) (use in_grp [OF ab(1)] ab(3) in simp_all)
  moreover have "j \<in> n_id ` set (concat ?Y)"
    unfolding concat_filter by (rule spread [of _ _ b]) (use in_grp [OF ab(2)] le [OF ab(2)] in \<open>simp_all, linarith\<close>)
  ultimately show "\<exists>X Y. active_ranks g st = X @ Y \<and> k \<in> n_id ` set (concat X) \<and> j \<in> n_id ` set (concat Y)"
    by blast
qed

end
