(* ===== verification/MermaidPlace.thy ===== *)
theory MermaidPlace
  imports MermaidRank
begin

text \<open>
  The placement of \<open>layoutFlowgraph\<close>, first without its lookups that throw (the functions of the
  first subsection; the theory MermaidChecked shows that none of them does), then refined to a direct description: the boxes of a rank
  lie one after the other along the cross axis (\<open>spread\<close>), the ranks one after the other
  along the main axis (\<open>rows\<close>), and centring moves the start of a rank only. The map the
  code updates entry by entry holds exactly these boxes, in this order.
\<close>

subsection \<open>The layout without lookups that throw\<close>

definition size_in :: "sizes \<Rightarrow> flow_node \<Rightarrow> rat \<times> rat" where
  "size_in sizes n = get_or (0, 0) (jm_get sizes (n_id n))"

definition put_node :: "bool \<Rightarrow> sizes \<Rightarrow> rat \<Rightarrow> flow_node \<Rightarrow> places \<times> rat \<Rightarrow> places \<times> rat" where
  "put_node h sizes mainCoord node st =
     (case st of (places, crossCoord) \<Rightarrow>
       (let size = size_in sizes node in
        (jm_set (n_id node)
           \<lparr>pn_node = node, pn_x = (if h then mainCoord else crossCoord),
            pn_y = (if h then crossCoord else mainCoord),
            pn_width = fst size, pn_height = snd size\<rparr> places,
         crossCoord + (cross_dim h size + node_spacing h))))"

definition widest_main :: "bool \<Rightarrow> sizes \<Rightarrow> flow_node list \<Rightarrow> rat" where
  "widest_main h sizes ns =
     foldl (\<lambda>m n. let d = main_dim h (size_in sizes n) in if m < d then d else m) 0 ns"

definition put_rank :: "bool \<Rightarrow> sizes \<Rightarrow> flow_node list \<Rightarrow> places \<times> rat \<Rightarrow> places \<times> rat" where
  "put_rank h sizes rankNodes st =
     (case st of (places, mainCoord) \<Rightarrow>
       (fst (fold (put_node h sizes mainCoord) rankNodes (places, 50)),
        mainCoord + (widest_main h sizes rankNodes + level_spacing h)))"

definition bounds_in :: "bool \<Rightarrow> places \<Rightarrow> flow_node list \<Rightarrow> (rat \<times> rat) option" where
  "bounds_in h places rankNodes =
     foldl (\<lambda>b n. case jm_get places (n_id n) of
        None \<Rightarrow> b
      | Some p \<Rightarrow> (let val = cross_pos h p; ext = val + cross_size h p in
          case b of None \<Rightarrow> Some (val, ext)
          | Some (mn, mx) \<Rightarrow> Some (if val < mn then val else mn, if mx < ext then ext else mx)))
      None rankNodes"

definition move_at :: "bool \<Rightarrow> rat \<Rightarrow> flow_node \<Rightarrow> places \<Rightarrow> places" where
  "move_at h d n places =
     (case jm_get places (n_id n) of None \<Rightarrow> places
      | Some p \<Rightarrow> jm_set (n_id n) (shift_node h d p) places)"

definition centred_rank :: "bool \<Rightarrow> rat \<Rightarrow> flow_node list \<Rightarrow> places \<Rightarrow> places" where
  "centred_rank h maxCross rankNodes places =
     (case bounds_in h places rankNodes of
        None \<Rightarrow> places
      | Some (mn, mx) \<Rightarrow>
          (let offset = (maxCross - (mx - mn)) / 2 - mn in
           if 0 < offset then fold (move_at h offset) rankNodes places else places))"

definition placed_all :: "bool \<Rightarrow> sizes \<Rightarrow> flow_node list list \<Rightarrow> places" where
  "placed_all h sizes ranks =
     (let places = fst (fold (put_rank h sizes) ranks ([], 50))
      in fold (centred_rank h (max_cross_extent h places)) ranks places)"

definition planned_places :: "flow_graph \<Rightarrow> rank_state \<Rightarrow> places" where
  "planned_places g st =
     placed_all (isHorizontal g) (node_sizes (jm_values (g_nodes g))) (active_ranks g st)"

definition planned_layout :: "flow_graph \<Rightarrow> rank_state \<Rightarrow> flow_layout" where
  "planned_layout g st =
     (let places = planned_places g st;
          subs = map (position_subgraph places) (g_subgraphs g)
      in \<lparr>fl_width = canvas_width (jm_values places) subs,
          fl_height = canvas_height (jm_values places) subs,
          fl_nodes = jm_values places,
          fl_edges = map (position_edge (isHorizontal g) places) (g_edges g),
          fl_subgraphs = subs\<rparr>)"

definition plan_layout :: "flow_graph \<Rightarrow> flow_layout option" where
  "plan_layout g =
     (if g_nodes g = []
      then Some \<lparr>fl_width = Fin 450, fl_height = Fin 220, fl_nodes = [], fl_edges = [], fl_subgraphs = []\<rparr>
      else map_option (planned_layout g) (rank_search g))"

subsection \<open>Boxes and rows\<close>

definition box_of :: "bool \<Rightarrow> sizes \<Rightarrow> rat \<Rightarrow> rat \<Rightarrow> flow_node \<Rightarrow> positioned_node" where
  "box_of h sizes m c n = \<lparr>pn_node = n, pn_x = (if h then m else c), pn_y = (if h then c else m),
     pn_width = fst (size_in sizes n), pn_height = snd (size_in sizes n)\<rparr>"

fun spread :: "bool \<Rightarrow> sizes \<Rightarrow> rat \<Rightarrow> rat \<Rightarrow> flow_node list \<Rightarrow> positioned_node list" where
  "spread h sizes m c [] = []"
| "spread h sizes m c (n # ns) =
     box_of h sizes m c n # spread h sizes m (c + (cross_dim h (size_in sizes n) + node_spacing h)) ns"

fun rows :: "bool \<Rightarrow> sizes \<Rightarrow> (flow_node list \<Rightarrow> rat) \<Rightarrow> rat \<Rightarrow> flow_node list list \<Rightarrow> positioned_node list" where
  "rows h sizes start m [] = []"
| "rows h sizes start m (r # rs) =
     spread h sizes m (start r) r @ rows h sizes start (m + (widest_main h sizes r + level_spacing h)) rs"

definition entries :: "positioned_node list \<Rightarrow> places" where
  "entries ps = map (\<lambda>p. (n_id (pn_node p), p)) ps"

lemma entries_simps [simp]:
  "entries [] = []" "entries (p # ps) = (n_id (pn_node p), p) # entries ps"
  "entries (ps @ qs) = entries ps @ entries qs" "jm_values (entries ps) = ps"
  "jm_keys (entries ps) = map (\<lambda>p. n_id (pn_node p)) ps"
  by (simp_all add: entries_def jm_values_def jm_keys_def comp_def)

lemma box_of_simps [simp]:
  "pn_node (box_of h sizes m c n) = n" "cross_pos h (box_of h sizes m c n) = c"
  "cross_size h (box_of h sizes m c n) = cross_dim h (size_in sizes n)"
  by (simp_all add: box_of_def cross_pos_def cross_size_def cross_dim_def)

lemma map_node_spread [simp]: "map pn_node (spread h sizes m c r) = r"
  by (induction r arbitrary: c) auto

lemma map_node_rows [simp]: "map pn_node (rows h sizes start m rs) = concat rs"
  by (induction rs arbitrary: m) auto

lemma map_id_spread [simp]: "map (\<lambda>p. n_id (pn_node p)) (spread h sizes m c r) = map n_id r"
proof -
  have "map (\<lambda>p. n_id (pn_node p)) (spread h sizes m c r) = map n_id (map pn_node (spread h sizes m c r))"
    by (simp only: map_map comp_def)
  then show ?thesis by (simp only: map_node_spread)
qed

lemma map_id_rows [simp]: "map (\<lambda>p. n_id (pn_node p)) (rows h sizes start m rs) = map n_id (concat rs)"
proof -
  have "map (\<lambda>p. n_id (pn_node p)) (rows h sizes start m rs) = map n_id (map pn_node (rows h sizes start m rs))"
    by (simp only: map_map comp_def)
  then show ?thesis by (simp only: map_node_rows)
qed

subsection \<open>The first pass\<close>

lemma place_nodes:
  "distinct (map n_id ns) \<Longrightarrow> set (map n_id ns) \<inter> set (jm_keys places) = {} \<Longrightarrow>
     fst (fold (put_node h sizes m) ns (places, c)) = places @ entries (spread h sizes m c ns)"
proof (induction ns arbitrary: places c)
  case (Cons n ns)
  have "put_node h sizes m n (places, c) =
     (places @ entries [box_of h sizes m c n], c + (cross_dim h (size_in sizes n) + node_spacing h))"
    using Cons.prems(2) by (simp add: put_node_def Let_def jm_set_new box_of_def)
  with Cons show ?case by auto
qed simp

lemma place_ranks:
  "distinct (map n_id (concat rs)) \<Longrightarrow> set (map n_id (concat rs)) \<inter> set (jm_keys places) = {} \<Longrightarrow>
     fst (fold (put_rank h sizes) rs (places, m)) = places @ entries (rows h sizes (\<lambda>r. 50) m rs)"
proof (induction rs arbitrary: places m)
  case (Cons r rs)
  have "fst (fold (put_node h sizes m) r (places, 50)) = places @ entries (spread h sizes m 50 r)"
    by (rule place_nodes) (use Cons.prems in auto)
  then have "put_rank h sizes r (places, m) =
     (places @ entries (spread h sizes m 50 r), m + (widest_main h sizes r + level_spacing h))"
    by (simp add: put_rank_def)
  moreover have "set (map n_id (concat rs)) \<inter> set (jm_keys (places @ entries (spread h sizes m 50 r))) = {}"
    using Cons.prems by auto
  ultimately show ?case using Cons by simp
qed simp

subsection \<open>Centring\<close>

definition extent :: "bool \<Rightarrow> sizes \<Rightarrow> flow_node list \<Rightarrow> rat" where
  "extent h sizes r = (\<Sum>n \<leftarrow> r. cross_dim h (size_in sizes n)) + (of_nat (length r) - 1) * node_spacing h"

definition positive_sizes :: "sizes \<Rightarrow> flow_node list \<Rightarrow> bool" where
  "positive_sizes sizes ns = (\<forall>n \<in> set ns. 0 < fst (size_in sizes n) \<and> 0 < snd (size_in sizes n))"

lemma cross_dim_pos: "positive_sizes sizes ns \<Longrightarrow> n \<in> set ns \<Longrightarrow> 0 < cross_dim h (size_in sizes n)"
  by (simp add: positive_sizes_def cross_dim_def)

lemma node_spacing_pos: "40 \<le> node_spacing h" by (simp add: node_spacing_def)
lemma level_spacing_pos: "90 \<le> level_spacing h" by (simp add: level_spacing_def)

lemma extent_Cons:
  "r \<noteq> [] \<Longrightarrow> extent h sizes (n # r) = cross_dim h (size_in sizes n) + node_spacing h + extent h sizes r"
  by (simp add: extent_def algebra_simps)

lemma extent_single: "extent h sizes [n] = cross_dim h (size_in sizes n)"
  by (simp add: extent_def)

text \<open>The last box of a rank ends at its extent.\<close>

lemma spread_bounds:
  "positive_sizes sizes r \<Longrightarrow> p \<in> set (spread h sizes m c r) \<Longrightarrow>
     c \<le> cross_pos h p \<and> cross_pos h p + cross_size h p \<le> c + extent h sizes r"
proof (induction r arbitrary: c p)
  case (Cons n r)
  let ?d = "cross_dim h (size_in sizes n)"
  have d: "0 < ?d" using cross_dim_pos [OF Cons.prems(1)] by simp
  have r: "positive_sizes sizes r" using Cons.prems(1) by (simp add: positive_sizes_def)
  show ?case
  proof (cases "r = []")
    case True
    then show ?thesis using Cons.prems(2) by (simp add: extent_single)
  next
    case False
    have e: "extent h sizes (n # r) = ?d + node_spacing h + extent h sizes r"
      by (rule extent_Cons [OF False])
    have "0 \<le> extent h sizes r"
    proof -
      obtain n' r' where "r = n' # r'" using False by (cases r) auto
      then have "box_of h sizes m c n' \<in> set (spread h sizes m c r)" by simp
      from Cons.IH [OF r this] show ?thesis
        using cross_dim_pos [OF r, of n' h] \<open>r = n' # r'\<close> by simp
    qed
    then show ?thesis
      using Cons.prems(2) Cons.IH [OF r, of p "c + (?d + node_spacing h)"] d node_spacing_pos [of h]
      by (auto simp: e)
  qed
qed simp

lemma extent_pos: "positive_sizes sizes r \<Longrightarrow> r \<noteq> [] \<Longrightarrow> 0 < extent h sizes r"
proof -
  assume r: "positive_sizes sizes r" "r \<noteq> []"
  then obtain n ns where n: "r = n # ns" by (cases r) auto
  have "box_of h sizes 0 0 n \<in> set (spread h sizes 0 0 r)" by (simp add: n)
  from spread_bounds [OF r(1) this] show ?thesis using cross_dim_pos [OF r(1), of n h] n by simp
qed

text \<open>Reading the bounds of a rank from the map.\<close>

definition widen :: "bool \<Rightarrow> (rat \<times> rat) option \<Rightarrow> positioned_node \<Rightarrow> (rat \<times> rat) option" where
  "widen h b p = (let val = cross_pos h p; ext = val + cross_size h p in
     case b of None \<Rightarrow> Some (val, ext)
     | Some (mn, mx) \<Rightarrow> Some (if val < mn then val else mn, if mx < ext then ext else mx))"

lemma rank_bounds_widen:
  assumes "\<forall>p \<in> set ps. jm_get places (n_id (pn_node p)) = Some p"
  shows "bounds_in h places (map pn_node ps) = foldl (widen h) None ps"
proof -
  have "foldl (\<lambda>b n. case jm_get places (n_id n) of None \<Rightarrow> b
      | Some p \<Rightarrow> (let val = cross_pos h p; ext = val + cross_size h p in
          case b of None \<Rightarrow> Some (val, ext)
          | Some (mn, mx) \<Rightarrow> Some (if val < mn then val else mn, if mx < ext then ext else mx))) b (map pn_node ps) =
     foldl (widen h) b ps" for b
    using assms by (induction ps arbitrary: b) (simp_all add: widen_def)
  then show ?thesis by (simp add: bounds_in_def)
qed

lemma widen_spread:
  "positive_sizes sizes r \<Longrightarrow> mn \<le> c \<Longrightarrow> mx < c \<Longrightarrow> r \<noteq> [] \<Longrightarrow>
     foldl (widen h) (Some (mn, mx)) (spread h sizes m c r) = Some (mn, c + extent h sizes r)"
proof (induction r arbitrary: c mx)
  case (Cons n r)
  let ?d = "cross_dim h (size_in sizes n)"
  have d: "0 < ?d" using cross_dim_pos [OF Cons.prems(1)] by simp
  have r: "positive_sizes sizes r" using Cons.prems(1) by (simp add: positive_sizes_def)
  have w: "widen h (Some (mn, mx)) (box_of h sizes m c n) = Some (mn, c + ?d)"
    using Cons.prems d by (simp add: widen_def Let_def)
  show ?case
  proof (cases "r = []")
    case True
    then show ?thesis using w by (simp add: extent_single)
  next
    case False
    have "foldl (widen h) (Some (mn, c + ?d)) (spread h sizes m (c + (?d + node_spacing h)) r) =
      Some (mn, c + (?d + node_spacing h) + extent h sizes r)"
      by (rule Cons.IH [OF r _ _ False]) (use Cons.prems d node_spacing_pos [of h] in auto)
    then show ?thesis using w extent_Cons [OF False, of h sizes n] by (simp add: add.assoc)
  qed
qed simp

lemma spread_rank_bounds:
  assumes "positive_sizes sizes r" "r \<noteq> []"
  shows "foldl (widen h) None (spread h sizes m c r) = Some (c, c + extent h sizes r)"
proof -
  obtain n ns where n: "r = n # ns" using assms(2) by (cases r) auto
  let ?d = "cross_dim h (size_in sizes n)"
  have d: "0 < ?d" using cross_dim_pos [OF assms(1)] n by simp
  have ns: "positive_sizes sizes ns" using assms(1) n by (simp add: positive_sizes_def)
  have w: "widen h None (box_of h sizes m c n) = Some (c, c + ?d)" by (simp add: widen_def Let_def)
  show ?thesis
  proof (cases "ns = []")
    case True
    then show ?thesis using w n by (simp add: extent_single)
  next
    case False
    have "foldl (widen h) (Some (c, c + ?d)) (spread h sizes m (c + (?d + node_spacing h)) ns) =
      Some (c, c + (?d + node_spacing h) + extent h sizes ns)"
      by (rule widen_spread [OF ns _ _ False]) (use d node_spacing_pos [of h] in auto)
    then show ?thesis using w n extent_Cons [OF False, of h sizes n] by (simp add: add.assoc)
  qed
qed

text \<open>Shifting the boxes of one rank in place.\<close>

lemma jm_set_mid: "k \<notin> set (jm_keys pre) \<Longrightarrow> jm_set k v (pre @ (k, v') # post) = pre @ (k, v) # post"
  by (induction pre) auto

lemma jm_get_mid: "k \<notin> set (jm_keys pre) \<Longrightarrow> jm_get (pre @ (k, v) # post) k = Some v"
  by (induction pre) auto

lemma shift_node_node [simp]: "pn_node (shift_node h d p) = pn_node p"
  by (simp add: shift_node_def)

lemma shift_row:
  "distinct (map n_id (map pn_node row)) \<Longrightarrow> set (map n_id (map pn_node row)) \<inter> set (jm_keys pre) = {} \<Longrightarrow>
     fold (move_at h d) (map pn_node row) (pre @ entries row @ post) =
     pre @ entries (map (shift_node h d) row) @ post"
proof (induction row arbitrary: pre)
  case (Cons p row)
  have "move_at h d (pn_node p) (pre @ entries (p # row) @ post) =
     (pre @ entries [shift_node h d p]) @ entries row @ post"
    using Cons.prems(2) by (simp add: move_at_def jm_get_mid jm_set_mid)
  moreover have "set (map n_id (map pn_node row)) \<inter> set (jm_keys (pre @ entries [shift_node h d p])) = {}"
    using Cons.prems by auto
  ultimately show ?case using Cons.IH [of "pre @ entries [shift_node h d p]"] Cons.prems(1) by simp
qed simp

lemma shift_box: "shift_node h d (box_of h sizes m c n) = box_of h sizes m (c + d) n"
  by (simp add: shift_node_def box_of_def)

lemma shift_spread: "map (shift_node h d) (spread h sizes m c r) = spread h sizes m (c + d) r"
  by (induction r arbitrary: c) (simp_all add: shift_box algebra_simps)

definition centre_shift :: "bool \<Rightarrow> sizes \<Rightarrow> rat \<Rightarrow> flow_node list \<Rightarrow> rat" where
  "centre_shift h sizes mc r = max 0 ((mc - extent h sizes r) / 2 - 50)"

lemma entries_get:
  "distinct (map (\<lambda>p. n_id (pn_node p)) row) \<Longrightarrow>
     set (map (\<lambda>p. n_id (pn_node p)) row) \<inter> set (jm_keys pre) = {} \<Longrightarrow> p \<in> set row \<Longrightarrow>
     jm_get (pre @ entries row @ post) (n_id (pn_node p)) = Some p"
proof (induction row arbitrary: pre)
  case (Cons a row)
  show ?case
  proof (cases "p = a")
    case True
    then show ?thesis using Cons.prems(2) by (simp add: jm_get_mid)
  next
    case False
    have "set (map (\<lambda>p. n_id (pn_node p)) row) \<inter> set (jm_keys (pre @ entries [a])) = {}"
      using Cons.prems by auto
    then show ?thesis using Cons.IH [of "pre @ entries [a]"] Cons.prems False by simp
  qed
qed simp

lemma centre_row:
  assumes r: "positive_sizes sizes r" "r \<noteq> []" "distinct (map n_id r)"
    and pre: "set (map n_id r) \<inter> set (jm_keys pre) = {}"
  shows "centred_rank h mc r (pre @ entries (spread h sizes m 50 r) @ post) =
     pre @ entries (spread h sizes m (50 + centre_shift h sizes mc r) r) @ post"
proof -
  let ?row = "spread h sizes m 50 r" and ?off = "(mc - extent h sizes r) / 2 - 50"
  let ?places = "pre @ entries ?row @ post"
  have row: "map pn_node ?row = r" by simp
  have "\<forall>p \<in> set ?row. jm_get ?places (n_id (pn_node p)) = Some p"
    using entries_get [of ?row pre _ post] r(3) pre by (auto simp: image_Un)
  from rank_bounds_widen [OF this, of h] have "bounds_in h ?places r = foldl (widen h) None ?row"
    by (simp only: row)
  then have b: "bounds_in h ?places r = Some (50, 50 + extent h sizes r)"
    using spread_rank_bounds [OF r(1,2), of h m 50] by simp
  have "fold (move_at h ?off) r ?places = pre @ entries (map (shift_node h ?off) ?row) @ post"
    using shift_row [of ?row pre h ?off post] r(3) pre by simp
  then show ?thesis using b by (auto simp: centred_rank_def shift_spread centre_shift_def max_def)
qed

lemma centre_rows:
  assumes "positive_sizes sizes (concat rs)" "\<forall>r \<in> set rs. r \<noteq> []" "distinct (map n_id (concat rs))"
    and "set (map n_id (concat rs)) \<inter> set (jm_keys pre) = {}"
  shows "fold (centred_rank h mc) rs (pre @ entries (rows h sizes (\<lambda>r. 50) m rs)) =
     pre @ entries (rows h sizes (\<lambda>r. 50 + centre_shift h sizes mc r) m rs)"
  using assms
proof (induction rs arbitrary: pre m)
  case (Cons r rs)
  let ?row = "spread h sizes m (50 + centre_shift h sizes mc r) r"
  let ?m = "m + (widest_main h sizes r + level_spacing h)"
  have "centred_rank h mc r (pre @ entries (rows h sizes (\<lambda>r. 50) m (r # rs))) =
     (pre @ entries ?row) @ entries (rows h sizes (\<lambda>r. 50) ?m rs)"
    using centre_row [of sizes r pre h mc m "entries (rows h sizes (\<lambda>r. 50) ?m rs)"] Cons.prems
    by (auto simp: positive_sizes_def)
  moreover have "fold (centred_rank h mc) rs ((pre @ entries ?row) @ entries (rows h sizes (\<lambda>r. 50) ?m rs)) =
     (pre @ entries ?row) @ entries (rows h sizes (\<lambda>r. 50 + centre_shift h sizes mc r) ?m rs)"
  proof (rule Cons.IH)
    show "positive_sizes sizes (concat rs)" using Cons.prems(1) by (simp add: positive_sizes_def)
    show "set (map n_id (concat rs)) \<inter> set (jm_keys (pre @ entries ?row)) = {}"
      using Cons.prems(3,4) by auto
  qed (use Cons.prems in auto)
  ultimately show ?case by simp
qed simp

text \<open>The widest rank.\<close>

definition widest :: "bool \<Rightarrow> sizes \<Rightarrow> flow_node list list \<Rightarrow> rat" where
  "widest h sizes rs = Max (extent h sizes ` set rs)"

lemma foldl_max:
  "foldl (\<lambda>m p. let e = f p in if m < e then e else m) a ps = Max (insert a (f ` set ps))"
  for a :: rat
proof (induction ps arbitrary: a)
  case (Cons p ps)
  have "foldl (\<lambda>m p. let e = f p in if m < e then e else m) a (p # ps) =
     Max (insert (max a (f p)) (f ` set ps))"
    using Cons by (simp add: Let_def max_def)
  also have "\<dots> = max (max a (f p)) (Max (insert a (f ` set ps)))"
  proof (cases "ps = []")
    case False
    then show ?thesis by (simp add: max.assoc)
  qed (simp add: max_def)
  also have "\<dots> = Max (insert a (f ` set (p # ps)))"
    by (cases "ps = []") (auto simp: max.assoc max.left_commute)
  finally show ?case .
qed simp

lemma spread_last:
  "r \<noteq> [] \<Longrightarrow> \<exists>p \<in> set (spread h sizes m c r). cross_pos h p + cross_size h p = c + extent h sizes r"
proof (induction r arbitrary: c)
  case (Cons n r)
  show ?case
  proof (cases "r = []")
    case True
    then show ?thesis by (simp add: extent_single)
  next
    case False
    then show ?thesis
      using Cons.IH [OF False, of "c + (cross_dim h (size_in sizes n) + node_spacing h)"]
        extent_Cons [OF False, of h sizes n]
      by (fastforce simp: algebra_simps)
  qed
qed simp

lemma rows_member:
  "p \<in> set (rows h sizes start m rs) \<Longrightarrow> \<exists>r \<in> set rs. \<exists>m'. m \<le> m' \<and> p \<in> set (spread h sizes m' (start r) r)"
  if "\<And>r. r \<in> set rs \<Longrightarrow> 0 \<le> widest_main h sizes r"
  using that
proof (induction rs arbitrary: m)
  case (Cons r rs)
  have "0 \<le> widest_main h sizes r" using Cons.prems by simp
  then have le: "m \<le> m + (widest_main h sizes r + level_spacing h)" using level_spacing_pos [of h] by simp
  show ?case
  proof (cases "p \<in> set (spread h sizes m (start r) r)")
    case True
    then show ?thesis by auto
  next
    case False
    then have "p \<in> set (rows h sizes start (m + (widest_main h sizes r + level_spacing h)) rs)"
      using Cons.prems(1) by simp
    from Cons.IH [OF this] Cons.prems(2) le show ?thesis by (meson list.set_intros(2) order_trans)
  qed
qed simp

lemma rows_contain:
  "r \<in> set rs \<Longrightarrow> \<exists>m'. set (spread h sizes m' (start r) r) \<subseteq> set (rows h sizes start m rs)"
  by (induction rs arbitrary: m) (auto, blast+)

lemma max_main_Max: "widest_main h sizes r = Max (insert 0 ((\<lambda>n. main_dim h (size_in sizes n)) ` set r))"
  using foldl_max [of "\<lambda>n. main_dim h (size_in sizes n)" 0 r] by (simp add: widest_main_def)

lemma max_main_nonneg: "0 \<le> widest_main h sizes r"
  by (simp add: max_main_Max)

lemma main_le_max: "n \<in> set r \<Longrightarrow> main_dim h (size_in sizes n) \<le> widest_main h sizes r"
  by (simp add: max_main_Max)

lemma max_cross_rows:
  assumes "positive_sizes sizes (concat rs)" "\<forall>r \<in> set rs. r \<noteq> []" "rs \<noteq> []"
  shows "max_cross_extent h (entries (rows h sizes (\<lambda>r. 50) m rs)) = 50 + widest h sizes rs"
proof -
  let ?ps = "rows h sizes (\<lambda>r. 50) m rs" and ?W = "widest h sizes rs"
  let ?f = "\<lambda>p. cross_pos h p + cross_size h p"
  have pos: "positive_sizes sizes r" if "r \<in> set rs" for r
    using assms(1) that by (auto simp: positive_sizes_def)
  have eW: "extent h sizes r \<le> ?W" if "r \<in> set rs" for r using that by (simp add: widest_def)
  have "?W \<in> extent h sizes ` set rs" unfolding widest_def by (rule Max_in) (use assms(3) in auto)
  then obtain r where r: "r \<in> set rs" "?W = extent h sizes r" by auto
  have W: "0 < ?W" using extent_pos [OF pos [OF r(1)]] assms(2) r by simp
  obtain m' where "set (spread h sizes m' 50 r) \<subseteq> set ?ps" using rows_contain [OF r(1), of h sizes "\<lambda>r. 50" m] by auto
  moreover obtain p where "p \<in> set (spread h sizes m' 50 r)" "?f p = 50 + ?W"
    using spread_last [of r h sizes m' 50] assms(2) r by auto
  ultimately have hit: "50 + ?W \<in> ?f ` set ?ps" by force
  have "max_cross_extent h (entries ?ps) = Max (insert 0 (?f ` set ?ps))"
    using foldl_max [of ?f 0 ?ps] by (simp add: max_cross_extent_def)
  also have "\<dots> = 50 + ?W"
  proof (rule Max_eqI)
    fix y assume "y \<in> insert 0 (?f ` set ?ps)"
    then consider "y = 0" | p where "p \<in> set ?ps" "y = ?f p" by auto
    then show "y \<le> 50 + ?W"
    proof cases
      case 2
      obtain r' m'' where "r' \<in> set rs" "p \<in> set (spread h sizes m'' 50 r')"
        using rows_member [OF max_main_nonneg 2(1)] by blast
      then show ?thesis using spread_bounds [OF pos] eW 2(2) by fastforce
    qed (use W in simp)
  qed (use hit in auto)
  finally show ?thesis .
qed

lemma place_all_rows:
  assumes "positive_sizes sizes (concat rs)" "\<forall>r \<in> set rs. r \<noteq> []" "distinct (map n_id (concat rs))" "rs \<noteq> []"
  shows "placed_all h sizes rs =
     entries (rows h sizes (\<lambda>r. 50 + centre_shift h sizes (50 + widest h sizes rs) r) 50 rs)"
proof -
  have "fst (fold (put_rank h sizes) rs ([], 50)) = entries (rows h sizes (\<lambda>r. 50) 50 rs)"
    using place_ranks [OF assms(3), of "[]" h sizes 50] by simp
  then show ?thesis
    using centre_rows [OF assms(1-3), of "[]" h "50 + widest h sizes rs" 50]
      max_cross_rows [OF assms(1,2,4), of h 50]
    by (simp add: placed_all_def Let_def)
qed

end
