(* ===== verification/MermaidChecked.thy ===== *)
theory MermaidChecked
  imports MermaidPlace
begin

text \<open>
  No lookup of the layout throws: every node that is placed has a size, and every node that is
  centred has a place. So \<open>layoutFlowgraph\<close> returns what the layout without the lookups plans, for
  every graph, whether well formed or not, and it is endless only when the rank search is.
\<close>

lemma map_js_run_Returns [simp]: "map_js_run f x = Returns y \<longleftrightarrow> (\<exists>z. x = Returns z \<and> f z = y)"
  by (cases x) auto

lemma try_fold_total:
  "P s \<Longrightarrow> (\<And>x s. x \<in> set xs \<Longrightarrow> P s \<Longrightarrow> f x s = Some (g x s) \<and> P (g x s)) \<Longrightarrow>
   try_fold f xs s = Some (fold g xs s) \<and> P (fold g xs s)"
  by (induction xs arbitrary: s) auto

text \<open>The identifiers of the nodes have an entry.\<close>

definition listed :: "(jstr, 'v) jmap \<Rightarrow> flow_node list \<Rightarrow> bool" where
  "listed m ns = (n_id ` set ns \<subseteq> set (jm_keys m))"

lemma listed_get: "listed m ns \<Longrightarrow> n \<in> set ns \<Longrightarrow> \<exists>v. jm_get m (n_id n) = Some v"
  using jm_get_None [of m "n_id n"] by (auto simp: listed_def)

lemma listed_part: "listed m (concat rs) \<Longrightarrow> r \<in> set rs \<Longrightarrow> listed m r"
  unfolding listed_def by fastforce

lemma size_of_listed: "listed sizes ns \<Longrightarrow> n \<in> set ns \<Longrightarrow> size_of sizes n = Some (size_in sizes n)"
  using listed_get [of sizes ns n] by (auto simp: size_of_def size_in_def get_or_def)

subsection \<open>Placement\<close>

lemma place_node_listed:
  "listed sizes ns \<Longrightarrow> n \<in> set ns \<Longrightarrow> place_node h sizes m n st = Some (put_node h sizes m n st)"
  by (cases st) (simp add: place_node_def put_node_def size_of_listed Let_def)

lemma max_main_listed:
  assumes "listed sizes ns"
  shows "max_main h sizes ns = Some (widest_main h sizes ns)"
proof -
  let ?g = "\<lambda>n m. let d = main_dim h (size_in sizes n) in if m < d then d else m"
  have "max_main h sizes ns = Some (fold ?g ns 0)"
    unfolding max_main_def
    by (rule conjunct1 [OF try_fold_total [of "\<lambda>s. True"]]) (simp_all add: size_of_listed [OF assms])
  then show ?thesis by (simp add: widest_main_def foldl_conv_fold)
qed

lemma keys_put_node: "set (jm_keys (fst (put_node h sizes m n st))) = insert (n_id n) (set (jm_keys (fst st)))"
  by (cases st) (auto simp: put_node_def Let_def jm_keys_set)

lemma keys_put_nodes:
  "set (jm_keys (fst (fold (put_node h sizes m) ns st))) = n_id ` set ns \<union> set (jm_keys (fst st))"
  by (induction ns arbitrary: st) (simp_all add: keys_put_node)

lemma place_rank_listed:
  assumes "listed sizes r"
  shows "place_rank h sizes r st = Some (put_rank h sizes r st)"
proof -
  obtain places m where st: "st = (places, m)" by (cases st)
  have "try_fold (place_node h sizes m) r (places, 50) = Some (fold (put_node h sizes m) r (places, 50))"
    by (rule conjunct1 [OF try_fold_total [of "\<lambda>s. True"]]) (simp_all add: place_node_listed [OF assms])
  then show ?thesis
    by (simp add: st place_rank_def put_rank_def max_main_listed [OF assms] split: prod.split)
qed

lemma keys_put_ranks:
  "set (jm_keys (fst (fold (put_rank h sizes) rs st))) = n_id ` set (concat rs) \<union> set (jm_keys (fst st))"
proof (induction rs arbitrary: st)
  case (Cons r rs)
  have "set (jm_keys (fst (put_rank h sizes r st))) = n_id ` set r \<union> set (jm_keys (fst st))"
    by (cases st) (simp add: put_rank_def keys_put_nodes)
  with Cons show ?case by auto
qed simp

subsection \<open>Centring\<close>

lemma rank_bounds_listed:
  assumes "listed places r"
  shows "rank_bounds h places r = Some (bounds_in h places r)"
proof -
  let ?g = "\<lambda>n b. case jm_get places (n_id n) of None \<Rightarrow> b
      | Some p \<Rightarrow> (let val = cross_pos h p; ext = val + cross_size h p in
          case b of None \<Rightarrow> Some (val, ext)
          | Some (mn, mx) \<Rightarrow> Some (if val < mn then val else mn, if mx < ext then ext else mx))"
  have "rank_bounds h places r = Some (fold ?g r None)"
    unfolding rank_bounds_def
    by (rule conjunct1 [OF try_fold_total [of "\<lambda>s. True"]])
      (use listed_get [OF assms] in \<open>fastforce simp: Let_def split: option.split\<close>)+
  then show ?thesis by (simp add: bounds_in_def foldl_conv_fold)
qed

lemma keys_move_at: "jm_keys (move_at h d n places) = jm_keys places"
  using jm_get_None [of places "n_id n"] by (auto simp: move_at_def jm_keys_set split: option.split)

lemma keys_centred_rank: "jm_keys (centred_rank h mc r places) = jm_keys places"
proof -
  have "jm_keys (fold (move_at h d) ns places) = jm_keys places" for d ns
    by (induction ns arbitrary: places) (simp_all add: keys_move_at)
  then show ?thesis by (simp add: centred_rank_def Let_def split: option.split)
qed

lemma centre_rank_listed:
  assumes "listed places r"
  shows "centre_rank h mc r places = Some (centred_rank h mc r places)"
proof -
  have "try_fold (shift_at h d) r places = Some (fold (move_at h d) r places)" for d
  proof (rule conjunct1 [OF try_fold_total [of "\<lambda>s. listed s r"]])
    show "shift_at h d x s = Some (move_at h d x s) \<and> listed (move_at h d x s) r" if "x \<in> set r" "listed s r" for x s
      using listed_get [OF that(2,1)] that(2) by (auto simp: shift_at_def move_at_def listed_def jm_keys_set)
  qed (rule assms)
  then show ?thesis
    by (simp add: centre_rank_def centred_rank_def rank_bounds_listed [OF assms] Let_def split: option.split)
qed

subsection \<open>The whole layout\<close>

lemma place_all_listed:
  assumes "listed sizes (concat rs)"
  shows "place_all h sizes rs = Some (placed_all h sizes rs)"
proof -
  have "try_fold (place_rank h sizes) rs ([], 50) = Some (fold (put_rank h sizes) rs ([], 50))"
    by (rule conjunct1 [OF try_fold_total [of "\<lambda>s. True"]]) (simp_all add: place_rank_listed listed_part [OF assms])
  moreover obtain places m where pm: "fold (put_rank h sizes) rs ([], 50) = (places, m)" by fastforce
  moreover have "try_fold (centre_rank h mc) rs places = Some (fold (centred_rank h mc) rs places)" for mc
  proof (rule conjunct1 [OF try_fold_total [of "\<lambda>s. listed s (concat rs)"]])
    show "listed places (concat rs)" using keys_put_ranks [of h sizes rs "([], 50)"] pm by (simp add: listed_def)
    show "centre_rank h mc x s = Some (centred_rank h mc x s) \<and> listed (centred_rank h mc x s) (concat rs)"
      if "x \<in> set rs" "listed s (concat rs)" for x s
      using centre_rank_listed [OF listed_part [OF that(2,1)]] that(2) by (simp add: listed_def keys_centred_rank)
  qed
  ultimately show ?thesis by (simp add: place_all_def placed_all_def Let_def)
qed

text \<open>Only nodes of the graph are ranked, and each of them gets a size.\<close>

lemma grouped_nodes: "set (concat (rank_groups nodes k levels)) \<subseteq> set (jm_values nodes)"
proof -
  have step: "set (concat (group_node nodes p grps)) \<subseteq> set (jm_values nodes)"
    if "set (concat grps) \<subseteq> set (jm_values nodes)" for p grps
  proof (cases "jm_get nodes (fst p)")
    case (Some n)
    then have n: "n \<in> set (jm_values nodes)" by (force simp: jm_values_def dest: jm_get_in)
    show ?thesis
    proof (cases "snd p < length grps")
      case True
      then have "set (grps ! snd p) \<subseteq> set (jm_values nodes)" using that nth_mem [OF True] by fastforce
      moreover have "set (grps[snd p := grps ! snd p @ [n]]) \<subseteq> insert (grps ! snd p @ [n]) (set grps)"
        by (rule set_update_subset_insert)
      then have "set (concat (grps[snd p := grps ! snd p @ [n]])) \<subseteq>
          set (grps ! snd p @ [n]) \<union> set (concat grps)" by auto
      ultimately show ?thesis using Some True n that by (simp add: group_node_def) blast
    qed (use that Some in \<open>simp add: group_node_def\<close>)
  qed (use that in \<open>simp add: group_node_def\<close>)
  have "set (concat (fold (group_node nodes) ps grps)) \<subseteq> set (jm_values nodes)"
    if "set (concat grps) \<subseteq> set (jm_values nodes)" for ps grps
    using that step by (induction ps arbitrary: grps) (simp_all del: set_concat)
  then show ?thesis unfolding rank_groups_def by simp
qed

lemma keys_node_sizes: "set (jm_keys (node_sizes ns)) = n_id ` set ns"
proof -
  have "set (jm_keys (fold (\<lambda>n. jm_set (n_id n) (estimateNodeSize n)) ns m)) = n_id ` set ns \<union> set (jm_keys m)" for m
    by (induction ns arbitrary: m) (auto simp: jm_keys_set)
  then show ?thesis by (simp add: node_sizes_def)
qed

lemma flow_places_planned: "flow_places g st = Some (planned_places g st)"
proof -
  have "set (concat (active_ranks g st)) \<subseteq> set (jm_values (g_nodes g))"
    using grouped_nodes unfolding active_ranks_def by fastforce
  then have "listed (node_sizes (jm_values (g_nodes g))) (concat (active_ranks g st))"
    by (auto simp: listed_def keys_node_sizes)
  then show ?thesis unfolding flow_places_def planned_places_def by (rule place_all_listed)
qed

theorem layoutFlowgraph_planned:
  "layoutFlowgraph g = (case plan_layout g of None \<Rightarrow> Endless | Some l \<Rightarrow> Returns l)"
  by (simp add: layoutFlowgraph_def plan_layout_def finish_layout_def planned_layout_def flow_places_planned Let_def
      split: option.split)

lemma layout_never_throws: "layoutFlowgraph g \<noteq> Throws"
  by (simp add: layoutFlowgraph_planned split: option.split)

end
