(* ===== verification/MermaidSequence.thy ===== *)
theory MermaidSequence
  imports MermaidFlowInv
begin

text \<open>
  Sequence diagrams: the invariant of the loop of \<open>parseSequenceDiagram\<close>, and how message
  lines are read.
\<close>

subsection \<open>The sequence state\<close>

definition item_participants :: "seq_item \<Rightarrow> jstr list" where
  "item_participants it = (case it of
     SeqMessage m \<Rightarrow> [m_from m, m_to m] | SeqNote nt \<Rightarrow> nt_participants nt)"

definition seq_inv :: "seq_state \<Rightarrow> bool" where
  "seq_inv st = (jm_inv (sq_participants st) \<and>
     (\<forall>it \<in> set (sq_items st). set (item_participants it) \<subseteq> set (jm_keys (sq_participants st))))"

definition grows_seq :: "seq_state \<Rightarrow> seq_state \<Rightarrow> bool" where
  "grows_seq s t = ((\<exists>ks. jm_keys (sq_participants t) = jm_keys (sq_participants s) @ ks) \<and>
     (\<exists>its. sq_items t = sq_items s @ its))"

lemma keys_ensure:
  "jm_keys (ensure_participant p m) = (if p \<in> set (jm_keys m) then jm_keys m else jm_keys m @ [p])"
  by (simp add: ensure_participant_def jm_keys_set)

lemma inv_ensure: "jm_inv m \<Longrightarrow> jm_inv (ensure_participant p m)"
  by (simp add: ensure_participant_def jm_inv_set)

lemma fold_ensure:
  "jm_inv m \<Longrightarrow> jm_inv (fold ensure_participant ps m) \<and>
     set (jm_keys (fold ensure_participant ps m)) = set (jm_keys m) \<union> set ps \<and>
     (\<exists>ks. jm_keys (fold ensure_participant ps m) = jm_keys m @ ks)"
proof (induction ps arbitrary: m)
  case (Cons p ps)
  from Cons.IH [OF inv_ensure [OF Cons.prems, of p]] show ?case
    by (auto simp: keys_ensure split: if_splits)
qed simp

lemma seq_line_ok:
  assumes "seq_inv st"
  shows "seq_inv (seq_line line st) \<and> grows_seq st (seq_line line st)"
proof -
  have part: "seq_inv (seq_participant_line c st) \<and> grows_seq st (seq_participant_line c st)" for c
    using assms by (auto simp: seq_participant_line_def Let_def seq_inv_def grows_seq_def jm_inv_set jm_keys_set)
  have note_ok: "seq_inv (seq_note_line c st) \<and> grows_seq st (seq_note_line c st)" for c
  proof -
    have "jm_inv (sq_participants st)" using assms by (simp add: seq_inv_def)
    from fold_ensure [OF this, of "map js_trim (split_char 44 (cap c 2))"] show ?thesis
      using assms by (auto simp: seq_note_line_def Let_def seq_inv_def grows_seq_def item_participants_def)
  qed
  have msg: "seq_inv (seq_message_line c st) \<and> grows_seq st (seq_message_line c st)" for c
    using assms
    by (auto simp: seq_message_line_def Let_def seq_inv_def grows_seq_def item_participants_def
        keys_ensure inv_ensure)
  have "grows_seq st st" by (simp add: grows_seq_def)
  then show ?thesis using assms part note_ok msg by (simp add: seq_line_def split: option.splits)
qed

interpretation seq: event_machine seq_line seq_inv grows_seq
proof unfold_locales
  show "grows_seq s t \<Longrightarrow> grows_seq t u \<Longrightarrow> grows_seq s u" for s t u
    by (auto simp: grows_seq_def)
  show "grows_seq s s" for s by (simp add: grows_seq_def)
qed (simp_all add: seq_line_ok)

definition seq_diagram_ok :: "seq_diagram \<Rightarrow> bool" where
  "seq_diagram_ok d =
     (distinct (map pt_id (sd_participants d)) \<and>
      list_all (\<lambda>it. list_all (\<lambda>p. p \<in> set (map pt_id (sd_participants d))) (item_participants it))
        (sd_items d))"

lemma parse_seq_ok: "seq_diagram_ok (parseSequenceDiagram lines)"
proof -
  let ?st = "fold seq_line (tl lines) \<lparr>sq_participants = [], sq_items = []\<rparr>"
  have "seq_inv ?st" by (rule seq.inv_fold) (simp add: seq_inv_def jm_inv_def)
  moreover have "map pt_id (map (\<lambda>(i, l). \<lparr>pt_id = i, pt_label = l\<rparr>) m) = jm_keys m" for m
    by (auto simp: jm_keys_def)
  ultimately show ?thesis
    by (auto simp: seq_diagram_ok_def parseSequenceDiagram_def Let_def seq_inv_def jm_inv_def list_all_iff
        simp del: map_map)
qed

text \<open>Every sequence diagram the parser returns has distinct participants, and every sender,
  receiver and note participant of its items is one of them, whatever the lines are.\<close>

theorem parseSequenceDiagram_well_formed: "seq_diagram_ok (parseSequenceDiagram lines)"
  by (rule parse_seq_ok)

subsection \<open>Reading a message line\<close>

definition arrow_ops :: "jstr set" where
  "arrow_ops = {js ''->'', js ''->>'', js ''-->'', js ''-->>'', js ''-x'', js ''--x''}"

definition msg_text :: "jstr \<Rightarrow> jstr \<Rightarrow> jstr \<Rightarrow> jstr \<Rightarrow> jstr \<Rightarrow> jstr \<Rightarrow> jstr" where
  "msg_text a v op w b lbl = a @ v @ op @ w @ b @ [58] @ lbl"

definition ident :: "jstr \<Rightarrow> bool" where
  "ident a = (a \<noteq> [] \<and> list_all id_ch a)"

definition label_ok :: "jstr \<Rightarrow> bool" where
  "label_ok l = (js_trim l \<noteq> [] \<and> list_all (\<lambda>c. \<not> is_line_end c) l)"

lemma run_msg_label:
  assumes "label_ok lbl"
  shows "\<exists>l. js_trim l = js_trim lbl \<and>
     run (rseq [RStar r_ws, RCap 4 (rplus r_dot), REos]) (\<lambda>q c. Some (q, c)) (p, lbl) c =
       Some ((rev lbl @ p, []), c(4 \<mapsto> l))"
proof -
  let ?v = "takeWhile is_ws lbl" and ?l = "dropWhile is_ws lbl"
  have l: "lbl = ?v @ ?l" by simp
  have trim: "js_trim ?l = js_trim lbl"
    by (simp add: js_trim_def trim_start_def)
  have ne: "?l \<noteq> []" using assms by (auto simp del: dropWhile_eq_Nil_conv simp: label_ok_def js_trim_def trim_start_def trim_end_def)
  have dots: "\<forall>x \<in> set ?l. \<not> is_line_end x"
    using assms by (auto simp: label_ok_def list_all_iff dest: set_dropWhileD)
  have cap4: "run (RCap 4 (rplus (RChr (\<lambda>x. \<not> is_line_end x)))) (run REos (\<lambda>q c. Some (q, c)))
     (rev ?v @ p, ?l @ []) c = Some ((rev ?l @ rev ?v @ p, []), c(4 \<mapsto> ?l))"
    by (rule run_cap_plus_longest) (use ne dots in auto)
  have "run (RStar (RChr is_ws)) (run (rseq [RCap 4 (rplus r_dot), REos]) (\<lambda>q c. Some (q, c)))
     (p, ?v @ ?l) c = Some ((rev ?l @ rev ?v @ p, []), c(4 \<mapsto> ?l))"
  proof (rule run_star_first)
    show "?l = [] \<or> \<not> is_ws (hd ?l)" using hd_dropWhile by blast
    show "run (rseq [RCap 4 (rplus r_dot), REos]) (\<lambda>q c. Some (q, c)) (rev ?v @ p, ?l) c =
      Some ((rev ?l @ rev ?v @ p, []), c(4 \<mapsto> ?l))"
      using cap4 by (simp add: r_dot_def del: run_plus run.simps(7))
  qed (auto dest: set_takeWhileD)
  moreover have "rev ?l @ rev ?v @ p = rev lbl @ p" by (metis l append_assoc rev_append)
  ultimately have "run (RStar (RChr is_ws)) (run (rseq [RCap 4 (rplus r_dot), REos]) (\<lambda>q c. Some (q, c)))
     (p, lbl) c = Some ((rev lbl @ p, []), c(4 \<mapsto> ?l))" by simp
  with trim show ?thesis by (auto simp: r_ws_def)
qed

lemma run_msg_to:
  assumes b: "ident b" and lbl: "label_ok lbl" and w: "\<forall>x \<in> set w. is_ws x"
  shows "\<exists>l. js_trim l = js_trim lbl \<and>
     run (rseq [RStar r_ws, RCap 3 (rplus (RChr id_ch)), rlit (js '':''), RStar r_ws,
       RCap 4 (rplus r_dot), REos]) (\<lambda>q c. Some (q, c)) (p, w @ b @ [58] @ lbl) c =
       Some ((rev lbl @ 58 # rev b @ rev w @ p, []), c(3 \<mapsto> b, 4 \<mapsto> l))"
proof -
  let ?K = "run (rseq [rlit (js '':''), RStar r_ws, RCap 4 (rplus r_dot), REos]) (\<lambda>q c. Some (q, c))"
  have b': "b \<noteq> []" "\<forall>x \<in> set b. id_ch x" using b by (auto simp: ident_def list_all_iff)
  have colon: "\<not> id_ch 58" by (simp add: id_ch_def jchar_defs)
  obtain l where l: "js_trim l = js_trim lbl"
    "run (rseq [RStar r_ws, RCap 4 (rplus r_dot), REos]) (\<lambda>q c. Some (q, c))
      (58 # rev b @ rev w @ p, lbl) (c(3 \<mapsto> b)) = Some ((rev lbl @ 58 # rev b @ rev w @ p, []), c(3 \<mapsto> b, 4 \<mapsto> l))"
    using run_msg_label [OF lbl] by blast
  have "run (RCap 3 (rplus (RChr id_ch))) ?K (rev w @ p, b @ 58 # lbl) c =
     ?K (rev b @ rev w @ p, 58 # lbl) (c(3 \<mapsto> b))"
    by (rule run_cap_plus_max) (use b' colon in auto)
  also have "\<dots> = Some ((rev lbl @ 58 # rev b @ rev w @ p, []), c(3 \<mapsto> b, 4 \<mapsto> l))"
    using l(2) by (simp del: run_plus run.simps(7))
  finally have "run (RStar (RChr is_ws)) (run (RCap 3 (rplus (RChr id_ch))) ?K) (p, w @ b @ 58 # lbl) c =
     Some ((rev lbl @ 58 # rev b @ rev w @ p, []), c(3 \<mapsto> b, 4 \<mapsto> l))"
    by (intro run_star_first) (use w b' id_ch_not_ws in \<open>auto simp: hd_append\<close>)
  with l(1) show ?thesis by (auto simp: r_ws_def simp del: run_plus run.simps(7))
qed

lemma run_msg_arrow:
  assumes "op \<in> arrow_ops" "s = [] \<or> hd s \<noteq> 62" "K (rev op @ p, s) (c(2 \<mapsto> op)) = Some y"
  shows "run (RCap 2 arrow_rx) K (p, op @ s) c = Some y"
  using assms by (cases s) (auto simp: arrow_ops_def arrow_rx_def)

text \<open>The shared end of both readings of a message line: after the sender, the arrow.\<close>

lemma run_msg_rest:
  assumes op: "op \<in> arrow_ops" and b: "ident b" and lbl: "label_ok lbl"
    and ws: "\<forall>x \<in> set v. is_ws x" "\<forall>x \<in> set w. is_ws x"
  shows "\<exists>q l. js_trim l = js_trim lbl \<and>
     run (rseq [RStar r_ws, RCap 2 arrow_rx, RStar r_ws, RCap 3 (rplus (RChr id_ch)), rlit (js '':''),
       RStar r_ws, RCap 4 (rplus r_dot), REos]) (\<lambda>q c. Some (q, c)) (p, v @ op @ w @ b @ [58] @ lbl) c =
       Some ((q, []), c(2 \<mapsto> op, 3 \<mapsto> b, 4 \<mapsto> l))"
proof -
  let ?K = "run (rseq [RStar r_ws, RCap 3 (rplus (RChr id_ch)), rlit (js '':''), RStar r_ws,
    RCap 4 (rplus r_dot), REos]) (\<lambda>q c. Some (q, c))"
  obtain l where l: "js_trim l = js_trim lbl" "?K (rev op @ rev v @ p, w @ b @ [58] @ lbl) (c(2 \<mapsto> op)) =
     Some ((rev lbl @ 58 # rev b @ rev w @ rev op @ rev v @ p, []), c(2 \<mapsto> op, 3 \<mapsto> b, 4 \<mapsto> l))"
    using run_msg_to [OF b lbl ws(2)] by blast
  have "w @ b @ [58] @ lbl \<noteq> [] \<and> hd (w @ b @ [58] @ lbl) \<noteq> 62"
    using b ws(2) by (cases w; cases b) (auto simp: ident_def id_ch_def jchar_defs)
  then have "run (RCap 2 arrow_rx) ?K (rev v @ p, op @ w @ b @ [58] @ lbl) c =
     Some ((rev lbl @ 58 # rev b @ rev w @ rev op @ rev v @ p, []), c(2 \<mapsto> op, 3 \<mapsto> b, 4 \<mapsto> l))"
    by (intro run_msg_arrow [OF op]) (use l in auto)
  then have "run (RStar (RChr is_ws)) (run (RCap 2 arrow_rx) ?K) (p, v @ op @ w @ b @ [58] @ lbl) c =
     Some ((rev lbl @ 58 # rev b @ rev w @ rev op @ rev v @ p, []), c(2 \<mapsto> op, 3 \<mapsto> b, 4 \<mapsto> l))"
    by (intro run_star_first) (use ws op in \<open>auto simp: arrow_ops_def is_ws_def\<close>)
  with l(1) show ?thesis
    by (auto simp: r_ws_def simp del: run_plus run.simps(7) run_lit)
qed

lemma message_match:
  assumes a: "ident a" and vs: "v \<noteq> []" "\<forall>x \<in> set v. is_ws x"
    and op: "op \<in> arrow_ops" and b: "ident b" and lbl: "label_ok lbl" and w: "\<forall>x \<in> set w. is_ws x"
  shows "\<exists>c. rx_match message_rx (msg_text a v op w b lbl) = Some c \<and>
     c 1 = Some a \<and> c 2 = Some op \<and> c 3 = Some b \<and> (\<exists>l. c 4 = Some l \<and> js_trim l = js_trim lbl)"
proof -
  let ?K = "run (rseq [RStar r_ws, RCap 2 arrow_rx, RStar r_ws, RCap 3 (rplus (RChr id_ch)),
    rlit (js '':''), RStar r_ws, RCap 4 (rplus r_dot), REos]) (\<lambda>q c. Some (q, c))"
  let ?t = "v @ op @ w @ b @ [58] @ lbl"
  obtain q l where l: "js_trim l = js_trim lbl"
    "?K (rev a, ?t) ((\<lambda>n. None)(1 \<mapsto> a)) = Some ((q, []), (\<lambda>n. None)(1 \<mapsto> a, 2 \<mapsto> op, 3 \<mapsto> b, 4 \<mapsto> l))"
    using run_msg_rest [OF op b lbl vs(2) w] by blast
  have "run (RCap 1 (rplus (RChr id_ch))) ?K ([], a @ ?t) (\<lambda>n. None) =
     Some ((q, []), (\<lambda>n. None)(1 \<mapsto> a, 2 \<mapsto> op, 3 \<mapsto> b, 4 \<mapsto> l))"
  proof (rule run_cap_plus_longest)
    show "a \<noteq> []" "\<forall>x \<in> set a. id_ch x" using a by (auto simp: ident_def list_all_iff)
    show "?K (rev a @ [], ?t) ((\<lambda>n. None)(1 \<mapsto> a)) =
       Some ((q, []), (\<lambda>n. None)(1 \<mapsto> a, 2 \<mapsto> op, 3 \<mapsto> b, 4 \<mapsto> l))"
      using l(2) by (simp del: run_seq_list)
  next
    fix u z c' assume "?t = u @ z" "u \<noteq> []" "\<forall>x \<in> set u. id_ch x"
    then have "id_ch (hd v)" using vs(1) by (cases v; cases u) auto
    then show "?K (rev u @ rev a @ [], z) c' = None" using id_ch_not_ws vs list.set_sel(1) by blast
  qed
  then have "rx_match message_rx (a @ ?t) =
      Some ((\<lambda>n. None)(1 \<mapsto> a, 2 \<mapsto> op, 3 \<mapsto> b, 4 \<mapsto> l, 0 \<mapsto> a @ ?t))"
    by (simp add: message_rx_def rx_match_anchored del: run_plus run.simps(7) run_lit)
  with l(1) show ?thesis by (auto simp: msg_text_def)
qed

lemma starts_with_word':
  "starts_with (x @ d # y) kw \<Longrightarrow> d \<notin> set kw \<Longrightarrow> starts_with x kw"
  by (auto simp: starts_with_iff append_eq_append_conv2 Cons_eq_append_conv)

definition no_seq_keyword :: "jstr \<Rightarrow> bool" where
  "no_seq_keyword a = (\<not> starts_with (to_upper a) (js ''PARTICIPANT'') \<and>
     \<not> starts_with (to_upper a) (js ''NOTE'') \<and> \<not> starts_with a (js ''autonumber''))"

lemma seq_line_not_keyword:
  assumes "no_seq_keyword a" "d \<notin> set (js ''PARTICIPANTNOTEautonumber'')" "upper_unit d = d"
  shows "\<not> starts_with (a @ d # y) (js ''autonumber'')"
    "rx_match participant_rx (a @ d # y) = None" "rx_match note_rx (a @ d # y) = None"
proof -
  show "\<not> starts_with (a @ d # y) (js ''autonumber'')"
    using assms starts_with_word' [of a d y "js ''autonumber''"] by (auto simp: no_seq_keyword_def)
  have up: "map upper_unit (a @ d # y) = to_upper a @ d # map upper_unit y"
    using assms(3) by (simp add: to_upper_def)
  have "\<not> starts_with (map upper_unit (a @ d # y)) (js ''PARTICIPANT'')"
    using assms starts_with_word' [of "to_upper a" d "map upper_unit y" "js ''PARTICIPANT''"]
    unfolding up by (auto simp: no_seq_keyword_def)
  then show "rx_match participant_rx (a @ d # y) = None"
    by (simp add: participant_rx_def rx_match_anchored upper_unit_def is_lower_def del: map_append list.map)
      (simp add: upper_unit_def is_lower_def)
  have "\<not> starts_with (map upper_unit (a @ d # y)) (js ''NOTE'')"
    using assms starts_with_word' [of "to_upper a" d "map upper_unit y" "js ''NOTE''"]
    unfolding up by (auto simp: no_seq_keyword_def)
  then show "rx_match note_rx (a @ d # y) = None"
    by (simp add: note_rx_def rx_match_anchored upper_unit_def is_lower_def del: map_append list.map)
      (simp add: upper_unit_def is_lower_def)
qed

text \<open>A message line whose arrow is set off from the sender by white space is read back: its
  sender, its receiver, its trimmed text, dashed exactly when the arrow starts with two
  dashes; the item goes to the end of the list and both ends become participants.\<close>

theorem seq_line_message:
  assumes "ident a" "no_seq_keyword a" "v \<noteq> []" "list_all is_ws (v @ w)"
    and "op \<in> arrow_ops" "ident b" "label_ok lbl"
  shows "let st' = seq_line (msg_text a v op w b lbl) st in
     sq_items st' = sq_items st @ [SeqMessage \<lparr>m_from = a, m_to = b, m_label = js_trim lbl,
       m_isDashed = (take 2 op = js ''--''), m_isArrow = True\<rparr>] \<and>
     set (jm_keys (sq_participants st')) = set (jm_keys (sq_participants st)) \<union> {a, b}"
proof -
  have ws: "\<forall>x \<in> set v. is_ws x" "\<forall>x \<in> set w. is_ws x" using assms(4) by (simp_all add: list_all_iff)
  obtain c l where c: "rx_match message_rx (msg_text a v op w b lbl) = Some c"
    "c 1 = Some a" "c 2 = Some op" "c 3 = Some b" "c 4 = Some l" "js_trim l = js_trim lbl"
    using message_match [OF assms(1,3) ws(1) assms(5-7) ws(2)] by blast
  obtain d v' where d: "v = d # v'" using assms(3) by (cases v) auto
  have "is_ws d" using ws(1) d by simp
  then have "d \<notin> set (js ''PARTICIPANTNOTEautonumber'')" "upper_unit d = d"
    by (auto simp: jchar_defs upper_unit_def)
  from seq_line_not_keyword [OF assms(2) this, of "v' @ op @ w @ b @ [58] @ lbl"]
  have "seq_line (msg_text a v op w b lbl) st = seq_message_line c st"
    using c(1) d by (simp add: seq_line_def msg_text_def)
  moreover have "js_includes op (js ''--'') = (take 2 op = js ''--'')"
    using assms(5) by (auto simp: arrow_ops_def)
  ultimately show ?thesis
    using c by (auto simp: seq_message_line_def cap_def Let_def keys_ensure)
qed

theorem seq_line_message_witness:
  "sq_items (seq_line (js ''api -->>client: 200 OK '') \<lparr>sq_participants = [], sq_items = []\<rparr>) =
     [SeqMessage \<lparr>m_from = js ''api'', m_to = js ''client'', m_label = js ''200 OK'',
        m_isDashed = True, m_isArrow = True\<rparr>]"
proof -
  have "ident (js ''api'')" "no_seq_keyword (js ''api'')" "ident (js ''client'')" "label_ok (js '' 200 OK '')"
    "js ''-->>'' \<in> arrow_ops" "list_all is_ws ([32] @ [])"
    by (simp_all add: ident_def no_seq_keyword_def label_ok_def arrow_ops_def id_ch_def str_defs jchar_defs)
  from seq_line_message [OF this(1,2) _ this(6,5,3,4), of "\<lparr>sq_participants = [], sq_items = []\<rparr>"]
  show ?thesis by (simp add: msg_text_def Let_def str_defs jchar_defs)
qed

text \<open>Without white space before it, a dashed arrow is misread: the identifier class
  contains the dash, so the sender takes the first one with it and the message is a solid
  one from another participant, contrary to the notation \<open>From-->>To: Label\<close> the code
  names.\<close>

theorem seq_line_unspaced_dashed:
  assumes "ident a" "no_seq_keyword a" "op = js ''->'' \<or> op = js ''->>''"
    and "list_all is_ws w" "ident b" "label_ok lbl"
  shows "sq_items (seq_line (msg_text a [] (45 # op) w b lbl) st) = sq_items st @
     [SeqMessage \<lparr>m_from = a @ [45], m_to = b, m_label = js_trim lbl,
       m_isDashed = False, m_isArrow = True\<rparr>]"
proof -
  let ?K = "run (rseq [RStar r_ws, RCap 2 arrow_rx, RStar r_ws, RCap 3 (rplus (RChr id_ch)),
    rlit (js '':''), RStar r_ws, RCap 4 (rplus r_dot), REos]) (\<lambda>q c. Some (q, c))"
  let ?a = "a @ [45]" and ?t = "op @ w @ b @ [58] @ lbl"
  have ws: "\<forall>x \<in> set w. is_ws x" using assms(4) by (simp add: list_all_iff)
  have op: "op \<in> arrow_ops" using assms(3) by (auto simp: arrow_ops_def)
  obtain q l where l: "js_trim l = js_trim lbl"
    "?K (rev ?a, [] @ ?t) ((\<lambda>n. None)(1 \<mapsto> ?a)) =
      Some ((q, []), (\<lambda>n. None)(1 \<mapsto> ?a, 2 \<mapsto> op, 3 \<mapsto> b, 4 \<mapsto> l))"
    using run_msg_rest [OF op assms(5,6) _ ws, of "[]" "rev ?a" "(\<lambda>n. None)(1 \<mapsto> ?a)"] by auto
  have gt: "\<not> id_ch 62" "\<not> is_ws 62" by (simp_all add: id_ch_def jchar_defs)
  have "run (RCap 1 (rplus (RChr id_ch))) ?K ([], ?a @ ?t) (\<lambda>n. None) =
     Some ((q, []), (\<lambda>n. None)(1 \<mapsto> ?a, 2 \<mapsto> op, 3 \<mapsto> b, 4 \<mapsto> l))"
  proof (rule run_cap_plus_longest)
    show "?a \<noteq> []" "\<forall>x \<in> set ?a. id_ch x" using assms(1) by (auto simp: ident_def list_all_iff id_ch_def)
    show "?K (rev ?a @ [], ?t) ((\<lambda>n. None)(1 \<mapsto> ?a)) =
       Some ((q, []), (\<lambda>n. None)(1 \<mapsto> ?a, 2 \<mapsto> op, 3 \<mapsto> b, 4 \<mapsto> l))"
      using l(2) by (simp del: run_seq_list)
  next
    fix u z c' assume u: "?t = u @ z" "u \<noteq> []" "\<forall>x \<in> set u. id_ch x"
    obtain t' where t': "?t = 45 # 62 # t'" using assms(3) by auto
    have "u = [45] \<and> z = 62 # t'"
      using u gt unfolding t' by (auto simp: Cons_eq_append_conv)
    then show "?K (rev u @ rev ?a @ [], z) c' = None"
      using gt by (simp add: r_ws_def arrow_rx_def del: run_star_class(1))
  qed
  then have m: "rx_match message_rx (?a @ ?t) =
      Some ((\<lambda>n. None)(1 \<mapsto> ?a, 2 \<mapsto> op, 3 \<mapsto> b, 4 \<mapsto> l, 0 \<mapsto> ?a @ ?t))"
    by (simp add: message_rx_def rx_match_anchored del: run_plus run.simps(7) run_lit)
  have line: "msg_text a [] (45 # op) w b lbl = a @ 45 # ?t" by (simp add: msg_text_def)
  have "upper_unit 45 = 45" "(45 :: int) \<notin> set (js ''PARTICIPANTNOTEautonumber'')"
    by (simp_all add: upper_unit_def is_lower_def)
  from seq_line_not_keyword [OF assms(2) this(2,1), of ?t] m
  have "seq_line (msg_text a [] (45 # op) w b lbl) st =
     seq_message_line ((\<lambda>n. None)(1 \<mapsto> ?a, 2 \<mapsto> op, 3 \<mapsto> b, 4 \<mapsto> l, 0 \<mapsto> ?a @ ?t)) st"
    by (simp add: seq_line_def line)
  moreover have "\<not> js_includes op (js ''--'')" using assms(3) by auto
  ultimately show ?thesis
    using l(1) by (simp add: seq_message_line_def cap_def Let_def)
qed

theorem seq_line_unspaced_dashed_witness:
  "sq_items (seq_line (js ''A-->>B: hi'') \<lparr>sq_participants = [], sq_items = []\<rparr>) =
     [SeqMessage \<lparr>m_from = js ''A-'', m_to = js ''B'', m_label = js ''hi'',
        m_isDashed = False, m_isArrow = True\<rparr>]"
proof -
  have "ident (js ''A'')" "no_seq_keyword (js ''A'')" "ident (js ''B'')" "label_ok (js '' hi'')"
    by (simp_all add: ident_def no_seq_keyword_def label_ok_def id_ch_def str_defs jchar_defs)
  from seq_line_unspaced_dashed [OF this(1,2) _ _ this(3,4), of "js ''->>''" "[]"
      "\<lparr>sq_participants = [], sq_items = []\<rparr>"]
  show ?thesis by (simp add: msg_text_def str_defs jchar_defs)
qed

end
