(* ===== verification/MermaidLayoutFacts.thy ===== *)
theory MermaidLayoutFacts
  imports MermaidChecked MermaidSequence
begin

text \<open>
  What \<open>layoutFlowgraph\<close> and \<open>layoutSequenceDiagram\<close> promise, for the graphs and diagrams
  the parser returns: the layout exists, places every node once, keeps boxes apart and on
  the canvas, sends the edges of an acyclic graph forward, encloses the members of a
  subgraph, and lays a sequence diagram out on its grid.
\<close>

subsection \<open>Sizes\<close>

lemma node_sizes_get:
  assumes "flow_graph_ok g" "jm_get (g_nodes g) (n_id n) = Some n"
  shows "size_in (node_sizes (jm_values (g_nodes g))) n = estimateNodeSize n"
proof -
  let ?ns = "jm_values (g_nodes g)"
  note v = flow_graph_ok_values [OF assms(1)]
  have s: "node_sizes ?ns = map (\<lambda>n. (n_id n, estimateNodeSize n)) ?ns"
    using fold_jm_set_const [of n_id ?ns "[]" estimateNodeSize] v(1,2) by (simp add: node_sizes_def)
  have "jm_keys (node_sizes ?ns) = jm_keys (g_nodes g)"
    using v(1) by (simp add: s jm_keys_def comp_def)
  then have "jm_inv (node_sizes ?ns)" using v(2) by (simp add: jm_inv_def)
  moreover have "n \<in> set ?ns" using jm_get_in [OF assms(2)] by (force simp: jm_values_def)
  then have "(n_id n, estimateNodeSize n) \<in> set (node_sizes ?ns)" by (simp add: s)
  ultimately have "jm_get (node_sizes ?ns) (n_id n) = Some (estimateNodeSize n)" by (rule jm_in_get)
  then show ?thesis by (simp add: size_in_def)
qed

lemma estimateNodeSize_min: "150 \<le> fst (estimateNodeSize n) \<and> 48 \<le> snd (estimateNodeSize n)"
  by (auto simp: estimateNodeSize_def Let_def le_max_iff_disj)

subsection \<open>The shape of every layout\<close>

abbreviation graph_sizes :: "flow_graph \<Rightarrow> sizes" where
  "graph_sizes g \<equiv> node_sizes (jm_values (g_nodes g))"

definition final_rows :: "flow_graph \<Rightarrow> flow_node list list \<Rightarrow> positioned_node list" where
  "final_rows g rs = rows (isHorizontal g) (graph_sizes g)
     (\<lambda>r. 50 + centre_shift (isHorizontal g) (graph_sizes g)
        (50 + widest (isHorizontal g) (graph_sizes g) rs) r) 50 rs"

lemma ranks_positive:
  assumes "flow_graph_ok g" "ranks_ok g rs"
  shows "positive_sizes (graph_sizes g) (concat rs)"
proof -
  have "size_in (graph_sizes g) n = estimateNodeSize n" if "n \<in> set (concat rs)" for n
    by (rule node_sizes_get [OF assms(1)]) (use assms(2) that in \<open>auto simp: ranks_ok_def\<close>)
  moreover have "0 < fst (estimateNodeSize n) \<and> 0 < snd (estimateNodeSize n)" for n
    using estimateNodeSize_min [of n] by auto
  ultimately show ?thesis by (simp add: positive_sizes_def)
qed

lemma layout_shape:
  assumes g: "flow_graph_ok g" and ne: "g_nodes g \<noteq> []"
  shows "\<exists>st D. plan_layout g = Some (planned_layout g st) \<and> search_inv g D st \<and> r_queue st = [] \<and>
     ranks_ok g (active_ranks g st) \<and> active_ranks g st \<noteq> [] \<and>
     planned_places g st = entries (final_rows g (active_ranks g st))"
proof -
  obtain st D where st: "rank_search g = Some st" "search_inv g D st" "r_queue st = []"
    using rank_search_ok [OF g] by blast
  let ?rs = "active_ranks g st"
  have ok: "ranks_ok g ?rs" by (rule active_ranks_split(1) [OF g st(2)])
  have "graph_nodes g \<noteq> {}" using ne by (cases "g_nodes g") (auto simp: graph_nodes_def)
  then have ne': "?rs \<noteq> []" using ok by (auto simp: ranks_ok_def)
  have "planned_places g st = entries (final_rows g ?rs)"
    unfolding planned_places_def final_rows_def
    by (rule place_all_rows) (use ok ne' ranks_positive [OF g ok] in \<open>auto simp: ranks_ok_def\<close>)
  then show ?thesis using st ok ne' ne by (auto simp: plan_layout_def)
qed

subsection \<open>Geometry of the rows\<close>

definition main_pos :: "bool \<Rightarrow> positioned_node \<Rightarrow> rat" where
  "main_pos h p = (if h then pn_x p else pn_y p)"

definition main_size :: "bool \<Rightarrow> positioned_node \<Rightarrow> rat" where
  "main_size h p = (if h then pn_width p else pn_height p)"

definition apart :: "rat \<Rightarrow> positioned_node \<Rightarrow> positioned_node \<Rightarrow> bool" where
  "apart gap p q = (pn_x p + pn_width p + gap \<le> pn_x q \<or> pn_x q + pn_width q + gap \<le> pn_x p \<or>
     pn_y p + pn_height p + gap \<le> pn_y q \<or> pn_y q + pn_height q + gap \<le> pn_y p)"

lemma apart_axes:
  "main_pos h p + main_size h p + gap \<le> main_pos h q \<Longrightarrow> apart gap p q"
  "cross_pos h p + cross_size h p + gap \<le> cross_pos h q \<Longrightarrow> apart gap p q"
  by (auto simp: apart_def main_pos_def main_size_def cross_pos_def cross_size_def split: if_splits)

lemma spread_main:
  "p \<in> set (spread h sizes m c r) \<Longrightarrow>
     main_pos h p = m \<and> main_size h p \<le> widest_main h sizes r \<and> p = box_of h sizes m (cross_pos h p) (pn_node p)"
proof (induction r arbitrary: c)
  case (Cons n r)
  have mm: "widest_main h sizes r \<le> widest_main h sizes (n # r)"
    unfolding max_main_Max by (rule Max_mono) auto
  have "main_size h (box_of h sizes m c n) = main_dim h (size_in sizes n)"
    by (simp add: main_size_def main_dim_def box_of_def)
  then have "main_size h (box_of h sizes m c n) \<le> widest_main h sizes (n # r)"
    using main_le_max [of n "n # r" h sizes] by simp
  moreover have "main_pos h (box_of h sizes m c n) = m" by (simp add: main_pos_def box_of_def)
  ultimately show ?case using Cons mm by (auto intro: order_trans)
qed simp

lemma spread_apart:
  "positive_sizes sizes r \<Longrightarrow> sorted_wrt (apart 40) (spread h sizes m c r)"
proof (induction r arbitrary: c)
  case (Cons n r)
  let ?d = "cross_dim h (size_in sizes n)"
  have r: "positive_sizes sizes r" using Cons.prems by (simp add: positive_sizes_def)
  have "apart 40 (box_of h sizes m c n) q" if "q \<in> set (spread h sizes m (c + (?d + node_spacing h)) r)" for q
    by (rule apart_axes(2) [of h]) (use spread_bounds [OF r that] node_spacing_pos [of h] in simp)
  with Cons.IH [OF r] show ?case by simp
qed simp

lemma rows_main_ge: "p \<in> set (rows h sizes start m rs) \<Longrightarrow> m \<le> main_pos h p"
  using rows_member [OF max_main_nonneg] spread_main by fastforce

lemma rows_append:
  "\<exists>m'. rows h sizes start m (X @ Y) = rows h sizes start m X @ rows h sizes start m' Y \<and> m \<le> m' \<and>
     (\<forall>p \<in> set (rows h sizes start m X). main_pos h p + main_size h p + level_spacing h \<le> m')"
proof (induction X arbitrary: m)
  case Nil
  show ?case by auto
next
  case (Cons r X)
  let ?m = "m + (widest_main h sizes r + level_spacing h)"
  obtain m' where m': "rows h sizes start ?m (X @ Y) = rows h sizes start ?m X @ rows h sizes start m' Y"
    "?m \<le> m'" "\<forall>p \<in> set (rows h sizes start ?m X). main_pos h p + main_size h p + level_spacing h \<le> m'"
    using Cons.IH by blast
  have "main_pos h p + main_size h p + level_spacing h \<le> m'" if "p \<in> set (spread h sizes m (start r) r)" for p
    using spread_main [OF that] m'(2) by simp
  then show ?case
    using m' max_main_nonneg [of h sizes r] level_spacing_pos [of h] by (intro exI [of _ m']) auto
qed

lemma rows_apart: "positive_sizes sizes (concat rs) \<Longrightarrow> sorted_wrt (apart 40) (rows h sizes start m rs)"
proof (induction rs arbitrary: m)
  case (Cons r rs)
  let ?m = "m + (widest_main h sizes r + level_spacing h)"
  have "apart 40 p q" if "p \<in> set (spread h sizes m (start r) r)" "q \<in> set (rows h sizes start ?m rs)" for p q
    by (rule apart_axes(1) [of h])
      (use spread_main [OF that(1)] rows_main_ge [OF that(2)] level_spacing_pos [of h] in simp)
  moreover have "positive_sizes sizes r" "positive_sizes sizes (concat rs)"
    using Cons.prems by (simp_all add: positive_sizes_def)
  ultimately show ?case using Cons.IH spread_apart by (simp add: sorted_wrt_append)
qed simp

subsection \<open>The layout of a parsed flowchart\<close>

lemma layout_cases:
  assumes "flow_graph_ok g"
  obtains (empty) "g_nodes g = []" "layoutFlowgraph g =
      Returns \<lparr>fl_width = Fin 450, fl_height = Fin 220, fl_nodes = [], fl_edges = [], fl_subgraphs = []\<rparr>"
  | (full) st D where "layoutFlowgraph g = Returns (planned_layout g st)" "search_inv g D st" "r_queue st = []"
      "ranks_ok g (active_ranks g st)" "active_ranks g st \<noteq> []"
      "planned_places g st = entries (final_rows g (active_ranks g st))"
      "fl_nodes (planned_layout g st) = final_rows g (active_ranks g st)"
proof (cases "g_nodes g = []")
  case True
  then show ?thesis using empty by (simp add: layoutFlowgraph_def)
next
  case False
  obtain st D where st: "layoutFlowgraph g = Returns (planned_layout g st)" "search_inv g D st" "r_queue st = []"
    "ranks_ok g (active_ranks g st)" "active_ranks g st \<noteq> []"
    "planned_places g st = entries (final_rows g (active_ranks g st))"
    using layout_shape [OF assms False] by (auto simp: layoutFlowgraph_planned)
  then have "fl_nodes (planned_layout g st) = final_rows g (active_ranks g st)"
    by (simp add: planned_layout_def Let_def)
  then show ?thesis by (rule full [OF st])
qed

text \<open>The layout of every parsed flowchart exists: the rank search ends, whatever the lines
  are. Cycles, self loops and repeated edges included, each node enters the queue at most
  once.\<close>

theorem layout_terminates: "\<exists>l. layoutFlowgraph (parseFlowchart lines) = Returns l"
  by (rule layout_cases [OF parse_ok [of lines]]) auto

text \<open>C14: Every node of a parsed flowchart is placed exactly once, unchanged, nodes of cycles and
  isolated nodes included, and nothing else is placed.\<close>

theorem layout_places_every_node:
  "let g = parseFlowchart lines in
   map_js_run (\<lambda>l. mset (map pn_node (fl_nodes l))) (layoutFlowgraph g) = Returns (mset (jm_values (g_nodes g)))"
proof -
  define g where "g = parseFlowchart lines"
  have g: "flow_graph_ok g" unfolding g_def by (rule parse_ok)
  have "map_js_run (\<lambda>l. mset (map pn_node (fl_nodes l))) (layoutFlowgraph g) = Returns (mset (jm_values (g_nodes g)))"
  using g proof (cases rule: layout_cases)
    case empty
    then show ?thesis by (simp add: jm_values_def)
  next
    case (full st D)
    let ?rs = "active_ranks g st"
    note v = flow_graph_ok_values [OF g]
    have "distinct (map n_id (concat ?rs))" using full(4) unfolding ranks_ok_def by blast
    then have d1: "distinct (concat ?rs)" unfolding distinct_map by blast
    have "distinct (map n_id (jm_values (g_nodes g)))" by (simp only: v(1,2))
    then have d2: "distinct (jm_values (g_nodes g))" unfolding distinct_map by blast
    have "set (concat ?rs) = set (jm_values (g_nodes g))"
    proof
      show "set (concat ?rs) \<subseteq> set (jm_values (g_nodes g))"
      proof
        fix n assume "n \<in> set (concat ?rs)"
        then have "jm_get (g_nodes g) (n_id n) = Some n" using full(4) unfolding ranks_ok_def by blast
        then show "n \<in> set (jm_values (g_nodes g))" by (force dest: jm_get_in simp: jm_values_def)
      qed
      show "set (jm_values (g_nodes g)) \<subseteq> set (concat ?rs)"
      proof
        fix n assume n: "n \<in> set (jm_values (g_nodes g))"
        then have "(n_id n, n) \<in> set (g_nodes g)"
          using g by (force simp: jm_values_def flow_graph_ok_def list_all_iff)
        then have get: "jm_get (g_nodes g) (n_id n) = Some n" using v(2) by (intro jm_in_get) (simp_all add: jm_inv_def)
        have "n_id n \<in> n_id ` set (concat ?rs)"
          using jm_get_None [of "g_nodes g" "n_id n"] get full(4) by (auto simp: ranks_ok_def graph_nodes_def)
        then obtain n' where n': "n' \<in> set (concat ?rs)" "n_id n = n_id n'" by (elim imageE) blast
        then have "jm_get (g_nodes g) (n_id n') = Some n'" using full(4) unfolding ranks_ok_def by blast
        with get n' show "n \<in> set (concat ?rs)" by simp
      qed
    qed
    then have "mset (concat ?rs) = mset (jm_values (g_nodes g))" using set_eq_iff_mset_eq_distinct [OF d1 d2] by blast
    moreover have "map pn_node (final_rows g ?rs) = concat ?rs" by (simp add: final_rows_def)
    ultimately show ?thesis using full by (simp del: mset_map)
  qed
  then show ?thesis by (simp add: g_def Let_def)
qed

text \<open>C2: No two boxes of a parsed flowchart's layout touch: any two nodes are at least 40 apart
  along one of the axes.\<close>

theorem layout_boxes_apart:
  "case layoutFlowgraph (parseFlowchart lines) of Returns l \<Rightarrow> sorted_wrt (apart 40) (fl_nodes l) | _ \<Rightarrow> False"
using parse_ok [of lines] proof (cases rule: layout_cases)
  case empty
  then show ?thesis by simp
next
  case (full st D)
  have "sorted_wrt (apart 40) (final_rows (parseFlowchart lines) (active_ranks (parseFlowchart lines) st))"
    unfolding final_rows_def by (rule rows_apart) (rule ranks_positive [OF parse_ok full(4)])
  then show ?thesis using full by simp
qed

text \<open>C15: In the layout of an acyclic flowchart every edge points forward: its target starts at
  least one level spacing after the end of its source, along the axis of the chart's
  direction. Acyclicity is given by a number that grows along every edge.\<close>

theorem layout_edges_forward:
  assumes "parseFlowchart lines = g" "\<forall>e \<in> set (g_edges g). f (e_from e) < (f (e_to e) :: nat)"
    and "layoutFlowgraph g = Returns l" "e \<in> set (g_edges g)"
    and "p \<in> set (fl_nodes l)" "n_id (pn_node p) = e_from e"
    and "q \<in> set (fl_nodes l)" "n_id (pn_node q) = e_to e"
  shows "main_pos (isHorizontal g) p + main_size (isHorizontal g) p + level_spacing (isHorizontal g) \<le>
    main_pos (isHorizontal g) q"
proof -
  have g: "flow_graph_ok g" using parse_ok [of lines] assms(1) by simp
  show ?thesis
  using g proof (cases rule: layout_cases)
    case empty
    then show ?thesis using assms by simp
  next
    case (full st D)
    let ?rs = "active_ranks g st" and ?h = "isHorizontal g"
    define start where "start = (\<lambda>r. 50 + centre_shift ?h (graph_sizes g) (50 + widest ?h (graph_sizes g) ?rs) r)"
    have nodes: "fl_nodes l = rows ?h (graph_sizes g) start 50 ?rs"
      using full assms(3) by (simp add: final_rows_def start_def)
    have "D = graph_nodes g" by (rule search_reaches_all [OF g full(2,3) assms(2)])
    then obtain a b where ab: "jm_get (r_levels st) (e_from e) = Some a" "jm_get (r_levels st) (e_to e) = Some b" "a < b"
      using full(2) assms(4) flow_graph_ok_values(3) [OF g assms(4)] by (auto simp: search_inv_def edges_up_def)
    have "jm_inv (r_levels st)" using full(2) by (simp add: search_inv_def counts_ok_def)
    from fill_levels_facts [OF this, of "jm_values (g_nodes g)"]
    have fin: "jm_get (final_levels g st) k = Some c" if "jm_get (r_levels st) k = Some c" for k c
      using that jm_get_None [of "r_levels st" k] by (auto simp: final_levels_def)
    obtain X Y where XY: "?rs = X @ Y" "e_from e \<in> n_id ` set (concat X)" "e_to e \<in> n_id ` set (concat Y)"
      using active_ranks_split(2) [OF g full(2) fin [OF ab(1)] fin [OF ab(2)] ab(3)] by blast
    obtain m' where m': "rows ?h (graph_sizes g) start 50 (X @ Y) =
        rows ?h (graph_sizes g) start 50 X @ rows ?h (graph_sizes g) start m' Y"
      "\<forall>p \<in> set (rows ?h (graph_sizes g) start 50 X). main_pos ?h p + main_size ?h p + level_spacing ?h \<le> m'"
      using rows_append by blast
    have disj: "n_id ` set (concat X) \<inter> n_id ` set (concat Y) = {}"
      using full(4) XY(1) by (auto simp: ranks_ok_def)
    have ids: "n_id ` set (concat Z) = (\<lambda>p. n_id (pn_node p)) ` set (rows ?h (graph_sizes g) start m Z)" for Z m
      by (simp only: set_map [symmetric] map_id_rows)
    let ?pid = "\<lambda>p. n_id (pn_node p)"
    let ?RX = "rows ?h (graph_sizes g) start 50 X" and ?RY = "rows ?h (graph_sizes g) start m' Y"
    have "?pid p \<in> n_id ` set (concat X)" "?pid q \<in> n_id ` set (concat Y)"
      using XY(2,3) by (simp_all only: assms(6,8))
    then have "?pid p \<notin> ?pid ` set ?RY" "?pid q \<notin> ?pid ` set ?RX"
      using disj unfolding ids [of Y m', symmetric] ids [of X 50, symmetric] by (meson disjoint_iff)+
    then have "p \<notin> set ?RY" "q \<notin> set ?RX" by (meson imageI)+
    moreover have "p \<in> set ?RX \<union> set ?RY" "q \<in> set ?RX \<union> set ?RY"
      using assms(5,7) unfolding nodes XY(1) m'(1) by simp_all
    ultimately have "p \<in> set ?RX" "q \<in> set ?RY" by blast+
    then show ?thesis using m'(2) rows_main_ge by fastforce
  qed
qed

theorem layout_edges_forward_witness:
  "let g = parseFlowchart [js ''A --> B''];
       ps = (case layoutFlowgraph g of Returns l \<Rightarrow> fl_nodes l | _ \<Rightarrow> [])
   in main_pos False (ps ! 0) + main_size False (ps ! 0) + 90 \<le> main_pos False (ps ! 1)"
proof -
  let ?g = "parseFlowchart [js ''A --> B'']"
  let ?e = "\<lparr>e_from = js ''A'', e_to = js ''B'', e_label = None, e_style = Solid, e_hasArrow = True\<rparr>"
  have e: "g_edges ?g = [?e]" "isHorizontal ?g = False" by code_simp+
  have "map_js_run (\<lambda>l. map (\<lambda>p. n_id (pn_node p)) (fl_nodes l)) (layoutFlowgraph ?g) = Returns [js ''A'', js ''B'']"
    by code_simp
  then obtain l p q where l: "layoutFlowgraph ?g = Returns l" "fl_nodes l = [p, q]"
    "n_id (pn_node p) = js ''A''" "n_id (pn_node q) = js ''B''" by auto
  from layout_edges_forward [OF refl _ l(1), of "\<lambda>i. if i = js ''A'' then 0 else 1" ?e p q]
  show ?thesis using e l by (simp add: Let_def level_spacing_def)
qed

text \<open>The boxes lie at or after 50 on both axes.\<close>

lemma final_rows_origin:
  assumes "flow_graph_ok g" "ranks_ok g rs" "p \<in> set (final_rows g rs)"
  shows "50 \<le> pn_x p \<and> 50 \<le> pn_y p \<and> 0 < pn_width p \<and> 0 < pn_height p"
proof -
  let ?h = "isHorizontal g" and ?s = "graph_sizes g"
  obtain r m' where r: "r \<in> set rs" "50 \<le> m'"
    "p \<in> set (spread ?h ?s m' (50 + centre_shift ?h ?s (50 + widest ?h ?s rs) r) r)"
    using rows_member [OF max_main_nonneg] assms(3) unfolding final_rows_def by blast
  have pos: "positive_sizes ?s (concat rs)" by (rule ranks_positive [OF assms(1,2)])
  then have pr: "positive_sizes ?s r" using r(1) by (auto simp: positive_sizes_def)
  have "0 \<le> centre_shift ?h ?s (50 + widest ?h ?s rs) r" by (simp add: centre_shift_def)
  then have c: "50 \<le> cross_pos ?h p" using spread_bounds [OF pr r(3)] by simp
  have m: "50 \<le> main_pos ?h p" using spread_main [OF r(3)] r(2) by simp
  have "pn_node p \<in> set r" using r(3) by (metis map_node_spread image_eqI image_set)
  then have "0 < fst (size_in ?s (pn_node p)) \<and> 0 < snd (size_in ?s (pn_node p))"
    using pr by (simp add: positive_sizes_def)
  moreover have "p = box_of ?h ?s m' (cross_pos ?h p) (pn_node p)" using spread_main [OF r(3)] by simp
  then have "pn_width p = fst (size_in ?s (pn_node p))" "pn_height p = snd (size_in ?s (pn_node p))"
    by (metis box_of_def positioned_node.select_convs)+
  ultimately show ?thesis using c m by (auto simp: cross_pos_def main_pos_def split: if_splits)
qed

subsection \<open>Subgraph boxes\<close>

definition contained :: "positioned_subgraph \<Rightarrow> positioned_node \<Rightarrow> bool" where
  "contained s p =
     (case (ps_x s, ps_y s, ps_width s, ps_height s) of
        (Fin x, Fin y, Fin w, Fin ht) \<Rightarrow>
          x + 20 \<le> pn_x p \<and> pn_x p + pn_width p + 20 \<le> x + w \<and>
          y + 38 \<le> pn_y p \<and> pn_y p + pn_height p + 20 \<le> y + ht
      | _ \<Rightarrow> False)"

fun bounds_fin :: "jsnum \<times> jsnum \<times> jsnum \<times> jsnum \<Rightarrow> bool" where
  "bounds_fin (Fin a, Fin b, Fin c, Fin d) = True"
| "bounds_fin _ = False"

fun inside :: "jsnum \<times> jsnum \<times> jsnum \<times> jsnum \<Rightarrow> positioned_node \<Rightarrow> bool" where
  "inside (Fin a, Fin b, Fin c, Fin d) p =
     (a \<le> pn_x p \<and> b \<le> pn_y p \<and> pn_x p + pn_width p \<le> c \<and> pn_y p + pn_height p \<le> d)"
| "inside _ p = False"

definition no_bounds :: "jsnum \<times> jsnum \<times> jsnum \<times> jsnum" where
  "no_bounds = (PosInf, PosInf, NegInf, NegInf)"

lemma grow_box_inside:
  assumes "b = no_bounds \<or> bounds_fin b"
  shows "bounds_fin (grow_box p b)" "inside (grow_box p b) p" "inside b q \<Longrightarrow> inside (grow_box p b) q"
  using assms by (cases b rule: bounds_fin.cases; auto simp: grow_box_def no_bounds_def)+

lemma fold_bounds:
  "b = no_bounds \<or> bounds_fin b \<Longrightarrow>
   (let b' = foldl (\<lambda>b i. case jm_get places i of None \<Rightarrow> b | Some p \<Rightarrow> grow_box p b) b ids in
     (b' = no_bounds \<or> bounds_fin b') \<and>
     (\<forall>i \<in> set ids. \<forall>p. jm_get places i = Some p \<longrightarrow> inside b' p) \<and> (\<forall>q. inside b q \<longrightarrow> inside b' q))"
proof (induction ids arbitrary: b)
  case (Cons i ids)
  show ?case
  proof (cases "jm_get places i")
    case None
    then show ?thesis using Cons.IH [OF Cons.prems] by (simp add: Let_def)
  next
    case (Some p)
    note g = grow_box_inside [OF Cons.prems, where p = p]
    from Cons.IH [of "grow_box p b"] g Some show ?thesis by (simp add: Let_def)
  qed
qed (simp add: Let_def)

lemma member_bounds_facts:
  "(member_bounds places ids = no_bounds \<or> bounds_fin (member_bounds places ids)) \<and>
   (\<forall>i \<in> set ids. \<forall>p. jm_get places i = Some p \<longrightarrow> inside (member_bounds places ids) p)"
  using fold_bounds [of no_bounds places ids] by (simp add: member_bounds_def no_bounds_def Let_def)

lemma position_subgraph_contained:
  assumes "i \<in> set (sg_nodeIds sub)" "jm_get places i = Some p"
  shows "contained (position_subgraph places sub) p"
proof -
  have "inside (member_bounds places (sg_nodeIds sub)) p"
    using member_bounds_facts assms by blast
  then show ?thesis
    by (cases "member_bounds places (sg_nodeIds sub)" rule: bounds_fin.cases)
      (auto simp: position_subgraph_def contained_def)
qed

text \<open>A subgraph's box encloses the boxes of its members, 20 clear on three sides and 38 at
  the top.\<close>

theorem layout_subgraph_encloses:
  "case layoutFlowgraph (parseFlowchart lines) of Returns l \<Rightarrow>
     list_all (\<lambda>s. list_all (contained s)
       (filter (\<lambda>p. n_id (pn_node p) \<in> set (sg_nodeIds (ps_subgraph s))) (fl_nodes l))) (fl_subgraphs l) | _ \<Rightarrow> False"
  using parse_ok [of lines]
proof (cases rule: layout_cases)
  case empty
  then show ?thesis by simp
next
  case (full st D)
  let ?g = "parseFlowchart lines"
  let ?ps = "final_rows ?g (active_ranks ?g st)"
  have "distinct (map (\<lambda>p. n_id (pn_node p)) ?ps)"
    using full(4) unfolding final_rows_def map_id_rows ranks_ok_def by blast
  then have "jm_get (entries ?ps) (n_id (pn_node p)) = Some p" if "p \<in> set ?ps" for p
    using entries_get [of ?ps "[]" p "[]"] that by simp
  moreover have "ps_subgraph (position_subgraph places sub) = sub" for places sub
    by (simp add: position_subgraph_def split: prod.splits)
  ultimately show ?thesis
    using full(1,6,7) position_subgraph_contained
    by (simp add: planned_layout_def Let_def list_all_iff del: map_id_rows) blast
qed

text \<open>An empty subgraph keeps the infinities its bounds start from.\<close>

lemma empty_subgraph_infinite:
  "sg_nodeIds sub = [] \<Longrightarrow> position_subgraph places sub =
     \<lparr>ps_subgraph = sub, ps_x = PosInf, ps_y = PosInf, ps_width = NegInf, ps_height = NegInf\<rparr>"
  by (simp add: position_subgraph_def member_bounds_def num_sub_def)

subsection \<open>The canvas\<close>

definition fin_or_nan :: "jsnum \<Rightarrow> bool" where
  "fin_or_nan v = (case v of Fin _ \<Rightarrow> True | NaN \<Rightarrow> True | _ \<Rightarrow> False)"

lemma foldl_larger:
  "list_all fin_or_nan vs \<Longrightarrow> \<exists>t. foldl larger (Fin a) vs = Fin t \<and> a \<le> t \<and> (\<forall>v. Fin v \<in> set vs \<longrightarrow> v \<le> t)"
proof (induction vs arbitrary: a)
  case (Cons v vs)
  show ?case
  proof (cases v)
    case (Fin b)
    have "larger (Fin a) v = Fin (max a b)" using Fin by (auto simp: larger_def max_def)
    with Cons.IH [of "max a b"] Cons.prems Fin show ?thesis by auto
  next
    case NaN
    then have "larger (Fin a) v = Fin a" by (simp add: larger_def)
    with Cons.IH [of a] Cons.prems NaN show ?thesis by auto
  qed (use Cons.prems in \<open>simp_all add: fin_or_nan_def\<close>)
qed simp

lemma subgraph_extent_ok:
  "fin_or_nan (num_add (num_add (ps_x (position_subgraph places sub)) (ps_width (position_subgraph places sub))) (Fin 50))"
  "fin_or_nan (num_add (num_add (ps_y (position_subgraph places sub)) (ps_height (position_subgraph places sub))) (Fin 50))"
proof -
  consider "member_bounds places (sg_nodeIds sub) = no_bounds" | "bounds_fin (member_bounds places (sg_nodeIds sub))"
    using member_bounds_facts by blast
  then show "fin_or_nan (num_add (num_add (ps_x (position_subgraph places sub)) (ps_width (position_subgraph places sub))) (Fin 50))"
    "fin_or_nan (num_add (num_add (ps_y (position_subgraph places sub)) (ps_height (position_subgraph places sub))) (Fin 50))"
    by (cases; cases "member_bounds places (sg_nodeIds sub)" rule: bounds_fin.cases;
        simp add: position_subgraph_def no_bounds_def num_sub_def fin_or_nan_def)+
qed

lemma canvas_covers:
  "\<exists>W. canvas_width ps (map (position_subgraph places) subs) = Fin W \<and> 450 \<le> W \<and> (\<forall>p \<in> set ps. pn_x p + pn_width p + 50 \<le> W)"
  "\<exists>H. canvas_height ps (map (position_subgraph places) subs) = Fin H \<and> 260 \<le> H \<and> (\<forall>p \<in> set ps. pn_y p + pn_height p + 50 \<le> H)"
proof -
  let ?w = "map (\<lambda>p. Fin (pn_x p + pn_width p + 50)) ps @
     map (\<lambda>s. num_add (num_add (ps_x s) (ps_width s)) (Fin 50)) (map (position_subgraph places) subs)"
  let ?v = "map (\<lambda>p. Fin (pn_y p + pn_height p + 50)) ps @
     map (\<lambda>s. num_add (num_add (ps_y s) (ps_height s)) (Fin 50)) (map (position_subgraph places) subs)"
  have "list_all fin_or_nan ?w" "list_all fin_or_nan ?v"
    using subgraph_extent_ok by (auto simp: list_all_iff) (simp_all add: fin_or_nan_def)
  then obtain s t where s: "foldl larger (Fin 0) ?w = Fin s" "\<forall>v. Fin v \<in> set ?w \<longrightarrow> v \<le> s"
    and t: "foldl larger (Fin 0) ?v = Fin t" "\<forall>v. Fin v \<in> set ?v \<longrightarrow> v \<le> t"
    using foldl_larger [of ?w 0] foldl_larger [of ?v 0] by blast
  have w: "canvas_width ps (map (position_subgraph places) subs) = Fin (max 450 s)"
    using s(1) by (simp add: canvas_width_def)
  have v: "canvas_height ps (map (position_subgraph places) subs) = Fin (max 260 t)"
    using t(1) by (simp add: canvas_height_def)
  have "pn_x p + pn_width p + 50 \<le> s" "pn_y p + pn_height p + 50 \<le> t" if "p \<in> set ps" for p
    using s(2) t(2) that by auto
  then show "\<exists>W. canvas_width ps (map (position_subgraph places) subs) = Fin W \<and> 450 \<le> W \<and> (\<forall>p \<in> set ps. pn_x p + pn_width p + 50 \<le> W)"
    "\<exists>H. canvas_height ps (map (position_subgraph places) subs) = Fin H \<and> 260 \<le> H \<and> (\<forall>p \<in> set ps. pn_y p + pn_height p + 50 \<le> H)"
    unfolding w v by (fastforce simp: le_max_iff_disj)+
qed

definition on_canvas :: "flow_layout \<Rightarrow> positioned_node \<Rightarrow> bool" where
  "on_canvas l p = (case (fl_width l, fl_height l) of
     (Fin w, Fin ht) \<Rightarrow> 50 \<le> pn_x p \<and> pn_x p + pn_width p + 50 \<le> w \<and> 50 \<le> pn_y p \<and> pn_y p + pn_height p + 50 \<le> ht
   | _ \<Rightarrow> False)"

text \<open>The canvas of a parsed flowchart's layout is finite, also when a subgraph is empty, and
  every box lies on it with a margin of 50 on all four sides.\<close>

theorem layout_on_canvas:
  "case layoutFlowgraph (parseFlowchart lines) of Returns l \<Rightarrow> list_all (on_canvas l) (fl_nodes l) | _ \<Rightarrow> False"
  using parse_ok [of lines]
proof (cases rule: layout_cases)
  case empty
  then show ?thesis by simp
next
  case (full st D)
  let ?g = "parseFlowchart lines"
  let ?ps = "final_rows ?g (active_ranks ?g st)"
  obtain W H where W: "fl_width (planned_layout ?g st) = Fin W" "\<forall>p \<in> set ?ps. pn_x p + pn_width p + 50 \<le> W"
    and H: "fl_height (planned_layout ?g st) = Fin H" "\<forall>p \<in> set ?ps. pn_y p + pn_height p + 50 \<le> H"
    using canvas_covers(1) [of ?ps "entries ?ps" "g_subgraphs ?g"]
      canvas_covers(2) [of ?ps "entries ?ps" "g_subgraphs ?g"] full(6)
    by (auto simp: planned_layout_def Let_def)
  have "on_canvas (planned_layout ?g st) p" if "p \<in> set ?ps" for p
    using W H that final_rows_origin [OF parse_ok full(4) that] by (simp add: on_canvas_def)
  then show ?thesis using full(1,7) by (simp add: list_all_iff)
qed

subsection \<open>Edges\<close>

text \<open>The arrow head of every edge lies along the layout's axis: the code's angle is one of
  0, 180, 90 and -90 degrees, because the last control point differs from the end point in
  one coordinate only, and never in none.\<close>

theorem arrow_on_axis:
  "pe_arrowAngle (position_edge h places e) \<in> Some ` (if h then {0, 180} else {0, 90, - 90})"
proof (cases "jm_get places (e_from e) = None \<or> jm_get places (e_to e) = None")
  case True
  then show ?thesis by (auto simp: position_edge_def split: option.splits)
next
  case False
  then obtain p q where pq: "jm_get places (e_from e) = Some p" "jm_get places (e_to e) = Some q" by auto
  obtain sx sy ex ey where ends: "edge_ends h p q = ((sx, sy), (ex, ey))" by (metis prod.collapse)
  have pos: "0 < max 25 (a :: rat)" for a by simp
  show ?thesis
    using pos [of "\<bar>ex - sx\<bar> / 2"] pos [of "\<bar>ey - sy\<bar> / 2"]
    by (auto simp: position_edge_def pq ends control_points_def Let_def atan2_degrees_def)
qed

subsection \<open>Centring\<close>

lemma shift_node_cross [simp]:
  "cross_pos h (shift_node h d p) = cross_pos h p + d" "cross_size h (shift_node h d p) = cross_size h p"
  by (simp_all add: shift_node_def cross_pos_def cross_size_def)

lemma shift_fold_get:
  "distinct (map n_id r) \<Longrightarrow> jm_get (fold (move_at h d) r places) k =
     (if k \<in> n_id ` set r then map_option (shift_node h d) (jm_get places k) else jm_get places k)"
proof (induction r arbitrary: places)
  case (Cons n r)
  have "jm_get (move_at h d n places) k =
     (if k = n_id n then map_option (shift_node h d) (jm_get places k) else jm_get places k)"
    by (auto simp: move_at_def jm_get_set split: option.splits)
  with Cons show ?case by auto
qed simp

lemma rank_bounds_shift:
  assumes "\<forall>n \<in> set r. jm_get places' (n_id n) = map_option (shift_node h d) (jm_get places (n_id n))"
  shows "bounds_in h places' r = map_option (\<lambda>(a, b). (a + d, b + d)) (bounds_in h places r)"
proof -
  define step where "step = (\<lambda>pl b (n :: flow_node). case jm_get pl (n_id n) of
        None \<Rightarrow> b
      | Some p \<Rightarrow> (let val = cross_pos h p; ext = val + cross_size h p in
          case b of None \<Rightarrow> Some (val, ext)
          | Some (mn, mx) \<Rightarrow> Some (if val < mn then val else mn, if mx < ext then ext else mx)))"
  have "foldl (step places') (map_option (\<lambda>(a, b). (a + d, b + d)) b) r =
     map_option (\<lambda>(a, b). (a + d, b + d)) (foldl (step places) b r)" for b
    using assms
  proof (induction r arbitrary: b)
    case (Cons n r)
    have "step places' (map_option (\<lambda>(a, b). (a + d, b + d)) b) n =
       map_option (\<lambda>(a, b). (a + d, b + d)) (step places b n)"
      using Cons.prems by (auto simp: step_def Let_def split: option.splits)
    with Cons show ?case by simp
  qed simp
  from this [of None] show ?thesis by (simp add: bounds_in_def step_def)
qed

text \<open>A rank that is narrower than the widest one by more than 50 is not centred on it: its
  middle comes to lie exactly 25 before the middle of the widest rank, because the extent
  the offset is computed from includes the leading padding of 50.\<close>

theorem centred_rank_off_by_25:
  assumes "distinct (map n_id r)" "bounds_in h places r = Some (50, 50 + e)" "e + 50 < W"
  shows "map_option (\<lambda>(a, b). (a + b) / 2) (bounds_in h (centred_rank h (50 + W) r places) r) =
    Some ((50 + (50 + W)) / 2 - 25)"
proof -
  let ?d = "(50 + W - e) / 2 - 50"
  have "centred_rank h (50 + W) r places = fold (move_at h ?d) r places"
    using assms(2,3) by (simp add: centred_rank_def)
  moreover have "bounds_in h (fold (move_at h ?d) r places) r =
     map_option (\<lambda>(a, b). (a + ?d, b + ?d)) (bounds_in h places r)"
    by (rule rank_bounds_shift) (use shift_fold_get [OF assms(1), of h ?d places] in simp)
  ultimately show ?thesis using assms(2) by (simp add: field_simps)
qed

theorem centred_rank_off_by_25_witness:
  "let n = \<lparr>n_id = js ''a'', n_label = js ''a'', n_shape = Rectangle, n_className = None, n_style = None,
        n_subgraphId = None\<rparr>;
       places = [(js ''a'', \<lparr>pn_node = n, pn_x = 50, pn_y = 50, pn_width = 150, pn_height = 48\<rparr>)]
   in map_option (\<lambda>(a, b). (a + b) / 2) (bounds_in False (centred_rank False (50 + 540) [n] places) [n]) =
      Some (50 + 540 / 2 - 25)"
proof -
  let ?n = "\<lparr>n_id = js ''a'', n_label = js ''a'', n_shape = Rectangle, n_className = None, n_style = None,
        n_subgraphId = None\<rparr>"
  let ?places = "[(js ''a'', \<lparr>pn_node = ?n, pn_x = 50, pn_y = 50, pn_width = 150, pn_height = 48\<rparr>)]"
  have "bounds_in False ?places [?n] = Some (50, 50 + 150)"
    by (simp add: bounds_in_def cross_pos_def cross_size_def)
  from centred_rank_off_by_25 [OF _ this, of 540] show ?thesis by (simp add: Let_def)
qed

subsection \<open>Sequence diagrams\<close>

text \<open>The column of a participant: its place in the list of participants.\<close>

definition column :: "seq_diagram \<Rightarrow> jstr \<Rightarrow> rat" where
  "column d p = participant_x (length (takeWhile (\<lambda>q. pt_id q \<noteq> p) (sd_participants d)))"

lemma positions_get:
  assumes "distinct (map pt_id ps)" "p \<in> set (map pt_id ps)"
  shows "jm_get (participant_positions ps) p = Some (participant_x (length (takeWhile (\<lambda>q. pt_id q \<noteq> p) ps)))"
proof -
  have "fold (\<lambda>(idx, p). jm_set (pt_id p) (participant_x idx)) (List.enumerate k ps) m =
     m @ map (\<lambda>(idx, p). (pt_id p, participant_x idx)) (List.enumerate k ps)"
    if "set (map pt_id ps) \<inter> set (jm_keys m) = {}" for k m
    using assms(1) that
  proof (induction ps arbitrary: k m)
    case (Cons q ps)
    have "jm_set (pt_id q) (participant_x k) m = m @ [(pt_id q, participant_x k)]"
      using Cons.prems(2) by (intro jm_set_new) auto
    with Cons show ?case by auto
  qed simp
  from this [of "[]" 0] have "participant_positions ps =
     map (\<lambda>(idx, p). (pt_id p, participant_x idx)) (List.enumerate 0 ps)"
    by (simp add: participant_positions_def)
  moreover have "jm_get (map (\<lambda>(idx, p). (pt_id p, participant_x idx)) (List.enumerate k ps)) p =
     Some (participant_x (k + length (takeWhile (\<lambda>q. pt_id q \<noteq> p) ps)))" for k
    using assms(2) by (induction ps arbitrary: k) auto
  ultimately show ?thesis by simp
qed

lemma takeWhile_shorter: "x \<in> set xs \<Longrightarrow> \<not> P x \<Longrightarrow> length (takeWhile P xs) < length xs"
  by (induction xs) auto

definition message_at :: "seq_diagram \<Rightarrow> nat \<Rightarrow> seq_item \<Rightarrow> positioned_message list" where
  "message_at d k it = (case it of
     SeqMessage m \<Rightarrow>
       [\<lparr>pm_fromX = column d (m_from m), pm_toX = column d (m_to m), pm_y = 95 + 65 * of_nat k,
         pm_label = m_label m, pm_isDashed = m_isDashed m, pm_isArrow = m_isArrow m,
         pm_direction = (if m_from m = m_to m then DirSelf
           else if column d (m_from m) < column d (m_to m) then DirRight else DirLeft)\<rparr>]
   | SeqNote n \<Rightarrow> [])"

lemma takeWhile_index_inj:
  "distinct (map f xs) \<Longrightarrow> a \<in> f ` set xs \<Longrightarrow> b \<in> f ` set xs \<Longrightarrow>
     length (takeWhile (\<lambda>q. f q \<noteq> a) xs) = length (takeWhile (\<lambda>q. f q \<noteq> b) xs) \<Longrightarrow> a = b"
  by (induction xs) (auto split: if_splits)

lemma participant_x_less: "participant_x i \<le> participant_x j \<longleftrightarrow> i \<le> j"
  "participant_x i < participant_x j \<longleftrightarrow> i < j"
  by (simp_all add: participant_x_def)

lemma fold_layout:
  assumes ok: "distinct (map pt_id (sd_participants d))"
    and its: "\<forall>it \<in> set its. set (item_participants it) \<subseteq> set (map pt_id (sd_participants d))"
    and y: "c_y st = 95 + 65 * of_nat k"
  shows "c_messages (fold (layout_item (participant_positions (sd_participants d))) its st) =
      c_messages st @ concat (map (\<lambda>(k, it). message_at d k it) (List.enumerate k its)) \<and>
    c_y (fold (layout_item (participant_positions (sd_participants d))) its st) = 95 + 65 * of_nat (k + length its)"
  using its y
proof (induction its arbitrary: st k)
  case (Cons it its)
  let ?pos = "participant_positions (sd_participants d)"
  have step: "c_messages (layout_item ?pos it st) = c_messages st @ message_at d k it \<and>
     c_y (layout_item ?pos it st) = 95 + 65 * of_nat (Suc k)"
  proof (cases it)
    case (SeqMessage m)
    let ?ix = "\<lambda>p. length (takeWhile (\<lambda>q. pt_id q \<noteq> p) (sd_participants d))"
    have mem: "m_from m \<in> set (map pt_id (sd_participants d))" "m_to m \<in> set (map pt_id (sd_participants d))"
      using Cons.prems(1) SeqMessage by (auto simp: item_participants_def)
    have "m_from m = m_to m" if "?ix (m_from m) = ?ix (m_to m)"
      using takeWhile_index_inj [OF ok _ _ that] mem by simp
    then have "column d (m_from m) \<le> column d (m_to m) \<longleftrightarrow> column d (m_from m) < column d (m_to m)"
      if ne: "m_from m \<noteq> m_to m"
      unfolding column_def participant_x_less using ne by (auto simp: le_less)
    then show ?thesis
      using SeqMessage positions_get [OF ok mem(1)] positions_get [OF ok mem(2)] Cons.prems(2)
      by (simp add: layout_item_def layout_message_def Let_def message_at_def column_def)
  next
    case (SeqNote n)
    then show ?thesis
      using Cons.prems(2) by (simp add: layout_item_def layout_note_def message_at_def Let_def)
  qed
  show ?case
    using Cons.IH [of "layout_item ?pos it st" "Suc k"] Cons.prems(1) step by simp
qed simp

text \<open>The messages of a parsed sequence diagram lie on the grid: the message that is the
  \<open>k\<close>-th item is drawn at height \<open>95 + 65 k\<close>, from its sender's column to its receiver's, and
  points right exactly when the receiver comes after the sender.\<close>

theorem sequence_messages_on_grid:
  "let d = parseSequenceDiagram lines in
   sl_messages (layoutSequenceDiagram d) =
     concat (map (\<lambda>(k, it). message_at d k it) (List.enumerate 0 (sd_items d)))"
proof -
  define d where "d = parseSequenceDiagram lines"
  have "seq_diagram_ok d" unfolding d_def by (rule parse_seq_ok)
  then have "distinct (map pt_id (sd_participants d))"
    "\<forall>it \<in> set (sd_items d). set (item_participants it) \<subseteq> set (map pt_id (sd_participants d))"
    by (auto simp: seq_diagram_ok_def list_all_iff)
  from fold_layout [OF this, of "\<lparr>c_messages = [], c_notes = [], c_y = 95\<rparr>" 0]
  show ?thesis by (simp add: layoutSequenceDiagram_def Let_def flip: d_def)
qed

definition message_on_canvas :: "seq_layout \<Rightarrow> positioned_message \<Rightarrow> bool" where
  "message_on_canvas l m =
     (110 \<le> pm_fromX m \<and> pm_fromX m + 80 \<le> sl_width l \<and> 110 \<le> pm_toX m \<and> pm_toX m + 80 \<le> sl_width l \<and>
      95 \<le> pm_y m \<and> pm_y m + 60 \<le> sl_height l)"

text \<open>Every message of a parsed sequence diagram is drawn on the canvas, clear of its right
  and lower edges.\<close>

theorem sequence_messages_on_canvas:
  "list_all (message_on_canvas (layoutSequenceDiagram (parseSequenceDiagram lines)))
     (sl_messages (layoutSequenceDiagram (parseSequenceDiagram lines)))"
proof -
  define d where "d = parseSequenceDiagram lines"
  have ok: "seq_diagram_ok d" unfolding d_def by (rule parse_seq_ok)
  then have dd: "distinct (map pt_id (sd_participants d))"
    "\<forall>it \<in> set (sd_items d). set (item_participants it) \<subseteq> set (map pt_id (sd_participants d))"
    by (auto simp: seq_diagram_ok_def list_all_iff)
  let ?l = "layoutSequenceDiagram d"
  note f = fold_layout [OF dd, of "\<lparr>c_messages = [], c_notes = [], c_y = 95\<rparr>" 0]
  have msgs: "sl_messages ?l = concat (map (\<lambda>(k, it). message_at d k it) (List.enumerate 0 (sd_items d)))"
    and h: "95 + 65 * of_nat (length (sd_items d)) + 60 \<le> sl_height ?l"
    and w: "110 + of_nat (length (sd_participants d)) * 210 + 60 \<le> sl_width ?l"
    using f by (simp_all add: layoutSequenceDiagram_def Let_def)
  have col: "110 \<le> column d p \<and> column d p + 80 \<le> sl_width ?l" if "p \<in> set (map pt_id (sd_participants d))" for p
  proof -
    have "length (takeWhile (\<lambda>q. pt_id q \<noteq> p) (sd_participants d)) < length (sd_participants d)"
      using that by (auto intro: takeWhile_shorter)
    then have "of_nat (length (takeWhile (\<lambda>q. pt_id q \<noteq> p) (sd_participants d))) + 1 \<le>
       (of_nat (length (sd_participants d)) :: rat)"
      by (metis Suc_leI of_nat_Suc of_nat_le_iff add.commute)
    then show ?thesis using w by (simp add: column_def participant_x_def)
  qed
  have "message_on_canvas ?l m" if mm: "m \<in> set (sl_messages ?l)" for m
  proof -
    obtain k it where kit: "(k, it) \<in> set (List.enumerate 0 (sd_items d))" "m \<in> set (message_at d k it)"
      using mm unfolding msgs by auto
    have k: "k < length (sd_items d)" "it \<in> set (sd_items d)"
      using kit(1) by (auto simp: in_set_enumerate_eq)
    have "of_nat k \<le> (of_nat (length (sd_items d)) :: rat)" using k(1) by simp
    then show ?thesis
      using kit(2) k(2) dd(2) col h
      by (cases it) (auto simp: message_at_def message_on_canvas_def item_participants_def)
  qed
  then show ?thesis by (simp add: list_all_iff flip: d_def)
qed

end
