(* ===== verification/PanelPosition.thy ===== *)
theory PanelPosition
  imports Complex_Main JsRegex
begin

text \<open>
  \<open>lib/docPreview/position.ts\<close>: where the floating preview panel goes (\<open>computePosition\<close>),
  and which ancestors of an element scroll (\<open>getScrollParents\<close>). Lengths are rationals. The
  DOM is a parameter: an element's chain of \<open>parentElement\<close>s is a list, innermost first,
  and its computed style a function.
\<close>

datatype placement = PlaceTop | PlaceBottom

record rect =
  r_top :: rat
  r_left :: rat
  r_right :: rat
  r_bottom :: rat
  r_width :: rat
  r_height :: rat

record box_size =
  z_width :: rat
  z_height :: rat

record computed_position =
  cp_top :: rat
  cp_left :: rat
  cp_placement :: placement
  cp_anchorOffsetRatio :: rat

definition VIEWPORT_PADDING :: rat where "VIEWPORT_PADDING = 12"
definition ANCHOR_GAP :: rat where "ANCHOR_GAP = 10"

definition clamp :: "rat \<Rightarrow> rat \<Rightarrow> rat \<Rightarrow> rat" where
  "clamp val lo hi = min (max val lo) hi"

definition spaceBelow :: "rect \<Rightarrow> box_size \<Rightarrow> rat" where
  "spaceBelow anchor viewport = z_height viewport - r_bottom anchor - VIEWPORT_PADDING"

definition spaceAbove :: "rect \<Rightarrow> rat" where
  "spaceAbove anchor = r_top anchor - VIEWPORT_PADDING"

definition fitsBelow :: "rect \<Rightarrow> box_size \<Rightarrow> box_size \<Rightarrow> bool" where
  "fitsBelow anchor panel viewport = (z_height panel + ANCHOR_GAP \<le> spaceBelow anchor viewport)"

definition fitsAbove :: "rect \<Rightarrow> box_size \<Rightarrow> bool" where
  "fitsAbove anchor panel = (z_height panel + ANCHOR_GAP \<le> spaceAbove anchor)"

definition choosePlacement :: "rect \<Rightarrow> box_size \<Rightarrow> box_size \<Rightarrow> placement \<Rightarrow> placement" where
  "choosePlacement anchor panel viewport preferred =
     (let below = fitsBelow anchor panel viewport; above = fitsAbove anchor panel in
      if preferred = PlaceBottom \<and> \<not> below \<and> above then PlaceTop
      else if preferred = PlaceTop \<and> \<not> above \<and> below then PlaceBottom
      else if \<not> below \<and> \<not> above
      then (if spaceBelow anchor viewport < spaceAbove anchor then PlaceTop else PlaceBottom)
      else preferred)"

definition computePosition :: "rect \<Rightarrow> box_size \<Rightarrow> box_size \<Rightarrow> placement \<Rightarrow> computed_position" where
  "computePosition anchor panel viewport preferred =
     (let placement = choosePlacement anchor panel viewport preferred;
          top = (case placement of
             PlaceBottom \<Rightarrow> min (r_bottom anchor + ANCHOR_GAP) (z_height viewport - VIEWPORT_PADDING - z_height panel)
           | PlaceTop \<Rightarrow> r_top anchor - ANCHOR_GAP - z_height panel);
          clampedTop = max VIEWPORT_PADDING top;
          idealLeft = r_left anchor;
          maxLeft = z_width viewport - VIEWPORT_PADDING - z_width panel;
          minLeft = VIEWPORT_PADDING;
          left = min (max idealLeft minLeft) (max minLeft maxLeft);
          anchorCenter = r_left anchor + r_width anchor / 2;
          ratio = (if 0 < z_width panel
            then clamp ((anchorCenter - left) / z_width panel) (6 / 100) (94 / 100) else 1 / 2)
      in \<lparr>cp_top = clampedTop, cp_left = left, cp_placement = placement, cp_anchorOffsetRatio = ratio\<rparr>)"

record overflow_style =
  o_overflow :: jstr
  o_overflowY :: jstr
  o_overflowX :: jstr

definition scroll_rx :: rx where
  "scroll_rx = RCap 1 (ralt [rlit (js ''auto''), rlit (js ''scroll''), rlit (js ''overlay'')])"

fun getScrollParents :: "('e \<Rightarrow> overflow_style) \<Rightarrow> 'e list \<Rightarrow> 'e list" where
  "getScrollParents computedStyle [] = []"
| "getScrollParents computedStyle (current # rest) =
     (let style = computedStyle current;
          overflow = o_overflow style @ o_overflowY style @ o_overflowX style
      in if rx_test scroll_rx overflow then current # getScrollParents computedStyle rest
         else getScrollParents computedStyle rest)"

subsection \<open>Properties\<close>

definition overlaps_anchor :: "rect \<Rightarrow> box_size \<Rightarrow> computed_position \<Rightarrow> bool" where
  "overlaps_anchor anchor panel pos =
     (cp_top pos < r_bottom anchor + ANCHOR_GAP \<and> r_top anchor < cp_top pos + z_height panel + ANCHOR_GAP)"

text \<open>C10: When the panel fits on one side of its anchor, and the anchor is not wholly above or wholly below
  the viewport (its lower edge is at or below the upper edge of the viewport, its upper edge at or above the
  lower one), the panel is placed on a side where it fits: it keeps the gap to
  the anchor, starts below the viewport's top padding and ends at least the gap before its
  lower edge, and the preferred side is taken whenever it fits.\<close>

theorem computePosition_fits:
  assumes "fitsBelow anchor panel viewport \<or> fitsAbove anchor panel"
    and "0 \<le> r_bottom anchor" "r_top anchor \<le> z_height viewport"
  shows "let pos = computePosition anchor panel viewport preferred in
     \<not> overlaps_anchor anchor panel pos \<and> VIEWPORT_PADDING \<le> cp_top pos \<and>
     cp_top pos + z_height panel + ANCHOR_GAP \<le> z_height viewport \<and>
     ((case preferred of PlaceBottom \<Rightarrow> fitsBelow anchor panel viewport | PlaceTop \<Rightarrow> fitsAbove anchor panel) \<longrightarrow>
        cp_placement pos = preferred)"
proof (cases "choosePlacement anchor panel viewport preferred")
  case PlaceTop
  then have "fitsAbove anchor panel"
    using assms(1) by (cases preferred) (auto simp: choosePlacement_def Let_def split: if_splits)
  with PlaceTop assms show ?thesis
    by (cases preferred)
      (auto simp: computePosition_def choosePlacement_def Let_def overlaps_anchor_def fitsBelow_def fitsAbove_def
        spaceAbove_def spaceBelow_def VIEWPORT_PADDING_def ANCHOR_GAP_def split: if_splits)
next
  case PlaceBottom
  then have "fitsBelow anchor panel viewport"
    using assms(1) by (cases preferred) (auto simp: choosePlacement_def Let_def split: if_splits)
  with PlaceBottom assms show ?thesis
    by (cases preferred)
      (auto simp: computePosition_def choosePlacement_def Let_def overlaps_anchor_def fitsBelow_def fitsAbove_def
        spaceAbove_def spaceBelow_def VIEWPORT_PADDING_def ANCHOR_GAP_def split: if_splits)
qed

theorem computePosition_fits_witness:
  "let pos = computePosition \<lparr>r_top = 700, r_left = 30, r_right = 90, r_bottom = 720, r_width = 60, r_height = 20\<rparr>
       \<lparr>z_width = 320, z_height = 240\<rparr> \<lparr>z_width = 1024, z_height = 768\<rparr> PlaceBottom
   in \<not> overlaps_anchor \<lparr>r_top = 700, r_left = 30, r_right = 90, r_bottom = 720, r_width = 60, r_height = 20\<rparr>
        \<lparr>z_width = 320, z_height = 240\<rparr> pos \<and> 12 \<le> cp_top pos \<and> cp_top pos + 240 + 10 \<le> 768"
  using computePosition_fits [of "\<lparr>r_top = 700, r_left = 30, r_right = 90, r_bottom = 720, r_width = 60, r_height = 20\<rparr>"
      "\<lparr>z_width = 320, z_height = 240\<rparr>" "\<lparr>z_width = 1024, z_height = 768\<rparr>" PlaceBottom]
  by (simp add: Let_def fitsAbove_def spaceAbove_def VIEWPORT_PADDING_def ANCHOR_GAP_def)

text \<open>Horizontally the panel never starts left of the padding; when the viewport is wide
  enough for it, it also ends before the right padding, and it keeps the anchor's left edge
  whenever that leaves it inside. The caret's position is always within 6% and 94% of the
  panel's width.\<close>

theorem computePosition_horizontal:
  "let pos = computePosition anchor panel viewport preferred in
     VIEWPORT_PADDING \<le> cp_left pos \<and>
     cp_left pos + z_width panel + VIEWPORT_PADDING \<le> max (z_width viewport) (z_width panel + 2 * VIEWPORT_PADDING) \<and>
     (cp_left pos = r_left anchor) =
       (VIEWPORT_PADDING \<le> r_left anchor \<and>
        r_left anchor + z_width panel + VIEWPORT_PADDING \<le> max (z_width viewport) (z_width panel + 2 * VIEWPORT_PADDING)) \<and>
     6 / 100 \<le> cp_anchorOffsetRatio pos \<and> cp_anchorOffsetRatio pos \<le> 94 / 100"
  by (auto simp: computePosition_def Let_def VIEWPORT_PADDING_def clamp_def min_def max_def)

text \<open>The scrolling ancestors are those whose style names a scrolling overflow, innermost first.\<close>

lemma getScrollParents_filter:
  "getScrollParents style chain =
     filter (\<lambda>e. rx_test scroll_rx (o_overflow (style e) @ o_overflowY (style e) @ o_overflowX (style e))) chain"
  by (induction chain) (auto simp: Let_def)

lemma rx_search_Some:
  "rx_search r p s \<noteq> None \<longleftrightarrow> (\<exists>u v. s = u @ v \<and> rx_at r (rev u @ p, v) \<noteq> None)"
proof (induction s arbitrary: p)
  case (Cons x s)
  have "(\<exists>u v. x # s = u @ v \<and> rx_at r (rev u @ p, v) \<noteq> None) \<longleftrightarrow>
     rx_at r (p, x # s) \<noteq> None \<or> (\<exists>u v. s = u @ v \<and> rx_at r (rev u @ x # p, v) \<noteq> None)"
    (is "?L \<longleftrightarrow> ?R")
  proof
    assume ?L
    then obtain u v where uv: "x # s = u @ v" "rx_at r (rev u @ p, v) \<noteq> None" by blast
    show ?R
    proof (cases u)
      case (Cons y u')
      then show ?thesis using uv by (intro disjI2 exI [of _ u'] exI [of _ v]) auto
    qed (use uv in auto)
  next
    assume ?R
    then show ?L
    proof
      assume "\<exists>u v. s = u @ v \<and> rx_at r (rev u @ x # p, v) \<noteq> None"
      then obtain u v where "s = u @ v" "rx_at r (rev u @ x # p, v) \<noteq> None" by blast
      then show ?L by (intro exI [of _ "x # u"] exI [of _ v]) auto
    qed (intro exI [of _ "[]"] exI [of _ "x # s"], simp)
  qed
  with Cons show ?case by (auto simp: or_else_def split: option.splits)
qed (auto simp: or_else_def)

lemma scroll_test:
  "rx_test scroll_rx s \<longleftrightarrow> js_includes s (js ''auto'') \<or> js_includes s (js ''scroll'') \<or> js_includes s (js ''overlay'')"
proof -
  have at: "rx_at scroll_rx (p, v) \<noteq> None \<longleftrightarrow>
      starts_with v (js ''auto'') \<or> starts_with v (js ''scroll'') \<or> starts_with v (js ''overlay'')" for p v
    by (auto simp: rx_at_def scroll_rx_def or_else_def split: option.splits)
  show ?thesis
    unfolding rx_test_def rx_exec_def rx_search_Some at js_includes_iff starts_with_iff
    by blast
qed

text \<open>An ancestor is watched for scrolling exactly when one of its three computed overflow
  values, concatenated, contains \<open>auto\<close>, \<open>scroll\<close> or \<open>overlay\<close>; the watched ancestors come
  in the order of the chain, innermost first.\<close>

theorem getScrollParents_spec:
  "getScrollParents style chain =
     filter (\<lambda>e. let ov = o_overflow (style e) @ o_overflowY (style e) @ o_overflowX (style e) in
        js_includes ov (js ''auto'') \<or> js_includes ov (js ''scroll'') \<or> js_includes ov (js ''overlay'')) chain"
  by (simp only: getScrollParents_filter scroll_test Let_def)

end
