(* ===== verification/DocRegistry.thy ===== *)
theory DocRegistry
  imports JsMap JsString
begin

text \<open>
  The documentation entities: the data contract (\<open>lib/docPreview/types.ts\<close>), the registry
  (\<open>lib/docPreview/registry.ts\<close>) and the display table (\<open>components/docPreview/entityMeta.ts\<close>).
  The registry is module state: a \<open>Map\<close> from ids to entities and a \<open>Set\<close> of listeners. A
  listener is a number; the calls made to listeners are recorded in \<open>rg_calls\<close>.
\<close>

datatype entity_type =
    EFunction
  | EMethod
  | EHook
  | EClass
  | EDecorator
  | EModel
  | EComponent
  | EEvent
  | EConfig
  | ECli
  | EEndpoint
  | EType
  | EModule

datatype entity_status = Stable | Beta | Experimental | Deprecated

datatype note_kind = NKNote | NKWarning | NKTip

record entity_param =
  par_name :: jstr
  par_type :: "jstr option"
  par_description :: "jstr option"
  par_optional :: "bool option"
  par_default :: "jstr option"

record entity_return =
  ret_type :: "jstr option"
  ret_description :: "jstr option"

record entity_example =
  ex_code :: jstr
  ex_language :: "jstr option"
  ex_title :: "jstr option"

record entity_related =
  rel_id :: "jstr option"
  rel_label :: jstr
  rel_href :: "jstr option"

record entity_note =
  note_kind :: "note_kind option"
  note_text :: jstr

record entity_deprecation =
  dep_since :: "jstr option"
  dep_message :: "jstr option"
  dep_replacement :: "jstr option"

record entity_source =
  src_file :: jstr
  src_line :: "int option"
  src_href :: "jstr option"

record doc_entity =
  de_id :: jstr
  de_type :: entity_type
  de_title :: jstr
  de_description :: jstr
  de_signature :: "jstr option"
  de_language :: "jstr option"
  de_parameters :: "entity_param list option"
  de_returns :: "entity_return option"
  de_example :: "entity_example option"
  de_related :: "entity_related list option"
  de_status :: "entity_status option"
  de_version :: "jstr option"
  de_deprecated :: "entity_deprecation option"
  de_notes :: "entity_note list option"
  de_docsHref :: "jstr option"
  de_source :: "entity_source option"

subsection \<open>The registry\<close>

text \<open>\<open>Set\<close>: distinct elements in insertion order.\<close>

definition set_add :: "'a \<Rightarrow> 'a list \<Rightarrow> 'a list" where
  "set_add x xs = (if x \<in> set xs then xs else xs @ [x])"

definition set_delete :: "'a \<Rightarrow> 'a list \<Rightarrow> 'a list" where
  "set_delete x xs = filter (\<lambda>y. y \<noteq> x) xs"

lemma distinct_count: "distinct xs \<Longrightarrow> x \<in> set xs \<Longrightarrow> count_list xs x = 1"
  by (induction xs) (auto simp: count_notin)

locale listener_set =
  fixes none :: 's
    and add :: "'l \<Rightarrow> 's \<Rightarrow> 's"
    and delete :: "'l \<Rightarrow> 's \<Rightarrow> 's"
    and members :: "'s \<Rightarrow> 'l list"
    and ok :: "'s \<Rightarrow> bool"
  assumes members_none: "members none = []"
    and ok_none: "ok none"
    and ok_add: "ok s \<Longrightarrow> ok (add l s)"
    and ok_delete: "ok s \<Longrightarrow> ok (delete l s)"
    and ok_distinct: "ok s \<Longrightarrow> distinct (members s)"
    and members_add: "set (members (add l s)) = insert l (set (members s))"
    and members_delete: "set (members (delete l s)) = set (members s) - {l}"
    and add_member: "l \<in> set (members s) \<Longrightarrow> add l s = s"
    and delete_add: "l \<notin> set (members s) \<Longrightarrow> delete l (add l s) = s"
begin

text \<open>Notifying every member once.\<close>

lemma notified_once: "ok s \<Longrightarrow> l \<in> set (members s) \<Longrightarrow> count_list (members s) l = 1"
  by (rule distinct_count [OF ok_distinct])

lemma not_member_after_delete: "l \<notin> set (members (delete l s))"
  by (simp add: members_delete)

end

interpretation lset: listener_set "[]" set_add set_delete "\<lambda>s. s" distinct
  by unfold_locales (auto simp: set_add_def set_delete_def filter_id_conv)

record registry_state =
  rg_entities :: "(jstr, doc_entity) jmap"
  rg_listeners :: "nat list"
  rg_calls :: "nat list"

definition empty_registry :: registry_state where
  "empty_registry = \<lparr>rg_entities = [], rg_listeners = [], rg_calls = []\<rparr>"

text \<open>An argument of \<open>registerDocEntities\<close> is one entity or an array; an entity may be missing
  (\<open>entity?.id\<close>).\<close>

datatype register_arg = OneEntity "doc_entity option" | ManyEntities "doc_entity option list"

definition arg_list :: "register_arg \<Rightarrow> doc_entity option list" where
  "arg_list entities = (case entities of OneEntity e \<Rightarrow> [e] | ManyEntities es \<Rightarrow> es)"

definition register_one :: "doc_entity option \<Rightarrow> (jstr, doc_entity) jmap \<Rightarrow> (jstr, doc_entity) jmap" where
  "register_one entity m =
     (case entity of None \<Rightarrow> m | Some e \<Rightarrow> if de_id e = [] then m else jm_set (de_id e) e m)"

definition registerDocEntities :: "register_arg \<Rightarrow> registry_state \<Rightarrow> registry_state" where
  "registerDocEntities entities st =
     (let list = arg_list entities;
          st = st\<lparr>rg_entities := fold register_one list (rg_entities st)\<rparr>
      in if list \<noteq> [] then st\<lparr>rg_calls := rg_calls st @ rg_listeners st\<rparr> else st)"

definition getDocEntity :: "registry_state \<Rightarrow> jstr \<Rightarrow> doc_entity option" where
  "getDocEntity st i = jm_get (rg_entities st) i"

definition hasDocEntity :: "registry_state \<Rightarrow> jstr \<Rightarrow> bool" where
  "hasDocEntity st i = jm_has (rg_entities st) i"

definition getAllDocEntities :: "registry_state \<Rightarrow> doc_entity list" where
  "getAllDocEntities st = jm_values (rg_entities st)"

definition subscribeDocRegistry :: "nat \<Rightarrow> registry_state \<Rightarrow> registry_state" where
  "subscribeDocRegistry l st = st\<lparr>rg_listeners := set_add l (rg_listeners st)\<rparr>"

definition unsubscribeDocRegistry :: "nat \<Rightarrow> registry_state \<Rightarrow> registry_state" where
  "unsubscribeDocRegistry l st = st\<lparr>rg_listeners := set_delete l (rg_listeners st)\<rparr>"

subsection \<open>Properties of the registry\<close>

definition registered :: "doc_entity option list \<Rightarrow> doc_entity list" where
  "registered es = filter (\<lambda>e. de_id e \<noteq> []) (map the (filter (\<lambda>e. e \<noteq> None) es))"

lemma fold_register: "fold register_one es m = jm.set_all de_id (\<lambda>e. e) (registered es) m"
proof (induction es arbitrary: m)
  case (Cons e es)
  then show ?case
    by (cases e) (auto simp: register_one_def registered_def jm.set_all_simps)
qed (simp add: registered_def jm.set_all_simps)

lemma register_entities:
  "rg_entities (registerDocEntities a st) = jm.set_all de_id (\<lambda>e. e) (registered (arg_list a)) (rg_entities st)"
  by (simp add: registerDocEntities_def Let_def fold_register)

lemma find_rev_Some:
  "find P (rev xs) = Some x \<Longrightarrow> \<exists>us vs. xs = us @ x # vs \<and> P x \<and> (\<forall>v \<in> set vs. \<not> P v)"
proof (induction xs rule: rev_induct)
  case (snoc y xs)
  show ?case
  proof (cases "P y")
    case True
    with snoc.prems show ?thesis by (intro exI [of _ xs] exI [of _ "[]"]) auto
  next
    case False
    with snoc.prems have "find P (rev xs) = Some x" by simp
    then obtain us vs where "xs = us @ x # vs" "P x" "\<forall>v \<in> set vs. \<not> P v" using snoc.IH by blast
    with False show ?thesis by (intro exI [of _ us] exI [of _ "vs @ [y]"]) auto
  qed
qed simp

text \<open>Every entry is stored under its own id, and ids are distinct.\<close>

definition entries_ok :: "(jstr, doc_entity) jmap \<Rightarrow> bool" where
  "entries_ok m \<longleftrightarrow> jm_inv m \<and> (\<forall>(k, e) \<in> set m. de_id e = k)"

definition registry_ok :: "registry_state \<Rightarrow> bool" where
  "registry_ok st = entries_ok (rg_entities st)"

lemma registry_ok_empty: "registry_ok empty_registry"
  by (simp add: registry_ok_def entries_ok_def empty_registry_def jm.ok_empty)

lemma register_one_ok: "entries_ok m \<Longrightarrow> entries_ok (register_one x m)"
  using jm_set_all [of m "\<lambda>k e. de_id e = k"]
  by (cases x) (simp_all add: entries_ok_def register_one_def jm.ok_set)

lemma registry_ok_register: "registry_ok st \<Longrightarrow> registry_ok (registerDocEntities a st)"
proof -
  have "entries_ok m \<Longrightarrow> entries_ok (fold register_one xs m)" for xs m
    by (induction xs arbitrary: m) (simp_all add: register_one_ok)
  then show "registry_ok st \<Longrightarrow> registry_ok (registerDocEntities a st)"
    by (simp add: registry_ok_def registerDocEntities_def Let_def)
qed

lemma getDocEntity_id: "registry_ok st \<Longrightarrow> getDocEntity st i = Some e \<Longrightarrow> de_id e = i"
  using jm_get_in [of "rg_entities st" i e] by (auto simp: registry_ok_def entries_ok_def getDocEntity_def)

lemma hasDocEntity_iff: "hasDocEntity st i \<longleftrightarrow> getDocEntity st i \<noteq> None"
  by (simp add: hasDocEntity_def getDocEntity_def jm_has_def del: jm_has_iff)

lemma hasDocEntity_register: "hasDocEntity st i \<Longrightarrow> hasDocEntity (registerDocEntities a st) i"
  by (simp add: hasDocEntity_def register_entities jm.keys_set_all)

text \<open>Registration is last-write-wins: after a call, an id resolves to the last entity of the
  call that carries it, and to what it resolved to before when the call has none; missing
  entities and empty ids are skipped.\<close>

theorem register_lookup:
  "getDocEntity (registerDocEntities a st) i =
     (case find (\<lambda>e. de_id e = i) (rev (registered (arg_list a))) of
        Some e \<Rightarrow> Some e | None \<Rightarrow> getDocEntity st i)"
proof (cases "find (\<lambda>e. de_id e = i) (rev (registered (arg_list a)))")
  case None
  then have "i \<notin> de_id ` set (registered (arg_list a))" by (auto simp: find_None_iff)
  with None show ?thesis by (simp add: getDocEntity_def register_entities jm.get_set_all_other)
next
  case (Some e)
  from find_rev_Some [OF this] obtain us vs where
    dec: "registered (arg_list a) = us @ e # vs" "de_id e = i" "\<forall>v \<in> set vs. de_id v \<noteq> i" by auto
  then have "de_id e \<notin> de_id ` set vs" by auto
  with Some dec jm.get_set_all_last [of de_id e vs "\<lambda>e. e" us "rg_entities st"] show ?thesis
    by (auto simp: getDocEntity_def register_entities)
qed

lemma keys_set_all_remdups:
  "jm_inv m \<Longrightarrow> jm_keys (jm.set_all f g xs m) = rev (remdups (rev (jm_keys m @ map f xs)))"
proof (induction xs rule: rev_induct)
  case Nil
  then show ?case by (simp add: jm.set_all_simps jm_inv_def distinct_remdups_id)
next
  case (snoc x xs)
  have "jm.set_all f g (xs @ [x]) m = jm_set (f x) (g x) (jm.set_all f g xs m)"
    by (simp add: jm.set_all_def)
  with snoc show ?case by (auto simp: jm_keys_set)
qed

text \<open>The registry lists ids in the order of their first registration: re-registering an id
  replaces its entity in place, and the ids stay distinct.\<close>

theorem register_order:
  assumes "distinct (jm_keys (rg_entities st))"
  shows "jm_keys (rg_entities (registerDocEntities a st)) =
     rev (remdups (rev (jm_keys (rg_entities st) @ map de_id (registered (arg_list a)))))"
  using keys_set_all_remdups [of "rg_entities st" de_id "\<lambda>e. e"] assms
  by (simp add: register_entities jm_inv_def)

theorem register_order_witness:
  "let e = (\<lambda>i t. \<lparr>de_id = js i, de_type = EClass, de_title = js t, de_description = [], de_signature = None,
      de_language = None, de_parameters = None, de_returns = None, de_example = None, de_related = None,
      de_status = None, de_version = None, de_deprecated = None, de_notes = None, de_docsHref = None,
      de_source = None\<rparr>)
   in jm_keys (rg_entities (registerDocEntities
        (ManyEntities [Some (e ''a'' ''one''), None, Some (e ''b'' ''two''), Some (e ''a'' ''three'')]) empty_registry)) =
      [js ''a'', js ''b'']"
  using register_order [of empty_registry] by (simp add: empty_registry_def registered_def arg_list_def Let_def)

text \<open>A registration calls every listener exactly once, in subscription order, when its list
  is not empty (whatever the list holds), and none otherwise; a listener that subscribed
  twice is called once, and one that unsubscribed not at all.\<close>

theorem register_notifies:
  "rg_calls (registerDocEntities a st) = rg_calls st @ (if arg_list a = [] then [] else rg_listeners st) \<and>
   subscribeDocRegistry l (subscribeDocRegistry l st) = subscribeDocRegistry l st \<and>
   count_list (rg_listeners (unsubscribeDocRegistry l st)) l = 0"
  by (auto simp: registerDocEntities_def Let_def subscribeDocRegistry_def unsubscribeDocRegistry_def
      set_add_def lset.add_member lset.not_member_after_delete count_list_0_iff)

end
