(* ===== verification/DocPreview.thy ===== *)
theory DocPreview
  imports DocRegistry Machine
begin

text \<open>
  The hover preview: the provider of \<open>context/DocPreviewContext.tsx\<close>, the trigger
  \<open>components/docPreview/DocTerm.tsx\<close> and the pointer handlers of the panel
  (\<open>DocPreviewPanel.tsx\<close>), as one machine driven by user, timer and render events.

  \<open>setState\<close> takes effect at the next render: \<open>dp_state\<close> is the value last set and
  \<open>dp_shown\<close> the one the last render used, which is also \<open>stateRef.current\<close> and what the
  handlers of the rendered terms and panel close over. A timer is the time it is due with what
  its callback closes over; it fires at or after that time. Times are milliseconds.

  Elements of the page are numbers. A page says which elements are buttons of a \<open>DocTerm\<close> and
  for which id (\<open>pg_term\<close>), the button an element lies in (\<open>pg_button\<close>; buttons do not
  nest, so \<open>anchorEl.contains(target)\<close> is \<open>pg_button target = Some anchorEl\<close>), which elements
  lie in the panel, and whether the device is a touch device. Moving the focus runs the blur
  handler of the old element and the focus handler of the new one, as \<open>focus()\<close> does.
\<close>

subsection \<open>State\<close>

datatype open_reason = RHover | RFocus | RTouch

record preview =
  pv_entity :: "doc_entity option"
  pv_anchor :: "nat option"
  pv_reason :: "open_reason option"

record page =
  pg_term :: "nat \<Rightarrow> jstr option"
  pg_button :: "nat \<Rightarrow> nat option"
  pg_inPanel :: "nat \<Rightarrow> bool"
  pg_isTouch :: bool

record provider =
  dp_state :: preview
  dp_shown :: preview
  dp_lastAnchor :: "nat option"
  dp_openTimer :: "(nat \<times> preview) option"
  dp_hideTimer :: "(nat \<times> jstr) option"
  dp_registry :: registry_state
  dp_active :: "nat option"
  dp_now :: nat

definition no_preview :: preview where
  "no_preview = \<lparr>pv_entity = None, pv_anchor = None, pv_reason = None\<rparr>"

definition HOVER_OPEN_DELAY_MS :: nat where "HOVER_OPEN_DELAY_MS = 150"
definition HOVER_SWITCH_DELAY_MS :: nat where "HOVER_SWITCH_DELAY_MS = 45"
definition HOVER_CLOSE_DELAY_MS :: nat where "HOVER_CLOSE_DELAY_MS = 220"

definition provider_init :: "registry_state \<Rightarrow> provider" where
  "provider_init reg = \<lparr>dp_state = no_preview, dp_shown = no_preview, dp_lastAnchor = None,
     dp_openTimer = None, dp_hideTimer = None, dp_registry = reg, dp_active = None, dp_now = 0\<rparr>"

subsection \<open>Operations of the provider\<close>

definition clearTimers :: "provider \<Rightarrow> provider" where
  "clearTimers st = st\<lparr>dp_openTimer := None, dp_hideTimer := None\<rparr>"

definition show_preview :: "jstr \<Rightarrow> nat \<Rightarrow> open_reason \<Rightarrow> provider \<Rightarrow> provider" where
  "show_preview i anchorEl reason st =
     (case getDocEntity (dp_registry st) i of
        None \<Rightarrow> st
      | Some e \<Rightarrow>
          (let next = \<lparr>pv_entity = Some e, pv_anchor = Some anchorEl, pv_reason = Some reason\<rparr>;
               st = st\<lparr>dp_hideTimer := None, dp_lastAnchor := Some anchorEl\<rparr>
           in if reason = RFocus \<or> reason = RTouch
              then st\<lparr>dp_openTimer := None, dp_state := next\<rparr>
              else
                (let wasOpen = pv_entity (dp_shown st) \<noteq> None;
                     delay = (if wasOpen then HOVER_SWITCH_DELAY_MS else HOVER_OPEN_DELAY_MS)
                 in st\<lparr>dp_openTimer := Some (dp_now st + delay, next)\<rparr>)))"

definition showing :: "preview \<Rightarrow> jstr \<Rightarrow> bool" where
  "showing p i = (map_option de_id (pv_entity p) = Some i)"

definition scheduleHide :: "jstr \<Rightarrow> open_reason \<Rightarrow> provider \<Rightarrow> provider" where
  "scheduleHide i reason st =
     (let st = st\<lparr>dp_openTimer := None\<rparr> in
      if reason = RFocus then (if showing (dp_shown st) i then st\<lparr>dp_state := no_preview\<rparr> else st)
      else if reason = RTouch then st
      else st\<lparr>dp_hideTimer := Some (dp_now st + HOVER_CLOSE_DELAY_MS, i)\<rparr>)"

definition cancelHide :: "provider \<Rightarrow> provider" where
  "cancelHide st = st\<lparr>dp_hideTimer := None\<rparr>"

subsection \<open>Handlers of a term\<close>

text \<open>A term whose id is not registered renders no button.\<close>

definition live_term :: "page \<Rightarrow> provider \<Rightarrow> nat \<Rightarrow> jstr option" where
  "live_term pg st el =
     (case pg_term pg el of
        None \<Rightarrow> None
      | Some i \<Rightarrow> if hasDocEntity (dp_registry st) i then Some i else None)"

definition isActive :: "provider \<Rightarrow> jstr \<Rightarrow> nat \<Rightarrow> bool" where
  "isActive st i el = (hasDocEntity (dp_registry st) i \<and> showing (dp_shown st) i \<and>
     pv_anchor (dp_shown st) = Some el)"

definition onPointerEnter :: "page \<Rightarrow> nat \<Rightarrow> bool \<Rightarrow> provider \<Rightarrow> provider" where
  "onPointerEnter pg el touch st =
     (case live_term pg st el of None \<Rightarrow> st
      | Some i \<Rightarrow> if touch then st else show_preview i el RHover st)"

definition onPointerLeave :: "page \<Rightarrow> nat \<Rightarrow> bool \<Rightarrow> provider \<Rightarrow> provider" where
  "onPointerLeave pg el touch st =
     (case live_term pg st el of None \<Rightarrow> st
      | Some i \<Rightarrow> if touch then st else scheduleHide i RHover st)"

definition onFocus :: "page \<Rightarrow> nat \<Rightarrow> provider \<Rightarrow> provider" where
  "onFocus pg el st =
     (case live_term pg st el of None \<Rightarrow> st | Some i \<Rightarrow> show_preview i el RFocus st)"

definition onBlur :: "page \<Rightarrow> nat \<Rightarrow> nat option \<Rightarrow> provider \<Rightarrow> provider" where
  "onBlur pg el related st =
     (case live_term pg st el of None \<Rightarrow> st
      | Some i \<Rightarrow>
          if (case related of None \<Rightarrow> False | Some r \<Rightarrow> pg_inPanel pg r \<and> pv_entity (dp_shown st) \<noteq> None)
          then st else scheduleHide i RFocus st)"

definition onClick :: "page \<Rightarrow> nat \<Rightarrow> provider \<Rightarrow> provider" where
  "onClick pg el st =
     (case live_term pg st el of None \<Rightarrow> st
      | Some i \<Rightarrow>
          if \<not> pg_isTouch pg then st
          else if isActive st i el then scheduleHide i RHover st
          else show_preview i el RTouch st)"

text \<open>The browser moves the focus, by \<open>focus()\<close> or by the user.\<close>

definition move_focus :: "page \<Rightarrow> nat option \<Rightarrow> provider \<Rightarrow> provider" where
  "move_focus pg target st =
     (if dp_active st = target then st
      else
        (let st = (case dp_active st of None \<Rightarrow> st | Some old \<Rightarrow> onBlur pg old target st);
             st = st\<lparr>dp_active := target\<rparr>
         in case target of None \<Rightarrow> st | Some el \<Rightarrow> onFocus pg el st))"

subsection \<open>Closing\<close>

definition hideImmediately :: "page \<Rightarrow> bool \<Rightarrow> provider \<Rightarrow> provider" where
  "hideImmediately pg refocusTrigger st =
     (let st = (clearTimers st)\<lparr>dp_state := no_preview\<rparr> in
      if refocusTrigger
      then (case dp_lastAnchor st of None \<Rightarrow> st | Some el \<Rightarrow> move_focus pg (Some el) st)
      else st)"

definition onEscape :: "page \<Rightarrow> provider \<Rightarrow> provider" where
  "onEscape pg st =
     (if pv_entity (dp_shown st) \<noteq> None
      then hideImmediately pg (pv_reason (dp_shown st) = Some RFocus) st else st)"

definition onPointerDown :: "page \<Rightarrow> nat \<Rightarrow> provider \<Rightarrow> provider" where
  "onPointerDown pg target st =
     (let cur = dp_shown st in
      if pv_reason cur \<noteq> Some RTouch \<or> pv_entity cur = None then st
      else if pg_inPanel pg target then st
      else if pv_anchor cur \<noteq> None \<and> pg_button pg target = pv_anchor cur then st
      else hideImmediately pg False st)"

subsection \<open>The machine\<close>

datatype preview_event =
    PointerEnter nat bool
  | PointerLeave nat bool
  | FocusTo "nat option"
  | Click nat
  | PointerDown nat
  | PanelEnter
  | PanelLeave
  | PanelClose
  | Escape
  | Navigate
  | RegisterEntities register_arg
  | Render
  | FireOpen
  | FireHide
  | Pass nat
  | Unmount

text \<open>A press runs the capture listener on the document first, then the button's own
  \<open>onPointerDown={cancelHide}\<close>. The panel exists while an entity is shown.\<close>

definition preview_step :: "page \<Rightarrow> preview_event \<Rightarrow> provider \<Rightarrow> provider" where
  "preview_step pg ev st = (case ev of
     PointerEnter el touch \<Rightarrow> onPointerEnter pg el touch st
   | PointerLeave el touch \<Rightarrow> onPointerLeave pg el touch st
   | FocusTo target \<Rightarrow> move_focus pg target st
   | Click el \<Rightarrow> onClick pg el st
   | PointerDown target \<Rightarrow>
       (let st = onPointerDown pg target st in
        case pg_button pg target of None \<Rightarrow> st
        | Some b \<Rightarrow> if live_term pg st b \<noteq> None then cancelHide st else st)
   | PanelEnter \<Rightarrow> if pv_entity (dp_shown st) \<noteq> None then cancelHide st else st
   | PanelLeave \<Rightarrow>
       (case pv_entity (dp_shown st) of None \<Rightarrow> st
        | Some e \<Rightarrow> scheduleHide (de_id e) (case pv_reason (dp_shown st) of None \<Rightarrow> RHover | Some r \<Rightarrow> r) st)
   | PanelClose \<Rightarrow> if pv_entity (dp_shown st) \<noteq> None then hideImmediately pg False st else st
   | Escape \<Rightarrow> onEscape pg st
   | Navigate \<Rightarrow> hideImmediately pg False st
   | RegisterEntities a \<Rightarrow> st\<lparr>dp_registry := registerDocEntities a (dp_registry st)\<rparr>
   | Render \<Rightarrow> st\<lparr>dp_shown := dp_state st\<rparr>
   | FireOpen \<Rightarrow>
       (case dp_openTimer st of None \<Rightarrow> st
        | Some (due, next) \<Rightarrow>
            if due \<le> dp_now st then st\<lparr>dp_openTimer := None, dp_state := next\<rparr> else st)
   | FireHide \<Rightarrow>
       (case dp_hideTimer st of None \<Rightarrow> st
        | Some (due, i) \<Rightarrow>
            if due \<le> dp_now st then
              (let st = st\<lparr>dp_hideTimer := None\<rparr> in
               if showing (dp_shown st) i then st\<lparr>dp_state := no_preview\<rparr> else st)
            else st)
   | Pass d \<Rightarrow> st\<lparr>dp_now := dp_now st + d\<rparr>
   | Unmount \<Rightarrow> clearTimers st)"

definition preview_run :: "page \<Rightarrow> preview_event list \<Rightarrow> provider \<Rightarrow> provider" where
  "preview_run pg evs st = fold (preview_step pg) evs st"

end
