(* ===== verification/DocPreviewFacts.thy ===== *)
theory DocPreviewFacts
  imports DocPreview
begin

text \<open>
  What the hover preview guarantees: the invariant of the provider (never two timers, a panel
  is whole and anchored at a term of its entity), the timing of opening and closing by hover,
  when Escape closes, and two sequences on which the panel does not behave as its comments
  say.
\<close>

subsection \<open>The invariant\<close>

definition preview_whole :: "page \<Rightarrow> registry_state \<Rightarrow> preview \<Rightarrow> bool" where
  "preview_whole pg reg p =
     (case (pv_entity p, pv_anchor p, pv_reason p) of
        (None, None, None) \<Rightarrow> True
      | (Some e, Some el, Some r) \<Rightarrow> pg_term pg el = Some (de_id e) \<and> hasDocEntity reg (de_id e)
      | _ \<Rightarrow> False)"

definition open_ok :: "page \<Rightarrow> registry_state \<Rightarrow> nat \<Rightarrow> (nat \<times> preview) option \<Rightarrow> bool" where
  "open_ok pg reg now timer = (case timer of None \<Rightarrow> True
     | Some (due, p) \<Rightarrow> preview_whole pg reg p \<and> pv_reason p = Some RHover \<and> due \<le> now + HOVER_OPEN_DELAY_MS)"

definition hide_ok :: "nat \<Rightarrow> (nat \<times> jstr) option \<Rightarrow> bool" where
  "hide_ok now timer = (case timer of None \<Rightarrow> True | Some (due, i) \<Rightarrow> due \<le> now + HOVER_CLOSE_DELAY_MS)"

definition preview_ok :: "page \<Rightarrow> provider \<Rightarrow> bool" where
  "preview_ok pg st \<longleftrightarrow>
     registry_ok (dp_registry st) \<and>
     preview_whole pg (dp_registry st) (dp_state st) \<and>
     preview_whole pg (dp_registry st) (dp_shown st) \<and>
     open_ok pg (dp_registry st) (dp_now st) (dp_openTimer st) \<and>
     hide_ok (dp_now st) (dp_hideTimer st) \<and>
     (dp_openTimer st = None \<or> dp_hideTimer st = None)"

lemma timer_ok_simps [simp]:
  "open_ok pg reg now None"
  "open_ok pg reg now (Some (due, p)) \<longleftrightarrow>
     preview_whole pg reg p \<and> pv_reason p = Some RHover \<and> due \<le> now + HOVER_OPEN_DELAY_MS"
  "hide_ok now None"
  "hide_ok now (Some (due, i)) \<longleftrightarrow> due \<le> now + HOVER_CLOSE_DELAY_MS"
  by (simp_all add: open_ok_def hide_ok_def)

lemma open_ok_later: "open_ok pg reg now t \<Longrightarrow> open_ok pg reg (now + d) t"
  by (auto simp: open_ok_def split: option.splits)

lemma hide_ok_later: "hide_ok now t \<Longrightarrow> hide_ok (now + d) t"
  by (auto simp: hide_ok_def split: option.splits)

lemmas preview_delays = HOVER_OPEN_DELAY_MS_def HOVER_SWITCH_DELAY_MS_def HOVER_CLOSE_DELAY_MS_def

lemma no_preview_whole [simp]: "preview_whole pg reg no_preview"
  by (simp add: preview_whole_def no_preview_def)

lemma whole_register: "preview_whole pg reg p \<Longrightarrow> preview_whole pg (registerDocEntities a reg) p"
  by (auto simp: preview_whole_def hasDocEntity_register split: option.splits)

lemma whole_registered:
  "registry_ok reg \<Longrightarrow> getDocEntity reg i = Some e \<Longrightarrow> pg_term pg el = Some i \<Longrightarrow>
   preview_whole pg reg \<lparr>pv_entity = Some e, pv_anchor = Some el, pv_reason = Some r\<rparr>"
  using getDocEntity_id [of reg i e] by (simp add: preview_whole_def hasDocEntity_iff)

lemma show_ok: "preview_ok pg st \<Longrightarrow> pg_term pg el = Some i \<Longrightarrow> preview_ok pg (show_preview i el r st)"
  by (cases r; cases "getDocEntity (dp_registry st) i")
    (simp_all add: preview_ok_def show_preview_def Let_def whole_registered preview_delays)

lemma scheduleHide_ok: "preview_ok pg st \<Longrightarrow> preview_ok pg (scheduleHide i r st)"
  by (cases r) (simp_all add: preview_ok_def scheduleHide_def Let_def)

lemma cancel_ok: "preview_ok pg st \<Longrightarrow> preview_ok pg (cancelHide st)"
  by (simp add: preview_ok_def cancelHide_def)

lemma clear_ok: "preview_ok pg st \<Longrightarrow> preview_ok pg (clearTimers st)"
  by (simp add: preview_ok_def clearTimers_def)

lemma live_term_Some: "live_term pg st el = Some i \<Longrightarrow> pg_term pg el = Some i"
  by (auto simp: live_term_def split: option.splits if_splits)

lemma live_term_cong: "dp_registry s = dp_registry t \<Longrightarrow> live_term pg s el = live_term pg t el"
  by (simp add: live_term_def split: option.split)

lemma focus_ok: "preview_ok pg st \<Longrightarrow> preview_ok pg (onFocus pg el st)"
  by (auto simp: onFocus_def show_ok dest: live_term_Some split: option.splits)

lemma blur_ok: "preview_ok pg st \<Longrightarrow> preview_ok pg (onBlur pg el r st)"
  by (auto simp: onBlur_def scheduleHide_ok split: option.splits)

lemma active_ok: "preview_ok pg st \<Longrightarrow> preview_ok pg (st\<lparr>dp_active := a\<rparr>)"
  by (simp add: preview_ok_def)

lemma move_focus_ok: "preview_ok pg st \<Longrightarrow> preview_ok pg (move_focus pg t st)"
  by (auto simp: move_focus_def Let_def focus_ok blur_ok active_ok split: option.splits)

lemma close_ok: "preview_ok pg st \<Longrightarrow> preview_ok pg ((clearTimers st)\<lparr>dp_state := no_preview\<rparr>)"
  by (simp add: preview_ok_def clearTimers_def)

lemma hideImmediately_ok: "preview_ok pg st \<Longrightarrow> preview_ok pg (hideImmediately pg r st)"
  by (auto simp: hideImmediately_def Let_def close_ok move_focus_ok split: option.splits)

lemma handlers_ok:
  "preview_ok pg st \<Longrightarrow> preview_ok pg (onPointerEnter pg el tch st)"
  "preview_ok pg st \<Longrightarrow> preview_ok pg (onPointerLeave pg el tch st)"
  "preview_ok pg st \<Longrightarrow> preview_ok pg (onClick pg el st)"
  "preview_ok pg st \<Longrightarrow> preview_ok pg (onEscape pg st)"
  "preview_ok pg st \<Longrightarrow> preview_ok pg (onPointerDown pg el st)"
  by (auto simp: onPointerEnter_def onPointerLeave_def onClick_def onEscape_def onPointerDown_def Let_def
      show_ok scheduleHide_ok hideImmediately_ok dest: live_term_Some split: option.splits)

lemma register_ok:
  "preview_ok pg st \<Longrightarrow> preview_ok pg (st\<lparr>dp_registry := registerDocEntities a (dp_registry st)\<rparr>)"
  by (auto simp: preview_ok_def whole_register registry_ok_register open_ok_def split: option.splits)

lemma timers_ok:
  "preview_ok pg st \<Longrightarrow> preview_ok pg (st\<lparr>dp_shown := dp_state st\<rparr>)"
  "preview_ok pg st \<Longrightarrow> preview_ok pg (st\<lparr>dp_now := dp_now st + d\<rparr>)"
  "preview_ok pg st \<Longrightarrow> dp_openTimer st = Some (due, p) \<Longrightarrow> preview_ok pg (st\<lparr>dp_openTimer := None, dp_state := p\<rparr>)"
  "preview_ok pg st \<Longrightarrow> preview_ok pg (st\<lparr>dp_hideTimer := None\<rparr>)"
  "preview_ok pg st \<Longrightarrow> preview_ok pg (st\<lparr>dp_hideTimer := None, dp_state := no_preview\<rparr>)"
  by (simp_all add: preview_ok_def open_ok_later hide_ok_later)

lemma preview_step_ok: "preview_ok pg st \<Longrightarrow> preview_ok pg (preview_step pg ev st)"
  by (cases ev) (auto simp: preview_step_def Let_def handlers_ok move_focus_ok cancel_ok scheduleHide_ok clear_ok
      hideImmediately_ok register_ok timers_ok split: option.splits)

lemma init_ok: "registry_ok reg \<Longrightarrow> preview_ok pg (provider_init reg)"
  by (simp add: preview_ok_def provider_init_def)

lemma step_now: "dp_now st \<le> dp_now (preview_step pg ev st)"
proof -
  have s: "dp_now (show_preview i el r st) = dp_now st" for i el r st
    by (simp add: show_preview_def Let_def split: option.splits)
  have h: "dp_now (scheduleHide i r st) = dp_now st" for i r st
    by (simp add: scheduleHide_def Let_def)
  have f: "dp_now (move_focus pg t st) = dp_now st" for t st
    by (simp add: move_focus_def onFocus_def onBlur_def s h Let_def split: option.splits)
  have c: "dp_now (hideImmediately pg b st) = dp_now st" for b st
    by (simp add: hideImmediately_def clearTimers_def f Let_def split: option.splits)
  show ?thesis
    by (cases ev) (simp_all add: preview_step_def onPointerEnter_def onPointerLeave_def onClick_def
        onEscape_def onPointerDown_def cancelHide_def clearTimers_def s h f c Let_def split: option.splits)
qed

interpretation preview: event_machine "preview_step pg" "preview_ok pg" "\<lambda>s t. dp_now s \<le> dp_now t" for pg
  by unfold_locales (auto simp: preview_step_ok step_now)

text \<open>C6: In every state the provider reaches from its mount on an empty registry, whatever the
  user, the timers and the registrations do: at most one of the open and the hide timer is
  pending, each is due within its delay, and the entity, the anchor and the reason of the
  panel are all present or all absent, the anchor being a button of a term whose id is the id
  of the entity shown, which is registered.\<close>

theorem preview_invariant: "preview_ok pg (preview_run pg evs (provider_init empty_registry))"
  unfolding preview_run_def by (rule preview.inv_fold) (rule init_ok [OF registry_ok_empty])

subsection \<open>Idle stretches\<close>

text \<open>Events that are not the user's: renders, timers and the passing of time.\<close>

fun elapsed :: "preview_event list \<Rightarrow> nat" where
  "elapsed [] = 0"
| "elapsed (Pass d # evs) = d + elapsed evs"
| "elapsed (ev # evs) = elapsed evs"

definition idle :: "preview_event list \<Rightarrow> bool" where
  "idle evs = list_all (\<lambda>ev. case ev of Render \<Rightarrow> True | FireOpen \<Rightarrow> True | FireHide \<Rightarrow> True | Pass d \<Rightarrow> True | _ \<Rightarrow> False) evs"

lemma idle_simps [simp]:
  "idle []"
  "idle (ev # evs) \<longleftrightarrow> (ev = Render \<or> ev = FireOpen \<or> ev = FireHide \<or> (\<exists>d. ev = Pass d)) \<and> idle evs"
  by (auto simp: idle_def split: preview_event.splits)

lemma preview_run_simps [simp]:
  "preview_run pg [] st = st"
  "preview_run pg (ev # evs) st = preview_run pg evs (preview_step pg ev st)"
  "preview_run pg (evs @ evs') st = preview_run pg evs' (preview_run pg evs st)"
  by (simp_all add: preview_run_def)

lemma preview_step_idle [simp]:
  "preview_step pg Render st = st\<lparr>dp_shown := dp_state st\<rparr>"
  "preview_step pg (Pass d) st = st\<lparr>dp_now := dp_now st + d\<rparr>"
  "preview_step pg FireOpen st = (case dp_openTimer st of None \<Rightarrow> st
     | Some (due, p) \<Rightarrow> if due \<le> dp_now st then st\<lparr>dp_openTimer := None, dp_state := p\<rparr> else st)"
  "preview_step pg FireHide st = (case dp_hideTimer st of None \<Rightarrow> st
     | Some (due, i) \<Rightarrow> if due \<le> dp_now st then
         (if showing (dp_shown st) i then st\<lparr>dp_hideTimer := None, dp_state := no_preview\<rparr>
          else st\<lparr>dp_hideTimer := None\<rparr>) else st)"
  by (simp_all add: preview_step_def split: option.splits)

text \<open>With no timer pending nothing happens.\<close>

lemma idle_quiet:
  "idle evs \<Longrightarrow> dp_openTimer st = None \<Longrightarrow> dp_hideTimer st = None \<Longrightarrow> dp_shown st = dp_state st \<Longrightarrow>
   preview_run pg evs st = st\<lparr>dp_now := dp_now st + elapsed evs\<rparr>"
  by (induction evs arbitrary: st) auto

lemma idle_settled:
  "idle evs \<Longrightarrow> dp_openTimer st = None \<Longrightarrow> dp_hideTimer st = None \<Longrightarrow>
   (let st' = preview_run pg evs st in
      dp_now st' = dp_now st + elapsed evs \<and> dp_registry st' = dp_registry st \<and>
      dp_openTimer st' = None \<and> dp_hideTimer st' = None \<and> dp_state st' = dp_state st)"
  by (induction evs arbitrary: st) (auto simp: Let_def)

text \<open>A pending timer: either still pending and the panel as before, or fired when it was due.\<close>

lemma idle_open:
  "idle evs \<Longrightarrow> dp_openTimer st = Some (due, p) \<Longrightarrow> dp_hideTimer st = None \<Longrightarrow>
   (let st' = preview_run pg evs st in
      dp_now st' = dp_now st + elapsed evs \<and> dp_registry st' = dp_registry st \<and> dp_hideTimer st' = None \<and>
      (dp_openTimer st' = Some (due, p) \<and> dp_state st' = dp_state st \<and> dp_shown st' \<in> {dp_state st, dp_shown st} \<or>
       dp_openTimer st' = None \<and> dp_state st' = p \<and> due \<le> dp_now st'))"
proof (induction evs arbitrary: st)
  case (Cons ev evs)
  then consider "ev = Render" | "ev = FireHide" | d where "ev = Pass d" | "ev = FireOpen" "due \<le> dp_now st"
    | "ev = FireOpen" "\<not> due \<le> dp_now st" by auto
  then show ?case
  proof cases
    case 4
    with Cons.prems idle_settled [of evs "st\<lparr>dp_openTimer := None, dp_state := p\<rparr>" pg]
    show ?thesis by (simp add: Let_def)
  qed (use Cons.prems Cons.IH [of "preview_step pg ev st"] in \<open>auto simp: Let_def add.assoc\<close>)
qed simp

lemma idle_hide:
  "idle evs \<Longrightarrow> dp_hideTimer st = Some (due, i) \<Longrightarrow> dp_openTimer st = None \<Longrightarrow> dp_shown st = dp_state st \<Longrightarrow>
   (let st' = preview_run pg evs st in
      dp_now st' = dp_now st + elapsed evs \<and> dp_registry st' = dp_registry st \<and> dp_openTimer st' = None \<and>
      (dp_hideTimer st' = Some (due, i) \<and> dp_state st' = dp_state st \<and> dp_shown st' = dp_state st \<or>
       dp_hideTimer st' = None \<and> due \<le> dp_now st' \<and>
       dp_state st' = (if showing (dp_state st) i then no_preview else dp_state st)))"
proof (induction evs arbitrary: st)
  case (Cons ev evs)
  then consider "ev = Render" | "ev = FireOpen" | d where "ev = Pass d" | "ev = FireHide" "due \<le> dp_now st"
    | "ev = FireHide" "\<not> due \<le> dp_now st" by auto
  then show ?case
  proof cases
    case 4
    with Cons.prems idle_settled [of evs "preview_step pg FireHide st" pg]
    show ?thesis by (cases "showing (dp_state st) i") (simp_all add: Let_def)
  qed (use Cons.prems Cons.IH [of "preview_step pg ev st"] in \<open>(cases "showing (dp_state st) i"; simp add: Let_def add.assoc)+\<close>)
qed simp

subsection \<open>A page to instantiate the theorems on\<close>

definition sample_entity :: "string \<Rightarrow> doc_entity" where
  "sample_entity i = \<lparr>de_id = js i, de_type = EClass, de_title = js i, de_description = [], de_signature = None,
     de_language = None, de_parameters = None, de_returns = None, de_example = None, de_related = None,
     de_status = None, de_version = None, de_deprecated = None, de_notes = None, de_docsHref = None,
     de_source = None\<rparr>"

definition sample_registry :: registry_state where
  "sample_registry = registerDocEntities
     (ManyEntities [Some (sample_entity ''a''), Some (sample_entity ''b'')]) empty_registry"

definition sample_page :: "bool \<Rightarrow> page" where
  "sample_page touch = \<lparr>pg_term = (\<lambda>el. if el = 1 then Some (js ''a'') else if el = 2 then Some (js ''b'') else None),
     pg_button = (\<lambda>el. if el < 3 then Some el else None), pg_inPanel = (\<lambda>el. el = 9), pg_isTouch = touch\<rparr>"

definition sample_open :: provider where
  "sample_open = (let p = \<lparr>pv_entity = Some (sample_entity ''a''), pv_anchor = Some 1, pv_reason = Some RHover\<rparr>
     in (provider_init sample_registry)\<lparr>dp_state := p, dp_shown := p\<rparr>)"

lemma sample_ok: "registry_ok sample_registry"
  unfolding sample_registry_def by (rule registry_ok_register [OF registry_ok_empty])

lemma sample_get:
  "getDocEntity sample_registry (js ''a'') = Some (sample_entity ''a'')"
  "getDocEntity sample_registry (js ''b'') = Some (sample_entity ''b'')"
  by (simp_all add: sample_registry_def sample_entity_def getDocEntity_def registerDocEntities_def
      register_one_def empty_registry_def arg_list_def Let_def)

lemma sample_live:
  "dp_registry st = sample_registry \<Longrightarrow> live_term (sample_page t) st 1 = Some (js ''a'')"
  "dp_registry st = sample_registry \<Longrightarrow> live_term (sample_page t) st 2 = Some (js ''b'')"
  using sample_get by (simp_all add: live_term_def sample_page_def hasDocEntity_iff)

lemma sample_open_fields:
  "dp_state sample_open = dp_shown sample_open"
  "showing (dp_shown sample_open) (js ''a'')"
  "dp_registry sample_open = sample_registry"
  by (simp_all add: sample_open_def provider_init_def showing_def sample_entity_def Let_def)

subsection \<open>Hover timing\<close>

text \<open>C9: Hover intent. With no panel and no timer, after the mouse enters a term and any
  stretch of idle events, a chance for the timer to fire and a render, the term's entity is
  shown, anchored at the term, exactly when 150 ms have passed; and if the mouse leaves before
  that, no panel ever opens, however long one waits.\<close>

theorem hover_intent:
  assumes "dp_state st = no_preview" "dp_shown st = no_preview" "dp_openTimer st = None" "dp_hideTimer st = None"
    and "live_term pg st el = Some i" "idle evs" "idle evs'"
  shows "dp_shown (preview_run pg (PointerEnter el False # evs @ [FireOpen, Render]) st) =
      (if 150 \<le> elapsed evs
       then \<lparr>pv_entity = getDocEntity (dp_registry st) i, pv_anchor = Some el, pv_reason = Some RHover\<rparr>
       else no_preview) \<and>
    (elapsed evs < 150 \<longrightarrow>
       dp_state (preview_run pg (PointerEnter el False # evs @ PointerLeave el False # evs') st) = no_preview)"
proof -
  from assms(5) obtain e where e: "getDocEntity (dp_registry st) i = Some e" "pg_term pg el = Some i"
    by (auto simp: live_term_def hasDocEntity_iff split: option.splits if_splits)
  define p where "p = \<lparr>pv_entity = Some e, pv_anchor = Some el, pv_reason = Some RHover\<rparr>"
  define s where "s = preview_step pg (PointerEnter el False) st"
  have s: "s = st\<lparr>dp_hideTimer := None, dp_lastAnchor := Some el, dp_openTimer := Some (dp_now st + 150, p)\<rparr>"
    using assms e by (simp add: s_def p_def preview_step_def onPointerEnter_def show_preview_def Let_def
        preview_delays no_preview_def)
  define u where "u = preview_run pg evs s"
  have u: "dp_now u = dp_now st + elapsed evs" "dp_registry u = dp_registry st" "dp_hideTimer u = None"
    and uo: "dp_openTimer u = Some (dp_now st + 150, p) \<and> dp_state u = no_preview \<and> dp_shown u = no_preview \<or>
      dp_openTimer u = None \<and> dp_state u = p \<and> 150 \<le> elapsed evs"
    using idle_open [OF assms(6), of s "dp_now st + 150" p pg] s assms by (auto simp: u_def Let_def)
  have "dp_shown (preview_run pg [FireOpen, Render] u) = (if 150 \<le> elapsed evs then p else no_preview)"
    using u uo by auto
  moreover have "dp_state (preview_run pg (PointerLeave el False # evs') u) = no_preview" if "elapsed evs < 150"
  proof -
    from that uo have uu: "dp_state u = no_preview" "dp_shown u = no_preview" by auto
    have "live_term pg u el = Some i" using live_term_cong [OF u(2)] assms(5) by simp
    then have "preview_step pg (PointerLeave el False) u =
        u\<lparr>dp_openTimer := None, dp_hideTimer := Some (dp_now u + 220, i)\<rparr>"
      by (simp add: preview_step_def onPointerLeave_def scheduleHide_def Let_def preview_delays)
    then show ?thesis
      using uu idle_hide [OF assms(7), of "preview_step pg (PointerLeave el False) u" "dp_now u + 220" i pg]
      by (auto simp: Let_def showing_def no_preview_def)
  qed
  ultimately show ?thesis by (simp add: s_def [symmetric] u_def [symmetric] e p_def)
qed

theorem hover_intent_witness:
  "dp_shown (preview_run (sample_page False) (PointerEnter 1 False # [Pass 149, Render, Pass 1] @ [FireOpen, Render])
     (provider_init sample_registry)) =
     \<lparr>pv_entity = Some (sample_entity ''a''), pv_anchor = Some 1, pv_reason = Some RHover\<rparr> \<and>
   dp_state (preview_run (sample_page False) (PointerEnter 1 False # [Pass 149, FireOpen] @ PointerLeave 1 False # [Pass 500, FireHide])
     (provider_init sample_registry)) = no_preview"
  using hover_intent [of "provider_init sample_registry" "sample_page False" 1 "js ''a''"
      "[Pass 149, Render, Pass 1]" "[]"]
    hover_intent [of "provider_init sample_registry" "sample_page False" 1 "js ''a''"
      "[Pass 149, FireOpen]" "[Pass 500, FireHide]"]
    sample_live(1) [of "provider_init sample_registry" False] sample_get
  by (simp add: provider_init_def del: preview_run_simps preview_step_idle js_Cons)

text \<open>What a pointer event on a live term does to a settled provider.\<close>

lemma leave_step:
  "live_term pg st el = Some i \<Longrightarrow>
   preview_step pg (PointerLeave el False) st =
     st\<lparr>dp_openTimer := None, dp_hideTimer := Some (dp_now st + 220, i)\<rparr>"
  by (simp add: preview_step_def onPointerLeave_def scheduleHide_def Let_def preview_delays)

lemma enter_step:
  "live_term pg st el = Some i \<Longrightarrow> getDocEntity (dp_registry st) i = Some e \<Longrightarrow>
   preview_step pg (PointerEnter el False) st =
     st\<lparr>dp_hideTimer := None, dp_lastAnchor := Some el,
        dp_openTimer := Some (dp_now st + (if pv_entity (dp_shown st) \<noteq> None then 45 else 150),
          \<lparr>pv_entity = Some e, pv_anchor = Some el, pv_reason = Some RHover\<rparr>)\<rparr>"
  by (simp add: preview_step_def onPointerEnter_def show_preview_def Let_def preview_delays)

lemma live_entity: "live_term pg st el = Some i \<Longrightarrow> \<exists>e. getDocEntity (dp_registry st) i = Some e"
  by (auto simp: live_term_def hasDocEntity_iff split: option.splits if_splits)

text \<open>Closing by hover has a grace period. While a term's panel is shown and the mouse leaves
  the term, after any idle stretch, a chance for the timer to fire and a render, the panel is
  closed exactly when 220 ms have passed; and if the pointer reaches the panel before that,
  the panel stays, however long one waits.\<close>

theorem hover_grace:
  assumes "dp_state st = p" "dp_shown st = p" "showing p i" "live_term pg st el = Some i" "idle evs" "idle evs'"
  shows "dp_shown (preview_run pg (PointerLeave el False # evs @ [FireHide, Render]) st) =
      (if 220 \<le> elapsed evs then no_preview else p) \<and>
    (elapsed evs < 220 \<longrightarrow>
       dp_shown (preview_run pg (PointerLeave el False # evs @ PanelEnter # evs') st) = p)"
proof -
  define u where "u = preview_run pg evs (preview_step pg (PointerLeave el False) st)"
  have u: "dp_now u = dp_now st + elapsed evs" "dp_openTimer u = None"
    and uo: "dp_hideTimer u = Some (dp_now st + 220, i) \<and> dp_state u = p \<and> dp_shown u = p \<or>
      dp_hideTimer u = None \<and> dp_state u = no_preview \<and> 220 \<le> elapsed evs"
    using idle_hide [OF assms(5), of "preview_step pg (PointerLeave el False) st" "dp_now st + 220" i pg]
    by (auto simp: u_def Let_def leave_step [OF assms(4)] assms)
  have "dp_shown (preview_run pg [FireHide, Render] u) = (if 220 \<le> elapsed evs then no_preview else p)"
    using u uo assms(3) by auto
  moreover have "dp_shown (preview_run pg (PanelEnter # evs') u) = p" if "elapsed evs < 220"
  proof -
    have "dp_state u = p" "dp_shown u = p" using that uo by auto
    moreover have "preview_step pg PanelEnter u = u\<lparr>dp_hideTimer := None\<rparr>"
      using assms(3) \<open>dp_shown u = p\<close> by (auto simp: preview_step_def cancelHide_def showing_def)
    ultimately show ?thesis
      using idle_quiet [OF assms(6), of "u\<lparr>dp_hideTimer := None\<rparr>" pg] u by simp
  qed
  ultimately show ?thesis by (simp add: u_def [symmetric])
qed

theorem hover_grace_witness:
  "dp_shown (preview_run (sample_page False) (PointerLeave 1 False # [Pass 220] @ [FireHide, Render]) sample_open) = no_preview \<and>
   dp_shown (preview_run (sample_page False) (PointerLeave 1 False # [Pass 219, FireHide] @ PanelEnter # [Pass 9, FireHide, Render]) sample_open)
     = dp_shown sample_open"
  using hover_grace [of sample_open "dp_shown sample_open" "js ''a''" "sample_page False" 1 "[Pass 220]" "[]"]
    hover_grace [of sample_open "dp_shown sample_open" "js ''a''" "sample_page False" 1
      "[Pass 219, FireHide]" "[Pass 9, FireHide, Render]"]
    sample_live(1) [of sample_open False] sample_open_fields(2)
  by (simp add: sample_open_fields del: preview_run_simps preview_step_idle)

text \<open>Brushing past a second term leaves the first term's panel open for good. The panel of a
  term is shown, the mouse leaves the term, enters another term before the close timer fires
  and leaves it again within 45 ms: however long one waits then, the first panel is still
  shown, although the pointer is over neither term, and no timer is left that could close it.\<close>

theorem brush_past_keeps_panel:
  assumes "dp_state st = p" "dp_shown st = p" "showing p i" "i \<noteq> j"
    and "live_term pg st a = Some i" "live_term pg st b = Some j"
    and "idle evs" "elapsed evs < 220" "idle evs'" "elapsed evs' < 45" "idle evs''" "220 \<le> elapsed evs''"
  shows "let st' = preview_run pg (PointerLeave a False # evs @ PointerEnter b False # evs' @
             PointerLeave b False # evs'' @ [FireHide, Render]) st
    in dp_shown st' = p \<and> dp_openTimer st' = None \<and> dp_hideTimer st' = None"
proof -
  define u where "u = preview_run pg evs (preview_step pg (PointerLeave a False) st)"
  have u: "dp_now u = dp_now st + elapsed evs" "dp_openTimer u = None" "dp_registry u = dp_registry st"
      "dp_state u = p" "dp_shown u = p"
    using idle_hide [OF assms(7), of "preview_step pg (PointerLeave a False) st" "dp_now st + 220" i pg]
      assms(8) by (auto simp: u_def Let_def leave_step [OF assms(5)] assms(1-3))
  have lu: "live_term pg u b = Some j" using live_term_cong [OF u(3)] assms(6) by simp
  obtain e where e: "getDocEntity (dp_registry u) j = Some e" using live_entity [OF lu] by blast
  define v where "v = preview_run pg evs' (preview_step pg (PointerEnter b False) u)"
  have pe: "\<exists>y. pv_entity p = Some y" using assms(3) by (auto simp: showing_def)
  have v: "dp_registry v = dp_registry st" "dp_state v = p" "dp_shown v = p"
    using idle_open [OF assms(9), of "preview_step pg (PointerEnter b False) u" "dp_now u + 45" _ pg]
      assms(10) pe by (auto simp: v_def Let_def enter_step [OF lu e] u)
  have lv: "live_term pg v b = Some j" using live_term_cong [OF v(1)] assms(6) by simp
  define w where "w = preview_run pg evs'' (preview_step pg (PointerLeave b False) v)"
  have nj: "\<not> showing p j" using assms(3,4) by (auto simp: showing_def)
  have w: "dp_openTimer w = None" "dp_state w = p" "dp_now w = dp_now v + elapsed evs''"
      "dp_hideTimer w = None \<or> dp_hideTimer w = Some (dp_now v + 220, j) \<and> dp_shown w = p"
    using idle_hide [OF assms(11), of "preview_step pg (PointerLeave b False) v" "dp_now v + 220" j pg]
    by (auto simp: w_def Let_def leave_step [OF lv] v nj)
  show ?thesis
    using w nj assms(12) by (auto simp: u_def [symmetric] v_def [symmetric] w_def [symmetric] Let_def)
qed

theorem brush_past_keeps_panel_witness:
  "let st' = preview_run (sample_page False) (PointerLeave 1 False # [Pass 60] @ PointerEnter 2 False # [Pass 40] @
       PointerLeave 2 False # [Pass 220] @ [FireHide, Render]) sample_open
   in dp_shown st' = dp_shown sample_open \<and> dp_openTimer st' = None \<and> dp_hideTimer st' = None"
  using brush_past_keeps_panel [of sample_open "dp_shown sample_open" "js ''a''" "js ''b''" "sample_page False" 1 2
      "[Pass 60]" "[Pass 40]" "[Pass 220]"]
    sample_live [of sample_open False] sample_open_fields(2)
  by (simp add: sample_open_fields del: preview_run_simps preview_step_idle)

subsection \<open>Escape, navigation, touch\<close>

lemma focus_state:
  "live_term pg st el = Some i \<Longrightarrow> pv_entity (dp_state (onFocus pg el st)) \<noteq> None"
  using live_entity [of pg st el i] by (auto simp: onFocus_def show_preview_def Let_def)

lemma hide_registry: "dp_registry (scheduleHide i r st) = dp_registry st"
  by (simp add: scheduleHide_def Let_def)

lemma blur_registry: "dp_registry (onBlur pg el r st) = dp_registry st"
  by (simp add: onBlur_def hide_registry split: option.splits)

lemma blur_closed: "dp_state st = no_preview \<Longrightarrow> dp_state (onBlur pg el r st) = no_preview"
  by (simp add: onBlur_def scheduleHide_def Let_def split: option.splits)

text \<open>Navigating always leaves no panel and no timer, whatever was open. Escape on an open panel
  closes it exactly when it has no focus to give back or nothing to reopen it: when the panel
  was opened by focus and the focus is meanwhile elsewhere (in the panel, say), giving the focus
  back to the trigger opens the same panel again.\<close>

theorem escape_and_navigation:
  "dp_state (preview_step pg Navigate st) = no_preview \<and>
   dp_openTimer (preview_step pg Navigate st) = None \<and> dp_hideTimer (preview_step pg Navigate st) = None \<and>
   (pv_entity (dp_shown st) \<noteq> None \<longrightarrow>
     (dp_state (preview_step pg Escape st) = no_preview \<longleftrightarrow>
      pv_reason (dp_shown st) \<noteq> Some RFocus \<or>
      (case dp_lastAnchor st of None \<Rightarrow> True
       | Some el \<Rightarrow> dp_active st = Some el \<or> live_term pg st el = None)))"
proof -
  let ?c = "(clearTimers st)\<lparr>dp_state := no_preview\<rparr>"
  have m: "dp_state (move_focus pg (Some el) ?c) = no_preview \<longleftrightarrow>
      dp_active st = Some el \<or> live_term pg st el = None" for el
  proof (cases "dp_active st = Some el")
    case True
    then show ?thesis by (simp add: move_focus_def clearTimers_def)
  next
    case False
    define s where "s = (case dp_active ?c of None \<Rightarrow> ?c | Some old \<Rightarrow> onBlur pg old (Some el) ?c)\<lparr>dp_active := Some el\<rparr>"
    have s: "dp_registry s = dp_registry st" "dp_state s = no_preview"
      by (simp_all add: s_def blur_registry blur_closed clearTimers_def split: option.split)
    have "move_focus pg (Some el) ?c = onFocus pg el s"
      using False by (simp add: move_focus_def s_def clearTimers_def Let_def split: option.split)
    moreover have "live_term pg s el = live_term pg st el" by (rule live_term_cong [OF s(1)])
    moreover have "dp_state (onFocus pg el s) = no_preview \<longleftrightarrow> live_term pg s el = None"
      using focus_state [of pg s el] s by (cases "live_term pg s el") (auto simp: onFocus_def no_preview_def)
    ultimately show ?thesis using False by simp
  qed
  then show ?thesis
    by (simp add: preview_step_def hideImmediately_def onEscape_def Let_def clearTimers_def split: option.split)
qed

theorem escape_and_navigation_witness:
  "let p = \<lparr>pv_entity = Some (sample_entity ''a''), pv_anchor = Some 1, pv_reason = Some RFocus\<rparr>;
       st = sample_open\<lparr>dp_state := p, dp_shown := p, dp_lastAnchor := Some 1, dp_active := Some 9\<rparr>
   in dp_state (preview_step (sample_page False) Escape st) \<noteq> no_preview \<and>
      dp_state (preview_step (sample_page False) Escape (st\<lparr>dp_active := Some 1\<rparr>)) = no_preview"
proof -
  let ?p = "\<lparr>pv_entity = Some (sample_entity ''a''), pv_anchor = Some 1, pv_reason = Some RFocus\<rparr>"
  let ?st = "sample_open\<lparr>dp_state := ?p, dp_shown := ?p, dp_lastAnchor := Some 1, dp_active := Some 9\<rparr>"
  have "live_term (sample_page False) ?st 1 = Some (js ''a'')" by (rule sample_live) (simp add: sample_open_fields)
  then show ?thesis
    using escape_and_navigation [of "sample_page False" ?st]
      escape_and_navigation [of "sample_page False" "?st\<lparr>dp_active := Some 1\<rparr>"]
    by (simp add: Let_def)
qed

text \<open>On a touch device whose tap focuses the button, a tap on a term closes the panel that its
  own focus opened: after the press, the focus, a render and the click, the panel is shown, but
  once 220 ms have passed it is gone, without a second tap.\<close>

theorem touch_tap_closes:
  assumes "dp_state st = no_preview" "dp_shown st = no_preview" "dp_active st = None"
    and "live_term pg st el = Some i" "pg_isTouch pg" "registry_ok (dp_registry st)"
    and "idle evs" "220 \<le> elapsed evs"
  shows "let tap = [PointerDown el, FocusTo (Some el), Render, Click el]
    in showing (dp_shown (preview_run pg tap st)) i \<and>
       dp_shown (preview_run pg (tap @ evs @ [FireHide, Render]) st) = no_preview"
proof -
  obtain e where e: "getDocEntity (dp_registry st) i = Some e" using live_entity [OF assms(4)] by blast
  have ei: "de_id e = i" by (rule getDocEntity_id [OF assms(6) e])
  define p where "p = \<lparr>pv_entity = Some e, pv_anchor = Some el, pv_reason = Some RFocus\<rparr>"
  define r where "r = preview_step pg (PointerDown el) st"
  have r: "dp_registry r = dp_registry st" "dp_active r = None" "dp_shown r = no_preview"
    using assms(1-3) by (auto simp: r_def preview_step_def onPointerDown_def cancelHide_def no_preview_def Let_def
        split: option.splits)
  have lr: "live_term pg r el = Some i" using live_term_cong [OF r(1)] assms(4) by simp
  define s where "s = preview_step pg Render (preview_step pg (FocusTo (Some el)) r)"
  have s: "dp_registry s = dp_registry st" "dp_state s = p" "dp_shown s = p" "dp_openTimer s = None"
    using r e live_term_cong [of "r\<lparr>dp_active := Some el\<rparr>" r pg el] lr
    by (simp_all add: s_def p_def preview_step_def move_focus_def onFocus_def show_preview_def Let_def)
  have ls: "live_term pg s el = Some i" using live_term_cong [OF s(1)] assms(4) by simp
  have act: "isActive s i el" using s e ei by (simp add: isActive_def hasDocEntity_iff showing_def p_def)
  have c: "preview_step pg (Click el) s = s\<lparr>dp_openTimer := None, dp_hideTimer := Some (dp_now s + 220, i)\<rparr>"
    using ls act assms(5) by (simp add: preview_step_def onClick_def scheduleHide_def preview_delays Let_def)
  have sh: "showing p i" by (simp add: showing_def p_def ei)
  define u where "u = preview_run pg evs (preview_step pg (Click el) s)"
  have u: "dp_now u = dp_now s + elapsed evs"
      "dp_hideTimer u = Some (dp_now s + 220, i) \<and> dp_shown u = p \<or> dp_hideTimer u = None \<and> dp_state u = no_preview"
    using idle_hide [OF assms(7), of "preview_step pg (Click el) s" "dp_now s + 220" i pg]
    by (auto simp: u_def Let_def c s sh)
  let ?tap = "[PointerDown el, FocusTo (Some el), Render, Click el]"
  have tap: "preview_run pg ?tap st = preview_step pg (Click el) s"
    by (simp add: r_def s_def)
  have "preview_run pg (?tap @ evs @ [FireHide, Render]) st = preview_run pg [FireHide, Render] u"
    unfolding preview_run_simps(3) tap u_def ..
  moreover have "dp_shown (preview_run pg [FireHide, Render] u) = no_preview"
    using u assms(8) sh by auto
  ultimately have gone: "dp_shown (preview_run pg (?tap @ evs @ [FireHide, Render]) st) = no_preview" by simp
  have "showing (dp_shown (preview_run pg ?tap st)) i" unfolding tap by (simp add: c s sh)
  then show ?thesis unfolding Let_def using gone by (rule conjI)
qed

theorem touch_tap_closes_witness:
  "let tap = [PointerDown 1, FocusTo (Some 1), Render, Click 1]; st = provider_init sample_registry
   in showing (dp_shown (preview_run (sample_page True) tap st)) (js ''a'') \<and>
      dp_shown (preview_run (sample_page True) (tap @ [Pass 220] @ [FireHide, Render]) st) = no_preview"
  using touch_tap_closes [of "provider_init sample_registry" "sample_page True" 1 "js ''a''" "[Pass 220]"]
    sample_live(1) [of "provider_init sample_registry" True] sample_ok
  by (simp add: provider_init_def sample_page_def Let_def del: preview_run_simps preview_step_idle js_Cons)

end
