(* ===== verification/VersionHook.thy ===== *)
theory VersionHook
  imports JsNum JsRegex JsMap DocRegistry Machine
begin

text \<open>
  The version shown on the site: \<open>constants/version.ts\<close> and \<open>hooks/useVersion.ts\<close>.

  \<open>js_number\<close> is \<open>Number(s)\<close> on a string; its values are rationals and the infinities,
  which is what binary64 has for integers below \<open>2^53\<close>. The module state (the cached version,
  the fetch flag, the listeners) and the state of the mounted hooks form one state; rendering,
  running the effect, the answer of the request and unmounting are its steps. A hook is a number.
  The answer of the request is a parameter of the step: any value of \<open>tags_response\<close>.
\<close>

subsection \<open>Numbers of a version text\<close>

definition is_hex :: "jchar \<Rightarrow> bool" where
  "is_hex c \<longleftrightarrow> is_digit c \<or> 97 \<le> c \<and> c \<le> 102 \<or> 65 \<le> c \<and> c \<le> 70"

definition digit_value :: "jchar \<Rightarrow> nat" where
  "digit_value c = nat (if is_digit c then c - 48 else if 97 \<le> c then c - 87 else c - 55)"

definition digits_value :: "nat \<Rightarrow> jstr \<Rightarrow> nat" where
  "digits_value base ds = foldl (\<lambda>n c. n * base + digit_value c) 0 ds"

text \<open>The value of \<open>digits . digits e exponent\<close>.\<close>

definition scaled :: "jstr \<Rightarrow> int \<Rightarrow> rat" where
  "scaled ds e = (if 0 \<le> e then of_nat (digits_value 10 ds) * 10 ^ nat e
     else of_nat (digits_value 10 ds) / 10 ^ nat (- e))"

definition exponent :: "jstr \<Rightarrow> int option" where
  "exponent s = (let ds = (if starts_with s [43] \<or> starts_with s [45] then tl s else s) in
     if ds = [] \<or> \<not> list_all is_digit ds then None
     else Some (if starts_with s [45] then - int (digits_value 10 ds) else int (digits_value 10 ds)))"

definition unsigned_decimal :: "jstr \<Rightarrow> jsnum" where
  "unsigned_decimal s =
     (if s = js ''Infinity'' then PosInf
      else
        (let ip = takeWhile is_digit s; r = dropWhile is_digit s;
             fp = (if starts_with r [46] then takeWhile is_digit (tl r) else []);
             r = (if starts_with r [46] then dropWhile is_digit (tl r) else r)
         in if ip @ fp = [] then NaN
            else if r = [] then Fin (scaled (ip @ fp) (- int (length fp)))
            else if starts_with r [101] \<or> starts_with r [69]
            then (case exponent (tl r) of None \<Rightarrow> NaN
                  | Some e \<Rightarrow> Fin (scaled (ip @ fp) (e - int (length fp))))
            else NaN))"

definition radix_literal :: "nat \<Rightarrow> (jchar \<Rightarrow> bool) \<Rightarrow> jstr \<Rightarrow> jsnum" where
  "radix_literal base ok ds = (if ds = [] \<or> \<not> list_all ok ds then NaN else Fin (of_nat (digits_value base ds)))"

definition js_number :: "jstr \<Rightarrow> jsnum" where
  "js_number s =
     (let t = js_trim s; p = to_lower (take 2 t) in
      if t = [] then Fin 0
      else if p = js ''0x'' then radix_literal 16 is_hex (drop 2 t)
      else if p = js ''0o'' then radix_literal 8 (\<lambda>c. 48 \<le> c \<and> c \<le> 55) (drop 2 t)
      else if p = js ''0b'' then radix_literal 2 (\<lambda>c. c = 48 \<or> c = 49) (drop 2 t)
      else if starts_with t [43] then unsigned_decimal (tl t)
      else if starts_with t [45] then num_neg (unsigned_decimal (tl t))
      else unsigned_decimal t)"

subsection \<open>Comparing versions\<close>

definition AQUILIA_VERSION :: jstr where
  "AQUILIA_VERSION = js ''1.4.2''"

text \<open>\<open>(p[i] !== undefined && !isNaN(p[i])) ? p[i] : 0\<close>\<close>

definition version_part :: "jsnum list \<Rightarrow> nat \<Rightarrow> jsnum" where
  "version_part p i = (if i < length p \<and> p ! i \<noteq> NaN then p ! i else Fin 0)"

fun compare_parts :: "jsnum list \<Rightarrow> jsnum list \<Rightarrow> nat list \<Rightarrow> bool" where
  "compare_parts p1 p2 [] = True"
| "compare_parts p1 p2 (i # is) =
     (let num1 = version_part p1 i; num2 = version_part p2 i in
      if num_lt num2 num1 then True
      else if num_lt num1 num2 then False
      else compare_parts p1 p2 is)"

definition isGreaterOrEqual :: "jstr \<Rightarrow> jstr \<Rightarrow> bool" where
  "isGreaterOrEqual v1 v2 =
     compare_parts (map js_number (split_char 46 v1)) (map js_number (split_char 46 v2)) [0, 1, 2]"

subsection \<open>Choosing the stable tag\<close>

text \<open>A tag is its name, \<open>None\<close> when \<open>tag.name\<close> is no string (\<open>tag.name.replace\<close> throws).\<close>

datatype tags_response =
    FetchFailed
  | NotOk
  | NotAnArray
  | Tags "jstr option list"

datatype hook_error = TypeError

definition strip_v :: "jstr \<Rightarrow> jstr" where
  "strip_v name = (if starts_with name [118] then tl name else name)"

definition prerelease_rx :: rx where
  "prerelease_rx = ralt [RChr (\<lambda>c. lower_unit c = 97 \<or> lower_unit c = 98), rlit_i (js ''rc''),
     rlit_i (js ''dev''), rlit_i (js ''pre'')]"

fun find_stable :: "jstr option list \<Rightarrow> hook_error + jstr option" where
  "find_stable [] = Inr None"
| "find_stable (None # ts) = Inl TypeError"
| "find_stable (Some name # ts) =
     (if \<not> rx_test prerelease_rx (strip_v name) then Inr (Some name) else find_stable ts)"

text \<open>The version to adopt, if any; every failure ends in the empty \<open>catch\<close>.\<close>

definition adopted_version :: "tags_response \<Rightarrow> jstr option" where
  "adopted_version resp =
     (case resp of
        Tags tags \<Rightarrow>
          (if tags = [] then None
           else (case find_stable tags of
              Inl e \<Rightarrow> None
            | Inr None \<Rightarrow> None
            | Inr (Some name) \<Rightarrow>
                (let cleanV = strip_v name in
                 if isGreaterOrEqual cleanV AQUILIA_VERSION then Some cleanV else None)))
      | _ \<Rightarrow> None)"

subsection \<open>The hooks\<close>

record version_state =
  vs_cachedVersion :: jstr
  vs_isFetching :: bool
  vs_listeners :: "nat list"
  vs_hooks :: "(nat, jstr) jmap"
  vs_pending :: nat

definition version_init :: version_state where
  "version_init = \<lparr>vs_cachedVersion = AQUILIA_VERSION, vs_isFetching = False, vs_listeners = [],
     vs_hooks = [], vs_pending = 0\<rparr>"

text \<open>\<open>useState(cachedVersion)\<close> at the first render.\<close>

definition hook_mount :: "nat \<Rightarrow> version_state \<Rightarrow> version_state" where
  "hook_mount h st = st\<lparr>vs_hooks := jm_set h (vs_cachedVersion st) (vs_hooks st)\<rparr>"

definition hook_effect :: "nat \<Rightarrow> version_state \<Rightarrow> version_state" where
  "hook_effect h st =
     (let st = st\<lparr>vs_listeners := set_add h (vs_listeners st)\<rparr> in
      if \<not> vs_isFetching st then st\<lparr>vs_isFetching := True, vs_pending := vs_pending st + 1\<rparr> else st)"

definition set_version :: "jstr \<Rightarrow> nat \<Rightarrow> (nat, jstr) jmap \<Rightarrow> (nat, jstr) jmap" where
  "set_version v h hooks = (if jm_has hooks h then jm_set h v hooks else hooks)"

definition fetch_resolve :: "tags_response \<Rightarrow> version_state \<Rightarrow> version_state" where
  "fetch_resolve resp st =
     (let st = st\<lparr>vs_pending := vs_pending st - 1\<rparr> in
      case adopted_version resp of
        None \<Rightarrow> st
      | Some v \<Rightarrow> st\<lparr>vs_cachedVersion := v, vs_hooks := fold (set_version v) (vs_listeners st) (vs_hooks st)\<rparr>)"

definition hook_unmount :: "nat \<Rightarrow> version_state \<Rightarrow> version_state" where
  "hook_unmount h st = st\<lparr>vs_listeners := set_delete h (vs_listeners st),
     vs_hooks := filter (\<lambda>p. fst p \<noteq> h) (vs_hooks st)\<rparr>"

inductive version_step :: "version_state \<Rightarrow> version_state \<Rightarrow> bool" where
  mount: "\<not> jm_has (vs_hooks st) h \<Longrightarrow> version_step st (hook_mount h st)"
| effect: "jm_has (vs_hooks st) h \<Longrightarrow> h \<notin> set (vs_listeners st) \<Longrightarrow> version_step st (hook_effect h st)"
| resolve: "0 < vs_pending st \<Longrightarrow> version_step st (fetch_resolve resp st)"
| unmount: "jm_has (vs_hooks st) h \<Longrightarrow> version_step st (hook_unmount h st)"

inductive_cases version_stepE: "version_step s t"

end
