(* ===== verification/VersionFacts.thy ===== *)
theory VersionFacts
  imports VersionHook "HOL-Library.Product_Lexorder"
begin

text \<open>
  Facts on the version hook: the comparison is the lexicographic order on the first three
  numbers, and what holds in every state the hooks reach.
\<close>

subsection \<open>The order on versions\<close>

text \<open>Numbers other than \<open>NaN\<close> in the order of \<open><\<close>.\<close>

fun num_rank :: "jsnum \<Rightarrow> int \<times> rat" where
  "num_rank NegInf = (- 1, 0)"
| "num_rank (Fin r) = (0, r)"
| "num_rank PosInf = (1, 0)"
| "num_rank NaN = (2, 0)"

lemma num_lt_rank: "x \<noteq> NaN \<Longrightarrow> y \<noteq> NaN \<Longrightarrow> num_lt x y \<longleftrightarrow> num_rank x < num_rank y"
  by (cases x; cases y) simp_all

lemma version_part_not_NaN: "version_part p i \<noteq> NaN"
  by (simp add: version_part_def)

definition version_key :: "jstr \<Rightarrow> (int \<times> rat) \<times> (int \<times> rat) \<times> (int \<times> rat)" where
  "version_key v = (let p = map js_number (split_char 46 v) in
     (num_rank (version_part p 0), num_rank (version_part p 1), num_rank (version_part p 2)))"

lemma lex3:
  fixes a0 :: "'a::linorder" and a1 :: "'b::linorder" and a2 :: "'c::linorder"
  shows "(if b0 < a0 then True else if a0 < b0 then False else if b1 < a1 then True
      else if a1 < b1 then False else if b2 < a2 then True else if a2 < b2 then False else True) \<longleftrightarrow>
    (b0, b1, b2) \<le> (a0, a1, a2)"
  by (cases a0 b0 rule: linorder_cases; cases a1 b1 rule: linorder_cases; cases a2 b2 rule: linorder_cases)
    (auto simp: less_eq_prod_def)

lemma part_lt:
  "num_lt (version_part p i) (version_part q j) \<longleftrightarrow> num_rank (version_part p i) < num_rank (version_part q j)"
  by (simp add: num_lt_rank version_part_not_NaN)

text \<open>C30: Versions are compared lexicographically by their first three dot-separated numbers, a
  missing part or one that is no number counting as 0: so the comparison is total, reflexive
  and transitive, and orders 1.10.0 above 1.9.9.\<close>

theorem isGreaterOrEqual_lexicographic: "isGreaterOrEqual v w \<longleftrightarrow> version_key w \<le> version_key v"
  unfolding isGreaterOrEqual_def version_key_def compare_parts.simps Let_def part_lt by (rule lex3)

lemma version_order_eval:
  "isGreaterOrEqual (js ''1.10.0'') (js ''1.9.9'')"
  "\<not> isGreaterOrEqual (js ''1.4.1'') (js ''1.4.2'')"
  "isGreaterOrEqual (js ''1.4.2'') (js ''1.4.2'')"
  by code_simp+

subsection \<open>The machine of the hooks\<close>

definition version_inv :: "version_state \<Rightarrow> bool" where
  "version_inv st \<longleftrightarrow>
     isGreaterOrEqual (vs_cachedVersion st) AQUILIA_VERSION \<and>
     distinct (vs_listeners st) \<and> set (vs_listeners st) \<subseteq> set (jm_keys (vs_hooks st)) \<and>
     jm_inv (vs_hooks st) \<and> vs_pending st \<le> 1 \<and>
     (vs_pending st = 1 \<longrightarrow> vs_isFetching st) \<and>
     (vs_pending st = 1 \<or> \<not> vs_isFetching st \<longrightarrow> vs_cachedVersion st = AQUILIA_VERSION) \<and>
     set (jm_values (vs_hooks st)) \<subseteq> {vs_cachedVersion st, AQUILIA_VERSION}"

lemma jm_values_set: "set (jm_values (jm_set k v m)) \<subseteq> insert v (set (jm_values m))"
  using jm_set_entries [of _ _ k v m] by (fastforce simp: jm_values_def)

lemma keys_set_version [simp]: "jm_keys (set_version v h m) = jm_keys m"
  by (simp add: set_version_def jm_keys_set)

lemma keys_fold_set_version [simp]: "jm_keys (fold (set_version v) hs m) = jm_keys m"
  by (induction hs arbitrary: m) simp_all

lemma values_fold_set_version: "set (jm_values (fold (set_version v) hs m)) \<subseteq> insert v (set (jm_values m))"
proof (induction hs arbitrary: m)
  case (Cons h hs)
  have "set (jm_values (set_version v h m)) \<subseteq> insert v (set (jm_values m))"
    using jm_values_set [of h v m] by (auto simp: set_version_def)
  with Cons [of "set_version v h m"] show ?case by auto
qed auto

lemma keys_filter: "jm_keys (filter (\<lambda>p. fst p \<noteq> h) m) = filter (\<lambda>k. k \<noteq> h) (jm_keys m)"
  by (induction m) auto

lemma adopted_not_lower: "adopted_version resp = Some v \<Longrightarrow> isGreaterOrEqual v AQUILIA_VERSION"
  by (auto simp: adopted_version_def Let_def split: tags_response.splits if_splits sum.splits option.splits)

lemma bundled_refl: "isGreaterOrEqual v v"
  unfolding isGreaterOrEqual_def by (simp add: Let_def)

lemma version_inv_mount: "version_inv st \<Longrightarrow> version_inv (hook_mount h st)"
  using jm_values_set [of h "vs_cachedVersion st" "vs_hooks st"]
  unfolding version_inv_def hook_mount_def
  by (simp add: jm.keys_set jm.ok_set) blast

lemma version_inv_effect: "version_inv st \<Longrightarrow> h \<in> set (jm_keys (vs_hooks st)) \<Longrightarrow> version_inv (hook_effect h st)"
  unfolding version_inv_def hook_effect_def Let_def set_add_def by auto

lemma version_inv_resolve:
  assumes "version_inv st" "0 < vs_pending st" shows "version_inv (fetch_resolve resp st)"
proof -
  have st: "vs_cachedVersion st = AQUILIA_VERSION" "vs_pending st = 1" "vs_isFetching st"
    using assms by (auto simp: version_inv_def)
  show ?thesis
  proof (cases "adopted_version resp")
    case None
    with st assms show ?thesis by (simp add: version_inv_def fetch_resolve_def Let_def)
  next
    case (Some v)
    with st assms adopted_not_lower [OF Some] values_fold_set_version [of v "vs_listeners st" "vs_hooks st"]
    show ?thesis by (auto simp: version_inv_def fetch_resolve_def Let_def jm_inv_def)
  qed
qed

lemma version_inv_unmount: "version_inv st \<Longrightarrow> version_inv (hook_unmount h st)"
proof -
  assume inv: "version_inv st"
  have "set (filter (\<lambda>l. l \<noteq> h) (vs_listeners st)) \<subseteq> set (filter (\<lambda>k. k \<noteq> h) (jm_keys (vs_hooks st)))"
    using inv by (auto simp: version_inv_def)
  moreover have "set (jm_values (filter (\<lambda>p. fst p \<noteq> h) (vs_hooks st))) \<subseteq> set (jm_values (vs_hooks st))"
    by (auto simp: jm_values_def)
  ultimately show ?thesis
    using inv unfolding version_inv_def hook_unmount_def set_delete_def jm_inv_def
    by (simp add: keys_filter del: set_filter) blast
qed

lemma version_inv_init: "version_inv version_init"
  by (simp add: version_inv_def version_init_def bundled_refl jm_inv_def jm_values_def)

lemma version_inv_step: "version_inv s \<Longrightarrow> version_step s t \<Longrightarrow> version_inv t"
  by (erule version_stepE)
    (simp_all only: version_inv_mount version_inv_effect version_inv_resolve version_inv_unmount jm_has_iff)

interpretation version: invariant_system version_step version_init version_inv
  by unfold_locales (fact version_inv_init version_inv_step)+

lemma sent_step: "version_step s t \<Longrightarrow> vs_isFetching s \<Longrightarrow> vs_isFetching t \<and> vs_pending t \<le> vs_pending s"
  by (erule version_stepE)
    (auto simp: hook_mount_def hook_effect_def fetch_resolve_def hook_unmount_def Let_def split: option.split)

lemma sent_once: "reachable version_step s t \<Longrightarrow> vs_isFetching s \<Longrightarrow> vs_isFetching t \<and> vs_pending t \<le> vs_pending s"
  by (induction rule: reachable.induct) (use sent_step in \<open>fastforce+\<close>)


definition sample_tags :: tags_response where
  "sample_tags = Tags [Some (js ''v2.0.0b1''), Some (js ''v2.0.0'')]"

lemma sample_adopted: "adopted_version sample_tags = Some (js ''2.0.0'')"
  by code_simp

definition late_state :: version_state where
  "late_state = hook_effect 1 (fetch_resolve sample_tags (hook_mount 1 (hook_effect 0 (hook_mount 0 version_init))))"

lemma late_reachable: "reachable version_step version_init late_state"
proof -
  let ?a = "hook_mount 0 version_init"
  let ?b = "hook_effect 0 ?a"
  let ?c = "hook_mount 1 ?b"
  let ?d = "fetch_resolve sample_tags ?c"
  have s: "version_step version_init ?a" by (rule mount) (simp add: version_init_def)
  have a: "version_step ?a ?b" by (rule effect) (simp_all add: version_init_def hook_mount_def)
  have b: "version_step ?b ?c"
    by (rule mount) (simp add: version_init_def hook_mount_def hook_effect_def Let_def)
  have c: "version_step ?c ?d"
    by (rule resolve) (simp add: version_init_def hook_mount_def hook_effect_def Let_def)
  have d: "version_step ?d late_state"
    unfolding late_state_def
    by (rule effect) (simp_all add: version_init_def hook_mount_def hook_effect_def fetch_resolve_def
        sample_adopted set_version_def set_add_def Let_def)
  have "reachable version_step version_init version_init" by (rule reachable.start)
  from this s have "reachable version_step version_init ?a" by (rule reachable.move)
  from this a have "reachable version_step version_init ?b" by (rule reachable.move)
  from this b have "reachable version_step version_init ?c" by (rule reachable.move)
  from this c have "reachable version_step version_init ?d" by (rule reachable.move)
  from this d show ?thesis by (rule reachable.move)
qed

lemma late_fields:
  "vs_pending late_state = 0" "vs_isFetching late_state" "vs_cachedVersion late_state = js ''2.0.0''"
  "vs_hooks late_state = [(0, js ''2.0.0''), (1, AQUILIA_VERSION)]" "vs_listeners late_state = [0, 1]"
  by (simp_all add: late_state_def version_init_def hook_mount_def hook_effect_def fetch_resolve_def
      sample_adopted set_version_def set_add_def Let_def)


text \<open>Once the request is answered, no step changes what a mounted hook shows.\<close>

lemma settled_step:
  assumes "version_step s t" "vs_pending s = 0" "vs_isFetching s"
  shows "vs_pending t = 0 \<and> vs_isFetching t \<and> vs_cachedVersion t = vs_cachedVersion s \<and>
    (jm_get (vs_hooks s) h = Some v \<longrightarrow> jm_get (vs_hooks t) h \<in> {Some v, None})"
proof -
  have f: "jm_get (filter (\<lambda>p. fst p \<noteq> k) m) h = (if h = k then None else jm_get m h)" for k and m :: "(nat, jstr) jmap"
    by (induction m) (auto split: if_splits)
  from assms show ?thesis
    by (cases rule: version_step.cases)
      (use f in \<open>auto simp: hook_mount_def hook_effect_def hook_unmount_def Let_def jm.get_set jm_get_None [symmetric]\<close>)
qed

text \<open>A hook that renders before the answer of the request arrives and runs its effect after
  it misses the update: a state is reachable in which the cached version is 2.0.0, nothing is
  pending, and a mounted, subscribed hook shows the bundled version; and from such a state no
  step makes the hook show anything else while it stays mounted.\<close>

theorem late_hook_stays_stale:
  "\<exists>s. reachable version_step version_init s \<and> vs_pending s = 0 \<and> 1 \<in> set (vs_listeners s) \<and>
     vs_cachedVersion s = js ''2.0.0'' \<and>
     (\<forall>t. reachable version_step s t \<longrightarrow> (\<forall>u. (version_step t u \<and> jm_get (vs_hooks t) 1 = Some AQUILIA_VERSION) \<longrightarrow>
        jm_get (vs_hooks u) 1 \<in> {Some AQUILIA_VERSION, None})) \<and>
     jm_get (vs_hooks s) 1 = Some AQUILIA_VERSION"
proof (intro exI conjI allI impI)
  have settled: "vs_pending t = 0 \<and> vs_isFetching t" if "reachable version_step late_state t" for t
    using that by (induction rule: reachable.induct) (auto simp: late_fields dest: settled_step)
  fix t u
  assume "reachable version_step late_state t"
    and "version_step t u \<and> jm_get (vs_hooks t) 1 = Some AQUILIA_VERSION"
  then show "jm_get (vs_hooks u) 1 \<in> {Some AQUILIA_VERSION, None}"
    using settled [of t] settled_step [of t u 1 AQUILIA_VERSION] by blast
qed (simp_all add: late_reachable late_fields)

theorem late_hook_stays_stale_witness:
  "\<exists>s. reachable version_step version_init s \<and> vs_cachedVersion s = js ''2.0.0'' \<and>
     jm_get (vs_hooks s) 1 = Some AQUILIA_VERSION"
  using late_hook_stays_stale by blast

end
