(* ===== verification/Announcements.thy ===== *)
theory Announcements
  imports VersionHook
begin

text \<open>
  The announcement bar: \<open>constants/announcements.ts\<close>. \<open>ANNOUNCEMENTS\<close> is an object, so
  a lookup also finds the properties every object inherits; such a value is no announcement.
\<close>

record announcement =
  an_version :: jstr
  an_badgeText :: jstr
  an_title :: jstr
  an_highlightText :: jstr
  an_linkText :: jstr
  an_linkTo :: jstr

definition announcement_1_4_2 :: announcement where
  "announcement_1_4_2 = \<lparr>
     an_version = js ''1.4.2'',
     an_badgeText = js ''V1.4.2 Depths Unknown Release'',
     an_title = js ''Forensic verification release: AniWave audit repairs, HTTP client overhaul, DB transaction integrity, worker resilience, and manifest safety:'',
     an_highlightText = js ''Depths Unknown'',
     an_linkText = js ''Learn More'',
     an_linkTo = js ''/releases/1.4.2''\<rparr>"

definition announcement_1_4_1 :: announcement where
  "announcement_1_4_1 = \<lparr>
     an_version = js ''1.4.1'',
     an_badgeText = js ''V1.4.1 Safe Harbor Release'',
     an_title = js ''Authentication & authorization architecture rebuild, NestJS migration audit fixes, durable DB/Redis stores, and async guards:'',
     an_highlightText = js ''Safe Harbor'',
     an_linkText = js ''Learn More'',
     an_linkTo = js ''/releases/1.4.1''\<rparr>"

definition announcement_1_4_0 :: announcement where
  "announcement_1_4_0 = \<lparr>
     an_version = js ''1.4.0'',
     an_badgeText = js ''V1.4.0 Stable Release'',
     an_title = js ''Native C++ acceleration, VectorDB subsystem, native ASGI devplatform, WebSocket middleware pipeline, and unified CLI health checks:'',
     an_highlightText = js ''Grand Armada'',
     an_linkText = js ''Learn More'',
     an_linkTo = js ''/releases/1.4.0''\<rparr>"

definition announcement_1_4_0b5 :: announcement where
  "announcement_1_4_0b5 = \<lparr>
     an_version = js ''1.4.0b5'',
     an_badgeText = js ''V1.4.0b5 Release'',
     an_title = js ''Reliable Windows native wheels, Python 3.14 support, compiler-free installs, and handler/Contract correctness fixes:'',
     an_highlightText = js ''Stable Bearings'',
     an_linkText = js ''Learn More'',
     an_linkTo = js ''/releases/1.4.0b5''\<rparr>"

definition announcement_1_4_0b3 :: announcement where
  "announcement_1_4_0b3 = \<lparr>
     an_version = js ''1.4.0b3'',
     an_badgeText = js ''V1.4.0b3 Release'',
     an_title = js ''Vector database subsystem, aq vectordb CLI, CLI modernization, unified checks engine, enforced subsystem boot contract & wired admin lifecycle:'',
     an_highlightText = js ''Helmsman'' @ [39] @ js ''s Compass'',
     an_linkText = js ''Learn More'',
     an_linkTo = js ''/releases/1.4.0b3''\<rparr>"

definition announcement_1_4_0b2 :: announcement where
  "announcement_1_4_0b2 = \<lparr>
     an_version = js ''1.4.0b2'',
     an_badgeText = js ''V1.4.0b2 Release'',
     an_title = js ''Middleware package restructure, WebSocket middleware pipeline, AquilaConfig.Accelerator & five critical bug fixes:'',
     an_highlightText = js ''Foredeck Watch'',
     an_linkText = js ''Learn More'',
     an_linkTo = js ''/releases/1.4.0b2''\<rparr>"

definition announcement_1_4_0b1 :: announcement where
  "announcement_1_4_0b1 = \<lparr>
     an_version = js ''1.4.0b1'',
     an_badgeText = js ''V1.4.0b1 Release'',
     an_title = js ''Native C++ extensions '' @ [8212] @ js '' yyjson JSON engine, FieldPlan ORM compiler, RequestContext GC fix & binary wheel distribution:'',
     an_highlightText = js ''Foredeck Watch'',
     an_linkText = js ''Learn More'',
     an_linkTo = js ''/releases/1.4.0b1''\<rparr>"

definition announcement_1_4_0b0 :: announcement where
  "announcement_1_4_0b0 = \<lparr>
     an_version = js ''1.4.0b0'',
     an_badgeText = js ''V1.4.0b0 Release'',
     an_title = js ''Aquilia Native Developer Platform (ADP) '' @ [8212] @ js '' native ASGI dev server, h11 transport, WebSocket engine & AST hot reload:'',
     an_highlightText = js ''Foredeck Watch'',
     an_linkText = js ''Learn More'',
     an_linkTo = js ''/releases/1.4.0b0''\<rparr>"

definition announcement_1_3_10 :: announcement where
  "announcement_1_3_10 = \<lparr>
     an_version = js ''1.3.10'',
     an_badgeText = js ''V1.3.10 Release'',
     an_title = js ''Full migration subsystem rewrite '' @ [8212] @ js '' MigrationEngine, ProjectState, typed operations & real-constructor migration files:'',
     an_highlightText = js ''Migration Rewrite'',
     an_linkText = js ''Learn More'',
     an_linkTo = js ''/releases/1.3.10''\<rparr>"

definition announcement_1_3_9 :: announcement where
  "announcement_1_3_9 = \<lparr>
     an_version = js ''1.3.9'',
     an_badgeText = js ''V1.3.9 Release'',
     an_title = js ''Strict auto_migrate=False enforcement, non-fatal DatabaseState readiness model & atomic DDL transactions:'',
     an_highlightText = js ''Database Sentinel'',
     an_linkText = js ''Learn More'',
     an_linkTo = js ''/releases/1.3.9''\<rparr>"

definition announcement_1_3_8 :: announcement where
  "announcement_1_3_8 = \<lparr>
     an_version = js ''1.3.8'',
     an_badgeText = js ''V1.3.8 Release'',
     an_title = js ''DSL Migration Generator Overhaul, FK Topological Model Sorting & Scalar Enum Defaults:'',
     an_highlightText = js ''Migration Architect'',
     an_linkText = js ''Learn More'',
     an_linkTo = js ''/releases/1.3.8''\<rparr>"

definition announcement_1_3_7 :: announcement where
  "announcement_1_3_7 = \<lparr>
     an_version = js ''1.3.7'',
     an_badgeText = js ''V1.3.7 Release'',
     an_title = js ''Thread-safe ModelRegistry, manager subclass isolation & contract annotations:'',
     an_highlightText = js ''Thread Sentinel'',
     an_linkText = js ''Learn More'',
     an_linkTo = js ''/releases/1.3.7''\<rparr>"

definition announcement_1_3_6 :: announcement where
  "announcement_1_3_6 = \<lparr>
     an_version = js ''1.3.6'',
     an_badgeText = js ''V1.3.6 Release'',
     an_title = js ''Unified artifact store (.aquilia/artifacts/), HMAC signatures & CLI:'',
     an_highlightText = js ''Artifact Forge'',
     an_linkText = js ''Learn More'',
     an_linkTo = js ''/releases/1.3.6''\<rparr>"

definition announcement_1_3_5 :: announcement where
  "announcement_1_3_5 = \<lparr>
     an_version = js ''1.3.5'',
     an_badgeText = js ''V1.3.5 Release'',
     an_title = js ''Distributed task queues, mail delivery pipeline & zero-dependency HTTP:'',
     an_highlightText = js ''Distributed Tide'',
     an_linkText = js ''Learn More'',
     an_linkTo = js ''/releases/1.3.5''\<rparr>"

definition announcement_1_3_4 :: announcement where
  "announcement_1_3_4 = \<lparr>
     an_version = js ''1.3.4'',
     an_badgeText = js ''V1.3.4 Release'',
     an_title = js ''Phase 3 subsystem audit, security & durability fixes:'',
     an_highlightText = js ''Structural Integrity'',
     an_linkText = js ''Learn More'',
     an_linkTo = js ''/releases/1.3.4''\<rparr>"

definition announcement_1_3_3 :: announcement where
  "announcement_1_3_3 = \<lparr>
     an_version = js ''1.3.3'',
     an_badgeText = js ''V1.3.3 Release'',
     an_title = js ''Analytical query capabilities delivered in ORM:'',
     an_highlightText = js ''Window Functions & CTEs'',
     an_linkText = js ''Learn More'',
     an_linkTo = js ''/releases/1.3.3''\<rparr>"

definition announcement_1_3_2 :: announcement where
  "announcement_1_3_2 = \<lparr>
     an_version = js ''1.3.2'',
     an_badgeText = js ''V1.3.2 Release'',
     an_title = js ''API Spec compilation & schema inference engine:'',
     an_highlightText = js ''Specula Observatory'',
     an_linkText = js ''Learn More'',
     an_linkTo = js ''/releases/1.3.2''\<rparr>"

definition announcement_1_3_1 :: announcement where
  "announcement_1_3_1 = \<lparr>
     an_version = js ''1.3.1'',
     an_badgeText = js ''V1.3.1 Release'',
     an_title = js ''Pluggable identity resolution & unified auth engine:'',
     an_highlightText = js ''Auth Backends & DAG Engine'',
     an_linkText = js ''Learn More'',
     an_linkTo = js ''/releases/1.3.1''\<rparr>"

definition announcement_1_3_0 :: announcement where
  "announcement_1_3_0 = \<lparr>
     an_version = js ''1.3.0'',
     an_badgeText = js ''V1.3.0 Release'',
     an_title = js ''Aquilia'' @ [39] @ js ''s major validation/molding primitive has been renamed:'',
     an_highlightText = js ''Blueprint '' @ [8594] @ js '' Contract'',
     an_linkText = js ''Learn More'',
     an_linkTo = js ''/releases/1.3.0''\<rparr>"

definition ANNOUNCEMENTS :: "(jstr \<times> announcement) list" where
  "ANNOUNCEMENTS = [
     (js ''1.4.2'', announcement_1_4_2),
     (js ''1.4.1'', announcement_1_4_1),
     (js ''1.4.0'', announcement_1_4_0),
     (js ''1.4.0b5'', announcement_1_4_0b5),
     (js ''1.4.0b3'', announcement_1_4_0b3),
     (js ''1.4.0b2'', announcement_1_4_0b2),
     (js ''1.4.0b1'', announcement_1_4_0b1),
     (js ''1.4.0b0'', announcement_1_4_0b0),
     (js ''1.3.10'', announcement_1_3_10),
     (js ''1.3.9'', announcement_1_3_9),
     (js ''1.3.8'', announcement_1_3_8),
     (js ''1.3.7'', announcement_1_3_7),
     (js ''1.3.6'', announcement_1_3_6),
     (js ''1.3.5'', announcement_1_3_5),
     (js ''1.3.4'', announcement_1_3_4),
     (js ''1.3.3'', announcement_1_3_3),
     (js ''1.3.2'', announcement_1_3_2),
     (js ''1.3.1'', announcement_1_3_1),
     (js ''1.3.0'', announcement_1_3_0)]"

text \<open>The names every object inherits from \<open>Object.prototype\<close>; their values are truthy.\<close>

definition object_prototype :: "jstr list" where
  "object_prototype = [js ''constructor'', js ''__defineGetter__'', js ''__defineSetter__'',
     js ''hasOwnProperty'', js ''__lookupGetter__'', js ''__lookupSetter__'', js ''isPrototypeOf'',
     js ''propertyIsEnumerable'', js ''toString'', js ''valueOf'', js ''__proto__'', js ''toLocaleString'']"

datatype announcement_value = Own announcement | Inherited jstr

definition lookup_announcement :: "jstr \<Rightarrow> announcement_value option" where
  "lookup_announcement k =
     (case map_of ANNOUNCEMENTS k of
        Some a \<Rightarrow> Some (Own a)
      | None \<Rightarrow> if k \<in> set object_prototype then Some (Inherited k) else None)"

text \<open>The result of the last line is \<open>undefined\<close> when the entry is missing.\<close>

definition getLatestAnnouncement :: "jstr option \<Rightarrow> announcement_value option" where
  "getLatestAnnouncement version =
     (case version of
        Some v \<Rightarrow>
          if v \<noteq> [] \<and> lookup_announcement v \<noteq> None then lookup_announcement v
          else lookup_announcement (js ''1.4.2'')
      | None \<Rightarrow> lookup_announcement (js ''1.4.2''))"

definition announcement_ok :: "jstr \<times> announcement \<Rightarrow> bool" where
  "announcement_ok p = (case p of (k, a) \<Rightarrow>
     an_version a = k \<and> an_linkTo a = js ''/releases/'' @ k \<and>
     starts_with (an_badgeText a) (js ''V'' @ k @ js '' '') \<and>
     isGreaterOrEqual AQUILIA_VERSION k)"

lemma announcements_checked:
  "list_all announcement_ok ANNOUNCEMENTS \<and> distinct (map fst ANNOUNCEMENTS) \<and>
   map_of ANNOUNCEMENTS AQUILIA_VERSION = Some announcement_1_4_2 \<and>
   map_of ANNOUNCEMENTS (js ''constructor'') = None \<and> list_all (\<lambda>p. fst p \<noteq> []) ANNOUNCEMENTS"
  by code_simp

lemma getLatestAnnouncement_Some:
  "getLatestAnnouncement (Some v) =
     Some (case map_of ANNOUNCEMENTS v of
         Some a \<Rightarrow> Own a
       | None \<Rightarrow> if v \<in> set object_prototype then Inherited v else Own announcement_1_4_2)"
  and getLatestAnnouncement_None: "getLatestAnnouncement None = Some (Own announcement_1_4_2)"
proof -
  have latest: "lookup_announcement (js ''1.4.2'') = Some (Own announcement_1_4_2)"
    using announcements_checked by (simp add: lookup_announcement_def AQUILIA_VERSION_def)
  have "[] \<notin> set object_prototype" by (simp add: object_prototype_def js_def)
  moreover have "map_of ANNOUNCEMENTS [] = None"
    using announcements_checked by (auto simp: map_of_eq_None_iff list_all_iff)
  ultimately show "getLatestAnnouncement (Some v) =
     Some (case map_of ANNOUNCEMENTS v of
         Some a \<Rightarrow> Own a
       | None \<Rightarrow> if v \<in> set object_prototype then Inherited v else Own announcement_1_4_2)"
    using latest by (auto simp: getLatestAnnouncement_def lookup_announcement_def split: option.split)
  show "getLatestAnnouncement None = Some (Own announcement_1_4_2)"
    using latest by (simp add: getLatestAnnouncement_def)
qed

text \<open>No entry but that of the bundled version is for a version as new as it, and no inherited
  name compares as one.\<close>

lemma newest_announcement:
  "list_all (\<lambda>p. isGreaterOrEqual (fst p) AQUILIA_VERSION \<longrightarrow> p = (AQUILIA_VERSION, announcement_1_4_2)) ANNOUNCEMENTS"
  "list_all (\<lambda>n. \<not> isGreaterOrEqual n AQUILIA_VERSION) object_prototype"
  by code_simp+

text \<open>The banner for a version is the entry of that version when there is one, and the entry
  of 1.4.2 otherwise, so it is never undefined; but a version that is the name of a property
  every object inherits, such as \<open>constructor\<close>, yields that property and no announcement. Every
  entry carries its own version, links to the release of that version and is not newer than the
  bundled version.\<close>

theorem getLatestAnnouncement_spec:
  "getLatestAnnouncement (Some v) =
     Some (case map_of ANNOUNCEMENTS v of
         Some a \<Rightarrow> Own a
       | None \<Rightarrow> if v \<in> set object_prototype then Inherited v else Own announcement_1_4_2) \<and>
   getLatestAnnouncement None = Some (Own announcement_1_4_2) \<and>
   js ''constructor'' \<in> set object_prototype \<and> map_of ANNOUNCEMENTS (js ''constructor'') = None \<and>
   list_all announcement_ok ANNOUNCEMENTS"
  using announcements_checked getLatestAnnouncement_Some [of v] getLatestAnnouncement_None
  by (simp add: object_prototype_def)

end
