(* ===== verification/SidebarData.thy ===== *)
theory SidebarData
  imports JsString
begin

text \<open>
  The table of contents of the documentation: \<open>sections\<close> of \<open>components/Sidebar.tsx\<close>,
  one definition per section, in the order of the source. Icons are left out.
\<close>

datatype sidebar_item =
  SidebarItem (it_label: jstr) (it_path: jstr) (it_children: "sidebar_item list option")

record sidebar_section =
  sec_title :: jstr
  sec_items :: "sidebar_item list"

definition section_getting_started :: sidebar_section where
  "section_getting_started = \<lparr>sec_title = js ''Getting Started'', sec_items = [
    SidebarItem (js ''Introduction'') (js ''/docs'') None,
    SidebarItem (js ''Installation'') (js ''/docs/installation'') None,
    SidebarItem (js ''Native Extensions'') (js ''/docs/native-extensions'') None,
    SidebarItem (js ''Quick Start'') (js ''/docs/quickstart'') None,
    SidebarItem (js ''Developer Guide'') (js ''/docs/developer-guide'') None,
    SidebarItem (js ''Architecture'') (js ''/docs/architecture'') None,
    SidebarItem (js ''Project Structure'') (js ''/docs/project-structure'') None,
    SidebarItem (js ''Admin Panel Setup'') (js ''/docs/admin-panel'') None]\<rparr>"

definition section_tutorials :: sidebar_section where
  "section_tutorials = \<lparr>sec_title = js ''Tutorials'', sec_items = [
    SidebarItem (js ''Tutorials'') (js ''/docs/tutorials'') (Some [
      SidebarItem (js ''Overview'') (js ''/docs/tutorials/overview'') None,
      SidebarItem (js ''Todo Application'') (js ''/docs/tutorials/todo-app'') None,
      SidebarItem (js ''Authentication App'') (js ''/docs/tutorials/auth-app'') None])]\<rparr>"

definition section_core :: sidebar_section where
  "section_core = \<lparr>sec_title = js ''Core'', sec_items = [
    SidebarItem (js ''Server'') (js ''/docs/server'') (Some [
      SidebarItem (js ''AquiliaServer'') (js ''/docs/server/aquilia-server'') None,
      SidebarItem (js ''ASGI Adapter'') (js ''/docs/server/asgi'') None,
      SidebarItem (js ''Lifecycle'') (js ''/docs/server/lifecycle'') None]),
    SidebarItem (js ''Configuration'') (js ''/docs/config'') (Some [
      SidebarItem (js ''Overview'') (js ''/docs/config/loader'') None,
      SidebarItem (js ''AquilaConfig & Env'') (js ''/docs/config/pyconfig'') None,
      SidebarItem (js ''.env Files'') (js ''/docs/config/dotenv'') None,
      SidebarItem (js ''Workspace Builder'') (js ''/docs/config/workspace'') None,
      SidebarItem (js ''Module Builder'') (js ''/docs/config/module'') None,
      SidebarItem (js ''AppManifest'') (js ''/docs/config/manifest'') None,
      SidebarItem (js ''Integrations'') (js ''/docs/config/integrations'') None]),
    SidebarItem (js ''Request & Response'') (js ''/docs/request-response'') (Some [
      SidebarItem (js ''Request'') (js ''/docs/request-response/request'') None,
      SidebarItem (js ''Response'') (js ''/docs/request-response/response'') None,
      SidebarItem (js ''Data Structures'') (js ''/docs/request-response/data-structures'') None,
      SidebarItem (js ''File Uploads'') (js ''/docs/request-response/uploads'') None]),
    SidebarItem (js ''Controllers'') (js ''/docs/controllers'') (Some [
      SidebarItem (js ''Overview'') (js ''/docs/controllers/overview'') None,
      SidebarItem (js ''Resource & ViewSets'') (js ''/docs/controllers/resource'') None,
      SidebarItem (js ''Throttling Backends'') (js ''/docs/controllers/throttle'') None,
      SidebarItem (js ''Controller Attributes'') (js ''/docs/controllers/attributes'') None,
      SidebarItem (js ''RequestCtx'') (js ''/docs/controllers/request-ctx'') None,
      SidebarItem (js ''Controller Factory'') (js ''/docs/controllers/factory'') None,
      SidebarItem (js ''Controller Engine'') (js ''/docs/controllers/engine'') None,
      SidebarItem (js ''Controller Compiler'') (js ''/docs/controllers/compiler'') None,
      SidebarItem (js ''Controller Router'') (js ''/docs/controllers/router'') None,
      SidebarItem (js ''Specula Observatory'') (js ''/docs/controllers/openapi'') None,
      SidebarItem (js ''Body Validation'') (js ''/docs/controllers/validation'') None,
      SidebarItem (js ''Pagination'') (js ''/docs/controllers/pagination'') None,
      SidebarItem (js ''Filtering & Search'') (js ''/docs/controllers/filters'') None,
      SidebarItem (js ''Content Negotiation'') (js ''/docs/controllers/renderers'') None,
      SidebarItem (js ''Route Decorators'') (js ''/docs/controllers/decorators'') (Some [
        SidebarItem (js ''Overview'') (js ''/docs/controllers/decorators'') None,
        SidebarItem (js ''@GET'') (js ''/docs/controllers/decorators/get'') None,
        SidebarItem (js ''@POST'') (js ''/docs/controllers/decorators/post'') None,
        SidebarItem (js ''@PUT'') (js ''/docs/controllers/decorators/put'') None,
        SidebarItem (js ''@PATCH'') (js ''/docs/controllers/decorators/patch'') None,
        SidebarItem (js ''@DELETE'') (js ''/docs/controllers/decorators/delete'') None,
        SidebarItem (js ''@HEAD'') (js ''/docs/controllers/decorators/head'') None,
        SidebarItem (js ''@OPTIONS'') (js ''/docs/controllers/decorators/options'') None,
        SidebarItem (js ''@WS'') (js ''/docs/controllers/decorators/ws'') None,
        SidebarItem (js ''@route'') (js ''/docs/controllers/decorators/route'') None])]),
    SidebarItem (js ''Routing'') (js ''/docs/routing'') (Some [
      SidebarItem (js ''Pattern Matching'') (js ''/docs/routing/patterns'') None,
      SidebarItem (js ''Controller Router'') (js ''/docs/routing/router'') None,
      SidebarItem (js ''URL Generation'') (js ''/docs/routing/urls'') None])]\<rparr>"

definition section_dependency_injection :: sidebar_section where
  "section_dependency_injection = \<lparr>sec_title = js ''Dependency Injection'', sec_items = [
    SidebarItem (js ''DI System'') (js ''/docs/di'') (Some [
      SidebarItem (js ''Overview'') (js ''/docs/di'') None,
      SidebarItem (js ''Container'') (js ''/docs/di/container'') None,
      SidebarItem (js ''Providers'') (js ''/docs/di/providers'') None,
      SidebarItem (js ''Scopes'') (js ''/docs/di/scopes'') None,
      SidebarItem (js ''Decorators'') (js ''/docs/di/decorators'') None,
      SidebarItem (js ''RequestDAG'') (js ''/docs/di/request-dag'') None,
      SidebarItem (js ''HTTP Extractors'') (js ''/docs/di/extractors'') None,
      SidebarItem (js ''Lifecycle'') (js ''/docs/di/lifecycle'') None,
      SidebarItem (js ''Diagnostics'') (js ''/docs/di/diagnostics'') None,
      SidebarItem (js ''Advanced'') (js ''/docs/di/advanced'') None,
      SidebarItem (js ''Patterns & Recipes'') (js ''/docs/di/patterns'') None,
      SidebarItem (js ''Errors & Troubleshooting'') (js ''/docs/di/troubleshooting'') None])]\<rparr>"

definition section_data_layer :: sidebar_section where
  "section_data_layer = \<lparr>sec_title = js ''Data Layer'', sec_items = [
    SidebarItem (js ''Models (ORM)'') (js ''/docs/models'') (Some [
      SidebarItem (js ''Overview'') (js ''/docs/models/overview'') None,
      SidebarItem (js ''Fields'') (js ''/docs/models/fields'') (Some [
        SidebarItem (js ''Overview & Core'') (js ''/docs/models/fields/overview'') None,
        SidebarItem (js ''Numeric Fields'') (js ''/docs/models/fields/numeric'') None,
        SidebarItem (js ''Text & String Fields'') (js ''/docs/models/fields/text'') None,
        SidebarItem (js ''Date & Time Fields'') (js ''/docs/models/fields/datetime'') None,
        SidebarItem (js ''Structured & JSON Fields'') (js ''/docs/models/fields/structured'') None]),
      SidebarItem (js ''QuerySet API'') (js ''/docs/models/queryset'') None,
      SidebarItem (js ''Relationships'') (js ''/docs/models/relationships'') (Some [
        SidebarItem (js ''Defining Relations'') (js ''/docs/models/relationships/defining'') None,
        SidebarItem (js ''Hydration Primitives'') (js ''/docs/models/relationships/hydration'') None,
        SidebarItem (js ''Many-to-Many Operations'') (js ''/docs/models/relationships/m2m'') None]),
      SidebarItem (js ''Transactions'') (js ''/docs/models/transactions'') (Some [
        SidebarItem (js ''Atomic & Contexts'') (js ''/docs/models/transactions/atomic'') None,
        SidebarItem (js ''Savepoints & Nesting'') (js ''/docs/models/transactions/savepoints'') None,
        SidebarItem (js ''Lifecycle Hooks'') (js ''/docs/models/transactions/hooks'') None]),
      SidebarItem (js ''Signals'') (js ''/docs/models/signals'') None,
      SidebarItem (js ''Aggregation'') (js ''/docs/models/aggregation'') None,
      SidebarItem (js ''Advanced Querying'') (js ''/docs/models/window-functions'') (Some [
        SidebarItem (js ''Window Functions'') (js ''/docs/models/window-functions'') None,
        SidebarItem (js ''Common Table Expressions'') (js ''/docs/models/cte'') None,
        SidebarItem (js ''Recursive CTEs'') (js ''/docs/models/recursive-cte'') None,
        SidebarItem (js ''Bulk Operations'') (js ''/docs/models/bulk-operations'') None]),
      SidebarItem (js ''Migrations'') (js ''/docs/models/migrations'') None,
      SidebarItem (js ''Advanced Usage'') (js ''/docs/models/advanced'') None]),
    SidebarItem (js ''Database Engine'') (js ''/docs/database'') (Some [
      SidebarItem (js ''Overview'') (js ''/docs/database'') None,
      SidebarItem (js ''AquiliaDatabase'') (js ''/docs/database/engine'') None,
      SidebarItem (js ''Config Classes'') (js ''/docs/database/configs'') None,
      SidebarItem (js ''SQLite Backend'') (js ''/docs/database/sqlite'') None,
      SidebarItem (js ''PostgreSQL Backend'') (js ''/docs/database/postgresql'') None,
      SidebarItem (js ''MySQL Backend'') (js ''/docs/database/mysql'') None]),
    SidebarItem (js ''SQLite'') (js ''/docs/sqlite'') (Some [
      SidebarItem (js ''Overview'') (js ''/docs/sqlite/overview'') None,
      SidebarItem (js ''API Reference'') (js ''/docs/sqlite/api'') None,
      SidebarItem (js ''Pool Configuration'') (js ''/docs/sqlite/pool'') None,
      SidebarItem (js ''Transactions'') (js ''/docs/sqlite/transactions'') None,
      SidebarItem (js ''Controller Guide'') (js ''/docs/sqlite/controller'') None]),
    SidebarItem (js ''Vector Database'') (js ''/docs/vectordb'') (Some [
      SidebarItem (js ''Overview'') (js ''/docs/vectordb'') None,
      SidebarItem (js ''Vector Models'') (js ''/docs/vectordb/models'') None,
      SidebarItem (js ''Queries & Search'') (js ''/docs/vectordb/queries'') None,
      SidebarItem (js ''SQL Interop'') (js ''/docs/vectordb/interop'') None,
      SidebarItem (js ''CLI (aq vectordb)'') (js ''/docs/vectordb/cli'') None]),
    SidebarItem (js ''Contracts'') (js ''/docs/contracts'') (Some [
      SidebarItem (js ''Overview'') (js ''/docs/contracts/overview'') None,
      SidebarItem (js ''Facets'') (js ''/docs/contracts/facets'') None,
      SidebarItem (js ''Projections'') (js ''/docs/contracts/projections'') None,
      SidebarItem (js ''Lenses'') (js ''/docs/contracts/lenses'') None,
      SidebarItem (js ''Seals (Validation)'') (js ''/docs/contracts/seals'') None,
      SidebarItem (js ''Async Pipeline'') (js ''/docs/contracts/async-pipeline'') None,
      SidebarItem (js ''Validation Control'') (js ''/docs/contracts/validation-control'') None,
      SidebarItem (js ''Annotations'') (js ''/docs/contracts/annotations'') None,
      SidebarItem (js ''Integration'') (js ''/docs/contracts/integration'') None,
      SidebarItem (js ''Schemas'') (js ''/docs/contracts/schemas'') None,
      SidebarItem (js ''Faults'') (js ''/docs/contracts/faults'') None])]\<rparr>"

definition section_security_auth :: sidebar_section where
  "section_security_auth = \<lparr>sec_title = js ''Security & Auth'', sec_items = [
    SidebarItem (js ''Authentication'') (js ''/docs/auth'') (Some [
      SidebarItem (js ''Overview'') (js ''/docs/auth'') None,
      SidebarItem (js ''Identity Model'') (js ''/docs/auth/identity'') None,
      SidebarItem (js ''Credentials'') (js ''/docs/auth/credentials'') None,
      SidebarItem (js ''Auth Manager'') (js ''/docs/auth/manager'') None,
      SidebarItem (js ''OAuth2 / OIDC'') (js ''/docs/auth/oauth'') None,
      SidebarItem (js ''MFA'') (js ''/docs/auth/mfa'') None,
      SidebarItem (js ''Tokens & Keys'') (js ''/docs/auth/tokens'') None,
      SidebarItem (js ''Stores'') (js ''/docs/auth/stores'') None,
      SidebarItem (js ''Guards'') (js ''/docs/auth/guards'') None,
      SidebarItem (js ''Faults'') (js ''/docs/auth/faults'') None,
      SidebarItem (js ''Integration'') (js ''/docs/auth/integration'') None,
      SidebarItem (js ''Advanced'') (js ''/docs/auth/advanced'') None]),
    SidebarItem (js ''Authorization'') (js ''/docs/authz'') (Some [
      SidebarItem (js ''Overview'') (js ''/docs/authz'') None,
      SidebarItem (js ''RBAC'') (js ''/docs/authz/rbac'') None,
      SidebarItem (js ''ABAC'') (js ''/docs/authz/abac'') None,
      SidebarItem (js ''Policies'') (js ''/docs/authz/policies'') None]),
    SidebarItem (js ''Sessions'') (js ''/docs/sessions'') (Some [
      SidebarItem (js ''Overview'') (js ''/docs/sessions/overview'') None,
      SidebarItem (js ''Workspace Integration'') (js ''/docs/sessions/integration'') None,
      SidebarItem (js ''Engine'') (js ''/docs/sessions/engine'') None,
      SidebarItem (js ''Policies'') (js ''/docs/sessions/policies'') None,
      SidebarItem (js ''Stores'') (js ''/docs/sessions/stores'') None,
      SidebarItem (js ''Transport'') (js ''/docs/sessions/transport'') None,
      SidebarItem (js ''Decorators'') (js ''/docs/sessions/decorators'') None,
      SidebarItem (js ''Typed State'') (js ''/docs/sessions/state'') None,
      SidebarItem (js ''Guards & Context'') (js ''/docs/sessions/guards'') None,
      SidebarItem (js ''Faults'') (js ''/docs/sessions/faults'') None]),
    SidebarItem (js ''Signing'') (js ''/docs/signing'') (Some [
      SidebarItem (js ''Overview'') (js ''/docs/signing/overview'') None,
      SidebarItem (js ''Core Signers'') (js ''/docs/signing/signers'') None,
      SidebarItem (js ''Specialized Signers'') (js ''/docs/signing/specialized'') None,
      SidebarItem (js ''Advanced Signing'') (js ''/docs/signing/advanced'') None])]\<rparr>"

definition section_middleware :: sidebar_section where
  "section_middleware = \<lparr>sec_title = js ''Middleware'', sec_items = [
    SidebarItem (js ''Middleware System'') (js ''/docs/middleware'') (Some [
      SidebarItem (js ''Overview'') (js ''/docs/middleware/overview'') None,
      SidebarItem (js ''MiddlewareStack'') (js ''/docs/middleware/stack'') None,
      SidebarItem (js ''Built-in Middleware'') (js ''/docs/middleware/built-in'') None,
      SidebarItem (js ''Static Files'') (js ''/docs/middleware/static'') None,
      SidebarItem (js ''CORS'') (js ''/docs/middleware/cors'') None,
      SidebarItem (js ''Rate Limiting'') (js ''/docs/middleware/rate-limit'') None,
      SidebarItem (js ''Security Headers'') (js ''/docs/middleware/security'') None,
      SidebarItem (js ''Request Scope'') (js ''/docs/middleware/request-scope'') None,
      SidebarItem (js ''Sessions'') (js ''/docs/middleware/session'') None,
      SidebarItem (js ''Access Logging'') (js ''/docs/middleware/logging'') None,
      SidebarItem (js ''CSP'') (js ''/docs/middleware/csp'') None,
      SidebarItem (js ''CSRF'') (js ''/docs/middleware/csrf'') None,
      SidebarItem (js ''HSTS'') (js ''/docs/middleware/hsts'') None,
      SidebarItem (js ''HTTPS Redirect'') (js ''/docs/middleware/https-redirect'') None,
      SidebarItem (js ''Proxy Fix'') (js ''/docs/middleware/proxy-fix'') None,
      SidebarItem (js ''Effects Acquisition'') (js ''/docs/middleware/effect'') None,
      SidebarItem (js ''Socket Middleware'') (js ''/docs/middleware/socket-middleware'') None])]\<rparr>"

definition section_realtime_network :: sidebar_section where
  "section_realtime_network = \<lparr>sec_title = js ''Realtime & Network'', sec_items = [
    SidebarItem (js ''HTTP Client'') (js ''/docs/http'') (Some [
      SidebarItem (js ''Overview'') (js ''/docs/http'') None,
      SidebarItem (js ''HTTPClient'') (js ''/docs/http/client'') None,
      SidebarItem (js ''Sessions'') (js ''/docs/http/sessions'') None,
      SidebarItem (js ''Transport Layer'') (js ''/docs/http/transport'') None,
      SidebarItem (js ''Advanced Usage'') (js ''/docs/http/advanced'') None,
      SidebarItem (js ''Error Handling'') (js ''/docs/http/faults'') None,
      SidebarItem (js ''DI Integration'') (js ''/docs/http/integration'') None,
      SidebarItem (js ''Core API Reference'') (js ''/docs/http/api'') (Some [
        SidebarItem (js ''Request API'') (js ''/docs/http/api/request'') None,
        SidebarItem (js ''Response API'') (js ''/docs/http/api/response'') None,
        SidebarItem (js ''Auth API'') (js ''/docs/http/api/auth'') None,
        SidebarItem (js ''Cookies API'') (js ''/docs/http/api/cookies'') None,
        SidebarItem (js ''Middleware API'') (js ''/docs/http/api/middleware'') None,
        SidebarItem (js ''Multipart API'') (js ''/docs/http/api/multipart'') None,
        SidebarItem (js ''Streaming API'') (js ''/docs/http/api/streaming'') None])]),
    SidebarItem (js ''WebSockets'') (js ''/docs/websockets'') (Some [
      SidebarItem (js ''Overview'') (js ''/docs/websockets'') None,
      SidebarItem (js ''Socket Controllers'') (js ''/docs/websockets/controllers'') None,
      SidebarItem (js ''Runtime'') (js ''/docs/websockets/runtime'') None,
      SidebarItem (js ''Adapters'') (js ''/docs/websockets/adapters'') None,
      SidebarItem (js ''Socket Middleware'') (js ''/docs/websockets/middleware'') None]),
    SidebarItem (js ''Server-Sent Events'') (js ''/docs/sse'') (Some [
      SidebarItem (js ''Overview'') (js ''/docs/sse/overview'') None,
      SidebarItem (js ''Standard Events'') (js ''/docs/sse/standard'') None,
      SidebarItem (js ''Text & JSON Streams'') (js ''/docs/sse/streams'') None,
      SidebarItem (js ''OpenAI Streaming'') (js ''/docs/sse/openai'') None,
      SidebarItem (js ''Resource Management'') (js ''/docs/sse/resources'') None])]\<rparr>"

definition section_caching :: sidebar_section where
  "section_caching = \<lparr>sec_title = js ''Caching'', sec_items = [
    SidebarItem (js ''Cache'') (js ''/docs/cache'') (Some [
      SidebarItem (js ''Overview'') (js ''/docs/cache'') None,
      SidebarItem (js ''Configuration'') (js ''/docs/cache/configuration'') None,
      SidebarItem (js ''CLI'') (js ''/docs/cache/cli'') None,
      SidebarItem (js ''CacheService'') (js ''/docs/cache/service'') None,
      SidebarItem (js ''Backends'') (js ''/docs/cache/backends'') None,
      SidebarItem (js ''Decorators'') (js ''/docs/cache/decorators'') None,
      SidebarItem (js ''API Reference'') (js ''/docs/cache/api-reference'') None])]\<rparr>"

definition section_storage_filesystem :: sidebar_section where
  "section_storage_filesystem = \<lparr>sec_title = js ''Storage & Filesystem'', sec_items = [
    SidebarItem (js ''Storage'') (js ''/docs/storage'') (Some [
      SidebarItem (js ''Overview'') (js ''/docs/storage/overview'') None,
      SidebarItem (js ''API Reference'') (js ''/docs/storage/api'') None,
      SidebarItem (js ''Configuration'') (js ''/docs/storage/configuration'') None,
      SidebarItem (js ''Backends'') (js ''/docs/storage/backends'') None,
      SidebarItem (js ''Controller Guide'') (js ''/docs/storage/controller'') None]),
    SidebarItem (js ''Filesystem'') (js ''/docs/filesystem'') (Some [
      SidebarItem (js ''Overview'') (js ''/docs/filesystem/overview'') None,
      SidebarItem (js ''API Reference'') (js ''/docs/filesystem/api'') None,
      SidebarItem (js ''Operations'') (js ''/docs/filesystem/operations'') None,
      SidebarItem (js ''Controller Guide'') (js ''/docs/filesystem/controller'') None])]\<rparr>"

definition section_localization_i18n :: sidebar_section where
  "section_localization_i18n = \<lparr>sec_title = js ''Localization & i18n'', sec_items = [
    SidebarItem (js ''i18n'') (js ''/docs/i18n'') (Some [
      SidebarItem (js ''Overview'') (js ''/docs/i18n'') None,
      SidebarItem (js ''Architecture'') (js ''/docs/i18n/architecture'') None,
      SidebarItem (js ''Configuration'') (js ''/docs/i18n/configuration'') None,
      SidebarItem (js ''Integration'') (js ''/docs/i18n/integration'') None,
      SidebarItem (js ''API Reference'') (js ''/docs/i18n/api-reference'') None,
      SidebarItem (js ''CLI'') (js ''/docs/i18n/cli'') None,
      SidebarItem (js ''Edge Cases'') (js ''/docs/i18n/edge-cases'') None,
      SidebarItem (js ''Troubleshooting'') (js ''/docs/i18n/troubleshooting'') None])]\<rparr>"

definition section_templates_mail :: sidebar_section where
  "section_templates_mail = \<lparr>sec_title = js ''Templates & Mail'', sec_items = [
    SidebarItem (js ''Templates'') (js ''/docs/templates'') (Some [
      SidebarItem (js ''Overview'') (js ''/docs/templates'') None,
      SidebarItem (js ''TemplateEngine'') (js ''/docs/templates/engine'') None,
      SidebarItem (js ''Loaders'') (js ''/docs/templates/loaders'') None,
      SidebarItem (js ''Security'') (js ''/docs/templates/security'') None]),
    SidebarItem (js ''Mail'') (js ''/docs/mail'') (Some [
      SidebarItem (js ''Overview'') (js ''/docs/mail'') None,
      SidebarItem (js ''MailService'') (js ''/docs/mail/service'') None,
      SidebarItem (js ''Delivery & Bounces'') (js ''/docs/mail/delivery'') None,
      SidebarItem (js ''Providers'') (js ''/docs/mail/providers'') None,
      SidebarItem (js ''Templates'') (js ''/docs/mail/templates'') None])]\<rparr>"

definition section_background_jobs :: sidebar_section where
  "section_background_jobs = \<lparr>sec_title = js ''Background Jobs'', sec_items = [
    SidebarItem (js ''Tasks'') (js ''/docs/tasks'') (Some [
      SidebarItem (js ''Overview'') (js ''/docs/tasks/overview'') None,
      SidebarItem (js ''API Reference'') (js ''/docs/tasks/api'') None,
      SidebarItem (js ''Configuration'') (js ''/docs/tasks/configuration'') None,
      SidebarItem (js ''Distributed & Workflows'') (js ''/docs/tasks/distributed'') None,
      SidebarItem (js ''Retry Logic'') (js ''/docs/tasks/retry'') None,
      SidebarItem (js ''Scheduling'') (js ''/docs/tasks/scheduling'') None,
      SidebarItem (js ''Controller Guide'') (js ''/docs/tasks/controller'') None])]\<rparr>"

definition section_tooling :: sidebar_section where
  "section_tooling = \<lparr>sec_title = js ''Tooling'', sec_items = [
    SidebarItem (js ''CLI'') (js ''/docs/cli'') (Some [
      SidebarItem (js ''Overview'') (js ''/docs/cli'') None,
      SidebarItem (js ''Command Reference'') (js ''/docs/cli/commands'') None,
      SidebarItem (js ''Core Commands'') (js ''/docs/cli/core'') None,
      SidebarItem (js ''Database'') (js ''/docs/cli/database'') None,
      SidebarItem (js ''Inspection'') (js ''/docs/cli/inspection'') None,
      SidebarItem (js ''Generators'') (js ''/docs/cli/generators'') None,
      SidebarItem (js ''WebSocket'') (js ''/docs/cli/websockets'') None,
      SidebarItem (js ''Deploy'') (js ''/docs/cli/deploy'') None,
      SidebarItem (js ''Artifacts'') (js ''/docs/cli/artifacts'') None,
      SidebarItem (js ''Subsystems'') (js ''/docs/cli/subsystems'') None]),
    SidebarItem (js ''Testing'') (js ''/docs/testing'') (Some [
      SidebarItem (js ''Overview'') (js ''/docs/testing'') None,
      SidebarItem (js ''TestClient'') (js ''/docs/testing/client'') None,
      SidebarItem (js ''Test Cases'') (js ''/docs/testing/cases'') None,
      SidebarItem (js ''Mocks & Fixtures'') (js ''/docs/testing/mocks'') None,
      SidebarItem (js ''Test Runner (aq test)'') (js ''/docs/testing/runner'') None]),
    SidebarItem (js ''Specula Observatory'') (js ''/docs/openapi'') None]\<rparr>"

definition section_dev_platform :: sidebar_section where
  "section_dev_platform = \<lparr>sec_title = js ''Dev Platform'', sec_items = [
    SidebarItem (js ''Dev Platform'') (js ''/docs/devplatform'') (Some [
      SidebarItem (js ''Overview'') (js ''/docs/devplatform/overview'') None,
      SidebarItem (js ''Getting Started'') (js ''/docs/devplatform/getting-started'') None,
      SidebarItem (js ''Architecture'') (js ''/docs/devplatform/architecture'') None,
      SidebarItem (js ''Configuration'') (js ''/docs/devplatform/configuration'') None,
      SidebarItem (js ''Terminal UI'') (js ''/docs/devplatform/terminal-ui'') None,
      SidebarItem (js ''Hot Reload'') (js ''/docs/devplatform/hot-reload'') None,
      SidebarItem (js ''Diagnostics'') (js ''/docs/devplatform/diagnostics'') None,
      SidebarItem (js ''Transport Engine'') (js ''/docs/devplatform/transport-engine'') None,
      SidebarItem (js ''Plugins'') (js ''/docs/devplatform/plugins'') None,
      SidebarItem (js ''Faults'') (js ''/docs/devplatform/faults'') None])]\<rparr>"

definition section_deployment_providers :: sidebar_section where
  "section_deployment_providers = \<lparr>sec_title = js ''Deployment & Providers'', sec_items = [
    SidebarItem (js ''Cloud Providers'') (js ''/docs/providers'') (Some [
      SidebarItem (js ''Overview'') (js ''/docs/providers/overview'') None,
      SidebarItem (js ''Render PaaS'') (js ''/docs/providers/render'') None,
      SidebarItem (js ''Credential Security'') (js ''/docs/providers/security'') None,
      SidebarItem (js ''CLI Reference'') (js ''/docs/providers/cli'') None])]\<rparr>"

definition section_advanced :: sidebar_section where
  "section_advanced = \<lparr>sec_title = js ''Advanced'', sec_items = [
    SidebarItem (js ''Aquilary Registry'') (js ''/docs/aquilary'') (Some [
      SidebarItem (js ''Overview'') (js ''/docs/aquilary/overview'') None,
      SidebarItem (js ''Manifest System'') (js ''/docs/aquilary/manifest'') None,
      SidebarItem (js ''RuntimeRegistry'') (js ''/docs/aquilary/runtime'') None,
      SidebarItem (js ''Fingerprinting'') (js ''/docs/aquilary/fingerprint'') None]),
    SidebarItem (js ''Subsystem'') (js ''/docs/subsystem'') (Some [
      SidebarItem (js ''Overview'') (js ''/docs/subsystem/overview'') None,
      SidebarItem (js ''Flow Pipelines'') (js ''/docs/subsystem/pipelines'') None,
      SidebarItem (js ''Flow Context & Nodes'') (js ''/docs/subsystem/context-nodes'') None,
      SidebarItem (js ''Layers & Compositions'') (js ''/docs/subsystem/layers'') None,
      SidebarItem (js ''Built-in Effects'') (js ''/docs/subsystem/built-in'') None,
      SidebarItem (js ''DBTx Effect'') (js ''/docs/subsystem/dbtx'') None,
      SidebarItem (js ''Cache Effect'') (js ''/docs/subsystem/cache'') None,
      SidebarItem (js ''Queue & Task Effects'') (js ''/docs/subsystem/queue'') None,
      SidebarItem (js ''HTTP Client Effect'') (js ''/docs/subsystem/http'') None,
      SidebarItem (js ''Storage Effect'') (js ''/docs/subsystem/storage'') None,
      SidebarItem (js ''Custom Effects'') (js ''/docs/subsystem/custom'') None]),
    SidebarItem (js ''Fault System'') (js ''/docs/faults'') (Some [
      SidebarItem (js ''Overview'') (js ''/docs/faults'') None,
      SidebarItem (js ''Fault Taxonomy'') (js ''/docs/faults/taxonomy'') None,
      SidebarItem (js ''FaultEngine'') (js ''/docs/faults/engine'') None,
      SidebarItem (js ''Fault Handlers'') (js ''/docs/faults/handlers'') None,
      SidebarItem (js ''Fault Domains'') (js ''/docs/faults/domains'') None,
      SidebarItem (js ''Advanced Handlers'') (js ''/docs/faults/advanced'') None])]\<rparr>"

definition sections :: "sidebar_section list" where
  "sections = [section_getting_started,
     section_tutorials,
     section_core,
     section_dependency_injection,
     section_data_layer,
     section_security_auth,
     section_middleware,
     section_realtime_network,
     section_caching,
     section_storage_filesystem,
     section_localization_i18n,
     section_templates_mail,
     section_background_jobs,
     section_tooling,
     section_dev_platform,
     section_deployment_providers,
     section_advanced]"

end
