(* ===== verification/RouteData.thy ===== *)
theory RouteData
  imports JsString
begin

text \<open>
  The route table of \<open>App.tsx\<close>: the pages outside the documentation, and the children of
  \<open>/docs\<close>, grouped as the source's comments group them. A route is its path, as written, and
  the component it renders.
\<close>

datatype route = Route (rt_path: jstr) (rt_component: jstr) | IndexRoute (rt_component: jstr)

definition site_routes :: "route list" where
  "site_routes = [
     Route (js ''/'') (js ''LandingPage''),
     Route (js ''/print-docs'') (js ''PrintAllDocs''),
     Route (js ''/benchmark'') (js ''BenchmarkPage''),
     Route (js ''/changelogs'') (js ''Changelogs''),
     Route (js ''/releases'') (js ''Releases''),
     Route (js ''/releases/:version'') (js ''ReleaseDetail''),
     Route (js ''/releases/:version/:page'') (js ''ReleaseDetail''),
     Route (js ''/help'') (js ''HelpPage''),
     Route (js ''/community'') (js ''CommunityPage''),
     Route (js ''/privacy'') (js ''PrivacyPage''),
     Route (js ''/terms'') (js ''TermsPage''),
     Route (js ''/docs'') (js ''DocsLayout'')]"

definition routes_getting_started :: "route list" where
  "routes_getting_started = [
     IndexRoute (js ''IntroductionPage''),
     Route (js ''installation'') (js ''InstallationPage''),
     Route (js ''native-extensions'') (js ''NativeExtensionsPage''),
     Route (js ''quickstart'') (js ''QuickStartPage''),
     Route (js ''developer-guide'') (js ''DeveloperGuidePage''),
     Route (js ''architecture'') (js ''ArchitecturePage''),
     Route (js ''project-structure'') (js ''ProjectStructurePage''),
     Route (js ''admin-panel'') (js ''AdminSetupPage'')]"

definition routes_tutorials :: "route list" where
  "routes_tutorials = [
     Route (js ''tutorials/overview'') (js ''TutorialOverview''),
     Route (js ''tutorials/todo-app'') (js ''TodoTutorialPage''),
     Route (js ''tutorials/auth-app'') (js ''AuthTutorialPage'')]"

definition routes_server :: "route list" where
  "routes_server = [
     Route (js ''server'') (js ''ServerOverview''),
     Route (js ''server/aquilia-server'') (js ''ServerOverview''),
     Route (js ''server/asgi'') (js ''ServerASGI''),
     Route (js ''server/lifecycle'') (js ''ServerLifecycle'')]"

definition routes_config :: "route list" where
  "routes_config = [
     Route (js ''config'') (js ''ConfigOverview''),
     Route (js ''config/loader'') (js ''ConfigOverview''),
     Route (js ''config/workspace'') (js ''ConfigWorkspace''),
     Route (js ''config/module'') (js ''ConfigModule''),
     Route (js ''config/integrations'') (js ''ConfigIntegrations''),
     Route (js ''config/pyconfig'') (js ''ConfigPyConfig''),
     Route (js ''config/dotenv'') (js ''ConfigDotEnv''),
     Route (js ''config/manifest'') (js ''ConfigManifest'')]"

definition routes_request_response :: "route list" where
  "routes_request_response = [
     Route (js ''request-response'') (js ''RequestPage''),
     Route (js ''request-response/request'') (js ''RequestPage''),
     Route (js ''request-response/response'') (js ''ResponsePage''),
     Route (js ''request-response/data-structures'') (js ''DataStructuresPage''),
     Route (js ''request-response/uploads'') (js ''UploadsPage'')]"

definition routes_controllers :: "route list" where
  "routes_controllers = [
     Route (js ''controllers'') (js ''ControllersOverview''),
     Route (js ''controllers/overview'') (js ''ControllersOverview''),
     Route (js ''controllers/attributes'') (js ''ControllersAttributes''),
     Route (js ''controllers/decorators'') (js ''ControllersDecorators''),
     Route (js ''controllers/decorators/get'') (js ''DecoratorGet''),
     Route (js ''controllers/decorators/post'') (js ''DecoratorPost''),
     Route (js ''controllers/decorators/put'') (js ''DecoratorPut''),
     Route (js ''controllers/decorators/patch'') (js ''DecoratorPatch''),
     Route (js ''controllers/decorators/delete'') (js ''DecoratorDelete''),
     Route (js ''controllers/decorators/head'') (js ''DecoratorHead''),
     Route (js ''controllers/decorators/options'') (js ''DecoratorOptions''),
     Route (js ''controllers/decorators/ws'') (js ''DecoratorWS''),
     Route (js ''controllers/decorators/route'') (js ''DecoratorRoute''),
     Route (js ''controllers/request-ctx'') (js ''ControllersRequestCtx''),
     Route (js ''controllers/factory'') (js ''ControllersFactory''),
     Route (js ''controllers/engine'') (js ''ControllersEngine''),
     Route (js ''controllers/compiler'') (js ''ControllersCompiler''),
     Route (js ''controllers/router'') (js ''ControllersRouter''),
     Route (js ''controllers/openapi'') (js ''ControllersOpenAPI''),
     Route (js ''controllers/resource'') (js ''ControllersResource''),
     Route (js ''controllers/throttle'') (js ''ControllersThrottle''),
     Route (js ''controllers/validation'') (js ''ControllersValidation''),
     Route (js ''controllers/pagination'') (js ''ControllersPagination''),
     Route (js ''controllers/filters'') (js ''ControllersFilters''),
     Route (js ''controllers/renderers'') (js ''ControllersRenderers'')]"

definition routes_routing :: "route list" where
  "routes_routing = [
     Route (js ''routing'') (js ''RoutingOverview''),
     Route (js ''routing/patterns'') (js ''RoutingPatterns''),
     Route (js ''routing/router'') (js ''ControllersRouter''),
     Route (js ''routing/urls'') (js ''RoutingUrls'')]"

definition routes_di :: "route list" where
  "routes_di = [
     Route (js ''di'') (js ''DIOverview''),
     Route (js ''di/container'') (js ''DIContainer''),
     Route (js ''di/providers'') (js ''DIProviders''),
     Route (js ''di/scopes'') (js ''DIScopes''),
     Route (js ''di/decorators'') (js ''DIDecorators''),
     Route (js ''di/lifecycle'') (js ''DILifecycle''),
     Route (js ''di/request-dag'') (js ''DIRequestDAG''),
     Route (js ''di/extractors'') (js ''DIExtractors''),
     Route (js ''di/diagnostics'') (js ''DIDiagnostics''),
     Route (js ''di/advanced'') (js ''DIAdvanced''),
     Route (js ''di/patterns'') (js ''DIPatterns''),
     Route (js ''di/troubleshooting'') (js ''DITroubleshooting'')]"

definition routes_models :: "route list" where
  "routes_models = [
     Route (js ''models'') (js ''ModelsOverview''),
     Route (js ''models/overview'') (js ''ModelsOverview''),
     Route (js ''models/defining'') (js ''ModelsOverview'')]"

definition routes_fields_subpages :: "route list" where
  "routes_fields_subpages = [
     Route (js ''models/fields'') (js ''FieldsOverview''),
     Route (js ''models/fields/overview'') (js ''FieldsOverview''),
     Route (js ''models/fields/numeric'') (js ''NumericFields''),
     Route (js ''models/fields/text'') (js ''TextFields''),
     Route (js ''models/fields/datetime'') (js ''DateTimeFields''),
     Route (js ''models/fields/structured'') (js ''StructuredFields''),
     Route (js ''models/queryset'') (js ''ModelsQuerySet'')]"

definition routes_relationships_subpages :: "route list" where
  "routes_relationships_subpages = [
     Route (js ''models/relationships'') (js ''DefiningRelationships''),
     Route (js ''models/relationships/defining'') (js ''DefiningRelationships''),
     Route (js ''models/relationships/hydration'') (js ''HydrationPrimitives''),
     Route (js ''models/relationships/m2m'') (js ''ManyToManyOperations''),
     Route (js ''models/migrations'') (js ''ModelsMigrations''),
     Route (js ''models/advanced'') (js ''ModelsAdvanced''),
     Route (js ''models/signals'') (js ''ModelsSignals'')]"

definition routes_transactions_subpages :: "route list" where
  "routes_transactions_subpages = [
     Route (js ''models/transactions'') (js ''AtomicContexts''),
     Route (js ''models/transactions/atomic'') (js ''AtomicContexts''),
     Route (js ''models/transactions/savepoints'') (js ''Savepoints''),
     Route (js ''models/transactions/hooks'') (js ''Hooks''),
     Route (js ''models/aggregation'') (js ''ModelsAggregation''),
     Route (js ''models/window-functions'') (js ''WindowFunctions''),
     Route (js ''models/cte'') (js ''CommonTableExpressions''),
     Route (js ''models/recursive-cte'') (js ''RecursiveCTE''),
     Route (js ''models/bulk-operations'') (js ''BulkOperations'')]"

definition routes_contracts :: "route list" where
  "routes_contracts = [
     Route (js ''contracts'') (js ''ContractsOverview''),
     Route (js ''contracts/overview'') (js ''ContractsOverview''),
     Route (js ''contracts/facets'') (js ''ContractsFacets''),
     Route (js ''contracts/projections'') (js ''ContractsProjections''),
     Route (js ''contracts/lenses'') (js ''ContractsLenses''),
     Route (js ''contracts/seals'') (js ''ContractsSeals''),
     Route (js ''contracts/async-pipeline'') (js ''ContractsAsyncPipeline''),
     Route (js ''contracts/validation-control'') (js ''ContractsValidationControl''),
     Route (js ''contracts/annotations'') (js ''ContractsAnnotations''),
     Route (js ''contracts/integration'') (js ''ContractsIntegration''),
     Route (js ''contracts/schemas'') (js ''ContractsSchemas''),
     Route (js ''contracts/faults'') (js ''ContractsFaults'')]"

definition routes_database :: "route list" where
  "routes_database = [
     Route (js ''database'') (js ''DatabaseOverview''),
     Route (js ''database/engine'') (js ''DatabaseEngine''),
     Route (js ''database/configs'') (js ''DatabaseConfigs''),
     Route (js ''database/sqlite'') (js ''DatabaseOverview''),
     Route (js ''database/postgresql'') (js ''DatabaseOverview''),
     Route (js ''database/mysql'') (js ''DatabaseOverview'')]"

definition routes_auth :: "route list" where
  "routes_auth = [
     Route (js ''auth'') (js ''AuthOverview''),
     Route (js ''auth/identity'') (js ''AuthIdentity''),
     Route (js ''auth/credentials'') (js ''AuthCredentials''),
     Route (js ''auth/manager'') (js ''AuthManager''),
     Route (js ''auth/oauth'') (js ''AuthOAuth''),
     Route (js ''auth/mfa'') (js ''AuthMFA''),
     Route (js ''auth/tokens'') (js ''AuthTokens''),
     Route (js ''auth/stores'') (js ''AuthStores''),
     Route (js ''auth/faults'') (js ''AuthFaults''),
     Route (js ''auth/guards'') (js ''AuthGuards''),
     Route (js ''auth/integration'') (js ''AuthIntegration''),
     Route (js ''auth/advanced'') (js ''AuthAdvanced''),
     Route (js ''authz'') (js ''AuthZOverview''),
     Route (js ''authz/rbac'') (js ''AuthZRBAC''),
     Route (js ''authz/abac'') (js ''AuthZABAC''),
     Route (js ''authz/policies'') (js ''AuthZPolicies'')]"

definition routes_sessions :: "route list" where
  "routes_sessions = [
     Route (js ''sessions'') (js ''SessionsOverview''),
     Route (js ''sessions/overview'') (js ''SessionsOverview''),
     Route (js ''sessions/integration'') (js ''SessionsIntegration''),
     Route (js ''sessions/engine'') (js ''SessionsEngine''),
     Route (js ''sessions/policies'') (js ''SessionsPolicies''),
     Route (js ''sessions/stores'') (js ''SessionsStores''),
     Route (js ''sessions/transport'') (js ''SessionsTransport''),
     Route (js ''sessions/decorators'') (js ''SessionsDecorators''),
     Route (js ''sessions/state'') (js ''SessionsState''),
     Route (js ''sessions/guards'') (js ''SessionsGuards''),
     Route (js ''sessions/faults'') (js ''SessionsFaults'')]"

definition routes_middleware :: "route list" where
  "routes_middleware = [
     Route (js ''middleware'') (js ''MiddlewareOverview''),
     Route (js ''middleware/overview'') (js ''MiddlewareOverview''),
     Route (js ''middleware/stack'') (js ''MiddlewareStack''),
     Route (js ''middleware/built-in'') (js ''MiddlewareBuiltIn''),
     Route (js ''middleware/static'') (js ''MiddlewareExtended''),
     Route (js ''middleware/cors'') (js ''MiddlewareCORS''),
     Route (js ''middleware/rate-limit'') (js ''MiddlewareRateLimit''),
     Route (js ''middleware/security'') (js ''MiddlewareSecurityHeaders''),
     Route (js ''middleware/request-scope'') (js ''MiddlewareRequestScope''),
     Route (js ''middleware/session'') (js ''MiddlewareSession''),
     Route (js ''middleware/logging'') (js ''MiddlewareLogging''),
     Route (js ''middleware/csp'') (js ''MiddlewareCSP''),
     Route (js ''middleware/csrf'') (js ''MiddlewareCSRF''),
     Route (js ''middleware/hsts'') (js ''MiddlewareHSTS''),
     Route (js ''middleware/https-redirect'') (js ''MiddlewareHTTPSRedirect''),
     Route (js ''middleware/proxy-fix'') (js ''MiddlewareProxyFix''),
     Route (js ''middleware/effect'') (js ''MiddlewareEffect''),
     Route (js ''middleware/socket-middleware'') (js ''SocketMiddlewareOverview'')]"

definition routes_aquilary :: "route list" where
  "routes_aquilary = [
     Route (js ''aquilary'') (js ''AquilaryOverview''),
     Route (js ''aquilary/overview'') (js ''AquilaryOverview''),
     Route (js ''aquilary/manifest'') (js ''AquilaryManifest''),
     Route (js ''aquilary/runtime'') (js ''AquilaryRuntime''),
     Route (js ''aquilary/fingerprint'') (js ''AquilaryFingerprint'')]"

definition routes_subsystem :: "route list" where
  "routes_subsystem = [
     Route (js ''subsystem'') (js ''EffectsOverview''),
     Route (js ''subsystem/overview'') (js ''EffectsOverview''),
     Route (js ''subsystem/built-in'') (js ''EffectsBuiltIn''),
     Route (js ''subsystem/dbtx'') (js ''EffectsDBTx''),
     Route (js ''subsystem/cache'') (js ''EffectsCacheEffect''),
     Route (js ''subsystem/queue'') (js ''EffectsQueueEffect''),
     Route (js ''subsystem/http'') (js ''EffectsHTTPEffect''),
     Route (js ''subsystem/storage'') (js ''EffectsStorageEffect''),
     Route (js ''subsystem/custom'') (js ''EffectsCustomEffects''),
     Route (js ''subsystem/pipelines'') (js ''FlowPipelines''),
     Route (js ''subsystem/context-nodes'') (js ''FlowContextNodes''),
     Route (js ''subsystem/layers'') (js ''FlowLayers'')]"

definition routes_server_sent_events_sse :: "route list" where
  "routes_server_sent_events_sse = [
     Route (js ''sse'') (js ''SSEOverview''),
     Route (js ''sse/overview'') (js ''SSEOverview''),
     Route (js ''sse/standard'') (js ''SSEStandardEvents''),
     Route (js ''sse/streams'') (js ''SSETextJsonStreams''),
     Route (js ''sse/openai'') (js ''SSEOpenAIStreaming''),
     Route (js ''sse/resources'') (js ''SSEResourceManagement'')]"

definition routes_cryptographic_signing :: "route list" where
  "routes_cryptographic_signing = [
     Route (js ''signing'') (js ''SigningOverview''),
     Route (js ''signing/overview'') (js ''SigningOverview''),
     Route (js ''signing/signers'') (js ''SigningSigners''),
     Route (js ''signing/specialized'') (js ''SigningSpecialized''),
     Route (js ''signing/advanced'') (js ''SigningAdvanced'')]"

definition routes_faults :: "route list" where
  "routes_faults = [
     Route (js ''faults'') (js ''FaultsOverview''),
     Route (js ''faults/taxonomy'') (js ''FaultsTaxonomy''),
     Route (js ''faults/engine'') (js ''FaultsEngine''),
     Route (js ''faults/handlers'') (js ''FaultsHandlers''),
     Route (js ''faults/domains'') (js ''FaultsDomains''),
     Route (js ''faults/advanced'') (js ''FaultsAdvanced'')]"

definition routes_cache :: "route list" where
  "routes_cache = [
     Route (js ''cache'') (js ''CacheOverview''),
     Route (js ''cache/configuration'') (js ''CacheConfiguration''),
     Route (js ''cache/cli'') (js ''CacheCLI''),
     Route (js ''cache/service'') (js ''CacheService''),
     Route (js ''cache/backends'') (js ''CacheBackends''),
     Route (js ''cache/decorators'') (js ''CacheDecorators''),
     Route (js ''cache/api-reference'') (js ''CacheAPIReference'')]"

definition routes_http_client :: "route list" where
  "routes_http_client = [
     Route (js ''http'') (js ''HTTPOverview''),
     Route (js ''http/client'') (js ''HTTPClient''),
     Route (js ''http/sessions'') (js ''HTTPSessions''),
     Route (js ''http/transport'') (js ''HTTPTransport''),
     Route (js ''http/advanced'') (js ''HTTPAdvanced''),
     Route (js ''http/faults'') (js ''HTTPFaults''),
     Route (js ''http/integration'') (js ''HTTPIntegration''),
     Route (js ''http/api'') (js ''HTTPAPIRequest''),
     Route (js ''http/api/request'') (js ''HTTPAPIRequest''),
     Route (js ''http/api/response'') (js ''HTTPAPIResponse''),
     Route (js ''http/api/auth'') (js ''HTTPAPIAuth''),
     Route (js ''http/api/cookies'') (js ''HTTPAPICookies''),
     Route (js ''http/api/middleware'') (js ''HTTPAPIMiddleware''),
     Route (js ''http/api/multipart'') (js ''HTTPAPIMultipart''),
     Route (js ''http/api/streaming'') (js ''HTTPAPIStreaming'')]"

definition routes_i18n :: "route list" where
  "routes_i18n = [
     Route (js ''i18n'') (js ''I18nOverview''),
     Route (js ''i18n/overview'') (js ''I18nOverview''),
     Route (js ''i18n/architecture'') (js ''I18nArchitecture''),
     Route (js ''i18n/configuration'') (js ''I18nConfiguration''),
     Route (js ''i18n/integration'') (js ''I18nIntegration''),
     Route (js ''i18n/api-reference'') (js ''I18nAPIReference''),
     Route (js ''i18n/cli'') (js ''I18nCLI''),
     Route (js ''i18n/edge-cases'') (js ''I18nEdgeCases''),
     Route (js ''i18n/troubleshooting'') (js ''I18nTroubleshooting'')]"

definition routes_i8n_alias_routes :: "route list" where
  "routes_i8n_alias_routes = [
     Route (js ''i8n'') (js ''I18nOverview''),
     Route (js ''i8n/overview'') (js ''I18nOverview''),
     Route (js ''i8n/architecture'') (js ''I18nArchitecture''),
     Route (js ''i8n/configuration'') (js ''I18nConfiguration''),
     Route (js ''i8n/integration'') (js ''I18nIntegration''),
     Route (js ''i8n/api-reference'') (js ''I18nAPIReference''),
     Route (js ''i8n/cli'') (js ''I18nCLI''),
     Route (js ''i8n/edge-cases'') (js ''I18nEdgeCases''),
     Route (js ''i8n/troubleshooting'') (js ''I18nTroubleshooting'')]"

definition routes_websockets :: "route list" where
  "routes_websockets = [
     Route (js ''websockets'') (js ''WebSocketsOverview''),
     Route (js ''websockets/controllers'') (js ''WebSocketControllers''),
     Route (js ''websockets/runtime'') (js ''WebSocketRuntime''),
     Route (js ''websockets/adapters'') (js ''WebSocketAdapters''),
     Route (js ''websockets/middleware'') (js ''WebSocketMiddleware'')]"

definition routes_templates :: "route list" where
  "routes_templates = [
     Route (js ''templates'') (js ''TemplatesOverview''),
     Route (js ''templates/engine'') (js ''TemplatesEngine''),
     Route (js ''templates/loaders'') (js ''TemplatesLoaders''),
     Route (js ''templates/security'') (js ''TemplatesSecurity'')]"

definition routes_mail :: "route list" where
  "routes_mail = [
     Route (js ''mail'') (js ''MailOverview''),
     Route (js ''mail/service'') (js ''MailService''),
     Route (js ''mail/delivery'') (js ''MailDelivery''),
     Route (js ''mail/providers'') (js ''MailProviders''),
     Route (js ''mail/templates'') (js ''MailTemplates'')]"

definition routes_cli :: "route list" where
  "routes_cli = [
     Route (js ''cli'') (js ''CLIOverview''),
     Route (js ''cli/commands'') (js ''CLICommands''),
     Route (js ''cli/generators'') (js ''CLIGenerators''),
     Route (js ''cli/core'') (js ''CLICoreCommands''),
     Route (js ''cli/database'') (js ''CLIDatabaseCommands''),
     Route (js ''cli/inspection'') (js ''CLIInspectionCommands''),
     Route (js ''cli/websockets'') (js ''CLIWebSocketCommands''),
     Route (js ''cli/deploy'') (js ''CLIDeployCommands''),
     Route (js ''cli/artifacts'') (js ''CLIArtifactCommands''),
     Route (js ''cli/subsystems'') (js ''CLISubsystemCommands'')]"

definition routes_testing :: "route list" where
  "routes_testing = [
     Route (js ''testing'') (js ''TestingOverview''),
     Route (js ''testing/client'') (js ''TestingClient''),
     Route (js ''testing/cases'') (js ''TestingCases''),
     Route (js ''testing/mocks'') (js ''TestingMocks''),
     Route (js ''testing/runner'') (js ''TestingRunner'')]"

definition routes_openapi :: "route list" where
  "routes_openapi = [
     Route (js ''openapi'') (js ''ControllersOpenAPI'')]"

definition routes_tasks :: "route list" where
  "routes_tasks = [
     Route (js ''tasks'') (js ''TasksOverview''),
     Route (js ''tasks/overview'') (js ''TasksOverview''),
     Route (js ''tasks/api'') (js ''TasksAPI''),
     Route (js ''tasks/configuration'') (js ''TasksConfiguration''),
     Route (js ''tasks/distributed'') (js ''TasksDistributed''),
     Route (js ''tasks/retry'') (js ''TasksRetry''),
     Route (js ''tasks/scheduling'') (js ''TasksScheduling''),
     Route (js ''tasks/controller'') (js ''TasksController'')]"

definition routes_storage :: "route list" where
  "routes_storage = [
     Route (js ''storage'') (js ''StorageOverview''),
     Route (js ''storage/overview'') (js ''StorageOverview''),
     Route (js ''storage/api'') (js ''StorageAPI''),
     Route (js ''storage/configuration'') (js ''StorageConfiguration''),
     Route (js ''storage/backends'') (js ''StorageBackends''),
     Route (js ''storage/controller'') (js ''StorageController''),
     Route (js ''vectordb'') (js ''VectorDBOverview''),
     Route (js ''vectordb/overview'') (js ''VectorDBOverview''),
     Route (js ''vectordb/models'') (js ''VectorDBModels''),
     Route (js ''vectordb/queries'') (js ''VectorDBQueries''),
     Route (js ''vectordb/interop'') (js ''VectorDBInterop''),
     Route (js ''vectordb/cli'') (js ''VectorDBCli'')]"

definition routes_sqlite :: "route list" where
  "routes_sqlite = [
     Route (js ''sqlite'') (js ''SqliteOverview''),
     Route (js ''sqlite/overview'') (js ''SqliteOverview''),
     Route (js ''sqlite/api'') (js ''SqliteAPI''),
     Route (js ''sqlite/pool'') (js ''SqlitePool''),
     Route (js ''sqlite/transactions'') (js ''SqliteTransactions''),
     Route (js ''sqlite/controller'') (js ''SqliteController'')]"

definition routes_filesystem :: "route list" where
  "routes_filesystem = [
     Route (js ''filesystem'') (js ''FilesystemOverview''),
     Route (js ''filesystem/overview'') (js ''FilesystemOverview''),
     Route (js ''filesystem/api'') (js ''FilesystemAPI''),
     Route (js ''filesystem/operations'') (js ''FilesystemOperations''),
     Route (js ''filesystem/controller'') (js ''FilesystemController'')]"

definition routes_providers_deployment :: "route list" where
  "routes_providers_deployment = [
     Route (js ''providers'') (js ''ProvidersOverview''),
     Route (js ''providers/overview'') (js ''ProvidersOverview''),
     Route (js ''providers/render'') (js ''ProvidersRender''),
     Route (js ''providers/security'') (js ''ProvidersSecurity''),
     Route (js ''providers/cli'') (js ''ProvidersCli'')]"

definition routes_dev_platform :: "route list" where
  "routes_dev_platform = [
     Route (js ''devplatform'') (js ''ADPOverviewPage''),
     Route (js ''devplatform/overview'') (js ''ADPOverviewPage''),
     Route (js ''devplatform/getting-started'') (js ''ADPGettingStartedPage''),
     Route (js ''devplatform/architecture'') (js ''ADPArchitecturePage''),
     Route (js ''devplatform/configuration'') (js ''ADPConfigurationPage''),
     Route (js ''devplatform/terminal-ui'') (js ''ADPTerminalUIPage''),
     Route (js ''devplatform/hot-reload'') (js ''ADPHotReloadPage''),
     Route (js ''devplatform/diagnostics'') (js ''ADPDiagnosticsPage''),
     Route (js ''devplatform/transport-engine'') (js ''ADPTransportEnginePage''),
     Route (js ''devplatform/plugins'') (js ''ADPPluginsPage''),
     Route (js ''devplatform/faults'') (js ''ADPFaultsPage'')]"

definition routes_docs_wildcard_404 :: "route list" where
  "routes_docs_wildcard_404 = [
     Route (js ''*'') (js ''NotFoundPage'')]"

definition fallback_routes :: "route list" where
  "fallback_routes = [
     Route (js ''/500'') (js ''ServerErrorPage''),
     Route (js ''*'') (js ''NotFoundPage'')]"

definition doc_routes :: "route list" where
  "doc_routes = concat [routes_getting_started,
     routes_tutorials,
     routes_server,
     routes_config,
     routes_request_response,
     routes_controllers,
     routes_routing,
     routes_di,
     routes_models,
     routes_fields_subpages,
     routes_relationships_subpages,
     routes_transactions_subpages,
     routes_contracts,
     routes_database,
     routes_auth,
     routes_sessions,
     routes_middleware,
     routes_aquilary,
     routes_subsystem,
     routes_server_sent_events_sse,
     routes_cryptographic_signing,
     routes_faults,
     routes_cache,
     routes_http_client,
     routes_i18n,
     routes_i8n_alias_routes,
     routes_websockets,
     routes_templates,
     routes_mail,
     routes_cli,
     routes_testing,
     routes_openapi,
     routes_tasks,
     routes_storage,
     routes_sqlite,
     routes_filesystem,
     routes_providers_deployment,
     routes_dev_platform,
     routes_docs_wildcard_404]"

text \<open>The address of a child of \<open>/docs\<close>.\<close>

definition doc_address :: "route \<Rightarrow> jstr" where
  "doc_address r = (case r of IndexRoute c \<Rightarrow> js ''/docs'' | Route p c \<Rightarrow> js ''/docs/'' @ p)"

definition declared_paths :: "jstr list" where
  "declared_paths = map rt_path site_routes @ map doc_address doc_routes @ map rt_path fallback_routes"

end
