(* ===== verification/LastUpdated.thy ===== *)
theory LastUpdated
  imports JsString
begin

text \<open>
  \<open>data/lastUpdatedDates.ts\<close>: the date of the last commit of each documentation page, by the
  address the generator derived from the file name.
\<close>

definition lastUpdated_1 :: "(jstr \<times> jstr) list" where
  "lastUpdated_1 = [
     (js ''/docs'', js ''July 10, 2026''),
     (js ''/docs/installation'', js ''July 03, 2026''),
     (js ''/docs/quickstart'', js ''July 03, 2026''),
     (js ''/docs/developer-guide'', js ''July 09, 2026''),
     (js ''/docs/architecture'', js ''July 03, 2026''),
     (js ''/docs/project-structure'', js ''July 06, 2026''),
     (js ''/docs/admin-panel'', js ''July 06, 2026''),
     (js ''/docs/server'', js ''July 06, 2026''),
     (js ''/docs/server/aquilia-server'', js ''July 06, 2026''),
     (js ''/docs/server/asgi'', js ''July 06, 2026''),
     (js ''/docs/server/lifecycle'', js ''July 06, 2026''),
     (js ''/docs/config'', js ''July 06, 2026''),
     (js ''/docs/config/loader'', js ''July 06, 2026''),
     (js ''/docs/config/workspace'', js ''July 06, 2026''),
     (js ''/docs/config/module'', js ''February 19, 2026''),
     (js ''/docs/config/integrations'', js ''July 06, 2026''),
     (js ''/docs/config/pyconfig'', js ''July 06, 2026''),
     (js ''/docs/config/dotenv'', js ''July 06, 2026''),
     (js ''/docs/config/manifest'', js ''July 06, 2026''),
     (js ''/docs/request-response'', js ''July 06, 2026''),
     (js ''/docs/request-response/request'', js ''July 06, 2026''),
     (js ''/docs/request-response/response'', js ''July 06, 2026''),
     (js ''/docs/request-response/data-structures'', js ''July 06, 2026''),
     (js ''/docs/request-response/uploads'', js ''July 06, 2026''),
     (js ''/docs/controllers'', js ''July 25, 2026''),
     (js ''/docs/controllers/overview'', js ''July 25, 2026''),
     (js ''/docs/controllers/resource'', js ''July 25, 2026''),
     (js ''/docs/controllers/throttle'', js ''July 25, 2026''),
     (js ''/docs/controllers/decorators'', js ''July 06, 2026''),
     (js ''/docs/controllers/decorators/get'', js ''February 19, 2026''),
     (js ''/docs/controllers/decorators/post'', js ''July 06, 2026''),
     (js ''/docs/controllers/decorators/put'', js ''July 06, 2026''),
     (js ''/docs/controllers/decorators/patch'', js ''July 06, 2026''),
     (js ''/docs/controllers/decorators/delete'', js ''February 19, 2026''),
     (js ''/docs/controllers/decorators/head'', js ''February 19, 2026''),
     (js ''/docs/controllers/decorators/options'', js ''February 19, 2026''),
     (js ''/docs/controllers/decorators/ws'', js ''February 19, 2026''),
     (js ''/docs/controllers/decorators/route'', js ''February 19, 2026''),
     (js ''/docs/controllers/request-ctx'', js ''July 06, 2026''),
     (js ''/docs/controllers/factory'', js ''July 06, 2026''),
     (js ''/docs/controllers/engine'', js ''July 06, 2026''),
     (js ''/docs/controllers/compiler'', js ''July 06, 2026''),
     (js ''/docs/controllers/router'', js ''July 06, 2026''),
     (js ''/docs/controllers/openapi'', js ''July 09, 2026''),
     (js ''/docs/controllers/validation'', js ''July 06, 2026''),
     (js ''/docs/controllers/pagination'', js ''July 06, 2026''),
     (js ''/docs/controllers/filters'', js ''July 06, 2026''),
     (js ''/docs/controllers/renderers'', js ''July 06, 2026''),
     (js ''/docs/routing'', js ''July 06, 2026''),
     (js ''/docs/routing/patterns'', js ''July 06, 2026''),
     (js ''/docs/routing/router'', js ''July 06, 2026''),
     (js ''/docs/routing/urls'', js ''July 06, 2026''),
     (js ''/docs/di'', js ''July 09, 2026''),
     (js ''/docs/di/container'', js ''July 08, 2026''),
     (js ''/docs/di/providers'', js ''July 08, 2026''),
     (js ''/docs/di/scopes'', js ''July 08, 2026''),
     (js ''/docs/di/decorators'', js ''July 08, 2026''),
     (js ''/docs/di/lifecycle'', js ''July 08, 2026''),
     (js ''/docs/di/request-dag'', js ''July 08, 2026''),
     (js ''/docs/di/extractors'', js ''July 08, 2026''),
     (js ''/docs/di/diagnostics'', js ''July 08, 2026''),
     (js ''/docs/di/advanced'', js ''July 08, 2026''),
     (js ''/docs/models'', js ''July 08, 2026''),
     (js ''/docs/models/overview'', js ''July 08, 2026''),
     (js ''/docs/models/defining'', js ''July 08, 2026''),
     (js ''/docs/models/fields'', js ''July 08, 2026''),
     (js ''/docs/models/fields/overview'', js ''July 08, 2026''),
     (js ''/docs/models/fields/numeric'', js ''July 08, 2026''),
     (js ''/docs/models/fields/text'', js ''July 08, 2026''),
     (js ''/docs/models/fields/datetime'', js ''July 08, 2026''),
     (js ''/docs/models/fields/structured'', js ''July 08, 2026''),
     (js ''/docs/models/queryset'', js ''July 08, 2026''),
     (js ''/docs/models/relationships'', js ''July 08, 2026''),
     (js ''/docs/models/relationships/defining'', js ''July 08, 2026''),
     (js ''/docs/models/relationships/hydration'', js ''July 08, 2026''),
     (js ''/docs/models/relationships/m2m'', js ''July 08, 2026''),
     (js ''/docs/models/migrations'', js ''July 07, 2026''),
     (js ''/docs/models/advanced'', js ''July 07, 2026''),
     (js ''/docs/models/signals'', js ''July 07, 2026''),
     (js ''/docs/models/transactions'', js ''July 08, 2026''),
     (js ''/docs/models/transactions/atomic'', js ''July 08, 2026''),
     (js ''/docs/models/transactions/savepoints'', js ''July 08, 2026''),
     (js ''/docs/models/transactions/hooks'', js ''July 08, 2026''),
     (js ''/docs/models/aggregation'', js ''July 07, 2026''),
     (js ''/docs/contracts'', js ''July 09, 2026''),
     (js ''/docs/contracts/overview'', js ''July 09, 2026''),
     (js ''/docs/contracts/facets'', js ''July 08, 2026''),
     (js ''/docs/contracts/projections'', js ''March 01, 2026''),
     (js ''/docs/contracts/lenses'', js ''March 01, 2026''),
     (js ''/docs/contracts/seals'', js ''July 29, 2026''),
     (js ''/docs/contracts/async-pipeline'', js ''July 29, 2026''),
     (js ''/docs/contracts/validation-control'', js ''July 29, 2026''),
     (js ''/docs/contracts/annotations'', js ''July 03, 2026''),
     (js ''/docs/contracts/integration'', js ''March 01, 2026''),
     (js ''/docs/contracts/schemas'', js ''March 01, 2026''),
     (js ''/docs/contracts/faults'', js ''March 01, 2026''),
     (js ''/docs/database'', js ''July 10, 2026''),
     (js ''/docs/database/engine'', js ''July 08, 2026''),
     (js ''/docs/database/configs'', js ''July 08, 2026''),
     (js ''/docs/database/sqlite'', js ''July 10, 2026''),
     (js ''/docs/database/postgresql'', js ''July 10, 2026''),
     (js ''/docs/database/mysql'', js ''July 10, 2026''),
     (js ''/docs/auth'', js ''July 09, 2026''),
     (js ''/docs/auth/identity'', js ''March 01, 2026''),
     (js ''/docs/auth/credentials'', js ''July 09, 2026''),
     (js ''/docs/auth/manager'', js ''July 09, 2026''),
     (js ''/docs/auth/oauth'', js ''July 09, 2026''),
     (js ''/docs/auth/mfa'', js ''July 09, 2026''),
     (js ''/docs/auth/tokens'', js ''March 01, 2026''),
     (js ''/docs/auth/stores'', js ''July 09, 2026''),
     (js ''/docs/auth/faults'', js ''July 09, 2026''),
     (js ''/docs/auth/guards'', js ''July 09, 2026''),
     (js ''/docs/auth/integration'', js ''July 09, 2026'')]"

definition lastUpdated_2 :: "(jstr \<times> jstr) list" where
  "lastUpdated_2 = [
     (js ''/docs/auth/advanced'', js ''February 19, 2026''),
     (js ''/docs/authz'', js ''July 08, 2026''),
     (js ''/docs/authz/rbac'', js ''July 08, 2026''),
     (js ''/docs/authz/abac'', js ''July 08, 2026''),
     (js ''/docs/authz/policies'', js ''July 08, 2026''),
     (js ''/docs/sessions'', js ''July 10, 2026''),
     (js ''/docs/sessions/overview'', js ''July 10, 2026''),
     (js ''/docs/sessions/integration'', js ''July 10, 2026''),
     (js ''/docs/sessions/engine'', js ''July 10, 2026''),
     (js ''/docs/sessions/policies'', js ''July 10, 2026''),
     (js ''/docs/sessions/stores'', js ''July 10, 2026''),
     (js ''/docs/sessions/transport'', js ''July 10, 2026''),
     (js ''/docs/sessions/decorators'', js ''July 10, 2026''),
     (js ''/docs/sessions/state'', js ''July 10, 2026''),
     (js ''/docs/sessions/guards'', js ''July 10, 2026''),
     (js ''/docs/sessions/faults'', js ''July 10, 2026''),
     (js ''/docs/middleware'', js ''July 09, 2026''),
     (js ''/docs/middleware/overview'', js ''July 09, 2026''),
     (js ''/docs/middleware/stack'', js ''July 09, 2026''),
     (js ''/docs/middleware/built-in'', js ''July 09, 2026''),
     (js ''/docs/middleware/static'', js ''July 09, 2026''),
     (js ''/docs/middleware/cors'', js ''July 09, 2026''),
     (js ''/docs/middleware/rate-limit'', js ''July 09, 2026''),
     (js ''/docs/middleware/security'', js ''July 09, 2026''),
     (js ''/docs/middleware/request-scope'', js ''July 09, 2026''),
     (js ''/docs/middleware/session'', js ''July 09, 2026''),
     (js ''/docs/middleware/logging'', js ''July 09, 2026''),
     (js ''/docs/middleware/csp'', js ''July 09, 2026''),
     (js ''/docs/middleware/csrf'', js ''July 09, 2026''),
     (js ''/docs/middleware/hsts'', js ''July 09, 2026''),
     (js ''/docs/middleware/https-redirect'', js ''July 09, 2026''),
     (js ''/docs/middleware/proxy-fix'', js ''July 09, 2026''),
     (js ''/docs/middleware/effect'', js ''July 09, 2026''),
     (js ''/docs/aquilary'', js ''July 09, 2026''),
     (js ''/docs/aquilary/overview'', js ''July 09, 2026''),
     (js ''/docs/aquilary/manifest'', js ''July 09, 2026''),
     (js ''/docs/aquilary/runtime'', js ''July 09, 2026''),
     (js ''/docs/aquilary/fingerprint'', js ''July 10, 2026''),
     (js ''/docs/subsystem'', js ''July 10, 2026''),
     (js ''/docs/subsystem/overview'', js ''July 10, 2026''),
     (js ''/docs/subsystem/built-in'', js ''July 10, 2026''),
     (js ''/docs/subsystem/dbtx'', js ''July 10, 2026''),
     (js ''/docs/subsystem/cache'', js ''July 10, 2026''),
     (js ''/docs/subsystem/queue'', js ''July 10, 2026''),
     (js ''/docs/subsystem/http'', js ''July 10, 2026''),
     (js ''/docs/subsystem/storage'', js ''July 10, 2026''),
     (js ''/docs/subsystem/custom'', js ''July 10, 2026''),
     (js ''/docs/subsystem/pipelines'', js ''July 10, 2026''),
     (js ''/docs/subsystem/context-nodes'', js ''July 10, 2026''),
     (js ''/docs/subsystem/layers'', js ''July 10, 2026''),
     (js ''/docs/sse'', js ''July 10, 2026''),
     (js ''/docs/sse/overview'', js ''July 10, 2026''),
     (js ''/docs/sse/standard'', js ''July 10, 2026''),
     (js ''/docs/sse/streams'', js ''July 10, 2026''),
     (js ''/docs/sse/openai'', js ''July 10, 2026''),
     (js ''/docs/sse/resources'', js ''July 10, 2026''),
     (js ''/docs/signing'', js ''July 10, 2026''),
     (js ''/docs/signing/overview'', js ''July 10, 2026''),
     (js ''/docs/signing/signers'', js ''July 10, 2026''),
     (js ''/docs/signing/specialized'', js ''July 10, 2026''),
     (js ''/docs/signing/advanced'', js ''July 10, 2026''),
     (js ''/docs/faults'', js ''July 09, 2026''),
     (js ''/docs/faults/taxonomy'', js ''July 09, 2026''),
     (js ''/docs/faults/engine'', js ''July 09, 2026''),
     (js ''/docs/faults/handlers'', js ''July 09, 2026''),
     (js ''/docs/faults/domains'', js ''July 09, 2026''),
     (js ''/docs/faults/advanced'', js ''July 09, 2026''),
     (js ''/docs/cache'', js ''July 09, 2026''),
     (js ''/docs/cache/configuration'', js ''July 09, 2026''),
     (js ''/docs/cache/cli'', js ''July 09, 2026''),
     (js ''/docs/cache/service'', js ''July 09, 2026''),
     (js ''/docs/cache/backends'', js ''July 09, 2026''),
     (js ''/docs/cache/decorators'', js ''July 09, 2026''),
     (js ''/docs/cache/api-reference'', js ''July 09, 2026''),
     (js ''/docs/http'', js ''July 09, 2026''),
     (js ''/docs/http/client'', js ''July 09, 2026''),
     (js ''/docs/http/sessions'', js ''July 09, 2026''),
     (js ''/docs/http/transport'', js ''July 09, 2026''),
     (js ''/docs/http/advanced'', js ''July 09, 2026''),
     (js ''/docs/http/faults'', js ''July 09, 2026''),
     (js ''/docs/http/integration'', js ''July 09, 2026''),
     (js ''/docs/http/api'', js ''July 09, 2026''),
     (js ''/docs/http/api/request'', js ''July 09, 2026''),
     (js ''/docs/http/api/response'', js ''July 09, 2026''),
     (js ''/docs/http/api/auth'', js ''July 09, 2026''),
     (js ''/docs/http/api/cookies'', js ''July 09, 2026''),
     (js ''/docs/http/api/middleware'', js ''July 09, 2026''),
     (js ''/docs/http/api/multipart'', js ''July 09, 2026''),
     (js ''/docs/http/api/streaming'', js ''July 09, 2026''),
     (js ''/docs/i18n'', js ''July 09, 2026''),
     (js ''/docs/i18n/overview'', js ''July 09, 2026''),
     (js ''/docs/i18n/architecture'', js ''July 09, 2026''),
     (js ''/docs/i18n/configuration'', js ''July 09, 2026''),
     (js ''/docs/i18n/integration'', js ''July 09, 2026''),
     (js ''/docs/i18n/api-reference'', js ''July 09, 2026''),
     (js ''/docs/i18n/cli'', js ''July 09, 2026''),
     (js ''/docs/i18n/edge-cases'', js ''July 09, 2026''),
     (js ''/docs/i18n/troubleshooting'', js ''July 09, 2026''),
     (js ''/docs/i8n'', js ''July 09, 2026''),
     (js ''/docs/i8n/overview'', js ''July 09, 2026''),
     (js ''/docs/i8n/architecture'', js ''July 09, 2026''),
     (js ''/docs/i8n/configuration'', js ''July 09, 2026''),
     (js ''/docs/i8n/integration'', js ''July 09, 2026''),
     (js ''/docs/i8n/api-reference'', js ''July 09, 2026''),
     (js ''/docs/i8n/cli'', js ''July 09, 2026''),
     (js ''/docs/i8n/edge-cases'', js ''July 09, 2026''),
     (js ''/docs/i8n/troubleshooting'', js ''July 09, 2026''),
     (js ''/docs/websockets'', js ''July 09, 2026''),
     (js ''/docs/websockets/controllers'', js ''July 09, 2026''),
     (js ''/docs/websockets/runtime'', js ''July 09, 2026''),
     (js ''/docs/websockets/adapters'', js ''July 09, 2026''),
     (js ''/docs/templates'', js ''July 09, 2026''),
     (js ''/docs/templates/engine'', js ''July 10, 2026'')]"

definition lastUpdated_3 :: "(jstr \<times> jstr) list" where
  "lastUpdated_3 = [
     (js ''/docs/templates/loaders'', js ''July 09, 2026''),
     (js ''/docs/templates/security'', js ''July 09, 2026''),
     (js ''/docs/mail'', js ''July 09, 2026''),
     (js ''/docs/mail/service'', js ''July 09, 2026''),
     (js ''/docs/mail/providers'', js ''July 09, 2026''),
     (js ''/docs/mail/templates'', js ''July 09, 2026''),
     (js ''/docs/cli'', js ''July 09, 2026''),
     (js ''/docs/cli/commands'', js ''May 17, 2026''),
     (js ''/docs/cli/generators'', js ''July 09, 2026''),
     (js ''/docs/cli/core'', js ''July 09, 2026''),
     (js ''/docs/cli/database'', js ''July 09, 2026''),
     (js ''/docs/cli/inspection'', js ''July 09, 2026''),
     (js ''/docs/cli/websockets'', js ''July 09, 2026''),
     (js ''/docs/cli/deploy'', js ''July 09, 2026''),
     (js ''/docs/cli/artifacts'', js ''July 09, 2026''),
     (js ''/docs/cli/subsystems'', js ''July 09, 2026''),
     (js ''/docs/testing'', js ''July 09, 2026''),
     (js ''/docs/testing/client'', js ''July 09, 2026''),
     (js ''/docs/testing/cases'', js ''July 09, 2026''),
     (js ''/docs/testing/mocks'', js ''July 09, 2026''),
     (js ''/docs/testing/runner'', js ''July 09, 2026''),
     (js ''/docs/openapi'', js ''July 09, 2026''),
     (js ''/docs/tasks'', js ''July 09, 2026''),
     (js ''/docs/tasks/overview'', js ''July 09, 2026''),
     (js ''/docs/tasks/api'', js ''July 09, 2026''),
     (js ''/docs/tasks/configuration'', js ''July 09, 2026''),
     (js ''/docs/tasks/retry'', js ''July 09, 2026''),
     (js ''/docs/tasks/scheduling'', js ''July 09, 2026''),
     (js ''/docs/tasks/controller'', js ''July 09, 2026''),
     (js ''/docs/storage'', js ''July 09, 2026''),
     (js ''/docs/storage/overview'', js ''July 09, 2026''),
     (js ''/docs/storage/api'', js ''July 09, 2026''),
     (js ''/docs/storage/configuration'', js ''July 09, 2026''),
     (js ''/docs/storage/backends'', js ''July 09, 2026''),
     (js ''/docs/storage/controller'', js ''July 09, 2026''),
     (js ''/docs/sqlite'', js ''July 09, 2026''),
     (js ''/docs/sqlite/overview'', js ''July 09, 2026''),
     (js ''/docs/sqlite/api'', js ''July 09, 2026''),
     (js ''/docs/sqlite/pool'', js ''July 09, 2026''),
     (js ''/docs/sqlite/transactions'', js ''July 09, 2026''),
     (js ''/docs/sqlite/controller'', js ''July 09, 2026''),
     (js ''/docs/filesystem'', js ''July 09, 2026''),
     (js ''/docs/filesystem/overview'', js ''July 09, 2026''),
     (js ''/docs/filesystem/api'', js ''July 09, 2026''),
     (js ''/docs/filesystem/operations'', js ''July 09, 2026''),
     (js ''/docs/filesystem/controller'', js ''July 09, 2026''),
     (js ''/docs/placeholderpage'', js ''February 19, 2026''),
     (js ''/docs/middleware/builtin'', js ''July 09, 2026''),
     (js ''/docs/middleware/effectmiddleware'', js ''July 09, 2026''),
     (js ''/docs/middleware/requestscope'', js ''July 09, 2026''),
     (js ''/docs/middleware/securityheaders'', js ''July 09, 2026''),
     (js ''/docs/middleware/extended'', js ''July 09, 2026''),
     (js ''/docs/middleware/proxyfix'', js ''July 09, 2026''),
     (js ''/docs/middleware/ratelimit'', js ''July 09, 2026''),
     (js ''/docs/middleware/httpsredirect'', js ''July 09, 2026''),
     (js ''/docs/database/overview'', js ''July 10, 2026''),
     (js ''/docs/request-response/datastructures'', js ''July 06, 2026''),
     (js ''/docs/sse/openaistreaming'', js ''July 10, 2026''),
     (js ''/docs/sse/textjsonstreams'', js ''July 10, 2026''),
     (js ''/docs/sse/resourcemanagement'', js ''July 10, 2026''),
     (js ''/docs/sse/standardevents'', js ''July 10, 2026''),
     (js ''/docs/di/diadvanced'', js ''July 08, 2026''),
     (js ''/docs/di/overview'', js ''July 09, 2026''),
     (js ''/docs/di/requestdag'', js ''July 08, 2026''),
     (js ''/docs/cache/apireference'', js ''July 09, 2026''),
     (js ''/docs/cache/overview'', js ''July 09, 2026''),
     (js ''/docs/faults/overview'', js ''July 09, 2026''),
     (js ''/docs/config/overview'', js ''July 06, 2026''),
     (js ''/docs/auth/authz'', js ''July 08, 2026''),
     (js ''/docs/auth/overview'', js ''July 09, 2026''),
     (js ''/docs/mail/overview'', js ''July 09, 2026''),
     (js ''/docs/websockets/overview'', js ''July 09, 2026''),
     (js ''/docs/server/overview'', js ''July 06, 2026''),
     (js ''/docs/models/transactions/atomiccontexts'', js ''July 08, 2026''),
     (js ''/docs/models/fields/structuredfields'', js ''July 08, 2026''),
     (js ''/docs/models/fields/numericfields'', js ''July 08, 2026''),
     (js ''/docs/models/fields/textfields'', js ''July 08, 2026''),
     (js ''/docs/models/fields/fieldsoverview'', js ''July 08, 2026''),
     (js ''/docs/models/fields/datetimefields'', js ''July 08, 2026''),
     (js ''/docs/models/relationships/hydrationprimitives'', js ''July 08, 2026''),
     (js ''/docs/models/relationships/definingrelationships'', js ''July 08, 2026''),
     (js ''/docs/models/relationships/manytomanyoperations'', js ''July 08, 2026''),
     (js ''/docs/cli/artifactcommands'', js ''July 09, 2026''),
     (js ''/docs/cli/websocketcommands'', js ''July 09, 2026''),
     (js ''/docs/cli/overview'', js ''July 09, 2026''),
     (js ''/docs/cli/databasecommands'', js ''July 09, 2026''),
     (js ''/docs/cli/inspectioncommands'', js ''July 09, 2026''),
     (js ''/docs/cli/deploycommands'', js ''July 09, 2026''),
     (js ''/docs/cli/subsystemcommands'', js ''July 09, 2026''),
     (js ''/docs/cli/corecommands'', js ''July 09, 2026''),
     (js ''/docs/testing/overview'', js ''July 09, 2026''),
     (js ''/docs/getting-started/developerguide'', js ''July 09, 2026''),
     (js ''/docs/getting-started/adminsetup'', js ''July 06, 2026''),
     (js ''/docs/getting-started/quickstart'', js ''July 03, 2026''),
     (js ''/docs/getting-started/installation'', js ''July 03, 2026''),
     (js ''/docs/getting-started/architecture'', js ''July 03, 2026''),
     (js ''/docs/getting-started/projectstructure'', js ''July 06, 2026''),
     (js ''/docs/getting-started/introduction'', js ''July 10, 2026''),
     (js ''/docs/http/overview'', js ''July 09, 2026''),
     (js ''/docs/templates/overview'', js ''July 09, 2026''),
     (js ''/docs/subsystem/customeffects'', js ''July 10, 2026''),
     (js ''/docs/subsystem/cacheeffect'', js ''July 10, 2026''),
     (js ''/docs/subsystem/builtin'', js ''July 10, 2026''),
     (js ''/docs/subsystem/contextnodes'', js ''July 10, 2026''),
     (js ''/docs/subsystem/queueeffect'', js ''July 10, 2026''),
     (js ''/docs/subsystem/storageeffect'', js ''July 10, 2026''),
     (js ''/docs/subsystem/httpeffect'', js ''July 10, 2026''),
     (js ''/docs/routing/overview'', js ''July 06, 2026''),
     (js ''/docs/i18n/apireference'', js ''July 09, 2026''),
     (js ''/docs/i18n/edgecases'', js ''July 09, 2026''),
     (js ''/docs/controllers/requestctx'', js ''July 06, 2026''),
     (js ''/docs/controllers/decorators/overview'', js ''July 06, 2026'')]"

definition lastUpdatedMap :: "(jstr \<times> jstr) list" where
  "lastUpdatedMap = lastUpdated_1 @ lastUpdated_2 @ lastUpdated_3"

end
