(* ===== verification/SiteNav.thy ===== *)
theory SiteNav
  imports SidebarData RouteData LastUpdated JsMap
begin

text \<open>
  Navigation of the documentation: the expansion state of the sidebar
  (\<open>components/Sidebar.tsx\<close>), the suggestions at the end of a page
  (\<open>components/NextSteps.tsx\<close>), and the label, breadcrumbs and date of a page
  (\<open>components/DocsLayout.tsx\<close>). The random numbers \<open>NextSteps\<close> draws are a
  parameter: the number of items, 3 to 5, and the list of the indices drawn.
\<close>

subsection \<open>Sidebar\<close>

definition sidebar_has_prefix :: "jstr \<Rightarrow> jstr \<Rightarrow> bool" where
  "sidebar_has_prefix pathname p = (pathname = p \<or> starts_with pathname (p @ js ''/''))"

text \<open>The paths \<open>crawl\<close> opens.\<close>

function crawl :: "jstr \<Rightarrow> sidebar_item list \<Rightarrow> jstr list" where
  "crawl pathname [] = []"
| "crawl pathname (SidebarItem l p ch # rest) =
     (case ch of
        None \<Rightarrow> crawl pathname rest
      | Some cs \<Rightarrow> (if sidebar_has_prefix pathname p then [p] else []) @ crawl pathname cs @ crawl pathname rest)"
  by pat_completeness auto
termination by (relation "measure (\<lambda>(_, its). size_list size its)") auto

definition openItems :: "jstr \<Rightarrow> jstr list" where
  "openItems pathname = concat (map (\<lambda>s. crawl pathname (sec_items s)) sections)"

type_synonym expansion = "(jstr, bool) jmap"

text \<open>The effect on a change of the address: \<open>{ ...prev, ...openItems }\<close>.\<close>

definition expand_for :: "jstr \<Rightarrow> expansion \<Rightarrow> expansion" where
  "expand_for pathname prev = fold (\<lambda>p. jm_set p True) (openItems pathname) prev"

definition is_expanded :: "expansion \<Rightarrow> jstr \<Rightarrow> bool" where
  "is_expanded expanded p = (jm_get expanded p = Some True)"

definition toggleExpand :: "jstr \<Rightarrow> expansion \<Rightarrow> expansion" where
  "toggleExpand p prev = jm_set p (\<not> is_expanded prev p) prev"

text \<open>The links the menu renders: a leaf is a link, an item with children a button that shows
  them while it is expanded.\<close>

function menu_links :: "expansion \<Rightarrow> sidebar_item list \<Rightarrow> jstr list" where
  "menu_links expanded [] = []"
| "menu_links expanded (SidebarItem l p ch # rest) =
     (if ch = None \<or> ch = Some [] then [p]
      else if is_expanded expanded p then menu_links expanded (the ch) else []) @ menu_links expanded rest"
  by pat_completeness auto
termination
  by (relation "measure (\<lambda>(_, its). size_list size its)") (auto split: option.splits)

definition sidebar_links :: "expansion \<Rightarrow> jstr list" where
  "sidebar_links expanded = concat (map (\<lambda>s. menu_links expanded (sec_items s)) sections)"

subsection \<open>Next steps\<close>

definition item_pages :: "sidebar_item \<Rightarrow> (jstr \<times> jstr) list" where
  "item_pages it = (it_label it, it_path it) #
     (case it_children it of None \<Rightarrow> [] | Some cs \<Rightarrow> map (\<lambda>c. (it_label c, it_path c)) cs)"

definition allPages :: "(jstr \<times> jstr) list" where
  "allPages = concat (map (\<lambda>s. concat (map item_pages (sec_items s))) sections)"

definition sequential_steps :: "jstr \<Rightarrow> (jstr \<times> jstr) list" where
  "sequential_steps pathname =
     (case find_index (\<lambda>p. snd p = pathname) allPages of
        None \<Rightarrow> []
      | Some i \<Rightarrow>
          if i < length allPages - 1
          then allPages ! (i + 1) # (if i < length allPages - 2 then [allPages ! (i + 2)] else [])
          else [])"

text \<open>The \<open>while\<close> loop; \<open>attempts\<close> is a constant of the source and stays 0. \<open>None\<close>: the draws
  given do not fill the list.\<close>

fun fill_steps :: "jstr \<Rightarrow> nat \<Rightarrow> nat list \<Rightarrow> (jstr \<times> jstr) list \<Rightarrow> (jstr \<times> jstr) list option" where
  "fill_steps pathname maxItems [] suggestions =
     (if length suggestions < maxItems then None else Some suggestions)"
| "fill_steps pathname maxItems (r # draws) suggestions =
     (if length suggestions < maxItems then
        (let candidate = allPages ! r;
             isCurrent = (snd candidate = pathname);
             isAlreadyAdded = list_ex (\<lambda>s. snd s = snd candidate) suggestions
         in if \<not> isCurrent \<and> \<not> isAlreadyAdded
            then fill_steps pathname maxItems draws (suggestions @ [candidate])
            else fill_steps pathname maxItems draws suggestions)
      else Some suggestions)"

definition nextSteps :: "(jstr \<times> jstr) list option \<Rightarrow> jstr \<Rightarrow> nat \<Rightarrow> nat list \<Rightarrow> (jstr \<times> jstr) list option" where
  "nextSteps items pathname maxItems draws =
     (case fill_steps pathname maxItems draws (sequential_steps pathname) of
        None \<Rightarrow> None
      | Some suggestions \<Rightarrow> Some (case items of Some its \<Rightarrow> its | None \<Rightarrow> suggestions))"

subsection \<open>Labels and breadcrumbs\<close>

function findItemLabel :: "sidebar_item list \<Rightarrow> jstr \<Rightarrow> jstr option" where
  "findItemLabel [] path = None"
| "findItemLabel (SidebarItem l p ch # rest) path =
     (if to_lower p = to_lower path then Some l
      else (case ch of
          None \<Rightarrow> findItemLabel rest path
        | Some cs \<Rightarrow> (let found = findItemLabel cs path in
            if truthy found then found else findItemLabel rest path)))"
  by pat_completeness auto
termination by (relation "measure (\<lambda>(its, _). size_list size its)") auto

fun sections_label :: "sidebar_section list \<Rightarrow> jstr \<Rightarrow> jstr option" where
  "sections_label [] path = None"
| "sections_label (s # ss) path =
     (let label = findItemLabel (sec_items s) path in if truthy label then label else sections_label ss path)"

definition pageLabel :: "jstr \<Rightarrow> jstr" where
  "pageLabel pathname = (case sections_label sections pathname of None \<Rightarrow> js ''Documentation'' | Some l \<Rightarrow> l)"

definition BASE_URL :: jstr where
  "BASE_URL = js ''https://tubox.cloud''"

definition crumb_label :: "jstr \<Rightarrow> jstr option" where
  "crumb_label currentPath =
     (if currentPath = js ''/docs'' then Some (js ''Documentation'') else sections_label sections currentPath)"

fun crumb_loop :: "jstr list \<Rightarrow> jstr \<Rightarrow> (jstr \<times> jstr) list \<Rightarrow> (jstr \<times> jstr) list" where
  "crumb_loop [] currentPath crumbs = crumbs"
| "crumb_loop (p # parts) currentPath crumbs =
     (let currentPath = currentPath @ js ''/'' @ p in
      case crumb_label currentPath of
        None \<Rightarrow> crumb_loop parts currentPath crumbs
      | Some label \<Rightarrow> crumb_loop parts currentPath (crumbs @ [(label, BASE_URL @ currentPath)]))"

definition getBreadcrumbs :: "jstr \<Rightarrow> (jstr \<times> jstr) list" where
  "getBreadcrumbs pathname =
     (let crumbs = [(js ''Home'', BASE_URL @ js ''/'')] in
      if pathname = js ''/docs'' \<or> pathname = js ''/docs/''
      then crumbs @ [(js ''Documentation'', BASE_URL @ js ''/docs'')]
      else crumb_loop (filter (\<lambda>p. p \<noteq> []) (split_char 47 pathname)) [] crumbs)"

definition getPageLastUpdated :: "jstr \<Rightarrow> jstr" where
  "getPageLastUpdated path =
     (let low = to_lower path; normPath = (if ends_with low (js ''/'') then butlast low else low)
      in str_or (map_of lastUpdatedMap normPath) (js ''July 10, 2026''))"

end
