(* ===== verification/SiteNavFacts.thy ===== *)
theory SiteNavFacts
  imports SiteNav
begin

text \<open>
  Facts on the navigation: the menu against the route table, the breadcrumb loop against its
  specification, the suggestions of a page, the visibility of the page one is on, and the
  table of dates.
\<close>

subsection \<open>Evaluating paths\<close>

lemma js_inj: "js s = js t \<longleftrightarrow> s = t"
  by (induction s arbitrary: t) (case_tac t; simp)+

lemma js_append: "js s @ js t = js (s @ t)"
  by (simp add: js_def)

lemma js_starts_with: "starts_with (js s) (js t) \<longleftrightarrow> take (length t) s = t"
  by (induction "js s" "js t" arbitrary: s t rule: starts_with.induct) (auto simp: js_def)

text \<open>The paths of all items, with children of any depth.\<close>

function item_paths :: "sidebar_item list \<Rightarrow> jstr list" where
  "item_paths [] = []"
| "item_paths (SidebarItem l p ch # rest) =
     p # (case ch of None \<Rightarrow> [] | Some cs \<Rightarrow> item_paths cs) @ item_paths rest"
  by pat_completeness auto
termination by (relation "measure (size_list size)") auto

definition sidebar_paths :: "jstr list" where
  "sidebar_paths = concat (map (\<lambda>s. item_paths (sec_items s)) sections)"

lemmas route_eval = doc_address_def js_append js_inj

declare js_Cons [simp del] js_Nil [simp del]

subsection \<open>Every menu entry has a route\<close>

lemma routed_section_getting_started:
  "set (item_paths (sec_items section_getting_started)) \<subseteq> set (map doc_address (routes_getting_started))"
  by (simp add: route_eval section_getting_started_def routes_getting_started_def)

lemma routed_section_tutorials:
  "set (item_paths (sec_items section_tutorials)) - {js ''/docs/tutorials''} \<subseteq> set (map doc_address (routes_tutorials))"
  by (simp add: route_eval section_tutorials_def routes_tutorials_def)

lemma routed_section_core:
  "set (item_paths (sec_items section_core)) \<subseteq> set (map doc_address (routes_server @ routes_config @ routes_request_response @ routes_controllers @ routes_routing))"
  by (simp add: route_eval section_core_def routes_server_def routes_config_def routes_request_response_def routes_controllers_def routes_routing_def)

lemma routed_section_dependency_injection:
  "set (item_paths (sec_items section_dependency_injection)) \<subseteq> set (map doc_address (routes_di))"
  by (simp add: route_eval section_dependency_injection_def routes_di_def)

lemma routed_section_data_layer:
  "set (item_paths (sec_items section_data_layer)) \<subseteq> set (map doc_address (routes_models @ routes_fields_subpages @ routes_relationships_subpages @ routes_transactions_subpages @ routes_database @ routes_sqlite @ routes_storage @ routes_contracts))"
  by (simp add: route_eval section_data_layer_def routes_models_def routes_fields_subpages_def routes_relationships_subpages_def routes_transactions_subpages_def routes_database_def routes_sqlite_def routes_storage_def routes_contracts_def)

lemma routed_section_security_auth:
  "set (item_paths (sec_items section_security_auth)) \<subseteq> set (map doc_address (routes_auth @ routes_sessions @ routes_cryptographic_signing))"
  by (simp add: route_eval section_security_auth_def routes_auth_def routes_sessions_def routes_cryptographic_signing_def)

lemma routed_section_middleware:
  "set (item_paths (sec_items section_middleware)) \<subseteq> set (map doc_address (routes_middleware))"
  by (simp add: route_eval section_middleware_def routes_middleware_def)

lemma routed_section_realtime_network:
  "set (item_paths (sec_items section_realtime_network)) \<subseteq> set (map doc_address (routes_http_client @ routes_websockets @ routes_server_sent_events_sse))"
  by (simp add: route_eval section_realtime_network_def routes_http_client_def routes_websockets_def routes_server_sent_events_sse_def)

lemma routed_section_caching:
  "set (item_paths (sec_items section_caching)) \<subseteq> set (map doc_address (routes_cache))"
  by (simp add: route_eval section_caching_def routes_cache_def)

lemma routed_section_storage_filesystem:
  "set (item_paths (sec_items section_storage_filesystem)) \<subseteq> set (map doc_address (routes_storage @ routes_filesystem))"
  by (simp add: route_eval section_storage_filesystem_def routes_storage_def routes_filesystem_def)

lemma routed_section_localization_i18n:
  "set (item_paths (sec_items section_localization_i18n)) \<subseteq> set (map doc_address (routes_i18n))"
  by (simp add: route_eval section_localization_i18n_def routes_i18n_def)

lemma routed_section_templates_mail:
  "set (item_paths (sec_items section_templates_mail)) \<subseteq> set (map doc_address (routes_templates @ routes_mail))"
  by (simp add: route_eval section_templates_mail_def routes_templates_def routes_mail_def)

lemma routed_section_background_jobs:
  "set (item_paths (sec_items section_background_jobs)) \<subseteq> set (map doc_address (routes_tasks))"
  by (simp add: route_eval section_background_jobs_def routes_tasks_def)

lemma routed_section_tooling:
  "set (item_paths (sec_items section_tooling)) \<subseteq> set (map doc_address (routes_cli @ routes_testing @ routes_openapi))"
  by (simp add: route_eval section_tooling_def routes_cli_def routes_testing_def routes_openapi_def)

lemma routed_section_dev_platform:
  "set (item_paths (sec_items section_dev_platform)) \<subseteq> set (map doc_address (routes_dev_platform))"
  by (simp add: route_eval section_dev_platform_def routes_dev_platform_def)

lemma routed_section_deployment_providers:
  "set (item_paths (sec_items section_deployment_providers)) \<subseteq> set (map doc_address (routes_providers_deployment))"
  by (simp add: route_eval section_deployment_providers_def routes_providers_deployment_def)

lemma routed_section_advanced:
  "set (item_paths (sec_items section_advanced)) \<subseteq> set (map doc_address (routes_aquilary @ routes_subsystem @ routes_faults))"
  by (simp add: route_eval section_advanced_def routes_aquilary_def routes_subsystem_def routes_faults_def)

text \<open>The routes each section needs are in the table.\<close>

lemma doc_route_declared: "set (map doc_address rs) \<subseteq> set declared_paths" if "set rs \<subseteq> set doc_routes"
  using that by (auto simp: declared_paths_def)

lemma tutorials_not_declared: "js ''/docs/tutorials'' \<notin> set declared_paths"
  by (simp add: declared_paths_def doc_routes_def route_eval site_routes_def routes_getting_started_def routes_tutorials_def routes_server_def routes_config_def routes_request_response_def routes_controllers_def routes_routing_def routes_di_def routes_models_def routes_fields_subpages_def routes_relationships_subpages_def routes_transactions_subpages_def routes_contracts_def routes_database_def routes_auth_def routes_sessions_def routes_middleware_def routes_aquilary_def routes_subsystem_def routes_server_sent_events_sse_def routes_cryptographic_signing_def routes_faults_def routes_cache_def routes_http_client_def routes_i18n_def routes_i8n_alias_routes_def routes_websockets_def routes_templates_def routes_mail_def routes_cli_def routes_testing_def routes_openapi_def routes_tasks_def routes_storage_def routes_sqlite_def routes_filesystem_def routes_providers_deployment_def routes_dev_platform_def routes_docs_wildcard_404_def fallback_routes_def)

lemma declared_section_getting_started: "set (item_paths (sec_items section_getting_started)) \<subseteq> set declared_paths"
  by (rule subset_trans [OF routed_section_getting_started doc_route_declared]) (auto simp: doc_routes_def)

lemma declared_section_tutorials: "set (item_paths (sec_items section_tutorials)) - {js ''/docs/tutorials''} \<subseteq> set declared_paths"
  by (rule subset_trans [OF routed_section_tutorials doc_route_declared]) (auto simp: doc_routes_def)

lemma declared_section_core: "set (item_paths (sec_items section_core)) \<subseteq> set declared_paths"
  by (rule subset_trans [OF routed_section_core doc_route_declared]) (auto simp: doc_routes_def)

lemma declared_section_dependency_injection: "set (item_paths (sec_items section_dependency_injection)) \<subseteq> set declared_paths"
  by (rule subset_trans [OF routed_section_dependency_injection doc_route_declared]) (auto simp: doc_routes_def)

lemma declared_section_data_layer: "set (item_paths (sec_items section_data_layer)) \<subseteq> set declared_paths"
  by (rule subset_trans [OF routed_section_data_layer doc_route_declared]) (auto simp: doc_routes_def)

lemma declared_section_security_auth: "set (item_paths (sec_items section_security_auth)) \<subseteq> set declared_paths"
  by (rule subset_trans [OF routed_section_security_auth doc_route_declared]) (auto simp: doc_routes_def)

lemma declared_section_middleware: "set (item_paths (sec_items section_middleware)) \<subseteq> set declared_paths"
  by (rule subset_trans [OF routed_section_middleware doc_route_declared]) (auto simp: doc_routes_def)

lemma declared_section_realtime_network: "set (item_paths (sec_items section_realtime_network)) \<subseteq> set declared_paths"
  by (rule subset_trans [OF routed_section_realtime_network doc_route_declared]) (auto simp: doc_routes_def)

lemma declared_section_caching: "set (item_paths (sec_items section_caching)) \<subseteq> set declared_paths"
  by (rule subset_trans [OF routed_section_caching doc_route_declared]) (auto simp: doc_routes_def)

lemma declared_section_storage_filesystem: "set (item_paths (sec_items section_storage_filesystem)) \<subseteq> set declared_paths"
  by (rule subset_trans [OF routed_section_storage_filesystem doc_route_declared]) (auto simp: doc_routes_def)

lemma declared_section_localization_i18n: "set (item_paths (sec_items section_localization_i18n)) \<subseteq> set declared_paths"
  by (rule subset_trans [OF routed_section_localization_i18n doc_route_declared]) (auto simp: doc_routes_def)

lemma declared_section_templates_mail: "set (item_paths (sec_items section_templates_mail)) \<subseteq> set declared_paths"
  by (rule subset_trans [OF routed_section_templates_mail doc_route_declared]) (auto simp: doc_routes_def)

lemma declared_section_background_jobs: "set (item_paths (sec_items section_background_jobs)) \<subseteq> set declared_paths"
  by (rule subset_trans [OF routed_section_background_jobs doc_route_declared]) (auto simp: doc_routes_def)

lemma declared_section_tooling: "set (item_paths (sec_items section_tooling)) \<subseteq> set declared_paths"
  by (rule subset_trans [OF routed_section_tooling doc_route_declared]) (auto simp: doc_routes_def)

lemma declared_section_dev_platform: "set (item_paths (sec_items section_dev_platform)) \<subseteq> set declared_paths"
  by (rule subset_trans [OF routed_section_dev_platform doc_route_declared]) (auto simp: doc_routes_def)

lemma declared_section_deployment_providers: "set (item_paths (sec_items section_deployment_providers)) \<subseteq> set declared_paths"
  by (rule subset_trans [OF routed_section_deployment_providers doc_route_declared]) (auto simp: doc_routes_def)

lemma declared_section_advanced: "set (item_paths (sec_items section_advanced)) \<subseteq> set declared_paths"
  by (rule subset_trans [OF routed_section_advanced doc_route_declared]) (auto simp: doc_routes_def)

lemmas declared_sections = declared_section_getting_started
  declared_section_tutorials
  declared_section_core
  declared_section_dependency_injection
  declared_section_data_layer
  declared_section_security_auth
  declared_section_middleware
  declared_section_realtime_network
  declared_section_caching
  declared_section_storage_filesystem
  declared_section_localization_i18n
  declared_section_templates_mail
  declared_section_background_jobs
  declared_section_tooling
  declared_section_dev_platform
  declared_section_deployment_providers
  declared_section_advanced

lemma section_declared:
  "s \<in> set sections \<Longrightarrow> set (item_paths (sec_items s)) - {js ''/docs/tutorials''} \<subseteq> set declared_paths"
  unfolding sections_def using declared_sections by auto

text \<open>C31: The menu has no dead entry but one: every path of the sidebar is the path of a declared
  route, except \<open>/docs/tutorials\<close>, which no route has; the menu only expands that entry, but it
  is one of the pages the suggestions at the end of a page are drawn from.\<close>

theorem sidebar_paths_declared:
  "set sidebar_paths - {js ''/docs/tutorials''} \<subseteq> set declared_paths \<and>
   js ''/docs/tutorials'' \<notin> set declared_paths \<and> js ''/docs/tutorials'' \<in> snd ` set allPages"
proof -
  have "js ''/docs/tutorials'' \<in> snd ` set allPages"
    by (auto simp: allPages_def sections_def section_tutorials_def item_pages_def image_iff)
  then show ?thesis
    using section_declared tutorials_not_declared by (auto simp: sidebar_paths_def)
qed

subsection \<open>Breadcrumbs\<close>

text \<open>The addresses of the ancestors of a page, from the outermost.\<close>

fun ancestors :: "jstr \<Rightarrow> jstr list \<Rightarrow> jstr list" where
  "ancestors base [] = []"
| "ancestors base (p # ps) = (base @ js ''/'' @ p) # ancestors (base @ js ''/'' @ p) ps"

lemma crumb_loop_spec:
  "crumb_loop ps base crumbs = crumbs @
     map (\<lambda>a. (the (crumb_label a), BASE_URL @ a)) (filter (\<lambda>a. crumb_label a \<noteq> None) (ancestors base ps))"
  by (induction ps base crumbs rule: crumb_loop.induct) (auto simp: Let_def split: option.splits)

lemma sections_label_truthy: "sections_label ss a = Some l \<Longrightarrow> l \<noteq> []"
  by (induction ss) (auto simp: Let_def split: if_splits elim: truthy.elims)

lemma js_docs_eq: "crumb_label (js ''/docs'') = Some (js ''Documentation'')"
  by (simp add: crumb_label_def)

text \<open>The breadcrumbs of a page are \<open>Home\<close> followed by one crumb for each ancestor address of
  the page, in order, that has a label, and none for the others; a crumb carries the label of its
  address, which is not empty, and the address below the site's URL.\<close>

theorem getBreadcrumbs_ancestors:
  "getBreadcrumbs pathname = (js ''Home'', BASE_URL @ js ''/'') #
     map (\<lambda>a. (the (crumb_label a), BASE_URL @ a))
       (filter (\<lambda>a. crumb_label a \<noteq> None) (ancestors [] (filter (\<lambda>p. p \<noteq> []) (split_char 47 pathname)))) \<and>
   list_all (\<lambda>c. fst c \<noteq> []) (getBreadcrumbs pathname)"
proof
  have d: "crumb_label (js ''/docs'') = Some (js ''Documentation'')" by (rule js_docs_eq)
  have 1: "ancestors [] (filter (\<lambda>p. p \<noteq> []) (split_char 47 (js ''/docs''))) = [js ''/docs'']"
    and 2: "ancestors [] (filter (\<lambda>p. p \<noteq> []) (split_char 47 (js ''/docs/''))) = [js ''/docs'']"
    by (simp_all add: js_def)
  show e: "getBreadcrumbs pathname = (js ''Home'', BASE_URL @ js ''/'') #
     map (\<lambda>a. (the (crumb_label a), BASE_URL @ a))
       (filter (\<lambda>a. crumb_label a \<noteq> None) (ancestors [] (filter (\<lambda>p. p \<noteq> []) (split_char 47 pathname))))"
    by (cases "pathname = js ''/docs'' \<or> pathname = js ''/docs/''")
      (auto simp: getBreadcrumbs_def crumb_loop_spec 1 2 d)
  have "crumb_label a = Some l \<Longrightarrow> l \<noteq> []" for a l
    by (auto simp: crumb_label_def js_def dest: sections_label_truthy split: if_splits)
  then show "list_all (\<lambda>c. fst c \<noteq> []) (getBreadcrumbs pathname)"
    by (auto simp: e list_all_iff js_def)
qed

subsection \<open>Next steps\<close>

text \<open>What the loop adds is new, is not the current page, and stops at the wanted number.\<close>

lemma fill_steps_Cons:
  "fill_steps pathname n (r # draws) sugg =
     (if length sugg < n then
        fill_steps pathname n draws
          (if snd (allPages ! r) \<noteq> pathname \<and> snd (allPages ! r) \<notin> snd ` set sugg
           then sugg @ [allPages ! r] else sugg)
      else Some sugg)"
  by (auto simp: Let_def list_ex_iff image_iff)

lemma fill_steps_spec:
  "fill_steps pathname n draws sugg = Some s \<Longrightarrow> \<forall>r \<in> set draws. r < length allPages \<Longrightarrow>
   \<exists>added. s = sugg @ added \<and> set added \<subseteq> set allPages \<and> pathname \<notin> snd ` set added \<and>
     distinct (map snd added) \<and> snd ` set added \<inter> snd ` set sugg = {} \<and> length s = max n (length sugg)"
proof (induction draws arbitrary: sugg)
  case Nil
  then show ?case by (auto split: if_splits)
next
  case (Cons r draws)
  let ?c = "allPages ! r"
  consider "\<not> length sugg < n" | "length sugg < n" "snd ?c = pathname \<or> snd ?c \<in> snd ` set sugg"
    | "length sugg < n" "snd ?c \<noteq> pathname" "snd ?c \<notin> snd ` set sugg" by blast
  then show ?case
  proof cases
    case 1
    with Cons.prems show ?thesis by (simp add: fill_steps_Cons del: fill_steps.simps)
  next
    case 2
    then have neg: "(snd ?c \<noteq> pathname \<and> snd ?c \<notin> snd ` set sugg) = False" by blast
    have "fill_steps pathname n draws sugg = Some s"
      using Cons.prems(1) 2(1) unfolding fill_steps_Cons neg by simp
    with Cons show ?thesis by simp
  next
    case 3
    then have f: "fill_steps pathname n draws (sugg @ [?c]) = Some s"
      using Cons.prems by (simp add: fill_steps_Cons del: fill_steps.simps)
    have "\<forall>r \<in> set draws. r < length allPages" using Cons.prems by simp
    from Cons.IH [OF f this] obtain added where a: "s = (sugg @ [?c]) @ added" "set added \<subseteq> set allPages"
      "pathname \<notin> snd ` set added" "distinct (map snd added)"
      "snd ` set added \<inter> snd ` set (sugg @ [?c]) = {}" "length s = max n (length (sugg @ [?c]))"
      by blast
    have "?c \<in> set allPages" using Cons.prems by simp
    with a 3 show ?thesis by (intro exI [of _ "?c # added"]) auto
  qed
qed

text \<open>Enough different pages among the draws fill the list.\<close>

lemma fill_steps_returns:
  "n \<le> length sugg + card ((\<lambda>r. snd (allPages ! r)) ` set draws - snd ` set sugg - {pathname}) \<Longrightarrow>
   fill_steps pathname n draws sugg \<noteq> None"
proof (induction draws arbitrary: sugg)
  case (Cons r draws)
  let ?c = "snd (allPages ! r)" and ?P = "(\<lambda>r. snd (allPages ! r)) ` set draws" and ?Q = "snd ` set sugg"
  show ?case
  proof (cases "?c \<noteq> pathname \<and> ?c \<notin> ?Q")
    case True
    have "insert ?c ?P - ?Q - {pathname} = insert ?c (?P - insert ?c ?Q - {pathname})" using True by auto
    then have "card (insert ?c ?P - ?Q - {pathname}) = Suc (card (?P - insert ?c ?Q - {pathname}))"
      by (simp add: card_insert_if)
    then have "n \<le> length (sugg @ [allPages ! r]) + card (?P - snd ` set (sugg @ [allPages ! r]) - {pathname})"
      using Cons.prems by simp
    then show ?thesis using True Cons.IH by (simp only: fill_steps_Cons) simp
  next
    case False
    then have "insert ?c ?P - ?Q - {pathname} = ?P - ?Q - {pathname}" by auto
    then have "n \<le> length sugg + card (?P - ?Q - {pathname})" using Cons.prems by simp
    then show ?thesis using False Cons.IH by (simp only: fill_steps_Cons) simp
  qed
qed simp

text \<open>C34: The suggestions at the end of a page, when its caller gives none, are the pages that
  follow it in the menu and then drawn pages up to the wanted number: the drawn ones are pages
  of the menu, none is the current page or repeats another suggestion; and the loop returns as
  soon as enough different pages have been drawn.\<close>

theorem nextSteps_spec:
  assumes "\<forall>r \<in> set draws. r < length allPages"
  shows "(\<forall>s. nextSteps None pathname n draws = Some s \<longrightarrow>
      (\<exists>added. s = sequential_steps pathname @ added \<and> set added \<subseteq> set allPages \<and>
         pathname \<notin> snd ` set added \<and> distinct (map snd added) \<and>
         snd ` set added \<inter> snd ` set (sequential_steps pathname) = {} \<and>
         length s = max n (length (sequential_steps pathname)))) \<and>
    (n \<le> length (sequential_steps pathname) +
       card ((\<lambda>r. snd (allPages ! r)) ` set draws - snd ` set (sequential_steps pathname) - {pathname}) \<longrightarrow>
     nextSteps None pathname n draws \<noteq> None)"
proof (intro conjI allI impI)
  fix s
  assume "nextSteps None pathname n draws = Some s"
  then have "fill_steps pathname n draws (sequential_steps pathname) = Some s"
    by (simp add: nextSteps_def split: option.splits)
  from fill_steps_spec [OF this assms]
  show "\<exists>added. s = sequential_steps pathname @ added \<and> set added \<subseteq> set allPages \<and>
      pathname \<notin> snd ` set added \<and> distinct (map snd added) \<and>
      snd ` set added \<inter> snd ` set (sequential_steps pathname) = {} \<and>
      length s = max n (length (sequential_steps pathname))" .
next
  assume "n \<le> length (sequential_steps pathname) +
       card ((\<lambda>r. snd (allPages ! r)) ` set draws - snd ` set (sequential_steps pathname) - {pathname})"
  from fill_steps_returns [OF this] show "nextSteps None pathname n draws \<noteq> None"
    by (auto simp: nextSteps_def split: option.splits)
qed

theorem nextSteps_spec_witness:
  "nextSteps None (js ''/docs'') 3 [3] \<noteq> None"
proof -
  obtain r where r: "allPages = (js ''Introduction'', js ''/docs'') # (js ''Installation'', js ''/docs/installation'') #
      (js ''Native Extensions'', js ''/docs/native-extensions'') # (js ''Quick Start'', js ''/docs/quickstart'') # r"
    by (simp add: allPages_def sections_def section_getting_started_def item_pages_def)
  have s: "sequential_steps (js ''/docs'') = [(js ''Installation'', js ''/docs/installation''),
      (js ''Native Extensions'', js ''/docs/native-extensions'')]"
    unfolding sequential_steps_def r by (simp add: numeral_2_eq_2)
  have n: "snd (allPages ! 3) = js ''/docs/quickstart''" by (simp add: r)
  show ?thesis
    using nextSteps_spec [of "[3]" "js ''/docs''" 3] by (simp add: s n js_inj) (simp add: r)
qed

text \<open>The pages of one section, in menu order.\<close>

definition section_pages :: "sidebar_section \<Rightarrow> jstr list" where
  "section_pages s = map snd (concat (map item_pages (sec_items s)))"

lemma page_sections: "map snd allPages = concat (map section_pages sections)"
  by (simp add: allPages_def section_pages_def [abs_def] map_concat comp_def)

text \<open>A page listed twice in a row at its first occurrence is its own next step.\<close>

lemma listed_twice:
  assumes "map snd allPages = us @ p # p # vs" "p \<notin> set us"
  shows "map snd (take 1 (sequential_steps p)) = [p]"
proof -
  have f: "find_index (\<lambda>q. snd q = p) xs = Some (length us)" if "map snd xs = us @ p # p # vs" "p \<notin> set us"
    for xs :: "(jstr \<times> jstr) list" and us
    using that by (induction us arbitrary: xs) (auto simp: Cons_eq_map_conv map_eq_Cons_conv)
  have l: "length allPages = length us + 2 + length vs" using arg_cong [OF assms(1), of length] by simp
  have "snd (allPages ! (length us + 1)) = (us @ p # p # vs) ! (length us + 1)"
    using l by (simp flip: assms(1))
  then show ?thesis using l by (simp add: sequential_steps_def f [OF assms] nth_append)
qed

lemma pages_getting_started: "section_pages section_getting_started =
  map js [''/docs'', ''/docs/installation'', ''/docs/native-extensions'', ''/docs/quickstart'', ''/docs/developer-guide'', ''/docs/architecture'', ''/docs/project-structure'', ''/docs/admin-panel'']"
  by (simp add: section_pages_def section_getting_started_def item_pages_def)

lemma pages_tutorials: "section_pages section_tutorials =
  map js [''/docs/tutorials'', ''/docs/tutorials/overview'', ''/docs/tutorials/todo-app'', ''/docs/tutorials/auth-app'']"
  by (simp add: section_pages_def section_tutorials_def item_pages_def)

lemma pages_core: "section_pages section_core =
  map js [''/docs/server'', ''/docs/server/aquilia-server'', ''/docs/server/asgi'', ''/docs/server/lifecycle'', ''/docs/config'', ''/docs/config/loader'', ''/docs/config/pyconfig'', ''/docs/config/dotenv'', ''/docs/config/workspace'', ''/docs/config/module'', ''/docs/config/manifest'', ''/docs/config/integrations'', ''/docs/request-response'', ''/docs/request-response/request'', ''/docs/request-response/response'', ''/docs/request-response/data-structures'', ''/docs/request-response/uploads'', ''/docs/controllers'', ''/docs/controllers/overview'', ''/docs/controllers/resource'', ''/docs/controllers/throttle'', ''/docs/controllers/attributes'', ''/docs/controllers/request-ctx'', ''/docs/controllers/factory'', ''/docs/controllers/engine'', ''/docs/controllers/compiler'', ''/docs/controllers/router'', ''/docs/controllers/openapi'', ''/docs/controllers/validation'', ''/docs/controllers/pagination'', ''/docs/controllers/filters'', ''/docs/controllers/renderers'', ''/docs/controllers/decorators'', ''/docs/routing'', ''/docs/routing/patterns'', ''/docs/routing/router'', ''/docs/routing/urls'']"
  by (simp add: section_pages_def section_core_def item_pages_def)

lemma pages_dependency_injection: "section_pages section_dependency_injection =
  map js [''/docs/di'', ''/docs/di'', ''/docs/di/container'', ''/docs/di/providers'', ''/docs/di/scopes'', ''/docs/di/decorators'', ''/docs/di/request-dag'', ''/docs/di/extractors'', ''/docs/di/lifecycle'', ''/docs/di/diagnostics'', ''/docs/di/advanced'', ''/docs/di/patterns'', ''/docs/di/troubleshooting'']"
  by (simp add: section_pages_def section_dependency_injection_def item_pages_def)

lemma pages_data_layer: "section_pages section_data_layer =
  map js [''/docs/models'', ''/docs/models/overview'', ''/docs/models/fields'', ''/docs/models/queryset'', ''/docs/models/relationships'', ''/docs/models/transactions'', ''/docs/models/signals'', ''/docs/models/aggregation'', ''/docs/models/window-functions'', ''/docs/models/migrations'', ''/docs/models/advanced'', ''/docs/database'', ''/docs/database'', ''/docs/database/engine'', ''/docs/database/configs'', ''/docs/database/sqlite'', ''/docs/database/postgresql'', ''/docs/database/mysql'', ''/docs/sqlite'', ''/docs/sqlite/overview'', ''/docs/sqlite/api'', ''/docs/sqlite/pool'', ''/docs/sqlite/transactions'', ''/docs/sqlite/controller'', ''/docs/vectordb'', ''/docs/vectordb'', ''/docs/vectordb/models'', ''/docs/vectordb/queries'', ''/docs/vectordb/interop'', ''/docs/vectordb/cli'', ''/docs/contracts'', ''/docs/contracts/overview'', ''/docs/contracts/facets'', ''/docs/contracts/projections'', ''/docs/contracts/lenses'', ''/docs/contracts/seals'', ''/docs/contracts/async-pipeline'', ''/docs/contracts/validation-control'', ''/docs/contracts/annotations'', ''/docs/contracts/integration'', ''/docs/contracts/schemas'', ''/docs/contracts/faults'']"
  by (simp add: section_pages_def section_data_layer_def item_pages_def)

lemma pages_security_auth: "section_pages section_security_auth =
  map js [''/docs/auth'', ''/docs/auth'', ''/docs/auth/identity'', ''/docs/auth/credentials'', ''/docs/auth/manager'', ''/docs/auth/oauth'', ''/docs/auth/mfa'', ''/docs/auth/tokens'', ''/docs/auth/stores'', ''/docs/auth/guards'', ''/docs/auth/faults'', ''/docs/auth/integration'', ''/docs/auth/advanced'', ''/docs/authz'', ''/docs/authz'', ''/docs/authz/rbac'', ''/docs/authz/abac'', ''/docs/authz/policies'', ''/docs/sessions'', ''/docs/sessions/overview'', ''/docs/sessions/integration'', ''/docs/sessions/engine'', ''/docs/sessions/policies'', ''/docs/sessions/stores'', ''/docs/sessions/transport'', ''/docs/sessions/decorators'', ''/docs/sessions/state'', ''/docs/sessions/guards'', ''/docs/sessions/faults'', ''/docs/signing'', ''/docs/signing/overview'', ''/docs/signing/signers'', ''/docs/signing/specialized'', ''/docs/signing/advanced'']"
  by (simp add: section_pages_def section_security_auth_def item_pages_def)

lemma self_di: "map snd (take 1 (sequential_steps (js ''/docs/di''))) = [js ''/docs/di'']"
  by (rule listed_twice [of "section_pages section_getting_started @ section_pages section_tutorials @ section_pages section_core @ []" _ "[js ''/docs/di/container'', js ''/docs/di/providers'', js ''/docs/di/scopes'', js ''/docs/di/decorators'', js ''/docs/di/request-dag'', js ''/docs/di/extractors'', js ''/docs/di/lifecycle'', js ''/docs/di/diagnostics'', js ''/docs/di/advanced'', js ''/docs/di/patterns'', js ''/docs/di/troubleshooting''] @ concat (map section_pages (drop 4 sections))"])
    (simp_all add: page_sections sections_def js_inj pages_getting_started pages_tutorials pages_core pages_dependency_injection pages_data_layer pages_security_auth)

lemma self_database: "map snd (take 1 (sequential_steps (js ''/docs/database''))) = [js ''/docs/database'']"
  by (rule listed_twice [of "section_pages section_getting_started @ section_pages section_tutorials @ section_pages section_core @ section_pages section_dependency_injection @ [js ''/docs/models'', js ''/docs/models/overview'', js ''/docs/models/fields'', js ''/docs/models/queryset'', js ''/docs/models/relationships'', js ''/docs/models/transactions'', js ''/docs/models/signals'', js ''/docs/models/aggregation'', js ''/docs/models/window-functions'', js ''/docs/models/migrations'', js ''/docs/models/advanced'']" _ "[js ''/docs/database/engine'', js ''/docs/database/configs'', js ''/docs/database/sqlite'', js ''/docs/database/postgresql'', js ''/docs/database/mysql'', js ''/docs/sqlite'', js ''/docs/sqlite/overview'', js ''/docs/sqlite/api'', js ''/docs/sqlite/pool'', js ''/docs/sqlite/transactions'', js ''/docs/sqlite/controller'', js ''/docs/vectordb'', js ''/docs/vectordb'', js ''/docs/vectordb/models'', js ''/docs/vectordb/queries'', js ''/docs/vectordb/interop'', js ''/docs/vectordb/cli'', js ''/docs/contracts'', js ''/docs/contracts/overview'', js ''/docs/contracts/facets'', js ''/docs/contracts/projections'', js ''/docs/contracts/lenses'', js ''/docs/contracts/seals'', js ''/docs/contracts/async-pipeline'', js ''/docs/contracts/validation-control'', js ''/docs/contracts/annotations'', js ''/docs/contracts/integration'', js ''/docs/contracts/schemas'', js ''/docs/contracts/faults''] @ concat (map section_pages (drop 5 sections))"])
    (simp_all add: page_sections sections_def js_inj pages_getting_started pages_tutorials pages_core pages_dependency_injection pages_data_layer pages_security_auth)

lemma self_vectordb: "map snd (take 1 (sequential_steps (js ''/docs/vectordb''))) = [js ''/docs/vectordb'']"
  by (rule listed_twice [of "section_pages section_getting_started @ section_pages section_tutorials @ section_pages section_core @ section_pages section_dependency_injection @ [js ''/docs/models'', js ''/docs/models/overview'', js ''/docs/models/fields'', js ''/docs/models/queryset'', js ''/docs/models/relationships'', js ''/docs/models/transactions'', js ''/docs/models/signals'', js ''/docs/models/aggregation'', js ''/docs/models/window-functions'', js ''/docs/models/migrations'', js ''/docs/models/advanced'', js ''/docs/database'', js ''/docs/database'', js ''/docs/database/engine'', js ''/docs/database/configs'', js ''/docs/database/sqlite'', js ''/docs/database/postgresql'', js ''/docs/database/mysql'', js ''/docs/sqlite'', js ''/docs/sqlite/overview'', js ''/docs/sqlite/api'', js ''/docs/sqlite/pool'', js ''/docs/sqlite/transactions'', js ''/docs/sqlite/controller'']" _ "[js ''/docs/vectordb/models'', js ''/docs/vectordb/queries'', js ''/docs/vectordb/interop'', js ''/docs/vectordb/cli'', js ''/docs/contracts'', js ''/docs/contracts/overview'', js ''/docs/contracts/facets'', js ''/docs/contracts/projections'', js ''/docs/contracts/lenses'', js ''/docs/contracts/seals'', js ''/docs/contracts/async-pipeline'', js ''/docs/contracts/validation-control'', js ''/docs/contracts/annotations'', js ''/docs/contracts/integration'', js ''/docs/contracts/schemas'', js ''/docs/contracts/faults''] @ concat (map section_pages (drop 5 sections))"])
    (simp_all add: page_sections sections_def js_inj pages_getting_started pages_tutorials pages_core pages_dependency_injection pages_data_layer pages_security_auth)

lemma self_auth: "map snd (take 1 (sequential_steps (js ''/docs/auth''))) = [js ''/docs/auth'']"
  by (rule listed_twice [of "section_pages section_getting_started @ section_pages section_tutorials @ section_pages section_core @ section_pages section_dependency_injection @ section_pages section_data_layer @ []" _ "[js ''/docs/auth/identity'', js ''/docs/auth/credentials'', js ''/docs/auth/manager'', js ''/docs/auth/oauth'', js ''/docs/auth/mfa'', js ''/docs/auth/tokens'', js ''/docs/auth/stores'', js ''/docs/auth/guards'', js ''/docs/auth/faults'', js ''/docs/auth/integration'', js ''/docs/auth/advanced'', js ''/docs/authz'', js ''/docs/authz'', js ''/docs/authz/rbac'', js ''/docs/authz/abac'', js ''/docs/authz/policies'', js ''/docs/sessions'', js ''/docs/sessions/overview'', js ''/docs/sessions/integration'', js ''/docs/sessions/engine'', js ''/docs/sessions/policies'', js ''/docs/sessions/stores'', js ''/docs/sessions/transport'', js ''/docs/sessions/decorators'', js ''/docs/sessions/state'', js ''/docs/sessions/guards'', js ''/docs/sessions/faults'', js ''/docs/signing'', js ''/docs/signing/overview'', js ''/docs/signing/signers'', js ''/docs/signing/specialized'', js ''/docs/signing/advanced''] @ concat (map section_pages (drop 6 sections))"])
    (simp_all add: page_sections sections_def js_inj pages_getting_started pages_tutorials pages_core pages_dependency_injection pages_data_layer pages_security_auth)

text \<open>The first suggestion of a page can be the page itself, although the comment of the loop
  says that the current page is never picked: the menu lists the first page of a group both as
  the group and as its overview, and the sequential suggestions are not checked.\<close>

theorem next_step_is_the_page_itself:
  "map snd (take 1 (sequential_steps (js ''/docs/di''))) = [js ''/docs/di''] \<and>
   map snd (take 1 (sequential_steps (js ''/docs/database''))) = [js ''/docs/database''] \<and>
   map snd (take 1 (sequential_steps (js ''/docs/vectordb''))) = [js ''/docs/vectordb''] \<and>
   map snd (take 1 (sequential_steps (js ''/docs/auth''))) = [js ''/docs/auth'']"
  by (intro conjI self_di self_database self_vectordb self_auth)

subsection \<open>Which links the menu shows\<close>

text \<open>Every link of the menu with the groups around it.\<close>

function leaf_chains :: "jstr list \<Rightarrow> sidebar_item list \<Rightarrow> (jstr list \<times> jstr) list" where
  "leaf_chains anc [] = []"
| "leaf_chains anc (SidebarItem l p ch # rest) =
     (if ch = None \<or> ch = Some [] then [(anc, p)] else leaf_chains (p # anc) (the ch)) @ leaf_chains anc rest"
  by pat_completeness auto
termination
  by (relation "measure (\<lambda>(_, its). size_list size its)") (auto split: option.splits)

lemma leaf_chains_base: "(anc, q) \<in> set (leaf_chains base its) \<Longrightarrow> set base \<subseteq> set anc"
  by (induction base its rule: leaf_chains.induct) (auto split: if_splits)

lemma menu_links_chain:
  "q \<in> set (menu_links ex its) \<Longrightarrow> \<forall>a \<in> set base. is_expanded ex a \<Longrightarrow>
   \<exists>anc. (anc, q) \<in> set (leaf_chains base its) \<and> (\<forall>a \<in> set anc. is_expanded ex a)"
proof (induction ex its arbitrary: base rule: menu_links.induct)
  case (2 ex l p ch rest)
  from 2(3) consider "ch = None \<or> ch = Some []" "q = p"
    | "\<not> (ch = None \<or> ch = Some [])" "is_expanded ex p" "q \<in> set (menu_links ex (the ch))"
    | "q \<in> set (menu_links ex rest)" by (auto split: if_splits)
  then show ?case
  proof cases
    case 1
    with 2(4) show ?thesis by auto
  next
    case c: 2
    with 2(4) "2.IH"(1) [OF c, of "p # base"] show ?thesis by auto
  next
    case 3
    with 2(4) "2.IH"(2) [of base] show ?thesis by auto
  qed
qed simp

lemma chain_menu_links:
  "(anc, q) \<in> set (leaf_chains base its) \<Longrightarrow> \<forall>a \<in> set anc. is_expanded ex a \<Longrightarrow> q \<in> set (menu_links ex its)"
proof (induction base its rule: leaf_chains.induct)
  case (2 base l p ch rest)
  from 2(3) consider "ch = None \<or> ch = Some []" "q = p"
    | "\<not> (ch = None \<or> ch = Some [])" "(anc, q) \<in> set (leaf_chains (p # base) (the ch))"
    | "(anc, q) \<in> set (leaf_chains base rest)" by (auto split: if_splits)
  then show ?case
  proof cases
    case c: 2
    then have "is_expanded ex p" using leaf_chains_base [OF c(2)] 2(4) by auto
    with c 2 show ?thesis by auto
  qed (use 2 in auto)
qed simp

lemma chain_crawl:
  "(anc, q) \<in> set (leaf_chains base its) \<Longrightarrow> a \<in> set anc \<Longrightarrow> a \<notin> set base \<Longrightarrow> sidebar_has_prefix path a \<Longrightarrow>
   a \<in> set (crawl path its)"
proof (induction base its rule: leaf_chains.induct)
  case (2 base l p ch rest)
  then show ?case by (cases "a = p") (auto split: if_splits option.splits)
qed simp

lemma crawl_prefix: "a \<in> set (crawl path its) \<Longrightarrow> sidebar_has_prefix path a"
  by (induction path its rule: crawl.induct) (auto split: option.splits if_splits)

lemma expanded_fold:
  "is_expanded (fold (\<lambda>p. jm_set p True) ps m) a \<longleftrightarrow> a \<in> set ps \<or> is_expanded m a"
  by (induction ps arbitrary: m) (auto simp: is_expanded_def jm.get_set)

definition menu_chains :: "(jstr list \<times> jstr) list" where
  "menu_chains = concat (map (\<lambda>s. leaf_chains [] (sec_items s)) sections)"

lemma chain_shown:
  assumes "(anc, p) \<in> set menu_chains" "list_all (sidebar_has_prefix path) anc"
  shows "p \<in> set (sidebar_links (expand_for path prev))"
proof -
  obtain s where s: "s \<in> set sections" "(anc, p) \<in> set (leaf_chains [] (sec_items s))"
    using assms by (auto simp: menu_chains_def)
  have "is_expanded (expand_for path prev) a" if "a \<in> set anc" for a
    using chain_crawl [OF s(2) that, of path] s(1) assms(2) that
    by (auto simp: expand_for_def expanded_fold openItems_def list_all_iff)
  then have "p \<in> set (menu_links (expand_for path prev) (sec_items s))"
    by (intro chain_menu_links [OF s(2)]) blast
  with s(1) show ?thesis by (auto simp: sidebar_links_def)
qed

lemma shown_chain:
  assumes "p \<in> set (sidebar_links (expand_for path []))"
  shows "\<exists>anc. (anc, p) \<in> set menu_chains \<and> list_all (sidebar_has_prefix path) anc"
proof -
  obtain s where s: "s \<in> set sections" "p \<in> set (menu_links (expand_for path []) (sec_items s))"
    using assms by (auto simp: sidebar_links_def)
  from menu_links_chain [OF s(2), of "[]"] obtain anc where
    anc: "(anc, p) \<in> set (leaf_chains [] (sec_items s))" "\<forall>a \<in> set anc. is_expanded (expand_for path []) a" by auto
  have "sidebar_has_prefix path a" if "a \<in> set anc" for a
  proof -
    have "a \<in> set (openItems path)"
      using anc(2) that expanded_fold [of "openItems path" "[]" a] by (auto simp: expand_for_def is_expanded_def)
    then show ?thesis using crawl_prefix by (auto simp: openItems_def)
  qed
  then have "list_all (sidebar_has_prefix path) anc" by (simp add: list_all_iff)
  moreover have "(anc, p) \<in> set menu_chains" using anc(1) s(1) by (auto simp: menu_chains_def)
  ultimately show ?thesis by blast
qed

definition hidden_pages :: "jstr list" where
  "hidden_pages = [js ''/docs/models/cte'', js ''/docs/models/recursive-cte'', js ''/docs/models/bulk-operations'']"

text \<open>What is checked of each link: its groups are prefixes of it, or it is one of the three.\<close>

definition chain_ok :: "jstr list \<times> jstr \<Rightarrow> bool" where
  "chain_ok c = (case c of (anc, p) \<Rightarrow> list_all (sidebar_has_prefix p) anc \<noteq> (p \<in> set hidden_pages))"

lemma has_prefix_js: "sidebar_has_prefix (js s) (js t) \<longleftrightarrow> s = t \<or> take (length t + 1) s = t @ ''/''"
  by (simp add: sidebar_has_prefix_def js_inj js_append js_starts_with)

lemmas chain_eval = chain_ok_def hidden_pages_def has_prefix_js js_inj

lemma chains_getting_started: "list_all chain_ok (leaf_chains [] (sec_items section_getting_started))"
  by (simp add: section_getting_started_def chain_eval)

lemma chains_tutorials: "list_all chain_ok (leaf_chains [] (sec_items section_tutorials))"
  by (simp add: section_tutorials_def chain_eval)

lemma chains_core: "list_all chain_ok (leaf_chains [] (sec_items section_core))"
  by (simp add: section_core_def chain_eval)

lemma chains_dependency_injection: "list_all chain_ok (leaf_chains [] (sec_items section_dependency_injection))"
  by (simp add: section_dependency_injection_def chain_eval)

lemma chains_data_layer: "list_all chain_ok (leaf_chains [] (sec_items section_data_layer))"
  by (simp add: section_data_layer_def chain_eval)

lemma chains_security_auth: "list_all chain_ok (leaf_chains [] (sec_items section_security_auth))"
  by (simp add: section_security_auth_def chain_eval)

lemma chains_middleware: "list_all chain_ok (leaf_chains [] (sec_items section_middleware))"
  by (simp add: section_middleware_def chain_eval)

lemma chains_realtime_network: "list_all chain_ok (leaf_chains [] (sec_items section_realtime_network))"
  by (simp add: section_realtime_network_def chain_eval)

lemma chains_caching: "list_all chain_ok (leaf_chains [] (sec_items section_caching))"
  by (simp add: section_caching_def chain_eval)

lemma chains_storage_filesystem: "list_all chain_ok (leaf_chains [] (sec_items section_storage_filesystem))"
  by (simp add: section_storage_filesystem_def chain_eval)

lemma chains_localization_i18n: "list_all chain_ok (leaf_chains [] (sec_items section_localization_i18n))"
  by (simp add: section_localization_i18n_def chain_eval)

lemma chains_templates_mail: "list_all chain_ok (leaf_chains [] (sec_items section_templates_mail))"
  by (simp add: section_templates_mail_def chain_eval)

lemma chains_background_jobs: "list_all chain_ok (leaf_chains [] (sec_items section_background_jobs))"
  by (simp add: section_background_jobs_def chain_eval)

lemma chains_tooling: "list_all chain_ok (leaf_chains [] (sec_items section_tooling))"
  by (simp add: section_tooling_def chain_eval)

lemma chains_dev_platform: "list_all chain_ok (leaf_chains [] (sec_items section_dev_platform))"
  by (simp add: section_dev_platform_def chain_eval)

lemma chains_deployment_providers: "list_all chain_ok (leaf_chains [] (sec_items section_deployment_providers))"
  by (simp add: section_deployment_providers_def chain_eval)

lemma chains_advanced: "list_all chain_ok (leaf_chains [] (sec_items section_advanced))"
  by (simp add: section_advanced_def chain_eval)

lemma chains_ok: "list_all chain_ok menu_chains"
  by (simp add: menu_chains_def sections_def chains_getting_started chains_tutorials chains_core chains_dependency_injection chains_data_layer chains_security_auth chains_middleware chains_realtime_network chains_caching chains_storage_filesystem chains_localization_i18n chains_templates_mail chains_background_jobs chains_tooling chains_dev_platform chains_deployment_providers chains_advanced)

text \<open>Opening a page reveals its link in the menu: whatever was expanded before, every link
  of the menu except three is shown on its own page. On the three pages grouped under Advanced
  Querying whose path does not extend the path of that group (CTEs, recursive CTEs, bulk
  operations) the group stays closed and the link of the current page hidden.\<close>

theorem current_page_link_shown:
  "snd ` set menu_chains - set hidden_pages \<subseteq> {p. p \<in> set (sidebar_links (expand_for p prev))} \<and>
   set hidden_pages \<subseteq> {p. p \<notin> set (sidebar_links (expand_for p []))}"
proof
  show "snd ` set menu_chains - set hidden_pages \<subseteq> {p. p \<in> set (sidebar_links (expand_for p prev))}"
    using chains_ok chain_shown by (force simp: list_all_iff chain_ok_def)
  show "set hidden_pages \<subseteq> {p. p \<notin> set (sidebar_links (expand_for p []))}"
    using chains_ok by (auto simp: list_all_iff chain_ok_def dest!: shown_chain)
qed

subsection \<open>Dates\<close>

definition date_ok :: "jstr \<times> jstr \<Rightarrow> bool" where
  "date_ok e = (\<not> list_ex is_upper (fst e) \<and> \<not> list_ex (\<lambda>c. c = 0x212A) (fst e) \<and>
     last (fst e) \<noteq> 47 \<and> fst e \<noteq> [] \<and> snd e \<noteq> [])"

lemma dates_ok:
  "list_all date_ok lastUpdated_1" "list_all date_ok lastUpdated_2" "list_all date_ok lastUpdated_3"
  by code_simp+

lemma lower_fixed: "date_ok (p, d) \<Longrightarrow> to_lower p = p"
  unfolding to_lower_def by (rule map_idI) (auto simp: date_ok_def lower_unit_def list_ex_iff)

text \<open>A page of the table of dates is found whatever the case of its address and with or
  without one slash at the end, and its date is the table's; an address that is not in the table
  gets the date written in the source.\<close>

theorem getPageLastUpdated_lookup:
  assumes "to_lower path = p \<or> to_lower path = p @ js ''/''" "\<not> ends_with p (js ''/'')"
  shows "getPageLastUpdated path =
    (case map_of lastUpdatedMap p of Some d \<Rightarrow> d | None \<Rightarrow> js ''July 10, 2026'')"
proof -
  have ok: "list_all date_ok lastUpdatedMap" by (simp add: lastUpdatedMap_def dates_ok)
  have n: "(let low = to_lower path in if ends_with low (js ''/'') then butlast low else low) = p"
    using assms by (auto simp: Let_def js_def ends_with_def)
  have "str_or (map_of lastUpdatedMap p) e = (case map_of lastUpdatedMap p of Some d \<Rightarrow> d | None \<Rightarrow> e)" for e
    using ok by (auto simp: str_or_def list_all_iff date_ok_def dest!: map_of_SomeD split: option.split)
  then show ?thesis using n by (simp add: getPageLastUpdated_def Let_def)
qed

lemma date_quickstart: "map_of lastUpdatedMap (js ''/docs/quickstart'') = Some (js ''July 03, 2026'')"
  by (simp add: lastUpdatedMap_def lastUpdated_1_def js_inj)

theorem getPageLastUpdated_lookup_witness:
  "getPageLastUpdated (js ''/Docs/QuickStart/'') = js ''July 03, 2026''"
  using getPageLastUpdated_lookup [of "js ''/Docs/QuickStart/''" "js ''/docs/quickstart''"]
  by (simp add: date_quickstart) (simp add: js_def str_defs is_upper_def)

end
