(* ===== verification/JsSort.thy ===== *)
theory JsSort
  imports JsPrelude
begin

text \<open>
  \<open>Array.prototype.sort\<close> with a comparator. The language asks for a stable sort and fixes the
  result for every consistent comparator; \<open>js_sort\<close> is insertion, which is stable. A consistent
  comparator is an instance of the locale.
\<close>

fun insert_by :: "('a \<Rightarrow> 'a \<Rightarrow> int) \<Rightarrow> 'a \<Rightarrow> 'a list \<Rightarrow> 'a list" where
  "insert_by cmp x [] = [x]"
| "insert_by cmp x (y # ys) = (if cmp x y \<le> 0 then x # y # ys else y # insert_by cmp x ys)"

definition js_sort :: "('a \<Rightarrow> 'a \<Rightarrow> int) \<Rightarrow> 'a list \<Rightarrow> 'a list" where
  "js_sort cmp xs = foldr (insert_by cmp) xs []"

lemma js_sort_simps [simp]:
  "js_sort cmp [] = []"
  "js_sort cmp (x # xs) = insert_by cmp x (js_sort cmp xs)"
  by (simp_all add: js_sort_def)

lemma length_insert_by [simp]: "length (insert_by cmp x ys) = Suc (length ys)"
  by (induction ys) auto

lemma length_js_sort [simp]: "length (js_sort cmp xs) = length xs"
  by (induction xs) auto

lemma set_insert_by [simp]: "set (insert_by cmp x ys) = insert x (set ys)"
  by (induction ys) auto

lemma set_js_sort [simp]: "set (js_sort cmp xs) = set xs"
  by (induction xs) auto

lemma js_sort_eq_Nil [simp]: "js_sort cmp xs = [] \<longleftrightarrow> xs = []"
  by (metis length_0_conv length_js_sort)

text \<open>Elements that compare as equal keep their order.\<close>

lemma filter_insert_by:
  assumes "\<forall>x y. P x \<and> P y \<longrightarrow> cmp x y \<le> 0"
  shows "filter P (insert_by cmp x ys) = (if P x then x # filter P ys else filter P ys)"
  using assms by (induction ys) auto

lemma js_sort_stable:
  assumes "\<forall>x y. P x \<and> P y \<longrightarrow> cmp x y \<le> 0"
  shows "filter P (js_sort cmp xs) = filter P xs"
  by (induction xs) (simp_all add: filter_insert_by [OF assms])

lemma distinct_insert_by: "distinct (insert_by cmp x ys) \<longleftrightarrow> distinct ys \<and> x \<notin> set ys"
  by (induction ys) auto

lemma distinct_js_sort [simp]: "distinct (js_sort cmp xs) \<longleftrightarrow> distinct xs"
  by (induction xs) (auto simp: distinct_insert_by)

locale comparator =
  fixes cmp :: "'a \<Rightarrow> 'a \<Rightarrow> int"
  assumes cmp_total: "0 < cmp x y \<Longrightarrow> cmp y x \<le> 0"
    and cmp_trans: "cmp x y \<le> 0 \<Longrightarrow> cmp y z \<le> 0 \<Longrightarrow> cmp x z \<le> 0"
    and cmp_refl: "cmp x x \<le> 0"
begin

abbreviation upto :: "'a \<Rightarrow> 'a \<Rightarrow> bool" where
  "upto x y \<equiv> cmp x y \<le> 0"

lemma sorted_insert_by: "sorted_wrt upto ys \<Longrightarrow> sorted_wrt upto (insert_by cmp x ys)"
proof (induction ys)
  case (Cons y ys)
  show ?case
  proof (cases "upto x y")
    case True
    with Cons.prems show ?thesis by (auto intro: cmp_trans)
  next
    case False
    with Cons cmp_total [of x y] show ?thesis by auto
  qed
qed simp

lemma sorted_js_sort: "sorted_wrt upto (js_sort cmp xs)"
  by (induction xs) (auto intro: sorted_insert_by)

text \<open>What the first element of a sorted array is.\<close>

lemma hd_js_sort: "xs \<noteq> [] \<Longrightarrow> hd (js_sort cmp xs) \<in> set xs \<and> (\<forall>x \<in> set xs. upto (hd (js_sort cmp xs)) x)"
proof -
  assume "xs \<noteq> []"
  then obtain y ys where y: "js_sort cmp xs = y # ys" by (metis js_sort_eq_Nil neq_Nil_conv)
  then have "set xs = set (y # ys)" by (metis set_js_sort)
  with y sorted_js_sort [of xs] cmp_refl show ?thesis by auto
qed

text \<open>A prefix of the sorted array holds the least elements.\<close>

lemma take_js_sort:
  "x \<in> set (take n (js_sort cmp xs)) \<Longrightarrow> y \<in> set (drop n (js_sort cmp xs)) \<Longrightarrow> upto x y"
  using sorted_js_sort [of xs] sorted_wrt_append [of upto "take n (js_sort cmp xs)" "drop n (js_sort cmp xs)"]
  by simp

end

text \<open>\<open>(left, right) => right.score - left.score\<close>\<close>

definition descending :: "('a \<Rightarrow> int) \<Rightarrow> 'a \<Rightarrow> 'a \<Rightarrow> int" where
  "descending f l r = f r - f l"

interpretation by_score: comparator "descending f" for f :: "'a \<Rightarrow> int"
  by unfold_locales (auto simp: descending_def)

end
