(* ===== verification/SearchText.thy ===== *)
theory SearchText
  imports JsRegex JsMap JsSort
begin

text \<open>
  The text functions of the documentation search (\<open>components/UniversalSearch.tsx\<close>): what it
  reads out of the source text of a page and of \<open>App.tsx\<close>.

  Two functions of the standard library whose values depend on Unicode tables or on the locale
  are arguments of the definitions that use them: \<open>lower\<close> is \<open>toLowerCase\<close> and \<open>collate\<close> is
  \<open>localeCompare\<close>. \<open>toUpperCase\<close> is only called on ASCII word characters and is \<open>to_upper\<close>.
\<close>

subsection \<open>Data\<close>

record code_sample =
  cs_code :: jstr
  cs_language :: jstr
  cs_filename :: jstr
  cs_searchableText :: jstr

record search_document =
  sd_title :: jstr
  sd_path :: jstr
  sd_aliases :: "jstr list"
  sd_section :: jstr
  sd_content :: jstr
  sd_searchableText :: jstr
  sd_codeSamples :: "code_sample list"

record route_binding =
  rb_path :: jstr
  rb_component :: jstr

record component_binding =
  cb_sourcePath :: jstr
  cb_paths :: "jstr list"

subsection \<open>Library functions\<close>

text \<open>\<open>s.matchAll(r)\<close>: the captures of every match, the whole match as group 0.\<close>

function rx_all_go :: "rx \<Rightarrow> jstr \<Rightarrow> jstr \<Rightarrow> caps list" where
  "rx_all_go r p s =
     (case rx_at r (p, s) of
        None \<Rightarrow> (case s of [] \<Rightarrow> [] | x # t \<Rightarrow> rx_all_go r (x # p) t)
      | Some ((q, u), c) \<Rightarrow>
          c(0 \<mapsto> take (length s - length u) s) #
          (if length u < length s then rx_all_go r q u
           else (case s of [] \<Rightarrow> [] | x # t \<Rightarrow> rx_all_go r (x # p) t)))"
  by pat_completeness auto
termination
  by (relation "measure (\<lambda>(r, p, s). length s)") auto

declare rx_all_go.simps [simp del]

definition rx_match_all :: "rx \<Rightarrow> jstr \<Rightarrow> caps list" where
  "rx_match_all r s = rx_all_go r [] s"

definition capture :: "nat \<Rightarrow> caps \<Rightarrow> jstr" where
  "capture n c = (case c n of None \<Rightarrow> [] | Some w \<Rightarrow> w)"

text \<open>\<open>lastIndexOf\<close> of a one-unit string.\<close>

definition last_index :: "jchar \<Rightarrow> jstr \<Rightarrow> nat option" where
  "last_index d s = (if d \<in> set s then Some (length s - 1 - length (takeWhile (\<lambda>c. c \<noteq> d) (rev s))) else None)"

text \<open>\<open>s.split(/\s+/).filter(Boolean)\<close>\<close>

definition words_of :: "jstr \<Rightarrow> jstr list" where
  "words_of s = filter (\<lambda>w. w \<noteq> []) (map (\<lambda>w. case w of None \<Rightarrow> [] | Some v \<Rightarrow> v) (rx_split (rplus r_ws) 0 s))"

definition space :: "jstr \<Rightarrow> caps \<Rightarrow> jstr" where
  "space m c = [32]"

subsection \<open>Paths and titles\<close>

definition toTitleCase :: "jstr \<Rightarrow> jstr" where
  "toTitleCase slug = js_trim
     (rx_replace_all (RSeq RWordB (RChr is_word)) (\<lambda>m c. to_upper m)
       (rx_replace_all (rplus (RChr (\<lambda>x. x = 45 \<or> x = 95 \<or> x = 47))) space slug))"

definition canonical_order :: "(jstr \<Rightarrow> jstr \<Rightarrow> int) \<Rightarrow> jstr \<Rightarrow> jstr \<Rightarrow> int" where
  "canonical_order collate left right =
     (let leftScore = if js_includes left (js ''/overview'') then 2 else 0;
          rightScore = if js_includes right (js ''/overview'') then 2 else 0;
          leftDepth = int (length (split_char 47 left));
          rightDepth = int (length (split_char 47 right))
      in if leftDepth \<noteq> rightDepth then leftDepth - rightDepth
         else if leftScore \<noteq> rightScore then leftScore - rightScore
         else collate left right)"

text \<open>\<open>None\<close>: the \<open>undefined\<close> of an empty array.\<close>

definition chooseCanonicalPath :: "(jstr \<Rightarrow> jstr \<Rightarrow> int) \<Rightarrow> jstr list \<Rightarrow> jstr option" where
  "chooseCanonicalPath collate paths =
     (case js_sort (canonical_order collate) paths of [] \<Rightarrow> None | p # ps \<Rightarrow> Some p)"

definition inferSection :: "jstr \<Rightarrow> jstr" where
  "inferSection path =
     (let segments = filter (\<lambda>s. s \<noteq> []) (split_char 47 path) in
      if length segments \<le> 1 then js ''Getting Started''
      else if segments ! 0 \<noteq> js ''docs'' then js ''Project''
      else if length segments = 2 then
        (if segments ! 1 = js ''authz'' then js ''Security'' else toTitleCase (segments ! 1))
      else if segments ! 1 = js ''http'' \<and> segments ! 2 = js ''api'' then js ''HTTP API''
      else if segments ! 1 = js ''controllers'' \<and> segments ! 2 = js ''decorators'' then js ''Controller Decorators''
      else toTitleCase (segments ! 1))"

subsection \<open>The source text of a page\<close>

definition decodeEntities :: "jstr \<Rightarrow> jstr" where
  "decodeEntities t =
     rx_replace_all (rlit (js ''&amp;'')) (\<lambda>m c. js ''&'')
       (rx_replace_all (rlit (js ''&lt;'')) (\<lambda>m c. js ''<'')
         (rx_replace_all (rlit (js ''&gt;'')) (\<lambda>m c. js ''>'') t))"

definition normalizeCodeLanguage :: "(jstr \<Rightarrow> jstr) \<Rightarrow> jstr \<Rightarrow> jstr" where
  "normalizeCodeLanguage lower language =
     (if js_trim language = [] then js ''text'' else lower (js_trim language))"

definition code_block_rx :: rx where
  "code_block_rx = rseq [rlit (js ''<CodeBlock''), RWordB, RCap 1 (RStar (RChr (\<lambda>x. x \<noteq> 62))), rlit (js ''>''),
     RStar r_ws, rlit (js ''{`''), RCap 2 (RLazy r_any), rlit (js ''`}''), RStar r_ws, rlit (js ''</CodeBlock>'')]"

definition attribute_rx :: "jstr \<Rightarrow> rx" where
  "attribute_rx name = rseq [rlit name, RStar r_ws, rlit (js ''=''), RStar r_ws, rlit [34],
     RCap 1 (rplus (RChr (\<lambda>x. x \<noteq> 34))), rlit [34]]"

text \<open>One iteration of the loop; a block without code is skipped.\<close>

definition code_block :: "(jstr \<Rightarrow> jstr) \<Rightarrow> caps \<Rightarrow> code_sample list" where
  "code_block lower m =
     (let attrs = capture 1 m;
          code = decodeEntities (js_trim (rx_replace_all (rlit [13, 10]) (\<lambda>w c. [10]) (capture 2 m)))
      in if code = [] then []
         else
           (let languageMatch = rx_match (attribute_rx (js ''language'')) attrs;
                filenameMatch = rx_match (attribute_rx (js ''filename'')) attrs;
                language = normalizeCodeLanguage lower (case languageMatch of None \<Rightarrow> js ''text'' | Some c \<Rightarrow> capture 1 c);
                filename = js_trim (case filenameMatch of None \<Rightarrow> js ''Code Example'' | Some c \<Rightarrow> capture 1 c)
            in [\<lparr>cs_code = code, cs_language = language, cs_filename = filename,
                 cs_searchableText = lower (js_join [32] [filename, language, code])\<rparr>]))"

definition extractCodeBlocks :: "(jstr \<Rightarrow> jstr) \<Rightarrow> jstr \<Rightarrow> code_sample list" where
  "extractCodeBlocks lower source = concat (map (code_block lower) (rx_match_all code_block_rx source))"

definition extractRenderableSource :: "jstr \<Rightarrow> jstr" where
  "extractRenderableSource source =
     (case index_of source (js ''return ('') of
        None \<Rightarrow> source
      | Some returnIndex \<Rightarrow>
          (let renderable = drop (returnIndex + length (js ''return ('')) source in
           case last_index 41 renderable of
             None \<Rightarrow> renderable
           | Some tailCloseIndex \<Rightarrow> take tailCloseIndex renderable))"

definition import_rx :: rx where
  "import_rx = rseq [rlit (js ''import''), rplus r_ws, RLazy r_any, rlit (js ''from''), rplus r_ws,
     RChr (\<lambda>x. x = 39 \<or> x = 34), rplus (RChr (\<lambda>x. x \<noteq> 39 \<and> x \<noteq> 34)), RChr (\<lambda>x. x = 39 \<or> x = 34),
     ropt (rlit (js '';''))]"

definition jsx_comment_rx :: rx where
  "jsx_comment_rx = rseq [rlit (js ''{/*''), RLazy r_any, rlit (js ''*/}'')]"

definition class_expr_rx :: rx where
  "class_expr_rx = rseq [rlit (js ''className={''), RStar (RChr (\<lambda>x. x \<noteq> 125)), rlit (js ''}'')]"

definition class_text_rx :: rx where
  "class_text_rx = rseq [rlit (js ''className=''), rlit [34], RStar (RChr (\<lambda>x. x \<noteq> 34)), rlit [34]]"

definition code_element_rx :: rx where
  "code_element_rx = rseq [rlit (js ''<CodeBlock''), RLazy r_any, rlit (js ''</CodeBlock>'')]"

definition tag_rx :: rx where
  "tag_rx = rseq [rlit (js ''<''), rplus (RChr (\<lambda>x. x \<noteq> 62)), rlit (js ''>'')]"

definition keyword_rx :: rx where
  "keyword_rx = rseq [RWordB, ralt (map (\<lambda>w. rlit_i (js w))
     [''const'', ''let'', ''var'', ''function'', ''return'', ''export'', ''default'', ''import'', ''from'',
      ''class'', ''extends'', ''interface'', ''type'', ''async'', ''await'']), RWordB]"

definition is_punctuation :: "jchar \<Rightarrow> bool" where
  "is_punctuation x = (x \<in> set (js ''{}()[],.;:''))"

definition cleanForSearch :: "jstr \<Rightarrow> jstr" where
  "cleanForSearch source =
     (let s = extractRenderableSource source;
          s = rx_replace_all import_rx space s;
          s = rx_replace_all jsx_comment_rx space s;
          s = rx_replace_all class_expr_rx space s;
          s = rx_replace_all class_text_rx space s;
          s = rx_replace_all code_element_rx space s;
          s = rx_replace_all tag_rx space s;
          s = rx_replace_all keyword_rx space s;
          s = rx_replace_all (RChr is_punctuation) space s;
          s = rx_replace_all (rplus r_ws) space s
      in decodeEntities (js_trim s))"

definition h1_rx :: rx where
  "h1_rx = rseq [rlit_i (js ''<h1''), RStar (RChr (\<lambda>x. x \<noteq> 62)), rlit (js ''>''), RCap 1 (RLazy r_any),
     rlit_i (js ''</h1>'')]"

definition braces_rx :: rx where
  "braces_rx = rseq [rlit (js ''{''), rplus (RChr (\<lambda>x. x \<noteq> 125)), rlit (js ''}'')]"

definition extractTitle :: "jstr \<Rightarrow> jstr \<Rightarrow> jstr" where
  "extractTitle source fallback =
     (case rx_match h1_rx source of
        None \<Rightarrow> fallback
      | Some m \<Rightarrow>
          (let s = rx_replace_all tag_rx space (capture 1 m);
               s = rx_replace_all braces_rx space s;
               s = rx_replace_all (rplus r_ws) space s;
               title = decodeEntities (js_trim s)
           in if length title > 2 then title else fallback))"

subsection \<open>The source text of \<open>App.tsx\<close>\<close>

definition is_quote :: "jchar \<Rightarrow> bool" where
  "is_quote x = (x = 39 \<or> x = 34)"

definition component_import_rx :: rx where
  "component_import_rx = rseq [rlit (js ''import''), rplus r_ws, rlit (js ''{''), RStar r_ws,
     RCap 1 (rplus (RChr is_word)), RStar r_ws, rlit (js ''}''), rplus r_ws, rlit (js ''from''), rplus r_ws,
     RChr is_quote, rlit (js ''./pages/docs/''), RCap 2 (rplus (RChr (\<lambda>x. \<not> is_quote x))), RChr is_quote]"

definition extractComponentImports :: "jstr \<Rightarrow> (jstr, jstr) jmap" where
  "extractComponentImports source =
     fold (\<lambda>m. jm_set (capture 1 m) (js ''../pages/docs/'' @ capture 2 m @ js ''.tsx''))
       (rx_match_all component_import_rx source) []"

definition path_route_rx :: rx where
  "path_route_rx = rseq [rlit (js ''<Route''), rplus r_ws, rlit (js ''path=''), rlit [34],
     RCap 1 (rplus (RChr (\<lambda>x. x \<noteq> 34))), rlit [34], rplus r_ws, rlit (js ''element={<''),
     RCap 2 (rplus (RChr is_word)), RStar r_ws, rlit (js ''/>}''), RStar r_ws, rlit (js ''/>'')]"

definition index_route_rx :: rx where
  "index_route_rx = rseq [rlit (js ''<Route''), rplus r_ws, rlit (js ''index''), rplus r_ws,
     rlit (js ''element={<''), RCap 1 (rplus (RChr is_word)), RStar r_ws, rlit (js ''/>}''), RStar r_ws,
     rlit (js ''/>'')]"

definition normalizedPath :: "jstr \<Rightarrow> jstr" where
  "normalizedPath pathValue = (if starts_with pathValue (js ''/'') then pathValue else js ''/docs/'' @ pathValue)"

definition extractDocRoutes :: "jstr \<Rightarrow> route_binding list" where
  "extractDocRoutes source =
     filter (\<lambda>binding. starts_with (rb_path binding) (js ''/docs''))
       (map (\<lambda>m. \<lparr>rb_path = normalizedPath (capture 1 m), rb_component = capture 2 m\<rparr>) (rx_match_all path_route_rx source) @
        map (\<lambda>m. \<lparr>rb_path = js ''/docs'', rb_component = capture 1 m\<rparr>) (rx_match_all index_route_rx source))"

end
