(* ===== verification/SearchIndex.thy ===== *)
theory SearchIndex
  imports SearchText
begin

text \<open>
  The index of the documentation search, the scores and the results
  (\<open>components/UniversalSearch.tsx\<close>). The modules the bundler's \<open>import.meta.glob\<close> provides are
  arguments: the text of \<open>App.tsx\<close> and, for a source path, no loader (\<open>None\<close>), a loader whose
  promise is rejected (\<open>Inl\<close>) or the text of the file. Scores are natural numbers; their
  subtraction stops at 0, which is the \<open>Math.max\<close> of the source.
\<close>

subsection \<open>The index\<close>

datatype index_error = IndexRejected

type_synonym loader = "jstr \<Rightarrow> (index_error + jstr) option"

record project_page =
  pp_path :: jstr
  pp_sourcePath :: jstr
  pp_title :: jstr
  pp_section :: jstr
  pp_aliases :: "jstr list"

definition extraProjectPages :: "project_page list" where
  "extraProjectPages = [
     \<lparr>pp_path = js ''/changelogs'', pp_sourcePath = js ''../pages/Changelogs.tsx'', pp_title = js ''Changelogs'',
      pp_section = js ''Project'', pp_aliases = [js ''/docs/changelogs'']\<rparr>,
     \<lparr>pp_path = js ''/releases'', pp_sourcePath = js ''../pages/Releases.tsx'', pp_title = js ''Releases'',
      pp_section = js ''Project'', pp_aliases = [js ''/docs/releases'']\<rparr>]"

definition group_route :: "(jstr, jstr) jmap \<Rightarrow> route_binding \<Rightarrow> (jstr, component_binding) jmap \<Rightarrow> (jstr, component_binding) jmap" where
  "group_route componentMap r grouped =
     (if \<not> truthy (jm_get componentMap (rb_component r)) then grouped
      else (case jm_get grouped (rb_component r) of
          Some existing \<Rightarrow> jm_set (rb_component r) (existing\<lparr>cb_paths := cb_paths existing @ [rb_path r]\<rparr>) grouped
        | None \<Rightarrow> jm_set (rb_component r)
            \<lparr>cb_sourcePath = the (jm_get componentMap (rb_component r)), cb_paths = [rb_path r]\<rparr> grouped))"

definition group_routes :: "jstr \<Rightarrow> (jstr, component_binding) jmap" where
  "group_routes appSource =
     fold (group_route (extractComponentImports appSource)) (extractDocRoutes appSource) []"

text \<open>\<open>Promise.all\<close>\<close>

fun promise_all :: "(index_error + 'a) list \<Rightarrow> index_error + 'a list" where
  "promise_all [] = Inr []"
| "promise_all (Inl e # ps) = Inl e"
| "promise_all (Inr x # ps) = (case promise_all ps of Inl e \<Rightarrow> Inl e | Inr xs \<Rightarrow> Inr (x # xs))"

definition page_document ::
  "(jstr \<Rightarrow> jstr) \<Rightarrow> (jstr \<Rightarrow> jstr \<Rightarrow> int) \<Rightarrow> loader \<Rightarrow> component_binding \<Rightarrow> index_error + search_document option" where
  "page_document lower collate docsSourceModules binding =
     (case docsSourceModules (cb_sourcePath binding) of
        None \<Rightarrow> Inr None
      | Some (Inl e) \<Rightarrow> Inl e
      | Some (Inr source) \<Rightarrow>
         (case chooseCanonicalPath collate (cb_paths binding) of
            None \<Rightarrow> Inl IndexRejected
          | Some canonicalPath \<Rightarrow>
              (let fallbackTitle = toTitleCase (rx_replace (rlit (js ''/'')) (\<lambda>m c. js '' '')
                      (rx_replace (rlit (js ''/docs/'')) (\<lambda>m c. []) canonicalPath));
                   title = extractTitle source fallbackTitle;
                   content = cleanForSearch source
               in Inr (Some \<lparr>sd_title = title, sd_path = canonicalPath,
                    sd_aliases = filter (\<lambda>p. p \<noteq> canonicalPath) (cb_paths binding),
                    sd_section = inferSection canonicalPath, sd_content = content,
                    sd_searchableText = lower (js_join [32] [title, canonicalPath, js_join [32] (cb_paths binding), content]),
                    sd_codeSamples = extractCodeBlocks lower source\<rparr>))))"

definition project_document :: "(jstr \<Rightarrow> jstr) \<Rightarrow> loader \<Rightarrow> project_page \<Rightarrow> index_error + search_document option" where
  "project_document lower projectSourceModules pg =
     (case projectSourceModules (pp_sourcePath pg) of
        None \<Rightarrow> Inr None
      | Some (Inl e) \<Rightarrow> Inl e
      | Some (Inr source) \<Rightarrow>
          (let content = cleanForSearch source
           in Inr (Some \<lparr>sd_title = pp_title pg, sd_path = pp_path pg, sd_aliases = pp_aliases pg,
                sd_section = pp_section pg, sd_content = content,
                sd_searchableText = lower (js_join [32] [pp_title pg, pp_path pg, js_join [32] (pp_aliases pg), content]),
                sd_codeSamples = extractCodeBlocks lower source\<rparr>)))"

definition document_order :: "(jstr \<Rightarrow> jstr \<Rightarrow> int) \<Rightarrow> search_document \<Rightarrow> search_document \<Rightarrow> int" where
  "document_order collate l r =
     (let c = collate (sd_section l) (sd_section r) in if c \<noteq> 0 then c else collate (sd_title l) (sd_title r))"

definition buildSearchIndex ::
  "(jstr \<Rightarrow> jstr) \<Rightarrow> (jstr \<Rightarrow> jstr \<Rightarrow> int) \<Rightarrow> jstr \<Rightarrow> loader \<Rightarrow> loader \<Rightarrow> index_error + search_document list" where
  "buildSearchIndex lower collate appSource docsSourceModules projectSourceModules =
     (if appSource = [] then Inr []
      else
        (let grouped = group_routes appSource in
         case promise_all (map (page_document lower collate docsSourceModules) (jm_values grouped)) of
           Inl e \<Rightarrow> Inl e
         | Inr documents \<Rightarrow>
            (case promise_all (map (project_document lower projectSourceModules) extraProjectPages) of
               Inl e \<Rightarrow> Inl e
             | Inr projectDocuments \<Rightarrow>
                 Inr (js_sort (document_order collate)
                   (map the (filter (\<lambda>d. d \<noteq> None) (documents @ projectDocuments)))))))"

subsection \<open>Snippets\<close>

definition extractSnippet :: "(jstr \<Rightarrow> jstr) \<Rightarrow> jstr \<Rightarrow> jstr \<Rightarrow> jstr" where
  "extractSnippet lower content query =
     (if content = [] then []
      else
        (let normalizedContent = lower content;
             terms = words_of (js_trim (lower query))
         in case find (\<lambda>term. js_includes normalizedContent term) terms of
              None \<Rightarrow> js_trim (js_slice 0 180 content)
            | Some firstFound \<Rightarrow>
                (let index = the (index_of normalizedContent firstFound);
                     start = index - 80;
                     stop_at = min (length content) (index + 120);
                     prefix = if start > 0 then js ''...'' else [];
                     suffix = if stop_at < length content then js ''...'' else []
                 in prefix @ js_trim (js_slice start stop_at content) @ suffix)))"

definition first_lines :: "jstr list \<Rightarrow> jstr" where
  "first_lines lines =
     (let preview = js_trim (js_join [10] (take 8 lines))
      in if length lines > 8 then preview @ 10 # js ''...'' else preview)"

definition extractCodePreview :: "(jstr \<Rightarrow> jstr) \<Rightarrow> jstr \<Rightarrow> jstr \<Rightarrow> jstr" where
  "extractCodePreview lower code query =
     (let lines = split_char 10 code in
      if lines = [] then []
      else if js_trim query = [] then first_lines lines
      else
        (let terms = words_of (js_trim (lower query)) in
         case find_index (\<lambda>line. list_ex (\<lambda>term. js_includes (lower line) term) terms) lines of
           None \<Rightarrow> first_lines lines
         | Some firstMatchLine \<Rightarrow>
             (let start = firstMatchLine - 2;
                  stop_at = min (length lines) (start + 8);
                  prefix = if start > 0 then js ''...'' @ [10] else [];
                  suffix = if stop_at < length lines then 10 # js ''...'' else []
              in prefix @ js_trim (js_join [10] (take (stop_at - start) (drop start lines))) @ suffix)))"

subsection \<open>Scores\<close>

definition points :: "bool \<Rightarrow> nat \<Rightarrow> nat" where
  "points b n = (if b then n else 0)"

definition scoreDocument :: "(jstr \<Rightarrow> jstr) \<Rightarrow> search_document \<Rightarrow> jstr \<Rightarrow> nat" where
  "scoreDocument lower doc query =
     (let normalizedQuery = lower (js_trim query); terms = words_of normalizedQuery in
      if normalizedQuery = [] then 0
      else if terms = [] then 0
      else
        (let title = lower (sd_title doc); path = lower (sd_path doc); sect = lower (sd_section doc);
             aliases = lower (js_join [32] (sd_aliases doc)); searchable = sd_searchableText doc;
             allTermsMatch = list_all (\<lambda>t. js_includes searchable t \<or> js_includes title t \<or> js_includes path t) terms
         in points (js_includes title normalizedQuery) 220 + points (js_includes path normalizedQuery) 170 +
            points (js_includes aliases normalizedQuery) 120 + points (js_includes searchable normalizedQuery) 80 +
            sum_list (map (\<lambda>t. points (js_includes title t) 60 + points (js_includes sect t) 35 +
              points (js_includes path t) 45 + points (js_includes aliases t) 28 + points (js_includes searchable t) 14) terms) +
            points allTermsMatch 55 +
            points (sd_path doc = js ''/docs'' \<and>
              (normalizedQuery = js ''intro'' \<or> normalizedQuery = js ''introduction'')) 40 +
            (16 - length (split_char 47 (sd_path doc)))))"

definition scoreCodeSample :: "(jstr \<Rightarrow> jstr) \<Rightarrow> search_document \<Rightarrow> code_sample \<Rightarrow> jstr \<Rightarrow> nat" where
  "scoreCodeSample lower doc sample query =
     (let normalizedQuery = lower (js_trim query); terms = words_of normalizedQuery in
      if normalizedQuery = [] then 0
      else if terms = [] then 0
      else
        (let filename = lower (cs_filename sample); language = lower (cs_language sample);
             code = cs_searchableText sample; title = lower (sd_title doc); path = lower (sd_path doc);
             allTermsMatch = list_all (\<lambda>t. js_includes filename t \<or> js_includes code t \<or> js_includes title t \<or>
               js_includes path t) terms
         in points (js_includes filename normalizedQuery) 220 + points (js_includes code normalizedQuery) 180 +
            points (js_includes language normalizedQuery) 80 + points (js_includes title normalizedQuery) 70 +
            points (js_includes path normalizedQuery) 65 +
            sum_list (map (\<lambda>t. points (js_includes filename t) 55 + points (js_includes language t) 25 +
              points (js_includes title t) 20 + points (js_includes path t) 20 + points (js_includes code t) 14) terms) +
            points allTermsMatch 60))"

subsection \<open>Results\<close>

record result_base =
  sr_id :: jstr
  sr_title :: jstr
  sr_path :: jstr
  sr_aliases :: "jstr list"
  sr_section :: jstr
  sr_score :: nat
  sr_snippet :: jstr

datatype search_result =
    PageResult (rbase: result_base)
  | CodeResult (rbase: result_base) (res_code: jstr) (res_language: jstr) (res_filename: jstr)

datatype search_mode = ModeAll | ModePages | ModeCode

definition page_result :: "search_document \<Rightarrow> nat \<Rightarrow> jstr \<Rightarrow> search_result" where
  "page_result doc score snippet = PageResult \<lparr>sr_id = js ''page:'' @ sd_path doc, sr_title = sd_title doc,
     sr_path = sd_path doc, sr_aliases = sd_aliases doc, sr_section = sd_section doc, sr_score = score,
     sr_snippet = snippet\<rparr>"

definition code_result :: "(jstr \<Rightarrow> jstr) \<Rightarrow> jstr \<Rightarrow> search_document \<Rightarrow> nat \<Rightarrow> code_sample \<Rightarrow> nat \<Rightarrow> search_result" where
  "code_result lower query doc index sample score =
     CodeResult \<lparr>sr_id = js ''code:'' @ sd_path doc @ js '':'' @ nat_text index, sr_title = cs_filename sample,
       sr_path = sd_path doc, sr_aliases = sd_aliases doc, sr_section = sd_section doc, sr_score = score,
       sr_snippet = extractSnippet lower (rx_replace_all (rplus r_ws) space (cs_code sample)) query\<rparr>
     (extractCodePreview lower (cs_code sample) query) (cs_language sample) (cs_filename sample)"

definition pageResultsWithoutQuery :: "search_document list \<Rightarrow> search_result list" where
  "pageResultsWithoutQuery documents = map (\<lambda>d. page_result d 0 (js_slice 0 170 (sd_content d))) documents"

definition codeResultsWithoutQuery :: "(jstr \<Rightarrow> jstr) \<Rightarrow> search_document list \<Rightarrow> search_result list" where
  "codeResultsWithoutQuery lower documents =
     concat (map (\<lambda>d. map (\<lambda>(i, s). code_result lower [] d i s 0) (enumerate 0 (sd_codeSamples d))) documents)"

definition score_of :: "search_result \<Rightarrow> int" where
  "score_of r = int (sr_score (rbase r))"

definition scoredPageResults :: "(jstr \<Rightarrow> jstr) \<Rightarrow> search_document list \<Rightarrow> jstr \<Rightarrow> search_result list" where
  "scoredPageResults lower documents trimmed_query =
     map (\<lambda>(d, score, snippet). page_result d score snippet)
       (js_sort (descending (\<lambda>(d, score, snippet). int score))
         (filter (\<lambda>(d, score, snippet). score > 0)
           (map (\<lambda>d. (d, scoreDocument lower d trimmed_query, extractSnippet lower (sd_content d) trimmed_query)) documents)))"

definition scoredCodeResults :: "(jstr \<Rightarrow> jstr) \<Rightarrow> search_document list \<Rightarrow> jstr \<Rightarrow> search_result list" where
  "scoredCodeResults lower documents trimmed_query =
     js_sort (descending score_of)
       (filter (\<lambda>r. score_of r > 0)
         (concat (map (\<lambda>d. map (\<lambda>(i, s). code_result lower trimmed_query d i s (scoreCodeSample lower d s trimmed_query))
           (enumerate 0 (sd_codeSamples d))) documents)))"

definition search_results :: "(jstr \<Rightarrow> jstr) \<Rightarrow> search_document list \<Rightarrow> jstr \<Rightarrow> search_mode \<Rightarrow> search_result list" where
  "search_results lower documents query resultMode =
     (if documents = [] then []
      else
        (let trimmed_query = js_trim query in
         if trimmed_query = [] then
           (case resultMode of
              ModePages \<Rightarrow> take 18 (pageResultsWithoutQuery documents)
            | ModeCode \<Rightarrow> take 18 (codeResultsWithoutQuery lower documents)
            | ModeAll \<Rightarrow> take 18 (take 10 (pageResultsWithoutQuery documents) @ take 8 (codeResultsWithoutQuery lower documents)))
         else
           (case resultMode of
              ModePages \<Rightarrow> take 18 (scoredPageResults lower documents trimmed_query)
            | ModeCode \<Rightarrow> take 18 (scoredCodeResults lower documents trimmed_query)
            | ModeAll \<Rightarrow> take 18 (js_sort (descending score_of)
                (scoredPageResults lower documents trimmed_query @ scoredCodeResults lower documents trimmed_query)))))"

subsection \<open>Highlighting\<close>

definition is_syntax :: "jchar \<Rightarrow> bool" where
  "is_syntax x = (x \<in> set (js ''.*+?^${}()|[]'') \<or> x = 92)"

definition escapeRegExp :: "jstr \<Rightarrow> jstr" where
  "escapeRegExp v = rx_replace_all (RChr is_syntax) (\<lambda>m c. 92 # m) v"

text \<open>The text a pattern without operators stands for: what \<open>new RegExp\<close> makes of a string in which
  every syntax character is escaped. \<open>None\<close>: the pattern has an operator.\<close>

fun literal_pattern :: "jstr \<Rightarrow> jstr option" where
  "literal_pattern [] = Some []"
| "literal_pattern (c # s) =
     (if c = 92 then
        (case s of [] \<Rightarrow> None | d # t \<Rightarrow> if is_syntax d then map_option (Cons d) (literal_pattern t) else None)
      else if is_syntax c then None
      else map_option (Cons c) (literal_pattern s))"

text \<open>A literal under the flag \<open>i\<close>; \<open>canon\<close> is the canonicalisation of a code unit, which the
  language takes from the Unicode tables.\<close>

definition rlit_canon :: "(jchar \<Rightarrow> jchar) \<Rightarrow> jstr \<Rightarrow> rx" where
  "rlit_canon canon w = foldr (\<lambda>x r. RSeq (RChr (\<lambda>y. canon y = canon x)) r) w REps"

text \<open>\<open>Inl\<close> the text itself, \<open>Inr\<close> the spans, each with its flag \<open>matched\<close>.\<close>

definition highlightMatch :: "(jchar \<Rightarrow> jchar) \<Rightarrow> jstr \<Rightarrow> jstr \<Rightarrow> jstr + (jstr \<times> bool) list" where
  "highlightMatch canon t query =
     (let trimmed_query = js_trim query in
      if trimmed_query = [] then Inl t
      else (case literal_pattern (escapeRegExp trimmed_query) of
          None \<Rightarrow> Inl t
        | Some w \<Rightarrow>
            (let parts = rx_split (RCap 1 (rlit_canon canon w)) 1 t in
             Inr (map (\<lambda>(index, part). (case part of None \<Rightarrow> [] | Some v \<Rightarrow> v, index mod 2 = 1)) (enumerate 0 parts)))))"

end
