(* ===== verification/SearchPanel.thy ===== *)
theory SearchPanel
  imports SearchIndex Machine
begin

text \<open>
  The search dialog (\<open>UniversalSearch\<close> of \<open>components/UniversalSearch.tsx\<close>) as a machine: one
  step is an event with the effects that run after it. The state is that of the component, the
  module variable \<open>cachedSearchIndex\<close>, the overflow of the page with the value the effect keeps,
  the addresses passed to \<open>navigate\<close>, and whether the build of the open dialog is running. A
  build whose dialog was closed has no effect when it ends, so only that of the open dialog is
  kept; its end is an event. The focus of the input is not modelled.
\<close>

record panel =
  ui_isOpen :: bool
  ui_query :: jstr
  ui_activeIndex :: nat
  ui_isIndexing :: bool
  ui_indexError :: "jstr option"
  ui_resultMode :: search_mode
  ui_documents :: "search_document list"
  ui_cached :: "search_document list option"
  ui_building :: bool
  ui_overflow :: jstr
  ui_previousOverflow :: jstr
  ui_navigated :: "jstr list"

datatype panel_event =
    KeyDown bool jstr bool
  | OpenClick
  | BackdropClick
  | TypeQuery jstr
  | ModeClick search_mode
  | HoverRow nat
  | ClickRow nat
  | IndexBuilt "search_document list"
  | IndexFailed

definition panel_init :: "search_document list option \<Rightarrow> jstr \<Rightarrow> panel" where
  "panel_init cached overflow = \<lparr>ui_isOpen = False, ui_query = [], ui_activeIndex = 0, ui_isIndexing = False,
     ui_indexError = None, ui_resultMode = ModeAll, ui_documents = (case cached of None \<Rightarrow> [] | Some d \<Rightarrow> d),
     ui_cached = cached, ui_building = False, ui_overflow = overflow, ui_previousOverflow = [], ui_navigated = []\<rparr>"

definition ui_results :: "(jstr \<Rightarrow> jstr) \<Rightarrow> panel \<Rightarrow> search_result list" where
  "ui_results lower s = search_results lower (ui_documents s) (ui_query s) (ui_resultMode s)"

subsection \<open>Effects\<close>

definition open_effects :: "panel \<Rightarrow> panel" where
  "open_effects s =
     (let s = s\<lparr>ui_previousOverflow := ui_overflow s, ui_overflow := js ''hidden''\<rparr> in
      case ui_cached s of
        Some d \<Rightarrow> s\<lparr>ui_documents := d\<rparr>
      | None \<Rightarrow> s\<lparr>ui_building := True, ui_isIndexing := True, ui_indexError := None\<rparr>)"

definition close_effects :: "panel \<Rightarrow> panel" where
  "close_effects s = s\<lparr>ui_overflow := ui_previousOverflow s, ui_building := False\<rparr>"

text \<open>The effects that run when the state goes from \<open>s\<close> to \<open>t\<close>: those of \<open>[isOpen]\<close>, then that of
  \<open>[query, resultMode]\<close>.\<close>

definition run_effects :: "panel \<Rightarrow> panel \<Rightarrow> panel" where
  "run_effects s t =
     (let u = (if ui_isOpen s = ui_isOpen t then t else if ui_isOpen t then open_effects t else close_effects t) in
      if ui_query s = ui_query t \<and> ui_resultMode s = ui_resultMode t then u else u\<lparr>ui_activeIndex := 0\<rparr>)"

subsection \<open>Handlers\<close>

definition openSearch :: "panel \<Rightarrow> panel" where
  "openSearch s = s\<lparr>ui_isOpen := True, ui_query := [], ui_activeIndex := 0\<rparr>"

definition goToResult :: "search_result \<Rightarrow> panel \<Rightarrow> panel" where
  "goToResult r s = s\<lparr>ui_isOpen := False, ui_query := [], ui_activeIndex := 0,
     ui_navigated := ui_navigated s @ [sr_path (rbase r)]\<rparr>"

definition onInputKeyDown :: "(jstr \<Rightarrow> jstr) \<Rightarrow> jstr \<Rightarrow> panel \<Rightarrow> panel" where
  "onInputKeyDown lower key s =
     (let results = ui_results lower s in
      if results = [] then s
      else if key = js ''ArrowDown'' then s\<lparr>ui_activeIndex := (ui_activeIndex s + 1) mod length results\<rparr>
      else if key = js ''ArrowUp'' then
        s\<lparr>ui_activeIndex := nat ((int (ui_activeIndex s) - 1 + int (length results)) mod int (length results))\<rparr>
      else if key = js ''Enter'' then goToResult (results ! ui_activeIndex s) s
      else s)"

text \<open>The listener of the window; \<open>command\<close> is \<open>metaKey || ctrlKey\<close>.\<close>

definition window_handler :: "jstr \<Rightarrow> bool \<Rightarrow> panel \<Rightarrow> panel" where
  "window_handler key command s =
     (let s = (if to_lower key = js ''k'' \<and> command then s\<lparr>ui_isOpen := \<not> ui_isOpen s\<rparr> else s)
      in if key = js ''Escape'' then s\<lparr>ui_isOpen := False\<rparr> else s)"

text \<open>The rows are on the page while the dialog is open, no build is shown and no error.\<close>

definition rows_shown :: "panel \<Rightarrow> bool" where
  "rows_shown s = (ui_isOpen s \<and> \<not> ui_isIndexing s \<and> ui_indexError s = None)"

fun handle :: "(jstr \<Rightarrow> jstr) \<Rightarrow> panel_event \<Rightarrow> panel \<Rightarrow> panel" where
  "handle lower (KeyDown in_input key command) s =
     window_handler key command (if in_input \<and> ui_isOpen s then onInputKeyDown lower key s else s)"
| "handle lower OpenClick s = openSearch s"
| "handle lower BackdropClick s = s\<lparr>ui_isOpen := False\<rparr>"
| "handle lower (TypeQuery q) s = (if ui_isOpen s then s\<lparr>ui_query := q\<rparr> else s)"
| "handle lower (ModeClick m) s = (if ui_isOpen s then s\<lparr>ui_resultMode := m\<rparr> else s)"
| "handle lower (HoverRow i) s =
     (if rows_shown s \<and> i < length (ui_results lower s) then s\<lparr>ui_activeIndex := i\<rparr> else s)"
| "handle lower (ClickRow i) s =
     (if rows_shown s \<and> i < length (ui_results lower s) then goToResult (ui_results lower s ! i) s else s)"
| "handle lower (IndexBuilt index) s =
     (if ui_building s then s\<lparr>ui_cached := Some index, ui_documents := index, ui_isIndexing := False, ui_building := False\<rparr>
      else s)"
| "handle lower IndexFailed s =
     (if ui_building s then s\<lparr>ui_indexError := Some (js ''Failed to build the documentation search index.''),
        ui_isIndexing := False, ui_building := False\<rparr>
      else s)"

definition panel_step :: "(jstr \<Rightarrow> jstr) \<Rightarrow> panel_event \<Rightarrow> panel \<Rightarrow> panel" where
  "panel_step lower e s = run_effects s (handle lower e s)"

subsection \<open>Invariant\<close>

definition panel_inv :: "(jstr \<Rightarrow> jstr) \<Rightarrow> jstr \<Rightarrow> panel \<Rightarrow> bool" where
  "panel_inv lower overflow s \<longleftrightarrow>
     ui_activeIndex s < max 1 (length (ui_results lower s)) \<and>
     ui_documents s = (case ui_cached s of None \<Rightarrow> [] | Some d \<Rightarrow> d) \<and>
     (if ui_isOpen s then ui_overflow s = js ''hidden'' \<and> ui_previousOverflow s = overflow
      else ui_overflow s = overflow \<and> \<not> ui_building s) \<and>
     (ui_building s \<longrightarrow> ui_cached s = None) \<and>
     (ui_cached s \<noteq> None \<longrightarrow> \<not> ui_isIndexing s) \<and>
     (ui_isOpen s \<longrightarrow> ui_isIndexing s = ui_building s \<and>
        (ui_building s \<or> ui_cached s \<noteq> None \<or> ui_indexError s \<noteq> None))"

definition panel_grows :: "panel \<Rightarrow> panel \<Rightarrow> bool" where
  "panel_grows s t \<longleftrightarrow> (ui_cached s \<noteq> None \<longrightarrow> ui_cached t = ui_cached s) \<and>
     (\<exists>ps. ui_navigated t = ui_navigated s @ ps)"

lemma results_documents_Nil: "ui_documents s = [] \<Longrightarrow> ui_results lower s = []"
  by (simp add: ui_results_def search_results_def)

text \<open>What the handlers of user events do before the effects run: they leave the index, the build
  and the page alone, and keep the active row in range unless the query or the mode changes.\<close>

definition handled :: "(jstr \<Rightarrow> jstr) \<Rightarrow> panel \<Rightarrow> panel \<Rightarrow> bool" where
  "handled lower s t \<longleftrightarrow>
     ui_documents t = ui_documents s \<and> ui_cached t = ui_cached s \<and> ui_building t = ui_building s \<and>
     ui_isIndexing t = ui_isIndexing s \<and> ui_indexError t = ui_indexError s \<and>
     ui_overflow t = ui_overflow s \<and> ui_previousOverflow t = ui_previousOverflow s \<and>
     (ui_query t = ui_query s \<and> ui_resultMode t = ui_resultMode s \<longrightarrow>
        ui_activeIndex t < max 1 (length (ui_results lower s))) \<and>
     (\<exists>ps. ui_navigated t = ui_navigated s @ ps)"

lemma handled_effects:
  assumes inv: "panel_inv lower ov s" and h: "handled lower s t"
  shows "panel_inv lower ov (run_effects s t)" "panel_grows s (run_effects s t)"
proof -
  have active: "ui_activeIndex (run_effects s t) < max 1 (length (ui_results lower (run_effects s t)))"
    using inv h by (auto simp: run_effects_def open_effects_def close_effects_def panel_inv_def handled_def
        ui_results_def Let_def split: option.splits)
  show "panel_inv lower ov (run_effects s t)"
    using inv h active unfolding panel_inv_def
    by (auto simp: run_effects_def open_effects_def close_effects_def handled_def Let_def split: option.splits)
  show "panel_grows s (run_effects s t)"
    using h by (auto simp: panel_grows_def run_effects_def open_effects_def close_effects_def handled_def Let_def
        split: option.splits)
qed

lemma handled_refl: "panel_inv lower ov s \<Longrightarrow> handled lower s s"
  by (simp add: handled_def panel_inv_def)

lemma handled_window: "handled lower s t \<Longrightarrow> handled lower s (window_handler key command t)"
  by (simp add: handled_def window_handler_def Let_def)

lemma handled_go: "handled lower s (goToResult r s)"
  by (simp add: handled_def goToResult_def less_max_iff_disj)

lemma handled_active: "i < length (ui_results lower s) \<Longrightarrow> handled lower s (s\<lparr>ui_activeIndex := i\<rparr>)"
  by (simp add: handled_def less_max_iff_disj)

lemma handled_flags:
  "panel_inv lower ov s \<Longrightarrow> handled lower s (s\<lparr>ui_isOpen := b\<rparr>)"
  "panel_inv lower ov s \<Longrightarrow> handled lower s (s\<lparr>ui_query := q\<rparr>)"
  "panel_inv lower ov s \<Longrightarrow> handled lower s (s\<lparr>ui_resultMode := m\<rparr>)"
  "handled lower s (openSearch s)"
  by (simp_all add: handled_def panel_inv_def openSearch_def less_max_iff_disj)

lemma handled_input: "panel_inv lower ov s \<Longrightarrow> handled lower s (onInputKeyDown lower key s)"
  unfolding onInputKeyDown_def Let_def
  by (simp add: handled_refl handled_go handled_active nat_less_iff)

lemma handled_event:
  assumes "panel_inv lower ov s" "\<forall>d. e \<noteq> IndexBuilt d" "e \<noteq> IndexFailed"
  shows "handled lower s (handle lower e s)"
proof (cases e)
  case (KeyDown i key c)
  have "handled lower s (if i \<and> ui_isOpen s then onInputKeyDown lower key s else s)"
    using assms(1) by (simp add: handled_refl handled_input)
  then show ?thesis using KeyDown by (simp add: handled_window)
qed (use assms in \<open>simp_all add: handled_refl handled_go handled_active handled_flags\<close>)

lemma run_effects_same [simp]: "run_effects s s = s"
  by (simp add: run_effects_def Let_def)

lemma built_step:
  assumes "panel_inv lower ov s" "e = IndexBuilt d \<or> e = IndexFailed"
  shows "panel_inv lower ov (panel_step lower e s) \<and> panel_grows s (panel_step lower e s)"
proof (cases "ui_building s")
  case True
  then have f: "ui_cached s = None" "ui_documents s = []" "ui_isOpen s" "ui_overflow s = js ''hidden''"
      "ui_previousOverflow s = ov"
    using assms(1) by (auto simp: panel_inv_def split: if_splits)
  then have "ui_activeIndex s = 0" using assms(1) by (auto simp: panel_inv_def results_documents_Nil)
  with True f assms(2) show ?thesis
    by (elim disjE) (simp_all add: panel_step_def run_effects_def panel_inv_def panel_grows_def Let_def
        less_max_iff_disj)
next
  case False
  with assms show ?thesis by (auto simp: panel_step_def panel_grows_def)
qed

lemma panel_step_ok:
  assumes "panel_inv lower ov s"
  shows "panel_inv lower ov (panel_step lower e s) \<and> panel_grows s (panel_step lower e s)"
proof (cases "(\<exists>d. e = IndexBuilt d) \<or> e = IndexFailed")
  case True
  then show ?thesis using built_step [OF assms] by blast
next
  case False
  then show ?thesis using handled_effects [OF assms handled_event [OF assms]] by (simp add: panel_step_def)
qed

lemma panel_grows_trans: "panel_grows s t \<Longrightarrow> panel_grows t u \<Longrightarrow> panel_grows s u"
  by (auto simp: panel_grows_def)

lemma panel_inv_init: "panel_inv lower ov (panel_init cached ov)"
  by (simp add: panel_inv_def panel_init_def)

interpretation search: event_machine "panel_step lower" "panel_inv lower ov" panel_grows
  for lower :: "jstr \<Rightarrow> jstr" and ov :: jstr
proof unfold_locales
  show "panel_inv lower ov s \<Longrightarrow> panel_inv lower ov (panel_step lower e s)" for s e
    using panel_step_ok by blast
  show "panel_inv lower ov s \<Longrightarrow> panel_grows s (panel_step lower e s)" for s e
    using panel_step_ok by blast
  show "panel_grows s s" for s by (simp add: panel_grows_def)
  show "panel_grows s t \<Longrightarrow> panel_grows t u \<Longrightarrow> panel_grows s u" for s t u by (rule panel_grows_trans)
qed

end
