(* ===== verification/SearchFacts.thy ===== *)
theory SearchFacts
  imports SearchPanel "HOL-Library.List_Lexorder"
begin

text \<open>
  Properties of the documentation search: which results a query has and in which order, the
  snippets, the highlighting and the behaviour of the dialog.
\<close>

subsection \<open>Words of a query\<close>

lemma at_spaces:
  "rx_at (rplus r_ws) (p, s) =
     (if s \<noteq> [] \<and> is_ws (hd s)
      then Some ((rev (takeWhile is_ws s) @ p, dropWhile is_ws s), \<lambda>n. None) else None)"
proof (cases "s \<noteq> [] \<and> is_ws (hd s)")
  case True
  have "run (rplus (RChr is_ws)) (\<lambda>q' c. Some (q', c)) (p, takeWhile is_ws s @ dropWhile is_ws s) (\<lambda>n. None) =
      Some ((rev (takeWhile is_ws s) @ p, dropWhile is_ws s), \<lambda>n. None)"
  proof (rule run_plus_first)
    show "takeWhile is_ws s \<noteq> []" using True by (cases s) auto
    show "dropWhile is_ws s = [] \<or> \<not> is_ws (hd (dropWhile is_ws s))" using hd_dropWhile by blast
  qed (auto dest: set_takeWhileD)
  with True show ?thesis by (simp add: rx_at_def r_ws_def)
next
  case False
  then show ?thesis by (cases s) (auto simp: rx_at_def r_ws_def)
qed

lemma split_spaces_word:
  "acc \<noteq> [] \<or> (\<exists>x \<in> set s. \<not> is_ws x) \<Longrightarrow> \<exists>v. Some v \<in> set (rx_split_go (rplus r_ws) 0 acc p s) \<and> v \<noteq> []"
proof (induction "length s" arbitrary: acc p s rule: less_induct)
  case less
  show ?case
  proof (cases s)
    case Nil
    with less.prems show ?thesis by (auto simp: rx_split_go.simps [of _ _ _ _ "[]"])
  next
    case (Cons x t)
    show ?thesis
    proof (cases "is_ws x")
      case False
      with less.hyps [of t "x # acc" "x # p"] Cons show ?thesis
        by (subst rx_split_go.simps) (simp add: at_spaces)
    next
      case True
      have len: "length (dropWhile is_ws t) < length s"
        using Cons by (simp add: le_imp_less_Suc length_dropWhile_le)
      have step: "rx_split_go (rplus r_ws) 0 acc p s =
          Some (rev acc) # rx_split_go (rplus r_ws) 0 [] (rev (takeWhile is_ws s) @ p) (dropWhile is_ws t)"
        using True Cons len by (subst rx_split_go.simps) (simp add: at_spaces)
      show ?thesis
      proof (cases "acc = []")
        case acc: True
        then have "\<exists>y \<in> set (dropWhile is_ws t). \<not> is_ws y"
          using less.prems True Cons by (metis set_ConsD dropWhile_eq_Nil_conv hd_dropWhile hd_in_set)
        then show ?thesis using less.hyps [OF len] step by auto
      qed (use step in auto)
    qed
  qed
qed

lemma words_of_nonempty: "\<exists>x \<in> set s. \<not> is_ws x \<Longrightarrow> words_of s \<noteq> []"
proof -
  assume x: "\<exists>x \<in> set s. \<not> is_ws x"
  then have "s \<noteq> []" by auto
  moreover obtain v where "Some v \<in> set (rx_split_go (rplus r_ws) 0 [] [] s)" "v \<noteq> []"
    using split_spaces_word [of "[]" s "[]"] x by auto
  ultimately show ?thesis
    by (force simp: words_of_def rx_split_def filter_empty_conv)
qed

lemma trim_nonblank: "js_trim s \<noteq> [] \<Longrightarrow> \<exists>x \<in> set (js_trim s). \<not> is_ws x"
  using js_trim_trimmed [of s] by (auto simp: trimmed_def intro: hd_in_set bexI [of _ "hd (js_trim s)"])

subsection \<open>Ranking\<close>

lemma js_sort_map: "map g (js_sort (\<lambda>x y. cmp (g x) (g y)) xs) = js_sort cmp (map g xs)"
proof -
  have "map g (insert_by (\<lambda>x y. cmp (g x) (g y)) x ys) = insert_by cmp (g x) (map g ys)" for x ys
    by (induction ys) auto
  then show ?thesis by (induction xs) auto
qed

text \<open>Every page and every code sample as a result for the query, in the order of the index.\<close>

definition page_hits :: "(jstr \<Rightarrow> jstr) \<Rightarrow> search_document list \<Rightarrow> jstr \<Rightarrow> search_result list" where
  "page_hits lower documents q =
     map (\<lambda>d. page_result d (scoreDocument lower d q) (extractSnippet lower (sd_content d) q)) documents"

definition code_hits :: "(jstr \<Rightarrow> jstr) \<Rightarrow> search_document list \<Rightarrow> jstr \<Rightarrow> search_result list" where
  "code_hits lower documents q =
     concat (map (\<lambda>d. map (\<lambda>(i, s). code_result lower q d i s (scoreCodeSample lower d s q))
       (enumerate 0 (sd_codeSamples d))) documents)"

definition hits :: "(jstr \<Rightarrow> jstr) \<Rightarrow> search_document list \<Rightarrow> jstr \<Rightarrow> search_mode \<Rightarrow> search_result list" where
  "hits lower documents q m = filter (\<lambda>r. 0 < score_of r)
     ((if m = ModeCode then [] else page_hits lower documents q) @
      (if m = ModePages then [] else code_hits lower documents q))"

lemma score_page_result [simp]: "score_of (page_result d n w) = int n"
  by (simp add: score_of_def page_result_def)

lemma scored_pages:
  "scoredPageResults lower documents q = js_sort (descending score_of) (filter (\<lambda>r. 0 < score_of r) (page_hits lower documents q))"
proof -
  let ?g = "\<lambda>(d, score, snippet). page_result d score snippet"
  have s: "score_of (?g t) = (case t of (d, score, snippet) \<Rightarrow> int score)" for t
    by (cases t) simp
  have "descending (\<lambda>(d, score, snippet). int score) = (\<lambda>x y. descending score_of (?g x) (?g y))"
    by (intro ext) (simp only: descending_def s)
  then have "scoredPageResults lower documents q = js_sort (descending score_of) (map ?g (filter (\<lambda>t. 0 < score_of (?g t))
      (map (\<lambda>d. (d, scoreDocument lower d q, extractSnippet lower (sd_content d) q)) documents)))"
    unfolding scoredPageResults_def s by (simp only: js_sort_map) (simp add: case_prod_beta')
  then show ?thesis by (simp add: page_hits_def filter_map comp_def)
qed

lemma scored_codes:
  "scoredCodeResults lower documents q = js_sort (descending score_of) (filter (\<lambda>r. 0 < score_of r) (code_hits lower documents q))"
  by (simp add: scoredCodeResults_def code_hits_def)

lemma search_results_sorted:
  assumes "js_trim query \<noteq> []"
  obtains X where "search_results lower documents query m = take 18 (js_sort (descending score_of) X)"
    "set X = set (hits lower documents (js_trim query) m)" "length X = length (hits lower documents (js_trim query) m)"
proof -
  let ?q = "js_trim query"
  let ?p = "filter (\<lambda>r. 0 < score_of r) (page_hits lower documents ?q)"
  let ?c = "filter (\<lambda>r. 0 < score_of r) (code_hits lower documents ?q)"
  have nil: "documents = [] \<Longrightarrow> hits lower documents ?q m = []"
    by (simp add: hits_def page_hits_def code_hits_def)
  consider "documents = []" | "documents \<noteq> []" "m = ModePages" | "documents \<noteq> []" "m = ModeCode"
    | "documents \<noteq> []" "m = ModeAll" by (cases m) auto
  then show ?thesis
  proof cases
    case 1
    show ?thesis by (rule that [of "[]"]) (use nil 1 in \<open>simp_all add: search_results_def\<close>)
  next
    case 2
    show ?thesis
      by (rule that [of ?p]) (use assms 2 in \<open>simp_all add: search_results_def scored_pages hits_def\<close>)
  next
    case 3
    show ?thesis
      by (rule that [of ?c]) (use assms 3 in \<open>simp_all add: search_results_def scored_codes hits_def\<close>)
  next
    case 4
    show ?thesis
      by (rule that [of "js_sort (descending score_of) ?p @ js_sort (descending score_of) ?c"])
        (use assms 4 in \<open>simp_all add: search_results_def scored_pages scored_codes hits_def Let_def\<close>)
  qed
qed

text \<open>C36: For a query that is not blank the dialog shows at most 18 results, the best first: each is
  a page or a code sample of the index with the positive score the scoring function gives it,
  and as long as one of these is not shown, all 18 places are taken and by no worse result.\<close>

theorem search_results_ranked:
  assumes "js_trim query \<noteq> []"
  shows "let rs = search_results lower documents query m; hs = hits lower documents (js_trim query) m in
    length rs = min 18 (length hs) \<and> set rs \<subseteq> set hs \<and> sorted_wrt (\<lambda>l r. score_of l \<ge> score_of r) rs \<and>
    (\<forall>h \<in> set hs - set rs. length rs = 18 \<and> (\<forall>r \<in> set rs. score_of h \<le> score_of r))"
proof -
  obtain X where X: "search_results lower documents query m = take 18 (js_sort (descending score_of) X)"
      "set X = set (hits lower documents (js_trim query) m)"
      "length X = length (hits lower documents (js_trim query) m)"
    using assms by (rule search_results_sorted)
  let ?s = "js_sort (descending score_of) X"
  have "sorted_wrt (\<lambda>l r. score_of l \<ge> score_of r) ?s"
    using by_score.sorted_js_sort [of score_of X] by (simp add: descending_def)
  then have sorted: "sorted_wrt (\<lambda>l r. score_of l \<ge> score_of r) (take 18 ?s)" by (rule sorted_wrt_take)
  have "set ?s = set (take 18 ?s) \<union> set (drop 18 ?s)" by (metis append_take_drop_id set_append)
  then have rest: "h \<in> set (drop 18 ?s)" if "h \<in> set X - set (take 18 ?s)" for h
    using that by auto
  have "length (take 18 ?s) = 18 \<and> (\<forall>r \<in> set (take 18 ?s). score_of h \<le> score_of r)"
    if "h \<in> set X - set (take 18 ?s)" for h
    using rest [OF that] by_score.take_js_sort [of _ 18 score_of X h]
    by (cases "length X \<le> 18") (auto simp: descending_def)
  moreover have "set (take 18 ?s) \<subseteq> set X" by (metis set_js_sort set_take_subset)
  ultimately show ?thesis using X sorted by (simp add: Let_def min.commute)
qed

definition sample_page :: search_document where
  "sample_page = \<lparr>sd_title = js ''Sessions'', sd_path = js ''/docs/sessions'', sd_aliases = [], sd_section = js ''Sessions'',
     sd_content = js ''Session policies'', sd_searchableText = js ''sessions /docs/sessions session policies'',
     sd_codeSamples = [\<lparr>cs_code = js ''app.session()'', cs_language = js ''python'', cs_filename = js ''app.py'',
       cs_searchableText = js ''app.py python app.session()''\<rparr>]\<rparr>"

definition other_page :: search_document where
  "other_page = \<lparr>sd_title = js ''Mail'', sd_path = js ''/docs/mail'', sd_aliases = [], sd_section = js ''Mail'',
     sd_content = js ''Envelopes'', sd_searchableText = js ''mail /docs/mail envelopes'', sd_codeSamples = []\<rparr>"

lemma sample_scores:
  "scoreDocument to_lower sample_page (js ''session'') = 220 + 170 + 80 + 60 + 35 + 45 + 14 + 55 + 13"
  "scoreDocument to_lower other_page (js ''session'') = 13"
  "scoreCodeSample to_lower sample_page (hd (sd_codeSamples sample_page)) (js ''session'') = 180 + 70 + 65 + 20 + 20 + 14 + 60"
  by code_simp+

theorem search_results_ranked_witness:
  "let rs = search_results to_lower [other_page, sample_page] (js '' session '') ModeAll;
       hs = hits to_lower [other_page, sample_page] (js_trim (js '' session '')) ModeAll in
    length rs = min 18 (length hs) \<and> set rs \<subseteq> set hs \<and> sorted_wrt (\<lambda>l r. score_of l \<ge> score_of r) rs \<and>
    (\<forall>h \<in> set hs - set rs. length rs = 18 \<and> (\<forall>r \<in> set rs. score_of h \<le> score_of r))"
  by (rule search_results_ranked) code_simp

subsection \<open>Every page matches\<close>

lemma scoreDocument_positive:
  assumes "js_trim q \<noteq> []" "\<exists>x \<in> set (lower (js_trim q)). \<not> is_ws x" "length (split_char 47 (sd_path d)) < 16"
  shows "0 < scoreDocument lower d q"
proof -
  have "lower (js_trim q) \<noteq> []" using assms(2) by auto
  then show ?thesis using words_of_nonempty [OF assms(2)] assms(3) by (simp add: scoreDocument_def Let_def)
qed

text \<open>The last line of \<open>scoreDocument\<close> adds 16 less the number of segments of the path to the
  score of every page, matching or not. So for any query that is not blank every page is a
  result: the mode \<open>pages\<close> shows 18 pages, or all there are, whatever is typed, and the text
  \<open>No matches found\<close> is never shown in it or in the mode \<open>all\<close>. \<open>lower\<close> is only asked not to
  turn a visible character into white space.\<close>

theorem every_page_matches:
  assumes "js_trim query \<noteq> []" "documents \<noteq> []"
    and "\<forall>w. (\<exists>x \<in> set w. \<not> is_ws x) \<longrightarrow> (\<exists>x \<in> set (lower w). \<not> is_ws x)"
    and "\<forall>d \<in> set documents. length (split_char 47 (sd_path d)) < 16"
  shows "length (search_results lower documents query ModePages) = min 18 (length documents) \<and>
    search_results lower documents query ModeAll \<noteq> []"
proof -
  have "\<exists>x \<in> set (lower (js_trim query)). \<not> is_ws x" using assms(1,3) trim_nonblank by blast
  then have pos: "\<forall>r \<in> set (page_hits lower documents (js_trim query)). 0 < score_of r"
    using assms by (auto simp: page_hits_def intro!: scoreDocument_positive)
  then have pages: "length (hits lower documents (js_trim query) ModePages) = length documents"
    by (simp add: hits_def filter_id_conv) (simp add: page_hits_def)
  have "0 < length (hits lower documents (js_trim query) ModeAll)"
    using pos assms(2) by (auto simp: hits_def filter_id_conv) (simp add: page_hits_def)
  with pages search_results_sorted [OF assms(1), of lower documents ModePages]
    search_results_sorted [OF assms(1), of lower documents ModeAll]
  show ?thesis by (metis length_js_sort length_take list.size(3) min_less_iff_conj not_less0 min.commute zero_less_numeral)
qed

lemma to_lower_visible: "(\<exists>x \<in> set w. \<not> is_ws x) \<longrightarrow> (\<exists>x \<in> set (to_lower w). \<not> is_ws x)"
proof
  assume "\<exists>x \<in> set w. \<not> is_ws x"
  then obtain x where "x \<in> set w" "\<not> is_ws x" by blast
  moreover from this have "\<not> is_ws (lower_unit x)" by (auto simp: lower_unit_def is_ws_def is_upper_def)
  ultimately show "\<exists>x \<in> set (to_lower w). \<not> is_ws x" by (auto simp: to_lower_def)
qed

theorem every_page_matches_witness:
  "length (search_results to_lower [other_page, sample_page] (js ''qzx'') ModePages) = 2"
proof -
  have "\<forall>d \<in> set [other_page, sample_page]. length (split_char 47 (sd_path d)) < 16" by code_simp
  moreover have "js_trim (js ''qzx'') \<noteq> []" by code_simp
  ultimately show ?thesis
    using every_page_matches [of "js ''qzx''" "[other_page, sample_page]" to_lower] to_lower_visible by simp
qed

subsection \<open>Snippets\<close>

lemma length_js_trim: "length (js_trim s) \<le> length s"
  unfolding js_trim_def trim_end_def trim_start_def
  by (metis length_dropWhile_le length_rev order_trans)

text \<open>A snippet is never longer than 206 units: 200 of the content and the two ellipses. It is a
  stretch of the content, trimmed, and an ellipsis stands exactly where the content was cut.\<close>

theorem extractSnippet_bounds:
  "length (extractSnippet lower content query) \<le> 206 \<and>
   (\<exists>u v w. content = u @ v @ w \<and>
      (extractSnippet lower content query = js_trim v \<or>
       extractSnippet lower content query =
         (if u = [] then [] else js ''...'') @ js_trim v @ (if w = [] then [] else js ''...'')))"
proof (cases "content = []")
  case False
  let ?terms = "words_of (js_trim (lower query))"
  have cut: "content = take i content @ js_slice i j content @ drop j content" if "i \<le> j" for i j
    using that unfolding js_slice_def by (metis append.assoc append_take_drop_id le_add_diff_inverse take_add)
  have len: "length (js_slice i j content) \<le> j - i" for i j by (simp add: js_slice_def)
  show ?thesis
  proof (cases "find (\<lambda>term. js_includes (lower content) term) ?terms")
    case None
    then have e: "extractSnippet lower content query = js_trim (js_slice 0 180 content)"
      using False by (simp add: extractSnippet_def Let_def)
    show ?thesis
      unfolding e using cut [of 0 180] len [of 0 180] length_js_trim [of "js_slice 0 180 content"]
      by (intro conjI exI [of _ "take 0 content"] exI [of _ "js_slice 0 180 content"] exI [of _ "drop 180 content"]) auto
  next
    case (Some w)
    define i where "i = the (index_of (lower content) w)"
    define l where "l = i - 80"
    define h where "h = min (length content) (i + 120)"
    have e: "extractSnippet lower content query = (if 0 < l then js ''...'' else []) @ js_trim (js_slice l h content) @
        (if h < length content then js ''...'' else [])"
      using False Some by (simp add: extractSnippet_def Let_def i_def l_def h_def)
    have bound: "length (extractSnippet lower content query) \<le> 206"
      unfolding e using len [of l h] length_js_trim [of "js_slice l h content"] by (auto simp: l_def h_def)
    show ?thesis
    proof (cases "l \<le> h")
      case True
      moreover have "(take l content = []) = (l = 0)" "(drop h content = []) = (\<not> h < length content)"
        using False by auto
      ultimately show ?thesis using bound e cut [OF True]
        by (intro conjI exI [of _ "take l content"] exI [of _ "js_slice l h content"] exI [of _ "drop h content"]) auto
    next
      case l: False
      then have "h = length content" "js_slice l h content = []" by (auto simp: l_def h_def js_slice_def)
      then show ?thesis using bound e l False
        by (intro conjI exI [of _ content] exI [of _ "[]"]) auto
    qed
  qed
qed (simp add: extractSnippet_def js_trim_def trim_start_def trim_end_def)

subsection \<open>Canonical paths\<close>

definition path_depth :: "jstr \<Rightarrow> nat" where
  "path_depth p = length (split_char 47 p)"

definition has_overview :: "jstr \<Rightarrow> bool" where
  "has_overview p = js_includes p (js ''/overview'')"

lemma canonical_le:
  "canonical_order collate l r \<le> 0 \<longleftrightarrow>
     path_depth l < path_depth r \<or> path_depth l = path_depth r \<and>
       (\<not> has_overview l \<and> has_overview r \<or> has_overview l = has_overview r \<and> collate l r \<le> 0)"
  by (auto simp: canonical_order_def path_depth_def has_overview_def [symmetric] Let_def simp del: js_Cons)

lemma comparator_canonical:
  assumes "comparator collate" shows "comparator (canonical_order collate)"
proof
  note c = comparator.cmp_total [OF assms] comparator.cmp_trans [OF assms] comparator.cmp_refl [OF assms]
  show "0 < canonical_order collate x y \<Longrightarrow> canonical_order collate y x \<le> 0" for x y
    using canonical_le [of collate x y] canonical_le [of collate y x] c(1) [of x y] by linarith
  show "canonical_order collate x y \<le> 0 \<Longrightarrow> canonical_order collate y z \<le> 0 \<Longrightarrow> canonical_order collate x z \<le> 0" for x y z
    unfolding canonical_le using c(2) [of x y z] by auto
  show "canonical_order collate x x \<le> 0" for x using canonical_le [of collate x x] c(3) by simp
qed

text \<open>The address of a page with several routes is one of its routes: one with the fewest
  segments, one without \<open>/overview\<close> if there is one with so few, and the first of these in the
  order of the locale; \<open>collate\<close> is only asked to be a consistent comparison.\<close>

theorem chooseCanonicalPath_least:
  assumes "comparator collate" "paths \<noteq> []"
  shows "\<exists>p \<in> set paths. chooseCanonicalPath collate paths = Some p \<and>
    (\<forall>q \<in> set paths. path_depth p \<le> path_depth q \<and>
       (path_depth p = path_depth q \<and> has_overview p \<longrightarrow> has_overview q) \<and>
       (path_depth p = path_depth q \<and> has_overview p = has_overview q \<longrightarrow> collate p q \<le> 0))"
proof -
  have c: "comparator (canonical_order collate)" using assms(1) by (rule comparator_canonical)
  obtain p ps where p: "js_sort (canonical_order collate) paths = p # ps"
    using assms(2) by (metis js_sort_eq_Nil neq_Nil_conv)
  have "p \<in> set paths \<and> (\<forall>q \<in> set paths. canonical_order collate p q \<le> 0)"
    using comparator.hd_js_sort [OF c assms(2)] p by simp
  moreover have "chooseCanonicalPath collate paths = Some p" by (simp add: chooseCanonicalPath_def p)
  ultimately show ?thesis
    unfolding canonical_le by (intro bexI [of _ p]) auto
qed

text \<open>The order of the code units, as one \<open>collate\<close>.\<close>

definition unit_order :: "jstr \<Rightarrow> jstr \<Rightarrow> int" where
  "unit_order a b = (if a = b then 0 else if a < b then -1 else 1)"

interpretation unit_order: comparator unit_order
  by unfold_locales (auto simp: unit_order_def split: if_splits)

theorem chooseCanonicalPath_least_witness:
  "\<exists>p \<in> {js ''/docs/di/overview'', js ''/docs/di''}.
     chooseCanonicalPath unit_order [js ''/docs/di/overview'', js ''/docs/di''] = Some p"
  using chooseCanonicalPath_least [OF unit_order.comparator_axioms, of "[js ''/docs/di/overview'', js ''/docs/di'']"]
  by (auto simp del: js_Cons)

subsection \<open>The dialog\<close>

text \<open>C38: Whatever the user does and whenever a build of the index ends: the active row is a row
  shown, or the first place when there is none; the page scrolls exactly while the dialog is
  closed, as it did before it was opened; an open dialog has the index, is building it or shows the
  error; and once built, the index is never built again or replaced.\<close>

theorem search_panel_invariant:
  "let s = fold (panel_step lower) es (panel_init cached overflow) in
   panel_inv lower overflow s \<and> panel_grows s (fold (panel_step lower) later s)"
  using search.inv_fold [OF panel_inv_init] search.grows_fold [OF search.inv_fold [OF panel_inv_init]]
  by (simp add: Let_def)

definition key_down :: "jstr \<Rightarrow> panel_event" where
  "key_down key = KeyDown True key False"

lemma arrow_down:
  assumes "ui_isOpen s" "ui_results lower s \<noteq> []"
  shows "panel_step lower (key_down (js ''ArrowDown'')) s =
    s\<lparr>ui_activeIndex := (ui_activeIndex s + 1) mod length (ui_results lower s)\<rparr>"
  using assms
  by (simp add: panel_step_def key_down_def onInputKeyDown_def window_handler_def run_effects_def Let_def)

lemma arrows_down:
  assumes "ui_isOpen s" "ui_results lower s \<noteq> []" "ui_activeIndex s < length (ui_results lower s)"
  shows "(panel_step lower (key_down (js ''ArrowDown'')) ^^ k) s =
    s\<lparr>ui_activeIndex := (ui_activeIndex s + k) mod length (ui_results lower s)\<rparr>"
proof (induction k)
  case (Suc k)
  let ?n = "length (ui_results lower s)"
  let ?t = "s\<lparr>ui_activeIndex := (ui_activeIndex s + k) mod ?n\<rparr>"
  have r: "ui_results lower ?t = ui_results lower s" by (simp add: ui_results_def)
  show ?case using Suc.IH arrow_down [of ?t lower] assms(1,2) r by (simp add: mod_Suc_eq)
qed (use assms in simp)

text \<open>In every state the dialog can reach while it is open and has results, pressing the down
  key \<open>k\<close> times and Enter goes to the result \<open>k\<close> rows below the active one, counted cyclically;
  the dialog closes, its query is cleared and the page scrolls as before.\<close>

theorem search_enter_goes_to_active:
  assumes "s = fold (panel_step lower) es (panel_init cached overflow)" "ui_isOpen s" "ui_results lower s \<noteq> []"
  shows "let t = panel_step lower (key_down (js ''Enter'')) ((panel_step lower (key_down (js ''ArrowDown'')) ^^ k) s) in
    ui_navigated t = ui_navigated s @
      [sr_path (rbase (ui_results lower s ! ((ui_activeIndex s + k) mod length (ui_results lower s))))] \<and>
    \<not> ui_isOpen t \<and> ui_query t = [] \<and> ui_activeIndex t = 0 \<and> ui_overflow t = overflow"
proof -
  let ?n = "length (ui_results lower s)"
  let ?u = "s\<lparr>ui_activeIndex := (ui_activeIndex s + k) mod ?n\<rparr>"
  have inv: "panel_inv lower overflow s" unfolding assms(1) by (rule search.inv_fold [OF panel_inv_init])
  then have "ui_activeIndex s < ?n" using assms(3) by (auto simp: panel_inv_def less_max_iff_disj)
  then have u: "(panel_step lower (key_down (js ''ArrowDown'')) ^^ k) s = ?u" using assms by (intro arrows_down)
  have r: "ui_results lower ?u = ui_results lower s" by (simp add: ui_results_def)
  have "ui_previousOverflow s = overflow" using inv assms(2) by (simp add: panel_inv_def)
  then show ?thesis
    unfolding u using assms(2,3) r
    by (auto simp: panel_step_def key_down_def onInputKeyDown_def goToResult_def window_handler_def run_effects_def
        close_effects_def to_lower_def lower_unit_def is_upper_def Let_def)
qed

definition sample_events :: "panel_event list" where
  "sample_events = [OpenClick, IndexBuilt [other_page, sample_page], ModeClick ModePages]"

theorem search_enter_goes_to_active_witness:
  "ui_navigated (panel_step to_lower (key_down (js ''Enter'')) ((panel_step to_lower (key_down (js ''ArrowDown'')) ^^ 1)
     (fold (panel_step to_lower) sample_events (panel_init None [])))) = [js ''/docs/sessions'']"
proof -
  let ?s = "fold (panel_step to_lower) sample_events (panel_init None [])"
  have s: "ui_isOpen ?s" "ui_activeIndex ?s = 0" "ui_navigated ?s = []" "ui_documents ?s = [other_page, sample_page]"
      "ui_query ?s = []" "ui_resultMode ?s = ModePages"
    by (simp_all add: sample_events_def panel_step_def run_effects_def openSearch_def open_effects_def panel_init_def Let_def)
  have r: "map (sr_path \<circ> rbase) (ui_results to_lower ?s) = [js ''/docs/mail'', js ''/docs/sessions'']"
    unfolding ui_results_def s
    by (simp add: search_results_def js_trim_def trim_start_def trim_end_def pageResultsWithoutQuery_def
        page_result_def other_page_def sample_page_def)
  then obtain a b where "ui_results to_lower ?s = [a, b]" "sr_path (rbase b) = js ''/docs/sessions''"
    by (auto simp del: js_Cons)
  then show ?thesis
    using search_enter_goes_to_active [OF refl s(1), of 1] s(2,3) by (simp only: Let_def) simp
qed

end
