(* ===== verification/SearchHighlight.thy ===== *)
theory SearchHighlight
  imports SearchIndex
begin

text \<open>
  The highlighting of a query in a text: escaping turns any query into a pattern for itself, and
  the split by it loses nothing of the text.
\<close>

subsection \<open>Escaping\<close>

lemma escapeRegExp_units: "escapeRegExp v = concat (map (\<lambda>x. if is_syntax x then [92, x] else [x]) v)"
  by (simp add: escapeRegExp_def rx_replace_all_def gsub_class)

lemma escape_literal [simp]: "literal_pattern (escapeRegExp v) = Some v"
proof -
  have "is_syntax 92" by (simp add: is_syntax_def)
  then show ?thesis by (induction v) (auto simp: escapeRegExp_units)
qed

subsection \<open>Splitting by a captured literal\<close>

definition same :: "(jchar \<Rightarrow> jchar) \<Rightarrow> jstr \<Rightarrow> jstr \<Rightarrow> bool" where
  "same canon v w \<longleftrightarrow> map canon v = map canon w"

lemma run_lit_canon:
  "run (rlit_canon canon w) K (p, s) c =
     (if same canon (take (length w) s) w
      then K (rev (take (length w) s) @ p, drop (length w) s) c else None)"
proof (induction w arbitrary: p s)
  case (Cons x w)
  have "run (rlit_canon canon (x # w)) K (p, s) c =
    run (RChr (\<lambda>y. canon y = canon x)) (run (rlit_canon canon w) K) (p, s) c"
    by (simp add: rlit_canon_def)
  with Cons show ?case by (cases s) (auto simp: same_def)
qed (simp add: rlit_canon_def same_def)

lemma same_length: "same canon v w \<Longrightarrow> length v = length w"
  unfolding same_def by (rule map_eq_imp_length_eq)

lemma at_captured:
  "rx_at (RCap n (rlit_canon canon w)) (p, s) =
     (if same canon (take (length w) s) w
      then Some ((rev (take (length w) s) @ p, drop (length w) s), (\<lambda>k. None)(n \<mapsto> take (length w) s)) else None)"
proof (cases "same canon (take (length w) s) w")
  case True
  then have "length w \<le> length s" using same_length [OF True] by simp
  with True show ?thesis by (simp add: rx_at_def run_lit_canon)
qed (simp add: rx_at_def run_lit_canon)

text \<open>No unit of a piece between two matches starts an occurrence inside the piece.\<close>

definition free_of :: "(jchar \<Rightarrow> jchar) \<Rightarrow> jstr \<Rightarrow> jstr \<Rightarrow> bool" where
  "free_of canon w v \<longleftrightarrow> \<not> js_includes (map canon v) (map canon w)"

fun alternates :: "(jchar \<Rightarrow> jchar) \<Rightarrow> jstr \<Rightarrow> jstr option list \<Rightarrow> bool" where
  "alternates canon w [Some v] = free_of canon w v"
| "alternates canon w (Some v # Some m # ps) = (free_of canon w v \<and> same canon m w \<and> alternates canon w ps)"
| "alternates canon w _ = False"

definition part_text :: "jstr option \<Rightarrow> jstr" where
  "part_text part = (case part of None \<Rightarrow> [] | Some v \<Rightarrow> v)"

lemma part_text_Some [simp]: "part_text (Some v) = v"
  by (simp add: part_text_def)

lemma free_of_prefix:
  assumes "w \<noteq> []" "\<forall>i < length v. \<not> same canon (take (length w) (drop i (v @ s))) w"
  shows "free_of canon w v"
proof (rule ccontr)
  assume "\<not> free_of canon w v"
  then obtain a b where e: "map canon v = a @ map canon w @ b"
    by (auto simp: free_of_def js_includes_iff)
  have l: "length v = length a + length w + length b"
    using arg_cong [OF e, of length] by simp
  have "map canon (take (length w) (drop (length a) v)) = take (length w) (drop (length a) (map canon v))"
    by (simp add: take_map drop_map)
  also have "\<dots> = map canon w" using e by simp
  finally have "same canon (take (length w) (drop (length a) (v @ s))) w"
    using l by (simp add: same_def)
  moreover have "length a < length v" using l assms(1) by (cases w) auto
  ultimately show False using assms(2) by blast
qed

lemma split_alternates:
  assumes "w \<noteq> []" "\<forall>i < length acc. \<not> same canon (take (length w) (drop i (rev acc @ s))) w"
  shows "alternates canon w (rx_split_go (RCap 1 (rlit_canon canon w)) 1 acc p s) \<and>
    concat (map part_text (rx_split_go (RCap 1 (rlit_canon canon w)) 1 acc p s)) = rev acc @ s"
  using assms(2)
proof (induction "length s" arbitrary: acc p s rule: less_induct)
  case less
  have free: "free_of canon w (rev acc)"
    using free_of_prefix [OF assms(1), of "rev acc" canon s] less.prems by simp
  show ?case
  proof (cases s)
    case Nil
    then show ?thesis using free by (simp add: rx_split_go.simps [of _ _ _ _ "[]"])
  next
    case (Cons x t)
    show ?thesis
    proof (cases "same canon (take (length w) s) w")
      case True
      let ?u = "drop (length w) s"
      have len: "length ?u < length s" using assms(1) Cons by simp
      have step: "rx_split_go (RCap 1 (rlit_canon canon w)) 1 acc p s =
          Some (rev acc) # Some (take (length w) s) #
            rx_split_go (RCap 1 (rlit_canon canon w)) 1 [] (rev (take (length w) s) @ p) ?u"
        using True Cons len by (subst rx_split_go.simps) (simp add: at_captured)
      show ?thesis
        unfolding step using less.hyps [OF len, of "[]"] free True by simp
    next
      case False
      have "\<forall>i < length (x # acc). \<not> same canon (take (length w) (drop i (rev (x # acc) @ t))) w"
        using less.prems False Cons by (auto simp: less_Suc_eq)
      moreover have "rx_split_go (RCap 1 (rlit_canon canon w)) 1 acc p s =
          rx_split_go (RCap 1 (rlit_canon canon w)) 1 (x # acc) (x # p) t"
        using False Cons by (subst rx_split_go.simps) (simp add: at_captured)
      ultimately show ?thesis using less.hyps [of t "x # acc" "x # p"] Cons by simp
    qed
  qed
qed

lemma split_captured:
  assumes "w \<noteq> []"
  shows "alternates canon w (rx_split (RCap 1 (rlit_canon canon w)) 1 t)"
    "concat (map part_text (rx_split (RCap 1 (rlit_canon canon w)) 1 t)) = t"
proof -
  have "\<not> same canon [] w" "free_of canon w []" using assms by (auto simp: same_def free_of_def)
  then show "alternates canon w (rx_split (RCap 1 (rlit_canon canon w)) 1 t)"
    "concat (map part_text (rx_split (RCap 1 (rlit_canon canon w)) 1 t)) = t"
    using split_alternates [OF assms, of "[]" canon t "[]"] by (auto simp: rx_split_def at_captured)
qed

definition span_ok :: "(jchar \<Rightarrow> jchar) \<Rightarrow> jstr \<Rightarrow> jstr \<times> bool \<Rightarrow> bool" where
  "span_ok canon w p = (if snd p then same canon (fst p) w else free_of canon w (fst p))"

lemma alternates_spans:
  "alternates canon w ps \<Longrightarrow>
   list_all (span_ok canon w) (map (\<lambda>(i, part). (part_text part, i mod 2 = 1)) (enumerate (2 * k) ps))"
proof (induction canon w ps arbitrary: k rule: alternates.induct)
  case (2 canon w v m ps)
  then show ?case using "2.IH" [of "Suc k"] by (simp add: span_ok_def)
qed (simp_all add: span_ok_def)

text \<open>C37: Highlighting a query that is not blank cuts a text into spans and loses nothing: the spans
  put together are the text; a highlighted span is the query itself but for case, whatever
  characters the query has, and no other span contains the query.\<close>

theorem highlightMatch_spans:
  assumes "js_trim query \<noteq> []"
  shows "\<exists>spans. highlightMatch canon t query = Inr spans \<and> concat (map fst spans) = t \<and>
    list_all (span_ok canon (js_trim query)) spans"
proof -
  let ?ps = "rx_split (RCap 1 (rlit_canon canon (js_trim query))) 1 t"
  let ?f = "\<lambda>(i, part). (part_text part, i mod 2 = (1 :: nat))"
  have "highlightMatch canon t query = Inr (map ?f (enumerate 0 ?ps))"
    using assms by (simp add: highlightMatch_def Let_def part_text_def)
  moreover have "map fst (map ?f (enumerate 0 ?ps)) = map part_text ?ps"
    by (simp add: comp_def case_prod_beta' flip: map_map [of part_text snd, unfolded comp_def])
  moreover have "list_all (span_ok canon (js_trim query)) (map ?f (enumerate 0 ?ps))"
    using alternates_spans [OF split_captured(1) [OF assms], where k = 0] by simp
  ultimately show ?thesis using split_captured(2) [OF assms, of canon t] by auto
qed

theorem highlightMatch_spans_witness:
  "\<exists>spans. highlightMatch upper_unit (js ''a C++ page, c++'') (js '' c++ '') = Inr spans \<and>
     concat (map fst spans) = js ''a C++ page, c++'' \<and> list_all (span_ok upper_unit (js ''c++'')) spans"
proof -
  have t: "js_trim (js '' c++ '') = js ''c++''" by code_simp
  then show ?thesis using highlightMatch_spans [of "js '' c++ ''" upper_unit "js ''a C++ page, c++''"]
    by (simp only: t) simp
qed

end
