(* ===== verification/SearchRoutes.thy ===== *)
theory SearchRoutes
  imports SearchIndex
begin

text \<open>
  Reading the routes back out of the text of \<open>App.tsx\<close>: a text of route elements in the form the
  file has them, among other tags and text, yields exactly its routes.
\<close>

subsection \<open>Text of route elements\<close>

datatype route_item =
    PathItem jstr jstr
  | IndexItem jstr
  | ParentItem jstr jstr
  | TagItem jstr

fun item_text :: "route_item \<Rightarrow> jstr" where
  "item_text (PathItem p c) = js ''<Route path='' @ [34] @ p @ [34] @ js '' element={<'' @ c @ js '' />} />''"
| "item_text (IndexItem c) = js ''<Route index element={<'' @ c @ js '' />} />''"
| "item_text (ParentItem p c) = js ''<Route path='' @ [34] @ p @ [34] @ js '' element={<'' @ c @ js '' />}>''"
| "item_text (TagItem w) = js ''<'' @ w @ js ''>''"

definition component_ok :: "jstr \<Rightarrow> bool" where
  "component_ok c \<longleftrightarrow> c \<noteq> [] \<and> (\<forall>x \<in> set c. is_word x)"

definition path_ok :: "jstr \<Rightarrow> bool" where
  "path_ok p \<longleftrightarrow> p \<noteq> [] \<and> 34 \<notin> set p \<and> 60 \<notin> set p"

text \<open>The text of any other tag, up to its end: it is not \<open>Route\<close> followed by a space.\<close>

definition tag_ok :: "jstr \<Rightarrow> bool" where
  "tag_ok w \<longleftrightarrow> 60 \<notin> set w \<and> \<not> (starts_with w (js ''Route'') \<and> drop 5 w \<noteq> [] \<and> is_ws (hd (drop 5 w)))"

fun item_ok :: "route_item \<Rightarrow> bool" where
  "item_ok (PathItem p c) = (path_ok p \<and> component_ok c)"
| "item_ok (IndexItem c) = component_ok c"
| "item_ok (ParentItem p c) = (path_ok p \<and> component_ok c)"
| "item_ok (TagItem w) = tag_ok w"

fun render_items :: "(jstr \<times> route_item) list \<Rightarrow> jstr \<Rightarrow> jstr" where
  "render_items [] end_text = end_text"
| "render_items ((gap, it) # its) end_text = gap @ item_text it @ render_items its end_text"

fun path_routes :: "(jstr \<times> route_item) list \<Rightarrow> route_binding list" where
  "path_routes [] = []"
| "path_routes ((gap, PathItem p c) # its) = \<lparr>rb_path = normalizedPath p, rb_component = c\<rparr> # path_routes its"
| "path_routes (_ # its) = path_routes its"

fun index_routes :: "(jstr \<times> route_item) list \<Rightarrow> route_binding list" where
  "index_routes [] = []"
| "index_routes ((gap, IndexItem c) # its) = \<lparr>rb_path = js ''/docs'', rb_component = c\<rparr> # index_routes its"
| "index_routes (_ # its) = index_routes its"

subsection \<open>Skipping text\<close>

lemma all_skip: "rx_at r (p, x # s) = None \<Longrightarrow> rx_all_go r p (x # s) = rx_all_go r (x # p) s"
  by (subst rx_all_go.simps) simp

lemma all_end: "rx_at r (p, []) = None \<Longrightarrow> rx_all_go r p [] = []"
  by (subst rx_all_go.simps) simp

lemma all_match:
  "rx_at r (p, s) = Some ((q, u), c) \<Longrightarrow> length u < length s \<Longrightarrow>
   rx_all_go r p s = c(0 \<mapsto> take (length s - length u) s) # rx_all_go r q u"
  by (subst rx_all_go.simps) simp

definition tag_led :: "rx \<Rightarrow> bool" where
  "tag_led r \<longleftrightarrow> (\<forall>p s. \<not> starts_with s (js ''<Route'') \<longrightarrow> rx_at r (p, s) = None)"

lemma tag_led_rx: "tag_led path_route_rx" "tag_led index_route_rx"
  unfolding tag_led_def by (simp_all add: path_route_rx_def index_route_rx_def rx_at_def del: js_Cons)

lemma all_skip_plain:
  assumes "tag_led r" "60 \<notin> set w"
  shows "rx_all_go r p (w @ s) = rx_all_go r (rev w @ p) s"
  using assms(2)
proof (induction w arbitrary: p)
  case (Cons x w)
  then have "rx_at r (p, x # w @ s) = None" using assms(1) by (auto simp: tag_led_def)
  then show ?case using Cons by (simp add: all_skip)
qed simp

lemma starts_with_stop: "starts_with (c @ x # s) w \<Longrightarrow> x \<notin> set w \<Longrightarrow> starts_with c w"
proof (induction c arbitrary: w)
  case Nil
  then show ?case by (cases w) auto
next
  case (Cons y c)
  then show ?case by (cases w) auto
qed

lemma word_units: "is_word x \<Longrightarrow> \<not> is_ws x" "is_word x \<Longrightarrow> x \<noteq> 47" "is_word x \<Longrightarrow> x \<noteq> 60" "is_word x \<Longrightarrow> x \<noteq> 34"
  by (auto simp: jchar_defs)

lemma blank_units [simp]: "is_ws 32" "\<not> is_ws 112" "\<not> is_ws 105" "\<not> is_ws 101" "\<not> is_ws 47" "\<not> is_ws 62" "\<not> is_word 32"
  by (simp_all add: jchar_defs)

text \<open>The component inside \<open>element={...}\<close> is no route element, even when it is called \<open>Route\<close>.\<close>

lemma at_component:
  assumes "component_ok c"
  shows "rx_at path_route_rx (p, 60 # c @ 32 # 47 # s) = None" "rx_at index_route_rx (p, 60 # c @ 32 # 47 # s) = None"
proof -
  show "rx_at path_route_rx (p, 60 # c @ 32 # 47 # s) = None" "rx_at index_route_rx (p, 60 # c @ 32 # 47 # s) = None"
  proof (atomize (full), cases "starts_with c (js ''Route'')")
    case False
    then have "\<not> starts_with (60 # c @ 32 # 47 # s) (js ''<Route'')"
      using starts_with_stop [of c 32 "47 # s" "js ''Route''"] by auto
    then show "rx_at path_route_rx (p, 60 # c @ 32 # 47 # s) = None \<and> rx_at index_route_rx (p, 60 # c @ 32 # 47 # s) = None"
      using tag_led_rx by (simp add: tag_led_def del: js_Cons)
  next
    case True
    then obtain d where "c = js ''Route'' @ d" by (auto simp: starts_with_iff)
    moreover from this have "d = [] \<or> is_word (hd d)" using assms by (cases d) (auto simp: component_ok_def)
    ultimately show "rx_at path_route_rx (p, 60 # c @ 32 # 47 # s) = None \<and> rx_at index_route_rx (p, 60 # c @ 32 # 47 # s) = None"
      by (cases d) (auto simp: path_route_rx_def index_route_rx_def rx_at_def r_ws_def word_units)
  qed
qed

subsection \<open>Matching route elements\<close>

lemma run_cap_path:
  assumes "path_ok pa"
  shows "run (RCap n (rplus (RChr (\<lambda>x. x \<noteq> 34)))) (run (rlit [34]) K) (p, pa @ 34 # t) c =
    K (34 # rev pa @ p, t) (c(n \<mapsto> pa))"
proof -
  have "run (RCap n (rplus (RChr (\<lambda>x. x \<noteq> 34)))) (run (rlit [34]) K) (p, pa @ 34 # t) c =
      run (rlit [34]) K (rev pa @ p, 34 # t) (c(n \<mapsto> pa))"
    by (rule run_cap_plus_max) (use assms in \<open>auto simp: path_ok_def\<close>)
  then show ?thesis by simp
qed

lemma run_cap_component:
  assumes "component_ok co"
  shows "run (RCap n (rplus (RChr is_word))) (run (RStar (RChr is_ws)) (run (rlit [47, 62, 125]) K)) (p, co @ 32 # 47 # t) c =
    (case t of a # b # u \<Rightarrow> if a = 62 \<and> b = 125 then K (125 # 62 # 47 # 32 # rev co @ p, u) (c(n \<mapsto> co)) else None | _ \<Rightarrow> None)"
proof -
  have "run (RCap n (rplus (RChr is_word))) (run (RStar (RChr is_ws)) (run (rlit [47, 62, 125]) K)) (p, co @ 32 # 47 # t) c =
      run (RStar (RChr is_ws)) (run (rlit [47, 62, 125]) K) (rev co @ p, 32 # 47 # t) (c(n \<mapsto> co))"
    by (rule run_cap_plus_max) (use assms in \<open>auto simp: component_ok_def word_units\<close>)
  also have "\<dots> = run (rlit [47, 62, 125]) K (32 # rev co @ p, 47 # t) (c(n \<mapsto> co))" by simp
  finally show ?thesis by (auto split: list.splits)
qed

lemma at_path_item:
  assumes "path_ok pa" "component_ok co"
  shows "\<exists>q c. rx_at path_route_rx (p, item_text (PathItem pa co) @ s) = Some ((q, s), c) \<and> capture 1 c = pa \<and> capture 2 c = co"
  by (simp add: rx_at_def path_route_rx_def r_ws_def capture_def run_cap_path [OF assms(1)]
      run_cap_component [OF assms(2)] del: run.simps(7))

lemma at_index_item:
  assumes "component_ok co"
  shows "\<exists>q c. rx_at index_route_rx (p, item_text (IndexItem co) @ s) = Some ((q, s), c) \<and> capture 1 c = co"
  by (simp add: rx_at_def index_route_rx_def r_ws_def capture_def run_cap_component [OF assms] del: run.simps(7))

lemma at_other_items:
  "path_ok pa \<Longrightarrow> component_ok co \<Longrightarrow> rx_at path_route_rx (p, item_text (ParentItem pa co) @ s) = None"
  "path_ok pa \<Longrightarrow> component_ok co \<Longrightarrow> rx_at index_route_rx (p, item_text (ParentItem pa co) @ s) = None"
  "path_ok pa \<Longrightarrow> component_ok co \<Longrightarrow> rx_at index_route_rx (p, item_text (PathItem pa co) @ s) = None"
  "component_ok co \<Longrightarrow> rx_at path_route_rx (p, item_text (IndexItem co) @ s) = None"
  by (simp_all add: rx_at_def path_route_rx_def index_route_rx_def r_ws_def run_cap_path
      run_cap_component del: run.simps(7))

lemma at_tag:
  assumes "tag_ok w"
  shows "rx_at path_route_rx (p, item_text (TagItem w) @ s) = None \<and> rx_at index_route_rx (p, item_text (TagItem w) @ s) = None"
proof (cases "starts_with w (js ''Route'')")
  case False
  then have "\<not> starts_with (item_text (TagItem w) @ s) (js ''<Route'')"
    using starts_with_stop [of w 62 s "js ''Route''"] by auto
  then show ?thesis using tag_led_rx by (simp add: tag_led_def del: js_Cons item_text.simps)
next
  case True
  then obtain d where "w = js ''Route'' @ d" by (auto simp: starts_with_iff)
  moreover from this have "d = [] \<or> \<not> is_ws (hd d)" using assms by (auto simp: tag_ok_def)
  ultimately show ?thesis
    by (cases d) (auto simp: path_route_rx_def index_route_rx_def rx_at_def r_ws_def)
qed

subsection \<open>The whole text\<close>

lemma all_skip_tag:
  assumes "tag_led r" "60 \<notin> set w" "rx_at r (p, 60 # w @ s) = None"
  shows "\<exists>q. rx_all_go r p (60 # w @ s) = rx_all_go r q s"
  using all_skip [OF assms(3)] all_skip_plain [OF assms(1,2)] by metis

lemma all_skip_element:
  assumes "tag_led r" "60 \<notin> set v" "60 \<notin> set w" "component_ok co"
    and "\<And>p t. rx_at r (p, 60 # co @ 32 # 47 # t) = None" "rx_at r (p, 60 # v @ 60 # co @ 32 # 47 # w @ s) = None"
  shows "\<exists>q. rx_all_go r p (60 # v @ 60 # co @ 32 # 47 # w @ s) = rx_all_go r q s"
proof -
  have co: "60 \<notin> set (co @ 32 # 47 # w)" using assms(3,4) word_units(3) by (force simp: component_ok_def)
  obtain q where "rx_all_go r p (60 # v @ 60 # co @ 32 # 47 # w @ s) = rx_all_go r q (60 # co @ 32 # 47 # w @ s)"
    using all_skip_tag [OF assms(1,2,6)] by blast
  moreover obtain q' where "rx_all_go r q (60 # (co @ 32 # 47 # w) @ s) = rx_all_go r q' s"
    using all_skip_tag [OF assms(1) co] assms(5) by force
  ultimately show ?thesis by auto
qed

lemma all_skip_item:
  assumes "item_ok it" "tag_led r" "\<And>co p t. component_ok co \<Longrightarrow> rx_at r (p, 60 # co @ 32 # 47 # t) = None"
    and "rx_at r (p, item_text it @ s) = None"
  shows "\<exists>q. rx_all_go r p (item_text it @ s) = rx_all_go r q s"
proof (cases it)
  case (PathItem pa co)
  have "item_text it @ s = 60 # (js ''Route path='' @ [34] @ pa @ [34] @ js '' element={'') @ 60 # co @ 32 # 47 # js ''>} />'' @ s"
    using PathItem by simp
  then show ?thesis
    using all_skip_element [OF assms(2), of "js ''Route path='' @ [34] @ pa @ [34] @ js '' element={''" "js ''>} />''" co p s]
      assms PathItem by (auto simp: path_ok_def)
next
  case (IndexItem co)
  have "item_text it @ s = 60 # js ''Route index element={'' @ 60 # co @ 32 # 47 # js ''>} />'' @ s"
    using IndexItem by simp
  then show ?thesis
    using all_skip_element [OF assms(2), of "js ''Route index element={''" "js ''>} />''" co p s] assms IndexItem by auto
next
  case (ParentItem pa co)
  have "item_text it @ s = 60 # (js ''Route path='' @ [34] @ pa @ [34] @ js '' element={'') @ 60 # co @ 32 # 47 # js ''>}>'' @ s"
    using ParentItem by simp
  then show ?thesis
    using all_skip_element [OF assms(2), of "js ''Route path='' @ [34] @ pa @ [34] @ js '' element={''" "js ''>}>''" co p s]
      assms ParentItem by (auto simp: path_ok_def)
next
  case (TagItem w)
  then show ?thesis using all_skip_tag [OF assms(2), of "w @ [62]" p s] assms by (auto simp: tag_ok_def)
qed

definition items_ok :: "(jstr \<times> route_item) list \<Rightarrow> bool" where
  "items_ok its \<longleftrightarrow> (\<forall>(gap, it) \<in> set its. 60 \<notin> set gap \<and> item_ok it)"

lemma length_item_text: "0 < length (item_text it)"
  by (cases it) simp_all

lemma capture_upd [simp]: "n \<noteq> 0 \<Longrightarrow> capture n (c(0 \<mapsto> w)) = capture n c"
  by (simp add: capture_def)

lemma all_text_end: "tag_led r \<Longrightarrow> 60 \<notin> set w \<Longrightarrow> rx_all_go r p w = []"
  using all_skip_plain [of r w p "[]"] by (simp add: all_end tag_led_def)

lemma path_item_step:
  assumes "item_ok (PathItem pa co)"
  obtains q c where "rx_all_go path_route_rx p (item_text (PathItem pa co) @ s) = c # rx_all_go path_route_rx q s"
    "capture 1 c = pa" "capture 2 c = co"
proof -
  obtain q c where m: "rx_at path_route_rx (p, item_text (PathItem pa co) @ s) = Some ((q, s), c)" "capture 1 c = pa" "capture 2 c = co"
    using at_path_item [of pa co p s] assms by auto
  show ?thesis by (rule that [OF all_match [OF m(1)]]) (use m(2,3) in simp_all)
qed

lemma index_item_step:
  assumes "item_ok (IndexItem co)"
  obtains q c where "rx_all_go index_route_rx p (item_text (IndexItem co) @ s) = c # rx_all_go index_route_rx q s"
    "capture 1 c = co"
proof -
  obtain q c where m: "rx_at index_route_rx (p, item_text (IndexItem co) @ s) = Some ((q, s), c)" "capture 1 c = co"
    using at_index_item [of co p s] assms by auto
  show ?thesis by (rule that [OF all_match [OF m(1)]]) (use m(2) in simp_all)
qed

lemma other_item_step:
  assumes "item_ok it"
  shows "(\<forall>pa co. it \<noteq> PathItem pa co) \<Longrightarrow> \<exists>q. rx_all_go path_route_rx p (item_text it @ s) = rx_all_go path_route_rx q s"
    "(\<forall>co. it \<noteq> IndexItem co) \<Longrightarrow> \<exists>q. rx_all_go index_route_rx p (item_text it @ s) = rx_all_go index_route_rx q s"
proof -
  assume "\<forall>pa co. it \<noteq> PathItem pa co"
  then have "rx_at path_route_rx (p, item_text it @ s) = None"
    using assms at_other_items at_tag by (cases it) (auto simp del: item_text.simps)
  then show "\<exists>q. rx_all_go path_route_rx p (item_text it @ s) = rx_all_go path_route_rx q s"
    using all_skip_item [OF assms tag_led_rx(1)] at_component by blast
next
  assume "\<forall>co. it \<noteq> IndexItem co"
  then have "rx_at index_route_rx (p, item_text it @ s) = None"
    using assms at_other_items at_tag by (cases it) (auto simp del: item_text.simps)
  then show "\<exists>q. rx_all_go index_route_rx p (item_text it @ s) = rx_all_go index_route_rx q s"
    using all_skip_item [OF assms tag_led_rx(2)] at_component by blast
qed

lemma render_start:
  assumes "tag_led r" "60 \<notin> set gap"
  shows "rx_all_go r p (render_items ((gap, it) # its) e) = rx_all_go r (rev gap @ p) (item_text it @ render_items its e)"
  using all_skip_plain [OF assms] by simp

lemma items_ok_Cons: "items_ok ((gap, it) # its) \<longleftrightarrow> 60 \<notin> set gap \<and> item_ok it \<and> items_ok its"
  by (simp add: items_ok_def)

lemma path_routes_read:
  "items_ok its \<Longrightarrow> 60 \<notin> set end_text \<Longrightarrow>
   map (\<lambda>m. \<lparr>rb_path = normalizedPath (capture 1 m), rb_component = capture 2 m\<rparr>)
     (rx_all_go path_route_rx p (render_items its end_text)) = path_routes its"
proof (induction its arbitrary: p)
  case Nil
  then show ?case by (simp add: all_text_end tag_led_rx)
next
  case (Cons x its)
  obtain gap it where x: "x = (gap, it)" by fastforce
  have ok: "60 \<notin> set gap" "item_ok it" "items_ok its" using Cons.prems(1) x by (auto simp: items_ok_Cons)
  note start = render_start [OF tag_led_rx(1) ok(1), of p it its end_text]
  show ?case
  proof (cases "\<exists>pa co. it = PathItem pa co")
    case True
    then obtain pa co where it: "it = PathItem pa co" by blast
    from ok(2) [unfolded it] obtain q c where
      "rx_all_go path_route_rx (rev gap @ p) (item_text it @ render_items its end_text) =
         c # rx_all_go path_route_rx q (render_items its end_text)" "capture 1 c = pa" "capture 2 c = co"
      unfolding it by (rule path_item_step)
    then show ?thesis using Cons.IH [OF ok(3) Cons.prems(2)] start x it by simp
  next
    case False
    then obtain q where "rx_all_go path_route_rx (rev gap @ p) (item_text it @ render_items its end_text) =
        rx_all_go path_route_rx q (render_items its end_text)"
      using other_item_step(1) [OF ok(2)] by blast
    then show ?thesis using Cons.IH [OF ok(3) Cons.prems(2)] start x False by (cases it) simp_all
  qed
qed

lemma index_routes_read:
  "items_ok its \<Longrightarrow> 60 \<notin> set end_text \<Longrightarrow>
   map (\<lambda>m. \<lparr>rb_path = js ''/docs'', rb_component = capture 1 m\<rparr>)
     (rx_all_go index_route_rx p (render_items its end_text)) = index_routes its"
proof (induction its arbitrary: p)
  case Nil
  then show ?case by (simp add: all_text_end tag_led_rx)
next
  case (Cons x its)
  obtain gap it where x: "x = (gap, it)" by fastforce
  have ok: "60 \<notin> set gap" "item_ok it" "items_ok its" using Cons.prems(1) x by (auto simp: items_ok_Cons)
  note start = render_start [OF tag_led_rx(2) ok(1), of p it its end_text]
  show ?case
  proof (cases "\<exists>co. it = IndexItem co")
    case True
    then obtain co where it: "it = IndexItem co" by blast
    from ok(2) [unfolded it] obtain q c where
      "rx_all_go index_route_rx (rev gap @ p) (item_text it @ render_items its end_text) =
         c # rx_all_go index_route_rx q (render_items its end_text)" "capture 1 c = co"
      unfolding it by (rule index_item_step)
    then show ?thesis using Cons.IH [OF ok(3) Cons.prems(2)] start x it by simp
  next
    case False
    then obtain q where "rx_all_go index_route_rx (rev gap @ p) (item_text it @ render_items its end_text) =
        rx_all_go index_route_rx q (render_items its end_text)"
      using other_item_step(2) [OF ok(2)] by blast
    then show ?thesis using Cons.IH [OF ok(3) Cons.prems(2)] start x False by (cases it) simp_all
  qed
qed

text \<open>From a text of route elements the search reads every route with its component: those with a
  path in the order of the text, below \<open>/docs/\<close> unless the path is absolute, then the index
  routes, and of these the ones below \<open>/docs\<close>. The elements with nested routes, the other
  tags, the names of the components and the text in between add none.\<close>

theorem extractDocRoutes_reads:
  assumes "items_ok its" "60 \<notin> set end_text"
  shows "extractDocRoutes (render_items its end_text) =
    filter (\<lambda>b. starts_with (rb_path b) (js ''/docs'')) (path_routes its @ index_routes its)"
  using path_routes_read [OF assms, of "[]"] index_routes_read [OF assms, of "[]"]
  by (simp add: extractDocRoutes_def rx_match_all_def)

definition sample_items :: "(jstr \<times> route_item) list" where
  "sample_items = [
     (js '' '', PathItem (js ''/help'') (js ''HelpPage'')),
     (js '' '', ParentItem (js ''/docs'') (js ''DocsLayout'')),
     (js '' '', IndexItem (js ''IntroductionPage'')),
     (js '' {/* Server */} '', PathItem (js ''server/asgi'') (js ''ServerASGI'')),
     (js '' '', TagItem (js ''/Route'')),
     (js '' '', TagItem (js ''/Routes''))]"

theorem extractDocRoutes_reads_witness:
  "extractDocRoutes (render_items sample_items []) =
     [\<lparr>rb_path = js ''/docs/server/asgi'', rb_component = js ''ServerASGI''\<rparr>,
      \<lparr>rb_path = js ''/docs'', rb_component = js ''IntroductionPage''\<rparr>]"
proof -
  have "items_ok sample_items"
    by (simp add: items_ok_def sample_items_def path_ok_def component_ok_def tag_ok_def jchar_defs)
  then show ?thesis
    using extractDocRoutes_reads [of sample_items "[]"] by (simp add: sample_items_def normalizedPath_def)
qed

end
