(* ===== verification/SearchSite.thy ===== *)
theory SearchSite
  imports SearchRoutes RouteData
begin

text \<open>
  The search and the route table: what the search reads out of the text of \<open>App.tsx\<close> against the
  table of RouteData. The text is any text whose route elements, in order, are those of the
  table, with any other tags and text around them; that of the file is one.
\<close>

fun item_of :: "route \<Rightarrow> route_item" where
  "item_of (Route p c) = PathItem p c"
| "item_of (IndexRoute c) = IndexItem c"

text \<open>The elements of \<open>Routes\<close>: the last of \<open>site_routes\<close> is the parent of the documentation.\<close>

definition table_items :: "route_item list" where
  "table_items = map item_of (butlast site_routes) @ [ParentItem (rt_path (last site_routes)) (rt_component (last site_routes))] @
     map item_of doc_routes @ map item_of fallback_routes"

definition is_tag :: "route_item \<Rightarrow> bool" where
  "is_tag it = (case it of TagItem w \<Rightarrow> True | _ \<Rightarrow> False)"

definition route_items :: "(jstr \<times> route_item) list \<Rightarrow> route_item list" where
  "route_items its = filter (\<lambda>it. \<not> is_tag it) (map snd its)"

lemma routes_of_items:
  "path_routes its = path_routes (map (Pair []) (route_items its))"
  "index_routes its = index_routes (map (Pair []) (route_items its))"
proof -
  have "path_routes its = path_routes (map (Pair []) (route_items its)) \<and>
    index_routes its = index_routes (map (Pair []) (route_items its))"
  proof (induction its)
    case (Cons x its)
    then show ?case by (cases x; cases "snd x") (auto simp: route_items_def is_tag_def)
  qed (simp add: route_items_def)
  then show "path_routes its = path_routes (map (Pair []) (route_items its))"
    "index_routes its = index_routes (map (Pair []) (route_items its))" by blast+
qed

lemma path_routes_append:
  "path_routes (xs @ ys) = path_routes xs @ path_routes ys" "index_routes (xs @ ys) = index_routes xs @ index_routes ys"
  by (induction xs rule: path_routes.induct) simp_all

definition is_index :: "route \<Rightarrow> bool" where
  "is_index r = (case r of IndexRoute c \<Rightarrow> True | Route p c \<Rightarrow> False)"

definition doc_route_ok :: "route \<Rightarrow> bool" where
  "doc_route_ok r = (case r of IndexRoute c \<Rightarrow> component_ok c
     | Route p c \<Rightarrow> path_ok p \<and> component_ok c \<and> \<not> starts_with p (js ''/''))"

lemma doc_routes_ok_1:
  "list_all doc_route_ok routes_getting_started"
  "list_all doc_route_ok routes_tutorials"
  "list_all doc_route_ok routes_server"
  "list_all doc_route_ok routes_config"
  "list_all doc_route_ok routes_request_response"
  "list_all doc_route_ok routes_controllers"
  "list_all doc_route_ok routes_routing"
  "list_all doc_route_ok routes_di"
  "list_all doc_route_ok routes_models"
  by code_simp+

lemma doc_routes_ok_2:
  "list_all doc_route_ok routes_fields_subpages"
  "list_all doc_route_ok routes_relationships_subpages"
  "list_all doc_route_ok routes_transactions_subpages"
  "list_all doc_route_ok routes_contracts"
  "list_all doc_route_ok routes_database"
  "list_all doc_route_ok routes_auth"
  "list_all doc_route_ok routes_sessions"
  "list_all doc_route_ok routes_middleware"
  "list_all doc_route_ok routes_aquilary"
  "list_all doc_route_ok routes_subsystem"
  by code_simp+

lemma doc_routes_ok_3:
  "list_all doc_route_ok routes_server_sent_events_sse"
  "list_all doc_route_ok routes_cryptographic_signing"
  "list_all doc_route_ok routes_faults"
  "list_all doc_route_ok routes_cache"
  "list_all doc_route_ok routes_http_client"
  "list_all doc_route_ok routes_i18n"
  "list_all doc_route_ok routes_i8n_alias_routes"
  "list_all doc_route_ok routes_websockets"
  "list_all doc_route_ok routes_templates"
  "list_all doc_route_ok routes_mail"
  by code_simp+

lemma doc_routes_ok_4:
  "list_all doc_route_ok routes_cli"
  "list_all doc_route_ok routes_testing"
  "list_all doc_route_ok routes_openapi"
  "list_all doc_route_ok routes_tasks"
  "list_all doc_route_ok routes_storage"
  "list_all doc_route_ok routes_sqlite"
  "list_all doc_route_ok routes_filesystem"
  "list_all doc_route_ok routes_providers_deployment"
  "list_all doc_route_ok routes_dev_platform"
  "list_all doc_route_ok routes_docs_wildcard_404"
  by code_simp+

lemma index_routes_of:
  "filter is_index routes_getting_started = [IndexRoute (js ''IntroductionPage'')]"
  "filter is_index routes_tutorials = []"
  "filter is_index routes_server = []"
  "filter is_index routes_config = []"
  "filter is_index routes_request_response = []"
  "filter is_index routes_controllers = []"
  "filter is_index routes_routing = []"
  "filter is_index routes_di = []"
  "filter is_index routes_models = []"
  "filter is_index routes_fields_subpages = []"
  "filter is_index routes_relationships_subpages = []"
  "filter is_index routes_transactions_subpages = []"
  "filter is_index routes_contracts = []"
  "filter is_index routes_database = []"
  "filter is_index routes_auth = []"
  "filter is_index routes_sessions = []"
  "filter is_index routes_middleware = []"
  "filter is_index routes_aquilary = []"
  "filter is_index routes_subsystem = []"
  "filter is_index routes_server_sent_events_sse = []"
  "filter is_index routes_cryptographic_signing = []"
  "filter is_index routes_faults = []"
  "filter is_index routes_cache = []"
  "filter is_index routes_http_client = []"
  "filter is_index routes_i18n = []"
  "filter is_index routes_i8n_alias_routes = []"
  "filter is_index routes_websockets = []"
  "filter is_index routes_templates = []"
  "filter is_index routes_mail = []"
  "filter is_index routes_cli = []"
  "filter is_index routes_testing = []"
  "filter is_index routes_openapi = []"
  "filter is_index routes_tasks = []"
  "filter is_index routes_storage = []"
  "filter is_index routes_sqlite = []"
  "filter is_index routes_filesystem = []"
  "filter is_index routes_providers_deployment = []"
  "filter is_index routes_dev_platform = []"
  "filter is_index routes_docs_wildcard_404 = []"
  by (simp_all add: is_index_def routes_getting_started_def routes_tutorials_def routes_server_def routes_config_def routes_request_response_def routes_controllers_def routes_routing_def routes_di_def routes_models_def routes_fields_subpages_def routes_relationships_subpages_def routes_transactions_subpages_def routes_contracts_def routes_database_def routes_auth_def routes_sessions_def routes_middleware_def routes_aquilary_def routes_subsystem_def routes_server_sent_events_sse_def routes_cryptographic_signing_def routes_faults_def routes_cache_def routes_http_client_def routes_i18n_def routes_i8n_alias_routes_def routes_websockets_def routes_templates_def routes_mail_def routes_cli_def routes_testing_def routes_openapi_def routes_tasks_def routes_storage_def routes_sqlite_def routes_filesystem_def routes_providers_deployment_def routes_dev_platform_def routes_docs_wildcard_404_def del: js_Cons)

lemma doc_routes_ok: "list_all doc_route_ok doc_routes" "filter is_index doc_routes = [IndexRoute (js ''IntroductionPage'')]"
  by (simp_all add: doc_routes_def doc_routes_ok_1 doc_routes_ok_2 doc_routes_ok_3 doc_routes_ok_4 index_routes_of del: js_Cons)

definition binding_of :: "route \<Rightarrow> route_binding" where
  "binding_of r = \<lparr>rb_path = doc_address r, rb_component = rt_component r\<rparr>"

lemma doc_bindings:
  "list_all doc_route_ok rs \<Longrightarrow>
   path_routes (map (Pair []) (map item_of rs)) = map binding_of (filter (\<lambda>r. \<not> is_index r) rs) \<and>
   index_routes (map (Pair []) (map item_of rs)) = map binding_of (filter is_index rs)"
proof (induction rs)
  case (Cons r rs)
  then show ?case
    by (cases r) (simp_all add: doc_route_ok_def is_index_def binding_of_def normalizedPath_def doc_address_def)
qed simp

lemma other_bindings:
  "path_routes (map (Pair []) (map item_of fallback_routes)) =
     [\<lparr>rb_path = js ''/500'', rb_component = js ''ServerErrorPage''\<rparr>,
      \<lparr>rb_path = js ''/docs/*'', rb_component = js ''NotFoundPage''\<rparr>]"
  "index_routes (map (Pair []) (map item_of fallback_routes)) = []"
  "filter (\<lambda>b. starts_with (rb_path b) (js ''/docs'')) (path_routes (map (Pair []) (map item_of (butlast site_routes)))) = []"
  "index_routes (map (Pair []) (map item_of (butlast site_routes))) = []"
  by (simp_all add: fallback_routes_def site_routes_def normalizedPath_def)

lemma binding_below_docs: "starts_with (rb_path (binding_of r)) (js ''/docs'')"
  by (cases r) (simp_all add: binding_of_def doc_address_def)

text \<open>C35: From the text of the route table the search reads every page of the documentation with its
  address and component, in the order of the table, and the index page; and nothing else but
  one binding more, of the page for unknown addresses, whose top-level \<open>*\<close> it takes for
  \<open>/docs/*\<close>.\<close>

theorem search_reads_route_table:
  assumes "items_ok its" "60 \<notin> set end_text" "route_items its = table_items"
  shows "extractDocRoutes (render_items its end_text) =
    map binding_of (filter (\<lambda>r. \<not> is_index r) doc_routes) @
    [\<lparr>rb_path = js ''/docs/*'', rb_component = js ''NotFoundPage''\<rparr>,
     \<lparr>rb_path = js ''/docs'', rb_component = js ''IntroductionPage''\<rparr>]"
proof -
  have p: "path_routes its = path_routes (map (Pair []) (map item_of (butlast site_routes))) @
      map binding_of (filter (\<lambda>r. \<not> is_index r) doc_routes) @
      [\<lparr>rb_path = js ''/500'', rb_component = js ''ServerErrorPage''\<rparr>,
       \<lparr>rb_path = js ''/docs/*'', rb_component = js ''NotFoundPage''\<rparr>]"
    unfolding routes_of_items(1) [of its] assms(3) table_items_def
    using doc_bindings [OF doc_routes_ok(1)] other_bindings(1) by (simp add: path_routes_append del: js_Cons)
  have i: "index_routes its = [\<lparr>rb_path = js ''/docs'', rb_component = js ''IntroductionPage''\<rparr>]"
    unfolding routes_of_items(2) [of its] assms(3) table_items_def
    using doc_bindings [OF doc_routes_ok(1)] other_bindings(2,4)
    by (simp add: path_routes_append doc_routes_ok(2) binding_of_def doc_address_def del: js_Cons)
  have f: "filter (\<lambda>b. starts_with (rb_path b) (js ''/docs'')) (map binding_of rs) = map binding_of rs" for rs
    by (simp add: filter_id_conv binding_below_docs del: js_Cons)
  show ?thesis
    using path_routes_read [OF assms(1,2), of "[]"] index_routes_read [OF assms(1,2), of "[]"]
    unfolding extractDocRoutes_def rx_match_all_def
    by (simp only: p i filter_append other_bindings(3) f) simp
qed

lemma table_items_ok: "items_ok (map (Pair []) table_items)"
proof -
  have "item_ok (item_of r)" if "r \<in> set doc_routes" for r
    using doc_routes_ok(1) that by (cases r) (auto simp: list_all_iff doc_route_ok_def)
  moreover have "list_all item_ok (map item_of (butlast site_routes) @
      [ParentItem (rt_path (last site_routes)) (rt_component (last site_routes))] @ map item_of fallback_routes)"
    by code_simp
  ultimately show ?thesis by (auto simp: items_ok_def table_items_def list_all_iff)
qed

theorem search_reads_route_table_witness:
  "\<lparr>rb_path = js ''/docs'', rb_component = js ''IntroductionPage''\<rparr> \<in>
     set (extractDocRoutes (render_items (map (Pair []) table_items) []))"
proof -
  have "\<not> is_tag (item_of r)" for r by (cases r) (simp_all add: is_tag_def)
  then have "route_items (map (Pair []) table_items) = table_items"
    by (simp add: route_items_def table_items_def comp_def is_tag_def filter_id_conv)
  then show ?thesis
    using search_reads_route_table [OF table_items_ok, of "[]"] by simp
qed

end
