(* ===== verification/Changelog.thy ===== *)
theory Changelog
  imports JsRegex JsMap
begin

text \<open>
  The changelog page (\<open>pages/Changelogs.tsx\<close>): the parser of \<open>CHANGELOG.md\<close>, the blocks of an item
  and the marks of a text. \<open>toLowerCase\<close> is the argument \<open>lower\<close>.
\<close>

subsection \<open>Entries\<close>

record changelog_section =
  cl_title :: jstr
  cl_type :: jstr
  cl_items :: "jstr list"

datatype changelog_tag = TagMajor | TagMinor | TagPatch

record changelog_entry =
  ce_version :: jstr
  ce_codename :: "jstr option"
  ce_date :: jstr
  ce_tag :: changelog_tag
  ce_summary :: jstr
  ce_sections :: "changelog_section list"

subsection \<open>Parsing\<close>

definition pieces :: "rx \<Rightarrow> jstr \<Rightarrow> jstr list" where
  "pieces r s = map (\<lambda>w. case w of None \<Rightarrow> [] | Some v \<Rightarrow> v) (rx_split r 0 s)"

definition group_text :: "nat \<Rightarrow> caps \<Rightarrow> jstr" where
  "group_text n c = (case c n of None \<Rightarrow> [] | Some w \<Rightarrow> w)"

definition entry_split_rx :: rx where
  "entry_split_rx = rseq [rlit [10, 35, 35], RStar r_ws, rlit [91]]"

definition section_split_rx :: rx where
  "section_split_rx = rseq [rlit [10, 35, 35, 35], rplus r_ws]"

definition version_rx :: rx where
  "version_rx = rseq [RBos, RCap 1 (rplus (RChr (\<lambda>x. x \<noteq> 93))), rlit [93]]"

definition date_rx :: rx where
  "date_rx = (let d = RChr is_digit; m = rlit [45] in RCap 1 (rseq [d, d, d, d, m, d, d, m, d, d]))"

definition codename_rx :: rx where
  "codename_rx = rseq [rlit [34], RCap 1 (rplus (RChr (\<lambda>x. x \<noteq> 34))), rlit [34]]"

definition list_item_rx :: rx where
  "list_item_rx = rseq [RBos, RCap 1 (RStar r_ws), rlit [45], rplus r_ws, RCap 2 (RStar r_dot), REos]"

definition fenced_rx :: rx where
  "fenced_rx = rseq [rlit [96, 96, 96], RLazy r_any, rlit [96, 96, 96]]"

definition push_current :: "jstr option \<Rightarrow> jstr list \<Rightarrow> jstr list" where
  "push_current currentItem items = (case currentItem of None \<Rightarrow> items | Some x \<Rightarrow> items @ [x])"

text \<open>The loop over the lines of a section.\<close>

fun section_items :: "jstr list \<Rightarrow> jstr option \<Rightarrow> jstr list \<Rightarrow> jstr list" where
  "section_items [] currentItem items = push_current currentItem items"
| "section_items (rawLine # rest) currentItem items =
     (case rx_match list_item_rx rawLine of
        Some m \<Rightarrow> section_items rest (Some (group_text 2 m)) (push_current currentItem items)
      | None \<Rightarrow>
          if starts_with (js_trim rawLine) (js ''###'') \<or> starts_with (js_trim rawLine) (js ''##'')
          then push_current currentItem items
          else section_items rest (map_option (\<lambda>x. x @ 10 # rawLine) currentItem) items)"

definition parse_section :: "(jstr \<Rightarrow> jstr) \<Rightarrow> jstr \<Rightarrow> changelog_section option" where
  "parse_section lower part =
     (let secPart = js_trim part in
      if secPart = [] then None
      else
        (let secLines = split_char 10 secPart;
             title = js_trim (hd secLines);
             items = section_items (tl secLines) None []
         in if items = [] then None
            else Some \<lparr>cl_title = title, cl_type = lower title, cl_items = items\<rparr>))"

definition changelog_summary :: "jstr \<Rightarrow> changelog_section list \<Rightarrow> jstr" where
  "changelog_summary version sections =
     (case sections of
        [] \<Rightarrow> js ''Release details for v'' @ version @ js ''.''
      | firstSection # rest \<Rightarrow>
         (case cl_items firstSection of
            [] \<Rightarrow> js ''Release details for v'' @ version @ js ''.''
          | summaryText # others \<Rightarrow>
              (let cleanSummary = js_trim (rx_replace_all (rplus r_ws) (\<lambda>m c. [32])
                     (rx_replace_all fenced_rx (\<lambda>m c. []) summaryText))
               in if length cleanSummary > 150 then js_slice 0 147 cleanSummary @ js ''...'' else cleanSummary)))"

text \<open>An array index out of range is \<open>undefined\<close>, which is no string.\<close>

definition part_at :: "nat \<Rightarrow> jstr list \<Rightarrow> jstr option" where
  "part_at i ps = (if i < length ps then Some (ps ! i) else None)"

definition changelog_tag_of :: "jstr \<Rightarrow> changelog_tag" where
  "changelog_tag_of version =
     (let parts_v = split_char 46 version; zero = Some (js ''0'') in
      if part_at 0 parts_v \<noteq> zero \<and> part_at 1 parts_v = zero \<and> part_at 2 parts_v = zero then TagMajor
      else if part_at 2 parts_v = zero then TagMinor
      else TagPatch)"

definition parse_entry :: "(jstr \<Rightarrow> jstr) \<Rightarrow> jstr \<Rightarrow> changelog_entry option" where
  "parse_entry lower part =
     (let lines = split_char 10 part; headerLine = hd lines in
      case rx_match version_rx headerLine of
        None \<Rightarrow> None
      | Some versionMatch \<Rightarrow>
          (let version = group_text 1 versionMatch;
               date = (case rx_match date_rx headerLine of None \<Rightarrow> js ''Unknown'' | Some m \<Rightarrow> group_text 1 m);
               codename = map_option (group_text 1) (rx_match codename_rx headerLine);
               content = js_join [10] (tl lines);
               sections = List.map_filter (parse_section lower) (pieces section_split_rx content)
           in Some \<lparr>ce_version = version, ce_codename = codename, ce_date = date, ce_tag = changelog_tag_of version,
                ce_summary = changelog_summary version sections, ce_sections = sections\<rparr>))"

definition parseMarkdownChangelog :: "(jstr \<Rightarrow> jstr) \<Rightarrow> jstr \<Rightarrow> changelog_entry list" where
  "parseMarkdownChangelog lower md = List.map_filter (parse_entry lower) (tl (pieces entry_split_rx md))"

subsection \<open>The blocks of an item\<close>

datatype content_block =
    TextBlock jstr
  | BlockOfCode jstr jstr

definition leading_spaces :: "jstr \<Rightarrow> nat" where
  "leading_spaces line = length (takeWhile (\<lambda>x. x = 32) line)"

text \<open>\<open>None\<close> is \<open>Infinity\<close>.\<close>

fun min_indent :: "jstr list \<Rightarrow> nat option \<Rightarrow> nat option" where
  "min_indent [] m = m"
| "min_indent (line # rest) m =
     (if js_trim line = [] then min_indent rest m
      else if (case m of None \<Rightarrow> True | Some k \<Rightarrow> leading_spaces line < k)
      then min_indent rest (Some (leading_spaces line)) else min_indent rest m)"

definition cleanCodeIndentation :: "jstr list \<Rightarrow> jstr" where
  "cleanCodeIndentation lines =
     (if lines = [] then []
      else
        (let minIndent = (case min_indent lines None of None \<Rightarrow> 0 | Some k \<Rightarrow> k)
         in js_join [10] (map (\<lambda>line. if length line \<ge> minIndent then drop minIndent line else trim_start line) lines)))"

record item_state =
  is_inCodeBlock :: bool
  is_currentLanguage :: jstr
  is_currentLines :: "jstr list"
  is_blocks :: "content_block list"

definition item_line :: "jstr \<Rightarrow> item_state \<Rightarrow> item_state" where
  "item_line line st =
     (let trimmedLine = js_trim line in
      if starts_with trimmedLine (js ''```'') then
        (if is_inCodeBlock st then
           st\<lparr>is_blocks := is_blocks st @ [BlockOfCode (cleanCodeIndentation (is_currentLines st)) (is_currentLanguage st)],
              is_currentLines := [], is_inCodeBlock := False\<rparr>
         else
           (let st = (if is_currentLines st \<noteq> []
                then st\<lparr>is_blocks := is_blocks st @ [TextBlock (js_join [10] (is_currentLines st))], is_currentLines := []\<rparr>
                else st)
            in st\<lparr>is_inCodeBlock := True,
                 is_currentLanguage := str_or (Some (js_trim (drop 3 trimmedLine))) (js ''python'')\<rparr>))
      else st\<lparr>is_currentLines := is_currentLines st @ [line]\<rparr>)"

definition item_init :: item_state where
  "item_init = \<lparr>is_inCodeBlock = False, is_currentLanguage = js ''python'', is_currentLines = [], is_blocks = []\<rparr>"

definition item_finish :: "item_state \<Rightarrow> content_block list" where
  "item_finish st =
     (if is_currentLines st \<noteq> [] then
        (if is_inCodeBlock st
         then is_blocks st @ [BlockOfCode (cleanCodeIndentation (is_currentLines st)) (is_currentLanguage st)]
         else is_blocks st @ [TextBlock (js_join [10] (is_currentLines st))])
      else is_blocks st)"

definition parseItemContent :: "jstr \<Rightarrow> content_block list" where
  "parseItemContent t = item_finish (fold item_line (split_char 10 t) item_init)"

subsection \<open>Marks\<close>

definition bold_rx :: rx where
  "bold_rx = RCap 1 (rseq [rlit [42, 42], RLazy r_dot, rlit [42, 42]])"

definition code_mark_rx :: rx where
  "code_mark_rx = RCap 1 (rseq [rlit [96], RLazy r_dot, rlit [96]])"

definition captured_pieces :: "rx \<Rightarrow> jstr \<Rightarrow> jstr list" where
  "captured_pieces r s = map (\<lambda>w. case w of None \<Rightarrow> [] | Some v \<Rightarrow> v) (rx_split r 1 s)"

text \<open>\<open>slice(k, -k)\<close>\<close>

definition strip_marks :: "nat \<Rightarrow> jstr \<Rightarrow> jstr" where
  "strip_marks k s = take (length s - k - k) (drop k s)"

definition code_span :: "jstr \<Rightarrow> jstr \<times> bool" where
  "code_span cPart =
     (let isCode = starts_with cPart [96] \<and> ends_with cPart [96]
      in (if isCode then strip_marks 1 cPart else cPart, isCode))"

definition bold_span :: "jstr \<Rightarrow> (jstr \<times> bool) list \<times> bool" where
  "bold_span bPart =
     (let isBold = starts_with bPart [42, 42] \<and> ends_with bPart [42, 42];
          innerText = (if isBold then strip_marks 2 bPart else bPart)
      in (map code_span (captured_pieces code_mark_rx innerText), isBold))"

definition renderFormattedText :: "jstr \<Rightarrow> ((jstr \<times> bool) list \<times> bool) list" where
  "renderFormattedText t = map bold_span (captured_pieces bold_rx t)"

end
