(* ===== verification/ChangelogFacts.thy ===== *)
theory ChangelogFacts
  imports Changelog
begin

text \<open>
  The changelog parser reads back what a changelog of the usual form says, and the blocks of an
  item keep its lines.
\<close>

subsection \<open>Splitting and searching at line starts\<close>

text \<open>A text in which a pattern matches nowhere, whatever comes before it.\<close>

fun quiet :: "rx \<Rightarrow> jstr \<Rightarrow> jstr \<Rightarrow> bool" where
  "quiet r [] t = True"
| "quiet r (x # w) t = ((\<forall>p. rx_at r (p, x # w @ t) = None) \<and> quiet r w t)"

lemma quiet_append: "quiet r (v @ w) t \<longleftrightarrow> quiet r v (w @ t) \<and> quiet r w t"
  by (induction v) auto

lemma split_quiet:
  "quiet r w t \<Longrightarrow> rx_split_go r 0 acc p (w @ t) = rx_split_go r 0 (rev w @ acc) (rev w @ p) t"
proof (induction w arbitrary: acc p)
  case (Cons x w)
  then have "rx_split_go r 0 acc p (x # w @ t) = rx_split_go r 0 (x # acc) (x # p) (w @ t)"
    by (subst rx_split_go.simps) simp
  with Cons show ?case by simp
qed simp

lemma split_match:
  assumes "rx_at r (p, s) = Some ((q, u), c)" "length u < length s"
  shows "rx_split_go r 0 acc p s = Some (rev acc) # rx_split_go r 0 [] q u"
  using assms by (subst rx_split_go.simps) (auto split: list.split)

lemma split_end: "rx_split_go r 0 acc p [] = [Some (rev acc)]"
  by (simp add: rx_split_go.simps [of _ _ _ _ "[]"])

lemma search_quiet: "quiet r w t \<Longrightarrow> rx_search r p (w @ t) = rx_search r (rev w @ p) t"
  by (induction w arbitrary: p) auto

lemma search_none: "quiet r w [] \<Longrightarrow> (\<forall>p. rx_at r (p, []) = None) \<Longrightarrow> rx_search r p w = None"
  using search_quiet [of r w "[]" p] by simp

lemma search_here: "rx_at r (p, s) = Some m \<Longrightarrow> rx_search r p s = Some ((p, s), m)"
  by (cases s) auto

text \<open>Patterns that start with a line end and two number signs.\<close>

definition heading_led :: "rx \<Rightarrow> bool" where
  "heading_led r \<longleftrightarrow> (\<forall>p s. \<not> starts_with s [10, 35, 35] \<longrightarrow> rx_at r (p, s) = None)"

lemma starts_with_append_iff: "starts_with s (v @ w) \<longleftrightarrow> starts_with s v \<and> starts_with (drop (length v) s) w"
  by (induction s v rule: starts_with.induct) auto

lemma heading_led_rx: "heading_led entry_split_rx" "heading_led section_split_rx"
proof -
  have e: "[10, 35, 35, 35] = [10, 35, 35] @ [35 :: int]" by simp
  show "heading_led entry_split_rx" by (simp add: heading_led_def entry_split_rx_def rx_at_def)
  show "heading_led section_split_rx"
    unfolding heading_led_def section_split_rx_def rx_at_def
    by (simp add: starts_with_append_iff [of _ "[10, 35, 35]" "[35]", simplified])
qed

lemma quiet_line: "heading_led r \<Longrightarrow> 10 \<notin> set w \<Longrightarrow> quiet r w t"
proof (induction w)
  case (Cons x w)
  then show ?case by (auto simp: heading_led_def)
qed simp

lemma quiet_line_end: "heading_led r \<Longrightarrow> \<not> starts_with t [35, 35] \<Longrightarrow> quiet r [10] t"
  by (auto simp: heading_led_def)

subsection \<open>A changelog\<close>

text \<open>What an author writes: a version, its date, its name, a text, and sections. A section has a title,
  rows before the first item, items, and possibly a sub-heading with what is below it; blank rows
  end it. An item is its indentation, its first row behind the dash, and the rows below.\<close>

type_synonym source_item = "nat \<times> jstr \<times> jstr list"

record source_section =
  ss_title :: jstr
  ss_lead :: "jstr list"
  ss_items :: "source_item list"
  ss_rest :: "jstr list"
  ss_blank :: "jstr list"

record source_entry =
  sv_version :: jstr
  sv_date :: jstr
  sv_codename :: "jstr option"
  sv_intro :: jstr
  sv_sections :: "source_section list"

definition item_row :: "nat \<Rightarrow> jstr \<Rightarrow> jstr" where
  "item_row n i = replicate n 32 @ js ''- '' @ i"

definition item_rows :: "source_item \<Rightarrow> jstr list" where
  "item_rows it = (case it of (n, i, below) \<Rightarrow> item_row n i # below)"

definition item_words :: "source_item \<Rightarrow> jstr" where
  "item_words it = (case it of (n, i, below) \<Rightarrow> js_join [10] (i # below))"

definition section_rows :: "source_section \<Rightarrow> jstr list" where
  "section_rows sec = ss_lead sec @ concat (map item_rows (ss_items sec)) @ ss_rest sec"

definition text_lines :: "jstr list \<Rightarrow> jstr" where
  "text_lines rows = concat (map (\<lambda>row. row @ [10]) rows)"

definition section_body :: "source_section \<Rightarrow> jstr" where
  "section_body sec = text_lines (ss_title sec # section_rows sec @ ss_blank sec)"

definition dash :: jstr where
  "dash = [32, 8212, 32]"

definition header_text :: "source_entry \<Rightarrow> jstr" where
  "header_text e = sv_version e @ [93] @ dash @ sv_date e @
     (case sv_codename e of None \<Rightarrow> [] | Some c \<Rightarrow> dash @ [34] @ c @ [34])"

definition sections_text :: "source_section list \<Rightarrow> jstr" where
  "sections_text secs = concat (map (\<lambda>sec. [10] @ js ''### '' @ section_body sec) secs)"

definition entry_text :: "source_entry \<Rightarrow> jstr" where
  "entry_text e = header_text e @ [10] @ sv_intro e @ sections_text (sv_sections e)"

definition changelog_text :: "jstr \<Rightarrow> source_entry list \<Rightarrow> jstr" where
  "changelog_text intro es = intro @ concat (map (\<lambda>e. [10] @ js ''## ['' @ entry_text e) es)"

definition words_ok :: "jstr \<Rightarrow> bool" where
  "words_ok w \<longleftrightarrow> w \<noteq> [] \<and> trimmed w \<and> (\<forall>x \<in> set w. \<not> is_line_end x)"

definition date_ok :: "jstr \<Rightarrow> bool" where
  "date_ok d \<longleftrightarrow> (\<exists>a b c e f g h i. d = [a, b, c, e, 45, f, g, 45, h, i] \<and> list_all is_digit [a, b, c, e, f, g, h, i])"

text \<open>The text below a header has no heading and no list item.\<close>

definition intro_ok :: "jstr \<Rightarrow> bool" where
  "intro_ok w \<longleftrightarrow> \<not> js_includes (10 # w) [10, 35, 35] \<and>
     (\<forall>row \<in> set (split_char 10 (js_trim w)). rx_match list_item_rx row = None)"

text \<open>A row that is no item and no heading of any level.\<close>

definition plain_row :: "jstr \<Rightarrow> bool" where
  "plain_row row \<longleftrightarrow> 10 \<notin> set row \<and> \<not> starts_with (js_trim row) [35, 35] \<and> rx_match list_item_rx row = None"

definition item_ok :: "source_item \<Rightarrow> bool" where
  "item_ok it \<longleftrightarrow> (case it of (n, i, below) \<Rightarrow>
     i \<noteq> [] \<and> \<not> is_ws (hd i) \<and> (\<forall>x \<in> set i. \<not> is_line_end x) \<and> (\<forall>row \<in> set below. plain_row row))"

text \<open>What is below a sub-heading may be anything but a heading of the second or third level.\<close>

definition rest_ok :: "jstr list \<Rightarrow> bool" where
  "rest_ok rows \<longleftrightarrow>
     (rows = [] \<or> starts_with (js_trim (hd rows)) [35, 35] \<and> rx_match list_item_rx (hd rows) = None) \<and>
     (\<forall>row \<in> set rows. 10 \<notin> set row \<and> (starts_with row [35, 35] \<longrightarrow> starts_with row [35, 35, 35, 35]))"

definition section_ok :: "source_section \<Rightarrow> bool" where
  "section_ok sec \<longleftrightarrow>
     words_ok (ss_title sec) \<and> (\<forall>row \<in> set (ss_lead sec). plain_row row) \<and> (\<forall>it \<in> set (ss_items sec). item_ok it) \<and>
     rest_ok (ss_rest sec) \<and> (\<forall>row \<in> set (ss_blank sec). 10 \<notin> set row \<and> (\<forall>x \<in> set row. is_ws x)) \<and>
     (section_rows sec = [] \<or> last (section_rows sec) \<noteq> [] \<and> \<not> is_ws (last (last (section_rows sec))))"

definition source_ok :: "source_entry \<Rightarrow> bool" where
  "source_ok e \<longleftrightarrow>
     sv_version e \<noteq> [] \<and> set (sv_version e) \<inter> {10, 34, 45, 93} = {} \<and> date_ok (sv_date e) \<and>
     (case sv_codename e of None \<Rightarrow> True | Some c \<Rightarrow> c \<noteq> [] \<and> set c \<inter> {10, 34} = {}) \<and>
     intro_ok (sv_intro e) \<and> (\<forall>sec \<in> set (sv_sections e). section_ok sec)"

text \<open>The entry it stands for.\<close>

definition section_of :: "(jstr \<Rightarrow> jstr) \<Rightarrow> source_section \<Rightarrow> changelog_section" where
  "section_of lower sec = \<lparr>cl_title = ss_title sec, cl_type = lower (ss_title sec), cl_items = map item_words (ss_items sec)\<rparr>"

definition entry_of :: "(jstr \<Rightarrow> jstr) \<Rightarrow> source_entry \<Rightarrow> changelog_entry" where
  "entry_of lower e =
     (let secs = map (section_of lower) (filter (\<lambda>sec. ss_items sec \<noteq> []) (sv_sections e))
      in \<lparr>ce_version = sv_version e, ce_codename = sv_codename e, ce_date = sv_date e,
          ce_tag = changelog_tag_of (sv_version e), ce_summary = changelog_summary (sv_version e) secs, ce_sections = secs\<rparr>)"

subsection \<open>Sections\<close>

lemma pieces_go:
  assumes "heading_led r"
  shows "pieces r s = map (\<lambda>w. case w of None \<Rightarrow> [] | Some v \<Rightarrow> v) (rx_split_go r 0 [] [] s)"
proof (cases "s = []")
  case True
  with assms show ?thesis by (simp add: pieces_def rx_split_def heading_led_def split_end)
qed (simp add: pieces_def rx_split_def)

lemma split_blocks:
  assumes "\<And>e t p. e \<in> set es \<Longrightarrow> \<exists>q c. rx_at r (p, sep @ f e @ t) = Some ((q, f e @ t), c)"
    and "\<And>e t. e \<in> set es \<Longrightarrow> t = [] \<or> hd t = 10 \<Longrightarrow> quiet r (f e) t" "sep \<noteq> []" "hd sep = 10"
  shows "map (\<lambda>w. case w of None \<Rightarrow> [] | Some v \<Rightarrow> v) (rx_split_go r 0 acc p (concat (map (\<lambda>e. sep @ f e) es))) =
    rev acc # map f es"
  using assms(1,2)
proof (induction es arbitrary: acc p)
  case Nil
  then show ?case by (simp add: split_end)
next
  case (Cons e es)
  let ?t = "concat (map (\<lambda>e. sep @ f e) es)"
  obtain q c where m: "rx_at r (p, sep @ f e @ ?t) = Some ((q, f e @ ?t), c)"
    using Cons.prems(1) by (meson list.set_intros(1))
  have "?t = [] \<or> hd ?t = 10" using assms(3,4) by (cases es) auto
  then have quiet: "quiet r (f e) ?t" using Cons.prems(2) by auto
  have len: "length (f e @ ?t) < length (sep @ f e @ ?t)" using assms(3) by simp
  show ?case
    using split_match [OF m len, of acc] split_quiet [OF quiet, of "[]" q] Cons.IH [of "rev (f e)"] Cons.prems by simp
qed

lemma words_ok_line: "words_ok w \<Longrightarrow> 10 \<notin> set w"
  by (auto simp: words_ok_def is_line_end_def)

lemma quiet_free:
  assumes "heading_led r" "\<not> js_includes w [10, 35, 35]" "t = [] \<or> hd t = 10"
  shows "quiet r w t"
  using assms(2)
proof (induction w)
  case (Cons x w)
  have "\<not> starts_with (x # w @ t) [10, 35, 35]"
    using Cons.prems assms(3) by (cases w rule: remdups_adj.cases; cases t) (auto simp: starts_with_iff)
  with Cons show ?case using assms(1) by (auto simp: heading_led_def)
qed simp

text \<open>A fourth number sign keeps both patterns from matching.\<close>

definition skips_subheadings :: "rx \<Rightarrow> bool" where
  "skips_subheadings r \<longleftrightarrow> heading_led r \<and> (\<forall>p s. rx_at r (p, 10 # 35 # 35 # 35 # 35 # s) = None)"

lemma skips_rx: "skips_subheadings entry_split_rx" "skips_subheadings section_split_rx"
  using heading_led_rx
  by (simp_all add: skips_subheadings_def rx_at_def entry_split_rx_def section_split_rx_def r_ws_def is_ws_def [of 35])

definition row_skipped :: "jstr \<Rightarrow> bool" where
  "row_skipped row \<longleftrightarrow> 10 \<notin> set row \<and> (starts_with row [35, 35] \<longrightarrow> starts_with row [35, 35, 35, 35])"

lemma quiet_lines:
  assumes "skips_subheadings r" "\<forall>row \<in> set rows. row_skipped row" "t = [] \<or> hd t = 10" "10 \<notin> set row"
  shows "quiet r (row @ [10] @ text_lines rows) t"
  using assms(2,4)
proof (induction rows arbitrary: row)
  case Nil
  have "\<not> starts_with t [35, 35]" using assms(3) by (cases t) auto
  then show ?case
    using assms(1) Nil quiet_line [of r row] quiet_line_end [of r t]
    by (simp add: quiet_append text_lines_def skips_subheadings_def)
next
  case (Cons w rows)
  let ?rest = "w @ [10] @ text_lines rows @ t"
  have "rx_at r (p, 10 # ?rest) = None" for p
  proof (cases "starts_with w [35, 35]")
    case True
    then obtain u where "w = [35, 35, 35, 35] @ u" using Cons.prems(1) by (auto simp: row_skipped_def starts_with_iff)
    then show ?thesis using assms(1) by (simp add: skips_subheadings_def)
  next
    case False
    then have "\<not> starts_with (10 # ?rest) [10, 35, 35]" by (cases w rule: remdups_adj.cases) auto
    then show ?thesis using assms(1) by (simp add: skips_subheadings_def heading_led_def)
  qed
  moreover have "quiet r row (10 # ?rest)"
    using assms(1) quiet_line [of r row] Cons.prems(2) by (simp add: skips_subheadings_def)
  moreover have "quiet r (w @ [10] @ text_lines rows) t"
    using Cons.IH [of w] Cons.prems(1) by (simp add: row_skipped_def)
  ultimately show ?case by (simp add: quiet_append text_lines_def)
qed

lemma hashes_trim: "starts_with row [35, 35] \<Longrightarrow> starts_with (js_trim row) [35, 35]"
proof -
  assume "starts_with row [35, 35]"
  then obtain u where u: "row = 35 # 35 # u" by (auto simp: starts_with_iff)
  then have "trim_start row = row" by (simp add: trim_start_def is_ws_def)
  moreover obtain v where "row = trim_end row @ v" "\<forall>c \<in> set v. is_ws c" using trim_end_decomp by blast
  then have "\<exists>w. trim_end row = 35 # 35 # w"
    using u by (cases "trim_end row" rule: remdups_adj.cases) (auto simp: is_ws_def)
  ultimately show ?thesis by (auto simp: js_trim_def)
qed

lemma item_row_skipped: "item_ok (n, i, below) \<Longrightarrow> row_skipped (item_row n i)"
  by (cases n) (auto simp: item_ok_def row_skipped_def item_row_def is_line_end_def)

lemma plain_row_skipped: "plain_row row \<Longrightarrow> row_skipped row"
  using hashes_trim by (auto simp: plain_row_def row_skipped_def)

lemma item_rows_skipped: "item_ok it \<Longrightarrow> row \<in> set (item_rows it) \<Longrightarrow> row_skipped row"
  using item_row_skipped plain_row_skipped by (cases it) (auto simp: item_rows_def item_ok_def)

lemma blank_row_skipped: "10 \<notin> set row \<Longrightarrow> \<forall>x \<in> set row. is_ws x \<Longrightarrow> row_skipped row"
  by (cases row) (auto simp: row_skipped_def is_ws_def)

lemma section_rows_skipped:
  assumes "section_ok sec" "row \<in> set (section_rows sec @ ss_blank sec)"
  shows "row_skipped row"
proof -
  consider "row \<in> set (ss_lead sec)" | it where "it \<in> set (ss_items sec)" "row \<in> set (item_rows it)" |
    "row \<in> set (ss_rest sec)" | "row \<in> set (ss_blank sec)"
    using assms(2) by (auto simp: section_rows_def)
  then show ?thesis
  proof cases
    case 1
    then show ?thesis using assms(1) plain_row_skipped by (simp add: section_ok_def)
  next
    case (2 it)
    then have "item_ok it" using assms(1) by (simp add: section_ok_def)
    then show ?thesis using 2(2) item_rows_skipped by blast
  next
    case 3
    then show ?thesis using assms(1) by (simp add: section_ok_def rest_ok_def row_skipped_def)
  next
    case 4
    then show ?thesis using assms(1) blank_row_skipped by (simp add: section_ok_def)
  qed
qed

lemma quiet_section_body:
  assumes "skips_subheadings r" "section_ok sec" "t = [] \<or> hd t = 10"
  shows "quiet r (section_body sec) t"
proof -
  have "10 \<notin> set (ss_title sec)" using assms(2) words_ok_line by (simp add: section_ok_def)
  moreover have "\<forall>row \<in> set (section_rows sec @ ss_blank sec). row_skipped row"
    using section_rows_skipped [OF assms(2)] by blast
  ultimately show ?thesis
    using quiet_lines [OF assms(1) _ assms(3), of "section_rows sec @ ss_blank sec" "ss_title sec"]
    by (simp add: section_body_def text_lines_def)
qed

lemma sections_pieces:
  assumes "\<forall>sec \<in> set secs. section_ok sec"
    and "quiet section_split_rx w (sections_text secs)"
  shows "pieces section_split_rx (w @ sections_text secs) = w # map section_body secs"
proof -
  have "\<exists>q c. rx_at section_split_rx (p, ([10] @ js ''### '') @ section_body e @ t) = Some ((q, section_body e @ t), c)"
    if "e \<in> set secs" for e t p
  proof -
    have "words_ok (ss_title e)" using assms(1) that by (auto simp: section_ok_def)
    then obtain x w where "ss_title e = x # w" "\<not> is_ws x" by (cases "ss_title e") (auto simp: words_ok_def trimmed_def)
    then show ?thesis
      by (simp add: section_body_def text_lines_def rx_at_def section_split_rx_def r_ws_def is_ws_def [of 32])
  qed
  then have "map (\<lambda>w. case w of None \<Rightarrow> [] | Some v \<Rightarrow> v)
      (rx_split_go section_split_rx 0 (rev w) (rev w) (concat (map (\<lambda>e. ([10] @ js ''### '') @ section_body e) secs))) =
      rev (rev w) # map section_body secs"
    by (rule split_blocks) (use assms(1) quiet_section_body [OF skips_rx(2)] in auto)
  then show ?thesis
    using split_quiet [OF assms(2), of "[]" "[]"]
    by (simp add: pieces_go heading_led_rx sections_text_def)
qed

lemma sections_text_Cons:
  "sections_text (sec # secs) = [10] @ js ''### '' @ section_body sec @ sections_text secs"
  by (simp add: sections_text_def)

lemma quiet_sections_text:
  assumes "\<forall>sec \<in> set secs. section_ok sec" "t = [] \<or> hd t = 10"
  shows "quiet entry_split_rx (sections_text secs) t"
  using assms(1)
proof (induction secs)
  case (Cons sec secs)
  let ?rest = "sections_text secs @ t"
  have "?rest = [] \<or> hd ?rest = 10" using assms(2) by (cases secs) (auto simp: sections_text_def)
  then have body: "quiet entry_split_rx (section_body sec) ?rest"
    using quiet_section_body [OF skips_rx(1)] Cons.prems by auto
  have "quiet entry_split_rx (js ''### '') (section_body sec @ ?rest)"
    by (rule quiet_line) (simp_all add: heading_led_rx)
  moreover have "quiet entry_split_rx [10] (js ''### '' @ section_body sec @ ?rest)"
    by (simp add: rx_at_def entry_split_rx_def r_ws_def is_ws_def)
  moreover have "quiet entry_split_rx (sections_text secs) t" using Cons by simp
  ultimately show ?case
    using body unfolding sections_text_Cons quiet_append append_assoc by blast
qed (simp add: sections_text_def)

subsection \<open>Items\<close>

lemma match_item_row:
  assumes "i \<noteq> []" "\<not> is_ws (hd i)" "\<forall>x \<in> set i. \<not> is_line_end x"
  obtains c where "rx_match list_item_rx (item_row n i) = Some c" "group_text 2 c = i"
proof -
  obtain x w where i: "i = x # w" "\<not> is_ws x" using assms by (cases i) auto
  have dots: "run (RStar (RChr (\<lambda>x. \<not> is_line_end x)))
      (\<lambda>(p', s') c'. if s' = [] then Some ((p', s'), c'(2 \<mapsto> take (length i - length s') i)) else None) (p, i @ []) c =
      Some ((rev i @ p, []), c(2 \<mapsto> i))" for p c
    by (rule run_star_first) (use assms in auto)
  let ?K = "run (rseq [rlit [45], rplus r_ws, RCap 2 (RStar r_dot), REos]) (\<lambda>q c. Some (q, c))"
  have tail: "?K (p, 45 # 32 # i) c = Some ((rev i @ 32 # 45 # p, []), c(2 \<mapsto> i))" for p c
    using dots i by (simp add: r_ws_def r_dot_def is_ws_def [of 32] fun_upd_def cong: if_cong)
  let ?s = "replicate n 32 @ 45 # 32 # i"
  have "run (RStar (RChr is_ws)) (\<lambda>(p', s') c'. ?K (p', s') (c'(1 \<mapsto> take (length ?s - length s') ?s)))
      ([], replicate n 32 @ 45 # 32 # i) (\<lambda>n. None) =
      Some ((rev i @ 32 # 45 # rev (replicate n 32), []), (\<lambda>n. None)(1 \<mapsto> replicate n 32, 2 \<mapsto> i))"
    by (rule run_star_first) (use tail in \<open>auto simp: is_ws_def simp del: run_seq_list\<close>)
  then have "rx_at list_item_rx ([], item_row n i) =
      Some ((rev i @ 32 # 45 # rev (replicate n 32), []), (\<lambda>n. None)(1 \<mapsto> replicate n 32, 2 \<mapsto> i))"
    by (simp add: rx_at_def list_item_rx_def item_row_def r_ws_def del: run_plus run_seq_list) simp
  then show ?thesis
    by (intro that [of "((\<lambda>n. None)(1 \<mapsto> replicate n 32, 2 \<mapsto> i))(0 \<mapsto> item_row n i)"])
      (simp_all add: rx_match_def rx_exec_def search_here group_text_def)
qed

text \<open>The rows of a section, from its first to the sub-heading that ends the loop.\<close>

lemma items_plain: "plain_row row \<Longrightarrow>
    section_items (row # rows) cur items = section_items rows (map_option (\<lambda>x. x @ 10 # row) cur) items"
proof -
  assume row: "plain_row row"
  have "\<not> starts_with (js_trim row) [35, 35, 35]"
    using row by (auto simp: plain_row_def starts_with_iff)
  with row show ?thesis by (simp add: plain_row_def)
qed

lemma items_lead: "\<forall>row \<in> set lead. plain_row row \<Longrightarrow> section_items (lead @ rows) None items = section_items rows None items"
  by (induction lead) (simp_all add: items_plain del: section_items.simps(2))

lemma items_below: "\<forall>row \<in> set below. plain_row row \<Longrightarrow>
    section_items (below @ rows) (Some x) items = section_items rows (Some (x @ concat (map ((#) 10) below))) items"
  by (induction below arbitrary: x) (simp_all add: items_plain del: section_items.simps(2))

lemma items_rest: "rest_ok rows \<Longrightarrow> section_items rows cur items = push_current cur items"
  by (cases rows) (auto simp: rest_ok_def)

lemma join_rows: "js_join [10] (i # below) = i @ concat (map ((#) 10) below)"
  by (induction below arbitrary: i) simp_all

lemma section_items_rows:
  assumes "\<forall>it \<in> set its. item_ok it" "rest_ok rest"
  shows "section_items (concat (map item_rows its) @ rest) cur items = push_current cur items @ map item_words its"
  using assms(1)
proof (induction its arbitrary: cur items)
  case Nil
  then show ?case using items_rest [OF assms(2)] by simp
next
  case (Cons it its)
  obtain n i below where it: "it = (n, i, below)" by (metis prod_cases3)
  have ok: "i \<noteq> []" "\<not> is_ws (hd i)" "\<forall>x \<in> set i. \<not> is_line_end x" "\<forall>row \<in> set below. plain_row row"
    using Cons.prems it by (auto simp: item_ok_def)
  obtain c where c: "rx_match list_item_rx (item_row n i) = Some c" "group_text 2 c = i"
    by (rule match_item_row [OF ok(1-3)])
  then have "section_items (concat (map item_rows (it # its)) @ rest) cur items =
      section_items (below @ concat (map item_rows its) @ rest) (Some i) (push_current cur items)"
    by (simp add: it item_rows_def)
  also have "\<dots> = push_current (Some (item_words it)) (push_current cur items) @ map item_words its"
    using items_below [OF ok(4)] Cons by (simp add: it item_words_def join_rows del: js_join.simps)
  finally show ?case by (simp add: push_current_def)
qed

lemma last_join: "ws \<noteq> [] \<Longrightarrow> last ws \<noteq> [] \<Longrightarrow> js_join d ws \<noteq> [] \<and> last (js_join d ws) = last (last ws)"
proof (induction d ws rule: js_join.induct)
  case (3 d w v ws)
  then show ?case by (auto simp: last_append)
qed auto

lemma trim_blank_end: "trimmed w \<Longrightarrow> w \<noteq> [] \<Longrightarrow> \<forall>x \<in> set v. is_ws x \<Longrightarrow> js_trim (w @ v) = w"
proof -
  assume w: "trimmed w" "w \<noteq> []" and v: "\<forall>x \<in> set v. is_ws x"
  then have "trim_start (w @ v) = w @ v" by (intro dropWhile_ws_id) (auto simp: trimmed_def hd_append)
  moreover have "dropWhile is_ws (rev v @ rev w) = dropWhile is_ws (rev w)"
    by (rule dropWhile_append2) (use v in simp)
  then have "trim_end (w @ v) = trim_end w" by (simp add: trim_end_def)
  ultimately show ?thesis using w by (simp add: js_trim_def trim_end_id trimmed_def)
qed

lemma lines_join: "text_lines (row # rows) = js_join [10] (row # rows) @ [10]"
  by (induction rows arbitrary: row) (simp_all add: text_lines_def)

lemma text_lines_append: "text_lines (rows @ rows') = text_lines rows @ text_lines rows'"
  by (simp add: text_lines_def)

lemma parse_section_body:
  assumes "section_ok sec"
  shows "parse_section lower (section_body sec) = (if ss_items sec = [] then None else Some (section_of lower sec))"
proof -
  let ?lines = "ss_title sec # section_rows sec"
  let ?blank = "[10] @ text_lines (ss_blank sec)"
  have title: "words_ok (ss_title sec)" using assms by (simp add: section_ok_def)
  have body: "section_body sec = js_join [10] ?lines @ ?blank"
    using text_lines_append [of ?lines "ss_blank sec"] lines_join [of "ss_title sec" "section_rows sec"]
    by (simp add: section_body_def)
  have blank: "\<forall>x \<in> set ?blank. is_ws x"
    using assms by (auto simp: section_ok_def text_lines_def is_ws_def)
  have "last ?lines \<noteq> [] \<and> \<not> is_ws (last (last ?lines))"
    using assms title by (auto simp: section_ok_def words_ok_def trimmed_def)
  moreover have "hd (js_join [10] ?lines) = hd (ss_title sec)"
    using title by (simp add: join_rows words_ok_def hd_append del: js_join.simps)
  ultimately have "trimmed (js_join [10] ?lines)" "js_join [10] ?lines \<noteq> []"
    using last_join [of ?lines "[10]"] title by (auto simp: trimmed_def words_ok_def)
  then have trim: "js_trim (section_body sec) = js_join [10] ?lines" "js_join [10] ?lines \<noteq> []"
    unfolding body using trim_blank_end [OF _ _ blank] by simp_all
  have "\<forall>w \<in> set ?lines. 10 \<notin> set w"
    using section_rows_skipped [OF assms] words_ok_line [OF title] by (auto simp: row_skipped_def)
  then have "split_char 10 (js_join [10] ?lines) = ?lines" by (intro split_join) auto
  moreover have "section_items (section_rows sec) None [] = map item_words (ss_items sec)"
    unfolding section_rows_def using assms section_items_rows [of "ss_items sec" "ss_rest sec" None "[]"]
    by (simp add: section_ok_def items_lead push_current_def)
  ultimately show ?thesis
    using trim title by (simp add: parse_section_def Let_def words_ok_def section_of_def)
qed

subsection \<open>The header of an entry\<close>

lemma match_at:
  assumes "quiet r w t" "rx_at r (rev w, t) = Some ((q, u), c)" "group_text 1 c = v"
  shows "\<exists>m. rx_match r (w @ t) = Some m \<and> group_text 1 m = v"
  using search_quiet [OF assms(1), of "[]"] search_here [OF assms(2)] assms(3)
  by (simp add: rx_match_def rx_exec_def group_text_def)

lemma match_version:
  assumes "v \<noteq> []" "93 \<notin> set v"
  shows "\<exists>m. rx_match version_rx (v @ 93 # t) = Some m \<and> group_text 1 m = v"
proof -
  have "run (RCap 1 (rplus (RChr (\<lambda>x. x \<noteq> 93)))) (run (rlit [93]) (\<lambda>q c. Some (q, c))) ([], v @ 93 # t) (\<lambda>n. None) =
      run (rlit [93]) (\<lambda>q c. Some (q, c)) (rev v @ [], 93 # t) ((\<lambda>n. None)(1 \<mapsto> v))"
    by (rule run_cap_plus_max) (use assms in auto)
  then have "rx_at version_rx (rev [], v @ 93 # t) = Some ((93 # rev v, t), (\<lambda>n. None)(1 \<mapsto> v))"
    by (simp add: rx_at_def version_rx_def del: run.simps(7) One_nat_def)
  then show ?thesis using match_at [of version_rx "[]" "v @ 93 # t"] by (simp add: group_text_def)
qed

lemma date_needs:
  "rx_at date_rx (p, s) = Some m \<Longrightarrow>
   \<exists>a b c e t. s = a # b # c # e # 45 # t \<and> is_digit a \<and> is_digit b \<and> is_digit c \<and> is_digit e"
proof -
  assume a: "rx_at date_rx (p, s) = Some m"
  have "rx_at date_rx (p, s) = None" if "\<not> (\<exists>a b c e t. s = a # b # c # e # 45 # t \<and> is_digit a \<and> is_digit b \<and> is_digit c \<and> is_digit e)"
    using that unfolding rx_at_def date_rx_def Let_def
    by (cases s rule: remdups_adj.cases) (auto simp: starts_with_iff split: list.splits)
  with a show ?thesis by fastforce
qed

lemma date_fail: "\<not> is_digit x \<Longrightarrow> rx_at date_rx (p, x # s) = None"
  by (cases "rx_at date_rx (p, x # s)") (auto dest: date_needs)

lemma quiet_before_date:
  assumes "45 \<notin> set v"
  shows "quiet date_rx (v @ [93, 32, 8212, 32]) t"
proof -
  have fail: "rx_at date_rx (p, v @ 93 # u) = None" if "45 \<notin> set v" for p u and v :: jstr
  proof (rule ccontr)
    assume "rx_at date_rx (p, v @ 93 # u) \<noteq> None"
    then obtain a b c e t where d: "v @ 93 # u = a # b # c # e # 45 # t" "is_digit a" "is_digit b" "is_digit c" "is_digit e"
      using date_needs [of p "v @ 93 # u"] by blast
    then show False using that
      by (auto simp: Cons_eq_append_conv append_eq_Cons_conv is_digit_def)
  qed
  then have "quiet date_rx v (93 # u)" for u
    using assms
  proof (induction v)
    case (Cons a v)
    then show ?case using fail [of "a # v" _ u] by simp
  qed simp
  moreover have "quiet date_rx [93, 32, 8212, 32] t"
    by (simp add: date_fail is_digit_def)
  ultimately show ?thesis by (simp add: quiet_append)
qed

lemma match_date:
  assumes "45 \<notin> set v" "date_ok d"
  shows "\<exists>m. rx_match date_rx (v @ [93] @ dash @ d @ t) = Some m \<and> group_text 1 m = d"
proof -
  have "\<exists>q c. rx_at date_rx (p, d @ t) = Some ((q, t), c) \<and> group_text 1 c = d" for p
    using assms(2) by (auto simp: date_ok_def rx_at_def date_rx_def group_text_def Let_def)
  then obtain q c where "rx_at date_rx (rev (v @ [93, 32, 8212, 32]), d @ t) = Some ((q, t), c)" "group_text 1 c = d"
    by blast
  then show ?thesis
    using match_at [OF quiet_before_date [OF assms(1), of "d @ t"]] by (simp add: dash_def)
qed

lemma codename_fail: "x \<noteq> 34 \<Longrightarrow> rx_at codename_rx (p, x # s) = None" "rx_at codename_rx (p, []) = None"
  by (simp_all add: rx_at_def codename_rx_def)

lemma quiet_no_quote: "34 \<notin> set w \<Longrightarrow> quiet codename_rx w t"
  by (induction w) (auto simp: codename_fail)

lemma match_codename:
  assumes "34 \<notin> set w" "c \<noteq> []" "34 \<notin> set c"
  shows "\<exists>m. rx_match codename_rx (w @ 34 # c @ [34]) = Some m \<and> group_text 1 m = c"
proof -
  have "run (RCap 1 (rplus (RChr (\<lambda>x. x \<noteq> 34)))) (run (rlit [34]) (\<lambda>q c. Some (q, c))) (p, c @ 34 # []) (\<lambda>n. None) =
      run (rlit [34]) (\<lambda>q c. Some (q, c)) (rev c @ p, 34 # []) ((\<lambda>n. None)(1 \<mapsto> c))" for p
    by (rule run_cap_plus_max) (use assms in auto)
  then have "rx_at codename_rx (rev w, 34 # c @ [34]) = Some ((34 # rev c @ 34 # rev w, []), (\<lambda>n. None)(1 \<mapsto> c))"
    by (simp add: rx_at_def codename_rx_def del: run.simps(7) One_nat_def)
  then show ?thesis
    using match_at [OF quiet_no_quote [OF assms(1)]] by (simp add: group_text_def)
qed

lemma no_codename: "34 \<notin> set w \<Longrightarrow> rx_match codename_rx w = None"
  using search_none [OF quiet_no_quote [of w "[]"]] codename_fail(2) by (simp add: rx_match_def rx_exec_def)

lemma date_ok_units: "date_ok d \<Longrightarrow> 34 \<notin> set d \<and> 10 \<notin> set d"
  by (auto simp: date_ok_def is_digit_def)

subsection \<open>The whole changelog\<close>

lemma header_no_line_end: "source_ok e \<Longrightarrow> 10 \<notin> set (header_text e)"
  using date_ok_units [of "sv_date e"] by (auto simp: source_ok_def header_text_def dash_def split: option.splits)

lemma intro_no_section: "intro_ok w \<Longrightarrow> parse_section lower w = None"
proof -
  assume w: "intro_ok w"
  have "section_items rows None [] = []" if "\<forall>row \<in> set rows. rx_match list_item_rx row = None" for rows
    using that by (induction rows) (auto simp: push_current_def)
  moreover have "set (tl (split_char 10 (js_trim w))) \<subseteq> set (split_char 10 (js_trim w))"
    by (simp add: list.set_sel(2) subsetI)
  ultimately have "section_items (tl (split_char 10 (js_trim w))) None [] = []"
    using w by (auto simp: intro_ok_def)
  then show ?thesis by (simp add: parse_section_def Let_def)
qed

lemma sections_read:
  "\<forall>sec \<in> set secs. section_ok sec \<Longrightarrow>
   List.map_filter (parse_section lower) (map section_body secs) =
     map (section_of lower) (filter (\<lambda>sec. ss_items sec \<noteq> []) secs)"
  by (induction secs) (auto simp: parse_section_body)

lemma parse_entry_text:
  assumes "source_ok e"
  shows "parse_entry lower (entry_text e) = Some (entry_of lower e)"
proof -
  let ?h = "header_text e"
  let ?body = "sv_intro e @ sections_text (sv_sections e)"
  have lines: "split_char 10 (entry_text e) = ?h # split_char 10 ?body"
    unfolding entry_text_def using split_char_append [OF header_no_line_end [OF assms]] by simp
  have v: "sv_version e \<noteq> []" "93 \<notin> set (sv_version e)" "45 \<notin> set (sv_version e)" "34 \<notin> set (sv_version e)"
    and d: "date_ok (sv_date e)" "34 \<notin> set (sv_date e)"
    using assms date_ok_units by (auto simp: source_ok_def)
  obtain m where m: "rx_match version_rx ?h = Some m" "group_text 1 m = sv_version e"
    using match_version [OF v(1,2)] unfolding header_text_def by auto
  obtain n where n: "rx_match date_rx ?h = Some n" "group_text 1 n = sv_date e"
    using match_date [OF v(3) d(1)] unfolding header_text_def by blast
  have c: "map_option (group_text 1) (rx_match codename_rx ?h) = sv_codename e"
  proof (cases "sv_codename e")
    case None
    then show ?thesis using v d by (simp add: header_text_def dash_def no_codename)
  next
    case (Some name)
    let ?w = "sv_version e @ [93] @ dash @ sv_date e @ dash"
    have "?h = ?w @ 34 # name @ [34]" using Some by (simp add: header_text_def)
    moreover have "34 \<notin> set ?w" using v d by (simp add: dash_def)
    ultimately show ?thesis
      using match_codename [of ?w name] assms Some by (auto simp: source_ok_def)
  qed
  have "\<not> js_includes (sv_intro e) [10, 35, 35]" using assms by (auto simp: source_ok_def intro_ok_def)
  then have intro: "quiet section_split_rx (sv_intro e) (sections_text (sv_sections e))"
    by (rule quiet_free [OF heading_led_rx(2)]) (cases "sv_sections e"; simp add: sections_text_def)
  have secs: "\<forall>sec \<in> set (sv_sections e). section_ok sec"
    using assms by (simp add: source_ok_def)
  then have "List.map_filter (parse_section lower) (map section_body (sv_sections e)) =
      map (section_of lower) (filter (\<lambda>sec. ss_items sec \<noteq> []) (sv_sections e))"
    by (rule sections_read)
  moreover have "parse_section lower (sv_intro e) = None"
    using assms intro_no_section by (simp add: source_ok_def)
  ultimately have "List.map_filter (parse_section lower) (pieces section_split_rx ?body) =
      map (section_of lower) (filter (\<lambda>sec. ss_items sec \<noteq> []) (sv_sections e))"
    using sections_pieces [OF secs, of "sv_intro e"] intro by simp
  then show ?thesis
    using m n c by (simp add: parse_entry_def lines join_split entry_of_def Let_def)
qed


definition sample_changelog :: "source_entry list" where
  "sample_changelog = [
     \<lparr>sv_version = js ''1.4.2'', sv_date = js ''2026-08-01'', sv_codename = Some (js ''Wake''), sv_intro = [10] @ js ''A release.'' @ [10],
      sv_sections = [
        \<lparr>ss_title = js ''Added'', ss_lead = [[]], ss_items = [(0, js ''one'', [js ''  more'']), (2, js ''two'', [[]])],
         ss_rest = [js ''#### CLI'', js ''- lost''], ss_blank = [[]]\<rparr>,
        \<lparr>ss_title = js ''Fixed'', ss_lead = [], ss_items = [(0, js ''three'', [])], ss_rest = [], ss_blank = []\<rparr>]\<rparr>,
     \<lparr>sv_version = js ''1.4.0'', sv_date = js ''2026-07-01'', sv_codename = None, sv_intro = [], sv_sections = []\<rparr>]"

lemma sample_rows:
  "plain_row []" "plain_row (js ''  more'')" "rest_ok [js ''#### CLI'', js ''- lost'']" "rest_ok []"
  by code_simp+

lemma sample_intro:
  "js_trim [10, 65, 32, 114, 101, 108, 101, 97, 115, 101, 46, 10] = js ''A release.''" "js_trim [] = []"
  by code_simp+

lemma no_item: "rx_match list_item_rx [65, 32, 114, 101, 108, 101, 97, 115, 101, 46] = None" "rx_match list_item_rx [] = None"
  by code_simp+

lemma sample_changelog_ok: "\<forall>e \<in> set sample_changelog. source_ok e"
  using sample_rows by (simp add: sample_changelog_def source_ok_def date_ok_def words_ok_def intro_ok_def trimmed_def is_line_end_def
      is_ws_def is_digit_def sample_intro no_item section_ok_def item_ok_def section_rows_def item_rows_def
      item_row_def)


subsection \<open>A heading right below the header\<close>

text \<open>When no empty line separates the header of an entry from its first heading, the number
  signs stay in the title: the first section is called \<open>### Added\<close> and has a type of that name,
  which no button of the filter selects, while the sections after it are read as usual.\<close>

theorem heading_below_header:
  assumes "source_ok e" "section_ok sec" "ss_items sec \<noteq> []"
  shows "map_option ce_sections
      (parse_entry lower (header_text e @ [10] @ js ''### '' @ section_body sec @ sections_text (sv_sections e))) =
    Some (\<lparr>cl_title = js ''### '' @ ss_title sec, cl_type = lower (js ''### '' @ ss_title sec),
        cl_items = map item_words (ss_items sec)\<rparr> # ce_sections (entry_of lower e))"
proof -
  let ?h = "header_text e"
  let ?sec = "sec\<lparr>ss_title := js ''### '' @ ss_title sec\<rparr>"
  let ?body = "section_body ?sec @ sections_text (sv_sections e)"
  have "words_ok (js ''### '' @ ss_title sec)"
    using assms(2) by (auto simp: section_ok_def words_ok_def trimmed_def is_ws_def is_line_end_def)
  then have first: "section_ok ?sec" using assms(2) by (simp add: section_ok_def section_rows_def)
  have secs: "\<forall>sec \<in> set (sv_sections e). section_ok sec"
    using assms(1) by (simp add: source_ok_def)
  have "quiet section_split_rx (section_body ?sec) (sections_text (sv_sections e))"
    by (rule quiet_section_body [OF skips_rx(2) first]) (cases "sv_sections e"; simp add: sections_text_def)
  then have p: "pieces section_split_rx ?body = section_body ?sec # map section_body (sv_sections e)"
    by (rule sections_pieces [OF secs])
  have whole: "header_text e @ [10] @ js ''### '' @ section_body sec @ sections_text (sv_sections e) = ?h @ 10 # ?body"
    by (simp add: section_body_def section_rows_def text_lines_def)
  have lines: "split_char 10 (?h @ 10 # ?body) = ?h # split_char 10 ?body"
    by (rule split_char_append [OF header_no_line_end [OF assms(1)]])
  have v: "sv_version e \<noteq> []" "93 \<notin> set (sv_version e)" using assms(1) by (auto simp: source_ok_def)
  obtain m where "rx_match version_rx ?h = Some m" using match_version [OF v] unfolding header_text_def by auto
  then show ?thesis
    unfolding whole parse_entry_def lines using assms(3)
    by (simp add: join_split p parse_section_body [OF first] sections_read [OF secs] entry_of_def section_of_def Let_def
        del: js_Cons)
qed

theorem heading_below_header_witness:
  "map_option ce_sections (parse_entry to_lower (header_text (hd sample_changelog) @ [10] @ js ''### '' @
     section_body (sv_sections (hd sample_changelog) ! 1) @ sections_text (sv_sections (hd sample_changelog)))) =
   Some (\<lparr>cl_title = js ''### Fixed'', cl_type = js ''### fixed'', cl_items = [js ''three'']\<rparr> #
     ce_sections (entry_of to_lower (hd sample_changelog)))"
proof -
  have s: "source_ok (hd sample_changelog)" "section_ok (sv_sections (hd sample_changelog) ! 1)"
    "ss_items (sv_sections (hd sample_changelog) ! 1) \<noteq> []"
    using sample_changelog_ok by (simp_all add: sample_changelog_def source_ok_def)
  have "to_lower (js ''### '' @ js ''Fixed'') = js ''### fixed''"
    by (simp add: to_lower_def lower_unit_def is_upper_def)
  then show ?thesis
    using heading_below_header [OF s, of to_lower] by (simp add: sample_changelog_def item_words_def)
qed

text \<open>A section that opens with a sub-heading is lost whole: the loop over its rows ends at the first row that starts
  with number signs, before any item.\<close>

lemma subheaded_section_lost:
  assumes "section_ok sec" "ss_items sec = []"
  shows "parse_section lower (section_body sec) = None"
  using parse_section_body [OF assms(1)] assms(2) by simp

end
