(* ===== verification/ChangelogItems.thy ===== *)
theory ChangelogItems
  imports Changelog
begin

text \<open>
  The blocks of a changelog item: prose and fenced code are read back, and code loses exactly its
  common indentation.
\<close>

subsection \<open>Indentation\<close>

definition indent :: "nat \<Rightarrow> jstr \<Rightarrow> jstr" where
  "indent k row = replicate k 32 @ row"

lemma trim_indent: "js_trim (indent k row) = js_trim row"
proof -
  have "trim_start (indent k row) = trim_start row"
    by (induction k) (simp_all add: indent_def trim_start_def is_ws_def)
  then show ?thesis by (simp add: js_trim_def)
qed

lemma leading_indent: "leading_spaces (indent k row) = k + leading_spaces row"
  by (induction k) (simp_all add: leading_spaces_def indent_def)

lemma min_indent_Some:
  "\<forall>row \<in> set rows. js_trim row \<noteq> [] \<Longrightarrow>
   min_indent rows (Some a) = Some (Min (insert a (leading_spaces ` set rows)))"
proof (induction rows arbitrary: a)
  case (Cons row rows)
  then show ?case
    by (cases "rows = []") (auto simp: min_def insert_commute Min_insert2 simp flip: insert_is_Un)
qed simp

lemma min_indent_nonblank:
  assumes "rows \<noteq> []" "\<forall>row \<in> set rows. js_trim row \<noteq> []"
  shows "min_indent rows None = Some (Min (leading_spaces ` set rows))"
  using assms min_indent_Some [of "tl rows" "leading_spaces (hd rows)"] by (cases rows) auto

text \<open>A row of code, which is indented with the rest, or a blank row, which is white space of any length.\<close>

datatype code_row = Code jstr | Blank jstr

fun code_row_text :: "nat \<Rightarrow> code_row \<Rightarrow> jstr" where
  "code_row_text k (Code row) = indent k row"
| "code_row_text k (Blank w) = w"

fun code_row_read :: "nat \<Rightarrow> code_row \<Rightarrow> jstr" where
  "code_row_read k (Code row) = row"
| "code_row_read k (Blank w) = drop k w"

fun solid_rows :: "code_row list \<Rightarrow> jstr list" where
  "solid_rows [] = []"
| "solid_rows (r # rs) = (case r of Code row \<Rightarrow> row # solid_rows rs | Blank w \<Rightarrow> solid_rows rs)"

definition code_row_ok :: "code_row \<Rightarrow> bool" where
  "code_row_ok r = (case r of Code row \<Rightarrow> js_trim row \<noteq> [] | Blank w \<Rightarrow> \<forall>x \<in> set w. is_ws x)"

lemma blank_trim: "\<forall>x \<in> set w. is_ws x \<Longrightarrow> js_trim w = []"
proof -
  assume "\<forall>x \<in> set w. is_ws x"
  then have "trim_start w = []" by (simp add: trim_start_def)
  then show ?thesis by (simp add: js_trim_def trim_end_def)
qed

lemma min_indent_skips: "min_indent rows m = min_indent (filter (\<lambda>row. js_trim row \<noteq> []) rows) m"
  by (induction rows m rule: min_indent.induct) auto

lemma filter_rows:
  "\<forall>r \<in> set rs. code_row_ok r \<Longrightarrow>
   filter (\<lambda>row. js_trim row \<noteq> []) (map (code_row_text k) rs) = map (indent k) (solid_rows rs)"
  by (induction rs) (auto simp: code_row_ok_def trim_indent blank_trim split: code_row.splits)

lemma solid_rows_mem: "row \<in> set (solid_rows rs) \<longleftrightarrow> Code row \<in> set rs"
  by (induction rs) (auto split: code_row.splits)

text \<open>The rows of a block of code: the smallest indentation is 0, or all are blank and none is taken away.\<close>

definition code_ok :: "nat \<Rightarrow> code_row list \<Rightarrow> bool" where
  "code_ok k rs = ((\<forall>r \<in> set rs. code_row_ok r) \<and>
     (if solid_rows rs = [] then k = 0 else \<exists>row \<in> set (solid_rows rs). leading_spaces row = 0))"

lemma code_min:
  assumes "code_ok k rs"
  shows "(case min_indent (map (code_row_text k) rs) None of None \<Rightarrow> 0 | Some m \<Rightarrow> m) = k"
proof -
  have f: "min_indent (map (code_row_text k) rs) None = min_indent (map (indent k) (solid_rows rs)) None"
    using min_indent_skips [of "map (code_row_text k) rs"] filter_rows assms by (simp add: code_ok_def)
  show ?thesis
  proof (cases "solid_rows rs = []")
    case True
    then show ?thesis using assms f by (simp add: code_ok_def)
  next
    case False
    have "\<forall>row \<in> set (map (indent k) (solid_rows rs)). js_trim row \<noteq> []"
      using assms by (auto simp: code_ok_def code_row_ok_def solid_rows_mem trim_indent split: code_row.splits)
    moreover have "Min (leading_spaces ` set (map (indent k) (solid_rows rs))) = k"
      by (rule Min_eqI) (use assms False in \<open>auto simp: code_ok_def leading_indent intro!: rev_image_eqI\<close>)
    ultimately show ?thesis
      using min_indent_nonblank [of "map (indent k) (solid_rows rs)"] False f by simp
  qed
qed

lemma clean_indented:
  assumes "code_ok k rs"
  shows "cleanCodeIndentation (map (code_row_text k) rs) = js_join [10] (map (code_row_read k) rs)"
proof -
  have "(if length (code_row_text k r) \<ge> k then drop k (code_row_text k r) else trim_start (code_row_text k r)) = code_row_read k r"
    if "r \<in> set rs" for r
  proof -
    have "code_row_ok r" using that assms by (simp add: code_ok_def)
    then show ?thesis by (cases r) (simp_all add: code_row_ok_def indent_def trim_start_def)
  qed
  then have "map (\<lambda>line. if length line \<ge> k then drop k line else trim_start line) (map (code_row_text k) rs) = map (code_row_read k) rs"
    unfolding map_map comp_def by (intro map_cong refl)
  then show ?thesis
    using code_min [OF assms] by (cases "rs = []") (simp_all add: cleanCodeIndentation_def Let_def del: map_map)
qed

subsection \<open>Prose and code\<close>

text \<open>A fence has its language, its own indentation and that of the code.\<close>

datatype item_part = Prose "jstr list" | Fence jstr nat nat "code_row list"

fun part_rows :: "item_part \<Rightarrow> jstr list" where
  "part_rows (Prose rows) = rows"
| "part_rows (Fence language j k rs) =
     indent j (js ''```'' @ language) # map (code_row_text k) rs @ [indent j (js ''```'')]"

fun part_block :: "item_part \<Rightarrow> content_block" where
  "part_block (Prose rows) = TextBlock (js_join [10] rows)"
| "part_block (Fence language j k rs) =
     BlockOfCode (js_join [10] (map (code_row_read k) rs)) (if language = [] then js ''python'' else language)"

definition row_ok :: "jstr \<Rightarrow> bool" where
  "row_ok row \<longleftrightarrow> 10 \<notin> set row \<and> \<not> starts_with (js_trim row) (js ''```'')"

fun part_ok :: "item_part \<Rightarrow> bool" where
  "part_ok (Prose rows) = (rows \<noteq> [] \<and> (\<forall>row \<in> set rows. row_ok row))"
| "part_ok (Fence language j k rs) =
     (trimmed language \<and> 10 \<notin> set language \<and> (\<forall>r \<in> set rs. row_ok (code_row_text k r)) \<and> code_ok k rs)"

definition is_prose :: "item_part \<Rightarrow> bool" where
  "is_prose p = (case p of Prose rows \<Rightarrow> True | Fence language j k rs \<Rightarrow> False)"

text \<open>No prose follows prose directly: the parser would join them.\<close>

fun separated :: "item_part list \<Rightarrow> bool" where
  "separated (p # q # ps) = (\<not> (is_prose p \<and> is_prose q) \<and> separated (q # ps))"
| "separated _ = True"

lemma fold_rows:
  "\<forall>row \<in> set rows. row_ok row \<Longrightarrow>
   fold item_line rows st = st\<lparr>is_currentLines := is_currentLines st @ rows\<rparr>"
  by (induction rows arbitrary: st) (auto simp: item_line_def row_ok_def Let_def)

lemma fence_trim:
  assumes "trimmed language"
  shows "js_trim (indent j (96 # 96 # 96 # language)) = 96 # 96 # 96 # language"
    "js_trim (indent j [96, 96, 96]) = [96, 96, 96]" "js_trim language = language"
proof -
  have "trimmed (96 # 96 # 96 # language)" "trimmed [96, 96, 96]"
    using assms by (auto simp: trimmed_def is_ws_def)
  then show "js_trim (indent j (96 # 96 # 96 # language)) = 96 # 96 # 96 # language"
    "js_trim (indent j [96, 96, 96]) = [96, 96, 96]" "js_trim language = language"
    using assms by (simp_all only: trim_indent js_trim_id)
qed

lemma fold_fence:
  assumes "part_ok (Fence language j k rs)" "\<not> is_inCodeBlock st"
  shows "fold item_line (part_rows (Fence language j k rs)) st =
    st\<lparr>is_blocks := is_blocks st @ (if is_currentLines st = [] then [] else [TextBlock (js_join [10] (is_currentLines st))]) @
         [part_block (Fence language j k rs)],
       is_currentLines := [], is_currentLanguage := (if language = [] then js ''python'' else language)\<rparr>"
proof -
  have ok: "trimmed language" "\<forall>row \<in> set (map (code_row_text k) rs). row_ok row" "code_ok k rs"
    using assms(1) by auto
  show ?thesis
    using assms(2) fence_trim [OF ok(1)] clean_indented [OF ok(3)] fold_rows [OF ok(2)]
    by (cases st) (simp add: item_line_def str_or_def Let_def)
qed

lemma fold_parts:
  assumes "\<forall>p \<in> set ps. part_ok p" "separated ps" "\<not> is_inCodeBlock st"
    and "is_currentLines st \<noteq> [] \<Longrightarrow> ps = [] \<or> \<not> is_prose (hd ps)"
  shows "item_finish (fold item_line (concat (map part_rows ps)) st) =
    is_blocks st @ (if is_currentLines st = [] then [] else [TextBlock (js_join [10] (is_currentLines st))]) @
    map part_block ps"
  using assms
proof (induction ps arbitrary: st)
  case Nil
  then show ?case by (simp add: item_finish_def)
next
  case (Cons p ps)
  have sep: "separated ps" using Cons.prems(2) by (cases ps) auto
  show ?case
  proof (cases p)
    case (Prose rows)
    then have cur: "is_currentLines st = []" using Cons.prems(4) by (auto simp: is_prose_def)
    have rows: "rows \<noteq> []" "\<forall>row \<in> set rows. row_ok row" using Cons.prems(1) Prose by auto
    have "ps = [] \<or> \<not> is_prose (hd ps)" using Cons.prems(2) Prose by (cases ps) (auto simp: is_prose_def)
    then show ?thesis
      using Cons.IH [of "st\<lparr>is_currentLines := rows\<rparr>"] Cons.prems Prose sep cur rows fold_rows [OF rows(2), of st]
      by simp
  next
    case (Fence language j k rs)
    then show ?thesis
      using Cons.IH [of "fold item_line (part_rows p) st"] Cons.prems sep fold_fence [of language j k rs st] by simp
  qed
qed

text \<open>C40: An item made of prose and fenced code is read back as these blocks in their order: prose
  with its lines as they are, code with its language (Python when none is named) and without the
  indentation it has in the item, whatever that is, and with the indentation its lines have among each
  other; blank lines, however long, do not count for the indentation. Prose has at least one line, does not
  follow prose directly (the parser joins the two), and no line of it, nor of code, starts with three backquotes behind its
  white space. A fence may be indented, is closed, and names a language without white space around it; the code may be empty.\<close>

theorem parseItemContent_roundtrip:
  assumes "ps \<noteq> []" "\<forall>p \<in> set ps. part_ok p" "separated ps"
  shows "parseItemContent (js_join [10] (concat (map part_rows ps))) = map part_block ps"
proof -
  have "10 \<notin> set row" if "p \<in> set ps" "row \<in> set (part_rows p)" for p row
  proof (cases p)
    case (Fence language j k rs)
    then have "part_ok (Fence language j k rs)" using assms(2) that(1) by blast
    with that(2) Fence show ?thesis by (auto simp: row_ok_def indent_def)
  qed (use assms(2) that in \<open>auto simp: row_ok_def\<close>)
  moreover have "concat (map part_rows ps) \<noteq> []"
    using assms(1,2) by (cases ps; cases "hd ps") auto
  ultimately have "split_char 10 (js_join [10] (concat (map part_rows ps))) = concat (map part_rows ps)"
    by (intro split_join) auto
  then show ?thesis
    using fold_parts [OF assms(2,3), of item_init] by (simp add: parseItemContent_def item_init_def)
qed

definition sample_parts :: "item_part list" where
  "sample_parts = [Prose [js ''Use it:''], Fence (js ''py'') 2 4 [Code (js ''if x:''), Blank [], Code (js ''  run()'')]]"

theorem parseItemContent_roundtrip_witness:
  "parseItemContent (js_join [10] (concat (map part_rows sample_parts))) =
     [TextBlock (js ''Use it:''), BlockOfCode (js ''if x:'' @ [10, 10] @ js ''  run()'') (js ''py'')]"
proof -
  have "\<forall>p \<in> set sample_parts. part_ok p"
    by code_simp
  moreover have "sample_parts \<noteq> []" "separated sample_parts" by (simp_all add: sample_parts_def is_prose_def)
  ultimately show ?thesis
    using parseItemContent_roundtrip [of sample_parts] 
    by (simp add: sample_parts_def del: js_Cons) simp
qed

end
