(* ===== verification/ChangelogData.thy ===== *)
theory ChangelogData
  imports Changelog
begin

text \<open>
  The changelog the page falls back to (\<open>staticChangelogs\<close> of \<open>pages/Changelogs.tsx\<close>).
\<close>

definition changelog_1_3_8 :: changelog_entry where
  "changelog_1_3_8 = \<lparr>ce_version = (js ''1.3.8''),
     ce_codename = Some (js ''Migration Architect''), ce_date = (js ''2026-07-30''), ce_tag = TagPatch,
     ce_summary = js ''Complete architectural overhaul of the ORM Migration DSL Generator, post-order topological model dependency graph ordering (_topologically_sort_models), character-split index column normalization (columns=['' @ [34] @ js ''token'' @ [34] @ js '']), strict FK target table name resolution (_resolve_target_table), scalar Enum default serialization (default='' @ [34] @ js ''active'' @ [34] @ js ''), and migration revision dependencies tracking metadata.'',
     ce_sections = [
       \<lparr>cl_title = (js ''Added''), cl_type = (js ''added''), cl_items = [
          js ''Topological Model Creation Sorting: Post-order depth-first traversal (_topologically_sort_models) ensures referenced tables (users) are created before dependent tables (email_verification, user_roles) in CreateModel operations.'',
          js ''Foreign Key Target Table Resolver: Multi-pass resolution (_resolve_target_table) resolves target model metadata, ModelRegistry entries, and PascalCase-to-snake_case fallbacks ('' @ [34] @ js ''UserModel'' @ [34] @ js '' -> '' @ [34] @ js ''users'' @ [34] @ js '').'',
          js ''Database Column Name Resolver: Maps model attribute names to underlying database column names ('' @ [34] @ js ''user'' @ [34] @ js '' -> '' @ [34] @ js ''user_id'' @ [34] @ js '') across indexes and table constraints.'',
          js ''Migration Dependencies Metadata: Generated DSL migration modules now include prerequisite revision IDs in Meta.dependencies.'',
          js ''Migration Generator Correctness Test Suite: Comprehensive test suite verifying all 19 migration generator correctness rules, AST parsing, loading, and DDL execution on SQLite.'']\<rparr>,
       \<lparr>cl_title = (js ''Improved''), cl_type = (js ''changed''), cl_items = [
          js ''Character-Split Index Normalization: Normalizes string index fields into list[str] arrays, eliminating character-split index columns (['' @ [39] @ js ''t'' @ [39] @ js '', '' @ [39] @ js ''o'' @ [39] @ js '', '' @ [39] @ js ''k'' @ [39] @ js '', '' @ [39] @ js ''e'' @ [39] @ js '', '' @ [39] @ js ''n'' @ [39] @ js '']) and corrupted index names.'',
          js ''Scalar Enum Default Unwrapping: Unwraps Enum member instances to scalar string/int primitives (default='' @ [39] @ js ''active'' @ [39] @ js ''), fixing Python SyntaxError on migration load.'',
          js ''Foreign Key Type Inference Consistency: Dynamically inspects target primary key types to emit consistent column types (col_type='' @ [34] @ js ''VARCHAR(36)'' @ [34] @ js '') across referencing foreign key column definitions.'',
          js ''Foreign Key Metadata Preservation: Renders null=True, on_delete, on_update, and col_type in C.foreign_key() DSL calls.'']\<rparr>,
       \<lparr>cl_title = (js ''Fixed''), cl_type = (js ''fixed''), cl_items = [
          js ''AST Syntax Error on Enum Migration Load: Fixed stringified Enum representation output (default=<UserStatus.ACTIVE: '' @ [39] @ js ''active'' @ [39] @ js ''>) by serializing DB-storable primitive values.'',
          js ''Foreign Key DDL Execution Failures: Fixed CreateModel execution order for added models using topological graph sorting.'',
          js ''Foreign Key Target Table Reference Crashes: Fixed target table references pointing to un-pluralized class name stubs ('' @ [34] @ js ''usersmodel'' @ [34] @ js '') instead of actual table names ('' @ [34] @ js ''users'' @ [34] @ js '').'']\<rparr>]\<rparr>"

definition changelog_1_3_7 :: changelog_entry where
  "changelog_1_3_7 = \<lparr>ce_version = (js ''1.3.7''),
     ce_codename = Some (js ''Thread Sentinel''), ce_date = (js ''2026-07-30''), ce_tag = TagPatch,
     ce_summary = js ''Introduces thread-safe ModelRegistry registration with re-entrant locking (threading.RLock) and reverse-relation cache invalidation, thread-isolated BaseManager descriptor subclass binding via shallow copying, standard Python type hint annotation support for NestedContractFacet, dialect parameter support across EnumField and CompositeField to_db() methods, and comprehensive 10-point industry docstrings across the Contracts subsystem.'',
     ce_sections = [
       \<lparr>cl_title = (js ''Added''), cl_type = (js ''added''), cl_items = [
          js ''NestedContractFacet Type Annotations: Support for name: NestedContractFacet[SubContract], name: SubContract, and list variations in ContractMeta.'',
          js ''10-Point Standard Docstrings: Added comprehensive industry docstrings across facets.py, exceptions.py, integration.py, lenses.py, pipeline.py, projections.py, schema.py, and ward.py.'',
          js ''ORM & Model Concurrency Test Suite: Multi-threaded test suite verifying thread-safe ModelRegistry operations, manager subclass isolation, and reverse-relation cache invalidation.'']\<rparr>,
       \<lparr>cl_title = (js ''Changed''), cl_type = (js ''changed''), cl_items = [
          js ''ModelRegistry Thread Safety: Class-level threading.RLock guarding register(), reset(), set_database(), get_model(), _resolve_relations(), create_tables(), and drop_tables().'',
          js ''Reverse Relation Cache Invalidation: Dynamic invalidation of _reverse_fk_cache and _reverse_relation_cache when models are registered or reset.'',
          js ''BaseManager Descriptor Subclass Copying: BaseManager.__get__() returns a bound shallow copy (copy.copy(self)) when accessed on subclasses, preventing cross-thread manager state pollution.'']\<rparr>,
       \<lparr>cl_title = (js ''Fixed''), cl_type = (js ''fixed''), cl_items = [
          js ''EnumField & CompositeField to_db() Dialect Parameter: Accepted dialect='' @ [34] @ js ''sqlite'' @ [34] @ js '' in to_db(), resolving TypeError when imprinting contracts into ORM models (contract.imprint()).'',
          js ''Bytecode Cache & Snapshot Assertions: Resolved HMAC secret warning and envelope dict format assertions in bytecode cache and schema snapshot test suite.'']\<rparr>]\<rparr>"

definition changelog_1_3_6 :: changelog_entry where
  "changelog_1_3_6 = \<lparr>ce_version = (js ''1.3.6''),
     ce_codename = Some (js ''Artifact Forge''), ce_date = (js ''2026-07-29''), ce_tag = TagPatch,
     ce_summary = js ''Introduces the unified aquilia.artifacts subsystem, replacing ad-hoc file operations across all producers with standardized ArtifactEnvelope envelopes, atomic write protocol (JSONFileBackend), and HMAC integrity checks. Consolidates all disposable build outputs into .aquilia/artifacts/ and adds the aq artifacts CLI command group.'',
     ce_sections = [
       \<lparr>cl_title = (js ''Added''), cl_type = (js ''added''), cl_items = [
          js ''Unified Artifact Subsystem (aquilia.artifacts): ArtifactStore, ArtifactEnvelope, JSONFileBackend, MemoryBackend, and ArtifactRegistry.'',
          js ''Atomic Write Protocol: JSONFileBackend guarantees atomic writes via tempfile.mkstemp, os.fsync, and os.replace.'',
          js ''HMAC-SHA256 Payload Signing: Native file-format signing (sign_payload, verify_payload) applied via signed=True.'',
          js ''aq artifacts CLI: New status, verify, and clean commands for inspecting and managing on-disk artifacts.'',
          js ''DI Integration: ArtifactStoreProvider and provide_artifact_store() factory for app-scoped artifact injection.'',
          js ''Configurable Root: AQUILIA_ARTIFACT_ROOT env var and [aquilia.artifacts] root TOML configuration.'']\<rparr>,
       \<lparr>cl_title = (js ''Changed''), cl_type = (js ''changed''), cl_items = [
          js ''Unified Path: All framework artifacts now default to .aquilia/artifacts/ instead of scattered artifacts/ folders.'',
          js ''Producer Migration: DiscoveryCache, export_manifest, schema_snapshot, generate_template_manifest, JSONBytecodeCache, SocketCompiler, and save_index migrated to ArtifactStore.'',
          js ''Bytecode Cache Default: JSONBytecodeCache cache_dir default changed from '' @ [34] @ js ''artifacts'' @ [34] @ js '' to None (resolved at runtime to .aquilia/artifacts).'']\<rparr>,
       \<lparr>cl_title = (js ''Fixed''), cl_type = (js ''fixed''), cl_items = [
          js ''Eliminated non-atomic Path.write_text() and Path.replace() calls in template, discovery, and WebSocket compilers.'',
          js ''Fixed inconsistent HMAC verification across discovery engine and bytecode caches.'']\<rparr>]\<rparr>"

definition changelog_1_3_5 :: changelog_entry where
  "changelog_1_3_5 = \<lparr>ce_version = (js ''1.3.5''),
     ce_codename = Some (js ''Distributed Tide''), ce_date = (js ''2026-07-28''), ce_tag = TagPatch,
     ce_summary = js ''Background tasks become genuinely distributed and durable, and mail becomes a production delivery pipeline. Jobs now execute across multiple worker processes and machines with lease-based coordination and crash recovery; job state survives restarts on Redis or SQL; jobs compose into chains, groups, chords, and arbitrary DAGs; duplicate enqueues are collapsed by an enforced fingerprint; mail is delivered by background workers with provider webhook processing and automatic suppression of bounced recipients. No breaking changes '' @ [8212] @ js '' all v1.3.4 applications run without modification, and default behavior is unchanged.'',
     ce_sections = [
       \<lparr>cl_title = (js ''Added''), cl_type = (js ''added''), cl_items = [
          js ''RedisBackend (aquilia.tasks.backends.RedisBackend): multi-process, multi-machine task queue with durable job state. Claims are atomic through Lua scripts against sorted sets. Requires pip install aquilia[redis] and redis_url.'',
          js ''SQLBackend (aquilia.tasks.backends.SQLBackend): durable job state on the application database (SQLite, Postgres, MySQL, Oracle). Claims via conditional UPDATE inside transactions without requiring SELECT FOR UPDATE SKIP LOCKED.'',
          js ''Lease-based crash recovery: claimed jobs hold a lease_seconds duration renewed on heartbeat_interval; a reclaim loop returns abandoned jobs from crashed workers back to the ready pool.'',
          js ''Workflows, Signatures, & DAGs (aquilia.tasks.workflow): compose jobs into chain(*sigs), group(sigs), chord(header, callback), or arbitrary Workflow DAGs with depends_on graph validation.'',
          js ''Enforced Enqueue Deduplication: dedup parameter on TaskManager.enqueue() ('' @ [34] @ js ''allow'' @ [34] @ js '', '' @ [34] @ js ''skip'' @ [34] @ js '', '' @ [34] @ js ''raise'' @ [34] @ js '') matching on Job.fingerprint backed by Redis SET NX or SQL aquilia_task_locks primary key.'',
          js ''Background Mail Delivery Queue: send_message() records envelopes in EnvelopeStore (MemoryEnvelopeStore or SQLEnvelopeStore) and dispatches background delivery via task aquilia.mail.deliver.'',
          js ''Provider Webhooks & Suppression: parse_ses, parse_sendgrid, parse_mailgun with HMAC/ECDSA signature verification, process_webhook event normalisation, and SuppressionList auto-blocking for hard bounces and complaints.'',
          js ''DKIM Signing & Security: byte-level DKIM signing (sign_dkim) via dkimpy, XOAUTH2 authentication support in MailAuth.oauth2, PII email redaction (redact_email, redact_pii), and aq mail check configuration verification.'',
          js ''Documented ATS Public API: configure(template_dirs), render_string, render_template, register_filter, and built-in filters (currency, default, escape, join, length, lower, safe, title, trim, truncate, upper).'']\<rparr>,
       \<lparr>cl_title = (js ''Changed''), cl_type = (js ''changed''), cl_items = [
          js ''Standardized serialization across the entire framework on JSON (.json artifacts, JSONBytecodeCache, JSONCatalog, JSONAuditStore, schema_snapshot.json, credentials.json, ws.json, discovery_cache.json).'',
          js ''backend='' @ [34] @ js ''redis'' @ [34] @ js '' builds a functional Redis backend instead of logging a warning and falling back.'',
          js ''JobResult.to_dict() preserves JSON-safe primitive types instead of forcing repr() on everything.'',
          js ''Mail providers share a single unified MIME builder (aquilia.mail.mime).'',
          js ''aq mail check validates DKIM domain and dkimpy dependency availability.'']\<rparr>,
       \<lparr>cl_title = (js ''Removed''), cl_type = (js ''removed''), cl_items = [
          js ''Removed surp binary serialization format and optional surp dependency across the framework (SurpCatalog, SurpBytecodeCache, SurpAuditStore, requires_surp decorator, InvalidSurp, SurpUnavailable).'']\<rparr>,
       \<lparr>cl_title = (js ''Fixed''), cl_type = (js ''fixed''), cl_items = [
          js ''Mail delivery task was unresolvable across processes: registered under stable task name aquilia.mail.deliver.'',
          js ''Consumer-only workers polled default queue only: queues are now seeded from all @task descriptors and refreshed dynamically from backend stats.'',
          js ''Job results degraded to repr strings on persistent backends: JSON primitives now preserved correctly.'',
          js ''queue.persistent had no configuration surface: threaded through Integration.mail(queue_persistent=...) and SQLEnvelopeStore.'']\<rparr>,
       \<lparr>cl_title = (js ''Security''), cl_type = (js ''security''), cl_items = [
          js ''Provider webhook signature verification for SES, SendGrid, and Mailgun.'',
          js ''DKIM misconfigurations raise errors at send time rather than shipping unsigned messages.'',
          js ''Registry-only callable resolution prevents arbitrary code execution via task queue payloads.'',
          js ''PII redaction for recipient emails in log output and fault messages.'']\<rparr>]\<rparr>"

definition changelog_1_3_4 :: changelog_entry where
  "changelog_1_3_4 = \<lparr>ce_version = (js ''1.3.4''),
     ce_codename = Some (js ''Structural Integrity''), ce_date = (js ''2026-07-24''), ce_tag = TagPatch,
     ce_summary = js ''A comprehensive two-round architectural audit of the Aquilary registry, Auto-Discovery engine, Manifest system, Workspace architecture, Configuration system, and aq CLI. 13 bugs fixed: Secret positional ambiguity, ManifestWriter corruption, recursive Tarjan stack overflow, O(n'' @ [178] @ js '') registry lookup, silent startup failures, discovery SHA-256 overhead, imports/depends_on graph blindness, silent autodiscovery failures, surp decode masking, dead code, regex workspace discovery, and the manifest loader side-effect promise. One new feature: aq validate --deprecated.'',
     ce_sections = [
       \<lparr>cl_title = (js ''Fixed''), cl_type = (js ''fixed''), cl_items = [
          js ''Secret positional-value ambiguity (pyconfig.py): Secret('' @ [34] @ js ''MY_VAR'' @ [34] @ js '') silently reinterpreted the argument as an environment-variable name lookup. The positional argument is now always treated as a literal value. Use Secret(env='' @ [34] @ js ''MY_VAR'' @ [34] @ js '') for env-var binding. DeprecationWarning emitted for positional identifiers matching ^[A-Z][A-Z0-9_]*$.'',
          js ''ManifestWriter corruption risk (discovery/engine.py): No AST validation of rewritten source before disk write. A malformed template expansion could overwrite manifest.py with syntactically invalid Python, corrupting the module. Fixed: ast.parse() runs on the rewritten output before any disk I/O. Bad output '' @ [8594] @ js '' write aborted, original file preserved.'',
          js ''Recursive Tarjan SCC and get_transitive_dependencies stack overflow (aquilary/graph.py): Both algorithms used Python recursion, hitting RecursionError on dependency graphs deeper than ~500 modules. Converted both to explicit-stack iterative implementations. No behavior change; any graph that compiled before still compiles.'',
          js ''O(n'' @ [178] @ js '') manifest registry lookup in Phase 5 (aquilary/core.py): The dependency-graph construction loop nested a linear scan over all manifests inside a per-module loop. Pre-built a {name: manifest} index dict before the loop; Phase 5 is now O(n).'',
          js ''Silent startup failures at entrypoint (entrypoint.py): A broad except Exception: pass swallowed all startup errors, leaving the process running but serving HTTP 500 stubs on every request. New env-var AQUILIA_FAIL_FAST=1 makes the entrypoint re-raise on startup failure, terminating the process with a non-zero exit code.'',
          js ''Discovery cache hashing all files on every run (discovery/engine.py): The cache check always computed SHA-256 over the full file content, defeating the purpose of the cache for I/O cost. Added mtime+size fast-path: skip SHA-256 when both mtime and file size are unchanged since the last scan. SHA-256 still runs on the first scan and whenever mtime or size changes.'',
          js ''imports field ignored by dependency graph builder (aquilary/core.py + manifest.py): Phase 3 graph construction read only depends_on, completely ignoring the v2-preferred imports field. A module declaring AppManifest(imports=['' @ [34] @ js ''auth'' @ [34] @ js '']) produced zero dependency edges, resulting in wrong topological load order and silent DI cross-module wiring failures at runtime. Fixed: Phase 3 now reads imports OR depends_on (same logic as aquilary/validator.py already used). AppManifest.__post_init__ now also syncs bidirectionally: imports= populates depends_on, depends_on= populates imports (and emits DeprecationWarning).'',
          js ''Silent autodiscovery failures (aquilary/core.py): All 6 discovery steps (controllers, services, socket controllers, tasks, models, middleware) were wrapped in bare except Exception: pass or contextlib.suppress(Exception). A controller with a syntax error or bad import produced zero log output. All 6 handlers now emit logger.warning(..., exc_info=True) with the module name and full traceback.'',
          js ''except (ImportError, Exception) masked surp decode failures (aquilary/core.py): In _from_frozen_manifest(), except (ImportError, Exception) is redundant and silently fell through to a JSON path when surp was installed but decode failed. Split into except ImportError (silent fallback '' @ [8212] @ js '' correct) and except Exception (log + re-raise '' @ [8212] @ js '' surfaces real decode bugs).'',
          js ''Dead _build_router commented code removed (aquilary/core.py): A 30-line block of commented-out _build_router code and its orphaned call-site comment were removed. Dead code belongs in git history, not production source.'',
          js ''Regex-based workspace module discovery (runtime.py): discover() used regex over raw workspace.py source to extract module names, matching only literal string arguments to Module('' @ [34] @ js ''name'' @ [34] @ js ''). Any dynamically computed module name, loop, list comprehension, or multi-line call was silently missed. Refactored: new _load_workspace_from_exec() executes workspace.py and calls workspace.to_dict() for correct and complete discovery. Regex kept as a logged fallback when exec fails.'',
          js ''Manifest loader executes code it promises not to (aquilary/loader.py): ManifestLoader._load_from_python_file() documented NEVER triggers import-time side effects but unconditionally called exec_module(), executing all module-level code. Implemented the promised AST-based extraction: Phase 1 (AST parse + restricted eval '' @ [8212] @ js '' zero side effects for simple AppManifest(...) declarations). Phase 2 (exec_module fallback with logged warning for complex expressions). sys.modules race condition eliminated in Phase 1.'']\<rparr>,
       \<lparr>cl_title = (js ''Added''), cl_type = (js ''added''), cl_items = [
          js ''aq validate --deprecated: New CLI flag scans all module manifests for deprecated field usage (route_prefix, database, middlewares, depends_on). Exits with code 1 if any deprecated fields are found in non-json mode. Use aq validate --deprecated --json for machine-readable output. Suitable for CI gate integration.'',
          js ''AQUILIA_FAIL_FAST=1 environment variable: Opt-in mode that terminates the process with a non-zero exit code on startup failure instead of silently serving HTTP 500 stubs. Recommended for production deployments.'',
          js ''Discovery failure diagnostics: All 6 perform_autodiscovery() phases now log warnings with full exc_info when a scan fails, enabling diagnosis of import errors in module packages.'',
          js ''_load_workspace_from_exec() helper in AquiliaRuntime: Encapsulates the exec-based workspace.py discovery logic, returning (workspace_name, module_names, modules_dict). Used as primary discovery mechanism; reused by _load_workspace_modules() to eliminate duplicate workspace.py execution.'']\<rparr>,
       \<lparr>cl_title = (js ''Deprecated''), cl_type = (js ''deprecated''), cl_items = [
          js ''Secret('' @ [34] @ js ''ALL_CAPS_IDENTIFIER'' @ [34] @ js ''): Using a positional string that looks like an environment-variable name (matching ^[A-Z][A-Z0-9_]*$) now emits a DeprecationWarning. Use Secret(env='' @ [34] @ js ''VAR_NAME'' @ [34] @ js '') for explicit env-var binding.'',
          js ''AppManifest(depends_on=[...]): The depends_on field is the legacy cross-module dependency declaration. Use imports=[...] (the v2 API) instead. DeprecationWarning emitted on use. Both fields remain functional and are kept in sync automatically.'']\<rparr>,
       \<lparr>cl_title = (js ''Changed''), cl_type = (js ''changed''), cl_items = [
          js ''AppManifest.__post_init__ bidirectional sync: imports and depends_on are now kept in sync in both directions. Previously only one direction (depends_on '' @ [8594] @ js '' imports) was synced.'',
          js ''ManifestLoader now attempts AST-based static extraction before falling back to exec_module. The fallback still works for any manifest that used to load correctly.'',
          js ''AquiliaRuntime.discover() now uses exec-based workspace discovery as the primary path (regex as fallback), ensuring dynamically constructed module lists are correctly discovered.'',
          js ''aquilary/core.py Phase 3 dependency graph now reads both imports and depends_on fields (prefers imports). This is consistent with the existing validator.py behavior.'']\<rparr>]\<rparr>"

definition changelog_1_3_2 :: changelog_entry where
  "changelog_1_3_2 = \<lparr>ce_version = (js ''1.3.2''),
     ce_codename = Some (js ''Deep Current''), ce_date = (js ''2026-07-20''), ce_tag = TagPatch,
     ce_summary = js ''A major rewrite of the dependency-injection subsystem: one unified resolution engine, typed DISettings configuration, provider interceptors, DI plugins, conditional providers, cross-app dependency links, and hardened pooling/sync bridging.'',
     ce_sections = [
       \<lparr>cl_title = (js ''Added''), cl_type = (js ''added''), cl_items = [
          js ''Typed DI configuration (DISettings): every container runtime knob '' @ [8212] @ js '' scope_enforcement, parallel_resolution, diagnostics_enabled, disposal_strategy, hook_timeout_seconds, pool_acquire_timeout_seconds, pool_max_waiters, type_key_cache_max, enable_conditional_providers, enable_plugins, strict_service_registration '' @ [8212] @ js '' configured declaratively via the new AquilaConfig.DI (the workspace.py '' @ [34] @ js ''di'' @ [34] @ js '' block). Invalid values raise DIConfigFault at boot.'',
          js ''Provider interceptors (AOP): wrap provider instantiation with around-advice via intercept(provider, *interceptors). New public API '' @ [8212] @ js '' ProviderInterceptor, InterceptingProvider, InterceptContext, intercept.'',
          js ''DI plugins: extend registry construction with DIPlugin hooks (on_registry_build, on_provider_registered, on_container_built). New public API '' @ [8212] @ js '' register_plugin, unregister_plugin, get_plugins, clear_plugins. Failure-isolated '' @ [8212] @ js '' a raising hook never crashes boot.'',
          js ''Conditional providers: gate registration on environment/config with @service(when=...) and the standalone @conditional(predicate). New public API '' @ [8212] @ js '' conditional, ConditionContext (env + config, with .get() dot-path lookup and .is_env()), should_register.'',
          js ''Cross-app dependency links: Container.add_dependency_link() wires a manifest depends_on edge so a token missing locally falls through to the linked sibling app container (owning app instantiates its singletons once). Link cycles raise DependencyCycleError instead of deadlocking.'',
          js ''Container.create_child(scope, *, own_lifecycle=True): generic hierarchical child container (copy-on-write providers) for per-tenant / multi-level scope trees.'',
          js ''Container.replace_provider(token, provider, *, tag=None): production-safe atomic provider hot-swap (copy-on-write, evicts the cached instance).'',
          js ''PoolProvider max_waiters cap and the pool_max_waiters setting: a burst against an exhausted pool fast-fails with DIResolutionFault instead of thundering-herd queueing.'',
          js ''aq init now scaffolds per-environment '' @ [34] @ js ''di'' @ [34] @ js '' blocks in generated workspace.py (dev enables diagnostics; prod sets scope_enforcement='' @ [34] @ js ''raise'' @ [34] @ js '' and parallel_resolution=True).'']\<rparr>,
       \<lparr>cl_title = (js ''Changed''), cl_type = (js ''changed''), cl_items = [
          js ''Unified resolution engine: the container and the FastAPI-Depends-style RequestDAG are now one engine owned by the container. RequestDAG is a thin compatibility shim over container.resolve_dep(); its public API (RequestDAG(container, request), resolve(), teardown()) is unchanged. Inline Dep() deps and constructor-injected services now share one deduplicated graph.'',
          js ''Scope enforcement is settings-driven: scope_enforcement='' @ [34] @ js ''warn'' @ [34] @ js '' (default) logs, '' @ [34] @ js ''raise'' @ [34] @ js '' raises ScopeViolationError, '' @ [34] @ js ''off'' @ [34] @ js '' skips the check.'',
          js ''DI diagnostics events (RESOLUTION_START/SUCCESS/FAILURE) are emitted only when diagnostics_enabled is on, keeping the default resolve path free of tracing overhead.'',
          js ''Container.register() now allows a child container to shadow a provider inherited from its parent; only a genuine local re-registration raises. Registration fires the on_provider_registered plugin hook.'',
          js ''compat: set_request_container() and RequestCtx.set_current() now return a Token; added reset_request_container(token) and the request_container_scope() context manager for nesting-safe request-container swaps.'',
          js ''The DI layer raises structured DIFaults rather than bare ValueErrors throughout (aquilary core and cache providers updated to catch DIFault).'',
          js ''Sync resolution now reuses one persistent per-thread event loop instead of creating and closing a fresh loop on every call.'']\<rparr>,
       \<lparr>cl_title = (js ''Deprecated''), cl_type = (js ''deprecated''), cl_items = [
          js ''ServiceScope Enum: accessing any member (ServiceScope.SINGLETON) or calling the Enum emits a DeprecationWarning. Use the string literals '' @ [34] @ js ''singleton'' @ [34] @ js '', '' @ [34] @ js ''app'' @ [34] @ js '', '' @ [34] @ js ''request'' @ [34] @ js '', '' @ [34] @ js ''transient'' @ [34] @ js '', '' @ [34] @ js ''pooled'' @ [34] @ js '', '' @ [34] @ js ''ephemeral'' @ [34] @ js '' (canonical type hint: ServiceScopeLiteral). Removal is slated for a future version.'',
          js ''compat.clear_request_container(): emits a DeprecationWarning. Capture the token from set_request_container() and call reset_request_container(token), or use the request_container_scope() context manager.'']\<rparr>,
       \<lparr>cl_title = (js ''Removed''), cl_type = (js ''removed''), cl_items = [
          js ''ModuleContainer: cross-app resolution now uses link-based Container.add_dependency_link() instead of nested module containers.'']\<rparr>,
       \<lparr>cl_title = (js ''Fixed''), cl_type = (js ''fixed''), cl_items = [
          js ''Constructor-injected generator dependencies are no longer torn down before the handler runs '' @ [8212] @ js '' Dep() generator teardown is deferred to request-container shutdown (LIFO).'',
          js ''WebSocket handlers resolve from the correct per-app DI container (RouteMetadata.app_name), and request registration is copy-on-write safe (register_instance) instead of mutating the shared parent provider dict.'',
          js ''Unknown manifest scopes now fail fast with DIFault INVALID_SERVICE_SCOPE (listing valid scopes) instead of degrading silently.'']\<rparr>]\<rparr>"

definition changelog_1_2_2 :: changelog_entry where
  "changelog_1_2_2 = \<lparr>ce_version = (js ''1.2.2''),
     ce_codename = Some (js ''Kraken'' @ [39] @ js ''s Wake''), ce_date = (js ''2026-07-01''), ce_tag = TagPatch,
     ce_summary = js ''Kraken'' @ [39] @ js ''s Wake release patch addressing database integration setup, expression serialization in admin tools, CLI discovery parser, and SQLite constraints.'',
     ce_sections = [
       \<lparr>cl_title = (js ''Fixed''), cl_type = (js ''fixed''), cl_items = [
          js ''Database Integration Configuration: Fixed Workspace.integrate() to correctly handle DatabaseIntegration protocol instances and set self._database_config.'',
          js ''ORM Schema Expression Serialization: Added automatic string casting for expression constraints (like Lower or Upper) and expression-based index fields within the admin dashboard'' @ [39] @ js ''s model metadata collection (get_model_schema()).'',
          js ''Auto-Discovery Integration in CLI: Replaced the legacy parser inside the server startup sequence with the unified next-generation AutoDiscoveryEngine to automatically sync manifests when running the development server.'',
          js ''SQLite Alter Constraints: Modified migration translation to translate UniqueConstraint into unique indexes when applying migrations on SQLite databases.'']\<rparr>]\<rparr>"

definition changelog_1_2_1 :: changelog_entry where
  "changelog_1_2_1 = \<lparr>ce_version = (js ''1.2.1''),
     ce_codename = Some (js ''Kraken'' @ [39] @ js ''s Wake''), ce_date = (js ''2026-07-01''), ce_tag = TagPatch,
     ce_summary = js ''Kraken'' @ [39] @ js ''s Wake release patch decoupling Jinja2 and MarkupSafe, converting template imports to lazy getattr loading, resolving Windows SQLite file locking, and CSP nonces in toolbar.'',
     ce_sections = [
       \<lparr>cl_title = (js ''Fixed''), cl_type = (js ''fixed''), cl_items = [
          js ''Startup dependency decoupling: Decoupled jinja2 and markupsafe from core dependencies, moving them to the aquilia[template] extras bundle to keep core installation lightweight.'',
          js ''Lazy Imports: Converted eager template imports to a module-level lazy __getattr__ import resolution mechanism, preventing startup crashes when jinja2 is not installed.'',
          js ''Windows File Locking: Resolved a trace storage lock issue on Windows by explicitly closing all SQLite connections in SQLiteTraceStore.'',
          js ''Toolbar Nonce Compatibility: Injected toolbar now parses JSON trace payload dynamically by finding the script tag end delimiter instead of matching the full signature, allowing parsing even when CSP nonces are present.'']\<rparr>]\<rparr>"

definition changelog_1_2_0 :: changelog_entry where
  "changelog_1_2_0 = \<lparr>ce_version = (js ''1.2.0''),
     ce_codename = Some (js ''Kraken'' @ [39] @ js ''s Wake''), ce_date = (js ''2026-06-28''), ce_tag = TagMinor,
     ce_summary = js ''Kraken'' @ [39] @ js ''s Wake release adding Database CLI rollback/seeding/checking, Click CLI styling, API versioning override in manifest, Request Inspector tool, and Sigil schema representation.'',
     ce_sections = [
       \<lparr>cl_title = (js ''Added''), cl_type = (js ''added''), cl_items = [
          js ''Database CLI Enhancements: Added history, rollback, check, diff, seed, reset, and flush subcommands.'',
          js ''Click CLI Help Custom Colorization: formats option flags in bold green, help text in white, and headers in bold cyan.'',
          js ''Manifest-Level API Versioning Override: Replaced legacy Module().versioning() with manifest AppManifest.versioning configuration supporting strategy, versions, default, sunset, etc.'',
          js ''Request Inspector (aquilia.inspector): Full request execution tracing with spans, lanes, timeline visualization, and live SSE streaming to admin panel.'',
          js ''Container self-registration in DI DI containers.'',
          js ''Container.add_diagnostic_listener() public API.'',
          js ''Explicit Cross-field validation (@ward) decorator.'',
          js ''Intermediate Representation (Sigil) schema validator and migration engine.'',
          js ''Transforms and Pipelines (>>) on facets.'',
          js ''Bulk & Stream Validation: seal_many, seal_stream, seal_columnar.'',
          js ''Test Generation Strategy support.'',
          js ''Discriminated Unions (ContractUnion).'',
          js ''Form & File Uploads via Contracts (UploadFile and FormData).'',
          js ''Unified Request Input Resolution & Parameter Casting.'',
          js ''Click-based Aquilary CLI commands.'']\<rparr>,
       \<lparr>cl_title = (js ''Removed''), cl_type = (js ''removed''), cl_items = [
          js ''Artifact System: Entirely removed the redundant aquilia.artifacts module, and compile/freeze commands.'']\<rparr>,
       \<lparr>cl_title = (js ''Changed''), cl_type = (js ''changed''), cl_items = [
          js ''Database Introspection and Migration Rollback.'',
          js ''Scaffolding Integration API migration.'',
          js ''Boilerplate reduction and scaffolding cleanup.'',
          js ''Zero Runtime Dependencies: Migrated contracts to pure-Python.'',
          js ''Deep Performance Optimizations: lazy wrapping, regex caches, ORM fast-path checks.'']\<rparr>,
       \<lparr>cl_title = (js ''Fixed''), cl_type = (js ''fixed''), cl_items = [
          js ''Discovery system improvements dotted parent prefix loading.'',
          js ''Windows compatibility fixes for signal.SIGKILL and mcp commands.'',
          js ''RequestIdMiddleware stability across pool boundaries.'',
          js ''Multiple Contract Parameter Support.'',
          js ''String Annotation Evaluation (PEP 563).'']\<rparr>]\<rparr>"

definition changelog_1_1_2 :: changelog_entry where
  "changelog_1_1_2 = \<lparr>ce_version = (js ''1.1.2''),
     ce_codename = Some (js ''Crimson Gale''), ce_date = (js ''2026-06-12''), ce_tag = TagPatch,
     ce_summary = js ''Crimson Gale release patching nested middleware Entry NameErrors and dotenv load order overrides.'',
     ce_sections = [
       \<lparr>cl_title = (js ''Fixed''), cl_type = (js ''fixed''), cl_items = [
          js ''name '' @ [39] @ js ''Entry'' @ [39] @ js '' is not defined server crash: fixed nested middleware class namespace lookups.'',
          js ''Generated workspace missing Integration import in generated workspace.py file templates.'',
          js ''.env values never reflected in workspace config: fixed load order where .env.example overrode .env.'',
          js ''AQ_ENV/AQUILIA_ENV inconsistency and resolved template files dotenv search paths.'']\<rparr>]\<rparr>"

definition changelog_1_1_1 :: changelog_entry where
  "changelog_1_1_1 = \<lparr>ce_version = (js ''1.1.1''),
     ce_codename = Some (js ''Sea Serpent''), ce_date = (js ''2026-06-09''), ce_tag = TagPatch,
     ce_summary = js ''Sea Serpent release decoupling Workspace configs, resolving thread-safe dotenv loading, and standardizing catalog format defaults.'',
     ce_sections = [
       \<lparr>cl_title = (js ''Changed''), cl_type = (js ''changed''), cl_items = [
          js ''Workspace module config builders decoupling.'',
          js ''Replaced legacy static Integration API with typed class adapters.'']\<rparr>,
       \<lparr>cl_title = (js ''Fixed''), cl_type = (js ''fixed''), cl_items = [
          js ''Thread safety Lock in pyconfig.py.'',
          js ''I18n default values catalog format resolution defaults.'']\<rparr>]\<rparr>"

definition changelog_1_1_0 :: changelog_entry where
  "changelog_1_1_0 = \<lparr>ce_version = (js ''1.1.0''),
     ce_codename = Some (js ''Black Pearl''), ce_date = (js ''2026-06-08''), ce_tag = TagMinor,
     ce_summary = js ''Black Pearl release removing mlops and LSP servers, adding SSE stream manager, OpenTelemetry traces, and @validate_body.'',
     ce_sections = [
       \<lparr>cl_title = (js ''Added''), cl_type = (js ''added''), cl_items = [
          js ''aquilia.sse Server-Sent Events managers.'',
          js ''aquilia.otel OpenTelemetry configs and middleware.'',
          js ''@validate_body body annotation validators.'']\<rparr>,
       \<lparr>cl_title = (js ''Removed''), cl_type = (js ''removed''), cl_items = [
          js ''Removed duplicate mlops package, AMDL DSL, and language server modules.'']\<rparr>]\<rparr>"

definition changelog_1_0_5 :: changelog_entry where
  "changelog_1_0_5 = \<lparr>ce_version = (js ''1.0.5''),
     ce_codename = Some (js ''Jolly Roger''), ce_date = (js ''2026-06-04''), ce_tag = TagPatch,
     ce_summary = js ''Jolly Roger release launching stdio MCP server support and Surp binary serialization.'',
     ce_sections = [
       \<lparr>cl_title = (js ''Added''), cl_type = (js ''added''), cl_items = [
          js ''Aquilia MCP server under aquilia.mcp.'',
          js ''MCP tools for API discovery and prompt helpers.'']\<rparr>,
       \<lparr>cl_title = (js ''Changed''), cl_type = (js ''changed''), cl_items = [
          js ''Upgraded serialization from Crous to Surp.'']\<rparr>]\<rparr>"

definition changelog_1_0_4 :: changelog_entry where
  "changelog_1_0_4 = \<lparr>ce_version = (js ''1.0.4''),
     ce_codename = None, ce_date = (js ''2026-05-17''), ce_tag = TagPatch,
     ce_summary = js ''Patches compiling workflows by removing build compile pipelines and enabling live Python workspace introspection.'',
     ce_sections = [
       \<lparr>cl_title = (js ''Removed''), cl_type = (js ''removed''), cl_items = [
          js ''Removed react-style aquilia/build package and aq build.'',
          js ''Removed build-gating barriers.'']\<rparr>,
       \<lparr>cl_title = (js ''Changed''), cl_type = (js ''changed''), cl_items = [
          js ''aq compile writes explicit artifacts.'',
          js ''aq freeze snapshots cryptographic integrity signatures.'']\<rparr>]\<rparr>"

definition changelog_1_0_1 :: changelog_entry where
  "changelog_1_0_1 = \<lparr>ce_version = (js ''1.0.1''),
     ce_codename = Some (js ''Framework Audit''), ce_date = (js ''2026-03-08''), ce_tag = TagPatch,
     ce_summary = js ''Phase 1-15 comprehensive framework security audit and hardening.'',
     ce_sections = [
       \<lparr>cl_title = (js ''Added''), cl_type = (js ''added''), cl_items = [
          js ''Core ASGI server, DI registry, Auth stack, controller and session security hardening.'',
          js ''HMAC SHA-256 validation for Jinja2 template cache files.'',
          js ''Path traversal path checks rejecting null-bytes.'',
          js ''Allowlist validation for background tasks.'']\<rparr>]\<rparr>"

definition changelog_1_0_0 :: changelog_entry where
  "changelog_1_0_0 = \<lparr>ce_version = (js ''1.0.0''),
     ce_codename = Some (js ''Genesis''), ce_date = (js ''February 22, 2026''), ce_tag = TagMajor,
     ce_summary = js ''Initial stable launch of Aquilia framework.'',
     ce_sections = [
       \<lparr>cl_title = (js ''Added''), cl_type = (js ''added''), cl_items = [
          js ''Manifest-First Architecture implementation.'',
          js ''Scoped Dependency Injection targeting Singleton, App, and Request contexts.'',
          js ''Async-Native ASGI server using Uvicorn.'']\<rparr>]\<rparr>"

definition staticChangelogs :: "changelog_entry list" where
  "staticChangelogs = [
     changelog_1_3_8,
     changelog_1_3_7,
     changelog_1_3_6,
     changelog_1_3_5,
     changelog_1_3_4,
     changelog_1_3_2,
     changelog_1_2_2,
     changelog_1_2_1,
     changelog_1_2_0,
     changelog_1_1_2,
     changelog_1_1_1,
     changelog_1_1_0,
     changelog_1_0_5,
     changelog_1_0_4,
     changelog_1_0_1,
     changelog_1_0_0]"

end
