(* ===== verification/ChangelogPage.thy ===== *)
theory ChangelogPage
  imports ChangelogData
begin

text \<open>
  The state of the changelog page (\<open>pages/Changelogs.tsx\<close>): loading, the open versions and the
  filter. Each answer of a request is an event; it carries the text, or the version the failed
  request was made for.
\<close>

record changelog_page =
  cp_activeFilter :: "jstr option"
  cp_expandedVersions :: "(jstr, bool) jmap"
  cp_changelogData :: "changelog_entry list"
  cp_isLoading :: bool

definition toggleVersion :: "jstr \<Rightarrow> changelog_page \<Rightarrow> changelog_page" where
  "toggleVersion version st =
     st\<lparr>cp_expandedVersions := jm_set version (jm_get (cp_expandedVersions st) version \<noteq> Some True) (cp_expandedVersions st)\<rparr>"

text \<open>The buttons of the filter: \<open>None\<close> is the button \<open>All\<close>.\<close>

definition click_filter :: "jstr option \<Rightarrow> changelog_page \<Rightarrow> changelog_page" where
  "click_filter type st =
     (case type of
        None \<Rightarrow> st\<lparr>cp_activeFilter := None\<rparr>
      | Some t \<Rightarrow> st\<lparr>cp_activeFilter := if cp_activeFilter st = Some t then None else Some t\<rparr>)"

definition filteredChangelogs :: "changelog_page \<Rightarrow> changelog_entry list" where
  "filteredChangelogs st =
     filter (\<lambda>entry. ce_sections entry \<noteq> [] \<or> \<not> truthy (cp_activeFilter st))
       (map (\<lambda>entry. if \<not> truthy (cp_activeFilter st) then entry
          else entry\<lparr>ce_sections := filter (\<lambda>s. Some (cl_type s) = cp_activeFilter st) (ce_sections entry)\<rparr>)
         (cp_changelogData st))"

text \<open>The versions whose sections are on the page.\<close>

definition is_shown_expanded :: "changelog_page \<Rightarrow> changelog_entry \<Rightarrow> bool" where
  "is_shown_expanded st entry =
     (jm_get (cp_expandedVersions st) (ce_version entry) = Some True \<and> ce_sections entry \<noteq> [])"


definition page_init :: "bool \<Rightarrow> changelog_page" where
  "page_init printMode =
     \<lparr>cp_activeFilter = None,
      cp_expandedVersions = (if printMode then fold (\<lambda>entry. jm_set (ce_version entry) True) staticChangelogs [] else []),
      cp_changelogData = (if printMode then staticChangelogs else []), cp_isLoading = \<not> printMode\<rparr>"

definition load_text :: "(jstr \<Rightarrow> jstr) \<Rightarrow> jstr \<Rightarrow> changelog_page \<Rightarrow> changelog_page" where
  "load_text lower t st =
     (let parsed = parseMarkdownChangelog lower t;
          st = st\<lparr>cp_changelogData := parsed\<rparr>;
          st = (case parsed of [] \<Rightarrow> st | entry # rest \<Rightarrow> st\<lparr>cp_expandedVersions := [(ce_version entry, True)]\<rparr>)
      in st\<lparr>cp_isLoading := False\<rparr>)"

definition load_failed :: "jstr \<Rightarrow> changelog_page \<Rightarrow> changelog_page" where
  "load_failed version st =
     st\<lparr>cp_changelogData := staticChangelogs, cp_expandedVersions := [(version, True)], cp_isLoading := False\<rparr>"

datatype page_event = Loaded jstr | LoadFailed jstr | Toggle jstr | ClickFilter "jstr option"

fun page_step :: "(jstr \<Rightarrow> jstr) \<Rightarrow> page_event \<Rightarrow> changelog_page \<Rightarrow> changelog_page" where
  "page_step lower (Loaded t) st = load_text lower t st"
| "page_step lower (LoadFailed v) st = load_failed v st"
| "page_step lower (Toggle v) st = toggleVersion v st"
| "page_step lower (ClickFilter f) st = click_filter f st"

end
