(* ===== verification/ChatSearch.thy ===== *)
theory ChatSearch
  imports SearchIndex JsNum
begin

text \<open>
  The search the chat assistant runs over the documentation before it asks the service
  (\<open>searchChunks\<close> of \<open>components/Chatbox.tsx\<close>). \<open>lower\<close> is \<open>toLowerCase\<close>, a parameter for texts; the
  words of the query consist of ASCII letters, digits, \<open>_\<close> and \<open>-\<close>, on which \<open>to_lower\<close> is exact.
  The chunks are the generated \<open>docsChunks\<close>, a parameter. Scores are rationals: the code's
  doubles round the quotient of the coverage, so two scores that differ by less than that may tie.
\<close>

record doc_chunk =
  dc_title :: jstr
  dc_pageTitle :: jstr
  dc_path :: jstr
  dc_pagePath :: jstr
  dc_content :: jstr
  dc_codeBlocks :: "jstr list"

definition STOP_WORDS :: "jstr list" where
  "STOP_WORDS = [
     js ''a'', js ''about'', js ''above'', js ''after'', js ''again'', js ''against'', js ''all'',
     js ''am'', js ''an'', js ''and'', js ''any'', js ''are'', js ''as'', js ''at'', js ''be'',
     js ''because'', js ''been'', js ''before'', js ''being'', js ''below'', js ''between'', js ''both'',
     js ''but'', js ''by'', js ''can'', js ''cannot'', js ''could'', js ''did'', js ''do'', js ''does'',
     js ''doing'', js ''down'', js ''during'', js ''each'', js ''few'', js ''for'', js ''from'',
     js ''further'', js ''had'', js ''has'', js ''have'', js ''having'', js ''he'', js ''her'',
     js ''here'', js ''hers'', js ''herself'', js ''him'', js ''himself'', js ''his'', js ''how'',
     js ''i'', js ''if'', js ''in'', js ''into'', js ''is'', js ''it'', js ''its'', js ''itself'',
     js ''me'', js ''more'', js ''most'', js ''my'', js ''myself'', js ''no'', js ''nor'', js ''not'',
     js ''of'', js ''off'', js ''on'', js ''once'', js ''only'', js ''or'', js ''other'', js ''ought'',
     js ''our'', js ''ours'', js ''ourselves'', js ''out'', js ''over'', js ''own'', js ''same'',
     js ''she'', js ''should'', js ''so'', js ''some'', js ''such'', js ''than'', js ''that'', js ''the'',
     js ''their'', js ''theirs'', js ''them'', js ''themselves'', js ''then'', js ''there'', js ''these'',
     js ''they'', js ''this'', js ''those'', js ''through'', js ''to'', js ''too'', js ''under'',
     js ''until'', js ''up'', js ''very'', js ''was'', js ''we'', js ''were'', js ''what'', js ''when'',
     js ''where'', js ''which'', js ''while'', js ''who'', js ''whom'', js ''why'', js ''with'',
     js ''would'', js ''you'', js ''your'', js ''yours'', js ''yourself'', js ''yourselves'', js ''tell'',
     js ''buddy'', js ''aquilia'', js ''hi'', js ''hello'', js ''hey'', js ''howdy'', js ''sup'',
     js ''yo'', js ''greetings'', js ''thanks'', js ''thank'', js ''welcome'', js ''good'', js ''morning'',
     js ''evening'', js ''afternoon'']"

definition PURE_GREETINGS :: "jstr list" where
  "PURE_GREETINGS = [
     js ''hi'', js ''hello'', js ''hey'', js ''hey buddy'', js ''howdy'', js ''sup'', js ''yo'',
     js ''greetings'', js ''good morning'', js ''good evening'', js ''good afternoon'', js ''hi there'',
     js ''hello there'', js ''who are you'', js ''what can you do'', js ''help'', js ''thanks'',
     js ''thank you'', js ''thx'']"

subsection \<open>The terms of a query\<close>

definition not_listed_rx :: "jchar list \<Rightarrow> rx" where
  "not_listed_rx extra = RChr (\<lambda>c. \<not> (is_word c \<or> is_ws c \<or> c \<in> set extra))"

text \<open>\<open>/(?=[A-Z][a-z])|(?<=[a-z])(?=[A-Z])/\<close>\<close>

definition camel_rx :: rx where
  "camel_rx = RAlt (RAhead [is_upper, is_lower]) (RSeq (RBehind is_lower) (RAhead [is_upper]))"

definition split_pieces :: "rx \<Rightarrow> jstr \<Rightarrow> jstr list" where
  "split_pieces r s = map the (rx_split r 0 s)"

text \<open>A \<open>Set\<close> of strings in the order of insertion.\<close>

definition add_term :: "jstr \<Rightarrow> jstr list \<Rightarrow> jstr list" where
  "add_term t ts = (if t \<in> set ts then ts else ts @ [t])"

definition add_part :: "jstr \<Rightarrow> jstr list \<Rightarrow> jstr list" where
  "add_part p ts = (if p = [] then ts else add_term (to_lower p) ts)"

definition add_parts :: "jstr list \<Rightarrow> jstr list \<Rightarrow> jstr list" where
  "add_parts ps ts = (if length ps > 1 then fold add_part ps ts else ts)"

definition word_terms :: "jstr \<Rightarrow> jstr list \<Rightarrow> jstr list" where
  "word_terms word termsSet =
     (if word = [] then termsSet
      else
        (let termsSet = add_term (to_lower word) termsSet;
             termsSet = add_parts (split_pieces camel_rx word) termsSet
         in add_parts (split_pieces (RChr (\<lambda>c. c = 45 \<or> c = 95)) word) termsSet))"

definition raw_terms :: "jstr \<Rightarrow> jstr list" where
  "raw_terms query =
     filter (\<lambda>t. length t > 1 \<and> t \<notin> set STOP_WORDS)
       (fold word_terms (split_pieces (rplus r_ws) (rx_replace_all (not_listed_rx [45]) (\<lambda>m c. [32]) query)) [])"

definition stem_term :: "jstr \<Rightarrow> jstr list \<Rightarrow> jstr list" where
  "stem_term t finalTermsSet =
     (let finalTermsSet = add_term t finalTermsSet in
      if ends_with t (js ''s'') \<and> length t > 3 then
        (let finalTermsSet = add_term (take (length t - 1) t) finalTermsSet in
         if ends_with t (js ''es'') \<and> length t > 4 then add_term (take (length t - 2) t) finalTermsSet
         else finalTermsSet)
      else finalTermsSet)"

definition query_terms :: "jstr \<Rightarrow> jstr list" where
  "query_terms query = fold stem_term (raw_terms query) []"

definition cleanQuery :: "(jstr \<Rightarrow> jstr) \<Rightarrow> jstr \<Rightarrow> jstr" where
  "cleanQuery lower query = js_trim (lower query)"

definition is_greeting :: "jstr \<Rightarrow> bool" where
  "is_greeting q \<longleftrightarrow> q \<in> set PURE_GREETINGS \<or>
     js_trim (rx_replace_all (not_listed_rx []) (\<lambda>m c. []) q) \<in> set PURE_GREETINGS"

subsection \<open>The score of a chunk\<close>

text \<open>\<open>new RegExp('\b' + escapedTerm + '\b', 'i')\<close>: every operator in the term is escaped, so the
  pattern stands for the term itself.\<close>

definition term_rx :: "jstr \<Rightarrow> rx" where
  "term_rx t = RSeq RWordB (RSeq (rlit_i t) RWordB)"

text \<open>What one term adds, and whether it was found.\<close>

definition term_in :: "jstr \<Rightarrow> jstr \<Rightarrow> bool" where
  "term_in t s \<longleftrightarrow> rx_test (term_rx t) s \<or> js_includes s t"

definition word_points :: "jstr \<Rightarrow> jstr \<Rightarrow> nat \<Rightarrow> nat \<Rightarrow> nat" where
  "word_points t s m n = (if rx_test (term_rx t) s then m else points (js_includes s t) n)"

definition term_score :: "(jstr \<Rightarrow> jstr) \<Rightarrow> doc_chunk \<Rightarrow> jstr \<Rightarrow> nat \<times> bool" where
  "term_score lower chunk t =
     (let titleLower = lower (dc_title chunk); pageTitleLower = lower (dc_pageTitle chunk);
          contentLower = lower (dc_content chunk); pathLower = lower (dc_path chunk);
          count = length (rx_match_all (term_rx t) contentLower);
          in_code = (\<exists>code \<in> set (dc_codeBlocks chunk). js_includes (lower code) t)
      in (word_points t titleLower 45 5 + word_points t pageTitleLower 25 3 + word_points t pathLower 15 2 +
          (if js_includes contentLower t then min 10 count * 4 + points (count = 0) 2 else 0) +
          points in_code 12,
          term_in t titleLower \<or> term_in t pageTitleLower \<or> term_in t pathLower \<or>
          js_includes contentLower t \<or> in_code))"

definition phrase_score :: "(jstr \<Rightarrow> jstr) \<Rightarrow> doc_chunk \<Rightarrow> jstr \<Rightarrow> jstr list \<Rightarrow> nat" where
  "phrase_score lower chunk clean_query terms =
     (let titleLower = lower (dc_title chunk); pageTitleLower = lower (dc_pageTitle chunk);
          contentLower = lower (dc_content chunk); phrasePart = js_join [32] terms
      in (if js_includes titleLower clean_query then 150 else points (js_includes pageTitleLower clean_query) 80) +
         points (js_includes contentLower clean_query) 50 +
         (if length terms > 1
          then (if js_includes titleLower phrasePart then 80 else points (js_includes contentLower phrasePart) 30)
          else 0))"

text \<open>\<open>/\b\d+\.\d+\.\d+\b/\<close>\<close>

definition release_number_rx :: rx where
  "release_number_rx = rseq [RWordB, rplus (RChr is_digit), RChr (\<lambda>c. c = 46), rplus (RChr is_digit),
     RChr (\<lambda>c. c = 46), rplus (RChr is_digit), RWordB]"

definition is_release_query :: "jstr \<Rightarrow> bool" where
  "is_release_query q \<longleftrightarrow> js_includes q (js ''release'') \<or> js_includes q (js ''version'') \<or>
     js_includes q (js ''changelog'') \<or> rx_test release_number_rx q"

definition is_release_chunk :: "doc_chunk \<Rightarrow> bool" where
  "is_release_chunk chunk \<longleftrightarrow> js_includes (dc_path chunk) (js ''/releases'') \<or>
     js_includes (dc_path chunk) (js ''/changelogs'')"

definition chunk_score :: "(jstr \<Rightarrow> jstr) \<Rightarrow> jstr \<Rightarrow> jstr list \<Rightarrow> doc_chunk \<Rightarrow> rat" where
  "chunk_score lower clean_query terms chunk =
     (let found = map (term_score lower chunk) terms;
          score = of_nat (phrase_score lower chunk clean_query terms + sum_list (map fst found));
          matchedTermsCount = length (filter snd found);
          score = (if matchedTermsCount > 0
                   then score * (1 + of_nat matchedTermsCount / of_nat (length terms) * 2) else score)
      in if is_release_query clean_query \<and> is_release_chunk chunk then score * 3 else score)"

subsection \<open>The results\<close>

text \<open>\<open>(a, b) => b.score - a.score\<close>, of which the sort only looks at the sign.\<close>

definition by_rat_score :: "('a \<Rightarrow> rat) \<Rightarrow> 'a \<Rightarrow> 'a \<Rightarrow> int" where
  "by_rat_score f x y = (if f y < f x then - 1 else if f x < f y then 1 else 0)"

interpretation by_rat: comparator "by_rat_score f" for f :: "'a \<Rightarrow> rat"
  by unfold_locales (auto simp: by_rat_score_def split: if_splits)

definition searchChunks :: "(jstr \<Rightarrow> jstr) \<Rightarrow> doc_chunk list \<Rightarrow> jstr \<Rightarrow> (doc_chunk \<times> rat) list" where
  "searchChunks lower docsChunks query =
     (let clean_query = cleanQuery lower query; terms = query_terms query in
      if clean_query = [] then []
      else if is_greeting clean_query then []
      else if raw_terms query = [] then []
      else js_sort (by_rat_score snd)
        (filter (\<lambda>r. snd r > 0) (map (\<lambda>chunk. (chunk, chunk_score lower clean_query terms chunk)) docsChunks)))"

subsection \<open>The messages for the service\<close>

text \<open>The source block of a result; \<open>[96, 96, 96]\<close> is the fence.\<close>

definition chunk_source :: "nat \<Rightarrow> doc_chunk \<Rightarrow> jstr" where
  "chunk_source idx res =
     (let codeStr = (if dc_codeBlocks res = [] then []
            else [10] @ js ''Code Blocks:'' @ [10] @
              js_join [10, 10] (map (\<lambda>c. js ''```python'' @ [10] @ c @ [10] @ js ''```'') (dc_codeBlocks res)))
      in js ''[Source #'' @ nat_text (idx + 1) @ js '': '' @ dc_title res @ js '' (URL: '' @ dc_path res @ js '')]'' @
         [10] @ dc_content res @ codeStr)"

definition context_text :: "doc_chunk list \<Rightarrow> jstr" where
  "context_text topResults =
     (if topResults = [] then []
      else js_join [10, 10] (map (\<lambda>(idx, res). chunk_source idx res) (enumerate 0 topResults)))"

definition user_content :: "jstr \<Rightarrow> doc_chunk list \<Rightarrow> jstr" where
  "user_content userMessage topResults =
     (let contextStr = context_text topResults in
      js ''Here is my question: '' @ [34] @ userMessage @ [34] @ [10, 10] @
      (if contextStr = [] then js ''No direct documentation search results were found for this query.''
       else js ''Here is the relevant Aquilia documentation context:'' @ [10] @ contextStr))"

end
