(* ===== verification/JsJson.thy ===== *)
theory JsJson
  imports JsMap JsString
begin

text \<open>
  \<open>JSON.parse\<close> and \<open>JSON.stringify\<close>. A number is kept as the text it was written with;
  \<open>show_num\<close>, a parameter of what prints numbers, is \<open>String(Number(text))\<close>. An object is the
  map of its own properties in the order they were created; \<open>own_entries\<close> is the order the
  language enumerates them in, integer keys first. A decoder returns the value and the rest of
  the text, \<open>None\<close> is the \<open>SyntaxError\<close>.
\<close>

datatype json =
    JNull
  | JBool bool
  | JNum jstr
  | JStr jstr
  | JArr "json list"
  | JObj "(jstr \<times> json) list"

subsection \<open>Decoding\<close>

definition json_ws :: "jchar \<Rightarrow> bool" where
  "json_ws c = (c = 32 \<or> c = 9 \<or> c = 10 \<or> c = 13)"

definition skip_ws :: "jstr \<Rightarrow> jstr" where
  "skip_ws s = dropWhile json_ws s"

definition hex_value :: "jchar \<Rightarrow> int option" where
  "hex_value c = (if is_digit c then Some (c - 48) else if 97 \<le> c \<and> c \<le> 102 then Some (c - 87)
     else if 65 \<le> c \<and> c \<le> 70 then Some (c - 55) else None)"

definition hex4 :: "jchar \<Rightarrow> jchar \<Rightarrow> jchar \<Rightarrow> jchar \<Rightarrow> int option" where
  "hex4 a b c d = (case (hex_value a, hex_value b, hex_value c, hex_value d) of
     (Some x, Some y, Some z, Some w) \<Rightarrow> Some (4096 * x + 256 * y + 16 * z + w)
   | _ \<Rightarrow> None)"

definition simple_escape :: "jchar \<Rightarrow> jchar option" where
  "simple_escape e =
     (if e = 34 \<or> e = 92 \<or> e = 47 then Some e
      else if e = 98 then Some 8 else if e = 102 then Some 12 else if e = 110 then Some 10
      else if e = 114 then Some 13 else if e = 116 then Some 9 else None)"

definition push_unit :: "jchar \<Rightarrow> (jstr \<times> jstr) option \<Rightarrow> (jstr \<times> jstr) option" where
  "push_unit c r = map_option (\<lambda>(w, t). (c # w, t)) r"

text \<open>The text after an opening quote, up to the closing one.\<close>

fun json_chars :: "jstr \<Rightarrow> (jstr \<times> jstr) option" where
  "json_chars [] = None"
| "json_chars (c # s) =
     (if c = 34 then Some ([], s)
      else if c = 92 then
        (case s of
           [] \<Rightarrow> None
         | e # t \<Rightarrow>
             if e = 117 then
               (case t of
                  x # y # z # w # u \<Rightarrow>
                    (case hex4 x y z w of None \<Rightarrow> None | Some k \<Rightarrow> push_unit k (json_chars u))
                | _ \<Rightarrow> None)
             else (case simple_escape e of None \<Rightarrow> None | Some k \<Rightarrow> push_unit k (json_chars t)))
      else if c < 32 then None
      else push_unit c (json_chars s))"

definition json_integer :: "jstr \<Rightarrow> (jstr \<times> jstr) option" where
  "json_integer s = (case s of
     [] \<Rightarrow> None
   | c # t \<Rightarrow> if c = 48 then Some ([48], t)
       else if is_digit c then Some (takeWhile is_digit s, dropWhile is_digit s) else None)"

definition json_fraction :: "jstr \<Rightarrow> (jstr \<times> jstr) option" where
  "json_fraction s = (case s of
     [] \<Rightarrow> Some ([], s)
   | c # t \<Rightarrow> if c \<noteq> 46 then Some ([], s)
       else if takeWhile is_digit t = [] then None
       else Some (c # takeWhile is_digit t, dropWhile is_digit t))"

definition json_sign :: "(jchar \<Rightarrow> bool) \<Rightarrow> jstr \<Rightarrow> jstr \<times> jstr" where
  "json_sign f s = (case s of [] \<Rightarrow> ([], s) | c # t \<Rightarrow> if f c then ([c], t) else ([], s))"

definition json_exponent :: "jstr \<Rightarrow> (jstr \<times> jstr) option" where
  "json_exponent s = (case s of
     [] \<Rightarrow> Some ([], s)
   | c # t \<Rightarrow> if c \<noteq> 101 \<and> c \<noteq> 69 then Some ([], s)
       else (let (sg, u) = json_sign (\<lambda>x. x = 43 \<or> x = 45) t in
         if takeWhile is_digit u = [] then None
         else Some (c # sg @ takeWhile is_digit u, dropWhile is_digit u)))"

definition json_number :: "jstr \<Rightarrow> (jstr \<times> jstr) option" where
  "json_number s =
     (let (sg, s1) = json_sign (\<lambda>x. x = 45) s in
      Option.bind (json_integer s1) (\<lambda>(ip, s2).
      Option.bind (json_fraction s2) (\<lambda>(fp, s3).
      Option.bind (json_exponent s3) (\<lambda>(ep, s4). Some (sg @ ip @ fp @ ep, s4)))))"

definition json_literal :: "jstr \<Rightarrow> (json \<times> jstr) option" where
  "json_literal s =
     (if starts_with s (js ''true'') then Some (JBool True, drop 4 s)
      else if starts_with s (js ''false'') then Some (JBool False, drop 5 s)
      else if starts_with s (js ''null'') then Some (JNull, drop 4 s)
      else map_option (\<lambda>(l, t). (JNum l, t)) (json_number s))"

lemma skip_ws_length: "length (skip_ws s) \<le> length s"
  by (simp add: skip_ws_def length_dropWhile_le)

lemma skip_ws_Cons: "skip_ws s = c # t \<Longrightarrow> length t < length s"
  using skip_ws_length [of s] by simp

text \<open>
  The decoders call each other on shorter texts; that what an array or object element leaves is
  shorter than the element is checked on the way (it always is).
\<close>

function json_value :: "jstr \<Rightarrow> (json \<times> jstr) option"
  and json_elements :: "jstr \<Rightarrow> (json list \<times> jstr) option"
  and json_members :: "jstr \<Rightarrow> ((jstr \<times> json) list \<times> jstr) option" where
  "json_value s =
     (case skip_ws s of
        [] \<Rightarrow> None
      | c # t \<Rightarrow>
          if c = 34 then map_option (\<lambda>(w, u). (JStr w, u)) (json_chars t)
          else if c = 91 then
            (case skip_ws t of
               [] \<Rightarrow> None
             | d # u \<Rightarrow> if d = 93 then Some (JArr [], u)
                 else map_option (\<lambda>(vs, w). (JArr vs, w)) (json_elements t))
          else if c = 123 then
            (case skip_ws t of
               [] \<Rightarrow> None
             | d # u \<Rightarrow> if d = 125 then Some (JObj [], u)
                 else map_option (\<lambda>(m, w). (JObj (fold (\<lambda>(k, v). jm_set k v) m []), w)) (json_members t))
          else json_literal (c # t))"
| "json_elements s =
     (case json_value s of
        None \<Rightarrow> None
      | Some (v, t) \<Rightarrow>
          (case skip_ws t of
             [] \<Rightarrow> None
           | c # u \<Rightarrow>
               if c = 93 then Some ([v], u)
               else if c = 44 \<and> length u < length s then map_option (\<lambda>(vs, w). (v # vs, w)) (json_elements u)
               else None))"
| "json_members s =
     (case skip_ws s of
        [] \<Rightarrow> None
      | q # s1 \<Rightarrow>
          if q \<noteq> 34 then None
          else (case json_chars s1 of
             None \<Rightarrow> None
           | Some (k, s2) \<Rightarrow>
               (case skip_ws s2 of
                  [] \<Rightarrow> None
                | d # s3 \<Rightarrow>
                    if d \<noteq> 58 \<or> \<not> length s3 < length s then None
                    else (case json_value s3 of
                       None \<Rightarrow> None
                     | Some (v, t) \<Rightarrow>
                         (case skip_ws t of
                            [] \<Rightarrow> None
                          | c # u \<Rightarrow>
                              if c = 125 then Some ([(k, v)], u)
                              else if c = 44 \<and> length u < length s
                              then map_option (\<lambda>(m, w). ((k, v) # m, w)) (json_members u)
                              else None)))))"
  by pat_completeness auto

termination
  by (relation "measures [\<lambda>x. case x of Inl s \<Rightarrow> length s | Inr (Inl s) \<Rightarrow> length s | Inr (Inr s) \<Rightarrow> length s,
      \<lambda>x. case x of Inl s \<Rightarrow> 0 | Inr y \<Rightarrow> 1]") (auto dest: skip_ws_Cons)

declare json_value.simps [simp del] json_elements.simps [simp del] json_members.simps [simp del]

definition json_parse :: "jstr \<Rightarrow> json option" where
  "json_parse s = (case json_value s of
     None \<Rightarrow> None
   | Some (v, t) \<Rightarrow> if skip_ws t = [] then Some v else None)"

subsection \<open>Encoding\<close>

definition is_high_surrogate :: "jchar \<Rightarrow> bool" where
  "is_high_surrogate c = (0xD800 \<le> c \<and> c \<le> 0xDBFF)"

definition is_low_surrogate :: "jchar \<Rightarrow> bool" where
  "is_low_surrogate c = (0xDC00 \<le> c \<and> c \<le> 0xDFFF)"

definition hex_digit :: "int \<Rightarrow> jchar" where
  "hex_digit n = (if n < 10 then 48 + n else 87 + n)"

definition unicode_escape :: "jchar \<Rightarrow> jstr" where
  "unicode_escape c = [92, 117, hex_digit (c div 4096), hex_digit (c div 256 mod 16),
     hex_digit (c div 16 mod 16), hex_digit (c mod 16)]"

definition quote_unit :: "jchar \<Rightarrow> jstr" where
  "quote_unit c =
     (if c = 34 \<or> c = 92 then [92, c] else if c = 8 then [92, 98] else if c = 12 then [92, 102]
      else if c = 10 then [92, 110] else if c = 13 then [92, 114] else if c = 9 then [92, 116]
      else if c < 32 then unicode_escape c else [c])"

text \<open>A surrogate that is not one of a pair is escaped.\<close>

fun quote_units :: "jstr \<Rightarrow> jstr" where
  "quote_units [] = []"
| "quote_units [c] = (if is_high_surrogate c \<or> is_low_surrogate c then unicode_escape c else quote_unit c)"
| "quote_units (c # d # s) =
     (if is_high_surrogate c \<and> is_low_surrogate d then c # d # quote_units s
      else if is_high_surrogate c \<or> is_low_surrogate c then unicode_escape c @ quote_units (d # s)
      else quote_unit c @ quote_units (d # s))"

definition json_quote :: "jstr \<Rightarrow> jstr" where
  "json_quote s = 34 # quote_units s @ [34]"

text \<open>An array index is the decimal text of a number below \<open>2^32 - 1\<close>.\<close>

definition index_value :: "jstr \<Rightarrow> int" where
  "index_value s = foldl (\<lambda>n c. 10 * n + (c - 48)) 0 s"

definition is_array_index :: "jstr \<Rightarrow> bool" where
  "is_array_index k \<longleftrightarrow> k \<noteq> [] \<and> list_all is_digit k \<and> (hd k \<noteq> 48 \<or> k = [48]) \<and> index_value k < 4294967295"

definition own_entries :: "(jstr \<times> 'a) list \<Rightarrow> (jstr \<times> 'a) list" where
  "own_entries m = sort_key (\<lambda>p. index_value (fst p)) (filter (\<lambda>p. is_array_index (fst p)) m) @
     filter (\<lambda>p. \<not> is_array_index (fst p)) m"

lemma set_own_entries [simp]: "set (own_entries m) = set m"
  by (auto simp: own_entries_def)

lemma size_json_member: "(k, v) \<in> set m \<Longrightarrow> size v < size (JObj m)"
  by (induction m) auto

function json_stringify :: "(jstr \<Rightarrow> jstr) \<Rightarrow> json \<Rightarrow> jstr" where
  "json_stringify show_num JNull = js ''null''"
| "json_stringify show_num (JBool b) = (if b then js ''true'' else js ''false'')"
| "json_stringify show_num (JNum l) = show_num l"
| "json_stringify show_num (JStr s) = json_quote s"
| "json_stringify show_num (JArr vs) = 91 # js_join [44] (map (json_stringify show_num) vs) @ [93]"
| "json_stringify show_num (JObj m) =
     123 # js_join [44] (map (\<lambda>(k, v). json_quote k @ 58 # json_stringify show_num v) (own_entries m)) @ [125]"
  by pat_completeness auto

termination
  by (relation "measure (\<lambda>(f, v). size v)") (auto dest: size_json_member intro: le_imp_less_Suc size_list_estimation')

subsection \<open>What is printed is read back\<close>

text \<open>The texts a value can be followed by.\<close>

definition json_stop :: "jstr \<Rightarrow> bool" where
  "json_stop t = (t = [] \<or> hd t = 44 \<or> hd t = 93 \<or> hd t = 125)"

lemma json_stop_simps [simp]: "json_stop []" "json_stop (c # t) \<longleftrightarrow> c = 44 \<or> c = 93 \<or> c = 125"
  by (simp_all add: json_stop_def)

lemma skip_ws_id: "c = 32 \<or> c = 9 \<or> c = 10 \<or> c = 13 \<or> skip_ws (c # s) = c # s"
  by (simp add: skip_ws_def json_ws_def)

lemma skip_ws_simps [simp]:
  "skip_ws [] = []"
  "skip_ws (c # s) = (if json_ws c then skip_ws s else c # s)"
  by (simp_all add: skip_ws_def)

lemma hex_value_digit: "0 \<le> n \<Longrightarrow> n < 16 \<Longrightarrow> hex_value (hex_digit n) = Some n"
  by (auto simp: hex_value_def hex_digit_def is_digit_def)

lemma hex4_digits:
  assumes "0 \<le> c" "c < 65536"
  shows "hex4 (hex_digit (c div 4096)) (hex_digit (c div 256 mod 16)) (hex_digit (c div 16 mod 16))
    (hex_digit (c mod 16)) = Some c"
proof -
  have d: "c div 256 = c div 16 div 16" "c div 4096 = c div 16 div 16 div 16"
    by (simp_all add: zdiv_zmult2_eq [symmetric])
  have "4096 * (c div 4096) + 256 * (c div 256 mod 16) + 16 * (c div 16 mod 16) + c mod 16 = c"
    unfolding d using mult_div_mod_eq [of 16 c] mult_div_mod_eq [of 16 "c div 16"]
      mult_div_mod_eq [of 16 "c div 16 div 16"] by linarith
  moreover have "0 \<le> c div 4096" "c div 4096 < 16"
    using assms by (simp add: pos_imp_zdiv_nonneg_iff, linarith)
  then have "hex_value (hex_digit (c div 4096)) = Some (c div 4096)" by (rule hex_value_digit)
  moreover have "hex_value (hex_digit (x mod 16)) = Some (x mod 16)" for x
    by (rule hex_value_digit) simp_all
  ultimately show ?thesis by (simp only: hex4_def prod.case option.case)
qed

lemma chars_unicode_escape:
  "0 \<le> c \<Longrightarrow> c < 65536 \<Longrightarrow> json_chars (unicode_escape c @ r) = push_unit c (json_chars r)"
  by (simp add: unicode_escape_def hex4_digits)

lemma chars_quote_unit: "0 \<le> c \<Longrightarrow> json_chars (quote_unit c @ r) = push_unit c (json_chars r)"
  by (auto simp: quote_unit_def chars_unicode_escape simple_escape_def)

lemma chars_plain: "32 \<le> c \<Longrightarrow> c \<noteq> 34 \<Longrightarrow> c \<noteq> 92 \<Longrightarrow> json_chars (c # r) = push_unit c (json_chars r)"
  by simp

definition units_ok :: "jstr \<Rightarrow> bool" where
  "units_ok s = list_all (\<lambda>c. 0 \<le> c) s"

lemma chars_quote_units: "units_ok s \<Longrightarrow> json_chars (quote_units s @ 34 # t) = Some (s, t)"
proof (induction s rule: quote_units.induct)
  case 1
  then show ?case by simp
next
  case (2 c)
  then have nn: "0 \<le> c" by (simp add: units_ok_def)
  have e: "json_chars (34 # t) = Some ([], t)" by simp
  show ?case
  proof (cases "is_high_surrogate c \<or> is_low_surrogate c")
    case True
    then have "c < 65536" by (auto simp: is_high_surrogate_def is_low_surrogate_def)
    with True nn e show ?thesis by (simp add: chars_unicode_escape push_unit_def del: json_chars.simps(2))
  next
    case False
    with nn e show ?thesis by (simp add: chars_quote_unit push_unit_def del: json_chars.simps(2))
  qed
next
  case (3 c d s)
  let ?pair = "is_high_surrogate c \<and> is_low_surrogate d"
  have nn: "0 \<le> c" "units_ok (d # s)" "units_ok s" using "3.prems" by (auto simp: units_ok_def)
  consider "?pair" | "\<not> ?pair" "is_high_surrogate c \<or> is_low_surrogate c"
    | "\<not> is_high_surrogate c" "\<not> is_low_surrogate c" by blast
  then show ?case
  proof cases
    case 1
    then show ?thesis using "3.IH"(1) nn
      by (simp add: chars_plain is_high_surrogate_def is_low_surrogate_def push_unit_def del: json_chars.simps(2))
  next
    case 2
    then have "c < 65536" by (auto simp: is_high_surrogate_def is_low_surrogate_def)
    with 2 show ?thesis using "3.IH"(2) nn
      by (auto simp: chars_unicode_escape push_unit_def simp del: json_chars.simps(2))
  next
    case 3
    then show ?thesis using "3.IH"(3) nn
      by (auto simp: chars_quote_unit push_unit_def simp del: json_chars.simps(2))
  qed
qed

lemma value_quote: "units_ok s \<Longrightarrow> json_value (json_quote s @ t) = Some (JStr s, t)"
  by (subst json_value.simps) (simp add: json_quote_def json_ws_def chars_quote_units)

text \<open>A number ends where no digit, point or exponent follows.\<close>

definition number_stop :: "jstr \<Rightarrow> bool" where
  "number_stop t = (t = [] \<or> \<not> is_digit (hd t) \<and> hd t \<noteq> 46 \<and> hd t \<noteq> 101 \<and> hd t \<noteq> 69)"

lemma json_stop_number: "json_stop t \<Longrightarrow> number_stop t"
  by (auto simp: json_stop_def number_stop_def is_digit_def)

lemma digits_append:
  assumes "number_stop t"
  shows "takeWhile is_digit (s @ t) = takeWhile is_digit s" "dropWhile is_digit (s @ t) = dropWhile is_digit s @ t"
  using assms by (induction s) (auto simp: number_stop_def takeWhile_eq_Nil_iff dropWhile_eq_self_iff)

lemma integer_append:
  assumes "number_stop t" "json_integer s = Some (ip, r)"
  shows "json_integer (s @ t) = Some (ip, r @ t)"
  using assms(2) digits_append [OF assms(1), of s]
  by (cases s) (auto simp: json_integer_def split: if_splits)

lemma fraction_append:
  assumes "number_stop t" "json_fraction s = Some (fp, r)"
  shows "json_fraction (s @ t) = Some (fp, r @ t)"
proof (cases s)
  case Nil
  with assms show ?thesis by (cases t) (auto simp: json_fraction_def number_stop_def)
next
  case (Cons c w)
  with assms(2) digits_append [OF assms(1), of w] show ?thesis
    by (auto simp: json_fraction_def split: if_splits)
qed

lemma sign_append: "s \<noteq> [] \<Longrightarrow> json_sign f s = (sg, r) \<Longrightarrow> json_sign f (s @ t) = (sg, r @ t)"
  by (cases s) (auto simp: json_sign_def split: if_splits)

lemma exponent_append:
  assumes "number_stop t" "json_exponent s = Some (ep, r)"
  shows "json_exponent (s @ t) = Some (ep, r @ t)"
proof (cases s)
  case Nil
  with assms show ?thesis by (cases t) (auto simp: json_exponent_def number_stop_def)
next
  case (Cons c w)
  show ?thesis
  proof (cases "c = 101 \<or> c = 69")
    case True
    obtain sg u where su: "json_sign (\<lambda>x. x = 43 \<or> x = 45) w = (sg, u)" by fastforce
    with True Cons assms(2) have "w \<noteq> []" by (auto simp: json_exponent_def json_sign_def)
    with sign_append su have "json_sign (\<lambda>x. x = 43 \<or> x = 45) (w @ t) = (sg, u @ t)" by blast
    with True Cons assms(2) su digits_append [OF assms(1), of u] show ?thesis
      by (auto simp: json_exponent_def split: if_splits)
  qed (use assms(2) Cons in \<open>auto simp: json_exponent_def\<close>)
qed

lemma number_append:
  assumes t: "number_stop t" and n: "json_number s = Some (l, r)"
  shows "json_number (s @ t) = Some (l, r @ t)"
proof -
  obtain sg s1 where 1: "json_sign (\<lambda>x. x = 45) s = (sg, s1)" by fastforce
  with n obtain ip s2 where 2: "json_integer s1 = Some (ip, s2)"
    by (auto simp: json_number_def bind_eq_Some_conv)
  with 1 n obtain fp s3 where 3: "json_fraction s2 = Some (fp, s3)"
    by (auto simp: json_number_def bind_eq_Some_conv)
  with 1 2 n obtain ep where 4: "json_exponent s3 = Some (ep, r)" "l = sg @ ip @ fp @ ep"
    by (auto simp: json_number_def bind_eq_Some_conv)
  have "s \<noteq> []" using 1 2 by (auto simp: json_sign_def json_integer_def)
  then have "json_sign (\<lambda>x. x = 45) (s @ t) = (sg, s1 @ t)" using 1 by (rule sign_append)
  then show ?thesis
    using integer_append [OF t 2] fraction_append [OF t 3] exponent_append [OF t 4(1)] 4(2)
    by (simp add: json_number_def)
qed

lemma number_first:
  assumes "json_number s = Some (l, r)"
  obtains c w where "s = c # w" "c = 45 \<or> is_digit c"
  using assms by (cases s)
    (auto simp: json_number_def json_sign_def json_integer_def bind_eq_Some_conv is_digit_def split: if_splits list.splits)

lemma value_number:
  assumes "json_number l = Some (l, [])" "json_stop t"
  shows "json_value (l @ t) = Some (JNum l, t)"
proof -
  obtain c w where c: "l = c # w" "c = 45 \<or> is_digit c" using assms(1) by (rule number_first)
  then have "\<not> json_ws c" "c \<noteq> 34" "c \<noteq> 91" "c \<noteq> 123" "c \<noteq> 116" "c \<noteq> 102" "c \<noteq> 110"
    by (auto simp: json_ws_def is_digit_def)
  then show ?thesis
    using number_append [OF json_stop_number [OF assms(2)] assms(1)] c(1)
    by (subst json_value.simps) (simp add: json_literal_def)
qed

lemma value_literal:
  "json_value (js ''null'' @ t) = Some (JNull, t)"
  "json_value (js ''true'' @ t) = Some (JBool True, t)"
  "json_value (js ''false'' @ t) = Some (JBool False, t)"
  by (subst json_value.simps, simp add: json_ws_def json_literal_def)+

text \<open>
  The values whose text is read back as they are: numbers written the way \<open>show_num\<close> writes
  them, objects that name a property once and in the order the language enumerates.
\<close>

function json_ok :: "(jstr \<Rightarrow> jstr) \<Rightarrow> json \<Rightarrow> bool" where
  "json_ok f JNull = True"
| "json_ok f (JBool b) = True"
| "json_ok f (JNum l) = (f l = l \<and> json_number l = Some (l, []))"
| "json_ok f (JStr s) = units_ok s"
| "json_ok f (JArr vs) = list_all (json_ok f) vs"
| "json_ok f (JObj m) = (own_entries m = m \<and> distinct (map fst m) \<and> list_all (units_ok \<circ> fst) m \<and>
     list_all (\<lambda>p. json_ok f (snd p)) m)"
  by pat_completeness auto

termination
  by (relation "measure (\<lambda>(f, v). size v)")
    (auto dest: size_json_member intro: le_imp_less_Suc size_list_estimation')

text \<open>The printed text of a value starts with no white space and no bracket that closes.\<close>

lemma stringify_first:
  assumes "json_ok f v"
  obtains c w where "json_stringify f v = c # w" "\<not> json_ws c" "c \<noteq> 93"
proof (cases v)
  case (JNum l)
  with assms have l: "json_number l = Some (l, [])" "json_stringify f v = l" by auto
  from l(1) obtain c w where "l = c # w" "c = 45 \<or> is_digit c" by (rule number_first)
  with that l(2) show ?thesis by (auto simp: json_ws_def is_digit_def)
next
  case (JBool b)
  with that show ?thesis by (cases b) (auto simp: json_ws_def)
qed (use that in \<open>auto simp: json_quote_def json_ws_def split: if_splits\<close>)

lemma elements_round:
  assumes "vs \<noteq> []"
    and "\<And>v t. v \<in> set vs \<Longrightarrow> json_stop t \<Longrightarrow> json_value (f v @ t) = Some (v, t)"
  shows "json_elements (js_join [44] (map f vs) @ 93 # t) = Some (vs, t)"
  using assms
proof (induction vs rule: induct_list012)
  case 1
  then show ?case by simp
next
  case (2 v)
  then show ?case by (subst json_elements.simps) (simp add: json_ws_def)
next
  case (3 v w vs)
  have "json_elements (js_join [44] (map f (w # vs)) @ 93 # t) = Some (w # vs, t)"
    by (rule "3.IH"(2)) (use "3.prems" in auto)
  with "3.prems" show ?case by (subst json_elements.simps) (simp add: json_ws_def)
qed

lemma members_round:
  assumes "m \<noteq> []" and "list_all (units_ok \<circ> fst) m"
    and "\<And>v t. v \<in> snd ` set m \<Longrightarrow> json_stop t \<Longrightarrow> json_value (f v @ t) = Some (v, t)"
  shows "json_members (js_join [44] (map (\<lambda>(k, v). json_quote k @ 58 # f v) m) @ 125 # t) = Some (m, t)"
  using assms
proof (induction m rule: induct_list012)
  case 1
  then show ?case by simp
next
  case (2 p)
  then show ?case
    by (subst json_members.simps) (auto simp: json_ws_def json_quote_def chars_quote_units split: prod.split)
next
  case (3 p q m)
  have "json_members (js_join [44] (map (\<lambda>(k, v). json_quote k @ 58 # f v) (q # m)) @ 125 # t) = Some (q # m, t)"
    by (rule "3.IH"(2)) (use "3.prems" in auto)
  with "3.prems" show ?case
    by (subst json_members.simps) (auto simp: json_ws_def json_quote_def chars_quote_units split: prod.split)
qed

lemma fold_set_new:
  "distinct (map fst m @ map fst n) \<Longrightarrow> fold (\<lambda>(k, v). jm_set k v) n m = m @ n"
proof (induction n arbitrary: m)
  case (Cons p n)
  then have "jm_set (fst p) (snd p) m = m @ [p]"
    by (auto simp: jm_keys_def intro!: jm_set_new [THEN trans])
  with Cons.IH [of "m @ [p]"] Cons.prems show ?case by (auto split: prod.split)
qed simp

lemma value_stringify:
  "json_ok f v \<Longrightarrow> json_stop t \<Longrightarrow> json_value (json_stringify f v @ t) = Some (v, t)"
proof (induction v arbitrary: t rule: measure_induct_rule [of size])
  case (less v)
  show ?case
  proof (cases v)
    case (JArr vs)
    have m: "json_value (json_stringify f x @ u) = Some (x, u)" if "x \<in> set vs" "json_stop u" for x u
      by (rule less.IH) (use that less.prems JArr in
          \<open>auto simp: list_all_iff intro: le_imp_less_Suc size_list_estimation'\<close>)
    show ?thesis
    proof (cases vs)
      case (Cons x xs)
      with less.prems JArr obtain c w where "json_stringify f x = c # w" "\<not> json_ws c" "c \<noteq> 93"
        by (auto elim: stringify_first)
      with Cons obtain w' where "js_join [44] (map (json_stringify f) vs) @ 93 # t = c # w'" by (cases xs) auto
      with \<open>\<not> json_ws c\<close> \<open>c \<noteq> 93\<close> show ?thesis
        using elements_round [of vs "json_stringify f" t] m Cons JArr
        by (subst json_value.simps) (simp add: json_ws_def)
    qed (subst json_value.simps, simp add: JArr json_ws_def)
  next
    case (JObj m)
    have v: "json_value (json_stringify f x @ u) = Some (x, u)" if "x \<in> snd ` set m" "json_stop u" for x u
      by (rule less.IH) (use that less.prems JObj size_json_member in \<open>fastforce simp: list_all_iff\<close>)+
    have ok: "own_entries m = m" "distinct (map fst m)" "list_all (units_ok \<circ> fst) m"
      using less.prems JObj by simp_all
    show ?thesis
    proof (cases m)
      case (Cons p m')
      obtain w' where "js_join [44] (map (\<lambda>(k, v). json_quote k @ 58 # json_stringify f v) m) @ 125 # t = 34 # w'"
        using Cons by (cases p; cases m') (auto simp: json_quote_def)
      then show ?thesis
        using members_round [of m "json_stringify f" t] v ok fold_set_new [of "[]" m] Cons JObj
        by (subst json_value.simps) (simp add: json_ws_def)
    qed (subst json_value.simps, simp add: JObj json_ws_def own_entries_def)
  qed (use less.prems in \<open>simp_all add: value_quote value_number value_literal del: js_Cons split: if_splits\<close>)
qed

lemma parse_stringify: "json_ok f v \<Longrightarrow> json_parse (json_stringify f v) = Some v"
  using value_stringify [of f v "[]"] by (simp add: json_parse_def)

end
