(* ===== verification/ChatStream.thy ===== *)
theory ChatStream
  imports JsJson
begin

text \<open>
  The parts of the chat assistant (\<open>components/Chatbox.tsx\<close>) that read what the service sends:
  the split of an answer into its text and its \<open><memory_update>\<close> block, the loop over the lines
  of the event stream, and the memory of the session with what a block adds to it.

  The chunks are the strings the \<open>TextDecoder\<close> returned for what \<open>reader.read()\<close> delivered.
  Property access on a decoded value throws on \<open>null\<close> and is \<open>undefined\<close> (\<open>None\<close>) where the value
  has no such property.
\<close>

subsection \<open>Values as the language converts them\<close>

definition json_truthy :: "(jstr \<Rightarrow> jstr) \<Rightarrow> json \<Rightarrow> bool" where
  "json_truthy show_num v = (case v of
     JNull \<Rightarrow> False
   | JBool b \<Rightarrow> b
   | JNum l \<Rightarrow> show_num l \<noteq> js ''0''
   | JStr s \<Rightarrow> s \<noteq> []
   | _ \<Rightarrow> True)"

text \<open>\<open>String(v)\<close>; the elements of an array are joined with commas, \<open>null\<close> among them as nothing.\<close>

function js_string :: "(jstr \<Rightarrow> jstr) \<Rightarrow> json \<Rightarrow> jstr" where
  "js_string show_num JNull = js ''null''"
| "js_string show_num (JBool b) = (if b then js ''true'' else js ''false'')"
| "js_string show_num (JNum l) = show_num l"
| "js_string show_num (JStr s) = s"
| "js_string show_num (JArr vs) = js_join [44] (map (\<lambda>v. if v = JNull then [] else js_string show_num v) vs)"
| "js_string show_num (JObj m) = js ''[object Object]''"
  by pat_completeness auto

termination
  by (relation "measure (\<lambda>(f, v). size v)") (auto intro: le_imp_less_Suc size_list_estimation')

definition get_prop :: "jstr \<Rightarrow> json option \<Rightarrow> json option" where
  "get_prop k v = (case v of Some (JObj m) \<Rightarrow> jm_get m k | _ \<Rightarrow> None)"

text \<open>\<open>v?.[0]\<close>\<close>

definition first_item :: "json option \<Rightarrow> json option" where
  "first_item v = (case v of
     Some (JArr (x # xs)) \<Rightarrow> Some x
   | Some (JStr (c # s)) \<Rightarrow> Some (JStr [c])
   | Some (JObj m) \<Rightarrow> jm_get m (js ''0'')
   | _ \<Rightarrow> None)"

definition or_value :: "(jstr \<Rightarrow> jstr) \<Rightarrow> json option \<Rightarrow> json \<Rightarrow> json" where
  "or_value show_num v d = (case v of Some x \<Rightarrow> if json_truthy show_num x then x else d | None \<Rightarrow> d)"

subsection \<open>An answer and its memory block\<close>

record stream_content =
  sc_cleanText :: jstr
  sc_memoryBlock :: jstr
  sc_isExtracting :: bool

definition memory_tag :: jstr where "memory_tag = js ''<memory_update>''"
definition memory_end_tag :: jstr where "memory_end_tag = js ''</memory_update>''"

definition parseStreamContent :: "jstr \<Rightarrow> stream_content" where
  "parseStreamContent s =
     (case index_of s memory_tag of
        Some index \<Rightarrow>
          (let cleanText = js_trim (take index s);
               memoryBlock = drop (index + length memory_tag) s;
               memoryBlock = (case index_of memoryBlock memory_end_tag of
                   Some endIndex \<Rightarrow> take endIndex memoryBlock
                 | None \<Rightarrow> memoryBlock)
           in \<lparr>sc_cleanText = cleanText, sc_memoryBlock = memoryBlock, sc_isExtracting = True\<rparr>)
      | None \<Rightarrow> \<lparr>sc_cleanText = s, sc_memoryBlock = [], sc_isExtracting = False\<rparr>)"

subsection \<open>The event stream\<close>

text \<open>\<open>parsed.choices?.[0]?.delta?.content || ''\<close>; reading a property of \<open>null\<close> throws.\<close>

definition delta_content :: "(jstr \<Rightarrow> jstr) \<Rightarrow> json \<Rightarrow> json option" where
  "delta_content show_num parsed =
     (if parsed = JNull then None
      else Some (or_value show_num
        (get_prop (js ''content'') (get_prop (js ''delta'') (first_item (get_prop (js ''choices'') (Some parsed))))) (JStr [])))"

definition data_prefix :: jstr where "data_prefix = js ''data: ''"
definition done_line :: jstr where "done_line = js ''data: [DONE]''"

text \<open>What a data line adds to the answer: nothing when it does not parse.\<close>

definition data_content :: "(jstr \<Rightarrow> jstr) \<Rightarrow> jstr \<Rightarrow> jstr option" where
  "data_content show_num trimmed_line =
     (case json_parse (drop 6 trimmed_line) of
        None \<Rightarrow> None
      | Some parsed \<Rightarrow>
          (case delta_content show_num parsed of
             None \<Rightarrow> None
           | Some content \<Rightarrow>
               if json_truthy show_num content then Some (js_string show_num content) else None))"

text \<open>The loop over the complete lines: whether it met \<open>[DONE]\<close>, and the contents in order.\<close>

fun stream_lines :: "(jstr \<Rightarrow> jstr) \<Rightarrow> jstr list \<Rightarrow> bool \<times> jstr list" where
  "stream_lines show_num [] = (False, [])"
| "stream_lines show_num (line # lines) =
     (let t = js_trim line in
      if t = [] then stream_lines show_num lines
      else if t = done_line then (True, [])
      else if starts_with t data_prefix then
        (case data_content show_num t of
           None \<Rightarrow> stream_lines show_num lines
         | Some content \<Rightarrow> (case stream_lines show_num lines of (d, cs) \<Rightarrow> (d, content # cs)))
      else stream_lines show_num lines)"

text \<open>One turn of \<open>while (!done)\<close>: the buffer left, whether the loop is done, the contents.\<close>

definition stream_feed :: "(jstr \<Rightarrow> jstr) \<Rightarrow> jstr option \<Rightarrow> bool \<Rightarrow> jstr \<Rightarrow> jstr \<times> bool \<times> jstr list" where
  "stream_feed show_num value_text readerDone buffer =
     (case value_text of
        None \<Rightarrow> (buffer, readerDone, [])
      | Some v \<Rightarrow>
          (let lines = split_char 10 (buffer @ v);
               (met_done, contents) = stream_lines show_num (butlast lines)
           in (last lines, readerDone \<or> met_done, contents)))"

text \<open>What is left in the buffer when the loop is over.\<close>

definition stream_tail :: "(jstr \<Rightarrow> jstr) \<Rightarrow> jstr \<Rightarrow> jstr list" where
  "stream_tail show_num buffer =
     (if buffer = [] then []
      else (let t = js_trim buffer in
        if starts_with t data_prefix \<and> t \<noteq> done_line
        then (case data_content show_num t of None \<Rightarrow> [] | Some c \<Rightarrow> [c]) else []))"

text \<open>The whole loop over the chunks of a response; the reader reports its end after the last.\<close>

fun stream_run :: "(jstr \<Rightarrow> jstr) \<Rightarrow> jstr list \<Rightarrow> jstr \<Rightarrow> jstr list" where
  "stream_run show_num [] buffer = stream_tail show_num buffer"
| "stream_run show_num (v # vs) buffer =
     (case stream_feed show_num (Some v) False buffer of (b, d, contents) \<Rightarrow>
        contents @ (if d then stream_tail show_num b else stream_run show_num vs b))"

subsection \<open>The memory of the session\<close>

record chat_memory =
  cm_topics :: "json list"
  cm_preferences :: "(jstr \<times> json) list"
  cm_keyFacts :: "json list"

definition empty_memory :: chat_memory where
  "empty_memory = \<lparr>cm_topics = [], cm_preferences = [], cm_keyFacts = []\<rparr>"

text \<open>Equality of the elements of a \<open>Set\<close>: values for primitives, identity for arrays and objects,
  and every value that \<open>JSON.parse\<close> returns is a new one.\<close>

definition same_value :: "(jstr \<Rightarrow> jstr) \<Rightarrow> json \<Rightarrow> json \<Rightarrow> bool" where
  "same_value show_num x y = (case (x, y) of
     (JNull, JNull) \<Rightarrow> True
   | (JBool a, JBool b) \<Rightarrow> a = b
   | (JNum a, JNum b) \<Rightarrow> show_num a = show_num b
   | (JStr a, JStr b) \<Rightarrow> a = b
   | _ \<Rightarrow> False)"

definition add_value :: "(jstr \<Rightarrow> jstr) \<Rightarrow> json \<Rightarrow> json list \<Rightarrow> json list" where
  "add_value show_num x xs = (if \<exists>y \<in> set xs. same_value show_num x y then xs else xs @ [x])"

definition unique_values :: "(jstr \<Rightarrow> jstr) \<Rightarrow> json list \<Rightarrow> json list" where
  "unique_values show_num vs = fold (add_value show_num) vs []"

text \<open>The code points of a string, which is what iterating it gives.\<close>

fun code_points :: "jstr \<Rightarrow> jstr list" where
  "code_points [] = []"
| "code_points [c] = [[c]]"
| "code_points (c # d # s) =
     (if is_high_surrogate c \<and> is_low_surrogate d then [c, d] # code_points s else [c] # code_points (d # s))"

text \<open>\<open>...(v || [])\<close> in an array; \<open>None\<close>: the value is not iterable.\<close>

definition spread_array :: "(jstr \<Rightarrow> jstr) \<Rightarrow> json option \<Rightarrow> json list option" where
  "spread_array show_num v = (case or_value show_num v (JArr []) of
     JArr vs \<Rightarrow> Some vs
   | JStr s \<Rightarrow> Some (map JStr (code_points s))
   | _ \<Rightarrow> None)"

text \<open>\<open>...(v || {})\<close> in an object literal.\<close>

definition spread_object :: "(jstr \<Rightarrow> jstr) \<Rightarrow> json option \<Rightarrow> (jstr \<times> json) list" where
  "spread_object show_num v = (case or_value show_num v (JObj []) of
     JObj m \<Rightarrow> own_entries m
   | JArr vs \<Rightarrow> map (\<lambda>(i, x). (nat_text i, x)) (enumerate 0 vs)
   | JStr s \<Rightarrow> map (\<lambda>(i, c). (nat_text i, JStr [c])) (enumerate 0 s)
   | _ \<Rightarrow> [])"

text \<open>The update of the state; \<open>None\<close>: it throws.\<close>

definition merge_memory :: "(jstr \<Rightarrow> jstr) \<Rightarrow> json \<Rightarrow> chat_memory \<Rightarrow> chat_memory option" where
  "merge_memory show_num parsedMemory prev =
     (if parsedMemory = JNull then None
      else
        (case (spread_array show_num (get_prop (js ''topics'') (Some parsedMemory)),
               spread_array show_num (get_prop (js ''key_facts'') (Some parsedMemory))) of
           (Some topics, Some facts) \<Rightarrow>
             Some \<lparr>cm_topics = unique_values show_num (cm_topics prev @ topics),
               cm_preferences = fold (\<lambda>(k, v). jm_set k v)
                 (own_entries (cm_preferences prev) @ spread_object show_num (get_prop (js ''preferences'') (Some parsedMemory))) [],
               cm_keyFacts = unique_values show_num (cm_keyFacts prev @ facts)\<rparr>
         | _ \<Rightarrow> None))"

text \<open>The text of a block without its fence.\<close>

definition memory_json :: "jstr \<Rightarrow> jstr" where
  "memory_json memoryBlock =
     (let jsonStr = js_trim memoryBlock;
          jsonStr = (if starts_with jsonStr (js ''```json'') then drop 7 jsonStr else jsonStr);
          jsonStr = (if ends_with jsonStr (js ''```'') then take (length jsonStr - 3) jsonStr else jsonStr)
      in js_trim jsonStr)"

text \<open>A block that does not parse leaves the memory as it is; \<open>None\<close>: the update throws.\<close>

definition remember :: "(jstr \<Rightarrow> jstr) \<Rightarrow> jstr \<Rightarrow> chat_memory \<Rightarrow> chat_memory option" where
  "remember show_num memoryBlock mem =
     (if memoryBlock = [] then Some mem
      else (case json_parse (memory_json memoryBlock) of
          None \<Rightarrow> Some mem
        | Some parsedMemory \<Rightarrow> merge_memory show_num parsedMemory mem))"

text \<open>What the next question tells the service about the session.\<close>

definition memory_context :: "(jstr \<Rightarrow> jstr) \<Rightarrow> chat_memory \<Rightarrow> jstr" where
  "memory_context show_num mem =
     (if cm_topics mem = [] \<and> cm_keyFacts mem = [] \<and> cm_preferences mem = [] then []
      else
        js ''### ACTIVE SESSION MEMORY:'' @ [10] @
        (if cm_topics mem = [] then []
         else js ''- **Topics Discussed**: '' @
           js_join (js '', '') (map (\<lambda>v. if v = JNull then [] else js_string show_num v) (cm_topics mem)) @ [10]) @
        (if cm_preferences mem = [] then []
         else js ''- **User Preferences**: '' @ json_stringify show_num (JObj (cm_preferences mem)) @ [10]) @
        (if cm_keyFacts mem = [] then []
         else js ''- **Key Facts Learned**:'' @ [10] @
           concat (map (\<lambda>fact. js ''  * '' @ js_string show_num fact @ [10]) (cm_keyFacts mem))))"

end
