(* ===== verification/ChatBox.thy ===== *)
theory ChatBox
  imports ChatSearch ChatStream ChatPrompt Machine
begin

text \<open>
  The chat assistant (\<open>Chatbox\<close> of \<open>components/Chatbox.tsx\<close>) as a machine. Its state is that of the
  component with its refs: a request in flight stands for the suspended rest of a call of
  \<open>handleSendMessage\<close> with its local variables, \<open>cb_abortController\<close> for the controller of the last
  one, \<open>cb_timer\<close> for the timer of the typewriter effect with the values it closed over, and
  \<open>cb_deps\<close> for the dependencies of its last run. \<open>cb_sent\<close> lists the bodies passed to \<open>fetch\<close>.

  An event is something the user does, something the network delivers to a suspended call, a
  timer, or React running the effects of the last render (\<open>EffectsRun\<close>), which it does some time
  after the state has changed. An aborted call is delivered an \<open>AbortError\<close> at some later time.
  An update function that throws does so when the component renders, which takes it down
  (\<open>cb_crashed\<close>). Time stamps, scrolling and the logging of errors are not modelled.
\<close>

datatype role = User | Assistant

record chat_message =
  ms_role :: role
  ms_content :: jstr
  ms_sources :: "(jstr \<times> jstr) list option"

text \<open>What is passed to \<open>fetch\<close>; \<open>temperature\<close> is a decimal text.\<close>

record chat_body =
  bd_url :: jstr
  bd_headers :: "(jstr \<times> jstr) list"
  bd_model :: jstr
  bd_messages :: "(jstr \<times> jstr) list"
  bd_temperature :: jstr
  bd_stream :: bool

text \<open>What the component reads from outside: the version, the texts of the environment file, the
  documentation, and the library functions that are parameters.\<close>

record chat_env =
  cv_lower :: "jstr \<Rightarrow> jstr"
  cv_show_num :: "jstr \<Rightarrow> jstr"
  cv_docsChunks :: "doc_chunk list"
  cv_version :: jstr
  cv_apiKey :: "jstr option"
  cv_baseURL :: "jstr option"
  cv_model :: "jstr option"

datatype request_phase = Fetching | Reading

record request =
  rq_id :: nat
  rq_topResults :: "doc_chunk list"
  rq_phase :: request_phase
  rq_buffer :: jstr
  rq_hasAdded :: bool
  rq_aborted :: bool

record chat =
  cb_messages :: "chat_message list"
  cb_input :: jstr
  cb_isLoading :: bool
  cb_displayedText :: jstr
  cb_isStreaming :: bool
  cb_streamingText :: jstr
  cb_memory :: chat_memory
  cb_requests :: "request list"
  cb_abortController :: "nat option"
  cb_next :: nat
  cb_timer :: "(jstr \<times> jstr) option"
  cb_deps :: "jstr \<times> bool"
  cb_sent :: "chat_body list"
  cb_crashed :: bool

definition greeting :: chat_message where
  "greeting = \<lparr>ms_role = Assistant, ms_content =
     js ''Hi! I am your Aquilia Framework Assistant. Ask me anything about the manifest-driven architecture, DI container, ORM, security, auth, background tasks, or any other part of the framework.'',
     ms_sources = None\<rparr>"

definition chat_init :: chat where
  "chat_init = \<lparr>cb_messages = [greeting], cb_input = [], cb_isLoading = False, cb_displayedText = [],
     cb_isStreaming = False, cb_streamingText = [], cb_memory = empty_memory, cb_requests = [],
     cb_abortController = None, cb_next = 0, cb_timer = None, cb_deps = ([], False), cb_sent = [],
     cb_crashed = False\<rparr>"

subsection \<open>Updates of the messages\<close>

definition say :: "role \<Rightarrow> jstr \<Rightarrow> (jstr \<times> jstr) list option \<Rightarrow> chat \<Rightarrow> chat" where
  "say r content sources st = st\<lparr>cb_messages := cb_messages st @
     [\<lparr>ms_role = r, ms_content = content, ms_sources = sources\<rparr>]\<rparr>"

text \<open>The update that rewrites the last message when it is the assistant's.\<close>

definition rewrite_last :: "(jstr \<Rightarrow> jstr) \<Rightarrow> chat_message list \<Rightarrow> chat_message list" where
  "rewrite_last f prev =
     (if prev \<noteq> [] \<and> ms_role (last prev) = Assistant
      then butlast prev @ [(last prev)\<lparr>ms_content := f (ms_content (last prev))\<rparr>] else prev)"

definition set_last :: "jstr \<Rightarrow> chat \<Rightarrow> chat" where
  "set_last content st = st\<lparr>cb_messages := rewrite_last (\<lambda>old. content) (cb_messages st)\<rparr>"

definition chunk_sources :: "doc_chunk list \<Rightarrow> (jstr \<times> jstr) list" where
  "chunk_sources topResults = map (\<lambda>r. (dc_title r, dc_path r)) topResults"

subsection \<open>Requests in flight\<close>

definition find_request :: "nat \<Rightarrow> chat \<Rightarrow> request option" where
  "find_request i st = find (\<lambda>r. rq_id r = i) (cb_requests st)"

definition put_request :: "request \<Rightarrow> chat \<Rightarrow> chat" where
  "put_request q st = st\<lparr>cb_requests := map (\<lambda>r. if rq_id r = rq_id q then q else r) (cb_requests st)\<rparr>"

text \<open>\<open>abortControllerRef.current?.abort()\<close>\<close>

definition abort_current :: "chat \<Rightarrow> chat" where
  "abort_current st = (case cb_abortController st of
     None \<Rightarrow> st
   | Some i \<Rightarrow> st\<lparr>cb_requests := map (\<lambda>r. if rq_id r = i then r\<lparr>rq_aborted := True\<rparr> else r) (cb_requests st)\<rparr>)"

text \<open>The end of a call: the \<open>finally\<close> block.\<close>

definition finish :: "nat \<Rightarrow> chat \<Rightarrow> chat" where
  "finish i st = st\<lparr>cb_isLoading := False, cb_isStreaming := False,
     cb_requests := filter (\<lambda>r. rq_id r \<noteq> i) (cb_requests st)\<rparr>"

definition handleStopStreaming :: "chat \<Rightarrow> chat" where
  "handleStopStreaming st =
     (abort_current st)\<lparr>cb_abortController := None, cb_isStreaming := False, cb_isLoading := False\<rparr>"

definition handleClear :: "chat \<Rightarrow> chat" where
  "handleClear st = st\<lparr>cb_messages := [greeting], cb_memory := empty_memory\<rparr>"

definition handleSuggestionClick :: "jstr \<Rightarrow> chat \<Rightarrow> chat" where
  "handleSuggestionClick suggestion st = st\<lparr>cb_input := suggestion\<rparr>"

subsection \<open>Sending a message\<close>

definition role_text :: "role \<Rightarrow> jstr" where
  "role_text r = (case r of User \<Rightarrow> js ''user'' | Assistant \<Rightarrow> js ''assistant'')"

definition request_body :: "chat_env \<Rightarrow> jstr \<Rightarrow> doc_chunk list \<Rightarrow> chat \<Rightarrow> chat_body" where
  "request_body env userMessage topResults st =
     \<lparr>bd_url = str_or (cv_baseURL env) (js ''https://openrouter.ai/api/v1'') @ js ''/chat/completions'',
      bd_headers = [(js ''Content-Type'', js ''application/json''),
        (js ''Authorization'', js ''Bearer '' @ str_or (cv_apiKey env) []),
        (js ''HTTP-Referer'', js ''https://tubox.cloud''), (js ''X-Title'', js ''Aquilia Docs Assistant'')],
      bd_model = str_or (cv_model env) (js ''google/gemini-2.5-flash''),
      bd_messages =
        [(js ''system'', systemPrompt (cv_version env) (memory_context (cv_show_num env) (cb_memory st)))] @
        map (\<lambda>msg. (role_text (ms_role msg), ms_content msg)) (cb_messages st) @
        [(js ''user'', user_content userMessage topResults)],
      bd_temperature = js ''0.2'', bd_stream = True\<rparr>"

text \<open>The warning sign of the text is U+26A0 U+FE0F.\<close>

definition missing_key_text :: jstr where
  "missing_key_text = [0x26A0, 0xFE0F] @ js '' **OpenRouter API Key is missing.**'' @ [10, 10] @
     js ''Please configure it inside the `aqdocx/.env` file as `VITE_OPENROUTER_API_KEY`.''"

definition handleSendMessage :: "chat_env \<Rightarrow> chat \<Rightarrow> chat" where
  "handleSendMessage env st =
     (if js_trim (cb_input st) = [] \<or> cb_isLoading st then st
      else
        (let userMessage = js_trim (cb_input st);
             i = cb_next st;
             st' = (abort_current st)\<lparr>cb_input := [], cb_isLoading := True, cb_abortController := Some i, cb_next := i + 1\<rparr>;
             st' = say User userMessage None st';
             topResults = map fst (take 6 (searchChunks (cv_lower env) (cv_docsChunks env) userMessage));
             body = request_body env userMessage topResults st
         in if str_or (cv_apiKey env) [] = []
            then (say Assistant missing_key_text None st')\<lparr>cb_isLoading := False\<rparr>
            else st'\<lparr>cb_requests := cb_requests st' @ [\<lparr>rq_id = i, rq_topResults = topResults, rq_phase = Fetching,
                   rq_buffer = [], rq_hasAdded = False, rq_aborted = False\<rparr>],
                 cb_sent := cb_sent st' @ [body]\<rparr>))"

subsection \<open>What the network delivers\<close>

text \<open>The cross mark is U+274C; an error without a message gets the text of the source.\<close>

definition failed :: "nat \<Rightarrow> jstr \<Rightarrow> chat \<Rightarrow> chat" where
  "failed i message st = finish i (say Assistant
     ([0x274C] @ js '' **Error communicating with OpenRouter:**'' @ [10, 10] @
      str_or (Some message) (js ''Unknown network error. Please verify your API URL, key, and model choice.'')) None st)"

text \<open>The stop sign is U+1F6D1.\<close>

definition interrupted_text :: jstr where
  "interrupted_text = [10, 10] @ js ''*'' @ [0xD83D, 0xDED1] @ js '' Response interrupted by user.*''"

definition interrupted :: "nat \<Rightarrow> chat \<Rightarrow> chat" where
  "interrupted i st = finish i (st\<lparr>cb_messages := rewrite_last (\<lambda>old. old @ interrupted_text) (cb_messages st)\<rparr>)"

definition responded :: "nat \<Rightarrow> bool \<Rightarrow> jstr \<Rightarrow> jstr \<Rightarrow> bool \<Rightarrow> chat \<Rightarrow> chat" where
  "responded i ok status statusText has_body st =
     (case find_request i st of
        None \<Rightarrow> st
      | Some q \<Rightarrow>
          if rq_phase q \<noteq> Fetching then st
          else if \<not> ok then failed i (js ''API Error: '' @ status @ [32] @ statusText) st
          else
            (let st' = st\<lparr>cb_isStreaming := True, cb_streamingText := [], cb_displayedText := []\<rparr>
             in if has_body then put_request (q\<lparr>rq_phase := Reading\<rparr>) st' else finish i st'))"

text \<open>A piece of the answer: the first one opens the message.\<close>

definition add_content :: "jstr \<Rightarrow> request \<times> chat \<Rightarrow> request \<times> chat" where
  "add_content content p = (case p of (q, st) \<Rightarrow>
     (let st' = (if rq_hasAdded q then st
            else (say Assistant [] (Some (chunk_sources (rq_topResults q))) st)\<lparr>cb_isLoading := False\<rparr>)
      in (q\<lparr>rq_hasAdded := True\<rparr>, st'\<lparr>cb_streamingText := cb_streamingText st' @ content\<rparr>)))"

definition no_content_text :: jstr where
  "no_content_text = js ''No response content received.''"

text \<open>What follows the loop over the stream.\<close>

definition stream_ended :: "(jstr \<Rightarrow> jstr) \<Rightarrow> request \<Rightarrow> chat \<Rightarrow> chat" where
  "stream_ended show_num q st =
     (case fold add_content (stream_tail show_num (rq_buffer q)) (q, st) of (q, st) \<Rightarrow>
      (let st = (if rq_hasAdded q then st
             else (say Assistant (str_or (Some (cb_streamingText st)) no_content_text)
                    (Some (chunk_sources (rq_topResults q))) st)\<lparr>cb_isLoading := False\<rparr>);
           content = parseStreamContent (cb_streamingText st);
           st = (set_last (sc_cleanText content) st)\<lparr>cb_displayedText := sc_cleanText content\<rparr>;
           st = (case remember show_num (sc_memoryBlock content) (cb_memory st) of
               Some mem \<Rightarrow> st\<lparr>cb_memory := mem\<rparr>
             | None \<Rightarrow> st\<lparr>cb_crashed := True\<rparr>)
       in finish (rq_id q) st))"

text \<open>One result of \<open>reader.read()\<close>.\<close>

definition chunk_read :: "(jstr \<Rightarrow> jstr) \<Rightarrow> nat \<Rightarrow> jstr option \<Rightarrow> bool \<Rightarrow> chat \<Rightarrow> chat" where
  "chunk_read show_num i value_text readerDone st =
     (case find_request i st of
        None \<Rightarrow> st
      | Some q \<Rightarrow>
          if rq_phase q \<noteq> Reading then st
          else
            (case stream_feed show_num value_text readerDone (rq_buffer q) of (buffer, met_end, contents) \<Rightarrow>
              (case fold add_content contents (q\<lparr>rq_buffer := buffer\<rparr>, st) of (q, st) \<Rightarrow>
                if met_end then stream_ended show_num q st else put_request q st)))"

text \<open>\<open>fetch\<close> or \<open>reader.read()\<close> throws; the second case is the \<open>AbortError\<close> of an aborted call.\<close>

definition request_failed :: "nat \<Rightarrow> jstr \<Rightarrow> chat \<Rightarrow> chat" where
  "request_failed i message st = (case find_request i st of None \<Rightarrow> st | Some q \<Rightarrow> failed i message st)"

definition abort_delivered :: "nat \<Rightarrow> chat \<Rightarrow> chat" where
  "abort_delivered i st = (case find_request i st of
     None \<Rightarrow> st
   | Some q \<Rightarrow> if rq_aborted q then interrupted i st else st)"

subsection \<open>The typewriter\<close>

definition effects_run :: "chat \<Rightarrow> chat" where
  "effects_run st =
     (if cb_deps st = (cb_displayedText st, cb_isStreaming st) then st
      else
        (let st' = st\<lparr>cb_deps := (cb_displayedText st, cb_isStreaming st), cb_timer := None\<rparr>;
             cleanText = sc_cleanText (parseStreamContent (cb_streamingText st))
         in if length (cb_displayedText st) \<ge> length cleanText \<and> \<not> cb_isStreaming st then st'
            else st'\<lparr>cb_timer := Some (cb_displayedText st, cleanText)\<rparr>))"

definition timer_fired :: "chat \<Rightarrow> chat" where
  "timer_fired st =
     (case cb_timer st of
        None \<Rightarrow> st
      | Some (displayed, cleanText) \<Rightarrow>
          (let st' = st\<lparr>cb_timer := None\<rparr>; currentLength = length displayed in
           if currentLength < length cleanText
           then (let nextChunk = take (currentLength + min 3 (length cleanText - currentLength)) cleanText
                 in (set_last nextChunk st')\<lparr>cb_displayedText := nextChunk\<rparr>)
           else st'))"

subsection \<open>The machine\<close>

datatype chat_event =
    TypeInput jstr
  | SuggestionClick jstr
  | Submit
  | StopClick
  | ClearClick
  | Responded nat bool jstr jstr bool
  | ChunkRead nat "jstr option" bool
  | RequestFailed nat jstr
  | AbortDelivered nat
  | EffectsRun
  | TimerFired

fun chat_handle :: "chat_env \<Rightarrow> chat_event \<Rightarrow> chat \<Rightarrow> chat" where
  "chat_handle env (TypeInput s) st = st\<lparr>cb_input := s\<rparr>"
| "chat_handle env (SuggestionClick s) st = (if length (cb_messages st) = 1 then handleSuggestionClick s st else st)"
| "chat_handle env Submit st = handleSendMessage env st"
| "chat_handle env StopClick st =
     (if cb_isStreaming st \<or> cb_isLoading st then handleStopStreaming st else st)"
| "chat_handle env ClearClick st = handleClear st"
| "chat_handle env (Responded i ok status statusText has_body) st = responded i ok status statusText has_body st"
| "chat_handle env (ChunkRead i v d) st = chunk_read (cv_show_num env) i v d st"
| "chat_handle env (RequestFailed i message) st = request_failed i message st"
| "chat_handle env (AbortDelivered i) st = abort_delivered i st"
| "chat_handle env EffectsRun st = effects_run st"
| "chat_handle env TimerFired st = timer_fired st"

definition chat_step :: "chat_env \<Rightarrow> chat_event \<Rightarrow> chat \<Rightarrow> chat" where
  "chat_step env e st = (if cb_crashed st then st else chat_handle env e st)"

definition chat_run :: "chat_env \<Rightarrow> chat_event list \<Rightarrow> chat \<Rightarrow> chat" where
  "chat_run env es st = fold (chat_step env) es st"

end
