(* ===== verification/ChatStreamFacts.thy ===== *)
theory ChatStreamFacts
  imports ChatStream
begin

text \<open>
  What the chat reads: the text shown never contains the tag of the memory block, the answer does
  not depend on how the network cuts the stream, and a memory block is read back into the memory.
\<close>

subsection \<open>Searching a string\<close>

lemma index_of_least: "index_of s p = Some i \<Longrightarrow> starts_with (drop j s) p \<Longrightarrow> i \<le> j"
proof (induction s arbitrary: i j)
  case Nil
  then show ?case by (simp split: if_splits)
next
  case (Cons c s)
  then show ?case by (cases j) (auto split: if_splits)
qed

lemma index_of_first:
  assumes "index_of s p = Some i" "p \<noteq> []"
  shows "\<not> js_includes (take i s) p"
proof
  assume "js_includes (take i s) p"
  then obtain u v where uv: "take i s = u @ p @ v" by (auto simp: js_includes_iff)
  then have "drop (length u) s = p @ v @ drop i s"
    by (metis append.assoc append_take_drop_id append_eq_conv_conj)
  then have "i \<le> length u" using index_of_least [OF assms(1)] by simp
  moreover have "length u + length p \<le> i" using arg_cong [OF uv, of length] by simp
  ultimately show False using assms(2) by (cases p) auto
qed

text \<open>A tag whose first unit occurs only there cannot straddle the text before it.\<close>

lemma index_of_append:
  assumes "p = x # q" "x \<notin> set q" "\<not> js_includes u p"
  shows "index_of (u @ p @ v) p = Some (length u)"
  using assms(3)
proof (induction u)
  case Nil
  then show ?case using assms(1) starts_with_append [of p v] by (simp del: starts_with_append)
next
  case (Cons c u)
  have "\<not> starts_with ((c # u) @ p @ v) p"
  proof
    assume "starts_with ((c # u) @ p @ v) p"
    then obtain t where t: "(c # u) @ p @ v = p @ t" by (auto simp: starts_with_iff)
    then have "\<exists>us. c # u = p @ us \<and> us @ p @ v = t \<or> (c # u) @ us = p \<and> p @ v = us @ t"
      by (simp only: append_eq_append_conv2)
    then consider us where "c # u = p @ us" | us where "(c # u) @ us = p" "p @ v = us @ t" by blast
    then show False
    proof cases
      case 1
      then show False using Cons.prems by (metis append_Nil js_includes_iff)
    next
      case 2
      show False
      proof (cases us)
        case Nil
        with 2(1) Cons.prems show False by (metis append_Nil append_Nil2 js_includes_iff)
      next
        case (Cons y ys)
        with 2 assms(1) have "y = x" "u @ us = q" by auto
        with Cons assms(2) show False by auto
      qed
    qed
  qed
  with Cons show ?case by simp
qed

lemma js_trim_infix: "\<exists>u v. s = u @ js_trim s @ v"
proof -
  obtain v where "trim_start s = js_trim s @ v"
    using trim_end_decomp [of "trim_start s"] by (auto simp: js_trim_def)
  then show ?thesis by (metis takeWhile_dropWhile_id trim_start_def)
qed

lemma js_includes_trans: "s = u @ w @ v \<Longrightarrow> js_includes w p \<Longrightarrow> js_includes s p"
  by (auto simp: js_includes_iff) (metis append.assoc)

lemma js_includes_trim: "js_includes (js_trim s) p \<Longrightarrow> js_includes s p"
  using js_trim_infix [of s] js_includes_trans by blast

lemma js_includes_take: "js_includes (take n s) p \<Longrightarrow> js_includes s p"
  using js_includes_trans [of s "[]" "take n s" "drop n s"] by simp

subsection \<open>The text and the block of an answer\<close>

lemma memory_tag_Cons: "memory_tag = 60 # js ''memory_update>''" "60 \<notin> set (js ''memory_update>'')"
  by (simp_all add: memory_tag_def)

lemma memory_end_tag_Cons: "memory_end_tag = 60 # js ''/memory_update>''" "60 \<notin> set (js ''/memory_update>'')"
  by (simp_all add: memory_end_tag_def)

lemma memory_tag_ne: "memory_tag \<noteq> []"
  by (simp add: memory_tag_def)

lemma cleanText_hides: "\<not> js_includes (sc_cleanText (parseStreamContent s)) memory_tag"
proof (cases "index_of s memory_tag")
  case None
  then show ?thesis using index_of_None [of s memory_tag] by (simp add: parseStreamContent_def)
next
  case (Some i)
  then have "\<not> js_includes (take i s) memory_tag" using index_of_first memory_tag_ne by blast
  then show ?thesis using Some js_includes_trim by (auto simp: parseStreamContent_def Let_def)
qed

lemma parse_block:
  assumes "\<not> js_includes prose memory_tag" "\<not> js_includes block memory_end_tag"
  shows "parseStreamContent (prose @ memory_tag @ block @ memory_end_tag @ rest) =
    \<lparr>sc_cleanText = js_trim prose, sc_memoryBlock = block, sc_isExtracting = True\<rparr>"
  using index_of_append [OF memory_tag_Cons assms(1), of "block @ memory_end_tag @ rest"]
    index_of_append [OF memory_end_tag_Cons assms(2), of rest]
  by (simp add: parseStreamContent_def Let_def)

lemma parse_plain: "\<not> js_includes s memory_tag \<Longrightarrow>
    parseStreamContent s = \<lparr>sc_cleanText = s, sc_memoryBlock = [], sc_isExtracting = False\<rparr>"
  using index_of_None [of s memory_tag] by (simp add: parseStreamContent_def)

subsection \<open>Lines and chunks\<close>

lemma split_char_app:
  "split_char d (u @ v) = butlast (split_char d u) @ split_char d (last (split_char d u) @ v)"
proof (induction u)
  case (Cons c u)
  obtain w ws where e: "split_char d u = w # ws" by (metis neq_Nil_conv split_char_nonempty)
  with Cons show ?case by (cases "ws = []") (auto split: list.splits)
qed simp

lemma last_split_free: "d \<notin> set (last (split_char d s))"
  using split_char_pieces [of "last (split_char d s)" d s] by simp

lemma split_char_first: "d \<notin> set b \<Longrightarrow> \<exists>t. hd (split_char d (b @ s)) = b @ t"
  by (induction b) (auto split: list.splits)

lemma stream_lines_append:
  "stream_lines f (ls @ ms) =
     (case stream_lines f ls of (d, cs) \<Rightarrow> if d then (d, cs) else
        (case stream_lines f ms of (e, es) \<Rightarrow> (e, cs @ es)))"
  by (induction ls) (auto simp: Let_def split: prod.splits option.splits)

text \<open>After the line \<open>[DONE]\<close> only blank lines follow.\<close>

fun ends_quietly :: "jstr list \<Rightarrow> bool" where
  "ends_quietly [] = True"
| "ends_quietly (line # lines) =
     (if js_trim line = done_line then list_all (\<lambda>x. js_trim x = []) lines else ends_quietly lines)"

text \<open>The contents of a text, all its lines read at once.\<close>

definition text_contents :: "(jstr \<Rightarrow> jstr) \<Rightarrow> jstr \<Rightarrow> jstr list" where
  "text_contents f w = (case stream_lines f (butlast (split_char 10 w)) of (d, cs) \<Rightarrow>
     cs @ (if d then [] else stream_tail f (last (split_char 10 w))))"

lemma ends_quietly_append:
  "ends_quietly (ls @ ms) \<Longrightarrow>
     (if fst (stream_lines f ls) then list_all (\<lambda>x. js_trim x = []) ms else ends_quietly ms)"
  by (induction ls) (auto simp: Let_def done_line_def split: prod.splits option.splits if_splits)

lemma trim_Nil_iff: "js_trim s = [] \<longleftrightarrow> list_all is_ws s"
proof
  assume "list_all is_ws s"
  then have "dropWhile is_ws s = []" by (simp add: list_all_iff)
  then show "js_trim s = []" by (simp add: js_trim_def trim_start_def trim_end_def del: dropWhile_eq_Nil_conv)
next
  assume *: "js_trim s = []"
  obtain v where v: "trim_start s = v" "\<forall>c \<in> set v. is_ws c"
    using trim_end_decomp [of "trim_start s"] * by (auto simp: js_trim_def)
  have "v = []"
    using v hd_dropWhile [of is_ws s] by (cases v) (auto simp: trim_start_def)
  with v(1) show "list_all is_ws s" by (simp add: trim_start_def list_all_iff)
qed

lemma tail_blank: "js_trim s = [] \<Longrightarrow> stream_tail f s = []"
  by (simp add: stream_tail_def data_prefix_def)

lemma stream_run_contents:
  "10 \<notin> set b \<Longrightarrow> ends_quietly (split_char 10 (b @ concat vs)) \<Longrightarrow>
     stream_run f vs b = text_contents f (b @ concat vs)"
proof (induction vs arbitrary: b)
  case Nil
  then show ?case by (simp add: text_contents_def split_char_free)
next
  case (Cons v vs)
  let ?ls = "butlast (split_char 10 (b @ v))" and ?b = "last (split_char 10 (b @ v))"
  have sp: "split_char 10 (b @ concat (v # vs)) = ?ls @ split_char 10 (?b @ concat vs)"
    using split_char_app [of 10 "b @ v" "concat vs"] by simp
  obtain d cs where ds: "stream_lines f ?ls = (d, cs)" by fastforce
  have q: "if d then list_all (\<lambda>x. js_trim x = []) (split_char 10 (?b @ concat vs))
      else ends_quietly (split_char 10 (?b @ concat vs))"
    using ends_quietly_append [of ?ls _ f] Cons.prems(2) ds unfolding sp by fastforce
  have run: "stream_run f (v # vs) b = cs @ (if d then stream_tail f ?b else stream_run f vs ?b)"
    by (simp add: stream_feed_def ds)
  have all: "text_contents f (b @ concat (v # vs)) = cs @ (if d then [] else text_contents f (?b @ concat vs))"
    by (simp add: text_contents_def sp butlast_append stream_lines_append ds split: prod.split del: concat.simps)
  show ?case
  proof (cases d)
    case True
    obtain w ws where w: "split_char 10 (?b @ concat vs) = w # ws" by (metis neq_Nil_conv split_char_nonempty)
    then have "\<exists>t. w = ?b @ t" using split_char_first [OF last_split_free, of 10 "b @ v" "concat vs"] by simp
    with q w True have "js_trim ?b = []" by (auto simp: trim_Nil_iff)
    with True run all show ?thesis by (simp add: tail_blank)
  next
    case False
    have "stream_run f vs ?b = text_contents f (?b @ concat vs)"
      by (rule Cons.IH) (use False q last_split_free in auto)
    with False run all show ?thesis by simp
  qed
qed

subsection \<open>The stream of an answer\<close>

text \<open>What the service sends: events, which carry the text of a JSON value, and comments that keep the
  connection open. The piece of the answer in a value is the string \<open>choices[0].delta.content\<close>; a value
  without it, like the one that brings the finish reason, has none, and so has a text that is no JSON.\<close>

datatype stream_item =
    Event jstr
  | Comment jstr

fun value_at :: "jstr list \<Rightarrow> json \<Rightarrow> json option" where
  "value_at [] v = Some v"
| "value_at (k # ks) (JObj m) = (case jm_get m k of None \<Rightarrow> None | Some v \<Rightarrow> value_at ks v)"
| "value_at (k # ks) (JArr vs) = (case vs of v # _ \<Rightarrow> if k = js ''0'' then value_at ks v else None | [] \<Rightarrow> None)"
| "value_at (k # ks) v = None"

definition content_path :: "jstr list" where
  "content_path = [js ''choices'', js ''0'', js ''delta'', js ''content'']"

definition event_content :: "jstr \<Rightarrow> json option" where
  "event_content j = (case json_parse j of None \<Rightarrow> None | Some v \<Rightarrow> value_at content_path v)"

fun item_row :: "stream_item \<Rightarrow> jstr" where
  "item_row (Event j) = data_prefix @ j"
| "item_row (Comment t) = 58 # t"

fun item_piece :: "stream_item \<Rightarrow> jstr" where
  "item_piece (Event j) = (case event_content j of Some (JStr t) \<Rightarrow> t | _ \<Rightarrow> [])"
| "item_piece (Comment t) = []"

text \<open>An event is one line, and its content is a string, \<open>null\<close> or missing.\<close>

fun item_ok :: "stream_item \<Rightarrow> bool" where
  "item_ok (Event j) = (j \<noteq> [] \<and> trimmed j \<and> 10 \<notin> set j \<and> j \<noteq> js ''[DONE]'' \<and>
     (case event_content j of Some (JStr t) \<Rightarrow> True | Some JNull \<Rightarrow> True | None \<Rightarrow> True | _ \<Rightarrow> False))"
| "item_ok (Comment t) = (10 \<notin> set t)"

definition event_stream :: "stream_item list \<Rightarrow> jstr" where
  "event_stream items = concat (map (\<lambda>i. item_row i @ [10, 10]) items) @ done_line @ [10, 10]"

lemma item_row_no_newline: "item_ok i \<Longrightarrow> 10 \<notin> set (item_row i)"
  by (cases i) (auto simp: data_prefix_def)

lemma value_at_content: "get_prop (js ''content'') (get_prop (js ''delta'') (first_item (get_prop (js ''choices'') (Some v)))) =
    value_at content_path v"
  by (cases v)
    (auto simp: content_path_def get_prop_def first_item_def split: option.split json.split list.split)

lemma event_row_content:
  assumes "item_ok (Event j)"
  shows "js_trim (item_row (Event j)) = item_row (Event j)" "item_row (Event j) \<noteq> done_line"
    "data_content f (item_row (Event j)) =
       (if item_piece (Event j) = [] then None else Some (item_piece (Event j)))"
proof -
  show "js_trim (item_row (Event j)) = item_row (Event j)"
    using assms by (intro js_trim_id) (auto simp: trimmed_def is_ws_def data_prefix_def)
  show "item_row (Event j) \<noteq> done_line"
    using assms by (simp add: data_prefix_def done_line_def)
  show "data_content f (item_row (Event j)) =
      (if item_piece (Event j) = [] then None else Some (item_piece (Event j)))"
  proof (cases "json_parse j")
    case None
    then show ?thesis by (simp add: data_content_def event_content_def data_prefix_def)
  next
    case (Some v)
    have "value_at content_path JNull = None" by (simp add: content_path_def)
    with Some show ?thesis using assms value_at_content [of v]
      by (cases "value_at content_path v"; cases "v = JNull")
        (auto simp: data_content_def event_content_def data_prefix_def delta_content_def or_value_def
          json_truthy_def split: json.splits)
  qed
qed

lemma own_entries_single [simp]: "own_entries [p] = [p]"
  by (simp add: own_entries_def)

lemma comment_row:
  shows "starts_with (js_trim (58 # t)) data_prefix = False" "js_trim (58 # t) \<noteq> done_line"
proof -
  have "hd (js_trim (58 # t)) = 58 \<and> js_trim (58 # t) \<noteq> []"
  proof -
    obtain v where "58 # t = trim_end (58 # t) @ v" "\<forall>c \<in> set v. is_ws c" using trim_end_decomp by blast
    moreover from this have "trim_end (58 # t) \<noteq> []" by (cases v) (auto simp: is_ws_def)
    ultimately show ?thesis by (simp add: js_trim_def trim_start_def is_ws_def) (metis hd_append2 list.sel(1))
  qed
  then show "starts_with (js_trim (58 # t)) data_prefix = False" "js_trim (58 # t) \<noteq> done_line"
    by (cases "js_trim (58 # t)"; simp add: data_prefix_def done_line_def)+
qed

lemma js_trim_Nil: "js_trim [] = []"
  by (simp add: trimmed_def)

lemma done_line_ne: "done_line \<noteq> []" "[] \<noteq> done_line"
  by (simp_all add: done_line_def)

lemma starts_event: "starts_with (item_row (Event j)) data_prefix" "item_row (Event j) \<noteq> []"
  by (simp_all add: data_prefix_def)

lemma lines_of_items:
  assumes "list_all item_ok items"
  shows "split_char 10 (concat (map (\<lambda>i. item_row i @ [10, 10]) items) @ w) =
    concat (map (\<lambda>i. [item_row i, []]) items) @ split_char 10 w"
  using assms by (induction items) (auto simp: split_char_append item_row_no_newline)

lemma contents_step:
  assumes "list_all item_ok items"
  shows "(case stream_lines f (concat (map (\<lambda>i. [item_row i, []]) items)) of (d, cs) \<Rightarrow>
        \<not> d \<and> concat cs = concat (map item_piece items)) \<and>
    ends_quietly (concat (map (\<lambda>i. [item_row i, []]) items) @ ls) = ends_quietly ls"
  using assms
proof (induction items)
  case (Cons i items)
  then show ?case
    by (cases i) (auto simp: Let_def event_row_content comment_row starts_event js_trim_Nil done_line_ne
        simp del: item_row.simps(1) split: prod.splits option.splits)
qed simp

lemma contents_of_items:
  assumes "list_all item_ok items"
  shows "fst (stream_lines f (concat (map (\<lambda>i. [item_row i, []]) items))) = False"
    "concat (snd (stream_lines f (concat (map (\<lambda>i. [item_row i, []]) items)))) = concat (map item_piece items)"
    "ends_quietly (concat (map (\<lambda>i. [item_row i, []]) items) @ ls) = ends_quietly ls"
  using contents_step [OF assms, of f ls] by (auto split: prod.splits)

lemma done_line_split: "split_char 10 (done_line @ [10, 10]) = [done_line, [], []]"
  by (simp add: done_line_def)

lemma done_line_lines: "stream_lines f [done_line, []] = (True, [])" "ends_quietly [done_line, [], []]"
proof -
  have "js_trim done_line = done_line" by (simp add: trimmed_def done_line_def is_ws_def)
  then show "stream_lines f [done_line, []] = (True, [])" "ends_quietly [done_line, [], []]"
    by (simp_all add: done_line_ne js_trim_Nil)
qed

lemma event_stream_quiet:
  assumes "list_all item_ok items"
  shows "ends_quietly (split_char 10 (event_stream items))"
  using contents_of_items(3) [OF assms, of "[done_line, [], []]"] done_line_lines(2)
    lines_of_items [OF assms, of "done_line @ [10, 10]"]
  by (simp add: event_stream_def done_line_split)

text \<open>However the stream is cut into chunks, the pieces are put together.\<close>

lemma stream_run_pieces:
  assumes "list_all item_ok items" "concat vs = event_stream items"
  shows "concat (stream_run f vs []) = concat (map item_piece items)"
proof -
  let ?ls = "concat (map (\<lambda>i. [item_row i, []]) items)"
  have sp: "split_char 10 (concat vs) = ?ls @ [done_line, [], []]"
    using lines_of_items [OF assms(1)] assms(2) by (simp add: event_stream_def done_line_split)
  have "ends_quietly (split_char 10 ([] @ concat vs))"
    using contents_of_items(3) [OF assms(1), of "[done_line, [], []]"] done_line_lines(2) sp by simp
  then have "stream_run f vs [] = text_contents f (concat vs)" using stream_run_contents [of "[]" vs f] by simp
  moreover have "butlast (split_char 10 (concat vs)) = ?ls @ [done_line, []]"
    by (simp add: sp butlast_append)
  moreover obtain cs where "stream_lines f ?ls = (False, cs)" "concat cs = concat (map item_piece items)"
    using contents_of_items(1,2) [OF assms(1), of f] by (cases "stream_lines f ?ls") auto
  ultimately show ?thesis
    using stream_lines_append [of f ?ls "[done_line, []]"]
    by (simp add: text_contents_def done_line_lines(1) del: stream_lines.simps)
qed

subsection \<open>The memory block\<close>

text \<open>The update the instructions ask for, and the two ways a block is written.\<close>

definition update_json :: "jstr list \<Rightarrow> (jstr \<times> jstr) list \<Rightarrow> jstr list \<Rightarrow> json" where
  "update_json topics prefs facts = JObj
     [(js ''topics'', JArr (map JStr topics)),
      (js ''preferences'', JObj (map (\<lambda>(k, v). (k, JStr v)) prefs)),
      (js ''key_facts'', JArr (map JStr facts))]"

definition memory_block :: "bool \<Rightarrow> jstr \<Rightarrow> jstr" where
  "memory_block fenced j = (if fenced then js ''```json'' @ [10] @ j @ [10] @ js ''```'' else [10] @ j @ [10])"

lemma own_entries_plain: "\<forall>p \<in> set m. \<not> is_array_index (fst p) \<Longrightarrow> own_entries m = m"
  by (simp add: own_entries_def)

lemma insort_key_comp: "insort_key g (h x) (map h ys) = map h (insort_key (\<lambda>y. g (h y)) x ys)"
  by (induction ys) auto

lemma own_entries_map:
  assumes "\<And>p. fst (h p) = fst p"
  shows "own_entries (map h m) = map h (own_entries m)"
proof -
  have "foldr (insort_key (\<lambda>p. index_value (fst p))) (map h n) [] =
      map h (foldr (insort_key (\<lambda>p. index_value (fst p))) n [])" for n
    by (induction n) (simp_all add: insort_key_comp assms)
  then show ?thesis by (simp add: own_entries_def sort_key_def filter_map comp_def assms)
qed

lemma update_json_ok:
  assumes "\<forall>t \<in> set (topics @ facts). units_ok t" "\<forall>(k, v) \<in> set prefs. units_ok k \<and> units_ok v"
    and "distinct (map fst prefs)" "own_entries prefs = prefs"
  shows "json_ok f (update_json topics prefs facts)"
proof -
  let ?m = "map (\<lambda>(k, v). (k, JStr v)) prefs"
  have 1: "own_entries ?m = map (\<lambda>(k, v). (k, JStr v)) (own_entries prefs)"
    by (rule own_entries_map) (simp add: case_prod_unfold)
  have 2: "map fst ?m = map fst prefs" by (simp add: case_prod_unfold)
  have "own_entries (case update_json topics prefs facts of JObj m \<Rightarrow> m) = (case update_json topics prefs facts of JObj m \<Rightarrow> m)"
    by (simp add: update_json_def) (rule own_entries_plain, simp add: is_array_index_def is_digit_def)
  with 1 2 assms show ?thesis
    by (auto simp: update_json_def list_all_iff units_ok_def case_prod_unfold simp del: map_map)
qed

lemma braces_trimmed: "trimmed (123 # w @ [125])"
  by (simp add: trimmed_def is_ws_def)

lemma trim_newlines: "trimmed j \<Longrightarrow> j \<noteq> [] \<Longrightarrow> js_trim ([10] @ j @ [10]) = j"
proof -
  assume "trimmed j" "j \<noteq> []"
  then have e: "\<not> is_ws (hd j)" "\<not> is_ws (last j)" by (auto simp: trimmed_def)
  then have "trim_start ([10] @ j @ [10]) = j @ [10]"
    using \<open>j \<noteq> []\<close> by (cases j) (auto simp: trim_start_def is_ws_def)
  moreover have "trim_end (j @ [10]) = j"
    using e(2) \<open>j \<noteq> []\<close> by (cases j rule: rev_cases) (auto simp: trim_end_def is_ws_def)
  ultimately show ?thesis by (simp add: js_trim_def)
qed

text \<open>A block is read with or without its fence.\<close>

lemma memory_json_block:
  assumes "j = 123 # w @ [125]"
  shows "memory_json (memory_block fenced j) = j" "memory_block fenced j \<noteq> []"
proof -
  have t: "js_trim ([10] @ j @ [10]) = j"
    unfolding assms by (rule trim_newlines [OF braces_trimmed]) simp
  show "memory_json (memory_block fenced j) = j"
  proof (cases fenced)
    case True
    let ?b = "memory_block True j"
    have "trimmed ?b" by (simp add: memory_block_def trimmed_def is_ws_def)
    moreover have "ends_with (drop 7 ?b) (js ''```'')"
      unfolding ends_with_iff by (rule exI [of _ "[10] @ j @ [10]"]) (simp add: memory_block_def)
    moreover have "take (length (drop 7 ?b) - 3) (drop 7 ?b) = [10] @ j @ [10]" by (simp add: memory_block_def)
    moreover have "starts_with ?b (js ''```json'')" by (simp add: memory_block_def)
    ultimately show ?thesis using True t by (simp add: memory_json_def Let_def)
  next
    case False
    have "\<not> starts_with j (js ''```json'')" "\<not> ends_with j (js ''```'')" "js_trim j = j"
      using assms braces_trimmed [of w] by (auto simp: ends_with_def)
    with False t show ?thesis by (simp add: memory_json_def memory_block_def Let_def del: js_Cons)
  qed
  show "memory_block fenced j \<noteq> []" by (simp add: memory_block_def)
qed

text \<open>What an update adds: the strings not known yet, and the preferences over the old ones.\<close>

lemma merge_update:
  "merge_memory f (update_json topics prefs facts) mem = Some
    \<lparr>cm_topics = unique_values f (cm_topics mem @ map JStr topics),
     cm_preferences = fold (\<lambda>(k, v). jm_set k v)
       (own_entries (cm_preferences mem) @ map (\<lambda>(k, v). (k, JStr v)) (own_entries prefs)) [],
     cm_keyFacts = unique_values f (cm_keyFacts mem @ map JStr facts)\<rparr>"
proof -
  have "own_entries (map (\<lambda>(k, v). (k, JStr v)) prefs) = map (\<lambda>(k, v). (k, JStr v)) (own_entries prefs)"
    using own_entries_map [of "\<lambda>(k, v). (k, JStr v)" prefs] by (simp add: case_prod_unfold)
  then show ?thesis
    by (simp add: merge_memory_def update_json_def get_prop_def spread_array_def spread_object_def or_value_def
        json_truthy_def)
qed

text \<open>The compact text of an update, the one \<open>JSON.stringify\<close> gives, reads as the update.\<close>

lemma compact_update:
  assumes "\<forall>t \<in> set (topics @ facts). units_ok t" "\<forall>(k, v) \<in> set prefs. units_ok k \<and> units_ok v"
    and "distinct (map fst prefs)" "own_entries prefs = prefs"
  shows "json_parse (json_stringify f (update_json topics prefs facts)) = Some (update_json topics prefs facts)"
  by (rule parse_stringify) (rule update_json_ok [OF assms])

text \<open>The lines around the value bring no closing tag.\<close>

lemma split_at_unit:
  "u @ d # v = a @ p @ b \<Longrightarrow> d \<notin> set p \<Longrightarrow> p \<noteq> [] \<Longrightarrow> js_includes u p \<or> js_includes v p"
proof -
  assume e: "u @ d # v = a @ p @ b" and d: "d \<notin> set p" and p: "p \<noteq> []"
  then obtain us where "u = a @ us \<and> us @ d # v = p @ b \<or> u @ us = a \<and> d # v = us @ p @ b"
    by (auto simp: append_eq_append_conv2)
  then show ?thesis
  proof
    assume 1: "u = a @ us \<and> us @ d # v = p @ b"
    then obtain vs where "us = p @ vs \<and> vs @ d # v = b \<or> us @ vs = p \<and> d # v = vs @ b"
      by (auto simp: append_eq_append_conv2)
    then show ?thesis
    proof
      assume "us = p @ vs \<and> vs @ d # v = b"
      with 1 show ?thesis by (auto simp: js_includes_iff)
    next
      assume 2: "us @ vs = p \<and> d # v = vs @ b"
      show ?thesis
      proof (cases vs)
        case Nil
        with 1 2 have "u = a @ p @ []" by simp
        then show ?thesis unfolding js_includes_iff by blast
      next
        case (Cons x xs)
        with 2 have "d \<in> set p" by auto
        with d show ?thesis by simp
      qed
    qed
  next
    assume 1: "u @ us = a \<and> d # v = us @ p @ b"
    show ?thesis
    proof (cases us)
      case Nil
      with 1 p d show ?thesis by (cases p) auto
    next
      case (Cons x xs)
      with 1 have "v = xs @ p @ b" by simp
      then show ?thesis by (auto simp: js_includes_iff)
    qed
  qed
qed

lemma block_untagged:
  assumes "\<not> js_includes j memory_end_tag"
  shows "\<not> js_includes (memory_block fenced j) memory_end_tag"
proof
  assume i: "js_includes (memory_block fenced j) memory_end_tag"
  have n: "10 \<notin> set memory_end_tag" "memory_end_tag \<noteq> []" "60 \<in> set memory_end_tag" by (simp_all add: memory_end_tag_def)
  have none: "\<not> js_includes w memory_end_tag" if "60 \<notin> set w" for w
    using that n(3) by (auto simp: js_includes_iff)
  have join: "\<not> js_includes (u @ 10 # v) memory_end_tag"
    if "\<not> js_includes u memory_end_tag" "\<not> js_includes v memory_end_tag" for u v
    using that split_at_unit [OF _ n(1,2)] unfolding js_includes_iff [of "u @ 10 # v"] by blast
  have "\<not> js_includes (u @ 10 # j @ 10 # v) memory_end_tag" if "60 \<notin> set u" "60 \<notin> set v" for u v
    by (intro join none assms that)
  from this [of "js ''```json''" "js ''```''"] this [of "[]" "[]"] i show False
    by (cases fenced) (simp_all add: memory_block_def)
qed

lemma remember_update:
  assumes "j = 123 # w @ [125]" "json_parse j = Some v"
  shows "remember f (memory_block fenced j) mem = merge_memory f v mem"
  using memory_json_block [OF assms(1)] assms(2) by (simp add: remember_def)

subsection \<open>Properties\<close>

text \<open>C20: What the loop reads out of an event stream does not depend on how the network cuts the
  text into chunks, lines split between two reads included, as long as only blank lines follow
  the line [DONE].
\<close>
theorem stream_chunking:
  assumes "ends_quietly (split_char 10 (concat vs))" "concat ws = concat vs"
  shows "stream_run f vs [] = stream_run f ws []"
  using stream_run_contents [of "[]" vs f] stream_run_contents [of "[]" ws f] assms by simp

definition sample_events :: "stream_item list" where
  "sample_events = [Comment (js ''wait''), Event (js ''{\"id\":7,\"choices\":[{\"delta\":{\"content\":\"Hello \"}}]}'')]"

definition sample_stream :: jstr where
  "sample_stream = event_stream sample_events"

lemma sample_events_ok: "list_all item_ok sample_events" "concat (map item_piece sample_events) = js ''Hello ''"
  by code_simp+

theorem stream_chunking_witness:
  "stream_run id [sample_stream] [] = stream_run id [take 40 sample_stream, drop 40 sample_stream] [] \<and>
   sample_stream \<noteq> []"
proof -
  have "ends_quietly (split_char 10 (concat [sample_stream]))"
    using event_stream_quiet [OF sample_events_ok(1)] unfolding sample_stream_def concat.simps append_Nil2 by blast
  moreover have "concat [take 40 sample_stream, drop 40 sample_stream] = concat [sample_stream]"
    by (simp only: concat.simps append_take_drop_id append_Nil2)
  moreover have "sample_stream \<noteq> []" by (simp add: sample_stream_def event_stream_def done_line_def)
  ultimately show ?thesis using stream_chunking by blast
qed

text \<open>C19: An answer that ends with the memory block the instructions ask for is shown without the block, and the
  block is read back: its topics and facts join the known ones without repetition, its preferences replace
  older values of their keys, in the order in which the language enumerates properties. The block is the
  opening tag, a JSON object between braces on lines of its own, with or without a \<open>```json\<close> fence around it,
  and the closing tag; the object may be laid out in any way that \<open>JSON.parse\<close> reads as the update, like
  that of the instructions (the witness) or that of \<open>JSON.stringify\<close>. The text before the block does not
  contain the opening tag, and no string of the block the closing one; what follows the block is dropped.
\<close>
theorem memory_roundtrip:
  assumes "\<not> js_includes prose memory_tag"
    and "j = 123 # w @ [125]" "json_parse j = Some (update_json topics prefs facts)"
    and "\<not> js_includes j memory_end_tag"
    and "content = parseStreamContent (prose @ memory_tag @ memory_block fenced j @ memory_end_tag @ rest)"
  shows "sc_cleanText content = js_trim prose \<and>
    remember f (sc_memoryBlock content) mem = Some
      \<lparr>cm_topics = unique_values f (cm_topics mem @ map JStr topics),
       cm_preferences = fold (\<lambda>(k, v). jm_set k v)
         (own_entries (cm_preferences mem) @ map (\<lambda>(k, v). (k, JStr v)) (own_entries prefs)) [],
       cm_keyFacts = unique_values f (cm_keyFacts mem @ map JStr facts)\<rparr>"
  using parse_block [OF assms(1) block_untagged [OF assms(4)], of fenced rest]
    remember_update [OF assms(2,3), of f fenced mem] merge_update [of f topics prefs facts mem] assms(5) by simp

text \<open>The block in the layout of the instructions.\<close>

definition sample_update :: jstr where
  "sample_update = 123 # ([10] @ js ''  \"topics\": [\"topic1\", \"topic2\"],'' @ [10] @
     js ''  \"preferences\": {\"key\": \"value\"},'' @ [10] @
     js ''  \"key_facts\": [\"fact 1\", \"fact 2\"]'' @ [10]) @ [125]"

lemma sample_update_parse: "json_parse sample_update =
    Some (update_json [js ''topic1'', js ''topic2''] [(js ''key'', js ''value'')] [js ''fact 1'', js ''fact 2''])"
  by code_simp

theorem memory_roundtrip_witness:
  "remember id (sc_memoryBlock (parseStreamContent
       (js ''Yes. '' @ memory_tag @ memory_block False sample_update @ memory_end_tag @ []))) empty_memory =
     Some \<lparr>cm_topics = [JStr (js ''topic1''), JStr (js ''topic2'')],
       cm_preferences = [(js ''key'', JStr (js ''value''))],
       cm_keyFacts = [JStr (js ''fact 1''), JStr (js ''fact 2'')]\<rparr>"
proof -
  have "\<not> js_includes (js ''Yes. '') memory_tag" by (simp add: memory_tag_def)
  moreover have "\<not> js_includes sample_update memory_end_tag" by code_simp
  ultimately show ?thesis
    using memory_roundtrip [OF _ sample_update_def sample_update_parse _ refl, where prose = "js ''Yes. ''" and f = id and fenced = False
        and rest = "[]" and mem = empty_memory]
    by (simp add: empty_memory_def unique_values_def add_value_def same_value_def own_entries_def)
qed

end
