(* ===== verification/ChatBoxInv.thy ===== *)
theory ChatBoxInv
  imports ChatBox ChatStreamFacts
begin

text \<open>
  The invariant of the chat machine: a request that was not aborted is the one of the current
  controller, and without a request in flight nothing is loading or streaming.
\<close>

definition request_ok :: "nat option \<Rightarrow> nat \<Rightarrow> request \<Rightarrow> bool" where
  "request_ok controller n q \<longleftrightarrow>
     rq_id q < n \<and> (\<not> rq_aborted q \<longrightarrow> controller = Some (rq_id q)) \<and>
     (rq_phase q = Fetching \<longrightarrow> \<not> rq_hasAdded q \<and> rq_buffer q = []) \<and> 10 \<notin> set (rq_buffer q)"

definition chat_inv :: "chat \<Rightarrow> bool" where
  "chat_inv st \<longleftrightarrow>
     cb_messages st \<noteq> [] \<and>
     distinct (map rq_id (cb_requests st)) \<and>
     (\<forall>q \<in> set (cb_requests st). request_ok (cb_abortController st) (cb_next st) q) \<and>
     (cb_requests st = [] \<longrightarrow> \<not> cb_isLoading st \<and> \<not> cb_isStreaming st) \<and>
     (\<forall>d c. cb_timer st = Some (d, c) \<longrightarrow> d = fst (cb_deps st)) \<and>
     length (cb_sent st) \<le> cb_next st"

definition chat_grows :: "chat \<Rightarrow> chat \<Rightarrow> bool" where
  "chat_grows s t \<longleftrightarrow> cb_next s \<le> cb_next t \<and> (\<exists>bs. cb_sent t = cb_sent s @ bs)"

text \<open>The fields the requests, the timers and the bodies are in.\<close>

definition control :: "chat \<Rightarrow> request list \<times> nat option \<times> nat \<times> (jstr \<times> jstr) option \<times> (jstr \<times> bool) \<times> chat_body list" where
  "control st = (cb_requests st, cb_abortController st, cb_next st, cb_timer st, cb_deps st, cb_sent st)"

lemma control_simps [simp]:
  "control (st\<lparr>cb_messages := m\<rparr>) = control st"
  "control (st\<lparr>cb_input := s\<rparr>) = control st"
  "control (st\<lparr>cb_isLoading := b\<rparr>) = control st"
  "control (st\<lparr>cb_displayedText := s\<rparr>) = control st"
  "control (st\<lparr>cb_isStreaming := b\<rparr>) = control st"
  "control (st\<lparr>cb_streamingText := s\<rparr>) = control st"
  "control (st\<lparr>cb_memory := mm\<rparr>) = control st"
  "control (st\<lparr>cb_crashed := b\<rparr>) = control st"
  by (simp_all add: control_def)

lemma control_say [simp]: "control (say r c s st) = control st"
  by (simp add: say_def)

lemma control_set_last [simp]: "control (set_last c st) = control st"
  by (simp add: set_last_def)

lemma rewrite_last_Nil [simp]: "rewrite_last f ms = [] \<longleftrightarrow> ms = []"
  by (auto simp: rewrite_last_def)

lemma say_messages [simp]: "cb_messages (say r c s st) \<noteq> []"
  by (simp add: say_def)

lemma set_last_messages [simp]: "cb_messages (set_last c st) = [] \<longleftrightarrow> cb_messages st = []"
  by (simp add: set_last_def)

text \<open>An update of the other fields keeps the invariant as long as it starts no loading.\<close>

lemma inv_control:
  assumes "chat_inv st" "control st' = control st" "cb_messages st' \<noteq> []"
    and "cb_requests st = [] \<Longrightarrow> \<not> cb_isLoading st' \<and> \<not> cb_isStreaming st'"
  shows "chat_inv st' \<and> chat_grows st st'"
  using assms by (auto simp: chat_inv_def chat_grows_def control_def)

lemma grows_refl: "chat_grows s s"
  by (simp add: chat_grows_def)

lemma grows_trans: "chat_grows s t \<Longrightarrow> chat_grows t u \<Longrightarrow> chat_grows s u"
  by (auto simp: chat_grows_def)

lemma inv_finish: "chat_inv st \<Longrightarrow> chat_inv (finish i st) \<and> chat_grows st (finish i st)"
  by (auto simp: chat_inv_def chat_grows_def finish_def distinct_map_filter)

text \<open>The controller names no request that is not aborted once it has been told to abort.\<close>

lemma abort_requests:
  assumes "chat_inv st"
  shows "\<forall>q \<in> set (cb_requests (abort_current st)). rq_aborted q"
    "map rq_id (cb_requests (abort_current st)) = map rq_id (cb_requests st)"
    "\<forall>q \<in> set (cb_requests (abort_current st)). \<exists>p \<in> set (cb_requests st). q = p \<or> q = p\<lparr>rq_aborted := True\<rparr>"
  using assms by (auto simp: chat_inv_def request_ok_def abort_current_def comp_def split: option.splits)

lemma abort_fields [simp]:
  "cb_messages (abort_current st) = cb_messages st" "cb_next (abort_current st) = cb_next st"
  "cb_timer (abort_current st) = cb_timer st" "cb_deps (abort_current st) = cb_deps st"
  "cb_sent (abort_current st) = cb_sent st" "cb_isLoading (abort_current st) = cb_isLoading st"
  "cb_isStreaming (abort_current st) = cb_isStreaming st"
  "cb_displayedText (abort_current st) = cb_displayedText st"
  "cb_streamingText (abort_current st) = cb_streamingText st" "cb_memory (abort_current st) = cb_memory st"
  "cb_crashed (abort_current st) = cb_crashed st" "cb_abortController (abort_current st) = cb_abortController st"
  by (simp_all add: abort_current_def split: option.split)

lemma request_ok_aborted:
  assumes "request_ok a n p" "q = p \<or> q = p\<lparr>rq_aborted := True\<rparr>" "rq_aborted q" "n \<le> m"
  shows "request_ok b m q"
  using assms by (auto simp: request_ok_def)

lemma abort_all_ok:
  assumes "chat_inv st" "cb_next st \<le> m" "q \<in> set (cb_requests (abort_current st))"
  shows "request_ok b m q"
proof -
  obtain p where "p \<in> set (cb_requests st)" "q = p \<or> q = p\<lparr>rq_aborted := True\<rparr>"
    using abort_requests(3) [OF assms(1)] assms(3) by blast
  moreover from this(1) have "request_ok (cb_abortController st) (cb_next st) p"
    using assms(1) by (simp add: chat_inv_def)
  moreover have "rq_aborted q" using abort_requests(1) [OF assms(1)] assms(3) by blast
  ultimately show ?thesis using request_ok_aborted assms(2) by blast
qed

lemma abort_Nil [simp]: "cb_requests (abort_current st) = [] \<longleftrightarrow> cb_requests st = []"
  by (simp add: abort_current_def split: option.split)

lemma inv_stop: "chat_inv st \<Longrightarrow> chat_inv (handleStopStreaming st) \<and> chat_grows st (handleStopStreaming st)"
  using abort_requests(2) [of st] abort_all_ok [of st "cb_next st"]
  by (auto simp: handleStopStreaming_def chat_inv_def chat_grows_def)

lemma find_request_Some:
  "find_request i st = Some q \<Longrightarrow> q \<in> set (cb_requests st) \<and> rq_id q = i"
  by (auto simp: find_request_def find_Some_iff)

lemma inv_put:
  assumes "chat_inv st" "q \<in> set (cb_requests st)" "rq_id q' = rq_id q"
    and "request_ok (cb_abortController st) (cb_next st) q'"
  shows "chat_inv (put_request q' st) \<and> chat_grows st (put_request q' st)"
proof -
  have "map rq_id (cb_requests (put_request q' st)) = map rq_id (cb_requests st)"
    using assms(3) by (simp add: put_request_def)
  then show ?thesis
    using assms unfolding chat_inv_def chat_grows_def by (auto simp: put_request_def simp del: map_map)
qed

subsection \<open>Adding content\<close>

lemma add_content_control [simp]: "control (snd (add_content c p)) = control (snd p)"
  by (simp add: add_content_def Let_def split: prod.split)

lemma add_contents_control [simp]: "control (snd (fold add_content cs p)) = control (snd p)"
  by (induction cs arbitrary: p) auto

lemma add_contents_request:
  "fst (fold add_content cs p) = (fst p)\<lparr>rq_hasAdded := rq_hasAdded (fst p) \<or> cs \<noteq> []\<rparr>"
  by (induction cs arbitrary: p) (auto simp: add_content_def Let_def split: prod.splits)

text \<open>What is not touched, and what can only become false.\<close>

lemma add_contents_state:
  "cb_messages (snd p) \<noteq> [] \<Longrightarrow> cb_messages (snd (fold add_content cs p)) \<noteq> []"
  "cb_isStreaming (snd (fold add_content cs p)) = cb_isStreaming (snd p)"
  "\<not> cb_isLoading (snd p) \<Longrightarrow> \<not> cb_isLoading (snd (fold add_content cs p))"
  "cb_streamingText (snd (fold add_content cs p)) = cb_streamingText (snd p) @ concat cs"
  "cb_displayedText (snd (fold add_content cs p)) = cb_displayedText (snd p)"
  "cb_memory (snd (fold add_content cs p)) = cb_memory (snd p)"
  "cb_crashed (snd (fold add_content cs p)) = cb_crashed (snd p)"
  by (induction cs arbitrary: p) (auto simp: add_content_def Let_def say_def split: prod.splits)

lemma add_contents_messages:
  "cb_messages (snd (fold add_content cs (q, st))) =
     (if cs = [] \<or> rq_hasAdded q then cb_messages st
      else cb_messages st @ [\<lparr>ms_role = Assistant, ms_content = [], ms_sources = Some (chunk_sources (rq_topResults q))\<rparr>])"
proof (induction cs arbitrary: q st)
  case (Cons c cs)
  obtain q' st' where p: "add_content c (q, st) = (q', st')" by fastforce
  then have "rq_hasAdded q'" "cb_messages st' = (if rq_hasAdded q then cb_messages st
      else cb_messages st @ [\<lparr>ms_role = Assistant, ms_content = [], ms_sources = Some (chunk_sources (rq_topResults q))\<rparr>])"
    by (auto simp: add_content_def Let_def say_def)
  with p Cons [of q' st'] show ?case by simp
qed simp

lemma inv_add:
  assumes "chat_inv st" shows "chat_inv (snd (fold add_content cs (q, st)))"
proof -
  have "chat_inv (snd (fold add_content cs (q, st))) \<and> chat_grows st (snd (fold add_content cs (q, st)))"
    by (rule inv_control [OF assms]) (use assms add_contents_state [where p = "(q, st)" and cs = cs] in \<open>auto simp: chat_inv_def\<close>)
  then show ?thesis by simp
qed

subsection \<open>Every event keeps the invariant\<close>

abbreviation kept :: "chat \<Rightarrow> chat \<Rightarrow> bool" where
  "kept st st' \<equiv> chat_inv st' \<and> chat_grows st st'"

lemma kept_trans: "kept s t \<Longrightarrow> kept t u \<Longrightarrow> kept s u"
  using grows_trans by blast

lemma busy: "chat_inv st \<Longrightarrow> find_request i st = Some q \<Longrightarrow> cb_requests st \<noteq> []"
  using find_request_Some by fastforce

lemma kept_failed:
  assumes "chat_inv st" "find_request i st = Some q"
  shows "kept st (failed j m st)"
proof -
  have "kept st (say Assistant w None st)" for w
    by (rule inv_control) (use assms busy in auto)
  then show ?thesis unfolding failed_def using inv_finish kept_trans by blast
qed

lemma kept_interrupted:
  assumes "chat_inv st" "find_request i st = Some q"
  shows "kept st (interrupted j st)"
proof -
  have "kept st (st\<lparr>cb_messages := rewrite_last f (cb_messages st)\<rparr>)" for f
    by (rule inv_control) (use assms busy [OF assms] in \<open>auto simp: chat_inv_def\<close>)
  then show ?thesis unfolding interrupted_def using inv_finish kept_trans by blast
qed

lemma kept_send: "chat_inv st \<Longrightarrow> kept st (handleSendMessage env st)"
proof -
  assume i: "chat_inv st"
  have "cb_next st \<notin> set (map rq_id (cb_requests st))" using i by (auto simp: chat_inv_def request_ok_def)
  then have "cb_next st \<notin> set (map rq_id (cb_requests (abort_current st)))"
    by (simp only: abort_requests(2) [OF i] not_False_eq_True)
  then have 0: "cb_next st \<notin> rq_id ` set (cb_requests (abort_current st))" by simp
  have 1: "distinct (map rq_id (cb_requests (abort_current st)))" "length (cb_sent st) \<le> Suc (cb_next st)"
    "\<forall>d c. cb_timer st = Some (d, c) \<longrightarrow> d = fst (cb_deps st)"
    using i abort_requests(2) [OF i] by (auto simp: chat_inv_def)
  have 2: "request_ok b m q" if "q \<in> set (cb_requests (abort_current st))" "cb_next st \<le> m" for b m q
    using abort_all_ok [OF i that(2,1)] .
  show ?thesis
    using 0 1 2 i unfolding handleSendMessage_def Let_def chat_inv_def chat_grows_def
    by (auto simp: say_def request_ok_def)
qed

lemma kept_responded:
  assumes "chat_inv st" shows "kept st (responded i ok status t b st)"
proof (cases "find_request i st")
  case (Some q)
  let ?st = "st\<lparr>cb_isStreaming := True, cb_streamingText := [], cb_displayedText := []\<rparr>"
  have k: "kept st ?st"
    by (rule inv_control) (use assms busy [OF assms Some] in \<open>auto simp: chat_inv_def\<close>)
  have q: "q \<in> set (cb_requests st)" "rq_id q = i" using find_request_Some [OF Some] by auto
  then have "request_ok (cb_abortController st) (cb_next st) (q\<lparr>rq_phase := Reading\<rparr>)"
    using assms by (auto simp: chat_inv_def request_ok_def)
  with k q have "kept ?st (put_request (q\<lparr>rq_phase := Reading\<rparr>) ?st)"
    by (intro inv_put [of _ q]) auto
  with k have "kept st (put_request (q\<lparr>rq_phase := Reading\<rparr>) ?st)" using kept_trans by blast
  moreover have "kept st (finish i ?st)" using k inv_finish kept_trans by blast
  moreover have "kept st (failed i m st)" for m using kept_failed [OF assms Some] .
  ultimately show ?thesis using assms grows_refl Some by (simp add: responded_def Let_def)
qed (use assms grows_refl in \<open>simp add: responded_def\<close>)

lemma kept_ended:
  assumes i: "chat_inv st" and b: "cb_requests st \<noteq> []"
  shows "kept st (stream_ended f q st)"
proof -
  obtain q' st' where p: "fold add_content (stream_tail f (rq_buffer q)) (q, st) = (q', st')" by fastforce
  then have c: "control st' = control st" "cb_messages st' \<noteq> []" "cb_isStreaming st' = cb_isStreaming st"
    using add_contents_control [of "stream_tail f (rq_buffer q)" "(q, st)"] i
      add_contents_state [where p = "(q, st)" and cs = "stream_tail f (rq_buffer q)"]
    by (auto simp: chat_inv_def)
  have "\<exists>st2. stream_ended f q st = finish (rq_id q') st2 \<and> control st2 = control st \<and> cb_messages st2 \<noteq> []"
    unfolding stream_ended_def p Let_def prod.case
    by (intro exI conjI, rule refl) (simp_all add: c split: option.split)
  then obtain st2 where e: "stream_ended f q st = finish (rq_id q') st2" "control st2 = control st"
    "cb_messages st2 \<noteq> []" by blast
  have "kept st st2" by (rule inv_control) (use i b e in auto)
  then show ?thesis unfolding e(1) using inv_finish kept_trans by blast
qed

lemma feed_buffer: "10 \<notin> set b \<Longrightarrow> stream_feed f v d b = (b', e, cs) \<Longrightarrow> 10 \<notin> set b'"
  by (cases v) (auto simp: stream_feed_def Let_def last_split_free split: prod.splits)

lemma kept_chunk:
  assumes i: "chat_inv st" shows "kept st (chunk_read f i v d st)"
proof (cases "find_request i st")
  case (Some q)
  have q: "q \<in> set (cb_requests st)" "rq_id q = i" using find_request_Some [OF Some] by auto
  then have ok: "request_ok (cb_abortController st) (cb_next st) q" using i by (auto simp: chat_inv_def)
  obtain b e cs where fe: "stream_feed f v d (rq_buffer q) = (b, e, cs)" by (metis prod_cases3)
  obtain q' st' where p: "fold add_content cs (q\<lparr>rq_buffer := b\<rparr>, st) = (q', st')" by fastforce
  have q': "q' = q\<lparr>rq_buffer := b, rq_hasAdded := rq_hasAdded q \<or> cs \<noteq> []\<rparr>"
    using add_contents_request [of cs "(q\<lparr>rq_buffer := b\<rparr>, st)"] p by simp
  have c: "control st' = control st" using add_contents_control [of cs "(q\<lparr>rq_buffer := b\<rparr>, st)"] p by simp
  have "kept st st'"
    using inv_add [OF i, of cs "q\<lparr>rq_buffer := b\<rparr>"] p c by (simp add: chat_grows_def control_def)
  moreover have "kept st' (if e then stream_ended f q' st' else put_request q' st')" if "rq_phase q = Reading"
  proof (cases e)
    case True
    have "cb_requests st' \<noteq> []" using c busy [OF i Some] by (simp add: control_def)
    then show ?thesis using kept_ended \<open>kept st st'\<close> True by simp
  next
    case False
    have "10 \<notin> set b" using feed_buffer [OF _ fe] ok by (simp add: request_ok_def)
    with that ok c have "request_ok (cb_abortController st') (cb_next st') q'"
      by (simp add: q' request_ok_def control_def)
    moreover have "q \<in> set (cb_requests st')" using q c by (simp add: control_def)
    ultimately show ?thesis using inv_put [of st' q q'] \<open>kept st st'\<close> False q' by simp
  qed
  ultimately show ?thesis
    using i grows_refl grows_trans [of st st'] Some fe p by (cases "rq_phase q") (auto simp: chunk_read_def)
qed (use i grows_refl in \<open>simp add: chunk_read_def\<close>)

lemma kept_timer: "chat_inv st \<Longrightarrow> kept st (timer_fired st)"
  by (auto simp: timer_fired_def chat_inv_def chat_grows_def set_last_def Let_def split: option.split)

lemma kept_effects: "chat_inv st \<Longrightarrow> kept st (effects_run st)"
  by (auto simp: effects_run_def chat_inv_def chat_grows_def Let_def)

lemma kept_request_failed: "chat_inv st \<Longrightarrow> kept st (request_failed i m st)"
  using kept_failed grows_refl by (auto simp: request_failed_def split: option.split)

lemma kept_abort_delivered: "chat_inv st \<Longrightarrow> kept st (abort_delivered i st)"
  using kept_interrupted grows_refl by (auto simp: abort_delivered_def split: option.split)

lemma kept_fields:
  "chat_inv st \<Longrightarrow> kept st (st\<lparr>cb_input := s\<rparr>)" "chat_inv st \<Longrightarrow> kept st (handleClear st)"
  by (auto simp: handleClear_def chat_inv_def chat_grows_def)

lemma kept_handle: "chat_inv st \<Longrightarrow> kept st (chat_handle env e st)"
  by (cases e) (simp_all add: kept_send inv_stop kept_responded kept_chunk kept_timer kept_effects
      kept_request_failed kept_abort_delivered kept_fields handleSuggestionClick_def grows_refl)

lemma kept_step: "chat_inv st \<Longrightarrow> kept st (chat_step env e st)"
  using kept_handle grows_refl by (simp add: chat_step_def)

lemma chat_inv_init: "chat_inv chat_init"
  by (simp add: chat_inv_def chat_init_def)

interpretation chat: event_machine "chat_step env" chat_inv chat_grows for env
proof unfold_locales
  show "chat_inv st \<Longrightarrow> chat_inv (chat_step env e st)" for st e using kept_step by blast
  show "chat_grows s s" for s by (rule grows_refl)
  show "chat_grows s t \<Longrightarrow> chat_grows t u \<Longrightarrow> chat_grows s u" for s t u by (rule grows_trans)
  show "chat_inv st \<Longrightarrow> chat_grows st (chat_step env e st)" for st e using kept_step by blast
qed

lemma run_inv: "chat_inv (chat_run env es chat_init)"
  unfolding chat_run_def by (rule chat.inv_fold) (rule chat_inv_init)

end
