(* ===== verification/ChatSearchFacts.thy ===== *)
theory ChatSearchFacts
  imports ChatSearch ChatStreamFacts
begin

text \<open>
  What the search of the chat assistant finds: exactly the chunks that contain the query or one
  of its terms, by falling score; nothing for a greeting.
\<close>

definition no_upper :: "jstr \<Rightarrow> bool" where
  "no_upper s \<longleftrightarrow> list_all (\<lambda>c. \<not> is_upper c) s"

lemma upper_unit_inj: "\<not> is_upper c \<Longrightarrow> \<not> is_upper d \<Longrightarrow> upper_unit c = upper_unit d \<Longrightarrow> c = d"
  by (auto simp: upper_unit_def is_upper_def is_lower_def split: if_splits)

lemma map_upper_inj: "no_upper u \<Longrightarrow> no_upper v \<Longrightarrow> map upper_unit u = map upper_unit v \<Longrightarrow> u = v"
proof (induction u arbitrary: v)
  case (Cons c u)
  then show ?case by (cases v) (auto simp: no_upper_def dest: upper_unit_inj)
qed simp

lemma no_upper_infix: "no_upper (u @ w @ v) \<Longrightarrow> no_upper w"
  by (simp add: no_upper_def)

lemma consumes_lit_i: "consumes (rlit_i t) w \<Longrightarrow> map upper_unit w = map upper_unit t"
  by (induction t arbitrary: w) (force simp: rlit_i_def elim: consumes_elims)+

lemma rx_search_splits: "rx_search r p s \<noteq> None \<Longrightarrow> \<exists>u v. s = u @ v \<and> rx_at r (rev u @ p, v) \<noteq> None"
proof (induction s arbitrary: p)
  case Nil
  then show ?case by (intro exI [of _ "[]"]) auto
next
  case (Cons x s)
  show ?case
  proof (cases "rx_at r (p, x # s) = None")
    case True
    with Cons.prems have "rx_search r (x # p) s \<noteq> None" by simp
    from Cons.IH [OF this] obtain u v where "s = u @ v" "rx_at r (rev u @ x # p, v) \<noteq> None" by blast
    then show ?thesis by (intro exI [of _ "x # u"] exI [of _ v]) simp
  qed (intro exI [of _ "[]"] exI [of _ "x # s"], simp)
qed

text \<open>A term found as a word is a part of the text.\<close>

lemma word_in_text:
  assumes "rx_test (term_rx t) s" "no_upper s" "no_upper t"
  shows "js_includes s t"
proof -
  obtain u v where uv: "s = u @ v" "rx_at (term_rx t) (rev u, v) \<noteq> None"
    using assms(1) rx_search_splits [of "term_rx t" "[]" s] by (auto simp: rx_test_def rx_exec_def)
  then obtain q r c where at: "rx_at (term_rx t) (rev u, v) = Some ((q, r), c)" by auto
  from rx_at_sound [OF at] obtain w where w: "v = w @ r" "consumes (term_rx t) w" by blast
  then have "map upper_unit w = map upper_unit t"
    using consumes_lit_i by (fastforce simp: term_rx_def elim: consumes_elims consumes.cases)
  then have "w = t" using map_upper_inj assms(2,3) uv(1) w(1) no_upper_infix [of u w r] by auto
  then show ?thesis using uv(1) w(1) by (auto simp: js_includes_iff)
qed

lemma term_in_iff: "no_upper s \<Longrightarrow> no_upper t \<Longrightarrow> term_in t s \<longleftrightarrow> js_includes s t"
  using word_in_text by (auto simp: term_in_def)

subsection \<open>The terms\<close>

lemma no_upper_to_lower: "no_upper (to_lower s)"
  by (induction s) (auto simp: no_upper_def to_lower_def lower_unit_def is_upper_def)

lemma set_add_term [simp]: "set (add_term t ts) = insert t (set ts)"
  by (auto simp: add_term_def)

lemma fold_keeps: "(\<And>x ts. P x \<Longrightarrow> Q ts \<Longrightarrow> Q (f x ts)) \<Longrightarrow> list_all P xs \<Longrightarrow> Q ts \<Longrightarrow> Q (fold f xs ts)"
  by (induction xs arbitrary: ts) auto

definition plain_terms :: "jstr list \<Rightarrow> bool" where
  "plain_terms ts \<longleftrightarrow> list_all no_upper ts"

lemma plain_add: "plain_terms ts \<Longrightarrow> no_upper t \<Longrightarrow> plain_terms (add_term t ts)"
  by (auto simp: plain_terms_def add_term_def)

lemma plain_Nil: "plain_terms []"
  by (simp add: plain_terms_def)

lemma plain_fold:
  assumes "\<And>x ts. plain_terms ts \<Longrightarrow> plain_terms (f x ts)"
  shows "plain_terms ts \<Longrightarrow> plain_terms (fold f xs ts)"
  by (induction xs arbitrary: ts) (auto intro: assms)

lemma plain_part: "plain_terms ts \<Longrightarrow> plain_terms (add_part p ts)"
  by (simp add: add_part_def plain_add no_upper_to_lower)

lemma plain_parts: "plain_terms ts \<Longrightarrow> plain_terms (add_parts ps ts)"
  by (simp add: add_parts_def plain_fold plain_part)

lemma plain_word: "plain_terms ts \<Longrightarrow> plain_terms (word_terms w ts)"
  by (simp add: word_terms_def Let_def plain_parts plain_add no_upper_to_lower)

lemma plain_raw: "plain_terms (raw_terms q)"
proof -
  have "plain_terms (fold word_terms ws [])" for ws by (rule plain_fold) (rule plain_word plain_Nil, assumption?)+
  then show ?thesis by (auto simp: raw_terms_def plain_terms_def list_all_iff)
qed

lemma no_upper_take: "no_upper t \<Longrightarrow> no_upper (take n t)"
  by (auto simp: no_upper_def list_all_iff dest: in_set_takeD)

lemma plain_stem: "no_upper t \<Longrightarrow> plain_terms ts \<Longrightarrow> plain_terms (stem_term t ts)"
  by (simp add: stem_term_def Let_def plain_add no_upper_take)

lemma plain_query: "plain_terms (query_terms q)"
  unfolding query_terms_def
  by (rule fold_keeps [where P = no_upper])
    (use plain_raw plain_Nil in \<open>auto simp: plain_stem simp flip: plain_terms_def\<close>)

lemma stem_keeps: "set (raw_terms q) \<subseteq> set (query_terms q)"
proof -
  have "set ts \<union> set acc \<subseteq> set (fold stem_term ts acc)" for ts acc
  proof (induction ts arbitrary: acc)
    case (Cons t ts)
    have "set acc \<union> {t} \<subseteq> set (stem_term t acc)" by (auto simp: stem_term_def Let_def)
    with Cons [of "stem_term t acc"] show ?case by auto
  qed simp
  then show ?thesis by (simp add: query_terms_def)
qed

subsection \<open>What is found\<close>

text \<open>A text contains the query, or a term of it.\<close>

definition searchable :: "(jstr \<Rightarrow> jstr) \<Rightarrow> doc_chunk \<Rightarrow> jstr list" where
  "searchable lower c = map lower ([dc_title c, dc_pageTitle c, dc_path c, dc_content c] @ dc_codeBlocks c)"

definition relevant :: "(jstr \<Rightarrow> jstr) \<Rightarrow> jstr \<Rightarrow> doc_chunk \<Rightarrow> bool" where
  "relevant lower q c \<longleftrightarrow>
     (\<exists>s \<in> {dc_title c, dc_pageTitle c, dc_content c}. js_includes (lower s) (cleanQuery lower q)) \<or>
     (\<exists>t \<in> set (query_terms q). \<exists>s \<in> set (searchable lower c). js_includes s t)"

lemma term_score_pos: "fst (term_score lower c t) > 0 \<longleftrightarrow> snd (term_score lower c t)"
  by (auto simp: term_score_def Let_def word_points_def term_in_def points_def)

lemma term_score_found:
  assumes "\<And>s. no_upper (lower s)" "no_upper t"
  shows "snd (term_score lower c t) \<longleftrightarrow> (\<exists>s \<in> set (searchable lower c). js_includes s t)"
  using term_in_iff [OF assms(1) assms(2)] by (auto simp: term_score_def Let_def searchable_def)

lemma sum_list_pos: "(0::nat) < sum_list xs \<longleftrightarrow> (\<exists>x \<in> set xs. 0 < x)"
  by (induction xs) auto

lemma phrase_term: "js_includes s (js_join [32] ts) \<Longrightarrow> ts \<noteq> [] \<Longrightarrow> js_includes s (hd ts)"
proof -
  assume a: "js_includes s (js_join [32] ts)" and "ts \<noteq> []"
  have "\<exists>v. js_join [32] ts = hd ts @ v"
    using \<open>ts \<noteq> []\<close> by (induction ts rule: induct_list012) auto
  with a show ?thesis by (auto simp: js_includes_iff) blast
qed

lemma boosted_pos:
  assumes "0 < k"
  shows "0 < (if r then (if b then of_nat n * k else of_nat n) * 3 else if b then of_nat n * k else of_nat n :: rat) \<longleftrightarrow> 0 < n"
  using assms by (simp add: zero_less_mult_iff)

lemma chunk_score_pos:
  assumes "\<And>s. no_upper (lower s)" "query_terms q \<noteq> []"
  shows "chunk_score lower (cleanQuery lower q) (query_terms q) c > 0 \<longleftrightarrow> relevant lower q c"
proof -
  let ?ts = "query_terms q" and ?p = "phrase_score lower c (cleanQuery lower q) (query_terms q)"
  let ?f = "map (term_score lower c) ?ts"
  let ?m = "length (filter snd ?f)"
  let ?k = "1 + of_nat ?m / of_nat (length ?ts) * 2 :: rat"
  have "0 < ?k" by (simp add: add_pos_nonneg)
  then have "chunk_score lower (cleanQuery lower q) ?ts c > 0 \<longleftrightarrow> 0 < ?p + sum_list (map fst ?f)"
    unfolding chunk_score_def Let_def by (rule boosted_pos)
  also have "\<dots> \<longleftrightarrow> 0 < ?p \<or> (\<exists>t \<in> set ?ts. snd (term_score lower c t))"
    unfolding add_gr_0 sum_list_pos by (simp add: term_score_pos)
  also have "\<dots> \<longleftrightarrow> relevant lower q c"
  proof -
    have t: "snd (term_score lower c t) \<longleftrightarrow> (\<exists>s \<in> set (searchable lower c). js_includes s t)" if "t \<in> set ?ts" for t
      by (rule term_score_found) (use assms(1) that plain_query [of q] in \<open>auto simp: plain_terms_def list_all_iff\<close>)
    have "\<exists>t \<in> set ?ts. \<exists>s \<in> set (searchable lower c). js_includes s t"
      if "js_includes (lower (dc_title c)) (js_join [32] ?ts) \<or> js_includes (lower (dc_content c)) (js_join [32] ?ts)"
      using that assms(2) phrase_term by (auto simp: searchable_def intro!: bexI [of _ "hd ?ts"])
    then show ?thesis using t by (auto simp: phrase_score_def relevant_def Let_def points_def)
  qed
  finally show ?thesis .
qed

text \<open>The questions that are looked up at all.\<close>

definition looks_up :: "(jstr \<Rightarrow> jstr) \<Rightarrow> jstr \<Rightarrow> bool" where
  "looks_up lower q \<longleftrightarrow> cleanQuery lower q \<noteq> [] \<and> \<not> is_greeting (cleanQuery lower q) \<and> raw_terms q \<noteq> []"

lemma found_chunks:
  assumes "\<And>s. no_upper (lower s)"
  shows "fst ` set (searchChunks lower docsChunks q) = {c \<in> set docsChunks. looks_up lower q \<and> relevant lower q c}"
proof (cases "looks_up lower q")
  case True
  then have "query_terms q \<noteq> []" using stem_keeps [of q] by (auto simp: looks_up_def)
  from True chunk_score_pos [OF assms this] show ?thesis
    by (force simp: searchChunks_def looks_up_def Let_def)
next
  case False
  then show ?thesis by (auto simp: searchChunks_def looks_up_def Let_def)
qed

lemma found_sorted: "sorted_wrt (\<lambda>r s. by_rat_score snd r s \<le> 0) (searchChunks lower docsChunks q)"
  by (simp add: searchChunks_def Let_def by_rat.sorted_js_sort)

lemma by_rat_le: "by_rat_score f x y \<le> 0 \<longleftrightarrow> f y \<le> f x"
  by (auto simp: by_rat_score_def)

lemma found_top:
  assumes "r \<in> set (take n (searchChunks lower docsChunks q))" "s \<in> set (drop n (searchChunks lower docsChunks q))"
  shows "snd s \<le> snd r"
proof -
  have "sorted_wrt (\<lambda>r s. snd s \<le> snd r) (take n (searchChunks lower docsChunks q) @ drop n (searchChunks lower docsChunks q))"
    using found_sorted [of lower docsChunks q] by (simp add: by_rat_le)
  then show ?thesis using assms by (simp only: sorted_wrt_append)
qed

text \<open>C23: The chunks found for a question are the chunks of the documentation that contain the
  question or one of its terms; a blank question, a greeting and a question of stop words alone
  find nothing. They come by falling score, and the six that go to the service score no less than
  those left out.
\<close>
theorem searchChunks_spec:
  assumes "\<And>s. no_upper (lower s)"
  shows "fst ` set (searchChunks lower docsChunks q) = {c \<in> set docsChunks. looks_up lower q \<and> relevant lower q c} \<and>
    sorted_wrt (\<lambda>r s. snd s \<le> snd r) (searchChunks lower docsChunks q) \<and>
    (\<forall>r \<in> set (take 6 (searchChunks lower docsChunks q)).
       \<forall>s \<in> set (drop 6 (searchChunks lower docsChunks q)). snd s \<le> snd r)"
  using found_chunks [OF assms] found_sorted [of lower docsChunks q] found_top by (auto simp: by_rat_le)

definition sample_chunk :: doc_chunk where
  "sample_chunk = \<lparr>dc_title = js ''DI'', dc_pageTitle = [], dc_path = js ''/docs/di'', dc_pagePath = [],
     dc_content = [], dc_codeBlocks = []\<rparr>"

theorem searchChunks_spec_witness:
  "fst ` set (searchChunks to_lower [sample_chunk] (js ''DI'')) =
     {c \<in> set [sample_chunk]. looks_up to_lower (js ''DI'') \<and> relevant to_lower (js ''DI'') c} \<and>
   relevant to_lower (js ''DI'') sample_chunk"
  using searchChunks_spec [of to_lower "[sample_chunk]" "js ''DI''"] no_upper_to_lower
  by (simp add: relevant_def cleanQuery_def js_trim_def sample_chunk_def to_lower_def lower_unit_def is_upper_def
      trim_start_def trim_end_def is_ws_def)

end
