(* ===== verification/ChatFacts.thy ===== *)
theory ChatFacts
  imports ChatBoxInv ChatSearchFacts
begin

text \<open>
  What the chat machine guarantees: one live request, a memory block that is never shown, an
  answer that arrives whole however the network cuts it; and where it fails: a second message
  while an answer streams, a typewriter that has caught up, a notice that is typed over.
\<close>

subsection \<open>Pouring contents\<close>

definition pour :: "request \<Rightarrow> jstr list \<Rightarrow> chat \<Rightarrow> chat" where
  "pour q cs st =
     (if cs = [] then st
      else (if rq_hasAdded q then st
            else (say Assistant [] (Some (chunk_sources (rq_topResults q))) st)\<lparr>cb_isLoading := False\<rparr>)
        \<lparr>cb_streamingText := cb_streamingText st @ concat cs\<rparr>)"

lemma add_contents_pour:
  "fold add_content cs (q, st) = (q\<lparr>rq_hasAdded := rq_hasAdded q \<or> cs \<noteq> []\<rparr>, pour q cs st)"
proof (induction cs arbitrary: q st)
  case (Cons c cs)
  then show ?case by (simp add: add_content_def pour_def say_def Let_def)
qed (simp add: pour_def)

lemma pour_pour: "pour (q\<lparr>rq_hasAdded := rq_hasAdded q \<or> cs \<noteq> []\<rparr>) ds (pour q cs st) = pour q (cs @ ds) st"
  by (simp add: pour_def say_def)

lemma pour_requests: "pour q cs (st\<lparr>cb_requests := rs\<rparr>) = (pour q cs st)\<lparr>cb_requests := rs\<rparr>"
  by (simp add: pour_def say_def)

lemma pour_buffer: "pour (q\<lparr>rq_buffer := b\<rparr>) cs st = pour q cs st"
  by (simp add: pour_def)

lemma pour_fields [simp]:
  "cb_requests (pour q cs st) = cb_requests st" "cb_crashed (pour q cs st) = cb_crashed st"
  "cb_isStreaming (pour q cs st) = cb_isStreaming st" "cb_displayedText (pour q cs st) = cb_displayedText st"
  "cb_timer (pour q cs st) = cb_timer st" "cb_deps (pour q cs st) = cb_deps st"
  "cb_memory (pour q cs st) = cb_memory st" "cb_sent (pour q cs st) = cb_sent st"
  "cb_next (pour q cs st) = cb_next st" "cb_input (pour q cs st) = cb_input st"
  by (simp_all add: pour_def say_def)

text \<open>The end of the stream depends on the requests only through the one it removes.\<close>

lemma ended_requests:
  "stream_ended f q (st\<lparr>cb_requests := rs\<rparr>) =
     (stream_ended f q st)\<lparr>cb_requests := filter (\<lambda>r. rq_id r \<noteq> rq_id q) rs\<rparr>"
proof -
  have d: "cb_streamingText (t\<lparr>cb_requests := ps\<rparr>) = cb_streamingText t" "cb_memory (t\<lparr>cb_requests := ps\<rparr>) = cb_memory t"
    for t :: chat and ps by simp_all
  have c: "say r c s (t\<lparr>cb_requests := ps\<rparr>) = (say r c s t)\<lparr>cb_requests := ps\<rparr>"
    "set_last w (t\<lparr>cb_requests := ps\<rparr>) = (set_last w t)\<lparr>cb_requests := ps\<rparr>"
    "t\<lparr>cb_requests := ps, cb_isLoading := b\<rparr> = t\<lparr>cb_isLoading := b, cb_requests := ps\<rparr>"
    "t\<lparr>cb_requests := ps, cb_displayedText := w\<rparr> = t\<lparr>cb_displayedText := w, cb_requests := ps\<rparr>"
    "t\<lparr>cb_requests := ps, cb_memory := m\<rparr> = t\<lparr>cb_memory := m, cb_requests := ps\<rparr>"
    "t\<lparr>cb_requests := ps, cb_crashed := b\<rparr> = t\<lparr>cb_crashed := b, cb_requests := ps\<rparr>"
    for r c s t ps b w m by (cases t, simp add: say_def set_last_def)+
  have f: "finish i (t\<lparr>cb_requests := ps\<rparr>) = (finish i t)\<lparr>cb_requests := filter (\<lambda>r. rq_id r \<noteq> i) ps\<rparr>" for i t ps
    by (cases t) (simp add: finish_def)
  show ?thesis
    by (cases "rq_hasAdded q \<or> stream_tail f (rq_buffer q) \<noteq> []";
        cases "remember f (sc_memoryBlock (parseStreamContent (cb_streamingText (pour q (stream_tail f (rq_buffer q)) st))))
          (cb_memory st)")
      (simp_all add: stream_ended_def add_contents_pour pour_requests Let_def c d f say_def [of _ _ _ "pour q _ st"] split: option.split)
qed

lemma ended_put: "rq_id r = rq_id q \<Longrightarrow> stream_ended f q (put_request r st) = stream_ended f q st"
proof -
  assume "rq_id r = rq_id q"
  then have "filter (\<lambda>p. rq_id p \<noteq> rq_id q) (map (\<lambda>p. if rq_id p = rq_id r then r else p) rs) =
      filter (\<lambda>p. rq_id p \<noteq> rq_id q) rs" for rs
    by (induction rs) auto
  then have "stream_ended f q (put_request r st) = stream_ended f q (st\<lparr>cb_requests := cb_requests st\<rparr>)"
    by (simp only: put_request_def ended_requests)
  then show ?thesis by simp
qed

subsection \<open>A run of chunks\<close>

text \<open>The chunks up to the one that ends the loop: the buffer left, whether it ended, the contents.\<close>

fun feed_all :: "(jstr \<Rightarrow> jstr) \<Rightarrow> jstr list \<Rightarrow> jstr \<Rightarrow> jstr \<times> bool \<times> jstr list" where
  "feed_all f [] b = (b, False, [])"
| "feed_all f (v # vs) b =
     (case stream_feed f (Some v) False b of (b', d, cs) \<Rightarrow>
        if d then (b', True, cs)
        else (case feed_all f vs b' of (b'', e, ds) \<Rightarrow> (b'', e, cs @ ds)))"

lemma stream_run_feed:
  "stream_run f vs b = (case feed_all f vs b of (b', e, cs) \<Rightarrow> cs @ stream_tail f b')"
  by (induction vs arbitrary: b) (auto split: prod.splits)

lemma run_simps [simp]: "chat_run env [] st = st" "chat_run env (e # es) st = chat_run env es (chat_step env e st)"
  by (simp_all add: chat_run_def)

lemma find_put: "find_request (rq_id q) st \<noteq> None \<Longrightarrow> find_request (rq_id q) (put_request q st) = Some q"
proof -
  have "find (\<lambda>r. rq_id r = rq_id q) rs \<noteq> None \<Longrightarrow>
      find (\<lambda>r. rq_id r = rq_id q) (map (\<lambda>r. if rq_id r = rq_id q then q else r) rs) = Some q" for rs
    by (induction rs) auto
  then show "find_request (rq_id q) st \<noteq> None \<Longrightarrow> ?thesis" by (simp add: find_request_def put_request_def)
qed

lemma put_put: "rq_id r = rq_id q \<Longrightarrow> put_request q (put_request r st) = put_request q st"
  by (simp add: put_request_def comp_def cong: map_cong)

lemma no_request: "find_request i st = None \<Longrightarrow> chat_run env (map (\<lambda>v. ChunkRead i v False) vs) st = st"
  by (induction vs) (auto simp: chat_step_def chunk_read_def)

lemma ended_gone: "find_request (rq_id q) (stream_ended f q st) = None"
proof -
  have "\<exists>st'. stream_ended f q st = finish (rq_id q) st'"
    by (simp add: stream_ended_def add_contents_pour Let_def) blast
  then show ?thesis by (auto simp: finish_def find_request_def find_None_iff)
qed

lemma run_crashed: "cb_crashed st \<Longrightarrow> chat_run env es st = st"
  by (induction es) (auto simp: chat_step_def)

text \<open>The chunks of a stream that ends with \<open>[DONE]\<close>.\<close>

lemma chunks_run:
  assumes "find_request i st = Some q" "rq_phase q = Reading" "\<not> cb_crashed st"
    and "feed_all (cv_show_num env) vs (rq_buffer q) = (b, True, cs)"
  shows "chat_run env (map (\<lambda>v. ChunkRead i (Some v) False) vs) st =
    stream_ended (cv_show_num env) (q\<lparr>rq_buffer := b, rq_hasAdded := rq_hasAdded q \<or> cs \<noteq> []\<rparr>) (pour q cs st)"
  using assms
proof (induction vs arbitrary: q st cs)
  case (Cons v vs)
  let ?f = "cv_show_num env"
  have i: "rq_id q = i" using find_request_Some [OF Cons.prems(1)] by simp
  obtain b1 d ds where fe: "stream_feed ?f (Some v) False (rq_buffer q) = (b1, d, ds)" by (metis prod_cases3)
  let ?q1 = "q\<lparr>rq_buffer := b1, rq_hasAdded := rq_hasAdded q \<or> ds \<noteq> []\<rparr>"
  have step: "chat_step env (ChunkRead i (Some v) False) st =
      (if d then stream_ended ?f ?q1 (pour q ds st) else put_request ?q1 (pour q ds st))"
    using Cons.prems(1,2,3) fe by (simp add: chat_step_def chunk_read_def add_contents_pour pour_buffer)
  show ?case
  proof (cases d)
    case True
    have "find_request i (stream_ended ?f ?q1 (pour q ds st)) = None" using ended_gone [of ?q1 ?f] i by simp
    from no_request [OF this, of env "map Some vs"] Cons.prems(4) fe True step show ?thesis
      by (simp add: comp_def)
  next
    case False
    with Cons.prems(4) fe obtain es where es: "feed_all ?f vs b1 = (b, True, es)" "cs = ds @ es"
      by (auto split: prod.splits)
    let ?st1 = "put_request ?q1 (pour q ds st)"
    have "find_request i ?st1 = Some ?q1"
      using find_put [of ?q1 "pour q ds st"] Cons.prems(1) i by (simp add: find_request_def)
    moreover have "\<not> cb_crashed ?st1" using Cons.prems(3) by (simp add: put_request_def)
    ultimately have "chat_run env (map (\<lambda>v. ChunkRead i (Some v) False) vs) ?st1 =
        stream_ended ?f (?q1\<lparr>rq_buffer := b, rq_hasAdded := rq_hasAdded ?q1 \<or> es \<noteq> []\<rparr>) (pour ?q1 es ?st1)"
      using Cons.IH [of ?st1 ?q1 es] es(1) Cons.prems(2) by simp
    moreover have "pour ?q1 es ?st1 = put_request ?q1 (pour q cs st)"
      by (simp add: put_request_def pour_def say_def es(2))
    ultimately show ?thesis using step False es(2) ended_put by simp
  qed
qed simp

subsection \<open>An answer, from the question to the message\<close>

lemma feed_all_done:
  "10 \<notin> set b \<Longrightarrow> feed_all f vs b = (b', e, cs) \<Longrightarrow>
     e = fst (stream_lines f (butlast (split_char 10 (b @ concat vs))))"
proof (induction vs arbitrary: b cs)
  case Nil
  then show ?case by (simp add: split_char_free)
next
  case (Cons v vs)
  let ?ls = "butlast (split_char 10 (b @ v))" and ?b = "last (split_char 10 (b @ v))"
  have sp: "split_char 10 (b @ concat (v # vs)) = ?ls @ split_char 10 (?b @ concat vs)"
    using split_char_app [of 10 "b @ v" "concat vs"] by simp
  obtain d ds where ds: "stream_lines f ?ls = (d, ds)" by fastforce
  have "fst (stream_lines f (butlast (split_char 10 (b @ concat (v # vs))))) =
      (d \<or> fst (stream_lines f (butlast (split_char 10 (?b @ concat vs)))))"
    unfolding sp by (simp add: butlast_append stream_lines_append ds split: prod.split)
  moreover have "e = (d \<or> fst (stream_lines f (butlast (split_char 10 (?b @ concat vs)))))"
    using Cons.prems(2) Cons.IH [of ?b] last_split_free
    by (auto simp: stream_feed_def Let_def ds split: if_splits prod.splits)
  ultimately show ?case by simp
qed

lemma event_stream_done:
  assumes "list_all item_ok items" "concat vs = event_stream items"
  obtains b cs where "feed_all f vs [] = (b, True, cs)"
    "concat (cs @ stream_tail f b) = concat (map item_piece items)"
proof -
  obtain b e cs where fe: "feed_all f vs [] = (b, e, cs)" by (metis prod_cases3)
  have "split_char 10 (concat vs) = concat (map (\<lambda>i. [item_row i, []]) items) @ [done_line, [], []]"
    using lines_of_items [OF assms(1)] assms(2) by (simp add: event_stream_def done_line_split)
  then have "butlast (split_char 10 (concat vs)) = concat (map (\<lambda>i. [item_row i, []]) items) @ [done_line, []]"
    by (simp add: butlast_append)
  then have "fst (stream_lines f (butlast (split_char 10 (concat vs))))"
    using done_line_lines(1) by (simp add: stream_lines_append del: stream_lines.simps split: prod.split)
  then have "e" using feed_all_done [OF _ fe] by simp
  moreover have "concat (cs @ stream_tail f b) = concat (map item_piece items)"
    using stream_run_pieces [OF assms, of f] stream_run_feed [of f vs "[]"] fe by simp
  ultimately show ?thesis using that fe by simp
qed

lemma set_last_say: "set_last c (say Assistant w s st) = say Assistant c s st"
  by (simp add: set_last_def say_def rewrite_last_def)

text \<open>The state after a stream that brought something.\<close>

lemma ended_closed:
  assumes "\<not> rq_hasAdded q" "cb_streamingText st = []" "cs @ stream_tail f b \<noteq> []"
    and "content = parseStreamContent (concat (cs @ stream_tail f b))"
    and "remember f (sc_memoryBlock content) (cb_memory st) = Some mem"
  shows "stream_ended f (q\<lparr>rq_buffer := b, rq_hasAdded := rq_hasAdded q \<or> cs \<noteq> []\<rparr>) (pour q cs st) =
    finish (rq_id q) ((say Assistant (sc_cleanText content) (Some (chunk_sources (rq_topResults q))) st)
      \<lparr>cb_isLoading := False, cb_streamingText := concat (cs @ stream_tail f b),
       cb_displayedText := sc_cleanText content, cb_memory := mem\<rparr>)"
proof -
  let ?q = "q\<lparr>rq_buffer := b, rq_hasAdded := rq_hasAdded q \<or> cs \<noteq> []\<rparr>"
  have "fold add_content (stream_tail f b) (?q, pour q cs st) =
      (q\<lparr>rq_buffer := b, rq_hasAdded := True\<rparr>, pour q (cs @ stream_tail f b) st)"
    using assms(1,3) pour_pour [of q cs "stream_tail f b" st]
    by (auto simp: add_contents_pour pour_def say_def)
  moreover have "pour q (cs @ stream_tail f b) st =
      (say Assistant [] (Some (chunk_sources (rq_topResults q))) st)
        \<lparr>cb_isLoading := False, cb_streamingText := concat (cs @ stream_tail f b)\<rparr>"
    using assms(1,2,3) by (simp add: pour_def say_def del: append_is_Nil_conv)
  ultimately show ?thesis
    using assms(4,5)
    by (cases st) (simp add: stream_ended_def Let_def set_last_def say_def rewrite_last_def)
qed

text \<open>What the code looks up for a question.\<close>

definition top_results :: "chat_env \<Rightarrow> jstr \<Rightarrow> doc_chunk list" where
  "top_results env question = map fst (take 6 (searchChunks (cv_lower env) (cv_docsChunks env) question))"

lemma send_state:
  assumes "\<not> cb_crashed st" "cb_requests st = []" "\<not> cb_isLoading st"
    and "js_trim (cb_input st) = question" "question \<noteq> []" "str_or (cv_apiKey env) [] \<noteq> []"
  shows "chat_step env Submit st =
    (say User question None st)\<lparr>cb_input := [], cb_isLoading := True, cb_abortController := Some (cb_next st),
      cb_next := cb_next st + 1,
      cb_requests := [\<lparr>rq_id = cb_next st, rq_topResults = top_results env question, rq_phase = Fetching,
        rq_buffer = [], rq_hasAdded = False, rq_aborted = False\<rparr>],
      cb_sent := cb_sent st @ [request_body env question (top_results env question) st]\<rparr>"
proof -
  have "abort_current st = st" using assms(2) by (cases st) (simp add: abort_current_def split: option.split)
  then show ?thesis using assms
    by (cases st) (simp add: chat_step_def handleSendMessage_def Let_def say_def top_results_def request_body_def)
qed

text \<open>An answer that nothing disturbs.\<close>

lemma undisturbed_answer:
  assumes "st = chat_run env es chat_init" "\<not> cb_crashed st" "cb_requests st = []"
    and "question = js_trim (cb_input st)" "question \<noteq> []" "str_or (cv_apiKey env) [] \<noteq> []"
    and "list_all item_ok items" "concat vs = event_stream items"
    and "answer = parseStreamContent (concat (map item_piece items))" "concat (map item_piece items) \<noteq> []"
    and "remember (cv_show_num env) (sc_memoryBlock answer) (cb_memory st) = Some mem"
    and "st' = chat_run env ([Submit, Responded (cb_next st) True status statusText True] @
           map (\<lambda>v. ChunkRead (cb_next st) (Some v) False) vs) st"
  shows "cb_messages st' = cb_messages st @
      [\<lparr>ms_role = User, ms_content = question, ms_sources = None\<rparr>,
       \<lparr>ms_role = Assistant, ms_content = sc_cleanText answer,
        ms_sources = Some (chunk_sources (top_results env question))\<rparr>] \<and>
    cb_sent st' = cb_sent st @ [request_body env question (top_results env question) st] \<and>
    cb_memory st' = mem \<and> cb_displayedText st' = sc_cleanText answer \<and>
    \<not> cb_isLoading st' \<and> \<not> cb_isStreaming st' \<and> cb_requests st' = []"
proof -
  let ?i = "cb_next st" and ?f = "cv_show_num env"
  let ?q = "\<lparr>rq_id = ?i, rq_topResults = top_results env question, rq_phase = Reading,
        rq_buffer = [], rq_hasAdded = False, rq_aborted = False\<rparr>"
  have "\<not> cb_isLoading st" using run_inv [of env es] assms(1,3) by (simp add: chat_inv_def)
  from send_state [OF assms(2,3) this assms(4) [symmetric] assms(5,6)]
  have sub: "chat_step env Submit st = (say User question None st)\<lparr>cb_input := [], cb_isLoading := True,
      cb_abortController := Some ?i, cb_next := ?i + 1, cb_requests := [?q\<lparr>rq_phase := Fetching\<rparr>],
      cb_sent := cb_sent st @ [request_body env question (top_results env question) st]\<rparr>" by simp
  let ?st1 = "(chat_step env Submit st)\<lparr>cb_isStreaming := True, cb_streamingText := [], cb_displayedText := [],
      cb_requests := [?q]\<rparr>"
  have resp: "chat_step env (Responded ?i True status statusText True) (chat_step env Submit st) = ?st1"
    using assms(2) unfolding sub
    by (cases st) (simp add: chat_step_def responded_def find_request_def put_request_def say_def)
  obtain b cs where fe: "feed_all ?f vs [] = (b, True, cs)"
    and all: "concat (cs @ stream_tail ?f b) = concat (map item_piece items)"
    using event_stream_done [OF assms(7,8)] .
  have ne: "cs @ stream_tail ?f b \<noteq> []" using all assms(10) by auto
  have fr: "find_request ?i ?st1 = Some ?q" by (simp add: find_request_def)
  have nc: "\<not> cb_crashed ?st1" using assms(2) unfolding sub by (simp add: say_def)
  have rm: "remember ?f (sc_memoryBlock answer) (cb_memory ?st1) = Some mem"
    using assms(11) unfolding sub by (simp add: say_def)
  have an: "answer = parseStreamContent (concat (cs @ stream_tail ?f b))" using assms(9) all by simp
  have "st' = stream_ended ?f (?q\<lparr>rq_buffer := b, rq_hasAdded := rq_hasAdded ?q \<or> cs \<noteq> []\<rparr>) (pour ?q cs ?st1)"
    using assms(12) resp chunks_run [OF fr _ nc, where vs = vs and b = b and cs = cs] fe by simp
  also have "\<dots> = finish (rq_id ?q) ((say Assistant (sc_cleanText answer) (Some (chunk_sources (rq_topResults ?q))) ?st1)
      \<lparr>cb_isLoading := False, cb_streamingText := concat (cs @ stream_tail ?f b),
       cb_displayedText := sc_cleanText answer, cb_memory := mem\<rparr>)"
    by (rule ended_closed) (use ne an rm in simp_all)
  finally show ?thesis unfolding sub by (simp add: finish_def say_def)
qed

subsection \<open>Events that do not disturb an answer\<close>

text \<open>Typing, a click on a suggestion, the effects of a render and the timer of the typewriter.\<close>

fun undisturbing :: "chat_event \<Rightarrow> bool" where
  "undisturbing (TypeInput s) = True"
| "undisturbing (SuggestionClick s) = True"
| "undisturbing EffectsRun = True"
| "undisturbing TimerFired = True"
| "undisturbing _ = False"

text \<open>What they can change: the input, the typewriter, and the text of the assistant's last message.\<close>

definition calls_of :: "chat \<Rightarrow> bool \<times> bool \<times> jstr \<times> chat_memory \<times> request list \<times> nat option \<times> nat \<times> chat_body list \<times> bool" where
  "calls_of st = (cb_isLoading st, cb_isStreaming st, cb_streamingText st, cb_memory st, cb_requests st,
     cb_abortController st, cb_next st, cb_sent st, cb_crashed st)"

definition stirred :: "chat \<Rightarrow> chat \<Rightarrow> bool" where
  "stirred t s = (calls_of s = calls_of t \<and>
     rewrite_last (\<lambda>old. []) (cb_messages s) = rewrite_last (\<lambda>old. []) (cb_messages t))"

definition calmed :: "chat \<Rightarrow> chat \<Rightarrow> bool" where
  "calmed t s = (calls_of s = calls_of t \<and> cb_messages s = cb_messages t \<and> cb_displayedText s = cb_displayedText t)"

abbreviation asked_last :: "chat \<Rightarrow> bool" where
  "asked_last t \<equiv> cb_messages t \<noteq> [] \<and> ms_role (last (cb_messages t)) = User"

lemma rewrite_twice: "rewrite_last (\<lambda>old. c) (rewrite_last g ms) = rewrite_last (\<lambda>old. c) ms"
  by (simp add: rewrite_last_def)

lemma rewrite_same: "rewrite_last (\<lambda>old. []) ms = rewrite_last (\<lambda>old. []) ns \<Longrightarrow>
    rewrite_last (\<lambda>old. c) ms = rewrite_last (\<lambda>old. c) ns"
  by (metis rewrite_twice)

lemma rewrite_question: "rewrite_last (\<lambda>old. []) ms = rewrite_last (\<lambda>old. []) ns \<Longrightarrow>
    ns \<noteq> [] \<and> ms_role (last ns) = User \<Longrightarrow> ms = ns"
  by (auto simp: rewrite_last_def split: if_splits)

lemma calmed_stirred: "calmed t s \<Longrightarrow> stirred t s"
  by (simp add: calmed_def stirred_def)

lemma stirred_refl: "stirred t t"
  by (simp add: stirred_def)

lemma stirred_step: "stirred t s \<Longrightarrow> undisturbing e \<Longrightarrow> stirred t (chat_step env e s)"
  by (cases e) (auto simp: stirred_def calls_of_def chat_step_def handleSuggestionClick_def effects_run_def
      timer_fired_def Let_def set_last_def rewrite_twice split: option.split)

lemma stirred_pour: "stirred t s \<Longrightarrow> rq_hasAdded q \<or> asked_last t \<Longrightarrow> stirred (pour q cs t) (pour q cs s)"
  using rewrite_question [of "cb_messages s" "cb_messages t"]
  by (auto simp: stirred_def calls_of_def pour_def say_def)

lemma pour_added: "cs \<noteq> [] \<or> pour q cs t = t"
  by (simp add: pour_def)

text \<open>The end of the stream writes the message and the typed text anew.\<close>

definition answered :: "request \<Rightarrow> jstr list \<Rightarrow> chat \<Rightarrow> chat" where
  "answered q cs u =
     (if rq_hasAdded q \<or> cs \<noteq> [] then pour q cs u
      else (say Assistant (str_or (Some (cb_streamingText u)) no_content_text)
        (Some (chunk_sources (rq_topResults q))) u)\<lparr>cb_isLoading := False\<rparr>)"

definition close_answer :: "(jstr \<Rightarrow> jstr) \<Rightarrow> nat \<Rightarrow> chat \<Rightarrow> chat" where
  "close_answer f i u =
     (let content = parseStreamContent (cb_streamingText u);
          u' = (set_last (sc_cleanText content) u)\<lparr>cb_displayedText := sc_cleanText content\<rparr>
      in finish i (case remember f (sc_memoryBlock content) (cb_memory u') of
          Some mem \<Rightarrow> u'\<lparr>cb_memory := mem\<rparr> | None \<Rightarrow> u'\<lparr>cb_crashed := True\<rparr>))"

lemma ended_closes: "stream_ended f q u = close_answer f (rq_id q) (answered q (stream_tail f (rq_buffer q)) u)"
proof (cases "stream_tail f (rq_buffer q) = []")
  case True
  then show ?thesis by (simp add: stream_ended_def close_answer_def answered_def Let_def pour_def [of _ "[]"] split: option.split)
next
  case False
  then show ?thesis by (simp add: stream_ended_def close_answer_def answered_def add_contents_pour Let_def split: option.split)
qed

lemma stirred_close: "stirred t s \<Longrightarrow> calmed (close_answer f i t) (close_answer f i s)"
  using rewrite_same [of "cb_messages s" "cb_messages t"]
  by (auto simp: stirred_def calmed_def calls_of_def close_answer_def Let_def set_last_def finish_def
      split: option.split)

lemma stirred_ended:
  assumes "stirred t s" "rq_hasAdded q \<or> asked_last t"
  shows "calmed (stream_ended f q t) (stream_ended f q s)"
proof -
  let ?cs = "stream_tail f (rq_buffer q)"
  have "stirred (answered q ?cs t) (answered q ?cs s)"
  proof (cases "rq_hasAdded q \<or> ?cs \<noteq> []")
    case True
    then show ?thesis using stirred_pour [OF assms] by (simp add: answered_def)
  next
    case False
    then show ?thesis using assms rewrite_question [of "cb_messages s" "cb_messages t"]
      by (simp add: answered_def stirred_def calls_of_def say_def)
  qed
  then show ?thesis unfolding ended_closes by (rule stirred_close)
qed

text \<open>A run in which they occur, beside the run without them, as long as one request is in flight.\<close>

definition in_step :: "chat \<Rightarrow> chat \<Rightarrow> bool" where
  "in_step t s = (stirred t s \<and> (cb_requests t = [] \<longrightarrow> calmed t s) \<and>
     (\<exists>q. cb_requests t \<in> {[], [q]} \<and> (cb_requests t = [] \<or> rq_hasAdded q \<or> asked_last t)))"

lemma in_step_same: "cb_requests t \<in> {[], [q]} \<Longrightarrow> rq_hasAdded q \<or> asked_last t \<Longrightarrow> in_step t t"
  by (auto simp: in_step_def stirred_def calmed_def)

lemma in_step_undisturbed:
  "in_step t s \<Longrightarrow> undisturbing e \<Longrightarrow> cb_requests t \<noteq> [] \<Longrightarrow> in_step t (chat_step env e s)"
  using stirred_step by (auto simp: in_step_def)

lemma stirred_fields: "stirred t s \<Longrightarrow> cb_requests s = cb_requests t \<and> cb_crashed s = cb_crashed t"
  by (simp add: stirred_def calls_of_def)

lemma in_step_chunk:
  assumes "in_step t s"
  shows "in_step (chat_step env (ChunkRead i v d) t) (chat_step env (ChunkRead i v d) s)"
proof -
  let ?f = "cv_show_num env"
  have st: "stirred t s" using assms by (simp add: in_step_def)
  note sf = stirred_fields [OF st]
  have fr: "find_request i s = find_request i t" using sf by (simp add: find_request_def)
  show ?thesis
  proof (cases "cb_crashed t \<or> find_request i t = None \<or> rq_phase (the (find_request i t)) \<noteq> Reading")
    case True
    then show ?thesis using assms sf fr by (cases "find_request i t") (auto simp: chat_step_def chunk_read_def)
  next
    case False
    then obtain q where q: "find_request i t = Some q" "rq_phase q = Reading" "\<not> cb_crashed t" by auto
    then have one: "cb_requests t = [q]" "rq_hasAdded q \<or> asked_last t"
      using assms find_request_Some [OF q(1)] by (auto simp: in_step_def)
    obtain b e cs where fe: "stream_feed ?f v d (rq_buffer q) = (b, e, cs)" by (metis prod_cases3)
    let ?q = "q\<lparr>rq_buffer := b, rq_hasAdded := rq_hasAdded q \<or> cs \<noteq> []\<rparr>"
    have p: "stirred (pour q cs t) (pour q cs s)" using stirred_pour [OF st one(2)] .
    have r: "rq_hasAdded ?q \<or> asked_last (pour q cs t)" using one(2) by (auto simp: pour_def)
    have "chat_step env (ChunkRead i v d) u =
        (if e then stream_ended ?f ?q (pour q cs u) else put_request ?q (pour q cs u))"
      if "u = t \<or> u = s" for u
      using that q fr sf fe by (auto simp: chat_step_def chunk_read_def add_contents_pour pour_buffer)
    moreover have "in_step (put_request ?q (pour q cs t)) (put_request ?q (pour q cs s))"
      using p r one by (auto simp: in_step_def put_request_def stirred_def calls_of_def)
    moreover have "cb_requests (stream_ended ?f ?q (pour q cs t)) = []"
      using one unfolding ended_closes
      by (simp add: close_answer_def answered_def Let_def finish_def set_last_def say_def split: option.split)
    then have "in_step (stream_ended ?f ?q (pour q cs t)) (stream_ended ?f ?q (pour q cs s))"
      using stirred_ended [OF p r] calmed_stirred by (simp add: in_step_def)
    ultimately show ?thesis by simp
  qed
qed

lemma in_step_responded:
  assumes "in_step t s"
  shows "in_step (chat_step env (Responded i True a b True) t) (chat_step env (Responded i True a b True) s)"
proof (cases "cb_crashed t \<or> find_request i t = None \<or> rq_phase (the (find_request i t)) \<noteq> Fetching")
  case True
  moreover have "cb_requests s = cb_requests t" "cb_crashed s = cb_crashed t"
    using assms stirred_fields [of t s] by (auto simp: in_step_def)
  moreover from this(1) have "find_request i s = find_request i t" by (simp add: find_request_def)
  ultimately show ?thesis using assms
    by (cases "find_request i t") (auto simp: chat_step_def responded_def)
next
  case False
  then obtain q where q: "find_request i t = Some q" "rq_phase q = Fetching" "\<not> cb_crashed t" by auto
  then have one: "cb_requests t = [q]" "rq_hasAdded q \<or> asked_last t"
    using assms find_request_Some [OF q(1)] by (auto simp: in_step_def)
  have st: "stirred t s" using assms by (simp add: in_step_def)
  let ?r = "\<lambda>u. put_request (q\<lparr>rq_phase := Reading\<rparr>)
      (u\<lparr>cb_isStreaming := True, cb_streamingText := [], cb_displayedText := []\<rparr>)"
  have "chat_step env (Responded i True a b True) u = ?r u" if "u = t \<or> u = s" for u
    using that q stirred_fields [OF st] by (auto simp: chat_step_def responded_def find_request_def)
  moreover have "stirred (?r t) (?r s)"
    using st by (simp add: stirred_def calls_of_def put_request_def)
  then have "in_step (?r t) (?r s)" using one by (auto simp: in_step_def put_request_def)
  ultimately show ?thesis by simp
qed

fun answering :: "chat_event \<Rightarrow> bool" where
  "answering (Responded i ok status statusText has_body) = (ok \<and> has_body)"
| "answering (ChunkRead i v d) = True"
| "answering _ = False"

lemma in_step_answering_step: "in_step t s \<Longrightarrow> answering e \<Longrightarrow> in_step (chat_step env e t) (chat_step env e s)"
  using in_step_chunk in_step_responded by (cases e) auto

lemma in_step_answering: "in_step t s \<Longrightarrow> list_all answering es \<Longrightarrow> in_step (chat_run env es t) (chat_run env es s)"
  by (induction es arbitrary: t s) (auto intro: in_step_answering_step)

lemma idle_stays:
  assumes "cb_requests s = []" "list_all (\<lambda>e. undisturbing e \<or> answering e) es"
  shows "cb_requests (chat_run env es s) = []"
  using assms
proof (induction es arbitrary: s)
  case (Cons e es)
  have "cb_requests (chat_step env e s) = []"
    using Cons.prems by (cases e) (auto simp: chat_step_def handleSuggestionClick_def effects_run_def timer_fired_def
        Let_def set_last_def responded_def chunk_read_def find_request_def split: option.split)
  with Cons show ?case by simp
qed simp

lemma run_append: "chat_run env (es @ es') st = chat_run env es' (chat_run env es st)"
  by (simp add: chat_run_def)

lemma in_step_run:
  assumes "in_step t s" "list_all (\<lambda>e. undisturbing e \<or> answering e) es" "cb_requests (chat_run env es s) \<noteq> []"
  shows "in_step (chat_run env (filter (\<lambda>e. \<not> undisturbing e) es) t) (chat_run env es s)"
  using assms
proof (induction es arbitrary: t s)
  case (Cons e es)
  show ?case
  proof (cases "undisturbing e")
    case True
    have "cb_requests s \<noteq> []" using idle_stays [of s "e # es"] Cons.prems(2,3) by auto
    then have "cb_requests t \<noteq> []" using Cons.prems(1) stirred_fields by (auto simp: in_step_def)
    then have "in_step t (chat_step env e s)" using in_step_undisturbed [OF Cons.prems(1) True] by simp
    with Cons True show ?thesis by simp
  next
    case False
    with Cons.prems have "in_step (chat_step env e t) (chat_step env e s)" using in_step_answering_step by auto
    with Cons False show ?thesis by simp
  qed
qed simp

text \<open>C16: A question asked while nothing is in flight, with an API key configured, sends one request, with
  the memory and the conversation so far in its body. The service answers with success and an event
  stream of comments and events, one per line, and the end mark; an event is any text on one line, and
  what it adds to the answer is the string at \<open>choices[0].delta.content\<close> of the JSON value it is, if any. These
  strings together are not empty, and the memory block in them, when there is one, is one the component
  can take in (\<open>remember\<close> gives a memory; it crashes on others). However the network cuts the stream into chunks, and however often the reader types,
  clicks a suggestion, React runs its effects and the timer of the typewriter fires until the chunk that
  ends the stream, the conversation then holds the question and the assistant's text without its memory
  block, with the chunks it was given as sources; the memory block is taken into the memory, and
  nothing is loading or streaming. (Stopping, clearing, a second question and a failing network are
  other events, and not covered.)
\<close>
theorem answer_received:
  assumes "st = chat_run env es chat_init" "\<not> cb_crashed st" "cb_requests st = []"
    and "question = js_trim (cb_input st)" "question \<noteq> []" "str_or (cv_apiKey env) [] \<noteq> []"
    and "list_all item_ok items" "concat (vs @ ws) = event_stream items"
    and "answer = parseStreamContent (concat (map item_piece items))" "concat (map item_piece items) \<noteq> []"
    and "remember (cv_show_num env) (sc_memoryBlock answer) (cb_memory st) = Some mem"
    and "filter (\<lambda>e. \<not> undisturbing e) evs = Responded (cb_next st) True status statusText True #
           map (\<lambda>v. ChunkRead (cb_next st) (Some v) False) vs"
    and "cb_requests (chat_run env (Submit # evs) st) \<noteq> []"
    and "st' = chat_run env (Submit # evs @ map (\<lambda>v. ChunkRead (cb_next st) (Some v) False) ws) st"
  shows "cb_messages st' = cb_messages st @
      [\<lparr>ms_role = User, ms_content = question, ms_sources = None\<rparr>,
       \<lparr>ms_role = Assistant, ms_content = sc_cleanText answer,
        ms_sources = Some (chunk_sources (top_results env question))\<rparr>] \<and>
    cb_sent st' = cb_sent st @ [request_body env question (top_results env question) st] \<and>
    cb_memory st' = mem \<and> cb_displayedText st' = sc_cleanText answer \<and>
    \<not> cb_isLoading st' \<and> \<not> cb_isStreaming st' \<and> cb_requests st' = []"
proof -
  let ?reads = "map (\<lambda>v. ChunkRead (cb_next st) (Some v) False)"
  let ?calm = "Responded (cb_next st) True status statusText True # ?reads vs"
  define s where "s = chat_step env Submit st"
  define t where "t = chat_run env ([Submit, Responded (cb_next st) True status statusText True] @ ?reads (vs @ ws)) st"
  have "\<not> cb_isLoading st" using run_inv [of env es] assms(1,3) by (simp add: chat_inv_def)
  from send_state [OF assms(2,3) this assms(4) [symmetric] assms(5,6)]
  have "in_step s s" by (intro in_step_same) (auto simp: s_def say_def)
  moreover have "list_all (\<lambda>e. undisturbing e \<or> answering e) evs"
  proof -
    have "list_all answering (filter (\<lambda>e. \<not> undisturbing e) evs)"
      unfolding assms(12) by (simp add: list_all_iff)
    then show ?thesis by (auto simp: list_all_iff)
  qed
  moreover have "cb_requests (chat_run env evs s) \<noteq> []" using assms(13) by (simp add: s_def)
  ultimately have "in_step (chat_run env ?calm s) (chat_run env evs s)"
    using in_step_run assms(12) by metis
  then have "in_step (chat_run env (?reads ws) (chat_run env ?calm s)) (chat_run env (?reads ws) (chat_run env evs s))"
    by (rule in_step_answering) (simp add: list_all_iff)
  then have "in_step t st'" using assms(14) by (simp add: t_def s_def run_append)
  moreover note undisturbed_answer [OF assms(1-11) t_def]
  ultimately show ?thesis by (auto simp: in_step_def calmed_def calls_of_def)
qed

end
