(* ===== verification/ChatSafety.thy ===== *)
theory ChatSafety
  imports ChatFacts
begin

text \<open>
  What the user of the chat can rely on and where the chat breaks its own rules: the memory block
  is never shown, one request is live at a time; a message sent while an answer streams loses its
  loading state, the typewriter stalls once it has caught up, an answer without content shows an
  empty message, and what is typed after a stop replaces the notice.
\<close>

subsection \<open>One live request\<close>

text \<open>C18: Whatever the user and the network do, at most one request in flight is not aborted, it is
  the one of the current controller, nothing is loading or streaming when none is in flight, the
  conversation is never empty, and what was sent to the service is never taken back.
\<close>
theorem chat_one_live_request:
  assumes "st = chat_run env es chat_init"
  shows "(\<forall>q \<in> set (cb_requests st). \<forall>r \<in> set (cb_requests st).
        \<not> rq_aborted q \<and> \<not> rq_aborted r \<longrightarrow> q = r \<and> cb_abortController st = Some (rq_id q)) \<and>
    (cb_requests st = [] \<longrightarrow> \<not> cb_isLoading st \<and> \<not> cb_isStreaming st) \<and> cb_messages st \<noteq> [] \<and>
    (\<exists>bs. cb_sent (chat_run env (es @ es') chat_init) = cb_sent st @ bs)"
proof -
  have i: "chat_inv st" using run_inv assms by simp
  have "q = r \<and> cb_abortController st = Some (rq_id q)"
    if "q \<in> set (cb_requests st)" "r \<in> set (cb_requests st)" "\<not> rq_aborted q" "\<not> rq_aborted r" for q r
  proof -
    have "\<forall>q \<in> set (cb_requests st). \<not> rq_aborted q \<longrightarrow> cb_abortController st = Some (rq_id q)"
      using i by (simp add: chat_inv_def request_ok_def)
    then have "cb_abortController st = Some (rq_id q)" "cb_abortController st = Some (rq_id r)"
      using that by blast+
    then have "rq_id q = rq_id r" by simp
    with i that(1,2) have "q = r" unfolding chat_inv_def distinct_map by (auto dest: inj_onD)
    with \<open>cb_abortController st = Some (rq_id q)\<close> show ?thesis by simp
  qed
  moreover have "chat_grows st (chat_run env (es @ es') chat_init)"
    using chat.grows_append [OF chat_inv_init, of env es es'] assms by (simp add: chat_run_def)
  ultimately show ?thesis using i by (auto simp: chat_inv_def chat_grows_def)
qed

definition plain_env :: chat_env where
  "plain_env = \<lparr>cv_lower = to_lower, cv_show_num = id, cv_docsChunks = [], cv_version = js ''1.4.2'',
     cv_apiKey = Some (js ''key''), cv_baseURL = None, cv_model = None\<rparr>"

theorem chat_one_live_request_witness:
  "cb_messages (chat_run plain_env [TypeInput (js ''q''), EffectsRun] chat_init) \<noteq> [] \<and>
   \<not> cb_isLoading (chat_run plain_env [TypeInput (js ''q''), EffectsRun] chat_init)"
  using chat_one_live_request [OF refl, of plain_env "[TypeInput (js ''q''), EffectsRun]" "[]"]
  by (simp add: chat_step_def effects_run_def chat_init_def)

subsection \<open>The memory block is never shown\<close>

definition untagged :: "jstr \<Rightarrow> bool" where
  "untagged s \<longleftrightarrow> \<not> js_includes s memory_tag"

lemma untagged_no_bracket: "60 \<notin> set s \<Longrightarrow> untagged s"
  by (auto simp: untagged_def js_includes_iff memory_tag_def)

lemma untagged_join: "untagged u \<Longrightarrow> untagged v \<Longrightarrow> d \<notin> set memory_tag \<Longrightarrow> untagged (u @ d # v)"
  using split_at_unit memory_tag_ne unfolding untagged_def js_includes_iff [of "u @ d # v"] by metis

lemma tag_units: "10 \<notin> set memory_tag" "32 \<notin> set memory_tag"
  by (simp_all add: memory_tag_def)

lemma untagged_line: "untagged v \<Longrightarrow> untagged (10 # v)"
  using untagged_join [of "[]" v 10] tag_units untagged_no_bracket [of "[]"] by simp

definition hidden :: "chat \<Rightarrow> bool" where
  "hidden st \<longleftrightarrow>
     (\<forall>m \<in> set (cb_messages st). ms_role m = Assistant \<longrightarrow> untagged (ms_content m)) \<and>
     untagged (cb_displayedText st) \<and>
     (\<forall>d c. cb_timer st = Some (d, c) \<longrightarrow> untagged c)"

lemma untagged_clean: "untagged (sc_cleanText (parseStreamContent s))"
  using cleanText_hides by (simp add: untagged_def)

lemma untagged_take: "untagged s \<Longrightarrow> untagged (take n s)"
  unfolding untagged_def by (rule contrapos_nn, assumption, rule js_includes_take)

lemma untagged_interrupted: "untagged s \<Longrightarrow> untagged (s @ interrupted_text)"
proof -
  assume "untagged s"
  moreover have "untagged (tl interrupted_text)" by (rule untagged_no_bracket) (simp add: interrupted_text_def)
  ultimately have "untagged (s @ 10 # tl interrupted_text)" using untagged_join tag_units(1) by blast
  moreover have "10 # tl interrupted_text = interrupted_text" by (simp add: interrupted_text_def)
  ultimately show ?thesis by metis
qed

lemma hidden_greeting: "untagged (ms_content greeting)"
  by (rule untagged_no_bracket) (simp add: greeting_def)

lemma untagged_Nil: "untagged []"
  by (rule untagged_no_bracket) simp

lemma hidden_say: "hidden st \<Longrightarrow> (r = Assistant \<Longrightarrow> untagged w) \<Longrightarrow> hidden (say r w s st)"
  by (auto simp: hidden_def say_def)

lemma rewrite_last_set: "m \<in> set (rewrite_last f ms) \<Longrightarrow> ms_role m = Assistant \<Longrightarrow>
    m \<in> set ms \<or> (\<exists>n \<in> set ms. ms_role n = Assistant \<and> ms_content m = f (ms_content n))"
  by (cases ms rule: rev_cases) (auto simp: rewrite_last_def split: if_splits)

lemma hidden_set_last: "hidden st \<Longrightarrow> untagged w \<Longrightarrow> hidden (set_last w st)"
  by (auto simp: hidden_def set_last_def dest!: rewrite_last_set)

lemma hidden_finish [simp]: "hidden (finish i st) = hidden st"
  by (simp add: hidden_def finish_def)

lemma hidden_fields:
  "hidden (st\<lparr>cb_input := s\<rparr>) = hidden st" "hidden (st\<lparr>cb_isLoading := b\<rparr>) = hidden st"
  "hidden (st\<lparr>cb_requests := rs\<rparr>) = hidden st" "hidden (st\<lparr>cb_memory := m\<rparr>) = hidden st"
  "hidden (st\<lparr>cb_crashed := b\<rparr>) = hidden st" "hidden (st\<lparr>cb_streamingText := s\<rparr>) = hidden st"
  "hidden (st\<lparr>cb_isStreaming := b\<rparr>) = hidden st" "hidden (st\<lparr>cb_abortController := c\<rparr>) = hidden st"
  "hidden (st\<lparr>cb_next := n\<rparr>) = hidden st" "hidden (st\<lparr>cb_sent := bs\<rparr>) = hidden st"
  by (simp_all add: hidden_def)

text \<open>The texts the network brings besides the answer.\<close>

fun error_texts :: "chat_event \<Rightarrow> jstr list" where
  "error_texts (Responded i ok status statusText has_body) = [status, statusText]"
| "error_texts (RequestFailed i message) = [message]"
| "error_texts e = []"

lemma untagged_error: "untagged m \<Longrightarrow> untagged ([0x274C] @ js '' **Error communicating with OpenRouter:**'' @ [10, 10] @
      str_or (Some m) (js ''Unknown network error. Please verify your API URL, key, and model choice.''))"
proof -
  assume "untagged m"
  then have "untagged (str_or (Some m) (js ''Unknown network error. Please verify your API URL, key, and model choice.''))"
    by (simp add: str_or_def untagged_no_bracket)
  moreover have "untagged ([0x274C] @ js '' **Error communicating with OpenRouter:**'')"
    by (rule untagged_no_bracket) simp
  ultimately have "untagged (([0x274C] @ js '' **Error communicating with OpenRouter:**'') @ 10 #
      (10 # str_or (Some m) (js ''Unknown network error. Please verify your API URL, key, and model choice.'')))"
    using untagged_join untagged_line tag_units(1) by blast
  then show ?thesis by (simp del: js_Cons)
qed

lemma hidden_failed: "hidden st \<Longrightarrow> untagged m \<Longrightarrow> hidden (failed i m st)"
  unfolding failed_def hidden_finish by (rule hidden_say, assumption, rule untagged_error)

lemma untagged_status:
  assumes "untagged a" "untagged b"
  shows "untagged (js ''API Error: '' @ a @ [32] @ b)"
proof -
  have "untagged (js ''API Error:'')" by (rule untagged_no_bracket) simp
  from untagged_join [OF this untagged_join [OF assms tag_units(2)] tag_units(2)]
  show ?thesis by simp
qed

lemma hidden_pour: "hidden st \<Longrightarrow> hidden (pour q cs st)"
  by (simp add: pour_def hidden_fields hidden_say untagged_Nil)

lemma hidden_displayed: "hidden st \<Longrightarrow> untagged w \<Longrightarrow> hidden (st\<lparr>cb_displayedText := w\<rparr>)"
  by (simp add: hidden_def)

lemma set_last_loading: "set_last c (st\<lparr>cb_isLoading := b\<rparr>) = (set_last c st)\<lparr>cb_isLoading := b\<rparr>"
  by (cases st) (simp add: set_last_def)

lemma hidden_closing:
  assumes "hidden st"
  shows "hidden (set_last (sc_cleanText (parseStreamContent x)) st)"
    "hidden (set_last (sc_cleanText (parseStreamContent x)) ((say Assistant w s st)\<lparr>cb_isLoading := b\<rparr>))"
  using assms untagged_clean
  by (simp_all add: set_last_loading set_last_say hidden_fields hidden_say hidden_set_last)

lemma hidden_ended: "hidden st \<Longrightarrow> hidden (stream_ended f q st)"
  by (simp add: stream_ended_def add_contents_pour Let_def hidden_fields hidden_displayed untagged_clean
      hidden_closing hidden_pour split: option.split)

lemma hidden_chunk: "hidden st \<Longrightarrow> hidden (chunk_read f i v d st)"
  by (auto simp: chunk_read_def add_contents_pour put_request_def hidden_fields hidden_pour hidden_ended
      split: option.split prod.split)

lemma hidden_abort: "hidden (abort_current st) = hidden st"
  by (simp add: hidden_def)

lemma hidden_send: "hidden st \<Longrightarrow> hidden (handleSendMessage env st)"
proof -
  assume h: "hidden st"
  have "untagged missing_key_text" by (rule untagged_no_bracket) (simp add: missing_key_text_def)
  with h show ?thesis
    by (auto simp: handleSendMessage_def Let_def hidden_fields hidden_abort intro!: hidden_say)
qed

lemma hidden_inputs:
  "hidden st \<Longrightarrow> hidden (handleSuggestionClick s st)" "hidden st \<Longrightarrow> hidden (handleStopStreaming st)"
  by (simp_all add: handleSuggestionClick_def handleStopStreaming_def hidden_fields hidden_abort)

lemma hidden_handle:
  assumes h: "hidden st" and "\<forall>t \<in> set (error_texts e). untagged t"
  shows "hidden (chat_handle env e st)"
proof (cases e)
  case (Responded i ok a b body)
  with assms(2) have "untagged (js ''API Error: '' @ a @ [32] @ b)" using untagged_status by simp
  then have "hidden (failed i (js ''API Error: '' @ a @ [32] @ b) st)" using hidden_failed h by blast
  then have "hidden (responded i ok a b body st)"
    using h untagged_Nil by (simp add: responded_def Let_def put_request_def hidden_fields hidden_displayed
        del: js_Cons split: option.split)
  with Responded show ?thesis by simp
next
  case (RequestFailed i m)
  with assms show ?thesis by (simp add: request_failed_def hidden_failed split: option.split)
next
  case (AbortDelivered i)
  have "hidden (st\<lparr>cb_messages := rewrite_last (\<lambda>old. old @ interrupted_text) (cb_messages st)\<rparr>)"
    using h untagged_interrupted by (auto simp: hidden_def dest!: rewrite_last_set)
  with h AbortDelivered show ?thesis by (simp add: abort_delivered_def interrupted_def split: option.split)
next
  case ClearClick
  with h hidden_greeting show ?thesis by (simp add: handleClear_def hidden_def)
next
  case EffectsRun
  with h untagged_clean show ?thesis by (auto simp: effects_run_def hidden_def Let_def)
next
  case TimerFired
  show ?thesis
  proof (cases "cb_timer st")
    case (Some p)
    obtain d c where p: "p = (d, c)" by fastforce
    then have c: "untagged c" using h Some by (simp add: hidden_def)
    have "hidden (st\<lparr>cb_timer := None\<rparr>)" using h by (simp add: hidden_def)
    with c show ?thesis
      unfolding TimerFired by (simp add: timer_fired_def Some p Let_def hidden_displayed hidden_set_last untagged_take)
  qed (use h TimerFired in \<open>simp add: timer_fired_def\<close>)
qed (simp_all add: h hidden_send hidden_chunk hidden_fields hidden_inputs)

text \<open>C17: The assistant's messages never show the memory block, not while the answer is typed, not
  after it has ended, was stopped or has failed: as long as the error texts of the network do not
  contain its opening tag, no message of the assistant and no text on its way to one does.
\<close>
theorem memory_block_hidden:
  assumes "\<forall>e \<in> set es. \<forall>t \<in> set (error_texts e). untagged t"
  shows "(\<forall>m \<in> set (cb_messages (chat_run env es chat_init)). ms_role m = Assistant \<longrightarrow> untagged (ms_content m)) \<and>
    untagged (cb_displayedText (chat_run env es chat_init))"
proof -
  have "hidden st \<Longrightarrow> hidden (chat_run env es st)" for st
    using assms
  proof (induction es arbitrary: st)
    case (Cons e es)
    have "hidden (chat_step env e st)"
      using Cons.prems hidden_handle [of st e env] by (simp add: chat_step_def)
    then show ?case using Cons by simp
  qed simp
  moreover have "hidden chat_init" using hidden_greeting untagged_Nil by (simp add: hidden_def chat_init_def)
  ultimately have "hidden (chat_run env es chat_init)" by blast
  then show ?thesis unfolding hidden_def by blast
qed

subsection \<open>Where the chat breaks its rules\<close>

lemma find_request_id: "q \<in> set (cb_requests st) \<Longrightarrow> \<exists>r. find_request (rq_id q) st = Some r"
  by (cases "find_request (rq_id q) st") (auto simp: find_request_def find_None_iff)

text \<open>The state after a message was submitted and the abort of the request before it arrived.\<close>

lemma resend_state:
  assumes i: "chat_inv st" and "\<not> cb_crashed st" "q \<in> set (cb_requests st)" "\<not> cb_isLoading st"
    and "js_trim (cb_input st) \<noteq> []" "str_or (cv_apiKey env) [] \<noteq> []"
  obtains r where "r \<in> set (cb_requests (chat_run env [Submit, AbortDelivered (rq_id q)] st))"
    "\<not> rq_aborted r" "rq_phase r = Fetching" "rq_id r = cb_next st"
    "\<not> cb_isLoading (chat_run env [Submit, AbortDelivered (rq_id q)] st)"
    "\<not> cb_isStreaming (chat_run env [Submit, AbortDelivered (rq_id q)] st)"
    "\<not> cb_crashed (chat_run env [Submit, AbortDelivered (rq_id q)] st)"
    "length (cb_sent (chat_run env [Submit, AbortDelivered (rq_id q)] st)) = length (cb_sent st) + 1"
proof -
  let ?s = "handleSendMessage env st"
  let ?new = "\<lparr>rq_id = cb_next st, rq_topResults = top_results env (js_trim (cb_input st)), rq_phase = Fetching,
        rq_buffer = [], rq_hasAdded = False, rq_aborted = False\<rparr>"
  have rs: "cb_requests ?s = cb_requests (abort_current st) @ [?new]" "\<not> cb_crashed ?s"
    "length (cb_sent ?s) = length (cb_sent st) + 1"
    using assms by (simp_all add: handleSendMessage_def Let_def say_def top_results_def)
  have "rq_id q \<in> set (map rq_id (cb_requests (abort_current st)))"
    using assms(3) by (simp only: abort_requests(2) [OF i]) simp
  then obtain q1 where q1: "q1 \<in> set (cb_requests (abort_current st))" "rq_id q1 = rq_id q" by auto
  have lt: "rq_id q < cb_next st" using i assms(3) by (simp add: chat_inv_def request_ok_def)
  from q1 rs(1) obtain r where r: "find_request (rq_id q) ?s = Some r"
    using find_request_id [of q1 ?s] by auto
  then have "r \<in> set (cb_requests ?s)" "rq_id r = rq_id q" using find_request_Some by blast+
  with rs(1) lt have "r \<in> set (cb_requests (abort_current st))" by auto
  then have "rq_aborted r" using abort_requests(1) [OF i] by blast
  then have run: "chat_run env [Submit, AbortDelivered (rq_id q)] st = interrupted (rq_id q) ?s"
    using assms(2) rs(2) r by (simp add: chat_step_def abort_delivered_def)
  show ?thesis
    by (rule that [of ?new]; (unfold run)?) (use rs lt in \<open>simp_all add: interrupted_def finish_def\<close>)
qed

text \<open>C21: Sending a message while an answer streams in takes its loading state away: the request it
  replaces ends after the new one has started and clears the flags the two share. The new request
  is in flight with nothing shown as loading, and the guard against a second request lets the next
  message through.
\<close>
theorem resend_drops_loading:
  assumes "st = chat_run env es chat_init" "\<not> cb_crashed st" "q \<in> set (cb_requests st)" "\<not> cb_isLoading st"
    and "js_trim (cb_input st) \<noteq> []" "str_or (cv_apiKey env) [] \<noteq> []" "js_trim s \<noteq> []"
    and "st1 = chat_run env [Submit, AbortDelivered (rq_id q)] st"
  shows "(\<exists>r \<in> set (cb_requests st1). \<not> rq_aborted r \<and> rq_phase r = Fetching) \<and>
    \<not> cb_isLoading st1 \<and> \<not> cb_isStreaming st1 \<and>
    length (cb_sent (chat_run env [TypeInput s, Submit] st1)) = length (cb_sent st) + 2"
proof -
  have "chat_inv st" using run_inv assms(1) by simp
  from resend_state [OF this assms(2-6)] obtain r where r: "r \<in> set (cb_requests st1)" "\<not> rq_aborted r"
    "rq_phase r = Fetching" "\<not> cb_isLoading st1" "\<not> cb_isStreaming st1" "\<not> cb_crashed st1"
    "length (cb_sent st1) = length (cb_sent st) + 1"
    unfolding assms(8) by metis
  then have "length (cb_sent (chat_run env [TypeInput s, Submit] st1)) = length (cb_sent st) + 2"
    using assms(6,7) by (simp add: chat_step_def handleSendMessage_def Let_def say_def)
  with r show ?thesis by blast
qed

text \<open>What the effects of a streaming answer cannot do once their timer has gone.\<close>

definition stalled :: "jstr \<Rightarrow> chat \<Rightarrow> bool" where
  "stalled d st \<longleftrightarrow> cb_isStreaming st \<and> cb_timer st = None \<and> cb_deps st = (d, True) \<and> cb_displayedText st = d"

fun of_stream :: "chat_event \<Rightarrow> bool" where
  "of_stream (ChunkRead i v d) = True"
| "of_stream EffectsRun = True"
| "of_stream TimerFired = True"
| "of_stream e = False"

lemma ended_not_streaming: "\<not> cb_isStreaming (stream_ended f q st)"
  by (simp add: stream_ended_def add_contents_pour finish_def Let_def)

text \<open>The messages grow by empty ones only.\<close>

definition empties :: "(jstr \<times> jstr) list list \<Rightarrow> chat_message list" where
  "empties ss = map (\<lambda>src. \<lparr>ms_role = Assistant, ms_content = [], ms_sources = Some src\<rparr>) ss"

definition adds_empties :: "chat \<Rightarrow> chat \<Rightarrow> bool" where
  "adds_empties st st' \<longleftrightarrow> (\<exists>ss. cb_messages st' = cb_messages st @ empties ss)"

lemma adds_empties_refl: "cb_messages st' = cb_messages st \<Longrightarrow> adds_empties st st'"
  unfolding adds_empties_def by (rule exI [of _ "[]"]) (simp add: empties_def)

lemma adds_empties_trans: "adds_empties s t \<Longrightarrow> adds_empties t u \<Longrightarrow> adds_empties s u"
  unfolding adds_empties_def empties_def by (metis append.assoc map_append)

lemma adds_empties_pour: "adds_empties st (pour q cs st)"
proof (cases "cs = [] \<or> rq_hasAdded q")
  case True
  then show ?thesis by (intro adds_empties_refl) (auto simp: pour_def)
next
  case False
  then show ?thesis unfolding adds_empties_def empties_def
    by (intro exI [of _ "[chunk_sources (rq_topResults q)]"]) (simp add: pour_def say_def)
qed

lemma chunk_stalled:
  assumes "stalled d st"
  shows "stalled d (chunk_read f i v e st) \<and> adds_empties st (chunk_read f i v e st) \<or>
    \<not> cb_isStreaming (chunk_read f i v e st)"
proof -
  have "adds_empties st (put_request r (pour q cs st))" for r q cs
    using adds_empties_trans [OF adds_empties_pour adds_empties_refl] by (simp add: put_request_def)
  moreover have "stalled d (put_request r (pour q cs st))" for r q cs
    using assms by (simp add: stalled_def put_request_def)
  ultimately show ?thesis
    using assms ended_not_streaming adds_empties_refl [OF refl]
    by (auto simp: chunk_read_def add_contents_pour split: option.split prod.split)
qed

lemma of_stream_step:
  assumes "of_stream e" "stalled d st"
  shows "stalled d (chat_step env e st) \<and> adds_empties st (chat_step env e st) \<or>
    \<not> cb_isStreaming (chat_step env e st)"
  using assms chunk_stalled [OF assms(2)] adds_empties_refl [OF refl]
  by (cases e) (auto simp: chat_step_def effects_run_def timer_fired_def stalled_def)

lemma not_streaming_step:
  assumes "of_stream e" "\<not> cb_isStreaming st"
  shows "\<not> cb_isStreaming (chat_step env e st)"
proof (cases e)
  case (ChunkRead i v d)
  then show ?thesis using assms ended_not_streaming
    by (auto simp: chat_step_def chunk_read_def add_contents_pour put_request_def split: option.split prod.split)
qed (use assms in \<open>auto simp: chat_step_def effects_run_def timer_fired_def Let_def set_last_def split: option.split\<close>)

lemma not_streaming_run: "list_all of_stream es \<Longrightarrow> \<not> cb_isStreaming st \<Longrightarrow> \<not> cb_isStreaming (chat_run env es st)"
  by (induction es arbitrary: st) (auto simp: not_streaming_step)

text \<open>C22: The typewriter stalls: once its timer has fired with nothing new to type, the effect that
  would start the next one runs only when the text typed so far or the flag changes, and neither does.
  However much more of the answer arrives, and whatever effects and timers run, as long as the stream has
  not ended nothing of it is shown: the messages are the ones from before, followed by messages of
  the assistant with empty content, and no timer is set that could fill them.
\<close>
theorem typewriter_stalls:
  assumes "cb_isStreaming st" "cb_timer st = None" "cb_deps st = (cb_displayedText st, True)"
    and "list_all of_stream es" "cb_isStreaming (chat_run env es st)"
  shows "(\<exists>ss. cb_messages (chat_run env es st) = cb_messages st @
      map (\<lambda>src. \<lparr>ms_role = Assistant, ms_content = [], ms_sources = Some src\<rparr>) ss) \<and>
    cb_displayedText (chat_run env es st) = cb_displayedText st \<and> cb_timer (chat_run env es st) = None"
proof -
  have "stalled d st \<Longrightarrow> stalled d (chat_run env es st) \<and> adds_empties st (chat_run env es st)" for d
    using assms(4,5)
  proof (induction es arbitrary: st)
    case (Cons e es)
    have "stalled d (chat_step env e st)" "adds_empties st (chat_step env e st)"
      using of_stream_step [of e d st env] not_streaming_run [of es "chat_step env e st" env] Cons.prems by auto
    with Cons adds_empties_trans show ?case by fastforce
  qed (simp add: adds_empties_refl)
  moreover have "stalled (cb_displayedText st) st" using assms(1-3) by (simp add: stalled_def)
  ultimately have "stalled (cb_displayedText st) (chat_run env es st)" "adds_empties st (chat_run env es st)" by blast+
  then show ?thesis by (simp add: stalled_def adds_empties_def empties_def)
qed

text \<open>A response without content shows an empty message: the text that is put in for it is
  replaced by the cleaned answer, which is empty, in the same step.
\<close>
theorem empty_answer_shows_nothing:
  assumes "find_request i st = Some q" "rq_phase q = Reading" "\<not> rq_hasAdded q" "rq_buffer q = []"
    and "cb_streamingText st = []" "\<not> cb_crashed st"
  shows "cb_messages (chat_step env (ChunkRead i None True) st) = cb_messages st @
    [\<lparr>ms_role = Assistant, ms_content = [], ms_sources = Some (chunk_sources (rq_topResults q))\<rparr>]"
  using assms
  by (simp add: chat_step_def chunk_read_def stream_feed_def stream_ended_def stream_tail_def say_def set_last_def
      rewrite_last_def parse_plain js_includes_iff memory_tag_ne remember_def finish_def Let_def)

lemma last_rewritten: "ms \<noteq> [] \<Longrightarrow> ms_role (last ms) = Assistant \<Longrightarrow>
    ms_content (last (rewrite_last f ms)) = f (ms_content (last ms)) \<and> ms_role (last (rewrite_last f ms)) = Assistant"
  by (simp add: rewrite_last_def)

lemma type_step:
  assumes "\<not> cb_crashed st" "cb_deps st \<noteq> (cb_displayedText st, cb_isStreaming st)"
    and "clean = sc_cleanText (parseStreamContent (cb_streamingText st))" "length (cb_displayedText st) < length clean"
    and "cb_messages st \<noteq> []" "ms_role (last (cb_messages st)) = Assistant"
  shows "ms_content (last (cb_messages (chat_run env [EffectsRun, TimerFired] st))) =
    take (length (cb_displayedText st) + min 3 (length clean - length (cb_displayedText st))) clean"
proof -
  have "effects_run st = st\<lparr>cb_deps := (cb_displayedText st, cb_isStreaming st),
      cb_timer := Some (cb_displayedText st, clean)\<rparr>"
    using assms(2-4) by (simp add: effects_run_def Let_def)
  then show ?thesis using assms(1,4,5,6) last_rewritten [OF assms(5,6)]
    by (simp add: chat_step_def timer_fired_def Let_def set_last_def)
qed

text \<open>The notice that an answer was interrupted is typed over when the typewriter is behind.\<close>

lemma stopped_notice_typed_over:
  assumes "cb_deps st = (cb_displayedText st, True)" "cb_isStreaming st" "\<not> cb_crashed st"
    and "cb_abortController st = Some (rq_id q)" "q \<in> set (cb_requests st)" "distinct (map rq_id (cb_requests st))"
    and "ms_role (last (cb_messages st)) = Assistant" "cb_messages st \<noteq> []"
    and "clean = sc_cleanText (parseStreamContent (cb_streamingText st))" "length (cb_displayedText st) < length clean"
  shows "ms_content (last (cb_messages (chat_run env [StopClick, AbortDelivered (rq_id q), EffectsRun, TimerFired] st))) =
    take (length (cb_displayedText st) + min 3 (length clean - length (cb_displayedText st))) clean"
proof -
  let ?s = "handleStopStreaming st"
  have rs: "cb_requests ?s = map (\<lambda>r. if rq_id r = rq_id q then r\<lparr>rq_aborted := True\<rparr> else r) (cb_requests st)"
    using assms(4) by (simp add: handleStopStreaming_def abort_current_def)
  then have "q\<lparr>rq_aborted := True\<rparr> \<in> set (cb_requests ?s)"
    using assms(5) by (auto intro: rev_image_eqI [of q])
  then obtain r where r: "find_request (rq_id q) ?s = Some r"
    using find_request_id [of "q\<lparr>rq_aborted := True\<rparr>" ?s] by auto
  then have "r \<in> set (cb_requests ?s)" "rq_id r = rq_id q" using find_request_Some by blast+
  then have "rq_aborted r" unfolding rs by auto
  with r have "chat_run env [StopClick, AbortDelivered (rq_id q), EffectsRun, TimerFired] st =
      chat_run env [EffectsRun, TimerFired] (interrupted (rq_id q) ?s)"
    using assms(2,3) by (simp add: chat_step_def abort_delivered_def handleStopStreaming_def)
  moreover have "cb_messages (interrupted (rq_id q) ?s) = rewrite_last (\<lambda>old. old @ interrupted_text) (cb_messages st)"
    "cb_displayedText (interrupted (rq_id q) ?s) = cb_displayedText st"
    "cb_streamingText (interrupted (rq_id q) ?s) = cb_streamingText st"
    "cb_deps (interrupted (rq_id q) ?s) = cb_deps st" "\<not> cb_isStreaming (interrupted (rq_id q) ?s)"
    "\<not> cb_crashed (interrupted (rq_id q) ?s)"
    using assms(3) by (simp_all add: interrupted_def finish_def handleStopStreaming_def)
  ultimately show ?thesis
    using type_step [of "interrupted (rq_id q) ?s" clean env] assms(1,7-10) last_rewritten [OF assms(8,7)] by simp
qed

text \<open>The greeting a cleared conversation starts with is typed over by the answer still streaming.\<close>

lemma cleared_greeting_typed_over:
  assumes "cb_timer st = Some (d, c)" "length d < length c" "\<not> cb_crashed st"
  shows "cb_messages (chat_run env [ClearClick, TimerFired] st) =
    [greeting\<lparr>ms_content := take (length d + min 3 (length c - length d)) c\<rparr>]"
  using assms by (simp add: chat_step_def handleClear_def timer_fired_def set_last_def rewrite_last_def
      greeting_def Let_def)

end
