(* ===== verification/ChatWitness.thy ===== *)
theory ChatWitness
  imports ChatSafety
begin

text \<open>Concrete runs of the chat machine at which the properties with hypotheses apply.\<close>

lemma trim_q: "js_trim (js ''q'') = js ''q''"
  by (rule js_trim_id) (simp add: trimmed_def is_ws_def)

lemma no_docs: "top_results plain_env s = []"
  by (simp add: top_results_def plain_env_def searchChunks_def Let_def)

lemma plain_key: "str_or (cv_apiKey plain_env) [] \<noteq> []" "cv_show_num plain_env = id"
  by (simp_all add: plain_env_def str_or_def)

definition typed :: chat where
  "typed = chat_run plain_env [TypeInput (js ''q'')] chat_init"

lemma typed_eq: "typed = chat_init\<lparr>cb_input := js ''q''\<rparr>"
  by (simp add: typed_def chat_step_def chat_init_def)

text \<open>A question was asked, and the response has begun.\<close>

definition first_request :: request where
  "first_request = \<lparr>rq_id = 0, rq_topResults = [], rq_phase = Reading, rq_buffer = [], rq_hasAdded = False, rq_aborted = False\<rparr>"

definition asked :: chat where
  "asked = chat_run plain_env [TypeInput (js ''q''), Submit, Responded 0 True [] [] True] chat_init"

lemma typed_submit:
  "chat_step plain_env Submit typed = (say User (js ''q'') None typed)\<lparr>cb_input := [], cb_isLoading := True,
     cb_abortController := Some 0, cb_next := 1, cb_requests := [first_request\<lparr>rq_phase := Fetching\<rparr>],
     cb_sent := [request_body plain_env (js ''q'') [] typed]\<rparr>"
proof -
  have "\<not> cb_crashed typed" "cb_requests typed = []" "\<not> cb_isLoading typed" "js_trim (cb_input typed) = js ''q''"
    using trim_q by (simp_all add: typed_eq chat_init_def)
  from send_state [OF this _ plain_key(1)] show ?thesis
    by (simp add: no_docs first_request_def typed_eq chat_init_def)
qed

lemma asked_eq:
  "asked = (chat_step plain_env Submit typed)\<lparr>cb_isStreaming := True, cb_streamingText := [], cb_displayedText := [],
     cb_requests := [first_request]\<rparr>"
proof -
  have "asked = chat_step plain_env (Responded 0 True [] [] True) (chat_step plain_env Submit typed)"
    by (simp add: asked_def typed_def)
  then show ?thesis
    unfolding typed_submit
    by (simp add: chat_step_def responded_def find_request_def put_request_def say_def typed_eq chat_init_def
        first_request_def)
qed

lemma asked_fields:
  "find_request 0 asked = Some first_request" "cb_streamingText asked = []" "\<not> cb_crashed asked"
  "cb_isStreaming asked" "cb_isLoading asked" "cb_timer asked = None" "cb_deps asked = ([], False)"
  "cb_displayedText asked = []"
  unfolding asked_eq typed_submit by (simp_all add: find_request_def first_request_def say_def typed_eq chat_init_def)

lemma asked_requests: "cb_requests asked = [first_request]"
  unfolding asked_eq by simp

text \<open>The first piece of the answer.\<close>

definition hi_event :: stream_item where
  "hi_event = Event (js ''{\"choices\":[{\"delta\":{\"content\":\"Hi\"}}]}'')"

definition piece_row :: jstr where
  "piece_row = item_row hi_event @ [10]"

lemma feed_piece: "stream_feed id (Some piece_row) False [] = ([], False, [js ''Hi''])"
  by code_simp

lemma hi_event_ok: "list_all item_ok [hi_event]" "concat (map item_piece [hi_event]) = js ''Hi''"
  by code_simp+

lemma asked_piece:
  "chat_step plain_env (ChunkRead 0 (Some piece_row) False) asked =
     put_request (first_request\<lparr>rq_hasAdded := True\<rparr>) (pour first_request [js ''Hi''] asked)"
  using asked_fields(1,3) feed_piece
  by (simp add: chat_step_def chunk_read_def plain_key(2) first_request_def add_contents_pour pour_buffer)

text \<open>The first piece arrives alone; the typewriter runs and the reader types before the rest arrives.\<close>

definition stirring_run :: "chat_event list" where
  "stirring_run = [EffectsRun, Responded 0 True [] [] True, EffectsRun, ChunkRead 0 (Some piece_row) False,
     EffectsRun, TimerFired, TypeInput (js ''next'')]"

definition rest_row :: jstr where
  "rest_row = [10] @ done_line @ [10, 10]"

lemma undisturbed_requests: "undisturbing e \<Longrightarrow> cb_requests (chat_step env e st) = cb_requests st \<and>
    cb_crashed (chat_step env e st) = cb_crashed st"
  using stirred_step [OF stirred_refl] stirred_fields by blast

lemma stirring_busy: "cb_requests (chat_run plain_env (Submit # stirring_run) typed) \<noteq> []"
proof -
  let ?s = "chat_step plain_env EffectsRun asked"
  have "chat_step plain_env EffectsRun (chat_step plain_env Submit typed) = chat_step plain_env Submit typed"
    unfolding typed_submit by (simp add: chat_step_def effects_run_def say_def typed_eq chat_init_def)
  then have "chat_run plain_env (Submit # stirring_run) typed =
      chat_run plain_env [ChunkRead 0 (Some piece_row) False, EffectsRun, TimerFired, TypeInput (js ''next'')] ?s"
    by (simp add: stirring_run_def asked_def typed_def)
  moreover have "find_request 0 ?s = Some first_request" "\<not> cb_crashed ?s" "cb_requests ?s = [first_request]"
    using undisturbed_requests [of EffectsRun plain_env asked] asked_fields asked_requests
    by (simp_all add: find_request_def)
  then have "cb_requests (chat_step plain_env (ChunkRead 0 (Some piece_row) False) ?s) =
      [first_request\<lparr>rq_hasAdded := True\<rparr>]"
    using feed_piece
    by (simp add: chat_step_def [of _ "ChunkRead _ _ _"] chunk_read_def plain_key(2) first_request_def add_contents_pour
        put_request_def)
  ultimately show ?thesis by (simp add: undisturbed_requests)
qed

theorem answer_received_witness:
  "cb_messages (chat_run plain_env (Submit # stirring_run @ map (\<lambda>v. ChunkRead 0 (Some v) False) [rest_row]) typed) =
     [greeting, \<lparr>ms_role = User, ms_content = js ''q'', ms_sources = None\<rparr>,
      \<lparr>ms_role = Assistant, ms_content = js ''Hi'', ms_sources = Some []\<rparr>]"
proof -
  have t: "\<not> cb_crashed typed" "cb_requests typed = []" "js_trim (cb_input typed) = js ''q''" "cb_next typed = 0"
    "cb_messages typed = [greeting]"
    using trim_q by (simp_all add: typed_eq chat_init_def)
  have "\<not> js_includes (js ''Hi'') memory_tag" by (simp add: memory_tag_def)
  from parse_plain [OF this] have p: "sc_cleanText (parseStreamContent (js ''Hi'')) = js ''Hi''"
    "sc_memoryBlock (parseStreamContent (js ''Hi'')) = []" by simp_all
  have f: "filter (\<lambda>e. \<not> undisturbing e) stirring_run = Responded (cb_next typed) True [] [] True #
      map (\<lambda>v. ChunkRead (cb_next typed) (Some v) False) [piece_row]"
    by (simp add: stirring_run_def t(4))
  have c: "concat ([piece_row] @ [rest_row]) = event_stream [hi_event]"
    by (simp add: piece_row_def rest_row_def event_stream_def)
  show ?thesis
    using answer_received [OF typed_def t(1,2) refl _ plain_key(1) hi_event_ok(1) c refl _ _ f stirring_busy refl, of "cb_memory typed"] t p
    by (simp add: hi_event_ok(2) [simplified] no_docs chunk_sources_def remember_def)
qed

theorem memory_block_hidden_witness:
  "\<exists>s. cb_messages (chat_run plain_env [TypeInput (js ''q''), Submit, RequestFailed 0 (js ''down'')] chat_init) =
     [greeting, \<lparr>ms_role = User, ms_content = js ''q'', ms_sources = None\<rparr>,
      \<lparr>ms_role = Assistant, ms_content = s, ms_sources = None\<rparr>] \<and> untagged s"
proof -
  let ?es = "[TypeInput (js ''q''), Submit, RequestFailed 0 (js ''down'')]"
  let ?st = "chat_step plain_env (RequestFailed 0 (js ''down'')) (chat_step plain_env Submit typed)"
  obtain s where m: "cb_messages ?st = [greeting, \<lparr>ms_role = User, ms_content = js ''q'', ms_sources = None\<rparr>,
      \<lparr>ms_role = Assistant, ms_content = s, ms_sources = None\<rparr>]"
    unfolding typed_submit
    by (simp add: chat_step_def request_failed_def find_request_def failed_def finish_def say_def typed_eq chat_init_def
        first_request_def)
  have r: "chat_run plain_env ?es chat_init = ?st" by (simp add: typed_def)
  have "\<forall>e \<in> set ?es. \<forall>t \<in> set (error_texts e). untagged t"
    using untagged_no_bracket [of "js ''down''"] by simp
  from memory_block_hidden [OF this, of plain_env] have "untagged s"
    unfolding r m by simp
  then show ?thesis using m unfolding r by blast
qed

theorem resend_drops_loading_witness:
  "\<exists>st. st = chat_run plain_env [TypeInput (js ''q''), Submit, Responded 0 True [] [] True,
       ChunkRead 0 (Some piece_row) False, TypeInput (js ''q'')] chat_init \<and> cb_isStreaming st \<and>
     \<not> cb_isLoading (chat_run plain_env [Submit, AbortDelivered 0] st) \<and>
     (\<exists>r \<in> set (cb_requests (chat_run plain_env [Submit, AbortDelivered 0] st)). \<not> rq_aborted r)"
proof -
  let ?es = "[TypeInput (js ''q''), Submit, Responded 0 True [] [] True, ChunkRead 0 (Some piece_row) False, TypeInput (js ''q'')]"
  let ?st = "chat_run plain_env ?es chat_init"
  have st: "?st = (put_request (first_request\<lparr>rq_hasAdded := True\<rparr>) (pour first_request [js ''Hi''] asked))\<lparr>cb_input := js ''q''\<rparr>"
  proof -
    have "?st = chat_step plain_env (TypeInput (js ''q'')) (chat_step plain_env (ChunkRead 0 (Some piece_row) False) asked)"
      by (simp add: asked_def)
    then show ?thesis unfolding asked_piece using asked_fields(3) by (simp add: chat_step_def put_request_def)
  qed
  have f: "\<not> cb_crashed ?st" "cb_isStreaming ?st" "cb_input ?st = js ''q''" "\<not> cb_isLoading ?st"
    "first_request\<lparr>rq_hasAdded := True\<rparr> \<in> set (cb_requests ?st)"
    unfolding st using asked_fields(3,4) asked_requests
    by (simp_all add: put_request_def pour_def say_def first_request_def)
  have "js_trim (cb_input ?st) \<noteq> []" unfolding f(3) trim_q by simp
  from resend_drops_loading [OF refl f(1,5,4) this plain_key(1), of "js ''q''" _, OF _ refl] trim_q
  show ?thesis using f(2) by (auto simp: first_request_def)
qed

theorem typewriter_stalls_witness:
  "\<exists>ss. cb_messages (chat_run plain_env ([TypeInput (js ''q''), Submit, Responded 0 True [] [] True, EffectsRun, TimerFired] @
      [ChunkRead 0 (Some piece_row) False, EffectsRun, TimerFired]) chat_init) =
    [greeting, \<lparr>ms_role = User, ms_content = js ''q'', ms_sources = None\<rparr>] @
    map (\<lambda>src. \<lparr>ms_role = Assistant, ms_content = [], ms_sources = Some src\<rparr>) ss"
proof -
  let ?st = "chat_run plain_env [EffectsRun, TimerFired] asked"
  have st: "?st = asked\<lparr>cb_deps := ([], True), cb_timer := None\<rparr>"
    using asked_fields by (simp add: chat_step_def effects_run_def timer_fired_def Let_def)
      (simp add: parseStreamContent_def memory_tag_def)
  have m: "cb_messages ?st = [greeting, \<lparr>ms_role = User, ms_content = js ''q'', ms_sources = None\<rparr>]"
    unfolding st unfolding asked_eq typed_submit by (simp add: say_def typed_eq chat_init_def)
  have "cb_isStreaming (chat_run plain_env [ChunkRead 0 (Some piece_row) False, EffectsRun, TimerFired] ?st)"
    unfolding st using asked_fields feed_piece
    by (simp add: chat_step_def chunk_read_def plain_key(2) find_request_def first_request_def add_contents_pour
        effects_run_def timer_fired_def put_request_def)
  then have "\<exists>ss. cb_messages (chat_run plain_env [ChunkRead 0 (Some piece_row) False, EffectsRun, TimerFired] ?st) =
      cb_messages ?st @ map (\<lambda>src. \<lparr>ms_role = Assistant, ms_content = [], ms_sources = Some src\<rparr>) ss"
    using typewriter_stalls [of ?st "[ChunkRead 0 (Some piece_row) False, EffectsRun, TimerFired]" plain_env] asked_fields
    unfolding st by simp
  then show ?thesis unfolding m by (simp add: asked_def)
qed

theorem empty_answer_shows_nothing_witness:
  "ms_content (last (cb_messages (chat_step plain_env (ChunkRead 0 None True) asked))) = []"
  using empty_answer_shows_nothing [OF asked_fields(1) _ _ _ asked_fields(2,3), of plain_env]
  by (simp add: first_request_def)

end
