(* ===== verification/ChatTeaser.thy ===== *)
theory ChatTeaser
  imports JsString Machine
begin

text \<open>
  The lines that invite to the chat while it is closed (the effect on \<open>[isOpen]\<close> of
  \<open>components/Chatbox.tsx\<close>) as a machine: the first line after two seconds, the next ones every
  twelve, each hidden again after five. The state is that of the component, the timers pending and
  the variables of the running effect; \<open>tz_hideTimers\<close> are all the timers that hide a line,
  \<open>tz_hideTimerRef\<close> is the one the effect still knows and clears. Any pending timer may fire next.
\<close>

definition attractionMessages :: "jstr list" where
  "attractionMessages = [
     js ''Ask Aquilia Assistant'',
     js ''Stuck on DI Containers?'',
     js ''Need help with ORM Migrations?'',
     js ''Configure Tasks & Workers'',
     js ''Discover pluggable authentication'']"

record teaser =
  tz_isOpen :: bool
  tz_currentMessageIdx :: nat
  tz_show :: bool
  tz_initialTimer :: bool
  tz_loopInterval :: bool
  tz_hideTimers :: "nat list"
  tz_hideTimerRef :: "nat option"
  tz_cycleCount :: nat
  tz_nextTimer :: nat

text \<open>The effect, and what it returns to be run before the next one.\<close>

definition teaser_effect :: "teaser \<Rightarrow> teaser" where
  "teaser_effect s =
     (if tz_isOpen s then s\<lparr>tz_show := False\<rparr>
      else s\<lparr>tz_hideTimerRef := None, tz_initialTimer := True, tz_cycleCount := 1, tz_loopInterval := True\<rparr>)"

definition teaser_cleanup :: "teaser \<Rightarrow> teaser" where
  "teaser_cleanup s =
     (let s = s\<lparr>tz_initialTimer := False, tz_loopInterval := False\<rparr> in
      case tz_hideTimerRef s of
        None \<Rightarrow> s
      | Some k \<Rightarrow> s\<lparr>tz_hideTimers := filter (\<lambda>j. j \<noteq> k) (tz_hideTimers s)\<rparr>)"

definition triggerMessage :: "nat \<Rightarrow> teaser \<Rightarrow> teaser" where
  "triggerMessage index s =
     s\<lparr>tz_currentMessageIdx := index, tz_show := True, tz_hideTimers := tz_hideTimers s @ [tz_nextTimer s],
       tz_hideTimerRef := Some (tz_nextTimer s), tz_nextTimer := tz_nextTimer s + 1\<rparr>"

definition teaser_init :: teaser where
  "teaser_init = teaser_effect \<lparr>tz_isOpen = False, tz_currentMessageIdx = 0, tz_show = False, tz_initialTimer = False,
     tz_loopInterval = False, tz_hideTimers = [], tz_hideTimerRef = None, tz_cycleCount = 0, tz_nextTimer = 0\<rparr>"

datatype teaser_event =
    SetOpen bool
  | InitialFires
  | IntervalFires
  | HideFires nat

fun teaser_step :: "teaser_event \<Rightarrow> teaser \<Rightarrow> teaser" where
  "teaser_step (SetOpen b) s =
     (if tz_isOpen s = b then s
      else teaser_effect ((if tz_isOpen s then s else teaser_cleanup s)\<lparr>tz_isOpen := b\<rparr>))"
| "teaser_step InitialFires s =
     (if tz_initialTimer s then triggerMessage 0 (s\<lparr>tz_initialTimer := False\<rparr>) else s)"
| "teaser_step IntervalFires s =
     (if tz_loopInterval s
      then (triggerMessage (tz_cycleCount s mod length attractionMessages) s)\<lparr>tz_cycleCount := tz_cycleCount s + 1\<rparr>
      else s)"
| "teaser_step (HideFires k) s =
     (if k \<in> set (tz_hideTimers s)
      then s\<lparr>tz_show := False, tz_hideTimers := filter (\<lambda>j. j \<noteq> k) (tz_hideTimers s)\<rparr> else s)"

text \<open>The line drawn is one of the table; nothing is shown or waiting to be shown over an open
  chat, and a line that is shown has a timer that hides it.\<close>

definition teaser_inv :: "teaser \<Rightarrow> bool" where
  "teaser_inv s \<longleftrightarrow>
     tz_currentMessageIdx s < length attractionMessages \<and>
     (tz_isOpen s \<longrightarrow> \<not> tz_show s \<and> \<not> tz_initialTimer s \<and> \<not> tz_loopInterval s) \<and>
     (tz_show s \<longrightarrow> tz_hideTimers s \<noteq> []) \<and>
     (\<forall>k \<in> set (tz_hideTimers s). k < tz_nextTimer s)"

definition teaser_grows :: "teaser \<Rightarrow> teaser \<Rightarrow> bool" where
  "teaser_grows s t \<longleftrightarrow> tz_nextTimer s \<le> tz_nextTimer t"

lemma messages_length [simp]: "length attractionMessages = 5"
  by (simp add: attractionMessages_def)

lemma teaser_inv_step: "teaser_inv s \<Longrightarrow> teaser_inv (teaser_step e s)"
  by (cases e) (auto simp: teaser_inv_def teaser_effect_def teaser_cleanup_def triggerMessage_def Let_def less_Suc_eq
      split: option.split)

lemma teaser_grows_step: "teaser_grows s (teaser_step e s)"
  by (cases e) (auto simp: teaser_grows_def teaser_effect_def teaser_cleanup_def triggerMessage_def Let_def
      split: option.split)

interpretation teaser: event_machine teaser_step teaser_inv teaser_grows
proof unfold_locales
  show "teaser_inv s \<Longrightarrow> teaser_inv (teaser_step e s)" for s e by (rule teaser_inv_step)
  show "teaser_grows s (teaser_step e s)" for s e by (rule teaser_grows_step)
qed (auto simp: teaser_grows_def)

lemma teaser_inv_init: "teaser_inv teaser_init"
  by (simp add: teaser_inv_def teaser_init_def teaser_effect_def)

text \<open>Over an open chat nothing is shown, and every line drawn is one of the five.\<close>

lemma teaser_run: "teaser_inv (fold teaser_step es teaser_init)"
  by (rule teaser.inv_fold) (rule teaser_inv_init)

end
