(* ===== verification/ReleaseData.thy ===== *)
theory ReleaseData
  imports JsString
begin

text \<open>
  The releases the site knows without asking the network: the list of the release page
  (\<open>staticReleases\<close> of \<open>pages/ReleaseDetail.tsx\<close>), the list of the overview
  (\<open>staticReleases\<close> of \<open>pages/Releases.tsx\<close>) and the nodes of the timeline
  (\<open>roadmap\<close> of \<open>components/ReleaseTimeline.tsx\<close>), each entry in the order of the source.
\<close>

datatype release_tag = LatestTag | StableTag | PreReleaseTag

record release_asset =
  ra_name :: jstr
  ra_size :: jstr
  ra_type :: jstr

record detail_release =
  dr_version :: jstr
  dr_codename :: jstr
  dr_date :: jstr
  dr_tag :: release_tag
  dr_python :: "jstr list"
  dr_license :: jstr
  dr_summary :: jstr
  dr_assets :: "release_asset list"
  dr_installCmd :: jstr
  dr_commitCount :: jstr
  dr_contributors :: nat

record page_asset =
  pa_name :: jstr
  pa_size :: jstr
  pa_type :: jstr
  pa_downloadUrl :: "jstr option"

record page_release =
  pr_version :: jstr
  pr_codename :: jstr
  pr_date :: jstr
  pr_tag :: release_tag
  pr_python :: "jstr list"
  pr_license :: jstr
  pr_summary :: jstr
  pr_highlights :: "jstr list"
  pr_assets :: "page_asset list"
  pr_installCmd :: jstr
  pr_commitCount :: jstr
  pr_contributors :: nat

datatype node_status = Released | Current | Planned | Future
datatype node_type = MajorNode | MinorNode | PatchNode

record roadmap_node =
  rn_version :: jstr
  rn_codename :: jstr
  rn_date :: jstr
  rn_status :: node_status
  rn_type :: node_type
  rn_highlights :: "jstr list"
  rn_branch :: "jstr option"

subsection \<open>The release page\<close>

definition detail_release_1_4_2 :: detail_release where
  "detail_release_1_4_2 = \<lparr>
     dr_version = js ''1.4.2'', dr_codename = js ''Depths Unknown'', dr_date = js ''Sep 16, 2026'', dr_tag = LatestTag,
     dr_python = [js ''3.10'', js ''3.11'', js ''3.12'', js ''3.13'', js ''3.14''], dr_license = js ''MIT'',
     dr_summary = js ''Forensic verification release: AniWave post-implementation audit repairs, HTTP client overhaul, DB transaction integrity, task worker resilience, contracts security fixes, and manifest CLI safety.'',
     dr_assets = [\<lparr>ra_name = js ''aquilia-1.4.2.tar.gz'', ra_size = js ''Source'', ra_type = js ''Source''\<rparr>, \<lparr>ra_name = js ''aquilia-1.4.2-<python>-<platform>.whl'', ra_size = js ''Platform-specific'', ra_type = js ''Wheel''\<rparr>],
     dr_installCmd = js ''pip install aquilia==1.4.2'', dr_commitCount = js ''15'', dr_contributors = 4\<rparr>"

definition detail_release_1_4_1 :: detail_release where
  "detail_release_1_4_1 = \<lparr>
     dr_version = js ''1.4.1'', dr_codename = js ''Safe Harbor'', dr_date = js ''Sep 15, 2026'', dr_tag = StableTag,
     dr_python = [js ''3.10'', js ''3.11'', js ''3.12'', js ''3.13'', js ''3.14''], dr_license = js ''MIT'',
     dr_summary = js ''Hardening and repair release featuring complete authentication & authorization architecture rebuild, NestJS migration audit fixes, admin session loop resolution, and durable database/Redis stores.'',
     dr_assets = [\<lparr>ra_name = js ''aquilia-1.4.1.tar.gz'', ra_size = js ''Source'', ra_type = js ''Source''\<rparr>, \<lparr>ra_name = js ''aquilia-1.4.1-<python>-<platform>.whl'', ra_size = js ''Platform-specific'', ra_type = js ''Wheel''\<rparr>],
     dr_installCmd = js ''pip install aquilia==1.4.1'', dr_commitCount = js ''15'', dr_contributors = 4\<rparr>"

definition detail_release_1_4_0 :: detail_release where
  "detail_release_1_4_0 = \<lparr>
     dr_version = js ''1.4.0'', dr_codename = js ''Grand Armada'', dr_date = js ''Aug 23, 2026'', dr_tag = StableTag,
     dr_python = [js ''3.10'', js ''3.11'', js ''3.12'', js ''3.13'', js ''3.14''], dr_license = js ''MIT'',
     dr_summary = js ''Flagship stable release delivering C++20 native acceleration engines, embedded VectorDB subsystem, native ASGI devplatform with h11 and WebSockets, restructured middleware architecture, unified CLI health checks, and 100% typed static exports.'',
     dr_assets = [\<lparr>ra_name = js ''aquilia-1.4.0.tar.gz'', ra_size = js ''Source'', ra_type = js ''Source''\<rparr>, \<lparr>ra_name = js ''aquilia-1.4.0-<python>-<platform>.whl'', ra_size = js ''Platform-specific'', ra_type = js ''Wheel''\<rparr>],
     dr_installCmd = js ''pip install aquilia==1.4.0'', dr_commitCount = js ''28'', dr_contributors = 4\<rparr>"

definition detail_release_1_4_0b5 :: detail_release where
  "detail_release_1_4_0b5 = \<lparr>
     dr_version = js ''1.4.0b5'', dr_codename = js ''Stable Bearings'', dr_date = js ''Aug 13, 2026'', dr_tag = PreReleaseTag,
     dr_python = [js ''3.10'', js ''3.11'', js ''3.12'', js ''3.13'', js ''3.14''], dr_license = js ''MIT'',
     dr_summary = js ''Reliable Windows native wheels, compiler-free source installs, Python 3.14 support, and controller/Contract correctness fixes.'',
     dr_assets = [\<lparr>ra_name = js ''aquilia-1.4.0b5.tar.gz'', ra_size = js ''Source'', ra_type = js ''Source''\<rparr>, \<lparr>ra_name = js ''aquilia-1.4.0b5-<python>-<platform>.whl'', ra_size = js ''Platform-specific'', ra_type = js ''Wheel''\<rparr>],
     dr_installCmd = js ''pip install aquilia==1.4.0b5'', dr_commitCount = js ''6'', dr_contributors = 2\<rparr>"

definition detail_release_1_3_4 :: detail_release where
  "detail_release_1_3_4 = \<lparr>
     dr_version = js ''1.3.4'', dr_codename = js ''Structural Integrity'', dr_date = js ''Jul 24, 2026'', dr_tag = StableTag,
     dr_python = [js ''3.10'', js ''3.11'', js ''3.12'', js ''3.13''], dr_license = js ''MIT'',
     dr_summary = js ''Two-round architectural audit: 13 bugs fixed across Aquilary registry, Auto-Discovery, Manifest system, Workspace, Config, and CLI subsystems. No breaking changes.'',
     dr_assets = [\<lparr>ra_name = js ''aquilia-1.3.4.tar.gz'', ra_size = js ''2.6 MB'', ra_type = js ''Source''\<rparr>, \<lparr>ra_name = js ''aquilia-1.3.4-py3-none-any.whl'', ra_size = js ''2.1 MB'', ra_type = js ''Wheel''\<rparr>],
     dr_installCmd = js ''pip install aquilia==1.3.4'', dr_commitCount = js ''47'', dr_contributors = 2\<rparr>"

definition detail_release_1_3_3 :: detail_release where
  "detail_release_1_3_3 = \<lparr>
     dr_version = js ''1.3.3'', dr_codename = js ''Analytical Depths'', dr_date = js ''Jul 21, 2026'', dr_tag = StableTag,
     dr_python = [js ''3.10'', js ''3.11'', js ''3.12'', js ''3.13''], dr_license = js ''MIT'',
     dr_summary = js ''ORM Window functions OVER (...), Common Table Expressions (CTEs), Recursive CTEs, security hardening, and enterprise field types.'',
     dr_assets = [\<lparr>ra_name = js ''aquilia-1.3.3.tar.gz'', ra_size = js ''2.6 MB'', ra_type = js ''Source''\<rparr>, \<lparr>ra_name = js ''aquilia-1.3.3-py3-none-any.whl'', ra_size = js ''2.1 MB'', ra_type = js ''Wheel''\<rparr>],
     dr_installCmd = js ''pip install aquilia==1.3.3'', dr_commitCount = js ''54'', dr_contributors = 2\<rparr>"

definition detail_release_1_3_2 :: detail_release where
  "detail_release_1_3_2 = \<lparr>
     dr_version = js ''1.3.2'', dr_codename = js ''Specula Observatory'', dr_date = js ''Jul 20, 2026'', dr_tag = StableTag,
     dr_python = [js ''3.10'', js ''3.11'', js ''3.12'', js ''3.13''], dr_license = js ''MIT'',
     dr_summary = js ''Dependency-injection rewrite: unified resolution engine, typed DISettings, provider interceptors, DI plugins, conditional providers, hardened pooling and cross-app resolution.'',
     dr_assets = [\<lparr>ra_name = js ''aquilia-1.3.2.tar.gz'', ra_size = js ''2.5 MB'', ra_type = js ''Source''\<rparr>, \<lparr>ra_name = js ''aquilia-1.3.2-py3-none-any.whl'', ra_size = js ''2.0 MB'', ra_type = js ''Wheel''\<rparr>],
     dr_installCmd = js ''pip install aquilia==1.3.2'', dr_commitCount = js ''32'', dr_contributors = 2\<rparr>"

definition detail_release_1_3_1 :: detail_release where
  "detail_release_1_3_1 = \<lparr>
     dr_version = js ''1.3.1'', dr_codename = js ''Backend Refactoring'', dr_date = js ''Jul 15, 2026'', dr_tag = StableTag,
     dr_python = [js ''3.10'', js ''3.11'', js ''3.12'', js ''3.13''], dr_license = js ''MIT'',
     dr_summary = js ''Pluggable Authentication Backends, Unified Permission Engine, Session Hardening, clock-skew JWT validation.'',
     dr_assets = [\<lparr>ra_name = js ''aquilia-1.3.1.tar.gz'', ra_size = js ''2.5 MB'', ra_type = js ''Source''\<rparr>, \<lparr>ra_name = js ''aquilia-1.3.1-py3-none-any.whl'', ra_size = js ''2.0 MB'', ra_type = js ''Wheel''\<rparr>],
     dr_installCmd = js ''pip install aquilia==1.3.1'', dr_commitCount = js ''48'', dr_contributors = 2\<rparr>"

definition detail_release_1_2_2 :: detail_release where
  "detail_release_1_2_2 = \<lparr>
     dr_version = js ''1.2.2'', dr_codename = js ''Kraken'' @ [39] @ js ''s Wake'', dr_date = js ''Jul 01, 2026'', dr_tag = StableTag,
     dr_python = [js ''3.10'', js ''3.11'', js ''3.12'', js ''3.13''], dr_license = js ''MIT'',
     dr_summary = js ''Database integrate configuration, ORM schema expressions, CLI auto-discovery sync.'',
     dr_assets = [\<lparr>ra_name = js ''aquilia-1.2.2.tar.gz'', ra_size = js ''2.4 MB'', ra_type = js ''Source''\<rparr>, \<lparr>ra_name = js ''aquilia-1.2.2-py3-none-any.whl'', ra_size = js ''1.9 MB'', ra_type = js ''Wheel''\<rparr>],
     dr_installCmd = js ''pip install aquilia==1.2.2'', dr_commitCount = js ''15'', dr_contributors = 1\<rparr>"

definition detail_release_1_2_1 :: detail_release where
  "detail_release_1_2_1 = \<lparr>
     dr_version = js ''1.2.1'', dr_codename = js ''Kraken'' @ [39] @ js ''s Wake'', dr_date = js ''Jul 01, 2026'', dr_tag = StableTag,
     dr_python = [js ''3.10'', js ''3.11'', js ''3.12'', js ''3.13''], dr_license = js ''MIT'',
     dr_summary = js ''Startup decoupling, lazy jinja2 imports, Windows file locking.'',
     dr_assets = [\<lparr>ra_name = js ''aquilia-1.2.1.tar.gz'', ra_size = js ''2.4 MB'', ra_type = js ''Source''\<rparr>, \<lparr>ra_name = js ''aquilia-1.2.1-py3-none-any.whl'', ra_size = js ''1.9 MB'', ra_type = js ''Wheel''\<rparr>],
     dr_installCmd = js ''pip install aquilia==1.2.1'', dr_commitCount = js ''8'', dr_contributors = 1\<rparr>"

definition detail_release_1_2_0 :: detail_release where
  "detail_release_1_2_0 = \<lparr>
     dr_version = js ''1.2.0'', dr_codename = js ''Kraken'' @ [39] @ js ''s Wake'', dr_date = js ''Jun 28, 2026'', dr_tag = StableTag,
     dr_python = [js ''3.10'', js ''3.11'', js ''3.12'', js ''3.13''], dr_license = js ''MIT'',
     dr_summary = js ''API versioning override, Request Inspector, database rollbacks/seed/flush, cProfile.'',
     dr_assets = [\<lparr>ra_name = js ''aquilia-1.2.0.tar.gz'', ra_size = js ''2.4 MB'', ra_type = js ''Source''\<rparr>, \<lparr>ra_name = js ''aquilia-1.2.0-py3-none-any.whl'', ra_size = js ''1.9 MB'', ra_type = js ''Wheel''\<rparr>],
     dr_installCmd = js ''pip install aquilia==1.2.0'', dr_commitCount = js ''120'', dr_contributors = 2\<rparr>"

definition detail_release_1_1_2 :: detail_release where
  "detail_release_1_1_2 = \<lparr>
     dr_version = js ''1.1.2'', dr_codename = js ''Crimson Gale'', dr_date = js ''Jun 12, 2026'', dr_tag = StableTag,
     dr_python = [js ''3.10'', js ''3.11'', js ''3.12'', js ''3.13''], dr_license = js ''MIT'',
     dr_summary = js ''Middleware name scoping, dot-env overrides, workspace configuration.'',
     dr_assets = [\<lparr>ra_name = js ''aquilia-1.1.2.tar.gz'', ra_size = js ''2.3 MB'', ra_type = js ''Source''\<rparr>, \<lparr>ra_name = js ''aquilia-1.1.2-py3-none-any.whl'', ra_size = js ''1.8 MB'', ra_type = js ''Wheel''\<rparr>],
     dr_installCmd = js ''pip install aquilia==1.1.2'', dr_commitCount = js ''14'', dr_contributors = 1\<rparr>"

definition detail_release_1_1_1 :: detail_release where
  "detail_release_1_1_1 = \<lparr>
     dr_version = js ''1.1.1'', dr_codename = js ''Sea Serpent'', dr_date = js ''Jun 09, 2026'', dr_tag = StableTag,
     dr_python = [js ''3.10'', js ''3.11'', js ''3.12'', js ''3.13''], dr_license = js ''MIT'',
     dr_summary = js ''Deleted config_builders, unified Workspace module, thread-safe dotenv.'',
     dr_assets = [\<lparr>ra_name = js ''aquilia-1.1.1.tar.gz'', ra_size = js ''2.3 MB'', ra_type = js ''Source''\<rparr>, \<lparr>ra_name = js ''aquilia-1.1.1-py3-none-any.whl'', ra_size = js ''1.8 MB'', ra_type = js ''Wheel''\<rparr>],
     dr_installCmd = js ''pip install aquilia==1.1.1'', dr_commitCount = js ''9'', dr_contributors = 1\<rparr>"

definition detail_release_1_1_0 :: detail_release where
  "detail_release_1_1_0 = \<lparr>
     dr_version = js ''1.1.0'', dr_codename = js ''Black Pearl'', dr_date = js ''Jun 08, 2026'', dr_tag = StableTag,
     dr_python = [js ''3.10'', js ''3.11'', js ''3.12'', js ''3.13''], dr_license = js ''MIT'',
     dr_summary = js ''SSE, OpenTelemetry, @validate_body, SqlitePoolConfig.'',
     dr_assets = [\<lparr>ra_name = js ''aquilia-1.1.0.tar.gz'', ra_size = js ''2.3 MB'', ra_type = js ''Source''\<rparr>, \<lparr>ra_name = js ''aquilia-1.1.0-py3-none-any.whl'', ra_size = js ''1.8 MB'', ra_type = js ''Wheel''\<rparr>],
     dr_installCmd = js ''pip install aquilia==1.1.0'', dr_commitCount = js ''185'', dr_contributors = 2\<rparr>"

definition detail_release_1_0_5 :: detail_release where
  "detail_release_1_0_5 = \<lparr>
     dr_version = js ''1.0.5'', dr_codename = js ''Jolly Roger'', dr_date = js ''Jun 04, 2026'', dr_tag = StableTag,
     dr_python = [js ''3.10'', js ''3.11'', js ''3.12''], dr_license = js ''MIT'',
     dr_summary = js ''Aquilia MCP server, Surp binary serialization.'',
     dr_assets = [\<lparr>ra_name = js ''aquilia-1.0.5.tar.gz'', ra_size = js ''2.1 MB'', ra_type = js ''Source''\<rparr>, \<lparr>ra_name = js ''aquilia-1.0.5-py3-none-any.whl'', ra_size = js ''1.8 MB'', ra_type = js ''Wheel''\<rparr>],
     dr_installCmd = js ''pip install aquilia==1.0.5'', dr_commitCount = js ''18'', dr_contributors = 1\<rparr>"

definition detail_release_1_0_4 :: detail_release where
  "detail_release_1_0_4 = \<lparr>
     dr_version = js ''1.0.4'', dr_codename = js ''Genesis P4'', dr_date = js ''May 17, 2026'', dr_tag = StableTag,
     dr_python = [js ''3.10'', js ''3.11'', js ''3.12'', js ''3.13''], dr_license = js ''MIT'',
     dr_summary = js ''Removed workspace compile gates, native python runtime.'',
     dr_assets = [\<lparr>ra_name = js ''aquilia-1.0.4.tar.gz'', ra_size = js ''2.1 MB'', ra_type = js ''Source''\<rparr>, \<lparr>ra_name = js ''aquilia-1.0.4-py3-none-any.whl'', ra_size = js ''1.8 MB'', ra_type = js ''Wheel''\<rparr>],
     dr_installCmd = js ''pip install aquilia==1.0.4'', dr_commitCount = js ''25'', dr_contributors = 1\<rparr>"

definition detail_release_1_0_3 :: detail_release where
  "detail_release_1_0_3 = \<lparr>
     dr_version = js ''1.0.3'', dr_codename = js ''Genesis P3'', dr_date = js ''Apr 19, 2026'', dr_tag = StableTag,
     dr_python = [js ''3.10'', js ''3.11'', js ''3.12''], dr_license = js ''MIT'',
     dr_summary = js ''Route cache compilation, OpenAPI schema molds.'',
     dr_assets = [\<lparr>ra_name = js ''aquilia-1.0.3.tar.gz'', ra_size = js ''2.1 MB'', ra_type = js ''Source''\<rparr>, \<lparr>ra_name = js ''aquilia-1.0.3-py3-none-any.whl'', ra_size = js ''1.8 MB'', ra_type = js ''Wheel''\<rparr>],
     dr_installCmd = js ''pip install aquilia==1.0.3'', dr_commitCount = js ''14'', dr_contributors = 1\<rparr>"

definition detail_release_1_0_2 :: detail_release where
  "detail_release_1_0_2 = \<lparr>
     dr_version = js ''1.0.2'', dr_codename = js ''Genesis P2'', dr_date = js ''Apr 02, 2026'', dr_tag = StableTag,
     dr_python = [js ''3.10'', js ''3.11'', js ''3.12''], dr_license = js ''MIT'',
     dr_summary = js ''SQLite connector pools, transaction commits, cookie session transport.'',
     dr_assets = [\<lparr>ra_name = js ''aquilia-1.0.2.tar.gz'', ra_size = js ''2.1 MB'', ra_type = js ''Source''\<rparr>, \<lparr>ra_name = js ''aquilia-1.0.2-py3-none-any.whl'', ra_size = js ''1.8 MB'', ra_type = js ''Wheel''\<rparr>],
     dr_installCmd = js ''pip install aquilia==1.0.2'', dr_commitCount = js ''32'', dr_contributors = 1\<rparr>"

definition detail_release_1_0_1 :: detail_release where
  "detail_release_1_0_1 = \<lparr>
     dr_version = js ''1.0.1'', dr_codename = js ''Framework Audit'', dr_date = js ''Mar 08, 2026'', dr_tag = StableTag,
     dr_python = [js ''3.10'', js ''3.11'', js ''3.12''], dr_license = js ''MIT'',
     dr_summary = js ''Security audit phases 1-15, Argon2, path normalization, JSON bytecode.'',
     dr_assets = [\<lparr>ra_name = js ''aquilia-1.0.1.tar.gz'', ra_size = js ''2.1 MB'', ra_type = js ''Source''\<rparr>, \<lparr>ra_name = js ''aquilia-1.0.1-py3-none-any.whl'', ra_size = js ''1.8 MB'', ra_type = js ''Wheel''\<rparr>],
     dr_installCmd = js ''pip install aquilia==1.0.1'', dr_commitCount = js ''47'', dr_contributors = 1\<rparr>"

definition detail_release_1_0_0 :: detail_release where
  "detail_release_1_0_0 = \<lparr>
     dr_version = js ''1.0.0'', dr_codename = js ''Genesis'', dr_date = js ''Feb 22, 2026'', dr_tag = StableTag,
     dr_python = [js ''3.10'', js ''3.11'', js ''3.12''], dr_license = js ''MIT'',
     dr_summary = js ''Initial stable release, ASGI, DI container, manifest architecture.'',
     dr_assets = [\<lparr>ra_name = js ''aquilia-1.0.0.tar.gz'', ra_size = js ''2.1 MB'', ra_type = js ''Source''\<rparr>, \<lparr>ra_name = js ''aquilia-1.0.0-py3-none-any.whl'', ra_size = js ''1.8 MB'', ra_type = js ''Wheel''\<rparr>],
     dr_installCmd = js ''pip install aquilia==1.0.0'', dr_commitCount = js ''500+'', dr_contributors = 1\<rparr>"

definition static_detail_releases :: "detail_release list" where
  "static_detail_releases = [
     detail_release_1_4_2, detail_release_1_4_1, detail_release_1_4_0, detail_release_1_4_0b5, detail_release_1_3_4, detail_release_1_3_3, detail_release_1_3_2, detail_release_1_3_1, detail_release_1_2_2, detail_release_1_2_1, detail_release_1_2_0, detail_release_1_1_2, detail_release_1_1_1, detail_release_1_1_0, detail_release_1_0_5, detail_release_1_0_4, detail_release_1_0_3, detail_release_1_0_2, detail_release_1_0_1, detail_release_1_0_0]"

subsection \<open>The overview\<close>

definition page_release_1_4_2 :: page_release where
  "page_release_1_4_2 = \<lparr>
     pr_version = js ''1.4.2'', pr_codename = js ''Depths Unknown'', pr_date = js ''Sep 16, 2026'', pr_tag = LatestTag,
     pr_python = [js ''3.10'', js ''3.11'', js ''3.12'', js ''3.13'', js ''3.14''], pr_license = js ''MIT'',
     pr_summary = js ''Forensic verification release: AniWave post-implementation audit repairs, HTTP client overhaul, database transaction integrity, task worker resilience, contracts security fixes, and manifest CLI safety.'',
     pr_highlights = [js ''Forensic Verification Audit'', js ''HTTP Client Overhaul'', js ''DB Transaction Integrity'', js ''Worker Resilience'', js ''Contracts Projection Secrets Guard'', js ''Manifest Differ & CLI Safety''],
     pr_assets = [\<lparr>pa_name = js ''aquilia-1.4.2.tar.gz'', pa_size = js ''Source'', pa_type = js ''Source'', pa_downloadUrl = None\<rparr>, \<lparr>pa_name = js ''aquilia-1.4.2-<python>-<platform>.whl'', pa_size = js ''Platform-specific'', pa_type = js ''Wheel'', pa_downloadUrl = None\<rparr>],
     pr_installCmd = js ''pip install aquilia==1.4.2'', pr_commitCount = js ''15'', pr_contributors = 4\<rparr>"

definition page_release_1_4_1 :: page_release where
  "page_release_1_4_1 = \<lparr>
     pr_version = js ''1.4.1'', pr_codename = js ''Safe Harbor'', pr_date = js ''Sep 15, 2026'', pr_tag = StableTag,
     pr_python = [js ''3.10'', js ''3.11'', js ''3.12'', js ''3.13'', js ''3.14''], pr_license = js ''MIT'',
     pr_summary = js ''Hardening and repair release featuring complete authentication & authorization architecture rebuild (Passport-style strategies, async guards, stateless JWT, CurrentUser injection, token rotation with reuse detection), NestJS migration audit fixes, admin session loop resolution, and durable database/Redis stores.'',
     pr_highlights = [js ''Auth Architecture Rebuild'', js ''Async Route Guard Pipeline'', js ''Migration Audit Fixes'', js ''Admin Session Middleware Fix'', js ''Durable DB & Redis Stores'', js ''Refresh Token Reuse Detection''],
     pr_assets = [\<lparr>pa_name = js ''aquilia-1.4.1.tar.gz'', pa_size = js ''Source'', pa_type = js ''Source'', pa_downloadUrl = None\<rparr>, \<lparr>pa_name = js ''aquilia-1.4.1-<python>-<platform>.whl'', pa_size = js ''Platform-specific'', pa_type = js ''Wheel'', pa_downloadUrl = None\<rparr>],
     pr_installCmd = js ''pip install aquilia==1.4.1'', pr_commitCount = js ''15'', pr_contributors = 4\<rparr>"

definition page_release_1_4_0 :: page_release where
  "page_release_1_4_0 = \<lparr>
     pr_version = js ''1.4.0'', pr_codename = js ''Grand Armada'', pr_date = js ''Aug 23, 2026'', pr_tag = StableTag,
     pr_python = [js ''3.10'', js ''3.11'', js ''3.12'', js ''3.13'', js ''3.14''], pr_license = js ''MIT'',
     pr_summary = js ''Flagship stable release delivering C++20 native acceleration engines, embedded VectorDB subsystem, native ASGI devplatform with h11 and WebSockets, restructured middleware architecture, unified CLI health checks, and 100% typed static exports.'',
     pr_highlights = [js ''Native C++20 Accelerators'', js ''VectorDB Subsystem'', js ''Native ASGI Dev Server'', js ''WebSocket Middleware Pipeline'', js ''Unified Health Checks'', js ''Full IDE Autocomplete Parity''],
     pr_assets = [\<lparr>pa_name = js ''aquilia-1.4.0.tar.gz'', pa_size = js ''Source'', pa_type = js ''Source'', pa_downloadUrl = None\<rparr>, \<lparr>pa_name = js ''aquilia-1.4.0-<python>-<platform>.whl'', pa_size = js ''Platform-specific'', pa_type = js ''Wheel'', pa_downloadUrl = None\<rparr>],
     pr_installCmd = js ''pip install aquilia==1.4.0'', pr_commitCount = js ''28'', pr_contributors = 4\<rparr>"

definition page_release_1_4_0b5 :: page_release where
  "page_release_1_4_0b5 = \<lparr>
     pr_version = js ''1.4.0b5'', pr_codename = js ''Stable Bearings'', pr_date = js ''Aug 13, 2026'', pr_tag = PreReleaseTag,
     pr_python = [js ''3.10'', js ''3.11'', js ''3.12'', js ''3.13'', js ''3.14''], pr_license = js ''MIT'',
     pr_summary = js ''Windows native wheels now load on ordinary user systems, compiler-free source installs reliably fall back to Python, CPython 3.14 is supported across CI and wheels, synchronous and asynchronous controller handlers dispatch correctly, and deferred Contract security faults remain visible.'',
     pr_highlights = [js ''Windows Native Wheel Reliability'', js ''CPython 3.14 Wheels'', js ''Compiler-Free Source Installs'', js ''Correct Sync/Async Handler Dispatch'', js ''Deferred Contract Fault Preservation''],
     pr_assets = [\<lparr>pa_name = js ''aquilia-1.4.0b5.tar.gz'', pa_size = js ''Source'', pa_type = js ''Source'', pa_downloadUrl = None\<rparr>, \<lparr>pa_name = js ''aquilia-1.4.0b5-<python>-<platform>.whl'', pa_size = js ''Platform-specific'', pa_type = js ''Wheel'', pa_downloadUrl = None\<rparr>],
     pr_installCmd = js ''pip install aquilia==1.4.0b5'', pr_commitCount = js ''6'', pr_contributors = 2\<rparr>"

definition page_release_1_4_0b4 :: page_release where
  "page_release_1_4_0b4 = \<lparr>
     pr_version = js ''1.4.0b4'', pr_codename = js ''Resolved Fields'', pr_date = js ''Aug 10, 2026'', pr_tag = PreReleaseTag,
     pr_python = [js ''3.10'', js ''3.11'', js ''3.12'', js ''3.13''], pr_license = js ''MIT'',
     pr_summary = js ''Corrected @computed facet precedence across Contract inheritance, same-class annotations, and ORM model binding.'',
     pr_highlights = [js ''Computed Facet Inheritance'', js ''Annotation Precedence'', js ''ORM Binding Compatibility''],
     pr_assets = [\<lparr>pa_name = js ''aquilia-1.4.0b4.tar.gz'', pa_size = js ''Source'', pa_type = js ''Source'', pa_downloadUrl = None\<rparr>, \<lparr>pa_name = js ''aquilia-1.4.0b4-<python>-<platform>.whl'', pa_size = js ''Platform-specific'', pa_type = js ''Wheel'', pa_downloadUrl = None\<rparr>],
     pr_installCmd = js ''pip install aquilia==1.4.0b4'', pr_commitCount = js ''1'', pr_contributors = 2\<rparr>"

definition page_release_1_4_0b3 :: page_release where
  "page_release_1_4_0b3 = \<lparr>
     pr_version = js ''1.4.0b3'', pr_codename = js ''Helmsman'' @ [39] @ js ''s Compass'', pr_date = js ''Aug 09, 2026'', pr_tag = PreReleaseTag,
     pr_python = [js ''3.10'', js ''3.11'', js ''3.12'', js ''3.13''], pr_license = js ''MIT'',
     pr_summary = js ''New aquilia.vectordb subsystem (typed vector models, three filter syntaxes, EQL, embedders, chunking, GPU policy, quantization, SQL-ORM interop, aq vectordb CLI group), CLI architecture overhaul (aquilia.cli.core), Unified Health Checks Engine (@register_check), single-source ExitCode contract, enforced subsystem boot contract (BootContext.di_containers, _timeout, live /health checks), wired admin lifecycle, and native C++ router memory leak resolution on server shutdown.'',
     pr_highlights = [js ''Vector Database Subsystem (aquilia.vectordb)'', js ''aq vectordb CLI Group'', js ''CLI Core Modernization'', js ''Unified Health Checks Engine'', js ''Subsystem Boot Contract & Live /health'', js ''Admin Lifecycle Wired'', js ''Native Router Memory Leak Fix''],
     pr_assets = [\<lparr>pa_name = js ''aquilia-1.4.0b3.tar.gz'', pa_size = js ''2.9 MB'', pa_type = js ''Source'', pa_downloadUrl = None\<rparr>, \<lparr>pa_name = js ''aquilia-1.4.0b3-py3-none-any.whl'', pa_size = js ''2.4 MB'', pa_type = js ''Wheel'', pa_downloadUrl = None\<rparr>],
     pr_installCmd = js ''pip install aquilia==1.4.0b3'', pr_commitCount = js ''24'', pr_contributors = 2\<rparr>"

definition page_release_1_3_8 :: page_release where
  "page_release_1_3_8 = \<lparr>
     pr_version = js ''1.3.8'', pr_codename = js ''Migration Architect'', pr_date = js ''Jul 30, 2026'', pr_tag = StableTag,
     pr_python = [js ''3.10'', js ''3.11'', js ''3.12'', js ''3.13''], pr_license = js ''MIT'',
     pr_summary = js ''Complete architectural overhaul of the ORM Migration DSL Generator, post-order topological model dependency graph ordering (_topologically_sort_models), character-split index column normalization (columns=['' @ [34] @ js ''token'' @ [34] @ js '']), strict FK target table name resolution (_resolve_target_table), scalar Enum default serialization (default='' @ [34] @ js ''active'' @ [34] @ js ''), and migration revision dependencies tracking metadata.'',
     pr_highlights = [js ''DSL Migration Generator Overhaul'', js ''Topological Model Creation Sorting'', js ''Character-Split Index Normalization'', js ''Scalar Enum Default Serialization''],
     pr_assets = [\<lparr>pa_name = js ''aquilia-1.3.8.tar.gz'', pa_size = js ''2.8 MB'', pa_type = js ''Source'', pa_downloadUrl = None\<rparr>, \<lparr>pa_name = js ''aquilia-1.3.8-py3-none-any.whl'', pa_size = js ''2.3 MB'', pa_type = js ''Wheel'', pa_downloadUrl = None\<rparr>],
     pr_installCmd = js ''pip install aquilia==1.3.8'', pr_commitCount = js ''19'', pr_contributors = 2\<rparr>"

definition page_release_1_3_7 :: page_release where
  "page_release_1_3_7 = \<lparr>
     pr_version = js ''1.3.7'', pr_codename = js ''Thread Sentinel'', pr_date = js ''Jul 30, 2026'', pr_tag = StableTag,
     pr_python = [js ''3.10'', js ''3.11'', js ''3.12'', js ''3.13''], pr_license = js ''MIT'',
     pr_summary = js ''Thread-safe ModelRegistry operations with re-entrant locking (threading.RLock) & reverse relation cache invalidation, thread-isolated BaseManager descriptor subclass binding, standard Python type hint annotation support for NestedContractFacet, multi-dialect EnumField and CompositeField to_db conversion, and comprehensive 10-point standard docstrings across the Contracts subsystem.'',
     pr_highlights = [js ''Thread-Safe ModelRegistry (RLock)'', js ''Manager Subclass Copy Isolation'', js ''Type-Annotated Nested Contracts''],
     pr_assets = [\<lparr>pa_name = js ''aquilia-1.3.7.tar.gz'', pa_size = js ''2.8 MB'', pa_type = js ''Source'', pa_downloadUrl = None\<rparr>, \<lparr>pa_name = js ''aquilia-1.3.7-py3-none-any.whl'', pa_size = js ''2.3 MB'', pa_type = js ''Wheel'', pa_downloadUrl = None\<rparr>],
     pr_installCmd = js ''pip install aquilia==1.3.7'', pr_commitCount = js ''7'', pr_contributors = 2\<rparr>"

definition page_release_1_3_6 :: page_release where
  "page_release_1_3_6 = \<lparr>
     pr_version = js ''1.3.6'', pr_codename = js ''Artifact Forge'', pr_date = js ''Jul 29, 2026'', pr_tag = StableTag,
     pr_python = [js ''3.10'', js ''3.11'', js ''3.12'', js ''3.13''], pr_license = js ''MIT'',
     pr_summary = js ''Unified artifact subsystem (aquilia.artifacts), standardizing all framework-generated metadata, build outputs, compiled Jinja2 bytecode, WebSocket metadata, and discovery caches into atomic, HMAC-signed JSON envelopes stored in .aquilia/artifacts/. Includes new aq artifacts CLI commands.'',
     pr_highlights = [js ''Unified Artifact Subsystem'', js ''Path Consolidation (.aquilia/artifacts/)'', js ''aq artifacts CLI Commands''],
     pr_assets = [\<lparr>pa_name = js ''aquilia-1.3.6.tar.gz'', pa_size = js ''2.8 MB'', pa_type = js ''Source'', pa_downloadUrl = None\<rparr>, \<lparr>pa_name = js ''aquilia-1.3.6-py3-none-any.whl'', pa_size = js ''2.3 MB'', pa_type = js ''Wheel'', pa_downloadUrl = None\<rparr>],
     pr_installCmd = js ''pip install aquilia==1.3.6'', pr_commitCount = js ''12'', pr_contributors = 2\<rparr>"

definition page_release_1_3_5 :: page_release where
  "page_release_1_3_5 = \<lparr>
     pr_version = js ''1.3.5'', pr_codename = js ''Distributed Tide'', pr_date = js ''Jul 28, 2026'', pr_tag = StableTag,
     pr_python = [js ''3.10'', js ''3.11'', js ''3.12'', js ''3.13''], pr_license = js ''MIT'',
     pr_summary = js ''Distributed and durable background tasks via Redis and SQL backends, workflow DAGs, enforced idempotency, and a background mail delivery queue with provider webhook processing and automatic bounce suppression. No breaking changes.'',
     pr_highlights = [js ''Redis & SQL Task Backends'', js ''Workflows & DAGs'', js ''Mail Queue & Bounce Suppression''],
     pr_assets = [\<lparr>pa_name = js ''aquilia-1.3.5.tar.gz'', pa_size = js ''2.7 MB'', pa_type = js ''Source'', pa_downloadUrl = None\<rparr>, \<lparr>pa_name = js ''aquilia-1.3.5-py3-none-any.whl'', pa_size = js ''2.2 MB'', pa_type = js ''Wheel'', pa_downloadUrl = None\<rparr>],
     pr_installCmd = js ''pip install aquilia==1.3.5'', pr_commitCount = js ''38'', pr_contributors = 2\<rparr>"

definition page_release_1_3_4 :: page_release where
  "page_release_1_3_4 = \<lparr>
     pr_version = js ''1.3.4'', pr_codename = js ''Structural Integrity'', pr_date = js ''Jul 24, 2026'', pr_tag = StableTag,
     pr_python = [js ''3.10'', js ''3.11'', js ''3.12'', js ''3.13''], pr_license = js ''MIT'',
     pr_summary = js ''Two-round architectural audit: 13 bugs fixed across Aquilary registry, Auto-Discovery, Manifest system, Workspace, Config, and CLI subsystems. No breaking changes.'',
     pr_highlights = [js ''imports/depends_on Graph Fix'', js ''AST Manifest Loader'', js ''Exec Workspace Discovery''],
     pr_assets = [\<lparr>pa_name = js ''aquilia-1.3.4.tar.gz'', pa_size = js ''2.6 MB'', pa_type = js ''Source'', pa_downloadUrl = None\<rparr>, \<lparr>pa_name = js ''aquilia-1.3.4-py3-none-any.whl'', pa_size = js ''2.1 MB'', pa_type = js ''Wheel'', pa_downloadUrl = None\<rparr>],
     pr_installCmd = js ''pip install aquilia==1.3.4'', pr_commitCount = js ''47'', pr_contributors = 2\<rparr>"

definition page_release_1_3_3 :: page_release where
  "page_release_1_3_3 = \<lparr>
     pr_version = js ''1.3.3'', pr_codename = js ''Analytical Depths'', pr_date = js ''Jul 21, 2026'', pr_tag = StableTag,
     pr_python = [js ''3.10'', js ''3.11'', js ''3.12'', js ''3.13''], pr_license = js ''MIT'',
     pr_summary = js ''ORM Window functions OVER (...), Common Table Expressions (CTEs), Recursive CTEs, security hardening, and enterprise field types.'',
     pr_highlights = [js ''Window Functions'', js ''Common Table Expressions'', js ''Recursive CTEs''],
     pr_assets = [\<lparr>pa_name = js ''aquilia-1.3.3.tar.gz'', pa_size = js ''2.6 MB'', pa_type = js ''Source'', pa_downloadUrl = None\<rparr>, \<lparr>pa_name = js ''aquilia-1.3.3-py3-none-any.whl'', pa_size = js ''2.1 MB'', pa_type = js ''Wheel'', pa_downloadUrl = None\<rparr>],
     pr_installCmd = js ''pip install aquilia==1.3.3'', pr_commitCount = js ''54'', pr_contributors = 2\<rparr>"

definition page_release_1_3_2 :: page_release where
  "page_release_1_3_2 = \<lparr>
     pr_version = js ''1.3.2'', pr_codename = js ''Specula Observatory'', pr_date = js ''Jul 20, 2026'', pr_tag = StableTag,
     pr_python = [js ''3.10'', js ''3.11'', js ''3.12'', js ''3.13''], pr_license = js ''MIT'',
     pr_summary = js ''API Spec Compilation & Schema Inference Engine, Specula API Observatory.'',
     pr_highlights = [js ''Spec Compilation'', js ''Specula Observatory''],
     pr_assets = [\<lparr>pa_name = js ''aquilia-1.3.2.tar.gz'', pa_size = js ''2.5 MB'', pa_type = js ''Source'', pa_downloadUrl = None\<rparr>, \<lparr>pa_name = js ''aquilia-1.3.2-py3-none-any.whl'', pa_size = js ''2.0 MB'', pa_type = js ''Wheel'', pa_downloadUrl = None\<rparr>],
     pr_installCmd = js ''pip install aquilia==1.3.2'', pr_commitCount = js ''32'', pr_contributors = 2\<rparr>"

definition page_release_1_3_1 :: page_release where
  "page_release_1_3_1 = \<lparr>
     pr_version = js ''1.3.1'', pr_codename = js ''Backend Refactoring'', pr_date = js ''Jul 18, 2026'', pr_tag = StableTag,
     pr_python = [js ''3.10'', js ''3.11'', js ''3.12'', js ''3.13''], pr_license = js ''MIT'',
     pr_summary = js ''Pluggable Authentication Backends, Unified Permission Engine, Session Hardening, clock-skew JWT validation.'',
     pr_highlights = [js ''Auth Backends'', js ''PermissionEngine DAG'', js ''Session Hardening''],
     pr_assets = [\<lparr>pa_name = js ''aquilia-1.3.1.tar.gz'', pa_size = js ''2.5 MB'', pa_type = js ''Source'', pa_downloadUrl = None\<rparr>, \<lparr>pa_name = js ''aquilia-1.3.1-py3-none-any.whl'', pa_size = js ''2.0 MB'', pa_type = js ''Wheel'', pa_downloadUrl = None\<rparr>],
     pr_installCmd = js ''pip install aquilia==1.3.1'', pr_commitCount = js ''48'', pr_contributors = 2\<rparr>"

definition page_release_1_3_0 :: page_release where
  "page_release_1_3_0 = \<lparr>
     pr_version = js ''1.3.0'', pr_codename = js ''Blueprint Contract'', pr_date = js ''Jul 15, 2026'', pr_tag = StableTag,
     pr_python = [js ''3.10'', js ''3.11'', js ''3.12'', js ''3.13''], pr_license = js ''MIT'',
     pr_summary = js ''Validation primitive rename from Blueprint to Contract, Facets validation system, Context-First Decorators.'',
     pr_highlights = [(js ''Blueprint '' @ [8594] @ js '' Contract''), js ''Facets Validation''],
     pr_assets = [\<lparr>pa_name = js ''aquilia-1.3.0.tar.gz'', pa_size = js ''2.5 MB'', pa_type = js ''Source'', pa_downloadUrl = None\<rparr>, \<lparr>pa_name = js ''aquilia-1.3.0-py3-none-any.whl'', pa_size = js ''2.0 MB'', pa_type = js ''Wheel'', pa_downloadUrl = None\<rparr>],
     pr_installCmd = js ''pip install aquilia==1.3.0'', pr_commitCount = js ''62'', pr_contributors = 2\<rparr>"

definition page_release_1_2_2 :: page_release where
  "page_release_1_2_2 = \<lparr>
     pr_version = js ''1.2.2'', pr_codename = js ''Kraken'' @ [39] @ js ''s Wake'', pr_date = js ''Jul 01, 2026'', pr_tag = StableTag,
     pr_python = [js ''3.10'', js ''3.11'', js ''3.12'', js ''3.13''], pr_license = js ''MIT'',
     pr_summary = js ''Database integrate configuration, ORM schema expressions, CLI auto-discovery sync.'',
     pr_highlights = [],
     pr_assets = [\<lparr>pa_name = js ''aquilia-1.2.2.tar.gz'', pa_size = js ''2.4 MB'', pa_type = js ''Source'', pa_downloadUrl = None\<rparr>, \<lparr>pa_name = js ''aquilia-1.2.2-py3-none-any.whl'', pa_size = js ''1.9 MB'', pa_type = js ''Wheel'', pa_downloadUrl = None\<rparr>],
     pr_installCmd = js ''pip install aquilia==1.2.2'', pr_commitCount = js ''15'', pr_contributors = 1\<rparr>"

definition page_release_1_2_1 :: page_release where
  "page_release_1_2_1 = \<lparr>
     pr_version = js ''1.2.1'', pr_codename = js ''Kraken'' @ [39] @ js ''s Wake'', pr_date = js ''Jul 01, 2026'', pr_tag = StableTag,
     pr_python = [js ''3.10'', js ''3.11'', js ''3.12'', js ''3.13''], pr_license = js ''MIT'',
     pr_summary = js ''Startup decoupling, lazy jinja2 imports, Windows file locking.'',
     pr_highlights = [],
     pr_assets = [\<lparr>pa_name = js ''aquilia-1.2.1.tar.gz'', pa_size = js ''2.4 MB'', pa_type = js ''Source'', pa_downloadUrl = None\<rparr>, \<lparr>pa_name = js ''aquilia-1.2.1-py3-none-any.whl'', pa_size = js ''1.9 MB'', pa_type = js ''Wheel'', pa_downloadUrl = None\<rparr>],
     pr_installCmd = js ''pip install aquilia==1.2.1'', pr_commitCount = js ''8'', pr_contributors = 1\<rparr>"

definition page_release_1_2_0 :: page_release where
  "page_release_1_2_0 = \<lparr>
     pr_version = js ''1.2.0'', pr_codename = js ''Kraken'' @ [39] @ js ''s Wake'', pr_date = js ''Jun 28, 2026'', pr_tag = StableTag,
     pr_python = [js ''3.10'', js ''3.11'', js ''3.12'', js ''3.13''], pr_license = js ''MIT'',
     pr_summary = js ''API versioning override, Request Inspector, database rollbacks/seed/flush, cProfile.'',
     pr_highlights = [],
     pr_assets = [\<lparr>pa_name = js ''aquilia-1.2.0.tar.gz'', pa_size = js ''2.4 MB'', pa_type = js ''Source'', pa_downloadUrl = None\<rparr>, \<lparr>pa_name = js ''aquilia-1.2.0-py3-none-any.whl'', pa_size = js ''1.9 MB'', pa_type = js ''Wheel'', pa_downloadUrl = None\<rparr>],
     pr_installCmd = js ''pip install aquilia==1.2.0'', pr_commitCount = js ''120'', pr_contributors = 2\<rparr>"

definition page_release_1_1_2 :: page_release where
  "page_release_1_1_2 = \<lparr>
     pr_version = js ''1.1.2'', pr_codename = js ''Crimson Gale'', pr_date = js ''Jun 12, 2026'', pr_tag = StableTag,
     pr_python = [js ''3.10'', js ''3.11'', js ''3.12'', js ''3.13''], pr_license = js ''MIT'',
     pr_summary = js ''Middleware name scoping, dot-env overrides, workspace configuration.'',
     pr_highlights = [],
     pr_assets = [\<lparr>pa_name = js ''aquilia-1.1.2.tar.gz'', pa_size = js ''2.3 MB'', pa_type = js ''Source'', pa_downloadUrl = None\<rparr>, \<lparr>pa_name = js ''aquilia-1.1.2-py3-none-any.whl'', pa_size = js ''1.8 MB'', pa_type = js ''Wheel'', pa_downloadUrl = None\<rparr>],
     pr_installCmd = js ''pip install aquilia==1.1.2'', pr_commitCount = js ''14'', pr_contributors = 1\<rparr>"

definition page_release_1_1_1 :: page_release where
  "page_release_1_1_1 = \<lparr>
     pr_version = js ''1.1.1'', pr_codename = js ''Sea Serpent'', pr_date = js ''Jun 09, 2026'', pr_tag = StableTag,
     pr_python = [js ''3.10'', js ''3.11'', js ''3.12'', js ''3.13''], pr_license = js ''MIT'',
     pr_summary = js ''Deleted config_builders, unified Workspace module, thread-safe dotenv.'',
     pr_highlights = [],
     pr_assets = [\<lparr>pa_name = js ''aquilia-1.1.1.tar.gz'', pa_size = js ''2.3 MB'', pa_type = js ''Source'', pa_downloadUrl = None\<rparr>, \<lparr>pa_name = js ''aquilia-1.1.1-py3-none-any.whl'', pa_size = js ''1.8 MB'', pa_type = js ''Wheel'', pa_downloadUrl = None\<rparr>],
     pr_installCmd = js ''pip install aquilia==1.1.1'', pr_commitCount = js ''9'', pr_contributors = 1\<rparr>"

definition page_release_1_1_0 :: page_release where
  "page_release_1_1_0 = \<lparr>
     pr_version = js ''1.1.0'', pr_codename = js ''Black Pearl'', pr_date = js ''Jun 08, 2026'', pr_tag = StableTag,
     pr_python = [js ''3.10'', js ''3.11'', js ''3.12'', js ''3.13''], pr_license = js ''MIT'',
     pr_summary = js ''SSE, OpenTelemetry, @validate_body, SqlitePoolConfig.'',
     pr_highlights = [],
     pr_assets = [\<lparr>pa_name = js ''aquilia-1.1.0.tar.gz'', pa_size = js ''2.3 MB'', pa_type = js ''Source'', pa_downloadUrl = None\<rparr>, \<lparr>pa_name = js ''aquilia-1.1.0-py3-none-any.whl'', pa_size = js ''1.8 MB'', pa_type = js ''Wheel'', pa_downloadUrl = None\<rparr>],
     pr_installCmd = js ''pip install aquilia==1.1.0'', pr_commitCount = js ''185'', pr_contributors = 2\<rparr>"

definition page_release_1_0_5 :: page_release where
  "page_release_1_0_5 = \<lparr>
     pr_version = js ''1.0.5'', pr_codename = js ''Jolly Roger'', pr_date = js ''Jun 04, 2026'', pr_tag = StableTag,
     pr_python = [js ''3.10'', js ''3.11'', js ''3.12''], pr_license = js ''MIT'',
     pr_summary = js ''Aquilia MCP server, Surp binary serialization.'',
     pr_highlights = [],
     pr_assets = [\<lparr>pa_name = js ''aquilia-1.0.5.tar.gz'', pa_size = js ''2.1 MB'', pa_type = js ''Source'', pa_downloadUrl = None\<rparr>, \<lparr>pa_name = js ''aquilia-1.0.5-py3-none-any.whl'', pa_size = js ''1.8 MB'', pa_type = js ''Wheel'', pa_downloadUrl = None\<rparr>],
     pr_installCmd = js ''pip install aquilia==1.0.5'', pr_commitCount = js ''18'', pr_contributors = 1\<rparr>"

definition page_release_1_0_4 :: page_release where
  "page_release_1_0_4 = \<lparr>
     pr_version = js ''1.0.4'', pr_codename = js ''Genesis P4'', pr_date = js ''May 17, 2026'', pr_tag = StableTag,
     pr_python = [js ''3.10'', js ''3.11'', js ''3.12'', js ''3.13''], pr_license = js ''MIT'',
     pr_summary = js ''Removed workspace compile gates, native python runtime.'',
     pr_highlights = [],
     pr_assets = [\<lparr>pa_name = js ''aquilia-1.0.4.tar.gz'', pa_size = js ''2.1 MB'', pa_type = js ''Source'', pa_downloadUrl = None\<rparr>, \<lparr>pa_name = js ''aquilia-1.0.4-py3-none-any.whl'', pa_size = js ''1.8 MB'', pa_type = js ''Wheel'', pa_downloadUrl = None\<rparr>],
     pr_installCmd = js ''pip install aquilia==1.0.4'', pr_commitCount = js ''25'', pr_contributors = 1\<rparr>"

definition page_release_1_0_3 :: page_release where
  "page_release_1_0_3 = \<lparr>
     pr_version = js ''1.0.3'', pr_codename = js ''Genesis P3'', pr_date = js ''Apr 19, 2026'', pr_tag = StableTag,
     pr_python = [js ''3.10'', js ''3.11'', js ''3.12''], pr_license = js ''MIT'',
     pr_summary = js ''Route cache compilation, OpenAPI schema molds.'',
     pr_highlights = [],
     pr_assets = [\<lparr>pa_name = js ''aquilia-1.0.3.tar.gz'', pa_size = js ''2.1 MB'', pa_type = js ''Source'', pa_downloadUrl = None\<rparr>, \<lparr>pa_name = js ''aquilia-1.0.3-py3-none-any.whl'', pa_size = js ''1.8 MB'', pa_type = js ''Wheel'', pa_downloadUrl = None\<rparr>],
     pr_installCmd = js ''pip install aquilia==1.0.3'', pr_commitCount = js ''14'', pr_contributors = 1\<rparr>"

definition page_release_1_0_2 :: page_release where
  "page_release_1_0_2 = \<lparr>
     pr_version = js ''1.0.2'', pr_codename = js ''Genesis P2'', pr_date = js ''Apr 02, 2026'', pr_tag = StableTag,
     pr_python = [js ''3.10'', js ''3.11'', js ''3.12''], pr_license = js ''MIT'',
     pr_summary = js ''SQLite connector pools, transaction commits, cookie session transport.'',
     pr_highlights = [],
     pr_assets = [\<lparr>pa_name = js ''aquilia-1.0.2.tar.gz'', pa_size = js ''2.1 MB'', pa_type = js ''Source'', pa_downloadUrl = None\<rparr>, \<lparr>pa_name = js ''aquilia-1.0.2-py3-none-any.whl'', pa_size = js ''1.8 MB'', pa_type = js ''Wheel'', pa_downloadUrl = None\<rparr>],
     pr_installCmd = js ''pip install aquilia==1.0.2'', pr_commitCount = js ''32'', pr_contributors = 1\<rparr>"

definition page_release_1_0_1 :: page_release where
  "page_release_1_0_1 = \<lparr>
     pr_version = js ''1.0.1'', pr_codename = js ''Framework Audit'', pr_date = js ''Mar 08, 2026'', pr_tag = StableTag,
     pr_python = [js ''3.10'', js ''3.11'', js ''3.12''], pr_license = js ''MIT'',
     pr_summary = js ''Security audit phases 1-15, Argon2, path normalization, JSON bytecode.'',
     pr_highlights = [],
     pr_assets = [\<lparr>pa_name = js ''aquilia-1.0.1.tar.gz'', pa_size = js ''2.1 MB'', pa_type = js ''Source'', pa_downloadUrl = None\<rparr>, \<lparr>pa_name = js ''aquilia-1.0.1-py3-none-any.whl'', pa_size = js ''1.8 MB'', pa_type = js ''Wheel'', pa_downloadUrl = None\<rparr>],
     pr_installCmd = js ''pip install aquilia==1.0.1'', pr_commitCount = js ''47'', pr_contributors = 1\<rparr>"

definition page_release_1_0_1a4 :: page_release where
  "page_release_1_0_1a4 = \<lparr>
     pr_version = js ''1.0.1a4'', pr_codename = js ''Genesis Alpha 4'', pr_date = js ''Mar 13, 2026'', pr_tag = PreReleaseTag,
     pr_python = [js ''3.10'', js ''3.11'', js ''3.12''], pr_license = js ''MIT'',
     pr_summary = js ''Pre-release testing draft containing Windows smoke tests and OIDC Trusted Publisher pipelines.'',
     pr_highlights = [],
     pr_assets = [\<lparr>pa_name = js ''aquilia-1.0.1a4.tar.gz'', pa_size = js ''1.8 MB'', pa_type = js ''Source'', pa_downloadUrl = None\<rparr>],
     pr_installCmd = js ''pip install aquilia==1.0.1a4'', pr_commitCount = js ''19'', pr_contributors = 1\<rparr>"

definition page_release_1_0_1a3 :: page_release where
  "page_release_1_0_1a3 = \<lparr>
     pr_version = js ''1.0.1a3'', pr_codename = js ''Genesis Alpha 3'', pr_date = js ''Mar 12, 2026'', pr_tag = PreReleaseTag,
     pr_python = [js ''3.10'', js ''3.11'', js ''3.12''], pr_license = js ''MIT'',
     pr_summary = js ''Early pre-release containing basic testing pattern frameworks.'',
     pr_highlights = [],
     pr_assets = [],
     pr_installCmd = js ''pip install aquilia==1.0.1a3'', pr_commitCount = js ''4'', pr_contributors = 1\<rparr>"

definition page_release_1_0_0 :: page_release where
  "page_release_1_0_0 = \<lparr>
     pr_version = js ''1.0.0'', pr_codename = js ''Genesis'', pr_date = js ''Feb 22, 2026'', pr_tag = StableTag,
     pr_python = [js ''3.10'', js ''3.11'', js ''3.12''], pr_license = js ''MIT'',
     pr_summary = js ''Initial stable release, ASGI, DI container, manifest architecture.'',
     pr_highlights = [],
     pr_assets = [\<lparr>pa_name = js ''aquilia-1.0.0.tar.gz'', pa_size = js ''2.1 MB'', pa_type = js ''Source'', pa_downloadUrl = None\<rparr>, \<lparr>pa_name = js ''aquilia-1.0.0-py3-none-any.whl'', pa_size = js ''1.8 MB'', pa_type = js ''Wheel'', pa_downloadUrl = None\<rparr>],
     pr_installCmd = js ''pip install aquilia==1.0.0'', pr_commitCount = js ''500+'', pr_contributors = 1\<rparr>"

definition static_page_releases :: "page_release list" where
  "static_page_releases = [
     page_release_1_4_2, page_release_1_4_1, page_release_1_4_0, page_release_1_4_0b5, page_release_1_4_0b4, page_release_1_4_0b3, page_release_1_3_8, page_release_1_3_7, page_release_1_3_6, page_release_1_3_5, page_release_1_3_4, page_release_1_3_3, page_release_1_3_2, page_release_1_3_1, page_release_1_3_0, page_release_1_2_2, page_release_1_2_1, page_release_1_2_0, page_release_1_1_2, page_release_1_1_1, page_release_1_1_0, page_release_1_0_5, page_release_1_0_4, page_release_1_0_3, page_release_1_0_2, page_release_1_0_1, page_release_1_0_1a4, page_release_1_0_1a3, page_release_1_0_0]"

subsection \<open>The timeline\<close>

definition node_1_0_0 :: roadmap_node where
  "node_1_0_0 = \<lparr>
     rn_version = js ''1.0.0'', rn_codename = js ''Genesis'', rn_date = js ''Feb 22, 2026'', rn_status = Released, rn_type = MajorNode,
     rn_highlights = [js ''First Stable'', js ''Async ASGI Core'', js ''Scoped DI''], rn_branch = None\<rparr>"

definition node_1_0_1 :: roadmap_node where
  "node_1_0_1 = \<lparr>
     rn_version = js ''1.0.1'', rn_codename = js ''Genesis P1'', rn_date = js ''Mar 08, 2026'', rn_status = Released, rn_type = PatchNode,
     rn_highlights = [js ''Framework Security'', js ''Argon2 hashing'', js ''Path checks''], rn_branch = None\<rparr>"

definition node_1_0_2 :: roadmap_node where
  "node_1_0_2 = \<lparr>
     rn_version = js ''1.0.2'', rn_codename = js ''Genesis P2'', rn_date = js ''Apr 02, 2026'', rn_status = Released, rn_type = PatchNode,
     rn_highlights = [js ''SQLite pools'', js ''Cookie sessions'', js ''TX commits''], rn_branch = None\<rparr>"

definition node_1_0_3 :: roadmap_node where
  "node_1_0_3 = \<lparr>
     rn_version = js ''1.0.3'', rn_codename = js ''Genesis P3'', rn_date = js ''Apr 19, 2026'', rn_status = Released, rn_type = PatchNode,
     rn_highlights = [js ''Route cache compile'', js ''OpenAPI schemas''], rn_branch = None\<rparr>"

definition node_1_0_4 :: roadmap_node where
  "node_1_0_4 = \<lparr>
     rn_version = js ''1.0.4'', rn_codename = js ''Genesis P4'', rn_date = js ''May 17, 2026'', rn_status = Released, rn_type = PatchNode,
     rn_highlights = [js ''Removed workspace compile'', js ''Native execution''], rn_branch = None\<rparr>"

definition node_1_0_5 :: roadmap_node where
  "node_1_0_5 = \<lparr>
     rn_version = js ''1.0.5'', rn_codename = js ''Jolly Roger'', rn_date = js ''Jun 04, 2026'', rn_status = Released, rn_type = PatchNode,
     rn_highlights = [js ''Aquilia MCP Server'', js ''Surp serialization''], rn_branch = None\<rparr>"

definition node_1_1_0 :: roadmap_node where
  "node_1_1_0 = \<lparr>
     rn_version = js ''1.1.0'', rn_codename = js ''Black Pearl'', rn_date = js ''Jun 08, 2026'', rn_status = Released, rn_type = MinorNode,
     rn_highlights = [js ''SSE Streaming'', js ''OpenTelemetry'', js ''Body validation''], rn_branch = Some (js ''beta'')\<rparr>"

definition node_1_1_1 :: roadmap_node where
  "node_1_1_1 = \<lparr>
     rn_version = js ''1.1.1'', rn_codename = js ''Sea Serpent'', rn_date = js ''Jun 09, 2026'', rn_status = Released, rn_type = PatchNode,
     rn_highlights = [js ''Decoupled builders'', js ''Thread-safe dotenv''], rn_branch = None\<rparr>"

definition node_1_1_2 :: roadmap_node where
  "node_1_1_2 = \<lparr>
     rn_version = js ''1.1.2'', rn_codename = js ''Crimson Gale'', rn_date = js ''Jun 12, 2026'', rn_status = Released, rn_type = PatchNode,
     rn_highlights = [js ''Middleware scopes'', js ''Env mapping overrides''], rn_branch = None\<rparr>"

definition node_1_2_0 :: roadmap_node where
  "node_1_2_0 = \<lparr>
     rn_version = js ''1.2.0'', rn_codename = js ''Kraken'' @ [39] @ js ''s Wake'', rn_date = js ''Jun 28, 2026'', rn_status = Released, rn_type = MinorNode,
     rn_highlights = [js ''Request Inspector'', js ''DB CLI rollbacks'', js ''API versioning''], rn_branch = Some (js ''rc'')\<rparr>"

definition node_1_2_1 :: roadmap_node where
  "node_1_2_1 = \<lparr>
     rn_version = js ''1.2.1'', rn_codename = js ''Kraken'' @ [39] @ js ''s Wake'', rn_date = js ''Jul 01, 2026'', rn_status = Released, rn_type = PatchNode,
     rn_highlights = [js ''Startup decoupling'', js ''Lazy Jinja2 loader'', js ''Windows locks''], rn_branch = None\<rparr>"

definition node_1_2_2 :: roadmap_node where
  "node_1_2_2 = \<lparr>
     rn_version = js ''1.2.2'', rn_codename = js ''Kraken'' @ [39] @ js ''s Wake'', rn_date = js ''Jul 01, 2026'', rn_status = Released, rn_type = PatchNode,
     rn_highlights = [js ''Database integrate'', js ''ORM schema indices'', js ''CLI sync engine''], rn_branch = None\<rparr>"

definition node_1_3_0 :: roadmap_node where
  "node_1_3_0 = \<lparr>
     rn_version = js ''1.3.0'', rn_codename = js ''Blueprint Contract'', rn_date = js ''Jul 15, 2026'', rn_status = Released, rn_type = MinorNode,
     rn_highlights = [(js ''Blueprint '' @ [8594] @ js '' Contract''), js ''Facets validation'', js ''Unified permissions''], rn_branch = None\<rparr>"

definition node_1_3_1 :: roadmap_node where
  "node_1_3_1 = \<lparr>
     rn_version = js ''1.3.1'', rn_codename = js ''Backend Refactoring'', rn_date = js ''Jul 18, 2026'', rn_status = Released, rn_type = PatchNode,
     rn_highlights = [js ''Auth Backends'', js ''PermissionEngine DAG'', js ''Session hardening''], rn_branch = None\<rparr>"

definition node_1_3_2 :: roadmap_node where
  "node_1_3_2 = \<lparr>
     rn_version = js ''1.3.2'', rn_codename = js ''Specula Observatory'', rn_date = js ''Jul 20, 2026'', rn_status = Released, rn_type = PatchNode,
     rn_highlights = [js ''Spec Compilation'', js ''Specula Observatory'', js ''Schema inference''], rn_branch = None\<rparr>"

definition node_1_3_3 :: roadmap_node where
  "node_1_3_3 = \<lparr>
     rn_version = js ''1.3.3'', rn_codename = js ''Analytical Depths'', rn_date = js ''Jul 21, 2026'', rn_status = Released, rn_type = PatchNode,
     rn_highlights = [js ''Window Functions OVER'', js ''Common Table Expressions CTE'', js ''Recursive CTEs''], rn_branch = None\<rparr>"

definition node_1_3_4 :: roadmap_node where
  "node_1_3_4 = \<lparr>
     rn_version = js ''1.3.4'', rn_codename = js ''Structural Integrity'', rn_date = js ''Jul 26, 2026'', rn_status = Released, rn_type = PatchNode,
     rn_highlights = [js ''Cache L2 Durability & Heap Bounds'', js ''Storage Sandboxing & Bounded Executor'', js ''Filesystem Stream Validation''], rn_branch = None\<rparr>"

definition node_1_3_5 :: roadmap_node where
  "node_1_3_5 = \<lparr>
     rn_version = js ''1.3.5'', rn_codename = js ''Distributed Tide'', rn_date = js ''Jul 28, 2026'', rn_status = Released, rn_type = PatchNode,
     rn_highlights = [js ''Distributed Tasks & Workflows'', js ''Mail Delivery Queue & Bounces'', js ''Zero-Dependency Native HTTP''], rn_branch = None\<rparr>"

definition node_1_4_0 :: roadmap_node where
  "node_1_4_0 = \<lparr>
     rn_version = js ''1.4.0'', rn_codename = js ''Grand Armada'', rn_date = js ''Aug 23, 2026'', rn_status = Released, rn_type = MinorNode,
     rn_highlights = [js ''Native C++20 acceleration'', js ''VectorDB subsystem'', js ''Native ASGI devplatform'', js ''WebSocket middleware''], rn_branch = None\<rparr>"

definition node_1_4_1 :: roadmap_node where
  "node_1_4_1 = \<lparr>
     rn_version = js ''1.4.1'', rn_codename = js ''Safe Harbor'', rn_date = js ''Sep 15, 2026'', rn_status = Released, rn_type = PatchNode,
     rn_highlights = [js ''Auth architecture rebuild'', js ''Migration audit fixes'', js ''Async route guards'', js ''Durable DB/Redis stores''], rn_branch = None\<rparr>"

definition node_1_4_2 :: roadmap_node where
  "node_1_4_2 = \<lparr>
     rn_version = js ''1.4.2'', rn_codename = js ''Depths Unknown'', rn_date = js ''Sep 16, 2026'', rn_status = Current, rn_type = PatchNode,
     rn_highlights = [js ''Forensic verification audit'', js ''HTTP client overhaul'', js ''DB transaction integrity'', js ''Worker resilience & manifest safety''], rn_branch = None\<rparr>"

definition roadmap :: "roadmap_node list" where
  "roadmap = [
     node_1_0_0, node_1_0_1, node_1_0_2, node_1_0_3, node_1_0_4, node_1_0_5, node_1_1_0, node_1_1_1, node_1_1_2, node_1_2_0, node_1_2_1, node_1_2_2, node_1_3_0, node_1_3_1, node_1_3_2, node_1_3_3, node_1_3_4, node_1_3_5, node_1_4_0, node_1_4_1, node_1_4_2]"

end
