(* ===== verification/ReleaseNotes.thy ===== *)
theory ReleaseNotes
  imports ReleaseData VersionHook JsSort
begin

text \<open>
  The page of one release: \<open>pages/ReleaseDetail.tsx\<close>. The notes of a release are the Markdown
  files of a folder of the repository; the page first asks GitHub for the list of the folder and
  then for the file of the page. The two answers of a visit are events of the machine below, with
  any content; the visits follow each other freely, so the answers of an earlier visit may come
  after those of a later one. \<open>collate\<close> is \<open>localeCompare\<close>.
\<close>

subsection \<open>Names of pages, versions with notes\<close>

definition PAGE_LABEL_MAP :: "(jstr \<times> jstr) list" where
  "PAGE_LABEL_MAP = [
     (js ''README.md'', js ''Overview''),
     (js ''backends.md'', js ''Pluggable Auth Backends''),
     (js ''guards.md'', js ''Authorization & Guards''),
     (js ''sessions.md'', js ''Session Hardening''),
     (js ''migration.md'', js ''Migration Guide''),
     (js ''di-settings.md'', js ''DI Settings & Configuration''),
     (js ''engine.md'', js ''Unified Resolution Engine''),
     (js ''extensibility.md'', js ''Interceptors, Plugins & Conditionals'')]"

text \<open>\<open>filename.replace(/\.md$/, '')\<close>\<close>

definition md_end_rx :: rx where
  "md_end_rx = RSeq (rlit (js ''.md'')) REos"

definition drop_md :: "jstr \<Rightarrow> jstr" where
  "drop_md name = rx_replace md_end_rx (\<lambda>m c. []) name"

text \<open>The names asked for end in \<open>.md\<close>, so the look-up finds no inherited property.\<close>

definition getFileLabel :: "jstr \<Rightarrow> jstr" where
  "getFileLabel filename =
     (case jm_get PAGE_LABEL_MAP filename of
        Some l \<Rightarrow> l
      | None \<Rightarrow>
          rx_replace_all (RSeq RWordB (RChr is_word)) (\<lambda>m c. to_upper m)
            (rx_replace_all (rplus (RChr (\<lambda>x. x = 45 \<or> x = 95))) (\<lambda>m c. [32]) (drop_md filename)))"

definition letter_or_dash :: rx where
  "letter_or_dash = RChr (\<lambda>x. is_lower x \<or> is_upper x \<or> x = 45)"

definition supportsFolderNotes :: "jstr \<Rightarrow> bool" where
  "supportsFolderNotes versionStr =
     (let clean = the (hd (rx_split letter_or_dash 0 (strip_v versionStr)));
          parts = map js_number (split_char 46 clean)
      in 3 \<le> length parts \<and> parts ! 0 \<noteq> NaN \<and> parts ! 1 \<noteq> NaN \<and> parts ! 2 \<noteq> NaN \<and>
         (let major = parts ! 0; minor = parts ! 1; patch = parts ! 2 in
          if num_lt (Fin 1) major then True
          else if major = Fin 1 \<and> num_lt (Fin 3) minor then True
          else major = Fin 1 \<and> minor = Fin 3 \<and> \<not> num_lt patch (Fin 1)))"

subsection \<open>The list of versions\<close>

definition unique :: "'a list \<Rightarrow> 'a list" where
  "unique xs = fold set_add xs []"

text \<open>\<open>None\<close>: the mapping throws and the list stays as it is.\<close>

definition combined_versions :: "tags_response \<Rightarrow> jstr list option" where
  "combined_versions resp =
     (case resp of
        Tags tags \<Rightarrow>
          if None \<in> set tags then None
          else Some (unique (map (\<lambda>t. strip_v (the t)) tags @ map dr_version static_detail_releases))
      | _ \<Rightarrow> None)"

subsection \<open>The files of a folder\<close>

text \<open>An entry of the answer: its name (\<open>None\<close> when it is no string) and its address.\<close>

record folder_entry =
  fe_name :: "jstr option"
  fe_download_url :: jstr

datatype folder_response =
    FolderFailed
  | FolderStatus404
  | FolderNotOk
  | FolderNotArray
  | Folder "folder_entry list"

datatype raw_response =
    RawFailed
  | RawNotOk
  | RawText jstr

datatype notes_error = NO_RELEASE_NOTES | FILE_NOT_FOUND | FETCH_ERROR

definition README :: jstr where
  "README = js ''README.md''"

definition file_order :: "(jstr \<Rightarrow> jstr \<Rightarrow> int) \<Rightarrow> jstr \<times> jstr \<Rightarrow> jstr \<times> jstr \<Rightarrow> int" where
  "file_order collate a b =
     (if fst a = README then - 1 else if fst b = README then 1 else collate (snd a) (snd b))"

text \<open>The Markdown files among the entries; \<open>None\<close>: a name is no string and the filter throws.\<close>

definition md_files :: "folder_entry list \<Rightarrow> (jstr \<times> jstr) list option" where
  "md_files data =
     (if \<exists>f \<in> set data. fe_name f = None then None
      else Some (filter (\<lambda>f. ends_with (fst f) (js ''.md'')) (map (\<lambda>f. (the (fe_name f), fe_download_url f)) data)))"

definition file_list :: "(jstr \<Rightarrow> jstr \<Rightarrow> int) \<Rightarrow> (jstr \<times> jstr) list \<Rightarrow> (jstr \<times> jstr) list" where
  "file_list collate mdFiles = js_sort (file_order collate) (map (\<lambda>f. (fst f, getFileLabel (fst f))) mdFiles)"

subsection \<open>The machine\<close>

text \<open>A visit under way: the version and the page it was made for, and what it waits for.\<close>

datatype wait = ForFolder | ForFile

record page_visit =
  vi_id :: nat
  vi_version :: jstr
  vi_page :: jstr
  vi_wait :: wait

record release_page =
  rd_param :: "jstr option"
  rd_page :: jstr
  rd_latest :: jstr
  rd_files :: "(jstr \<times> jstr) list"
  rd_content :: jstr
  rd_isLoading :: bool
  rd_error :: "notes_error option"
  rd_versions :: "jstr list"
  rd_visits :: "page_visit list"
  rd_next :: nat

definition shown_version :: "jstr option \<Rightarrow> jstr \<Rightarrow> jstr" where
  "shown_version param latest =
     (let paramVersion = (case param of None \<Rightarrow> AQUILIA_VERSION | Some v \<Rightarrow> v) in
      if paramVersion = js ''latest'' \<or> paramVersion = [] then latest else paramVersion)"

definition rd_version :: "release_page \<Rightarrow> jstr" where
  "rd_version st = shown_version (rd_param st) (rd_latest st)"

text \<open>The effect on \<open>[version, page]\<close>.\<close>

definition load_page :: "release_page \<Rightarrow> release_page" where
  "load_page st =
     (let st = st\<lparr>rd_isLoading := True, rd_error := None\<rparr>;
          cleanVersion = strip_v (rd_version st)
      in if \<not> supportsFolderNotes cleanVersion
         then st\<lparr>rd_error := Some NO_RELEASE_NOTES, rd_isLoading := False\<rparr>
         else st\<lparr>rd_visits := rd_visits st @
                [\<lparr>vi_id = rd_next st, vi_version = rd_version st, vi_page = rd_page st, vi_wait = ForFolder\<rparr>],
              rd_next := Suc (rd_next st)\<rparr>)"

definition find_visit :: "nat \<Rightarrow> release_page \<Rightarrow> page_visit option" where
  "find_visit i st = find (\<lambda>q. vi_id q = i) (rd_visits st)"

definition end_visit :: "nat \<Rightarrow> release_page \<Rightarrow> release_page" where
  "end_visit i st = st\<lparr>rd_visits := filter (\<lambda>q. vi_id q \<noteq> i) (rd_visits st)\<rparr>"

text \<open>The \<open>catch\<close>.\<close>

definition visit_failed :: "notes_error \<Rightarrow> release_page \<Rightarrow> release_page" where
  "visit_failed e st = st\<lparr>rd_error := Some e, rd_isLoading := False\<rparr>"

definition folder_arrived :: "(jstr \<Rightarrow> jstr \<Rightarrow> int) \<Rightarrow> nat \<Rightarrow> folder_response \<Rightarrow> release_page \<Rightarrow> release_page" where
  "folder_arrived collate i resp st =
     (case find_visit i st of
        None \<Rightarrow> st
      | Some q \<Rightarrow>
          if vi_wait q \<noteq> ForFolder then st
          else (case resp of
              FolderFailed \<Rightarrow> visit_failed FETCH_ERROR (end_visit i st)
            | FolderStatus404 \<Rightarrow> visit_failed NO_RELEASE_NOTES (end_visit i st)
            | FolderNotOk \<Rightarrow> visit_failed FETCH_ERROR (end_visit i st)
            | FolderNotArray \<Rightarrow> (end_visit i st)\<lparr>rd_isLoading := False\<rparr>
            | Folder data \<Rightarrow>
                (case md_files data of
                   None \<Rightarrow> visit_failed FETCH_ERROR (end_visit i st)
                 | Some mdFiles \<Rightarrow>
                     if mdFiles = [] then visit_failed NO_RELEASE_NOTES (end_visit i st)
                     else
                       (let st = st\<lparr>rd_files := file_list collate mdFiles\<rparr> in
                        case find (\<lambda>f. fst f = vi_page q) mdFiles of
                          Some f \<Rightarrow> st\<lparr>rd_visits := map (\<lambda>r. if vi_id r = i then r\<lparr>vi_wait := ForFile\<rparr> else r) (rd_visits st)\<rparr>
                        | None \<Rightarrow> (end_visit i st)\<lparr>rd_error := Some FILE_NOT_FOUND, rd_isLoading := False\<rparr>))))"

definition raw_arrived :: "nat \<Rightarrow> raw_response \<Rightarrow> release_page \<Rightarrow> release_page" where
  "raw_arrived i resp st =
     (case find_visit i st of
        None \<Rightarrow> st
      | Some q \<Rightarrow>
          if vi_wait q \<noteq> ForFile then st
          else (case resp of
              RawFailed \<Rightarrow> visit_failed FETCH_ERROR (end_visit i st)
            | RawNotOk \<Rightarrow> visit_failed FETCH_ERROR (end_visit i st)
            | RawText t \<Rightarrow> (end_visit i st)\<lparr>rd_content := t, rd_isLoading := False\<rparr>))"

datatype notes_event =
    Visit "jstr option" "jstr option"
  | LatestChanged jstr
  | TagsArrived tags_response
  | FolderArrived nat folder_response
  | RawArrived nat raw_response

text \<open>The effect runs again when the version or the page has changed.\<close>

definition rerouted :: "release_page \<Rightarrow> release_page \<Rightarrow> release_page" where
  "rerouted old st =
     (if rd_version st = rd_version old \<and> rd_page st = rd_page old then st else load_page st)"

fun notes_step :: "(jstr \<Rightarrow> jstr \<Rightarrow> int) \<Rightarrow> notes_event \<Rightarrow> release_page \<Rightarrow> release_page" where
  "notes_step collate (Visit param page) st =
     rerouted st (st\<lparr>rd_param := param, rd_page := (case page of None \<Rightarrow> README | Some p \<Rightarrow> p)\<rparr>)"
| "notes_step collate (LatestChanged v) st = rerouted st (st\<lparr>rd_latest := v\<rparr>)"
| "notes_step collate (TagsArrived resp) st =
     (case combined_versions resp of None \<Rightarrow> st | Some vs \<Rightarrow> st\<lparr>rd_versions := vs\<rparr>)"
| "notes_step collate (FolderArrived i resp) st = folder_arrived collate i resp st"
| "notes_step collate (RawArrived i resp) st = raw_arrived i resp st"

text \<open>The page as it is mounted: the first render, then the effect.\<close>

definition notes_mount :: "jstr option \<Rightarrow> jstr option \<Rightarrow> jstr \<Rightarrow> release_page" where
  "notes_mount param page latest = load_page \<lparr>rd_param = param,
     rd_page = (case page of None \<Rightarrow> README | Some p \<Rightarrow> p), rd_latest = latest, rd_files = [], rd_content = [],
     rd_isLoading = True, rd_error = None, rd_versions = map dr_version static_detail_releases,
     rd_visits = [], rd_next = 0\<rparr>"

subsection \<open>What is shown\<close>

datatype page_shown =
    Loading
  | Fallback "detail_release option"
  | NotFound jstr
  | Notes jstr

definition activeReleaseInfo :: "jstr \<Rightarrow> detail_release option" where
  "activeReleaseInfo version = find (\<lambda>r. dr_version r = version) static_detail_releases"

definition pageTitle :: "release_page \<Rightarrow> jstr" where
  "pageTitle st = (case find (\<lambda>f. fst f = rd_page st) (rd_files st) of
     Some f \<Rightarrow> snd f | None \<Rightarrow> js ''Release Notes'')"

definition notes_view :: "release_page \<Rightarrow> page_shown" where
  "notes_view st =
     (if rd_isLoading st then Loading
      else (case rd_error st of
          Some NO_RELEASE_NOTES \<Rightarrow> Fallback (activeReleaseInfo (rd_version st))
        | Some e \<Rightarrow> NotFound (if e = FILE_NOT_FOUND then js ''The requested release notes page could not be found.''
            else js ''An error occurred while loading release documentation.'')
        | None \<Rightarrow> Notes (rd_content st)))"

text \<open>The links of the sidebar, each with its label and whether it is the page shown.\<close>

definition notes_address :: "jstr \<Rightarrow> jstr \<Rightarrow> jstr" where
  "notes_address version name =
     (if name = README then js ''/releases/'' @ version else js ''/releases/'' @ version @ [47] @ name)"

definition sidebar_files :: "release_page \<Rightarrow> (jstr \<times> jstr \<times> bool) list" where
  "sidebar_files st = map (\<lambda>f. (notes_address (rd_version st) (fst f), snd f, rd_page st = fst f)) (rd_files st)"

text \<open>The version menu: where each entry leads, its label, whether it is the version shown.\<close>

definition version_menu :: "release_page \<Rightarrow> (jstr \<times> jstr \<times> bool) list" where
  "version_menu st = map (\<lambda>v. (js ''/releases/'' @ v,
     118 # v @ [32] @ (if v = js ''1.3.1'' then js ''(Static Notes)'' else []), v = rd_version st)) (rd_versions st)"

definition notes_crumbs :: "release_page \<Rightarrow> (jstr \<times> jstr option) list" where
  "notes_crumbs st =
     [(js ''Releases'', Some (js ''/releases'')),
      (118 # rd_version st, Some (js ''/releases/'' @ rd_version st))] @
     (if rd_page st \<noteq> README then [(pageTitle st, None)] else [])"

definition metaTitle :: "release_page \<Rightarrow> jstr" where
  "metaTitle st = 118 # rd_version st @ [32] @ pageTitle st @ [32, 0x2014, 32] @ js ''Aquilia Releases''"

definition metaDescription :: "release_page \<Rightarrow> jstr" where
  "metaDescription st =
     js ''Release notes and update details for version '' @ rd_version st @ js '' of Aquilia framework.''"

text \<open>The short notes, from top to bottom: headings, texts, links out of the site and into it, the command
  with its copy button, the files.\<close>

datatype notes_item =
    Title jstr
  | Badge jstr
  | Words jstr
  | Outside jstr jstr
  | Inside jstr jstr
  | Command jstr
  | AssetRow jstr jstr

definition tag_text :: "release_tag \<Rightarrow> jstr" where
  "tag_text t = (case t of LatestTag \<Rightarrow> js ''latest'' | StableTag \<Rightarrow> js ''stable'' | PreReleaseTag \<Rightarrow> js ''pre-release'')"

definition unknown_release :: "jstr \<Rightarrow> notes_item list" where
  "unknown_release version = [
     Title (118 # version @ js '' Release Notes''),
     Words (js ''Detailed documentation pages are not available for this version. Folder-based modular release documentation was introduced in version 1.3.1.''),
     Outside (js ''https://github.com/tubox-labs/Aquilia/releases/tag/v'' @ version) (js ''View GitHub Release''),
     Inside (js ''/releases'') (js ''Timeline Overview'')]"

definition known_release :: "detail_release \<Rightarrow> notes_item list" where
  "known_release r = [
     Title (118 # dr_version r), Badge (tag_text (dr_tag r)), Words ([34] @ dr_codename r @ [34]),
     Words (js ''Published on '' @ dr_date r), Words (js ''MIT License''),
     Title (js ''Summary''), Words (dr_summary r),
     Title (js ''Quick Install''), Command (dr_installCmd r)] @
     (if dr_assets r = [] then []
      else Title (js ''Assets & Downloads'') #
        map (\<lambda>a. AssetRow (ra_name a) (ra_type a @ [32, 0x2022, 32] @ ra_size a)) (dr_assets r)) @
     [Title (js ''Note''),
      Words (js ''Separate multi-page documentation release notes are compiled starting with ''),
      Inside (js ''/releases/1.3.1'') (js ''v1.3.1''),
      Words (js ''. You can inspect this release by switching using the dropdown in the sidebar.'')]"

definition renderFallbackNotes :: "jstr \<Rightarrow> notes_item list" where
  "renderFallbackNotes version =
     (case activeReleaseInfo version of None \<Rightarrow> unknown_release version | Some r \<Rightarrow> known_release r)"

subsection \<open>The menus\<close>

text \<open>The version menu, the drawer and the copy button. A press outside the menu closes it; a choice in
  it closes it and leads to the version (\<open>mn_visited\<close> holds the addresses).\<close>

record menus =
  mn_versionOpen :: bool
  mn_sidebarOpen :: bool
  mn_copiedCmd :: "jstr option"
  mn_clipboard :: jstr
  mn_timers :: nat
  mn_visited :: "jstr list"

datatype menus_event =
    MouseDown bool
  | ToggleVersions
  | ChooseVersion jstr
  | ShowSidebar bool
  | CopyCommand jstr
  | CopiedTimeout

fun menus_step :: "menus_event \<Rightarrow> menus \<Rightarrow> menus" where
  "menus_step (MouseDown inside) mn = (if inside then mn else mn\<lparr>mn_versionOpen := False\<rparr>)"
| "menus_step ToggleVersions mn = mn\<lparr>mn_versionOpen := \<not> mn_versionOpen mn\<rparr>"
| "menus_step (ChooseVersion v) mn =
     (if mn_versionOpen mn then mn\<lparr>mn_versionOpen := False, mn_visited := mn_visited mn @ [js ''/releases/'' @ v]\<rparr> else mn)"
| "menus_step (ShowSidebar b) mn = mn\<lparr>mn_sidebarOpen := b\<rparr>"
| "menus_step (CopyCommand t) mn = mn\<lparr>mn_clipboard := t, mn_copiedCmd := Some t, mn_timers := Suc (mn_timers mn)\<rparr>"
| "menus_step CopiedTimeout mn =
     (if mn_timers mn = 0 then mn else mn\<lparr>mn_copiedCmd := None, mn_timers := mn_timers mn - 1\<rparr>)"

end
