(* ===== verification/Markdown.thy ===== *)
theory Markdown
  imports ReleaseNotes DocRegistry
begin

text \<open>
  The renderer of release notes: \<open>components/MarkdownBridge.tsx\<close>. The text is cut into tokens by
  the library \<open>marked\<close>; the tokens, in the fields the component reads, are \<open>inline\<close> and
  \<open>block\<close>, and what it renders is a \<open>node\<close> (tags, text, addresses; the styles are left
  out). \<open>lower\<close> is \<open>toLowerCase\<close>.
\<close>

subsection \<open>Terms\<close>

text \<open>\<open>entity.title.replace(/^@/, '')\<close> in lower case, and with underscores for blanks.\<close>

definition clean_title :: "(jstr \<Rightarrow> jstr) \<Rightarrow> jstr \<Rightarrow> jstr" where
  "clean_title lower title = lower (if starts_with title [64] then tl title else title)"

definition snake_title :: "(jstr \<Rightarrow> jstr) \<Rightarrow> jstr \<Rightarrow> jstr" where
  "snake_title lower title = rx_replace_all (rplus r_ws) (\<lambda>m c. [95]) (clean_title lower title)"

definition last_part :: "jstr \<Rightarrow> jstr" where
  "last_part i = last (split_char 46 i)"

definition add_titles :: "(jstr \<Rightarrow> jstr) \<Rightarrow> doc_entity \<Rightarrow> (jstr, jstr) jmap \<Rightarrow> (jstr, jstr) jmap" where
  "add_titles lower e m =
     (let m = jm_set (lower (de_title e)) (de_id e) m;
          m = jm_set (clean_title lower (de_title e)) (de_id e) m;
          m = jm_set (snake_title lower (de_title e)) (de_id e) m
      in if 46 \<in> set (de_id e) \<and> \<not> jm_has m (last_part (de_id e))
         then jm_set (last_part (de_id e)) (de_id e) m else m)"

text \<open>The map is built at the first use and kept: the value and the new content of the variable
  \<open>titleToIdMap\<close>.\<close>

definition getTitleToIdMap ::
    "(jstr \<Rightarrow> jstr) \<Rightarrow> registry_state \<Rightarrow> (jstr, jstr) jmap option \<Rightarrow> (jstr, jstr) jmap \<times> (jstr, jstr) jmap option" where
  "getTitleToIdMap lower reg cache =
     (case cache of
        Some m \<Rightarrow> (m, cache)
      | None \<Rightarrow> (let m = fold (add_titles lower) (getAllDocEntities reg) [] in (m, Some m)))"

subsection \<open>The anchors of headings\<close>

definition slugify :: "(jstr \<Rightarrow> jstr) \<Rightarrow> jstr \<Rightarrow> jstr" where
  "slugify lower t =
     js_trim (rx_replace_all (rplus (RChr (\<lambda>x. x = 45))) (\<lambda>m c. [45])
       (rx_replace_all (rplus r_ws) (\<lambda>m c. [45])
         (rx_replace_all (RChr (\<lambda>x. \<not> (is_word x \<or> is_ws x \<or> x = 45))) (\<lambda>m c. []) (lower t))))"

subsection \<open>Tokens and nodes\<close>

datatype inline =
    Text "inline list option" jstr
  | Escape "inline list option" jstr
  | CodeSpan jstr
  | Href "jstr option" jstr
  | Strong "inline list option"
  | Em "inline list option"
  | Break
  | Del "inline list option" jstr
  | Image jstr jstr "jstr option"
  | InlineHtml jstr
  | OtherInline jstr

datatype block =
    Heading nat jstr "inline list option"
  | Paragraph jstr "inline list option"
  | Code "jstr option" jstr
  | Listing bool "(block list option \<times> jstr option) list"
  | Blockquote "block list"
  | Table "inline list option list" "inline list option list list"
  | TextBlock "inline list option" jstr
  | Definition
  | Html jstr
  | Space
  | Rule
  | OtherBlock jstr

datatype alert_kind = NoteAlert | TipAlert | WarningAlert | ImportantAlert

datatype node =
    NText jstr
  | NSpan "node list"
  | NTerm jstr jstr
  | NCodeSpan jstr
  | NLink jstr jstr
  | NAnchor jstr bool jstr
  | NStrong "node list"
  | NEm "node list"
  | NBreak
  | NDel "node list"
  | NImage jstr jstr "jstr option"
  | NHtml jstr
  | NHeading nat jstr "node list"
  | NParagraph "node list"
  | NCodeBlock jstr jstr jstr
  | NList bool "node list list"
  | NAlert alert_kind jstr "node list"
  | NQuote "node list"
  | NTable "node list list" "node list list list"
  | NDiv jstr
  | NRule
  | NNothing

record bridge =
  br_lower :: "jstr \<Rightarrow> jstr"
  br_version :: jstr
  br_currentPage :: jstr
  br_terms :: "(jstr, jstr) jmap"

subsection \<open>Inline tokens\<close>

definition render_code_span :: "bridge \<Rightarrow> jstr \<Rightarrow> node" where
  "render_code_span br t =
     (let text = js_trim t in
      case jm_get (br_terms br) (br_lower br text) of
        Some termId \<Rightarrow> if termId \<noteq> [] then NTerm termId text else NCodeSpan text
      | None \<Rightarrow> NCodeSpan text)"

definition notes_path :: "bridge \<Rightarrow> jstr \<Rightarrow> jstr" where
  "notes_path br pageName =
     (if pageName = js ''README'' then js ''/releases/'' @ br_version br
      else js ''/releases/'' @ br_version br @ [47] @ pageName)"

definition render_link :: "bridge \<Rightarrow> jstr option \<Rightarrow> jstr \<Rightarrow> node" where
  "render_link br token_href text =
     (let href = str_or token_href [];
          isExternal = starts_with href (js ''http://'') \<or> starts_with href (js ''https://'') \<or> starts_with href (js ''//'');
          isLocalMarkdown = ends_with href (js ''.md'') \<or> js_includes href (js ''.md#'')
      in if isLocalMarkdown then
           (let (pagePath, hash) = (case index_of href [35] of
                  None \<Rightarrow> (href, []) | Some i \<Rightarrow> (take i href, drop i href))
            in NLink (notes_path br (drop_md pagePath) @ hash) text)
         else if starts_with href [35] then NLink (notes_path br (br_currentPage br) @ href) text
         else NAnchor href isExternal text)"

fun renderInline :: "bridge \<Rightarrow> inline \<Rightarrow> node"
  and renderInlineTokens :: "bridge \<Rightarrow> inline list \<Rightarrow> node list"
  and renderInlineOption :: "bridge \<Rightarrow> inline list option \<Rightarrow> node list" where
  "renderInline br (Text ts t) = NSpan (case ts of Some us \<Rightarrow> renderInlineTokens br us | None \<Rightarrow> [NText t])"
| "renderInline br (Escape ts t) = NSpan (case ts of Some us \<Rightarrow> renderInlineTokens br us | None \<Rightarrow> [NText t])"
| "renderInline br (CodeSpan t) = render_code_span br t"
| "renderInline br (Href href t) = render_link br href t"
| "renderInline br (Strong ts) = NStrong (renderInlineOption br ts)"
| "renderInline br (Em ts) = NEm (renderInlineOption br ts)"
| "renderInline br Break = NBreak"
| "renderInline br (Del ts t) = NDel (case ts of Some us \<Rightarrow> renderInlineTokens br us | None \<Rightarrow> [NText t])"
| "renderInline br (Image href t title) = NImage href t (if truthy title then title else None)"
| "renderInline br (InlineHtml t) = NHtml t"
| "renderInline br (OtherInline t) = NSpan [NText t]"
| "renderInlineTokens br [] = []"
| "renderInlineTokens br (t # ts) = renderInline br t # renderInlineTokens br ts"
| "renderInlineOption br None = []"
| "renderInlineOption br (Some ts) = renderInlineTokens br ts"

subsection \<open>Alerts\<close>

text \<open>\<open>/^\[!(NOTE|TIP|WARNING|IMPORTANT|CAUTION|INFO)\]/i\<close>\<close>

definition alert_rx :: rx where
  "alert_rx = rseq [RBos, rlit (js ''[!''),
     RCap 1 (ralt [rlit_i (js ''NOTE''), rlit_i (js ''TIP''), rlit_i (js ''WARNING''), rlit_i (js ''IMPORTANT''),
       rlit_i (js ''CAUTION''), rlit_i (js ''INFO'')]), rlit (js '']'')]"

definition alert_kind_of :: "jstr \<Rightarrow> alert_kind \<times> jstr" where
  "alert_kind_of typeStr =
     (if typeStr = js ''TIP'' then (TipAlert, js ''Tip'')
      else if typeStr = js ''WARNING'' then (WarningAlert, js ''Warning'')
      else if typeStr = js ''IMPORTANT'' \<or> typeStr = js ''CAUTION'' then (ImportantAlert, js ''Important'')
      else (NoteAlert, js ''Note''))"

text \<open>The first inline token without the mark.\<close>

definition clean_first :: "inline list option \<Rightarrow> inline list option" where
  "clean_first tokens =
     (case tokens of
        Some (Text us t # ts) \<Rightarrow> Some (Text us (js_trim (rx_replace alert_rx (\<lambda>m c. []) t)) # ts)
      | _ \<Rightarrow> tokens)"

definition parseAlert :: "block list \<Rightarrow> (alert_kind \<times> jstr \<times> block list) option" where
  "parseAlert tokens =
     (case tokens of
        Paragraph text inls # bs \<Rightarrow>
          (case rx_match alert_rx text of
             None \<Rightarrow> None
           | Some c \<Rightarrow>
               (let (kind, title) = alert_kind_of (to_upper (the (c 1)));
                    prefixLength = length (the (c 0))
                in Some (kind, title, Paragraph (js_trim (drop prefixLength text)) (clean_first inls) # bs)))
      | _ \<Rightarrow> None)"

subsection \<open>Blocks\<close>

text \<open>\<open>(token.lang || '').split(/\s+/)\<close>\<close>

definition render_code :: "jstr option \<Rightarrow> jstr \<Rightarrow> node" where
  "render_code token_lang text =
     (let langParts = map the (rx_split (rplus r_ws) 0 (str_or token_lang []));
          language = str_or (Some (hd langParts)) (js ''python'');
          filename = (if 1 < length langParts then langParts ! 1 else [])
      in NCodeBlock language filename text)"

lemma size_clean_first: "size_option (size_list size) (clean_first ts) = size_option (size_list size) ts"
  by (auto simp: clean_first_def split: option.split list.split inline.split)

lemma size_parseAlert [termination_simp]: "parseAlert bs = Some (k, t, cs) \<Longrightarrow> size_list size cs = size_list size bs"
  by (auto simp: parseAlert_def size_clean_first split: list.splits block.splits option.splits prod.splits)

text \<open>The children of a list item that are rendered without their \<open><p>\<close>.\<close>

fun inline_child :: "block \<Rightarrow> inline list option option" where
  "inline_child (Paragraph t ts) = Some ts"
| "inline_child (TextBlock ts t) = Some ts"
| "inline_child b = None"

fun renderBlock :: "bridge \<Rightarrow> block \<Rightarrow> node"
  and renderBlocks :: "bridge \<Rightarrow> block list \<Rightarrow> node list"
  and renderChildren :: "bridge \<Rightarrow> block list \<Rightarrow> node list"
  and renderItem :: "bridge \<Rightarrow> block list option \<times> jstr option \<Rightarrow> node list"
  and renderItems :: "bridge \<Rightarrow> (block list option \<times> jstr option) list \<Rightarrow> node list list" where
  "renderBlock br (Heading depth t ts) = NHeading depth (slugify (br_lower br) t) (renderInlineOption br ts)"
| "renderBlock br (Paragraph t ts) = NParagraph (renderInlineOption br ts)"
| "renderBlock br (Code lang t) = render_code lang t"
| "renderBlock br (Listing ordered items) = NList ordered (renderItems br items)"
| "renderBlock br (Blockquote bs) =
     (case parseAlert bs of
        Some (kind, title, cleanTokens) \<Rightarrow> NAlert kind title (renderBlocks br cleanTokens)
      | None \<Rightarrow> NQuote (renderBlocks br bs))"
| "renderBlock br (Table header rows) =
     NTable (map (renderInlineOption br) header) (map (map (renderInlineOption br)) rows)"
| "renderBlock br (TextBlock ts t) =
     NParagraph (case ts of Some us \<Rightarrow> renderInlineTokens br us | None \<Rightarrow> [NText t])"
| "renderBlock br Definition = NNothing"
| "renderBlock br (Html t) = NHtml t"
| "renderBlock br Space = NNothing"
| "renderBlock br Rule = NRule"
| "renderBlock br (OtherBlock raw) = NDiv raw"
| "renderBlocks br [] = []"
| "renderBlocks br (b # bs) = renderBlock br b # renderBlocks br bs"
| "renderChildren br [] = []"
| "renderChildren br (b # bs) =
     (case inline_child b of Some ts \<Rightarrow> NSpan (renderInlineOption br ts) | None \<Rightarrow> renderBlock br b) # renderChildren br bs"
| "renderItem br (Some (b # bs), t) = renderChildren br (b # bs)"
| "renderItem br (tokens, t) = (if truthy t then [NSpan [NText (the t)]] else [])"
| "renderItems br [] = []"
| "renderItems br (i # is) = renderItem br i # renderItems br is"

text \<open>The whole page; \<open>lexer\<close> is \<open>marked.lexer\<close>.\<close>

definition MarkdownBridge ::
    "(jstr \<Rightarrow> block list) \<Rightarrow> (jstr \<Rightarrow> jstr) \<Rightarrow> (jstr, jstr) jmap \<Rightarrow> jstr \<Rightarrow> jstr \<Rightarrow> jstr \<Rightarrow> node list" where
  "MarkdownBridge lexer lower terms content version currentPage =
     renderBlocks \<lparr>br_lower = lower, br_version = version, br_currentPage = currentPage, br_terms = terms\<rparr> (lexer content)"

subsection \<open>The routes of the release pages\<close>

text \<open>The routes \<open>/releases/:version\<close> and \<open>/releases/:version/:page\<close> of \<open>App.tsx\<close>: a parameter
  is one segment of the path.\<close>

definition release_route :: "jstr \<Rightarrow> notes_event option" where
  "release_route address =
     (case filter (\<lambda>p. p \<noteq> []) (split_char 47 (takeWhile (\<lambda>x. x \<noteq> 35 \<and> x \<noteq> 63) address)) of
        [r, v] \<Rightarrow> if r = js ''releases'' then Some (Visit (Some v) None) else None
      | [r, v, p] \<Rightarrow> if r = js ''releases'' then Some (Visit (Some v) (Some p)) else None
      | _ \<Rightarrow> None)"

end
