(* ===== verification/ReleaseFacts.thy ===== *)
theory ReleaseFacts
  imports ReleaseNotes "HOL-Library.Product_Lexorder" "HOL-Library.Multiset"
begin

text \<open>
  Facts on the release page: which versions have notes, the order of the sidebar, what a visit
  shows when its answers come in time, and what holds whatever the order of the answers.
\<close>

subsection \<open>Versions with notes\<close>

lemma digit_not_ws: "is_digit x \<Longrightarrow> \<not> is_ws x"
  by (auto simp: is_digit_def is_ws_def)

lemma js_number_digits:
  assumes "a \<noteq> []" "list_all is_digit a"
  shows "js_number a = Fin (of_nat (digits_value 10 a))"
proof -
  obtain x s where a: "a = x # s" using assms(1) by (cases a) auto
  have "trimmed a" using assms by (auto simp: trimmed_def list_all_iff digit_not_ws)
  then have t: "js_trim a = a" by (rule js_trim_id)
  have l: "y < 58" if "y \<in> set a" for y using assms(2) that by (auto simp: list_all_iff is_digit_def)
  have p: "to_lower (take 2 a) \<noteq> [48, c]" if "58 \<le> c" for c
  proof
    assume "to_lower (take 2 a) = [48, c]"
    then obtain u v w where "a = u # v # w" "lower_unit v = c"
      unfolding a to_lower_def by (cases s) (auto simp: take_Cons')
    with l [of v] that show False by (auto simp: lower_unit_def is_upper_def split: if_splits)
  qed
  have w: "takeWhile is_digit a = a" "dropWhile is_digit a = []"
    using assms(2) by (simp_all add: list_all_iff dropWhile_eq_Nil_conv)
  have "x \<noteq> 43" "x \<noteq> 45" "x \<noteq> 73" using assms(2) a by (auto simp: is_digit_def)
  then show ?thesis
    using p [of 120] p [of 111] p [of 98] assms(1) w unfolding js_number_def t Let_def
    by (simp add: a unsigned_decimal_def scaled_def)
qed

lemma hd_split_class: "hd (rx_split_go (RChr f) 0 acc p s) = Some (rev acc @ takeWhile (\<lambda>x. \<not> f x) s)"
proof (induction s arbitrary: acc p)
  case (Cons x s)
  then show ?case by (subst rx_split_go.simps) (simp add: rx_at_def)
qed (simp add: rx_split_go.simps)

lemma hd_split: "hd (rx_split (RChr f) 0 s) = Some (takeWhile (\<lambda>x. \<not> f x) s)"
  by (simp add: rx_split_def hd_split_class) (simp add: rx_at_def)

lemma notes_since_lex:
  fixes a b c :: nat
  shows "(1 < a \<or> a = 1 \<and> 3 < b \<or> a = 1 \<and> b = 3 \<and> 1 \<le> c) \<longleftrightarrow> (1, 3, 1) \<le> (a, b, c)"
  by (auto simp: less_eq_prod_def)

text \<open>A release has a page of notes of its own exactly from version 1.3.1 on: for three numbers
  with an optional leading \<open>v\<close> and an optional suffix that starts with a letter or a dash
  (\<open>1.4.0b5\<close>), \<open>supportsFolderNotes\<close> compares the numbers lexicographically with 1.3.1 and ignores
  the suffix.
\<close>
theorem supportsFolderNotes_since:
  assumes "v = [] \<or> v = js ''v''"
    and "a \<noteq> []" "list_all is_digit a" "b \<noteq> []" "list_all is_digit b" "c \<noteq> []" "list_all is_digit c"
    and "r = [] \<or> is_lower (hd r) \<or> is_upper (hd r) \<or> hd r = 45"
  shows "supportsFolderNotes (v @ js_join [46] [a, b, c] @ r) \<longleftrightarrow>
    (1, 3, 1) \<le> (digits_value 10 a, digits_value 10 b, digits_value 10 c)"
proof -
  let ?f = "\<lambda>x. is_lower x \<or> is_upper x \<or> x = 45"
  let ?w = "js_join [46] [a, b, c]"
  have d: "\<not> ?f x" "x \<noteq> 46" "x \<noteq> 118" if "is_digit x" for x
    using that by (auto simp: is_digit_def is_lower_def is_upper_def)
  have f: "\<forall>x \<in> set ?w. \<not> ?f x"
    using assms(3,5,7) d by (auto simp: list_all_iff is_lower_def is_upper_def)
  have "starts_with (?w @ r) [118] = False"
    using assms(2,3) d(3) by (cases a) auto
  then have "strip_v (v @ ?w @ r) = ?w @ r"
    using assms(1) by (auto simp: strip_v_def)
  moreover have "takeWhile (\<lambda>x. \<not> ?f x) (?w @ r) = ?w"
    using f assms(8) by (cases r) (auto simp: takeWhile_append2)
  ultimately have clean: "the (hd (rx_split letter_or_dash 0 (strip_v (v @ ?w @ r)))) = ?w"
    by (simp add: letter_or_dash_def hd_split)
  have "split_char 46 ?w = [a, b, c]"
    using split_join [of "[a, b, c]" 46] assms(3,5,7) d(2) by (auto simp: list_all_iff)
  then have "map js_number (split_char 46 ?w) =
    [Fin (of_nat (digits_value 10 a)), Fin (of_nat (digits_value 10 b)), Fin (of_nat (digits_value 10 c))]"
    using assms js_number_digits by simp
  then show ?thesis
    unfolding supportsFolderNotes_def clean Let_def notes_since_lex [symmetric] by simp linarith
qed

theorem supportsFolderNotes_since_witness:
  "\<not> supportsFolderNotes (js ''v1.3.0'') \<and> supportsFolderNotes (js ''1.4.0b5'') \<and> supportsFolderNotes (js ''1.10.0'')"
proof -
  note s = supportsFolderNotes_since
  have "\<not> supportsFolderNotes (js ''v'' @ js_join [46] [js ''1'', js ''3'', js ''0''] @ [])"
    by (subst s) (simp_all add: is_digit_def digits_value_def digit_value_def)
  moreover have "supportsFolderNotes ([] @ js_join [46] [js ''1'', js ''4'', js ''0''] @ js ''b5'')"
    by (subst s) (simp_all add: is_digit_def digits_value_def digit_value_def is_lower_def)
  moreover have "supportsFolderNotes ([] @ js_join [46] [js ''1'', js ''10'', js ''0''] @ [])"
    by (subst s) (simp_all add: is_digit_def digits_value_def digit_value_def)
  ultimately show ?thesis by simp
qed

subsection \<open>The sidebar\<close>

lemma comparator_files:
  assumes "comparator collate" shows "comparator (file_order collate)"
proof
  note c = comparator.cmp_total [OF assms] comparator.cmp_trans [OF assms] comparator.cmp_refl [OF assms]
  show "file_order collate y x \<le> 0" if "0 < file_order collate x y" for x y
    using that c(1) by (auto simp: file_order_def split: if_splits)
  show "file_order collate x z \<le> 0" if "file_order collate x y \<le> 0" "file_order collate y z \<le> 0" for x y z
    using that c(2) by (auto simp: file_order_def split: if_splits)
  show "file_order collate x x \<le> 0" for x using c(3) by (simp add: file_order_def)
qed

lemma mset_insert_by: "mset (insert_by cmp x ys) = add_mset x (mset ys)"
  by (induction ys) auto

lemma mset_js_sort: "mset (js_sort cmp xs) = mset xs"
  by (induction xs) (auto simp: mset_insert_by)

lemma sorted_split:
  assumes "sorted_wrt P xs" "\<And>x y. \<not> Q x \<Longrightarrow> Q y \<Longrightarrow> \<not> P x y"
  shows "xs = filter Q xs @ filter (\<lambda>x. \<not> Q x) xs"
  using assms(1)
proof (induction xs)
  case (Cons x xs)
  then have "filter Q xs = []" if "\<not> Q x" using that assms(2) by (auto simp: filter_empty_conv)
  with Cons show ?case by auto
qed simp

lemma overview_label: "getFileLabel README = js ''Overview''"
  by (simp add: getFileLabel_def PAGE_LABEL_MAP_def README_def)

text \<open>The sidebar lists every Markdown file of the release once: the overview \<open>README.md\<close>
  first when there is one, the other pages after it in the order of their labels.
\<close>
theorem file_list_ordered:
  assumes "comparator collate" "distinct (map fst mdFiles)"
  shows "\<exists>us vs. file_list collate mdFiles = us @ vs \<and>
    us = (if README \<in> fst ` set mdFiles then [(README, js ''Overview'')] else []) \<and>
    sorted_wrt (\<lambda>x y. collate (snd x) (snd y) \<le> 0) vs \<and>
    mset vs = mset (map (\<lambda>f. (fst f, getFileLabel (fst f))) (filter (\<lambda>f. fst f \<noteq> README) mdFiles))"
proof -
  let ?Q = "\<lambda>f. fst f = README"
  let ?m = "map (\<lambda>f. (fst f, getFileLabel (fst f))) mdFiles"
  let ?us = "filter ?Q (file_list collate mdFiles)" and ?vs = "filter (\<lambda>f. \<not> ?Q f) (file_list collate mdFiles)"
  note c = comparator_files [OF assms(1)]
  have sorted: "sorted_wrt (\<lambda>x y. file_order collate x y \<le> 0) (file_list collate mdFiles)"
    unfolding file_list_def by (rule comparator.sorted_js_sort [OF c])
  have a: "file_list collate mdFiles = ?us @ ?vs"
    by (rule sorted_split [OF sorted]) (simp add: file_order_def)
  have "?us = filter ?Q ?m"
    unfolding file_list_def by (rule js_sort_stable) (simp add: file_order_def)
  also have "\<dots> = (if README \<in> fst ` set mdFiles then [(README, js ''Overview'')] else [])"
    using assms(2) by (induction mdFiles) (auto simp: overview_label filter_empty_conv image_iff split: if_splits)
  finally have b: "?us = (if README \<in> fst ` set mdFiles then [(README, js ''Overview'')] else [])" .
  have c: "sorted_wrt (\<lambda>x y. collate (snd x) (snd y) \<le> 0) ?vs"
    by (rule sorted_wrt_mono_rel [OF _ sorted_wrt_filter [OF sorted]]) (auto simp: file_order_def)
  have "mset ?vs = mset (map (\<lambda>f. (fst f, getFileLabel (fst f))) (filter (\<lambda>f. \<not> ?Q f) mdFiles))"
  proof -
    have "mset ?vs = mset (filter (\<lambda>f. \<not> ?Q f) ?m)" by (simp only: file_list_def mset_filter mset_js_sort)
    then show ?thesis by (simp only: filter_map comp_def fst_conv)
  qed
  with a b c show ?thesis by blast
qed

theorem file_list_ordered_witness:
  "\<exists>vs. file_list (\<lambda>x y. 0) [(js ''guards.md'', []), (README, [])] = (README, js ''Overview'') # vs"
proof -
  have "comparator (\<lambda>x y :: jstr. 0)" by unfold_locales simp_all
  from file_list_ordered [OF this, of "[(js ''guards.md'', []), (README, [])]"] show ?thesis
    by (auto simp: README_def)
qed

subsection \<open>The machine of the page\<close>

definition of_shown :: "release_page \<Rightarrow> page_visit \<Rightarrow> bool" where
  "of_shown st q \<longleftrightarrow> vi_version q = rd_version st \<and> vi_page q = rd_page st"

text \<open>What the sidebar lists: Markdown files under their labels.\<close>

definition files_ok :: "(jstr \<times> jstr) list \<Rightarrow> bool" where
  "files_ok fs \<longleftrightarrow> (\<forall>f \<in> set fs. ends_with (fst f) (js ''.md'') \<and> snd f = getFileLabel (fst f))"

lemma of_shown_simps [simp]:
  "of_shown (st\<lparr>rd_visits := vs\<rparr>) q = of_shown st q"
  "of_shown (st\<lparr>rd_files := fs\<rparr>) q = of_shown st q"
  "of_shown (st\<lparr>rd_versions := us\<rparr>) q = of_shown st q"
  "of_shown st (q\<lparr>vi_wait := w\<rparr>) = of_shown st q"
  by (simp_all add: of_shown_def rd_version_def)

definition notes_inv :: "release_page \<Rightarrow> bool" where
  "notes_inv st \<longleftrightarrow> distinct (map vi_id (rd_visits st)) \<and> (\<forall>q \<in> set (rd_visits st). vi_id q < rd_next st) \<and>
     (rd_isLoading st \<longrightarrow> rd_error st = None \<and> (\<exists>q \<in> set (rd_visits st). of_shown st q)) \<and>
     files_ok (rd_files st)"

definition notes_grows :: "release_page \<Rightarrow> release_page \<Rightarrow> bool" where
  "notes_grows st st' \<longleftrightarrow> rd_next st \<le> rd_next st'"

lemma find_visit_Some: "find_visit i st = Some q \<Longrightarrow> q \<in> set (rd_visits st) \<and> vi_id q = i"
  by (auto simp: find_visit_def find_Some_iff)

lemma inv_load:
  "distinct (map vi_id (rd_visits st)) \<Longrightarrow> \<forall>q \<in> set (rd_visits st). vi_id q < rd_next st \<Longrightarrow>
   files_ok (rd_files st) \<Longrightarrow> notes_inv (load_page st)"
  by (auto simp: notes_inv_def load_page_def Let_def of_shown_def rd_version_def less_Suc_eq)

lemma inv_rerouted:
  assumes "notes_inv st" "rd_visits st' = rd_visits st" "rd_next st' = rd_next st" "rd_files st' = rd_files st"
    "rd_isLoading st' = rd_isLoading st" "rd_error st' = rd_error st"
  shows "notes_inv (rerouted st st')"
proof (cases "rd_version st' = rd_version st \<and> rd_page st' = rd_page st")
  case True
  with assms show ?thesis by (simp add: rerouted_def notes_inv_def of_shown_def)
next
  case False
  then show ?thesis using inv_load [of st'] assms by (auto simp: rerouted_def notes_inv_def)
qed

lemma inv_end:
  assumes "notes_inv st" "\<not> rd_isLoading st'"
    "rd_visits st' = filter (\<lambda>q. vi_id q \<noteq> i) (rd_visits st)" "rd_next st' = rd_next st"
    "files_ok (rd_files st')"
  shows "notes_inv st'"
  using assms by (auto simp: notes_inv_def distinct_map intro: inj_on_subset)

lemma file_list_ok:
  "md_files data = Some mdFiles \<Longrightarrow> files_ok (file_list collate mdFiles)"
  by (auto simp: files_ok_def md_files_def file_list_def split: if_splits)

lemma inv_folder:
  assumes "notes_inv st" shows "notes_inv (folder_arrived collate i resp st)"
proof (cases "find_visit i st")
  case None
  then show ?thesis using assms by (simp add: folder_arrived_def)
next
  case (Some q)
  have files: "files_ok (rd_files st)"
    using assms by (simp add: notes_inv_def)
  note e = inv_end [OF assms, where i = i] end_visit_def visit_failed_def
  show ?thesis
  proof (cases "vi_wait q = ForFolder")
    case False
    then show ?thesis using Some assms by (simp add: folder_arrived_def)
  next
    case True
    show ?thesis
    proof (cases resp)
      case (Folder data)
      show ?thesis
      proof (cases "md_files data")
        case None
        then show ?thesis using Some True Folder files by (simp add: folder_arrived_def e)
      next
        case (Some mdFiles)
        note m = this
        have new: "files_ok (file_list collate mdFiles)"
          by (rule file_list_ok [OF m])
        show ?thesis
        proof (cases "find (\<lambda>f. fst f = vi_page q) mdFiles")
          case None
          then show ?thesis using \<open>find_visit i st = Some q\<close> True Folder m files new
            by (simp add: folder_arrived_def Let_def e)
        next
          case (Some f)
          let ?g = "\<lambda>r. if vi_id r = i then r\<lparr>vi_wait := ForFile\<rparr> else r"
          have g: "of_shown s (?g r) = of_shown s r" "vi_id (?g r) = vi_id r" for s r by simp_all
          have "notes_inv (st\<lparr>rd_files := file_list collate mdFiles, rd_visits := map ?g (rd_visits st)\<rparr>)"
            using assms new by (simp add: notes_inv_def comp_def g del: if_image_distrib)
          moreover have "notes_inv (visit_failed NO_RELEASE_NOTES (end_visit i st))"
            using files by (simp add: e)
          ultimately show ?thesis using \<open>find_visit i st = Some q\<close> Some True Folder m
            by (simp add: folder_arrived_def Let_def)
        qed
      qed
    qed (use Some True files in \<open>simp_all add: folder_arrived_def e\<close>)
  qed
qed

lemma inv_raw:
  assumes "notes_inv st" shows "notes_inv (raw_arrived i resp st)"
proof -
  have files: "files_ok (rd_files st)"
    using assms by (simp add: notes_inv_def)
  then show ?thesis
    using assms by (auto simp: raw_arrived_def end_visit_def visit_failed_def split: option.splits raw_response.splits
        intro!: inv_end [OF assms, where i = i])
qed

lemma inv_notes_step: "notes_inv st \<Longrightarrow> notes_inv (notes_step collate e st)"
proof (induction collate e st rule: notes_step.induct)
  case (3 collate resp st)
  then show ?case by (auto simp: notes_inv_def split: option.splits)
qed (simp_all add: inv_rerouted inv_folder inv_raw)

lemma grows_notes_step: "notes_grows st (notes_step collate e st)"
  by (induction collate e st rule: notes_step.induct)
    (auto simp: notes_grows_def rerouted_def load_page_def Let_def folder_arrived_def raw_arrived_def
      visit_failed_def end_visit_def split: option.splits folder_response.splits raw_response.splits)

interpretation release: event_machine "notes_step collate" notes_inv notes_grows
  by unfold_locales (auto simp: inv_notes_step grows_notes_step, auto simp: notes_grows_def)

lemma inv_mount: "notes_inv (notes_mount param page latest)"
  unfolding notes_mount_def by (rule inv_load) (simp_all add: files_ok_def)

text \<open>C27: The spinner never stays without a reason: whatever the order in which visits and answers
  follow each other, while the page shows that it is loading, a request for the version and the page
  shown is under way, and no error is pending.
\<close>
theorem loading_has_request:
  assumes "st = fold (notes_step collate) es (notes_mount param page latest)" "rd_isLoading st"
  shows "rd_error st = None \<and> (\<exists>q \<in> set (rd_visits st). vi_version q = rd_version st \<and> vi_page q = rd_page st)"
  using release.inv_fold [OF inv_mount, of collate es param page latest] assms by (auto simp: notes_inv_def of_shown_def)

theorem loading_has_request_witness:
  "\<exists>q \<in> set (rd_visits (notes_mount (Some (js ''1.4.2'')) None [])). vi_page q = README"
proof -
  have "supportsFolderNotes (js ''1.4.2'')" by code_simp
  then have "rd_isLoading (notes_mount (Some (js ''1.4.2'')) None [])" "rd_page (notes_mount (Some (js ''1.4.2'')) None []) = README"
    by (simp_all add: notes_mount_def load_page_def rd_version_def shown_version_def Let_def strip_v_def)
  with loading_has_request [of _ "\<lambda>x y. 0" "[]" "Some (js ''1.4.2'')" None "[]", OF refl] show ?thesis
    by auto
qed

subsection \<open>What a visit shows\<close>

text \<open>A visit whose two answers come before anything else happens, as one function of the answers.\<close>

definition visit_result :: "jstr \<Rightarrow> jstr \<Rightarrow> jstr \<Rightarrow> folder_response \<Rightarrow> raw_response \<Rightarrow> page_shown" where
  "visit_result version page old folder raw =
     (let fallback = Fallback (activeReleaseInfo version);
          broken = NotFound (js ''An error occurred while loading release documentation.'')
      in if \<not> supportsFolderNotes (strip_v version) then fallback
         else (case folder of
             FolderFailed \<Rightarrow> broken | FolderNotOk \<Rightarrow> broken
           | FolderStatus404 \<Rightarrow> fallback
           | FolderNotArray \<Rightarrow> Notes old
           | Folder data \<Rightarrow>
               (case md_files data of
                  None \<Rightarrow> broken
                | Some fs \<Rightarrow>
                    if fs = [] then fallback
                    else if page \<notin> fst ` set fs
                    then NotFound (js ''The requested release notes page could not be found.'')
                    else (case raw of RawText t \<Rightarrow> Notes t | _ \<Rightarrow> broken))))"

lemma find_page: "(find (\<lambda>f. fst f = p) fs = None) = (p \<notin> fst ` set fs)"
  by (force simp: find_None_iff image_iff)

lemma find_app: "find P (xs @ ys) = or_else (find P xs) (find P ys)"
  by (induction xs) auto

lemma find_snoc: "find P xs = None \<Longrightarrow> find P (xs @ [x]) = (if P x then Some x else None)"
  by (induction xs) (auto split: if_splits)

lemma find_new_visit:
  assumes "notes_inv st"
  shows "find_visit (rd_next st) (st'\<lparr>rd_visits := rd_visits st @ [q]\<rparr>) = (if vi_id q = rd_next st then Some q else None)"
proof -
  have "find (\<lambda>r. vi_id r = rd_next st) (rd_visits st) = None"
    using assms by (auto simp: notes_inv_def find_None_iff)
  then show ?thesis by (simp add: find_visit_def find_snoc)
qed

text \<open>The answers to a visit that is still under way, whatever else is.\<close>

lemma folder_listed:
  assumes "find_visit i st = Some q" "vi_wait q = ForFolder" "md_files data = Some fs" "vi_page q \<in> fst ` set fs"
  obtains st' where "folder_arrived collate i (Folder data) st = st'" "find_visit i st' = Some (q\<lparr>vi_wait := ForFile\<rparr>)"
    "end_visit i st' = (end_visit i st)\<lparr>rd_files := file_list collate fs\<rparr>"
proof -
  let ?g = "\<lambda>r. if vi_id r = i then r\<lparr>vi_wait := ForFile\<rparr> else r"
  let ?st = "st\<lparr>rd_files := file_list collate fs, rd_visits := map ?g (rd_visits st)\<rparr>"
  obtain f where f: "find (\<lambda>f. fst f = vi_page q) fs = Some f" "fs \<noteq> []"
    using assms(4) find_page [of "vi_page q" fs] by fastforce
  have g: "find (\<lambda>r. vi_id r = i) (map ?g vs) = map_option ?g (find (\<lambda>r. vi_id r = i) vs)"
    "filter (\<lambda>r. vi_id r \<noteq> i) (map ?g vs) = filter (\<lambda>r. vi_id r \<noteq> i) vs" for vs
    by (induction vs) auto
  have q: "find (\<lambda>r. vi_id r = i) (rd_visits st) = Some q" "vi_id q = i"
    using assms(1) find_visit_Some [OF assms(1)] by (simp_all add: find_visit_def)
  have "folder_arrived collate i (Folder data) st = ?st"
    unfolding folder_arrived_def assms(1) using assms(2,3) f by (simp add: Let_def)
  moreover have "find_visit i ?st = Some (q\<lparr>vi_wait := ForFile\<rparr>)"
    using q by (simp add: find_visit_def g)
  moreover have "end_visit i ?st = (end_visit i st)\<lparr>rd_files := file_list collate fs\<rparr>"
    by (simp add: end_visit_def g(2))
  ultimately show ?thesis by (rule that)
qed

lemma answers_arrive:
  assumes "find_visit i st = Some q" "vi_wait q = ForFolder" "md_files data = Some fs" "vi_page q \<in> fst ` set fs"
  shows "raw_arrived i resp (folder_arrived collate i (Folder data) st) =
    (let st' = (end_visit i st)\<lparr>rd_files := file_list collate fs\<rparr> in
     case resp of RawText t \<Rightarrow> st'\<lparr>rd_content := t, rd_isLoading := False\<rparr> | _ \<Rightarrow> visit_failed FETCH_ERROR st')"
  by (rule folder_listed [OF assms, of collate]) (simp add: raw_arrived_def Let_def split: raw_response.split)

text \<open>What \<open>load_page\<close> does when the route has changed.\<close>

definition visited :: "jstr option \<Rightarrow> jstr option \<Rightarrow> release_page \<Rightarrow> release_page" where
  "visited param page st = load_page (st\<lparr>rd_param := param, rd_page := (case page of None \<Rightarrow> README | Some p \<Rightarrow> p)\<rparr>)"

lemma step_visit:
  assumes "rd_version (visited param page st) \<noteq> rd_version st \<or> rd_page (visited param page st) \<noteq> rd_page st"
  shows "notes_step collate (Visit param page) st = visited param page st"
  using assms by (auto simp: visited_def rerouted_def load_page_def Let_def rd_version_def)

lemma visited_simps [simp]:
  "rd_version (visited param page st) = shown_version param (rd_latest st)"
  "rd_page (visited param page st) = (case page of None \<Rightarrow> README | Some p \<Rightarrow> p)"
  "rd_content (visited param page st) = rd_content st"
  "rd_latest (visited param page st) = rd_latest st"
  by (simp_all add: visited_def load_page_def Let_def rd_version_def)

lemma visited_supported:
  assumes "supportsFolderNotes (strip_v (shown_version param (rd_latest st)))"
  shows "rd_isLoading (visited param page st)" "rd_error (visited param page st) = None"
    "rd_next (visited param page st) = Suc (rd_next st)"
    "rd_visits (visited param page st) = rd_visits st @ [\<lparr>vi_id = rd_next st,
       vi_version = shown_version param (rd_latest st), vi_page = (case page of None \<Rightarrow> README | Some p \<Rightarrow> p),
       vi_wait = ForFolder\<rparr>]"
  using assms by (simp_all add: visited_def load_page_def Let_def rd_version_def)

lemma visited_unsupported:
  assumes "\<not> supportsFolderNotes (strip_v (shown_version param (rd_latest st)))"
  shows "\<not> rd_isLoading (visited param page st)" "rd_error (visited param page st) = Some NO_RELEASE_NOTES"
    "rd_visits (visited param page st) = rd_visits st"
  using assms by (simp_all add: visited_def load_page_def Let_def rd_version_def)

lemma not_waiting:
  "find_visit i st = None \<Longrightarrow> raw_arrived i resp st = st"
  "find_visit i st = None \<Longrightarrow> folder_arrived collate i fresp st = st"
  by (simp_all add: raw_arrived_def folder_arrived_def)

lemma find_ended:
  "find_visit i (end_visit i st) = None"
  "find_visit i (visit_failed e st) = find_visit i st"
  "find_visit i (st\<lparr>rd_isLoading := b\<rparr>) = find_visit i st"
  "find_visit i (st\<lparr>rd_error := x\<rparr>) = find_visit i st"
  "find_visit i (st\<lparr>rd_files := fs\<rparr>) = find_visit i st"
  by (auto simp: find_visit_def end_visit_def visit_failed_def find_None_iff)

lemma rd_version_simps [simp]:
  "rd_version (visit_failed e st) = rd_version st"
  "rd_version (st\<lparr>rd_isLoading := b\<rparr>) = rd_version st" "rd_version (st\<lparr>rd_error := x\<rparr>) = rd_version st"
  "rd_version (st\<lparr>rd_files := fs\<rparr>) = rd_version st" "rd_version (st\<lparr>rd_content := t\<rparr>) = rd_version st"
  by (simp_all add: rd_version_def visit_failed_def)

lemma end_visit_simps [simp]:
  "rd_content (end_visit i st) = rd_content st" "rd_error (end_visit i st) = rd_error st"
  "rd_version (end_visit i st) = rd_version st" "rd_page (end_visit i st) = rd_page st"
  "end_visit i (st\<lparr>rd_files := fs\<rparr>) = (end_visit i st)\<lparr>rd_files := fs\<rparr>"
  by (simp_all add: end_visit_def rd_version_def)

lemma visit_view:
  assumes "notes_inv st" "version = shown_version param (rd_latest st)"
    and "version \<noteq> rd_version st \<or> (case page of None \<Rightarrow> README | Some p \<Rightarrow> p) \<noteq> rd_page st"
  shows "notes_view (fold (notes_step collate) [Visit param page, FolderArrived (rd_next st) folder, RawArrived (rd_next st) raw] st) =
    visit_result version (case page of None \<Rightarrow> README | Some p \<Rightarrow> p) (rd_content st) folder raw"
proof -
  let ?v = "visited param page st" and ?n = "rd_next st" and ?p = "case page of None \<Rightarrow> README | Some p \<Rightarrow> p"
  have step: "fold (notes_step collate) [Visit param page, FolderArrived ?n folder, RawArrived ?n raw] st =
      raw_arrived ?n raw (folder_arrived collate ?n folder ?v)"
    using step_visit [of param page st collate] assms(2,3) by simp
  show ?thesis
  proof (cases "supportsFolderNotes (strip_v version)")
    case False
    note u = visited_unsupported [OF False [unfolded assms(2)]]
    have "find_visit ?n ?v = None"
      using assms(1) u(3) by (auto simp: find_visit_def notes_inv_def find_None_iff)
    then show ?thesis unfolding step using u False assms(2)
      by (simp add: not_waiting notes_view_def visit_result_def)
  next
    case True
    note u = visited_supported [OF True [unfolded assms(2)]]
    let ?q = "\<lparr>vi_id = ?n, vi_version = version, vi_page = ?p, vi_wait = ForFolder\<rparr>"
    have q: "find_visit ?n ?v = Some ?q"
    proof -
      have "find (\<lambda>r. vi_id r = ?n) (rd_visits st) = None"
        using assms(1) by (auto simp: notes_inv_def find_None_iff)
      then show ?thesis using u(4) assms(2) by (simp add: find_visit_def find_snoc)
    qed
    show ?thesis
    proof (cases folder)
      case (Folder data)
      show ?thesis
      proof (cases "md_files data")
        case None
        then show ?thesis unfolding step using q Folder True assms(2)
          by (simp add: folder_arrived_def not_waiting find_ended visit_result_def notes_view_def)
            (simp add: visit_failed_def)
      next
        case (Some fs)
        note m = this
        have w: "vi_wait ?q = ForFolder" by simp
        show ?thesis
        proof (cases "?p \<in> fst ` set fs")
          case True
          then have "vi_page ?q \<in> fst ` set fs" "fs \<noteq> []" by auto
          with answers_arrive [OF q w m this(1), of raw collate] show ?thesis
            unfolding step unfolding Folder using \<open>supportsFolderNotes _\<close> True m u assms(2)
            by (simp add: visit_result_def notes_view_def Let_def visit_failed_def split: raw_response.split)
        next
          case False
          then have "find (\<lambda>f. fst f = ?p) fs = None" by (simp add: find_page)
          then show ?thesis unfolding step using q Folder False \<open>supportsFolderNotes _\<close> m u assms(2)
            by (simp add: folder_arrived_def not_waiting find_ended visit_result_def notes_view_def Let_def)
              (simp add: visit_failed_def)
        qed
      qed
    qed (unfold step, use q True u assms(2) in \<open>simp_all add: folder_arrived_def not_waiting find_ended visit_result_def
          notes_view_def\<close>, simp_all add: visit_failed_def)
  qed
qed

text \<open>C24: A visit to another version or page, whose folder listing and then file are the next answers to arrive (no
  answer to an earlier visit comes in between, see \<open>late_error_stays\<close>), shows what \<open>visit_result\<close> says, on
  every branch: the notes of the page; the short notes of the release for a version before 1.3.1, an
  unknown folder or a folder without Markdown files; that the page was not found when the folder
  has no such file; that an error occurred when the network, the list or the file fails. (When the
  answer is no list, the text of the page visited before stays.) The state before the visit is any that
  satisfies the invariant \<open>notes_inv\<close>, with earlier visits still under way.
\<close>
theorem visit_shows_result:
  assumes "notes_inv st" "version = shown_version param (rd_latest st)"
    and "version \<noteq> rd_version st \<or> (case page of None \<Rightarrow> README | Some p \<Rightarrow> p) \<noteq> rd_page st"
  shows "notes_view (fold (notes_step collate) [Visit param page, FolderArrived (rd_next st) folder, RawArrived (rd_next st) raw] st) =
    visit_result version (case page of None \<Rightarrow> README | Some p \<Rightarrow> p) (rd_content st) folder raw"
  using assms by (rule visit_view)

text \<open>Nor does an answer take back an error: when the request of a page that was left fails while the next
  one is under way, its error is shown although the text of the page visited last has arrived.\<close>

theorem late_error_stays:
  assumes "notes_inv st" "n = rd_next st" "version = shown_version param (rd_latest st)"
    and "supportsFolderNotes (strip_v version)" "version \<noteq> rd_version st \<or> p \<noteq> rd_page st" "p \<noteq> p'"
    and "md_files data = Some fs" "p' \<in> fst ` set fs"
  shows "\<exists>st'. st' = fold (notes_step collate) [Visit param (Some p), Visit param (Some p'),
      FolderArrived n FolderFailed, FolderArrived (Suc n) (Folder data), RawArrived (Suc n) (RawText t)] st \<and>
    notes_view st' = NotFound (js ''An error occurred while loading release documentation.'') \<and>
    rd_page st' = p' \<and> rd_content st' = t"
proof -
  note sup = assms(4) [unfolded assms(3)]
  let ?q = "\<lambda>i x. \<lparr>vi_id = i, vi_version = version, vi_page = x, vi_wait = ForFolder\<rparr>"
  let ?v = "visited param (Some p) st"
  let ?w = "visited param (Some p') ?v"
  note v = visited_supported [of param st "Some p", OF sup]
  have "supportsFolderNotes (strip_v (shown_version param (rd_latest ?v)))" using sup by simp
  note w = visited_supported [of param ?v "Some p'", OF this]
  have none: "find (\<lambda>r. vi_id r = n) (rd_visits st) = None" "find (\<lambda>r. vi_id r = Suc n) (rd_visits st) = None"
    using assms(1,2) by (auto simp: notes_inv_def find_None_iff)
  have s1: "notes_step collate (Visit param (Some p)) st = ?v"
    using step_visit [of param "Some p" st] assms(3,5) by simp
  have s2: "notes_step collate (Visit param (Some p')) ?v = ?w"
    using step_visit [of param "Some p'" ?v] assms(6) by simp
  have vs: "rd_visits ?w = rd_visits st @ [?q n p, ?q (Suc n) p']"
    using v w assms(2,3) by simp
  then have "find_visit n ?w = Some (?q n p)" using none by (simp add: find_visit_def find_app)
  then have s3: "folder_arrived collate n FolderFailed ?w = visit_failed FETCH_ERROR (end_visit n ?w)"
    by (simp add: folder_arrived_def)
  let ?e = "visit_failed FETCH_ERROR (end_visit n ?w)"
  have q: "find_visit (Suc n) ?e = Some (?q (Suc n) p')"
  proof -
    have "find (\<lambda>r. vi_id r = Suc n) (filter (\<lambda>r. vi_id r \<noteq> n) (rd_visits st)) = None"
      using none(2) by (auto simp: find_None_iff)
    with vs show ?thesis by (simp add: find_visit_def visit_failed_def end_visit_def find_app)
  qed
  have s4: "raw_arrived (Suc n) (RawText t) (folder_arrived collate (Suc n) (Folder data) ?e) =
      (end_visit (Suc n) ?e)\<lparr>rd_files := file_list collate fs, rd_content := t, rd_isLoading := False\<rparr>"
    using answers_arrive [OF q _ assms(7), of "RawText t" collate] assms(8) by simp
  show ?thesis
    by (rule exI, rule conjI, rule refl, simp add: s1 s2 s3 s4 del: notes_step.simps(1))
      (simp add: notes_view_def visit_failed_def end_visit_def)
qed

theorem late_error_stays_witness:
  "\<exists>es st. st = fold (notes_step (\<lambda>x y. 0)) es (notes_mount (Some (js ''1.4.2'')) None []) \<and>
     rd_content st = js ''Guards'' \<and> notes_view st = NotFound (js ''An error occurred while loading release documentation.'')"
proof -
  let ?st = "notes_mount (Some (js ''1.4.2'')) None []"
  let ?data = "[\<lparr>fe_name = Some (js ''guards.md''), fe_download_url = []\<rparr>]"
  have v: "js ''1.4.2'' = shown_version (Some (js ''1.4.2'')) (rd_latest ?st)"
    by (simp add: shown_version_def)
  have s: "supportsFolderNotes (strip_v (js ''1.4.2''))" by code_simp
  have p: "js ''1.4.2'' \<noteq> rd_version ?st \<or> js ''migration.md'' \<noteq> rd_page ?st"
    by (simp add: notes_mount_def load_page_def Let_def README_def)
  have m: "md_files ?data = Some [(js ''guards.md'', [])]"
    by (simp add: md_files_def ends_with_def)
  have "js ''migration.md'' \<noteq> js ''guards.md''" "js ''guards.md'' \<in> fst ` set [(js ''guards.md'', [])]"
    by simp_all
  from late_error_stays [OF inv_mount refl v s p this(1) m this(2)] show ?thesis by blast
qed

text \<open>C26: Nothing cancels a request: when the reader leaves a page before its answers have come and
  they come after those of the next page, the page left is shown under the address, the title and the
  sidebar mark of the page visited last, without an error and without a spinner.
\<close>
theorem late_answer_replaces_page:
  assumes "notes_inv st" "n = rd_next st" "version = shown_version param (rd_latest st)"
    and "supportsFolderNotes (strip_v version)" "version \<noteq> rd_version st \<or> p \<noteq> rd_page st" "p \<noteq> p'"
    and "md_files data = Some fs" "{p, p'} \<subseteq> fst ` set fs"
  shows "\<exists>st'. st' = fold (notes_step collate) [Visit param (Some p), Visit param (Some p'),
      FolderArrived (Suc n) (Folder data), RawArrived (Suc n) (RawText t'),
      FolderArrived n (Folder data), RawArrived n (RawText t)] st \<and>
    notes_view st' = Notes t \<and> rd_page st' = p'"
proof -
  note sup = assms(4) [unfolded assms(3)]
  let ?q = "\<lambda>i x. \<lparr>vi_id = i, vi_version = version, vi_page = x, vi_wait = ForFolder\<rparr>"
  let ?v = "visited param (Some p) st"
  let ?w = "visited param (Some p') ?v"
  note v = visited_supported [of param st "Some p", OF sup]
  have "supportsFolderNotes (strip_v (shown_version param (rd_latest ?v)))" using sup by simp
  note w = visited_supported [of param ?v "Some p'", OF this]
  have none: "find (\<lambda>r. vi_id r = n) (rd_visits st) = None" "find (\<lambda>r. vi_id r = Suc n) (rd_visits st) = None"
    using assms(1,2) by (auto simp: notes_inv_def find_None_iff)
  have s1: "notes_step collate (Visit param (Some p)) st = ?v"
    using step_visit [of param "Some p" st] assms(3,5) by simp
  have s2: "notes_step collate (Visit param (Some p')) ?v = ?w"
    using step_visit [of param "Some p'" ?v] assms(6) by simp
  have vs: "rd_visits ?w = rd_visits st @ [?q n p, ?q (Suc n) p']"
    using v w assms(2,3) by simp
  then have qs: "find_visit n ?w = Some (?q n p)" "find_visit (Suc n) ?w = Some (?q (Suc n) p')"
    using none by (simp_all add: find_visit_def find_app)
  have m: "vi_wait (?q i x) = ForFolder" "vi_page (?q n p) \<in> fst ` set fs" "vi_page (?q (Suc n) p') \<in> fst ` set fs" for i x
    using assms(8) by simp_all
  let ?a = "((end_visit (Suc n) ?w)\<lparr>rd_files := file_list collate fs\<rparr>)\<lparr>rd_content := t', rd_isLoading := False\<rparr>"
  have s3: "raw_arrived (Suc n) (RawText t') (folder_arrived collate (Suc n) (Folder data) ?w) = ?a"
    using answers_arrive [OF qs(2) m(1) assms(7) m(3), of "RawText t'" collate] by simp
  have "find_visit n ?a = Some (?q n p)"
  proof -
    have "find (\<lambda>r. vi_id r = n) (filter (\<lambda>r. vi_id r \<noteq> Suc n) (rd_visits st)) = None"
      using none(1) by (auto simp: find_None_iff)
    with vs show ?thesis by (simp add: find_visit_def end_visit_def find_app)
  qed
  note s4 = answers_arrive [OF this m(1) assms(7) m(2), of "RawText t" collate]
  show ?thesis
    by (rule exI, rule conjI, rule refl, simp add: s1 s2 s3 s4 notes_view_def w(2) del: notes_step.simps(1))
qed

theorem late_answer_replaces_page_witness:
  "\<exists>es st. st = fold (notes_step (\<lambda>x y. 0)) es (notes_mount (Some (js ''1.4.2'')) None []) \<and>
     rd_page st = js ''guards.md'' \<and> notes_view st = Notes (js ''Migrating'')"
proof -
  let ?st = "notes_mount (Some (js ''1.4.2'')) None []"
  let ?f = "\<lambda>f. \<lparr>fe_name = Some f, fe_download_url = []\<rparr>"
  let ?data = "[?f (js ''migration.md''), ?f (js ''guards.md'')]"
  have v: "js ''1.4.2'' = shown_version (Some (js ''1.4.2'')) (rd_latest ?st)"
    by (simp add: shown_version_def)
  have s: "supportsFolderNotes (strip_v (js ''1.4.2''))" by code_simp
  have p: "js ''1.4.2'' \<noteq> rd_version ?st \<or> js ''migration.md'' \<noteq> rd_page ?st"
    by (simp add: notes_mount_def load_page_def Let_def README_def)
  have m: "md_files ?data = Some [(js ''migration.md'', []), (js ''guards.md'', [])]"
    by (simp add: md_files_def ends_with_def)
  have "js ''migration.md'' \<noteq> js ''guards.md''"
    "{js ''migration.md'', js ''guards.md''} \<subseteq> fst ` set [(js ''migration.md'', []), (js ''guards.md'', [])]"
    by simp_all
  from late_answer_replaces_page [OF inv_mount refl v s p this(1) m this(2)] show ?thesis by blast
qed

theorem visit_shows_result_witness:
  "\<exists>es. notes_view (fold (notes_step (\<lambda>x y. 0)) es (notes_mount (Some (js ''1.4.2'')) None [])) =
     NotFound (js ''The requested release notes page could not be found.'')"
proof -
  let ?st = "notes_mount (Some (js ''1.4.2'')) None []"
  let ?folder = "Folder [\<lparr>fe_name = Some README, fe_download_url = []\<rparr>]"
  have v: "js ''1.4.2'' = shown_version (Some (js ''1.4.2'')) (rd_latest ?st)"
    by (simp add: shown_version_def)
  have p: "js ''1.4.2'' \<noteq> rd_version ?st \<or> (case Some (js ''x.md'') of None \<Rightarrow> README | Some p \<Rightarrow> p) \<noteq> rd_page ?st"
    by (simp add: notes_mount_def load_page_def Let_def README_def)
  have "supportsFolderNotes (strip_v (js ''1.4.2''))" by code_simp
  then have "visit_result (js ''1.4.2'') (case Some (js ''x.md'') of None \<Rightarrow> README | Some p \<Rightarrow> p) (rd_content ?st) ?folder RawFailed =
      NotFound (js ''The requested release notes page could not be found.'')"
    by (simp add: visit_result_def md_files_def ends_with_def README_def)
  with visit_shows_result [OF inv_mount v p, of "\<lambda>x y. 0" ?folder RawFailed] show ?thesis by metis
qed

end
