(* ===== verification/MarkdownFacts.thy ===== *)
theory MarkdownFacts
  imports Markdown ReleaseFacts
begin

text \<open>
  Facts on the renderer of release notes: the anchors of headings, the ids code spans are linked to,
  alerts, and where the links between the pages of a release lead.
\<close>

subsection \<open>Anchors\<close>

lemma squeeze_units: "x \<in> set (squeeze f d s) \<Longrightarrow> x = d \<or> x \<in> set s \<and> \<not> f x"
  by (induction f d s rule: squeeze.induct) (auto split: if_splits)

lemma squeeze_free: "\<forall>x \<in> set s. \<not> f x \<Longrightarrow> squeeze f d s = s"
  by (induction s) auto

text \<open>No two units of a class stand side by side.\<close>

fun apart_units :: "(jchar \<Rightarrow> bool) \<Rightarrow> jstr \<Rightarrow> bool" where
  "apart_units f (x # y # s) = (\<not> (f x \<and> f y) \<and> apart_units f (y # s))"
| "apart_units f s = True"

lemma squeeze_hd: "squeeze f d s = x # t \<Longrightarrow> f x \<Longrightarrow> s \<noteq> [] \<and> f (hd s)"
  by (cases s) (auto split: if_splits)

lemma apart_squeeze: "f d \<Longrightarrow> apart_units f (squeeze f d s)"
proof (induction f d s rule: squeeze.induct)
  case (2 f d x s)
  have "apart_units f (y # squeeze f d s)" if "\<not> (s \<noteq> [] \<and> f (hd s)) \<or> \<not> f y" "apart_units f (squeeze f d s)" for y
    using that squeeze_hd [of f d s] by (cases "squeeze f d s") auto
  with 2 show ?case by auto
qed simp

lemma squeeze_apart: "apart_units f s \<Longrightarrow> \<forall>x \<in> set s. f x \<longrightarrow> x = d \<Longrightarrow> squeeze f d s = s"
  by (induction f s rule: apart_units.induct) auto

lemma trimmed_free: "\<forall>x \<in> set s. \<not> is_ws x \<Longrightarrow> trimmed s"
  by (cases "s = []") (simp_all add: trimmed_def)

lemma slugify_eq:
  "slugify lower t = squeeze (\<lambda>x. x = 45) 45 (squeeze is_ws 45 (filter (\<lambda>x. is_word x \<or> is_ws x \<or> x = 45) (lower t)))"
proof -
  have c: "concat (map (\<lambda>x. if P x then [] else [x]) s) = filter (\<lambda>x. \<not> P x) s" for P and s :: jstr
    by (induction s) auto
  let ?s = "squeeze (\<lambda>x. x = 45) 45 (squeeze is_ws 45 (filter (\<lambda>x. is_word x \<or> is_ws x \<or> x = 45) (lower t)))"
  have "\<forall>x \<in> set ?s. \<not> is_ws x"
    by (auto dest!: squeeze_units simp: is_ws_def)
  then have "trimmed ?s" by (rule trimmed_free)
  then show ?thesis
    by (simp add: slugify_def r_ws_def rx_replace_all_def gsub_class gsub_plus_class c js_trim_id)
qed

text \<open>The anchor of a heading holds only letters, digits, underscores and dashes, never two dashes
  side by side, and it is its own anchor.
\<close>
theorem slugify_clean:
  "list_all (\<lambda>x. is_word x \<or> x = 45) (slugify to_lower t) \<and> apart_units (\<lambda>x. x = 45) (slugify to_lower t) \<and>
   slugify to_lower (slugify to_lower t) = slugify to_lower t"
proof -
  let ?s = "slugify to_lower t"
  have u: "\<forall>x \<in> set ?s. (is_word x \<or> x = 45) \<and> \<not> is_ws x \<and> lower_unit x = x"
    by (auto dest!: squeeze_units simp: slugify_eq is_ws_def to_lower_def lower_unit_def is_upper_def
        is_word_def is_alnum_def is_digit_def is_lower_def split: if_splits)
  have a: "apart_units (\<lambda>x. x = 45) ?s" by (simp add: slugify_eq apart_squeeze)
  have "to_lower ?s = ?s" using u by (simp add: to_lower_def map_idI)
  moreover have "filter (\<lambda>x. is_word x \<or> is_ws x \<or> x = 45) ?s = ?s" using u by (simp add: filter_id_conv)
  moreover have "squeeze is_ws 45 ?s = ?s" using u by (simp add: squeeze_free)
  moreover have "squeeze (\<lambda>x. x = 45) 45 ?s = ?s" using a by (simp add: squeeze_apart)
  ultimately have "slugify to_lower ?s = ?s" by (simp only: slugify_eq [of to_lower ?s])
  with u a show ?thesis by (auto simp: list_all_iff)
qed

subsection \<open>Terms\<close>

definition title_keys :: "(jstr \<Rightarrow> jstr) \<Rightarrow> doc_entity \<Rightarrow> jstr list" where
  "title_keys lower e = [lower (de_title e), clean_title lower (de_title e), snake_title lower (de_title e)]"

definition short_key :: "doc_entity \<Rightarrow> jstr \<Rightarrow> bool" where
  "short_key e k \<longleftrightarrow> 46 \<in> set (de_id e) \<and> last_part (de_id e) = k"

lemma get_add_titles:
  "jm_get (add_titles lower e m) k =
     (if k \<in> set (title_keys lower e) then Some (de_id e)
      else or_else (jm_get m k) (if short_key e k then Some (de_id e) else None))"
proof -
  have l: "jm_get (if P \<and> \<not> jm_has n p then jm_set p i n else n) k =
      or_else (jm_get n k) (if P \<and> p = k then Some i else None)" for P n p and i :: jstr
    by (auto simp: jm_has_def jm_get_set or_else_def simp del: jm_has_iff split: option.split)
  show ?thesis
    unfolding add_titles_def Let_def l short_key_def by (auto simp: jm_get_set title_keys_def)
qed

text \<open>What a code span is linked to: the last registered entity one of whose titles (as written, without a
  leading \<open>@\<close>, with underscores for blanks, in lower case) is the text of the span; if there is
  none, the first entity whose id ends in it after a dot.
\<close>
theorem getTitleToIdMap_spec:
  "jm_get (fst (getTitleToIdMap lower reg None)) k =
     or_else (map_option de_id (find (\<lambda>e. k \<in> set (title_keys lower e)) (rev (getAllDocEntities reg))))
       (map_option de_id (find (\<lambda>e. short_key e k) (getAllDocEntities reg)))"
proof -
  have "jm_get (fold (add_titles lower) es []) k =
     or_else (map_option de_id (find (\<lambda>e. k \<in> set (title_keys lower e)) (rev es)))
       (map_option de_id (find (\<lambda>e. short_key e k) es))" for es
  proof (induction es rule: rev_induct)
    case (snoc e es)
    then show ?case
      by (simp add: get_add_titles find_app or_else_assoc) (auto simp: or_else_def split: option.splits)
  qed simp
  then show ?thesis by (simp add: getTitleToIdMap_def Let_def)
qed

subsection \<open>Links between the pages of a release\<close>

text \<open>A segment of an address.\<close>

definition segment :: "jstr \<Rightarrow> bool" where
  "segment s \<longleftrightarrow> s \<noteq> [] \<and> 47 \<notin> set s \<and> 35 \<notin> set s \<and> 63 \<notin> set s"

lemma drop_md_append: "drop_md (w @ js ''.md'') = w"
  unfolding drop_md_def md_end_rx_def by (rule replace_literal_end)

lemma index_free: "d \<notin> set s \<Longrightarrow> index_of s [d] = None"
  by (auto simp: index_of_None js_includes_iff)

lemma link_target:
  assumes "segment name" "name \<noteq> js ''README''"
  shows "render_link br (Some (name @ js ''.md'')) text = NLink (js ''/releases/'' @ br_version br @ [47] @ name) text"
proof -
  have "35 \<notin> set (name @ js ''.md'')" using assms(1) by (simp add: segment_def)
  then have "index_of (name @ js ''.md'') [35] = None" by (rule index_free)
  moreover have "str_or (Some (name @ js ''.md'')) [] = name @ js ''.md''" by (simp add: str_or_def)
  moreover have "ends_with (name @ js ''.md'') (js ''.md'')" by (simp add: ends_with_iff del: js_Cons)
  ultimately show ?thesis
    using assms(2) unfolding render_link_def Let_def by (simp add: drop_md_append notes_path_def del: js_Cons)
qed

lemma route_of_page:
  assumes "segment v" "segment p"
  shows "release_route (js ''/releases/'' @ v @ [47] @ p) = Some (Visit (Some v) (Some p))"
proof -
  let ?w = "js ''/releases/'' @ v @ [47] @ p"
  have w: "takeWhile (\<lambda>x. x \<noteq> 35 \<and> x \<noteq> 63) ?w = ?w"
    using assms by (auto simp: segment_def takeWhile_eq_all_conv)
  have p: "split_char 47 ?w = [[], js ''releases'', v, p]"
    using assms split_char_append [of 47 v p] by (simp add: segment_def split_char_free)
  show ?thesis unfolding release_route_def w p using assms by (simp add: segment_def)
qed

lemma route_of_release:
  assumes "segment v"
  shows "release_route (js ''/releases/'' @ v) = Some (Visit (Some v) None)"
proof -
  let ?w = "js ''/releases/'' @ v"
  have w: "takeWhile (\<lambda>x. x \<noteq> 35 \<and> x \<noteq> 63) ?w = ?w"
    using assms by (auto simp: segment_def takeWhile_eq_all_conv)
  have p: "split_char 47 ?w = [[], js ''releases'', v]"
    using assms by (simp add: segment_def split_char_free)
  show ?thesis unfolding release_route_def w p using assms by (simp add: segment_def)
qed

lemma readme_link: "render_link br (Some README) text = NLink (js ''/releases/'' @ br_version br) text"
proof -
  have "drop_md README = js ''README''" using drop_md_append [of "js ''README''"] by (simp add: README_def)
  moreover have "README \<noteq> []" "ends_with README (js ''.md'')" "index_of README [35] = None"
    by (simp_all add: README_def ends_with_def)
  ultimately show ?thesis by (simp add: render_link_def str_or_def notes_path_def)
qed

text \<open>C25: A link from one page of a release to a sibling other than the overview leads nowhere. In the notes a link
  to the file \<open>name.md\<close> is rendered as a link to \<open>/releases/version/name\<close>, whose page parameter is
  \<open>name\<close>; the files of the folder keep their ending, so although the folder has the file, the
  visit, when its answers are the next to arrive, ends with "page could not be found", while the link of the
  sidebar shows the file. Links to \<open>README.md\<close> are the exception: they lead to the address of the release.
  (The name does not end in \<open>.md\<close> itself, name and version hold no slash, \<open>#\<close> or \<open>?\<close>, the version is one with
  notes of its own and not the word \<open>latest\<close>, and neither \<open>name\<close> nor the file is the page shown already.)
\<close>
theorem page_links_not_found:
  assumes "segment name" "name \<noteq> js ''README''" "\<not> ends_with name (js ''.md'')"
    and "segment version" "version \<noteq> js ''latest''" "supportsFolderNotes (strip_v version)"
    and "md_files data = Some fs" "name @ js ''.md'' \<in> fst ` set fs"
    and "notes_inv st" "rd_version st = version" "rd_page st \<noteq> name" "rd_page st \<noteq> name @ js ''.md''"
  shows "\<exists>to visit. render_link \<lparr>br_lower = lower, br_version = version, br_currentPage = rd_page st, br_terms = terms\<rparr>
        (Some (name @ js ''.md'')) text = NLink to text \<and> release_route to = Some visit \<and>
      notes_view (fold (notes_step collate) [visit, FolderArrived (rd_next st) (Folder data),
        RawArrived (rd_next st) (RawText t)] st) =
        NotFound (js ''The requested release notes page could not be found.'') \<and>
      (\<exists>visit'. release_route (notes_address version (name @ js ''.md'')) = Some visit' \<and>
        notes_view (fold (notes_step collate) [visit', FolderArrived (rd_next st) (Folder data),
          RawArrived (rd_next st) (RawText t)] st) = Notes t) \<and>
      (\<exists>home. render_link \<lparr>br_lower = lower, br_version = version, br_currentPage = rd_page st, br_terms = terms\<rparr>
          (Some README) text = NLink home text \<and> release_route home = Some (Visit (Some version) None))"
proof -
  let ?to = "js ''/releases/'' @ version @ [47] @ name" and ?file = "name @ js ''.md''"
  have v: "version = shown_version (Some version) (rd_latest st)"
    using assms(4,5) by (simp add: shown_version_def segment_def)
  have md: "\<forall>f \<in> set fs. ends_with (fst f) (js ''.md'')"
    using assms(7) by (auto simp: md_files_def split: if_splits)
  have r1: "release_route ?to = Some (Visit (Some version) (Some name))"
    by (rule route_of_page [OF assms(4,1)])
  have "segment ?file" using assms(1) by (simp add: segment_def)
  moreover have "notes_address version ?file = js ''/releases/'' @ version @ [47] @ ?file"
    using assms(2) by (simp add: notes_address_def README_def)
  ultimately have r2: "release_route (notes_address version ?file) = Some (Visit (Some version) (Some ?file))"
    using route_of_page [OF assms(4), of ?file] by simp
  have "notes_view (fold (notes_step collate) [Visit (Some version) (Some name), FolderArrived (rd_next st) (Folder data),
      RawArrived (rd_next st) (RawText t)] st) = visit_result version name (rd_content st) (Folder data) (RawText t)"
    using visit_view [OF assms(9) v, of "Some name" collate "Folder data" "RawText t"] assms(11) by simp
  moreover have ne: "name \<notin> fst ` set fs" "fs \<noteq> []" using md assms(3,8) by auto
  ultimately have n1: "notes_view (fold (notes_step collate) [Visit (Some version) (Some name), FolderArrived (rd_next st) (Folder data),
      RawArrived (rd_next st) (RawText t)] st) = NotFound (js ''The requested release notes page could not be found.'')"
    using assms(6,7) by (simp add: visit_result_def del: js_Cons)
  have n2: "notes_view (fold (notes_step collate) [Visit (Some version) (Some ?file), FolderArrived (rd_next st) (Folder data),
      RawArrived (rd_next st) (RawText t)] st) = Notes t"
  proof -
    have "visit_result version ?file (rd_content st) (Folder data) (RawText t) = Notes t"
      using assms(6-8) ne(2) by (simp add: visit_result_def Let_def del: js_Cons)
    then show ?thesis using visit_view [OF assms(9) v, of "Some ?file" collate "Folder data" "RawText t"] assms(12)
      by (simp only: option.case) metis
  qed
  show ?thesis
    using link_target [OF assms(1,2)] r1 r2 n1 n2 readme_link route_of_release [OF assms(4)]
    by (simp del: js_Cons fold_simps)
qed

theorem page_links_not_found_witness:
  "\<exists>to visit. render_link \<lparr>br_lower = to_lower, br_version = js ''1.4.2'', br_currentPage = README, br_terms = []\<rparr>
      (Some (js ''migration'' @ js ''.md'')) (js ''Migration'') = NLink to (js ''Migration'') \<and>
     release_route to = Some visit \<and>
     notes_view (fold (notes_step (\<lambda>x y. 0)) [visit, FolderArrived 1 (Folder [\<lparr>fe_name = Some (js ''migration.md''), fe_download_url = []\<rparr>]),
       RawArrived 1 (RawText [])] (notes_mount (Some (js ''1.4.2'')) None [])) =
     NotFound (js ''The requested release notes page could not be found.'')"
proof -
  let ?st = "notes_mount (Some (js ''1.4.2'')) None []"
  let ?data = "[\<lparr>fe_name = Some (js ''migration.md''), fe_download_url = []\<rparr>]"
  have s: "supportsFolderNotes (strip_v (js ''1.4.2''))" by code_simp
  then have st: "rd_version ?st = js ''1.4.2''" "rd_page ?st = README" "rd_next ?st = 1"
    by (simp_all add: notes_mount_def load_page_def Let_def rd_version_def shown_version_def)
  have p: "segment (js ''migration'')" "js ''migration'' \<noteq> js ''README''" "\<not> ends_with (js ''migration'') (js ''.md'')"
    "segment (js ''1.4.2'')" "js ''1.4.2'' \<noteq> js ''latest''"
    by (simp_all add: segment_def ends_with_def)
  have d: "md_files ?data = Some [(js ''migration.md'', [])]" by (simp add: md_files_def ends_with_def)
  have f: "js ''migration'' @ js ''.md'' \<in> fst ` set [(js ''migration.md'', [])]" by simp
  have q: "rd_page ?st \<noteq> js ''migration''" "rd_page ?st \<noteq> js ''migration'' @ js ''.md''"
    unfolding st by (simp_all add: README_def)
  show ?thesis
    using page_links_not_found [OF p s d f inv_mount st(1) q, of to_lower "[]" "js ''Migration''" "\<lambda>x y. 0" "[]"]
    unfolding st by blast
qed

subsection \<open>Alerts\<close>

definition alert_words :: "jstr list" where
  "alert_words = [js ''NOTE'', js ''TIP'', js ''WARNING'', js ''IMPORTANT'', js ''CAUTION'', js ''INFO'']"

lemma run_alternatives: "rs \<noteq> [] \<Longrightarrow> run (ralt rs) K q c = foldr (\<lambda>r. or_else (run r K q c)) rs None"
  by (induction rs rule: ralt.induct) auto

lemma words_differ:
  assumes "W \<in> set alert_words" "v \<in> set alert_words"
  shows "starts_with (W @ 93 # r) v \<longleftrightarrow> v = W"
  using assms unfolding alert_words_def list.set insert_iff by (elim disjE emptyE) simp_all

lemma words_upper: "v \<in> set alert_words \<Longrightarrow> map upper_unit v = v"
  unfolding alert_words_def list.set insert_iff by (elim disjE emptyE) (simp_all add: upper_unit_def is_lower_def)

lemma run_word:
  assumes "map upper_unit w \<in> set alert_words" "v \<in> set alert_words"
  shows "run (rlit_i v) K (p, w @ 93 # r) c = (if v = map upper_unit w then K (rev w @ p, 93 # r) c else None)"
proof -
  have "upper_unit 93 = 93" by (simp add: upper_unit_def is_lower_def)
  then have "starts_with (map upper_unit (w @ 93 # r)) (map upper_unit v) = (v = map upper_unit w)"
    using words_differ [OF assms, of "map upper_unit r"] words_upper [OF assms(2)] by simp
  then show ?thesis by auto
qed

lemma run_words:
  assumes "map upper_unit w \<in> set alert_words" "set vs \<subseteq> set alert_words" "map upper_unit w \<in> set vs" "K (rev w @ p, 93 # r) c = Some y"
  shows "foldr (\<lambda>x. or_else (run x K (p, w @ 93 # r) c)) (map rlit_i vs) None = Some y"
  using assms(2,3)
proof (induction vs)
  case (Cons v vs)
  then show ?case using run_word [OF assms(1), of v K p r c] assms(4) by auto
qed simp

lemma after_bracket: "run (rseq (rlit (js ''[!'') # rs)) K ([], 91 # 33 # s) c = run (rseq rs) K ([33, 91], s) c"
  by simp

lemma alert_exec:
  assumes "map upper_unit w \<in> set alert_words"
  shows "rx_exec alert_rx (js ''[!'' @ w @ js '']'' @ rest) =
    Some (([], js ''[!'' @ w @ js '']'' @ rest), (93 # rev w @ [33, 91], rest), (\<lambda>n. None)(1 \<mapsto> w))"
proof -
  let ?s = "w @ 93 # rest"
  let ?K = "\<lambda>(p', s') c'. run (rseq [rlit (js '']'')]) (\<lambda>q c. Some (q, c)) (p', s') (c'(1 \<mapsto> take (length ?s - length s') ?s))"
  have "?K (rev w @ [33, 91], 93 # rest) (\<lambda>n. None) = Some ((93 # rev w @ [33, 91], rest), (\<lambda>n. None)(1 \<mapsto> w))"
    by simp
  then have "foldr (\<lambda>x. or_else (run x ?K ([33, 91], ?s) (\<lambda>n. None))) (map rlit_i alert_words) None =
      Some ((93 # rev w @ [33, 91], rest), (\<lambda>n. None)(1 \<mapsto> w))"
    by (rule run_words [OF assms subset_refl assms])
  then have m: "run (RCap 1 (ralt (map rlit_i alert_words))) (run (rseq [rlit (js '']'')]) (\<lambda>q c. Some (q, c))) ([33, 91], ?s) (\<lambda>n. None) =
      Some ((93 # rev w @ [33, 91], rest), (\<lambda>n. None)(1 \<mapsto> w))"
    by (subst run.simps) (subst run_alternatives, simp add: alert_words_def, simp only:)
  have rx: "alert_rx = rseq [RBos, rlit (js ''[!''), RCap 1 (ralt (map rlit_i alert_words)), rlit (js '']'')]"
    by (simp only: alert_rx_def alert_words_def list.map)
  have s: "js ''[!'' @ w @ js '']'' @ rest = 91 # 33 # ?s" by simp
  show ?thesis
    unfolding rx s rx_exec_anchored after_bracket unfolding run_seq_list(2) [of "RCap 1 _"] m by simp
qed

text \<open>A block quote whose first line starts with \<open>[!WORD]\<close>, in any case, is rendered as the alert of
  that word (INFO as a note, CAUTION as important), without the mark. The text after the mark is
  trimmed on both sides, so a blank before a following bold or code span is lost.
\<close>
theorem alert_rendered:
  assumes "map upper_unit w \<in> set alert_words"
  shows "renderBlock br (Blockquote (Paragraph (js ''[!'' @ w @ js '']'' @ rest)
        (Some (Text None (js ''[!'' @ w @ js '']'' @ t) # ts)) # bs)) =
    (let (kind, title) = alert_kind_of (map upper_unit w) in
     NAlert kind title (NParagraph (NSpan [NText (js_trim t)] # renderInlineTokens br ts) # renderBlocks br bs))"
proof -
  let ?s = "\<lambda>r. js ''[!'' @ w @ js '']'' @ r"
  have m: "\<exists>c. rx_match alert_rx (?s rest) = Some c \<and> c 1 = Some w"
    unfolding rx_match_def alert_exec [OF assms] by simp
  have r: "rx_replace alert_rx (\<lambda>m c. []) (?s t) = t"
    unfolding rx_replace_def alert_exec [OF assms] by simp
  have c: "clean_first (Some (Text None (?s t) # ts)) = Some (Text None (js_trim t) # ts)"
    unfolding clean_first_def by (simp only: option.case list.case inline.case r)
  obtain k l where a: "alert_kind_of (map upper_unit w) = (k, l)" by fastforce
  obtain y where "parseAlert (Paragraph (?s rest) (Some (Text None (?s t) # ts)) # bs) =
      Some (k, l, Paragraph y (Some (Text None (js_trim t) # ts)) # bs)"
    using m a unfolding parseAlert_def list.case block.case c by (auto simp: Let_def to_upper_def)
  then show ?thesis unfolding renderBlock.simps a Let_def prod.case option.case by simp
qed

theorem alert_rendered_witness:
  "renderBlock \<lparr>br_lower = to_lower, br_version = [], br_currentPage = [], br_terms = []\<rparr>
     (Blockquote [Paragraph (js ''[!Caution] Do not'') (Some [Text None (js ''[!Caution] Do ''), Strong (Some [Text None (js ''not'')])])]) =
   NAlert ImportantAlert (js ''Important'')
     [NParagraph [NSpan [NText (js ''Do'')], NStrong [NSpan [NText (js ''not'')]]]]"
proof -
  have "map upper_unit (js ''Caution'') \<in> set alert_words"
    by (simp add: alert_words_def upper_unit_def is_lower_def)
  moreover have "map upper_unit (js ''Caution'') = js ''CAUTION''" by (simp add: upper_unit_def is_lower_def)
  moreover have "js_trim (js '' Do '') = js ''Do''" by (simp add: js_trim_def trim_start_def trim_end_def is_ws_def)
  ultimately show ?thesis
    using alert_rendered [of "js ''Caution''" "\<lparr>br_lower = to_lower, br_version = [], br_currentPage = [], br_terms = []\<rparr>"
        "js '' Do not''" "js '' Do ''" "[Strong (Some [Text None (js ''not'')])]" "[]"]
    by (simp add: alert_kind_of_def)
qed

end
