(* ===== verification/ReleaseList.thy ===== *)
theory ReleaseList
  imports ReleaseData VersionHook
begin

text \<open>
  The overview of the releases: \<open>pages/Releases.tsx\<close> and the timeline on it,
  \<open>components/ReleaseTimeline.tsx\<close>. Both ask for the tags of the repository, newest first, and
  complete each tag with what the tables of \<open>ReleaseData\<close> know of it. The answer of the request
  is a value of \<open>tags_response\<close>.
\<close>

subsection \<open>The newest stable version\<close>

definition is_prerelease :: "jstr \<Rightarrow> bool" where
  "is_prerelease version \<longleftrightarrow> rx_test prerelease_rx version"

text \<open>The loops over the tags (the timeline runs over the reversed list from its end).\<close>

definition latest_stable :: "jstr list \<Rightarrow> jstr" where
  "latest_stable versions =
     (case find (\<lambda>v. \<not> is_prerelease v) versions of Some v \<Rightarrow> v | None \<Rightarrow> js ''1.2.2'')"

text \<open>\<open>a?.field || fallback\<close> on a text.\<close>

definition field_or :: "'a option \<Rightarrow> ('a \<Rightarrow> jstr) \<Rightarrow> jstr \<Rightarrow> jstr" where
  "field_or x f d = str_or (map_option f x) d"

subsection \<open>The list\<close>

definition default_assets :: "jstr \<Rightarrow> page_asset list" where
  "default_assets version = [
     \<lparr>pa_name = js ''aquilia-'' @ version @ js ''.tar.gz'', pa_size = js ''TBD'', pa_type = js ''Source'', pa_downloadUrl = None\<rparr>,
     \<lparr>pa_name = js ''aquilia-'' @ version @ js ''-py3-none-any.whl'', pa_size = js ''TBD'', pa_type = js ''Wheel'', pa_downloadUrl = None\<rparr>]"

definition enrich :: "jstr \<Rightarrow> jstr \<Rightarrow> page_release" where
  "enrich latestStable version =
     (let staticMatch = find (\<lambda>r. pr_version r = version) static_page_releases in
      \<lparr>pr_version = version,
       pr_codename = field_or staticMatch pr_codename (js ''Release''),
       pr_date = field_or staticMatch pr_date (js ''Jul 1, 2026''),
       pr_tag = (if version = latestStable then LatestTag else if is_prerelease version then PreReleaseTag else StableTag),
       pr_python = [js ''3.10'', js ''3.11'', js ''3.12'', js ''3.13''],
       pr_license = js ''MIT'',
       pr_summary = field_or staticMatch pr_summary (js ''Official release details on GitHub.''),
       pr_highlights = [],
       pr_assets = (case staticMatch of Some r \<Rightarrow> pr_assets r | None \<Rightarrow> default_assets version),
       pr_installCmd = js ''pip install aquilia=='' @ version,
       pr_commitCount = field_or staticMatch pr_commitCount (js ''TBD''),
       pr_contributors = 1\<rparr>)"

text \<open>\<open>None\<close>: the handler throws (no list, an empty one, a name that is no string).\<close>

definition enriched_releases :: "tags_response \<Rightarrow> page_release list option" where
  "enriched_releases resp =
     (case resp of
        Tags tags \<Rightarrow>
          if tags = [] \<or> None \<in> set tags then None
          else (let versions = map (\<lambda>t. strip_v (the t)) tags in
                Some (map (enrich (latest_stable versions)) versions))
      | _ \<Rightarrow> None)"

record overview =
  ov_printMode :: bool
  ov_gitReleases :: "page_release list"
  ov_isLoading :: bool
  ov_pending :: bool
  ov_isSidebarOpen :: bool
  ov_copiedCmd :: "jstr option"
  ov_clipboard :: jstr
  ov_timers :: nat

definition overview_mount :: "bool \<Rightarrow> overview" where
  "overview_mount printMode = \<lparr>ov_printMode = printMode,
     ov_gitReleases = (if printMode then static_page_releases else []), ov_isLoading = (\<not> printMode),
     ov_pending = (\<not> printMode), ov_isSidebarOpen = False, ov_copiedCmd = None, ov_clipboard = [], ov_timers = 0\<rparr>"

datatype overview_event =
    ReleasesArrived tags_response
  | CopyText jstr
  | CopyTimeout
  | SetSidebar bool

text \<open>\<open>setTimeout\<close> of \<open>copyText\<close>: the timers are the same but for their time, so they are counted.\<close>

definition copyText :: "jstr \<Rightarrow> overview \<Rightarrow> overview" where
  "copyText t st = st\<lparr>ov_clipboard := t, ov_copiedCmd := Some t, ov_timers := Suc (ov_timers st)\<rparr>"

definition releases_arrived :: "tags_response \<Rightarrow> overview \<Rightarrow> overview" where
  "releases_arrived resp st =
     (if \<not> ov_pending st then st
      else st\<lparr>ov_gitReleases := (case enriched_releases resp of Some rs \<Rightarrow> rs | None \<Rightarrow> static_page_releases),
              ov_isLoading := False, ov_pending := False\<rparr>)"

fun overview_step :: "overview_event \<Rightarrow> overview \<Rightarrow> overview" where
  "overview_step (ReleasesArrived resp) st = releases_arrived resp st"
| "overview_step (CopyText t) st = copyText t st"
| "overview_step CopyTimeout st =
     (if ov_timers st = 0 then st else st\<lparr>ov_copiedCmd := None, ov_timers := ov_timers st - 1\<rparr>)"
| "overview_step (SetSidebar b) st = st\<lparr>ov_isSidebarOpen := b\<rparr>"

text \<open>What the main column shows: that it is loading, or a link with each release, in this order; the
  mark on the command that was copied.\<close>

definition overview_links :: "overview \<Rightarrow> (jstr \<times> page_release \<times> bool) list option" where
  "overview_links st =
     (if ov_isLoading st then None
      else Some (map (\<lambda>r. (js ''/releases/'' @ pr_version r, r, ov_copiedCmd st = Some (pr_installCmd r))) (ov_gitReleases st)))"

record upgrade_step =
  us_step :: jstr
  us_title :: jstr
  us_description :: jstr
  us_command :: jstr
  us_note :: jstr
  us_extras :: "jstr list option"

definition UpgradePath :: "jstr \<Rightarrow> upgrade_step list" where
  "UpgradePath version = [
     \<lparr>us_step = js ''01'', us_title = js ''Install or upgrade Aquilia'',
      us_description = js ''Install the latest stable release from PyPI.'',
      us_command = js ''pip install aquilia=='' @ version,
      us_note = js ''For MLOps features, add the extras:'',
      us_extras = Some [js ''pip install aquilia[mlops]'', js ''pip install aquilia[dev]'']\<rparr>,
     \<lparr>us_step = js ''02'', us_title = js ''Initialize your project'',
      us_description = js ''Scaffold a new project with the CLI.'',
      us_command = js ''aq init workspace myproject'',
      us_note = js ''This creates the manifest, config, and directory structure.'', us_extras = None\<rparr>,
     \<lparr>us_step = js ''03'', us_title = js ''Start the development server'',
      us_description = js ''Launch the server with live reload.'',
      us_command = js ''aq run'',
      us_note = js ''Your app will be running with live reloading and CSP options.'', us_extras = None\<rparr>,
     \<lparr>us_step = js ''04'', us_title = js ''Discover workspace components'',
      us_description = js ''Validate and sync routes and modules.'',
      us_command = js ''aq discover'',
      us_note = js ''Use aq discover to sync manifests and auto-discover routes.'', us_extras = None\<rparr>]"

subsection \<open>The timeline\<close>

definition defaultCodename :: "jstr \<Rightarrow> jstr" where
  "defaultCodename version =
     (if version = js ''1.4.2'' then js ''Depths Unknown''
      else if version = js ''1.4.1'' then js ''Safe Harbor''
      else if version = js ''1.4.0'' \<or> starts_with version (js ''1.4.0b'') then js ''Grand Armada''
      else if starts_with version (js ''1.3'') then js ''Poseidon'' @ [39] @ js ''s Trident''
      else if starts_with version (js ''1.2'') then js ''Kraken'' @ [39] @ js ''s Wake''
      else if starts_with version (js ''1.1'') then js ''Black Pearl''
      else if version = js ''1.0.5'' then js ''Jolly Roger''
      else js ''Genesis'')"

definition node_branch :: "jstr \<Rightarrow> roadmap_node option \<Rightarrow> jstr option" where
  "node_branch version staticMatch =
     (let branch = Option.bind staticMatch rn_branch in
      if \<not> is_prerelease version then branch
      else if js_includes version (js ''a'') then Some (js ''alpha'')
      else if js_includes version (js ''b'') then Some (js ''beta'')
      else if js_includes version (js ''rc'') then Some (js ''rc'')
      else branch)"

definition node_state :: "jstr list \<Rightarrow> jstr \<Rightarrow> nat \<Rightarrow> jstr \<Rightarrow> node_status" where
  "node_state tags latestStable i version =
     (if version = latestStable then Current
      else if is_prerelease version then Planned
      else (case find_index (\<lambda>t. t = latestStable) tags of
          None \<Rightarrow> Planned
        | Some latestStableIdx \<Rightarrow> if latestStableIdx < i then Planned else Released))"

definition timeline_node :: "jstr list \<Rightarrow> jstr \<Rightarrow> nat \<Rightarrow> jstr \<Rightarrow> roadmap_node" where
  "timeline_node tags latestStable i version =
     (let staticMatch = find (\<lambda>r. rn_version r = version) roadmap in
      \<lparr>rn_version = version,
       rn_codename = field_or staticMatch rn_codename (defaultCodename version),
       rn_date = field_or staticMatch rn_date (js ''Jul 2026''),
       rn_status = node_state tags latestStable i version,
       rn_type = (case staticMatch of Some r \<Rightarrow> rn_type r
         | None \<Rightarrow> if ends_with version (js ''.0'') then MinorNode else PatchNode),
       rn_highlights = (case staticMatch of Some r \<Rightarrow> rn_highlights r
         | None \<Rightarrow> if is_prerelease version then [js ''Upcoming features & testing''] else [js ''GitHub tag release'']),
       rn_branch = node_branch version staticMatch\<rparr>)"

definition timeline_of :: "jstr list \<Rightarrow> roadmap_node list" where
  "timeline_of versions =
     (let tags = rev versions in
      map (\<lambda>(i, v). timeline_node tags (latest_stable versions) i v) (enumerate 0 tags))"

text \<open>The nodes after the answer; on every failure they stay as they are.\<close>

definition timeline_arrived :: "tags_response \<Rightarrow> roadmap_node list \<Rightarrow> roadmap_node list" where
  "timeline_arrived resp nodes =
     (case resp of
        Tags tags \<Rightarrow>
          if tags = [] \<or> None \<in> set tags then nodes else timeline_of (map (\<lambda>t. strip_v (the t)) tags)
      | _ \<Rightarrow> nodes)"

text \<open>How far the line is drawn, in percent; the index is \<open>-1\<close> when no node is current.\<close>

definition progressPct :: "roadmap_node list \<Rightarrow> rat" where
  "progressPct nodes =
     (let currentIdx = (case find_index (\<lambda>n. rn_status n = Current) nodes of Some i \<Rightarrow> of_nat i | None \<Rightarrow> - 1)
      in (currentIdx + 1 / 2) / of_nat (length nodes) * 100)"

end
