(* ===== verification/ReleaseListFacts.thy ===== *)
theory ReleaseListFacts
  imports ReleaseList ReleaseNotes
begin

text \<open>
  Facts on the overview of the releases: which entry is marked as the latest, what the timeline says of
  each version, and which releases of the overview have no page that says anything.
\<close>

subsection \<open>The newest stable version\<close>

lemma find_split: "find P xs = Some v \<Longrightarrow> \<exists>us ws. xs = us @ v # ws \<and> (\<forall>u \<in> set us. \<not> P u) \<and> P v"
proof (induction xs)
  case (Cons x xs)
  show ?case
  proof (cases "P x")
    case True
    with Cons.prems have "x # xs = [] @ v # xs \<and> (\<forall>u \<in> set []. \<not> P u) \<and> P v" by simp
    then show ?thesis by blast
  next
    case False
    with Cons obtain us ws where "xs = us @ v # ws" "\<forall>u \<in> set us. \<not> P u" "P v" by auto
    with False have "x # xs = (x # us) @ v # ws \<and> (\<forall>u \<in> set (x # us). \<not> P u) \<and> P v" by simp
    then show ?thesis by blast
  qed
qed simp

lemma filter_absent: "x \<notin> set xs \<Longrightarrow> filter (\<lambda>v. v = x) xs = []"
  by (induction xs) auto

text \<open>A list of tags that has a stable version, split at the newest one.\<close>

lemma latest_stable_split:
  assumes "\<exists>v \<in> set versions. \<not> is_prerelease v"
  obtains us ws where "versions = us @ latest_stable versions # ws" "\<forall>u \<in> set us. is_prerelease u"
    "\<not> is_prerelease (latest_stable versions)"
proof -
  obtain v where v: "find (\<lambda>v. \<not> is_prerelease v) versions = Some v"
    using assms by (metis find_None_iff not_Some_eq)
  then have l: "latest_stable versions = v" by (simp add: latest_stable_def)
  obtain us ws where "versions = us @ v # ws" "\<forall>u \<in> set us. is_prerelease u" "\<not> is_prerelease v"
    using find_split [OF v] by auto
  then show thesis using that l by simp
qed

lemma enrich_fields [simp]:
  "pr_version (enrich l v) = v"
  "pr_tag (enrich l v) = (if v = l then LatestTag else if is_prerelease v then PreReleaseTag else StableTag)"
  by (simp_all add: enrich_def Let_def)

text \<open>When the tags arrive, the overview lists each of them once, in their order, under its version;
  exactly the newest stable version is marked as the latest, the pre-releases are marked as such and
  every other version as stable.
\<close>
theorem overview_marks_latest:
  assumes "tags \<noteq> []" "None \<notin> set tags" "versions = map (\<lambda>t. strip_v (the t)) tags" "distinct versions"
    and "\<exists>v \<in> set versions. \<not> is_prerelease v"
  shows "\<exists>rs. ov_gitReleases (overview_step (ReleasesArrived (Tags tags)) (overview_mount False)) = rs \<and>
    map pr_version rs = versions \<and>
    map pr_version (filter (\<lambda>r. pr_tag r = LatestTag) rs) = [latest_stable versions] \<and>
    list_all (\<lambda>r. (pr_tag r = PreReleaseTag) = is_prerelease (pr_version r)) rs"
proof -
  let ?rs = "map (enrich (latest_stable versions)) versions"
  obtain us ws where s: "versions = us @ latest_stable versions # ws" "\<not> is_prerelease (latest_stable versions)"
    using latest_stable_split [OF assms(5)] by metis
  have "ov_gitReleases (overview_step (ReleasesArrived (Tags tags)) (overview_mount False)) = ?rs"
    using assms(1-3) by (simp add: releases_arrived_def overview_mount_def enriched_releases_def)
  moreover have "map pr_version ?rs = versions" by (simp add: comp_def)
  moreover have "filter (\<lambda>v. v = latest_stable versions) versions = [latest_stable versions]"
  proof -
    let ?l = "latest_stable versions"
    have "distinct (us @ ?l # ws)" using assms(4) s(1) by simp
    then have "?l \<notin> set us" "?l \<notin> set ws" by auto
    then have "filter (\<lambda>v. v = ?l) (us @ ?l # ws) = [?l]" by (simp add: filter_absent)
    then show ?thesis using s(1) by simp
  qed
  then have "map pr_version (filter (\<lambda>r. pr_tag r = LatestTag) ?rs) = [latest_stable versions]"
    by (simp add: filter_map comp_def if_distrib [of "\<lambda>x. x = LatestTag"] cong: if_cong)
  moreover have "list_all (\<lambda>r. (pr_tag r = PreReleaseTag) = is_prerelease (pr_version r)) ?rs"
    using s(2) by (auto simp: list_all_iff)
  ultimately show ?thesis by (intro exI [of _ ?rs] conjI)
qed

lemma find_index_first: "x \<notin> set xs \<Longrightarrow> find_index (\<lambda>y. y = x) (xs @ x # ys) = Some (length xs)"
  by (induction xs) auto

lemma timeline_fields [simp]:
  "rn_version (timeline_node tags l i v) = v"
  "rn_status (timeline_node tags l i v) = node_state tags l i v"
  by (simp_all add: timeline_node_def Let_def)

lemma timeline_eq: "timeline_of versions = map (\<lambda>i. timeline_node (rev versions) (latest_stable versions) i (rev versions ! i)) [0..<length versions]"
  by (rule nth_equalityI) (simp_all add: timeline_of_def Let_def enumerate_eq_zip)

lemma progress_bounds:
  assumes "find_index (\<lambda>n. rn_status n = Current) nodes = Some i"
  shows "0 < progressPct nodes \<and> progressPct nodes < 100"
proof -
  have "i < length nodes" using find_index_Some [OF assms] by simp
  then have "rat_of_nat i + 1 \<le> rat_of_nat (length nodes)" by (metis Suc_leI add.commute of_nat_Suc of_nat_le_iff)
  moreover have "nodes \<noteq> []" using \<open>i < length nodes\<close> by auto
  ultimately show ?thesis using assms by (simp add: progressPct_def divide_simps)
qed

text \<open>C28: The timeline shows the tags from the oldest to the newest. The newest stable version is the one
  current node, every other stable version is a released one, and every pre-release is a planned
  one, the old ones too; the line is drawn to the current node, so its length stays between 0 and 100
  percent.
\<close>
theorem timeline_states:
  assumes "tags \<noteq> []" "None \<notin> set tags" "versions = map (\<lambda>t. strip_v (the t)) tags" "distinct versions"
    and "\<exists>v \<in> set versions. \<not> is_prerelease v"
  shows "\<exists>ns. timeline_arrived (Tags tags) nodes = ns \<and> map rn_version ns = rev versions \<and>
    list_all (\<lambda>n. rn_status n = (if is_prerelease (rn_version n) then Planned
       else if rn_version n = latest_stable versions then Current else Released)) ns \<and>
    0 < progressPct ns \<and> progressPct ns < 100"
proof -
  let ?l = "latest_stable versions"
  let ?ns = "timeline_of versions"
  obtain us ws where s: "versions = us @ ?l # ws" "\<forall>u \<in> set us. is_prerelease u" "\<not> is_prerelease ?l"
    using latest_stable_split [OF assms(5)] by metis
  have r: "rev versions = rev ws @ ?l # rev us"
    using arg_cong [OF s(1), of rev] by simp
  have "distinct (us @ ?l # ws)" using assms(4) s(1) by simp
  then have "?l \<notin> set (rev ws)" by auto
  then have idx: "find_index (\<lambda>t. t = ?l) (rev versions) = Some (length ws)"
    using find_index_first [of ?l "rev ws" "rev us"] unfolding r by simp
  have st: "node_state (rev versions) ?l i v = (if is_prerelease v then Planned else if v = ?l then Current else Released)"
    if "i < length versions" "v = rev versions ! i" for i v
  proof -
    have "i \<le> length ws" if "\<not> is_prerelease v"
    proof (rule ccontr)
      assume "\<not> i \<le> length ws"
      moreover have "length versions = Suc (length us + length ws)" using arg_cong [OF s(1), of length] by simp
      ultimately have "v = rev us ! (i - Suc (length ws))" "i - Suc (length ws) < length us"
        using \<open>v = rev versions ! i\<close> \<open>i < length versions\<close> unfolding r by (auto simp: nth_append nth_Cons')
      then have "v \<in> set (rev us)" by (metis length_rev nth_mem)
      with s(2) that show False by simp
    qed
    then show ?thesis using s(3) idx by (cases "is_prerelease v") (auto simp: node_state_def)
  qed
  have all: "list_all (\<lambda>n. rn_status n = (if is_prerelease (rn_version n) then Planned
       else if rn_version n = ?l then Current else Released)) ?ns"
    by (auto simp: timeline_eq list_all_iff st)
  have vs: "map rn_version ?ns = rev versions" by (rule nth_equalityI) (simp_all add: timeline_eq)
  have "?l \<in> set (map rn_version ?ns)" unfolding vs r by simp
  then obtain n where "n \<in> set ?ns" "rn_version n = ?l" by auto
  then have "rn_status n = Current" using all s(3) by (auto simp: list_all_iff)
  then have "find_index (\<lambda>n. rn_status n = Current) ?ns \<noteq> None" using \<open>n \<in> set ?ns\<close> by (auto simp: find_index_None)
  then have "0 < progressPct ?ns \<and> progressPct ?ns < 100" using progress_bounds by blast
  moreover have "timeline_arrived (Tags tags) nodes = ?ns" using assms(1-3) by (simp add: timeline_arrived_def)
  ultimately show ?thesis using all vs by (intro exI [of _ ?ns] conjI) simp_all
qed

lemma sample_tags:
  "strip_v (js ''v1.5.0-beta'') = js ''1.5.0-beta''" "is_prerelease (js ''1.5.0-beta'')" "\<not> is_prerelease (js ''1.4.2'')"
  by code_simp+

theorem timeline_states_witness:
  "map rn_status (timeline_arrived (Tags [Some (js ''v1.5.0-beta''), Some (js ''1.4.2'')]) []) = [Current, Planned] \<and>
   0 < progressPct (timeline_arrived (Tags [Some (js ''v1.5.0-beta''), Some (js ''1.4.2'')]) [])"
proof -
  let ?tags = "[Some (js ''v1.5.0-beta''), Some (js ''1.4.2'')]"
  let ?vs = "[js ''1.5.0-beta'', js ''1.4.2'']"
  have v: "?vs = map (\<lambda>t. strip_v (the t)) ?tags" "distinct ?vs" by (simp_all add: strip_v_def)
  have l: "latest_stable ?vs = js ''1.4.2''" using sample_tags by (simp add: latest_stable_def)
  from timeline_states [OF _ _ v, of "[]"] sample_tags
  obtain ns where n: "timeline_arrived (Tags ?tags) [] = ns" "map rn_version ns = rev ?vs"
    "list_all (\<lambda>n. rn_status n = (if is_prerelease (rn_version n) then Planned
       else if rn_version n = latest_stable ?vs then Current else Released)) ns" "0 < progressPct ns"
    by auto
  from n(2) obtain a b where "ns = [a, b]" "rn_version a = js ''1.4.2''" "rn_version b = js ''1.5.0-beta''"
    by (auto simp: map_eq_Cons_conv)
  with n sample_tags l show ?thesis by simp
qed

theorem overview_marks_latest_witness:
  "map pr_version (filter (\<lambda>r. pr_tag r = LatestTag) (ov_gitReleases (overview_step
     (ReleasesArrived (Tags [Some (js ''v1.5.0-beta''), Some (js ''1.4.2'')])) (overview_mount False)))) = [js ''1.4.2'']"
proof -
  let ?tags = "[Some (js ''v1.5.0-beta''), Some (js ''1.4.2'')]"
  let ?vs = "[js ''1.5.0-beta'', js ''1.4.2'']"
  have v: "?vs = map (\<lambda>t. strip_v (the t)) ?tags" "distinct ?vs" by (simp_all add: strip_v_def)
  have l: "latest_stable ?vs = js ''1.4.2''" using sample_tags by (simp add: latest_stable_def)
  have "\<exists>v \<in> set ?vs. \<not> is_prerelease v" using sample_tags by simp
  from overview_marks_latest [OF _ _ v this] show ?thesis unfolding l by auto
qed

subsection \<open>Releases without a page\<close>

lemma overview_versions: "map pr_version static_page_releases = map js [''1.4.2'', ''1.4.1'', ''1.4.0'', ''1.4.0b5'', ''1.4.0b4'',
     ''1.4.0b3'', ''1.3.8'', ''1.3.7'', ''1.3.6'', ''1.3.5'', ''1.3.4'', ''1.3.3'', ''1.3.2'', ''1.3.1'', ''1.3.0'', ''1.2.2'', ''1.2.1'',
     ''1.2.0'', ''1.1.2'', ''1.1.1'', ''1.1.0'', ''1.0.5'', ''1.0.4'', ''1.0.3'', ''1.0.2'', ''1.0.1'', ''1.0.1a4'', ''1.0.1a3'', ''1.0.0'']"
  unfolding static_page_releases_def list.map
  by (simp only: page_release_1_4_2_def page_release_1_4_1_def page_release_1_4_0_def page_release_1_4_0b5_def
    page_release_1_4_0b4_def page_release_1_4_0b3_def page_release_1_3_8_def page_release_1_3_7_def
    page_release_1_3_6_def page_release_1_3_5_def page_release_1_3_4_def page_release_1_3_3_def page_release_1_3_2_def
    page_release_1_3_1_def page_release_1_3_0_def page_release_1_2_2_def page_release_1_2_1_def page_release_1_2_0_def
    page_release_1_1_2_def page_release_1_1_1_def page_release_1_1_0_def page_release_1_0_5_def page_release_1_0_4_def
    page_release_1_0_3_def page_release_1_0_2_def page_release_1_0_1_def page_release_1_0_1a4_def
    page_release_1_0_1a3_def page_release_1_0_0_def page_release.simps)

lemma detail_versions: "map dr_version static_detail_releases = map js [''1.4.2'', ''1.4.1'', ''1.4.0'', ''1.4.0b5'', ''1.3.4'',
     ''1.3.3'', ''1.3.2'', ''1.3.1'', ''1.2.2'', ''1.2.1'', ''1.2.0'', ''1.1.2'', ''1.1.1'', ''1.1.0'', ''1.0.5'', ''1.0.4'', ''1.0.3'',
     ''1.0.2'', ''1.0.1'', ''1.0.0'']"
  unfolding static_detail_releases_def list.map
  by (simp only: detail_release_1_4_2_def detail_release_1_4_1_def detail_release_1_4_0_def detail_release_1_4_0b5_def
    detail_release_1_3_4_def detail_release_1_3_3_def detail_release_1_3_2_def detail_release_1_3_1_def
    detail_release_1_2_2_def detail_release_1_2_1_def detail_release_1_2_0_def detail_release_1_1_2_def
    detail_release_1_1_1_def detail_release_1_1_0_def detail_release_1_0_5_def detail_release_1_0_4_def
    detail_release_1_0_3_def detail_release_1_0_2_def detail_release_1_0_1_def detail_release_1_0_0_def
    detail_release.simps)

lemma no_page: "filter (\<lambda>v. \<not> supportsFolderNotes v \<and> v \<notin> set (map dr_version static_detail_releases)) (map pr_version static_page_releases) =
    [js ''1.3.0'', js ''1.0.1a4'', js ''1.0.1a3'']"
  unfolding overview_versions detail_versions by code_simp

lemma plain_versions: "list_all (\<lambda>v. v \<noteq> js ''latest'' \<and> v \<noteq> [] \<and> strip_v v = v) (map pr_version static_page_releases)"
  unfolding overview_versions by code_simp

lemma nothing_to_show:
  assumes "v \<noteq> js ''latest''" "v \<noteq> []" "strip_v v = v"
  shows "notes_view (notes_mount (Some v) None latest) = Fallback None \<longleftrightarrow>
    \<not> supportsFolderNotes v \<and> v \<notin> set (map dr_version static_detail_releases)"
proof -
  have "activeReleaseInfo v = None \<longleftrightarrow> v \<notin> set (map dr_version static_detail_releases)"
    by (auto simp: activeReleaseInfo_def find_None_iff)
  then show ?thesis
    using assms by (simp add: notes_mount_def load_page_def Let_def notes_view_def rd_version_def shown_version_def)
qed

text \<open>Three releases the overview lists and links to have no page that says anything: 1.3.0, 1.0.1a4
  and 1.0.1a3 are too old for a folder of notes and missing from the table of short notes, so their
  page says that no documentation is available.
\<close>
theorem overview_links_without_notes:
  "map pr_version (filter (\<lambda>r. notes_view (notes_mount (Some (pr_version r)) None latest) = Fallback None) static_page_releases) =
     [js ''1.3.0'', js ''1.0.1a4'', js ''1.0.1a3'']"
proof -
  have "map pr_version (filter (\<lambda>r. notes_view (notes_mount (Some (pr_version r)) None latest) = Fallback None) rs) =
      filter (\<lambda>v. \<not> supportsFolderNotes v \<and> v \<notin> set (map dr_version static_detail_releases)) (map pr_version rs)"
    if "list_all (\<lambda>v. v \<noteq> js ''latest'' \<and> v \<noteq> [] \<and> strip_v v = v) (map pr_version rs)" for rs
    using that by (induction rs) (auto simp: nothing_to_show simp del: js_Cons set_map)
  from this [OF plain_versions] show ?thesis unfolding no_page .
qed

end
