(* ===== verification/DiagramView.thy ===== *)
theory DiagramView
  imports Machine MermaidParser MermaidLayout
begin

text \<open>
  \<open>components/MermaidDiagram.tsx\<close>: the view of one diagram. The state of the component with the
  gestures that pan and zoom it is an event machine; every event is handled after the render
  of the one before, so a handler reads the current state. \<open>Math.hypot\<close>, which the language leaves
  to the implementation, is the parameter \<open>hypot\<close>. Coordinates and deltas of events are finite;
  decimal constants stand for themselves, not for their nearest binary fractions.
\<close>

subsection \<open>Numbers\<close>

fun num_mul :: "jsnum \<Rightarrow> jsnum \<Rightarrow> jsnum" where
  "num_mul (Fin a) (Fin b) = Fin (a * b)"
| "num_mul NaN y = NaN"
| "num_mul x NaN = NaN"
| "num_mul (Fin a) y = (if a = 0 then NaN else if 0 < a then y else num_neg y)"
| "num_mul x (Fin b) = (if b = 0 then NaN else if 0 < b then x else num_neg x)"
| "num_mul PosInf PosInf = PosInf"
| "num_mul PosInf NegInf = NegInf"
| "num_mul NegInf PosInf = NegInf"
| "num_mul NegInf NegInf = PosInf"

text \<open>Division of two finite numbers, the divisor not \<open>-0\<close>.\<close>

definition num_div :: "rat \<Rightarrow> rat \<Rightarrow> jsnum" where
  "num_div a b = (if b \<noteq> 0 then Fin (a / b) else if a = 0 then NaN else if 0 < a then PosInf else NegInf)"

text \<open>\<open>Math.max(0.4, Math.min(2.5, z))\<close>.\<close>

definition clamp_zoom :: "jsnum \<Rightarrow> jsnum" where
  "clamp_zoom z = num_max (Fin (2 / 5)) (num_min (Fin (5 / 2)) z)"

subsection \<open>Parsing and layout\<close>

datatype any_layout = FlowDrawing flow_layout | SeqDrawing seq_layout

text \<open>The \<open>catch\<close> of the memoised layout turns an exception into \<open>null\<close>; the parser and the layout of a
  sequence diagram look nothing up that could be missing. \<open>Endless\<close> is a layout that does not end.\<close>

fun catch_null :: "'a js_run \<Rightarrow> 'a option js_run" where
  "catch_null Endless = Endless"
| "catch_null Throws = Returns None"
| "catch_null (Returns x) = Returns (Some x)"

definition diagram_layout :: "jstr \<Rightarrow> any_layout option js_run" where
  "diagram_layout chart = catch_null
     (case parseMermaid chart of
        ParsedSeq sq \<Rightarrow> Returns (SeqDrawing (layoutSequenceDiagram sq))
      | ParsedFlow g \<Rightarrow> map_js_run FlowDrawing (layoutFlowgraph g))"

subsection \<open>State and handlers\<close>

record diagram_view =
  dv_showRaw :: bool
  dv_copied :: bool
  dv_copyTimers :: nat
  dv_zoom :: jsnum
  dv_pan :: "rat \<times> rat"
  dv_isDragging :: bool
  dv_pointerStart :: "rat \<times> rat"
  dv_initialPan :: "rat \<times> rat"
  dv_touchDistance :: "rat option"
  dv_initialZoom :: jsnum
  dv_touchCenter :: "rat \<times> rat"
  dv_captured :: "int list"

definition view_init :: diagram_view where
  "view_init = \<lparr>dv_showRaw = False, dv_copied = False, dv_copyTimers = 0, dv_zoom = Fin 1, dv_pan = (0, 0),
     dv_isDragging = False, dv_pointerStart = (0, 0), dv_initialPan = (0, 0), dv_touchDistance = None,
     dv_initialZoom = Fin 1, dv_touchCenter = (0, 0), dv_captured = []\<rparr>"

definition view_copy :: "diagram_view \<Rightarrow> diagram_view" where
  "view_copy st = st\<lparr>dv_copied := True, dv_copyTimers := dv_copyTimers st + 1\<rparr>"

definition view_copy_timeout :: "diagram_view \<Rightarrow> diagram_view" where
  "view_copy_timeout st =
     (if dv_copyTimers st = 0 then st else st\<lparr>dv_copied := False, dv_copyTimers := dv_copyTimers st - 1\<rparr>)"

definition handleZoomIn :: "diagram_view \<Rightarrow> diagram_view" where
  "handleZoomIn st = st\<lparr>dv_zoom := num_min (Fin (5 / 2)) (num_add (dv_zoom st) (Fin (3 / 20)))\<rparr>"

definition handleZoomOut :: "diagram_view \<Rightarrow> diagram_view" where
  "handleZoomOut st = st\<lparr>dv_zoom := num_max (Fin (2 / 5)) (num_sub (dv_zoom st) (Fin (3 / 20)))\<rparr>"

definition handleReset :: "diagram_view \<Rightarrow> diagram_view" where
  "handleReset st = st\<lparr>dv_zoom := Fin 1, dv_pan := (0, 0)\<rparr>"

text \<open>The wheel listener is attached while the drawing is shown; \<open>ctrl\<close> is the control or the
  meta key.\<close>

definition handleNativeWheel :: "bool \<Rightarrow> rat \<Rightarrow> rat \<Rightarrow> diagram_view \<Rightarrow> diagram_view" where
  "handleNativeWheel ctrl deltaX deltaY st =
     (if dv_showRaw st then st
      else if ctrl then
        (let delta = (if deltaY < 0 then 3 / 25 else - (3 / 25))
         in st\<lparr>dv_zoom := clamp_zoom (num_add (dv_zoom st) (Fin delta))\<rparr>)
      else st\<lparr>dv_pan := (fst (dv_pan st) - deltaX * (4 / 5), snd (dv_pan st) - deltaY * (4 / 5))\<rparr>)"

text \<open>The container is mounted whenever a handler of it runs.\<close>

definition handlePointerDown :: "bool \<Rightarrow> int \<Rightarrow> rat \<times> rat \<Rightarrow> diagram_view \<Rightarrow> diagram_view" where
  "handlePointerDown hasLayout pid client st =
     (if dv_showRaw st \<or> \<not> hasLayout then st
      else st\<lparr>dv_isDragging := True, dv_pointerStart := client, dv_initialPan := dv_pan st,
              dv_captured := List.insert pid (dv_captured st)\<rparr>)"

definition moved :: "rat \<times> rat \<Rightarrow> rat \<times> rat \<Rightarrow> rat \<times> rat \<Rightarrow> rat \<times> rat" where
  "moved base to from = (fst base + (fst to - fst from), snd base + (snd to - snd from))"

definition handlePointerMove :: "rat \<times> rat \<Rightarrow> diagram_view \<Rightarrow> diagram_view" where
  "handlePointerMove client st =
     (if \<not> dv_isDragging st then st
      else st\<lparr>dv_pan := moved (dv_initialPan st) client (dv_pointerStart st)\<rparr>)"

definition handlePointerUp :: "int \<Rightarrow> diagram_view \<Rightarrow> diagram_view" where
  "handlePointerUp pid st =
     (if dv_isDragging st
      then st\<lparr>dv_isDragging := False, dv_captured := remove1 pid (dv_captured st)\<rparr> else st)"

text \<open>The centre of the fingers, in the order of the two sums.\<close>

definition touch_center :: "(rat \<times> rat) list \<Rightarrow> rat \<times> rat" where
  "touch_center ts =
     (foldl (+) 0 (map fst ts) / of_nat (length ts), foldl (+) 0 (map snd ts) / of_nat (length ts))"

definition finger_distance :: "(rat \<Rightarrow> rat \<Rightarrow> rat) \<Rightarrow> (rat \<times> rat) list \<Rightarrow> rat" where
  "finger_distance hypot ts = hypot (fst (ts ! 1) - fst (ts ! 0)) (snd (ts ! 1) - snd (ts ! 0))"

definition handleTouchStart ::
  "(rat \<Rightarrow> rat \<Rightarrow> rat) \<Rightarrow> bool \<Rightarrow> (rat \<times> rat) list \<Rightarrow> diagram_view \<Rightarrow> diagram_view" where
  "handleTouchStart hypot hasLayout ts st =
     (if dv_showRaw st \<or> \<not> hasLayout then st
      else if length ts \<ge> 1 then
        (let st' = st\<lparr>dv_touchCenter := touch_center ts, dv_initialPan := dv_pan st\<rparr>
         in if length ts = 2
            then st'\<lparr>dv_touchDistance := Some (finger_distance hypot ts), dv_initialZoom := dv_zoom st\<rparr>
            else st'\<lparr>dv_touchDistance := None\<rparr>)
      else st)"

definition pinch_zoom :: "(rat \<Rightarrow> rat \<Rightarrow> rat) \<Rightarrow> (rat \<times> rat) list \<Rightarrow> rat \<Rightarrow> jsnum \<Rightarrow> jsnum" where
  "pinch_zoom hypot ts start zoom0 =
     (let scaleChange = num_div (finger_distance hypot ts) start
      in clamp_zoom (num_mul zoom0 scaleChange))"

definition handleTouchMove ::
  "(rat \<Rightarrow> rat \<Rightarrow> rat) \<Rightarrow> bool \<Rightarrow> (rat \<times> rat) list \<Rightarrow> diagram_view \<Rightarrow> diagram_view" where
  "handleTouchMove hypot hasLayout ts st =
     (if dv_showRaw st \<or> \<not> hasLayout then st
      else if length ts \<ge> 1 then
        (let st' = (case dv_touchDistance st of
               Some start \<Rightarrow>
                 if length ts = 2 then st\<lparr>dv_zoom := pinch_zoom hypot ts start (dv_initialZoom st)\<rparr> else st
             | None \<Rightarrow> st)
         in st'\<lparr>dv_pan := moved (dv_initialPan st) (touch_center ts) (dv_touchCenter st)\<rparr>)
      else st)"

definition handleTouchEnd :: "diagram_view \<Rightarrow> diagram_view" where
  "handleTouchEnd st = st\<lparr>dv_touchDistance := None\<rparr>"

definition handleDoubleClick :: "diagram_view \<Rightarrow> diagram_view" where
  "handleDoubleClick st =
     (if dv_zoom st \<noteq> Fin 1 \<or> fst (dv_pan st) \<noteq> 0 \<or> snd (dv_pan st) \<noteq> 0 then handleReset st
      else st\<lparr>dv_zoom := Fin (7 / 5)\<rparr>)"

subsection \<open>Events\<close>

text \<open>The zoom buttons are there only while a drawing is shown. After \<open>pointerup\<close> and
  \<open>pointercancel\<close> the browser releases the capture of the pointer by itself.\<close>

datatype view_event =
    PressZoomIn | PressZoomOut | PressReset | PressToggle | PressCopy | CopyTimeout
  | Wheel bool rat rat
  | PointerDown int "rat \<times> rat" | PointerMove "rat \<times> rat" | PointerUp int
  | TouchStart "(rat \<times> rat) list" | TouchMove "(rat \<times> rat) list" | TouchEnd
  | DoubleClick

definition with_controls :: "bool \<Rightarrow> (diagram_view \<Rightarrow> diagram_view) \<Rightarrow> diagram_view \<Rightarrow> diagram_view" where
  "with_controls hasLayout h st = (if \<not> dv_showRaw st \<and> hasLayout then h st else st)"

fun view_step :: "(rat \<Rightarrow> rat \<Rightarrow> rat) \<Rightarrow> bool \<Rightarrow> view_event \<Rightarrow> diagram_view \<Rightarrow> diagram_view" where
  "view_step hypot l PressZoomIn st = with_controls l handleZoomIn st"
| "view_step hypot l PressZoomOut st = with_controls l handleZoomOut st"
| "view_step hypot l PressReset st = with_controls l handleReset st"
| "view_step hypot l PressToggle st = st\<lparr>dv_showRaw := \<not> dv_showRaw st\<rparr>"
| "view_step hypot l PressCopy st = view_copy st"
| "view_step hypot l CopyTimeout st = view_copy_timeout st"
| "view_step hypot l (Wheel ctrl dx dy) st = handleNativeWheel ctrl dx dy st"
| "view_step hypot l (PointerDown pid p) st = handlePointerDown l pid p st"
| "view_step hypot l (PointerMove p) st = handlePointerMove p st"
| "view_step hypot l (PointerUp pid) st =
     (let st' = handlePointerUp pid st in st'\<lparr>dv_captured := remove1 pid (dv_captured st')\<rparr>)"
| "view_step hypot l (TouchStart ts) st = handleTouchStart hypot l ts st"
| "view_step hypot l (TouchMove ts) st = handleTouchMove hypot l ts st"
| "view_step hypot l TouchEnd st = handleTouchEnd st"
| "view_step hypot l DoubleClick st = handleDoubleClick st"

text \<open>Whether there is a layout, which the effect of the gestures asks for.\<close>

fun has_layout :: "any_layout option js_run \<Rightarrow> bool" where
  "has_layout (Returns (Some l)) = True"
| "has_layout _ = False"

definition view_after :: "(rat \<Rightarrow> rat \<Rightarrow> rat) \<Rightarrow> jstr \<Rightarrow> view_event list \<Rightarrow> diagram_view \<Rightarrow> diagram_view" where
  "view_after hypot chart es st = fold (view_step hypot (has_layout (diagram_layout chart))) es st"

definition view_run :: "(rat \<Rightarrow> rat \<Rightarrow> rat) \<Rightarrow> jstr \<Rightarrow> view_event list \<Rightarrow> diagram_view" where
  "view_run hypot chart es = view_after hypot chart es view_init"

subsection \<open>What is shown\<close>

text \<open>The label of the zoom, \<open>Math.round(zoom * 100)\<close> and a percent sign, and the body: the source,
  the source with a warning, or the drawing with its transformation.\<close>

definition zoom_label :: "jsnum \<Rightarrow> jstr" where
  "zoom_label z =
     (case z of
        Fin r \<Rightarrow> (let n = \<lfloor>r * 100 + 1 / 2\<rfloor> in (if n < 0 then [45] else []) @ nat_text (nat \<bar>n\<bar>))
      | PosInf \<Rightarrow> js ''Infinity'' | NegInf \<Rightarrow> js ''-Infinity'' | NaN \<Rightarrow> js ''NaN'') @ js ''%''"

definition diagram_title :: "jstr option \<Rightarrow> jstr" where
  "diagram_title title = str_or title (js ''Diagram'')"

datatype shown_body =
    SourceText jstr
  | SourceWithWarning jstr
  | Drawing any_layout "rat \<times> rat" jsnum

definition shown_layout :: "jstr \<Rightarrow> any_layout option \<Rightarrow> diagram_view \<Rightarrow> shown_body" where
  "shown_layout chart layout st =
     (if dv_showRaw st then SourceText chart
      else (case layout of
          None \<Rightarrow> SourceWithWarning chart
        | Some l \<Rightarrow> Drawing l (dv_pan st) (dv_zoom st)))"

text \<open>The layout is computed before anything is shown, also for the source.\<close>

definition diagram_body :: "jstr \<Rightarrow> diagram_view \<Rightarrow> shown_body js_run" where
  "diagram_body chart st = map_js_run (\<lambda>layout. shown_layout chart layout st) (diagram_layout chart)"

end
