(* ===== verification/DiagramSvg.thy ===== *)
theory DiagramSvg
  imports DiagramView
begin

text \<open>
  \<open>FlowchartRenderer\<close>, \<open>NodeItem\<close> and \<open>SequenceRenderer\<close> of \<open>components/MermaidDiagram.tsx\<close>: the
  elements they return, with tags and property names as in the source. Class names and keys,
  which draw nothing, are left out.
\<close>

datatype svg_value = SvgNum jsnum | SvgStr jstr

datatype svg = El string "(string \<times> svg_value) list" "svg list" | Txt jstr

abbreviation svg_num :: "rat \<Rightarrow> svg_value" where
  "svg_num r \<equiv> SvgNum (Fin r)"

abbreviation svg_str :: "string \<Rightarrow> svg_value" where
  "svg_str s \<equiv> SvgStr (js s)"

text \<open>A property that is \<open>undefined\<close> is no property.\<close>

definition when_prop :: "bool \<Rightarrow> string \<Rightarrow> svg_value \<Rightarrow> (string \<times> svg_value) list" where
  "when_prop c name v = (if c then [(name, v)] else [])"

definition jsnum_text :: "jsnum \<Rightarrow> jstr" where
  "jsnum_text x = (case x of Fin r \<Rightarrow> num_text r | PosInf \<Rightarrow> js ''Infinity''
     | NegInf \<Rightarrow> js ''-Infinity'' | NaN \<Rightarrow> js ''NaN'')"

definition translate_text :: "rat \<Rightarrow> rat \<Rightarrow> jstr" where
  "translate_text x y = js ''translate('' @ num_text x @ js '', '' @ num_text y @ js '')''"

definition pick :: "bool \<Rightarrow> string \<Rightarrow> string \<Rightarrow> jstr" where
  "pick isDark d l = (if isDark then js d else js l)"

text \<open>\<open>uniqueId\<close>: the id of the component without what is neither a letter nor a digit.\<close>

definition unique_id :: "jstr \<Rightarrow> jstr" where
  "unique_id rawId = js ''aquilia-mermaid-'' @
     rx_replace_all (RChr (\<lambda>c. \<not> (97 \<le> c \<and> c \<le> 122 \<or> 65 \<le> c \<and> c \<le> 90 \<or> 48 \<le> c \<and> c \<le> 57)))
       (\<lambda>m cs. []) rawId"

definition svg_frame :: "jsnum \<Rightarrow> jsnum \<Rightarrow> svg list \<Rightarrow> svg" where
  "svg_frame w h content = El ''svg'' [(''width'', SvgNum w), (''height'', SvgNum h),
     (''viewBox'', SvgStr (js ''0 0 '' @ jsnum_text w @ js '' '' @ jsnum_text h)),
     (''style.width'', SvgStr (jsnum_text w @ js ''px'')),
     (''style.height'', SvgStr (jsnum_text h @ js ''px''))] content"

definition arrow_marker :: "jstr \<Rightarrow> bool \<Rightarrow> svg" where
  "arrow_marker markerId isDark = El ''defs'' [] [El ''marker'' [(''id'', SvgStr markerId),
     (''viewBox'', svg_str ''0 0 10 10''), (''refX'', svg_str ''9''), (''refY'', svg_str ''5''),
     (''markerWidth'', svg_str ''6''), (''markerHeight'', svg_str ''6''),
     (''orient'', svg_str ''auto-start-reverse'')]
     [El ''path'' [(''d'', svg_str ''M 0 1.5 L 9 5 L 0 8.5 z''),
        (''fill'', SvgStr (pick isDark ''#94a3b8'' ''#64748b''))] []]]"

definition marker_url :: "jstr \<Rightarrow> svg_value" where
  "marker_url markerId = SvgStr (js ''url(#'' @ markerId @ js '')'')"

definition site_font :: "string \<Rightarrow> string \<Rightarrow> (string \<times> svg_value) list" where
  "site_font fontSize weight = [(''fontSize'', svg_str fontSize), (''fontWeight'', svg_str weight),
     (''fontFamily'', svg_str ''Inter, system-ui, sans-serif'')]"

subsection \<open>Flowcharts\<close>

definition subgraph_svg :: "bool \<Rightarrow> positioned_subgraph \<Rightarrow> svg" where
  "subgraph_svg isDark sub = El ''g'' [] [
     El ''rect'' [(''x'', SvgNum (ps_x sub)), (''y'', SvgNum (ps_y sub)),
       (''width'', SvgNum (ps_width sub)), (''height'', SvgNum (ps_height sub)),
       (''rx'', svg_str ''8''), (''ry'', svg_str ''8''),
       (''fill'', SvgStr (pick isDark ''rgba(30, 41, 59, 0.4)'' ''rgba(248, 250, 252, 0.8)'')),
       (''stroke'', SvgStr (pick isDark ''#334155'' ''#cbd5e1'')),
       (''strokeWidth'', svg_str ''1.5''), (''strokeDasharray'', svg_str ''4 4'')] [],
     El ''text'' ([(''x'', SvgNum (num_add (ps_x sub) (Fin 12))), (''y'', SvgNum (num_add (ps_y sub) (Fin 16))),
       (''fill'', SvgStr (pick isDark ''#94a3b8'' ''#64748b''))] @ site_font ''11'' ''600'')
       [Txt (sg_title (ps_subgraph sub))]]"

text \<open>The card behind the label of an edge or of a message: as wide as the label, centred on the
  origin of its group.\<close>

definition label_card :: "bool \<Rightarrow> string \<Rightarrow> string \<Rightarrow> string \<Rightarrow> jstr \<Rightarrow> svg list" where
  "label_card isDark cardY height textY label = [
     El ''rect'' [(''x'', svg_num (- (of_nat (length label) * (18 / 5) + 8))), (''y'', svg_str cardY),
       (''width'', svg_num (of_nat (length label) * (36 / 5) + 16)), (''height'', svg_str height),
       (''rx'', svg_str ''4''), (''fill'', SvgStr (pick isDark ''#0f172a'' ''#ffffff'')),
       (''stroke'', SvgStr (pick isDark ''#334155'' ''#e2e8f0'')), (''strokeWidth'', svg_str ''1'')] [],
     El ''text'' ([(''x'', svg_str ''0''), (''y'', svg_str textY), (''textAnchor'', svg_str ''middle''),
       (''fill'', SvgStr (pick isDark ''#cbd5e1'' ''#475569''))] @ site_font ''11'' ''500'') [Txt label]]"

definition edge_svg :: "bool \<Rightarrow> jstr \<Rightarrow> positioned_edge \<Rightarrow> svg" where
  "edge_svg isDark markerId e =
     (let edge = pe_edge e in
      El ''g'' [] (El ''path''
          ([(''d'', SvgStr (pe_pathD e)), (''fill'', svg_str ''none''),
            (''stroke'', SvgStr (pick isDark ''#94a3b8'' ''#64748b'')),
            (''strokeWidth'', svg_str (if e_style edge = Thick then ''2.5'' else ''1.5''))] @
           when_prop (e_style edge = Dashed) ''strokeDasharray'' (svg_str ''5 4'') @
           when_prop (e_hasArrow edge) ''markerEnd'' (marker_url markerId)) [] #
        (if truthy (e_label edge)
         then [El ''g'' [(''transform'', SvgStr (translate_text (pe_labelX e) (pe_labelY e)))]
                 (label_card isDark ''-10'' ''20'' ''3'' (the (e_label edge)))]
         else [])))"

subsection \<open>Nodes\<close>

text \<open>The colours of a node: fill, stroke and text. A style of its own, even one that sets no colour,
  keeps the colours of the class name away.\<close>

definition base_colors :: "bool \<Rightarrow> jstr \<times> jstr \<times> jstr" where
  "base_colors isDark = (pick isDark ''#1e293b'' ''#f8fafc'', pick isDark ''#475569'' ''#cbd5e1'',
     pick isDark ''#f8fafc'' ''#0f172a'')"

definition class_colors :: "bool \<Rightarrow> jstr \<Rightarrow> jstr \<times> jstr \<times> jstr" where
  "class_colors isDark className =
     (let cName = to_lower className in
      if js_includes cName (js ''phase'') then
        (pick isDark ''#2e1065'' ''#f3e8ff'', pick isDark ''#7c3aed'' ''#a855f7'', pick isDark ''#f3e8ff'' ''#4c1d95'')
      else if js_includes cName (js ''success'') then
        (pick isDark ''#064e3b'' ''#ecfdf5'', pick isDark ''#10b981'' ''#059669'', pick isDark ''#dcfce7'' ''#064e3b'')
      else if js_includes cName (js ''fail'') \<or> js_includes cName (js ''error'') then
        (pick isDark ''#450a0a'' ''#fef2f2'', pick isDark ''#ef4444'' ''#dc2626'', pick isDark ''#fee2e2'' ''#7f1d1d'')
      else base_colors isDark)"

definition node_colors :: "bool \<Rightarrow> flow_node \<Rightarrow> jstr \<times> jstr \<times> jstr" where
  "node_colors isDark node =
     (case base_colors isDark of (f, s, t) \<Rightarrow>
       (case n_style node of
          Some st \<Rightarrow> (str_or (fill st) f, str_or (stroke st) s, str_or (color st) t)
        | None \<Rightarrow> if truthy (n_className node) then class_colors isDark (the (n_className node)) else (f, s, t)))"

definition paint :: "jstr \<Rightarrow> jstr \<Rightarrow> (string \<times> svg_value) list" where
  "paint f s = [(''fill'', SvgStr f), (''stroke'', SvgStr s), (''strokeWidth'', svg_str ''1.5'')]"

definition diamond_points :: "rat \<Rightarrow> rat \<Rightarrow> jstr" where
  "diamond_points w h = num_text (w / 2) @ js '',0 '' @ num_text w @ js '','' @ num_text (h / 2) @ js '' '' @
     num_text (w / 2) @ js '','' @ num_text h @ js '' 0,'' @ num_text (h / 2)"

definition cylinder_path :: "rat \<Rightarrow> rat \<Rightarrow> jstr" where
  "cylinder_path w h = js ''M 0 10 A '' @ num_text (w / 2) @ js '' 8 0 0 0 '' @ num_text w @ js '' 10 V '' @
     num_text (h - 10) @ js '' A '' @ num_text (w / 2) @ js '' 8 0 0 1 0 '' @ num_text (h - 10) @ js '' Z''"

definition node_shape_svg :: "jstr \<Rightarrow> jstr \<Rightarrow> positioned_node \<Rightarrow> svg" where
  "node_shape_svg f s p =
     (let w = pn_width p; h = pn_height p; shape = n_shape (pn_node p) in
      if shape = Stadium \<or> shape = Round then
        El ''rect'' ([(''x'', svg_str ''0''), (''y'', svg_str ''0''), (''width'', svg_num w), (''height'', svg_num h),
          (''rx'', svg_num (h / 2)), (''ry'', svg_num (h / 2))] @ paint f s) []
      else if shape = Circle then
        El ''circle'' ([(''cx'', svg_num (w / 2)), (''cy'', svg_num (h / 2)), (''r'', svg_num (min w h / 2))] @ paint f s) []
      else if shape = Diamond then
        El ''polygon'' ((''points'', SvgStr (diamond_points w h)) # paint f s) []
      else if shape = Cylinder then
        El ''g'' [] [El ''path'' ((''d'', SvgStr (cylinder_path w h)) # paint f s) [],
          El ''ellipse'' ([(''cx'', svg_num (w / 2)), (''cy'', svg_str ''10''), (''rx'', svg_num (w / 2)),
            (''ry'', svg_str ''8'')] @ paint f s) []]
      else
        El ''rect'' ([(''x'', svg_str ''0''), (''y'', svg_str ''0''), (''width'', svg_num w), (''height'', svg_num h),
          (''rx'', svg_str ''6''), (''ry'', svg_str ''6'')] @ paint f s) [])"

text \<open>The height of the first line of a label, and of the line with number \<open>i\<close>: every later line is 16
  below the one before.\<close>

definition label_top :: "positioned_node \<Rightarrow> rat" where
  "label_top p = pn_height p / 2 - (of_nat (length (label_lines (n_label (pn_node p)))) - 1) * 8"

definition line_dy :: "nat \<Rightarrow> rat" where
  "line_dy i = (if i = 0 then 0 else 16)"

definition node_text_svg :: "jstr \<Rightarrow> positioned_node \<Rightarrow> svg" where
  "node_text_svg textColor p =
     El ''text'' [(''x'', svg_num (pn_width p / 2)), (''y'', svg_num (label_top p)),
        (''textAnchor'', svg_str ''middle''), (''dominantBaseline'', svg_str ''central''),
        (''fill'', SvgStr textColor), (''fontSize'', svg_str ''11.5''), (''fontWeight'', svg_str ''500''),
        (''fontFamily'', svg_str ''Inter, system-ui, -apple-system, sans-serif'')]
       (map (\<lambda>(idx, line). El ''tspan'' [(''x'', svg_num (pn_width p / 2)), (''dy'', svg_num (line_dy idx))] [Txt line])
          (List.enumerate 0 (label_lines (n_label (pn_node p)))))"

definition node_svg :: "bool \<Rightarrow> positioned_node \<Rightarrow> svg" where
  "node_svg isDark p =
     (case node_colors isDark (pn_node p) of (f, s, textColor) \<Rightarrow>
       El ''g'' [(''transform'', SvgStr (translate_text (pn_x p) (pn_y p)))]
         [node_shape_svg f s p, node_text_svg textColor p])"

definition flow_svg :: "bool \<Rightarrow> jstr \<Rightarrow> flow_layout \<Rightarrow> svg" where
  "flow_svg isDark uniqueId l =
     (let markerId = uniqueId @ js ''-arrow'' in
      svg_frame (fl_width l) (fl_height l)
        (arrow_marker markerId isDark # map (subgraph_svg isDark) (fl_subgraphs l) @
         map (edge_svg isDark markerId) (fl_edges l) @ map (node_svg isDark) (fl_nodes l)))"

subsection \<open>Sequence diagrams\<close>

definition participant_card ::
  "bool \<Rightarrow> rat \<Rightarrow> string \<Rightarrow> string \<Rightarrow> jstr \<Rightarrow> string \<Rightarrow> positioned_participant \<Rightarrow> svg" where
  "participant_card isDark cardY height textY textColor fontSize p =
     El ''g'' [(''transform'', SvgStr (translate_text (pp_x p - pp_width p / 2) cardY))] [
       El ''rect'' [(''x'', svg_str ''0''), (''y'', svg_str ''0''), (''width'', svg_num (pp_width p)),
         (''height'', svg_str height), (''rx'', svg_str ''6''),
         (''fill'', SvgStr (pick isDark ''#1e293b'' ''#f8fafc'')),
         (''stroke'', SvgStr (pick isDark ''#475569'' ''#cbd5e1'')), (''strokeWidth'', svg_str ''1.5'')] [],
       El ''text'' ([(''x'', svg_num (pp_width p / 2)), (''y'', svg_str textY), (''textAnchor'', svg_str ''middle''),
         (''dominantBaseline'', svg_str ''central''), (''fill'', SvgStr textColor)] @ site_font fontSize ''500'')
         [Txt (pt_label (pp_participant p))]]"

definition participant_svg :: "bool \<Rightarrow> rat \<Rightarrow> positioned_participant \<Rightarrow> svg" where
  "participant_svg isDark height p = El ''g'' [] [
     El ''line'' [(''x1'', svg_num (pp_x p)), (''y1'', svg_num 65), (''x2'', svg_num (pp_x p)),
       (''y2'', svg_num (height - 45)), (''stroke'', SvgStr (pick isDark ''#334155'' ''#cbd5e1'')),
       (''strokeWidth'', svg_str ''1.5''), (''strokeDasharray'', svg_str ''4 4'')] [],
     participant_card isDark 25 ''36'' ''18'' (pick isDark ''#f8fafc'' ''#0f172a'') ''11.5'' p,
     participant_card isDark (height - 40) ''32'' ''16'' (pick isDark ''#94a3b8'' ''#64748b'') ''11'' p]"

definition message_line :: "bool \<Rightarrow> jstr \<Rightarrow> positioned_message \<Rightarrow> svg" where
  "message_line isDark markerId m = El ''line''
     ([(''x1'', svg_num (pm_fromX m)), (''y1'', svg_num (pm_y m)), (''x2'', svg_num (pm_toX m)),
       (''y2'', svg_num (pm_y m)), (''stroke'', SvgStr (pick isDark ''#94a3b8'' ''#64748b'')),
       (''strokeWidth'', svg_str ''1.5'')] @
      when_prop (pm_isDashed m) ''strokeDasharray'' (svg_str ''5 4'') @
      when_prop (pm_isArrow m) ''markerEnd'' (marker_url markerId)) []"

definition message_svg :: "bool \<Rightarrow> jstr \<Rightarrow> positioned_message \<Rightarrow> svg" where
  "message_svg isDark markerId m = El ''g'' [] [message_line isDark markerId m,
     El ''g'' [(''transform'', SvgStr (translate_text ((pm_fromX m + pm_toX m) / 2) (pm_y m - 11)))]
       (label_card isDark ''-9'' ''18'' ''2.5'' (pm_label m))]"

definition note_svg :: "bool \<Rightarrow> positioned_note \<Rightarrow> svg" where
  "note_svg isDark n = El ''g'' [(''transform'', SvgStr (translate_text (pnt_x n) (pnt_y n)))] [
     El ''rect'' [(''x'', svg_str ''0''), (''y'', svg_str ''0''), (''width'', svg_num (pnt_width n)),
       (''height'', svg_num (pnt_height n)), (''rx'', svg_str ''6''),
       (''fill'', SvgStr (pick isDark ''#2e1065'' ''#f3e8ff'')),
       (''stroke'', SvgStr (pick isDark ''#7c3aed'' ''#a855f7'')), (''strokeWidth'', svg_str ''1.25'')] [],
     El ''text'' ([(''x'', svg_num (pnt_width n / 2)), (''y'', svg_num (pnt_height n / 2)),
       (''textAnchor'', svg_str ''middle''), (''dominantBaseline'', svg_str ''central''),
       (''fill'', SvgStr (pick isDark ''#d8b4fe'' ''#6b21a8''))] @ site_font ''11'' ''500'') [Txt (pnt_label n)]]"

definition seq_svg :: "bool \<Rightarrow> jstr \<Rightarrow> seq_layout \<Rightarrow> svg" where
  "seq_svg isDark uniqueId l =
     (let markerId = uniqueId @ js ''-seq-arrow'' in
      svg_frame (Fin (sl_width l)) (Fin (sl_height l))
        (arrow_marker markerId isDark # map (participant_svg isDark (sl_height l)) (sl_participants l) @
         map (message_svg isDark markerId) (sl_messages l) @ map (note_svg isDark) (sl_notes l)))"

definition drawing_svg :: "bool \<Rightarrow> jstr \<Rightarrow> any_layout \<Rightarrow> svg" where
  "drawing_svg isDark rawId l =
     (case l of FlowDrawing fl \<Rightarrow> flow_svg isDark (unique_id rawId) fl
      | SeqDrawing sl \<Rightarrow> seq_svg isDark (unique_id rawId) sl)"

end
