(* ===== verification/DiagramViewFacts.thy ===== *)
theory DiagramViewFacts
  imports DiagramView MermaidLayoutFacts
begin

text \<open>
  The view of a diagram: every source gives a drawing, the zoom stays within its bounds as long
  as no pinch starts with both fingers on one point, and what happens when one does; a drag
  follows the pointer, a pinch that loses a finger jumps.
\<close>

subsection \<open>Every source is drawn\<close>

lemma diagram_layout_ex: "\<exists>l. diagram_layout chart = Returns (Some l)"
proof (cases "parseMermaid chart")
  case (ParsedSeq sq)
  then show ?thesis by (simp add: diagram_layout_def)
next
  case (ParsedFlow g)
  then have "g = empty_graph \<or> (\<exists>ls. g = parseFlowchart ls)"
    by (auto simp: parseMermaid_def Let_def split: if_splits)
  moreover have "\<exists>l. layoutFlowgraph (parseFlowchart ls) = Returns l" for ls
    by (rule layout_cases [OF parse_ok [of ls]]) auto
  moreover have "\<exists>l. layoutFlowgraph empty_graph = Returns l" by (simp add: layoutFlowgraph_def empty_graph_def)
  ultimately obtain l where "layoutFlowgraph g = Returns l" by blast
  then show ?thesis using ParsedFlow by (simp add: diagram_layout_def)
qed

text \<open>C3: Every source text, also an empty or a broken one, yields a layout: the parsing and the layout end, and
  no lookup of the layout throws, so the \<open>catch\<close> that would show the warning is never reached. The
  view shows the source when asked for it and the drawing otherwise.\<close>

theorem diagram_always_drawn:
  "\<exists>l. diagram_layout chart = Returns (Some l) \<and>
     diagram_body chart st =
       Returns (if dv_showRaw st then SourceText chart else Drawing l (dv_pan st) (dv_zoom st))"
  using diagram_layout_ex [of chart] by (auto simp: diagram_body_def shown_layout_def)

subsection \<open>The bounds of the zoom\<close>

fun zoom_ok :: "jsnum \<Rightarrow> bool" where
  "zoom_ok (Fin z) = (2 / 5 \<le> z \<and> z \<le> 5 / 2)"
| "zoom_ok z = False"

text \<open>What is asked of an event: two fingers that touch down are apart, and a distance is not
  negative.\<close>

fun fingers_ok :: "(rat \<Rightarrow> rat \<Rightarrow> rat) \<Rightarrow> view_event \<Rightarrow> bool" where
  "fingers_ok hypot (TouchStart ts) = (length ts = 2 \<longrightarrow> 0 < finger_distance hypot ts)"
| "fingers_ok hypot (TouchMove ts) = (length ts = 2 \<longrightarrow> 0 \<le> finger_distance hypot ts)"
| "fingers_ok hypot e = True"

definition zoom_inv :: "diagram_view \<Rightarrow> bool" where
  "zoom_inv st = (zoom_ok (dv_zoom st) \<and> zoom_ok (dv_initialZoom st) \<and>
     (case dv_touchDistance st of None \<Rightarrow> True | Some d \<Rightarrow> 0 < d))"

lemma zoom_ok_Fin: "zoom_ok x = (\<exists>z. x = Fin z \<and> 2 / 5 \<le> z \<and> z \<le> 5 / 2)"
  by (cases x) auto

lemma clamp_ok: "z \<noteq> NaN \<Longrightarrow> zoom_ok (clamp_zoom z)"
  by (cases z) (auto simp: clamp_zoom_def num_min_def num_max_def)

lemma pinch_ok:
  assumes "zoom_ok z" "0 < d" "0 \<le> finger_distance hypot ts"
  shows "zoom_ok (pinch_zoom hypot ts d z)"
  using assms by (auto simp: pinch_zoom_def zoom_ok_Fin [of z] num_div_def intro!: clamp_ok)

lemma zoom_inv_parts: "zoom_inv st \<Longrightarrow> zoom_ok (dv_zoom st)"
  by (simp add: zoom_inv_def)

lemma zoom_inv_zoom: "zoom_inv st \<Longrightarrow> zoom_ok z \<Longrightarrow> zoom_inv (st\<lparr>dv_zoom := z\<rparr>)"
  by (simp add: zoom_inv_def)

lemma buttons_ok:
  "zoom_inv st \<Longrightarrow> zoom_inv (handleZoomIn st)" "zoom_inv st \<Longrightarrow> zoom_inv (handleZoomOut st)"
  "zoom_inv st \<Longrightarrow> zoom_inv (handleReset st)" "zoom_inv st \<Longrightarrow> zoom_inv (handleDoubleClick st)"
  by (auto simp: handleZoomIn_def handleZoomOut_def handleReset_def handleDoubleClick_def zoom_inv_def
      zoom_ok_Fin [of "dv_zoom st"] min_def max_def)

lemma wheel_ok: "zoom_inv st \<Longrightarrow> zoom_inv (handleNativeWheel ctrl dx dy st)"
  by (auto simp: handleNativeWheel_def zoom_inv_def zoom_ok_Fin [of "dv_zoom st"] intro!: clamp_ok)

lemma touch_start_ok:
  "zoom_inv st \<Longrightarrow> fingers_ok hypot (TouchStart ts) \<Longrightarrow> zoom_inv (handleTouchStart hypot l ts st)"
  by (auto simp: handleTouchStart_def zoom_inv_def Let_def)

lemma touch_move_ok:
  assumes "zoom_inv st" "fingers_ok hypot (TouchMove ts)"
  shows "zoom_inv (handleTouchMove hypot l ts st)"
proof (cases "dv_touchDistance st")
  case None
  then show ?thesis using assms(1) by (simp add: handleTouchMove_def zoom_inv_def)
next
  case (Some d)
  then show ?thesis using assms by (auto simp: handleTouchMove_def zoom_inv_def intro: pinch_ok)
qed

lemma zoom_inv_step:
  assumes "zoom_inv st" "fingers_ok hypot e"
  shows "zoom_inv (view_step hypot l e st)"
  using assms
  by (cases e) (auto simp: with_controls_def buttons_ok wheel_ok touch_move_ok touch_start_ok Let_def
      simp del: fingers_ok.simps,
      auto simp: zoom_inv_def view_copy_def view_copy_timeout_def handlePointerDown_def
      handlePointerMove_def handlePointerUp_def handleTouchEnd_def)

inductive view_moves :: "(rat \<Rightarrow> rat \<Rightarrow> rat) \<Rightarrow> bool \<Rightarrow> diagram_view \<Rightarrow> diagram_view \<Rightarrow> bool" for hypot l where
  view_event: "fingers_ok hypot e \<Longrightarrow> view_moves hypot l st (view_step hypot l e st)"

interpretation view: invariant_system "view_moves hypot l" view_init zoom_inv for hypot l
proof
  show "zoom_inv view_init" by (simp add: zoom_inv_def view_init_def)
  show "zoom_inv t" if "zoom_inv s" "view_moves hypot l s t" for s t
    using that(2,1) by (cases rule: view_moves.cases) (auto intro: zoom_inv_step)
qed

lemma run_reachable:
  "reachable (view_moves hypot l) view_init st \<Longrightarrow> list_all (fingers_ok hypot) es \<Longrightarrow>
   reachable (view_moves hypot l) view_init (fold (view_step hypot l) es st)"
  by (induction es arbitrary: st) (auto intro: reachable.move view_event)

text \<open>C4: Whatever the reader does with buttons, wheel, pointer and fingers, the zoom stays between
  40% and 250%, provided that two fingers that touch down together are apart (and that
  \<open>Math.hypot\<close> is not negative).\<close>

theorem view_zoom_bounds:
  assumes "list_all (fingers_ok hypot) es"
  shows "zoom_ok (dv_zoom (view_run hypot chart es))"
  unfolding view_run_def view_after_def
  by (rule zoom_inv_parts, rule view.inv_reachable, rule run_reachable) (auto intro: reachable.start assms)

theorem view_zoom_bounds_witness:
  "zoom_ok (dv_zoom (view_run (\<lambda>x y. max \<bar>x\<bar> \<bar>y\<bar>) [65]
     [PressZoomIn, TouchStart [(0, 0), (10, 0)], TouchMove [(0, 0), (90, 0)], TouchEnd, Wheel True 0 4]))"
  by (rule view_zoom_bounds) (simp add: finger_distance_def)

subsection \<open>Gestures\<close>

lemma after_simps [simp]:
  "view_after hypot chart [] st = st"
  "view_after hypot chart (e # es) st = view_after hypot chart es (view_step hypot True e st)"
  using diagram_layout_ex [of chart] by (auto simp: view_after_def)

lemma after_append [simp]:
  "view_after hypot chart (es @ fs) st = view_after hypot chart fs (view_after hypot chart es st)"
  by (simp add: view_after_def)

fun resets :: "view_event \<Rightarrow> bool" where
  "resets PressReset = True"
| "resets DoubleClick = True"
| "resets e = False"

definition zoom_lost :: "diagram_view \<Rightarrow> bool" where
  "zoom_lost st = (dv_zoom st = NaN \<and> (dv_touchDistance st = None \<or> dv_initialZoom st = NaN))"

lemma num_NaN [simp]:
  "num_add NaN x = NaN" "num_add x NaN = NaN" "num_mul NaN x = NaN" "num_mul x NaN = NaN"
  "num_sub NaN x = NaN" "num_min NaN x = NaN" "num_min x NaN = NaN" "num_max x NaN = NaN"
  "clamp_zoom NaN = NaN"
  by (cases x; simp add: num_sub_def num_min_def num_max_def clamp_zoom_def)+

lemma zoom_lost_step: "zoom_lost st \<Longrightarrow> \<not> resets e \<Longrightarrow> zoom_lost (view_step hypot l e st)"
  by (cases e) (auto simp: zoom_lost_def with_controls_def handleZoomIn_def handleZoomOut_def
      handleNativeWheel_def handleTouchStart_def handleTouchMove_def handleTouchEnd_def pinch_zoom_def
      view_copy_def view_copy_timeout_def handlePointerDown_def handlePointerMove_def handlePointerUp_def
      Let_def split: option.splits)

lemma zoom_lost_after:
  "zoom_lost st \<Longrightarrow> list_all (\<lambda>e. \<not> resets e) es \<Longrightarrow> zoom_lost (view_after hypot chart es st)"
  by (induction es arbitrary: st) (auto intro: zoom_lost_step)

lemma pinch_on_point:
  assumes "hypot 0 0 = 0" "\<not> dv_showRaw st" "dv_zoom st = Fin z"
  shows "zoom_lost (view_after hypot chart [TouchStart [p, p], TouchMove [q, q], TouchEnd] st)"
  using assms by (simp add: zoom_lost_def handleTouchStart_def handleTouchMove_def handleTouchEnd_def
      pinch_zoom_def finger_distance_def num_div_def)

text \<open>A pinch whose fingers are on one point when it starts and when it is next reported divides
  zero by zero: the zoom is not a number, the toolbar shows \<open>NaN%\<close>, and neither the zoom buttons nor
  the wheel nor another pinch bring it back; only a reset or a double click does.\<close>

theorem pinch_on_one_point_loses_zoom:
  assumes "hypot 0 0 = 0" "\<not> dv_showRaw st" "dv_zoom st = Fin z" "list_all (\<lambda>e. \<not> resets e) es"
  shows "let lost = view_after hypot chart ([TouchStart [p, p], TouchMove [q, q], TouchEnd] @ es) st
    in zoom_label (dv_zoom lost) = js ''NaN%'' \<and>
       dv_zoom (view_after hypot chart [DoubleClick] lost) = Fin 1"
proof -
  define lost where "lost = view_after hypot chart ([TouchStart [p, p], TouchMove [q, q], TouchEnd] @ es) st"
  have "zoom_lost lost"
    unfolding lost_def after_append by (rule zoom_lost_after [OF pinch_on_point [of hypot, OF assms(1-3)] assms(4)])
  then have "dv_zoom lost = NaN" by (simp add: zoom_lost_def)
  then show ?thesis unfolding lost_def [symmetric]
    by (simp add: zoom_label_def handleDoubleClick_def handleReset_def Let_def)
qed

theorem pinch_on_one_point_loses_zoom_witness:
  "let lost = view_after (\<lambda>x y. max \<bar>x\<bar> \<bar>y\<bar>) [65] ([TouchStart [(3, 4), (3, 4)], TouchMove [(3, 5), (3, 5)],
       TouchEnd] @ [PressZoomOut, Wheel True 0 (- 1)]) view_init
   in zoom_label (dv_zoom lost) = js ''NaN%'' \<and>
      dv_zoom (view_after (\<lambda>x y. max \<bar>x\<bar> \<bar>y\<bar>) [65] [DoubleClick] lost) = Fin 1"
  by (rule pinch_on_one_point_loses_zoom [where z = 1]) (simp_all add: view_init_def)

text \<open>Lifting one of two resting fingers moves the drawing by half the distance of the fingers: the
  centre of the fingers jumps to the one that stays, and the start of the gesture is not renewed.\<close>

theorem lifted_finger_jumps:
  assumes "\<not> dv_showRaw st"
  shows "dv_pan (view_after hypot chart [TouchStart [a, b], TouchEnd, TouchMove [a]] st) =
    (fst (dv_pan st) + (fst a - fst b) / 2, snd (dv_pan st) + (snd a - snd b) / 2)"
  using assms by (simp add: handleTouchStart_def handleTouchMove_def handleTouchEnd_def Let_def moved_def
      touch_center_def field_simps)

text \<open>A drag follows the pointer: however many moves are reported, the drawing is displaced by the way
  from the press to the last of them, and it stays there after the release.\<close>

lemma moves_pan:
  "dv_isDragging st \<Longrightarrow> ms \<noteq> [] \<Longrightarrow> view_after hypot chart (map PointerMove ms) st =
    st\<lparr>dv_pan := moved (dv_initialPan st) (last ms) (dv_pointerStart st)\<rparr>"
  by (induction ms arbitrary: st) (auto simp: handlePointerMove_def)

lemma moves_idle: "\<not> dv_isDragging st \<Longrightarrow> view_after hypot chart (map PointerMove ms) st = st"
  by (induction ms) (auto simp: handlePointerMove_def)

theorem drag_follows_pointer:
  assumes "\<not> dv_showRaw st" "ms \<noteq> []"
  shows "dv_pan (view_after hypot chart
      (PointerDown i p # map PointerMove ms @ PointerUp j # map PointerMove ns) st) =
    moved (dv_pan st) (last ms) p"
  using assms by (simp add: handlePointerDown_def handlePointerUp_def moves_pan moves_idle Let_def)

end
