(* ===== verification/DiagramSvgFacts.thy ===== *)
theory DiagramSvgFacts
  imports DiagramSvg DiagramViewFacts
begin

text \<open>
  What the drawings show: labels inside their boxes, circles smaller than the box the layout keeps
  for them, messages with an extent, and arrow heads that exist.
\<close>

subsection \<open>Placed nodes have the estimated size\<close>

lemma spread_member:
  "p \<in> set (spread h sizes m c ns) \<Longrightarrow>
     pn_node p \<in> set ns \<and> (pn_width p, pn_height p) = size_in sizes (pn_node p)"
  by (induction ns arbitrary: c) (auto simp: box_of_def)

lemma rows_member_size:
  "p \<in> set (rows h sizes start m rs) \<Longrightarrow>
     pn_node p \<in> set (concat rs) \<and> (pn_width p, pn_height p) = size_in sizes (pn_node p)"
  by (induction rs arbitrary: m) (auto dest: spread_member)

lemma layout_node_sizes:
  "\<exists>l. layoutFlowgraph (parseFlowchart ls) = Returns l \<and>
     (\<forall>p \<in> set (fl_nodes l). (pn_width p, pn_height p) = estimateNodeSize (pn_node p))"
  using parse_ok [of ls]
proof (cases rule: layout_cases)
  case empty
  then show ?thesis by simp
next
  case (full st D)
  let ?g = "parseFlowchart ls"
  have "(pn_width p, pn_height p) = estimateNodeSize (pn_node p)"
    if "p \<in> set (final_rows ?g (active_ranks ?g st))" for p
  proof -
    have "pn_node p \<in> set (concat (active_ranks ?g st))"
      "(pn_width p, pn_height p) = size_in (graph_sizes ?g) (pn_node p)"
      using rows_member_size that unfolding final_rows_def by blast+
    moreover have "jm_get (g_nodes ?g) (n_id (pn_node p)) = Some (pn_node p)"
      using calculation(1) full(4) unfolding ranks_ok_def by blast
    ultimately show ?thesis using node_sizes_get [OF parse_ok] by simp
  qed
  then show ?thesis using full by simp
qed

subsection \<open>Labels and circles\<close>

abbreviation node_lines :: "positioned_node \<Rightarrow> jstr list" where
  "node_lines p \<equiv> label_lines (n_label (pn_node p))"

text \<open>The height at which line \<open>i\<close> of a label is centred: every \<open>tspan\<close> is moved down by its \<open>dy\<close> from
  the one before.\<close>

definition line_y :: "positioned_node \<Rightarrow> nat \<Rightarrow> rat" where
  "line_y p i = label_top p + sum_list (map line_dy [0..<Suc i])"

lemma line_y_eq: "line_y p i = label_top p + 16 * of_nat i"
proof -
  have "sum_list (map line_dy [0..<Suc i]) = 16 * of_nat i"
    by (induction i) (auto simp: line_dy_def)
  then show ?thesis by (simp add: line_y_def)
qed

lemma estimate_height: "of_nat (length (label_lines (n_label n))) * 20 + 28 \<le> snd (estimateNodeSize n)"
  by (auto simp: estimateNodeSize_def Let_def)

lemma centred_lines:
  fixes k j h :: rat
  assumes "j + 1 \<le> k" "0 \<le> j" "k * 20 + 28 \<le> h" "y = h / 2 - (k - 1) * 8 + 16 * j"
  shows "24 \<le> y \<and> y \<le> h - 24"
  using assms by (simp add: field_simps)

lemma label_inside:
  assumes "snd (estimateNodeSize (pn_node p)) = pn_height p" "i < length (node_lines p)"
  shows "24 \<le> line_y p i \<and> line_y p i \<le> pn_height p - 24"
proof -
  define k :: rat where "k = of_nat (length (node_lines p))"
  have "of_nat (Suc i) \<le> k" unfolding k_def using assms(2) by (intro of_nat_mono) simp
  then have i: "of_nat i + 1 \<le> k" "0 \<le> (of_nat i :: rat)" by simp_all
  moreover have "k * 20 + 28 \<le> pn_height p" using estimate_height [of "pn_node p"] assms(1) by (simp add: k_def)
  moreover have "line_y p i = pn_height p / 2 - (k - 1) * 8 + 16 * of_nat i"
    by (simp add: line_y_eq label_top_def k_def)
  ultimately show ?thesis by (rule centred_lines)
qed

text \<open>C5: In the drawing of every flowchart the lines of a label stay inside the box of their node: each
  line is centred at least 24 below the top and 24 above the bottom of the box, however many lines
  the label has.\<close>

theorem node_labels_inside:
  "case layoutFlowgraph (parseFlowchart ls) of Returns l \<Rightarrow>
     list_all (\<lambda>p. list_all (\<lambda>i. 24 \<le> line_y p i \<and> line_y p i \<le> pn_height p - 24)
       [0..<length (node_lines p)]) (fl_nodes l) | _ \<Rightarrow> False"
  using layout_node_sizes [of ls] label_inside by (force simp: list_all_iff dest: arg_cong [where f = snd])

text \<open>The radius of the circle that is drawn for a node, when one is.\<close>

definition circle_radius :: "bool \<Rightarrow> positioned_node \<Rightarrow> jsnum option" where
  "circle_radius isDark p = (case node_svg isDark p of
     El _ _ (El t props _ # _) \<Rightarrow> if t = ''circle'' then
       (case map_of props ''r'' of Some (SvgNum r) \<Rightarrow> Some r | _ \<Rightarrow> None) else None
   | _ \<Rightarrow> None)"

lemma circle_radius_circle:
  "n_shape (pn_node p) = Circle \<Longrightarrow> circle_radius isDark p = Some (Fin (min (pn_width p) (pn_height p) / 2))"
  by (simp add: circle_radius_def node_svg_def node_shape_svg_def Let_def split: prod.splits)

lemma estimate_circle:
  assumes "n_shape n = Circle" "length (label_lines (n_label n)) = 1"
  shows "snd (estimateNodeSize n) = 48 \<and> 178 \<le> fst (estimateNodeSize n)"
  using assms by (auto simp: estimateNodeSize_def Let_def)

text \<open>A circle does not enclose its label and does not meet its edges. The layout keeps a box at least
  178 wide for a circle with a label of one line, but the circle that is drawn in its middle has the
  radius 24, half of the smaller side: a label wider than 48 sticks out of it, and an edge that
  arrives from the side ends at least 65 before the circle.\<close>

theorem circle_smaller_than_box:
  "case layoutFlowgraph (parseFlowchart ls) of Returns l \<Rightarrow>
     list_all (\<lambda>p. circle_radius isDark p = Some (Fin 24) \<and> 65 \<le> pn_width p / 2 - 24)
       (filter (\<lambda>p. n_shape (pn_node p) = Circle \<and> length (node_lines p) = 1) (fl_nodes l)) | _ \<Rightarrow> False"
proof -
  obtain l where l: "layoutFlowgraph (parseFlowchart ls) = Returns l"
    "\<forall>p \<in> set (fl_nodes l). (pn_width p, pn_height p) = estimateNodeSize (pn_node p)"
    using layout_node_sizes by blast
  have "circle_radius isDark p = Some (Fin 24) \<and> 65 \<le> pn_width p / 2 - 24"
    if "p \<in> set (fl_nodes l)" "n_shape (pn_node p) = Circle" "length (node_lines p) = 1" for p
  proof -
    have "estimateNodeSize (pn_node p) = (pn_width p, pn_height p)" using l(2) that(1) by simp
    then have "pn_height p = 48" "178 \<le> pn_width p" using estimate_circle [OF that(2,3)] by simp_all
    then show ?thesis using that(2) by (simp add: circle_radius_circle)
  qed
  then show ?thesis using l(1) by (simp add: list_all_iff)
qed

subsection \<open>Messages\<close>

lemma column_eq:
  assumes "distinct (map pt_id (sd_participants d))" "a \<in> set (map pt_id (sd_participants d))"
    "b \<in> set (map pt_id (sd_participants d))"
  shows "column d a = column d b \<longleftrightarrow> a = b"
proof -
  have "participant_x i = participant_x j \<longleftrightarrow> i = j" for i j by (simp add: participant_x_def)
  then show ?thesis unfolding column_def using takeWhile_index_inj [OF assms(1)] assms(2,3) by auto
qed

lemma message_extent:
  assumes "distinct (map pt_id (sd_participants d))" "m \<in> set (message_at d k it)"
    "set (item_participants it) \<subseteq> set (map pt_id (sd_participants d))"
  shows "pm_fromX m = pm_toX m \<longleftrightarrow> pm_direction m = DirSelf"
  using assms(2,3) column_eq [OF assms(1)]
  by (cases it) (auto simp: message_at_def item_participants_def)

lemma message_line_ends:
  "map_of (case message_line isDark i m of El _ props _ \<Rightarrow> props) ''x1'' = Some (svg_num (pm_fromX m))"
  "map_of (case message_line isDark i m of El _ props _ \<Rightarrow> props) ''x2'' = Some (svg_num (pm_toX m))"
  by (simp_all add: message_line_def)

text \<open>The line of a message has an extent exactly when it goes from one participant to another. A
  message of a participant to itself is drawn as a line from a point to the same point: nothing but
  its label is seen, the direction the layout found is not used.\<close>

theorem message_line_extent:
  "list_all (\<lambda>m. (map_of (case message_line isDark i m of El _ props _ \<Rightarrow> props) ''x1'' =
       map_of (case message_line isDark i m of El _ props _ \<Rightarrow> props) ''x2'') = (pm_direction m = DirSelf))
     (sl_messages (layoutSequenceDiagram (parseSequenceDiagram ls)))"
proof -
  define d where "d = parseSequenceDiagram ls"
  have ok: "distinct (map pt_id (sd_participants d))"
    "\<forall>it \<in> set (sd_items d). set (item_participants it) \<subseteq> set (map pt_id (sd_participants d))"
    using parse_seq_ok [of ls] by (auto simp: seq_diagram_ok_def list_all_iff simp flip: d_def)
  have "sl_messages (layoutSequenceDiagram d) =
      concat (map (\<lambda>(k, it). message_at d k it) (List.enumerate 0 (sd_items d)))"
    using fold_layout [OF ok, of "\<lparr>c_messages = [], c_notes = [], c_y = 95\<rparr>" 0]
    by (simp add: layoutSequenceDiagram_def Let_def)
  then have "pm_fromX m = pm_toX m \<longleftrightarrow> pm_direction m = DirSelf"
    if "m \<in> set (sl_messages (layoutSequenceDiagram d))" for m
    using that ok message_extent by (fastforce simp: in_set_enumerate_eq)
  then show ?thesis unfolding message_line_ends by (simp add: list_all_iff flip: d_def)
qed

subsection \<open>Arrow heads\<close>

text \<open>The ids a drawing defines and the references it makes.\<close>

fun svg_ids :: "svg \<Rightarrow> jstr list" where
  "svg_ids (Txt s) = []"
| "svg_ids (El t props es) =
     (case map_of props ''id'' of Some (SvgStr s) \<Rightarrow> [s] | _ \<Rightarrow> []) @ concat (map svg_ids es)"

fun svg_refs :: "svg \<Rightarrow> svg_value list" where
  "svg_refs (Txt s) = []"
| "svg_refs (El t props es) =
     (case map_of props ''markerEnd'' of Some v \<Rightarrow> [v] | None \<Rightarrow> []) @ concat (map svg_refs es)"

lemma svg_refs_parts:
  "svg_refs (subgraph_svg isDark s) = []" "svg_refs (node_svg isDark p) = []"
  "svg_refs (participant_svg isDark h q) = []" "svg_refs (note_svg isDark n) = []"
  "svg_refs (arrow_marker i isDark) = []" "svg_ids (arrow_marker i isDark) = [i]"
  by (simp_all add: subgraph_svg_def node_svg_def node_shape_svg_def node_text_svg_def paint_def site_font_def
      participant_svg_def participant_card_def note_svg_def arrow_marker_def Let_def comp_def case_prod_beta
      split: prod.splits)

lemma svg_refs_marked:
  "set (svg_refs (edge_svg isDark i e)) \<subseteq> {marker_url i}"
  "set (svg_refs (message_svg isDark i m)) \<subseteq> {marker_url i}"
  by (auto simp: edge_svg_def message_svg_def message_line_def label_card_def site_font_def when_prop_def Let_def)

text \<open>Every arrow head a drawing refers to is one it defines.\<close>

theorem arrow_heads_defined:
  "set (svg_refs (drawing_svg isDark rawId l)) \<subseteq> marker_url ` set (svg_ids (drawing_svg isDark rawId l))"
proof (cases l)
  case (FlowDrawing fl)
  let ?i = "unique_id rawId @ js ''-arrow''"
  have "set (svg_refs (drawing_svg isDark rawId l)) \<subseteq> {marker_url ?i}"
    unfolding FlowDrawing using svg_refs_marked(1) [of isDark ?i]
    by (auto simp: drawing_svg_def flow_svg_def svg_frame_def svg_refs_parts Let_def simp del: js_Cons)
  moreover have "?i \<in> set (svg_ids (drawing_svg isDark rawId l))"
    unfolding FlowDrawing by (simp add: drawing_svg_def flow_svg_def svg_frame_def svg_refs_parts Let_def)
  ultimately show ?thesis by blast
next
  case (SeqDrawing sl)
  let ?i = "unique_id rawId @ js ''-seq-arrow''"
  have "set (svg_refs (drawing_svg isDark rawId l)) \<subseteq> {marker_url ?i}"
    unfolding SeqDrawing using svg_refs_marked(2) [of isDark ?i]
    by (auto simp: drawing_svg_def seq_svg_def svg_frame_def svg_refs_parts Let_def simp del: js_Cons)
  moreover have "?i \<in> set (svg_ids (drawing_svg isDark rawId l))"
    unfolding SeqDrawing by (simp add: drawing_svg_def seq_svg_def svg_frame_def svg_refs_parts Let_def)
  ultimately show ?thesis by blast
qed

end
