(* ===== verification/CodeBlock.thy ===== *)
theory CodeBlock
  imports JsRegex
begin

text \<open>
  \<open>components/CodeBlock.tsx\<close>: which view a code sample gets, the language it is highlighted as,
  and how the plain tokens of the highlighter are cut into identifiers that are coloured by what
  stands around them. The highlighter (Prism) is a parameter: the lines of tokens it returns.
  A language named like a property every object inherits (\<open>constructor\<close>) is not modelled.
\<close>

subsection \<open>Identifiers\<close>

definition ident_start :: "jchar \<Rightarrow> bool" where
  "ident_start c = (is_upper c \<or> is_lower c \<or> c = 95)"

definition ident_ch :: "jchar \<Rightarrow> bool" where
  "ident_ch c = (is_upper c \<or> is_lower c \<or> is_digit c \<or> c = 95)"

text \<open>\<open>CLASS_REFERENCE_PATTERN\<close>, \<open>IDENTIFIER_PATTERN\<close> and the separator of the split.\<close>

definition class_reference_rx :: rx where
  "class_reference_rx = rseq [RBos, RCap 1 (rseq [RChr is_upper, RStar (RChr ident_ch), RChr is_lower,
     RStar (RChr ident_ch)]), REos]"

definition identifier_rx :: rx where
  "identifier_rx = rseq [RBos, RChr ident_start, RStar (RChr ident_ch), REos]"

definition segment_rx :: rx where
  "segment_rx = RCap 1 (rseq [RChr ident_start, RStar (RChr ident_ch)])"

definition class_fallback_languages :: "jstr list" where
  "class_fallback_languages = [js ''python'', js ''typescript'', js ''javascript'', js ''tsx'', js ''jsx'']"

definition self_identifiers :: "jstr list" where
  "self_identifiers = [js ''self'', js ''cls'', js ''this'', js ''super'']"

definition splitIdentifierSegments :: "jstr \<Rightarrow> jstr list" where
  "splitIdentifierSegments content =
     filter (\<lambda>segment. length segment > 0)
       (map (\<lambda>x. case x of None \<Rightarrow> [] | Some w \<Rightarrow> w) (rx_split segment_rx 1 content))"

subsection \<open>Neighbours\<close>

text \<open>\<open>for (const char of content)\<close> goes by code points: a pair of surrogates is one \<open>char\<close>.\<close>

fun text_points :: "jstr \<Rightarrow> jstr list" where
  "text_points (x # y # s) =
     (if 0xD800 \<le> x \<and> x \<le> 0xDBFF \<and> 0xDC00 \<le> y \<and> y \<le> 0xDFFF then [x, y] # text_points s
      else [x] # text_points (y # s))"
| "text_points [x] = [[x]]"
| "text_points [] = []"

definition getFirstNonWhitespaceChar :: "jstr \<Rightarrow> jstr option" where
  "getFirstNonWhitespaceChar content = find (\<lambda>ch. \<not> rx_test r_ws ch) (text_points content)"

definition getLastNonWhitespaceChar :: "jstr \<Rightarrow> jstr option" where
  "getLastNonWhitespaceChar content = find (\<lambda>ch. \<not> rx_test r_ws ch) (map (\<lambda>x. [x]) (rev content))"

record code_token =
  ct_types :: "jstr list"
  ct_content :: jstr

fun first_found :: "('a \<Rightarrow> 'b option) \<Rightarrow> 'a list \<Rightarrow> 'b option" where
  "first_found f [] = None"
| "first_found f (x # xs) = (case f x of Some y \<Rightarrow> Some y | None \<Rightarrow> first_found f xs)"

definition getNeighborChars ::
  "code_token list \<Rightarrow> nat \<Rightarrow> jstr list \<Rightarrow> nat \<Rightarrow> jstr option \<times> jstr option" where
  "getNeighborChars tokens tokenIndex segments segmentIndex =
     (let prevSegment = concat (take segmentIndex segments);
          nextSegment = concat (drop (segmentIndex + 1) segments);
          prevChar = getLastNonWhitespaceChar prevSegment;
          nextChar = getFirstNonWhitespaceChar nextSegment
      in (case prevChar of
            Some ch \<Rightarrow> Some ch
          | None \<Rightarrow> first_found (\<lambda>t. getLastNonWhitespaceChar (ct_content t)) (rev (take tokenIndex tokens)),
          case nextChar of
            Some ch \<Rightarrow> Some ch
          | None \<Rightarrow> first_found (\<lambda>t. getFirstNonWhitespaceChar (ct_content t)) (drop (tokenIndex + 1) tokens)))"

subsection \<open>Colours\<close>

datatype ident_class = VariableName | SelfName | ClassRef | FunctionCall | MemberName

definition segment_class :: "jstr \<Rightarrow> jstr option \<times> jstr option \<Rightarrow> ident_class" where
  "segment_class segment neighbours =
     (case neighbours of (prevChar, nextChar) \<Rightarrow>
       if segment \<in> set self_identifiers then SelfName
       else if rx_test class_reference_rx segment then ClassRef
       else if nextChar = Some (js ''('') then FunctionCall
       else if prevChar = Some (js ''.'') then MemberName
       else VariableName)"

definition class_color :: "bool \<Rightarrow> ident_class \<Rightarrow> jstr" where
  "class_color isDark c = js (case c of
     VariableName \<Rightarrow> if isDark then ''#93c5fd'' else ''#1d4ed8''
   | SelfName \<Rightarrow> if isDark then ''#f472b6'' else ''#be185d''
   | ClassRef \<Rightarrow> if isDark then ''#fa993f'' else ''#c2410c''
   | FunctionCall \<Rightarrow> if isDark then ''#fde047'' else ''#a16207''
   | MemberName \<Rightarrow> if isDark then ''#67e8f9'' else ''#0e7490'')"

text \<open>A token as it is drawn: in the colour of decorators, as the highlighter styled it, or cut into
  segments, where \<open>None\<close> marks a segment that is no identifier.\<close>

datatype token_view =
    DecoratorSpan jstr
  | TokenSpan code_token
  | SegmentSpan "(jstr \<times> ident_class option) list"

definition segment_spans :: "code_token list \<Rightarrow> nat \<Rightarrow> jstr list \<Rightarrow> (jstr \<times> ident_class option) list" where
  "segment_spans line key segments =
     map (\<lambda>(segmentIndex, segment).
        (segment,
         if \<not> rx_test identifier_rx segment then None
         else Some (segment_class segment (getNeighborChars line key segments segmentIndex))))
       (List.enumerate 0 segments)"

definition token_span :: "bool \<Rightarrow> code_token list \<Rightarrow> nat \<Rightarrow> code_token \<Rightarrow> token_view" where
  "token_span canApplyClassFallback line key token =
     (if js ''decorator'' \<in> set (ct_types token) \<or> js ''annotation'' \<in> set (ct_types token)
      then DecoratorSpan (ct_content token)
      else if \<not> canApplyClassFallback \<or> js ''plain'' \<notin> set (ct_types token) then TokenSpan token
      else (let segments = splitIdentifierSegments (ct_content token) in
        if \<not> list_ex (rx_test identifier_rx) segments then TokenSpan token
        else SegmentSpan (segment_spans line key segments)))"

definition line_spans :: "bool \<Rightarrow> code_token list \<Rightarrow> token_view list" where
  "line_spans canApplyClassFallback line =
     map (\<lambda>(key, token). token_span canApplyClassFallback line key token) (List.enumerate 0 line)"

subsection \<open>Languages\<close>

definition lookup_text :: "(string \<times> string) list \<Rightarrow> jstr \<Rightarrow> jstr option" where
  "lookup_text table k = map_of (map (\<lambda>(a, b). (js a, js b)) table) k"

datatype language_icon = Devicon jstr | BracesIcon | SettingsIcon | FileCodeIcon

definition devicon_map :: "(string \<times> string) list" where
  "devicon_map = [
     (''python'', ''python/python-original.svg''),
     (''py'', ''python/python-original.svg''),
     (''typescript'', ''typescript/typescript-original.svg''),
     (''ts'', ''typescript/typescript-original.svg''),
     (''tsx'', ''typescript/typescript-original.svg''),
     (''javascript'', ''javascript/javascript-original.svg''),
     (''js'', ''javascript/javascript-original.svg''),
     (''jsx'', ''javascript/javascript-original.svg''),
     (''bash'', ''bash/bash-original.svg''),
     (''sh'', ''bash/bash-original.svg''),
     (''zsh'', ''bash/bash-original.svg''),
     (''shell'', ''bash/bash-original.svg''),
     (''terminal'', ''bash/bash-original.svg''),
     (''console'', ''bash/bash-original.svg''),
     (''docker'', ''docker/docker-original.svg''),
     (''dockerfile'', ''docker/docker-original.svg''),
     (''yaml'', ''yaml/yaml-original.svg''),
     (''yml'', ''yaml/yaml-original.svg''),
     (''markdown'', ''markdown/markdown-original.svg''),
     (''md'', ''markdown/markdown-original.svg'')]"

definition getLanguageIcon :: "jstr \<Rightarrow> language_icon" where
  "getLanguageIcon language =
     (let norm = js_trim (to_lower language) in
      case lookup_text devicon_map norm of
        Some deviconSlug \<Rightarrow> Devicon (js ''https://cdn.jsdelivr.net/gh/devicons/devicon@latest/icons/'' @ deviconSlug)
      | None \<Rightarrow>
          if norm \<in> set [js ''json''] then BracesIcon
          else if norm \<in> set [js ''toml'', js ''ini'', js ''conf''] then SettingsIcon
          else FileCodeIcon)"

definition prism_map :: "(string \<times> string) list" where
  "prism_map = [
     (''shell'', ''bash''), (''sh'', ''bash''), (''zsh'', ''bash''), (''terminal'', ''bash''),
     (''console'', ''bash''), (''shell-session'', ''shell-session''), (''shellsession'', ''shell-session''),
     (''shellscript'', ''bash''), (''dockerfile'', ''docker''), (''plaintext'', ''plain''),
     (''text'', ''plain''), (''txt'', ''plain''), (''structure'', ''plain''), (''py'', ''python''),
     (''js'', ''javascript''), (''ts'', ''typescript''), (''yml'', ''yaml''), (''md'', ''markdown''),
     (''conf'', ''ini'')]"

definition prismLanguage :: "jstr \<Rightarrow> jstr" where
  "prismLanguage normalizedLanguage = str_or (lookup_text prism_map normalizedLanguage) normalizedLanguage"

definition canApplyClassFallback :: "jstr \<Rightarrow> bool" where
  "canApplyClassFallback language = (language \<in> set class_fallback_languages)"

subsection \<open>The component\<close>

record code_props =
  cp_code :: "jstr option"
  cp_children :: "jstr option"
  cp_language :: "jstr option"
  cp_filename :: "jstr option"
  cp_title :: "jstr option"
  cp_showLineNumbers :: bool
  cp_highlightLines :: "nat list"

definition codeContent :: "code_props \<Rightarrow> jstr" where
  "codeContent p = js_trim (str_or (cp_code p) (str_or (cp_children p) []))"

definition given_language :: "code_props \<Rightarrow> jstr" where
  "given_language p = (case cp_language p of None \<Rightarrow> js ''python'' | Some l \<Rightarrow> l)"

definition normalizedLanguage :: "code_props \<Rightarrow> jstr" where
  "normalizedLanguage p = to_lower (js_trim (given_language p))"

definition block_heading :: "code_props \<Rightarrow> language_icon \<times> jstr" where
  "block_heading p = (getLanguageIcon (normalizedLanguage p),
     str_or (cp_title p) (str_or (cp_filename p) (given_language p)))"

text \<open>A row of highlighted code: its number when numbers are shown, its mark, its spans.\<close>

datatype code_view =
    MermaidView jstr "jstr option"
  | PrintView "language_icon \<times> jstr" "(nat option \<times> jstr) list"
  | HighlightView "language_icon \<times> jstr" "(nat option \<times> bool \<times> token_view list) list"

definition print_rows :: "bool \<Rightarrow> jstr \<Rightarrow> (nat option \<times> jstr) list" where
  "print_rows showLineNumbers content =
     (if showLineNumbers
      then map (\<lambda>(i, line). (Some (i + 1), if line = [] then js '' '' else line))
        (List.enumerate 0 (split_char 10 content))
      else [(None, content)])"

definition code_rows ::
  "bool \<Rightarrow> nat list \<Rightarrow> bool \<Rightarrow> code_token list list \<Rightarrow> (nat option \<times> bool \<times> token_view list) list" where
  "code_rows showLineNumbers highlightLines fallback tokens =
     map (\<lambda>(i, line). (if showLineNumbers then Some (i + 1) else None, i + 1 \<in> set highlightLines,
          line_spans fallback line))
       (List.enumerate 0 tokens)"

definition code_block_view ::
  "(jstr \<Rightarrow> jstr \<Rightarrow> code_token list list) \<Rightarrow> jstr \<Rightarrow> code_props \<Rightarrow> code_view" where
  "code_block_view highlight pathname p =
     (if normalizedLanguage p = js ''mermaid''
      then MermaidView (codeContent p) (if truthy (cp_title p) then cp_title p else cp_filename p)
      else if js_includes pathname (js ''/print-docs'')
      then PrintView (block_heading p) (print_rows (cp_showLineNumbers p) (codeContent p))
      else (let lang = prismLanguage (normalizedLanguage p) in
        HighlightView (block_heading p)
          (code_rows (cp_showLineNumbers p) (cp_highlightLines p) (canApplyClassFallback lang)
            (highlight lang (codeContent p)))))"

end
