(* ===== verification/CodeBlockFacts.thy ===== *)
theory CodeBlockFacts
  imports CodeBlock
begin

text \<open>
  Cutting and colouring keep the text of a sample, and the colour of an identifier is determined by
  the text of its line alone: the name itself and the nearest characters before and after it that
  are no white space, whatever tokens and segments they are in.
\<close>

subsection \<open>The patterns\<close>

lemma split_Cons: "(\<exists>u v. x # s = u @ v \<and> P u v) \<longleftrightarrow> P [] (x # s) \<or> (\<exists>u v. s = u @ v \<and> P (x # u) v)"
  by (auto simp: Cons_eq_append_conv)

lemma run_star_iff:
  "run (RStar (RChr f)) K (p, s) c \<noteq> None \<longleftrightarrow>
     (\<exists>u v. s = u @ v \<and> (\<forall>x \<in> set u. f x) \<and> K (rev u @ p, v) c \<noteq> None)"
proof (induction s arbitrary: p)
  case (Cons x s)
  have "run (RStar (RChr f)) K (p, x # s) c \<noteq> None \<longleftrightarrow>
      f x \<and> run (RStar (RChr f)) K (x # p, s) c \<noteq> None \<or> K (p, x # s) c \<noteq> None"
    by (simp add: or_else_eq_None del: not_None_eq)
  then show ?case unfolding Cons.IH split_Cons by (simp del: not_None_eq run_star_class) blast
qed simp

lemma run_star_total:
  assumes "\<And>q c. K q c \<noteq> None"
  shows "run (RStar (RChr f)) K (p, s) c = K (rev (takeWhile f s) @ p, dropWhile f s) c"
proof -
  obtain y where "K (rev (takeWhile f s) @ p, dropWhile f s) c = Some y" using assms by blast
  moreover have "dropWhile f s = [] \<or> \<not> f (hd (dropWhile f s))" by (metis hd_dropWhile)
  moreover have "\<forall>x \<in> set (takeWhile f s). f x" by (blast dest: set_takeWhileD)
  ultimately show ?thesis using run_star_first [of "takeWhile f s" f "dropWhile f s" K p c y] by simp
qed

definition is_ident :: "jstr \<Rightarrow> bool" where
  "is_ident w = (w \<noteq> [] \<and> ident_start (hd w) \<and> list_all ident_ch (tl w))"

lemma identifier_test: "rx_test identifier_rx w = is_ident w"
proof -
  have "(run (RStar (RChr ident_ch)) (run (rseq [REos]) (\<lambda>q c. Some (q, c))) (p, s) c \<noteq> None) = list_all ident_ch s"
    for p s c unfolding run_star_iff by (auto simp: list_all_iff)
  then show ?thesis
    by (cases w) (auto simp: rx_test_def identifier_rx_def rx_exec_anchored is_ident_def)
qed

text \<open>A class reference begins with a capital and has a small letter somewhere.\<close>

definition is_class_name :: "jstr \<Rightarrow> bool" where
  "is_class_name w = (w \<noteq> [] \<and> is_upper (hd w) \<and> list_all ident_ch (tl w) \<and> list_ex is_lower (tl w))"

lemma lower_ident: "is_lower x \<Longrightarrow> ident_ch x"
  by (simp add: ident_ch_def)

lemma class_reference_test: "rx_test class_reference_rx w = is_class_name w"
proof -
  let ?c = "RStar (RChr ident_ch)"
  have ex: "(\<exists>u v. s = u @ v \<and> (\<forall>x \<in> set u. ident_ch x) \<and> (\<exists>x t. v = x # t \<and> is_lower x \<and> list_all ident_ch t)) =
     (list_all ident_ch s \<and> list_ex is_lower s)" (is "?l = ?r") for s
  proof
    show ?r if ?l using that by (auto simp: list_all_iff lower_ident)
    show ?l if r: ?r
    proof -
      obtain x where x: "x \<in> set s" "is_lower x" using r by (auto simp: list_ex_iff)
      then obtain u t where "s = u @ x # t" by (meson split_list)
      with x(2) have "s = u @ x # t" "is_lower x" by simp_all
      then show ?thesis using r by (intro exI [of _ u] exI [of _ "x # t"]) (simp add: list_all_iff)
    qed
  qed
  have star: "(run ?c K (p, s) c \<noteq> None) = list_all ident_ch s"
    if "\<And>p s c. (K (p, s) c \<noteq> None) = (s = [])" for K :: "pos \<Rightarrow> caps \<Rightarrow> 'a option" and p s c
    unfolding run_star_iff that by (auto simp: list_all_iff)
  have "(run ?c (run (RChr is_lower) (run ?c K)) (p, s) c \<noteq> None) = (list_all ident_ch s \<and> list_ex is_lower s)"
    if "\<And>p s c. (K (p, s) c \<noteq> None) = (s = [])" for K :: "pos \<Rightarrow> caps \<Rightarrow> 'a option" and p s c
  proof -
    have lower: "(run (RChr is_lower) (run ?c K) (q, v) c \<noteq> None) =
        (\<exists>x t. v = x # t \<and> is_lower x \<and> list_all ident_ch t)" for q v c
    proof (cases v)
      case (Cons x t)
      then show ?thesis using star [of K "x # q" t c] that by simp
    qed simp
    show ?thesis unfolding run_star_iff [of ident_ch _ p s c] lower by (rule ex)
  qed
  note tail = this
  show ?thesis
  proof (cases w)
    case Nil
    then show ?thesis by (simp add: rx_test_def class_reference_rx_def rx_exec_anchored is_class_name_def)
  next
    case (Cons x t)
    let ?K = "\<lambda>(p', s') c'. if s' = [] then
       Some ((p', s'), c'(1 \<mapsto> take (Suc (length t) - length s') (x # t))) else None"
    have "rx_test class_reference_rx w =
        (is_upper x \<and> run ?c (run (RChr is_lower) (run ?c ?K)) ([x], t) (\<lambda>n. None) \<noteq> None)"
      unfolding Cons by (simp add: rx_test_def class_reference_rx_def rx_exec_anchored del: not_None_eq run_star_class One_nat_def)
    also have "\<dots> = (is_upper x \<and> list_all ident_ch t \<and> list_ex is_lower t)"
      by (subst tail) auto
    finally show ?thesis by (simp add: Cons is_class_name_def)
  qed
qed

subsection \<open>Segments\<close>

lemma segment_at:
  "rx_at segment_rx (p, x # s) =
     (if ident_start x
      then Some ((rev (x # takeWhile ident_ch s) @ p, dropWhile ident_ch s),
             (\<lambda>n. None)(1 \<mapsto> x # takeWhile ident_ch s)) else None)"
proof -
  have l: "take (Suc (length s) - length (dropWhile ident_ch s)) (x # s) = x # takeWhile ident_ch s"
  proof -
    have "Suc (length s) - length (dropWhile ident_ch s) = Suc (length (takeWhile ident_ch s))"
      by (metis add_Suc add_diff_cancel_right' length_append takeWhile_dropWhile_id)
    then show ?thesis by (metis append_eq_conv_conj take_Suc_Cons takeWhile_dropWhile_id)
  qed
  show ?thesis by (simp add: rx_at_def segment_rx_def run_star_total l split: prod.splits)
qed

function cut_go :: "jstr \<Rightarrow> jstr \<Rightarrow> jstr list" where
  "cut_go acc [] = [rev acc]"
| "cut_go acc (x # s) =
     (if ident_start x then rev acc # (x # takeWhile ident_ch s) # cut_go [] (dropWhile ident_ch s)
      else cut_go (x # acc) s)"
  by pat_completeness auto
termination
  by (relation "measure (\<lambda>(acc, s). length s)") (auto simp: length_dropWhile_le less_Suc_eq_le)

lemma split_cut: "rx_split_go segment_rx 1 acc p s = map Some (cut_go acc s)"
proof (induction acc s arbitrary: p rule: cut_go.induct)
  case (1 acc)
  show ?case by (subst rx_split_go.simps) simp
next
  case (2 acc x s)
  have "length (dropWhile ident_ch s) < length (x # s)" by (simp add: length_dropWhile_le less_Suc_eq_le)
  then show ?case using 2 by (subst rx_split_go.simps) (simp add: segment_at)
qed

lemma segments_cut: "splitIdentifierSegments s = filter (\<lambda>w. length w > 0) (cut_go [] s)"
proof (cases "s = []")
  case True
  have "rx_at segment_rx ([], []) = None" by (simp add: rx_at_def segment_rx_def)
  then show ?thesis using True by (simp add: splitIdentifierSegments_def rx_split_def)
next
  case False
  then show ?thesis by (simp add: splitIdentifierSegments_def rx_split_def split_cut comp_def del: One_nat_def)
qed

lemma cut_concat: "concat (cut_go acc s) = rev acc @ s"
  by (induction acc s rule: cut_go.induct) auto

lemma segments_concat: "concat (splitIdentifierSegments s) = s"
proof -
  have "concat (filter (\<lambda>w. length w > 0) xs) = concat xs" for xs :: "jstr list" by (induction xs) auto
  then show ?thesis by (simp add: segments_cut cut_concat)
qed

subsection \<open>The nearest characters\<close>

lemma test_ws: "rx_test r_ws w = list_ex is_ws w"
proof -
  have "(rx_search r_ws p w \<noteq> None) = list_ex is_ws w" for p
    by (induction w arbitrary: p) (auto simp: rx_at_def r_ws_def or_else_eq_None)
  then show ?thesis by (simp add: rx_test_def rx_exec_def)
qed

lemma find_map: "find P (map f xs) = map_option f (find (\<lambda>x. P (f x)) xs)"
  by (induction xs) auto

lemma find_append: "find P (xs @ ys) = (case find P xs of Some x \<Rightarrow> Some x | None \<Rightarrow> find P ys)"
  by (induction xs) auto

lemma last_char: "getLastNonWhitespaceChar s = map_option (\<lambda>x. [x]) (find (\<lambda>x. \<not> is_ws x) (rev s))"
  by (simp add: getLastNonWhitespaceChar_def find_map test_ws)

lemma first_char:
  "(getFirstNonWhitespaceChar s = None) = (find (\<lambda>x. \<not> is_ws x) s = None)"
  "(getFirstNonWhitespaceChar s = Some [40]) = (find (\<lambda>x. \<not> is_ws x) s = Some 40)"
proof (induction s rule: text_points.induct)
  case (1 x y s)
  have "\<not> is_ws x" "\<not> is_ws y" "x \<noteq> 40"
    if "0xD800 \<le> x \<and> x \<le> 0xDBFF \<and> 0xDC00 \<le> y \<and> y \<le> 0xDFFF"
    using that by (auto simp: is_ws_def)
  then show "(getFirstNonWhitespaceChar (x # y # s) = None) = (find (\<lambda>x. \<not> is_ws x) (x # y # s) = None)"
    "(getFirstNonWhitespaceChar (x # y # s) = Some [40]) = (find (\<lambda>x. \<not> is_ws x) (x # y # s) = Some 40)"
    using 1 by (auto simp: getFirstNonWhitespaceChar_def test_ws)
qed (auto simp: getFirstNonWhitespaceChar_def test_ws)

lemma first_found_last:
  "first_found (\<lambda>t. getLastNonWhitespaceChar (ct_content t)) (rev ts) =
     map_option (\<lambda>x. [x]) (find (\<lambda>x. \<not> is_ws x) (rev (concat (map ct_content ts))))"
  by (induction ts rule: rev_induct) (auto simp: last_char find_append split: option.splits)

lemma first_found_first:
  "(first_found (\<lambda>t. getFirstNonWhitespaceChar (ct_content t)) ts = Some [40]) =
     (find (\<lambda>x. \<not> is_ws x) (concat (map ct_content ts)) = Some 40)"
proof (induction ts)
  case (Cons t ts)
  then show ?case using first_char [of "ct_content t"]
    by (cases "getFirstNonWhitespaceChar (ct_content t)") (auto simp: find_append split: option.splits)
qed simp

lemma neighbours:
  fixes bs as :: "code_token list" and ws vs :: "jstr list" and t :: code_token and w :: jstr
  defines "ns \<equiv> getNeighborChars (bs @ t # as) (length bs) (ws @ w # vs) (length ws)"
  shows "fst ns = map_option (\<lambda>x. [x]) (find (\<lambda>x. \<not> is_ws x) (rev (concat (map ct_content bs) @ concat ws)))"
    "(snd ns = Some [40]) = (find (\<lambda>x. \<not> is_ws x) (concat vs @ concat (map ct_content as)) = Some 40)"
  unfolding ns_def using first_char [of "concat vs"] last_char [of "concat ws"]
  by (auto simp: getNeighborChars_def Let_def first_found_last first_found_first find_append
      split: option.splits)

subsection \<open>Colours by the text of the line\<close>

definition class_at :: "jstr \<Rightarrow> jstr \<Rightarrow> jstr \<Rightarrow> ident_class" where
  "class_at before w after =
     (if w \<in> set self_identifiers then SelfName
      else if is_class_name w then ClassRef
      else if find (\<lambda>x. \<not> is_ws x) after = Some 40 then FunctionCall
      else if find (\<lambda>x. \<not> is_ws x) (rev before) = Some 46 then MemberName
      else VariableName)"

fun walk_segments :: "jstr \<Rightarrow> jstr list \<Rightarrow> jstr \<Rightarrow> (jstr \<times> ident_class option) list" where
  "walk_segments before [] after = []"
| "walk_segments before (w # ws) after =
     (w, if is_ident w then Some (class_at before w (concat ws @ after)) else None) #
     walk_segments (before @ w) ws after"

fun walk_line :: "bool \<Rightarrow> jstr \<Rightarrow> code_token list \<Rightarrow> token_view list" where
  "walk_line fallback before [] = []"
| "walk_line fallback before (t # ts) =
     (let segs = splitIdentifierSegments (ct_content t) in
      if js ''decorator'' \<in> set (ct_types t) \<or> js ''annotation'' \<in> set (ct_types t)
      then DecoratorSpan (ct_content t)
      else if fallback \<and> js ''plain'' \<in> set (ct_types t) \<and> list_ex is_ident segs
      then SegmentSpan (walk_segments before segs (concat (map ct_content ts)))
      else TokenSpan t) #
     walk_line fallback (before @ ct_content t) ts"

lemma segment_class_at:
  "segment_class w (getNeighborChars (bs @ t # as) (length bs) (ws @ w # vs) (length ws)) =
     class_at (concat (map ct_content bs) @ concat ws) w (concat vs @ concat (map ct_content as))"
proof -
  let ?ns = "getNeighborChars (bs @ t # as) (length bs) (ws @ w # vs) (length ws)"
  have "(fst ?ns = Some [46]) = (find (\<lambda>x. \<not> is_ws x) (rev (concat (map ct_content bs) @ concat ws)) = Some 46)"
    unfolding neighbours by auto
  then show ?thesis using neighbours(2) [of bs t as ws w vs]
    by (simp add: segment_class_def class_at_def class_reference_test case_prod_beta)
qed

lemma enumerate_segments:
  "map (\<lambda>(i, w). (w, if \<not> rx_test identifier_rx w then None
        else Some (segment_class w (getNeighborChars (bs @ t # as) (length bs) (ws @ vs) i))))
     (List.enumerate (length ws) vs) =
   walk_segments (concat (map ct_content bs) @ concat ws) vs (concat (map ct_content as))"
proof (induction vs arbitrary: ws)
  case (Cons w vs)
  show ?case using Cons [of "ws @ [w]", unfolded append_assoc append_Cons append_Nil]
    by (simp add: identifier_test segment_class_at)
qed simp

lemma enumerate_line:
  "map (\<lambda>(key, token). token_span fallback (bs @ ts) key token) (List.enumerate (length bs) ts) =
   walk_line fallback (concat (map ct_content bs)) ts"
proof (induction ts arbitrary: bs)
  case (Cons t ts)
  have "segment_spans (bs @ t # ts) (length bs) segs = walk_segments (concat (map ct_content bs)) segs
     (concat (map ct_content ts))" for segs
    using enumerate_segments [of bs t ts "[]" segs, unfolded append_Nil]
    by (simp add: segment_spans_def)
  then show ?case using Cons [of "bs @ [t]"]
    by (auto simp: token_span_def Let_def identifier_test [abs_def])
qed simp

text \<open>C11: The colours of a line of code are those of a walk over its text. An identifier of a plain
  token is a self name when it is \<open>self\<close>, \<open>cls\<close>, \<open>this\<close> or \<open>super\<close>; a class reference when it begins
  with a capital and has a small letter; a call when the next character of the line that is no white
  space is an opening bracket; a member when the last such character before it is a dot; a variable
  otherwise, wherever the highlighter and the split put the boundaries of tokens and segments.\<close>

theorem line_spans_by_text: "line_spans fallback line = walk_line fallback [] line"
  using enumerate_line [of fallback "[]" line] by (simp add: line_spans_def)

subsection \<open>The text is kept\<close>

fun span_text :: "token_view \<Rightarrow> jstr" where
  "span_text (DecoratorSpan s) = s"
| "span_text (TokenSpan t) = ct_content t"
| "span_text (SegmentSpan ws) = concat (map fst ws)"

lemma walk_segments_text: "map fst (walk_segments before ws after) = ws"
  by (induction ws arbitrary: before) auto

lemma walk_line_text: "map span_text (walk_line fallback before ts) = map ct_content ts"
  by (induction ts arbitrary: before) (auto simp: Let_def walk_segments_text segments_concat)

definition row_text :: "nat option \<times> bool \<times> token_view list \<Rightarrow> jstr" where
  "row_text r = concat (map span_text (snd (snd r)))"

text \<open>Colouring loses and invents nothing: the rows of a highlighted sample spell the tokens the
  highlighter returned for it, line by line, and are numbered from one.\<close>

theorem code_rows_text:
  "map row_text (code_rows showLineNumbers marks fallback tokens) = map (\<lambda>line. concat (map ct_content line)) tokens \<and>
   map fst (code_rows True marks fallback tokens) = map Some [1..<Suc (length tokens)]"
proof -
  have "map (\<lambda>(i, line). f line) (List.enumerate k xs) = map f xs" for f :: "'a \<Rightarrow> 'b" and xs k
    by (induction xs arbitrary: k) auto
  note content = this [of "\<lambda>line. concat (map ct_content line)" 0 tokens]
  have "map (\<lambda>(i, line). Some (Suc i)) (List.enumerate k xs) = map Some [Suc k..<Suc (k + length xs)]"
    for xs :: "code_token list list" and k
    by (induction xs arbitrary: k) (auto simp: upt_conv_Cons simp del: upt_Suc)
  from this [of 0 tokens] content show ?thesis
    using enumerate_line [of fallback "[]"]
    by (simp add: code_rows_def row_text_def line_spans_def walk_line_text comp_def case_prod_unfold del: upt_Suc)
qed

end
