(* ===== verification/TableOfContents.thy ===== *)
theory TableOfContents
  imports Complex_Main Machine JsRegex
begin

text \<open>
  \<open>components/TableOfContents.tsx\<close>: the headings of the page, the active one and the arrow beside it.
  The component stays mounted while the reader goes from page to page. The elements of the document
  are a parameter of the events: what \<open>querySelectorAll\<close> and the observer report. The place of the
  arrow, which is geometry of the browser, is left out; whether it is shown is not.
\<close>

subsection \<open>Headings\<close>

text \<open>An \<open>h1\<close>, \<open>h2\<close> or \<open>h3\<close> element: its id (empty when it has none), its text, its level and where
  its upper edge is.\<close>

record heading_el =
  he_id :: jstr
  he_text :: jstr
  he_level :: nat
  he_top :: rat

record toc_heading =
  th_id :: jstr
  th_text :: jstr
  th_level :: nat

definition slug_ch :: "jchar \<Rightarrow> bool" where
  "slug_ch c = (is_lower c \<or> is_digit c)"

definition heading_slug :: "jstr \<Rightarrow> jstr" where
  "heading_slug s =
     rx_replace_all (RAlt (RSeq RBos (RChr (\<lambda>c. c = 45))) (RSeq (RChr (\<lambda>c. c = 45)) REos)) (\<lambda>m c. [])
       (rx_replace_all (rplus (RChr (\<lambda>c. \<not> slug_ch c))) (\<lambda>m c. [45]) (to_lower (js_trim s)))"

text \<open>The id of an element after the extraction, which gives an id to the elements without one.\<close>

definition given_id :: "heading_el \<Rightarrow> jstr" where
  "given_id el = (if he_id el = [] then heading_slug (he_text el) else he_id el)"

definition extract_headings :: "heading_el list \<Rightarrow> toc_heading list" where
  "extract_headings els =
     take 22 (filter (\<lambda>h. th_level h \<ge> 2 \<and> th_level h \<le> 3)
       (map (\<lambda>el. \<lparr>th_id = given_id el, th_text = js_trim (he_text el), th_level = he_level el\<rparr>)
         (filter (\<lambda>el. js_trim (he_text el) \<noteq> []) els)))"

text \<open>The heading of the table itself, an \<open>h3\<close> that is in the document while the table is shown.\<close>

definition own_heading :: heading_el where
  "own_heading = \<lparr>he_id = [], he_text = js ''On this page'', he_level = 3, he_top = 0\<rparr>"

definition document_headings :: "toc_heading list \<Rightarrow> heading_el list \<Rightarrow> heading_el list \<Rightarrow> heading_el list" where
  "document_headings headings before after =
     before @ (if headings = [] then [] else [own_heading]) @ after"

text \<open>Where a click on a link scrolls to: \<open>getElementById\<close> finds the first element with the id.\<close>

definition scrollTo :: "heading_el list \<Rightarrow> rat \<Rightarrow> rat \<Rightarrow> jstr \<Rightarrow> rat option" where
  "scrollTo els containerTop scrollTop i =
     (if i = [] then None
      else map_option (\<lambda>el. he_top el - containerTop + scrollTop - 80) (find (\<lambda>el. given_id el = i) els))"

subsection \<open>The machine\<close>

datatype scroll_dir = ScrollDown | ScrollUp | ScrollStable

record toc_state =
  tc_headings :: "toc_heading list"
  tc_activeId :: jstr
  tc_scrollDir :: scroll_dir
  tc_lastScrollTop :: rat
  tc_scrollTimer :: bool
  tc_extractTimer :: bool
  tc_visible :: "jstr list"
  tc_arrowVisible :: bool

definition toc_init :: toc_state where
  "toc_init = \<lparr>tc_headings = [], tc_activeId = [], tc_scrollDir = ScrollStable, tc_lastScrollTop = 0,
     tc_scrollTimer = False, tc_extractTimer = True, tc_visible = [], tc_arrowVisible = False\<rparr>"

definition handleScroll :: "rat \<Rightarrow> toc_state \<Rightarrow> toc_state" where
  "handleScroll currentScrollTop st =
     (let diff = currentScrollTop - tc_lastScrollTop st
      in st\<lparr>tc_scrollDir := (if \<bar>diff\<bar> > 2 then (if diff > 0 then ScrollDown else ScrollUp) else tc_scrollDir st),
            tc_lastScrollTop := currentScrollTop, tc_scrollTimer := True\<rparr>)"

definition scroll_timeout :: "toc_state \<Rightarrow> toc_state" where
  "scroll_timeout st =
     (if tc_scrollTimer st then st\<lparr>tc_scrollDir := ScrollStable, tc_scrollTimer := False\<rparr> else st)"

definition toc_navigated :: "toc_state \<Rightarrow> toc_state" where
  "toc_navigated st = st\<lparr>tc_extractTimer := True\<rparr>"

text \<open>New headings run the cleanups of the two effects that depend on them: the pending scroll timer is
  cleared, and the next observer starts with nothing visible.\<close>

definition toc_extract :: "heading_el list \<Rightarrow> heading_el list \<Rightarrow> toc_state \<Rightarrow> toc_state" where
  "toc_extract before after st =
     (if \<not> tc_extractTimer st then st
      else st\<lparr>tc_headings := extract_headings (document_headings (tc_headings st) before after),
              tc_activeId := [], tc_arrowVisible := False, tc_extractTimer := False,
              tc_scrollTimer := False, tc_visible := []\<rparr>)"

text \<open>The layout effect after a change of the active id: the row of a listed id is there.\<close>

definition slide_arrow :: "toc_state \<Rightarrow> toc_state" where
  "slide_arrow st =
     (if tc_activeId st \<noteq> [] \<and> tc_activeId st \<in> set (map th_id (tc_headings st))
      then st\<lparr>tc_arrowVisible := True\<rparr> else st)"

text \<open>The observer watches the elements of the listed ids and reports which of them cross its area.\<close>

definition note_entry :: "jstr \<times> bool \<Rightarrow> jstr list \<Rightarrow> jstr list" where
  "note_entry e vis = (if snd e then List.insert (fst e) vis else remove1 (fst e) vis)"

definition observed :: "toc_state \<Rightarrow> jstr \<times> bool \<Rightarrow> bool" where
  "observed st e = (fst e \<noteq> [] \<and> fst e \<in> set (map th_id (tc_headings st)))"

definition toc_intersect :: "(jstr \<times> bool) list \<Rightarrow> toc_state \<Rightarrow> toc_state" where
  "toc_intersect entries st =
     (let visible = fold note_entry (filter (observed st) entries) (tc_visible st);
          st' = st\<lparr>tc_visible := visible\<rparr>
      in case find (\<lambda>h. th_id h \<in> set visible) (tc_headings st) of
           Some h \<Rightarrow> slide_arrow (st'\<lparr>tc_activeId := th_id h\<rparr>)
         | None \<Rightarrow> st')"

datatype toc_event =
    TocNavigate | TocExtract "heading_el list" "heading_el list"
  | TocScroll rat | TocScrollTimeout | TocIntersect "(jstr \<times> bool) list"

fun toc_step :: "toc_event \<Rightarrow> toc_state \<Rightarrow> toc_state" where
  "toc_step TocNavigate st = toc_navigated st"
| "toc_step (TocExtract before after) st = toc_extract before after st"
| "toc_step (TocScroll y) st = handleScroll y st"
| "toc_step TocScrollTimeout st = scroll_timeout st"
| "toc_step (TocIntersect entries) st = toc_intersect entries st"

definition toc_run :: "toc_event list \<Rightarrow> toc_state" where
  "toc_run es = fold toc_step es toc_init"

subsection \<open>What is shown\<close>

definition arrow_rotation :: "scroll_dir \<Rightarrow> int" where
  "arrow_rotation d = (case d of ScrollDown \<Rightarrow> 90 | ScrollUp \<Rightarrow> - 90 | ScrollStable \<Rightarrow> 0)"

text \<open>The rows: reference, text, whether indented, whether active; no table without headings.\<close>

definition toc_rows :: "toc_state \<Rightarrow> (jstr \<times> jstr \<times> bool \<times> bool) list option" where
  "toc_rows st =
     (if tc_headings st = [] then None
      else Some (map (\<lambda>h. (js ''#'' @ th_id h, th_text h, th_level h = 3, tc_activeId st = th_id h)) (tc_headings st)))"

end
