(* ===== verification/TableOfContentsFacts.thy ===== *)
theory TableOfContentsFacts
  imports TableOfContents
begin

text \<open>
  The table of contents: an invariant of everything that can happen to it, which heading is active,
  and two ways in which it goes wrong: it lists itself, and its arrow stays turned.
\<close>

subsection \<open>The invariant\<close>

definition toc_inv :: "toc_state \<Rightarrow> bool" where
  "toc_inv st =
     (length (tc_headings st) \<le> 22 \<and>
      list_all (\<lambda>h. th_level h \<in> {2, 3} \<and> th_text h \<noteq> []) (tc_headings st) \<and>
      (tc_activeId st = [] \<or> tc_activeId st \<in> set (map th_id (tc_headings st))) \<and>
      (tc_arrowVisible st = (tc_activeId st \<noteq> [])) \<and>
      distinct (tc_visible st) \<and> [] \<notin> set (tc_visible st) \<and>
      set (tc_visible st) \<subseteq> set (map th_id (tc_headings st)))"

lemma extract_listed:
  "length (extract_headings els) \<le> 22"
  "list_all (\<lambda>h. th_level h \<in> {2, 3} \<and> th_text h \<noteq> []) (extract_headings els)"
  by (auto simp: extract_headings_def list_all_iff dest!: in_set_takeD)

lemma note_entries:
  assumes "distinct vis"
  shows "distinct (fold note_entry es vis) \<and> set (fold note_entry es vis) \<subseteq> set vis \<union> fst ` set es"
  using assms
proof (induction es arbitrary: vis)
  case (Cons e es)
  have "distinct (note_entry e vis)" "set (note_entry e vis) \<subseteq> insert (fst e) (set vis)"
    using Cons.prems by (auto simp: note_entry_def)
  then show ?case using Cons.IH [of "note_entry e vis"] by auto
qed simp

lemma inv_intersect:
  assumes "toc_inv st"
  shows "toc_inv (toc_intersect es st)"
proof -
  let ?vis = "fold note_entry (filter (observed st) es) (tc_visible st)"
  have "fst ` set (filter (observed st) es) \<subseteq> set (map th_id (tc_headings st)) - {[]}"
    by (auto simp: observed_def)
  moreover have "set (tc_visible st) \<subseteq> set (map th_id (tc_headings st)) - {[]}" "distinct (tc_visible st)"
    using assms unfolding toc_inv_def by blast+
  ultimately have sub: "set ?vis \<subseteq> set (map th_id (tc_headings st)) - {[]}" "distinct ?vis"
    using note_entries [of "tc_visible st" "filter (observed st) es"] by blast+
  then have v: "distinct ?vis" "[] \<notin> set ?vis" "set ?vis \<subseteq> set (map th_id (tc_headings st))"
    by blast+
  show ?thesis
  proof (cases "find (\<lambda>h. th_id h \<in> set ?vis) (tc_headings st)")
    case None
    then show ?thesis using assms v by (simp add: toc_intersect_def Let_def toc_inv_def)
  next
    case (Some h)
    then have "h \<in> set (tc_headings st)" "th_id h \<in> set ?vis" by (auto simp: find_Some_iff)
    then have "th_id h \<noteq> []" "th_id h \<in> set (map th_id (tc_headings st))" using v(2) by auto
    then show ?thesis using assms v Some
      by (simp add: toc_intersect_def Let_def toc_inv_def slide_arrow_def)
  qed
qed

lemma inv_toc_step: "toc_inv st \<Longrightarrow> toc_inv (toc_step e st)"
  using extract_listed inv_intersect
  by (cases e) (auto simp: toc_navigated_def toc_extract_def handleScroll_def scroll_timeout_def Let_def
      toc_inv_def)

inductive toc_moves :: "toc_state \<Rightarrow> toc_state \<Rightarrow> bool" where
  toc_event: "toc_moves st (toc_step e st)"

interpretation toc: invariant_system toc_moves toc_init toc_inv
proof
  show "toc_inv toc_init" by (simp add: toc_inv_def toc_init_def)
  show "toc_inv t" if "toc_inv s" "toc_moves s t" for s t
    using that(2,1) by (cases rule: toc_moves.cases) (auto intro: inv_toc_step)
qed

lemma toc_run_reachable: "reachable toc_moves toc_init st \<Longrightarrow> reachable toc_moves toc_init (fold toc_step es st)"
  by (induction es arbitrary: st) (auto intro: reachable.move toc_event)

text \<open>Whatever the reader and the page do, at most 22 headings are listed, all of the second or third
  level and none without text; at most one of their ids is active, and the arrow is shown exactly when
  one is.\<close>

theorem toc_invariant: "toc_inv (toc_run es)"
  unfolding toc_run_def by (rule toc.inv_reachable, rule toc_run_reachable, rule reachable.start)

subsection \<open>The active heading\<close>

text \<open>The last report about an id.\<close>

definition last_report :: "(jstr \<times> bool) list \<Rightarrow> jstr \<Rightarrow> bool" where
  "last_report es i = (i \<noteq> [] \<and> (case find (\<lambda>e. fst e = i) (rev es) of Some e \<Rightarrow> snd e | None \<Rightarrow> False))"

lemma note_entry_mem:
  "distinct vis \<Longrightarrow> i \<in> set (note_entry e vis) \<longleftrightarrow> (if fst e = i then snd e else i \<in> set vis)"
  by (auto simp: note_entry_def)

lemma noted_last:
  assumes "distinct vis"
  shows "i \<in> set (fold note_entry es vis) \<longleftrightarrow>
    (case find (\<lambda>e. fst e = i) (rev es) of Some e \<Rightarrow> snd e | None \<Rightarrow> i \<in> set vis)"
proof (induction es rule: rev_induct)
  case (snoc e es)
  then show ?case using note_entries [OF assms, of es] by (simp add: note_entry_mem)
qed simp

lemma find_filter_observed:
  "observed st (i, b) \<Longrightarrow> find (\<lambda>e. fst e = i) (filter (observed st) es) = find (\<lambda>e. fst e = i) es"
  by (induction es) (auto simp: observed_def)

lemma find_same: "(\<And>x. x \<in> set xs \<Longrightarrow> P x = Q x) \<Longrightarrow> find P xs = find Q xs"
  by (induction xs) auto

text \<open>The callbacks of the observer among the events, and the events that read no headings.\<close>

fun callbacks :: "toc_event list \<Rightarrow> (jstr \<times> bool) list list" where
  "callbacks [] = []"
| "callbacks (e # evs) = (case e of TocIntersect es \<Rightarrow> es # callbacks evs | _ \<Rightarrow> callbacks evs)"

fun reads_headings :: "toc_event \<Rightarrow> bool" where
  "reads_headings (TocExtract before after) = True"
| "reads_headings _ = False"

lemma callbacks_append [simp]: "callbacks (evs @ evs') = callbacks evs @ callbacks evs'"
  by (induction evs) (auto split: toc_event.split)

lemma observed_cong: "tc_headings s = tc_headings t \<Longrightarrow> observed s = observed t"
  by (auto simp: observed_def fun_eq_iff)

lemma intersect_parts [simp]:
  "tc_headings (toc_intersect es st) = tc_headings st"
  "tc_visible (toc_intersect es st) = fold note_entry (filter (observed st) es) (tc_visible st)"
  by (auto simp: toc_intersect_def slide_arrow_def Let_def split: option.split)

text \<open>What the observer has noted since the headings were read.\<close>

lemma noted_since:
  assumes "list_all (\<lambda>e. \<not> reads_headings e) evs"
  shows "tc_headings (fold toc_step evs st) = tc_headings st \<and>
    tc_visible (fold toc_step evs st) =
      fold note_entry (filter (observed st) (concat (callbacks evs))) (tc_visible st) \<and>
    (callbacks evs = [] \<longrightarrow> tc_activeId (fold toc_step evs st) = tc_activeId st)"
  using assms
proof (induction evs rule: rev_induct)
  case (snoc e evs)
  then show ?case
    using observed_cong [of "fold toc_step evs st" st]
    by (cases e) (auto simp: toc_navigated_def handleScroll_def scroll_timeout_def Let_def)
qed simp

lemma visible_iff:
  assumes "tc_visible st' = []" "h \<in> set (tc_headings st')"
  shows "th_id h \<in> set (fold note_entry (filter (observed st') es) (tc_visible st')) \<longleftrightarrow> last_report es (th_id h)"
proof (cases "th_id h = []")
  case True
  have "[] \<notin> fst ` set (filter (observed st') es)" by (auto simp: observed_def)
  then show ?thesis using True note_entries [of "[]" "filter (observed st') es"] assms(1)
    by (auto simp: last_report_def)
next
  case False
  then have "observed st' (th_id h, True)" using assms(2) by (simp add: observed_def)
  then show ?thesis using noted_last [of "[]" "th_id h" "filter (observed st') es"] assms(1) False
      find_filter_observed [of st' "th_id h" True "rev es"]
    by (simp add: last_report_def rev_filter [symmetric] split: option.splits)
qed

text \<open>C12: The active heading, after the headings of a page were read and until they are read again, whatever
  scrolling, timers and callbacks of the observer come between. No heading is active before the first
  callback. After a callback the active heading is the first one, in the order of the page, whose
  last report, in this callback or an earlier one, says that it is in view; reports of other elements do
  not matter. When no heading is in view, the heading that was active before the callback stays active.\<close>

theorem active_is_first_in_view:
  assumes "tc_extractTimer st" "list_all (\<lambda>e. \<not> reads_headings e) evs"
  shows "let st' = toc_step (TocExtract before after) st; s = fold toc_step evs st'
    in (callbacks evs = [] \<longrightarrow> tc_activeId s = []) \<and>
       tc_activeId (toc_step (TocIntersect es) s) =
         (case find (\<lambda>h. last_report (concat (callbacks evs) @ es) (th_id h)) (tc_headings st') of
            Some h \<Rightarrow> th_id h
          | None \<Rightarrow> tc_activeId s)"
proof -
  define st' where "st' = toc_step (TocExtract before after) st"
  define s where "s = fold toc_step evs st'"
  have st': "tc_visible st' = []" "tc_activeId st' = []"
    using assms(1) by (simp_all add: st'_def toc_extract_def)
  note n = noted_since [OF assms(2), of st', folded s_def]
  let ?vis = "fold note_entry (filter (observed s) es) (tc_visible s)"
  have vis: "?vis = fold note_entry (filter (observed st') (concat (callbacks evs) @ es)) (tc_visible st')"
    using n observed_cong [of s st'] by simp
  have "find (\<lambda>h. th_id h \<in> set ?vis) (tc_headings st') =
      find (\<lambda>h. last_report (concat (callbacks evs) @ es) (th_id h)) (tc_headings st')"
    unfolding vis by (rule find_same) (rule visible_iff [OF st'(1)])
  then have "tc_activeId (toc_step (TocIntersect es) s) =
      (case find (\<lambda>h. last_report (concat (callbacks evs) @ es) (th_id h)) (tc_headings st') of
         Some h \<Rightarrow> th_id h | None \<Rightarrow> tc_activeId s)"
    using n by (simp add: toc_intersect_def Let_def slide_arrow_def split: option.splits)
  moreover have "callbacks evs = [] \<longrightarrow> tc_activeId s = []" using n st'(2) by simp
  ultimately show ?thesis unfolding Let_def st'_def [symmetric] s_def [symmetric] by blast
qed

theorem active_is_first_in_view_witness:
  "let st' = toc_step (TocExtract [\<lparr>he_id = [97], he_text = [65], he_level = 2, he_top = 0\<rparr>] []) toc_init;
       s = fold toc_step [TocScroll 9, TocIntersect [([97], True)], TocScrollTimeout] st'
   in (callbacks [TocScroll 9, TocIntersect [([97], True)], TocScrollTimeout] = [] \<longrightarrow> tc_activeId s = []) \<and>
      tc_activeId (toc_step (TocIntersect [([97], False)]) s) =
        (case find (\<lambda>h. last_report (concat (callbacks [TocScroll 9, TocIntersect [([97], True)], TocScrollTimeout]) @
             [([97], False)]) (th_id h)) (tc_headings st') of
           Some h \<Rightarrow> th_id h
         | None \<Rightarrow> tc_activeId s)"
  by (rule active_is_first_in_view) (simp_all add: toc_init_def)

text \<open>So the last heading left stays marked: nothing takes the mark away when no heading is in view.\<close>

lemma mark_stays:
  "let s = fold toc_step [TocExtract [\<lparr>he_id = [97], he_text = [65], he_level = 2, he_top = 0\<rparr>] [],
       TocIntersect [([97], True)], TocIntersect [([97], False)]] toc_init
   in tc_visible s = [] \<and> tc_activeId s = [97]"
  by code_simp

subsection \<open>Defects\<close>

lemma own_listed: "extract_headings [own_heading] =
    [\<lparr>th_id = js ''on-this-page'', th_text = js ''On this page'', th_level = 3\<rparr>]"
  by code_simp

lemma extract_append: "length (extract_headings xs) < 22 \<Longrightarrow>
    extract_headings (xs @ ys) = extract_headings xs @ take (22 - length (extract_headings xs)) (extract_headings ys)"
  by (auto simp: extract_headings_def min_def)

text \<open>The table lists itself. Its own heading, On this page, is an \<open>h3\<close> of the document as soon as a page
  with headings has been shown, and on every later page it is read like a heading of the page: it
  comes after the headings that stand before the table, unless these fill the table.\<close>

theorem own_heading_listed:
  assumes "tc_headings st \<noteq> []" "length (extract_headings before) < 22"
  shows "let later = fold toc_step [TocNavigate, TocExtract before after] st in
    tc_headings later ! length (extract_headings before) =
      \<lparr>th_id = js ''on-this-page'', th_text = js ''On this page'', th_level = 3\<rparr> \<and>
    length (extract_headings before) < length (tc_headings later)"
proof -
  have "tc_headings (fold toc_step [TocNavigate, TocExtract before after] st) =
      extract_headings (before @ [own_heading] @ after)"
    using assms(1) by (simp add: toc_navigated_def toc_extract_def document_headings_def)
  moreover have "extract_headings ([own_heading] @ after) = extract_headings [own_heading] @ take 21 (extract_headings after)"
    by (subst extract_append) (simp_all add: own_listed)
  ultimately show ?thesis
    using extract_append [OF assms(2), of "[own_heading] @ after"] assms(2)
    by (simp add: own_listed nth_append Let_def take_Cons')
qed

theorem own_heading_listed_witness:
  "let later = fold toc_step [TocNavigate, TocExtract [\<lparr>he_id = [98], he_text = [66], he_level = 2, he_top = 0\<rparr>] []]
       (toc_step (TocExtract [\<lparr>he_id = [97], he_text = [65], he_level = 2, he_top = 0\<rparr>] []) toc_init) in
    tc_headings later ! length (extract_headings [\<lparr>he_id = [98], he_text = [66], he_level = 2, he_top = 0\<rparr>]) =
      \<lparr>th_id = js ''on-this-page'', th_text = js ''On this page'', th_level = 3\<rparr> \<and>
    length (extract_headings [\<lparr>he_id = [98], he_text = [66], he_level = 2, he_top = 0\<rparr>]) < length (tc_headings later)"
  by (rule own_heading_listed) code_simp+

fun is_scroll :: "toc_event \<Rightarrow> bool" where
  "is_scroll (TocScroll y) = True"
| "is_scroll e = False"

lemma still_turned:
  "list_all (\<lambda>e. \<not> is_scroll e) es \<Longrightarrow> \<not> tc_scrollTimer st \<Longrightarrow>
     tc_scrollDir (fold toc_step es st) = tc_scrollDir st"
proof (induction es arbitrary: st)
  case (Cons e es)
  have "tc_scrollDir (toc_step e st) = tc_scrollDir st \<and> \<not> tc_scrollTimer (toc_step e st)"
    using Cons.prems by (cases e) (auto simp: toc_navigated_def toc_extract_def scroll_timeout_def
        toc_intersect_def slide_arrow_def Let_def split: option.splits)
  then show ?case using Cons by auto
qed simp

text \<open>The arrow turns back when scrolling has stopped, unless the headings are read in between: this
  clears the timer that would turn it back, and the arrow points down until the reader scrolls
  again.\<close>

theorem arrow_stays_turned:
  assumes "tc_extractTimer st" "tc_lastScrollTop st + 2 < y" "list_all (\<lambda>e. \<not> is_scroll e) es"
  shows "arrow_rotation (tc_scrollDir (fold toc_step ([TocScroll y, TocExtract before after] @ es) st)) = 90 \<and>
    arrow_rotation (tc_scrollDir (fold toc_step [TocScroll y, TocScrollTimeout] st)) = 0"
  using assms still_turned [OF assms(3), of "toc_extract before after (handleScroll y st)"]
  by (simp add: toc_extract_def handleScroll_def scroll_timeout_def arrow_rotation_def Let_def)

theorem arrow_stays_turned_witness:
  "arrow_rotation (tc_scrollDir (fold toc_step ([TocScroll 40, TocExtract [] []] @ [TocScrollTimeout, TocNavigate]) toc_init)) = 90 \<and>
   arrow_rotation (tc_scrollDir (fold toc_step [TocScroll 40, TocScrollTimeout] toc_init)) = 0"
  by (rule arrow_stays_turned) (simp_all add: toc_init_def)

end
