(* ===== verification/EntitiesSubsystems.thy ===== *)
theory EntitiesSubsystems
  imports DocRegistry
begin

text \<open>
  The entities of the hover panels about the framework and its subsystems: one definition per
  object literal of \<open>data/docEntities/aquiliaEntities.ts\<close>, \<open>data/docEntities/subsystemEntities.ts\<close>, and per file the list that is registered.
\<close>

subsection \<open>\<open>aquiliaEntities.ts\<close>\<close>

definition ent_middleware_MiddlewareStack :: doc_entity where
  "ent_middleware_MiddlewareStack = \<lparr>de_id = (js ''middleware.MiddlewareStack''), de_type = EClass, de_title = (js ''MiddlewareStack''),
   de_description = (js ''Manages the middleware stack. Automatically sorts registered middlewares by scope (global, app, controller, route) and priority, and builds the nested ASGI handler chain.''),
   de_signature = Some (js ''class MiddlewareStack:'' @ [10] @ js ''    def __init__(self)'' @ [10] @ js ''    def add(self, middleware: Any, scope: str = '' @ [34] @ js ''global'' @ [34] @ js '', priority: int = 50, name: str | None = None) -> None'' @ [10] @ js ''    def build_handler(self, final_handler: Handler) -> Handler'' @ [10] @ js ''    def build_fast_handler(self, final_handler: Handler) -> Handler''), de_language = Some (js ''python''),
   de_parameters = None,
   de_returns = None, de_example = None,
   de_related = None,
   de_status = Some Stable, de_version = Some (js ''v1.0+''), de_deprecated = None, de_notes = None,
   de_docsHref = Some (js ''/docs/middleware/stack''), de_source = Some \<lparr>src_file = (js ''aquilia/middleware.py''), src_line = Some 87, src_href = None\<rparr>\<rparr>"

definition ent_middleware_RequestIdMiddleware :: doc_entity where
  "ent_middleware_RequestIdMiddleware = \<lparr>de_id = (js ''middleware.RequestIdMiddleware''), de_type = EClass, de_title = (js ''RequestIdMiddleware''),
   de_description = (js ''Assigns a unique request ID to each request. If the client sends an X-Request-ID header, that value is propagated; otherwise a secure random 16-byte hex string is generated.''),
   de_signature = Some (js ''class RequestIdMiddleware(Middleware):'' @ [10] @ js ''    def __init__(self, header_name: str = '' @ [34] @ js ''X-Request-ID'' @ [34] @ js '')''), de_language = Some (js ''python''),
   de_parameters = None,
   de_returns = None, de_example = None,
   de_related = None,
   de_status = Some Stable, de_version = None, de_deprecated = None, de_notes = None,
   de_docsHref = Some (js ''/docs/middleware/built-in''), de_source = Some \<lparr>src_file = (js ''aquilia/middleware.py''), src_line = Some 287, src_href = None\<rparr>\<rparr>"

definition ent_middleware_ExceptionMiddleware :: doc_entity where
  "ent_middleware_ExceptionMiddleware = \<lparr>de_id = (js ''middleware.ExceptionMiddleware''), de_type = EClass, de_title = (js ''ExceptionMiddleware''),
   de_description = (js ''Catches exceptions, logs them with appropriate severity, and converts them to error responses. Supports beautiful React-style debug pages in debug mode for HTML requests.''),
   de_signature = Some (js ''class ExceptionMiddleware(Middleware):'' @ [10] @ js ''    def __init__(self, debug: bool = False)''), de_language = Some (js ''python''),
   de_parameters = None,
   de_returns = None, de_example = None,
   de_related = None,
   de_status = Some Stable, de_version = None, de_deprecated = None, de_notes = None,
   de_docsHref = Some (js ''/docs/middleware/built-in''), de_source = Some \<lparr>src_file = (js ''aquilia/middleware.py''), src_line = Some 321, src_href = None\<rparr>\<rparr>"

definition ent_middleware_TimeoutMiddleware :: doc_entity where
  "ent_middleware_TimeoutMiddleware = \<lparr>de_id = (js ''middleware.TimeoutMiddleware''), de_type = EClass, de_title = (js ''TimeoutMiddleware''),
   de_description = (js ''Enforces a maximum execution time limit for requests. Raises a RequestTimeoutFault on timeout, which flows through ExceptionMiddleware to respond with 504 gateway timeout.''),
   de_signature = Some (js ''class TimeoutMiddleware(Middleware):'' @ [10] @ js ''    def __init__(self, timeout_seconds: float = 30.0)''), de_language = Some (js ''python''),
   de_parameters = None,
   de_returns = None, de_example = None,
   de_related = None,
   de_status = Some Stable, de_version = None, de_deprecated = None, de_notes = None,
   de_docsHref = Some (js ''/docs/middleware/built-in''), de_source = Some \<lparr>src_file = (js ''aquilia/middleware.py''), src_line = Some 593, src_href = None\<rparr>\<rparr>"

definition ent_middleware_CompressionMiddleware :: doc_entity where
  "ent_middleware_CompressionMiddleware = \<lparr>de_id = (js ''middleware.CompressionMiddleware''), de_type = EClass, de_title = (js ''CompressionMiddleware''),
   de_description = (js ''Compresses response bodies using gzip when accepted by the client. Offloads compression to a background thread pool to prevent blocking the event loop.''),
   de_signature = Some (js ''class CompressionMiddleware(Middleware):'' @ [10] @ js ''    def __init__(self, minimum_size: int = 500)''), de_language = Some (js ''python''),
   de_parameters = None,
   de_returns = None, de_example = None,
   de_related = None,
   de_status = Some Stable, de_version = None, de_deprecated = None, de_notes = None,
   de_docsHref = Some (js ''/docs/middleware/built-in''), de_source = Some \<lparr>src_file = (js ''aquilia/middleware.py''), src_line = Some 617, src_href = None\<rparr>\<rparr>"

definition ent_middleware_CORSMiddleware :: doc_entity where
  "ent_middleware_CORSMiddleware = \<lparr>de_id = (js ''middleware.CORSMiddleware''), de_type = EClass, de_title = (js ''CORSMiddleware''),
   de_description = (js ''CORS middleware supporting credentials, preflight caching, regex and glob origin patterns, and custom exposed headers.''),
   de_signature = Some (js ''class CORSMiddleware(Middleware):'' @ [10] @ js ''    def __init__(self, allow_origins: list[str] = None, allow_methods: list[str] = None, allow_headers: list[str] = None, expose_headers: list[str] = None, allow_credentials: bool = False, max_age: int = 600)''), de_language = Some (js ''python''),
   de_parameters = None,
   de_returns = None, de_example = None,
   de_related = None,
   de_status = Some Stable, de_version = None, de_deprecated = None, de_notes = None,
   de_docsHref = Some (js ''/docs/middleware/cors''), de_source = Some \<lparr>src_file = (js ''aquilia/middleware_ext/security.py''), src_line = None, src_href = None\<rparr>\<rparr>"

definition ent_middleware_RateLimitMiddleware :: doc_entity where
  "ent_middleware_RateLimitMiddleware = \<lparr>de_id = (js ''middleware.RateLimitMiddleware''), de_type = EClass, de_title = (js ''RateLimitMiddleware''),
   de_description = (js ''Token bucket and sliding window rate limiting. Evaluates multiple rule sets per request, extracts limit keys (IP/API key/user), and appends retry headers.''),
   de_signature = Some (js ''class RateLimitMiddleware(Middleware):'' @ [10] @ js ''    def __init__(self, rules: list[RateLimitRule], storage: str = '' @ [34] @ js ''memory'' @ [34] @ js '')''), de_language = Some (js ''python''),
   de_parameters = None,
   de_returns = None, de_example = None,
   de_related = None,
   de_status = Some Stable, de_version = None, de_deprecated = None, de_notes = None,
   de_docsHref = Some (js ''/docs/middleware/rate-limit''), de_source = Some \<lparr>src_file = (js ''aquilia/middleware_ext/rate_limit.py''), src_line = None, src_href = None\<rparr>\<rparr>"

definition ent_middleware_StaticMiddleware :: doc_entity where
  "ent_middleware_StaticMiddleware = \<lparr>de_id = (js ''middleware.StaticMiddleware''), de_type = EClass, de_title = (js ''StaticMiddleware''),
   de_description = (js ''Production-grade static file serving. Uses a radix trie for prefix routing, generates ETags, detects pre-compressed assets, and supports HTML5 history mode fallbacks.''),
   de_signature = Some (js ''class StaticMiddleware(Middleware):'' @ [10] @ js ''    def __init__(self, directories: dict[str, str] = None, cache_max_age: int = 86400, html5_history: bool = False, ...)''), de_language = Some (js ''python''),
   de_parameters = None,
   de_returns = None, de_example = None,
   de_related = None,
   de_status = Some Stable, de_version = None, de_deprecated = None, de_notes = None,
   de_docsHref = Some (js ''/docs/middleware/static''), de_source = Some \<lparr>src_file = (js ''aquilia/middleware_ext/static.py''), src_line = None, src_href = None\<rparr>\<rparr>"

definition ent_middleware_SessionMiddleware :: doc_entity where
  "ent_middleware_SessionMiddleware = \<lparr>de_id = (js ''middleware.SessionMiddleware''), de_type = EClass, de_title = (js ''SessionMiddleware''),
   de_description = (js ''Manages user sessions. Reads session keys from cookies, loads typed session state from storage backends, and commits state back on response.''),
   de_signature = Some (js ''class SessionMiddleware(Middleware):'' @ [10] @ js ''    def __init__(self, policy: SessionPolicy, store: SessionStore, transport: CookieTransport)''), de_language = Some (js ''python''),
   de_parameters = None,
   de_returns = None, de_example = None,
   de_related = None,
   de_status = Some Stable, de_version = None, de_deprecated = None, de_notes = None,
   de_docsHref = Some (js ''/docs/middleware/session''), de_source = Some \<lparr>src_file = (js ''aquilia/middleware_ext/session_middleware.py''), src_line = None, src_href = None\<rparr>\<rparr>"

definition ent_middleware_RequestScopeMiddleware :: doc_entity where
  "ent_middleware_RequestScopeMiddleware = \<lparr>de_id = (js ''middleware.RequestScopeMiddleware''), de_type = EClass, de_title = (js ''RequestScopeMiddleware''),
   de_description = (js ''Binds a request-specific Dependency Injection scope to each request lifecycle, disposing of scoped instances upon completion.''),
   de_signature = Some (js ''class RequestScopeMiddleware(Middleware):'' @ [10] @ js ''    def __init__(self, container: Container)''), de_language = Some (js ''python''),
   de_parameters = None,
   de_returns = None, de_example = None,
   de_related = None,
   de_status = Some Stable, de_version = None, de_deprecated = None, de_notes = None,
   de_docsHref = Some (js ''/docs/middleware/request-scope''), de_source = Some \<lparr>src_file = (js ''aquilia/middleware_ext/request_scope.py''), src_line = None, src_href = None\<rparr>\<rparr>"

definition ent_aquilary_AquilaryRegistry :: doc_entity where
  "ent_aquilary_AquilaryRegistry = \<lparr>de_id = (js ''aquilary.AquilaryRegistry''), de_type = EClass, de_title = (js ''AquilaryRegistry''),
   de_description = (js ''Validated, frozen registry metadata built during the static loading phase. Contains topological load ordering, route index, and cryptographic registry fingerprint.''),
   de_signature = Some (js ''class AquilaryRegistry:'' @ [10] @ js ''    def build_runtime(self) -> RuntimeRegistry'' @ [10] @ js ''    def inspect(self) -> dict[str, Any]'' @ [10] @ js ''    def export_manifest(self, path: str) -> None''), de_language = Some (js ''python''),
   de_parameters = None,
   de_returns = None, de_example = None,
   de_related = None,
   de_status = Some Stable, de_version = None, de_deprecated = None, de_notes = None,
   de_docsHref = Some (js ''/docs/aquilary/overview''), de_source = Some \<lparr>src_file = (js ''aquilia/aquilary/core.py''), src_line = Some 103, src_href = None\<rparr>\<rparr>"

definition ent_aquilary_AppContext :: doc_entity where
  "ent_aquilary_AppContext = \<lparr>de_id = (js ''aquilary.AppContext''), de_type = EClass, de_title = (js ''AppContext''),
   de_description = (js ''Maintains runtime context for a loaded application module, including routes, models, lazy controllers, services, and scoped dependency injection containers.''),
   de_signature = Some (js ''class AppContext:'' @ [10] @ js ''    name: str'' @ [10] @ js ''    version: str'' @ [10] @ js ''    manifest: Any'' @ [10] @ js ''    route_prefix: str'' @ [10] @ js ''    di_container: Container | None''), de_language = Some (js ''python''),
   de_parameters = None,
   de_returns = None, de_example = None,
   de_related = None,
   de_status = Some Stable, de_version = None, de_deprecated = None, de_notes = None,
   de_docsHref = Some (js ''/docs/aquilary/manifest''), de_source = Some \<lparr>src_file = (js ''aquilia/aquilary/core.py''), src_line = Some 25, src_href = None\<rparr>\<rparr>"

definition ent_aquilary_RuntimeRegistry :: doc_entity where
  "ent_aquilary_RuntimeRegistry = \<lparr>de_id = (js ''aquilary.RuntimeRegistry''), de_type = EClass, de_title = (js ''RuntimeRegistry''),
   de_description = (js ''Active registry instance managing lazy module imports, runtime auto-discovery, DI container wiring, and ASGI endpoint route compiling.''),
   de_signature = Some (js ''class RuntimeRegistry:'' @ [10] @ js ''    def perform_autodiscovery(self) -> None'' @ [10] @ js ''    def compile_routes(self) -> None''), de_language = Some (js ''python''),
   de_parameters = None,
   de_returns = None, de_example = None,
   de_related = None,
   de_status = Some Stable, de_version = None, de_deprecated = None, de_notes = None,
   de_docsHref = Some (js ''/docs/aquilary/runtime''), de_source = Some \<lparr>src_file = (js ''aquilia/aquilary/core.py''), src_line = Some 505, src_href = None\<rparr>\<rparr>"

definition ent_effects_EffectRegistry :: doc_entity where
  "ent_effects_EffectRegistry = \<lparr>de_id = (js ''effects.EffectRegistry''), de_type = EClass, de_title = (js ''EffectRegistry''),
   de_description = (js ''Central registry managing the lifecycle (startup initialization, shutdown cleanup) of registered effect providers and facilitating per-request resource acquisition.''),
   de_signature = Some (js ''class EffectRegistry:'' @ [10] @ js ''    def register(self, effect_name: str, provider: EffectProvider) -> None'' @ [10] @ js ''    async def acquire(self, effect_name: str, mode: str | None = None) -> Any'' @ [10] @ js ''    async def release(self, effect_name: str, resource: Any, *, success: bool = True) -> None''), de_language = Some (js ''python''),
   de_parameters = None,
   de_returns = None, de_example = None,
   de_related = None,
   de_status = Some Stable, de_version = None, de_deprecated = None, de_notes = None,
   de_docsHref = Some (js ''/docs/subsystem/overview''), de_source = Some \<lparr>src_file = (js ''aquilia/effects.py''), src_line = Some 1203, src_href = None\<rparr>\<rparr>"

definition ent_effects_EffectProvider :: doc_entity where
  "ent_effects_EffectProvider = \<lparr>de_id = (js ''effects.EffectProvider''), de_type = EClass, de_title = (js ''EffectProvider''),
   de_description = (js ''Abstract base class for implementing effect resource backends. Manages the lifecycle hooks of connection pooling, validation, resource caching, and diagnostics.''),
   de_signature = Some (js ''class EffectProvider(ABC):'' @ [10] @ js ''    async def initialize(self) -> None'' @ [10] @ js ''    async def acquire(self, mode: str | None = None) -> Any'' @ [10] @ js ''    async def release(self, resource: Any, success: bool = True) -> None'' @ [10] @ js ''    async def finalize(self) -> None''), de_language = Some (js ''python''),
   de_parameters = None,
   de_returns = None, de_example = None,
   de_related = None,
   de_status = Some Stable, de_version = None, de_deprecated = None, de_notes = None,
   de_docsHref = Some (js ''/docs/subsystem/overview''), de_source = Some \<lparr>src_file = (js ''aquilia/effects.py''), src_line = Some 370, src_href = None\<rparr>\<rparr>"

definition ent_effects_Layer :: doc_entity where
  "ent_effects_Layer = \<lparr>de_id = (js ''effects.Layer''), de_type = EClass, de_title = (js ''Layer''),
   de_description = (js ''Effect-TS inspired composable dependency layer. Packages effect providers, specifies setup factories, and defines explicit inter-layer dependencies resolved topologically.''),
   de_signature = Some (js ''class Layer:'' @ [10] @ js ''    name: str'' @ [10] @ js ''    factory: Callable'' @ [10] @ js ''    deps: list[str]'' @ [10] @ js ''    @staticmethod'' @ [10] @ js ''    def merge(*layers: Layer) -> LayerComposition'' @ [10] @ js ''    @staticmethod'' @ [10] @ js ''    def provide(layer: Layer, *providers: Layer) -> LayerComposition''), de_language = Some (js ''python''),
   de_parameters = None,
   de_returns = None, de_example = None,
   de_related = None,
   de_status = Some Stable, de_version = None, de_deprecated = None, de_notes = None,
   de_docsHref = Some (js ''/docs/subsystem/overview''), de_source = Some \<lparr>src_file = (js ''aquilia/flow.py''), src_line = Some 483, src_href = None\<rparr>\<rparr>"

definition ent_effects_DBTxHandle :: doc_entity where
  "ent_effects_DBTxHandle = \<lparr>de_id = (js ''effects.DBTxHandle''), de_type = EClass, de_title = (js ''DBTxHandle''),
   de_description = (js ''A dictionary subclass representing an acquired database transaction. Exposes transaction state properties and async query execution wrappers (execute, fetch_all, fetch_val).''),
   de_signature = Some (js ''class DBTxHandle(dict):'' @ [10] @ js ''    async def execute(self, sql: str, params: Sequence | None = None) -> AsyncCursor'' @ [10] @ js ''    async def fetch_all(self, sql: str, params: Sequence | None = None) -> list[dict]'' @ [10] @ js ''    async def fetch_val(self, sql: str, params: Sequence | None = None) -> Any'' @ [10] @ js ''    @property'' @ [10] @ js ''    def mode(self) -> str''), de_language = Some (js ''python''),
   de_parameters = None,
   de_returns = None, de_example = None,
   de_related = None,
   de_status = Some Stable, de_version = None, de_deprecated = None, de_notes = None,
   de_docsHref = Some (js ''/docs/subsystem/dbtx''), de_source = Some \<lparr>src_file = (js ''aquilia/effects.py''), src_line = Some 166, src_href = None\<rparr>\<rparr>"

definition ent_effects_requires :: doc_entity where
  "ent_effects_requires = \<lparr>de_id = (js ''effects.requires''), de_type = EDecorator, de_title = (js ''requires''),
   de_description = (js ''Decorator that declares required capability/effect tokens for a controller method, handler, or flow node. Ensures resources are acquired before execution.''),
   de_signature = Some (js ''def requires(*effect_names: str) -> Callable''), de_language = Some (js ''python''),
   de_parameters = None,
   de_returns = None, de_example = None,
   de_related = None,
   de_status = Some Stable, de_version = None, de_deprecated = None, de_notes = None,
   de_docsHref = Some (js ''/docs/subsystem/overview''), de_source = Some \<lparr>src_file = (js ''aquilia/flow.py''), src_line = Some 442, src_href = None\<rparr>\<rparr>"

definition ent_effects_DBTx :: doc_entity where
  "ent_effects_DBTx = \<lparr>de_id = (js ''effects.DBTx''), de_type = EClass, de_title = (js ''DBTx''),
   de_description = (js ''Database transaction effect token. Supports indexing like DBTx['' @ [34] @ js ''read'' @ [34] @ js ''] and DBTx['' @ [34] @ js ''write'' @ [34] @ js ''] to select isolation/mode configurations.''),
   de_signature = Some (js ''class DBTx(Effect):'' @ [10] @ js ''    def __init__(self, mode: str = '' @ [34] @ js ''read'' @ [34] @ js '')''), de_language = Some (js ''python''),
   de_parameters = None,
   de_returns = None, de_example = None,
   de_related = None,
   de_status = Some Stable, de_version = None, de_deprecated = None, de_notes = None,
   de_docsHref = Some (js ''/docs/subsystem/dbtx''), de_source = Some \<lparr>src_file = (js ''aquilia/effects.py''), src_line = Some 425, src_href = None\<rparr>\<rparr>"

definition ent_effects_CacheEffect :: doc_entity where
  "ent_effects_CacheEffect = \<lparr>de_id = (js ''effects.CacheEffect''), de_type = EClass, de_title = (js ''CacheEffect''),
   de_description = (js ''Cache effect token. Scopes operations to a specific caching namespace backend (Redis, Memcached, etc.).''),
   de_signature = Some (js ''class CacheEffect(Effect):'' @ [10] @ js ''    def __init__(self, namespace: str = '' @ [34] @ js ''default'' @ [34] @ js '')''), de_language = Some (js ''python''),
   de_parameters = None,
   de_returns = None, de_example = None,
   de_related = None,
   de_status = Some Stable, de_version = None, de_deprecated = None, de_notes = None,
   de_docsHref = Some (js ''/docs/subsystem/cache''), de_source = Some \<lparr>src_file = (js ''aquilia/effects.py''), src_line = Some 432, src_href = None\<rparr>\<rparr>"

definition ent_effects_QueueEffect :: doc_entity where
  "ent_effects_QueueEffect = \<lparr>de_id = (js ''effects.QueueEffect''), de_type = EClass, de_title = (js ''QueueEffect''),
   de_description = (js ''Queue publishing effect token. Scopes operations to a specific pub/sub topic or queue channel.''),
   de_signature = Some (js ''class QueueEffect(Effect):'' @ [10] @ js ''    def __init__(self, topic: str | None = None)''), de_language = Some (js ''python''),
   de_parameters = None,
   de_returns = None, de_example = None,
   de_related = None,
   de_status = Some Stable, de_version = None, de_deprecated = None, de_notes = None,
   de_docsHref = Some (js ''/docs/subsystem/queue''), de_source = Some \<lparr>src_file = (js ''aquilia/effects.py''), src_line = Some 439, src_href = None\<rparr>\<rparr>"

definition ent_effects_HTTPEffect :: doc_entity where
  "ent_effects_HTTPEffect = \<lparr>de_id = (js ''effects.HTTPEffect''), de_type = EClass, de_title = (js ''HTTPEffect''),
   de_description = (js ''HTTP client effect token. Injects an outbound HTTP client pre-configured with baseUrl and timeouts.''),
   de_signature = Some (js ''class HTTPEffect(Effect):'' @ [10] @ js ''    def __init__(self, service: str | None = None)''), de_language = Some (js ''python''),
   de_parameters = None,
   de_returns = None, de_example = None,
   de_related = None,
   de_status = Some Stable, de_version = None, de_deprecated = None, de_notes = None,
   de_docsHref = Some (js ''/docs/subsystem/http''), de_source = Some \<lparr>src_file = (js ''aquilia/effects.py''), src_line = Some 446, src_href = None\<rparr>\<rparr>"

definition ent_effects_StorageEffect :: doc_entity where
  "ent_effects_StorageEffect = \<lparr>de_id = (js ''effects.StorageEffect''), de_type = EClass, de_title = (js ''StorageEffect''),
   de_description = (js ''Storage bucket access effect token. Scopes access to a unified local/cloud file storage bucket.''),
   de_signature = Some (js ''class StorageEffect(Effect):'' @ [10] @ js ''    def __init__(self, bucket: str | None = None)''), de_language = Some (js ''python''),
   de_parameters = None,
   de_returns = None, de_example = None,
   de_related = None,
   de_status = Some Stable, de_version = None, de_deprecated = None, de_notes = None,
   de_docsHref = Some (js ''/docs/subsystem/storage''), de_source = Some \<lparr>src_file = (js ''aquilia/effects.py''), src_line = Some 453, src_href = None\<rparr>\<rparr>"

definition ent_effects_CacheServiceHandle :: doc_entity where
  "ent_effects_CacheServiceHandle = \<lparr>de_id = (js ''effects.CacheServiceHandle''), de_type = EClass, de_title = (js ''CacheServiceHandle''),
   de_description = (js ''Handle returned by CacheProvider wrapping a real CacheService instance. Key methods: get, set, delete, all scoped to a namespace.''),
   de_signature = Some (js ''class CacheServiceHandle:'' @ [10] @ js ''    async def get(self, key: str) -> Any | None'' @ [10] @ js ''    async def set(self, key: str, value: Any, ttl: int | None = None) -> None'' @ [10] @ js ''    async def delete(self, key: str) -> bool''), de_language = Some (js ''python''),
   de_parameters = None,
   de_returns = None, de_example = None,
   de_related = None,
   de_status = Some Stable, de_version = None, de_deprecated = None, de_notes = None,
   de_docsHref = Some (js ''/docs/subsystem/cache''), de_source = Some \<lparr>src_file = (js ''aquilia/effects.py''), src_line = Some 731, src_href = None\<rparr>\<rparr>"

definition ent_effects_CacheHandle :: doc_entity where
  "ent_effects_CacheHandle = \<lparr>de_id = (js ''effects.CacheHandle''), de_type = EClass, de_title = (js ''CacheHandle''),
   de_description = (js ''In-memory dict-based fallback cache handle used during testing or when the main cache backend is disabled.''),
   de_signature = Some (js ''class CacheHandle:'' @ [10] @ js ''    async def get(self, key: str) -> Any | None'' @ [10] @ js ''    async def set(self, key: str, value: Any, ttl: int | None = None) -> None'' @ [10] @ js ''    async def delete(self, key: str) -> bool''), de_language = Some (js ''python''),
   de_parameters = None,
   de_returns = None, de_example = None,
   de_related = None,
   de_status = Some Stable, de_version = None, de_deprecated = None, de_notes = None,
   de_docsHref = Some (js ''/docs/subsystem/cache''), de_source = Some \<lparr>src_file = (js ''aquilia/effects.py''), src_line = Some 794, src_href = None\<rparr>\<rparr>"

definition ent_effects_QueueHandle :: doc_entity where
  "ent_effects_QueueHandle = \<lparr>de_id = (js ''effects.QueueHandle''), de_type = EClass, de_title = (js ''QueueHandle''),
   de_description = (js ''Handle returned by QueueProvider to publish messages to brokers, falling back to an in-memory queue in tests.''),
   de_signature = Some (js ''class QueueHandle:'' @ [10] @ js ''    async def publish(self, payload: Any, *, headers: dict | None = None) -> None'' @ [10] @ js ''    async def publish_batch(self, payloads: Sequence) -> None''), de_language = Some (js ''python''),
   de_parameters = None,
   de_returns = None, de_example = None,
   de_related = None,
   de_status = Some Stable, de_version = None, de_deprecated = None, de_notes = None,
   de_docsHref = Some (js ''/docs/subsystem/queue''), de_source = Some \<lparr>src_file = (js ''aquilia/effects.py''), src_line = Some 856, src_href = None\<rparr>\<rparr>"

definition ent_effects_TaskQueueHandle :: doc_entity where
  "ent_effects_TaskQueueHandle = \<lparr>de_id = (js ''effects.TaskQueueHandle''), de_type = EClass, de_title = (js ''TaskQueueHandle''),
   de_description = (js ''Handle returned by TaskQueueProvider bridging the effects system with the background task worker. Wraps TaskManager.enqueue.''),
   de_signature = Some (js ''class TaskQueueHandle:'' @ [10] @ js ''    async def enqueue(self, func: Any, *args: Any, **kwargs: Any) -> str''), de_language = Some (js ''python''),
   de_parameters = None,
   de_returns = None, de_example = None,
   de_related = None,
   de_status = Some Stable, de_version = None, de_deprecated = None, de_notes = None,
   de_docsHref = Some (js ''/docs/subsystem/queue''), de_source = Some \<lparr>src_file = (js ''aquilia/effects.py''), src_line = Some 910, src_href = None\<rparr>\<rparr>"

definition ent_effects_HTTPHandle :: doc_entity where
  "ent_effects_HTTPHandle = \<lparr>de_id = (js ''effects.HTTPHandle''), de_type = EClass, de_title = (js ''HTTPHandle''),
   de_description = (js ''Outbound HTTP client handle wrapping AsyncHTTPClient. Simplifies requests with base URL prefixing.''),
   de_signature = Some (js ''class HTTPHandle:'' @ [10] @ js ''    async def get(self, url: str, **kwargs) -> Any'' @ [10] @ js ''    async def post(self, url: str, *, json: Any = None, **kwargs) -> Any'' @ [10] @ js ''    async def put(self, url: str, *, json: Any = None, **kwargs) -> Any'' @ [10] @ js ''    async def delete(self, url: str, **kwargs) -> Any''), de_language = Some (js ''python''),
   de_parameters = None,
   de_returns = None, de_example = None,
   de_related = None,
   de_status = Some Stable, de_version = None, de_deprecated = None, de_notes = None,
   de_docsHref = Some (js ''/docs/subsystem/http''), de_source = Some \<lparr>src_file = (js ''aquilia/effects.py''), src_line = Some 968, src_href = None\<rparr>\<rparr>"

definition ent_effects_StorageHandle :: doc_entity where
  "ent_effects_StorageHandle = \<lparr>de_id = (js ''effects.StorageHandle''), de_type = EClass, de_title = (js ''StorageHandle''),
   de_description = (js ''Storage operation handle. Supports reading, writing, deleting, and checking existence of objects (local/cloud).''),
   de_signature = Some (js ''class StorageHandle:'' @ [10] @ js ''    async def read(self, key: str) -> bytes | None'' @ [10] @ js ''    async def write(self, key: str, data: bytes) -> None'' @ [10] @ js ''    async def delete(self, key: str) -> bool'' @ [10] @ js ''    async def exists(self, key: str) -> bool''), de_language = Some (js ''python''),
   de_parameters = None,
   de_returns = None, de_example = None,
   de_related = None,
   de_status = Some Stable, de_version = None, de_deprecated = None, de_notes = None,
   de_docsHref = Some (js ''/docs/subsystem/storage''), de_source = Some \<lparr>src_file = (js ''aquilia/effects.py''), src_line = Some 1062, src_href = None\<rparr>\<rparr>"

definition ent_effects_FlowPipeline :: doc_entity where
  "ent_effects_FlowPipeline = \<lparr>de_id = (js ''effects.FlowPipeline''), de_type = EClass, de_title = (js ''FlowPipeline''),
   de_description = (js ''Composable request execution pipeline that chains guards, transforms, handlers, and post-hooks, automatically acquiring and releasing declared capabilities.''),
   de_signature = Some (js ''class FlowPipeline:'' @ [10] @ js ''    def __init__(self, name: str = '' @ [34] @ js ''pipeline'' @ [34] @ js '', *, timeout: float | None = None)'' @ [10] @ js ''    def guard(self, callable_or_node: Callable | FlowNode, *, name: str | None = None, priority: int = PRIORITY_AUTH, effects: list[str] | None = None, condition: Callable | None = None) -> FlowPipeline'' @ [10] @ js ''    def transform(self, callable_or_node: Callable | FlowNode, *, name: str | None = None, priority: int = PRIORITY_TRANSFORM, effects: list[str] | None = None) -> FlowPipeline'' @ [10] @ js ''    def handler(self, callable_or_node: Callable | FlowNode, *, name: str | None = None, priority: int = PRIORITY_DEFAULT, effects: list[str] | None = None) -> FlowPipeline'' @ [10] @ js ''    def hook(self, callable_or_node: Callable | FlowNode, *, name: str | None = None, priority: int = PRIORITY_LOG, effects: list[str] | None = None) -> FlowPipeline'' @ [10] @ js ''    async def execute(self, context: FlowContext, effect_registry: EffectRegistry | None = None) -> FlowResult''), de_language = Some (js ''python''),
   de_parameters = None,
   de_returns = None, de_example = None,
   de_related = None,
   de_status = Some Stable, de_version = None, de_deprecated = None, de_notes = None,
   de_docsHref = Some (js ''/docs/subsystem/pipelines''), de_source = Some \<lparr>src_file = (js ''aquilia/flow.py''), src_line = Some 662, src_href = None\<rparr>\<rparr>"

definition ent_effects_FlowContext_first :: doc_entity where
  "ent_effects_FlowContext_first = \<lparr>de_id = (js ''effects.FlowContext''), de_type = EClass, de_title = (js ''FlowContext''),
   de_description = (js ''Typed context threaded through the pipeline, carrying request data, container references, identity, session state, and lazily acquired effect handles.''),
   de_signature = Some (js ''class FlowContext:'' @ [10] @ js ''    def __init__(self, request: Any = None, container: Any = None, *, state: dict | None = None, identity: Any = None, session: Any = None)'' @ [10] @ js ''    def get_effect(self, name: str) -> Any'' @ [10] @ js ''    def has_effect(self, name: str) -> bool'' @ [10] @ js ''    def add_cleanup(self, callback: Callable[[], Awaitable[None]]) -> None'' @ [10] @ js ''    async def dispose(self) -> None''), de_language = Some (js ''python''),
   de_parameters = None,
   de_returns = None, de_example = None,
   de_related = None,
   de_status = Some Stable, de_version = None, de_deprecated = None, de_notes = None,
   de_docsHref = Some (js ''/docs/subsystem/context-nodes''), de_source = Some \<lparr>src_file = (js ''aquilia/flow.py''), src_line = Some 117, src_href = None\<rparr>\<rparr>"

definition ent_effects_FlowNode :: doc_entity where
  "ent_effects_FlowNode = \<lparr>de_id = (js ''effects.FlowNode''), de_type = EClass, de_title = (js ''FlowNode''),
   de_description = (js ''A typed execution node in a flow pipeline representing a single guard, transform, handler, or hook.''),
   de_signature = Some (js ''class FlowNode:'' @ [10] @ js ''    type: FlowNodeType'' @ [10] @ js ''    callable: Callable'' @ [10] @ js ''    name: str'' @ [10] @ js ''    priority: int = PRIORITY_DEFAULT'' @ [10] @ js ''    effects: list[str]'' @ [10] @ js ''    condition: Callable[[FlowContext], bool] | None'' @ [10] @ js ''    timeout: float | None''), de_language = Some (js ''python''),
   de_parameters = None,
   de_returns = None, de_example = None,
   de_related = None,
   de_status = Some Stable, de_version = None, de_deprecated = None, de_notes = None,
   de_docsHref = Some (js ''/docs/subsystem/context-nodes''), de_source = Some \<lparr>src_file = (js ''aquilia/flow.py''), src_line = Some 350, src_href = None\<rparr>\<rparr>"

definition ent_effects_FlowResult :: doc_entity where
  "ent_effects_FlowResult = \<lparr>de_id = (js ''effects.FlowResult''), de_type = EClass, de_title = (js ''FlowResult''),
   de_description = (js ''Structure containing the outcome, status (success, guarded, error, timeout, cancelled), timing, and final context of a FlowPipeline execution.''),
   de_signature = Some (js ''class FlowResult:'' @ [10] @ js ''    status: FlowStatus'' @ [10] @ js ''    value: Any'' @ [10] @ js ''    context: FlowContext | None'' @ [10] @ js ''    error: Exception | None'' @ [10] @ js ''    guard: FlowNode | None'' @ [10] @ js ''    timings: dict[str, float]''), de_language = Some (js ''python''),
   de_parameters = None,
   de_returns = None, de_example = None,
   de_related = None,
   de_status = Some Stable, de_version = None, de_deprecated = None, de_notes = None,
   de_docsHref = Some (js ''/docs/subsystem/context-nodes''), de_source = Some \<lparr>src_file = (js ''aquilia/flow.py''), src_line = Some 385, src_href = None\<rparr>\<rparr>"

definition ent_effects_EffectScope :: doc_entity where
  "ent_effects_EffectScope = \<lparr>de_id = (js ''effects.EffectScope''), de_type = EClass, de_title = (js ''EffectScope''),
   de_description = (js ''Async context manager that manages the lifecycle of required effects, acquiring them on entry and releasing them on exit.''),
   de_signature = Some (js ''class EffectScope:'' @ [10] @ js ''    def __init__(self, registry: EffectRegistry, effect_names: Sequence[str], *, context: FlowContext | None = None, modes: dict[str, str] | None = None)'' @ [10] @ js ''    async def __aenter__(self) -> dict[str, Any]'' @ [10] @ js ''    async def __aexit__(self, exc_type: Any, exc_val: Any, exc_tb: Any) -> None''), de_language = Some (js ''python''),
   de_parameters = None,
   de_returns = None, de_example = None,
   de_related = None,
   de_status = Some Stable, de_version = None, de_deprecated = None, de_notes = None,
   de_docsHref = Some (js ''/docs/subsystem/layers''), de_source = Some \<lparr>src_file = (js ''aquilia/flow.py''), src_line = Some 1622, src_href = None\<rparr>\<rparr>"

definition ent_effects_DBTxProvider :: doc_entity where
  "ent_effects_DBTxProvider = \<lparr>de_id = (js ''effects.DBTxProvider''), de_type = EClass, de_title = (js ''DBTxProvider''),
   de_description = (js ''Database transaction effect provider. Handles setup, atomic transaction scopes, committing on success, rolling back on error, and final cleanup.''),
   de_signature = Some (js ''class DBTxProvider(EffectProvider):'' @ [10] @ js ''    async def initialize(self) -> None'' @ [10] @ js ''    async def acquire(self, mode: str | None = None) -> DBTxHandle'' @ [10] @ js ''    async def release(self, resource: DBTxHandle, success: bool = True) -> None''), de_language = Some (js ''python''),
   de_parameters = None,
   de_returns = None, de_example = None,
   de_related = None,
   de_status = Some Stable, de_version = None, de_deprecated = None, de_notes = None,
   de_docsHref = Some (js ''/docs/subsystem/dbtx''), de_source = Some \<lparr>src_file = (js ''aquilia/effects.py''), src_line = Some 465, src_href = None\<rparr>\<rparr>"

definition ent_effects_CacheProvider :: doc_entity where
  "ent_effects_CacheProvider = \<lparr>de_id = (js ''effects.CacheProvider''), de_type = EClass, de_title = (js ''CacheProvider''),
   de_description = (js ''Cache effect provider. Configures cache backend connection (Redis/Memory) and returns namespaced handles.''),
   de_signature = Some (js ''class CacheProvider(EffectProvider):'' @ [10] @ js ''    async def initialize(self) -> None'' @ [10] @ js ''    async def acquire(self, mode: str | None = None) -> CacheServiceHandle | CacheHandle'' @ [10] @ js ''    async def release(self, resource: Any, success: bool = True) -> None''), de_language = Some (js ''python''),
   de_parameters = None,
   de_returns = None, de_example = None,
   de_related = None,
   de_status = Some Stable, de_version = None, de_deprecated = None, de_notes = None,
   de_docsHref = Some (js ''/docs/subsystem/cache''), de_source = Some \<lparr>src_file = (js ''aquilia/effects.py''), src_line = Some 538, src_href = None\<rparr>\<rparr>"

definition ent_effects_QueueProvider :: doc_entity where
  "ent_effects_QueueProvider = \<lparr>de_id = (js ''effects.QueueProvider''), de_type = EClass, de_title = (js ''QueueProvider''),
   de_description = (js ''Message queue effect provider. Manages connections to brokers like RabbitMQ or Redis Streams.''),
   de_signature = Some (js ''class QueueProvider(EffectProvider):'' @ [10] @ js ''    async def initialize(self) -> None'' @ [10] @ js ''    async def acquire(self, mode: str | None = None) -> QueueHandle'' @ [10] @ js ''    async def release(self, resource: QueueHandle, success: bool = True) -> None''), de_language = Some (js ''python''),
   de_parameters = None,
   de_returns = None, de_example = None,
   de_related = None,
   de_status = Some Stable, de_version = None, de_deprecated = None, de_notes = None,
   de_docsHref = Some (js ''/docs/subsystem/queue''), de_source = Some \<lparr>src_file = (js ''aquilia/effects.py''), src_line = Some 585, src_href = None\<rparr>\<rparr>"

definition ent_effects_TaskQueueProvider :: doc_entity where
  "ent_effects_TaskQueueProvider = \<lparr>de_id = (js ''effects.TaskQueueProvider''), de_type = EClass, de_title = (js ''TaskQueueProvider''),
   de_description = (js ''Task worker queue provider. Integrates with TaskManager to submit asynchronous background tasks.''),
   de_signature = Some (js ''class TaskQueueProvider(EffectProvider):'' @ [10] @ js ''    async def initialize(self) -> None'' @ [10] @ js ''    async def acquire(self, mode: str | None = None) -> TaskQueueHandle | QueueHandle'' @ [10] @ js ''    async def release(self, resource: Any, success: bool = True) -> None''), de_language = Some (js ''python''),
   de_parameters = None,
   de_returns = None, de_example = None,
   de_related = None,
   de_status = Some Stable, de_version = None, de_deprecated = None, de_notes = None,
   de_docsHref = Some (js ''/docs/subsystem/queue''), de_source = Some \<lparr>src_file = (js ''aquilia/effects.py''), src_line = Some 615, src_href = None\<rparr>\<rparr>"

definition ent_effects_HTTPProvider :: doc_entity where
  "ent_effects_HTTPProvider = \<lparr>de_id = (js ''effects.HTTPProvider''), de_type = EClass, de_title = (js ''HTTPProvider''),
   de_description = (js ''HTTP client provider. Pre-configures a shared client session instance for outgoing API HTTP requests.''),
   de_signature = Some (js ''class HTTPProvider(EffectProvider):'' @ [10] @ js ''    async def initialize(self) -> None'' @ [10] @ js ''    async def acquire(self, mode: str | None = None) -> HTTPHandle'' @ [10] @ js ''    async def release(self, resource: HTTPHandle, success: bool = True) -> None''), de_language = Some (js ''python''),
   de_parameters = None,
   de_returns = None, de_example = None,
   de_related = None,
   de_status = Some Stable, de_version = None, de_deprecated = None, de_notes = None,
   de_docsHref = Some (js ''/docs/subsystem/http''), de_source = Some \<lparr>src_file = (js ''aquilia/effects.py''), src_line = Some 656, src_href = None\<rparr>\<rparr>"

definition ent_effects_StorageProvider :: doc_entity where
  "ent_effects_StorageProvider = \<lparr>de_id = (js ''effects.StorageProvider''), de_type = EClass, de_title = (js ''StorageProvider''),
   de_description = (js ''Unified storage effect provider. Connects filesystem or cloud bucket storage registry backends.''),
   de_signature = Some (js ''class StorageProvider(EffectProvider):'' @ [10] @ js ''    async def initialize(self) -> None'' @ [10] @ js ''    async def acquire(self, mode: str | None = None) -> StorageHandle'' @ [10] @ js ''    async def release(self, resource: StorageHandle, success: bool = True) -> None''), de_language = Some (js ''python''),
   de_parameters = None,
   de_returns = None, de_example = None,
   de_related = None,
   de_status = Some Stable, de_version = None, de_deprecated = None, de_notes = None,
   de_docsHref = Some (js ''/docs/subsystem/storage''), de_source = Some \<lparr>src_file = (js ''aquilia/effects.py''), src_line = Some 690, src_href = None\<rparr>\<rparr>"

definition ent_effects_FlowContext :: doc_entity where
  "ent_effects_FlowContext = \<lparr>de_id = (js ''effects.FlowContext''), de_type = EClass, de_title = (js ''FlowContext''),
   de_description = (js ''Typed context object threaded through Aquilia flow nodes. Holds acquired effects, identity, state, and cleans up resources via disposal hooks.''),
   de_signature = Some (js ''class FlowContext:'' @ [10] @ js ''    effects: dict[str, Any]'' @ [10] @ js ''    def get_effect(self, name: str) -> Any'' @ [10] @ js ''    def has_effect(self, name: str) -> bool'' @ [10] @ js ''    async def dispose(self) -> None''), de_language = Some (js ''python''),
   de_parameters = None,
   de_returns = None, de_example = None,
   de_related = None,
   de_status = Some Stable, de_version = None, de_deprecated = None, de_notes = None,
   de_docsHref = Some (js ''/docs/subsystem/overview''), de_source = Some \<lparr>src_file = (js ''aquilia/flow.py''), src_line = Some 117, src_href = None\<rparr>\<rparr>"

definition ent_effects_EffectMiddleware :: doc_entity where
  "ent_effects_EffectMiddleware = \<lparr>de_id = (js ''effects.EffectMiddleware''), de_type = EClass, de_title = (js ''EffectMiddleware''),
   de_description = (js ''ASGI request-lifecycle middleware. Automatically intercepts handlers, acquires requested capabilities from the registry, injects them, and releases them at completion.''),
   de_signature = Some (js ''class EffectMiddleware(Middleware):'' @ [10] @ js ''    def __init__(self, effect_registry: EffectRegistry | None = None, *, auto_detect: bool = True)'' @ [10] @ js ''    async def __call__(self, request: Request, ctx: RequestCtx, next_handler: Handler) -> Response''), de_language = Some (js ''python''),
   de_parameters = None,
   de_returns = None, de_example = None,
   de_related = None,
   de_status = Some Stable, de_version = None, de_deprecated = None, de_notes = None,
   de_docsHref = Some (js ''/docs/subsystem/overview''), de_source = Some \<lparr>src_file = (js ''aquilia/middleware_ext/effect_middleware.py''), src_line = Some 182, src_href = None\<rparr>\<rparr>"

definition ent_faults_Fault :: doc_entity where
  "ent_faults_Fault = \<lparr>de_id = (js ''faults.Fault''), de_type = EClass, de_title = (js ''Fault''),
   de_description = (js ''Framework base exception representing a structured fault. Carries machine-readable status codes, classification domains, severity ratings, and retry metadata.''),
   de_signature = Some (js ''class Fault(Exception):'' @ [10] @ js ''    def __init__(self, code: str | None = None, message: str | None = None, *, domain: FaultDomain | None = None, severity: Severity | None = None, retryable: bool | None = None, public: bool = False, metadata: dict | None = None)''), de_language = Some (js ''python''),
   de_parameters = None,
   de_returns = None, de_example = None,
   de_related = None,
   de_status = Some Stable, de_version = None, de_deprecated = None, de_notes = None,
   de_docsHref = Some (js ''/docs/faults/taxonomy''), de_source = Some \<lparr>src_file = (js ''aquilia/faults/core.py''), src_line = Some 147, src_href = None\<rparr>\<rparr>"

definition ent_faults_FaultContext :: doc_entity where
  "ent_faults_FaultContext = \<lparr>de_id = (js ''faults.FaultContext''), de_type = EClass, de_title = (js ''FaultContext''),
   de_description = (js ''Captures and encapsulates a propagating Fault. Enriches faults with structural metadata: traceback stacks, timestamp details, request tags, and unique trace IDs.''),
   de_signature = Some (js ''class FaultContext:'' @ [10] @ js ''    fault: Fault'' @ [10] @ js ''    trace_id: str'' @ [10] @ js ''    timestamp: datetime'' @ [10] @ js ''    app: str | None'' @ [10] @ js ''    route: str | None'' @ [10] @ js ''    request_id: str | None'' @ [10] @ js ''    cause: Exception | None'' @ [10] @ js ''    stack: list[Any]''), de_language = Some (js ''python''),
   de_parameters = None,
   de_returns = None, de_example = None,
   de_related = None,
   de_status = Some Stable, de_version = None, de_deprecated = None, de_notes = None,
   de_docsHref = Some (js ''/docs/faults/taxonomy''), de_source = Some \<lparr>src_file = (js ''aquilia/faults/core.py''), src_line = Some 300, src_href = None\<rparr>\<rparr>"

definition ent_faults_FaultEngine :: doc_entity where
  "ent_faults_FaultEngine = \<lparr>de_id = (js ''faults.FaultEngine''), de_type = EClass, de_title = (js ''FaultEngine''),
   de_description = (js ''Core runtime component of the Fault system. Responsible for converting raw exceptions to FaultContext objects, executing scoped handler pipelines, and logging incidents.''),
   de_signature = Some (js ''class FaultEngine:'' @ [10] @ js ''    def register_global(self, handler: FaultHandler) -> None'' @ [10] @ js ''    def register_app(self, app: str, handler: FaultHandler) -> None'' @ [10] @ js ''    async def process(self, exception: Exception | Fault, *, app: str | None = None, route: str | None = None, request_id: str | None = None) -> FaultResult''), de_language = Some (js ''python''),
   de_parameters = None,
   de_returns = None, de_example = None,
   de_related = None,
   de_status = Some Stable, de_version = None, de_deprecated = None, de_notes = None,
   de_docsHref = Some (js ''/docs/faults/engine''), de_source = Some \<lparr>src_file = (js ''aquilia/faults/engine.py''), src_line = Some 41, src_href = None\<rparr>\<rparr>"

definition ent_faults_FaultHandler :: doc_entity where
  "ent_faults_FaultHandler = \<lparr>de_id = (js ''faults.FaultHandler''), de_type = EClass, de_title = (js ''FaultHandler''),
   de_description = (js ''Base class for custom error handling policies. Handlers evaluate context predicates to claim, translate, retry, circuit-break, or swallow faults.''),
   de_signature = Some (js ''class FaultHandler(ABC):'' @ [10] @ js ''    async def handle(self, ctx: FaultContext) -> FaultResult'' @ [10] @ js ''    def can_handle(self, ctx: FaultContext) -> bool''), de_language = Some (js ''python''),
   de_parameters = None,
   de_returns = None, de_example = None,
   de_related = None,
   de_status = Some Stable, de_version = None, de_deprecated = None, de_notes = None,
   de_docsHref = Some (js ''/docs/faults/handlers''), de_source = Some \<lparr>src_file = (js ''aquilia/faults/handlers.py''), src_line = Some 12, src_href = None\<rparr>\<rparr>"

definition ent_sse_SSEResponse :: doc_entity where
  "ent_sse_SSEResponse = \<lparr>de_id = (js ''sse.SSEResponse''), de_type = EClass, de_title = (js ''SSEResponse''),
   de_description = (js ''An ASGI-compatible HTTP streaming response utilizing the text/event-stream content type. Supports text token streams and JSON serialization.''),
   de_signature = Some (js ''class SSEResponse:'' @ [10] @ js ''    def __init__(self, source: AsyncGenerator[SSEEvent, None] | AsyncIterable[SSEEvent] | None = None, *, status: int = 200, event_name: str = '' @ [34, 34] @ js '')'' @ [10] @ js ''    @classmethod'' @ [10] @ js ''    def text(cls, source: AsyncGenerator[str, None], *, status: int = 200, event_name: str = '' @ [34, 34] @ js '') -> SSEResponse'' @ [10] @ js ''    @classmethod'' @ [10] @ js ''    def json(cls, source: AsyncGenerator[Any, None], *, status: int = 200, event_name: str = '' @ [34, 34] @ js '') -> SSEResponse''), de_language = Some (js ''python''),
   de_parameters = None,
   de_returns = None, de_example = None,
   de_related = None,
   de_status = Some Stable, de_version = None, de_deprecated = None, de_notes = None,
   de_docsHref = Some (js ''/docs/sse/overview''), de_source = Some \<lparr>src_file = (js ''aquilia/sse/_core.py''), src_line = Some 16, src_href = None\<rparr>\<rparr>"

definition ent_sse_SSEEvent :: doc_entity where
  "ent_sse_SSEEvent = \<lparr>de_id = (js ''sse.SSEEvent''), de_type = EClass, de_title = (js ''SSEEvent''),
   de_description = (js ''Data structure representing a Server-Sent Event payload, featuring data, id, event, and retry fields.''),
   de_signature = Some (js ''class SSEEvent:'' @ [10] @ js ''    data: str'' @ [10] @ js ''    id: str | None = None'' @ [10] @ js ''    event: str | None = None'' @ [10] @ js ''    retry: int | None = None'' @ [10] @ js ''    def encode(self) -> bytes''), de_language = Some (js ''python''),
   de_parameters = None,
   de_returns = None, de_example = None,
   de_related = None,
   de_status = Some Stable, de_version = None, de_deprecated = None, de_notes = None,
   de_docsHref = Some (js ''/docs/sse/standard''), de_source = Some \<lparr>src_file = (js ''aquilia/response.py''), src_line = Some 142, src_href = None\<rparr>\<rparr>"

definition ent_sse_SSEStreamAbortedFault :: doc_entity where
  "ent_sse_SSEStreamAbortedFault = \<lparr>de_id = (js ''sse.SSEStreamAbortedFault''), de_type = EClass, de_title = (js ''SSEStreamAbortedFault''),
   de_description = (js ''Fault thrown when an active SSE response stream is disconnected or aborted by the client prior to completion.''),
   de_signature = Some (js ''class SSEStreamAbortedFault(SSEFault):'' @ [10] @ js ''    code = '' @ [34] @ js ''sse.stream_aborted'' @ [34, 10] @ js ''    message = '' @ [34] @ js ''SSE stream was aborted before completion'' @ [34]), de_language = Some (js ''python''),
   de_parameters = None,
   de_returns = None, de_example = None,
   de_related = None,
   de_status = Some Stable, de_version = None, de_deprecated = None, de_notes = None,
   de_docsHref = Some (js ''/docs/sse/resources''), de_source = Some \<lparr>src_file = (js ''aquilia/sse/_faults.py''), src_line = Some 13, src_href = None\<rparr>\<rparr>"

definition ent_sse_SSESerializationFault :: doc_entity where
  "ent_sse_SSESerializationFault = \<lparr>de_id = (js ''sse.SSESerializationFault''), de_type = EClass, de_title = (js ''SSESerializationFault''),
   de_description = (js ''Fault thrown when the SSE engine fails to JSON-serialize event payload data.''),
   de_signature = Some (js ''class SSESerializationFault(SSEFault):'' @ [10] @ js ''    code = '' @ [34] @ js ''sse.serialization_error'' @ [34, 10] @ js ''    message = '' @ [34] @ js ''Failed to serialise SSE event data'' @ [34]), de_language = Some (js ''python''),
   de_parameters = None,
   de_returns = None, de_example = None,
   de_related = None,
   de_status = Some Stable, de_version = None, de_deprecated = None, de_notes = None,
   de_docsHref = Some (js ''/docs/sse/streams''), de_source = Some \<lparr>src_file = (js ''aquilia/sse/_faults.py''), src_line = Some 18, src_href = None\<rparr>\<rparr>"

definition ent_signing_Signer :: doc_entity where
  "ent_signing_Signer = \<lparr>de_id = (js ''signing.Signer''), de_type = EClass, de_title = (js ''Signer''),
   de_description = (js ''Simple stateless HMAC-based data signer. Cryptographically isolates payloads utilizing namespace salts.''),
   de_signature = Some (js ''class Signer:'' @ [10] @ js ''    def __init__(self, secret: str | bytes | None = None, *, salt: str = '' @ [34] @ js ''aquilia.signing'' @ [34] @ js '', sep: str = '' @ [34] @ js '':'' @ [34] @ js '', algorithm: str = '' @ [34] @ js ''HS256'' @ [34] @ js '', backend: SignerBackend | None = None)'' @ [10] @ js ''    def sign(self, value: str) -> str'' @ [10] @ js ''    def unsign(self, signed_value: str) -> str'' @ [10] @ js ''    def sign_bytes(self, data: bytes) -> bytes'' @ [10] @ js ''    def unsign_bytes(self, signed_data: bytes) -> bytes'' @ [10] @ js ''    def sign_object(self, obj: Any) -> str'' @ [10] @ js ''    def unsign_object(self, token: str) -> Any''), de_language = Some (js ''python''),
   de_parameters = None,
   de_returns = None, de_example = None,
   de_related = None,
   de_status = Some Stable, de_version = None, de_deprecated = None, de_notes = None,
   de_docsHref = Some (js ''/docs/signing/signers''), de_source = Some \<lparr>src_file = (js ''aquilia/signing.py''), src_line = Some 477, src_href = None\<rparr>\<rparr>"

definition ent_signing_TimestampSigner :: doc_entity where
  "ent_signing_TimestampSigner = \<lparr>de_id = (js ''signing.TimestampSigner''), de_type = EClass, de_title = (js ''TimestampSigner''),
   de_description = (js ''Stateless signer that embeds a UTC timestamp in the signed value and validates token expiration.''),
   de_signature = Some (js ''class TimestampSigner(Signer):'' @ [10] @ js ''    def __init__(self, secret: str | bytes | None = None, *, salt: str = '' @ [34] @ js ''aquilia.signing.ts'' @ [34] @ js '', sep: str = '' @ [34] @ js '':'' @ [34] @ js '', algorithm: str = '' @ [34] @ js ''HS256'' @ [34] @ js '', backend: SignerBackend | None = None)'' @ [10] @ js ''    def sign(self, value: str, *, timestamp: datetime | None = None) -> str'' @ [10] @ js ''    def unsign(self, signed_value: str, max_age: float | int | timedelta | None = None) -> str'' @ [10] @ js ''    def unsign_with_timestamp(self, signed_value: str, max_age: float | int | timedelta | None = None) -> tuple[str, datetime]''), de_language = Some (js ''python''),
   de_parameters = None,
   de_returns = None, de_example = None,
   de_related = None,
   de_status = Some Stable, de_version = None, de_deprecated = None, de_notes = None,
   de_docsHref = Some (js ''/docs/signing/signers''), de_source = Some \<lparr>src_file = (js ''aquilia/signing.py''), src_line = Some 687, src_href = None\<rparr>\<rparr>"

definition ent_signing_RotatingSigner :: doc_entity where
  "ent_signing_RotatingSigner = \<lparr>de_id = (js ''signing.RotatingSigner''), de_type = EClass, de_title = (js ''RotatingSigner''),
   de_description = (js ''Cryptographic signer supporting transparent zero-downtime key rotation with fallback keys.''),
   de_signature = Some (js ''class RotatingSigner:'' @ [10] @ js ''    def __init__(self, secrets: Sequence[str | bytes], *, salt: str = '' @ [34] @ js ''aquilia.signing'' @ [34] @ js '', sep: str = '' @ [34] @ js '':'' @ [34] @ js '', algorithm: str = '' @ [34] @ js ''HS256'' @ [34] @ js '', timestamp: bool = False)'' @ [10] @ js ''    def sign(self, value: str) -> str'' @ [10] @ js ''    def unsign(self, signed_value: str, max_age: float | int | timedelta | None = None) -> str''), de_language = Some (js ''python''),
   de_parameters = None,
   de_returns = None, de_example = None,
   de_related = None,
   de_status = Some Stable, de_version = None, de_deprecated = None, de_notes = None,
   de_docsHref = Some (js ''/docs/signing/advanced''), de_source = Some \<lparr>src_file = (js ''aquilia/signing.py''), src_line = Some 910, src_href = None\<rparr>\<rparr>"

definition ent_json_module :: doc_entity where
  "ent_json_module = \<lparr>de_id = (js ''json.module''), de_type = EModule, de_title = (js ''aquilia.json''),
   de_description = (js ''Framework-wide JSON module. Auto-selects native extension (_json) when available, falling back to stdlib. Third-party codecs (orjson, ujson) are NOT consulted. dumps() always returns bytes. loads() accepts bytes | bytearray | memoryview | str.''),
   de_signature = Some (js ''def dumps(obj: Any, *, default: Callable | None = None) -> bytes:'' @ [10] @ js ''    ...'' @ [10] @ js ''def loads(s: bytes | bytearray | memoryview | str) -> Any:'' @ [10] @ js ''    ...'' @ [10] @ js ''def backend() -> str:'' @ [10] @ js ''    ...''), de_language = Some (js ''python''),
   de_parameters = None,
   de_returns = None, de_example = None,
   de_related = None,
   de_status = Some Stable, de_version = Some (js ''v1.4.0b1+''), de_deprecated = None, de_notes = None,
   de_docsHref = Some (js ''/docs/json/overview''), de_source = Some \<lparr>src_file = (js ''aquilia/json.py''), src_line = None, src_href = None\<rparr>\<rparr>"

definition ent_json_JSONDecodeError :: doc_entity where
  "ent_json_JSONDecodeError = \<lparr>de_id = (js ''json.JSONDecodeError''), de_type = EClass, de_title = (js ''JSONDecodeError''),
   de_description = (js ''Raised when JSON decoding fails.''),
   de_signature = Some (js ''class JSONDecodeError(Exception): ...''), de_language = Some (js ''python''),
   de_parameters = None,
   de_returns = None, de_example = None,
   de_related = None,
   de_status = Some Stable, de_version = Some (js ''v1.4.0b1+''), de_deprecated = None, de_notes = None,
   de_docsHref = Some (js ''/docs/json/overview''), de_source = Some \<lparr>src_file = (js ''aquilia/json.py''), src_line = None, src_href = None\<rparr>\<rparr>"

definition ent_json_JSONEncodeError :: doc_entity where
  "ent_json_JSONEncodeError = \<lparr>de_id = (js ''json.JSONEncodeError''), de_type = EClass, de_title = (js ''JSONEncodeError''),
   de_description = (js ''Raised when JSON encoding fails.''),
   de_signature = Some (js ''class JSONEncodeError(Exception): ...''), de_language = Some (js ''python''),
   de_parameters = None,
   de_returns = None, de_example = None,
   de_related = None,
   de_status = Some Stable, de_version = Some (js ''v1.4.0b1+''), de_deprecated = None, de_notes = None,
   de_docsHref = Some (js ''/docs/json/overview''), de_source = Some \<lparr>src_file = (js ''aquilia/json.py''), src_line = None, src_href = None\<rparr>\<rparr>"

definition entities_aquiliaEntities :: "doc_entity list" where
  "entities_aquiliaEntities = [
     ent_middleware_MiddlewareStack, ent_middleware_RequestIdMiddleware, ent_middleware_ExceptionMiddleware, ent_middleware_TimeoutMiddleware,
     ent_middleware_CompressionMiddleware, ent_middleware_CORSMiddleware, ent_middleware_RateLimitMiddleware, ent_middleware_StaticMiddleware,
     ent_middleware_SessionMiddleware, ent_middleware_RequestScopeMiddleware, ent_aquilary_AquilaryRegistry, ent_aquilary_AppContext,
     ent_aquilary_RuntimeRegistry, ent_effects_EffectRegistry, ent_effects_EffectProvider, ent_effects_Layer,
     ent_effects_DBTxHandle, ent_effects_requires, ent_effects_DBTx, ent_effects_CacheEffect,
     ent_effects_QueueEffect, ent_effects_HTTPEffect, ent_effects_StorageEffect, ent_effects_CacheServiceHandle,
     ent_effects_CacheHandle, ent_effects_QueueHandle, ent_effects_TaskQueueHandle, ent_effects_HTTPHandle,
     ent_effects_StorageHandle, ent_effects_FlowPipeline, ent_effects_FlowContext_first, ent_effects_FlowNode,
     ent_effects_FlowResult, ent_effects_EffectScope, ent_effects_DBTxProvider, ent_effects_CacheProvider,
     ent_effects_QueueProvider, ent_effects_TaskQueueProvider, ent_effects_HTTPProvider, ent_effects_StorageProvider,
     ent_effects_FlowContext, ent_effects_EffectMiddleware, ent_faults_Fault, ent_faults_FaultContext,
     ent_faults_FaultEngine, ent_faults_FaultHandler, ent_sse_SSEResponse, ent_sse_SSEEvent,
     ent_sse_SSEStreamAbortedFault, ent_sse_SSESerializationFault, ent_signing_Signer, ent_signing_TimestampSigner,
     ent_signing_RotatingSigner, ent_json_module, ent_json_JSONDecodeError, ent_json_JSONEncodeError]"

subsection \<open>\<open>subsystemEntities.ts\<close>\<close>

definition ent_tasks_task :: doc_entity where
  "ent_tasks_task = \<lparr>de_id = (js ''tasks.task''), de_type = EDecorator, de_title = (js ''@task''),
   de_description = (js ''Decorator to register an async function as a background task. Configures queue, priority, retry policy, timeout, and periodic schedules.''),
   de_signature = Some (js ''def task('' @ [10] @ js ''    fn=None, *,'' @ [10] @ js ''    name: str | None = None,'' @ [10] @ js ''    queue: str = '' @ [34] @ js ''default'' @ [34] @ js '','' @ [10] @ js ''    priority: Priority = Priority.NORMAL,'' @ [10] @ js ''    max_retries: int = 3,'' @ [10] @ js ''    retry_delay: float = 1.0,'' @ [10] @ js ''    retry_backoff: float = 2.0,'' @ [10] @ js ''    retry_max_delay: float = 300.0,'' @ [10] @ js ''    timeout: float = 300.0,'' @ [10] @ js ''    tags: list[str] | None = None,'' @ [10] @ js ''    schedule: Schedule | None = None'' @ [10] @ js '')''), de_language = Some (js ''python''),
   de_parameters = None,
   de_returns = None, de_example = None,
   de_related = None,
   de_status = Some Stable, de_version = Some (js ''v1.0+''), de_deprecated = None, de_notes = None,
   de_docsHref = Some (js ''/docs/tasks/overview''), de_source = Some \<lparr>src_file = (js ''aquilia/tasks/decorators.py''), src_line = Some 131, src_href = None\<rparr>\<rparr>"

definition ent_tasks_Priority :: doc_entity where
  "ent_tasks_Priority = \<lparr>de_id = (js ''tasks.Priority''), de_type = EClass, de_title = (js ''Priority''),
   de_description = (js ''Enum defining background task priority levels. Lower values represent higher processing priorities (CRITICAL is processed before LOW).''),
   de_signature = Some (js ''class Priority(int, Enum):'' @ [10] @ js ''    CRITICAL = 0'' @ [10] @ js ''    HIGH = 1'' @ [10] @ js ''    NORMAL = 2'' @ [10] @ js ''    LOW = 3''), de_language = Some (js ''python''),
   de_parameters = None,
   de_returns = None, de_example = None,
   de_related = None,
   de_status = Some Stable, de_version = Some (js ''v1.0+''), de_deprecated = None, de_notes = None,
   de_docsHref = Some (js ''/docs/tasks/overview''), de_source = Some \<lparr>src_file = (js ''aquilia/tasks/job.py''), src_line = Some 30, src_href = None\<rparr>\<rparr>"

definition ent_tasks_TaskManager :: doc_entity where
  "ent_tasks_TaskManager = \<lparr>de_id = (js ''tasks.TaskManager''), de_type = EClass, de_title = (js ''TaskManager''),
   de_description = (js ''Central task coordinator. Manages task lifecycle, enqueuing, worker loops, periodic scheduler ticks, cleanup, and monitoring metrics.''),
   de_signature = Some (js ''class TaskManager:'' @ [10] @ js ''    def __init__('' @ [10] @ js ''        self, *,'' @ [10] @ js ''        backend: TaskBackend | None = None,'' @ [10] @ js ''        num_workers: int = 4,'' @ [10] @ js ''        default_queue: str = '' @ [34] @ js ''default'' @ [34] @ js '','' @ [10] @ js ''        cleanup_interval: float = 300.0,'' @ [10] @ js ''        cleanup_max_age: float = 3600.0,'' @ [10] @ js ''        scheduler_tick: float = 15.0'' @ [10] @ js ''    )''), de_language = Some (js ''python''),
   de_parameters = None,
   de_returns = None, de_example = None,
   de_related = None,
   de_status = Some Stable, de_version = Some (js ''v1.0+''), de_deprecated = None, de_notes = None,
   de_docsHref = Some (js ''/docs/tasks/api''), de_source = Some \<lparr>src_file = (js ''aquilia/tasks/engine.py''), src_line = Some 338, src_href = None\<rparr>\<rparr>"

definition ent_tasks_MemoryBackend :: doc_entity where
  "ent_tasks_MemoryBackend = \<lparr>de_id = (js ''tasks.MemoryBackend''), de_type = EClass, de_title = (js ''MemoryBackend''),
   de_description = (js ''In-process priority queue backend using heap-based priority sorting. Thread-safe and async-safe via asyncio.Lock.''),
   de_signature = Some (js ''class MemoryBackend(TaskBackend):'' @ [10] @ js ''    def __init__(self)''), de_language = Some (js ''python''),
   de_parameters = None,
   de_returns = None, de_example = None,
   de_related = None,
   de_status = Some Stable, de_version = Some (js ''v1.0+''), de_deprecated = None, de_notes = None,
   de_docsHref = Some (js ''/docs/tasks/configuration''), de_source = Some \<lparr>src_file = (js ''aquilia/tasks/engine.py''), src_line = Some 101, src_href = None\<rparr>\<rparr>"

definition ent_tasks_Job :: doc_entity where
  "ent_tasks_Job = \<lparr>de_id = (js ''tasks.Job''), de_type = EClass, de_title = (js ''Job''),
   de_description = (js ''Dataclass representing a background task instance. Tracks job identity, callable reference, arguments, lifecycle state, retry counts, and execution metrics.''),
   de_signature = Some (js ''class Job:'' @ [10] @ js ''    id: str'' @ [10] @ js ''    name: str'' @ [10] @ js ''    queue: str'' @ [10] @ js ''    priority: Priority'' @ [10] @ js ''    func_ref: str'' @ [10] @ js ''    state: JobState'' @ [10] @ js ''    result: JobResult | None''), de_language = Some (js ''python''),
   de_parameters = None,
   de_returns = None, de_example = None,
   de_related = None,
   de_status = Some Stable, de_version = Some (js ''v1.0+''), de_deprecated = None, de_notes = None,
   de_docsHref = Some (js ''/docs/tasks/api''), de_source = Some \<lparr>src_file = (js ''aquilia/tasks/job.py''), src_line = Some 62, src_href = None\<rparr>\<rparr>"

definition ent_tasks_every :: doc_entity where
  "ent_tasks_every = \<lparr>de_id = (js ''tasks.every''), de_type = EFunction, de_title = (js ''every''),
   de_description = (js ''Creates a fixed-interval periodic schedule for background tasks. Allows specifying seconds, minutes, hours, or days.''),
   de_signature = Some (js ''def every(*, seconds: float = 0, minutes: float = 0, hours: float = 0, days: float = 0) -> IntervalSchedule''), de_language = Some (js ''python''),
   de_parameters = None,
   de_returns = None, de_example = None,
   de_related = None,
   de_status = Some Stable, de_version = Some (js ''v1.0+''), de_deprecated = None, de_notes = None,
   de_docsHref = Some (js ''/docs/tasks/scheduling''), de_source = Some \<lparr>src_file = (js ''aquilia/tasks/schedule.py''), src_line = Some 136, src_href = None\<rparr>\<rparr>"

definition ent_tasks_cron :: doc_entity where
  "ent_tasks_cron = \<lparr>de_id = (js ''tasks.cron''), de_type = EFunction, de_title = (js ''cron''),
   de_description = (js ''Creates a cron-expression periodic schedule for background tasks. Supports standard 5-field cron expressions.''),
   de_signature = Some (js ''def cron(expression: str) -> CronSchedule''), de_language = Some (js ''python''),
   de_parameters = None,
   de_returns = None, de_example = None,
   de_related = None,
   de_status = Some Stable, de_version = Some (js ''v1.0+''), de_deprecated = None, de_notes = None,
   de_docsHref = Some (js ''/docs/tasks/scheduling''), de_source = Some \<lparr>src_file = (js ''aquilia/tasks/schedule.py''), src_line = Some 173, src_href = None\<rparr>\<rparr>"

definition ent_storage_StorageBackend :: doc_entity where
  "ent_storage_StorageBackend = \<lparr>de_id = (js ''storage.StorageBackend''), de_type = EClass, de_title = (js ''StorageBackend''),
   de_description = (js ''Abstract base class defining the contract for all Aquilia storage backends. Requires implementing save, open, delete, exists, stat, listdir, size, and url.''),
   de_signature = Some (js ''class StorageBackend(ABC):'' @ [10] @ js ''    @abstractmethod'' @ [10] @ js ''    async def save(self, name: str, content: Any, *, content_type: str | None = None, metadata: dict | None = None, overwrite: bool = False) -> str''), de_language = Some (js ''python''),
   de_parameters = None,
   de_returns = None, de_example = None,
   de_related = None,
   de_status = Some Stable, de_version = Some (js ''v1.0+''), de_deprecated = None, de_notes = None,
   de_docsHref = Some (js ''/docs/storage/api''), de_source = Some \<lparr>src_file = (js ''aquilia/storage/base.py''), src_line = Some 313, src_href = None\<rparr>\<rparr>"

definition ent_storage_StorageFile :: doc_entity where
  "ent_storage_StorageFile = \<lparr>de_id = (js ''storage.StorageFile''), de_type = EClass, de_title = (js ''StorageFile''),
   de_description = (js ''Async file wrapper returned by StorageBackend.open(). Supports async context management, streaming chunks, seek, tell, and read/write.''),
   de_signature = Some (js ''class StorageFile:'' @ [10] @ js ''    def __init__(self, name: str, mode: str = '' @ [34] @ js ''rb'' @ [34] @ js '', content: bytes | None = None, meta: StorageMetadata | None = None, chunks: AsyncIterator[bytes] | None = None)''), de_language = Some (js ''python''),
   de_parameters = None,
   de_returns = None, de_example = None,
   de_related = None,
   de_status = Some Stable, de_version = Some (js ''v1.0+''), de_deprecated = None, de_notes = None,
   de_docsHref = Some (js ''/docs/storage/api''), de_source = Some \<lparr>src_file = (js ''aquilia/storage/base.py''), src_line = Some 188, src_href = None\<rparr>\<rparr>"

definition ent_storage_StorageRegistry :: doc_entity where
  "ent_storage_StorageRegistry = \<lparr>de_id = (js ''storage.StorageRegistry''), de_type = EClass, de_title = (js ''StorageRegistry''),
   de_description = (js ''Named registry that centralizes all storage backends. Maps backend aliases (e.g., '' @ [34] @ js ''default'' @ [34] @ js '', '' @ [34] @ js ''media'' @ [34] @ js '') to instantiated StorageBackend drivers.''),
   de_signature = Some (js ''class StorageRegistry:'' @ [10] @ js ''    def register(self, alias: str, backend: StorageBackend) -> None'' @ [10] @ js ''    def set_default(self, alias: str) -> None''), de_language = Some (js ''python''),
   de_parameters = None,
   de_returns = None, de_example = None,
   de_related = None,
   de_status = Some Stable, de_version = Some (js ''v1.0+''), de_deprecated = None, de_notes = None,
   de_docsHref = Some (js ''/docs/storage/configuration''), de_source = Some \<lparr>src_file = (js ''aquilia/storage/registry.py''), src_line = Some 82, src_href = None\<rparr>\<rparr>"

definition ent_storage_LocalConfig :: doc_entity where
  "ent_storage_LocalConfig = \<lparr>de_id = (js ''storage.LocalConfig''), de_type = EClass, de_title = (js ''LocalConfig''),
   de_description = (js ''Configuration dataclass for the LocalStorage backend. Specifies the directory root, base URL prefix, permissions, and directory auto-creation rules.''),
   de_signature = Some (js ''class LocalConfig(StorageConfig):'' @ [10] @ js ''    root: str = '' @ [34] @ js ''./storage'' @ [34, 10] @ js ''    base_url: str = '' @ [34] @ js ''/storage/'' @ [34, 10] @ js ''    permissions: int = 0o644'' @ [10] @ js ''    dir_permissions: int = 0o755'' @ [10] @ js ''    create_dirs: bool = True''), de_language = Some (js ''python''),
   de_parameters = None,
   de_returns = None, de_example = None,
   de_related = None,
   de_status = Some Stable, de_version = Some (js ''v1.0+''), de_deprecated = None, de_notes = None,
   de_docsHref = Some (js ''/docs/storage/configuration''), de_source = Some \<lparr>src_file = (js ''aquilia/storage/configs.py''), src_line = Some 45, src_href = None\<rparr>\<rparr>"

definition ent_storage_S3Config :: doc_entity where
  "ent_storage_S3Config = \<lparr>de_id = (js ''storage.S3Config''), de_type = EClass, de_title = (js ''S3Config''),
   de_description = (js ''Configuration dataclass for S3Storage. Supports AWS S3, MinIO, DigitalOcean Spaces, and other S3-compatible APIs. Handles credentials, endpoints, prefixes, ACLs, and signature versions.''),
   de_signature = Some (js ''class S3Config(StorageConfig):'' @ [10] @ js ''    bucket: str'' @ [10] @ js ''    region: str = '' @ [34] @ js ''us-east-1'' @ [34, 10] @ js ''    access_key: str | None = None'' @ [10] @ js ''    secret_key: str | None = None'' @ [10] @ js ''    endpoint_url: str | None = None'' @ [10] @ js ''    prefix: str = '' @ [34, 34]), de_language = Some (js ''python''),
   de_parameters = None,
   de_returns = None, de_example = None,
   de_related = None,
   de_status = Some Stable, de_version = Some (js ''v1.0+''), de_deprecated = None, de_notes = None,
   de_docsHref = Some (js ''/docs/storage/configuration''), de_source = Some \<lparr>src_file = (js ''aquilia/storage/configs.py''), src_line = Some 75, src_href = None\<rparr>\<rparr>"

definition ent_storage_StorageMetadata :: doc_entity where
  "ent_storage_StorageMetadata = \<lparr>de_id = (js ''storage.StorageMetadata''), de_type = EClass, de_title = (js ''StorageMetadata''),
   de_description = (js ''Immutable metadata model for a stored file, returned by StorageBackend.stat(). Includes size, content type, etag, created/modified dates, and custom tags.''),
   de_signature = Some (js ''class StorageMetadata:'' @ [10] @ js ''    name: str'' @ [10] @ js ''    size: int = 0'' @ [10] @ js ''    content_type: str = '' @ [34] @ js ''application/octet-stream'' @ [34, 10] @ js ''    etag: str = '' @ [34, 34, 10] @ js ''    last_modified: datetime | None = None''), de_language = Some (js ''python''),
   de_parameters = None,
   de_returns = None, de_example = None,
   de_related = None,
   de_status = Some Stable, de_version = Some (js ''v1.0+''), de_deprecated = None, de_notes = None,
   de_docsHref = Some (js ''/docs/storage/api''), de_source = Some \<lparr>src_file = (js ''aquilia/storage/base.py''), src_line = Some 154, src_href = None\<rparr>\<rparr>"

definition ent_sqlite_create_pool :: doc_entity where
  "ent_sqlite_create_pool = \<lparr>de_id = (js ''sqlite.create_pool''), de_type = EFunction, de_title = (js ''create_pool''),
   de_description = (js ''Async factory to instantiate and open a ConnectionPool for SQLite. Takes a sqlite:/// connection URL or a SqlitePoolConfig object.''),
   de_signature = Some (js ''async def create_pool(config: SqlitePoolConfig | str, metrics: SqliteMetrics | None = None) -> ConnectionPool''), de_language = Some (js ''python''),
   de_parameters = None,
   de_returns = None, de_example = None,
   de_related = None,
   de_status = Some Stable, de_version = Some (js ''v1.0+''), de_deprecated = None, de_notes = None,
   de_docsHref = Some (js ''/docs/sqlite/pool''), de_source = Some \<lparr>src_file = (js ''aquilia/sqlite/_pool.py''), src_line = Some 504, src_href = None\<rparr>\<rparr>"

definition ent_sqlite_ConnectionPool :: doc_entity where
  "ent_sqlite_ConnectionPool = \<lparr>de_id = (js ''sqlite.ConnectionPool''), de_type = EClass, de_title = (js ''ConnectionPool''),
   de_description = (js ''Connection pool for SQLite. Opens N concurrent reader connections and 1 dedicated writer connection. Reader access is semaphore-controlled; writes are serialized via asyncio.Lock.''),
   de_signature = Some (js ''class ConnectionPool:'' @ [10] @ js ''    def acquire(self, *, readonly: bool = False) -> _AcquireContext'' @ [10] @ js ''    async def execute(self, sql: str, params: Sequence | None = None) -> Any''), de_language = Some (js ''python''),
   de_parameters = None,
   de_returns = None, de_example = None,
   de_related = None,
   de_status = Some Stable, de_version = Some (js ''v1.0+''), de_deprecated = None, de_notes = None,
   de_docsHref = Some (js ''/docs/sqlite/pool''), de_source = Some \<lparr>src_file = (js ''aquilia/sqlite/_pool.py''), src_line = Some 68, src_href = None\<rparr>\<rparr>"

definition ent_sqlite_AsyncConnection :: doc_entity where
  "ent_sqlite_AsyncConnection = \<lparr>de_id = (js ''sqlite.AsyncConnection''), de_type = EClass, de_title = (js ''AsyncConnection''),
   de_description = (js ''Thread-dispatched async wrapper around sqlite3.Connection. Automatically routes calls to a worker thread pool. Manages prepared statement caches and transaction states.''),
   de_signature = Some (js ''class AsyncConnection:'' @ [10] @ js ''    async def execute(self, sql: str, params: Sequence | None = None) -> AsyncCursor'' @ [10] @ js ''    def transaction(self, mode: str = '' @ [34] @ js ''DEFERRED'' @ [34] @ js '') -> TransactionContext''), de_language = Some (js ''python''),
   de_parameters = None,
   de_returns = None, de_example = None,
   de_related = None,
   de_status = Some Stable, de_version = Some (js ''v1.0+''), de_deprecated = None, de_notes = None,
   de_docsHref = Some (js ''/docs/sqlite/api''), de_source = Some \<lparr>src_file = (js ''aquilia/sqlite/_connection.py''), src_line = Some 36, src_href = None\<rparr>\<rparr>"

definition ent_sqlite_SqlitePoolConfig :: doc_entity where
  "ent_sqlite_SqlitePoolConfig = \<lparr>de_id = (js ''sqlite.SqlitePoolConfig''), de_type = EClass, de_title = (js ''SqlitePoolConfig''),
   de_description = (js ''Configuration dataclass for native SQLite. Houses PRAGMA settings (journal_mode, foreign_keys, busy_timeout, synchronous, cache_size), pool bounds, cache limits, and query timeouts.''),
   de_signature = Some (js ''class SqlitePoolConfig:'' @ [10] @ js ''    path: str = '' @ [34] @ js ''db.sqlite3'' @ [34, 10] @ js ''    journal_mode: str = '' @ [34] @ js ''WAL'' @ [34, 10] @ js ''    foreign_keys: bool = True'' @ [10] @ js ''    synchronous: str = '' @ [34] @ js ''NORMAL'' @ [34, 10] @ js ''    pool_size: int = 5'' @ [10] @ js ''    pool_min_size: int = 2''), de_language = Some (js ''python''),
   de_parameters = None,
   de_returns = None, de_example = None,
   de_related = None,
   de_status = Some Stable, de_version = Some (js ''v1.0+''), de_deprecated = None, de_notes = None,
   de_docsHref = Some (js ''/docs/sqlite/pool''), de_source = Some \<lparr>src_file = (js ''aquilia/sqlite/_config.py''), src_line = Some 30, src_href = None\<rparr>\<rparr>"

definition ent_sqlite_SqliteService :: doc_entity where
  "ent_sqlite_SqliteService = \<lparr>de_id = (js ''sqlite.SqliteService''), de_type = EClass, de_title = (js ''SqliteService''),
   de_description = (js ''Dependency injection wrapper for the SQLite connection pool. Marked as an app-scoped singleton service. Handles connection pool opening at server startup and closing at shutdown.''),
   de_signature = Some (js ''@service(scope='' @ [34] @ js ''app'' @ [34] @ js '', name='' @ [34] @ js ''SqliteService'' @ [34] @ js '')'' @ [10] @ js ''class SqliteService:'' @ [10] @ js ''    def __init__(self, config: SqlitePoolConfig | None = None)'' @ [10] @ js ''    async def startup(self) -> None'' @ [10] @ js ''    async def shutdown(self) -> None''), de_language = Some (js ''python''),
   de_parameters = None,
   de_returns = None, de_example = None,
   de_related = None,
   de_status = Some Stable, de_version = Some (js ''v1.0+''), de_deprecated = None, de_notes = None,
   de_docsHref = Some (js ''/docs/sqlite/overview''), de_source = Some \<lparr>src_file = (js ''aquilia/sqlite/_service.py''), src_line = Some 24, src_href = None\<rparr>\<rparr>"

definition ent_filesystem_FileSystem :: doc_entity where
  "ent_filesystem_FileSystem = \<lparr>de_id = (js ''filesystem.FileSystem''), de_type = EClass, de_title = (js ''FileSystem''),
   de_description = (js ''High-level, DI-injectable async filesystem service. Replaces external dependencies with a dedicated native thread-pool executor. Implements full operations facade.''),
   de_signature = Some (js ''class FileSystem:'' @ [10] @ js ''    def __init__(self, config: FileSystemConfig | None = None, pool: FileSystemPool | None = None, metrics: FileSystemMetrics | None = None)'' @ [10] @ js ''    async def read_file(self, path: str | Path, *, encoding: str | None = None, sandbox: str | Path | None = None) -> str | bytes''), de_language = Some (js ''python''),
   de_parameters = None,
   de_returns = None, de_example = None,
   de_related = None,
   de_status = Some Stable, de_version = Some (js ''v1.0+''), de_deprecated = None, de_notes = None,
   de_docsHref = Some (js ''/docs/filesystem/overview''), de_source = Some \<lparr>src_file = (js ''aquilia/filesystem/_service.py''), src_line = Some 37, src_href = None\<rparr>\<rparr>"

definition ent_filesystem_AsyncPath :: doc_entity where
  "ent_filesystem_AsyncPath = \<lparr>de_id = (js ''filesystem.AsyncPath''), de_type = EClass, de_title = (js ''AsyncPath''),
   de_description = (js ''A pathlib-style wrapper that exposes all pathlib.Path operations as async methods. Seamlessly executes blocking operations in the filesystem thread pool.''),
   de_signature = Some (js ''class AsyncPath:'' @ [10] @ js ''    def __init__(self, *args: str | Path)'' @ [10] @ js ''    async def exists(self) -> bool'' @ [10] @ js ''    async def write_text(self, data: str, encoding: str = '' @ [34] @ js ''utf-8'' @ [34] @ js '') -> int''), de_language = Some (js ''python''),
   de_parameters = None,
   de_returns = None, de_example = None,
   de_related = None,
   de_status = Some Stable, de_version = Some (js ''v1.0+''), de_deprecated = None, de_notes = None,
   de_docsHref = Some (js ''/docs/filesystem/operations''), de_source = Some \<lparr>src_file = (js ''aquilia/filesystem/_path.py''), src_line = Some 38, src_href = None\<rparr>\<rparr>"

definition ent_filesystem_FileSystemConfig :: doc_entity where
  "ent_filesystem_FileSystemConfig = \<lparr>de_id = (js ''filesystem.FileSystemConfig''), de_type = EClass, de_title = (js ''FileSystemConfig''),
   de_description = (js ''Configuration dataclass for FileSystem settings. Manages I/O pool thread sizes, write buffer thresholds, symlink filters, atomic write switches, and path sandboxing.''),
   de_signature = Some (js ''class FileSystemConfig:'' @ [10] @ js ''    min_pool_threads: int = 2'' @ [10] @ js ''    max_pool_threads: int = 8'' @ [10] @ js ''    write_buffer_size: int = 65536'' @ [10] @ js ''    sandbox_root: str | None = None'' @ [10] @ js ''    atomic_writes: bool = True''), de_language = Some (js ''python''),
   de_parameters = None,
   de_returns = None, de_example = None,
   de_related = None,
   de_status = Some Stable, de_version = Some (js ''v1.0+''), de_deprecated = None, de_notes = None,
   de_docsHref = Some (js ''/docs/filesystem/overview''), de_source = Some \<lparr>src_file = (js ''aquilia/filesystem/_config.py''), src_line = Some 25, src_href = None\<rparr>\<rparr>"

definition ent_filesystem_async_open :: doc_entity where
  "ent_filesystem_async_open = \<lparr>de_id = (js ''filesystem.async_open''), de_type = EFunction, de_title = (js ''async_open''),
   de_description = (js ''Async file opener. Returns an awaitable context manager yielding an AsyncFile handle with async read, write, seek, and tell support.''),
   de_signature = Some (js ''def async_open('' @ [10] @ js ''    path: str | Path, mode: str = '' @ [34] @ js ''r'' @ [34] @ js '','' @ [10] @ js ''    buffering: int = -1, encoding: str | None = None,'' @ [10] @ js ''    errors: str | None = None, newline: str | None = None,'' @ [10] @ js ''    *,'' @ [10] @ js ''    pool: FileSystemPool | None = None, config: FileSystemConfig | None = None,'' @ [10] @ js ''    metrics: FileSystemMetrics | None = None, sandbox: str | Path | None = None'' @ [10] @ js '')''), de_language = Some (js ''python''),
   de_parameters = None,
   de_returns = None, de_example = None,
   de_related = None,
   de_status = Some Stable, de_version = Some (js ''v1.0+''), de_deprecated = None, de_notes = None,
   de_docsHref = Some (js ''/docs/filesystem/api''), de_source = Some \<lparr>src_file = (js ''aquilia/filesystem/_ops.py''), src_line = Some 40, src_href = None\<rparr>\<rparr>"

definition ent_filesystem_read_file :: doc_entity where
  "ent_filesystem_read_file = \<lparr>de_id = (js ''filesystem.read_file''), de_type = EFunction, de_title = (js ''read_file''),
   de_description = (js ''Convenience helper to read the entire contents of a file asynchronously.''),
   de_signature = Some (js ''async def read_file(path: str | Path, *, encoding: str | None = None, pool: FileSystemPool | None = None, config: FileSystemConfig | None = None, metrics: FileSystemMetrics | None = None, sandbox: str | Path | None = None) -> str | bytes''), de_language = Some (js ''python''),
   de_parameters = None,
   de_returns = None, de_example = None,
   de_related = None,
   de_status = Some Stable, de_version = Some (js ''v1.0+''), de_deprecated = None, de_notes = None,
   de_docsHref = Some (js ''/docs/filesystem/operations''), de_source = Some \<lparr>src_file = (js ''aquilia/filesystem/_ops.py''), src_line = Some 120, src_href = None\<rparr>\<rparr>"

definition ent_filesystem_write_file :: doc_entity where
  "ent_filesystem_write_file = \<lparr>de_id = (js ''filesystem.write_file''), de_type = EFunction, de_title = (js ''write_file''),
   de_description = (js ''Convenience helper to write contents to a file asynchronously. Implements atomic write protocol by default.''),
   de_signature = Some (js ''async def write_file(path: str | Path, data: str | bytes, *, encoding: str = '' @ [34] @ js ''utf-8'' @ [34] @ js '', atomic: bool | None = None, mkdir: bool = False, pool: FileSystemPool | None = None, config: FileSystemConfig | None = None, metrics: FileSystemMetrics | None = None, sandbox: str | Path | None = None) -> int''), de_language = Some (js ''python''),
   de_parameters = None,
   de_returns = None, de_example = None,
   de_related = None,
   de_status = Some Stable, de_version = Some (js ''v1.0+''), de_deprecated = None, de_notes = None,
   de_docsHref = Some (js ''/docs/filesystem/operations''), de_source = Some \<lparr>src_file = (js ''aquilia/filesystem/_ops.py''), src_line = Some 155, src_href = None\<rparr>\<rparr>"

definition ent_filesystem_append_file :: doc_entity where
  "ent_filesystem_append_file = \<lparr>de_id = (js ''filesystem.append_file''), de_type = EFunction, de_title = (js ''append_file''),
   de_description = (js ''Appends data to the end of a file asynchronously.''),
   de_signature = Some (js ''async def append_file(path: str | Path, data: str | bytes, *, encoding: str = '' @ [34] @ js ''utf-8'' @ [34] @ js '', pool: FileSystemPool | None = None, config: FileSystemConfig | None = None, metrics: FileSystemMetrics | None = None, sandbox: str | Path | None = None) -> int''), de_language = Some (js ''python''),
   de_parameters = None,
   de_returns = None, de_example = None,
   de_related = None,
   de_status = Some Stable, de_version = Some (js ''v1.0+''), de_deprecated = None, de_notes = None,
   de_docsHref = Some (js ''/docs/filesystem/operations''), de_source = Some \<lparr>src_file = (js ''aquilia/filesystem/_ops.py''), src_line = Some 339, src_href = None\<rparr>\<rparr>"

definition ent_filesystem_copy_file :: doc_entity where
  "ent_filesystem_copy_file = \<lparr>de_id = (js ''filesystem.copy_file''), de_type = EFunction, de_title = (js ''copy_file''),
   de_description = (js ''Copies a file from a source path to a destination path asynchronously.''),
   de_signature = Some (js ''async def copy_file(src: str | Path, dst: str | Path, *, pool: FileSystemPool | None = None, config: FileSystemConfig | None = None, metrics: FileSystemMetrics | None = None, sandbox: str | Path | None = None) -> None''), de_language = Some (js ''python''),
   de_parameters = None,
   de_returns = None, de_example = None,
   de_related = None,
   de_status = Some Stable, de_version = Some (js ''v1.0+''), de_deprecated = None, de_notes = None,
   de_docsHref = Some (js ''/docs/filesystem/operations''), de_source = Some \<lparr>src_file = (js ''aquilia/filesystem/_ops.py''), src_line = Some 383, src_href = None\<rparr>\<rparr>"

definition ent_filesystem_move_file :: doc_entity where
  "ent_filesystem_move_file = \<lparr>de_id = (js ''filesystem.move_file''), de_type = EFunction, de_title = (js ''move_file''),
   de_description = (js ''Moves or renames a file from a source path to a destination path asynchronously.''),
   de_signature = Some (js ''async def move_file(src: str | Path, dst: str | Path, *, pool: FileSystemPool | None = None, config: FileSystemConfig | None = None, metrics: FileSystemMetrics | None = None, sandbox: str | Path | None = None) -> None''), de_language = Some (js ''python''),
   de_parameters = None,
   de_returns = None, de_example = None,
   de_related = None,
   de_status = Some Stable, de_version = Some (js ''v1.0+''), de_deprecated = None, de_notes = None,
   de_docsHref = Some (js ''/docs/filesystem/operations''), de_source = Some \<lparr>src_file = (js ''aquilia/filesystem/_ops.py''), src_line = Some 411, src_href = None\<rparr>\<rparr>"

definition ent_filesystem_delete_file :: doc_entity where
  "ent_filesystem_delete_file = \<lparr>de_id = (js ''filesystem.delete_file''), de_type = EFunction, de_title = (js ''delete_file''),
   de_description = (js ''Deletes a file asynchronously.''),
   de_signature = Some (js ''async def delete_file(path: str | Path, *, pool: FileSystemPool | None = None, config: FileSystemConfig | None = None, metrics: FileSystemMetrics | None = None, sandbox: str | Path | None = None) -> None''), de_language = Some (js ''python''),
   de_parameters = None,
   de_returns = None, de_example = None,
   de_related = None,
   de_status = Some Stable, de_version = Some (js ''v1.0+''), de_deprecated = None, de_notes = None,
   de_docsHref = Some (js ''/docs/filesystem/operations''), de_source = Some \<lparr>src_file = (js ''aquilia/filesystem/_ops.py''), src_line = Some 444, src_href = None\<rparr>\<rparr>"

definition ent_filesystem_file_exists :: doc_entity where
  "ent_filesystem_file_exists = \<lparr>de_id = (js ''filesystem.file_exists''), de_type = EFunction, de_title = (js ''file_exists''),
   de_description = (js ''Checks whether a file exists at the given path asynchronously.''),
   de_signature = Some (js ''async def file_exists(path: str | Path, *, pool: FileSystemPool | None = None, config: FileSystemConfig | None = None, metrics: FileSystemMetrics | None = None, sandbox: str | Path | None = None) -> bool''), de_language = Some (js ''python''),
   de_parameters = None,
   de_returns = None, de_example = None,
   de_related = None,
   de_status = Some Stable, de_version = Some (js ''v1.0+''), de_deprecated = None, de_notes = None,
   de_docsHref = Some (js ''/docs/filesystem/operations''), de_source = Some \<lparr>src_file = (js ''aquilia/filesystem/_ops.py''), src_line = Some 477, src_href = None\<rparr>\<rparr>"

definition ent_filesystem_file_stat :: doc_entity where
  "ent_filesystem_file_stat = \<lparr>de_id = (js ''filesystem.file_stat''), de_type = EFunction, de_title = (js ''file_stat''),
   de_description = (js ''Retrieves stat metadata (e.g. size, mtime, permissions) for the target path asynchronously.''),
   de_signature = Some (js ''async def file_stat(path: str | Path, *, pool: FileSystemPool | None = None, config: FileSystemConfig | None = None, metrics: FileSystemMetrics | None = None, sandbox: str | Path | None = None) -> FileStat''), de_language = Some (js ''python''),
   de_parameters = None,
   de_returns = None, de_example = None,
   de_related = None,
   de_status = Some Stable, de_version = Some (js ''v1.0+''), de_deprecated = None, de_notes = None,
   de_docsHref = Some (js ''/docs/filesystem/operations''), de_source = Some \<lparr>src_file = (js ''aquilia/filesystem/_ops.py''), src_line = Some 519, src_href = None\<rparr>\<rparr>"

definition ent_filesystem_list_dir :: doc_entity where
  "ent_filesystem_list_dir = \<lparr>de_id = (js ''filesystem.list_dir''), de_type = EFunction, de_title = (js ''list_dir''),
   de_description = (js ''Lists all entry names (files and subdirectories) inside a directory path asynchronously.''),
   de_signature = Some (js ''async def list_dir(path: str | Path, *, pool: FileSystemPool | None = None, config: FileSystemConfig | None = None, metrics: FileSystemMetrics | None = None, sandbox: str | Path | None = None) -> list[str]''), de_language = Some (js ''python''),
   de_parameters = None,
   de_returns = None, de_example = None,
   de_related = None,
   de_status = Some Stable, de_version = Some (js ''v1.0+''), de_deprecated = None, de_notes = None,
   de_docsHref = Some (js ''/docs/filesystem/operations''), de_source = Some \<lparr>src_file = (js ''aquilia/filesystem/_directory.py''), src_line = Some 61, src_href = None\<rparr>\<rparr>"

definition ent_filesystem_make_dir :: doc_entity where
  "ent_filesystem_make_dir = \<lparr>de_id = (js ''filesystem.make_dir''), de_type = EFunction, de_title = (js ''make_dir''),
   de_description = (js ''Creates a new directory at the target path asynchronously. Supports creating parent directories.''),
   de_signature = Some (js ''async def make_dir(path: str | Path, *, parents: bool = True, exist_ok: bool = True, pool: FileSystemPool | None = None, config: FileSystemConfig | None = None, metrics: FileSystemMetrics | None = None, sandbox: str | Path | None = None) -> None''), de_language = Some (js ''python''),
   de_parameters = None,
   de_returns = None, de_example = None,
   de_related = None,
   de_status = Some Stable, de_version = Some (js ''v1.0+''), de_deprecated = None, de_notes = None,
   de_docsHref = Some (js ''/docs/filesystem/operations''), de_source = Some \<lparr>src_file = (js ''aquilia/filesystem/_directory.py''), src_line = Some 130, src_href = None\<rparr>\<rparr>"

definition ent_filesystem_remove_dir :: doc_entity where
  "ent_filesystem_remove_dir = \<lparr>de_id = (js ''filesystem.remove_dir''), de_type = EFunction, de_title = (js ''remove_dir''),
   de_description = (js ''Removes an empty directory asynchronously.''),
   de_signature = Some (js ''async def remove_dir(path: str | Path, *, pool: FileSystemPool | None = None, config: FileSystemConfig | None = None, metrics: FileSystemMetrics | None = None, sandbox: str | Path | None = None) -> None''), de_language = Some (js ''python''),
   de_parameters = None,
   de_returns = None, de_example = None,
   de_related = None,
   de_status = Some Stable, de_version = Some (js ''v1.0+''), de_deprecated = None, de_notes = None,
   de_docsHref = Some (js ''/docs/filesystem/operations''), de_source = Some \<lparr>src_file = (js ''aquilia/filesystem/_directory.py''), src_line = Some 162, src_href = None\<rparr>\<rparr>"

definition ent_filesystem_remove_tree :: doc_entity where
  "ent_filesystem_remove_tree = \<lparr>de_id = (js ''filesystem.remove_tree''), de_type = EFunction, de_title = (js ''remove_tree''),
   de_description = (js ''Recursively deletes an entire directory tree asynchronously.''),
   de_signature = Some (js ''async def remove_tree(path: str | Path, *, ignore_errors: bool = False, pool: FileSystemPool | None = None, config: FileSystemConfig | None = None, metrics: FileSystemMetrics | None = None, sandbox: str | Path | None = None) -> None''), de_language = Some (js ''python''),
   de_parameters = None,
   de_returns = None, de_example = None,
   de_related = None,
   de_status = Some Stable, de_version = Some (js ''v1.0+''), de_deprecated = None, de_notes = None,
   de_docsHref = Some (js ''/docs/filesystem/operations''), de_source = Some \<lparr>src_file = (js ''aquilia/filesystem/_directory.py''), src_line = Some 185, src_href = None\<rparr>\<rparr>"

definition ent_artifacts_ArtifactStore :: doc_entity where
  "ent_artifacts_ArtifactStore = \<lparr>de_id = (js ''artifacts.ArtifactStore''), de_type = EClass, de_title = (js ''ArtifactStore''),
   de_description = (js ''Async facade for managing all framework-generated artifacts. Supports reading, writing, atomic transactions, integrity verification, and cleanup.''),
   de_signature = Some (js ''class ArtifactStore:'' @ [10] @ js ''    async def get(self, artifact_type: str, key: str) -> ArtifactEnvelope'' @ [10] @ js ''    async def put(self, artifact_type: str, key: str, payload: dict) -> None'' @ [10] @ js ''    async def verify(self, artifact_type: str) -> None'' @ [10] @ js ''    async def status(self) -> list[ArtifactStatus]'' @ [10] @ js ''    async def prune(self, orphaned_only: bool = False) -> int'' @ [10] @ js ''    def transaction(self) -> ArtifactTransaction''), de_language = Some (js ''python''),
   de_parameters = None,
   de_returns = None, de_example = None,
   de_related = None,
   de_status = Some Stable, de_version = Some (js ''v1.3.6+''), de_deprecated = None, de_notes = None,
   de_docsHref = Some (js ''/docs/artifacts/store''), de_source = Some \<lparr>src_file = (js ''aquilia/artifacts/store.py''), src_line = Some 42, src_href = None\<rparr>\<rparr>"

definition ent_artifacts_ArtifactEnvelope :: doc_entity where
  "ent_artifacts_ArtifactEnvelope = \<lparr>de_id = (js ''artifacts.ArtifactEnvelope''), de_type = EClass, de_title = (js ''ArtifactEnvelope''),
   de_description = (js ''The canonical JSON wire format that wraps every artifact payload, ensuring schema versioning and traceability.''),
   de_signature = Some (js ''class ArtifactEnvelope(TypedDict):'' @ [10] @ js ''    format: str'' @ [10] @ js ''    artifact_type: str'' @ [10] @ js ''    schema_version: str'' @ [10] @ js ''    key: str'' @ [10] @ js ''    fingerprint: str'' @ [10] @ js ''    created_at: str'' @ [10] @ js ''    payload: dict''), de_language = Some (js ''python''),
   de_parameters = None,
   de_returns = None, de_example = None,
   de_related = None,
   de_status = Some Stable, de_version = Some (js ''v1.3.6+''), de_deprecated = None, de_notes = None,
   de_docsHref = Some (js ''/docs/artifacts/envelope''), de_source = Some \<lparr>src_file = (js ''aquilia/artifacts/envelope.py''), src_line = Some 18, src_href = None\<rparr>\<rparr>"

definition ent_artifacts_JSONFileBackend :: doc_entity where
  "ent_artifacts_JSONFileBackend = \<lparr>de_id = (js ''artifacts.JSONFileBackend''), de_type = EClass, de_title = (js ''JSONFileBackend''),
   de_description = (js ''Physical storage layer providing atomic write guarantees and HMAC-SHA256 signing for artifacts.''),
   de_signature = Some (js ''class JSONFileBackend(ArtifactBackend):'' @ [10] @ js ''    def read_sync(self, path: Path, signed: bool = False) -> dict'' @ [10] @ js ''    def write_sync(self, path: Path, data: dict, signed: bool = False) -> None''), de_language = Some (js ''python''),
   de_parameters = None,
   de_returns = None, de_example = None,
   de_related = None,
   de_status = Some Stable, de_version = Some (js ''v1.3.6+''), de_deprecated = None, de_notes = None,
   de_docsHref = Some (js ''/docs/artifacts/backend''), de_source = Some \<lparr>src_file = (js ''aquilia/artifacts/backends/json_file.py''), src_line = Some 24, src_href = None\<rparr>\<rparr>"

definition ent_artifacts_ArtifactRegistry :: doc_entity where
  "ent_artifacts_ArtifactRegistry = \<lparr>de_id = (js ''artifacts.ArtifactRegistry''), de_type = EClass, de_title = (js ''ArtifactRegistry''),
   de_description = (js ''Central registry of all known artifact types, schemas, and configurations.''),
   de_signature = Some (js ''class ArtifactRegistry:'' @ [10] @ js ''    @classmethod'' @ [10] @ js ''    def register_artifact_type(cls, descriptor: ArtifactTypeDescriptor) -> None'' @ [10] @ js ''    @classmethod'' @ [10] @ js ''    def get_all_descriptors(cls) -> dict[str, ArtifactTypeDescriptor]''), de_language = Some (js ''python''),
   de_parameters = None,
   de_returns = None, de_example = None,
   de_related = None,
   de_status = Some Stable, de_version = Some (js ''v1.3.6+''), de_deprecated = None, de_notes = None,
   de_docsHref = Some (js ''/docs/artifacts/registry''), de_source = Some \<lparr>src_file = (js ''aquilia/artifacts/registry.py''), src_line = Some 55, src_href = None\<rparr>\<rparr>"

definition ent_native_extensions :: doc_entity where
  "ent_native_extensions = \<lparr>de_id = (js ''native.extensions''), de_type = EModule, de_title = (js ''Native Extensions Overview''),
   de_description = (js ''Aquilia features three C++ native extensions: _core, _dataengine, and _json. They use a fail-soft loading pattern. Controlled via environment variables: AQUILIA_ENGINE=0 and AQUILIA_DATAENGINE=0 disable their respective extensions (no env var for _json currently). Use engine_info() from aquilia._core_loader and dataengine_info() from aquilia._dataengine_loader for diagnostics. Use aquilia.json.backend() to check the active JSON backend.''),
   de_signature = None, de_language = None,
   de_parameters = None,
   de_returns = None, de_example = None,
   de_related = None,
   de_status = Some Stable, de_version = Some (js ''v1.4.0b1+''), de_deprecated = None, de_notes = None,
   de_docsHref = Some (js ''/docs/subsystem/native''), de_source = None\<rparr>"

definition entities_subsystemEntities :: "doc_entity list" where
  "entities_subsystemEntities = [
     ent_tasks_task, ent_tasks_Priority, ent_tasks_TaskManager, ent_tasks_MemoryBackend,
     ent_tasks_Job, ent_tasks_every, ent_tasks_cron, ent_storage_StorageBackend,
     ent_storage_StorageFile, ent_storage_StorageRegistry, ent_storage_LocalConfig, ent_storage_S3Config,
     ent_storage_StorageMetadata, ent_sqlite_create_pool, ent_sqlite_ConnectionPool, ent_sqlite_AsyncConnection,
     ent_sqlite_SqlitePoolConfig, ent_sqlite_SqliteService, ent_filesystem_FileSystem, ent_filesystem_AsyncPath,
     ent_filesystem_FileSystemConfig, ent_filesystem_async_open, ent_filesystem_read_file, ent_filesystem_write_file,
     ent_filesystem_append_file, ent_filesystem_copy_file, ent_filesystem_move_file, ent_filesystem_delete_file,
     ent_filesystem_file_exists, ent_filesystem_file_stat, ent_filesystem_list_dir, ent_filesystem_make_dir,
     ent_filesystem_remove_dir, ent_filesystem_remove_tree, ent_artifacts_ArtifactStore, ent_artifacts_ArtifactEnvelope,
     ent_artifacts_JSONFileBackend, ent_artifacts_ArtifactRegistry, ent_native_extensions]"

end
