(* ===== verification/EntitiesSecurity.thy ===== *)
theory EntitiesSecurity
  imports DocRegistry
begin

text \<open>
  The entities of the hover panels about authentication, sessions, caching, HTTP, translation, sockets, templates and mail: one definition per
  object literal of \<open>data/docEntities/authEntities.ts\<close>, \<open>data/docEntities/sessionsEntities.ts\<close>, \<open>data/docEntities/cacheHttpI18n.ts\<close>, \<open>data/docEntities/websocketsTemplatesMail.ts\<close>, and per file the list that is registered.
\<close>

subsection \<open>\<open>authEntities.ts\<close>\<close>

definition ent_auth_identity :: doc_entity where
  "ent_auth_identity = \<lparr>de_id = (js ''auth.identity''), de_type = EClass, de_title = (js ''Identity''),
   de_description = (js ''An immutable principal representation holding ID, type, tenant information, status, and attribute dictionary.''),
   de_signature = Some (js ''class Identity:'' @ [10] @ js ''    def __init__(self, id: str, type: IdentityType, attributes: dict[str, Any], status: IdentityStatus, tenant_id: str | None = None)''), de_language = Some (js ''python''),
   de_parameters = None,
   de_returns = None, de_example = None,
   de_related = None,
   de_status = Some Stable, de_version = None, de_deprecated = None, de_notes = None,
   de_docsHref = Some (js ''/docs/auth/identity''), de_source = Some \<lparr>src_file = (js ''aquilia/auth/core.py''), src_line = Some 110, src_href = None\<rparr>\<rparr>"

definition ent_auth_auth_result :: doc_entity where
  "ent_auth_auth_result = \<lparr>de_id = (js ''auth.auth_result''), de_type = EClass, de_title = (js ''AuthResult''),
   de_description = (js ''Dataclass representing the result of a successful password or token authentication challenge. Contains the identity and tokens.''),
   de_signature = Some (js ''class AuthResult:'' @ [10] @ js ''    identity: Identity'' @ [10] @ js ''    access_token: str | None = None'' @ [10] @ js ''    refresh_token: str | None = None'' @ [10] @ js ''    session_id: str | None = None'' @ [10] @ js ''    metadata: dict[str, Any] = field(default_factory=dict)''), de_language = Some (js ''python''),
   de_parameters = None,
   de_returns = None, de_example = None,
   de_related = None,
   de_status = Some Stable, de_version = None, de_deprecated = None, de_notes = None,
   de_docsHref = Some (js ''/docs/auth/manager''), de_source = Some \<lparr>src_file = (js ''aquilia/auth/core.py''), src_line = Some 510, src_href = None\<rparr>\<rparr>"

definition ent_auth_authenticated :: doc_entity where
  "ent_auth_authenticated = \<lparr>de_id = (js ''auth.authenticated''), de_type = EDecorator, de_title = (js ''@authenticated''),
   de_description = (js ''Endpoint decorator requiring a valid authenticated session or token. Supports HTML client redirection.''),
   de_signature = Some (js ''def authenticated(func=None, *, login_url=None, redirect_if_html=False, include_next=True, next_param='' @ [34] @ js ''next'' @ [34] @ js '', redirect_status=303)''), de_language = Some (js ''python''),
   de_parameters = None,
   de_returns = None, de_example = None,
   de_related = None,
   de_status = Some Stable, de_version = None, de_deprecated = None, de_notes = None,
   de_docsHref = Some (js ''/docs/auth/guards''), de_source = Some \<lparr>src_file = (js ''aquilia/auth/decorators.py''), src_line = Some 201, src_href = None\<rparr>\<rparr>"

definition ent_auth_roles_required :: doc_entity where
  "ent_auth_roles_required = \<lparr>de_id = (js ''auth.roles_required''), de_type = EDecorator, de_title = (js ''@roles_required''),
   de_description = (js ''Endpoint decorator requiring that the authenticated identity holds the specified roles.''),
   de_signature = Some (js ''def roles_required(*roles: str, require_all: bool = True)''), de_language = Some (js ''python''),
   de_parameters = None,
   de_returns = None, de_example = None,
   de_related = None,
   de_status = Some Stable, de_version = None, de_deprecated = None, de_notes = None,
   de_docsHref = Some (js ''/docs/auth/guards''), de_source = Some \<lparr>src_file = (js ''aquilia/auth/decorators.py''), src_line = Some 295, src_href = None\<rparr>\<rparr>"

definition ent_auth_scopes_required :: doc_entity where
  "ent_auth_scopes_required = \<lparr>de_id = (js ''auth.scopes_required''), de_type = EDecorator, de_title = (js ''@scopes_required''),
   de_description = (js ''Endpoint decorator requiring that the authenticated identity holds the specified OAuth scopes.''),
   de_signature = Some (js ''def scopes_required(*scopes: str, require_all: bool = True)''), de_language = Some (js ''python''),
   de_parameters = None,
   de_returns = None, de_example = None,
   de_related = None,
   de_status = Some Stable, de_version = None, de_deprecated = None, de_notes = None,
   de_docsHref = Some (js ''/docs/auth/guards''), de_source = Some \<lparr>src_file = (js ''aquilia/auth/decorators.py''), src_line = Some 311, src_href = None\<rparr>\<rparr>"

definition ent_auth_optional_auth :: doc_entity where
  "ent_auth_optional_auth = \<lparr>de_id = (js ''auth.optional_auth''), de_type = EDecorator, de_title = (js ''@optional_auth''),
   de_description = (js ''Endpoint decorator allowing both authenticated and unauthenticated requests.''),
   de_signature = Some (js ''def optional_auth(func: Callable)''), de_language = Some (js ''python''),
   de_parameters = None,
   de_returns = None, de_example = None,
   de_related = None,
   de_status = Some Stable, de_version = None, de_deprecated = None, de_notes = None,
   de_docsHref = Some (js ''/docs/auth/guards''), de_source = Some \<lparr>src_file = (js ''aquilia/auth/decorators.py''), src_line = Some 327, src_href = None\<rparr>\<rparr>"

definition ent_auth_authz_engine :: doc_entity where
  "ent_auth_authz_engine = \<lparr>de_id = (js ''auth.authz_engine''), de_type = EClass, de_title = (js ''AuthzEngine''),
   de_description = (js ''The legacy authorization evaluation engine. Coordinates RBAC role/permission mappings and ABAC policy checks.''),
   de_signature = Some (js ''class AuthzEngine:'' @ [10] @ js ''    def __init__(self, rbac: RBACEngine | None = None, abac: ABACEngine | None = None)''), de_language = Some (js ''python''),
   de_parameters = None,
   de_returns = None, de_example = None,
   de_related = None,
   de_status = Some Stable, de_version = None, de_deprecated = None, de_notes = None,
   de_docsHref = Some (js ''/docs/authz''), de_source = Some \<lparr>src_file = (js ''aquilia/auth/authz.py''), src_line = Some 258, src_href = None\<rparr>\<rparr>"

definition ent_auth_permission_engine :: doc_entity where
  "ent_auth_permission_engine = \<lparr>de_id = (js ''auth.permission_engine''), de_type = EClass, de_title = (js ''PermissionEngine''),
   de_description = (js ''Unified authorization engine combining RBAC, scope-based, and policy-based access control in a single consistent API.''),
   de_signature = Some (js ''class PermissionEngine:'' @ [10] @ js ''    def __init__(self)''), de_language = Some (js ''python''),
   de_parameters = None,
   de_returns = None, de_example = None,
   de_related = None,
   de_status = Some Stable, de_version = None, de_deprecated = None, de_notes = None,
   de_docsHref = Some (js ''/docs/auth/guards''), de_source = Some \<lparr>src_file = (js ''aquilia/auth/permissions.py''), src_line = Some 40, src_href = None\<rparr>\<rparr>"

definition ent_auth_auth_manager :: doc_entity where
  "ent_auth_auth_manager = \<lparr>de_id = (js ''auth.auth_manager''), de_type = EClass, de_title = (js ''AuthManager''),
   de_description = (js ''Central coordinator for all authentication operations. Orchestrates identity verification, token issuance, and session management.''),
   de_signature = Some (js ''class AuthManager:'' @ [10] @ js ''    def __init__(self, token_manager: TokenManager, identity_store: IdentityStore | None = None, credential_store: CredentialStore | None = None, password_hasher: PasswordHasher | None = None, rate_limiter: RateLimiter | None = None)''), de_language = Some (js ''python''),
   de_parameters = None,
   de_returns = None, de_example = None,
   de_related = None,
   de_status = Some Stable, de_version = None, de_deprecated = None, de_notes = None,
   de_docsHref = Some (js ''/docs/auth/manager''), de_source = Some \<lparr>src_file = (js ''aquilia/auth/manager.py''), src_line = Some 158, src_href = None\<rparr>\<rparr>"

definition ent_auth_auth_middleware :: doc_entity where
  "ent_auth_auth_middleware = \<lparr>de_id = (js ''auth.auth_middleware''), de_type = EClass, de_title = (js ''AuthMiddleware''),
   de_description = (js ''Unified HTTP middleware for Auth + Sessions + DI integration. Resolves sessions and validates identity using pluggable backends.''),
   de_signature = Some (js ''class AuthMiddleware(Middleware):'' @ [10] @ js ''    def __init__(self, auth_manager: AuthManager, session_engine: SessionEngine | None = None, *, require_auth: bool = False, backends: list[AuthBackend] | None = None)''), de_language = Some (js ''python''),
   de_parameters = None,
   de_returns = None, de_example = None,
   de_related = None,
   de_status = Some Stable, de_version = None, de_deprecated = None, de_notes = None,
   de_docsHref = Some (js ''/docs/auth/integration''), de_source = Some \<lparr>src_file = (js ''aquilia/auth/middleware.py''), src_line = Some 28, src_href = None\<rparr>\<rparr>"

definition ent_auth_token_manager :: doc_entity where
  "ent_auth_token_manager = \<lparr>de_id = (js ''auth.token_manager''), de_type = EClass, de_title = (js ''TokenManager''),
   de_description = (js ''Manages the lifecycle of cryptographic tokens. Issues access tokens (JWTs) and refresh tokens (opaque), verifies them, and handles revocation.''),
   de_signature = Some (js ''class TokenManager:'' @ [10] @ js ''    def __init__(self, key_ring: KeyRing, token_store: TokenStore)''), de_language = Some (js ''python''),
   de_parameters = None,
   de_returns = None, de_example = None,
   de_related = None,
   de_status = Some Stable, de_version = None, de_deprecated = None, de_notes = None,
   de_docsHref = Some (js ''/docs/auth/tokens''), de_source = Some \<lparr>src_file = (js ''aquilia/auth/tokens.py''), src_line = Some 15, src_href = None\<rparr>\<rparr>"

definition ent_auth_password_credential :: doc_entity where
  "ent_auth_password_credential = \<lparr>de_id = (js ''auth.password_credential''), de_type = EClass, de_title = (js ''PasswordCredential''),
   de_description = (js ''Credential holding a user'' @ [39] @ js ''s password hash. Typically verified using Argon2id.''),
   de_signature = Some (js ''class PasswordCredential:'' @ [10] @ js ''    identity_id: str'' @ [10] @ js ''    password_hash: str''), de_language = Some (js ''python''),
   de_parameters = None,
   de_returns = None, de_example = None,
   de_related = None,
   de_status = Some Stable, de_version = None, de_deprecated = None, de_notes = None,
   de_docsHref = Some (js ''/docs/auth/credentials''), de_source = Some \<lparr>src_file = (js ''aquilia/auth/core.py''), src_line = Some 110, src_href = None\<rparr>\<rparr>"

definition ent_auth_api_key_credential :: doc_entity where
  "ent_auth_api_key_credential = \<lparr>de_id = (js ''auth.api_key_credential''), de_type = EClass, de_title = (js ''ApiKeyCredential''),
   de_description = (js ''Credential representing an API key. Securely stored via hashing and matching key prefix.''),
   de_signature = Some (js ''class ApiKeyCredential:'' @ [10] @ js ''    key_id: str'' @ [10] @ js ''    identity_id: str'' @ [10] @ js ''    prefix: str'' @ [10] @ js ''    secret_hash: str''), de_language = Some (js ''python''),
   de_parameters = None,
   de_returns = None, de_example = None,
   de_related = None,
   de_status = Some Stable, de_version = None, de_deprecated = None, de_notes = None,
   de_docsHref = Some (js ''/docs/auth/credentials''), de_source = Some \<lparr>src_file = (js ''aquilia/auth/core.py''), src_line = Some 176, src_href = None\<rparr>\<rparr>"

definition ent_auth_auth_guard :: doc_entity where
  "ent_auth_auth_guard = \<lparr>de_id = (js ''auth.auth_guard''), de_type = EClass, de_title = (js ''AuthGuard''),
   de_description = (js ''Stateless guard requiring an authenticated identity, supporting proactive Bearer token validation.''),
   de_signature = Some (js ''class AuthGuard:'' @ [10] @ js ''    def __init__(self, auth_manager: Any | None = None, *, optional: bool = False)'' @ [10] @ js ''    def check(self, ctx: Any) -> None''), de_language = Some (js ''python''),
   de_parameters = None,
   de_returns = None, de_example = None,
   de_related = None,
   de_status = Some Stable, de_version = None, de_deprecated = None, de_notes = None,
   de_docsHref = Some (js ''/docs/auth/guards''), de_source = Some \<lparr>src_file = (js ''aquilia/auth/guards.py''), src_line = Some 133, src_href = None\<rparr>\<rparr>"

definition ent_auth_role_guard :: doc_entity where
  "ent_auth_role_guard = \<lparr>de_id = (js ''auth.role_guard''), de_type = EClass, de_title = (js ''RoleGuard''),
   de_description = (js ''Guard requiring the identity to possess specific roles, supporting inheritance via PermissionEngine.''),
   de_signature = Some (js ''class RoleGuard:'' @ [10] @ js ''    def __init__(self, *roles: str, engine: Any | None = None, require_all: bool = True)'' @ [10] @ js ''    def check(self, ctx: Any) -> None''), de_language = Some (js ''python''),
   de_parameters = None,
   de_returns = None, de_example = None,
   de_related = None,
   de_status = Some Stable, de_version = None, de_deprecated = None, de_notes = None,
   de_docsHref = Some (js ''/docs/auth/guards''), de_source = Some \<lparr>src_file = (js ''aquilia/auth/guards.py''), src_line = Some 288, src_href = None\<rparr>\<rparr>"

definition ent_auth_scope_guard :: doc_entity where
  "ent_auth_scope_guard = \<lparr>de_id = (js ''auth.scope_guard''), de_type = EClass, de_title = (js ''ScopeGuard''),
   de_description = (js ''Guard requiring the identity to possess specific OAuth scopes.''),
   de_signature = Some (js ''class ScopeGuard:'' @ [10] @ js ''    def __init__(self, *scopes: str, require_all: bool = True)'' @ [10] @ js ''    def check(self, ctx: Any) -> None''), de_language = Some (js ''python''),
   de_parameters = None,
   de_returns = None, de_example = None,
   de_related = None,
   de_status = Some Stable, de_version = None, de_deprecated = None, de_notes = None,
   de_docsHref = Some (js ''/docs/auth/guards''), de_source = Some \<lparr>src_file = (js ''aquilia/auth/guards.py''), src_line = Some 376, src_href = None\<rparr>\<rparr>"

definition ent_auth_policy_guard :: doc_entity where
  "ent_auth_policy_guard = \<lparr>de_id = (js ''auth.policy_guard''), de_type = EClass, de_title = (js ''PolicyGuard''),
   de_description = (js ''Guard enforcing a named policy from a PermissionEngine.''),
   de_signature = Some (js ''class PolicyGuard:'' @ [10] @ js ''    def __init__(self, key: str, engine: Any, resource: Any = None)'' @ [10] @ js ''    def check(self, ctx: Any) -> None''), de_language = Some (js ''python''),
   de_parameters = None,
   de_returns = None, de_example = None,
   de_related = None,
   de_status = Some Stable, de_version = None, de_deprecated = None, de_notes = None,
   de_docsHref = Some (js ''/docs/auth/guards''), de_source = Some \<lparr>src_file = (js ''aquilia/auth/guards.py''), src_line = Some 437, src_href = None\<rparr>\<rparr>"

definition ent_auth_rbac_engine :: doc_entity where
  "ent_auth_rbac_engine = \<lparr>de_id = (js ''auth.rbac_engine''), de_type = EClass, de_title = (js ''RBACEngine''),
   de_description = (js ''Role-Based Access Control engine (legacy). Defines roles, hierarchies, inherits, and permissions.''),
   de_signature = Some (js ''class RBACEngine:'' @ [10] @ js ''    def define_role(self, role: str, permissions: list[str], inherits: list[str] | None = None) -> None'' @ [10] @ js ''    def check_permission(self, roles: list[str], permission: str) -> bool''), de_language = Some (js ''python''),
   de_parameters = None,
   de_returns = None, de_example = None,
   de_related = None,
   de_status = Some Stable, de_version = None, de_deprecated = None, de_notes = None,
   de_docsHref = Some (js ''/docs/authz/rbac''), de_source = Some \<lparr>src_file = (js ''aquilia/auth/authz.py''), src_line = Some 67, src_href = None\<rparr>\<rparr>"

definition ent_auth_abac_engine :: doc_entity where
  "ent_auth_abac_engine = \<lparr>de_id = (js ''auth.abac_engine''), de_type = EClass, de_title = (js ''ABACEngine''),
   de_description = (js ''Attribute-Based Access Control engine (legacy). Evaluates policies based on attributes of identity, resource, and context.''),
   de_signature = Some (js ''class ABACEngine:'' @ [10] @ js ''    def register_policy(self, policy_id: str, policy_func: Callable[[AuthzContext], AuthzResult]) -> None'' @ [10] @ js ''    def evaluate(self, context: AuthzContext, policy_id: str) -> AuthzResult''), de_language = Some (js ''python''),
   de_parameters = None,
   de_returns = None, de_example = None,
   de_related = None,
   de_status = Some Stable, de_version = None, de_deprecated = None, de_notes = None,
   de_docsHref = Some (js ''/docs/authz/abac''), de_source = Some \<lparr>src_file = (js ''aquilia/auth/authz.py''), src_line = Some 159, src_href = None\<rparr>\<rparr>"

definition ent_auth_password_backend :: doc_entity where
  "ent_auth_password_backend = \<lparr>de_id = (js ''auth.password_backend''), de_type = EClass, de_title = (js ''PasswordBackend''),
   de_description = (js ''pluggable auth backend for verifying password credentials using Argon2id with re-hashing support.''),
   de_signature = Some (js ''class PasswordBackend:'' @ [10] @ js ''    def __init__(self, identity_store: IdentityStore, credential_store: CredentialStore, password_hasher: PasswordHasher, rate_limiter: Any | None = None, login_attributes: tuple[str, ...] = ('' @ [34] @ js ''email'' @ [34] @ js '', '' @ [34] @ js ''username'' @ [34] @ js '', '' @ [34] @ js ''login'' @ [34] @ js ''))''), de_language = Some (js ''python''),
   de_parameters = None,
   de_returns = None, de_example = None,
   de_related = None,
   de_status = Some Stable, de_version = None, de_deprecated = None, de_notes = None,
   de_docsHref = Some (js ''/docs/auth/integration''), de_source = Some \<lparr>src_file = (js ''aquilia/auth/backends/password.py''), src_line = Some 14, src_href = None\<rparr>\<rparr>"

definition ent_auth_token_backend :: doc_entity where
  "ent_auth_token_backend = \<lparr>de_id = (js ''auth.token_backend''), de_type = EClass, de_title = (js ''TokenBackend''),
   de_description = (js ''pluggable auth backend for validating JWT Bearer tokens and loading bound Identity.''),
   de_signature = Some (js ''class TokenBackend:'' @ [10] @ js ''    def __init__(self, token_manager: TokenManager, identity_store: IdentityStore)''), de_language = Some (js ''python''),
   de_parameters = None,
   de_returns = None, de_example = None,
   de_related = None,
   de_status = Some Stable, de_version = None, de_deprecated = None, de_notes = None,
   de_docsHref = Some (js ''/docs/auth/integration''), de_source = Some \<lparr>src_file = (js ''aquilia/auth/backends/token.py''), src_line = Some 14, src_href = None\<rparr>\<rparr>"

definition entities_authEntities :: "doc_entity list" where
  "entities_authEntities = [
     ent_auth_identity, ent_auth_auth_result, ent_auth_authenticated, ent_auth_roles_required,
     ent_auth_scopes_required, ent_auth_optional_auth, ent_auth_authz_engine, ent_auth_permission_engine,
     ent_auth_auth_manager, ent_auth_auth_middleware, ent_auth_token_manager, ent_auth_password_credential,
     ent_auth_api_key_credential, ent_auth_auth_guard, ent_auth_role_guard, ent_auth_scope_guard,
     ent_auth_policy_guard, ent_auth_rbac_engine, ent_auth_abac_engine, ent_auth_password_backend,
     ent_auth_token_backend]"

subsection \<open>\<open>sessionsEntities.ts\<close>\<close>

definition ent_sessions_session_id :: doc_entity where
  "ent_sessions_session_id = \<lparr>de_id = (js ''sessions.session_id''), de_type = EClass, de_title = (js ''SessionID''),
   de_description = (js ''Cryptographically secure URL-safe base64 session identifier containing 256 bits of entropy and a '' @ [34] @ js ''sess_'' @ [34] @ js '' prefix.''),
   de_signature = Some (js ''class SessionID:'' @ [10] @ js ''    def __init__(self, raw: bytes | None = None)'' @ [10, 10] @ js ''    @classmethod'' @ [10] @ js ''    def from_string(cls, encoded: str) -> SessionID''), de_language = Some (js ''python''),
   de_parameters = None,
   de_returns = None, de_example = None,
   de_related = None,
   de_status = Some Stable, de_version = Some (js ''v1.0+''), de_deprecated = None, de_notes = None,
   de_docsHref = Some (js ''/docs/sessions/overview''), de_source = Some \<lparr>src_file = (js ''aquilia/sessions/core.py''), src_line = Some 92, src_href = None\<rparr>\<rparr>"

definition ent_sessions_session :: doc_entity where
  "ent_sessions_session = \<lparr>de_id = (js ''sessions.session''), de_type = EClass, de_title = (js ''Session''),
   de_description = (js ''Server-side session data container with mutation dirty-tracking, authentication bindings, and TTL timeouts. Uses _DirtyTrackingDict for automagic dirty detection.''),
   de_signature = Some (js ''class Session:'' @ [10] @ js ''    def __init__(self,'' @ [10] @ js ''        id: SessionID,'' @ [10] @ js ''        principal: SessionPrincipal | None = None,'' @ [10] @ js ''        data: dict[str, Any] | None = None,'' @ [10] @ js ''        scope: SessionScope = SessionScope.USER'' @ [10] @ js ''    )'' @ [10, 10] @ js ''    def touch(self, now: datetime | None = None) -> None'' @ [10] @ js ''    def extend_expiry(self, ttl: timedelta, now: datetime | None = None) -> None'' @ [10] @ js ''    def mark_authenticated(self, principal: SessionPrincipal) -> None'' @ [10] @ js ''    def clear_authentication(self) -> None''), de_language = Some (js ''python''),
   de_parameters = None,
   de_returns = None, de_example = None,
   de_related = None,
   de_status = Some Stable, de_version = Some (js ''v1.0+''), de_deprecated = None, de_notes = None,
   de_docsHref = Some (js ''/docs/sessions/overview''), de_source = Some \<lparr>src_file = (js ''aquilia/sessions/core.py''), src_line = Some 257, src_href = None\<rparr>\<rparr>"

definition ent_sessions_principal :: doc_entity where
  "ent_sessions_principal = \<lparr>de_id = (js ''sessions.principal''), de_type = EClass, de_title = (js ''SessionPrincipal''),
   de_description = (js ''Represents the bound user, service, or device identity for an authenticated session.''),
   de_signature = Some (js ''class SessionPrincipal:'' @ [10] @ js ''    kind: Literal['' @ [34] @ js ''user'' @ [34] @ js '', '' @ [34] @ js ''service'' @ [34] @ js '', '' @ [34] @ js ''device'' @ [34] @ js '', '' @ [34] @ js ''anonymous'' @ [34] @ js '']'' @ [10] @ js ''    id: str'' @ [10] @ js ''    attributes: dict[str, Any] = field(default_factory=dict)'' @ [10, 10] @ js ''    def is_user(self) -> bool'' @ [10] @ js ''    def is_service(self) -> bool''), de_language = Some (js ''python''),
   de_parameters = None,
   de_returns = None, de_example = None,
   de_related = None,
   de_status = Some Stable, de_version = Some (js ''v1.0+''), de_deprecated = None, de_notes = None,
   de_docsHref = Some (js ''/docs/sessions/overview''), de_source = Some \<lparr>src_file = (js ''aquilia/sessions/core.py''), src_line = Some 214, src_href = None\<rparr>\<rparr>"

definition ent_sessions_scope :: doc_entity where
  "ent_sessions_scope = \<lparr>de_id = (js ''sessions.scope''), de_type = EType, de_title = (js ''SessionScope''),
   de_description = (js ''Enum defining session lifetime and persistence behavior: USER, DEVICE, CONNECTION, or REQUEST (ephemeral).''),
   de_signature = Some (js ''class SessionScope(str, Enum):'' @ [10] @ js ''    REQUEST = '' @ [34] @ js ''request'' @ [34, 10] @ js ''    CONNECTION = '' @ [34] @ js ''connection'' @ [34, 10] @ js ''    USER = '' @ [34] @ js ''user'' @ [34, 10] @ js ''    DEVICE = '' @ [34] @ js ''device'' @ [34]), de_language = Some (js ''python''),
   de_parameters = None,
   de_returns = None, de_example = None,
   de_related = None,
   de_status = Some Stable, de_version = Some (js ''v1.0+''), de_deprecated = None, de_notes = None,
   de_docsHref = Some (js ''/docs/sessions/overview''), de_source = Some \<lparr>src_file = (js ''aquilia/sessions/core.py''), src_line = Some 181, src_href = None\<rparr>\<rparr>"

definition ent_sessions_flag :: doc_entity where
  "ent_sessions_flag = \<lparr>de_id = (js ''sessions.flag''), de_type = EType, de_title = (js ''SessionFlag''),
   de_description = (js ''Security markers and capabilities applied to active sessions (e.g., AUTHENTICATED, EPHEMERAL, ROTATABLE, RENEWABLE, READ_ONLY, LOCKED).''),
   de_signature = Some (js ''class SessionFlag(str, Enum):'' @ [10] @ js ''    AUTHENTICATED = '' @ [34] @ js ''authenticated'' @ [34, 10] @ js ''    EPHEMERAL = '' @ [34] @ js ''ephemeral'' @ [34, 10] @ js ''    ROTATABLE = '' @ [34] @ js ''rotatable'' @ [34, 10] @ js ''    RENEWABLE = '' @ [34] @ js ''renewable'' @ [34, 10] @ js ''    READ_ONLY = '' @ [34] @ js ''read_only'' @ [34, 10] @ js ''    LOCKED = '' @ [34] @ js ''locked'' @ [34]), de_language = Some (js ''python''),
   de_parameters = None,
   de_returns = None, de_example = None,
   de_related = None,
   de_status = Some Stable, de_version = Some (js ''v1.0+''), de_deprecated = None, de_notes = None,
   de_docsHref = Some (js ''/docs/sessions/overview''), de_source = Some \<lparr>src_file = (js ''aquilia/sessions/core.py''), src_line = Some 199, src_href = None\<rparr>\<rparr>"

definition ent_sessions_policy :: doc_entity where
  "ent_sessions_policy = \<lparr>de_id = (js ''sessions.policy''), de_type = EClass, de_title = (js ''SessionPolicy''),
   de_description = (js ''Frozen master configuration defining timeouts (TTL, idle, absolute), concurrency rules, and transports.''),
   de_signature = Some (js ''class SessionPolicy:'' @ [10] @ js ''    name: str'' @ [10] @ js ''    ttl: timedelta | None = None'' @ [10] @ js ''    idle_timeout: timedelta | None = None'' @ [10] @ js ''    absolute_timeout: timedelta | None = None'' @ [10] @ js ''    rotate_on_use: bool = False'' @ [10] @ js ''    rotate_on_privilege_change: bool = True'' @ [10] @ js ''    fingerprint_binding: bool = False''), de_language = Some (js ''python''),
   de_parameters = None,
   de_returns = None, de_example = None,
   de_related = None,
   de_status = Some Stable, de_version = Some (js ''v1.0+''), de_deprecated = None, de_notes = None,
   de_docsHref = Some (js ''/docs/sessions/policies''), de_source = Some \<lparr>src_file = (js ''aquilia/sessions/policy.py''), src_line = Some 99, src_href = None\<rparr>\<rparr>"

definition ent_sessions_policy_builder :: doc_entity where
  "ent_sessions_policy_builder = \<lparr>de_id = (js ''sessions.policy_builder''), de_type = EClass, de_title = (js ''SessionPolicyBuilder''),
   de_description = (js ''Fluent builder for creating SessionPolicy configurations with sensible defaults (web, API, mobile, admin).''),
   de_signature = Some (js ''class SessionPolicyBuilder:'' @ [10] @ js ''    def named(self, name: str) -> SessionPolicyBuilder'' @ [10] @ js ''    def lasting(self, days: int = None, hours: int = None, minutes: int = None) -> SessionPolicyBuilder'' @ [10] @ js ''    def idle_timeout(self, hours: int = None, minutes: int = None, days: int = None) -> SessionPolicyBuilder'' @ [10] @ js ''    def absolute_timeout(self, hours: int = None, minutes: int = None, days: int = None) -> SessionPolicyBuilder'' @ [10] @ js ''    def with_fingerprint_binding(self) -> SessionPolicyBuilder'' @ [10] @ js ''    def rotating_on_auth(self) -> SessionPolicyBuilder'' @ [10] @ js ''    def rotating_on_use(self) -> SessionPolicyBuilder'' @ [10] @ js ''    def max_concurrent(self, limit: int) -> SessionPolicyBuilder'' @ [10] @ js ''    def build(self) -> SessionPolicy''), de_language = Some (js ''python''),
   de_parameters = None,
   de_returns = None, de_example = None,
   de_related = None,
   de_status = Some Stable, de_version = Some (js ''v1.0+''), de_deprecated = None, de_notes = None,
   de_docsHref = Some (js ''/docs/sessions/policies''), de_source = Some \<lparr>src_file = (js ''aquilia/sessions/policy.py''), src_line = Some 273, src_href = None\<rparr>\<rparr>"

definition ent_sessions_engine :: doc_entity where
  "ent_sessions_engine = \<lparr>de_id = (js ''sessions.engine''), de_type = EClass, de_title = (js ''SessionEngine''),
   de_description = (js ''Central lifecycle orchestrator managing session detection, resolution, validation, binding, commit, and emission.''),
   de_signature = Some (js ''class SessionEngine:'' @ [10] @ js ''    def __init__(self, policy: SessionPolicy, store: SessionStore, transport: SessionTransport)'' @ [10, 10] @ js ''    async def resolve(self, request: Request, container: Container | None = None) -> Session'' @ [10] @ js ''    async def commit(self, session: Session, response: Response, privilege_changed: bool = False) -> None'' @ [10] @ js ''    async def destroy(self, session: Session, response: Response) -> None'' @ [10] @ js ''    async def check_concurrency(self, session: Session) -> None''), de_language = Some (js ''python''),
   de_parameters = None,
   de_returns = None, de_example = None,
   de_related = None,
   de_status = Some Stable, de_version = Some (js ''v1.0+''), de_deprecated = None, de_notes = None,
   de_docsHref = Some (js ''/docs/sessions/engine''), de_source = Some \<lparr>src_file = (js ''aquilia/sessions/engine.py''), src_line = Some 48, src_href = None\<rparr>\<rparr>"

definition ent_sessions_store :: doc_entity where
  "ent_sessions_store = \<lparr>de_id = (js ''sessions.store''), de_type = EClass, de_title = (js ''SessionStore''),
   de_description = (js ''Protocol defining session persistence backends. Stores are pure storage layers and do not enforce policy.''),
   de_signature = Some (js ''class SessionStore(Protocol):'' @ [10] @ js ''    async def load(self, session_id: SessionID) -> Session | None'' @ [10] @ js ''    async def save(self, session: Session) -> None'' @ [10] @ js ''    async def delete(self, session_id: SessionID) -> None'' @ [10] @ js ''    async def exists(self, session_id: SessionID) -> bool'' @ [10] @ js ''    async def list_by_principal(self, principal_id: str) -> list[Session]'' @ [10] @ js ''    async def count_by_principal(self, principal_id: str) -> int'' @ [10] @ js ''    async def cleanup_expired(self) -> int'' @ [10] @ js ''    async def shutdown(self) -> None''), de_language = Some (js ''python''),
   de_parameters = None,
   de_returns = None, de_example = None,
   de_related = None,
   de_status = Some Stable, de_version = Some (js ''v1.0+''), de_deprecated = None, de_notes = None,
   de_docsHref = Some (js ''/docs/sessions/stores''), de_source = Some \<lparr>src_file = (js ''aquilia/sessions/store.py''), src_line = Some 31, src_href = None\<rparr>\<rparr>"

definition ent_sessions_memory_store :: doc_entity where
  "ent_sessions_memory_store = \<lparr>de_id = (js ''sessions.memory_store''), de_type = EClass, de_title = (js ''MemoryStore''),
   de_description = (js ''In-memory session storage using an OrderedDict for O(1) LRU evictions and locks for safety. Dev/testing only.''),
   de_signature = Some (js ''class MemoryStore:'' @ [10] @ js ''    def __init__(self, max_sessions: int = 10000)'' @ [10, 10] @ js ''    @classmethod'' @ [10] @ js ''    def web_optimized(cls) -> MemoryStore'' @ [10] @ js ''    @classmethod'' @ [10] @ js ''    def api_optimized(cls) -> MemoryStore''), de_language = Some (js ''python''),
   de_parameters = None,
   de_returns = None, de_example = None,
   de_related = None,
   de_status = Some Stable, de_version = Some (js ''v1.0+''), de_deprecated = None, de_notes = None,
   de_docsHref = Some (js ''/docs/sessions/stores''), de_source = Some \<lparr>src_file = (js ''aquilia/sessions/store.py''), src_line = Some 54, src_href = None\<rparr>\<rparr>"

definition ent_sessions_file_store :: doc_entity where
  "ent_sessions_file_store = \<lparr>de_id = (js ''sessions.file_store''), de_type = EClass, de_title = (js ''FileStore''),
   de_description = (js ''File-based session store persisting each session as a JSON file. Employs atomic temp-write + rename for safety.''),
   de_signature = Some (js ''class FileStore:'' @ [10] @ js ''    def __init__(self, directory: str | Path)''), de_language = Some (js ''python''),
   de_parameters = None,
   de_returns = None, de_example = None,
   de_related = None,
   de_status = Some Stable, de_version = Some (js ''v1.0+''), de_deprecated = None, de_notes = None,
   de_docsHref = Some (js ''/docs/sessions/stores''), de_source = Some \<lparr>src_file = (js ''aquilia/sessions/store.py''), src_line = Some 196, src_href = None\<rparr>\<rparr>"

definition ent_sessions_transport :: doc_entity where
  "ent_sessions_transport = \<lparr>de_id = (js ''sessions.transport''), de_type = EClass, de_title = (js ''SessionTransport''),
   de_description = (js ''Protocol managing the delivery, extraction, and clearance of session ID tokens via HTTP adapters.''),
   de_signature = Some (js ''class SessionTransport(Protocol):'' @ [10] @ js ''    def extract(self, request: Request) -> str | None'' @ [10] @ js ''    def inject(self, response: Response, session: Session) -> None'' @ [10] @ js ''    def clear(self, response: Response) -> None''), de_language = Some (js ''python''),
   de_parameters = None,
   de_returns = None, de_example = None,
   de_related = None,
   de_status = Some Stable, de_version = Some (js ''v1.0+''), de_deprecated = None, de_notes = None,
   de_docsHref = Some (js ''/docs/sessions/transport''), de_source = Some \<lparr>src_file = (js ''aquilia/sessions/transport.py''), src_line = Some 27, src_href = None\<rparr>\<rparr>"

definition ent_sessions_cookie_transport :: doc_entity where
  "ent_sessions_cookie_transport = \<lparr>de_id = (js ''sessions.cookie_transport''), de_type = EClass, de_title = (js ''CookieTransport''),
   de_description = (js ''Standard cookie-based session transport. Integrates secure SameSite, Secure, HttpOnly, and path parameters.''),
   de_signature = Some (js ''class CookieTransport:'' @ [10] @ js ''    def __init__(self, policy: TransportPolicy)'' @ [10, 10] @ js ''    @classmethod'' @ [10] @ js ''    def for_web_browsers(cls) -> CookieTransport'' @ [10] @ js ''    @classmethod'' @ [10] @ js ''    def for_spa_applications(cls) -> CookieTransport''), de_language = Some (js ''python''),
   de_parameters = None,
   de_returns = None, de_example = None,
   de_related = None,
   de_status = Some Stable, de_version = Some (js ''v1.0+''), de_deprecated = None, de_notes = None,
   de_docsHref = Some (js ''/docs/sessions/transport''), de_source = Some \<lparr>src_file = (js ''aquilia/sessions/transport.py''), src_line = Some 47, src_href = None\<rparr>\<rparr>"

definition ent_sessions_header_transport :: doc_entity where
  "ent_sessions_header_transport = \<lparr>de_id = (js ''sessions.header_transport''), de_type = EClass, de_title = (js ''HeaderTransport''),
   de_description = (js ''Custom header-based session transport (e.g. X-Session-ID), ideal for client-side API calls and mobile apps.''),
   de_signature = Some (js ''class HeaderTransport:'' @ [10] @ js ''    def __init__(self, policy: TransportPolicy)'' @ [10, 10] @ js ''    @classmethod'' @ [10] @ js ''    def for_rest_apis(cls) -> HeaderTransport'' @ [10] @ js ''    @classmethod'' @ [10] @ js ''    def for_mobile_apis(cls) -> HeaderTransport''), de_language = Some (js ''python''),
   de_parameters = None,
   de_returns = None, de_example = None,
   de_related = None,
   de_status = Some Stable, de_version = Some (js ''v1.0+''), de_deprecated = None, de_notes = None,
   de_docsHref = Some (js ''/docs/sessions/transport''), de_source = Some \<lparr>src_file = (js ''aquilia/sessions/transport.py''), src_line = Some 208, src_href = None\<rparr>\<rparr>"

definition ent_sessions_decorator_require :: doc_entity where
  "ent_sessions_decorator_require = \<lparr>de_id = (js ''sessions.decorator_require''), de_type = EDecorator, de_title = (js ''session.require''),
   de_description = (js ''Decorator enforcing an existing session. Can optionally require authentication.''),
   de_signature = Some (js ''@session.require(authenticated: bool = False)''), de_language = Some (js ''python''),
   de_parameters = None,
   de_returns = None, de_example = None,
   de_related = None,
   de_status = Some Stable, de_version = Some (js ''v1.0+''), de_deprecated = None, de_notes = None,
   de_docsHref = Some (js ''/docs/sessions/decorators''), de_source = Some \<lparr>src_file = (js ''aquilia/sessions/decorators.py''), src_line = Some 93, src_href = None\<rparr>\<rparr>"

definition ent_sessions_decorator_ensure :: doc_entity where
  "ent_sessions_decorator_ensure = \<lparr>de_id = (js ''sessions.decorator_ensure''), de_type = EDecorator, de_title = (js ''session.ensure''),
   de_description = (js ''Decorator ensuring a session exists; resolves the current one or constructs a fresh anonymous session.''),
   de_signature = Some (js ''@session.ensure()''), de_language = Some (js ''python''),
   de_parameters = None,
   de_returns = None, de_example = None,
   de_related = None,
   de_status = Some Stable, de_version = Some (js ''v1.0+''), de_deprecated = None, de_notes = None,
   de_docsHref = Some (js ''/docs/sessions/decorators''), de_source = Some \<lparr>src_file = (js ''aquilia/sessions/decorators.py''), src_line = Some 130, src_href = None\<rparr>\<rparr>"

definition ent_sessions_decorator_optional :: doc_entity where
  "ent_sessions_decorator_optional = \<lparr>de_id = (js ''sessions.decorator_optional''), de_type = EDecorator, de_title = (js ''session.optional''),
   de_description = (js ''Decorator resolving a session if present, but allowing handlers to run without one (receiving None).''),
   de_signature = Some (js ''@session.optional()''), de_language = Some (js ''python''),
   de_parameters = None,
   de_returns = None, de_example = None,
   de_related = None,
   de_status = Some Stable, de_version = Some (js ''v1.0+''), de_deprecated = None, de_notes = None,
   de_docsHref = Some (js ''/docs/sessions/decorators''), de_source = Some \<lparr>src_file = (js ''aquilia/sessions/decorators.py''), src_line = Some 190, src_href = None\<rparr>\<rparr>"

definition ent_sessions_decorator_stateful :: doc_entity where
  "ent_sessions_decorator_stateful = \<lparr>de_id = (js ''sessions.decorator_stateful''), de_type = EDecorator, de_title = (js ''stateful''),
   de_description = (js ''Bare decorator that inspects parameters, instantiates a typed SessionState class from session.data, and injects it.''),
   de_signature = Some (js ''@stateful'' @ [10] @ js ''async def handler(ctx, state: CartState):''), de_language = Some (js ''python''),
   de_parameters = None,
   de_returns = None, de_example = None,
   de_related = None,
   de_status = Some Stable, de_version = Some (js ''v1.0+''), de_deprecated = None, de_notes = None,
   de_docsHref = Some (js ''/docs/sessions/decorators''), de_source = Some \<lparr>src_file = (js ''aquilia/sessions/decorators.py''), src_line = Some 224, src_href = None\<rparr>\<rparr>"

definition ent_sessions_context :: doc_entity where
  "ent_sessions_context = \<lparr>de_id = (js ''sessions.context''), de_type = EClass, de_title = (js ''SessionContext''),
   de_description = (js ''Singleton context manager containing asynchronous context managers for scoped, verified, or transactional session blocks.''),
   de_signature = Some (js ''SessionContext:'' @ [10] @ js ''    @asynccontextmanager'' @ [10] @ js ''    async def authenticated(ctx) -> AsyncIterator[Session]'' @ [10] @ js ''    @asynccontextmanager'' @ [10] @ js ''    async def ensure(ctx) -> AsyncIterator[Session]'' @ [10] @ js ''    @asynccontextmanager'' @ [10] @ js ''    async def transactional(ctx) -> AsyncIterator[Session]''), de_language = Some (js ''python''),
   de_parameters = None,
   de_returns = None, de_example = None,
   de_related = None,
   de_status = Some Stable, de_version = Some (js ''v1.0+''), de_deprecated = None, de_notes = None,
   de_docsHref = Some (js ''/docs/sessions/guards''), de_source = Some \<lparr>src_file = (js ''aquilia/sessions/decorators.py''), src_line = Some 268, src_href = None\<rparr>\<rparr>"

definition ent_sessions_state :: doc_entity where
  "ent_sessions_state = \<lparr>de_id = (js ''sessions.state''), de_type = EClass, de_title = (js ''SessionState''),
   de_description = (js ''Base class for typed session states synced bidirectionally with session data.''),
   de_signature = Some (js ''class SessionState:'' @ [10] @ js ''    def __init__(self, data: dict[str, Any])'' @ [10] @ js ''    def to_dict(self) -> dict[str, Any]''), de_language = Some (js ''python''),
   de_parameters = None,
   de_returns = None, de_example = None,
   de_related = None,
   de_status = Some Stable, de_version = Some (js ''v1.0+''), de_deprecated = None, de_notes = None,
   de_docsHref = Some (js ''/docs/sessions/state''), de_source = Some \<lparr>src_file = (js ''aquilia/sessions/state.py''), src_line = Some 54, src_href = None\<rparr>\<rparr>"

definition ent_sessions_field :: doc_entity where
  "ent_sessions_field = \<lparr>de_id = (js ''sessions.field''), de_type = EClass, de_title = (js ''Field''),
   de_description = (js ''Property descriptor mapping attributes on SessionState classes to keys in session dictionaries.''),
   de_signature = Some (js ''class Field:'' @ [10] @ js ''    def __init__(self, default=MISSING, default_factory=MISSING)''), de_language = Some (js ''python''),
   de_parameters = None,
   de_returns = None, de_example = None,
   de_related = None,
   de_status = Some Stable, de_version = Some (js ''v1.0+''), de_deprecated = None, de_notes = None,
   de_docsHref = Some (js ''/docs/sessions/state''), de_source = Some \<lparr>src_file = (js ''aquilia/sessions/state.py''), src_line = Some 23, src_href = None\<rparr>\<rparr>"

definition ent_sessions_fault :: doc_entity where
  "ent_sessions_fault = \<lparr>de_id = (js ''sessions.fault''), de_type = EClass, de_title = (js ''SessionFault''),
   de_description = (js ''Base exception for all session-related faults. Integrates with the Aquilia Faults system and maps to the SECURITY domain.''),
   de_signature = Some (js ''class SessionFault(Fault):'' @ [10] @ js ''    domain = FaultDomain.SECURITY''), de_language = Some (js ''python''),
   de_parameters = None,
   de_returns = None, de_example = None,
   de_related = None,
   de_status = Some Stable, de_version = Some (js ''v1.0+''), de_deprecated = None, de_notes = None,
   de_docsHref = Some (js ''/docs/sessions/faults''), de_source = Some \<lparr>src_file = (js ''aquilia/sessions/faults.py''), src_line = Some 17, src_href = None\<rparr>\<rparr>"

definition ent_sessions_expired_fault :: doc_entity where
  "ent_sessions_expired_fault = \<lparr>de_id = (js ''sessions.expired_fault''), de_type = EClass, de_title = (js ''SessionExpiredFault''),
   de_description = (js ''Raised when a session TTL has expired.''),
   de_signature = Some (js ''class SessionExpiredFault(SessionFault):'' @ [10] @ js ''    code = '' @ [34] @ js ''SESSION_EXPIRED'' @ [34, 10] @ js ''    severity = Severity.WARN''), de_language = Some (js ''python''),
   de_parameters = None,
   de_returns = None, de_example = None,
   de_related = None,
   de_status = Some Stable, de_version = Some (js ''v1.0+''), de_deprecated = None, de_notes = None,
   de_docsHref = Some (js ''/docs/sessions/faults''), de_source = Some \<lparr>src_file = (js ''aquilia/sessions/faults.py''), src_line = Some 37, src_href = None\<rparr>\<rparr>"

definition ent_sessions_idle_timeout_fault :: doc_entity where
  "ent_sessions_idle_timeout_fault = \<lparr>de_id = (js ''sessions.idle_timeout_fault''), de_type = EClass, de_title = (js ''SessionIdleTimeoutFault''),
   de_description = (js ''Raised when a session has remained inactive beyond the policy timeout window.''),
   de_signature = Some (js ''class SessionIdleTimeoutFault(SessionFault):'' @ [10] @ js ''    code = '' @ [34] @ js ''SESSION_IDLE_TIMEOUT'' @ [34, 10] @ js ''    severity = Severity.WARN''), de_language = Some (js ''python''),
   de_parameters = None,
   de_returns = None, de_example = None,
   de_related = None,
   de_status = Some Stable, de_version = Some (js ''v1.0+''), de_deprecated = None, de_notes = None,
   de_docsHref = Some (js ''/docs/sessions/faults''), de_source = Some \<lparr>src_file = (js ''aquilia/sessions/faults.py''), src_line = Some 57, src_href = None\<rparr>\<rparr>"

definition ent_sessions_absolute_timeout_fault :: doc_entity where
  "ent_sessions_absolute_timeout_fault = \<lparr>de_id = (js ''sessions.absolute_timeout_fault''), de_type = EClass, de_title = (js ''SessionAbsoluteTimeoutFault''),
   de_description = (js ''Raised when a session absolute lifetime has expired, forcing re-authentication (OWASP compliance).''),
   de_signature = Some (js ''class SessionAbsoluteTimeoutFault(SessionFault):'' @ [10] @ js ''    code = '' @ [34] @ js ''SESSION_ABSOLUTE_TIMEOUT'' @ [34, 10] @ js ''    severity = Severity.WARN''), de_language = Some (js ''python''),
   de_parameters = None,
   de_returns = None, de_example = None,
   de_related = None,
   de_status = Some Stable, de_version = Some (js ''v1.0+''), de_deprecated = None, de_notes = None,
   de_docsHref = Some (js ''/docs/sessions/faults''), de_source = Some \<lparr>src_file = (js ''aquilia/sessions/faults.py''), src_line = Some 71, src_href = None\<rparr>\<rparr>"

definition ent_sessions_concurrency_fault :: doc_entity where
  "ent_sessions_concurrency_fault = \<lparr>de_id = (js ''sessions.concurrency_fault''), de_type = EClass, de_title = (js ''SessionConcurrencyViolationFault''),
   de_description = (js ''Raised when a principal logs into more sessions than the ConcurrencyPolicy allows (if reject mode is enabled).''),
   de_signature = Some (js ''class SessionConcurrencyViolationFault(SessionFault):'' @ [10] @ js ''    code = '' @ [34] @ js ''SESSION_CONCURRENCY_VIOLATION'' @ [34, 10] @ js ''    def __init__(self, principal_id: str, active_count: int, max_allowed: int)''), de_language = Some (js ''python''),
   de_parameters = None,
   de_returns = None, de_example = None,
   de_related = None,
   de_status = Some Stable, de_version = Some (js ''v1.0+''), de_deprecated = None, de_notes = None,
   de_docsHref = Some (js ''/docs/sessions/faults''), de_source = Some \<lparr>src_file = (js ''aquilia/sessions/faults.py''), src_line = Some 142, src_href = None\<rparr>\<rparr>"

definition ent_sessions_hijack_fault :: doc_entity where
  "ent_sessions_hijack_fault = \<lparr>de_id = (js ''sessions.hijack_fault''), de_type = EClass, de_title = (js ''SessionHijackAttemptFault''),
   de_description = (js ''Raised when there is a suspected hijacking attempt (e.g. fingerprint mismatch in IP or User Agent).''),
   de_signature = Some (js ''class SessionHijackAttemptFault(SessionFault):'' @ [10] @ js ''    code = '' @ [34] @ js ''SESSION_HIJACK_ATTEMPT'' @ [34, 10] @ js ''    severity = Severity.ERROR''), de_language = Some (js ''python''),
   de_parameters = None,
   de_returns = None, de_example = None,
   de_related = None,
   de_status = Some Stable, de_version = Some (js ''v1.0+''), de_deprecated = None, de_notes = None,
   de_docsHref = Some (js ''/docs/sessions/faults''), de_source = Some \<lparr>src_file = (js ''aquilia/sessions/faults.py''), src_line = Some 287, src_href = None\<rparr>\<rparr>"

definition entities_sessionsEntities :: "doc_entity list" where
  "entities_sessionsEntities = [
     ent_sessions_session_id, ent_sessions_session, ent_sessions_principal, ent_sessions_scope,
     ent_sessions_flag, ent_sessions_policy, ent_sessions_policy_builder, ent_sessions_engine,
     ent_sessions_store, ent_sessions_memory_store, ent_sessions_file_store, ent_sessions_transport,
     ent_sessions_cookie_transport, ent_sessions_header_transport, ent_sessions_decorator_require, ent_sessions_decorator_ensure,
     ent_sessions_decorator_optional, ent_sessions_decorator_stateful, ent_sessions_context, ent_sessions_state,
     ent_sessions_field, ent_sessions_fault, ent_sessions_expired_fault, ent_sessions_idle_timeout_fault,
     ent_sessions_absolute_timeout_fault, ent_sessions_concurrency_fault, ent_sessions_hijack_fault]"

subsection \<open>\<open>cacheHttpI18n.ts\<close>\<close>

definition ent_cache_CacheService :: doc_entity where
  "ent_cache_CacheService = \<lparr>de_id = (js ''cache.CacheService''), de_type = EClass, de_title = (js ''CacheService''),
   de_description = (js ''Central cache coordinator service in Aquilia. DI-injectable, async-native interface wrapping the configured backend with stampede prevention, namespace isolation, TTL jitter, and health check monitoring.''),
   de_signature = Some (js ''class CacheService:'' @ [10] @ js ''    def __init__(self, backend: CacheBackend, config: CacheConfig | None = None)'' @ [10, 10] @ js ''    async def get(self, key: str, namespace: str | None = None, default: Any = None) -> Any'' @ [10] @ js ''    async def set(self, key: str, value: Any, ttl: int | None = None, namespace: str | None = None, tags: tuple[str, ...] = ()) -> None'' @ [10] @ js ''    async def get_or_set(self, key: str, loader: Callable[[], Coroutine[Any, Any, T]], ttl: int | None = None, namespace: str | None = None, tags: tuple[str, ...] = ()) -> T''), de_language = Some (js ''python''),
   de_parameters = None,
   de_returns = None, de_example = None,
   de_related = None,
   de_status = Some Stable, de_version = Some (js ''v1.0+''), de_deprecated = None, de_notes = None,
   de_docsHref = Some (js ''/docs/cache/service''), de_source = Some \<lparr>src_file = (js ''aquilia/cache/service.py''), src_line = Some 40, src_href = None\<rparr>\<rparr>"

definition ent_cache_cached :: doc_entity where
  "ent_cache_cached = \<lparr>de_id = (js ''cache.cached''), de_type = EDecorator, de_title = (js ''@cached''),
   de_description = (js ''Declarative decorator to cache function or controller method results. Automatically builds deterministic cache keys from arguments and checks for hits before executing.''),
   de_signature = Some (js ''@cached('' @ [10] @ js ''    ttl: int = 300,'' @ [10] @ js ''    namespace: str = '' @ [34] @ js ''default'' @ [34] @ js '','' @ [10] @ js ''    key: str | None = None,'' @ [10] @ js ''    key_func: Callable[..., str] | None = None,'' @ [10] @ js ''    tags: tuple[str, ...] = (),'' @ [10] @ js ''    unless: Callable[..., bool] | None = None,'' @ [10] @ js ''    condition: Callable[[Any], bool] | None = None'' @ [10] @ js '')''), de_language = Some (js ''python''),
   de_parameters = None,
   de_returns = None, de_example = None,
   de_related = None,
   de_status = Some Stable, de_version = Some (js ''v1.0+''), de_deprecated = None, de_notes = None,
   de_docsHref = Some (js ''/docs/cache/decorators''), de_source = Some \<lparr>src_file = (js ''aquilia/cache/decorators.py''), src_line = Some 56, src_href = None\<rparr>\<rparr>"

definition ent_cache_cache_aside :: doc_entity where
  "ent_cache_cache_aside = \<lparr>de_id = (js ''cache.cache_aside''), de_type = EDecorator, de_title = (js ''@cache_aside''),
   de_description = (js ''Semantic alias for the @cached decorator. Declares that the decorated function is the authoritative source of truth for the cached entity.''),
   de_signature = Some (js ''@cache_aside(ttl: int = 300, namespace: str = '' @ [34] @ js ''default'' @ [34] @ js '', tags: tuple[str, ...] = ())''), de_language = Some (js ''python''),
   de_parameters = None,
   de_returns = None, de_example = None,
   de_related = None,
   de_status = Some Stable, de_version = Some (js ''v1.0+''), de_deprecated = None, de_notes = None,
   de_docsHref = Some (js ''/docs/cache/decorators''), de_source = Some \<lparr>src_file = (js ''aquilia/cache/decorators.py''), src_line = Some 169, src_href = None\<rparr>\<rparr>"

definition ent_cache_invalidate :: doc_entity where
  "ent_cache_invalidate = \<lparr>de_id = (js ''cache.invalidate''), de_type = EDecorator, de_title = (js ''@invalidate''),
   de_description = (js ''Invalidation decorator that deletes specific keys or invalidates namespaces and tags from the cache after the wrapped function executes successfully.''),
   de_signature = Some (js ''@invalidate(*keys: str, namespace: str = '' @ [34] @ js ''default'' @ [34] @ js '', tags: tuple[str, ...] = ())''), de_language = Some (js ''python''),
   de_parameters = None,
   de_returns = None, de_example = None,
   de_related = None,
   de_status = Some Stable, de_version = Some (js ''v1.0+''), de_deprecated = None, de_notes = None,
   de_docsHref = Some (js ''/docs/cache/decorators''), de_source = Some \<lparr>src_file = (js ''aquilia/cache/decorators.py''), src_line = Some 187, src_href = None\<rparr>\<rparr>"

definition ent_cache_MemoryBackend :: doc_entity where
  "ent_cache_MemoryBackend = \<lparr>de_id = (js ''cache.MemoryBackend''), de_type = EClass, de_title = (js ''MemoryBackend''),
   de_description = (js ''High-performance in-memory cache backend. Supports LRU, LFU, FIFO, TTL, and Random eviction policies, safe concurrent access, capacity warning thresholds, and active background TTL sweeping.''),
   de_signature = Some (js ''class MemoryBackend(CacheBackend):'' @ [10] @ js ''    def __init__('' @ [10] @ js ''        self,'' @ [10] @ js ''        max_size: int = 10000,'' @ [10] @ js ''        eviction_policy: str = '' @ [34] @ js ''lru'' @ [34] @ js '','' @ [10] @ js ''        sweep_interval: float = 30.0,'' @ [10] @ js ''        max_memory_bytes: int = 0,'' @ [10] @ js ''        capacity_warning_threshold: float = 0.85'' @ [10] @ js ''    )''), de_language = Some (js ''python''),
   de_parameters = None,
   de_returns = None, de_example = None,
   de_related = None,
   de_status = Some Stable, de_version = Some (js ''v1.0+''), de_deprecated = None, de_notes = None,
   de_docsHref = Some (js ''/docs/cache/backends''), de_source = Some \<lparr>src_file = (js ''aquilia/cache/backends/memory.py''), src_line = Some 34, src_href = None\<rparr>\<rparr>"

definition ent_cache_RedisBackend :: doc_entity where
  "ent_cache_RedisBackend = \<lparr>de_id = (js ''cache.RedisBackend''), de_type = EClass, de_title = (js ''RedisBackend''),
   de_description = (js ''Distributed cache backend powered by aioredis connection pools. Supports atomic increments/decrements via Lua scripts, O(1) tag-based invalidation via Redis Sets, and connection pool limit constraints.''),
   de_signature = Some (js ''class RedisBackend(CacheBackend):'' @ [10] @ js ''    def __init__('' @ [10] @ js ''        self,'' @ [10] @ js ''        url: str = '' @ [34] @ js ''redis://localhost:6379/0'' @ [34] @ js '','' @ [10] @ js ''        max_connections: int = 10,'' @ [10] @ js ''        socket_timeout: float = 5.0,'' @ [10] @ js ''        connect_timeout: float = 5.0,'' @ [10] @ js ''        retry_on_timeout: bool = True,'' @ [10] @ js ''        key_prefix: str = '' @ [34] @ js ''aq:'' @ [34] @ js '','' @ [10] @ js ''        serializer: Any | None = None'' @ [10] @ js ''    )''), de_language = Some (js ''python''),
   de_parameters = None,
   de_returns = None, de_example = None,
   de_related = None,
   de_status = Some Stable, de_version = Some (js ''v1.0+''), de_deprecated = None, de_notes = None,
   de_docsHref = Some (js ''/docs/cache/backends''), de_source = Some \<lparr>src_file = (js ''aquilia/cache/backends/redis.py''), src_line = Some 26, src_href = None\<rparr>\<rparr>"

definition ent_cache_CompositeBackend :: doc_entity where
  "ent_cache_CompositeBackend = \<lparr>de_id = (js ''cache.CompositeBackend''), de_type = EClass, de_title = (js ''CompositeBackend''),
   de_description = (js ''Two-level composite caching backend (L1 local Memory + L2 distributed Redis). Provides sub-microsecond reads by checking local L1 memory, falling back to L2 distributed cache, and promoting L2 hits to L1.''),
   de_signature = Some (js ''class CompositeBackend(CacheBackend):'' @ [10] @ js ''    def __init__('' @ [10] @ js ''        self,'' @ [10] @ js ''        l1: CacheBackend,'' @ [10] @ js ''        l2: CacheBackend,'' @ [10] @ js ''        promote_on_l2_hit: bool = True,'' @ [10] @ js ''        async_l2_write: bool = False'' @ [10] @ js ''    )''), de_language = Some (js ''python''),
   de_parameters = None,
   de_returns = None, de_example = None,
   de_related = None,
   de_status = Some Stable, de_version = Some (js ''v1.0+''), de_deprecated = None, de_notes = None,
   de_docsHref = Some (js ''/docs/cache/backends''), de_source = Some \<lparr>src_file = (js ''aquilia/cache/backends/composite.py''), src_line = Some 33, src_href = None\<rparr>\<rparr>"

definition ent_cache_CacheMiddleware :: doc_entity where
  "ent_cache_CacheMiddleware = \<lparr>de_id = (js ''cache.CacheMiddleware''), de_type = EClass, de_title = (js ''CacheMiddleware''),
   de_description = (js ''HTTP response caching middleware. Caches GET and HEAD response payloads. Respects HTTP Cache-Control header directives, generates and validates ETags, vary headers, and handles stale-while-revalidate background refresh.''),
   de_signature = Some (js ''class CacheMiddleware(Middleware):'' @ [10] @ js ''    def __init__('' @ [10] @ js ''        self,'' @ [10] @ js ''        cache_service: CacheService,'' @ [10] @ js ''        default_ttl: int = 60,'' @ [10] @ js ''        cacheable_methods: tuple[str, ...] = ('' @ [34] @ js ''GET'' @ [34] @ js '', '' @ [34] @ js ''HEAD'' @ [34] @ js ''),'' @ [10] @ js ''        vary_headers: tuple[str, ...] = ('' @ [34] @ js ''Accept'' @ [34] @ js '', '' @ [34] @ js ''Accept-Encoding'' @ [34] @ js ''),'' @ [10] @ js ''        namespace: str = '' @ [34] @ js ''http_response'' @ [34] @ js '','' @ [10] @ js ''        stale_while_revalidate: int = 0'' @ [10] @ js ''    )''), de_language = Some (js ''python''),
   de_parameters = None,
   de_returns = None, de_example = None,
   de_related = None,
   de_status = Some Stable, de_version = Some (js ''v1.0+''), de_deprecated = None, de_notes = None,
   de_docsHref = Some (js ''/docs/cache/decorators''), de_source = Some \<lparr>src_file = (js ''aquilia/cache/middleware.py''), src_line = Some 37, src_href = None\<rparr>\<rparr>"

definition ent_http_AsyncHTTPClient :: doc_entity where
  "ent_http_AsyncHTTPClient = \<lparr>de_id = (js ''http.AsyncHTTPClient''), de_type = EClass, de_title = (js ''AsyncHTTPClient''),
   de_description = (js ''High-level, async-native HTTP client. Features automatic connection pooling, cookie management, composable middleware, interceptors, retry strategies, and streaming request/response bodies.''),
   de_signature = Some (js ''class AsyncHTTPClient:'' @ [10] @ js ''    def __init__('' @ [10] @ js ''        self,'' @ [10] @ js ''        base_url: str | None = None,'' @ [10] @ js ''        *,'' @ [10] @ js ''        config: HTTPClientConfig | None = None,'' @ [10] @ js ''        transport: HTTPTransport | None = None,'' @ [10] @ js ''        cookies: CookieJar | None = None,'' @ [10] @ js ''        interceptors: list[HTTPInterceptor] | None = None,'' @ [10] @ js ''        middleware: list[HTTPClientMiddleware] | None = None,'' @ [10] @ js ''        timeout: float | TimeoutConfig | None = None,'' @ [10] @ js ''        headers: dict[str, str] | None = None,'' @ [10] @ js ''        follow_redirects: bool = True,'' @ [10] @ js ''        raise_for_status: bool = False'' @ [10] @ js ''    )''), de_language = Some (js ''python''),
   de_parameters = None,
   de_returns = None, de_example = None,
   de_related = None,
   de_status = Some Stable, de_version = Some (js ''v1.0+''), de_deprecated = None, de_notes = None,
   de_docsHref = Some (js ''/docs/http/client''), de_source = Some \<lparr>src_file = (js ''aquilia/http/client.py''), src_line = Some 27, src_href = None\<rparr>\<rparr>"

definition ent_http_HTTPSession :: doc_entity where
  "ent_http_HTTPSession = \<lparr>de_id = (js ''http.HTTPSession''), de_type = EClass, de_title = (js ''HTTPSession''),
   de_description = (js ''Underlying session model matching the HTTP connection lifecycle. Handles middleware execution stacks, interceptor chains, cookie persistence, and transport dispatch.''),
   de_signature = Some (js ''class HTTPSession:'' @ [10] @ js ''    def __init__('' @ [10] @ js ''        self,'' @ [10] @ js ''        config: HTTPClientConfig,'' @ [10] @ js ''        transport: HTTPTransport | None = None,'' @ [10] @ js ''        cookies: CookieJar | None = None,'' @ [10] @ js ''        interceptors: list[HTTPInterceptor] | None = None,'' @ [10] @ js ''        middleware: list[HTTPClientMiddleware] | None = None'' @ [10] @ js ''    )''), de_language = Some (js ''python''),
   de_parameters = None,
   de_returns = None, de_example = None,
   de_related = None,
   de_status = Some Stable, de_version = Some (js ''v1.0+''), de_deprecated = None, de_notes = None,
   de_docsHref = Some (js ''/docs/http/sessions''), de_source = Some \<lparr>src_file = (js ''aquilia/http/session.py''), src_line = Some 27, src_href = None\<rparr>\<rparr>"

definition ent_http_HTTPClientConfig :: doc_entity where
  "ent_http_HTTPClientConfig = \<lparr>de_id = (js ''http.HTTPClientConfig''), de_type = EClass, de_title = (js ''HTTPClientConfig''),
   de_description = (js ''Comprehensive configuration model for AsyncHTTPClient. Manages base URLs, default headers, redirections, timeout policies, connection pool boundaries, and retry limits.''),
   de_signature = Some (js ''@dataclass'' @ [10] @ js ''class HTTPClientConfig:'' @ [10] @ js ''    base_url: str | None = None'' @ [10] @ js ''    timeout: TimeoutConfig = field(default_factory=TimeoutConfig)'' @ [10] @ js ''    pool: PoolConfig = field(default_factory=PoolConfig)'' @ [10] @ js ''    retry: RetryConfig = field(default_factory=RetryConfig)'' @ [10] @ js ''    proxy: ProxyConfig | None = None'' @ [10] @ js ''    tls: TLSConfig = field(default_factory=TLSConfig)'' @ [10] @ js ''    default_headers: dict[str, str] = field(default_factory=dict)'' @ [10] @ js ''    follow_redirects: bool = True'' @ [10] @ js ''    max_redirects: int = 20'' @ [10] @ js ''    raise_for_status: bool = False''), de_language = Some (js ''python''),
   de_parameters = None,
   de_returns = None, de_example = None,
   de_related = None,
   de_status = Some Stable, de_version = Some (js ''v1.0+''), de_deprecated = None, de_notes = None,
   de_docsHref = Some (js ''/docs/http/integration''), de_source = Some \<lparr>src_file = (js ''aquilia/http/config.py''), src_line = Some 260, src_href = None\<rparr>\<rparr>"

definition ent_http_TimeoutConfig :: doc_entity where
  "ent_http_TimeoutConfig = \<lparr>de_id = (js ''http.TimeoutConfig''), de_type = EClass, de_title = (js ''TimeoutConfig''),
   de_description = (js ''Fine-grained timeout options specifying connect, read, write, and pool timeouts for HTTP calls.''),
   de_signature = Some (js ''@dataclass'' @ [10] @ js ''class TimeoutConfig:'' @ [10] @ js ''    total: float | None = 30.0'' @ [10] @ js ''    connect: float | None = 5.0'' @ [10] @ js ''    read: float | None = 10.0'' @ [10] @ js ''    write: float | None = 10.0'' @ [10] @ js ''    pool: float | None = 5.0''), de_language = Some (js ''python''),
   de_parameters = None,
   de_returns = None, de_example = None,
   de_related = None,
   de_status = Some Stable, de_version = Some (js ''v1.0+''), de_deprecated = None, de_notes = None,
   de_docsHref = Some (js ''/docs/http/client''), de_source = Some \<lparr>src_file = (js ''aquilia/http/config.py''), src_line = Some 40, src_href = None\<rparr>\<rparr>"

definition ent_http_RetryConfig :: doc_entity where
  "ent_http_RetryConfig = \<lparr>de_id = (js ''http.RetryConfig''), de_type = EClass, de_title = (js ''RetryConfig''),
   de_description = (js ''Retry configuration model details for AsyncHTTPClient. Controls maximum retry limits, backoff factors, retryable HTTP status codes, and HTTP method restrictions.''),
   de_signature = Some (js ''@dataclass'' @ [10] @ js ''class RetryConfig:'' @ [10] @ js ''    max_retries: int = 3'' @ [10] @ js ''    backoff_factor: float = 0.5'' @ [10] @ js ''    backoff_max: float = 30.0'' @ [10] @ js ''    status_codes: set[int] = field(default_factory=lambda: {500, 502, 503, 504})'' @ [10] @ js ''    methods: set[str] = field(default_factory=lambda: {'' @ [34] @ js ''GET'' @ [34] @ js '', '' @ [34] @ js ''HEAD'' @ [34] @ js '', '' @ [34] @ js ''PUT'' @ [34] @ js '', '' @ [34] @ js ''DELETE'' @ [34] @ js '', '' @ [34] @ js ''OPTIONS'' @ [34] @ js ''})'' @ [10] @ js ''    retry_on_timeout: bool = True''), de_language = Some (js ''python''),
   de_parameters = None,
   de_returns = None, de_example = None,
   de_related = None,
   de_status = Some Stable, de_version = Some (js ''v1.0+''), de_deprecated = None, de_notes = None,
   de_docsHref = Some (js ''/docs/http/client''), de_source = Some \<lparr>src_file = (js ''aquilia/http/config.py''), src_line = Some 154, src_href = None\<rparr>\<rparr>"

definition ent_http_MultipartFormData :: doc_entity where
  "ent_http_MultipartFormData = \<lparr>de_id = (js ''http.MultipartFormData''), de_type = EClass, de_title = (js ''MultipartFormData''),
   de_description = (js ''Multipart form encoder that constructs streaming multipart requests with support for large file uploads, custom boundary tags, content types, and upload progress monitors.''),
   de_signature = Some (js ''class MultipartFormData:'' @ [10] @ js ''    def add_field(self, name: str, value: str | int | float) -> None'' @ [10] @ js ''    def add_file(self, name: str, file: bytes | IO | FormFile, filename: str | None = None, content_type: str | None = None) -> None''), de_language = Some (js ''python''),
   de_parameters = None,
   de_returns = None, de_example = None,
   de_related = None,
   de_status = Some Stable, de_version = Some (js ''v1.0+''), de_deprecated = None, de_notes = None,
   de_docsHref = Some (js ''/docs/http/api/multipart''), de_source = Some \<lparr>src_file = (js ''aquilia/http/multipart.py''), src_line = Some 25, src_href = None\<rparr>\<rparr>"

definition ent_i18n_I18nService :: doc_entity where
  "ent_i18n_I18nService = \<lparr>de_id = (js ''i18n.I18nService''), de_type = EClass, de_title = (js ''I18nService''),
   de_description = (js ''Central i18n translation service. Combines plural rule resolution, ICU MessageFormat translation formatting, namespace lookups, and missing-key strategies into one cohesive class.''),
   de_signature = Some (js ''class I18nService:'' @ [10] @ js ''    def __init__(self, config: I18nConfig, catalog: TranslationCatalog | None = None)'' @ [10, 10] @ js ''    def t(self, key: str, *, locale: str | None = None, default: str | None = None, **kwargs: Any) -> str'' @ [10] @ js ''    def tn(self, key: str, count: int | float, *, locale: str | None = None, default: str | None = None, **kwargs: Any) -> str'' @ [10] @ js ''    def tp(self, key: str, *, locale: str | None = None, default: str | None = None, **kwargs: Any) -> str''), de_language = Some (js ''python''),
   de_parameters = None,
   de_returns = None, de_example = None,
   de_related = None,
   de_status = Some Stable, de_version = Some (js ''v1.0+''), de_deprecated = None, de_notes = None,
   de_docsHref = Some (js ''/docs/i18n/api-reference''), de_source = Some \<lparr>src_file = (js ''aquilia/i18n/service.py''), src_line = Some 134, src_href = None\<rparr>\<rparr>"

definition ent_i18n_Locale :: doc_entity where
  "ent_i18n_Locale = \<lparr>de_id = (js ''i18n.Locale''), de_type = EClass, de_title = (js ''Locale''),
   de_description = (js ''Dataclass representing a normalized and validated BCP 47 locale tag. Automatically parses language, territory, script, variants, and extensions.''),
   de_signature = Some (js ''@dataclass(frozen=True)'' @ [10] @ js ''class Locale:'' @ [10] @ js ''    language: str'' @ [10] @ js ''    territory: str | None = None'' @ [10] @ js ''    script: str | None = None'' @ [10] @ js ''    variant: str | None = None'' @ [10] @ js ''    tag: str = field(init=False)''), de_language = Some (js ''python''),
   de_parameters = None,
   de_returns = None, de_example = None,
   de_related = None,
   de_status = Some Stable, de_version = Some (js ''v1.0+''), de_deprecated = None, de_notes = None,
   de_docsHref = Some (js ''/docs/i18n/architecture''), de_source = Some \<lparr>src_file = (js ''aquilia/i18n/locale.py''), src_line = Some 28, src_href = None\<rparr>\<rparr>"

definition ent_i18n_I18nConfig :: doc_entity where
  "ent_i18n_I18nConfig = \<lparr>de_id = (js ''i18n.I18nConfig''), de_type = EClass, de_title = (js ''I18nConfig''),
   de_description = (js ''Configuration model for the I18nService. Maps locales, fallback chains, catalog directories, formats, missing key behaviours, and locale detection middleware options.''),
   de_signature = Some (js ''@dataclass'' @ [10] @ js ''class I18nConfig:'' @ [10] @ js ''    enabled: bool = True'' @ [10] @ js ''    default_locale: str = '' @ [34] @ js ''en'' @ [34, 10] @ js ''    available_locales: list[str] = field(default_factory=lambda: ['' @ [34] @ js ''en'' @ [34] @ js ''])'' @ [10] @ js ''    fallback_locale: str = '' @ [34] @ js ''en'' @ [34, 10] @ js ''    catalog_dirs: list[str] = field(default_factory=lambda: ['' @ [34] @ js ''locales'' @ [34] @ js ''])'' @ [10] @ js ''    catalog_format: str = '' @ [34] @ js ''surp'' @ [34, 10] @ js ''    missing_key_strategy: str = '' @ [34] @ js ''log_and_key'' @ [34, 10] @ js ''    cookie_name: str = '' @ [34] @ js ''aq_locale'' @ [34, 10] @ js ''    query_param: str = '' @ [34] @ js ''lang'' @ [34, 10] @ js ''    path_prefix: bool = False''), de_language = Some (js ''python''),
   de_parameters = None,
   de_returns = None, de_example = None,
   de_related = None,
   de_status = Some Stable, de_version = Some (js ''v1.0+''), de_deprecated = None, de_notes = None,
   de_docsHref = Some (js ''/docs/i18n/configuration''), de_source = Some \<lparr>src_file = (js ''aquilia/i18n/service.py''), src_line = Some 63, src_href = None\<rparr>\<rparr>"

definition ent_i18n_I18nMiddleware :: doc_entity where
  "ent_i18n_I18nMiddleware = \<lparr>de_id = (js ''i18n.I18nMiddleware''), de_type = EClass, de_title = (js ''I18nMiddleware''),
   de_description = (js ''Request-scoped internationalization middleware. Resolves locale tags dynamically from query params, cookies, paths, or Accept-Language headers and attaches the resolved locale to RequestCtx.''),
   de_signature = Some (js ''class I18nMiddleware(Middleware):'' @ [10] @ js ''    def __init__(self, service: I18nService, resolver: LocaleResolver | None = None)''), de_language = Some (js ''python''),
   de_parameters = None,
   de_returns = None, de_example = None,
   de_related = None,
   de_status = Some Stable, de_version = Some (js ''v1.0+''), de_deprecated = None, de_notes = None,
   de_docsHref = Some (js ''/docs/i18n/integration''), de_source = Some \<lparr>src_file = (js ''aquilia/i18n/middleware.py''), src_line = Some 167, src_href = None\<rparr>\<rparr>"

definition ent_i18n_lazy_t :: doc_entity where
  "ent_i18n_lazy_t = \<lparr>de_id = (js ''i18n.lazy_t''), de_type = EFunction, de_title = (js ''lazy_t''),
   de_description = (js ''Factory to create a LazyString proxy object for translations. Defers actual lookup until formatting or string operation (useful for module-level constants like error messages).''),
   de_signature = Some (js ''def lazy_t(key: str, default: str | None = None, **kwargs: Any) -> LazyString''), de_language = Some (js ''python''),
   de_parameters = None,
   de_returns = None, de_example = None,
   de_related = None,
   de_status = Some Stable, de_version = Some (js ''v1.0+''), de_deprecated = None, de_notes = None,
   de_docsHref = Some (js ''/docs/i18n/api-reference''), de_source = Some \<lparr>src_file = (js ''aquilia/i18n/lazy.py''), src_line = Some 160, src_href = None\<rparr>\<rparr>"

definition entities_cacheHttpI18n :: "doc_entity list" where
  "entities_cacheHttpI18n = [
     ent_cache_CacheService, ent_cache_cached, ent_cache_cache_aside, ent_cache_invalidate,
     ent_cache_MemoryBackend, ent_cache_RedisBackend, ent_cache_CompositeBackend, ent_cache_CacheMiddleware,
     ent_http_AsyncHTTPClient, ent_http_HTTPSession, ent_http_HTTPClientConfig, ent_http_TimeoutConfig,
     ent_http_RetryConfig, ent_http_MultipartFormData, ent_i18n_I18nService, ent_i18n_Locale,
     ent_i18n_I18nConfig, ent_i18n_I18nMiddleware, ent_i18n_lazy_t]"

subsection \<open>\<open>websocketsTemplatesMail.ts\<close>\<close>

definition ent_sockets_SocketController :: doc_entity where
  "ent_sockets_SocketController = \<lparr>de_id = (js ''sockets.SocketController''), de_type = EClass, de_title = (js ''SocketController''),
   de_description = (js ''Declarative, class-based WebSocket controller. Compiled at build time, instantiated per-connection with its own DI scope. Handlers process events, subscriptions, and connection lifecycles.''),
   de_signature = Some (js ''class SocketController:'' @ [10] @ js ''    def __init__(self, *args, **kwargs)''), de_language = Some (js ''python''),
   de_parameters = None,
   de_returns = None, de_example = None,
   de_related = None,
   de_status = Some Stable, de_version = Some (js ''v1.0+''), de_deprecated = None, de_notes = None,
   de_docsHref = Some (js ''/docs/websockets/controllers''), de_source = Some \<lparr>src_file = (js ''aquilia/sockets/controller.py''), src_line = Some 15, src_href = None\<rparr>\<rparr>"

definition ent_sockets_Connection :: doc_entity where
  "ent_sockets_Connection = \<lparr>de_id = (js ''sockets.Connection''), de_type = EClass, de_title = (js ''Connection''),
   de_description = (js ''Active WebSocket connection abstraction. Exposes state dictionaries, metrics, connection state, request-scoped DI containers, user identity, room subscriptions, and broadcasting helpers.''),
   de_signature = Some (js ''class Connection:'' @ [10] @ js ''    id: str'' @ [10] @ js ''    state: dict[str, Any]'' @ [10] @ js ''    identity: Identity | None'' @ [10] @ js ''    session: Session | None'' @ [10] @ js ''    is_connected: bool'' @ [10] @ js ''    rooms: set[str]'' @ [10] @ js ''    async def send_event(self, event: str, payload: dict, ack: bool = False) -> str | None'' @ [10] @ js ''    async def send_json(self, data: dict) -> None'' @ [10] @ js ''    async def send_ack(self, message_id: str, status: str = '' @ [34] @ js ''ok'' @ [34] @ js '', data: dict | None = None, error: str | None = None) -> None'' @ [10] @ js ''    async def join(self, room: str) -> bool'' @ [10] @ js ''    async def leave(self, room: str) -> bool'' @ [10] @ js ''    async def disconnect(self, reason: str | None = None, code: int = 1000) -> None''), de_language = Some (js ''python''),
   de_parameters = None,
   de_returns = None, de_example = None,
   de_related = None,
   de_status = Some Stable, de_version = Some (js ''v1.0+''), de_deprecated = None, de_notes = None,
   de_docsHref = Some (js ''/docs/websockets/controllers''), de_source = Some \<lparr>src_file = (js ''aquilia/sockets/connection.py''), src_line = Some 53, src_href = None\<rparr>\<rparr>"

definition ent_sockets_MessageEnvelope :: doc_entity where
  "ent_sockets_MessageEnvelope = \<lparr>de_id = (js ''sockets.MessageEnvelope''), de_type = EClass, de_title = (js ''MessageEnvelope''),
   de_description = (js ''Structured message envelope for typed client-server communication. Wraps message IDs, message types, events, payloads, and optional tracing metadata.''),
   de_signature = Some (js ''class MessageEnvelope:'' @ [10] @ js ''    type: MessageType'' @ [10] @ js ''    event: str'' @ [10] @ js ''    payload: dict[str, Any]'' @ [10] @ js ''    id: str | None = None'' @ [10] @ js ''    ack: bool = False'' @ [10] @ js ''    meta: dict[str, Any] = field(default_factory=dict)'' @ [10] @ js ''    def to_dict(self) -> dict'' @ [10] @ js ''    @classmethod'' @ [10] @ js ''    def from_dict(cls, data: dict) -> MessageEnvelope''), de_language = Some (js ''python''),
   de_parameters = None,
   de_returns = None, de_example = None,
   de_related = None,
   de_status = Some Stable, de_version = None, de_deprecated = None, de_notes = None,
   de_docsHref = Some (js ''/docs/websockets/controllers''), de_source = Some \<lparr>src_file = (js ''aquilia/sockets/envelope.py''), src_line = Some 30, src_href = None\<rparr>\<rparr>"

definition ent_sockets_InMemoryAdapter :: doc_entity where
  "ent_sockets_InMemoryAdapter = \<lparr>de_id = (js ''sockets.InMemoryAdapter''), de_type = EClass, de_title = (js ''InMemoryAdapter''),
   de_description = (js ''Single-instance in-process WebSocket scaling adapter. Perfect for development, testing, and single-container deployments.''),
   de_signature = Some (js ''class InMemoryAdapter(Adapter):'' @ [10] @ js ''    async def initialize(self) -> None'' @ [10] @ js ''    async def publish(self, namespace: str, room: str, envelope: MessageEnvelope, exclude_connection: str | None = None) -> None'' @ [10] @ js ''    async def broadcast(self, namespace: str, envelope: MessageEnvelope, exclude_connection: str | None = None) -> None''), de_language = Some (js ''python''),
   de_parameters = None,
   de_returns = None, de_example = None,
   de_related = None,
   de_status = Some Stable, de_version = None, de_deprecated = None, de_notes = None,
   de_docsHref = Some (js ''/docs/websockets/adapters''), de_source = Some \<lparr>src_file = (js ''aquilia/sockets/adapters/inmemory.py''), src_line = Some 20, src_href = None\<rparr>\<rparr>"

definition ent_sockets_RedisAdapter :: doc_entity where
  "ent_sockets_RedisAdapter = \<lparr>de_id = (js ''sockets.RedisAdapter''), de_type = EClass, de_title = (js ''RedisAdapter''),
   de_description = (js ''Distributed WebSocket scaling adapter powered by Redis Pub/Sub. Synchronizes room presence and messages across multiple server nodes.''),
   de_signature = Some (js ''class RedisAdapter(Adapter):'' @ [10] @ js ''    def __init__(self, url: str, channel_prefix: str = '' @ [34] @ js ''ws:'' @ [34] @ js '', pool_size: int = 10, **kwargs)''), de_language = Some (js ''python''),
   de_parameters = None,
   de_returns = None, de_example = None,
   de_related = None,
   de_status = Some Stable, de_version = None, de_deprecated = None, de_notes = None,
   de_docsHref = Some (js ''/docs/websockets/adapters''), de_source = Some \<lparr>src_file = (js ''aquilia/sockets/adapters/redis.py''), src_line = Some 24, src_href = None\<rparr>\<rparr>"

definition ent_sockets_HandshakeAuthGuard :: doc_entity where
  "ent_sockets_HandshakeAuthGuard = \<lparr>de_id = (js ''sockets.HandshakeAuthGuard''), de_type = EClass, de_title = (js ''HandshakeAuthGuard''),
   de_description = (js ''Handshake security guard. Requires valid credentials (JWT, Session token, or Query param) during the WebSocket upgrade request.''),
   de_signature = Some (js ''class HandshakeAuthGuard(SocketGuard):'' @ [10] @ js ''    def __init__(self, *, require_identity: bool = True, require_session: bool = False, allowed_identity_types: list[str] | None = None)''), de_language = Some (js ''python''),
   de_parameters = None,
   de_returns = None, de_example = None,
   de_related = None,
   de_status = Some Stable, de_version = None, de_deprecated = None, de_notes = None,
   de_docsHref = Some (js ''/docs/websockets/controllers''), de_source = Some \<lparr>src_file = (js ''aquilia/sockets/guards.py''), src_line = Some 76, src_href = None\<rparr>\<rparr>"

definition ent_sockets_RateLimitGuard :: doc_entity where
  "ent_sockets_RateLimitGuard = \<lparr>de_id = (js ''sockets.RateLimitGuard''), de_type = EClass, de_title = (js ''RateLimitGuard''),
   de_description = (js ''WebSocket message rate limiter. Limits the number of inbound messages sent over a connection per second to prevent DDoS/spam.''),
   de_signature = Some (js ''class RateLimitGuard(SocketGuard):'' @ [10] @ js ''    def __init__(self, messages_per_second: int = 10)''), de_language = Some (js ''python''),
   de_parameters = None,
   de_returns = None, de_example = None,
   de_related = None,
   de_status = Some Stable, de_version = None, de_deprecated = None, de_notes = None,
   de_docsHref = Some (js ''/docs/websockets/controllers''), de_source = Some \<lparr>src_file = (js ''aquilia/sockets/guards.py''), src_line = Some 229, src_href = None\<rparr>\<rparr>"

definition ent_templates_TemplateEngine :: doc_entity where
  "ent_templates_TemplateEngine = \<lparr>de_id = (js ''templates.TemplateEngine''), de_type = EClass, de_title = (js ''TemplateEngine''),
   de_description = (js ''Async-native template coordinator. Wraps Jinja2 with restricted sandbox execution, custom globals/filters, bytecode caching, and HTTP Response helpers.''),
   de_signature = Some (js ''class TemplateEngine:'' @ [10] @ js ''    def __init__(self, loader: TemplateLoader, *, bytecode_cache: BytecodeCache | None = None, sandbox: bool = True, ...)'' @ [10] @ js ''    async def render(self, template_name: str, context: dict | None = None, request_ctx: RequestCtx | None = None) -> str'' @ [10] @ js ''    async def render_to_response(self, template_name: str, context: dict | None = None, *, status: int = 200, headers: dict | None = None, request_ctx: RequestCtx | None = None) -> Response'' @ [10] @ js ''    async def stream(self, template_name: str, context: dict | None = None, request_ctx: RequestCtx | None = None) -> AsyncIterator[bytes]''), de_language = Some (js ''python''),
   de_parameters = None,
   de_returns = None, de_example = None,
   de_related = None,
   de_status = Some Stable, de_version = Some (js ''v1.0+''), de_deprecated = None, de_notes = None,
   de_docsHref = Some (js ''/docs/templates/engine''), de_source = Some \<lparr>src_file = (js ''aquilia/templates/engine.py''), src_line = Some 28, src_href = None\<rparr>\<rparr>"

definition ent_templates_TemplateLoader :: doc_entity where
  "ent_templates_TemplateLoader = \<lparr>de_id = (js ''templates.TemplateLoader''), de_type = EClass, de_title = (js ''TemplateLoader''),
   de_description = (js ''Namespace-aware filesystem loader. Automatically resolves module templates (e.g. users/profile.html) and supports namespaces like @auth/login.html.''),
   de_signature = Some (js ''class TemplateLoader(BaseLoader):'' @ [10] @ js ''    def __init__(self, search_paths: list[str] | None = None, package_loaders: dict[str, str] | None = None, default_module: str | None = None)''), de_language = Some (js ''python''),
   de_parameters = None,
   de_returns = None, de_example = None,
   de_related = None,
   de_status = Some Stable, de_version = None, de_deprecated = None, de_notes = None,
   de_docsHref = Some (js ''/docs/templates/loaders''), de_source = Some \<lparr>src_file = (js ''aquilia/templates/loader.py''), src_line = Some 24, src_href = None\<rparr>\<rparr>"

definition ent_templates_SurpBytecodeCache :: doc_entity where
  "ent_templates_SurpBytecodeCache = \<lparr>de_id = (js ''templates.SurpBytecodeCache''), de_type = EClass, de_title = (js ''SurpBytecodeCache''),
   de_description = (js ''Production bytecode cache. Compiles templates into a single frozen .surp bytecode artifact file with cryptographic HMAC integrity verification.''),
   de_signature = Some (js ''class SurpBytecodeCache(BytecodeCache):'' @ [10] @ js ''    def __init__(self, cache_dir: str = '' @ [34] @ js ''artifacts'' @ [34] @ js '', filename: str = '' @ [34] @ js ''templates.bytecode.surp'' @ [34] @ js '', secret_key: str | None = None)''), de_language = Some (js ''python''),
   de_parameters = None,
   de_returns = None, de_example = None,
   de_related = None,
   de_status = Some Stable, de_version = None, de_deprecated = None, de_notes = None,
   de_docsHref = Some (js ''/docs/templates/engine''), de_source = Some \<lparr>src_file = (js ''aquilia/templates/bytecode_cache.py''), src_line = Some 101, src_href = None\<rparr>\<rparr>"

definition ent_templates_TemplateSandbox :: doc_entity where
  "ent_templates_TemplateSandbox = \<lparr>de_id = (js ''templates.TemplateSandbox''), de_type = EClass, de_title = (js ''TemplateSandbox''),
   de_description = (js ''Sandboxed template manager. Restricts templates from executing arbitrary Python code, accessing disallowed variables, filters, or callables.''),
   de_signature = Some (js ''class TemplateSandbox:'' @ [10] @ js ''    def __init__(self, policy: SandboxPolicy | None = None, immutable: bool = False)'' @ [10] @ js ''    def register_filter(self, name: str, func: Callable) -> None'' @ [10] @ js ''    def register_global(self, name: str, value: Any) -> None''), de_language = Some (js ''python''),
   de_parameters = None,
   de_returns = None, de_example = None,
   de_related = None,
   de_status = Some Stable, de_version = None, de_deprecated = None, de_notes = None,
   de_docsHref = Some (js ''/docs/templates/security''), de_source = Some \<lparr>src_file = (js ''aquilia/templates/security.py''), src_line = Some 197, src_href = None\<rparr>\<rparr>"

definition ent_mail_MailService :: doc_entity where
  "ent_mail_MailService = \<lparr>de_id = (js ''mail.MailService''), de_type = EClass, de_title = (js ''MailService''),
   de_description = (js ''Core mail orchestrator. Manages priority queues, rate limiters, DKIM signatures, custom providers (SMTP, SES, SendGrid), and async template rendering.''),
   de_signature = Some (js ''class MailService:'' @ [10] @ js ''    def __init__(self, config: MailConfig | None = None)'' @ [10] @ js ''    async def send_message(self, message: Any) -> str'' @ [10] @ js ''    def is_healthy(self) -> bool''), de_language = Some (js ''python''),
   de_parameters = None,
   de_returns = None, de_example = None,
   de_related = None,
   de_status = Some Stable, de_version = Some (js ''v1.0+''), de_deprecated = None, de_notes = None,
   de_docsHref = Some (js ''/docs/mail/service''), de_source = Some \<lparr>src_file = (js ''aquilia/mail/service.py''), src_line = Some 154, src_href = None\<rparr>\<rparr>"

definition ent_mail_EmailMessage :: doc_entity where
  "ent_mail_EmailMessage = \<lparr>de_id = (js ''mail.EmailMessage''), de_type = EClass, de_title = (js ''EmailMessage''),
   de_description = (js ''Developer-facing plain text and HTML email wrapper. Supports attachments, CC/BCC, priority queuing, and direct send/asend invocation.''),
   de_signature = Some (js ''class EmailMessage:'' @ [10] @ js ''    def __init__(self, subject: str = '' @ [34, 34] @ js '', body: str = '' @ [34, 34] @ js '', from_email: str | None = None, to: list[str] | None = None, cc: list[str] | None = None, bcc: list[str] | None = None, priority: int = 50, ...)'' @ [10] @ js ''    def attach(self, filename: str, content: bytes, content_type: str = '' @ [34] @ js ''application/octet-stream'' @ [34] @ js '') -> EmailMessage'' @ [10] @ js ''    def attach_file(self, path: str | Path, content_type: str | None = None) -> EmailMessage'' @ [10] @ js ''    def send(self, fail_silently: bool = False) -> str | None'' @ [10] @ js ''    async def asend(self, fail_silently: bool = False) -> str | None''), de_language = Some (js ''python''),
   de_parameters = None,
   de_returns = None, de_example = None,
   de_related = None,
   de_status = Some Stable, de_version = None, de_deprecated = None, de_notes = None,
   de_docsHref = Some (js ''/docs/mail/service''), de_source = Some \<lparr>src_file = (js ''aquilia/mail/message.py''), src_line = Some 53, src_href = None\<rparr>\<rparr>"

definition ent_mail_TemplateMessage :: doc_entity where
  "ent_mail_TemplateMessage = \<lparr>de_id = (js ''mail.TemplateMessage''), de_type = EClass, de_title = (js ''TemplateMessage''),
   de_description = (js ''Email rendered dynamically from an Aquilia Template Syntax (ATS) template. Subject lines and bodies are compiled with context variables.''),
   de_signature = Some (js ''class TemplateMessage(EmailMessage):'' @ [10] @ js ''    def __init__(self, template: str, context: dict | None = None, *, subject: str = '' @ [34, 34] @ js '', to: list[str] | None = None, ...)''), de_language = Some (js ''python''),
   de_parameters = None,
   de_returns = None, de_example = None,
   de_related = None,
   de_status = Some Stable, de_version = None, de_deprecated = None, de_notes = None,
   de_docsHref = Some (js ''/docs/mail/templates''), de_source = Some \<lparr>src_file = (js ''aquilia/mail/message.py''), src_line = Some 266, src_href = None\<rparr>\<rparr>"

definition ent_mail_MailIntegration :: doc_entity where
  "ent_mail_MailIntegration = \<lparr>de_id = (js ''mail.MailIntegration''), de_type = EClass, de_title = (js ''MailIntegration''),
   de_description = (js ''Typed dataclass for configuring mail integrations in workspace.py. Sets up default email addresses, provider backends, queues, rate limits, and DKIM credentials.''),
   de_signature = Some (js ''@dataclass'' @ [10] @ js ''class MailIntegration:'' @ [10] @ js ''    default_from: str = '' @ [34] @ js ''noreply@localhost'' @ [34, 10] @ js ''    providers: list[Any] = field(default_factory=list)'' @ [10] @ js ''    console_backend: bool = False'' @ [10] @ js ''    preview_mode: bool = False'' @ [10] @ js ''    template_dirs: list[str] = field(default_factory=lambda: ['' @ [34] @ js ''mail_templates'' @ [34] @ js ''])'' @ [10] @ js ''    rate_limit_global: int = 1000'' @ [10] @ js ''    dkim_enabled: bool = False'' @ [10] @ js ''    require_tls: bool = True''), de_language = Some (js ''python''),
   de_parameters = None,
   de_returns = None, de_example = None,
   de_related = None,
   de_status = Some Stable, de_version = None, de_deprecated = None, de_notes = None,
   de_docsHref = Some (js ''/docs/mail/service''), de_source = Some \<lparr>src_file = (js ''aquilia/integrations/mail.py''), src_line = Some 148, src_href = None\<rparr>\<rparr>"

definition entities_websocketsTemplatesMail :: "doc_entity list" where
  "entities_websocketsTemplatesMail = [
     ent_sockets_SocketController, ent_sockets_Connection, ent_sockets_MessageEnvelope, ent_sockets_InMemoryAdapter,
     ent_sockets_RedisAdapter, ent_sockets_HandshakeAuthGuard, ent_sockets_RateLimitGuard, ent_templates_TemplateEngine,
     ent_templates_TemplateLoader, ent_templates_SurpBytecodeCache, ent_templates_TemplateSandbox, ent_mail_MailService,
     ent_mail_EmailMessage, ent_mail_TemplateMessage, ent_mail_MailIntegration]"

end
