(* ===== verification/EntitiesSite.thy ===== *)
theory EntitiesSite
  imports DocRegistry
begin

text \<open>
  The entities of the hover panels about the server, controllers, testing, providers and the showcase: one definition per
  object literal of \<open>data/docEntities/serverLifecycle.ts\<close>, \<open>data/docEntities/showcase.ts\<close>, \<open>data/docEntities/adminPanel.ts\<close>, \<open>data/docEntities/requestResponse.ts\<close>, \<open>data/docEntities/controllers.ts\<close>, \<open>data/docEntities/testingEntities.ts\<close>, \<open>data/docEntities/speculaEntities.ts\<close>, \<open>data/docEntities/providers.ts\<close>, \<open>data/docEntities/devPlatform.ts\<close>, and per file the list that is registered.
\<close>

subsection \<open>\<open>serverLifecycle.ts\<close>\<close>

definition ent_lifecycle_on_startup :: doc_entity where
  "ent_lifecycle_on_startup = \<lparr>de_id = (js ''lifecycle.on_startup''), de_type = EHook, de_title = (js ''on_startup(ctx)''),
   de_description = (js ''Runs once during application startup, after dependency-ordered wiring completes but before the server accepts requests.''),
   de_signature = Some (js ''async def on_startup(self, ctx: RequestCtx) -> None''), de_language = Some (js ''python''),
   de_parameters = Some [
     \<lparr>par_name = (js ''ctx''), par_type = Some (js ''RequestCtx''), par_description = Some (js ''The lifecycle-scoped request context, useful for reading app config and DI-resolved services.''), par_optional = None, par_default = None\<rparr>],
   de_returns = Some \<lparr>ret_type = Some (js ''None''), ret_description = Some (js ''Raising inside this hook aborts startup and triggers rollback of already-started apps.'')\<rparr>, de_example = Some \<lparr>ex_code = (js ''class DatabaseController(Controller):'' @ [10] @ js ''    instantiation_mode = '' @ [34] @ js ''singleton'' @ [34, 10, 10] @ js ''    async def on_startup(self, ctx: RequestCtx) -> None:'' @ [10] @ js ''        self.pool = await self.db.create_pool(min_size=5, max_size=20)''),
     ex_language = Some (js ''python''), ex_title = None\<rparr>,
   de_related = Some [
     \<lparr>rel_id = Some (js ''lifecycle.on_shutdown''), rel_label = (js ''on_shutdown(ctx)''), rel_href = None\<rparr>,
     \<lparr>rel_id = Some (js ''lifecycle.coordinator''), rel_label = (js ''LifecycleCoordinator''), rel_href = None\<rparr>],
   de_status = Some Stable, de_version = Some (js ''v1.0+''), de_deprecated = None, de_notes = Some [\<lparr>note_kind = Some NKNote, note_text = (js ''Only called on controllers with instantiation_mode = '' @ [34] @ js ''singleton'' @ [34] @ js ''.'')\<rparr>],
   de_docsHref = Some (js ''/docs/server/lifecycle''), de_source = Some \<lparr>src_file = (js ''aquilia/lifecycle.py''), src_line = Some 115, src_href = None\<rparr>\<rparr>"

definition ent_lifecycle_on_shutdown :: doc_entity where
  "ent_lifecycle_on_shutdown = \<lparr>de_id = (js ''lifecycle.on_shutdown''), de_type = EHook, de_title = (js ''on_shutdown(ctx)''),
   de_description = (js ''Runs once during application shutdown, in reverse dependency order relative to startup.''),
   de_signature = Some (js ''async def on_shutdown(self, ctx: RequestCtx) -> None''), de_language = Some (js ''python''),
   de_parameters = Some [
     \<lparr>par_name = (js ''ctx''), par_type = Some (js ''RequestCtx''), par_description = Some (js ''The lifecycle-scoped request context.''), par_optional = None, par_default = None\<rparr>],
   de_returns = Some \<lparr>ret_type = Some (js ''None''), ret_description = Some (js ''Errors are logged but do not stop other apps from shutting down.'')\<rparr>, de_example = None,
   de_related = Some [
     \<lparr>rel_id = Some (js ''lifecycle.on_startup''), rel_label = (js ''on_startup(ctx)''), rel_href = None\<rparr>,
     \<lparr>rel_id = Some (js ''lifecycle.coordinator''), rel_label = (js ''LifecycleCoordinator''), rel_href = None\<rparr>],
   de_status = Some Stable, de_version = Some (js ''v1.0+''), de_deprecated = None, de_notes = None,
   de_docsHref = Some (js ''/docs/server/lifecycle''), de_source = Some \<lparr>src_file = (js ''aquilia/lifecycle.py''), src_line = Some 151, src_href = None\<rparr>\<rparr>"

definition ent_lifecycle_coordinator :: doc_entity where
  "ent_lifecycle_coordinator = \<lparr>de_id = (js ''lifecycle.coordinator''), de_type = EClass, de_title = (js ''LifecycleCoordinator''),
   de_description = (js ''Manages dependency-ordered startup and shutdown of app components using the RuntimeRegistry dependency graph.''),
   de_signature = Some (js ''class LifecycleCoordinator:'' @ [10] @ js ''    def __init__(self, runtime: RuntimeRegistry, config: ConfigLoader): ...''), de_language = Some (js ''python''),
   de_parameters = None,
   de_returns = None, de_example = None,
   de_related = Some [
     \<lparr>rel_id = Some (js ''lifecycle.on_startup''), rel_label = (js ''on_startup(ctx)''), rel_href = None\<rparr>,
     \<lparr>rel_id = Some (js ''lifecycle.on_shutdown''), rel_label = (js ''on_shutdown(ctx)''), rel_href = None\<rparr>,
     \<lparr>rel_id = None, rel_label = (js ''RuntimeRegistry''), rel_href = Some (js ''/docs/aquilary/runtime'')\<rparr>],
   de_status = Some Stable, de_version = Some (js ''v1.0+''), de_deprecated = None, de_notes = None,
   de_docsHref = Some (js ''/docs/server/lifecycle''), de_source = Some \<lparr>src_file = (js ''aquilia/lifecycle.py''), src_line = Some 96, src_href = None\<rparr>\<rparr>"

definition ent_lifecycle_on_request :: doc_entity where
  "ent_lifecycle_on_request = \<lparr>de_id = (js ''lifecycle.on_request''), de_type = EHook, de_title = (js ''on_request(ctx)''),
   de_description = (js ''Runs before every request on this controller '' @ [8212] @ js '' both singleton and per_request instantiation modes.''),
   de_signature = Some (js ''async def on_request(self, ctx: RequestCtx) -> None''), de_language = Some (js ''python''),
   de_parameters = Some [
     \<lparr>par_name = (js ''ctx''), par_type = Some (js ''RequestCtx''), par_description = Some (js ''The current request context. Mutate ctx.state to pass data downstream.''), par_optional = None, par_default = None\<rparr>],
   de_returns = None, de_example = None,
   de_related = Some [
     \<lparr>rel_id = Some (js ''lifecycle.on_response''), rel_label = (js ''on_response(ctx, response)''), rel_href = None\<rparr>],
   de_status = Some Stable, de_version = None, de_deprecated = None, de_notes = None,
   de_docsHref = Some (js ''/docs/server/lifecycle''), de_source = None\<rparr>"

definition ent_lifecycle_on_response :: doc_entity where
  "ent_lifecycle_on_response = \<lparr>de_id = (js ''lifecycle.on_response''), de_type = EHook, de_title = (js ''on_response(ctx, response)''),
   de_description = (js ''Runs after every request. Can inspect or replace the outgoing Response.''),
   de_signature = Some (js ''async def on_response(self, ctx: RequestCtx, response: Response) -> Response''), de_language = Some (js ''python''),
   de_parameters = Some [
     \<lparr>par_name = (js ''ctx''), par_type = Some (js ''RequestCtx''), par_description = Some (js ''The current request context.''), par_optional = None, par_default = None\<rparr>,
     \<lparr>par_name = (js ''response''), par_type = Some (js ''Response''), par_description = Some (js ''The response produced by the route handler.''), par_optional = None, par_default = None\<rparr>],
   de_returns = Some \<lparr>ret_type = Some (js ''Response''), ret_description = Some (js ''Return the (optionally modified) response to send to the client.'')\<rparr>, de_example = None,
   de_related = Some [
     \<lparr>rel_id = Some (js ''lifecycle.on_request''), rel_label = (js ''on_request(ctx)''), rel_href = None\<rparr>],
   de_status = Some Stable, de_version = None, de_deprecated = None, de_notes = None,
   de_docsHref = Some (js ''/docs/server/lifecycle''), de_source = None\<rparr>"

definition entities_serverLifecycle :: "doc_entity list" where
  "entities_serverLifecycle = [
     ent_lifecycle_on_startup, ent_lifecycle_on_shutdown, ent_lifecycle_coordinator, ent_lifecycle_on_request,
     ent_lifecycle_on_response]"

subsection \<open>\<open>showcase.ts\<close>\<close>

definition ent_controllers_router :: doc_entity where
  "ent_controllers_router = \<lparr>de_id = (js ''controllers.router''), de_type = EClass, de_title = (js ''Router''),
   de_description = (js ''Compiles controller route declarations into a matchable route table, resolving prefixes, path params, and method dispatch ahead of time.''),
   de_signature = Some (js ''class Router:'' @ [10] @ js ''    def __init__(self, controllers: list[Controller]): ...''), de_language = Some (js ''python''),
   de_parameters = Some [
     \<lparr>par_name = (js ''controllers''), par_type = Some (js ''list[Controller]''), par_description = Some (js ''Discovered controller instances to compile routes for.''), par_optional = None, par_default = None\<rparr>],
   de_returns = None, de_example = None,
   de_related = Some [
     \<lparr>rel_id = None, rel_label = (js ''@GET / @POST''), rel_href = Some (js ''/docs/controllers/decorators'')\<rparr>,
     \<lparr>rel_id = None, rel_label = (js ''ControllerRouter''), rel_href = Some (js ''/docs/controllers/router'')\<rparr>],
   de_status = Some Stable, de_version = Some (js ''v1.0+''), de_deprecated = None, de_notes = None,
   de_docsHref = Some (js ''/docs/controllers/router''), de_source = Some \<lparr>src_file = (js ''aquilia/controller/router.py''), src_line = None, src_href = None\<rparr>\<rparr>"

definition ent_di_inject_first :: doc_entity where
  "ent_di_inject_first = \<lparr>de_id = (js ''di.inject''), de_type = EDecorator, de_title = (js ''@inject''),
   de_description = (js ''Marks a constructor or function parameter for dependency resolution from the active DI container at the appropriate scope.''),
   de_signature = Some (js ''@inject'' @ [10] @ js ''def __init__(self, db: Database, cache: Cache): ...''), de_language = Some (js ''python''),
   de_parameters = None,
   de_returns = None, de_example = Some \<lparr>ex_code = (js ''class ReportsController(Controller):'' @ [10] @ js ''    @inject'' @ [10] @ js ''    def __init__(self, db: Database, cache: Cache):'' @ [10] @ js ''        self.db = db'' @ [10] @ js ''        self.cache = cache''),
     ex_language = Some (js ''python''), ex_title = None\<rparr>,
   de_related = Some [
     \<lparr>rel_id = None, rel_label = (js ''DI Scopes''), rel_href = Some (js ''/docs/di/scopes'')\<rparr>,
     \<lparr>rel_id = None, rel_label = (js ''Providers''), rel_href = Some (js ''/docs/di/providers'')\<rparr>],
   de_status = Some Stable, de_version = None, de_deprecated = None, de_notes = None,
   de_docsHref = Some (js ''/docs/di/decorators''), de_source = None\<rparr>"

definition ent_models_user_model :: doc_entity where
  "ent_models_user_model = \<lparr>de_id = (js ''models.user_model''), de_type = EModel, de_title = (js ''UserModel''),
   de_description = (js ''Example async ORM model '' @ [8212] @ js '' declares typed fields and generates a query set, migrations, and validation automatically.''),
   de_signature = Some (js ''class UserModel(Model):'' @ [10] @ js ''    id: int = Field(primary_key=True)'' @ [10] @ js ''    email: str = Field(unique=True)''), de_language = Some (js ''python''),
   de_parameters = None,
   de_returns = None, de_example = None,
   de_related = Some [
     \<lparr>rel_id = None, rel_label = (js ''Fields''), rel_href = Some (js ''/docs/models/fields'')\<rparr>,
     \<lparr>rel_id = None, rel_label = (js ''QuerySet''), rel_href = Some (js ''/docs/models/queryset'')\<rparr>],
   de_status = Some Stable, de_version = None, de_deprecated = None, de_notes = None,
   de_docsHref = Some (js ''/docs/models/overview''), de_source = None\<rparr>"

definition ent_cli_aquilia_run :: doc_entity where
  "ent_cli_aquilia_run = \<lparr>de_id = (js ''cli.aquilia_run''), de_type = ECli, de_title = (js ''aquilia run''),
   de_description = (js ''Starts the dev server with hot reload, using the workspace at AQUILIA_WORKSPACE (defaults to the current directory).''),
   de_signature = Some (js ''aquilia run [--host HOST] [--port PORT] [--reload]''), de_language = Some (js ''bash''),
   de_parameters = Some [
     \<lparr>par_name = (js ''--host''), par_type = Some (js ''string''), par_description = Some (js ''Bind address.''), par_optional = Some True, par_default = Some (js ''127.0.0.1'')\<rparr>,
     \<lparr>par_name = (js ''--port''), par_type = Some (js ''int''), par_description = Some (js ''Bind port.''), par_optional = Some True, par_default = Some (js ''8000'')\<rparr>,
     \<lparr>par_name = (js ''--reload''), par_type = None, par_description = Some (js ''Enable file-watch hot reload (default in dev mode).''), par_optional = Some True, par_default = None\<rparr>],
   de_returns = None, de_example = Some \<lparr>ex_code = (js ''aquilia run --port 3000 --reload''),
     ex_language = Some (js ''bash''), ex_title = None\<rparr>,
   de_related = None,
   de_status = Some Stable, de_version = None, de_deprecated = None, de_notes = None,
   de_docsHref = Some (js ''/docs/cli/core''), de_source = None\<rparr>"

definition ent_cli_aq :: doc_entity where
  "ent_cli_aq = \<lparr>de_id = (js ''cli.aq''), de_type = ECli, de_title = (js ''aq''),
   de_description = (js ''Aquilia'' @ [39] @ js ''s command line interface for manifest-driven, artifact-first project orchestration.''),
   de_signature = Some (js ''aq [OPTIONS] COMMAND [ARGS]...''), de_language = Some (js ''bash''),
   de_parameters = None,
   de_returns = None, de_example = Some \<lparr>ex_code = (js ''aq --help''),
     ex_language = Some (js ''bash''), ex_title = None\<rparr>,
   de_related = None,
   de_status = Some Stable, de_version = None, de_deprecated = None, de_notes = None,
   de_docsHref = Some (js ''/docs/cli/overview''), de_source = None\<rparr>"

definition ent_cli_init_workspace_first :: doc_entity where
  "ent_cli_init_workspace_first = \<lparr>de_id = (js ''cli.init_workspace''), de_type = ECli, de_title = (js ''aq init workspace''),
   de_description = (js ''Scaffolds a new Aquilia workspace project structure with production-ready defaults.''),
   de_signature = Some (js ''aq init workspace NAME [--minimal] [--template TEMPLATE] [--no-docker] [--no-makefile]''), de_language = Some (js ''bash''),
   de_parameters = None,
   de_returns = None, de_example = Some \<lparr>ex_code = (js ''aq init workspace my-api''),
     ex_language = Some (js ''bash''), ex_title = None\<rparr>,
   de_related = None,
   de_status = Some Stable, de_version = None, de_deprecated = None, de_notes = None,
   de_docsHref = Some (js ''/docs/cli/commands''), de_source = None\<rparr>"

definition ent_cli_add_module_first :: doc_entity where
  "ent_cli_add_module_first = \<lparr>de_id = (js ''cli.add_module''), de_type = ECli, de_title = (js ''aq add module''),
   de_description = (js ''Scaffolds a new module directory structure inside the modules/ folder, auto-wiring it to workspace.py.''),
   de_signature = Some (js ''aq add module NAME [--minimal] [--with-tests] [--no-docker]''), de_language = Some (js ''bash''),
   de_parameters = None,
   de_returns = None, de_example = Some \<lparr>ex_code = (js ''aq add module users''),
     ex_language = Some (js ''bash''), ex_title = None\<rparr>,
   de_related = None,
   de_status = Some Stable, de_version = None, de_deprecated = None, de_notes = None,
   de_docsHref = Some (js ''/docs/cli/commands''), de_source = None\<rparr>"

definition ent_cli_inspect :: doc_entity where
  "ent_cli_inspect = \<lparr>de_id = (js ''cli.inspect''), de_type = ECli, de_title = (js ''aq inspect''),
   de_description = (js ''Query and introspect compiled trace artifacts, route tables, and configuration from the command line.''),
   de_signature = Some (js ''aq inspect [routes|config|manifest|di]''), de_language = Some (js ''bash''),
   de_parameters = None,
   de_returns = None, de_example = Some \<lparr>ex_code = (js ''aq inspect routes''),
     ex_language = Some (js ''bash''), ex_title = None\<rparr>,
   de_related = None,
   de_status = Some Stable, de_version = None, de_deprecated = None, de_notes = None,
   de_docsHref = Some (js ''/docs/cli/commands''), de_source = None\<rparr>"

definition ent_cli_trace :: doc_entity where
  "ent_cli_trace = \<lparr>de_id = (js ''cli.trace''), de_type = ECli, de_title = (js ''aq trace''),
   de_description = (js ''Starts an interactive terminal-based trace explorer to view operational events, dependency resolution, and diagnostics.''),
   de_signature = Some (js ''aq trace''), de_language = Some (js ''bash''),
   de_parameters = None,
   de_returns = None, de_example = None,
   de_related = None,
   de_status = Some Stable, de_version = None, de_deprecated = None, de_notes = None,
   de_docsHref = Some (js ''/docs/cli/commands''), de_source = None\<rparr>"

definition ent_cli_serve_first :: doc_entity where
  "ent_cli_serve_first = \<lparr>de_id = (js ''cli.serve''), de_type = ECli, de_title = (js ''aq serve''),
   de_description = (js ''Starts the production ASGI server with multi-worker support and high-performance settings.''),
   de_signature = Some (js ''aq serve [--host HOST] [--port PORT] [--workers WORKERS]''), de_language = Some (js ''bash''),
   de_parameters = None,
   de_returns = None, de_example = None,
   de_related = None,
   de_status = Some Stable, de_version = None, de_deprecated = None, de_notes = None,
   de_docsHref = Some (js ''/docs/cli/commands''), de_source = None\<rparr>"

definition ent_cli_compile_first :: doc_entity where
  "ent_cli_compile_first = \<lparr>de_id = (js ''cli.compile''), de_type = ECli, de_title = (js ''aq compile''),
   de_description = (js ''Compiles the workspace manifest, routes, and dependency graph ahead of time for production readiness.''),
   de_signature = Some (js ''aq compile''), de_language = Some (js ''bash''),
   de_parameters = None,
   de_returns = None, de_example = None,
   de_related = None,
   de_status = Some Stable, de_version = None, de_deprecated = None, de_notes = None,
   de_docsHref = Some (js ''/docs/cli/commands''), de_source = None\<rparr>"

definition ent_cli_freeze_first :: doc_entity where
  "ent_cli_freeze_first = \<lparr>de_id = (js ''cli.freeze''), de_type = ECli, de_title = (js ''aq freeze''),
   de_description = (js ''Creates a static integrity snapshot of compiled components to disable runtime auto-discovery (Strict Mode).''),
   de_signature = Some (js ''aq freeze''), de_language = Some (js ''bash''),
   de_parameters = None,
   de_returns = None, de_example = None,
   de_related = None,
   de_status = Some Stable, de_version = None, de_deprecated = None, de_notes = None,
   de_docsHref = Some (js ''/docs/cli/commands''), de_source = None\<rparr>"

definition ent_cli_validate_first :: doc_entity where
  "ent_cli_validate_first = \<lparr>de_id = (js ''cli.validate''), de_type = ECli, de_title = (js ''aq validate''),
   de_description = (js ''Validate workspace manifests, components, and wiring for type-safety and configuration correctness.''),
   de_signature = Some (js ''aq validate [--strict] [--module MODULE] [--json]''), de_language = Some (js ''bash''),
   de_parameters = None,
   de_returns = None, de_example = Some \<lparr>ex_code = (js ''aq validate --strict''),
     ex_language = Some (js ''bash''), ex_title = None\<rparr>,
   de_related = None,
   de_status = Some Stable, de_version = None, de_deprecated = None, de_notes = None,
   de_docsHref = Some (js ''/docs/cli/commands''), de_source = None\<rparr>"

definition ent_cli_db_makemigrations_first :: doc_entity where
  "ent_cli_db_makemigrations_first = \<lparr>de_id = (js ''cli.db_makemigrations''), de_type = ECli, de_title = (js ''aq db makemigrations''),
   de_description = (js ''Generate migration files from Python Model definitions. Uses SURP binary format by default for compact storage.''),
   de_signature = Some (js ''aq db makemigrations [--app APP] [--migrations-dir DIR] [--dsl/--no-dsl] [--format python|surp]''), de_language = Some (js ''bash''),
   de_parameters = None,
   de_returns = None, de_example = Some \<lparr>ex_code = (js ''aq db makemigrations --format=python''),
     ex_language = Some (js ''bash''), ex_title = None\<rparr>,
   de_related = None,
   de_status = Some Stable, de_version = None, de_deprecated = None, de_notes = None,
   de_docsHref = Some (js ''/docs/cli/commands''), de_source = None\<rparr>"

definition ent_cli_db_migrate_first :: doc_entity where
  "ent_cli_db_migrate_first = \<lparr>de_id = (js ''cli.db_migrate''), de_type = ECli, de_title = (js ''aq db migrate''),
   de_description = (js ''Apply pending migrations to the database. The database URL is auto-detected from workspace.py if not specified.''),
   de_signature = Some (js ''aq db migrate [--migrations-dir DIR] [--database-url URL] [--database ALIAS] [--target TARGET] [--fake] [--plan]''), de_language = Some (js ''bash''),
   de_parameters = None,
   de_returns = None, de_example = Some \<lparr>ex_code = (js ''aq db migrate --plan''),
     ex_language = Some (js ''bash''), ex_title = None\<rparr>,
   de_related = None,
   de_status = Some Stable, de_version = None, de_deprecated = None, de_notes = None,
   de_docsHref = Some (js ''/docs/cli/commands''), de_source = None\<rparr>"

definition ent_cli_deploy :: doc_entity where
  "ent_cli_deploy = \<lparr>de_id = (js ''cli.deploy''), de_type = ECli, de_title = (js ''aq deploy''),
   de_description = (js ''Generates deployment targets (Dockerfile, Docker Compose, Kubernetes, Render settings) and interacts with cloud providers.''),
   de_signature = Some (js ''aq deploy [dockerfile|compose|render|all]''), de_language = Some (js ''bash''),
   de_parameters = None,
   de_returns = None, de_example = None,
   de_related = None,
   de_status = Some Stable, de_version = None, de_deprecated = None, de_notes = None,
   de_docsHref = Some (js ''/docs/cli/commands''), de_source = None\<rparr>"

definition ent_cli_workspace_py :: doc_entity where
  "ent_cli_workspace_py = \<lparr>de_id = (js ''cli.workspace_py''), de_type = EConfig, de_title = (js ''workspace.py''),
   de_description = (js ''The root configuration file and Fluent Builder script for the Aquilia workspace.''),
   de_signature = Some (js ''workspace = Workspace('' @ [34] @ js ''my-api'' @ [34] @ js '').build()''), de_language = Some (js ''python''),
   de_parameters = None,
   de_returns = None, de_example = None,
   de_related = None,
   de_status = Some Stable, de_version = None, de_deprecated = None, de_notes = None,
   de_docsHref = Some (js ''/docs/getting-started/project-structure''), de_source = None\<rparr>"

definition ent_cli_dotenv_file :: doc_entity where
  "ent_cli_dotenv_file = \<lparr>de_id = (js ''cli.dotenv_file''), de_type = EConfig, de_title = (js ''.env''),
   de_description = (js ''Local environment secrets and configuration values loaded by Aquilia config loader.''),
   de_signature = Some (js ''# .env'' @ [10] @ js ''AQ_DEBUG=true'' @ [10] @ js ''AQ_PORT=8000''), de_language = Some (js ''bash''),
   de_parameters = None,
   de_returns = None, de_example = None,
   de_related = None,
   de_status = Some Stable, de_version = None, de_deprecated = None, de_notes = None,
   de_docsHref = Some (js ''/docs/getting-started/project-structure''), de_source = None\<rparr>"

definition ent_http_request_type :: doc_entity where
  "ent_http_request_type = \<lparr>de_id = (js ''http.request_type''), de_type = EType, de_title = (js ''Request''),
   de_description = (js ''Immutable, typed representation of an inbound HTTP request '' @ [8212] @ js '' headers, query params, path params, and a lazily-parsed body.''),
   de_signature = Some (js ''class Request:'' @ [10] @ js ''    method: str'' @ [10] @ js ''    path: str'' @ [10] @ js ''    headers: Headers'' @ [10] @ js ''    query: QueryParams''), de_language = Some (js ''python''),
   de_parameters = None,
   de_returns = None, de_example = None,
   de_related = Some [
     \<lparr>rel_id = None, rel_label = (js ''Response''), rel_href = Some (js ''/docs/request-response/response'')\<rparr>,
     \<lparr>rel_id = None, rel_label = (js ''RequestCtx''), rel_href = Some (js ''/docs/controllers/request-ctx'')\<rparr>],
   de_status = Some Stable, de_version = None, de_deprecated = None, de_notes = None,
   de_docsHref = Some (js ''/docs/request-response/request''), de_source = None\<rparr>"

definition ent_config_env_first :: doc_entity where
  "ent_config_env_first = \<lparr>de_id = (js ''config.env''), de_type = EConfig, de_title = (js ''Env''),
   de_description = (js ''A configuration descriptor that reads a typed value from environment variables at runtime, falling back to a default value if missing.''),
   de_signature = Some (js ''class Env(Generic[T]):'' @ [10] @ js ''    def __init__(self, key: str, default: T = None, cast: Callable = None)''), de_language = Some (js ''python''),
   de_parameters = None,
   de_returns = None, de_example = None,
   de_related = None,
   de_status = Some Stable, de_version = None, de_deprecated = None, de_notes = None,
   de_docsHref = Some (js ''/docs/config/workspace''), de_source = None\<rparr>"

definition ent_config_secret_first :: doc_entity where
  "ent_config_secret_first = \<lparr>de_id = (js ''config.secret''), de_type = EConfig, de_title = (js ''Secret''),
   de_description = (js ''A configuration descriptor specifically designed to wrap sensitive credential strings. Secrets never leak during serialization and require an explicit .reveal() call to access their values.''),
   de_signature = Some (js ''class Secret(Generic[T]):'' @ [10] @ js ''    def __init__(self, env: str, default: T = None, required: bool = False)''), de_language = Some (js ''python''),
   de_parameters = None,
   de_returns = None, de_example = None,
   de_related = None,
   de_status = Some Stable, de_version = None, de_deprecated = None, de_notes = None,
   de_docsHref = Some (js ''/docs/config/workspace''), de_source = None\<rparr>"

definition ent_config_workspace_first :: doc_entity where
  "ent_config_workspace_first = \<lparr>de_id = (js ''config.workspace''), de_type = EConfig, de_title = (js ''Workspace''),
   de_description = (js ''The root container representing the Aquilia application workspace. Organizes modules, routing rules, default integrations, and environment configurations.''),
   de_signature = Some (js ''class Workspace:'' @ [10] @ js ''    def __init__(self, name: str, version: str = '' @ [34] @ js ''1.0.0'' @ [34] @ js '', description: str = '' @ [34, 34] @ js '')''), de_language = Some (js ''python''),
   de_parameters = None,
   de_returns = None, de_example = None,
   de_related = None,
   de_status = Some Stable, de_version = None, de_deprecated = None, de_notes = None,
   de_docsHref = Some (js ''/docs/config/workspace''), de_source = None\<rparr>"

definition ent_config_module_first :: doc_entity where
  "ent_config_module_first = \<lparr>de_id = (js ''config.module''), de_type = EConfig, de_title = (js ''Module''),
   de_description = (js ''Represents a standalone sub-application module within the Aquilia workspace, managing its own manifest declarations, controllers, services, and routing namespace.''),
   de_signature = Some (js ''class Module:'' @ [10] @ js ''    def __init__(self, name: str, route_prefix: str = None)''), de_language = Some (js ''python''),
   de_parameters = None,
   de_returns = None, de_example = None,
   de_related = None,
   de_status = Some Stable, de_version = None, de_deprecated = None, de_notes = None,
   de_docsHref = Some (js ''/docs/config/modules''), de_source = None\<rparr>"

definition ent_config_integration :: doc_entity where
  "ent_config_integration = \<lparr>de_id = (js ''config.integration''), de_type = EConfig, de_title = (js ''Integration''),
   de_description = (js ''A Fluent Integration Builder namespace providing structured, type-safe configuration APIs for framework subsystems such as admin, cache, storage, and database.''),
   de_signature = Some (js ''class Integration:'' @ [10] @ js ''    @staticmethod'' @ [10] @ js ''    def database(**kwargs) -> DatabaseIntegration''), de_language = Some (js ''python''),
   de_parameters = None,
   de_returns = None, de_example = None,
   de_related = None,
   de_status = Some Stable, de_version = None, de_deprecated = None, de_notes = None,
   de_docsHref = Some (js ''/docs/config/integrations''), de_source = None\<rparr>"

definition entities_showcase :: "doc_entity list" where
  "entities_showcase = [
     ent_controllers_router, ent_di_inject_first, ent_models_user_model, ent_cli_aquilia_run,
     ent_cli_aq, ent_cli_init_workspace_first, ent_cli_add_module_first, ent_cli_inspect,
     ent_cli_trace, ent_cli_serve_first, ent_cli_compile_first, ent_cli_freeze_first,
     ent_cli_validate_first, ent_cli_db_makemigrations_first, ent_cli_db_migrate_first, ent_cli_deploy,
     ent_cli_workspace_py, ent_cli_dotenv_file, ent_http_request_type, ent_config_env_first,
     ent_config_secret_first, ent_config_workspace_first, ent_config_module_first, ent_config_integration]"

subsection \<open>\<open>adminPanel.ts\<close>\<close>

definition ent_cli_admin_setup :: doc_entity where
  "ent_cli_admin_setup = \<lparr>de_id = (js ''cli.admin_setup''), de_type = ECli, de_title = (js ''aq admin setup''),
   de_description = (js ''Auto-configures all admin dashboard dependencies (sessions, database, static files, template engine) in workspace.py, runs database migrations, and prompts to create a superuser.''),
   de_signature = Some (js ''aq admin setup [--non-interactive] [--database-url URL]''), de_language = Some (js ''bash''),
   de_parameters = Some [
     \<lparr>par_name = (js ''--non-interactive, -y''), par_type = None, par_description = Some (js ''Skip confirmation prompts and interactive inputs.''), par_optional = Some True, par_default = None\<rparr>,
     \<lparr>par_name = (js ''--database-url''), par_type = Some (js ''string''), par_description = Some (js ''Database connection URL to write to workspace.py.''), par_optional = Some True, par_default = Some (js ''sqlite:///db.sqlite3'')\<rparr>],
   de_returns = None, de_example = None,
   de_related = None,
   de_status = Some Stable, de_version = Some (js ''v1.1+''), de_deprecated = None, de_notes = None,
   de_docsHref = Some (js ''/docs/getting-started/admin-panel''), de_source = None\<rparr>"

definition ent_cli_admin_check :: doc_entity where
  "ent_cli_admin_check = \<lparr>de_id = (js ''cli.admin_check''), de_type = ECli, de_title = (js ''aq admin check''),
   de_description = (js ''Runs pre-flight validation on admin dashboard dependencies. Catches configuration errors (missing sessions, unmigrated DB, missing assets) before boot.''),
   de_signature = Some (js ''aq admin check [--fix] [--json]''), de_language = Some (js ''bash''),
   de_parameters = Some [
     \<lparr>par_name = (js ''--fix''), par_type = None, par_description = Some (js ''Auto-fix missing configuration by uncommenting default sections in workspace.py.''), par_optional = Some True, par_default = None\<rparr>,
     \<lparr>par_name = (js ''--json''), par_type = None, par_description = Some (js ''Output diagnostics in raw JSON format.''), par_optional = Some True, par_default = None\<rparr>],
   de_returns = None, de_example = None,
   de_related = None,
   de_status = Some Stable, de_version = Some (js ''v1.1+''), de_deprecated = None, de_notes = None,
   de_docsHref = Some (js ''/docs/getting-started/admin-panel''), de_source = None\<rparr>"

definition ent_cli_admin_createsuperuser :: doc_entity where
  "ent_cli_admin_createsuperuser = \<lparr>de_id = (js ''cli.admin_createsuperuser''), de_type = ECli, de_title = (js ''aq admin createsuperuser''),
   de_description = (js ''Creates a superuser account in the database (aq_admin_users table) with full read/write capabilities across all dashboard systems. Uses Argon2id/PBKDF2 hashing.''),
   de_signature = Some (js ''aq admin createsuperuser [--username UNAME] [--email EMAIL] [--password PW] [--first-name FNAME] [--last-name LNAME]''), de_language = Some (js ''bash''),
   de_parameters = None,
   de_returns = None, de_example = None,
   de_related = None,
   de_status = Some Stable, de_version = Some (js ''v1.1+''), de_deprecated = None, de_notes = None,
   de_docsHref = Some (js ''/docs/getting-started/admin-panel''), de_source = None\<rparr>"

definition ent_cli_admin_createstaff :: doc_entity where
  "ent_cli_admin_createstaff = \<lparr>de_id = (js ''cli.admin_createstaff''), de_type = ECli, de_title = (js ''aq admin createstaff''),
   de_description = (js ''Creates a staff account with restricted admin privileges. Staff members can only view/edit specific models and cannot manage permissions or users.''),
   de_signature = Some (js ''aq admin createstaff [--username UNAME] [--email EMAIL] [--password PW] [--first-name FNAME] [--last-name LNAME]''), de_language = Some (js ''bash''),
   de_parameters = None,
   de_returns = None, de_example = None,
   de_related = None,
   de_status = Some Stable, de_version = Some (js ''v1.1+''), de_deprecated = None, de_notes = None,
   de_docsHref = Some (js ''/docs/getting-started/admin-panel''), de_source = None\<rparr>"

definition ent_cli_admin_listusers :: doc_entity where
  "ent_cli_admin_listusers = \<lparr>de_id = (js ''cli.admin_listusers''), de_type = ECli, de_title = (js ''aq admin listusers''),
   de_description = (js ''Lists all registered admin, staff, and viewer accounts from the aq_admin_users database table.''),
   de_signature = Some (js ''aq admin listusers [--json] [--active-only]''), de_language = Some (js ''bash''),
   de_parameters = None,
   de_returns = None, de_example = None,
   de_related = None,
   de_status = Some Stable, de_version = Some (js ''v1.1+''), de_deprecated = None, de_notes = None,
   de_docsHref = Some (js ''/docs/getting-started/admin-panel''), de_source = None\<rparr>"

definition ent_cli_admin_changepassword :: doc_entity where
  "ent_cli_admin_changepassword = \<lparr>de_id = (js ''cli.admin_changepassword''), de_type = ECli, de_title = (js ''aq admin changepassword''),
   de_description = (js ''Updates the password for a specified admin or staff user, enforcing standard strong password rules.''),
   de_signature = Some (js ''aq admin changepassword USERNAME [--password PW]''), de_language = Some (js ''bash''),
   de_parameters = None,
   de_returns = None, de_example = None,
   de_related = None,
   de_status = Some Stable, de_version = Some (js ''v1.1+''), de_deprecated = None, de_notes = None,
   de_docsHref = Some (js ''/docs/getting-started/admin-panel''), de_source = None\<rparr>"

definition ent_cli_admin_status :: doc_entity where
  "ent_cli_admin_status = \<lparr>de_id = (js ''cli.admin_status''), de_type = ECli, de_title = (js ''aq admin status''),
   de_description = (js ''Displays current admin site configuration status and lists all registered models automatically discovered by autodiscover().''),
   de_signature = Some (js ''aq admin status [--database-url URL]''), de_language = Some (js ''bash''),
   de_parameters = None,
   de_returns = None, de_example = None,
   de_related = None,
   de_status = Some Stable, de_version = Some (js ''v1.1+''), de_deprecated = None, de_notes = None,
   de_docsHref = Some (js ''/docs/getting-started/admin-panel''), de_source = None\<rparr>"

definition ent_cli_admin_audit :: doc_entity where
  "ent_cli_admin_audit = \<lparr>de_id = (js ''cli.admin_audit''), de_type = ECli, de_title = (js ''aq admin audit''),
   de_description = (js ''Queries the admin audit log database table, returning operational records of admin actions (logins, creations, edits, deletions).''),
   de_signature = Some (js ''aq admin audit [--limit N] [--action ACTION] [--user USERNAME]''), de_language = Some (js ''bash''),
   de_parameters = None,
   de_returns = None, de_example = None,
   de_related = None,
   de_status = Some Stable, de_version = Some (js ''v1.1+''), de_deprecated = None, de_notes = None,
   de_docsHref = Some (js ''/docs/getting-started/admin-panel''), de_source = None\<rparr>"

definition ent_config_admin_integration :: doc_entity where
  "ent_config_admin_integration = \<lparr>de_id = (js ''config.admin_integration''), de_type = EConfig, de_title = (js ''AdminIntegration''),
   de_description = (js ''Dataclass representing the configuration options for the admin dashboard module integrated via workspace.py.''),
   de_signature = Some (js ''class AdminIntegration:'' @ [10] @ js ''    url_prefix: str = '' @ [34] @ js ''/admin'' @ [34, 10] @ js ''    site_title: str = '' @ [34] @ js ''Aquilia Admin'' @ [34, 10] @ js ''    auto_discover: bool = True'' @ [10] @ js ''    modules: AdminModules = None'' @ [10] @ js ''    security: AdminSecurity = None''), de_language = Some (js ''python''),
   de_parameters = None,
   de_returns = None, de_example = Some \<lparr>ex_code = (js ''.integrate(AdminIntegration('' @ [10] @ js ''    url_prefix='' @ [34] @ js ''/admin'' @ [34] @ js '','' @ [10] @ js ''    site_title='' @ [34] @ js ''Core Admin Portal'' @ [34] @ js '','' @ [10] @ js ''    modules=AdminModules(monitoring=True, audit=True),'' @ [10] @ js ''    security=AdminSecurity(password_min_length=12)'' @ [10] @ js ''))''),
     ex_language = Some (js ''python''), ex_title = None\<rparr>,
   de_related = None,
   de_status = Some Stable, de_version = Some (js ''v1.1+''), de_deprecated = None, de_notes = None,
   de_docsHref = Some (js ''/docs/getting-started/admin-panel''), de_source = Some \<lparr>src_file = (js ''aquilia/integrations/admin.py''), src_line = Some 1047, src_href = None\<rparr>\<rparr>"

definition ent_config_admin_modules :: doc_entity where
  "ent_config_admin_modules = \<lparr>de_id = (js ''config.admin_modules''), de_type = EConfig, de_title = (js ''AdminModules''),
   de_description = (js ''Dataclass to toggle individual admin modules and pages (e.g. ORM, migrations, monitoring, pods, containers, query inspector).''),
   de_signature = Some (js ''class AdminModules:'' @ [10] @ js ''    dashboard: bool = True'' @ [10] @ js ''    orm: bool = True'' @ [10] @ js ''    migrations: bool = True'' @ [10] @ js ''    monitoring: bool = False'' @ [10] @ js ''    containers: bool = False'' @ [10] @ js ''    pods: bool = False'' @ [10] @ js ''    tasks: bool = False'' @ [10] @ js ''    audit: bool = False''), de_language = Some (js ''python''),
   de_parameters = None,
   de_returns = None, de_example = None,
   de_related = None,
   de_status = Some Stable, de_version = Some (js ''v1.1+''), de_deprecated = None, de_notes = None,
   de_docsHref = Some (js ''/docs/getting-started/admin-panel''), de_source = Some \<lparr>src_file = (js ''aquilia/integrations/admin.py''), src_line = Some 178, src_href = None\<rparr>\<rparr>"

definition ent_config_admin_security :: doc_entity where
  "ent_config_admin_security = \<lparr>de_id = (js ''config.admin_security''), de_type = EConfig, de_title = (js ''AdminSecurity''),
   de_description = (js ''Hardening options for the admin site (CSRF tokens, login rate limiting, lockout periods, password policies, headers).''),
   de_signature = Some (js ''class AdminSecurity:'' @ [10] @ js ''    csrf_enabled: bool = True'' @ [10] @ js ''    rate_limit_enabled: bool = True'' @ [10] @ js ''    rate_limit_max_attempts: int = 5'' @ [10] @ js ''    password_min_length: int = 10'' @ [10] @ js ''    security_headers_enabled: bool = True''), de_language = Some (js ''python''),
   de_parameters = None,
   de_returns = None, de_example = None,
   de_related = None,
   de_status = Some Stable, de_version = Some (js ''v1.1+''), de_deprecated = None, de_notes = None,
   de_docsHref = Some (js ''/docs/getting-started/admin-panel''), de_source = Some \<lparr>src_file = (js ''aquilia/integrations/admin.py''), src_line = Some 891, src_href = None\<rparr>\<rparr>"

definition entities_adminPanel :: "doc_entity list" where
  "entities_adminPanel = [
     ent_cli_admin_setup, ent_cli_admin_check, ent_cli_admin_createsuperuser, ent_cli_admin_createstaff,
     ent_cli_admin_listusers, ent_cli_admin_changepassword, ent_cli_admin_status, ent_cli_admin_audit,
     ent_config_admin_integration, ent_config_admin_modules, ent_config_admin_security]"

subsection \<open>\<open>requestResponse.ts\<close>\<close>

definition ent_reqres_request :: doc_entity where
  "ent_reqres_request = \<lparr>de_id = (js ''reqres.request''), de_type = EClass, de_title = (js ''Request''),
   de_description = (js ''Production-grade ASGI request wrapper with async body streaming, lazy parsing, and ReDoS/security protections.''),
   de_signature = Some (js ''class Request:'' @ [10] @ js ''    def __init__(self, scope: ASGIScope, receive: ASGIReceive, send: Callable | None = None, *, max_body_size: int = 10_485_760, max_field_count: int = 1000, max_file_size: int = 2_147_483_648, upload_tempdir: PathLike | None = None, trust_proxy: bool | list[str] = False, chunk_size: int = 65536, json_max_size: int = 10_485_760, json_max_depth: int = 64, form_memory_threshold: int = 1048576)''), de_language = Some (js ''python''),
   de_parameters = Some [
     \<lparr>par_name = (js ''scope''), par_type = Some (js ''ASGIScope''), par_description = Some (js ''Raw ASGI scope dictionary containing request metadata.''), par_optional = None, par_default = None\<rparr>,
     \<lparr>par_name = (js ''receive''), par_type = Some (js ''ASGIReceive''), par_description = Some (js ''ASGI receive channel callback.''), par_optional = None, par_default = None\<rparr>,
     \<lparr>par_name = (js ''send''), par_type = Some (js ''Callable''), par_description = Some (js ''ASGI send channel callback.''), par_optional = Some True, par_default = None\<rparr>,
     \<lparr>par_name = (js ''max_body_size''), par_type = Some (js ''int''), par_description = Some (js ''Maximum allowed request body size in bytes.''), par_optional = Some True, par_default = Some (js ''10_485_760'')\<rparr>,
     \<lparr>par_name = (js ''max_field_count''), par_type = Some (js ''int''), par_description = Some (js ''Maximum number of fields in forms/multipart requests.''), par_optional = Some True, par_default = Some (js ''1000'')\<rparr>,
     \<lparr>par_name = (js ''max_file_size''), par_type = Some (js ''int''), par_description = Some (js ''Maximum single file size allowed in uploads.''), par_optional = Some True, par_default = Some (js ''2_147_483_648'')\<rparr>,
     \<lparr>par_name = (js ''trust_proxy''), par_type = Some (js ''bool | list[str]''), par_description = Some (js ''Trust proxy headers for client IP detection. Can be list of trusted CIDRs.''), par_optional = Some True, par_default = Some (js ''False'')\<rparr>],
   de_returns = None, de_example = None,
   de_related = None,
   de_status = Some Stable, de_version = Some (js ''v1.0+''), de_deprecated = None, de_notes = None,
   de_docsHref = Some (js ''/docs/request-response/request''), de_source = Some \<lparr>src_file = (js ''aquilia/request.py''), src_line = Some 215, src_href = None\<rparr>\<rparr>"

definition ent_reqres_response :: doc_entity where
  "ent_reqres_response = \<lparr>de_id = (js ''reqres.response''), de_type = EClass, de_title = (js ''Response''),
   de_description = (js ''ASGI 3 compliant response builder. Handles serialization, streaming, Range headers, SSE, content negotiation, and background tasks.''),
   de_signature = Some (js ''class Response:'' @ [10] @ js ''    def __init__(self, content: bytes | str | Mapping | Sequence | AsyncIterator[bytes] | Iterator[bytes] | Awaitable[Any] = b'' @ [34, 34] @ js '', status: int = 200, headers: Mapping[str, str | Sequence[str]] | None = None, media_type: str | None = None, *, background: BackgroundTask | list[BackgroundTask] | None = None, encoding: str = '' @ [34] @ js ''utf-8'' @ [34] @ js '', validate_headers: bool = True)''), de_language = Some (js ''python''),
   de_parameters = Some [
     \<lparr>par_name = (js ''content''), par_type = Some (js ''Any''), par_description = Some (js ''Response payload: bytes, string, JSON dict/list, or async/sync iterator.''), par_optional = None, par_default = None\<rparr>,
     \<lparr>par_name = (js ''status''), par_type = Some (js ''int''), par_description = Some (js ''HTTP status code.''), par_optional = Some True, par_default = Some (js ''200'')\<rparr>,
     \<lparr>par_name = (js ''headers''), par_type = Some (js ''Mapping''), par_description = Some (js ''HTTP headers dictionary.''), par_optional = Some True, par_default = None\<rparr>,
     \<lparr>par_name = (js ''media_type''), par_type = Some (js ''str''), par_description = Some (js ''Explicit Content-Type header override.''), par_optional = Some True, par_default = None\<rparr>],
   de_returns = None, de_example = None,
   de_related = None,
   de_status = Some Stable, de_version = Some (js ''v1.0+''), de_deprecated = None, de_notes = None,
   de_docsHref = Some (js ''/docs/request-response/response''), de_source = Some \<lparr>src_file = (js ''aquilia/response.py''), src_line = Some 358, src_href = None\<rparr>\<rparr>"

definition ent_reqres_multidict :: doc_entity where
  "ent_reqres_multidict = \<lparr>de_id = (js ''reqres.multidict''), de_type = EClass, de_title = (js ''MultiDict''),
   de_description = (js ''A dictionary supporting multiple values per key. Used for query parameters and URL-encoded form parsing.''),
   de_signature = Some (js ''class MultiDict(MutableMapping[str, list[str]]):'' @ [10] @ js ''    def __init__(self, items: list[tuple[str, str]] | Mapping[str, str | list[str]] | None = None)''), de_language = Some (js ''python''),
   de_parameters = None,
   de_returns = None, de_example = None,
   de_related = None,
   de_status = Some Stable, de_version = None, de_deprecated = None, de_notes = None,
   de_docsHref = Some (js ''/docs/request-response/data-structures''), de_source = Some \<lparr>src_file = (js ''aquilia/_datastructures.py''), src_line = Some 27, src_href = None\<rparr>\<rparr>"

definition ent_reqres_headers :: doc_entity where
  "ent_reqres_headers = \<lparr>de_id = (js ''reqres.headers''), de_type = EClass, de_title = (js ''Headers''),
   de_description = (js ''Case-insensitive header collection preserving original casing and supporting multiple values per header.''),
   de_signature = Some (js ''class Headers:'' @ [10] @ js ''    def __init__(self, raw: list[tuple[bytes, bytes]] = None)''), de_language = Some (js ''python''),
   de_parameters = None,
   de_returns = None, de_example = None,
   de_related = None,
   de_status = Some Stable, de_version = None, de_deprecated = None, de_notes = None,
   de_docsHref = Some (js ''/docs/request-response/data-structures''), de_source = Some \<lparr>src_file = (js ''aquilia/_datastructures.py''), src_line = Some 120, src_href = None\<rparr>\<rparr>"

definition ent_reqres_cookiesigner :: doc_entity where
  "ent_reqres_cookiesigner = \<lparr>de_id = (js ''reqres.cookiesigner''), de_type = EClass, de_title = (js ''CookieSigner''),
   de_description = (js ''HMAC-based cookie signer utilizing SHA-256 (default) and urlsafe-base64 formatting to sign and verify cookie values.''),
   de_signature = Some (js ''class CookieSigner:'' @ [10] @ js ''    def __init__(self, secret_key: str | bytes, algorithm: str = '' @ [34] @ js ''sha256'' @ [34] @ js '')''), de_language = Some (js ''python''),
   de_parameters = Some [
     \<lparr>par_name = (js ''secret_key''), par_type = Some (js ''str | bytes''), par_description = Some (js ''Secret key for signing.''), par_optional = None, par_default = None\<rparr>,
     \<lparr>par_name = (js ''algorithm''), par_type = Some (js ''str''), par_description = Some (js ''Hash algorithm: sha256, sha384, sha512.''), par_optional = Some True, par_default = Some ([34] @ js ''sha256'' @ [34])\<rparr>],
   de_returns = None, de_example = None,
   de_related = None,
   de_status = Some Stable, de_version = None, de_deprecated = None, de_notes = None,
   de_docsHref = Some (js ''/docs/request-response/response''), de_source = Some \<lparr>src_file = (js ''aquilia/response.py''), src_line = Some 231, src_href = None\<rparr>\<rparr>"

definition ent_reqres_uploadfile :: doc_entity where
  "ent_reqres_uploadfile = \<lparr>de_id = (js ''reqres.uploadfile''), de_type = EClass, de_title = (js ''UploadFile''),
   de_description = (js ''Uploaded file representation. Keeps small files in memory and streams large files from disk to prevent unbounded RAM usage.''),
   de_signature = Some (js ''class UploadFile:'' @ [10] @ js ''    async def read(self, size: int = -1) -> bytes'' @ [10] @ js ''    async def stream(self, chunk_size: int | None = None) -> AsyncIterator[bytes]'' @ [10] @ js ''    async def save(self, path: str | Path, overwrite: bool = False) -> Path'' @ [10] @ js ''    async def close(self) -> None''), de_language = Some (js ''python''),
   de_parameters = None,
   de_returns = None, de_example = None,
   de_related = None,
   de_status = Some Stable, de_version = None, de_deprecated = None, de_notes = None,
   de_docsHref = Some (js ''/docs/request-response/uploads''), de_source = Some \<lparr>src_file = (js ''aquilia/_uploads.py''), src_line = Some 47, src_href = None\<rparr>\<rparr>"

definition ent_reqres_formdata :: doc_entity where
  "ent_reqres_formdata = \<lparr>de_id = (js ''reqres.formdata''), de_type = EClass, de_title = (js ''FormData''),
   de_description = (js ''Container for parsed form values containing both text fields and files.''),
   de_signature = Some (js ''class FormData:'' @ [10] @ js ''    fields: MultiDict'' @ [10] @ js ''    files: dict[str, list[UploadFile]]''), de_language = Some (js ''python''),
   de_parameters = None,
   de_returns = None, de_example = None,
   de_related = None,
   de_status = Some Stable, de_version = None, de_deprecated = None, de_notes = None,
   de_docsHref = Some (js ''/docs/request-response/uploads''), de_source = Some \<lparr>src_file = (js ''aquilia/_uploads.py''), src_line = Some 184, src_href = None\<rparr>\<rparr>"

definition entities_requestResponse :: "doc_entity list" where
  "entities_requestResponse = [
     ent_reqres_request, ent_reqres_response, ent_reqres_multidict, ent_reqres_headers,
     ent_reqres_cookiesigner, ent_reqres_uploadfile, ent_reqres_formdata]"

subsection \<open>\<open>controllers.ts\<close>\<close>

definition ent_controller_controller :: doc_entity where
  "ent_controller_controller = \<lparr>de_id = (js ''controller.controller''), de_type = EClass, de_title = (js ''Controller''),
   de_description = (js ''Base class for class-based HTTP handlers. Supports constructor-based DI, lifecycle hooks, versioning, throttling, interceptors, and exception filters.''),
   de_signature = Some (js ''class Controller:'' @ [10] @ js ''    prefix: str = '' @ [34, 34, 10] @ js ''    pipeline: list[Any] = []'' @ [10] @ js ''    tags: list[str] = []'' @ [10] @ js ''    instantiation_mode: str = '' @ [34] @ js ''per_request'' @ [34, 10] @ js ''    version: str | None = None'' @ [10] @ js ''    throttle: Throttle | None = None'' @ [10] @ js ''    interceptors: list[Any] = []'' @ [10] @ js ''    exception_filters: list[Any] = []'' @ [10] @ js ''    timeout: float = 0'' @ [10] @ js ''    max_body_size: int = 0''), de_language = Some (js ''python''),
   de_parameters = None,
   de_returns = None, de_example = None,
   de_related = None,
   de_status = Some Stable, de_version = Some (js ''v1.0+''), de_deprecated = None, de_notes = None,
   de_docsHref = Some (js ''/docs/controllers/overview''), de_source = Some \<lparr>src_file = (js ''aquilia/controller/base.py''), src_line = Some 497, src_href = None\<rparr>\<rparr>"

definition ent_controller_requestctx :: doc_entity where
  "ent_controller_requestctx = \<lparr>de_id = (js ''controller.requestctx''), de_type = EClass, de_title = (js ''RequestCtx''),
   de_description = (js ''Context object passed to controller methods. Optimized with __slots__ and pooled via RequestCtxPool to eliminate per-request allocation overhead.''),
   de_signature = Some (js ''class RequestCtx:'' @ [10] @ js ''    request: Request'' @ [10] @ js ''    identity: Identity | None'' @ [10] @ js ''    session: Session | None'' @ [10] @ js ''    auth: Any | None'' @ [10] @ js ''    container: Any | None'' @ [10] @ js ''    state: dict[str, Any]'' @ [10] @ js ''    request_id: str''), de_language = Some (js ''python''),
   de_parameters = None,
   de_returns = None, de_example = None,
   de_related = None,
   de_status = Some Stable, de_version = Some (js ''v1.0+''), de_deprecated = None, de_notes = None,
   de_docsHref = Some (js ''/docs/controllers/request-ctx''), de_source = Some \<lparr>src_file = (js ''aquilia/controller/base.py''), src_line = Some 55, src_href = None\<rparr>\<rparr>"

definition ent_controller_exceptionfilter :: doc_entity where
  "ent_controller_exceptionfilter = \<lparr>de_id = (js ''controller.exceptionfilter''), de_type = EClass, de_title = (js ''ExceptionFilter''),
   de_description = (js ''Catches unhandled exceptions raised in controller methods and converts them to HTTP responses.''),
   de_signature = Some (js ''class ExceptionFilter:'' @ [10] @ js ''    catches: list[type] = []'' @ [10] @ js ''    async def catch(self, exception: Exception, ctx: RequestCtx) -> Response | None: ...''), de_language = Some (js ''python''),
   de_parameters = None,
   de_returns = None, de_example = None,
   de_related = None,
   de_status = Some Stable, de_version = None, de_deprecated = None, de_notes = None,
   de_docsHref = Some (js ''/docs/controllers/overview''), de_source = Some \<lparr>src_file = (js ''aquilia/controller/base.py''), src_line = Some 260, src_href = None\<rparr>\<rparr>"

definition ent_controller_interceptor :: doc_entity where
  "ent_controller_interceptor = \<lparr>de_id = (js ''controller.interceptor''), de_type = EClass, de_title = (js ''Interceptor''),
   de_description = (js ''Controller hooks executed before and after handlers. Good for logging, metrics, response decoration, or caching.''),
   de_signature = Some (js ''class Interceptor:'' @ [10] @ js ''    async def before(self, ctx: RequestCtx) -> Response | None: ...'' @ [10] @ js ''    async def after(self, ctx: RequestCtx, result: Any) -> Any: ...''), de_language = Some (js ''python''),
   de_parameters = None,
   de_returns = None, de_example = None,
   de_related = None,
   de_status = Some Stable, de_version = None, de_deprecated = None, de_notes = None,
   de_docsHref = Some (js ''/docs/controllers/overview''), de_source = Some \<lparr>src_file = (js ''aquilia/controller/base.py''), src_line = Some 303, src_href = None\<rparr>\<rparr>"

definition ent_controller_throttle :: doc_entity where
  "ent_controller_throttle = \<lparr>de_id = (js ''controller.throttle''), de_type = EClass, de_title = (js ''Throttle''),
   de_description = (js ''Sliding window in-memory rate limiter with LRU eviction and memory bounds to protect against DoS attacks.''),
   de_signature = Some (js ''class Throttle:'' @ [10] @ js ''    def __init__(self, limit: int = 100, window: int = 60, max_clients: int = 10000)''), de_language = Some (js ''python''),
   de_parameters = None,
   de_returns = None, de_example = None,
   de_related = None,
   de_status = Some Stable, de_version = None, de_deprecated = None, de_notes = None,
   de_docsHref = Some (js ''/docs/controllers/overview''), de_source = Some \<lparr>src_file = (js ''aquilia/controller/base.py''), src_line = Some 355, src_href = None\<rparr>\<rparr>"

definition ent_controller_validate_body :: doc_entity where
  "ent_controller_validate_body = \<lparr>de_id = (js ''controller.validate_body''), de_type = EDecorator, de_title = (js ''@validate_body(contract_class)''),
   de_description = (js ''Decorator that parses and validates request bodies using an Aquilia Contract. Sets __aquilia_owned_params__ on the handler to prevent the controller engine from double-binding the request body. Passes validated_data downstream as '' @ [34] @ js ''body'' @ [34] @ js ''.''),
   de_signature = Some (js ''def validate_body(contract_class: type, *, projection: str = '' @ [34] @ js ''__all__'' @ [34] @ js '') -> Callable''), de_language = Some (js ''python''),
   de_parameters = None,
   de_returns = None, de_example = None,
   de_related = None,
   de_status = Some Stable, de_version = Some (js ''v1.0+''), de_deprecated = None, de_notes = None,
   de_docsHref = Some (js ''/docs/controllers/validation''), de_source = Some \<lparr>src_file = (js ''aquilia/controller/validation.py''), src_line = Some 50, src_href = None\<rparr>\<rparr>"

definition ent_controller_get :: doc_entity where
  "ent_controller_get = \<lparr>de_id = (js ''controller.get''), de_type = EDecorator, de_title = (js ''@GET(path)''),
   de_description = (js ''HTTP GET route decorator. Binds an endpoint route template to a controller method.''),
   de_signature = Some (js ''@GET(path: str | None = None, *, pipeline: list[Any] = None, request_contract: type = None, response_contract: type = None, filterset_class: type = None, pagination_class: type = None, version: str | list[str] = None)''), de_language = Some (js ''python''),
   de_parameters = None,
   de_returns = None, de_example = None,
   de_related = None,
   de_status = Some Stable, de_version = None, de_deprecated = None, de_notes = None,
   de_docsHref = Some (js ''/docs/controllers/decorators/get''), de_source = Some \<lparr>src_file = (js ''aquilia/controller/decorators.py''), src_line = Some 180, src_href = None\<rparr>\<rparr>"

definition ent_controller_post :: doc_entity where
  "ent_controller_post = \<lparr>de_id = (js ''controller.post''), de_type = EDecorator, de_title = (js ''@POST(path)''),
   de_description = (js ''HTTP POST route decorator. Typically used for resource creation.''),
   de_signature = Some (js ''@POST(path: str | None = None, *, pipeline: list[Any] = None, request_contract: type = None, response_contract: type = None, status_code: int = 201)''), de_language = Some (js ''python''),
   de_parameters = None,
   de_returns = None, de_example = None,
   de_related = None,
   de_status = Some Stable, de_version = None, de_deprecated = None, de_notes = None,
   de_docsHref = Some (js ''/docs/controllers/decorators/post''), de_source = Some \<lparr>src_file = (js ''aquilia/controller/decorators.py''), src_line = Some 230, src_href = None\<rparr>\<rparr>"

definition ent_controller_attributes :: doc_entity where
  "ent_controller_attributes = \<lparr>de_id = (js ''controller.attributes''), de_type = EClass, de_title = (js ''Attributes''),
   de_description = (js ''Fluent builder for Controller class-level configuration. Configures prefix, pipeline, tags, instantiation_mode, version, throttle, interceptors, exception_filters, timeout, and max_body_size at class-definition time via the __set_name__ descriptor protocol with zero request-time overhead.''),
   de_signature = Some (js ''class Attributes:'' @ [10] @ js ''    def prefix(self, value: str) -> Attributes'' @ [10] @ js ''    def pipeline(self, *nodes: Any) -> Attributes'' @ [10] @ js ''    def tags(self, *tag_values: str) -> Attributes'' @ [10] @ js ''    def instantiation_mode(self, mode: Literal['' @ [34] @ js ''per_request'' @ [34] @ js '', '' @ [34] @ js ''singleton'' @ [34] @ js '']) -> Attributes'' @ [10] @ js ''    def version(self, v: str | list[str]) -> Attributes'' @ [10] @ js ''    def throttle(self, t: Throttle) -> Attributes'' @ [10] @ js ''    def interceptors(self, *items: Interceptor) -> Attributes'' @ [10] @ js ''    def exception_filters(self, *items: ExceptionFilter) -> Attributes'' @ [10] @ js ''    def timeout(self, seconds: float) -> Attributes'' @ [10] @ js ''    def max_body_size(self, bytes_size: int) -> Attributes''), de_language = Some (js ''python''),
   de_parameters = None,
   de_returns = None, de_example = None,
   de_related = None,
   de_status = Some Stable, de_version = Some (js ''v1.0+''), de_deprecated = None, de_notes = None,
   de_docsHref = Some (js ''/docs/controllers/attributes''), de_source = Some \<lparr>src_file = (js ''aquilia/controller/attrs.py''), src_line = Some 49, src_href = None\<rparr>\<rparr>"

definition entities_controllers :: "doc_entity list" where
  "entities_controllers = [
     ent_controller_controller, ent_controller_requestctx, ent_controller_exceptionfilter, ent_controller_interceptor,
     ent_controller_throttle, ent_controller_validate_body, ent_controller_get, ent_controller_post,
     ent_controller_attributes]"

subsection \<open>\<open>testingEntities.ts\<close>\<close>

definition ent_testing_test_client :: doc_entity where
  "ent_testing_test_client = \<lparr>de_id = (js ''testing.test_client''), de_type = EClass, de_title = (js ''TestClient''),
   de_description = (js ''In-process ASGI HTTP client for issuing mock requests to controllers. Does not open socket connections, supports session cookies, authorization headers, and files/multipart payloads.''),
   de_signature = Some (js ''class TestClient:'' @ [10] @ js ''    def __init__(self, server_or_app: Any, *, base_url: str = '' @ [34] @ js ''http://testserver'' @ [34] @ js '', raise_server_exceptions: bool = True, follow_redirects: bool = False)''), de_language = Some (js ''python''),
   de_parameters = None,
   de_returns = None, de_example = Some \<lparr>ex_code = (js ''async with TestClient(app) as client:'' @ [10] @ js ''    resp = await client.get('' @ [34] @ js ''/api/users'' @ [34] @ js '')'' @ [10] @ js ''    assert resp.status_code == 200''),
     ex_language = Some (js ''python''), ex_title = None\<rparr>,
   de_related = None,
   de_status = Some Stable, de_version = Some (js ''v1.0+''), de_deprecated = None, de_notes = None,
   de_docsHref = Some (js ''/docs/testing/client''), de_source = None\<rparr>"

definition ent_testing_websocket_client :: doc_entity where
  "ent_testing_websocket_client = \<lparr>de_id = (js ''testing.websocket_client''), de_type = EClass, de_title = (js ''WebSocketTestClient''),
   de_description = (js ''In-process WebSocket testing client. Simulates client connection handshake, send/receive text, JSON events, and binary data against @Socket controllers.''),
   de_signature = Some (js ''class WebSocketTestClient:'' @ [10] @ js ''    def __init__(self, server_or_app: Any)''), de_language = Some (js ''python''),
   de_parameters = None,
   de_returns = None, de_example = Some \<lparr>ex_code = (js ''async with WebSocketTestClient(app) as ws:'' @ [10] @ js ''    await ws.connect('' @ [34] @ js ''/ws/chat'' @ [34] @ js '')'' @ [10] @ js ''    await ws.send_json({'' @ [34] @ js ''event'' @ [34] @ js '': '' @ [34] @ js ''join'' @ [34] @ js '', '' @ [34] @ js ''room'' @ [34] @ js '': '' @ [34] @ js ''general'' @ [34] @ js ''})'' @ [10] @ js ''    event = await ws.receive_json()''),
     ex_language = Some (js ''python''), ex_title = None\<rparr>,
   de_related = None,
   de_status = Some Stable, de_version = Some (js ''v1.0+''), de_deprecated = None, de_notes = None,
   de_docsHref = Some (js ''/docs/testing/client''), de_source = None\<rparr>"

definition ent_testing_simple_test_case :: doc_entity where
  "ent_testing_simple_test_case = \<lparr>de_id = (js ''testing.simple_test_case''), de_type = EClass, de_title = (js ''SimpleTestCase''),
   de_description = (js ''Lightweight unit test case subclass. Inherits from unittest.TestCase and provides AquiliaAssertions. Does not run dependency injection or server lifecycles.''),
   de_signature = Some (js ''class SimpleTestCase(unittest.TestCase, AquiliaAssertions)''), de_language = Some (js ''python''),
   de_parameters = None,
   de_returns = None, de_example = None,
   de_related = None,
   de_status = Some Stable, de_version = Some (js ''v1.0+''), de_deprecated = None, de_notes = None,
   de_docsHref = Some (js ''/docs/testing/cases''), de_source = None\<rparr>"

definition ent_testing_aquilia_test_case :: doc_entity where
  "ent_testing_aquilia_test_case = \<lparr>de_id = (js ''testing.aquilia_test_case''), de_type = EClass, de_title = (js ''AquiliaTestCase''),
   de_description = (js ''Central async test case class. Automatically boots a TestServer before each test, tears it down after, and initializes self.client (TestClient). Gives access to self.di_container.''),
   de_signature = Some (js ''class AquiliaTestCase(unittest.IsolatedAsyncioTestCase, AquiliaAssertions):'' @ [10] @ js ''    manifests: list[AppManifest] = []'' @ [10] @ js ''    settings: dict[str, Any] = {}''), de_language = Some (js ''python''),
   de_parameters = None,
   de_returns = None, de_example = None,
   de_related = None,
   de_status = Some Stable, de_version = Some (js ''v1.0+''), de_deprecated = None, de_notes = None,
   de_docsHref = Some (js ''/docs/testing/cases''), de_source = None\<rparr>"

definition ent_testing_transaction_test_case :: doc_entity where
  "ent_testing_transaction_test_case = \<lparr>de_id = (js ''testing.transaction_test_case''), de_type = EClass, de_title = (js ''TransactionTestCase''),
   de_description = (js ''Extends AquiliaTestCase to automatically wrap each test execution in a database transaction, rolling it back on teardown to ensure DB clean isolation.''),
   de_signature = Some (js ''class TransactionTestCase(AquiliaTestCase)''), de_language = Some (js ''python''),
   de_parameters = None,
   de_returns = None, de_example = None,
   de_related = None,
   de_status = Some Stable, de_version = Some (js ''v1.0+''), de_deprecated = None, de_notes = None,
   de_docsHref = Some (js ''/docs/testing/cases''), de_source = None\<rparr>"

definition ent_testing_live_server_test_case :: doc_entity where
  "ent_testing_live_server_test_case = \<lparr>de_id = (js ''testing.live_server_test_case''), de_type = EClass, de_title = (js ''LiveServerTestCase''),
   de_description = (js ''Starts a genuine TCP Uvicorn server in a background task on a random port. Allows testing with standard HTTP clients (e.g. aquilia.http) and browser automation.''),
   de_signature = Some (js ''class LiveServerTestCase(AquiliaTestCase):'' @ [10] @ js ''    host: str = '' @ [34] @ js ''127.0.0.1'' @ [34, 10] @ js ''    port: int = 0''), de_language = Some (js ''python''),
   de_parameters = None,
   de_returns = None, de_example = None,
   de_related = None,
   de_status = Some Stable, de_version = Some (js ''v1.0+''), de_deprecated = None, de_notes = None,
   de_docsHref = Some (js ''/docs/testing/cases''), de_source = None\<rparr>"

definition ent_testing_override_settings :: doc_entity where
  "ent_testing_override_settings = \<lparr>de_id = (js ''testing.override_settings''), de_type = EDecorator, de_title = (js ''@override_settings''),
   de_description = (js ''Decorator or context manager that overrides specific configuration settings for the duration of a test function or context block.''),
   de_signature = Some (js ''def override_settings(**settings: Any)''), de_language = Some (js ''python''),
   de_parameters = None,
   de_returns = None, de_example = Some \<lparr>ex_code = (js ''@override_settings(debug=True, cache={'' @ [34] @ js ''backend'' @ [34] @ js '': '' @ [34] @ js ''null'' @ [34] @ js ''})'' @ [10] @ js ''async def test_debug_endpoint(self):'' @ [10] @ js ''    resp = await self.client.get('' @ [34] @ js ''/debug'' @ [34] @ js '')''),
     ex_language = Some (js ''python''), ex_title = None\<rparr>,
   de_related = None,
   de_status = Some Stable, de_version = Some (js ''v1.0+''), de_deprecated = None, de_notes = None,
   de_docsHref = Some (js ''/docs/testing/cases''), de_source = None\<rparr>"

definition ent_testing_mock_fault_engine :: doc_entity where
  "ent_testing_mock_fault_engine = \<lparr>de_id = (js ''testing.mock_fault_engine''), de_type = EClass, de_title = (js ''MockFaultEngine''),
   de_description = (js ''Mock implementation of FaultEngine. Captures all emitted faults in self.captured list, allowing assertions without dispatching them to external handlers.''),
   de_signature = Some (js ''class MockFaultEngine:'' @ [10] @ js ''    def __init__(self)''), de_language = Some (js ''python''),
   de_parameters = None,
   de_returns = None, de_example = None,
   de_related = None,
   de_status = Some Stable, de_version = Some (js ''v1.0+''), de_deprecated = None, de_notes = None,
   de_docsHref = Some (js ''/docs/testing/mocks''), de_source = None\<rparr>"

definition ent_testing_mock_effect_registry :: doc_entity where
  "ent_testing_mock_effect_registry = \<lparr>de_id = (js ''testing.mock_effect_registry''), de_type = EClass, de_title = (js ''MockEffectRegistry''),
   de_description = (js ''Test-friendly EffectRegistry. Automatically creates MockEffectProviders for any unregistered effect tokens, easing effect-stubbing inside FlowContexts.''),
   de_signature = Some (js ''class MockEffectRegistry(EffectRegistry):'' @ [10] @ js ''    def __init__(self)''), de_language = Some (js ''python''),
   de_parameters = None,
   de_returns = None, de_example = None,
   de_related = None,
   de_status = Some Stable, de_version = Some (js ''v1.0+''), de_deprecated = None, de_notes = None,
   de_docsHref = Some (js ''/docs/testing/mocks''), de_source = None\<rparr>"

definition ent_testing_mock_provider :: doc_entity where
  "ent_testing_mock_provider = \<lparr>de_id = (js ''testing.mock_provider''), de_type = EFunction, de_title = (js ''mock_provider''),
   de_description = (js ''Creates a mock DI provider that returns a fixed value. Used to override dependencies in the container during testing.''),
   de_signature = Some (js ''def mock_provider(token: type[T] | str, value: T, scope: str = '' @ [34] @ js ''singleton'' @ [34] @ js '') -> _MockProvider''), de_language = Some (js ''python''),
   de_parameters = None,
   de_returns = None, de_example = Some \<lparr>ex_code = (js ''fake_repo = FakeUserRepository()'' @ [10] @ js ''provider = mock_provider(UserRepository, fake_repo)'' @ [10] @ js ''container.register(provider)''),
     ex_language = Some (js ''python''), ex_title = None\<rparr>,
   de_related = None,
   de_status = Some Stable, de_version = Some (js ''v1.0+''), de_deprecated = None, de_notes = None,
   de_docsHref = Some (js ''/docs/testing/mocks''), de_source = None\<rparr>"

definition ent_testing_spy_provider :: doc_entity where
  "ent_testing_spy_provider = \<lparr>de_id = (js ''testing.spy_provider''), de_type = EFunction, de_title = (js ''spy_provider''),
   de_description = (js ''Wraps an existing provider to record its resolves and instantiation counts, while still invoking the original factory/class logic.''),
   de_signature = Some (js ''def spy_provider(container: Container, token: type[T] | str, *, tag: str | None = None)''), de_language = Some (js ''python''),
   de_parameters = None,
   de_returns = None, de_example = None,
   de_related = None,
   de_status = Some Stable, de_version = Some (js ''v1.0+''), de_deprecated = None, de_notes = None,
   de_docsHref = Some (js ''/docs/testing/mocks''), de_source = None\<rparr>"

definition ent_testing_override_provider :: doc_entity where
  "ent_testing_override_provider = \<lparr>de_id = (js ''testing.override_provider''), de_type = EFunction, de_title = (js ''override_provider''),
   de_description = (js ''Async context manager to temporarily override a DI token provider in a container, restoring the original provider upon exit.''),
   de_signature = Some (js ''async def override_provider(container: Container, token: type[T] | str, mock_value: T, *, tag: str | None = None)''), de_language = Some (js ''python''),
   de_parameters = None,
   de_returns = None, de_example = Some \<lparr>ex_code = (js ''async with override_provider(container, UserRepo, FakeRepo()):'' @ [10] @ js ''    user_repo = await container.resolve_async(UserRepo)'' @ [10] @ js ''    assert isinstance(user_repo, FakeRepo)''),
     ex_language = Some (js ''python''), ex_title = None\<rparr>,
   de_related = None,
   de_status = Some Stable, de_version = Some (js ''v1.0+''), de_deprecated = None, de_notes = None,
   de_docsHref = Some (js ''/docs/testing/mocks''), de_source = None\<rparr>"

definition entities_testingEntities :: "doc_entity list" where
  "entities_testingEntities = [
     ent_testing_test_client, ent_testing_websocket_client, ent_testing_simple_test_case, ent_testing_aquilia_test_case,
     ent_testing_transaction_test_case, ent_testing_live_server_test_case, ent_testing_override_settings, ent_testing_mock_fault_engine,
     ent_testing_mock_effect_registry, ent_testing_mock_provider, ent_testing_spy_provider, ent_testing_override_provider]"

subsection \<open>\<open>speculaEntities.ts\<close>\<close>

definition ent_specula_config :: doc_entity where
  "ent_specula_config = \<lparr>de_id = (js ''specula.config''), de_type = EClass, de_title = (js ''SpeculaConfig''),
   de_description = (js ''Configuration dataclass for Specula '' @ [8212] @ js '' the Aquilia API Observatory. Controls title, version, UI paths, feature flags, cache TTL, authentication requirements, and mock server options.''),
   de_signature = Some (js ''class SpeculaConfig:'' @ [10] @ js ''    title: str = '' @ [34] @ js ''Aquilia API'' @ [34, 10] @ js ''    version: str = '' @ [34] @ js ''1.0.0'' @ [34, 10] @ js ''    ui_path: str = '' @ [34] @ js ''/specula'' @ [34, 10] @ js ''    json_path: str = '' @ [34] @ js ''/specula/spec.json'' @ [34, 10] @ js ''    yaml_path: str = '' @ [34] @ js ''/specula/spec.yaml'' @ [34, 10] @ js ''    mock_server_enabled: bool = False'' @ [10] @ js ''    spec_cache_ttl: int = 60'' @ [10] @ js ''    enabled: bool = True''), de_language = Some (js ''python''),
   de_parameters = None,
   de_returns = None, de_example = None,
   de_related = None,
   de_status = Some Stable, de_version = Some (js ''v2.0+''), de_deprecated = None, de_notes = None,
   de_docsHref = Some (js ''/docs/controllers/openapi''), de_source = None\<rparr>"

definition ent_specula_integration :: doc_entity where
  "ent_specula_integration = \<lparr>de_id = (js ''specula.integration''), de_type = EClass, de_title = (js ''SpeculaIntegration''),
   de_description = (js ''Typed integration wrapper for Specula in workspace.py. Fields mirror SpeculaConfig and can be registered via Integration.specula(...) or instantiated directly.''),
   de_signature = Some (js ''class SpeculaIntegration:'' @ [10] @ js ''    title: str = '' @ [34] @ js ''Aquilia API'' @ [34, 10] @ js ''    version: str = '' @ [34] @ js ''1.0.0'' @ [34, 10] @ js ''    ui_path: str = '' @ [34] @ js ''/specula'' @ [34, 10] @ js ''    enabled: bool = True''), de_language = Some (js ''python''),
   de_parameters = None,
   de_returns = None, de_example = None,
   de_related = None,
   de_status = Some Stable, de_version = Some (js ''v2.0+''), de_deprecated = None, de_notes = None,
   de_docsHref = Some (js ''/docs/controllers/openapi''), de_source = None\<rparr>"

definition ent_specula_builder :: doc_entity where
  "ent_specula_builder = \<lparr>de_id = (js ''specula.builder''), de_type = EClass, de_title = (js ''SpeculaBuilder''),
   de_description = (js ''API Observatory specification engine. Extracts OpenAPI 3.1.0 specifications, tags, custom vendor extensions (x-specula-*), and security schemas.''),
   de_signature = Some (js ''class SpeculaBuilder:'' @ [10] @ js ''    def __init__(self, config: SpeculaConfig):'' @ [10] @ js ''    def build(self, router: ControllerRouter, routes: list[CompiledRoute] | None = None) -> dict[str, Any]''), de_language = Some (js ''python''),
   de_parameters = None,
   de_returns = None, de_example = Some \<lparr>ex_code = (js ''builder = SpeculaBuilder(config=SpeculaConfig(title='' @ [34] @ js ''Store API'' @ [34] @ js ''))'' @ [10] @ js ''spec = builder.build(router)''),
     ex_language = Some (js ''python''), ex_title = None\<rparr>,
   de_related = None,
   de_status = Some Stable, de_version = Some (js ''v2.0+''), de_deprecated = None, de_notes = None,
   de_docsHref = Some (js ''/docs/controllers/openapi''), de_source = None\<rparr>"

definition ent_specula_service :: doc_entity where
  "ent_specula_service = \<lparr>de_id = (js ''specula.service''), de_type = EClass, de_title = (js ''SpeculaService''),
   de_description = (js ''Observatory service that manages spec generation, caching, hot reload SSE streams, Postman/Insomnia exports, and mock endpoint resolution.''),
   de_signature = Some (js ''class SpeculaService:'' @ [10] @ js ''    def __init__(self, router: ControllerRouter, config: SpeculaConfig)''), de_language = Some (js ''python''),
   de_parameters = None,
   de_returns = None, de_example = None,
   de_related = None,
   de_status = Some Stable, de_version = Some (js ''v2.0+''), de_deprecated = None, de_notes = None,
   de_docsHref = Some (js ''/docs/controllers/openapi''), de_source = None\<rparr>"

definition entities_speculaEntities :: "doc_entity list" where
  "entities_speculaEntities = [
     ent_specula_config, ent_specula_integration, ent_specula_builder, ent_specula_service]"

subsection \<open>\<open>providers.ts\<close>\<close>

definition ent_provider_RenderIntegration :: doc_entity where
  "ent_provider_RenderIntegration = \<lparr>de_id = (js ''provider.RenderIntegration''), de_type = EClass, de_title = (js ''RenderIntegration''),
   de_description = (js ''Typed Render deployment configuration for workspace.py. Defines region, compute plan, instance count, custom health check paths, and private registry credentials.''),
   de_signature = Some (js ''class RenderIntegration:'' @ [10] @ js ''    service_name: str | None = None'' @ [10] @ js ''    region: str = '' @ [34] @ js ''oregon'' @ [34, 10] @ js ''    plan: str = '' @ [34] @ js ''starter'' @ [34, 10] @ js ''    num_instances: int = 1'' @ [10] @ js ''    image: str | None = None'' @ [10] @ js ''    health_path: str = '' @ [34] @ js ''/_health'' @ [34, 10] @ js ''    auto_deploy: str = '' @ [34] @ js ''no'' @ [34, 10] @ js ''    registry_credential_id: str | None = None'' @ [10] @ js ''    enabled: bool = True''), de_language = Some (js ''python''),
   de_parameters = None,
   de_returns = None, de_example = None,
   de_related = None,
   de_status = Some Stable, de_version = Some (js ''v1.0+''), de_deprecated = None, de_notes = None,
   de_docsHref = Some (js ''/docs/providers/render''), de_source = Some \<lparr>src_file = (js ''aquilia/integrations/render.py''), src_line = Some 12, src_href = None\<rparr>\<rparr>"

definition ent_provider_RenderClient :: doc_entity where
  "ent_provider_RenderClient = \<lparr>de_id = (js ''provider.RenderClient''), de_type = EClass, de_title = (js ''RenderClient''),
   de_description = (js ''Synchronous REST client for the Render API v1. Integrates retry with exponential backoff and rate-limit awareness using only standard library urllib. Covers services, deploys, env vars, Postgres, Key-Value (Redis), projects, custom domains, log streams, and metrics.''),
   de_signature = Some (js ''class RenderClient:'' @ [10] @ js ''    def __init__(self, token: str, *, base_url: str = '' @ [34] @ js ''https://api.render.com'' @ [34] @ js '', timeout: int = 30, max_retries: int = 3)'' @ [10] @ js ''    def validate_token(self) -> bool'' @ [10] @ js ''    def list_services(self, **filters) -> list[RenderService]'' @ [10] @ js ''    def create_service(self, payload: dict) -> RenderService'' @ [10] @ js ''    def update_service(self, service_id: str, payload: dict) -> RenderService'' @ [10] @ js ''    def trigger_deploy(self, service_id: str, *, clear_cache: str = '' @ [34] @ js ''do_not_clear'' @ [34] @ js '') -> RenderDeploy'' @ [10] @ js ''    def get_deploy(self, service_id: str, deploy_id: str) -> RenderDeploy''), de_language = Some (js ''python''),
   de_parameters = None,
   de_returns = None, de_example = None,
   de_related = None,
   de_status = Some Stable, de_version = Some (js ''v2.0+''), de_deprecated = None, de_notes = None,
   de_docsHref = Some (js ''/docs/providers/render''), de_source = Some \<lparr>src_file = (js ''aquilia/providers/render/client.py''), src_line = Some 141, src_href = None\<rparr>\<rparr>"

definition ent_provider_RenderDeployer :: doc_entity where
  "ent_provider_RenderDeployer = \<lparr>de_id = (js ''provider.RenderDeployer''), de_type = EClass, de_title = (js ''RenderDeployer''),
   de_description = (js ''Full-lifecycle Render deployment orchestrator. Builds production Docker images, pushes them to remote registries, syncs env vars and secret files, configures autoscaling and HTTP headers, triggers deploys, polls until live, and generates rollbacks upon failure.''),
   de_signature = Some (js ''class RenderDeployer:'' @ [10] @ js ''    def __init__(self, client: RenderClient, workspace_root: Path, config: RenderDeployConfig, *, on_step: Callable | None = None, dry_run: bool = False)'' @ [10] @ js ''    def deploy(self) -> DeployResult''), de_language = Some (js ''python''),
   de_parameters = None,
   de_returns = None, de_example = None,
   de_related = None,
   de_status = Some Stable, de_version = Some (js ''v2.0+''), de_deprecated = None, de_notes = None,
   de_docsHref = Some (js ''/docs/providers/render''), de_source = Some \<lparr>src_file = (js ''aquilia/providers/render/deployer.py''), src_line = Some 91, src_href = None\<rparr>\<rparr>"

definition ent_provider_RenderCredentialStore :: doc_entity where
  "ent_provider_RenderCredentialStore = \<lparr>de_id = (js ''provider.RenderCredentialStore''), de_type = EClass, de_title = (js ''RenderCredentialStore''),
   de_description = (js ''Military-grade credential store for local developer environments. Persists API tokens in credentials.surp, encrypting payload with AES-256-GCM and signing with HMAC-SHA512 based on machine-derived platform key derivation (PBKDF2-HMAC-SHA512). Prevents replays, truncation, and downgrade attacks.''),
   de_signature = Some (js ''class RenderCredentialStore:'' @ [10] @ js ''    def __init__(self, directory: Path | None = None)'' @ [10] @ js ''    def save(self, token: str, owner_name: str, default_region: str, metadata: dict | None = None) -> None'' @ [10] @ js ''    def load(self) -> str | None'' @ [10] @ js ''    def clear(self) -> None'' @ [10] @ js ''    def is_configured(self) -> bool'' @ [10] @ js ''    def status(self) -> dict''), de_language = Some (js ''python''),
   de_parameters = None,
   de_returns = None, de_example = None,
   de_related = None,
   de_status = Some Stable, de_version = Some (js ''v2.0+''), de_deprecated = None, de_notes = None,
   de_docsHref = Some (js ''/docs/providers/security''), de_source = Some \<lparr>src_file = (js ''aquilia/providers/render/store.py''), src_line = Some 81, src_href = None\<rparr>\<rparr>"

definition ent_provider_RenderDeployConfig :: doc_entity where
  "ent_provider_RenderDeployConfig = \<lparr>de_id = (js ''provider.RenderDeployConfig''), de_type = EClass, de_title = (js ''RenderDeployConfig''),
   de_description = (js ''Dataclass representing the deployment options for a Render service. Maps workspace settings (port, worker count, DB/cache/auth modules) into a standard Render service configuration payload.''),
   de_signature = Some (js ''class RenderDeployConfig(Contract):'' @ [10] @ js ''    service_name: str = '' @ [34, 34, 10] @ js ''    service_type: RenderServiceType = RenderServiceType.WEB_SERVICE'' @ [10] @ js ''    owner_id: str | None = None'' @ [10] @ js ''    image: str = '' @ [34, 34, 10] @ js ''    plan: RenderPlan = RenderPlan.STARTER'' @ [10] @ js ''    region: str = '' @ [34] @ js ''oregon'' @ [34, 10] @ js ''    num_instances: int = 1'' @ [10] @ js ''    autoscaling: RenderAutoscaling = None'' @ [10] @ js ''    port: int = 8000'' @ [10] @ js ''    health_check_path: str = '' @ [34] @ js ''/_health'' @ [34, 10] @ js ''    env_vars: list[RenderEnvVar] = None'' @ [10] @ js ''    disk: RenderDisk | None = None'' @ [10] @ js ''    headers: list[RenderHeaderRule] = None'' @ [10] @ js ''    redirect_rules: list[RenderRedirectRule] = None'' @ [10] @ js ''    registry_credential_id: str | None = None''), de_language = Some (js ''python''),
   de_parameters = None,
   de_returns = None, de_example = None,
   de_related = None,
   de_status = Some Stable, de_version = Some (js ''v2.0+''), de_deprecated = None, de_notes = None,
   de_docsHref = Some (js ''/docs/providers/render''), de_source = Some \<lparr>src_file = (js ''aquilia/providers/render/types.py''), src_line = Some 1046, src_href = None\<rparr>\<rparr>"

definition ent_cli_deploy_render :: doc_entity where
  "ent_cli_deploy_render = \<lparr>de_id = (js ''cli.deploy_render''), de_type = ECli, de_title = (js ''aq deploy render''),
   de_description = (js ''Compiles the project, validates workspace configurations (using aq doctor and aq validate), builds the Docker production image, pushes it to the registry, configures environment vars, custom headers, and deploys it to Render.''),
   de_signature = Some (js ''aq deploy render [--image VALUE] [--region VALUE] [--plan VALUE] [--num-instances VALUE] [--service-name VALUE] [--destroy] [--status] [--force] [--dry-run]''), de_language = Some (js ''bash''),
   de_parameters = Some [
     \<lparr>par_name = (js ''--image, -i''), par_type = Some (js ''option''), par_description = Some (js ''Docker image path (registry/name:tag) to deploy.''), par_optional = None, par_default = None\<rparr>,
     \<lparr>par_name = (js ''--region, -r''), par_type = Some (js ''option''), par_description = Some (js ''Deployment region (e.g. frankfurt, oregon, singapore).''), par_optional = None, par_default = None\<rparr>,
     \<lparr>par_name = (js ''--plan''), par_type = Some (js ''option''), par_description = Some (js ''Compute plan (free, starter, standard, pro, pro_plus).''), par_optional = None, par_default = None\<rparr>,
     \<lparr>par_name = (js ''--num-instances''), par_type = Some (js ''option''), par_description = Some (js ''Explicit number of container instances.''), par_optional = None, par_default = None\<rparr>,
     \<lparr>par_name = (js ''--service-name''), par_type = Some (js ''option''), par_description = Some (js ''Service name override in Render.''), par_optional = None, par_default = None\<rparr>,
     \<lparr>par_name = (js ''--destroy''), par_type = Some (js ''option''), par_description = Some (js ''Tear down the deployed service and resources.''), par_optional = None, par_default = None\<rparr>,
     \<lparr>par_name = (js ''--status''), par_type = Some (js ''option''), par_description = Some (js ''Query and print the status of the current deployment.''), par_optional = None, par_default = None\<rparr>,
     \<lparr>par_name = (js ''--dry-run''), par_type = Some (js ''option''), par_description = Some (js ''Synthesize config and payload without mutating resources or registry.''), par_optional = None, par_default = None\<rparr>],
   de_returns = None, de_example = Some \<lparr>ex_code = (js ''aq deploy render --region frankfurt --plan pro --num-instances 3''),
     ex_language = Some (js ''bash''), ex_title = None\<rparr>,
   de_related = None,
   de_status = Some Stable, de_version = Some (js ''v1.0+''), de_deprecated = None, de_notes = None,
   de_docsHref = Some (js ''/docs/providers/cli''), de_source = None\<rparr>"

definition ent_cli_provider_login_render :: doc_entity where
  "ent_cli_provider_login_render = \<lparr>de_id = (js ''cli.provider_login_render''), de_type = ECli, de_title = (js ''aq provider login render''),
   de_description = (js ''Authenticates with the Render API, verifies the bearer token by checking account owners, and saves the credentials securely.''),
   de_signature = Some (js ''aq provider login render [--token VALUE] [--region VALUE]''), de_language = Some (js ''bash''),
   de_parameters = Some [
     \<lparr>par_name = (js ''--token, -t''), par_type = Some (js ''option''), par_description = Some (js ''API token (omitting prompts for stdin/password input).''), par_optional = None, par_default = None\<rparr>,
     \<lparr>par_name = (js ''--region, -r''), par_type = Some (js ''option''), par_description = Some (js ''Default region to initialize for workspace (default: oregon).''), par_optional = None, par_default = None\<rparr>],
   de_returns = None, de_example = Some \<lparr>ex_code = (js ''aq provider login render --token rnd_xxxxxx''),
     ex_language = Some (js ''bash''), ex_title = None\<rparr>,
   de_related = None,
   de_status = Some Stable, de_version = Some (js ''v1.0+''), de_deprecated = None, de_notes = None,
   de_docsHref = Some (js ''/docs/providers/cli''), de_source = None\<rparr>"

definition ent_cli_provider_status_render :: doc_entity where
  "ent_cli_provider_status_render = \<lparr>de_id = (js ''cli.provider_status_render''), de_type = ECli, de_title = (js ''aq provider status render''),
   de_description = (js ''Reads local credentials, verifies decryption integrity, tests connection to the Render API endpoint, and displays account ownership details.''),
   de_signature = Some (js ''aq provider status render''), de_language = Some (js ''bash''),
   de_parameters = None,
   de_returns = None, de_example = Some \<lparr>ex_code = (js ''aq provider status render''),
     ex_language = Some (js ''bash''), ex_title = None\<rparr>,
   de_related = None,
   de_status = Some Stable, de_version = Some (js ''v1.0+''), de_deprecated = None, de_notes = None,
   de_docsHref = Some (js ''/docs/providers/cli''), de_source = None\<rparr>"

definition ent_cli_provider_logout_render :: doc_entity where
  "ent_cli_provider_logout_render = \<lparr>de_id = (js ''cli.provider_logout_render''), de_type = ECli, de_title = (js ''aq provider logout render''),
   de_description = (js ''Securely logs out of Render. Overwrites the credentials file (credentials.surp) with random data before unlinking to prevent data recovery.''),
   de_signature = Some (js ''aq provider logout render''), de_language = Some (js ''bash''),
   de_parameters = None,
   de_returns = None, de_example = Some \<lparr>ex_code = (js ''aq provider logout render''),
     ex_language = Some (js ''bash''), ex_title = None\<rparr>,
   de_related = None,
   de_status = Some Stable, de_version = Some (js ''v1.0+''), de_deprecated = None, de_notes = None,
   de_docsHref = Some (js ''/docs/providers/cli''), de_source = None\<rparr>"

definition ent_cli_provider_render_env_set :: doc_entity where
  "ent_cli_provider_render_env_set = \<lparr>de_id = (js ''cli.provider_render_env_set''), de_type = ECli, de_title = (js ''aq provider render env set''),
   de_description = (js ''Sets or updates environment variables in a Render service directly from the terminal.''),
   de_signature = Some (js ''aq provider render env set KEY VALUE --service SERVICE_NAME''), de_language = Some (js ''bash''),
   de_parameters = Some [
     \<lparr>par_name = (js ''KEY''), par_type = Some (js ''argument''), par_description = Some (js ''The environment variable key.''), par_optional = None, par_default = None\<rparr>,
     \<lparr>par_name = (js ''VALUE''), par_type = Some (js ''argument''), par_description = Some (js ''The environment variable value.''), par_optional = None, par_default = None\<rparr>,
     \<lparr>par_name = (js ''--service, -s''), par_type = Some (js ''option''), par_description = Some (js ''Render service name to modify.''), par_optional = None, par_default = None\<rparr>],
   de_returns = None, de_example = Some \<lparr>ex_code = (js ''aq provider render env set DATABASE_URL '' @ [34] @ js ''postgresql://...'' @ [34] @ js '' --service my-app''),
     ex_language = Some (js ''bash''), ex_title = None\<rparr>,
   de_related = None,
   de_status = Some Stable, de_version = Some (js ''v1.0+''), de_deprecated = None, de_notes = None,
   de_docsHref = Some (js ''/docs/providers/cli''), de_source = None\<rparr>"

definition entities_providers :: "doc_entity list" where
  "entities_providers = [
     ent_provider_RenderIntegration, ent_provider_RenderClient, ent_provider_RenderDeployer, ent_provider_RenderCredentialStore,
     ent_provider_RenderDeployConfig, ent_cli_deploy_render, ent_cli_provider_login_render, ent_cli_provider_status_render,
     ent_cli_provider_logout_render, ent_cli_provider_render_env_set]"

subsection \<open>\<open>devPlatform.ts\<close>\<close>

definition ent_devplatform_config :: doc_entity where
  "ent_devplatform_config = \<lparr>de_id = (js ''devplatform.config''), de_type = EClass, de_title = (js ''AquiliaDevelopmentConfig''),
   de_description = (js ''Configuration schema for the Aquilia Native Development Platform (ADP). Built on Env, resolves from CLI flags, environment variables (AQ_DEV_*), and workspace.py server config.''),
   de_signature = Some (js ''class AquiliaDevelopmentConfig:'' @ [10] @ js ''    host: str = '' @ [34] @ js ''127.0.0.1'' @ [34, 10] @ js ''    port: int = 8000'' @ [10] @ js ''    uds: str | None = None'' @ [10] @ js ''    fd: int | None = None'' @ [10] @ js ''    http: AdpTransport = '' @ [34] @ js ''h11'' @ [34, 10] @ js ''    ws: AdpWsMode = '' @ [34] @ js ''auto'' @ [34, 10] @ js ''    reload: bool = True'' @ [10] @ js ''    reload_dirs: list[Path] = field(default_factory=list)'' @ [10] @ js ''    reload_excludes: list[str] = field(default_factory=list)'' @ [10] @ js ''    log_level: AdpLogLevel = '' @ [34] @ js ''INFO'' @ [34, 10] @ js ''    inspector_enabled: bool = True'' @ [10] @ js ''    max_request_history: int = 500'' @ [10] @ js ''    profiler_enabled: bool = False'' @ [10] @ js ''    sql_explain_threshold_ms: float = 50.0'' @ [10] @ js ''    n_plus_one_detection: bool = True'' @ [10] @ js ''    memory_snapshot_interval_s: float = 30.0'' @ [10] @ js ''    timeout_graceful_shutdown: float = 5.0''), de_language = Some (js ''python''),
   de_parameters = None,
   de_returns = None, de_example = None,
   de_related = None,
   de_status = Some Stable, de_version = Some (js ''v1.4+''), de_deprecated = None, de_notes = None,
   de_docsHref = Some (js ''/docs/devplatform/configuration''), de_source = Some \<lparr>src_file = (js ''aquilia/devplatform/config.py''), src_line = Some 48, src_href = None\<rparr>\<rparr>"

definition ent_devplatform_server :: doc_entity where
  "ent_devplatform_server = \<lparr>de_id = (js ''devplatform.server''), de_type = EClass, de_title = (js ''AquiliaDevelopmentServer''),
   de_description = (js ''The ASGI development server for Aquilia. Wraps application routes with instrumentation and opens a native TCP acceptor with an h11 state machine.''),
   de_signature = Some (js ''class AquiliaDevelopmentServer:'' @ [10] @ js ''    def __init__(self, config: AquiliaDevelopmentConfig) -> None'' @ [10] @ js ''    async def start(self, app: Any) -> None'' @ [10] @ js ''    async def stop(self) -> None''), de_language = Some (js ''python''),
   de_parameters = None,
   de_returns = None, de_example = None,
   de_related = None,
   de_status = Some Stable, de_version = Some (js ''v1.4+''), de_deprecated = None, de_notes = None,
   de_docsHref = Some (js ''/docs/devplatform/getting-started''), de_source = Some \<lparr>src_file = (js ''aquilia/devplatform/devserver.py''), src_line = Some 52, src_href = None\<rparr>\<rparr>"

definition ent_devplatform_platform :: doc_entity where
  "ent_devplatform_platform = \<lparr>de_id = (js ''devplatform.platform''), de_type = EClass, de_title = (js ''AquiliaDevelopmentPlatform''),
   de_description = (js ''Facade object passed to plugins during initialization. Exposes direct hook registration for request lifecycle and exception events.''),
   de_signature = Some (js ''class AquiliaDevelopmentPlatform:'' @ [10] @ js ''    def on_request_start(self, hook: Callable[[dict], None]) -> None'' @ [10] @ js ''    def on_request_end(self, hook: Callable[[RequestRecord], None]) -> None'' @ [10] @ js ''    def on_exception(self, hook: Callable[[Exception, Any], None]) -> None'' @ [10] @ js ''    def get_runtime(self) -> RuntimeStateStore''), de_language = Some (js ''python''),
   de_parameters = None,
   de_returns = None, de_example = None,
   de_related = None,
   de_status = Some Stable, de_version = Some (js ''v1.4+''), de_deprecated = None, de_notes = None,
   de_docsHref = Some (js ''/docs/devplatform/plugins''), de_source = Some \<lparr>src_file = (js ''aquilia/devplatform/platform.py''), src_line = Some 23, src_href = None\<rparr>\<rparr>"

definition ent_devplatform_runtime_state_store :: doc_entity where
  "ent_devplatform_runtime_state_store = \<lparr>de_id = (js ''devplatform.runtime_state_store''), de_type = EClass, de_title = (js ''RuntimeStateStore''),
   de_description = (js ''Thread-safe global state store singleton for live development metrics, circular request history (deque), and database pool telemetry.''),
   de_signature = Some (js ''class RuntimeStateStore(SingletonMixin):'' @ [10] @ js ''    @classmethod'' @ [10] @ js ''    def get_instance(cls) -> RuntimeStateStore'' @ [10] @ js ''    def snapshot(self) -> ServerMetrics'' @ [10] @ js ''    def record_request(self, record: RequestRecord) -> None'' @ [10] @ js ''    def get_recent_requests(self, limit: int = 50) -> list[RequestRecord]''), de_language = Some (js ''python''),
   de_parameters = None,
   de_returns = None, de_example = None,
   de_related = None,
   de_status = Some Stable, de_version = Some (js ''v1.4+''), de_deprecated = None, de_notes = None,
   de_docsHref = Some (js ''/docs/devplatform/diagnostics''), de_source = Some \<lparr>src_file = (js ''aquilia/devplatform/core/runtime.py''), src_line = Some 43, src_href = None\<rparr>\<rparr>"

definition ent_devplatform_request_record :: doc_entity where
  "ent_devplatform_request_record = \<lparr>de_id = (js ''devplatform.request_record''), de_type = EClass, de_title = (js ''RequestRecord''),
   de_description = (js ''Immutable container representing a completed HTTP request with rich diagnostics including traces, SQL queries, memory delta, and exceptions.''),
   de_signature = Some (js ''class RequestRecord:'' @ [10] @ js ''    trace_id: str'' @ [10] @ js ''    method: str'' @ [10] @ js ''    path: str'' @ [10] @ js ''    status_code: int'' @ [10] @ js ''    duration_ms: float'' @ [10] @ js ''    request_headers: dict[str, str]'' @ [10] @ js ''    response_headers: dict[str, str]'' @ [10] @ js ''    query_params: dict[str, list[str]]'' @ [10] @ js ''    path_params: dict[str, Any]'' @ [10] @ js ''    request_body_preview: str | None'' @ [10] @ js ''    client_addr: str | None'' @ [10] @ js ''    spans: list[TraceSpan]'' @ [10] @ js ''    sql_records: list[SQLRecord]'' @ [10] @ js ''    n_plus_one_warnings: list[dict[str, Any]]'' @ [10] @ js ''    memory_ingress_rss: int'' @ [10] @ js ''    memory_egress_rss: int'' @ [10] @ js ''    exception_type: str | None'' @ [10] @ js ''    exception_message: str | None'' @ [10] @ js ''    profile_stats: str | None''), de_language = Some (js ''python''),
   de_parameters = None,
   de_returns = None, de_example = None,
   de_related = None,
   de_status = Some Stable, de_version = Some (js ''v1.4+''), de_deprecated = None, de_notes = None,
   de_docsHref = Some (js ''/docs/devplatform/diagnostics''), de_source = Some \<lparr>src_file = (js ''aquilia/devplatform/core/state.py''), src_line = Some 54, src_href = None\<rparr>\<rparr>"

definition ent_devplatform_trace_span :: doc_entity where
  "ent_devplatform_trace_span = \<lparr>de_id = (js ''devplatform.trace_span''), de_type = EClass, de_title = (js ''TraceSpan''),
   de_description = (js ''Timing span representing a single operation inside a request lifecycle, categorized into diagnostic lanes.''),
   de_signature = Some (js ''class TraceSpan:'' @ [10] @ js ''    span_id: str'' @ [10] @ js ''    name: str'' @ [10] @ js ''    lane: str'' @ [10] @ js ''    start_time: float'' @ [10] @ js ''    end_time: float'' @ [10] @ js ''    parent_id: str | None = None'' @ [10] @ js ''    status: str = '' @ [34] @ js ''ok'' @ [34, 10] @ js ''    detail: dict[str, Any] = field(default_factory=dict)'' @ [10] @ js ''    source: str | None = None''), de_language = Some (js ''python''),
   de_parameters = None,
   de_returns = None, de_example = None,
   de_related = None,
   de_status = Some Stable, de_version = Some (js ''v1.4+''), de_deprecated = None, de_notes = None,
   de_docsHref = Some (js ''/docs/devplatform/diagnostics''), de_source = Some \<lparr>src_file = (js ''aquilia/devplatform/core/state.py''), src_line = Some 22, src_href = None\<rparr>\<rparr>"

definition ent_devplatform_fault_base :: doc_entity where
  "ent_devplatform_fault_base = \<lparr>de_id = (js ''devplatform.fault.base''), de_type = EClass, de_title = (js ''DevPlatformFault''),
   de_description = (js ''Base fault class for the Aquilia Native Development Platform (ADP). Extends Aquilia'' @ [39] @ js ''s Fault on the Lane.DEVPLATFORM domain.''),
   de_signature = Some (js ''class DevPlatformFault(Fault):'' @ [10] @ js ''    def __init__(self, code: str, message: str, *, severity: Severity = Severity.ERROR, retryable: bool = False, public: bool = False, metadata: dict[str, Any] | None = None)''), de_language = Some (js ''python''),
   de_parameters = None,
   de_returns = None, de_example = None,
   de_related = None,
   de_status = Some Stable, de_version = Some (js ''v1.4+''), de_deprecated = None, de_notes = None,
   de_docsHref = Some (js ''/docs/devplatform/faults''), de_source = Some \<lparr>src_file = (js ''aquilia/devplatform/faults.py''), src_line = Some 32, src_href = None\<rparr>\<rparr>"

definition ent_devplatform_fault_startup :: doc_entity where
  "ent_devplatform_fault_startup = \<lparr>de_id = (js ''devplatform.fault.startup''), de_type = EClass, de_title = (js ''StartupFault''),
   de_description = (js ''Raised when ADP fails to boot, typically due to port binding issues (EADDRINUSE) or ASGI lifespan startup timing out.''),
   de_signature = Some (js ''class StartupFault(DevPlatformFault):'' @ [10] @ js ''    def __init__(self, reason: str, **kwargs: Any)''), de_language = Some (js ''python''),
   de_parameters = None,
   de_returns = None, de_example = None,
   de_related = None,
   de_status = Some Stable, de_version = Some (js ''v1.4+''), de_deprecated = None, de_notes = None,
   de_docsHref = Some (js ''/docs/devplatform/faults''), de_source = Some \<lparr>src_file = (js ''aquilia/devplatform/faults.py''), src_line = Some 61, src_href = None\<rparr>\<rparr>"

definition ent_devplatform_fault_reload :: doc_entity where
  "ent_devplatform_fault_reload = \<lparr>de_id = (js ''devplatform.fault.reload''), de_type = EClass, de_title = (js ''ReloadFault''),
   de_description = (js ''Raised when the hot-reload scheduler or AST executor encounters an unrecoverable error during a module reload cycle.''),
   de_signature = Some (js ''class ReloadFault(DevPlatformFault):'' @ [10] @ js ''    def __init__(self, reason: str, **kwargs: Any)''), de_language = Some (js ''python''),
   de_parameters = None,
   de_returns = None, de_example = None,
   de_related = None,
   de_status = Some Stable, de_version = Some (js ''v1.4+''), de_deprecated = None, de_notes = None,
   de_docsHref = Some (js ''/docs/devplatform/faults''), de_source = Some \<lparr>src_file = (js ''aquilia/devplatform/faults.py''), src_line = Some 79, src_href = None\<rparr>\<rparr>"

definition ent_devplatform_fault_inspector :: doc_entity where
  "ent_devplatform_fault_inspector = \<lparr>de_id = (js ''devplatform.fault.inspector''), de_type = EClass, de_title = (js ''InspectorFault''),
   de_description = (js ''Raised by telemetry or diagnostic observer modules when unable to communicate with the central Inspector interface.''),
   de_signature = Some (js ''class InspectorFault(DevPlatformFault):'' @ [10] @ js ''    def __init__(self, reason: str, **kwargs: Any)''), de_language = Some (js ''python''),
   de_parameters = None,
   de_returns = None, de_example = None,
   de_related = None,
   de_status = Some Stable, de_version = Some (js ''v1.4+''), de_deprecated = None, de_notes = None,
   de_docsHref = Some (js ''/docs/devplatform/faults''), de_source = Some \<lparr>src_file = (js ''aquilia/devplatform/faults.py''), src_line = Some 97, src_href = None\<rparr>\<rparr>"

definition ent_devplatform_fault_worker :: doc_entity where
  "ent_devplatform_fault_worker = \<lparr>de_id = (js ''devplatform.fault.worker''), de_type = EClass, de_title = (js ''WorkerFault''),
   de_description = (js ''Raised when an ADP background thread, monitor thread, or plugin hook callback encounters an unhandled exception.''),
   de_signature = Some (js ''class WorkerFault(DevPlatformFault):'' @ [10] @ js ''    def __init__(self, reason: str, **kwargs: Any)''), de_language = Some (js ''python''),
   de_parameters = None,
   de_returns = None, de_example = None,
   de_related = None,
   de_status = Some Stable, de_version = Some (js ''v1.4+''), de_deprecated = None, de_notes = None,
   de_docsHref = Some (js ''/docs/devplatform/faults''), de_source = Some \<lparr>src_file = (js ''aquilia/devplatform/faults.py''), src_line = Some 115, src_href = None\<rparr>\<rparr>"

definition ent_devplatform_fault_configuration :: doc_entity where
  "ent_devplatform_fault_configuration = \<lparr>de_id = (js ''devplatform.fault.configuration''), de_type = EClass, de_title = (js ''ConfigurationFault''),
   de_description = (js ''Raised during startup or hot-reload when configuration values fail schema type/boundary constraints.''),
   de_signature = Some (js ''class ConfigurationFault(DevPlatformFault):'' @ [10] @ js ''    def __init__(self, reason: str, **kwargs: Any)''), de_language = Some (js ''python''),
   de_parameters = None,
   de_returns = None, de_example = None,
   de_related = None,
   de_status = Some Stable, de_version = Some (js ''v1.4+''), de_deprecated = None, de_notes = None,
   de_docsHref = Some (js ''/docs/devplatform/faults''), de_source = Some \<lparr>src_file = (js ''aquilia/devplatform/faults.py''), src_line = Some 133, src_href = None\<rparr>\<rparr>"

definition ent_devplatform_report_fault :: doc_entity where
  "ent_devplatform_report_fault = \<lparr>de_id = (js ''devplatform.report_fault''), de_type = EFunction, de_title = (js ''report_fault''),
   de_description = (js ''Reports a non-fatal DevPlatformFault. Routes it through the host app'' @ [39] @ js ''s FaultEngine to surface in Inspector, or falls back to logger.''),
   de_signature = Some (js ''def report_fault(fault: DevPlatformFault, app: Any = None) -> None''), de_language = Some (js ''python''),
   de_parameters = None,
   de_returns = None, de_example = None,
   de_related = None,
   de_status = Some Stable, de_version = Some (js ''v1.4+''), de_deprecated = None, de_notes = None,
   de_docsHref = Some (js ''/docs/devplatform/faults''), de_source = Some \<lparr>src_file = (js ''aquilia/devplatform/faults.py''), src_line = Some 152, src_href = None\<rparr>\<rparr>"

definition ent_devplatform_watcher :: doc_entity where
  "ent_devplatform_watcher = \<lparr>de_id = (js ''devplatform.watcher''), de_type = EClass, de_title = (js ''WorkspaceWatcher''),
   de_description = (js ''Filesystem monitor powered by watchfiles. Listens for modified modules and directories, debounces saves, and initiates the reload cycle.''),
   de_signature = Some (js ''class WorkspaceWatcher:'' @ [10] @ js ''    def __init__(self, config: AquiliaDevelopmentConfig, runtime: RuntimeStateStore) -> None'' @ [10] @ js ''    def watch(self) -> None''), de_language = Some (js ''python''),
   de_parameters = None,
   de_returns = None, de_example = None,
   de_related = None,
   de_status = Some Stable, de_version = Some (js ''v1.4+''), de_deprecated = None, de_notes = None,
   de_docsHref = Some (js ''/docs/devplatform/hot-reload''), de_source = Some \<lparr>src_file = (js ''aquilia/devplatform/reload/watcher.py''), src_line = Some 26, src_href = None\<rparr>\<rparr>"

definition ent_devplatform_ui :: doc_entity where
  "ent_devplatform_ui = \<lparr>de_id = (js ''devplatform.ui''), de_type = EClass, de_title = (js ''ADPTerminalUI''),
   de_description = (js ''Console-based UI that listens to keyboard interrupts and displays performance statistics.''),
   de_signature = Some (js ''class ADPTerminalUI:'' @ [10] @ js ''    def __init__(self, config: AquiliaDevelopmentConfig, runtime: RuntimeStateStore | None = None, mode: str = '' @ [34] @ js ''dev'' @ [34] @ js '', on_reload: Callable[[], None] | None = None, on_quit: Callable[[], None] | None = None) -> None''), de_language = Some (js ''python''),
   de_parameters = None,
   de_returns = None, de_example = None,
   de_related = None,
   de_status = Some Stable, de_version = Some (js ''v1.4+''), de_deprecated = None, de_notes = None,
   de_docsHref = Some (js ''/docs/devplatform/terminal-ui''), de_source = Some \<lparr>src_file = (js ''aquilia/devplatform/ui.py''), src_line = Some 77, src_href = None\<rparr>\<rparr>"

definition entities_devPlatform :: "doc_entity list" where
  "entities_devPlatform = [
     ent_devplatform_config, ent_devplatform_server, ent_devplatform_platform, ent_devplatform_runtime_state_store,
     ent_devplatform_request_record, ent_devplatform_trace_span, ent_devplatform_fault_base, ent_devplatform_fault_startup,
     ent_devplatform_fault_reload, ent_devplatform_fault_inspector, ent_devplatform_fault_worker, ent_devplatform_fault_configuration,
     ent_devplatform_report_fault, ent_devplatform_watcher, ent_devplatform_ui]"

end
