(* ===== verification/DocEntities.thy ===== *)
theory DocEntities
  imports EntitiesOrm EntitiesSubsystems EntitiesSecurity EntitiesCli EntitiesSite
begin

text \<open>
  \<open>data/docEntities/index.ts\<close>: importing it runs the modules of the folder in this order, each of
  which registers its entities.
\<close>

definition entity_modules :: "doc_entity list list" where
  "entity_modules = [
     entities_serverLifecycle,
     entities_showcase,
     entities_adminPanel,
     entities_configEntities,
     entities_requestResponse,
     entities_controllers,
     entities_ormEntities,
     entities_dbEntities,
     entities_contractEntities,
     entities_diEntities,
     entities_authEntities,
     entities_sessionsEntities,
     entities_subsystemEntities,
     entities_cliEntities,
     entities_testingEntities,
     entities_speculaEntities,
     entities_aquiliaEntities,
     entities_cacheHttpI18n,
     entities_websocketsTemplatesMail,
     entities_providers,
     entities_ormAdvancedEntities,
     entities_vectordbEntities,
     entities_devPlatform]"

definition site_registry :: registry_state where
  "site_registry =
     fold (\<lambda>es. registerDocEntities (ManyEntities (map Some es))) entity_modules empty_registry"

end
