(* ===== verification/DocEntitiesFacts.thy ===== *)
theory DocEntitiesFacts
  imports DocEntities SiteNavFacts
begin

text \<open>
  The entities of the site against the registry and the route table: what an id resolves to when it
  is registered twice, whether the related entities exist, and whether the links lead to a page. The
  ids are compared through the order of their strings.
\<close>

subsection \<open>The order of ids\<close>

fun str_less :: "string \<Rightarrow> string \<Rightarrow> bool" where
  "str_less xs [] = False"
| "str_less [] (y # ys) = True"
| "str_less (x # xs) (y # ys) = (if x = y then str_less xs ys else (of_char x :: nat) < of_char y)"

lemma str_less_irrefl: "\<not> str_less s s"
  by (induction s) auto

lemma str_less_trans: "str_less s t \<Longrightarrow> str_less t u \<Longrightarrow> str_less s u"
proof (induction s t arbitrary: u rule: str_less.induct)
  case (2 y ys)
  then show ?case by (cases u) auto
next
  case (3 x xs y ys)
  then show ?case by (cases u) (auto split: if_splits)
qed simp

definition id_less :: "doc_entity \<Rightarrow> doc_entity \<Rightarrow> bool" where
  "id_less a b = (\<exists>s t. de_id a = js s \<and> de_id b = js t \<and> str_less s t)"

lemma id_lessI: "de_id a = js s \<Longrightarrow> de_id b = js t \<Longrightarrow> str_less s t \<Longrightarrow> id_less a b"
  by (auto simp: id_less_def)

lemma id_less_irrefl: "id_less a b \<Longrightarrow> de_id a \<noteq> de_id b"
  by (auto simp: id_less_def js_inj str_less_irrefl)

lemma id_less_trans: "id_less a b \<Longrightarrow> id_less b c \<Longrightarrow> id_less a c"
  unfolding id_less_def by (metis js_inj str_less_trans)

fun ascending :: "doc_entity list \<Rightarrow> bool" where
  "ascending (a # b # es) = (id_less a b \<and> ascending (b # es))"
| "ascending es = True"

lemma ascending_less: "ascending (a # es) \<Longrightarrow> b \<in> set es \<Longrightarrow> id_less a b"
  by (induction es arbitrary: a) (auto intro: id_less_trans)

lemma ascending_distinct: "ascending es \<Longrightarrow> distinct (map de_id es)"
proof (induction es)
  case (Cons a es)
  then have "ascending es" by (cases es) auto
  with Cons ascending_less [of a es] show ?case by (auto dest: id_less_irrefl)
qed simp

subsection \<open>Ids\<close>

lemma ids_serverLifecycle:
  "de_id ent_lifecycle_on_startup = js ''lifecycle.on_startup''"
  "de_id ent_lifecycle_on_shutdown = js ''lifecycle.on_shutdown''"
  "de_id ent_lifecycle_coordinator = js ''lifecycle.coordinator''"
  "de_id ent_lifecycle_on_request = js ''lifecycle.on_request''"
  "de_id ent_lifecycle_on_response = js ''lifecycle.on_response''"
  by (simp_all only: doc_entity.select_convs ent_lifecycle_on_startup_def ent_lifecycle_on_shutdown_def ent_lifecycle_coordinator_def ent_lifecycle_on_request_def ent_lifecycle_on_response_def)

lemma ids_showcase:
  "de_id ent_controllers_router = js ''controllers.router''"
  "de_id ent_di_inject_first = js ''di.inject''"
  "de_id ent_models_user_model = js ''models.user_model''"
  "de_id ent_cli_aquilia_run = js ''cli.aquilia_run''"
  "de_id ent_cli_aq = js ''cli.aq''"
  "de_id ent_cli_init_workspace_first = js ''cli.init_workspace''"
  "de_id ent_cli_add_module_first = js ''cli.add_module''"
  "de_id ent_cli_inspect = js ''cli.inspect''"
  "de_id ent_cli_trace = js ''cli.trace''"
  "de_id ent_cli_serve_first = js ''cli.serve''"
  "de_id ent_cli_compile_first = js ''cli.compile''"
  "de_id ent_cli_freeze_first = js ''cli.freeze''"
  "de_id ent_cli_validate_first = js ''cli.validate''"
  "de_id ent_cli_db_makemigrations_first = js ''cli.db_makemigrations''"
  "de_id ent_cli_db_migrate_first = js ''cli.db_migrate''"
  "de_id ent_cli_deploy = js ''cli.deploy''"
  "de_id ent_cli_workspace_py = js ''cli.workspace_py''"
  "de_id ent_cli_dotenv_file = js ''cli.dotenv_file''"
  "de_id ent_http_request_type = js ''http.request_type''"
  "de_id ent_config_env_first = js ''config.env''"
  "de_id ent_config_secret_first = js ''config.secret''"
  "de_id ent_config_workspace_first = js ''config.workspace''"
  "de_id ent_config_module_first = js ''config.module''"
  "de_id ent_config_integration = js ''config.integration''"
  by (simp_all only: doc_entity.select_convs ent_controllers_router_def ent_di_inject_first_def ent_models_user_model_def ent_cli_aquilia_run_def ent_cli_aq_def ent_cli_init_workspace_first_def ent_cli_add_module_first_def ent_cli_inspect_def ent_cli_trace_def ent_cli_serve_first_def ent_cli_compile_first_def ent_cli_freeze_first_def ent_cli_validate_first_def ent_cli_db_makemigrations_first_def ent_cli_db_migrate_first_def ent_cli_deploy_def ent_cli_workspace_py_def ent_cli_dotenv_file_def ent_http_request_type_def ent_config_env_first_def ent_config_secret_first_def ent_config_workspace_first_def ent_config_module_first_def ent_config_integration_def)

lemma ids_adminPanel:
  "de_id ent_cli_admin_setup = js ''cli.admin_setup''"
  "de_id ent_cli_admin_check = js ''cli.admin_check''"
  "de_id ent_cli_admin_createsuperuser = js ''cli.admin_createsuperuser''"
  "de_id ent_cli_admin_createstaff = js ''cli.admin_createstaff''"
  "de_id ent_cli_admin_listusers = js ''cli.admin_listusers''"
  "de_id ent_cli_admin_changepassword = js ''cli.admin_changepassword''"
  "de_id ent_cli_admin_status = js ''cli.admin_status''"
  "de_id ent_cli_admin_audit = js ''cli.admin_audit''"
  "de_id ent_config_admin_integration = js ''config.admin_integration''"
  "de_id ent_config_admin_modules = js ''config.admin_modules''"
  "de_id ent_config_admin_security = js ''config.admin_security''"
  by (simp_all only: doc_entity.select_convs ent_cli_admin_setup_def ent_cli_admin_check_def ent_cli_admin_createsuperuser_def ent_cli_admin_createstaff_def ent_cli_admin_listusers_def ent_cli_admin_changepassword_def ent_cli_admin_status_def ent_cli_admin_audit_def ent_config_admin_integration_def ent_config_admin_modules_def ent_config_admin_security_def)

lemma ids_configEntities:
  "de_id ent_config_workspace = js ''config.workspace''"
  "de_id ent_config_module = js ''config.module''"
  "de_id ent_config_appmanifest = js ''config.appmanifest''"
  "de_id ent_config_aquilaconfig = js ''config.aquilaconfig''"
  "de_id ent_config_env = js ''config.env''"
  "de_id ent_config_secret = js ''config.secret''"
  "de_id ent_config_dotenv = js ''config.dotenv''"
  "de_id ent_config_database_integration = js ''config.database_integration''"
  "de_id ent_config_session_integration = js ''config.session_integration''"
  "de_id ent_config_cache_integration = js ''config.cache_integration''"
  by (simp_all only: doc_entity.select_convs ent_config_workspace_def ent_config_module_def ent_config_appmanifest_def ent_config_aquilaconfig_def ent_config_env_def ent_config_secret_def ent_config_dotenv_def ent_config_database_integration_def ent_config_session_integration_def ent_config_cache_integration_def)

lemma ids_requestResponse:
  "de_id ent_reqres_request = js ''reqres.request''"
  "de_id ent_reqres_response = js ''reqres.response''"
  "de_id ent_reqres_multidict = js ''reqres.multidict''"
  "de_id ent_reqres_headers = js ''reqres.headers''"
  "de_id ent_reqres_cookiesigner = js ''reqres.cookiesigner''"
  "de_id ent_reqres_uploadfile = js ''reqres.uploadfile''"
  "de_id ent_reqres_formdata = js ''reqres.formdata''"
  by (simp_all only: doc_entity.select_convs ent_reqres_request_def ent_reqres_response_def ent_reqres_multidict_def ent_reqres_headers_def ent_reqres_cookiesigner_def ent_reqres_uploadfile_def ent_reqres_formdata_def)

lemma ids_controllers:
  "de_id ent_controller_controller = js ''controller.controller''"
  "de_id ent_controller_requestctx = js ''controller.requestctx''"
  "de_id ent_controller_exceptionfilter = js ''controller.exceptionfilter''"
  "de_id ent_controller_interceptor = js ''controller.interceptor''"
  "de_id ent_controller_throttle = js ''controller.throttle''"
  "de_id ent_controller_validate_body = js ''controller.validate_body''"
  "de_id ent_controller_get = js ''controller.get''"
  "de_id ent_controller_post = js ''controller.post''"
  "de_id ent_controller_attributes = js ''controller.attributes''"
  by (simp_all only: doc_entity.select_convs ent_controller_controller_def ent_controller_requestctx_def ent_controller_exceptionfilter_def ent_controller_interceptor_def ent_controller_throttle_def ent_controller_validate_body_def ent_controller_get_def ent_controller_post_def ent_controller_attributes_def)

lemma ids_ormEntities:
  "de_id ent_orm_model = js ''orm.model''"
  "de_id ent_orm_model_save = js ''orm.model.save''"
  "de_id ent_orm_model_delete_instance = js ''orm.model.delete_instance''"
  "de_id ent_orm_model_full_clean = js ''orm.model.full_clean''"
  "de_id ent_orm_model_to_dict = js ''orm.model.to_dict''"
  "de_id ent_orm_manager = js ''orm.manager''"
  "de_id ent_orm_queryset = js ''orm.queryset''"
  "de_id ent_orm_queryset_filter = js ''orm.queryset.filter''"
  "de_id ent_orm_queryset_exclude = js ''orm.queryset.exclude''"
  "de_id ent_orm_queryset_select_related = js ''orm.queryset.select_related''"
  "de_id ent_orm_queryset_prefetch_related = js ''orm.queryset.prefetch_related''"
  "de_id ent_orm_queryset_annotate = js ''orm.queryset.annotate''"
  "de_id ent_orm_q = js ''orm.q''"
  "de_id ent_orm_f = js ''orm.f''"
  "de_id ent_orm_atomic = js ''orm.atomic''"
  "de_id ent_orm_signal_pre_save = js ''orm.signal.pre_save''"
  "de_id ent_orm_signal_post_save = js ''orm.signal.post_save''"
  "de_id ent_orm_signal_post_delete = js ''orm.signal.post_delete''"
  "de_id ent_orm_meta = js ''orm.meta''"
  "de_id ent_orm_migration_engine = js ''orm.migration_engine''"
  "de_id ent_orm_project_state = js ''orm.project_state''"
  "de_id ent_orm_migration_graph = js ''orm.migration_graph''"
  "de_id ent_orm_migration_status = js ''orm.migration_status''"
  "de_id ent_orm_autodetector = js ''orm.autodetector''"
  "de_id ent_orm_count = js ''orm.count''"
  "de_id ent_orm_sum = js ''orm.sum''"
  "de_id ent_orm_avg = js ''orm.avg''"
  "de_id ent_orm_registry = js ''orm.registry''"
  "de_id ent_orm_queryset_values = js ''orm.queryset.values''"
  "de_id ent_orm_queryset_values_list = js ''orm.queryset.values_list''"
  "de_id ent_orm_queryset_exists = js ''orm.queryset.exists''"
  "de_id ent_orm_queryset_delete = js ''orm.queryset.delete''"
  "de_id ent_orm_queryset_update = js ''orm.queryset.update''"
  "de_id ent_orm_queryset_none = js ''orm.queryset.none''"
  by (simp_all only: doc_entity.select_convs ent_orm_model_def ent_orm_model_save_def ent_orm_model_delete_instance_def ent_orm_model_full_clean_def ent_orm_model_to_dict_def ent_orm_manager_def ent_orm_queryset_def ent_orm_queryset_filter_def ent_orm_queryset_exclude_def ent_orm_queryset_select_related_def ent_orm_queryset_prefetch_related_def ent_orm_queryset_annotate_def ent_orm_q_def ent_orm_f_def ent_orm_atomic_def ent_orm_signal_pre_save_def ent_orm_signal_post_save_def ent_orm_signal_post_delete_def ent_orm_meta_def ent_orm_migration_engine_def ent_orm_project_state_def ent_orm_migration_graph_def ent_orm_migration_status_def ent_orm_autodetector_def ent_orm_count_def ent_orm_sum_def ent_orm_avg_def ent_orm_registry_def ent_orm_queryset_values_def ent_orm_queryset_values_list_def ent_orm_queryset_exists_def ent_orm_queryset_delete_def ent_orm_queryset_update_def ent_orm_queryset_none_def)

lemma ids_dbEntities:
  "de_id ent_db_aquilia_database = js ''db.aquilia_database''"
  "de_id ent_db_execute = js ''db.execute''"
  "de_id ent_db_fetch_all = js ''db.fetch_all''"
  "de_id ent_db_fetch_one = js ''db.fetch_one''"
  "de_id ent_db_fetch_val = js ''db.fetch_val''"
  "de_id ent_db_execute_many = js ''db.execute_many''"
  "de_id ent_db_transaction = js ''db.transaction''"
  "de_id ent_db_savepoint = js ''db.savepoint''"
  "de_id ent_db_table_exists = js ''db.table_exists''"
  "de_id ent_db_get_tables = js ''db.get_tables''"
  "de_id ent_db_get_columns = js ''db.get_columns''"
  "de_id ent_db_configure_database = js ''db.configure_database''"
  "de_id ent_db_get_database = js ''db.get_database''"
  "de_id ent_db_sqlite_config = js ''db.sqlite_config''"
  "de_id ent_db_postgres_config = js ''db.postgres_config''"
  "de_id ent_db_mysql_config = js ''db.mysql_config''"
  "de_id ent_db_oracle_config = js ''db.oracle_config''"
  "de_id ent_db_inline_policy = js ''db.inline_policy''"
  by (simp_all only: doc_entity.select_convs ent_db_aquilia_database_def ent_db_execute_def ent_db_fetch_all_def ent_db_fetch_one_def ent_db_fetch_val_def ent_db_execute_many_def ent_db_transaction_def ent_db_savepoint_def ent_db_table_exists_def ent_db_get_tables_def ent_db_get_columns_def ent_db_configure_database_def ent_db_get_database_def ent_db_sqlite_config_def ent_db_postgres_config_def ent_db_mysql_config_def ent_db_oracle_config_def ent_db_inline_policy_def)

lemma ids_contractEntities:
  "de_id ent_bp_contract = js ''bp.contract''"
  "de_id ent_bp_spec = js ''bp.spec''"
  "de_id ent_bp_facet = js ''bp.facet''"
  "de_id ent_bp_text_facet = js ''bp.text_facet''"
  "de_id ent_bp_int_facet = js ''bp.int_facet''"
  "de_id ent_bp_computed_facet = js ''bp.computed_facet''"
  "de_id ent_bp_computed_decorator = js ''bp.computed_decorator''"
  "de_id ent_bp_lens = js ''bp.lens''"
  "de_id ent_bp_ward = js ''bp.ward''"
  "de_id ent_bp_is_sealed = js ''bp.is_sealed''"
  "de_id ent_bp_imprint = js ''bp.imprint''"
  "de_id ent_bp_projection = js ''bp.projection''"
  "de_id ent_bp_request_contract = js ''bp.request_contract''"
  "de_id ent_bp_response_contract = js ''bp.response_contract''"
  "de_id ent_bp_seal_fault = js ''bp.seal_fault''"
  "de_id ent_bp_cast_fault = js ''bp.cast_fault''"
  "de_id ent_bp_generate_schema = js ''bp.generate_schema''"
  "de_id ent_bp_sigil = js ''bp.sigil''"
  by (simp_all only: doc_entity.select_convs ent_bp_contract_def ent_bp_spec_def ent_bp_facet_def ent_bp_text_facet_def ent_bp_int_facet_def ent_bp_computed_facet_def ent_bp_computed_decorator_def ent_bp_lens_def ent_bp_ward_def ent_bp_is_sealed_def ent_bp_imprint_def ent_bp_projection_def ent_bp_request_contract_def ent_bp_response_contract_def ent_bp_seal_fault_def ent_bp_cast_fault_def ent_bp_generate_schema_def ent_bp_sigil_def)

lemma ids_diEntities:
  "de_id ent_di_container = js ''di.container''"
  "de_id ent_di_class_provider = js ''di.class_provider''"
  "de_id ent_di_factory_provider = js ''di.factory_provider''"
  "de_id ent_di_value_provider = js ''di.value_provider''"
  "de_id ent_di_pool_provider = js ''di.pool_provider''"
  "de_id ent_di_alias_provider = js ''di.alias_provider''"
  "de_id ent_di_lazy_proxy_provider = js ''di.lazy_proxy_provider''"
  "de_id ent_di_scoped_provider = js ''di.scoped_provider''"
  "de_id ent_di_contract_provider = js ''di.contract_provider''"
  "de_id ent_di_inject = js ''di.inject''"
  "de_id ent_di_dep = js ''di.dep''"
  "de_id ent_di_request_dag = js ''di.request_dag''"
  "de_id ent_di_service = js ''di.service''"
  "de_id ent_di_scopes = js ''di.scopes''"
  "de_id ent_di_provider_not_found_error = js ''di.provider_not_found_error''"
  "de_id ent_di_dependency_cycle_error = js ''di.dependency_cycle_error''"
  "de_id ent_di_scope_violation_error = js ''di.scope_violation_error''"
  "de_id ent_di_ambiguous_provider_error = js ''di.ambiguous_provider_error''"
  "de_id ent_di_manifest_validation_error = js ''di.manifest_validation_error''"
  "de_id ent_di_cross_app_dependency_error = js ''di.cross_app_dependency_error''"
  "de_id ent_di_circular_dependency_error = js ''di.circular_dependency_error''"
  "de_id ent_di_missing_dependency_error = js ''di.missing_dependency_error''"
  "de_id ent_di_cli_di_check = js ''di.cli.di_check''"
  "de_id ent_di_cli_di_tree = js ''di.cli.di_tree''"
  "de_id ent_di_cli_di_graph = js ''di.cli.di_graph''"
  "de_id ent_di_cli_di_profile = js ''di.cli.di_profile''"
  "de_id ent_di_cli_di_manifest = js ''di.cli.di_manifest''"
  "de_id ent_di_settings = js ''di.settings''"
  by (simp_all only: doc_entity.select_convs ent_di_container_def ent_di_class_provider_def ent_di_factory_provider_def ent_di_value_provider_def ent_di_pool_provider_def ent_di_alias_provider_def ent_di_lazy_proxy_provider_def ent_di_scoped_provider_def ent_di_contract_provider_def ent_di_inject_def ent_di_dep_def ent_di_request_dag_def ent_di_service_def ent_di_scopes_def ent_di_provider_not_found_error_def ent_di_dependency_cycle_error_def ent_di_scope_violation_error_def ent_di_ambiguous_provider_error_def ent_di_manifest_validation_error_def ent_di_cross_app_dependency_error_def ent_di_circular_dependency_error_def ent_di_missing_dependency_error_def ent_di_cli_di_check_def ent_di_cli_di_tree_def ent_di_cli_di_graph_def ent_di_cli_di_profile_def ent_di_cli_di_manifest_def ent_di_settings_def)

lemma ids_authEntities:
  "de_id ent_auth_identity = js ''auth.identity''"
  "de_id ent_auth_auth_result = js ''auth.auth_result''"
  "de_id ent_auth_authenticated = js ''auth.authenticated''"
  "de_id ent_auth_roles_required = js ''auth.roles_required''"
  "de_id ent_auth_scopes_required = js ''auth.scopes_required''"
  "de_id ent_auth_optional_auth = js ''auth.optional_auth''"
  "de_id ent_auth_authz_engine = js ''auth.authz_engine''"
  "de_id ent_auth_permission_engine = js ''auth.permission_engine''"
  "de_id ent_auth_auth_manager = js ''auth.auth_manager''"
  "de_id ent_auth_auth_middleware = js ''auth.auth_middleware''"
  "de_id ent_auth_token_manager = js ''auth.token_manager''"
  "de_id ent_auth_password_credential = js ''auth.password_credential''"
  "de_id ent_auth_api_key_credential = js ''auth.api_key_credential''"
  "de_id ent_auth_auth_guard = js ''auth.auth_guard''"
  "de_id ent_auth_role_guard = js ''auth.role_guard''"
  "de_id ent_auth_scope_guard = js ''auth.scope_guard''"
  "de_id ent_auth_policy_guard = js ''auth.policy_guard''"
  "de_id ent_auth_rbac_engine = js ''auth.rbac_engine''"
  "de_id ent_auth_abac_engine = js ''auth.abac_engine''"
  "de_id ent_auth_password_backend = js ''auth.password_backend''"
  "de_id ent_auth_token_backend = js ''auth.token_backend''"
  by (simp_all only: doc_entity.select_convs ent_auth_identity_def ent_auth_auth_result_def ent_auth_authenticated_def ent_auth_roles_required_def ent_auth_scopes_required_def ent_auth_optional_auth_def ent_auth_authz_engine_def ent_auth_permission_engine_def ent_auth_auth_manager_def ent_auth_auth_middleware_def ent_auth_token_manager_def ent_auth_password_credential_def ent_auth_api_key_credential_def ent_auth_auth_guard_def ent_auth_role_guard_def ent_auth_scope_guard_def ent_auth_policy_guard_def ent_auth_rbac_engine_def ent_auth_abac_engine_def ent_auth_password_backend_def ent_auth_token_backend_def)

lemma ids_sessionsEntities:
  "de_id ent_sessions_session_id = js ''sessions.session_id''"
  "de_id ent_sessions_session = js ''sessions.session''"
  "de_id ent_sessions_principal = js ''sessions.principal''"
  "de_id ent_sessions_scope = js ''sessions.scope''"
  "de_id ent_sessions_flag = js ''sessions.flag''"
  "de_id ent_sessions_policy = js ''sessions.policy''"
  "de_id ent_sessions_policy_builder = js ''sessions.policy_builder''"
  "de_id ent_sessions_engine = js ''sessions.engine''"
  "de_id ent_sessions_store = js ''sessions.store''"
  "de_id ent_sessions_memory_store = js ''sessions.memory_store''"
  "de_id ent_sessions_file_store = js ''sessions.file_store''"
  "de_id ent_sessions_transport = js ''sessions.transport''"
  "de_id ent_sessions_cookie_transport = js ''sessions.cookie_transport''"
  "de_id ent_sessions_header_transport = js ''sessions.header_transport''"
  "de_id ent_sessions_decorator_require = js ''sessions.decorator_require''"
  "de_id ent_sessions_decorator_ensure = js ''sessions.decorator_ensure''"
  "de_id ent_sessions_decorator_optional = js ''sessions.decorator_optional''"
  "de_id ent_sessions_decorator_stateful = js ''sessions.decorator_stateful''"
  "de_id ent_sessions_context = js ''sessions.context''"
  "de_id ent_sessions_state = js ''sessions.state''"
  "de_id ent_sessions_field = js ''sessions.field''"
  "de_id ent_sessions_fault = js ''sessions.fault''"
  "de_id ent_sessions_expired_fault = js ''sessions.expired_fault''"
  "de_id ent_sessions_idle_timeout_fault = js ''sessions.idle_timeout_fault''"
  "de_id ent_sessions_absolute_timeout_fault = js ''sessions.absolute_timeout_fault''"
  "de_id ent_sessions_concurrency_fault = js ''sessions.concurrency_fault''"
  "de_id ent_sessions_hijack_fault = js ''sessions.hijack_fault''"
  by (simp_all only: doc_entity.select_convs ent_sessions_session_id_def ent_sessions_session_def ent_sessions_principal_def ent_sessions_scope_def ent_sessions_flag_def ent_sessions_policy_def ent_sessions_policy_builder_def ent_sessions_engine_def ent_sessions_store_def ent_sessions_memory_store_def ent_sessions_file_store_def ent_sessions_transport_def ent_sessions_cookie_transport_def ent_sessions_header_transport_def ent_sessions_decorator_require_def ent_sessions_decorator_ensure_def ent_sessions_decorator_optional_def ent_sessions_decorator_stateful_def ent_sessions_context_def ent_sessions_state_def ent_sessions_field_def ent_sessions_fault_def ent_sessions_expired_fault_def ent_sessions_idle_timeout_fault_def ent_sessions_absolute_timeout_fault_def ent_sessions_concurrency_fault_def ent_sessions_hijack_fault_def)

lemma ids_subsystemEntities:
  "de_id ent_tasks_task = js ''tasks.task''"
  "de_id ent_tasks_Priority = js ''tasks.Priority''"
  "de_id ent_tasks_TaskManager = js ''tasks.TaskManager''"
  "de_id ent_tasks_MemoryBackend = js ''tasks.MemoryBackend''"
  "de_id ent_tasks_Job = js ''tasks.Job''"
  "de_id ent_tasks_every = js ''tasks.every''"
  "de_id ent_tasks_cron = js ''tasks.cron''"
  "de_id ent_storage_StorageBackend = js ''storage.StorageBackend''"
  "de_id ent_storage_StorageFile = js ''storage.StorageFile''"
  "de_id ent_storage_StorageRegistry = js ''storage.StorageRegistry''"
  "de_id ent_storage_LocalConfig = js ''storage.LocalConfig''"
  "de_id ent_storage_S3Config = js ''storage.S3Config''"
  "de_id ent_storage_StorageMetadata = js ''storage.StorageMetadata''"
  "de_id ent_sqlite_create_pool = js ''sqlite.create_pool''"
  "de_id ent_sqlite_ConnectionPool = js ''sqlite.ConnectionPool''"
  "de_id ent_sqlite_AsyncConnection = js ''sqlite.AsyncConnection''"
  "de_id ent_sqlite_SqlitePoolConfig = js ''sqlite.SqlitePoolConfig''"
  "de_id ent_sqlite_SqliteService = js ''sqlite.SqliteService''"
  "de_id ent_filesystem_FileSystem = js ''filesystem.FileSystem''"
  "de_id ent_filesystem_AsyncPath = js ''filesystem.AsyncPath''"
  "de_id ent_filesystem_FileSystemConfig = js ''filesystem.FileSystemConfig''"
  "de_id ent_filesystem_async_open = js ''filesystem.async_open''"
  "de_id ent_filesystem_read_file = js ''filesystem.read_file''"
  "de_id ent_filesystem_write_file = js ''filesystem.write_file''"
  "de_id ent_filesystem_append_file = js ''filesystem.append_file''"
  "de_id ent_filesystem_copy_file = js ''filesystem.copy_file''"
  "de_id ent_filesystem_move_file = js ''filesystem.move_file''"
  "de_id ent_filesystem_delete_file = js ''filesystem.delete_file''"
  "de_id ent_filesystem_file_exists = js ''filesystem.file_exists''"
  "de_id ent_filesystem_file_stat = js ''filesystem.file_stat''"
  "de_id ent_filesystem_list_dir = js ''filesystem.list_dir''"
  "de_id ent_filesystem_make_dir = js ''filesystem.make_dir''"
  "de_id ent_filesystem_remove_dir = js ''filesystem.remove_dir''"
  "de_id ent_filesystem_remove_tree = js ''filesystem.remove_tree''"
  "de_id ent_artifacts_ArtifactStore = js ''artifacts.ArtifactStore''"
  "de_id ent_artifacts_ArtifactEnvelope = js ''artifacts.ArtifactEnvelope''"
  "de_id ent_artifacts_JSONFileBackend = js ''artifacts.JSONFileBackend''"
  "de_id ent_artifacts_ArtifactRegistry = js ''artifacts.ArtifactRegistry''"
  "de_id ent_native_extensions = js ''native.extensions''"
  by (simp_all only: doc_entity.select_convs ent_tasks_task_def ent_tasks_Priority_def ent_tasks_TaskManager_def ent_tasks_MemoryBackend_def ent_tasks_Job_def ent_tasks_every_def ent_tasks_cron_def ent_storage_StorageBackend_def ent_storage_StorageFile_def ent_storage_StorageRegistry_def ent_storage_LocalConfig_def ent_storage_S3Config_def ent_storage_StorageMetadata_def ent_sqlite_create_pool_def ent_sqlite_ConnectionPool_def ent_sqlite_AsyncConnection_def ent_sqlite_SqlitePoolConfig_def ent_sqlite_SqliteService_def ent_filesystem_FileSystem_def ent_filesystem_AsyncPath_def ent_filesystem_FileSystemConfig_def ent_filesystem_async_open_def ent_filesystem_read_file_def ent_filesystem_write_file_def ent_filesystem_append_file_def ent_filesystem_copy_file_def ent_filesystem_move_file_def ent_filesystem_delete_file_def ent_filesystem_file_exists_def ent_filesystem_file_stat_def ent_filesystem_list_dir_def ent_filesystem_make_dir_def ent_filesystem_remove_dir_def ent_filesystem_remove_tree_def ent_artifacts_ArtifactStore_def ent_artifacts_ArtifactEnvelope_def ent_artifacts_JSONFileBackend_def ent_artifacts_ArtifactRegistry_def ent_native_extensions_def)

lemma ids_cliEntities:
  "de_id ent_cli_init_workspace = js ''cli.init_workspace''"
  "de_id ent_cli_add_module = js ''cli.add_module''"
  "de_id ent_cli_generate_controller = js ''cli.generate_controller''"
  "de_id ent_cli_validate = js ''cli.validate''"
  "de_id ent_cli_compile = js ''cli.compile''"
  "de_id ent_cli_run = js ''cli.run''"
  "de_id ent_cli_serve = js ''cli.serve''"
  "de_id ent_cli_freeze = js ''cli.freeze''"
  "de_id ent_cli_manifest_update = js ''cli.manifest_update''"
  "de_id ent_cli_doctor = js ''cli.doctor''"
  "de_id ent_cli_db_makemigrations = js ''cli.db_makemigrations''"
  "de_id ent_cli_db_migrate = js ''cli.db_migrate''"
  "de_id ent_cli_ws_gen_client = js ''cli.ws_gen_client''"
  "de_id ent_cli_test = js ''cli.test''"
  "de_id ent_cli_artifacts_status = js ''cli.artifacts_status''"
  "de_id ent_cli_artifacts_verify = js ''cli.artifacts_verify''"
  "de_id ent_cli_artifacts_clean = js ''cli.artifacts_clean''"
  by (simp_all only: doc_entity.select_convs ent_cli_init_workspace_def ent_cli_add_module_def ent_cli_generate_controller_def ent_cli_validate_def ent_cli_compile_def ent_cli_run_def ent_cli_serve_def ent_cli_freeze_def ent_cli_manifest_update_def ent_cli_doctor_def ent_cli_db_makemigrations_def ent_cli_db_migrate_def ent_cli_ws_gen_client_def ent_cli_test_def ent_cli_artifacts_status_def ent_cli_artifacts_verify_def ent_cli_artifacts_clean_def)

lemma ids_testingEntities:
  "de_id ent_testing_test_client = js ''testing.test_client''"
  "de_id ent_testing_websocket_client = js ''testing.websocket_client''"
  "de_id ent_testing_simple_test_case = js ''testing.simple_test_case''"
  "de_id ent_testing_aquilia_test_case = js ''testing.aquilia_test_case''"
  "de_id ent_testing_transaction_test_case = js ''testing.transaction_test_case''"
  "de_id ent_testing_live_server_test_case = js ''testing.live_server_test_case''"
  "de_id ent_testing_override_settings = js ''testing.override_settings''"
  "de_id ent_testing_mock_fault_engine = js ''testing.mock_fault_engine''"
  "de_id ent_testing_mock_effect_registry = js ''testing.mock_effect_registry''"
  "de_id ent_testing_mock_provider = js ''testing.mock_provider''"
  "de_id ent_testing_spy_provider = js ''testing.spy_provider''"
  "de_id ent_testing_override_provider = js ''testing.override_provider''"
  by (simp_all only: doc_entity.select_convs ent_testing_test_client_def ent_testing_websocket_client_def ent_testing_simple_test_case_def ent_testing_aquilia_test_case_def ent_testing_transaction_test_case_def ent_testing_live_server_test_case_def ent_testing_override_settings_def ent_testing_mock_fault_engine_def ent_testing_mock_effect_registry_def ent_testing_mock_provider_def ent_testing_spy_provider_def ent_testing_override_provider_def)

lemma ids_speculaEntities:
  "de_id ent_specula_config = js ''specula.config''"
  "de_id ent_specula_integration = js ''specula.integration''"
  "de_id ent_specula_builder = js ''specula.builder''"
  "de_id ent_specula_service = js ''specula.service''"
  by (simp_all only: doc_entity.select_convs ent_specula_config_def ent_specula_integration_def ent_specula_builder_def ent_specula_service_def)

lemma ids_aquiliaEntities:
  "de_id ent_middleware_MiddlewareStack = js ''middleware.MiddlewareStack''"
  "de_id ent_middleware_RequestIdMiddleware = js ''middleware.RequestIdMiddleware''"
  "de_id ent_middleware_ExceptionMiddleware = js ''middleware.ExceptionMiddleware''"
  "de_id ent_middleware_TimeoutMiddleware = js ''middleware.TimeoutMiddleware''"
  "de_id ent_middleware_CompressionMiddleware = js ''middleware.CompressionMiddleware''"
  "de_id ent_middleware_CORSMiddleware = js ''middleware.CORSMiddleware''"
  "de_id ent_middleware_RateLimitMiddleware = js ''middleware.RateLimitMiddleware''"
  "de_id ent_middleware_StaticMiddleware = js ''middleware.StaticMiddleware''"
  "de_id ent_middleware_SessionMiddleware = js ''middleware.SessionMiddleware''"
  "de_id ent_middleware_RequestScopeMiddleware = js ''middleware.RequestScopeMiddleware''"
  "de_id ent_aquilary_AquilaryRegistry = js ''aquilary.AquilaryRegistry''"
  "de_id ent_aquilary_AppContext = js ''aquilary.AppContext''"
  "de_id ent_aquilary_RuntimeRegistry = js ''aquilary.RuntimeRegistry''"
  "de_id ent_effects_EffectRegistry = js ''effects.EffectRegistry''"
  "de_id ent_effects_EffectProvider = js ''effects.EffectProvider''"
  "de_id ent_effects_Layer = js ''effects.Layer''"
  "de_id ent_effects_DBTxHandle = js ''effects.DBTxHandle''"
  "de_id ent_effects_requires = js ''effects.requires''"
  "de_id ent_effects_DBTx = js ''effects.DBTx''"
  "de_id ent_effects_CacheEffect = js ''effects.CacheEffect''"
  "de_id ent_effects_QueueEffect = js ''effects.QueueEffect''"
  "de_id ent_effects_HTTPEffect = js ''effects.HTTPEffect''"
  "de_id ent_effects_StorageEffect = js ''effects.StorageEffect''"
  "de_id ent_effects_CacheServiceHandle = js ''effects.CacheServiceHandle''"
  "de_id ent_effects_CacheHandle = js ''effects.CacheHandle''"
  "de_id ent_effects_QueueHandle = js ''effects.QueueHandle''"
  "de_id ent_effects_TaskQueueHandle = js ''effects.TaskQueueHandle''"
  "de_id ent_effects_HTTPHandle = js ''effects.HTTPHandle''"
  "de_id ent_effects_StorageHandle = js ''effects.StorageHandle''"
  "de_id ent_effects_FlowPipeline = js ''effects.FlowPipeline''"
  "de_id ent_effects_FlowContext_first = js ''effects.FlowContext''"
  "de_id ent_effects_FlowNode = js ''effects.FlowNode''"
  "de_id ent_effects_FlowResult = js ''effects.FlowResult''"
  "de_id ent_effects_EffectScope = js ''effects.EffectScope''"
  "de_id ent_effects_DBTxProvider = js ''effects.DBTxProvider''"
  "de_id ent_effects_CacheProvider = js ''effects.CacheProvider''"
  "de_id ent_effects_QueueProvider = js ''effects.QueueProvider''"
  "de_id ent_effects_TaskQueueProvider = js ''effects.TaskQueueProvider''"
  "de_id ent_effects_HTTPProvider = js ''effects.HTTPProvider''"
  "de_id ent_effects_StorageProvider = js ''effects.StorageProvider''"
  "de_id ent_effects_FlowContext = js ''effects.FlowContext''"
  "de_id ent_effects_EffectMiddleware = js ''effects.EffectMiddleware''"
  "de_id ent_faults_Fault = js ''faults.Fault''"
  "de_id ent_faults_FaultContext = js ''faults.FaultContext''"
  "de_id ent_faults_FaultEngine = js ''faults.FaultEngine''"
  "de_id ent_faults_FaultHandler = js ''faults.FaultHandler''"
  "de_id ent_sse_SSEResponse = js ''sse.SSEResponse''"
  "de_id ent_sse_SSEEvent = js ''sse.SSEEvent''"
  "de_id ent_sse_SSEStreamAbortedFault = js ''sse.SSEStreamAbortedFault''"
  "de_id ent_sse_SSESerializationFault = js ''sse.SSESerializationFault''"
  "de_id ent_signing_Signer = js ''signing.Signer''"
  "de_id ent_signing_TimestampSigner = js ''signing.TimestampSigner''"
  "de_id ent_signing_RotatingSigner = js ''signing.RotatingSigner''"
  "de_id ent_json_module = js ''json.module''"
  "de_id ent_json_JSONDecodeError = js ''json.JSONDecodeError''"
  "de_id ent_json_JSONEncodeError = js ''json.JSONEncodeError''"
  by (simp_all only: doc_entity.select_convs ent_middleware_MiddlewareStack_def ent_middleware_RequestIdMiddleware_def ent_middleware_ExceptionMiddleware_def ent_middleware_TimeoutMiddleware_def ent_middleware_CompressionMiddleware_def ent_middleware_CORSMiddleware_def ent_middleware_RateLimitMiddleware_def ent_middleware_StaticMiddleware_def ent_middleware_SessionMiddleware_def ent_middleware_RequestScopeMiddleware_def ent_aquilary_AquilaryRegistry_def ent_aquilary_AppContext_def ent_aquilary_RuntimeRegistry_def ent_effects_EffectRegistry_def ent_effects_EffectProvider_def ent_effects_Layer_def ent_effects_DBTxHandle_def ent_effects_requires_def ent_effects_DBTx_def ent_effects_CacheEffect_def ent_effects_QueueEffect_def ent_effects_HTTPEffect_def ent_effects_StorageEffect_def ent_effects_CacheServiceHandle_def ent_effects_CacheHandle_def ent_effects_QueueHandle_def ent_effects_TaskQueueHandle_def ent_effects_HTTPHandle_def ent_effects_StorageHandle_def ent_effects_FlowPipeline_def ent_effects_FlowContext_first_def ent_effects_FlowNode_def ent_effects_FlowResult_def ent_effects_EffectScope_def ent_effects_DBTxProvider_def ent_effects_CacheProvider_def ent_effects_QueueProvider_def ent_effects_TaskQueueProvider_def ent_effects_HTTPProvider_def ent_effects_StorageProvider_def ent_effects_FlowContext_def ent_effects_EffectMiddleware_def ent_faults_Fault_def ent_faults_FaultContext_def ent_faults_FaultEngine_def ent_faults_FaultHandler_def ent_sse_SSEResponse_def ent_sse_SSEEvent_def ent_sse_SSEStreamAbortedFault_def ent_sse_SSESerializationFault_def ent_signing_Signer_def ent_signing_TimestampSigner_def ent_signing_RotatingSigner_def ent_json_module_def ent_json_JSONDecodeError_def ent_json_JSONEncodeError_def)

lemma ids_cacheHttpI18n:
  "de_id ent_cache_CacheService = js ''cache.CacheService''"
  "de_id ent_cache_cached = js ''cache.cached''"
  "de_id ent_cache_cache_aside = js ''cache.cache_aside''"
  "de_id ent_cache_invalidate = js ''cache.invalidate''"
  "de_id ent_cache_MemoryBackend = js ''cache.MemoryBackend''"
  "de_id ent_cache_RedisBackend = js ''cache.RedisBackend''"
  "de_id ent_cache_CompositeBackend = js ''cache.CompositeBackend''"
  "de_id ent_cache_CacheMiddleware = js ''cache.CacheMiddleware''"
  "de_id ent_http_AsyncHTTPClient = js ''http.AsyncHTTPClient''"
  "de_id ent_http_HTTPSession = js ''http.HTTPSession''"
  "de_id ent_http_HTTPClientConfig = js ''http.HTTPClientConfig''"
  "de_id ent_http_TimeoutConfig = js ''http.TimeoutConfig''"
  "de_id ent_http_RetryConfig = js ''http.RetryConfig''"
  "de_id ent_http_MultipartFormData = js ''http.MultipartFormData''"
  "de_id ent_i18n_I18nService = js ''i18n.I18nService''"
  "de_id ent_i18n_Locale = js ''i18n.Locale''"
  "de_id ent_i18n_I18nConfig = js ''i18n.I18nConfig''"
  "de_id ent_i18n_I18nMiddleware = js ''i18n.I18nMiddleware''"
  "de_id ent_i18n_lazy_t = js ''i18n.lazy_t''"
  by (simp_all only: doc_entity.select_convs ent_cache_CacheService_def ent_cache_cached_def ent_cache_cache_aside_def ent_cache_invalidate_def ent_cache_MemoryBackend_def ent_cache_RedisBackend_def ent_cache_CompositeBackend_def ent_cache_CacheMiddleware_def ent_http_AsyncHTTPClient_def ent_http_HTTPSession_def ent_http_HTTPClientConfig_def ent_http_TimeoutConfig_def ent_http_RetryConfig_def ent_http_MultipartFormData_def ent_i18n_I18nService_def ent_i18n_Locale_def ent_i18n_I18nConfig_def ent_i18n_I18nMiddleware_def ent_i18n_lazy_t_def)

lemma ids_websocketsTemplatesMail:
  "de_id ent_sockets_SocketController = js ''sockets.SocketController''"
  "de_id ent_sockets_Connection = js ''sockets.Connection''"
  "de_id ent_sockets_MessageEnvelope = js ''sockets.MessageEnvelope''"
  "de_id ent_sockets_InMemoryAdapter = js ''sockets.InMemoryAdapter''"
  "de_id ent_sockets_RedisAdapter = js ''sockets.RedisAdapter''"
  "de_id ent_sockets_HandshakeAuthGuard = js ''sockets.HandshakeAuthGuard''"
  "de_id ent_sockets_RateLimitGuard = js ''sockets.RateLimitGuard''"
  "de_id ent_templates_TemplateEngine = js ''templates.TemplateEngine''"
  "de_id ent_templates_TemplateLoader = js ''templates.TemplateLoader''"
  "de_id ent_templates_SurpBytecodeCache = js ''templates.SurpBytecodeCache''"
  "de_id ent_templates_TemplateSandbox = js ''templates.TemplateSandbox''"
  "de_id ent_mail_MailService = js ''mail.MailService''"
  "de_id ent_mail_EmailMessage = js ''mail.EmailMessage''"
  "de_id ent_mail_TemplateMessage = js ''mail.TemplateMessage''"
  "de_id ent_mail_MailIntegration = js ''mail.MailIntegration''"
  by (simp_all only: doc_entity.select_convs ent_sockets_SocketController_def ent_sockets_Connection_def ent_sockets_MessageEnvelope_def ent_sockets_InMemoryAdapter_def ent_sockets_RedisAdapter_def ent_sockets_HandshakeAuthGuard_def ent_sockets_RateLimitGuard_def ent_templates_TemplateEngine_def ent_templates_TemplateLoader_def ent_templates_SurpBytecodeCache_def ent_templates_TemplateSandbox_def ent_mail_MailService_def ent_mail_EmailMessage_def ent_mail_TemplateMessage_def ent_mail_MailIntegration_def)

lemma ids_providers:
  "de_id ent_provider_RenderIntegration = js ''provider.RenderIntegration''"
  "de_id ent_provider_RenderClient = js ''provider.RenderClient''"
  "de_id ent_provider_RenderDeployer = js ''provider.RenderDeployer''"
  "de_id ent_provider_RenderCredentialStore = js ''provider.RenderCredentialStore''"
  "de_id ent_provider_RenderDeployConfig = js ''provider.RenderDeployConfig''"
  "de_id ent_cli_deploy_render = js ''cli.deploy_render''"
  "de_id ent_cli_provider_login_render = js ''cli.provider_login_render''"
  "de_id ent_cli_provider_status_render = js ''cli.provider_status_render''"
  "de_id ent_cli_provider_logout_render = js ''cli.provider_logout_render''"
  "de_id ent_cli_provider_render_env_set = js ''cli.provider_render_env_set''"
  by (simp_all only: doc_entity.select_convs ent_provider_RenderIntegration_def ent_provider_RenderClient_def ent_provider_RenderDeployer_def ent_provider_RenderCredentialStore_def ent_provider_RenderDeployConfig_def ent_cli_deploy_render_def ent_cli_provider_login_render_def ent_cli_provider_status_render_def ent_cli_provider_logout_render_def ent_cli_provider_render_env_set_def)

lemma ids_ormAdvancedEntities:
  "de_id ent_orm_window = js ''orm.window''"
  "de_id ent_orm_window_rank = js ''orm.window.rank''"
  "de_id ent_orm_window_dense_rank = js ''orm.window.dense_rank''"
  "de_id ent_orm_window_row_number = js ''orm.window.row_number''"
  "de_id ent_orm_window_ntile = js ''orm.window.ntile''"
  "de_id ent_orm_window_lag = js ''orm.window.lag''"
  "de_id ent_orm_window_lead = js ''orm.window.lead''"
  "de_id ent_orm_window_first_value = js ''orm.window.first_value''"
  "de_id ent_orm_window_last_value = js ''orm.window.last_value''"
  "de_id ent_orm_window_nth_value = js ''orm.window.nth_value''"
  "de_id ent_orm_window_frame = js ''orm.window.frame''"
  "de_id ent_orm_cte = js ''orm.cte''"
  "de_id ent_orm_cte_with_cte = js ''orm.cte.with_cte''"
  "de_id ent_orm_cte_cte_method = js ''orm.cte.cte_method''"
  "de_id ent_orm_cte_recursive = js ''orm.cte.recursive''"
  "de_id ent_orm_cte_col = js ''orm.cte.col''"
  "de_id ent_orm_queryset_in_bulk = js ''orm.queryset.in_bulk''"
  "de_id ent_orm_queryset_find_or_create = js ''orm.queryset.find_or_create''"
  "de_id ent_orm_queryset_bulk_create = js ''orm.queryset.bulk_create''"
  "de_id ent_orm_queryset_iterator = js ''orm.queryset.iterator''"
  "de_id ent_orm_queryset_select_for_update = js ''orm.queryset.select_for_update''"
  "de_id ent_orm_queryset_explain = js ''orm.queryset.explain''"
  "de_id ent_orm_queryset_union = js ''orm.queryset.union''"
  "de_id ent_orm_queryset_only = js ''orm.queryset.only''"
  by (simp_all only: doc_entity.select_convs ent_orm_window_def ent_orm_window_rank_def ent_orm_window_dense_rank_def ent_orm_window_row_number_def ent_orm_window_ntile_def ent_orm_window_lag_def ent_orm_window_lead_def ent_orm_window_first_value_def ent_orm_window_last_value_def ent_orm_window_nth_value_def ent_orm_window_frame_def ent_orm_cte_def ent_orm_cte_with_cte_def ent_orm_cte_cte_method_def ent_orm_cte_recursive_def ent_orm_cte_col_def ent_orm_queryset_in_bulk_def ent_orm_queryset_find_or_create_def ent_orm_queryset_bulk_create_def ent_orm_queryset_iterator_def ent_orm_queryset_select_for_update_def ent_orm_queryset_explain_def ent_orm_queryset_union_def ent_orm_queryset_only_def)

lemma ids_vectordbEntities:
  "de_id ent_vectordb_VectorModel = js ''vectordb.VectorModel''"
  "de_id ent_vectordb_VectorField = js ''vectordb.VectorField''"
  "de_id ent_vectordb_VectorManager = js ''vectordb.VectorManager''"
  "de_id ent_vectordb_VectorQuery = js ''vectordb.VectorQuery''"
  "de_id ent_vectordb_VF = js ''vectordb.VF''"
  "de_id ent_vectordb_Hit = js ''vectordb.Hit''"
  "de_id ent_vectordb_integration = js ''vectordb.integration''"
  by (simp_all only: doc_entity.select_convs ent_vectordb_VectorModel_def ent_vectordb_VectorField_def ent_vectordb_VectorManager_def ent_vectordb_VectorQuery_def ent_vectordb_VF_def ent_vectordb_Hit_def ent_vectordb_integration_def)

lemma ids_devPlatform:
  "de_id ent_devplatform_config = js ''devplatform.config''"
  "de_id ent_devplatform_server = js ''devplatform.server''"
  "de_id ent_devplatform_platform = js ''devplatform.platform''"
  "de_id ent_devplatform_runtime_state_store = js ''devplatform.runtime_state_store''"
  "de_id ent_devplatform_request_record = js ''devplatform.request_record''"
  "de_id ent_devplatform_trace_span = js ''devplatform.trace_span''"
  "de_id ent_devplatform_fault_base = js ''devplatform.fault.base''"
  "de_id ent_devplatform_fault_startup = js ''devplatform.fault.startup''"
  "de_id ent_devplatform_fault_reload = js ''devplatform.fault.reload''"
  "de_id ent_devplatform_fault_inspector = js ''devplatform.fault.inspector''"
  "de_id ent_devplatform_fault_worker = js ''devplatform.fault.worker''"
  "de_id ent_devplatform_fault_configuration = js ''devplatform.fault.configuration''"
  "de_id ent_devplatform_report_fault = js ''devplatform.report_fault''"
  "de_id ent_devplatform_watcher = js ''devplatform.watcher''"
  "de_id ent_devplatform_ui = js ''devplatform.ui''"
  by (simp_all only: doc_entity.select_convs ent_devplatform_config_def ent_devplatform_server_def ent_devplatform_platform_def ent_devplatform_runtime_state_store_def ent_devplatform_request_record_def ent_devplatform_trace_span_def ent_devplatform_fault_base_def ent_devplatform_fault_startup_def ent_devplatform_fault_reload_def ent_devplatform_fault_inspector_def ent_devplatform_fault_worker_def ent_devplatform_fault_configuration_def ent_devplatform_report_fault_def ent_devplatform_watcher_def ent_devplatform_ui_def)

lemmas entity_ids = ids_serverLifecycle ids_showcase ids_adminPanel ids_configEntities ids_requestResponse ids_controllers ids_ormEntities ids_dbEntities ids_contractEntities ids_diEntities ids_authEntities ids_sessionsEntities ids_subsystemEntities ids_cliEntities ids_testingEntities ids_speculaEntities ids_aquiliaEntities ids_cacheHttpI18n ids_websocketsTemplatesMail ids_providers ids_ormAdvancedEntities ids_vectordbEntities ids_devPlatform

subsection \<open>The entities by their ids\<close>

lemma less_0:
  "id_less ent_aquilary_AppContext ent_aquilary_AquilaryRegistry"
  "id_less ent_aquilary_AquilaryRegistry ent_aquilary_RuntimeRegistry"
  "id_less ent_aquilary_RuntimeRegistry ent_artifacts_ArtifactEnvelope"
  "id_less ent_artifacts_ArtifactEnvelope ent_artifacts_ArtifactRegistry"
  "id_less ent_artifacts_ArtifactRegistry ent_artifacts_ArtifactStore"
  "id_less ent_artifacts_ArtifactStore ent_artifacts_JSONFileBackend"
  "id_less ent_artifacts_JSONFileBackend ent_auth_abac_engine"
  "id_less ent_auth_abac_engine ent_auth_api_key_credential"
  "id_less ent_auth_api_key_credential ent_auth_auth_guard"
  "id_less ent_auth_auth_guard ent_auth_auth_manager"
  "id_less ent_auth_auth_manager ent_auth_auth_middleware"
  "id_less ent_auth_auth_middleware ent_auth_auth_result"
  "id_less ent_auth_auth_result ent_auth_authenticated"
  "id_less ent_auth_authenticated ent_auth_authz_engine"
  "id_less ent_auth_authz_engine ent_auth_identity"
  "id_less ent_auth_identity ent_auth_optional_auth"
  "id_less ent_auth_optional_auth ent_auth_password_backend"
  "id_less ent_auth_password_backend ent_auth_password_credential"
  "id_less ent_auth_password_credential ent_auth_permission_engine"
  "id_less ent_auth_permission_engine ent_auth_policy_guard"
  "id_less ent_auth_policy_guard ent_auth_rbac_engine"
  "id_less ent_auth_rbac_engine ent_auth_role_guard"
  "id_less ent_auth_role_guard ent_auth_roles_required"
  "id_less ent_auth_roles_required ent_auth_scope_guard"
  "id_less ent_auth_scope_guard ent_auth_scopes_required"
  by (rule Pure.conjunctionI id_lessI entity_ids | simp)+

lemma less_1:
  "id_less ent_auth_scopes_required ent_auth_token_backend"
  "id_less ent_auth_token_backend ent_auth_token_manager"
  "id_less ent_auth_token_manager ent_bp_cast_fault"
  "id_less ent_bp_cast_fault ent_bp_computed_decorator"
  "id_less ent_bp_computed_decorator ent_bp_computed_facet"
  "id_less ent_bp_computed_facet ent_bp_contract"
  "id_less ent_bp_contract ent_bp_facet"
  "id_less ent_bp_facet ent_bp_generate_schema"
  "id_less ent_bp_generate_schema ent_bp_imprint"
  "id_less ent_bp_imprint ent_bp_int_facet"
  "id_less ent_bp_int_facet ent_bp_is_sealed"
  "id_less ent_bp_is_sealed ent_bp_lens"
  "id_less ent_bp_lens ent_bp_projection"
  "id_less ent_bp_projection ent_bp_request_contract"
  "id_less ent_bp_request_contract ent_bp_response_contract"
  "id_less ent_bp_response_contract ent_bp_seal_fault"
  "id_less ent_bp_seal_fault ent_bp_sigil"
  "id_less ent_bp_sigil ent_bp_spec"
  "id_less ent_bp_spec ent_bp_text_facet"
  "id_less ent_bp_text_facet ent_bp_ward"
  "id_less ent_bp_ward ent_cache_CacheMiddleware"
  "id_less ent_cache_CacheMiddleware ent_cache_CacheService"
  "id_less ent_cache_CacheService ent_cache_CompositeBackend"
  "id_less ent_cache_CompositeBackend ent_cache_MemoryBackend"
  "id_less ent_cache_MemoryBackend ent_cache_RedisBackend"
  "id_less ent_cache_RedisBackend ent_cache_cache_aside"
  by (rule Pure.conjunctionI id_lessI entity_ids | simp)+

lemma less_2:
  "id_less ent_cache_cache_aside ent_cache_cached"
  "id_less ent_cache_cached ent_cache_invalidate"
  "id_less ent_cache_invalidate ent_cli_add_module"
  "id_less ent_cli_add_module ent_cli_admin_audit"
  "id_less ent_cli_admin_audit ent_cli_admin_changepassword"
  "id_less ent_cli_admin_changepassword ent_cli_admin_check"
  "id_less ent_cli_admin_check ent_cli_admin_createstaff"
  "id_less ent_cli_admin_createstaff ent_cli_admin_createsuperuser"
  "id_less ent_cli_admin_createsuperuser ent_cli_admin_listusers"
  "id_less ent_cli_admin_listusers ent_cli_admin_setup"
  "id_less ent_cli_admin_setup ent_cli_admin_status"
  "id_less ent_cli_admin_status ent_cli_aq"
  "id_less ent_cli_aq ent_cli_aquilia_run"
  "id_less ent_cli_aquilia_run ent_cli_artifacts_clean"
  "id_less ent_cli_artifacts_clean ent_cli_artifacts_status"
  "id_less ent_cli_artifacts_status ent_cli_artifacts_verify"
  "id_less ent_cli_artifacts_verify ent_cli_compile"
  "id_less ent_cli_compile ent_cli_db_makemigrations"
  "id_less ent_cli_db_makemigrations ent_cli_db_migrate"
  "id_less ent_cli_db_migrate ent_cli_deploy"
  "id_less ent_cli_deploy ent_cli_deploy_render"
  "id_less ent_cli_deploy_render ent_cli_doctor"
  "id_less ent_cli_doctor ent_cli_dotenv_file"
  "id_less ent_cli_dotenv_file ent_cli_freeze"
  "id_less ent_cli_freeze ent_cli_generate_controller"
  "id_less ent_cli_generate_controller ent_cli_init_workspace"
  by (rule Pure.conjunctionI id_lessI entity_ids | simp)+

lemma less_3:
  "id_less ent_cli_init_workspace ent_cli_inspect"
  "id_less ent_cli_inspect ent_cli_manifest_update"
  "id_less ent_cli_manifest_update ent_cli_provider_login_render"
  "id_less ent_cli_provider_login_render ent_cli_provider_logout_render"
  "id_less ent_cli_provider_logout_render ent_cli_provider_render_env_set"
  "id_less ent_cli_provider_render_env_set ent_cli_provider_status_render"
  "id_less ent_cli_provider_status_render ent_cli_run"
  "id_less ent_cli_run ent_cli_serve"
  "id_less ent_cli_serve ent_cli_test"
  "id_less ent_cli_test ent_cli_trace"
  "id_less ent_cli_trace ent_cli_validate"
  "id_less ent_cli_validate ent_cli_workspace_py"
  "id_less ent_cli_workspace_py ent_cli_ws_gen_client"
  "id_less ent_cli_ws_gen_client ent_config_admin_integration"
  "id_less ent_config_admin_integration ent_config_admin_modules"
  "id_less ent_config_admin_modules ent_config_admin_security"
  "id_less ent_config_admin_security ent_config_appmanifest"
  "id_less ent_config_appmanifest ent_config_aquilaconfig"
  "id_less ent_config_aquilaconfig ent_config_cache_integration"
  "id_less ent_config_cache_integration ent_config_database_integration"
  "id_less ent_config_database_integration ent_config_dotenv"
  "id_less ent_config_dotenv ent_config_env"
  "id_less ent_config_env ent_config_integration"
  "id_less ent_config_integration ent_config_module"
  "id_less ent_config_module ent_config_secret"
  "id_less ent_config_secret ent_config_session_integration"
  by (rule Pure.conjunctionI id_lessI entity_ids | simp)+

lemma less_4:
  "id_less ent_config_session_integration ent_config_workspace"
  "id_less ent_config_workspace ent_controller_attributes"
  "id_less ent_controller_attributes ent_controller_controller"
  "id_less ent_controller_controller ent_controller_exceptionfilter"
  "id_less ent_controller_exceptionfilter ent_controller_get"
  "id_less ent_controller_get ent_controller_interceptor"
  "id_less ent_controller_interceptor ent_controller_post"
  "id_less ent_controller_post ent_controller_requestctx"
  "id_less ent_controller_requestctx ent_controller_throttle"
  "id_less ent_controller_throttle ent_controller_validate_body"
  "id_less ent_controller_validate_body ent_controllers_router"
  "id_less ent_controllers_router ent_db_aquilia_database"
  "id_less ent_db_aquilia_database ent_db_configure_database"
  "id_less ent_db_configure_database ent_db_execute"
  "id_less ent_db_execute ent_db_execute_many"
  "id_less ent_db_execute_many ent_db_fetch_all"
  "id_less ent_db_fetch_all ent_db_fetch_one"
  "id_less ent_db_fetch_one ent_db_fetch_val"
  "id_less ent_db_fetch_val ent_db_get_columns"
  "id_less ent_db_get_columns ent_db_get_database"
  "id_less ent_db_get_database ent_db_get_tables"
  "id_less ent_db_get_tables ent_db_inline_policy"
  "id_less ent_db_inline_policy ent_db_mysql_config"
  "id_less ent_db_mysql_config ent_db_oracle_config"
  "id_less ent_db_oracle_config ent_db_postgres_config"
  "id_less ent_db_postgres_config ent_db_savepoint"
  by (rule Pure.conjunctionI id_lessI entity_ids | simp)+

lemma less_5:
  "id_less ent_db_savepoint ent_db_sqlite_config"
  "id_less ent_db_sqlite_config ent_db_table_exists"
  "id_less ent_db_table_exists ent_db_transaction"
  "id_less ent_db_transaction ent_devplatform_config"
  "id_less ent_devplatform_config ent_devplatform_fault_base"
  "id_less ent_devplatform_fault_base ent_devplatform_fault_configuration"
  "id_less ent_devplatform_fault_configuration ent_devplatform_fault_inspector"
  "id_less ent_devplatform_fault_inspector ent_devplatform_fault_reload"
  "id_less ent_devplatform_fault_reload ent_devplatform_fault_startup"
  "id_less ent_devplatform_fault_startup ent_devplatform_fault_worker"
  "id_less ent_devplatform_fault_worker ent_devplatform_platform"
  "id_less ent_devplatform_platform ent_devplatform_report_fault"
  "id_less ent_devplatform_report_fault ent_devplatform_request_record"
  "id_less ent_devplatform_request_record ent_devplatform_runtime_state_store"
  "id_less ent_devplatform_runtime_state_store ent_devplatform_server"
  "id_less ent_devplatform_server ent_devplatform_trace_span"
  "id_less ent_devplatform_trace_span ent_devplatform_ui"
  "id_less ent_devplatform_ui ent_devplatform_watcher"
  "id_less ent_devplatform_watcher ent_di_alias_provider"
  "id_less ent_di_alias_provider ent_di_ambiguous_provider_error"
  "id_less ent_di_ambiguous_provider_error ent_di_circular_dependency_error"
  "id_less ent_di_circular_dependency_error ent_di_class_provider"
  "id_less ent_di_class_provider ent_di_cli_di_check"
  "id_less ent_di_cli_di_check ent_di_cli_di_graph"
  "id_less ent_di_cli_di_graph ent_di_cli_di_manifest"
  "id_less ent_di_cli_di_manifest ent_di_cli_di_profile"
  by (rule Pure.conjunctionI id_lessI entity_ids | simp)+

lemma less_6:
  "id_less ent_di_cli_di_profile ent_di_cli_di_tree"
  "id_less ent_di_cli_di_tree ent_di_container"
  "id_less ent_di_container ent_di_contract_provider"
  "id_less ent_di_contract_provider ent_di_cross_app_dependency_error"
  "id_less ent_di_cross_app_dependency_error ent_di_dep"
  "id_less ent_di_dep ent_di_dependency_cycle_error"
  "id_less ent_di_dependency_cycle_error ent_di_factory_provider"
  "id_less ent_di_factory_provider ent_di_inject"
  "id_less ent_di_inject ent_di_lazy_proxy_provider"
  "id_less ent_di_lazy_proxy_provider ent_di_manifest_validation_error"
  "id_less ent_di_manifest_validation_error ent_di_missing_dependency_error"
  "id_less ent_di_missing_dependency_error ent_di_pool_provider"
  "id_less ent_di_pool_provider ent_di_provider_not_found_error"
  "id_less ent_di_provider_not_found_error ent_di_request_dag"
  "id_less ent_di_request_dag ent_di_scope_violation_error"
  "id_less ent_di_scope_violation_error ent_di_scoped_provider"
  "id_less ent_di_scoped_provider ent_di_scopes"
  "id_less ent_di_scopes ent_di_service"
  "id_less ent_di_service ent_di_settings"
  "id_less ent_di_settings ent_di_value_provider"
  "id_less ent_di_value_provider ent_effects_CacheEffect"
  "id_less ent_effects_CacheEffect ent_effects_CacheHandle"
  "id_less ent_effects_CacheHandle ent_effects_CacheProvider"
  "id_less ent_effects_CacheProvider ent_effects_CacheServiceHandle"
  "id_less ent_effects_CacheServiceHandle ent_effects_DBTx"
  "id_less ent_effects_DBTx ent_effects_DBTxHandle"
  by (rule Pure.conjunctionI id_lessI entity_ids | simp)+

lemma less_7:
  "id_less ent_effects_DBTxHandle ent_effects_DBTxProvider"
  "id_less ent_effects_DBTxProvider ent_effects_EffectMiddleware"
  "id_less ent_effects_EffectMiddleware ent_effects_EffectProvider"
  "id_less ent_effects_EffectProvider ent_effects_EffectRegistry"
  "id_less ent_effects_EffectRegistry ent_effects_EffectScope"
  "id_less ent_effects_EffectScope ent_effects_FlowContext"
  "id_less ent_effects_FlowContext ent_effects_FlowNode"
  "id_less ent_effects_FlowNode ent_effects_FlowPipeline"
  "id_less ent_effects_FlowPipeline ent_effects_FlowResult"
  "id_less ent_effects_FlowResult ent_effects_HTTPEffect"
  "id_less ent_effects_HTTPEffect ent_effects_HTTPHandle"
  "id_less ent_effects_HTTPHandle ent_effects_HTTPProvider"
  "id_less ent_effects_HTTPProvider ent_effects_Layer"
  "id_less ent_effects_Layer ent_effects_QueueEffect"
  "id_less ent_effects_QueueEffect ent_effects_QueueHandle"
  "id_less ent_effects_QueueHandle ent_effects_QueueProvider"
  "id_less ent_effects_QueueProvider ent_effects_StorageEffect"
  "id_less ent_effects_StorageEffect ent_effects_StorageHandle"
  "id_less ent_effects_StorageHandle ent_effects_StorageProvider"
  "id_less ent_effects_StorageProvider ent_effects_TaskQueueHandle"
  "id_less ent_effects_TaskQueueHandle ent_effects_TaskQueueProvider"
  "id_less ent_effects_TaskQueueProvider ent_effects_requires"
  "id_less ent_effects_requires ent_faults_Fault"
  "id_less ent_faults_Fault ent_faults_FaultContext"
  "id_less ent_faults_FaultContext ent_faults_FaultEngine"
  "id_less ent_faults_FaultEngine ent_faults_FaultHandler"
  by (rule Pure.conjunctionI id_lessI entity_ids | simp)+

lemma less_8:
  "id_less ent_faults_FaultHandler ent_filesystem_AsyncPath"
  "id_less ent_filesystem_AsyncPath ent_filesystem_FileSystem"
  "id_less ent_filesystem_FileSystem ent_filesystem_FileSystemConfig"
  "id_less ent_filesystem_FileSystemConfig ent_filesystem_append_file"
  "id_less ent_filesystem_append_file ent_filesystem_async_open"
  "id_less ent_filesystem_async_open ent_filesystem_copy_file"
  "id_less ent_filesystem_copy_file ent_filesystem_delete_file"
  "id_less ent_filesystem_delete_file ent_filesystem_file_exists"
  "id_less ent_filesystem_file_exists ent_filesystem_file_stat"
  "id_less ent_filesystem_file_stat ent_filesystem_list_dir"
  "id_less ent_filesystem_list_dir ent_filesystem_make_dir"
  "id_less ent_filesystem_make_dir ent_filesystem_move_file"
  "id_less ent_filesystem_move_file ent_filesystem_read_file"
  "id_less ent_filesystem_read_file ent_filesystem_remove_dir"
  "id_less ent_filesystem_remove_dir ent_filesystem_remove_tree"
  "id_less ent_filesystem_remove_tree ent_filesystem_write_file"
  "id_less ent_filesystem_write_file ent_http_AsyncHTTPClient"
  "id_less ent_http_AsyncHTTPClient ent_http_HTTPClientConfig"
  "id_less ent_http_HTTPClientConfig ent_http_HTTPSession"
  "id_less ent_http_HTTPSession ent_http_MultipartFormData"
  "id_less ent_http_MultipartFormData ent_http_RetryConfig"
  "id_less ent_http_RetryConfig ent_http_TimeoutConfig"
  "id_less ent_http_TimeoutConfig ent_http_request_type"
  "id_less ent_http_request_type ent_i18n_I18nConfig"
  "id_less ent_i18n_I18nConfig ent_i18n_I18nMiddleware"
  "id_less ent_i18n_I18nMiddleware ent_i18n_I18nService"
  by (rule Pure.conjunctionI id_lessI entity_ids | simp)+

lemma less_9:
  "id_less ent_i18n_I18nService ent_i18n_Locale"
  "id_less ent_i18n_Locale ent_i18n_lazy_t"
  "id_less ent_i18n_lazy_t ent_json_JSONDecodeError"
  "id_less ent_json_JSONDecodeError ent_json_JSONEncodeError"
  "id_less ent_json_JSONEncodeError ent_json_module"
  "id_less ent_json_module ent_lifecycle_coordinator"
  "id_less ent_lifecycle_coordinator ent_lifecycle_on_request"
  "id_less ent_lifecycle_on_request ent_lifecycle_on_response"
  "id_less ent_lifecycle_on_response ent_lifecycle_on_shutdown"
  "id_less ent_lifecycle_on_shutdown ent_lifecycle_on_startup"
  "id_less ent_lifecycle_on_startup ent_mail_EmailMessage"
  "id_less ent_mail_EmailMessage ent_mail_MailIntegration"
  "id_less ent_mail_MailIntegration ent_mail_MailService"
  "id_less ent_mail_MailService ent_mail_TemplateMessage"
  "id_less ent_mail_TemplateMessage ent_middleware_CORSMiddleware"
  "id_less ent_middleware_CORSMiddleware ent_middleware_CompressionMiddleware"
  "id_less ent_middleware_CompressionMiddleware ent_middleware_ExceptionMiddleware"
  "id_less ent_middleware_ExceptionMiddleware ent_middleware_MiddlewareStack"
  "id_less ent_middleware_MiddlewareStack ent_middleware_RateLimitMiddleware"
  "id_less ent_middleware_RateLimitMiddleware ent_middleware_RequestIdMiddleware"
  "id_less ent_middleware_RequestIdMiddleware ent_middleware_RequestScopeMiddleware"
  "id_less ent_middleware_RequestScopeMiddleware ent_middleware_SessionMiddleware"
  "id_less ent_middleware_SessionMiddleware ent_middleware_StaticMiddleware"
  "id_less ent_middleware_StaticMiddleware ent_middleware_TimeoutMiddleware"
  "id_less ent_middleware_TimeoutMiddleware ent_models_user_model"
  "id_less ent_models_user_model ent_native_extensions"
  by (rule Pure.conjunctionI id_lessI entity_ids | simp)+

lemma less_10:
  "id_less ent_native_extensions ent_orm_atomic"
  "id_less ent_orm_atomic ent_orm_autodetector"
  "id_less ent_orm_autodetector ent_orm_avg"
  "id_less ent_orm_avg ent_orm_count"
  "id_less ent_orm_count ent_orm_cte"
  "id_less ent_orm_cte ent_orm_cte_col"
  "id_less ent_orm_cte_col ent_orm_cte_cte_method"
  "id_less ent_orm_cte_cte_method ent_orm_cte_recursive"
  "id_less ent_orm_cte_recursive ent_orm_cte_with_cte"
  "id_less ent_orm_cte_with_cte ent_orm_f"
  "id_less ent_orm_f ent_orm_manager"
  "id_less ent_orm_manager ent_orm_meta"
  "id_less ent_orm_meta ent_orm_migration_engine"
  "id_less ent_orm_migration_engine ent_orm_migration_graph"
  "id_less ent_orm_migration_graph ent_orm_migration_status"
  "id_less ent_orm_migration_status ent_orm_model"
  "id_less ent_orm_model ent_orm_model_delete_instance"
  "id_less ent_orm_model_delete_instance ent_orm_model_full_clean"
  "id_less ent_orm_model_full_clean ent_orm_model_save"
  "id_less ent_orm_model_save ent_orm_model_to_dict"
  "id_less ent_orm_model_to_dict ent_orm_project_state"
  "id_less ent_orm_project_state ent_orm_q"
  "id_less ent_orm_q ent_orm_queryset"
  "id_less ent_orm_queryset ent_orm_queryset_annotate"
  "id_less ent_orm_queryset_annotate ent_orm_queryset_bulk_create"
  "id_less ent_orm_queryset_bulk_create ent_orm_queryset_delete"
  by (rule Pure.conjunctionI id_lessI entity_ids | simp)+

lemma less_11:
  "id_less ent_orm_queryset_delete ent_orm_queryset_exclude"
  "id_less ent_orm_queryset_exclude ent_orm_queryset_exists"
  "id_less ent_orm_queryset_exists ent_orm_queryset_explain"
  "id_less ent_orm_queryset_explain ent_orm_queryset_filter"
  "id_less ent_orm_queryset_filter ent_orm_queryset_find_or_create"
  "id_less ent_orm_queryset_find_or_create ent_orm_queryset_in_bulk"
  "id_less ent_orm_queryset_in_bulk ent_orm_queryset_iterator"
  "id_less ent_orm_queryset_iterator ent_orm_queryset_none"
  "id_less ent_orm_queryset_none ent_orm_queryset_only"
  "id_less ent_orm_queryset_only ent_orm_queryset_prefetch_related"
  "id_less ent_orm_queryset_prefetch_related ent_orm_queryset_select_for_update"
  "id_less ent_orm_queryset_select_for_update ent_orm_queryset_select_related"
  "id_less ent_orm_queryset_select_related ent_orm_queryset_union"
  "id_less ent_orm_queryset_union ent_orm_queryset_update"
  "id_less ent_orm_queryset_update ent_orm_queryset_values"
  "id_less ent_orm_queryset_values ent_orm_queryset_values_list"
  "id_less ent_orm_queryset_values_list ent_orm_registry"
  "id_less ent_orm_registry ent_orm_signal_post_delete"
  "id_less ent_orm_signal_post_delete ent_orm_signal_post_save"
  "id_less ent_orm_signal_post_save ent_orm_signal_pre_save"
  "id_less ent_orm_signal_pre_save ent_orm_sum"
  "id_less ent_orm_sum ent_orm_window"
  "id_less ent_orm_window ent_orm_window_dense_rank"
  "id_less ent_orm_window_dense_rank ent_orm_window_first_value"
  "id_less ent_orm_window_first_value ent_orm_window_frame"
  "id_less ent_orm_window_frame ent_orm_window_lag"
  by (rule Pure.conjunctionI id_lessI entity_ids | simp)+

lemma less_12:
  "id_less ent_orm_window_lag ent_orm_window_last_value"
  "id_less ent_orm_window_last_value ent_orm_window_lead"
  "id_less ent_orm_window_lead ent_orm_window_nth_value"
  "id_less ent_orm_window_nth_value ent_orm_window_ntile"
  "id_less ent_orm_window_ntile ent_orm_window_rank"
  "id_less ent_orm_window_rank ent_orm_window_row_number"
  "id_less ent_orm_window_row_number ent_provider_RenderClient"
  "id_less ent_provider_RenderClient ent_provider_RenderCredentialStore"
  "id_less ent_provider_RenderCredentialStore ent_provider_RenderDeployConfig"
  "id_less ent_provider_RenderDeployConfig ent_provider_RenderDeployer"
  "id_less ent_provider_RenderDeployer ent_provider_RenderIntegration"
  "id_less ent_provider_RenderIntegration ent_reqres_cookiesigner"
  "id_less ent_reqres_cookiesigner ent_reqres_formdata"
  "id_less ent_reqres_formdata ent_reqres_headers"
  "id_less ent_reqres_headers ent_reqres_multidict"
  "id_less ent_reqres_multidict ent_reqres_request"
  "id_less ent_reqres_request ent_reqres_response"
  "id_less ent_reqres_response ent_reqres_uploadfile"
  "id_less ent_reqres_uploadfile ent_sessions_absolute_timeout_fault"
  "id_less ent_sessions_absolute_timeout_fault ent_sessions_concurrency_fault"
  "id_less ent_sessions_concurrency_fault ent_sessions_context"
  "id_less ent_sessions_context ent_sessions_cookie_transport"
  "id_less ent_sessions_cookie_transport ent_sessions_decorator_ensure"
  "id_less ent_sessions_decorator_ensure ent_sessions_decorator_optional"
  "id_less ent_sessions_decorator_optional ent_sessions_decorator_require"
  "id_less ent_sessions_decorator_require ent_sessions_decorator_stateful"
  by (rule Pure.conjunctionI id_lessI entity_ids | simp)+

lemma less_13:
  "id_less ent_sessions_decorator_stateful ent_sessions_engine"
  "id_less ent_sessions_engine ent_sessions_expired_fault"
  "id_less ent_sessions_expired_fault ent_sessions_fault"
  "id_less ent_sessions_fault ent_sessions_field"
  "id_less ent_sessions_field ent_sessions_file_store"
  "id_less ent_sessions_file_store ent_sessions_flag"
  "id_less ent_sessions_flag ent_sessions_header_transport"
  "id_less ent_sessions_header_transport ent_sessions_hijack_fault"
  "id_less ent_sessions_hijack_fault ent_sessions_idle_timeout_fault"
  "id_less ent_sessions_idle_timeout_fault ent_sessions_memory_store"
  "id_less ent_sessions_memory_store ent_sessions_policy"
  "id_less ent_sessions_policy ent_sessions_policy_builder"
  "id_less ent_sessions_policy_builder ent_sessions_principal"
  "id_less ent_sessions_principal ent_sessions_scope"
  "id_less ent_sessions_scope ent_sessions_session"
  "id_less ent_sessions_session ent_sessions_session_id"
  "id_less ent_sessions_session_id ent_sessions_state"
  "id_less ent_sessions_state ent_sessions_store"
  "id_less ent_sessions_store ent_sessions_transport"
  "id_less ent_sessions_transport ent_signing_RotatingSigner"
  "id_less ent_signing_RotatingSigner ent_signing_Signer"
  "id_less ent_signing_Signer ent_signing_TimestampSigner"
  "id_less ent_signing_TimestampSigner ent_sockets_Connection"
  "id_less ent_sockets_Connection ent_sockets_HandshakeAuthGuard"
  "id_less ent_sockets_HandshakeAuthGuard ent_sockets_InMemoryAdapter"
  "id_less ent_sockets_InMemoryAdapter ent_sockets_MessageEnvelope"
  by (rule Pure.conjunctionI id_lessI entity_ids | simp)+

lemma less_14:
  "id_less ent_sockets_MessageEnvelope ent_sockets_RateLimitGuard"
  "id_less ent_sockets_RateLimitGuard ent_sockets_RedisAdapter"
  "id_less ent_sockets_RedisAdapter ent_sockets_SocketController"
  "id_less ent_sockets_SocketController ent_specula_builder"
  "id_less ent_specula_builder ent_specula_config"
  "id_less ent_specula_config ent_specula_integration"
  "id_less ent_specula_integration ent_specula_service"
  "id_less ent_specula_service ent_sqlite_AsyncConnection"
  "id_less ent_sqlite_AsyncConnection ent_sqlite_ConnectionPool"
  "id_less ent_sqlite_ConnectionPool ent_sqlite_SqlitePoolConfig"
  "id_less ent_sqlite_SqlitePoolConfig ent_sqlite_SqliteService"
  "id_less ent_sqlite_SqliteService ent_sqlite_create_pool"
  "id_less ent_sqlite_create_pool ent_sse_SSEEvent"
  "id_less ent_sse_SSEEvent ent_sse_SSEResponse"
  "id_less ent_sse_SSEResponse ent_sse_SSESerializationFault"
  "id_less ent_sse_SSESerializationFault ent_sse_SSEStreamAbortedFault"
  "id_less ent_sse_SSEStreamAbortedFault ent_storage_LocalConfig"
  "id_less ent_storage_LocalConfig ent_storage_S3Config"
  "id_less ent_storage_S3Config ent_storage_StorageBackend"
  "id_less ent_storage_StorageBackend ent_storage_StorageFile"
  "id_less ent_storage_StorageFile ent_storage_StorageMetadata"
  "id_less ent_storage_StorageMetadata ent_storage_StorageRegistry"
  "id_less ent_storage_StorageRegistry ent_tasks_Job"
  "id_less ent_tasks_Job ent_tasks_MemoryBackend"
  "id_less ent_tasks_MemoryBackend ent_tasks_Priority"
  "id_less ent_tasks_Priority ent_tasks_TaskManager"
  by (rule Pure.conjunctionI id_lessI entity_ids | simp)+

lemma less_15:
  "id_less ent_tasks_TaskManager ent_tasks_cron"
  "id_less ent_tasks_cron ent_tasks_every"
  "id_less ent_tasks_every ent_tasks_task"
  "id_less ent_tasks_task ent_templates_SurpBytecodeCache"
  "id_less ent_templates_SurpBytecodeCache ent_templates_TemplateEngine"
  "id_less ent_templates_TemplateEngine ent_templates_TemplateLoader"
  "id_less ent_templates_TemplateLoader ent_templates_TemplateSandbox"
  "id_less ent_templates_TemplateSandbox ent_testing_aquilia_test_case"
  "id_less ent_testing_aquilia_test_case ent_testing_live_server_test_case"
  "id_less ent_testing_live_server_test_case ent_testing_mock_effect_registry"
  "id_less ent_testing_mock_effect_registry ent_testing_mock_fault_engine"
  "id_less ent_testing_mock_fault_engine ent_testing_mock_provider"
  "id_less ent_testing_mock_provider ent_testing_override_provider"
  "id_less ent_testing_override_provider ent_testing_override_settings"
  "id_less ent_testing_override_settings ent_testing_simple_test_case"
  "id_less ent_testing_simple_test_case ent_testing_spy_provider"
  "id_less ent_testing_spy_provider ent_testing_test_client"
  "id_less ent_testing_test_client ent_testing_transaction_test_case"
  "id_less ent_testing_transaction_test_case ent_testing_websocket_client"
  "id_less ent_testing_websocket_client ent_vectordb_Hit"
  "id_less ent_vectordb_Hit ent_vectordb_VF"
  "id_less ent_vectordb_VF ent_vectordb_VectorField"
  "id_less ent_vectordb_VectorField ent_vectordb_VectorManager"
  "id_less ent_vectordb_VectorManager ent_vectordb_VectorModel"
  "id_less ent_vectordb_VectorModel ent_vectordb_VectorQuery"
  "id_less ent_vectordb_VectorQuery ent_vectordb_integration"
  by (rule Pure.conjunctionI id_lessI entity_ids | simp)+

definition sorted_entities :: "doc_entity list" where
  "sorted_entities = [
     ent_aquilary_AppContext, ent_aquilary_AquilaryRegistry, ent_aquilary_RuntimeRegistry, ent_artifacts_ArtifactEnvelope,
     ent_artifacts_ArtifactRegistry, ent_artifacts_ArtifactStore, ent_artifacts_JSONFileBackend, ent_auth_abac_engine,
     ent_auth_api_key_credential, ent_auth_auth_guard, ent_auth_auth_manager, ent_auth_auth_middleware,
     ent_auth_auth_result, ent_auth_authenticated, ent_auth_authz_engine, ent_auth_identity,
     ent_auth_optional_auth, ent_auth_password_backend, ent_auth_password_credential, ent_auth_permission_engine,
     ent_auth_policy_guard, ent_auth_rbac_engine, ent_auth_role_guard, ent_auth_roles_required,
     ent_auth_scope_guard, ent_auth_scopes_required, ent_auth_token_backend, ent_auth_token_manager,
     ent_bp_cast_fault, ent_bp_computed_decorator, ent_bp_computed_facet, ent_bp_contract,
     ent_bp_facet, ent_bp_generate_schema, ent_bp_imprint, ent_bp_int_facet,
     ent_bp_is_sealed, ent_bp_lens, ent_bp_projection, ent_bp_request_contract,
     ent_bp_response_contract, ent_bp_seal_fault, ent_bp_sigil, ent_bp_spec,
     ent_bp_text_facet, ent_bp_ward, ent_cache_CacheMiddleware, ent_cache_CacheService,
     ent_cache_CompositeBackend, ent_cache_MemoryBackend, ent_cache_RedisBackend, ent_cache_cache_aside,
     ent_cache_cached, ent_cache_invalidate, ent_cli_add_module, ent_cli_admin_audit,
     ent_cli_admin_changepassword, ent_cli_admin_check, ent_cli_admin_createstaff, ent_cli_admin_createsuperuser,
     ent_cli_admin_listusers, ent_cli_admin_setup, ent_cli_admin_status, ent_cli_aq,
     ent_cli_aquilia_run, ent_cli_artifacts_clean, ent_cli_artifacts_status, ent_cli_artifacts_verify,
     ent_cli_compile, ent_cli_db_makemigrations, ent_cli_db_migrate, ent_cli_deploy,
     ent_cli_deploy_render, ent_cli_doctor, ent_cli_dotenv_file, ent_cli_freeze,
     ent_cli_generate_controller, ent_cli_init_workspace, ent_cli_inspect, ent_cli_manifest_update,
     ent_cli_provider_login_render, ent_cli_provider_logout_render, ent_cli_provider_render_env_set, ent_cli_provider_status_render,
     ent_cli_run, ent_cli_serve, ent_cli_test, ent_cli_trace,
     ent_cli_validate, ent_cli_workspace_py, ent_cli_ws_gen_client, ent_config_admin_integration,
     ent_config_admin_modules, ent_config_admin_security, ent_config_appmanifest, ent_config_aquilaconfig,
     ent_config_cache_integration, ent_config_database_integration, ent_config_dotenv, ent_config_env,
     ent_config_integration, ent_config_module, ent_config_secret, ent_config_session_integration,
     ent_config_workspace, ent_controller_attributes, ent_controller_controller, ent_controller_exceptionfilter,
     ent_controller_get, ent_controller_interceptor, ent_controller_post, ent_controller_requestctx,
     ent_controller_throttle, ent_controller_validate_body, ent_controllers_router, ent_db_aquilia_database,
     ent_db_configure_database, ent_db_execute, ent_db_execute_many, ent_db_fetch_all,
     ent_db_fetch_one, ent_db_fetch_val, ent_db_get_columns, ent_db_get_database,
     ent_db_get_tables, ent_db_inline_policy, ent_db_mysql_config, ent_db_oracle_config,
     ent_db_postgres_config, ent_db_savepoint, ent_db_sqlite_config, ent_db_table_exists,
     ent_db_transaction, ent_devplatform_config, ent_devplatform_fault_base, ent_devplatform_fault_configuration,
     ent_devplatform_fault_inspector, ent_devplatform_fault_reload, ent_devplatform_fault_startup, ent_devplatform_fault_worker,
     ent_devplatform_platform, ent_devplatform_report_fault, ent_devplatform_request_record, ent_devplatform_runtime_state_store,
     ent_devplatform_server, ent_devplatform_trace_span, ent_devplatform_ui, ent_devplatform_watcher,
     ent_di_alias_provider, ent_di_ambiguous_provider_error, ent_di_circular_dependency_error, ent_di_class_provider,
     ent_di_cli_di_check, ent_di_cli_di_graph, ent_di_cli_di_manifest, ent_di_cli_di_profile,
     ent_di_cli_di_tree, ent_di_container, ent_di_contract_provider, ent_di_cross_app_dependency_error,
     ent_di_dep, ent_di_dependency_cycle_error, ent_di_factory_provider, ent_di_inject,
     ent_di_lazy_proxy_provider, ent_di_manifest_validation_error, ent_di_missing_dependency_error, ent_di_pool_provider,
     ent_di_provider_not_found_error, ent_di_request_dag, ent_di_scope_violation_error, ent_di_scoped_provider,
     ent_di_scopes, ent_di_service, ent_di_settings, ent_di_value_provider,
     ent_effects_CacheEffect, ent_effects_CacheHandle, ent_effects_CacheProvider, ent_effects_CacheServiceHandle,
     ent_effects_DBTx, ent_effects_DBTxHandle, ent_effects_DBTxProvider, ent_effects_EffectMiddleware,
     ent_effects_EffectProvider, ent_effects_EffectRegistry, ent_effects_EffectScope, ent_effects_FlowContext,
     ent_effects_FlowNode, ent_effects_FlowPipeline, ent_effects_FlowResult, ent_effects_HTTPEffect,
     ent_effects_HTTPHandle, ent_effects_HTTPProvider, ent_effects_Layer, ent_effects_QueueEffect,
     ent_effects_QueueHandle, ent_effects_QueueProvider, ent_effects_StorageEffect, ent_effects_StorageHandle,
     ent_effects_StorageProvider, ent_effects_TaskQueueHandle, ent_effects_TaskQueueProvider, ent_effects_requires,
     ent_faults_Fault, ent_faults_FaultContext, ent_faults_FaultEngine, ent_faults_FaultHandler,
     ent_filesystem_AsyncPath, ent_filesystem_FileSystem, ent_filesystem_FileSystemConfig, ent_filesystem_append_file,
     ent_filesystem_async_open, ent_filesystem_copy_file, ent_filesystem_delete_file, ent_filesystem_file_exists,
     ent_filesystem_file_stat, ent_filesystem_list_dir, ent_filesystem_make_dir, ent_filesystem_move_file,
     ent_filesystem_read_file, ent_filesystem_remove_dir, ent_filesystem_remove_tree, ent_filesystem_write_file,
     ent_http_AsyncHTTPClient, ent_http_HTTPClientConfig, ent_http_HTTPSession, ent_http_MultipartFormData,
     ent_http_RetryConfig, ent_http_TimeoutConfig, ent_http_request_type, ent_i18n_I18nConfig,
     ent_i18n_I18nMiddleware, ent_i18n_I18nService, ent_i18n_Locale, ent_i18n_lazy_t,
     ent_json_JSONDecodeError, ent_json_JSONEncodeError, ent_json_module, ent_lifecycle_coordinator,
     ent_lifecycle_on_request, ent_lifecycle_on_response, ent_lifecycle_on_shutdown, ent_lifecycle_on_startup,
     ent_mail_EmailMessage, ent_mail_MailIntegration, ent_mail_MailService, ent_mail_TemplateMessage,
     ent_middleware_CORSMiddleware, ent_middleware_CompressionMiddleware, ent_middleware_ExceptionMiddleware, ent_middleware_MiddlewareStack,
     ent_middleware_RateLimitMiddleware, ent_middleware_RequestIdMiddleware, ent_middleware_RequestScopeMiddleware, ent_middleware_SessionMiddleware,
     ent_middleware_StaticMiddleware, ent_middleware_TimeoutMiddleware, ent_models_user_model, ent_native_extensions,
     ent_orm_atomic, ent_orm_autodetector, ent_orm_avg, ent_orm_count,
     ent_orm_cte, ent_orm_cte_col, ent_orm_cte_cte_method, ent_orm_cte_recursive,
     ent_orm_cte_with_cte, ent_orm_f, ent_orm_manager, ent_orm_meta,
     ent_orm_migration_engine, ent_orm_migration_graph, ent_orm_migration_status, ent_orm_model,
     ent_orm_model_delete_instance, ent_orm_model_full_clean, ent_orm_model_save, ent_orm_model_to_dict,
     ent_orm_project_state, ent_orm_q, ent_orm_queryset, ent_orm_queryset_annotate,
     ent_orm_queryset_bulk_create, ent_orm_queryset_delete, ent_orm_queryset_exclude, ent_orm_queryset_exists,
     ent_orm_queryset_explain, ent_orm_queryset_filter, ent_orm_queryset_find_or_create, ent_orm_queryset_in_bulk,
     ent_orm_queryset_iterator, ent_orm_queryset_none, ent_orm_queryset_only, ent_orm_queryset_prefetch_related,
     ent_orm_queryset_select_for_update, ent_orm_queryset_select_related, ent_orm_queryset_union, ent_orm_queryset_update,
     ent_orm_queryset_values, ent_orm_queryset_values_list, ent_orm_registry, ent_orm_signal_post_delete,
     ent_orm_signal_post_save, ent_orm_signal_pre_save, ent_orm_sum, ent_orm_window,
     ent_orm_window_dense_rank, ent_orm_window_first_value, ent_orm_window_frame, ent_orm_window_lag,
     ent_orm_window_last_value, ent_orm_window_lead, ent_orm_window_nth_value, ent_orm_window_ntile,
     ent_orm_window_rank, ent_orm_window_row_number, ent_provider_RenderClient, ent_provider_RenderCredentialStore,
     ent_provider_RenderDeployConfig, ent_provider_RenderDeployer, ent_provider_RenderIntegration, ent_reqres_cookiesigner,
     ent_reqres_formdata, ent_reqres_headers, ent_reqres_multidict, ent_reqres_request,
     ent_reqres_response, ent_reqres_uploadfile, ent_sessions_absolute_timeout_fault, ent_sessions_concurrency_fault,
     ent_sessions_context, ent_sessions_cookie_transport, ent_sessions_decorator_ensure, ent_sessions_decorator_optional,
     ent_sessions_decorator_require, ent_sessions_decorator_stateful, ent_sessions_engine, ent_sessions_expired_fault,
     ent_sessions_fault, ent_sessions_field, ent_sessions_file_store, ent_sessions_flag,
     ent_sessions_header_transport, ent_sessions_hijack_fault, ent_sessions_idle_timeout_fault, ent_sessions_memory_store,
     ent_sessions_policy, ent_sessions_policy_builder, ent_sessions_principal, ent_sessions_scope,
     ent_sessions_session, ent_sessions_session_id, ent_sessions_state, ent_sessions_store,
     ent_sessions_transport, ent_signing_RotatingSigner, ent_signing_Signer, ent_signing_TimestampSigner,
     ent_sockets_Connection, ent_sockets_HandshakeAuthGuard, ent_sockets_InMemoryAdapter, ent_sockets_MessageEnvelope,
     ent_sockets_RateLimitGuard, ent_sockets_RedisAdapter, ent_sockets_SocketController, ent_specula_builder,
     ent_specula_config, ent_specula_integration, ent_specula_service, ent_sqlite_AsyncConnection,
     ent_sqlite_ConnectionPool, ent_sqlite_SqlitePoolConfig, ent_sqlite_SqliteService, ent_sqlite_create_pool,
     ent_sse_SSEEvent, ent_sse_SSEResponse, ent_sse_SSESerializationFault, ent_sse_SSEStreamAbortedFault,
     ent_storage_LocalConfig, ent_storage_S3Config, ent_storage_StorageBackend, ent_storage_StorageFile,
     ent_storage_StorageMetadata, ent_storage_StorageRegistry, ent_tasks_Job, ent_tasks_MemoryBackend,
     ent_tasks_Priority, ent_tasks_TaskManager, ent_tasks_cron, ent_tasks_every,
     ent_tasks_task, ent_templates_SurpBytecodeCache, ent_templates_TemplateEngine, ent_templates_TemplateLoader,
     ent_templates_TemplateSandbox, ent_testing_aquilia_test_case, ent_testing_live_server_test_case, ent_testing_mock_effect_registry,
     ent_testing_mock_fault_engine, ent_testing_mock_provider, ent_testing_override_provider, ent_testing_override_settings,
     ent_testing_simple_test_case, ent_testing_spy_provider, ent_testing_test_client, ent_testing_transaction_test_case,
     ent_testing_websocket_client, ent_vectordb_Hit, ent_vectordb_VF, ent_vectordb_VectorField,
     ent_vectordb_VectorManager, ent_vectordb_VectorModel, ent_vectordb_VectorQuery, ent_vectordb_integration]"

lemma sorted_ids_distinct: "distinct (map de_id sorted_entities)"
  unfolding sorted_entities_def by (rule ascending_distinct) (simp only: ascending.simps simp_thms less_0 less_1 less_2 less_3 less_4 less_5 less_6 less_7 less_8 less_9 less_10 less_11 less_12 less_13 less_14 less_15)

subsection \<open>What an id resolves to\<close>

definition all_entities :: "doc_entity list" where
  "all_entities = concat entity_modules"

lemma lookup_modules:
  assumes "i \<noteq> []"
  shows "getDocEntity (fold (\<lambda>es. registerDocEntities (ManyEntities (map Some es))) ess st) i =
    (case find (\<lambda>e. de_id e = i) (rev (concat ess)) of Some e \<Rightarrow> Some e | None \<Rightarrow> getDocEntity st i)"
proof (induction ess arbitrary: st)
  case (Cons es ess)
  have r: "registered (map Some es) = filter (\<lambda>e. de_id e \<noteq> []) es" by (simp add: registered_def comp_def)
  have f: "find (\<lambda>e. de_id e = i) (filter (\<lambda>e. de_id e \<noteq> []) xs) = find (\<lambda>e. de_id e = i) xs" for xs
    using assms by (induction xs) auto
  have a: "find P (xs @ ys) = (case find P xs of Some x \<Rightarrow> Some x | None \<Rightarrow> find P ys)" for P :: "doc_entity \<Rightarrow> bool" and xs ys
    by (induction xs) auto
  show ?case
    using Cons.IH [of "registerDocEntities (ManyEntities (map Some es)) st"]
    by (simp add: register_lookup arg_list_def r rev_filter f a split: option.splits)
qed simp

lemma site_lookup: "i \<noteq> [] \<Longrightarrow> getDocEntity site_registry i = find (\<lambda>e. de_id e = i) (rev all_entities)"
  unfolding site_registry_def lookup_modules all_entities_def
  by (simp add: getDocEntity_def empty_registry_def split: option.splits)

text \<open>A list of entities, each marked with the later one that takes over its id, if there is one.\<close>

fun in_force :: "(doc_entity option \<times> doc_entity) list \<Rightarrow> doc_entity list" where
  "in_force [] = []"
| "in_force ((None, e) # r) = e # in_force r"
| "in_force ((Some b, e) # r) = in_force r"

fun taken_over :: "(doc_entity option \<times> doc_entity) list \<Rightarrow> bool" where
  "taken_over [] = True"
| "taken_over ((None, e) # r) = taken_over r"
| "taken_over ((Some b, e) # r) = (de_id e = de_id b \<and> b \<in> set (in_force r) \<and> taken_over r)"

lemma taken_over_id: "taken_over r \<Longrightarrow> e \<in> set (map snd r) \<Longrightarrow> de_id e \<in> de_id ` set (in_force r)"
  by (induction r rule: taken_over.induct) auto

lemma last_in_force:
  assumes "taken_over r" "distinct (map de_id (in_force r))" "e \<in> set (in_force r)"
  shows "find (\<lambda>x. de_id x = de_id e) (rev (map snd r)) = Some e"
proof -
  have a: "find P (xs @ ys) = (case find P xs of Some x \<Rightarrow> Some x | None \<Rightarrow> find P ys)" for P :: "doc_entity \<Rightarrow> bool" and xs ys
    by (induction xs) auto
  show ?thesis using assms
  proof (induction r rule: in_force.induct)
    case (2 x r)
    show ?case
    proof (cases "e \<in> set (in_force r)")
      case True
      then show ?thesis using 2 by (simp add: a)
    next
      case False
      then have "e = x" using 2(4) by simp
      moreover have "de_id x \<notin> de_id ` set (in_force r)" using 2(3) by auto
      then have "find (\<lambda>y. de_id y = de_id x) (rev (map snd r)) = None"
        using taken_over_id [of r] 2(2) by (auto simp: find_None_iff) (metis image_eqI set_map snd_conv)
      ultimately show ?thesis by (simp add: a)
    qed
  qed (auto simp: a)
qed

definition marked_entities :: "(doc_entity option \<times> doc_entity) list" where
  "marked_entities = [
     (None, ent_lifecycle_on_startup), (None, ent_lifecycle_on_shutdown), (None, ent_lifecycle_coordinator),
     (None, ent_lifecycle_on_request), (None, ent_lifecycle_on_response), (None, ent_controllers_router),
     (Some ent_di_inject, ent_di_inject_first), (None, ent_models_user_model), (None, ent_cli_aquilia_run),
     (None, ent_cli_aq), (Some ent_cli_init_workspace, ent_cli_init_workspace_first), (Some ent_cli_add_module, ent_cli_add_module_first),
     (None, ent_cli_inspect), (None, ent_cli_trace), (Some ent_cli_serve, ent_cli_serve_first),
     (Some ent_cli_compile, ent_cli_compile_first), (Some ent_cli_freeze, ent_cli_freeze_first), (Some ent_cli_validate, ent_cli_validate_first),
     (Some ent_cli_db_makemigrations, ent_cli_db_makemigrations_first), (Some ent_cli_db_migrate, ent_cli_db_migrate_first), (None, ent_cli_deploy),
     (None, ent_cli_workspace_py), (None, ent_cli_dotenv_file), (None, ent_http_request_type),
     (Some ent_config_env, ent_config_env_first), (Some ent_config_secret, ent_config_secret_first), (Some ent_config_workspace, ent_config_workspace_first),
     (Some ent_config_module, ent_config_module_first), (None, ent_config_integration), (None, ent_cli_admin_setup),
     (None, ent_cli_admin_check), (None, ent_cli_admin_createsuperuser), (None, ent_cli_admin_createstaff),
     (None, ent_cli_admin_listusers), (None, ent_cli_admin_changepassword), (None, ent_cli_admin_status),
     (None, ent_cli_admin_audit), (None, ent_config_admin_integration), (None, ent_config_admin_modules),
     (None, ent_config_admin_security), (None, ent_config_workspace), (None, ent_config_module),
     (None, ent_config_appmanifest), (None, ent_config_aquilaconfig), (None, ent_config_env),
     (None, ent_config_secret), (None, ent_config_dotenv), (None, ent_config_database_integration),
     (None, ent_config_session_integration), (None, ent_config_cache_integration), (None, ent_reqres_request),
     (None, ent_reqres_response), (None, ent_reqres_multidict), (None, ent_reqres_headers),
     (None, ent_reqres_cookiesigner), (None, ent_reqres_uploadfile), (None, ent_reqres_formdata),
     (None, ent_controller_controller), (None, ent_controller_requestctx), (None, ent_controller_exceptionfilter),
     (None, ent_controller_interceptor), (None, ent_controller_throttle), (None, ent_controller_validate_body),
     (None, ent_controller_get), (None, ent_controller_post), (None, ent_controller_attributes),
     (None, ent_orm_model), (None, ent_orm_model_save), (None, ent_orm_model_delete_instance),
     (None, ent_orm_model_full_clean), (None, ent_orm_model_to_dict), (None, ent_orm_manager),
     (None, ent_orm_queryset), (None, ent_orm_queryset_filter), (None, ent_orm_queryset_exclude),
     (None, ent_orm_queryset_select_related), (None, ent_orm_queryset_prefetch_related), (None, ent_orm_queryset_annotate),
     (None, ent_orm_q), (None, ent_orm_f), (None, ent_orm_atomic),
     (None, ent_orm_signal_pre_save), (None, ent_orm_signal_post_save), (None, ent_orm_signal_post_delete),
     (None, ent_orm_meta), (None, ent_orm_migration_engine), (None, ent_orm_project_state),
     (None, ent_orm_migration_graph), (None, ent_orm_migration_status), (None, ent_orm_autodetector),
     (None, ent_orm_count), (None, ent_orm_sum), (None, ent_orm_avg),
     (None, ent_orm_registry), (None, ent_orm_queryset_values), (None, ent_orm_queryset_values_list),
     (None, ent_orm_queryset_exists), (None, ent_orm_queryset_delete), (None, ent_orm_queryset_update),
     (None, ent_orm_queryset_none), (None, ent_db_aquilia_database), (None, ent_db_execute),
     (None, ent_db_fetch_all), (None, ent_db_fetch_one), (None, ent_db_fetch_val),
     (None, ent_db_execute_many), (None, ent_db_transaction), (None, ent_db_savepoint),
     (None, ent_db_table_exists), (None, ent_db_get_tables), (None, ent_db_get_columns),
     (None, ent_db_configure_database), (None, ent_db_get_database), (None, ent_db_sqlite_config),
     (None, ent_db_postgres_config), (None, ent_db_mysql_config), (None, ent_db_oracle_config),
     (None, ent_db_inline_policy), (None, ent_bp_contract), (None, ent_bp_spec),
     (None, ent_bp_facet), (None, ent_bp_text_facet), (None, ent_bp_int_facet),
     (None, ent_bp_computed_facet), (None, ent_bp_computed_decorator), (None, ent_bp_lens),
     (None, ent_bp_ward), (None, ent_bp_is_sealed), (None, ent_bp_imprint),
     (None, ent_bp_projection), (None, ent_bp_request_contract), (None, ent_bp_response_contract),
     (None, ent_bp_seal_fault), (None, ent_bp_cast_fault), (None, ent_bp_generate_schema),
     (None, ent_bp_sigil), (None, ent_di_container), (None, ent_di_class_provider),
     (None, ent_di_factory_provider), (None, ent_di_value_provider), (None, ent_di_pool_provider),
     (None, ent_di_alias_provider), (None, ent_di_lazy_proxy_provider), (None, ent_di_scoped_provider),
     (None, ent_di_contract_provider), (None, ent_di_inject), (None, ent_di_dep),
     (None, ent_di_request_dag), (None, ent_di_service), (None, ent_di_scopes),
     (None, ent_di_provider_not_found_error), (None, ent_di_dependency_cycle_error), (None, ent_di_scope_violation_error),
     (None, ent_di_ambiguous_provider_error), (None, ent_di_manifest_validation_error), (None, ent_di_cross_app_dependency_error),
     (None, ent_di_circular_dependency_error), (None, ent_di_missing_dependency_error), (None, ent_di_cli_di_check),
     (None, ent_di_cli_di_tree), (None, ent_di_cli_di_graph), (None, ent_di_cli_di_profile),
     (None, ent_di_cli_di_manifest), (None, ent_di_settings), (None, ent_auth_identity),
     (None, ent_auth_auth_result), (None, ent_auth_authenticated), (None, ent_auth_roles_required),
     (None, ent_auth_scopes_required), (None, ent_auth_optional_auth), (None, ent_auth_authz_engine),
     (None, ent_auth_permission_engine), (None, ent_auth_auth_manager), (None, ent_auth_auth_middleware),
     (None, ent_auth_token_manager), (None, ent_auth_password_credential), (None, ent_auth_api_key_credential),
     (None, ent_auth_auth_guard), (None, ent_auth_role_guard), (None, ent_auth_scope_guard),
     (None, ent_auth_policy_guard), (None, ent_auth_rbac_engine), (None, ent_auth_abac_engine),
     (None, ent_auth_password_backend), (None, ent_auth_token_backend), (None, ent_sessions_session_id),
     (None, ent_sessions_session), (None, ent_sessions_principal), (None, ent_sessions_scope),
     (None, ent_sessions_flag), (None, ent_sessions_policy), (None, ent_sessions_policy_builder),
     (None, ent_sessions_engine), (None, ent_sessions_store), (None, ent_sessions_memory_store),
     (None, ent_sessions_file_store), (None, ent_sessions_transport), (None, ent_sessions_cookie_transport),
     (None, ent_sessions_header_transport), (None, ent_sessions_decorator_require), (None, ent_sessions_decorator_ensure),
     (None, ent_sessions_decorator_optional), (None, ent_sessions_decorator_stateful), (None, ent_sessions_context),
     (None, ent_sessions_state), (None, ent_sessions_field), (None, ent_sessions_fault),
     (None, ent_sessions_expired_fault), (None, ent_sessions_idle_timeout_fault), (None, ent_sessions_absolute_timeout_fault),
     (None, ent_sessions_concurrency_fault), (None, ent_sessions_hijack_fault), (None, ent_tasks_task),
     (None, ent_tasks_Priority), (None, ent_tasks_TaskManager), (None, ent_tasks_MemoryBackend),
     (None, ent_tasks_Job), (None, ent_tasks_every), (None, ent_tasks_cron),
     (None, ent_storage_StorageBackend), (None, ent_storage_StorageFile), (None, ent_storage_StorageRegistry),
     (None, ent_storage_LocalConfig), (None, ent_storage_S3Config), (None, ent_storage_StorageMetadata),
     (None, ent_sqlite_create_pool), (None, ent_sqlite_ConnectionPool), (None, ent_sqlite_AsyncConnection),
     (None, ent_sqlite_SqlitePoolConfig), (None, ent_sqlite_SqliteService), (None, ent_filesystem_FileSystem),
     (None, ent_filesystem_AsyncPath), (None, ent_filesystem_FileSystemConfig), (None, ent_filesystem_async_open),
     (None, ent_filesystem_read_file), (None, ent_filesystem_write_file), (None, ent_filesystem_append_file),
     (None, ent_filesystem_copy_file), (None, ent_filesystem_move_file), (None, ent_filesystem_delete_file),
     (None, ent_filesystem_file_exists), (None, ent_filesystem_file_stat), (None, ent_filesystem_list_dir),
     (None, ent_filesystem_make_dir), (None, ent_filesystem_remove_dir), (None, ent_filesystem_remove_tree),
     (None, ent_artifacts_ArtifactStore), (None, ent_artifacts_ArtifactEnvelope), (None, ent_artifacts_JSONFileBackend),
     (None, ent_artifacts_ArtifactRegistry), (None, ent_native_extensions), (None, ent_cli_init_workspace),
     (None, ent_cli_add_module), (None, ent_cli_generate_controller), (None, ent_cli_validate),
     (None, ent_cli_compile), (None, ent_cli_run), (None, ent_cli_serve),
     (None, ent_cli_freeze), (None, ent_cli_manifest_update), (None, ent_cli_doctor),
     (None, ent_cli_db_makemigrations), (None, ent_cli_db_migrate), (None, ent_cli_ws_gen_client),
     (None, ent_cli_test), (None, ent_cli_artifacts_status), (None, ent_cli_artifacts_verify),
     (None, ent_cli_artifacts_clean), (None, ent_testing_test_client), (None, ent_testing_websocket_client),
     (None, ent_testing_simple_test_case), (None, ent_testing_aquilia_test_case), (None, ent_testing_transaction_test_case),
     (None, ent_testing_live_server_test_case), (None, ent_testing_override_settings), (None, ent_testing_mock_fault_engine),
     (None, ent_testing_mock_effect_registry), (None, ent_testing_mock_provider), (None, ent_testing_spy_provider),
     (None, ent_testing_override_provider), (None, ent_specula_config), (None, ent_specula_integration),
     (None, ent_specula_builder), (None, ent_specula_service), (None, ent_middleware_MiddlewareStack),
     (None, ent_middleware_RequestIdMiddleware), (None, ent_middleware_ExceptionMiddleware), (None, ent_middleware_TimeoutMiddleware),
     (None, ent_middleware_CompressionMiddleware), (None, ent_middleware_CORSMiddleware), (None, ent_middleware_RateLimitMiddleware),
     (None, ent_middleware_StaticMiddleware), (None, ent_middleware_SessionMiddleware), (None, ent_middleware_RequestScopeMiddleware),
     (None, ent_aquilary_AquilaryRegistry), (None, ent_aquilary_AppContext), (None, ent_aquilary_RuntimeRegistry),
     (None, ent_effects_EffectRegistry), (None, ent_effects_EffectProvider), (None, ent_effects_Layer),
     (None, ent_effects_DBTxHandle), (None, ent_effects_requires), (None, ent_effects_DBTx),
     (None, ent_effects_CacheEffect), (None, ent_effects_QueueEffect), (None, ent_effects_HTTPEffect),
     (None, ent_effects_StorageEffect), (None, ent_effects_CacheServiceHandle), (None, ent_effects_CacheHandle),
     (None, ent_effects_QueueHandle), (None, ent_effects_TaskQueueHandle), (None, ent_effects_HTTPHandle),
     (None, ent_effects_StorageHandle), (None, ent_effects_FlowPipeline), (Some ent_effects_FlowContext, ent_effects_FlowContext_first),
     (None, ent_effects_FlowNode), (None, ent_effects_FlowResult), (None, ent_effects_EffectScope),
     (None, ent_effects_DBTxProvider), (None, ent_effects_CacheProvider), (None, ent_effects_QueueProvider),
     (None, ent_effects_TaskQueueProvider), (None, ent_effects_HTTPProvider), (None, ent_effects_StorageProvider),
     (None, ent_effects_FlowContext), (None, ent_effects_EffectMiddleware), (None, ent_faults_Fault),
     (None, ent_faults_FaultContext), (None, ent_faults_FaultEngine), (None, ent_faults_FaultHandler),
     (None, ent_sse_SSEResponse), (None, ent_sse_SSEEvent), (None, ent_sse_SSEStreamAbortedFault),
     (None, ent_sse_SSESerializationFault), (None, ent_signing_Signer), (None, ent_signing_TimestampSigner),
     (None, ent_signing_RotatingSigner), (None, ent_json_module), (None, ent_json_JSONDecodeError),
     (None, ent_json_JSONEncodeError), (None, ent_cache_CacheService), (None, ent_cache_cached),
     (None, ent_cache_cache_aside), (None, ent_cache_invalidate), (None, ent_cache_MemoryBackend),
     (None, ent_cache_RedisBackend), (None, ent_cache_CompositeBackend), (None, ent_cache_CacheMiddleware),
     (None, ent_http_AsyncHTTPClient), (None, ent_http_HTTPSession), (None, ent_http_HTTPClientConfig),
     (None, ent_http_TimeoutConfig), (None, ent_http_RetryConfig), (None, ent_http_MultipartFormData),
     (None, ent_i18n_I18nService), (None, ent_i18n_Locale), (None, ent_i18n_I18nConfig),
     (None, ent_i18n_I18nMiddleware), (None, ent_i18n_lazy_t), (None, ent_sockets_SocketController),
     (None, ent_sockets_Connection), (None, ent_sockets_MessageEnvelope), (None, ent_sockets_InMemoryAdapter),
     (None, ent_sockets_RedisAdapter), (None, ent_sockets_HandshakeAuthGuard), (None, ent_sockets_RateLimitGuard),
     (None, ent_templates_TemplateEngine), (None, ent_templates_TemplateLoader), (None, ent_templates_SurpBytecodeCache),
     (None, ent_templates_TemplateSandbox), (None, ent_mail_MailService), (None, ent_mail_EmailMessage),
     (None, ent_mail_TemplateMessage), (None, ent_mail_MailIntegration), (None, ent_provider_RenderIntegration),
     (None, ent_provider_RenderClient), (None, ent_provider_RenderDeployer), (None, ent_provider_RenderCredentialStore),
     (None, ent_provider_RenderDeployConfig), (None, ent_cli_deploy_render), (None, ent_cli_provider_login_render),
     (None, ent_cli_provider_status_render), (None, ent_cli_provider_logout_render), (None, ent_cli_provider_render_env_set),
     (None, ent_orm_window), (None, ent_orm_window_rank), (None, ent_orm_window_dense_rank),
     (None, ent_orm_window_row_number), (None, ent_orm_window_ntile), (None, ent_orm_window_lag),
     (None, ent_orm_window_lead), (None, ent_orm_window_first_value), (None, ent_orm_window_last_value),
     (None, ent_orm_window_nth_value), (None, ent_orm_window_frame), (None, ent_orm_cte),
     (None, ent_orm_cte_with_cte), (None, ent_orm_cte_cte_method), (None, ent_orm_cte_recursive),
     (None, ent_orm_cte_col), (None, ent_orm_queryset_in_bulk), (None, ent_orm_queryset_find_or_create),
     (None, ent_orm_queryset_bulk_create), (None, ent_orm_queryset_iterator), (None, ent_orm_queryset_select_for_update),
     (None, ent_orm_queryset_explain), (None, ent_orm_queryset_union), (None, ent_orm_queryset_only),
     (None, ent_vectordb_VectorModel), (None, ent_vectordb_VectorField), (None, ent_vectordb_VectorManager),
     (None, ent_vectordb_VectorQuery), (None, ent_vectordb_VF), (None, ent_vectordb_Hit),
     (None, ent_vectordb_integration), (None, ent_devplatform_config), (None, ent_devplatform_server),
     (None, ent_devplatform_platform), (None, ent_devplatform_runtime_state_store), (None, ent_devplatform_request_record),
     (None, ent_devplatform_trace_span), (None, ent_devplatform_fault_base), (None, ent_devplatform_fault_startup),
     (None, ent_devplatform_fault_reload), (None, ent_devplatform_fault_inspector), (None, ent_devplatform_fault_worker),
     (None, ent_devplatform_fault_configuration), (None, ent_devplatform_report_fault), (None, ent_devplatform_watcher),
     (None, ent_devplatform_ui)]"

lemmas module_defs = entities_serverLifecycle_def entities_showcase_def entities_adminPanel_def entities_configEntities_def entities_requestResponse_def entities_controllers_def entities_ormEntities_def entities_dbEntities_def entities_contractEntities_def entities_diEntities_def entities_authEntities_def entities_sessionsEntities_def entities_subsystemEntities_def entities_cliEntities_def entities_testingEntities_def entities_speculaEntities_def entities_aquiliaEntities_def entities_cacheHttpI18n_def entities_websocketsTemplatesMail_def entities_providers_def entities_ormAdvancedEntities_def entities_vectordbEntities_def entities_devPlatform_def

lemma marked_all: "map snd marked_entities = all_entities"
  unfolding marked_entities_def all_entities_def entity_modules_def module_defs
  by (simp only: list.map snd_conv concat.simps append.simps)

lemma sorted_in_force: "set sorted_entities \<subseteq> set (in_force marked_entities)"
  unfolding marked_entities_def sorted_entities_def
  by (simp only: in_force.simps list.set insert_subset insert_iff simp_thms empty_subsetI)

lemma taken_over_length: "length (in_force marked_entities) = length sorted_entities"
  unfolding marked_entities_def sorted_entities_def by (simp only: in_force.simps list.size)

lemma marked_taken_over: "taken_over marked_entities"
  unfolding marked_entities_def
  by (simp only: taken_over.simps in_force.simps list.set insert_iff simp_thms entity_ids)

lemma in_force_distinct: "distinct (map de_id (in_force marked_entities))"
proof -
  let ?s = "sorted_entities" and ?f = "in_force marked_entities"
  have "length ?f = card (de_id ` set ?s)"
    using distinct_card [OF sorted_ids_distinct] taken_over_length by simp
  also have "\<dots> \<le> card (de_id ` set ?f)"
    by (intro card_mono image_mono sorted_in_force) simp
  finally have "length (map de_id ?f) \<le> card (set (map de_id ?f))" by simp
  then show ?thesis by (metis card_distinct card_length le_antisym)
qed

lemma js_nonempty: "js (c # s) \<noteq> []"
  by (simp add: js_def)

lemma ids_nonempty: "list_all (\<lambda>e. de_id e \<noteq> []) all_entities"
  unfolding all_entities_def entity_modules_def module_defs
  by (simp only: concat.simps append.simps list.pred_inject entity_ids js_nonempty simp_thms)

lemma found_again:
  assumes "(w, e) \<in> set marked_entities"
  shows "getDocEntity site_registry (de_id e) = Some (case w of None \<Rightarrow> e | Some b \<Rightarrow> b)"
proof -
  have w: "de_id e = de_id b \<and> b \<in> set (in_force r)" if "taken_over r" "(Some b, e) \<in> set r" for b e r
    using that by (induction r rule: taken_over.induct) auto
  have n: "e \<in> set (in_force r)" if "(None, e) \<in> set r" for e r
    using that by (induction r rule: in_force.induct) auto
  define b where "b = (case w of None \<Rightarrow> e | Some b \<Rightarrow> b)"
  have b: "de_id e = de_id b" "b \<in> set (in_force marked_entities)"
    using w [OF marked_taken_over, of _ e] n [of e] assms by (auto simp: b_def split: option.splits)
  have "e \<in> set all_entities" unfolding marked_all [symmetric] using assms by force
  then have "de_id e \<noteq> []" using ids_nonempty by (auto simp: list_all_iff)
  then show ?thesis
    using last_in_force [OF marked_taken_over in_force_distinct b(2)] b(1)
    by (simp add: site_lookup marked_all b_def)
qed

lemma overridden_differ:
  "ent_di_inject \<noteq> ent_di_inject_first"
  "ent_cli_init_workspace \<noteq> ent_cli_init_workspace_first"
  "ent_cli_add_module \<noteq> ent_cli_add_module_first"
  "ent_cli_serve \<noteq> ent_cli_serve_first"
  "ent_cli_compile \<noteq> ent_cli_compile_first"
  "ent_cli_freeze \<noteq> ent_cli_freeze_first"
  "ent_cli_validate \<noteq> ent_cli_validate_first"
  "ent_cli_db_makemigrations \<noteq> ent_cli_db_makemigrations_first"
  "ent_cli_db_migrate \<noteq> ent_cli_db_migrate_first"
  "ent_config_env \<noteq> ent_config_env_first"
  "ent_config_secret \<noteq> ent_config_secret_first"
  "ent_config_workspace \<noteq> ent_config_workspace_first"
  "ent_config_module \<noteq> ent_config_module_first"
  "ent_effects_FlowContext \<noteq> ent_effects_FlowContext_first"
proof -
  have d0: "de_type ent_di_inject \<noteq> de_type ent_di_inject_first" by (simp only: ent_di_inject_def ent_di_inject_first_def doc_entity.select_convs) (simp)
  have d1: "de_docsHref ent_cli_init_workspace \<noteq> de_docsHref ent_cli_init_workspace_first" by (simp only: ent_cli_init_workspace_def ent_cli_init_workspace_first_def doc_entity.select_convs) (simp add: js_inj)
  have d2: "de_docsHref ent_cli_add_module \<noteq> de_docsHref ent_cli_add_module_first" by (simp only: ent_cli_add_module_def ent_cli_add_module_first_def doc_entity.select_convs) (simp add: js_inj)
  have d3: "de_docsHref ent_cli_serve \<noteq> de_docsHref ent_cli_serve_first" by (simp only: ent_cli_serve_def ent_cli_serve_first_def doc_entity.select_convs) (simp add: js_inj)
  have d4: "de_docsHref ent_cli_compile \<noteq> de_docsHref ent_cli_compile_first" by (simp only: ent_cli_compile_def ent_cli_compile_first_def doc_entity.select_convs) (simp add: js_inj)
  have d5: "de_docsHref ent_cli_freeze \<noteq> de_docsHref ent_cli_freeze_first" by (simp only: ent_cli_freeze_def ent_cli_freeze_first_def doc_entity.select_convs) (simp add: js_inj)
  have d6: "de_docsHref ent_cli_validate \<noteq> de_docsHref ent_cli_validate_first" by (simp only: ent_cli_validate_def ent_cli_validate_first_def doc_entity.select_convs) (simp add: js_inj)
  have d7: "de_docsHref ent_cli_db_makemigrations \<noteq> de_docsHref ent_cli_db_makemigrations_first" by (simp only: ent_cli_db_makemigrations_def ent_cli_db_makemigrations_first_def doc_entity.select_convs) (simp add: js_inj)
  have d8: "de_docsHref ent_cli_db_migrate \<noteq> de_docsHref ent_cli_db_migrate_first" by (simp only: ent_cli_db_migrate_def ent_cli_db_migrate_first_def doc_entity.select_convs) (simp add: js_inj)
  have d9: "de_type ent_config_env \<noteq> de_type ent_config_env_first" by (simp only: ent_config_env_def ent_config_env_first_def doc_entity.select_convs) (simp)
  have d10: "de_type ent_config_secret \<noteq> de_type ent_config_secret_first" by (simp only: ent_config_secret_def ent_config_secret_first_def doc_entity.select_convs) (simp)
  have d11: "de_type ent_config_workspace \<noteq> de_type ent_config_workspace_first" by (simp only: ent_config_workspace_def ent_config_workspace_first_def doc_entity.select_convs) (simp)
  have d12: "de_type ent_config_module \<noteq> de_type ent_config_module_first" by (simp only: ent_config_module_def ent_config_module_first_def doc_entity.select_convs) (simp)
  have d13: "de_docsHref ent_effects_FlowContext \<noteq> de_docsHref ent_effects_FlowContext_first" by (simp only: ent_effects_FlowContext_def ent_effects_FlowContext_first_def doc_entity.select_convs) (simp add: js_inj)
  show "ent_di_inject \<noteq> ent_di_inject_first" using d0 by metis
  show "ent_cli_init_workspace \<noteq> ent_cli_init_workspace_first" using d1 by metis
  show "ent_cli_add_module \<noteq> ent_cli_add_module_first" using d2 by metis
  show "ent_cli_serve \<noteq> ent_cli_serve_first" using d3 by metis
  show "ent_cli_compile \<noteq> ent_cli_compile_first" using d4 by metis
  show "ent_cli_freeze \<noteq> ent_cli_freeze_first" using d5 by metis
  show "ent_cli_validate \<noteq> ent_cli_validate_first" using d6 by metis
  show "ent_cli_db_makemigrations \<noteq> ent_cli_db_makemigrations_first" using d7 by metis
  show "ent_cli_db_migrate \<noteq> ent_cli_db_migrate_first" using d8 by metis
  show "ent_config_env \<noteq> ent_config_env_first" using d9 by metis
  show "ent_config_secret \<noteq> ent_config_secret_first" using d10 by metis
  show "ent_config_workspace \<noteq> ent_config_workspace_first" using d11 by metis
  show "ent_config_module \<noteq> ent_config_module_first" using d12 by metis
  show "ent_effects_FlowContext \<noteq> ent_effects_FlowContext_first" using d13 by metis
qed

text \<open>C32: What the ids of the entities resolve to once the site has registered them all: every entity is
  found under its id, except fourteen whose id is registered again by a later object of different
  content, thirteen of them the short forms of the showcase; for these the later one is found and the
  first is never shown.\<close>

theorem site_registry_resolves:
  "map snd marked_entities = concat entity_modules \<and>
   list_all (\<lambda>(w, e). getDocEntity site_registry (de_id e) = Some (case w of None \<Rightarrow> e | Some b \<Rightarrow> b)) marked_entities \<and>
   list_all (\<lambda>(w, e). w \<noteq> Some e) marked_entities \<and>
   length marked_entities = 430 \<and> length (in_force marked_entities) = 416"
proof (intro conjI)
  show "map snd marked_entities = concat entity_modules" using marked_all by (simp add: all_entities_def)
  show "list_all (\<lambda>(w, e). getDocEntity site_registry (de_id e) = Some (case w of None \<Rightarrow> e | Some b \<Rightarrow> b)) marked_entities"
    unfolding list_all_iff using found_again by fast
  show "list_all (\<lambda>(w, e). w \<noteq> Some e) marked_entities"
    unfolding marked_entities_def by (simp only: list.pred_inject prod.case option.simps overridden_differ simp_thms)
  show "length marked_entities = 430" "length (in_force marked_entities) = 416"
    unfolding marked_entities_def by (simp_all only: in_force.simps list.size)
qed

subsection \<open>Related entities\<close>

definition related_ids :: "doc_entity \<Rightarrow> jstr list" where
  "related_ids e = (case de_related e of None \<Rightarrow> [] | Some rs \<Rightarrow> List.map_filter rel_id rs)"

lemma related_serverLifecycle:
  "concat (map related_ids entities_serverLifecycle) = map de_id [ent_lifecycle_on_shutdown, ent_lifecycle_coordinator, ent_lifecycle_on_startup, ent_lifecycle_coordinator, ent_lifecycle_on_startup, ent_lifecycle_on_shutdown, ent_lifecycle_on_response, ent_lifecycle_on_request]"
  by (simp only: entities_serverLifecycle_def ent_lifecycle_on_startup_def ent_lifecycle_on_shutdown_def ent_lifecycle_coordinator_def ent_lifecycle_on_request_def ent_lifecycle_on_response_def list.map concat.simps append.simps related_ids_def doc_entity.select_convs
      option.case map_filter_simps entity_related.select_convs entity_ids)

lemma related_showcase:
  "concat (map related_ids entities_showcase) = []"
  by (simp only: entities_showcase_def ent_controllers_router_def ent_di_inject_first_def ent_models_user_model_def ent_cli_aquilia_run_def ent_cli_aq_def ent_cli_init_workspace_first_def ent_cli_add_module_first_def ent_cli_inspect_def ent_cli_trace_def ent_cli_serve_first_def ent_cli_compile_first_def ent_cli_freeze_first_def ent_cli_validate_first_def ent_cli_db_makemigrations_first_def ent_cli_db_migrate_first_def ent_cli_deploy_def ent_cli_workspace_py_def ent_cli_dotenv_file_def ent_http_request_type_def ent_config_env_first_def ent_config_secret_first_def ent_config_workspace_first_def ent_config_module_first_def ent_config_integration_def list.map concat.simps append.simps related_ids_def doc_entity.select_convs
      option.case map_filter_simps entity_related.select_convs entity_ids)

lemma related_adminPanel:
  "concat (map related_ids entities_adminPanel) = []"
  by (simp only: entities_adminPanel_def ent_cli_admin_setup_def ent_cli_admin_check_def ent_cli_admin_createsuperuser_def ent_cli_admin_createstaff_def ent_cli_admin_listusers_def ent_cli_admin_changepassword_def ent_cli_admin_status_def ent_cli_admin_audit_def ent_config_admin_integration_def ent_config_admin_modules_def ent_config_admin_security_def list.map concat.simps append.simps related_ids_def doc_entity.select_convs
      option.case map_filter_simps entity_related.select_convs entity_ids)

lemma related_configEntities:
  "concat (map related_ids entities_configEntities) = []"
  by (simp only: entities_configEntities_def ent_config_workspace_def ent_config_module_def ent_config_appmanifest_def ent_config_aquilaconfig_def ent_config_env_def ent_config_secret_def ent_config_dotenv_def ent_config_database_integration_def ent_config_session_integration_def ent_config_cache_integration_def list.map concat.simps append.simps related_ids_def doc_entity.select_convs
      option.case map_filter_simps entity_related.select_convs entity_ids)

lemma related_requestResponse:
  "concat (map related_ids entities_requestResponse) = []"
  by (simp only: entities_requestResponse_def ent_reqres_request_def ent_reqres_response_def ent_reqres_multidict_def ent_reqres_headers_def ent_reqres_cookiesigner_def ent_reqres_uploadfile_def ent_reqres_formdata_def list.map concat.simps append.simps related_ids_def doc_entity.select_convs
      option.case map_filter_simps entity_related.select_convs entity_ids)

lemma related_controllers:
  "concat (map related_ids entities_controllers) = []"
  by (simp only: entities_controllers_def ent_controller_controller_def ent_controller_requestctx_def ent_controller_exceptionfilter_def ent_controller_interceptor_def ent_controller_throttle_def ent_controller_validate_body_def ent_controller_get_def ent_controller_post_def ent_controller_attributes_def list.map concat.simps append.simps related_ids_def doc_entity.select_convs
      option.case map_filter_simps entity_related.select_convs entity_ids)

lemma related_ormEntities:
  "concat (map related_ids entities_ormEntities) = map de_id [ent_orm_manager, ent_orm_queryset, ent_orm_meta, ent_orm_model_delete_instance, ent_orm_signal_pre_save, ent_orm_signal_post_delete, ent_orm_queryset, ent_orm_model, ent_orm_queryset_filter, ent_orm_q, ent_orm_manager, ent_orm_queryset_exclude, ent_orm_q, ent_orm_queryset_prefetch_related, ent_orm_queryset_select_related, ent_orm_queryset_filter, ent_orm_signal_post_save, ent_orm_signal_pre_save, ent_orm_model, ent_orm_project_state, ent_orm_migration_graph, ent_orm_migration_status, ent_orm_migration_engine, ent_orm_autodetector, ent_orm_migration_engine, ent_orm_migration_engine, ent_orm_migration_engine, ent_orm_project_state, ent_orm_sum, ent_orm_count, ent_orm_avg, ent_orm_migration_engine, ent_orm_project_state]"
  by (simp only: entities_ormEntities_def ent_orm_model_def ent_orm_model_save_def ent_orm_model_delete_instance_def ent_orm_model_full_clean_def ent_orm_model_to_dict_def ent_orm_manager_def ent_orm_queryset_def ent_orm_queryset_filter_def ent_orm_queryset_exclude_def ent_orm_queryset_select_related_def ent_orm_queryset_prefetch_related_def ent_orm_queryset_annotate_def ent_orm_q_def ent_orm_f_def ent_orm_atomic_def ent_orm_signal_pre_save_def ent_orm_signal_post_save_def ent_orm_signal_post_delete_def ent_orm_meta_def ent_orm_migration_engine_def ent_orm_project_state_def ent_orm_migration_graph_def ent_orm_migration_status_def ent_orm_autodetector_def ent_orm_count_def ent_orm_sum_def ent_orm_avg_def ent_orm_registry_def ent_orm_queryset_values_def ent_orm_queryset_values_list_def ent_orm_queryset_exists_def ent_orm_queryset_delete_def ent_orm_queryset_update_def ent_orm_queryset_none_def list.map concat.simps append.simps related_ids_def doc_entity.select_convs
      option.case map_filter_simps entity_related.select_convs entity_ids)

lemma related_dbEntities:
  "concat (map related_ids entities_dbEntities) = map de_id [ent_db_configure_database, ent_db_postgres_config, ent_db_sqlite_config, ent_db_fetch_all, ent_db_fetch_one, ent_db_fetch_one, ent_db_fetch_val, ent_db_savepoint, ent_orm_atomic, ent_db_get_database, ent_db_aquilia_database, ent_db_postgres_config, ent_db_mysql_config, ent_db_sqlite_config, ent_db_mysql_config, ent_db_postgres_config, ent_db_oracle_config]"
  by (simp only: entities_dbEntities_def ent_db_aquilia_database_def ent_db_execute_def ent_db_fetch_all_def ent_db_fetch_one_def ent_db_fetch_val_def ent_db_execute_many_def ent_db_transaction_def ent_db_savepoint_def ent_db_table_exists_def ent_db_get_tables_def ent_db_get_columns_def ent_db_configure_database_def ent_db_get_database_def ent_db_sqlite_config_def ent_db_postgres_config_def ent_db_mysql_config_def ent_db_oracle_config_def ent_db_inline_policy_def list.map concat.simps append.simps related_ids_def doc_entity.select_convs
      option.case map_filter_simps entity_related.select_convs entity_ids)

lemma related_contractEntities:
  "concat (map related_ids entities_contractEntities) = map de_id [ent_bp_text_facet, ent_bp_int_facet, ent_bp_computed_facet, ent_bp_is_sealed, ent_bp_seal_fault, ent_bp_imprint, ent_bp_ward, ent_bp_is_sealed, ent_bp_lens, ent_bp_response_contract, ent_bp_request_contract]"
  by (simp only: entities_contractEntities_def ent_bp_contract_def ent_bp_spec_def ent_bp_facet_def ent_bp_text_facet_def ent_bp_int_facet_def ent_bp_computed_facet_def ent_bp_computed_decorator_def ent_bp_lens_def ent_bp_ward_def ent_bp_is_sealed_def ent_bp_imprint_def ent_bp_projection_def ent_bp_request_contract_def ent_bp_response_contract_def ent_bp_seal_fault_def ent_bp_cast_fault_def ent_bp_generate_schema_def ent_bp_sigil_def list.map concat.simps append.simps related_ids_def doc_entity.select_convs
      option.case map_filter_simps entity_related.select_convs entity_ids)

lemma related_diEntities:
  "concat (map related_ids entities_diEntities) = []"
  by (simp only: entities_diEntities_def ent_di_container_def ent_di_class_provider_def ent_di_factory_provider_def ent_di_value_provider_def ent_di_pool_provider_def ent_di_alias_provider_def ent_di_lazy_proxy_provider_def ent_di_scoped_provider_def ent_di_contract_provider_def ent_di_inject_def ent_di_dep_def ent_di_request_dag_def ent_di_service_def ent_di_scopes_def ent_di_provider_not_found_error_def ent_di_dependency_cycle_error_def ent_di_scope_violation_error_def ent_di_ambiguous_provider_error_def ent_di_manifest_validation_error_def ent_di_cross_app_dependency_error_def ent_di_circular_dependency_error_def ent_di_missing_dependency_error_def ent_di_cli_di_check_def ent_di_cli_di_tree_def ent_di_cli_di_graph_def ent_di_cli_di_profile_def ent_di_cli_di_manifest_def ent_di_settings_def list.map concat.simps append.simps related_ids_def doc_entity.select_convs
      option.case map_filter_simps entity_related.select_convs entity_ids)

lemma related_authEntities:
  "concat (map related_ids entities_authEntities) = []"
  by (simp only: entities_authEntities_def ent_auth_identity_def ent_auth_auth_result_def ent_auth_authenticated_def ent_auth_roles_required_def ent_auth_scopes_required_def ent_auth_optional_auth_def ent_auth_authz_engine_def ent_auth_permission_engine_def ent_auth_auth_manager_def ent_auth_auth_middleware_def ent_auth_token_manager_def ent_auth_password_credential_def ent_auth_api_key_credential_def ent_auth_auth_guard_def ent_auth_role_guard_def ent_auth_scope_guard_def ent_auth_policy_guard_def ent_auth_rbac_engine_def ent_auth_abac_engine_def ent_auth_password_backend_def ent_auth_token_backend_def list.map concat.simps append.simps related_ids_def doc_entity.select_convs
      option.case map_filter_simps entity_related.select_convs entity_ids)

lemma related_sessionsEntities:
  "concat (map related_ids entities_sessionsEntities) = []"
  by (simp only: entities_sessionsEntities_def ent_sessions_session_id_def ent_sessions_session_def ent_sessions_principal_def ent_sessions_scope_def ent_sessions_flag_def ent_sessions_policy_def ent_sessions_policy_builder_def ent_sessions_engine_def ent_sessions_store_def ent_sessions_memory_store_def ent_sessions_file_store_def ent_sessions_transport_def ent_sessions_cookie_transport_def ent_sessions_header_transport_def ent_sessions_decorator_require_def ent_sessions_decorator_ensure_def ent_sessions_decorator_optional_def ent_sessions_decorator_stateful_def ent_sessions_context_def ent_sessions_state_def ent_sessions_field_def ent_sessions_fault_def ent_sessions_expired_fault_def ent_sessions_idle_timeout_fault_def ent_sessions_absolute_timeout_fault_def ent_sessions_concurrency_fault_def ent_sessions_hijack_fault_def list.map concat.simps append.simps related_ids_def doc_entity.select_convs
      option.case map_filter_simps entity_related.select_convs entity_ids)

lemma related_subsystemEntities:
  "concat (map related_ids entities_subsystemEntities) = []"
  by (simp only: entities_subsystemEntities_def ent_tasks_task_def ent_tasks_Priority_def ent_tasks_TaskManager_def ent_tasks_MemoryBackend_def ent_tasks_Job_def ent_tasks_every_def ent_tasks_cron_def ent_storage_StorageBackend_def ent_storage_StorageFile_def ent_storage_StorageRegistry_def ent_storage_LocalConfig_def ent_storage_S3Config_def ent_storage_StorageMetadata_def ent_sqlite_create_pool_def ent_sqlite_ConnectionPool_def ent_sqlite_AsyncConnection_def ent_sqlite_SqlitePoolConfig_def ent_sqlite_SqliteService_def ent_filesystem_FileSystem_def ent_filesystem_AsyncPath_def ent_filesystem_FileSystemConfig_def ent_filesystem_async_open_def ent_filesystem_read_file_def ent_filesystem_write_file_def ent_filesystem_append_file_def ent_filesystem_copy_file_def ent_filesystem_move_file_def ent_filesystem_delete_file_def ent_filesystem_file_exists_def ent_filesystem_file_stat_def ent_filesystem_list_dir_def ent_filesystem_make_dir_def ent_filesystem_remove_dir_def ent_filesystem_remove_tree_def ent_artifacts_ArtifactStore_def ent_artifacts_ArtifactEnvelope_def ent_artifacts_JSONFileBackend_def ent_artifacts_ArtifactRegistry_def ent_native_extensions_def list.map concat.simps append.simps related_ids_def doc_entity.select_convs
      option.case map_filter_simps entity_related.select_convs entity_ids)

lemma related_cliEntities:
  "concat (map related_ids entities_cliEntities) = []"
  by (simp only: entities_cliEntities_def ent_cli_init_workspace_def ent_cli_add_module_def ent_cli_generate_controller_def ent_cli_validate_def ent_cli_compile_def ent_cli_run_def ent_cli_serve_def ent_cli_freeze_def ent_cli_manifest_update_def ent_cli_doctor_def ent_cli_db_makemigrations_def ent_cli_db_migrate_def ent_cli_ws_gen_client_def ent_cli_test_def ent_cli_artifacts_status_def ent_cli_artifacts_verify_def ent_cli_artifacts_clean_def list.map concat.simps append.simps related_ids_def doc_entity.select_convs
      option.case map_filter_simps entity_related.select_convs entity_ids)

lemma related_testingEntities:
  "concat (map related_ids entities_testingEntities) = []"
  by (simp only: entities_testingEntities_def ent_testing_test_client_def ent_testing_websocket_client_def ent_testing_simple_test_case_def ent_testing_aquilia_test_case_def ent_testing_transaction_test_case_def ent_testing_live_server_test_case_def ent_testing_override_settings_def ent_testing_mock_fault_engine_def ent_testing_mock_effect_registry_def ent_testing_mock_provider_def ent_testing_spy_provider_def ent_testing_override_provider_def list.map concat.simps append.simps related_ids_def doc_entity.select_convs
      option.case map_filter_simps entity_related.select_convs entity_ids)

lemma related_speculaEntities:
  "concat (map related_ids entities_speculaEntities) = []"
  by (simp only: entities_speculaEntities_def ent_specula_config_def ent_specula_integration_def ent_specula_builder_def ent_specula_service_def list.map concat.simps append.simps related_ids_def doc_entity.select_convs
      option.case map_filter_simps entity_related.select_convs entity_ids)

lemma related_aquiliaEntities:
  "concat (map related_ids entities_aquiliaEntities) = []"
  by (simp only: entities_aquiliaEntities_def ent_middleware_MiddlewareStack_def ent_middleware_RequestIdMiddleware_def ent_middleware_ExceptionMiddleware_def ent_middleware_TimeoutMiddleware_def ent_middleware_CompressionMiddleware_def ent_middleware_CORSMiddleware_def ent_middleware_RateLimitMiddleware_def ent_middleware_StaticMiddleware_def ent_middleware_SessionMiddleware_def ent_middleware_RequestScopeMiddleware_def ent_aquilary_AquilaryRegistry_def ent_aquilary_AppContext_def ent_aquilary_RuntimeRegistry_def ent_effects_EffectRegistry_def ent_effects_EffectProvider_def ent_effects_Layer_def ent_effects_DBTxHandle_def ent_effects_requires_def ent_effects_DBTx_def ent_effects_CacheEffect_def ent_effects_QueueEffect_def ent_effects_HTTPEffect_def ent_effects_StorageEffect_def ent_effects_CacheServiceHandle_def ent_effects_CacheHandle_def ent_effects_QueueHandle_def ent_effects_TaskQueueHandle_def ent_effects_HTTPHandle_def ent_effects_StorageHandle_def ent_effects_FlowPipeline_def ent_effects_FlowContext_first_def ent_effects_FlowNode_def ent_effects_FlowResult_def ent_effects_EffectScope_def ent_effects_DBTxProvider_def ent_effects_CacheProvider_def ent_effects_QueueProvider_def ent_effects_TaskQueueProvider_def ent_effects_HTTPProvider_def ent_effects_StorageProvider_def ent_effects_FlowContext_def ent_effects_EffectMiddleware_def ent_faults_Fault_def ent_faults_FaultContext_def ent_faults_FaultEngine_def ent_faults_FaultHandler_def ent_sse_SSEResponse_def ent_sse_SSEEvent_def ent_sse_SSEStreamAbortedFault_def ent_sse_SSESerializationFault_def ent_signing_Signer_def ent_signing_TimestampSigner_def ent_signing_RotatingSigner_def ent_json_module_def ent_json_JSONDecodeError_def ent_json_JSONEncodeError_def list.map concat.simps append.simps related_ids_def doc_entity.select_convs
      option.case map_filter_simps entity_related.select_convs entity_ids)

lemma related_cacheHttpI18n:
  "concat (map related_ids entities_cacheHttpI18n) = []"
  by (simp only: entities_cacheHttpI18n_def ent_cache_CacheService_def ent_cache_cached_def ent_cache_cache_aside_def ent_cache_invalidate_def ent_cache_MemoryBackend_def ent_cache_RedisBackend_def ent_cache_CompositeBackend_def ent_cache_CacheMiddleware_def ent_http_AsyncHTTPClient_def ent_http_HTTPSession_def ent_http_HTTPClientConfig_def ent_http_TimeoutConfig_def ent_http_RetryConfig_def ent_http_MultipartFormData_def ent_i18n_I18nService_def ent_i18n_Locale_def ent_i18n_I18nConfig_def ent_i18n_I18nMiddleware_def ent_i18n_lazy_t_def list.map concat.simps append.simps related_ids_def doc_entity.select_convs
      option.case map_filter_simps entity_related.select_convs entity_ids)

lemma related_websocketsTemplatesMail:
  "concat (map related_ids entities_websocketsTemplatesMail) = []"
  by (simp only: entities_websocketsTemplatesMail_def ent_sockets_SocketController_def ent_sockets_Connection_def ent_sockets_MessageEnvelope_def ent_sockets_InMemoryAdapter_def ent_sockets_RedisAdapter_def ent_sockets_HandshakeAuthGuard_def ent_sockets_RateLimitGuard_def ent_templates_TemplateEngine_def ent_templates_TemplateLoader_def ent_templates_SurpBytecodeCache_def ent_templates_TemplateSandbox_def ent_mail_MailService_def ent_mail_EmailMessage_def ent_mail_TemplateMessage_def ent_mail_MailIntegration_def list.map concat.simps append.simps related_ids_def doc_entity.select_convs
      option.case map_filter_simps entity_related.select_convs entity_ids)

lemma related_providers:
  "concat (map related_ids entities_providers) = []"
  by (simp only: entities_providers_def ent_provider_RenderIntegration_def ent_provider_RenderClient_def ent_provider_RenderDeployer_def ent_provider_RenderCredentialStore_def ent_provider_RenderDeployConfig_def ent_cli_deploy_render_def ent_cli_provider_login_render_def ent_cli_provider_status_render_def ent_cli_provider_logout_render_def ent_cli_provider_render_env_set_def list.map concat.simps append.simps related_ids_def doc_entity.select_convs
      option.case map_filter_simps entity_related.select_convs entity_ids)

lemma related_ormAdvancedEntities:
  "concat (map related_ids entities_ormAdvancedEntities) = map de_id [ent_orm_window_rank]"
  by (simp only: entities_ormAdvancedEntities_def ent_orm_window_def ent_orm_window_rank_def ent_orm_window_dense_rank_def ent_orm_window_row_number_def ent_orm_window_ntile_def ent_orm_window_lag_def ent_orm_window_lead_def ent_orm_window_first_value_def ent_orm_window_last_value_def ent_orm_window_nth_value_def ent_orm_window_frame_def ent_orm_cte_def ent_orm_cte_with_cte_def ent_orm_cte_cte_method_def ent_orm_cte_recursive_def ent_orm_cte_col_def ent_orm_queryset_in_bulk_def ent_orm_queryset_find_or_create_def ent_orm_queryset_bulk_create_def ent_orm_queryset_iterator_def ent_orm_queryset_select_for_update_def ent_orm_queryset_explain_def ent_orm_queryset_union_def ent_orm_queryset_only_def list.map concat.simps append.simps related_ids_def doc_entity.select_convs
      option.case map_filter_simps entity_related.select_convs entity_ids)

lemma related_vectordbEntities:
  "concat (map related_ids entities_vectordbEntities) = []"
  by (simp only: entities_vectordbEntities_def ent_vectordb_VectorModel_def ent_vectordb_VectorField_def ent_vectordb_VectorManager_def ent_vectordb_VectorQuery_def ent_vectordb_VF_def ent_vectordb_Hit_def ent_vectordb_integration_def list.map concat.simps append.simps related_ids_def doc_entity.select_convs
      option.case map_filter_simps entity_related.select_convs entity_ids)

lemma related_devPlatform:
  "concat (map related_ids entities_devPlatform) = []"
  by (simp only: entities_devPlatform_def ent_devplatform_config_def ent_devplatform_server_def ent_devplatform_platform_def ent_devplatform_runtime_state_store_def ent_devplatform_request_record_def ent_devplatform_trace_span_def ent_devplatform_fault_base_def ent_devplatform_fault_startup_def ent_devplatform_fault_reload_def ent_devplatform_fault_inspector_def ent_devplatform_fault_worker_def ent_devplatform_fault_configuration_def ent_devplatform_report_fault_def ent_devplatform_watcher_def ent_devplatform_ui_def list.map concat.simps append.simps related_ids_def doc_entity.select_convs
      option.case map_filter_simps entity_related.select_convs entity_ids)

lemmas related_defs = related_serverLifecycle related_showcase related_adminPanel related_configEntities related_requestResponse related_controllers related_ormEntities related_dbEntities related_contractEntities related_diEntities related_authEntities related_sessionsEntities related_subsystemEntities related_cliEntities related_testingEntities related_speculaEntities related_aquiliaEntities related_cacheHttpI18n related_websocketsTemplatesMail related_providers related_ormAdvancedEntities related_vectordbEntities related_devPlatform

lemma related_listed: "set (concat (map related_ids all_entities)) \<subseteq> de_id ` set [
     ent_lifecycle_on_shutdown, ent_lifecycle_coordinator, ent_lifecycle_on_startup, ent_lifecycle_on_response,
     ent_lifecycle_on_request, ent_orm_manager, ent_orm_queryset, ent_orm_meta,
     ent_orm_model_delete_instance, ent_orm_signal_pre_save, ent_orm_signal_post_delete, ent_orm_model,
     ent_orm_queryset_filter, ent_orm_q, ent_orm_queryset_exclude, ent_orm_queryset_prefetch_related,
     ent_orm_queryset_select_related, ent_orm_signal_post_save, ent_orm_project_state, ent_orm_migration_graph,
     ent_orm_migration_status, ent_orm_migration_engine, ent_orm_autodetector, ent_orm_sum,
     ent_orm_count, ent_orm_avg, ent_db_configure_database, ent_db_postgres_config,
     ent_db_sqlite_config, ent_db_fetch_all, ent_db_fetch_one, ent_db_fetch_val,
     ent_db_savepoint, ent_orm_atomic, ent_db_get_database, ent_db_aquilia_database,
     ent_db_mysql_config, ent_db_oracle_config, ent_bp_text_facet, ent_bp_int_facet,
     ent_bp_computed_facet, ent_bp_is_sealed, ent_bp_seal_fault, ent_bp_imprint,
     ent_bp_ward, ent_bp_lens, ent_bp_response_contract, ent_bp_request_contract,
     ent_orm_window_rank]"
  unfolding all_entities_def entity_modules_def
  by (simp only: concat.simps map_append concat_append related_defs append_Nil2 set_append set_map Un_subset_iff
      image_subset_iff) (simp only: list.set ball_simps insert_iff image_insert insert_subset empty_subsetI simp_thms)

lemma related_in_force: "set [
     ent_lifecycle_on_shutdown, ent_lifecycle_coordinator, ent_lifecycle_on_startup, ent_lifecycle_on_response,
     ent_lifecycle_on_request, ent_orm_manager, ent_orm_queryset, ent_orm_meta,
     ent_orm_model_delete_instance, ent_orm_signal_pre_save, ent_orm_signal_post_delete, ent_orm_model,
     ent_orm_queryset_filter, ent_orm_q, ent_orm_queryset_exclude, ent_orm_queryset_prefetch_related,
     ent_orm_queryset_select_related, ent_orm_signal_post_save, ent_orm_project_state, ent_orm_migration_graph,
     ent_orm_migration_status, ent_orm_migration_engine, ent_orm_autodetector, ent_orm_sum,
     ent_orm_count, ent_orm_avg, ent_db_configure_database, ent_db_postgres_config,
     ent_db_sqlite_config, ent_db_fetch_all, ent_db_fetch_one, ent_db_fetch_val,
     ent_db_savepoint, ent_orm_atomic, ent_db_get_database, ent_db_aquilia_database,
     ent_db_mysql_config, ent_db_oracle_config, ent_bp_text_facet, ent_bp_int_facet,
     ent_bp_computed_facet, ent_bp_is_sealed, ent_bp_seal_fault, ent_bp_imprint,
     ent_bp_ward, ent_bp_lens, ent_bp_response_contract, ent_bp_request_contract,
     ent_orm_window_rank] \<subseteq> set (in_force marked_entities)"
  unfolding marked_entities_def
  by (simp only: in_force.simps list.set insert_subset insert_iff simp_thms empty_subsetI)

text \<open>Every entity that another one names as related is registered, so each of these links of a
  panel opens a panel.\<close>

theorem related_entities_registered:
  "list_all (\<lambda>e. list_all (hasDocEntity site_registry) (related_ids e)) all_entities"
proof -
  have n: "(None, e) \<in> set r" if "e \<in> set (in_force r)" for e r
    using that by (induction r rule: in_force.induct) auto
  have "hasDocEntity site_registry i" if r: "i \<in> set (concat (map related_ids all_entities))" for i
  proof -
    obtain e where "i = de_id e" "e \<in> set (in_force marked_entities)"
      using subsetD [OF related_listed r] related_in_force by blast
    then show ?thesis using found_again [OF n] by (simp add: hasDocEntity_iff)
  qed
  then show ?thesis by (auto simp: list_all_iff)
qed

subsection \<open>Links to the pages\<close>

text \<open>The pages the entities link to: those the route table declares, by its groups, and the others.\<close>

definition dead_pages :: "string list" where
  "dead_pages = [
     ''/docs/cli/overview'', ''/docs/getting-started/project-structure'', ''/docs/config/modules'',
     ''/docs/getting-started/admin-panel'', ''/docs/sqlite/inline'', ''/docs/di/overview'',
     ''/docs/artifacts/store'', ''/docs/artifacts/envelope'', ''/docs/artifacts/backend'',
     ''/docs/artifacts/registry'', ''/docs/subsystem/native'', ''/docs/artifacts/cli'',
     ''/docs/json/overview'']"

definition linked_pages :: "string list" where
  "linked_pages = concat [
     [
     ''/docs/server/lifecycle''],
     [
     ''/docs/controllers/router'', ''/docs/controllers/overview'', ''/docs/controllers/request-ctx'',
     ''/docs/controllers/validation'', ''/docs/controllers/decorators/get'', ''/docs/controllers/decorators/post'',
     ''/docs/controllers/attributes'', ''/docs/controllers/openapi''],
     [
     ''/docs/di/decorators'', ''/docs/di/container'', ''/docs/di/providers'',
     ''/docs/di/request-dag'', ''/docs/di/scopes''],
     [
     ''/docs/models/overview''],
     [
     ''/docs/cli/core'', ''/docs/cli/commands'', ''/docs/cli/generators'',
     ''/docs/cli/database'', ''/docs/cli/websockets''],
     [
     ''/docs/request-response/request'', ''/docs/request-response/response'', ''/docs/request-response/data-structures'',
     ''/docs/request-response/uploads''],
     [
     ''/docs/config/workspace'', ''/docs/config/integrations'', ''/docs/config/module'',
     ''/docs/config/manifest'', ''/docs/config/pyconfig'', ''/docs/config/dotenv''],
     [
     ''/docs/models/queryset''],
     [
     ''/docs/models/relationships'', ''/docs/models/signals'', ''/docs/models/migrations''],
     [
     ''/docs/models/aggregation'', ''/docs/models/transactions'', ''/docs/models/bulk-operations'',
     ''/docs/models/window-functions'', ''/docs/models/cte'', ''/docs/models/recursive-cte''],
     [
     ''/docs/database/engine'', ''/docs/database/configs''],
     [
     ''/docs/contracts/overview'', ''/docs/contracts/facets'', ''/docs/contracts/lenses'',
     ''/docs/contracts/seals'', ''/docs/contracts/projections'', ''/docs/contracts/integration'',
     ''/docs/contracts/faults'', ''/docs/contracts/schemas'', ''/docs/contracts/annotations''],
     [
     ''/docs/auth/identity'', ''/docs/auth/manager'', ''/docs/auth/guards'',
     ''/docs/authz'', ''/docs/auth/integration'', ''/docs/auth/tokens'',
     ''/docs/auth/credentials'', ''/docs/authz/rbac'', ''/docs/authz/abac''],
     [
     ''/docs/sessions/overview'', ''/docs/sessions/policies'', ''/docs/sessions/engine'',
     ''/docs/sessions/stores'', ''/docs/sessions/transport'', ''/docs/sessions/decorators'',
     ''/docs/sessions/guards'', ''/docs/sessions/state'', ''/docs/sessions/faults''],
     [
     ''/docs/tasks/overview'', ''/docs/tasks/api'', ''/docs/tasks/configuration'',
     ''/docs/tasks/scheduling''],
     [
     ''/docs/storage/api'', ''/docs/storage/configuration'', ''/docs/vectordb/models'',
     ''/docs/vectordb/queries''],
     [
     ''/docs/sqlite/pool'', ''/docs/sqlite/api'', ''/docs/sqlite/overview''],
     [
     ''/docs/filesystem/overview'', ''/docs/filesystem/operations'', ''/docs/filesystem/api''],
     [
     ''/docs/testing/runner'', ''/docs/testing/client'', ''/docs/testing/cases'',
     ''/docs/testing/mocks''],
     [
     ''/docs/middleware/stack'', ''/docs/middleware/built-in'', ''/docs/middleware/cors'',
     ''/docs/middleware/rate-limit'', ''/docs/middleware/static'', ''/docs/middleware/session'',
     ''/docs/middleware/request-scope''],
     [
     ''/docs/aquilary/overview'', ''/docs/aquilary/manifest'', ''/docs/aquilary/runtime''],
     [
     ''/docs/subsystem/overview'', ''/docs/subsystem/dbtx'', ''/docs/subsystem/cache'',
     ''/docs/subsystem/queue'', ''/docs/subsystem/http'', ''/docs/subsystem/storage'',
     ''/docs/subsystem/pipelines'', ''/docs/subsystem/context-nodes'', ''/docs/subsystem/layers''],
     [
     ''/docs/faults/taxonomy'', ''/docs/faults/engine'', ''/docs/faults/handlers''],
     [
     ''/docs/sse/overview'', ''/docs/sse/standard'', ''/docs/sse/resources'',
     ''/docs/sse/streams''],
     [
     ''/docs/signing/signers'', ''/docs/signing/advanced''],
     [
     ''/docs/cache/service'', ''/docs/cache/decorators'', ''/docs/cache/backends''],
     [
     ''/docs/http/client'', ''/docs/http/sessions'', ''/docs/http/integration'',
     ''/docs/http/api/multipart''],
     [
     ''/docs/i18n/api-reference'', ''/docs/i18n/architecture'', ''/docs/i18n/configuration'',
     ''/docs/i18n/integration''],
     [
     ''/docs/websockets/controllers'', ''/docs/websockets/adapters''],
     [
     ''/docs/templates/engine'', ''/docs/templates/loaders'', ''/docs/templates/security''],
     [
     ''/docs/mail/service'', ''/docs/mail/templates''],
     [
     ''/docs/providers/render'', ''/docs/providers/security'', ''/docs/providers/cli''],
     [
     ''/docs/devplatform/configuration'', ''/docs/devplatform/getting-started'', ''/docs/devplatform/plugins'',
     ''/docs/devplatform/diagnostics'', ''/docs/devplatform/faults'', ''/docs/devplatform/hot-reload'',
     ''/docs/devplatform/terminal-ui'']]"

lemma grouped_server: "js ` set [
     ''/docs/server/lifecycle''] \<subseteq> set (map doc_address routes_server)"
  by (simp add: route_eval routes_server_def)

lemma grouped_controllers: "js ` set [
     ''/docs/controllers/router'', ''/docs/controllers/overview'', ''/docs/controllers/request-ctx'',
     ''/docs/controllers/validation'', ''/docs/controllers/decorators/get'', ''/docs/controllers/decorators/post'',
     ''/docs/controllers/attributes'', ''/docs/controllers/openapi''] \<subseteq> set (map doc_address routes_controllers)"
  by (simp add: route_eval routes_controllers_def)

lemma grouped_di: "js ` set [
     ''/docs/di/decorators'', ''/docs/di/container'', ''/docs/di/providers'',
     ''/docs/di/request-dag'', ''/docs/di/scopes''] \<subseteq> set (map doc_address routes_di)"
  by (simp add: route_eval routes_di_def)

lemma grouped_models: "js ` set [
     ''/docs/models/overview''] \<subseteq> set (map doc_address routes_models)"
  by (simp add: route_eval routes_models_def)

lemma grouped_cli: "js ` set [
     ''/docs/cli/core'', ''/docs/cli/commands'', ''/docs/cli/generators'',
     ''/docs/cli/database'', ''/docs/cli/websockets''] \<subseteq> set (map doc_address routes_cli)"
  by (simp add: route_eval routes_cli_def)

lemma grouped_request_response: "js ` set [
     ''/docs/request-response/request'', ''/docs/request-response/response'', ''/docs/request-response/data-structures'',
     ''/docs/request-response/uploads''] \<subseteq> set (map doc_address routes_request_response)"
  by (simp add: route_eval routes_request_response_def)

lemma grouped_config: "js ` set [
     ''/docs/config/workspace'', ''/docs/config/integrations'', ''/docs/config/module'',
     ''/docs/config/manifest'', ''/docs/config/pyconfig'', ''/docs/config/dotenv''] \<subseteq> set (map doc_address routes_config)"
  by (simp add: route_eval routes_config_def)

lemma grouped_fields_subpages: "js ` set [
     ''/docs/models/queryset''] \<subseteq> set (map doc_address routes_fields_subpages)"
  by (simp add: route_eval routes_fields_subpages_def)

lemma grouped_relationships_subpages: "js ` set [
     ''/docs/models/relationships'', ''/docs/models/signals'', ''/docs/models/migrations''] \<subseteq> set (map doc_address routes_relationships_subpages)"
  by (simp add: route_eval routes_relationships_subpages_def)

lemma grouped_transactions_subpages: "js ` set [
     ''/docs/models/aggregation'', ''/docs/models/transactions'', ''/docs/models/bulk-operations'',
     ''/docs/models/window-functions'', ''/docs/models/cte'', ''/docs/models/recursive-cte''] \<subseteq> set (map doc_address routes_transactions_subpages)"
  by (simp add: route_eval routes_transactions_subpages_def)

lemma grouped_database: "js ` set [
     ''/docs/database/engine'', ''/docs/database/configs''] \<subseteq> set (map doc_address routes_database)"
  by (simp add: route_eval routes_database_def)

lemma grouped_contracts: "js ` set [
     ''/docs/contracts/overview'', ''/docs/contracts/facets'', ''/docs/contracts/lenses'',
     ''/docs/contracts/seals'', ''/docs/contracts/projections'', ''/docs/contracts/integration'',
     ''/docs/contracts/faults'', ''/docs/contracts/schemas'', ''/docs/contracts/annotations''] \<subseteq> set (map doc_address routes_contracts)"
  by (simp add: route_eval routes_contracts_def)

lemma grouped_auth: "js ` set [
     ''/docs/auth/identity'', ''/docs/auth/manager'', ''/docs/auth/guards'',
     ''/docs/authz'', ''/docs/auth/integration'', ''/docs/auth/tokens'',
     ''/docs/auth/credentials'', ''/docs/authz/rbac'', ''/docs/authz/abac''] \<subseteq> set (map doc_address routes_auth)"
  by (simp add: route_eval routes_auth_def)

lemma grouped_sessions: "js ` set [
     ''/docs/sessions/overview'', ''/docs/sessions/policies'', ''/docs/sessions/engine'',
     ''/docs/sessions/stores'', ''/docs/sessions/transport'', ''/docs/sessions/decorators'',
     ''/docs/sessions/guards'', ''/docs/sessions/state'', ''/docs/sessions/faults''] \<subseteq> set (map doc_address routes_sessions)"
  by (simp add: route_eval routes_sessions_def)

lemma grouped_tasks: "js ` set [
     ''/docs/tasks/overview'', ''/docs/tasks/api'', ''/docs/tasks/configuration'',
     ''/docs/tasks/scheduling''] \<subseteq> set (map doc_address routes_tasks)"
  by (simp add: route_eval routes_tasks_def)

lemma grouped_storage: "js ` set [
     ''/docs/storage/api'', ''/docs/storage/configuration'', ''/docs/vectordb/models'',
     ''/docs/vectordb/queries''] \<subseteq> set (map doc_address routes_storage)"
  by (simp add: route_eval routes_storage_def)

lemma grouped_sqlite: "js ` set [
     ''/docs/sqlite/pool'', ''/docs/sqlite/api'', ''/docs/sqlite/overview''] \<subseteq> set (map doc_address routes_sqlite)"
  by (simp add: route_eval routes_sqlite_def)

lemma grouped_filesystem: "js ` set [
     ''/docs/filesystem/overview'', ''/docs/filesystem/operations'', ''/docs/filesystem/api''] \<subseteq> set (map doc_address routes_filesystem)"
  by (simp add: route_eval routes_filesystem_def)

lemma grouped_testing: "js ` set [
     ''/docs/testing/runner'', ''/docs/testing/client'', ''/docs/testing/cases'',
     ''/docs/testing/mocks''] \<subseteq> set (map doc_address routes_testing)"
  by (simp add: route_eval routes_testing_def)

lemma grouped_middleware: "js ` set [
     ''/docs/middleware/stack'', ''/docs/middleware/built-in'', ''/docs/middleware/cors'',
     ''/docs/middleware/rate-limit'', ''/docs/middleware/static'', ''/docs/middleware/session'',
     ''/docs/middleware/request-scope''] \<subseteq> set (map doc_address routes_middleware)"
  by (simp add: route_eval routes_middleware_def)

lemma grouped_aquilary: "js ` set [
     ''/docs/aquilary/overview'', ''/docs/aquilary/manifest'', ''/docs/aquilary/runtime''] \<subseteq> set (map doc_address routes_aquilary)"
  by (simp add: route_eval routes_aquilary_def)

lemma grouped_subsystem: "js ` set [
     ''/docs/subsystem/overview'', ''/docs/subsystem/dbtx'', ''/docs/subsystem/cache'',
     ''/docs/subsystem/queue'', ''/docs/subsystem/http'', ''/docs/subsystem/storage'',
     ''/docs/subsystem/pipelines'', ''/docs/subsystem/context-nodes'', ''/docs/subsystem/layers''] \<subseteq> set (map doc_address routes_subsystem)"
  by (simp add: route_eval routes_subsystem_def)

lemma grouped_faults: "js ` set [
     ''/docs/faults/taxonomy'', ''/docs/faults/engine'', ''/docs/faults/handlers''] \<subseteq> set (map doc_address routes_faults)"
  by (simp add: route_eval routes_faults_def)

lemma grouped_server_sent_events_sse: "js ` set [
     ''/docs/sse/overview'', ''/docs/sse/standard'', ''/docs/sse/resources'',
     ''/docs/sse/streams''] \<subseteq> set (map doc_address routes_server_sent_events_sse)"
  by (simp add: route_eval routes_server_sent_events_sse_def)

lemma grouped_cryptographic_signing: "js ` set [
     ''/docs/signing/signers'', ''/docs/signing/advanced''] \<subseteq> set (map doc_address routes_cryptographic_signing)"
  by (simp add: route_eval routes_cryptographic_signing_def)

lemma grouped_cache: "js ` set [
     ''/docs/cache/service'', ''/docs/cache/decorators'', ''/docs/cache/backends''] \<subseteq> set (map doc_address routes_cache)"
  by (simp add: route_eval routes_cache_def)

lemma grouped_http_client: "js ` set [
     ''/docs/http/client'', ''/docs/http/sessions'', ''/docs/http/integration'',
     ''/docs/http/api/multipart''] \<subseteq> set (map doc_address routes_http_client)"
  by (simp add: route_eval routes_http_client_def)

lemma grouped_i18n: "js ` set [
     ''/docs/i18n/api-reference'', ''/docs/i18n/architecture'', ''/docs/i18n/configuration'',
     ''/docs/i18n/integration''] \<subseteq> set (map doc_address routes_i18n)"
  by (simp add: route_eval routes_i18n_def)

lemma grouped_websockets: "js ` set [
     ''/docs/websockets/controllers'', ''/docs/websockets/adapters''] \<subseteq> set (map doc_address routes_websockets)"
  by (simp add: route_eval routes_websockets_def)

lemma grouped_templates: "js ` set [
     ''/docs/templates/engine'', ''/docs/templates/loaders'', ''/docs/templates/security''] \<subseteq> set (map doc_address routes_templates)"
  by (simp add: route_eval routes_templates_def)

lemma grouped_mail: "js ` set [
     ''/docs/mail/service'', ''/docs/mail/templates''] \<subseteq> set (map doc_address routes_mail)"
  by (simp add: route_eval routes_mail_def)

lemma grouped_providers_deployment: "js ` set [
     ''/docs/providers/render'', ''/docs/providers/security'', ''/docs/providers/cli''] \<subseteq> set (map doc_address routes_providers_deployment)"
  by (simp add: route_eval routes_providers_deployment_def)

lemma grouped_dev_platform: "js ` set [
     ''/docs/devplatform/configuration'', ''/docs/devplatform/getting-started'', ''/docs/devplatform/plugins'',
     ''/docs/devplatform/diagnostics'', ''/docs/devplatform/faults'', ''/docs/devplatform/hot-reload'',
     ''/docs/devplatform/terminal-ui''] \<subseteq> set (map doc_address routes_dev_platform)"
  by (simp add: route_eval routes_dev_platform_def)

lemma groups_listed:
  "set routes_server \<subseteq> set doc_routes"
  "set routes_controllers \<subseteq> set doc_routes"
  "set routes_di \<subseteq> set doc_routes"
  "set routes_models \<subseteq> set doc_routes"
  "set routes_cli \<subseteq> set doc_routes"
  "set routes_request_response \<subseteq> set doc_routes"
  "set routes_config \<subseteq> set doc_routes"
  "set routes_fields_subpages \<subseteq> set doc_routes"
  "set routes_relationships_subpages \<subseteq> set doc_routes"
  "set routes_transactions_subpages \<subseteq> set doc_routes"
  "set routes_database \<subseteq> set doc_routes"
  "set routes_contracts \<subseteq> set doc_routes"
  "set routes_auth \<subseteq> set doc_routes"
  "set routes_sessions \<subseteq> set doc_routes"
  "set routes_tasks \<subseteq> set doc_routes"
  "set routes_storage \<subseteq> set doc_routes"
  "set routes_sqlite \<subseteq> set doc_routes"
  "set routes_filesystem \<subseteq> set doc_routes"
  "set routes_testing \<subseteq> set doc_routes"
  "set routes_middleware \<subseteq> set doc_routes"
  "set routes_aquilary \<subseteq> set doc_routes"
  "set routes_subsystem \<subseteq> set doc_routes"
  "set routes_faults \<subseteq> set doc_routes"
  "set routes_server_sent_events_sse \<subseteq> set doc_routes"
  "set routes_cryptographic_signing \<subseteq> set doc_routes"
  "set routes_cache \<subseteq> set doc_routes"
  "set routes_http_client \<subseteq> set doc_routes"
  "set routes_i18n \<subseteq> set doc_routes"
  "set routes_websockets \<subseteq> set doc_routes"
  "set routes_templates \<subseteq> set doc_routes"
  "set routes_mail \<subseteq> set doc_routes"
  "set routes_providers_deployment \<subseteq> set doc_routes"
  "set routes_dev_platform \<subseteq> set doc_routes"
  by (auto simp: doc_routes_def)

lemma linked_declared: "js ` set linked_pages \<subseteq> set declared_paths"
  unfolding linked_pages_def concat.simps append_Nil2 set_append image_Un
  by (intro Un_least; rule subset_trans [OF _ doc_route_declared], rule grouped_server grouped_controllers grouped_di grouped_models grouped_cli grouped_request_response grouped_config grouped_fields_subpages grouped_relationships_subpages grouped_transactions_subpages grouped_database grouped_contracts grouped_auth grouped_sessions grouped_tasks grouped_storage grouped_sqlite grouped_filesystem grouped_testing grouped_middleware grouped_aquilary grouped_subsystem grouped_faults grouped_server_sent_events_sse grouped_cryptographic_signing grouped_cache grouped_http_client grouped_i18n grouped_websockets grouped_templates grouped_mail grouped_providers_deployment grouped_dev_platform, rule groups_listed)

lemma apart_getting_started: "js ` set dead_pages \<inter> set (map doc_address routes_getting_started) = {}"
  by (simp add: dead_pages_def routes_getting_started_def route_eval)

lemma apart_tutorials: "js ` set dead_pages \<inter> set (map doc_address routes_tutorials) = {}"
  by (simp add: dead_pages_def routes_tutorials_def route_eval)

lemma apart_server: "js ` set dead_pages \<inter> set (map doc_address routes_server) = {}"
  by (simp add: dead_pages_def routes_server_def route_eval)

lemma apart_config: "js ` set dead_pages \<inter> set (map doc_address routes_config) = {}"
  by (simp add: dead_pages_def routes_config_def route_eval)

lemma apart_request_response: "js ` set dead_pages \<inter> set (map doc_address routes_request_response) = {}"
  by (simp add: dead_pages_def routes_request_response_def route_eval)

lemma apart_controllers: "js ` set dead_pages \<inter> set (map doc_address routes_controllers) = {}"
  by (simp add: dead_pages_def routes_controllers_def route_eval)

lemma apart_routing: "js ` set dead_pages \<inter> set (map doc_address routes_routing) = {}"
  by (simp add: dead_pages_def routes_routing_def route_eval)

lemma apart_di: "js ` set dead_pages \<inter> set (map doc_address routes_di) = {}"
  by (simp add: dead_pages_def routes_di_def route_eval)

lemma apart_models: "js ` set dead_pages \<inter> set (map doc_address routes_models) = {}"
  by (simp add: dead_pages_def routes_models_def route_eval)

lemma apart_fields_subpages: "js ` set dead_pages \<inter> set (map doc_address routes_fields_subpages) = {}"
  by (simp add: dead_pages_def routes_fields_subpages_def route_eval)

lemma apart_relationships_subpages: "js ` set dead_pages \<inter> set (map doc_address routes_relationships_subpages) = {}"
  by (simp add: dead_pages_def routes_relationships_subpages_def route_eval)

lemma apart_transactions_subpages: "js ` set dead_pages \<inter> set (map doc_address routes_transactions_subpages) = {}"
  by (simp add: dead_pages_def routes_transactions_subpages_def route_eval)

lemma apart_contracts: "js ` set dead_pages \<inter> set (map doc_address routes_contracts) = {}"
  by (simp add: dead_pages_def routes_contracts_def route_eval)

lemma apart_database: "js ` set dead_pages \<inter> set (map doc_address routes_database) = {}"
  by (simp add: dead_pages_def routes_database_def route_eval)

lemma apart_auth: "js ` set dead_pages \<inter> set (map doc_address routes_auth) = {}"
  by (simp add: dead_pages_def routes_auth_def route_eval)

lemma apart_sessions: "js ` set dead_pages \<inter> set (map doc_address routes_sessions) = {}"
  by (simp add: dead_pages_def routes_sessions_def route_eval)

lemma apart_middleware: "js ` set dead_pages \<inter> set (map doc_address routes_middleware) = {}"
  by (simp add: dead_pages_def routes_middleware_def route_eval)

lemma apart_aquilary: "js ` set dead_pages \<inter> set (map doc_address routes_aquilary) = {}"
  by (simp add: dead_pages_def routes_aquilary_def route_eval)

lemma apart_subsystem: "js ` set dead_pages \<inter> set (map doc_address routes_subsystem) = {}"
  by (simp add: dead_pages_def routes_subsystem_def route_eval)

lemma apart_server_sent_events_sse: "js ` set dead_pages \<inter> set (map doc_address routes_server_sent_events_sse) = {}"
  by (simp add: dead_pages_def routes_server_sent_events_sse_def route_eval)

lemma apart_cryptographic_signing: "js ` set dead_pages \<inter> set (map doc_address routes_cryptographic_signing) = {}"
  by (simp add: dead_pages_def routes_cryptographic_signing_def route_eval)

lemma apart_faults: "js ` set dead_pages \<inter> set (map doc_address routes_faults) = {}"
  by (simp add: dead_pages_def routes_faults_def route_eval)

lemma apart_cache: "js ` set dead_pages \<inter> set (map doc_address routes_cache) = {}"
  by (simp add: dead_pages_def routes_cache_def route_eval)

lemma apart_http_client: "js ` set dead_pages \<inter> set (map doc_address routes_http_client) = {}"
  by (simp add: dead_pages_def routes_http_client_def route_eval)

lemma apart_i18n: "js ` set dead_pages \<inter> set (map doc_address routes_i18n) = {}"
  by (simp add: dead_pages_def routes_i18n_def route_eval)

lemma apart_i8n_alias_routes: "js ` set dead_pages \<inter> set (map doc_address routes_i8n_alias_routes) = {}"
  by (simp add: dead_pages_def routes_i8n_alias_routes_def route_eval)

lemma apart_websockets: "js ` set dead_pages \<inter> set (map doc_address routes_websockets) = {}"
  by (simp add: dead_pages_def routes_websockets_def route_eval)

lemma apart_templates: "js ` set dead_pages \<inter> set (map doc_address routes_templates) = {}"
  by (simp add: dead_pages_def routes_templates_def route_eval)

lemma apart_mail: "js ` set dead_pages \<inter> set (map doc_address routes_mail) = {}"
  by (simp add: dead_pages_def routes_mail_def route_eval)

lemma apart_cli: "js ` set dead_pages \<inter> set (map doc_address routes_cli) = {}"
  by (simp add: dead_pages_def routes_cli_def route_eval)

lemma apart_testing: "js ` set dead_pages \<inter> set (map doc_address routes_testing) = {}"
  by (simp add: dead_pages_def routes_testing_def route_eval)

lemma apart_openapi: "js ` set dead_pages \<inter> set (map doc_address routes_openapi) = {}"
  by (simp add: dead_pages_def routes_openapi_def route_eval)

lemma apart_tasks: "js ` set dead_pages \<inter> set (map doc_address routes_tasks) = {}"
  by (simp add: dead_pages_def routes_tasks_def route_eval)

lemma apart_storage: "js ` set dead_pages \<inter> set (map doc_address routes_storage) = {}"
  by (simp add: dead_pages_def routes_storage_def route_eval)

lemma apart_sqlite: "js ` set dead_pages \<inter> set (map doc_address routes_sqlite) = {}"
  by (simp add: dead_pages_def routes_sqlite_def route_eval)

lemma apart_filesystem: "js ` set dead_pages \<inter> set (map doc_address routes_filesystem) = {}"
  by (simp add: dead_pages_def routes_filesystem_def route_eval)

lemma apart_providers_deployment: "js ` set dead_pages \<inter> set (map doc_address routes_providers_deployment) = {}"
  by (simp add: dead_pages_def routes_providers_deployment_def route_eval)

lemma apart_dev_platform: "js ` set dead_pages \<inter> set (map doc_address routes_dev_platform) = {}"
  by (simp add: dead_pages_def routes_dev_platform_def route_eval)

lemma apart_docs_wildcard_404: "js ` set dead_pages \<inter> set (map doc_address routes_docs_wildcard_404) = {}"
  by (simp add: dead_pages_def routes_docs_wildcard_404_def route_eval)

lemma dead_not_declared: "js ` set dead_pages \<inter> set declared_paths = {}"
proof -
  have "js ` set dead_pages \<inter> set (map doc_address doc_routes) = {}"
    unfolding doc_routes_def concat.simps map_append append_Nil2 set_append
    by (simp only: Int_Un_distrib Un_empty_left simp_thms apart_getting_started apart_tutorials apart_server apart_config apart_request_response apart_controllers apart_routing apart_di apart_models apart_fields_subpages apart_relationships_subpages apart_transactions_subpages apart_contracts apart_database apart_auth apart_sessions apart_middleware apart_aquilary apart_subsystem apart_server_sent_events_sse apart_cryptographic_signing apart_faults apart_cache apart_http_client apart_i18n apart_i8n_alias_routes apart_websockets apart_templates apart_mail apart_cli apart_testing apart_openapi apart_tasks apart_storage apart_sqlite apart_filesystem apart_providers_deployment apart_dev_platform apart_docs_wildcard_404)
  moreover have "js ` set dead_pages \<inter> set (map rt_path (site_routes @ fallback_routes)) = {}"
    by (simp add: dead_pages_def site_routes_def fallback_routes_def route_eval)
  ultimately show ?thesis by (auto simp: declared_paths_def)
qed

lemma href_sub: "map f es = map g L \<Longrightarrow> set L \<subseteq> M \<Longrightarrow> M \<subseteq> S \<Longrightarrow> set (map f es) \<subseteq> g ` S"
  by auto

lemma hrefs_serverLifecycle: "set (map de_docsHref entities_serverLifecycle) \<subseteq> (Some \<circ> js) ` (set linked_pages \<union> set dead_pages)"
proof -
  have "map de_docsHref entities_serverLifecycle = map (Some \<circ> js) [
     ''/docs/server/lifecycle'', ''/docs/server/lifecycle'', ''/docs/server/lifecycle'',
     ''/docs/server/lifecycle'', ''/docs/server/lifecycle'']"
    by (simp only: entities_serverLifecycle_def ent_lifecycle_on_startup_def ent_lifecycle_on_shutdown_def ent_lifecycle_coordinator_def ent_lifecycle_on_request_def ent_lifecycle_on_response_def list.map comp_apply doc_entity.select_convs)
  moreover have "set [
     ''/docs/server/lifecycle'', ''/docs/server/lifecycle'', ''/docs/server/lifecycle'',
     ''/docs/server/lifecycle'', ''/docs/server/lifecycle''] \<subseteq> set [
     ''/docs/server/lifecycle'']"
    by (simp only: list.set insert_subset insert_iff simp_thms empty_subsetI)
  moreover have "set [
     ''/docs/server/lifecycle''] \<subseteq> set linked_pages \<union> set dead_pages"
    unfolding linked_pages_def dead_pages_def
    by (simp only: concat.simps append.simps list.set Un_insert_left Un_empty_left insert_subset insert_iff simp_thms empty_subsetI)
  ultimately show ?thesis by (rule href_sub)
qed

lemma hrefs_showcase: "set (map de_docsHref entities_showcase) \<subseteq> (Some \<circ> js) ` (set linked_pages \<union> set dead_pages)"
proof -
  have "map de_docsHref entities_showcase = map (Some \<circ> js) [
     ''/docs/controllers/router'', ''/docs/di/decorators'', ''/docs/models/overview'',
     ''/docs/cli/core'', ''/docs/cli/overview'', ''/docs/cli/commands'',
     ''/docs/cli/commands'', ''/docs/cli/commands'', ''/docs/cli/commands'',
     ''/docs/cli/commands'', ''/docs/cli/commands'', ''/docs/cli/commands'',
     ''/docs/cli/commands'', ''/docs/cli/commands'', ''/docs/cli/commands'',
     ''/docs/cli/commands'', ''/docs/getting-started/project-structure'', ''/docs/getting-started/project-structure'',
     ''/docs/request-response/request'', ''/docs/config/workspace'', ''/docs/config/workspace'',
     ''/docs/config/workspace'', ''/docs/config/modules'', ''/docs/config/integrations'']"
    by (simp only: entities_showcase_def ent_controllers_router_def ent_di_inject_first_def ent_models_user_model_def ent_cli_aquilia_run_def ent_cli_aq_def ent_cli_init_workspace_first_def ent_cli_add_module_first_def ent_cli_inspect_def ent_cli_trace_def ent_cli_serve_first_def ent_cli_compile_first_def ent_cli_freeze_first_def ent_cli_validate_first_def ent_cli_db_makemigrations_first_def ent_cli_db_migrate_first_def ent_cli_deploy_def ent_cli_workspace_py_def ent_cli_dotenv_file_def ent_http_request_type_def ent_config_env_first_def ent_config_secret_first_def ent_config_workspace_first_def ent_config_module_first_def ent_config_integration_def list.map comp_apply doc_entity.select_convs)
  moreover have "set [
     ''/docs/controllers/router'', ''/docs/di/decorators'', ''/docs/models/overview'',
     ''/docs/cli/core'', ''/docs/cli/overview'', ''/docs/cli/commands'',
     ''/docs/cli/commands'', ''/docs/cli/commands'', ''/docs/cli/commands'',
     ''/docs/cli/commands'', ''/docs/cli/commands'', ''/docs/cli/commands'',
     ''/docs/cli/commands'', ''/docs/cli/commands'', ''/docs/cli/commands'',
     ''/docs/cli/commands'', ''/docs/getting-started/project-structure'', ''/docs/getting-started/project-structure'',
     ''/docs/request-response/request'', ''/docs/config/workspace'', ''/docs/config/workspace'',
     ''/docs/config/workspace'', ''/docs/config/modules'', ''/docs/config/integrations''] \<subseteq> set [
     ''/docs/controllers/router'', ''/docs/di/decorators'', ''/docs/models/overview'',
     ''/docs/cli/core'', ''/docs/cli/overview'', ''/docs/cli/commands'',
     ''/docs/getting-started/project-structure'', ''/docs/request-response/request'', ''/docs/config/workspace'',
     ''/docs/config/modules'', ''/docs/config/integrations'']"
    by (simp only: list.set insert_subset insert_iff simp_thms empty_subsetI)
  moreover have "set [
     ''/docs/controllers/router'', ''/docs/di/decorators'', ''/docs/models/overview'',
     ''/docs/cli/core'', ''/docs/cli/overview'', ''/docs/cli/commands'',
     ''/docs/getting-started/project-structure'', ''/docs/request-response/request'', ''/docs/config/workspace'',
     ''/docs/config/modules'', ''/docs/config/integrations''] \<subseteq> set linked_pages \<union> set dead_pages"
    unfolding linked_pages_def dead_pages_def
    by (simp only: concat.simps append.simps list.set Un_insert_left Un_empty_left insert_subset insert_iff simp_thms empty_subsetI)
  ultimately show ?thesis by (rule href_sub)
qed

lemma hrefs_adminPanel: "set (map de_docsHref entities_adminPanel) \<subseteq> (Some \<circ> js) ` (set linked_pages \<union> set dead_pages)"
proof -
  have "map de_docsHref entities_adminPanel = map (Some \<circ> js) [
     ''/docs/getting-started/admin-panel'', ''/docs/getting-started/admin-panel'', ''/docs/getting-started/admin-panel'',
     ''/docs/getting-started/admin-panel'', ''/docs/getting-started/admin-panel'', ''/docs/getting-started/admin-panel'',
     ''/docs/getting-started/admin-panel'', ''/docs/getting-started/admin-panel'', ''/docs/getting-started/admin-panel'',
     ''/docs/getting-started/admin-panel'', ''/docs/getting-started/admin-panel'']"
    by (simp only: entities_adminPanel_def ent_cli_admin_setup_def ent_cli_admin_check_def ent_cli_admin_createsuperuser_def ent_cli_admin_createstaff_def ent_cli_admin_listusers_def ent_cli_admin_changepassword_def ent_cli_admin_status_def ent_cli_admin_audit_def ent_config_admin_integration_def ent_config_admin_modules_def ent_config_admin_security_def list.map comp_apply doc_entity.select_convs)
  moreover have "set [
     ''/docs/getting-started/admin-panel'', ''/docs/getting-started/admin-panel'', ''/docs/getting-started/admin-panel'',
     ''/docs/getting-started/admin-panel'', ''/docs/getting-started/admin-panel'', ''/docs/getting-started/admin-panel'',
     ''/docs/getting-started/admin-panel'', ''/docs/getting-started/admin-panel'', ''/docs/getting-started/admin-panel'',
     ''/docs/getting-started/admin-panel'', ''/docs/getting-started/admin-panel''] \<subseteq> set [
     ''/docs/getting-started/admin-panel'']"
    by (simp only: list.set insert_subset insert_iff simp_thms empty_subsetI)
  moreover have "set [
     ''/docs/getting-started/admin-panel''] \<subseteq> set linked_pages \<union> set dead_pages"
    unfolding linked_pages_def dead_pages_def
    by (simp only: concat.simps append.simps list.set Un_insert_left Un_empty_left insert_subset insert_iff simp_thms empty_subsetI)
  ultimately show ?thesis by (rule href_sub)
qed

lemma hrefs_configEntities: "set (map de_docsHref entities_configEntities) \<subseteq> (Some \<circ> js) ` (set linked_pages \<union> set dead_pages)"
proof -
  have "map de_docsHref entities_configEntities = map (Some \<circ> js) [
     ''/docs/config/workspace'', ''/docs/config/module'', ''/docs/config/manifest'',
     ''/docs/config/pyconfig'', ''/docs/config/pyconfig'', ''/docs/config/pyconfig'',
     ''/docs/config/dotenv'', ''/docs/config/integrations'', ''/docs/config/integrations'',
     ''/docs/config/integrations'']"
    by (simp only: entities_configEntities_def ent_config_workspace_def ent_config_module_def ent_config_appmanifest_def ent_config_aquilaconfig_def ent_config_env_def ent_config_secret_def ent_config_dotenv_def ent_config_database_integration_def ent_config_session_integration_def ent_config_cache_integration_def list.map comp_apply doc_entity.select_convs)
  moreover have "set [
     ''/docs/config/workspace'', ''/docs/config/module'', ''/docs/config/manifest'',
     ''/docs/config/pyconfig'', ''/docs/config/pyconfig'', ''/docs/config/pyconfig'',
     ''/docs/config/dotenv'', ''/docs/config/integrations'', ''/docs/config/integrations'',
     ''/docs/config/integrations''] \<subseteq> set [
     ''/docs/config/workspace'', ''/docs/config/module'', ''/docs/config/manifest'',
     ''/docs/config/pyconfig'', ''/docs/config/dotenv'', ''/docs/config/integrations'']"
    by (simp only: list.set insert_subset insert_iff simp_thms empty_subsetI)
  moreover have "set [
     ''/docs/config/workspace'', ''/docs/config/module'', ''/docs/config/manifest'',
     ''/docs/config/pyconfig'', ''/docs/config/dotenv'', ''/docs/config/integrations''] \<subseteq> set linked_pages \<union> set dead_pages"
    unfolding linked_pages_def dead_pages_def
    by (simp only: concat.simps append.simps list.set Un_insert_left Un_empty_left insert_subset insert_iff simp_thms empty_subsetI)
  ultimately show ?thesis by (rule href_sub)
qed

lemma hrefs_requestResponse: "set (map de_docsHref entities_requestResponse) \<subseteq> (Some \<circ> js) ` (set linked_pages \<union> set dead_pages)"
proof -
  have "map de_docsHref entities_requestResponse = map (Some \<circ> js) [
     ''/docs/request-response/request'', ''/docs/request-response/response'', ''/docs/request-response/data-structures'',
     ''/docs/request-response/data-structures'', ''/docs/request-response/response'', ''/docs/request-response/uploads'',
     ''/docs/request-response/uploads'']"
    by (simp only: entities_requestResponse_def ent_reqres_request_def ent_reqres_response_def ent_reqres_multidict_def ent_reqres_headers_def ent_reqres_cookiesigner_def ent_reqres_uploadfile_def ent_reqres_formdata_def list.map comp_apply doc_entity.select_convs)
  moreover have "set [
     ''/docs/request-response/request'', ''/docs/request-response/response'', ''/docs/request-response/data-structures'',
     ''/docs/request-response/data-structures'', ''/docs/request-response/response'', ''/docs/request-response/uploads'',
     ''/docs/request-response/uploads''] \<subseteq> set [
     ''/docs/request-response/request'', ''/docs/request-response/response'', ''/docs/request-response/data-structures'',
     ''/docs/request-response/uploads'']"
    by (simp only: list.set insert_subset insert_iff simp_thms empty_subsetI)
  moreover have "set [
     ''/docs/request-response/request'', ''/docs/request-response/response'', ''/docs/request-response/data-structures'',
     ''/docs/request-response/uploads''] \<subseteq> set linked_pages \<union> set dead_pages"
    unfolding linked_pages_def dead_pages_def
    by (simp only: concat.simps append.simps list.set Un_insert_left Un_empty_left insert_subset insert_iff simp_thms empty_subsetI)
  ultimately show ?thesis by (rule href_sub)
qed

lemma hrefs_controllers: "set (map de_docsHref entities_controllers) \<subseteq> (Some \<circ> js) ` (set linked_pages \<union> set dead_pages)"
proof -
  have "map de_docsHref entities_controllers = map (Some \<circ> js) [
     ''/docs/controllers/overview'', ''/docs/controllers/request-ctx'', ''/docs/controllers/overview'',
     ''/docs/controllers/overview'', ''/docs/controllers/overview'', ''/docs/controllers/validation'',
     ''/docs/controllers/decorators/get'', ''/docs/controllers/decorators/post'', ''/docs/controllers/attributes'']"
    by (simp only: entities_controllers_def ent_controller_controller_def ent_controller_requestctx_def ent_controller_exceptionfilter_def ent_controller_interceptor_def ent_controller_throttle_def ent_controller_validate_body_def ent_controller_get_def ent_controller_post_def ent_controller_attributes_def list.map comp_apply doc_entity.select_convs)
  moreover have "set [
     ''/docs/controllers/overview'', ''/docs/controllers/request-ctx'', ''/docs/controllers/overview'',
     ''/docs/controllers/overview'', ''/docs/controllers/overview'', ''/docs/controllers/validation'',
     ''/docs/controllers/decorators/get'', ''/docs/controllers/decorators/post'', ''/docs/controllers/attributes''] \<subseteq> set [
     ''/docs/controllers/overview'', ''/docs/controllers/request-ctx'', ''/docs/controllers/validation'',
     ''/docs/controllers/decorators/get'', ''/docs/controllers/decorators/post'', ''/docs/controllers/attributes'']"
    by (simp only: list.set insert_subset insert_iff simp_thms empty_subsetI)
  moreover have "set [
     ''/docs/controllers/overview'', ''/docs/controllers/request-ctx'', ''/docs/controllers/validation'',
     ''/docs/controllers/decorators/get'', ''/docs/controllers/decorators/post'', ''/docs/controllers/attributes''] \<subseteq> set linked_pages \<union> set dead_pages"
    unfolding linked_pages_def dead_pages_def
    by (simp only: concat.simps append.simps list.set Un_insert_left Un_empty_left insert_subset insert_iff simp_thms empty_subsetI)
  ultimately show ?thesis by (rule href_sub)
qed

lemma hrefs_ormEntities: "set (map de_docsHref entities_ormEntities) \<subseteq> (Some \<circ> js) ` (set linked_pages \<union> set dead_pages)"
proof -
  have "map de_docsHref entities_ormEntities = map (Some \<circ> js) [
     ''/docs/models/overview'', ''/docs/models/overview'', ''/docs/models/overview'',
     ''/docs/models/overview'', ''/docs/models/overview'', ''/docs/models/queryset'',
     ''/docs/models/queryset'', ''/docs/models/queryset'', ''/docs/models/queryset'',
     ''/docs/models/relationships'', ''/docs/models/relationships'', ''/docs/models/aggregation'',
     ''/docs/models/queryset'', ''/docs/models/queryset'', ''/docs/models/transactions'',
     ''/docs/models/signals'', ''/docs/models/signals'', ''/docs/models/signals'',
     ''/docs/models/overview'', ''/docs/models/migrations'', ''/docs/models/migrations'',
     ''/docs/models/migrations'', ''/docs/models/migrations'', ''/docs/models/migrations'',
     ''/docs/models/aggregation'', ''/docs/models/aggregation'', ''/docs/models/aggregation'',
     ''/docs/models/migrations'', ''/docs/models/queryset'', ''/docs/models/queryset'',
     ''/docs/models/queryset'', ''/docs/models/bulk-operations'', ''/docs/models/bulk-operations'',
     ''/docs/models/queryset'']"
    by (simp only: entities_ormEntities_def ent_orm_model_def ent_orm_model_save_def ent_orm_model_delete_instance_def ent_orm_model_full_clean_def ent_orm_model_to_dict_def ent_orm_manager_def ent_orm_queryset_def ent_orm_queryset_filter_def ent_orm_queryset_exclude_def ent_orm_queryset_select_related_def ent_orm_queryset_prefetch_related_def ent_orm_queryset_annotate_def ent_orm_q_def ent_orm_f_def ent_orm_atomic_def ent_orm_signal_pre_save_def ent_orm_signal_post_save_def ent_orm_signal_post_delete_def ent_orm_meta_def ent_orm_migration_engine_def ent_orm_project_state_def ent_orm_migration_graph_def ent_orm_migration_status_def ent_orm_autodetector_def ent_orm_count_def ent_orm_sum_def ent_orm_avg_def ent_orm_registry_def ent_orm_queryset_values_def ent_orm_queryset_values_list_def ent_orm_queryset_exists_def ent_orm_queryset_delete_def ent_orm_queryset_update_def ent_orm_queryset_none_def list.map comp_apply doc_entity.select_convs)
  moreover have "set [
     ''/docs/models/overview'', ''/docs/models/overview'', ''/docs/models/overview'',
     ''/docs/models/overview'', ''/docs/models/overview'', ''/docs/models/queryset'',
     ''/docs/models/queryset'', ''/docs/models/queryset'', ''/docs/models/queryset'',
     ''/docs/models/relationships'', ''/docs/models/relationships'', ''/docs/models/aggregation'',
     ''/docs/models/queryset'', ''/docs/models/queryset'', ''/docs/models/transactions'',
     ''/docs/models/signals'', ''/docs/models/signals'', ''/docs/models/signals'',
     ''/docs/models/overview'', ''/docs/models/migrations'', ''/docs/models/migrations'',
     ''/docs/models/migrations'', ''/docs/models/migrations'', ''/docs/models/migrations'',
     ''/docs/models/aggregation'', ''/docs/models/aggregation'', ''/docs/models/aggregation'',
     ''/docs/models/migrations'', ''/docs/models/queryset'', ''/docs/models/queryset'',
     ''/docs/models/queryset'', ''/docs/models/bulk-operations'', ''/docs/models/bulk-operations'',
     ''/docs/models/queryset''] \<subseteq> set [
     ''/docs/models/overview'', ''/docs/models/queryset'', ''/docs/models/relationships'',
     ''/docs/models/aggregation'', ''/docs/models/transactions'', ''/docs/models/signals'',
     ''/docs/models/migrations'', ''/docs/models/bulk-operations'']"
    by (simp only: list.set insert_subset insert_iff simp_thms empty_subsetI)
  moreover have "set [
     ''/docs/models/overview'', ''/docs/models/queryset'', ''/docs/models/relationships'',
     ''/docs/models/aggregation'', ''/docs/models/transactions'', ''/docs/models/signals'',
     ''/docs/models/migrations'', ''/docs/models/bulk-operations''] \<subseteq> set linked_pages \<union> set dead_pages"
    unfolding linked_pages_def dead_pages_def
    by (simp only: concat.simps append.simps list.set Un_insert_left Un_empty_left insert_subset insert_iff simp_thms empty_subsetI)
  ultimately show ?thesis by (rule href_sub)
qed

lemma hrefs_dbEntities: "set (map de_docsHref entities_dbEntities) \<subseteq> (Some \<circ> js) ` (set linked_pages \<union> set dead_pages)"
proof -
  have "map de_docsHref entities_dbEntities = map (Some \<circ> js) [
     ''/docs/database/engine'', ''/docs/database/engine'', ''/docs/database/engine'',
     ''/docs/database/engine'', ''/docs/database/engine'', ''/docs/database/engine'',
     ''/docs/database/engine'', ''/docs/database/engine'', ''/docs/database/engine'',
     ''/docs/database/engine'', ''/docs/database/engine'', ''/docs/database/engine'',
     ''/docs/database/engine'', ''/docs/database/configs'', ''/docs/database/configs'',
     ''/docs/database/configs'', ''/docs/database/configs'', ''/docs/sqlite/inline'']"
    by (simp only: entities_dbEntities_def ent_db_aquilia_database_def ent_db_execute_def ent_db_fetch_all_def ent_db_fetch_one_def ent_db_fetch_val_def ent_db_execute_many_def ent_db_transaction_def ent_db_savepoint_def ent_db_table_exists_def ent_db_get_tables_def ent_db_get_columns_def ent_db_configure_database_def ent_db_get_database_def ent_db_sqlite_config_def ent_db_postgres_config_def ent_db_mysql_config_def ent_db_oracle_config_def ent_db_inline_policy_def list.map comp_apply doc_entity.select_convs)
  moreover have "set [
     ''/docs/database/engine'', ''/docs/database/engine'', ''/docs/database/engine'',
     ''/docs/database/engine'', ''/docs/database/engine'', ''/docs/database/engine'',
     ''/docs/database/engine'', ''/docs/database/engine'', ''/docs/database/engine'',
     ''/docs/database/engine'', ''/docs/database/engine'', ''/docs/database/engine'',
     ''/docs/database/engine'', ''/docs/database/configs'', ''/docs/database/configs'',
     ''/docs/database/configs'', ''/docs/database/configs'', ''/docs/sqlite/inline''] \<subseteq> set [
     ''/docs/database/engine'', ''/docs/database/configs'', ''/docs/sqlite/inline'']"
    by (simp only: list.set insert_subset insert_iff simp_thms empty_subsetI)
  moreover have "set [
     ''/docs/database/engine'', ''/docs/database/configs'', ''/docs/sqlite/inline''] \<subseteq> set linked_pages \<union> set dead_pages"
    unfolding linked_pages_def dead_pages_def
    by (simp only: concat.simps append.simps list.set Un_insert_left Un_empty_left insert_subset insert_iff simp_thms empty_subsetI)
  ultimately show ?thesis by (rule href_sub)
qed

lemma hrefs_contractEntities: "set (map de_docsHref entities_contractEntities) \<subseteq> (Some \<circ> js) ` (set linked_pages \<union> set dead_pages)"
proof -
  have "map de_docsHref entities_contractEntities = map (Some \<circ> js) [
     ''/docs/contracts/overview'', ''/docs/contracts/overview'', ''/docs/contracts/facets'',
     ''/docs/contracts/facets'', ''/docs/contracts/facets'', ''/docs/contracts/facets'',
     ''/docs/contracts/facets'', ''/docs/contracts/lenses'', ''/docs/contracts/seals'',
     ''/docs/contracts/seals'', ''/docs/contracts/seals'', ''/docs/contracts/projections'',
     ''/docs/contracts/integration'', ''/docs/contracts/integration'', ''/docs/contracts/faults'',
     ''/docs/contracts/faults'', ''/docs/contracts/schemas'', ''/docs/contracts/annotations'']"
    by (simp only: entities_contractEntities_def ent_bp_contract_def ent_bp_spec_def ent_bp_facet_def ent_bp_text_facet_def ent_bp_int_facet_def ent_bp_computed_facet_def ent_bp_computed_decorator_def ent_bp_lens_def ent_bp_ward_def ent_bp_is_sealed_def ent_bp_imprint_def ent_bp_projection_def ent_bp_request_contract_def ent_bp_response_contract_def ent_bp_seal_fault_def ent_bp_cast_fault_def ent_bp_generate_schema_def ent_bp_sigil_def list.map comp_apply doc_entity.select_convs)
  moreover have "set [
     ''/docs/contracts/overview'', ''/docs/contracts/overview'', ''/docs/contracts/facets'',
     ''/docs/contracts/facets'', ''/docs/contracts/facets'', ''/docs/contracts/facets'',
     ''/docs/contracts/facets'', ''/docs/contracts/lenses'', ''/docs/contracts/seals'',
     ''/docs/contracts/seals'', ''/docs/contracts/seals'', ''/docs/contracts/projections'',
     ''/docs/contracts/integration'', ''/docs/contracts/integration'', ''/docs/contracts/faults'',
     ''/docs/contracts/faults'', ''/docs/contracts/schemas'', ''/docs/contracts/annotations''] \<subseteq> set [
     ''/docs/contracts/overview'', ''/docs/contracts/facets'', ''/docs/contracts/lenses'',
     ''/docs/contracts/seals'', ''/docs/contracts/projections'', ''/docs/contracts/integration'',
     ''/docs/contracts/faults'', ''/docs/contracts/schemas'', ''/docs/contracts/annotations'']"
    by (simp only: list.set insert_subset insert_iff simp_thms empty_subsetI)
  moreover have "set [
     ''/docs/contracts/overview'', ''/docs/contracts/facets'', ''/docs/contracts/lenses'',
     ''/docs/contracts/seals'', ''/docs/contracts/projections'', ''/docs/contracts/integration'',
     ''/docs/contracts/faults'', ''/docs/contracts/schemas'', ''/docs/contracts/annotations''] \<subseteq> set linked_pages \<union> set dead_pages"
    unfolding linked_pages_def dead_pages_def
    by (simp only: concat.simps append.simps list.set Un_insert_left Un_empty_left insert_subset insert_iff simp_thms empty_subsetI)
  ultimately show ?thesis by (rule href_sub)
qed

lemma hrefs_diEntities: "set (map de_docsHref entities_diEntities) \<subseteq> (Some \<circ> js) ` (set linked_pages \<union> set dead_pages)"
proof -
  have "map de_docsHref entities_diEntities = map (Some \<circ> js) [
     ''/docs/di/container'', ''/docs/di/providers'', ''/docs/di/providers'',
     ''/docs/di/providers'', ''/docs/di/providers'', ''/docs/di/providers'',
     ''/docs/di/providers'', ''/docs/di/providers'', ''/docs/di/providers'',
     ''/docs/di/decorators'', ''/docs/di/request-dag'', ''/docs/di/request-dag'',
     ''/docs/di/decorators'', ''/docs/di/scopes'', ''/docs/di/overview'',
     ''/docs/di/overview'', ''/docs/di/overview'', ''/docs/di/overview'',
     ''/docs/di/overview'', ''/docs/di/overview'', ''/docs/di/overview'',
     ''/docs/di/overview'', ''/docs/di/overview'', ''/docs/di/overview'',
     ''/docs/di/overview'', ''/docs/di/overview'', ''/docs/di/overview'',
     ''/docs/di/overview'']"
    by (simp only: entities_diEntities_def ent_di_container_def ent_di_class_provider_def ent_di_factory_provider_def ent_di_value_provider_def ent_di_pool_provider_def ent_di_alias_provider_def ent_di_lazy_proxy_provider_def ent_di_scoped_provider_def ent_di_contract_provider_def ent_di_inject_def ent_di_dep_def ent_di_request_dag_def ent_di_service_def ent_di_scopes_def ent_di_provider_not_found_error_def ent_di_dependency_cycle_error_def ent_di_scope_violation_error_def ent_di_ambiguous_provider_error_def ent_di_manifest_validation_error_def ent_di_cross_app_dependency_error_def ent_di_circular_dependency_error_def ent_di_missing_dependency_error_def ent_di_cli_di_check_def ent_di_cli_di_tree_def ent_di_cli_di_graph_def ent_di_cli_di_profile_def ent_di_cli_di_manifest_def ent_di_settings_def list.map comp_apply doc_entity.select_convs)
  moreover have "set [
     ''/docs/di/container'', ''/docs/di/providers'', ''/docs/di/providers'',
     ''/docs/di/providers'', ''/docs/di/providers'', ''/docs/di/providers'',
     ''/docs/di/providers'', ''/docs/di/providers'', ''/docs/di/providers'',
     ''/docs/di/decorators'', ''/docs/di/request-dag'', ''/docs/di/request-dag'',
     ''/docs/di/decorators'', ''/docs/di/scopes'', ''/docs/di/overview'',
     ''/docs/di/overview'', ''/docs/di/overview'', ''/docs/di/overview'',
     ''/docs/di/overview'', ''/docs/di/overview'', ''/docs/di/overview'',
     ''/docs/di/overview'', ''/docs/di/overview'', ''/docs/di/overview'',
     ''/docs/di/overview'', ''/docs/di/overview'', ''/docs/di/overview'',
     ''/docs/di/overview''] \<subseteq> set [
     ''/docs/di/container'', ''/docs/di/providers'', ''/docs/di/decorators'',
     ''/docs/di/request-dag'', ''/docs/di/scopes'', ''/docs/di/overview'']"
    by (simp only: list.set insert_subset insert_iff simp_thms empty_subsetI)
  moreover have "set [
     ''/docs/di/container'', ''/docs/di/providers'', ''/docs/di/decorators'',
     ''/docs/di/request-dag'', ''/docs/di/scopes'', ''/docs/di/overview''] \<subseteq> set linked_pages \<union> set dead_pages"
    unfolding linked_pages_def dead_pages_def
    by (simp only: concat.simps append.simps list.set Un_insert_left Un_empty_left insert_subset insert_iff simp_thms empty_subsetI)
  ultimately show ?thesis by (rule href_sub)
qed

lemma hrefs_authEntities: "set (map de_docsHref entities_authEntities) \<subseteq> (Some \<circ> js) ` (set linked_pages \<union> set dead_pages)"
proof -
  have "map de_docsHref entities_authEntities = map (Some \<circ> js) [
     ''/docs/auth/identity'', ''/docs/auth/manager'', ''/docs/auth/guards'',
     ''/docs/auth/guards'', ''/docs/auth/guards'', ''/docs/auth/guards'',
     ''/docs/authz'', ''/docs/auth/guards'', ''/docs/auth/manager'',
     ''/docs/auth/integration'', ''/docs/auth/tokens'', ''/docs/auth/credentials'',
     ''/docs/auth/credentials'', ''/docs/auth/guards'', ''/docs/auth/guards'',
     ''/docs/auth/guards'', ''/docs/auth/guards'', ''/docs/authz/rbac'',
     ''/docs/authz/abac'', ''/docs/auth/integration'', ''/docs/auth/integration'']"
    by (simp only: entities_authEntities_def ent_auth_identity_def ent_auth_auth_result_def ent_auth_authenticated_def ent_auth_roles_required_def ent_auth_scopes_required_def ent_auth_optional_auth_def ent_auth_authz_engine_def ent_auth_permission_engine_def ent_auth_auth_manager_def ent_auth_auth_middleware_def ent_auth_token_manager_def ent_auth_password_credential_def ent_auth_api_key_credential_def ent_auth_auth_guard_def ent_auth_role_guard_def ent_auth_scope_guard_def ent_auth_policy_guard_def ent_auth_rbac_engine_def ent_auth_abac_engine_def ent_auth_password_backend_def ent_auth_token_backend_def list.map comp_apply doc_entity.select_convs)
  moreover have "set [
     ''/docs/auth/identity'', ''/docs/auth/manager'', ''/docs/auth/guards'',
     ''/docs/auth/guards'', ''/docs/auth/guards'', ''/docs/auth/guards'',
     ''/docs/authz'', ''/docs/auth/guards'', ''/docs/auth/manager'',
     ''/docs/auth/integration'', ''/docs/auth/tokens'', ''/docs/auth/credentials'',
     ''/docs/auth/credentials'', ''/docs/auth/guards'', ''/docs/auth/guards'',
     ''/docs/auth/guards'', ''/docs/auth/guards'', ''/docs/authz/rbac'',
     ''/docs/authz/abac'', ''/docs/auth/integration'', ''/docs/auth/integration''] \<subseteq> set [
     ''/docs/auth/identity'', ''/docs/auth/manager'', ''/docs/auth/guards'',
     ''/docs/authz'', ''/docs/auth/integration'', ''/docs/auth/tokens'',
     ''/docs/auth/credentials'', ''/docs/authz/rbac'', ''/docs/authz/abac'']"
    by (simp only: list.set insert_subset insert_iff simp_thms empty_subsetI)
  moreover have "set [
     ''/docs/auth/identity'', ''/docs/auth/manager'', ''/docs/auth/guards'',
     ''/docs/authz'', ''/docs/auth/integration'', ''/docs/auth/tokens'',
     ''/docs/auth/credentials'', ''/docs/authz/rbac'', ''/docs/authz/abac''] \<subseteq> set linked_pages \<union> set dead_pages"
    unfolding linked_pages_def dead_pages_def
    by (simp only: concat.simps append.simps list.set Un_insert_left Un_empty_left insert_subset insert_iff simp_thms empty_subsetI)
  ultimately show ?thesis by (rule href_sub)
qed

lemma hrefs_sessionsEntities: "set (map de_docsHref entities_sessionsEntities) \<subseteq> (Some \<circ> js) ` (set linked_pages \<union> set dead_pages)"
proof -
  have "map de_docsHref entities_sessionsEntities = map (Some \<circ> js) [
     ''/docs/sessions/overview'', ''/docs/sessions/overview'', ''/docs/sessions/overview'',
     ''/docs/sessions/overview'', ''/docs/sessions/overview'', ''/docs/sessions/policies'',
     ''/docs/sessions/policies'', ''/docs/sessions/engine'', ''/docs/sessions/stores'',
     ''/docs/sessions/stores'', ''/docs/sessions/stores'', ''/docs/sessions/transport'',
     ''/docs/sessions/transport'', ''/docs/sessions/transport'', ''/docs/sessions/decorators'',
     ''/docs/sessions/decorators'', ''/docs/sessions/decorators'', ''/docs/sessions/decorators'',
     ''/docs/sessions/guards'', ''/docs/sessions/state'', ''/docs/sessions/state'',
     ''/docs/sessions/faults'', ''/docs/sessions/faults'', ''/docs/sessions/faults'',
     ''/docs/sessions/faults'', ''/docs/sessions/faults'', ''/docs/sessions/faults'']"
    by (simp only: entities_sessionsEntities_def ent_sessions_session_id_def ent_sessions_session_def ent_sessions_principal_def ent_sessions_scope_def ent_sessions_flag_def ent_sessions_policy_def ent_sessions_policy_builder_def ent_sessions_engine_def ent_sessions_store_def ent_sessions_memory_store_def ent_sessions_file_store_def ent_sessions_transport_def ent_sessions_cookie_transport_def ent_sessions_header_transport_def ent_sessions_decorator_require_def ent_sessions_decorator_ensure_def ent_sessions_decorator_optional_def ent_sessions_decorator_stateful_def ent_sessions_context_def ent_sessions_state_def ent_sessions_field_def ent_sessions_fault_def ent_sessions_expired_fault_def ent_sessions_idle_timeout_fault_def ent_sessions_absolute_timeout_fault_def ent_sessions_concurrency_fault_def ent_sessions_hijack_fault_def list.map comp_apply doc_entity.select_convs)
  moreover have "set [
     ''/docs/sessions/overview'', ''/docs/sessions/overview'', ''/docs/sessions/overview'',
     ''/docs/sessions/overview'', ''/docs/sessions/overview'', ''/docs/sessions/policies'',
     ''/docs/sessions/policies'', ''/docs/sessions/engine'', ''/docs/sessions/stores'',
     ''/docs/sessions/stores'', ''/docs/sessions/stores'', ''/docs/sessions/transport'',
     ''/docs/sessions/transport'', ''/docs/sessions/transport'', ''/docs/sessions/decorators'',
     ''/docs/sessions/decorators'', ''/docs/sessions/decorators'', ''/docs/sessions/decorators'',
     ''/docs/sessions/guards'', ''/docs/sessions/state'', ''/docs/sessions/state'',
     ''/docs/sessions/faults'', ''/docs/sessions/faults'', ''/docs/sessions/faults'',
     ''/docs/sessions/faults'', ''/docs/sessions/faults'', ''/docs/sessions/faults''] \<subseteq> set [
     ''/docs/sessions/overview'', ''/docs/sessions/policies'', ''/docs/sessions/engine'',
     ''/docs/sessions/stores'', ''/docs/sessions/transport'', ''/docs/sessions/decorators'',
     ''/docs/sessions/guards'', ''/docs/sessions/state'', ''/docs/sessions/faults'']"
    by (simp only: list.set insert_subset insert_iff simp_thms empty_subsetI)
  moreover have "set [
     ''/docs/sessions/overview'', ''/docs/sessions/policies'', ''/docs/sessions/engine'',
     ''/docs/sessions/stores'', ''/docs/sessions/transport'', ''/docs/sessions/decorators'',
     ''/docs/sessions/guards'', ''/docs/sessions/state'', ''/docs/sessions/faults''] \<subseteq> set linked_pages \<union> set dead_pages"
    unfolding linked_pages_def dead_pages_def
    by (simp only: concat.simps append.simps list.set Un_insert_left Un_empty_left insert_subset insert_iff simp_thms empty_subsetI)
  ultimately show ?thesis by (rule href_sub)
qed

lemma hrefs_subsystemEntities: "set (map de_docsHref entities_subsystemEntities) \<subseteq> (Some \<circ> js) ` (set linked_pages \<union> set dead_pages)"
proof -
  have "map de_docsHref entities_subsystemEntities = map (Some \<circ> js) [
     ''/docs/tasks/overview'', ''/docs/tasks/overview'', ''/docs/tasks/api'',
     ''/docs/tasks/configuration'', ''/docs/tasks/api'', ''/docs/tasks/scheduling'',
     ''/docs/tasks/scheduling'', ''/docs/storage/api'', ''/docs/storage/api'',
     ''/docs/storage/configuration'', ''/docs/storage/configuration'', ''/docs/storage/configuration'',
     ''/docs/storage/api'', ''/docs/sqlite/pool'', ''/docs/sqlite/pool'',
     ''/docs/sqlite/api'', ''/docs/sqlite/pool'', ''/docs/sqlite/overview'',
     ''/docs/filesystem/overview'', ''/docs/filesystem/operations'', ''/docs/filesystem/overview'',
     ''/docs/filesystem/api'', ''/docs/filesystem/operations'', ''/docs/filesystem/operations'',
     ''/docs/filesystem/operations'', ''/docs/filesystem/operations'', ''/docs/filesystem/operations'',
     ''/docs/filesystem/operations'', ''/docs/filesystem/operations'', ''/docs/filesystem/operations'',
     ''/docs/filesystem/operations'', ''/docs/filesystem/operations'', ''/docs/filesystem/operations'',
     ''/docs/filesystem/operations'', ''/docs/artifacts/store'', ''/docs/artifacts/envelope'',
     ''/docs/artifacts/backend'', ''/docs/artifacts/registry'', ''/docs/subsystem/native'']"
    by (simp only: entities_subsystemEntities_def ent_tasks_task_def ent_tasks_Priority_def ent_tasks_TaskManager_def ent_tasks_MemoryBackend_def ent_tasks_Job_def ent_tasks_every_def ent_tasks_cron_def ent_storage_StorageBackend_def ent_storage_StorageFile_def ent_storage_StorageRegistry_def ent_storage_LocalConfig_def ent_storage_S3Config_def ent_storage_StorageMetadata_def ent_sqlite_create_pool_def ent_sqlite_ConnectionPool_def ent_sqlite_AsyncConnection_def ent_sqlite_SqlitePoolConfig_def ent_sqlite_SqliteService_def ent_filesystem_FileSystem_def ent_filesystem_AsyncPath_def ent_filesystem_FileSystemConfig_def ent_filesystem_async_open_def ent_filesystem_read_file_def ent_filesystem_write_file_def ent_filesystem_append_file_def ent_filesystem_copy_file_def ent_filesystem_move_file_def ent_filesystem_delete_file_def ent_filesystem_file_exists_def ent_filesystem_file_stat_def ent_filesystem_list_dir_def ent_filesystem_make_dir_def ent_filesystem_remove_dir_def ent_filesystem_remove_tree_def ent_artifacts_ArtifactStore_def ent_artifacts_ArtifactEnvelope_def ent_artifacts_JSONFileBackend_def ent_artifacts_ArtifactRegistry_def ent_native_extensions_def list.map comp_apply doc_entity.select_convs)
  moreover have "set [
     ''/docs/tasks/overview'', ''/docs/tasks/overview'', ''/docs/tasks/api'',
     ''/docs/tasks/configuration'', ''/docs/tasks/api'', ''/docs/tasks/scheduling'',
     ''/docs/tasks/scheduling'', ''/docs/storage/api'', ''/docs/storage/api'',
     ''/docs/storage/configuration'', ''/docs/storage/configuration'', ''/docs/storage/configuration'',
     ''/docs/storage/api'', ''/docs/sqlite/pool'', ''/docs/sqlite/pool'',
     ''/docs/sqlite/api'', ''/docs/sqlite/pool'', ''/docs/sqlite/overview'',
     ''/docs/filesystem/overview'', ''/docs/filesystem/operations'', ''/docs/filesystem/overview'',
     ''/docs/filesystem/api'', ''/docs/filesystem/operations'', ''/docs/filesystem/operations'',
     ''/docs/filesystem/operations'', ''/docs/filesystem/operations'', ''/docs/filesystem/operations'',
     ''/docs/filesystem/operations'', ''/docs/filesystem/operations'', ''/docs/filesystem/operations'',
     ''/docs/filesystem/operations'', ''/docs/filesystem/operations'', ''/docs/filesystem/operations'',
     ''/docs/filesystem/operations'', ''/docs/artifacts/store'', ''/docs/artifacts/envelope'',
     ''/docs/artifacts/backend'', ''/docs/artifacts/registry'', ''/docs/subsystem/native''] \<subseteq> set [
     ''/docs/tasks/overview'', ''/docs/tasks/api'', ''/docs/tasks/configuration'',
     ''/docs/tasks/scheduling'', ''/docs/storage/api'', ''/docs/storage/configuration'',
     ''/docs/sqlite/pool'', ''/docs/sqlite/api'', ''/docs/sqlite/overview'',
     ''/docs/filesystem/overview'', ''/docs/filesystem/operations'', ''/docs/filesystem/api'',
     ''/docs/artifacts/store'', ''/docs/artifacts/envelope'', ''/docs/artifacts/backend'',
     ''/docs/artifacts/registry'', ''/docs/subsystem/native'']"
    by (simp only: list.set insert_subset insert_iff simp_thms empty_subsetI)
  moreover have "set [
     ''/docs/tasks/overview'', ''/docs/tasks/api'', ''/docs/tasks/configuration'',
     ''/docs/tasks/scheduling'', ''/docs/storage/api'', ''/docs/storage/configuration'',
     ''/docs/sqlite/pool'', ''/docs/sqlite/api'', ''/docs/sqlite/overview'',
     ''/docs/filesystem/overview'', ''/docs/filesystem/operations'', ''/docs/filesystem/api'',
     ''/docs/artifacts/store'', ''/docs/artifacts/envelope'', ''/docs/artifacts/backend'',
     ''/docs/artifacts/registry'', ''/docs/subsystem/native''] \<subseteq> set linked_pages \<union> set dead_pages"
    unfolding linked_pages_def dead_pages_def
    by (simp only: concat.simps append.simps list.set Un_insert_left Un_empty_left insert_subset insert_iff simp_thms empty_subsetI)
  ultimately show ?thesis by (rule href_sub)
qed

lemma hrefs_cliEntities: "set (map de_docsHref entities_cliEntities) \<subseteq> (Some \<circ> js) ` (set linked_pages \<union> set dead_pages)"
proof -
  have "map de_docsHref entities_cliEntities = map (Some \<circ> js) [
     ''/docs/cli/core'', ''/docs/cli/core'', ''/docs/cli/generators'',
     ''/docs/cli/core'', ''/docs/cli/core'', ''/docs/cli/core'',
     ''/docs/cli/core'', ''/docs/cli/core'', ''/docs/cli/core'',
     ''/docs/cli/core'', ''/docs/cli/database'', ''/docs/cli/database'',
     ''/docs/cli/websockets'', ''/docs/testing/runner'', ''/docs/artifacts/cli'',
     ''/docs/artifacts/cli'', ''/docs/artifacts/cli'']"
    by (simp only: entities_cliEntities_def ent_cli_init_workspace_def ent_cli_add_module_def ent_cli_generate_controller_def ent_cli_validate_def ent_cli_compile_def ent_cli_run_def ent_cli_serve_def ent_cli_freeze_def ent_cli_manifest_update_def ent_cli_doctor_def ent_cli_db_makemigrations_def ent_cli_db_migrate_def ent_cli_ws_gen_client_def ent_cli_test_def ent_cli_artifacts_status_def ent_cli_artifacts_verify_def ent_cli_artifacts_clean_def list.map comp_apply doc_entity.select_convs)
  moreover have "set [
     ''/docs/cli/core'', ''/docs/cli/core'', ''/docs/cli/generators'',
     ''/docs/cli/core'', ''/docs/cli/core'', ''/docs/cli/core'',
     ''/docs/cli/core'', ''/docs/cli/core'', ''/docs/cli/core'',
     ''/docs/cli/core'', ''/docs/cli/database'', ''/docs/cli/database'',
     ''/docs/cli/websockets'', ''/docs/testing/runner'', ''/docs/artifacts/cli'',
     ''/docs/artifacts/cli'', ''/docs/artifacts/cli''] \<subseteq> set [
     ''/docs/cli/core'', ''/docs/cli/generators'', ''/docs/cli/database'',
     ''/docs/cli/websockets'', ''/docs/testing/runner'', ''/docs/artifacts/cli'']"
    by (simp only: list.set insert_subset insert_iff simp_thms empty_subsetI)
  moreover have "set [
     ''/docs/cli/core'', ''/docs/cli/generators'', ''/docs/cli/database'',
     ''/docs/cli/websockets'', ''/docs/testing/runner'', ''/docs/artifacts/cli''] \<subseteq> set linked_pages \<union> set dead_pages"
    unfolding linked_pages_def dead_pages_def
    by (simp only: concat.simps append.simps list.set Un_insert_left Un_empty_left insert_subset insert_iff simp_thms empty_subsetI)
  ultimately show ?thesis by (rule href_sub)
qed

lemma hrefs_testingEntities: "set (map de_docsHref entities_testingEntities) \<subseteq> (Some \<circ> js) ` (set linked_pages \<union> set dead_pages)"
proof -
  have "map de_docsHref entities_testingEntities = map (Some \<circ> js) [
     ''/docs/testing/client'', ''/docs/testing/client'', ''/docs/testing/cases'',
     ''/docs/testing/cases'', ''/docs/testing/cases'', ''/docs/testing/cases'',
     ''/docs/testing/cases'', ''/docs/testing/mocks'', ''/docs/testing/mocks'',
     ''/docs/testing/mocks'', ''/docs/testing/mocks'', ''/docs/testing/mocks'']"
    by (simp only: entities_testingEntities_def ent_testing_test_client_def ent_testing_websocket_client_def ent_testing_simple_test_case_def ent_testing_aquilia_test_case_def ent_testing_transaction_test_case_def ent_testing_live_server_test_case_def ent_testing_override_settings_def ent_testing_mock_fault_engine_def ent_testing_mock_effect_registry_def ent_testing_mock_provider_def ent_testing_spy_provider_def ent_testing_override_provider_def list.map comp_apply doc_entity.select_convs)
  moreover have "set [
     ''/docs/testing/client'', ''/docs/testing/client'', ''/docs/testing/cases'',
     ''/docs/testing/cases'', ''/docs/testing/cases'', ''/docs/testing/cases'',
     ''/docs/testing/cases'', ''/docs/testing/mocks'', ''/docs/testing/mocks'',
     ''/docs/testing/mocks'', ''/docs/testing/mocks'', ''/docs/testing/mocks''] \<subseteq> set [
     ''/docs/testing/client'', ''/docs/testing/cases'', ''/docs/testing/mocks'']"
    by (simp only: list.set insert_subset insert_iff simp_thms empty_subsetI)
  moreover have "set [
     ''/docs/testing/client'', ''/docs/testing/cases'', ''/docs/testing/mocks''] \<subseteq> set linked_pages \<union> set dead_pages"
    unfolding linked_pages_def dead_pages_def
    by (simp only: concat.simps append.simps list.set Un_insert_left Un_empty_left insert_subset insert_iff simp_thms empty_subsetI)
  ultimately show ?thesis by (rule href_sub)
qed

lemma hrefs_speculaEntities: "set (map de_docsHref entities_speculaEntities) \<subseteq> (Some \<circ> js) ` (set linked_pages \<union> set dead_pages)"
proof -
  have "map de_docsHref entities_speculaEntities = map (Some \<circ> js) [
     ''/docs/controllers/openapi'', ''/docs/controllers/openapi'', ''/docs/controllers/openapi'',
     ''/docs/controllers/openapi'']"
    by (simp only: entities_speculaEntities_def ent_specula_config_def ent_specula_integration_def ent_specula_builder_def ent_specula_service_def list.map comp_apply doc_entity.select_convs)
  moreover have "set [
     ''/docs/controllers/openapi'', ''/docs/controllers/openapi'', ''/docs/controllers/openapi'',
     ''/docs/controllers/openapi''] \<subseteq> set [
     ''/docs/controllers/openapi'']"
    by (simp only: list.set insert_subset insert_iff simp_thms empty_subsetI)
  moreover have "set [
     ''/docs/controllers/openapi''] \<subseteq> set linked_pages \<union> set dead_pages"
    unfolding linked_pages_def dead_pages_def
    by (simp only: concat.simps append.simps list.set Un_insert_left Un_empty_left insert_subset insert_iff simp_thms empty_subsetI)
  ultimately show ?thesis by (rule href_sub)
qed

lemma hrefs_aquiliaEntities: "set (map de_docsHref entities_aquiliaEntities) \<subseteq> (Some \<circ> js) ` (set linked_pages \<union> set dead_pages)"
proof -
  have "map de_docsHref entities_aquiliaEntities = map (Some \<circ> js) [
     ''/docs/middleware/stack'', ''/docs/middleware/built-in'', ''/docs/middleware/built-in'',
     ''/docs/middleware/built-in'', ''/docs/middleware/built-in'', ''/docs/middleware/cors'',
     ''/docs/middleware/rate-limit'', ''/docs/middleware/static'', ''/docs/middleware/session'',
     ''/docs/middleware/request-scope'', ''/docs/aquilary/overview'', ''/docs/aquilary/manifest'',
     ''/docs/aquilary/runtime'', ''/docs/subsystem/overview'', ''/docs/subsystem/overview'',
     ''/docs/subsystem/overview'', ''/docs/subsystem/dbtx'', ''/docs/subsystem/overview'',
     ''/docs/subsystem/dbtx'', ''/docs/subsystem/cache'', ''/docs/subsystem/queue'',
     ''/docs/subsystem/http'', ''/docs/subsystem/storage'', ''/docs/subsystem/cache'',
     ''/docs/subsystem/cache'', ''/docs/subsystem/queue'', ''/docs/subsystem/queue'',
     ''/docs/subsystem/http'', ''/docs/subsystem/storage'', ''/docs/subsystem/pipelines'',
     ''/docs/subsystem/context-nodes'', ''/docs/subsystem/context-nodes'', ''/docs/subsystem/context-nodes'',
     ''/docs/subsystem/layers'', ''/docs/subsystem/dbtx'', ''/docs/subsystem/cache'',
     ''/docs/subsystem/queue'', ''/docs/subsystem/queue'', ''/docs/subsystem/http'',
     ''/docs/subsystem/storage'', ''/docs/subsystem/overview'', ''/docs/subsystem/overview'',
     ''/docs/faults/taxonomy'', ''/docs/faults/taxonomy'', ''/docs/faults/engine'',
     ''/docs/faults/handlers'', ''/docs/sse/overview'', ''/docs/sse/standard'',
     ''/docs/sse/resources'', ''/docs/sse/streams'', ''/docs/signing/signers'',
     ''/docs/signing/signers'', ''/docs/signing/advanced'', ''/docs/json/overview'',
     ''/docs/json/overview'', ''/docs/json/overview'']"
    by (simp only: entities_aquiliaEntities_def ent_middleware_MiddlewareStack_def ent_middleware_RequestIdMiddleware_def ent_middleware_ExceptionMiddleware_def ent_middleware_TimeoutMiddleware_def ent_middleware_CompressionMiddleware_def ent_middleware_CORSMiddleware_def ent_middleware_RateLimitMiddleware_def ent_middleware_StaticMiddleware_def ent_middleware_SessionMiddleware_def ent_middleware_RequestScopeMiddleware_def ent_aquilary_AquilaryRegistry_def ent_aquilary_AppContext_def ent_aquilary_RuntimeRegistry_def ent_effects_EffectRegistry_def ent_effects_EffectProvider_def ent_effects_Layer_def ent_effects_DBTxHandle_def ent_effects_requires_def ent_effects_DBTx_def ent_effects_CacheEffect_def ent_effects_QueueEffect_def ent_effects_HTTPEffect_def ent_effects_StorageEffect_def ent_effects_CacheServiceHandle_def ent_effects_CacheHandle_def ent_effects_QueueHandle_def ent_effects_TaskQueueHandle_def ent_effects_HTTPHandle_def ent_effects_StorageHandle_def ent_effects_FlowPipeline_def ent_effects_FlowContext_first_def ent_effects_FlowNode_def ent_effects_FlowResult_def ent_effects_EffectScope_def ent_effects_DBTxProvider_def ent_effects_CacheProvider_def ent_effects_QueueProvider_def ent_effects_TaskQueueProvider_def ent_effects_HTTPProvider_def ent_effects_StorageProvider_def ent_effects_FlowContext_def ent_effects_EffectMiddleware_def ent_faults_Fault_def ent_faults_FaultContext_def ent_faults_FaultEngine_def ent_faults_FaultHandler_def ent_sse_SSEResponse_def ent_sse_SSEEvent_def ent_sse_SSEStreamAbortedFault_def ent_sse_SSESerializationFault_def ent_signing_Signer_def ent_signing_TimestampSigner_def ent_signing_RotatingSigner_def ent_json_module_def ent_json_JSONDecodeError_def ent_json_JSONEncodeError_def list.map comp_apply doc_entity.select_convs)
  moreover have "set [
     ''/docs/middleware/stack'', ''/docs/middleware/built-in'', ''/docs/middleware/built-in'',
     ''/docs/middleware/built-in'', ''/docs/middleware/built-in'', ''/docs/middleware/cors'',
     ''/docs/middleware/rate-limit'', ''/docs/middleware/static'', ''/docs/middleware/session'',
     ''/docs/middleware/request-scope'', ''/docs/aquilary/overview'', ''/docs/aquilary/manifest'',
     ''/docs/aquilary/runtime'', ''/docs/subsystem/overview'', ''/docs/subsystem/overview'',
     ''/docs/subsystem/overview'', ''/docs/subsystem/dbtx'', ''/docs/subsystem/overview'',
     ''/docs/subsystem/dbtx'', ''/docs/subsystem/cache'', ''/docs/subsystem/queue'',
     ''/docs/subsystem/http'', ''/docs/subsystem/storage'', ''/docs/subsystem/cache'',
     ''/docs/subsystem/cache'', ''/docs/subsystem/queue'', ''/docs/subsystem/queue'',
     ''/docs/subsystem/http'', ''/docs/subsystem/storage'', ''/docs/subsystem/pipelines'',
     ''/docs/subsystem/context-nodes'', ''/docs/subsystem/context-nodes'', ''/docs/subsystem/context-nodes'',
     ''/docs/subsystem/layers'', ''/docs/subsystem/dbtx'', ''/docs/subsystem/cache'',
     ''/docs/subsystem/queue'', ''/docs/subsystem/queue'', ''/docs/subsystem/http'',
     ''/docs/subsystem/storage'', ''/docs/subsystem/overview'', ''/docs/subsystem/overview'',
     ''/docs/faults/taxonomy'', ''/docs/faults/taxonomy'', ''/docs/faults/engine'',
     ''/docs/faults/handlers'', ''/docs/sse/overview'', ''/docs/sse/standard'',
     ''/docs/sse/resources'', ''/docs/sse/streams'', ''/docs/signing/signers'',
     ''/docs/signing/signers'', ''/docs/signing/advanced'', ''/docs/json/overview'',
     ''/docs/json/overview'', ''/docs/json/overview''] \<subseteq> set [
     ''/docs/middleware/stack'', ''/docs/middleware/built-in'', ''/docs/middleware/cors'',
     ''/docs/middleware/rate-limit'', ''/docs/middleware/static'', ''/docs/middleware/session'',
     ''/docs/middleware/request-scope'', ''/docs/aquilary/overview'', ''/docs/aquilary/manifest'',
     ''/docs/aquilary/runtime'', ''/docs/subsystem/overview'', ''/docs/subsystem/dbtx'',
     ''/docs/subsystem/cache'', ''/docs/subsystem/queue'', ''/docs/subsystem/http'',
     ''/docs/subsystem/storage'', ''/docs/subsystem/pipelines'', ''/docs/subsystem/context-nodes'',
     ''/docs/subsystem/layers'', ''/docs/faults/taxonomy'', ''/docs/faults/engine'',
     ''/docs/faults/handlers'', ''/docs/sse/overview'', ''/docs/sse/standard'',
     ''/docs/sse/resources'', ''/docs/sse/streams'', ''/docs/signing/signers'',
     ''/docs/signing/advanced'', ''/docs/json/overview'']"
    by (simp only: list.set insert_subset insert_iff simp_thms empty_subsetI)
  moreover have "set [
     ''/docs/middleware/stack'', ''/docs/middleware/built-in'', ''/docs/middleware/cors'',
     ''/docs/middleware/rate-limit'', ''/docs/middleware/static'', ''/docs/middleware/session'',
     ''/docs/middleware/request-scope'', ''/docs/aquilary/overview'', ''/docs/aquilary/manifest'',
     ''/docs/aquilary/runtime'', ''/docs/subsystem/overview'', ''/docs/subsystem/dbtx'',
     ''/docs/subsystem/cache'', ''/docs/subsystem/queue'', ''/docs/subsystem/http'',
     ''/docs/subsystem/storage'', ''/docs/subsystem/pipelines'', ''/docs/subsystem/context-nodes'',
     ''/docs/subsystem/layers'', ''/docs/faults/taxonomy'', ''/docs/faults/engine'',
     ''/docs/faults/handlers'', ''/docs/sse/overview'', ''/docs/sse/standard'',
     ''/docs/sse/resources'', ''/docs/sse/streams'', ''/docs/signing/signers'',
     ''/docs/signing/advanced'', ''/docs/json/overview''] \<subseteq> set linked_pages \<union> set dead_pages"
    unfolding linked_pages_def dead_pages_def
    by (simp only: concat.simps append.simps list.set Un_insert_left Un_empty_left insert_subset insert_iff simp_thms empty_subsetI)
  ultimately show ?thesis by (rule href_sub)
qed

lemma hrefs_cacheHttpI18n: "set (map de_docsHref entities_cacheHttpI18n) \<subseteq> (Some \<circ> js) ` (set linked_pages \<union> set dead_pages)"
proof -
  have "map de_docsHref entities_cacheHttpI18n = map (Some \<circ> js) [
     ''/docs/cache/service'', ''/docs/cache/decorators'', ''/docs/cache/decorators'',
     ''/docs/cache/decorators'', ''/docs/cache/backends'', ''/docs/cache/backends'',
     ''/docs/cache/backends'', ''/docs/cache/decorators'', ''/docs/http/client'',
     ''/docs/http/sessions'', ''/docs/http/integration'', ''/docs/http/client'',
     ''/docs/http/client'', ''/docs/http/api/multipart'', ''/docs/i18n/api-reference'',
     ''/docs/i18n/architecture'', ''/docs/i18n/configuration'', ''/docs/i18n/integration'',
     ''/docs/i18n/api-reference'']"
    by (simp only: entities_cacheHttpI18n_def ent_cache_CacheService_def ent_cache_cached_def ent_cache_cache_aside_def ent_cache_invalidate_def ent_cache_MemoryBackend_def ent_cache_RedisBackend_def ent_cache_CompositeBackend_def ent_cache_CacheMiddleware_def ent_http_AsyncHTTPClient_def ent_http_HTTPSession_def ent_http_HTTPClientConfig_def ent_http_TimeoutConfig_def ent_http_RetryConfig_def ent_http_MultipartFormData_def ent_i18n_I18nService_def ent_i18n_Locale_def ent_i18n_I18nConfig_def ent_i18n_I18nMiddleware_def ent_i18n_lazy_t_def list.map comp_apply doc_entity.select_convs)
  moreover have "set [
     ''/docs/cache/service'', ''/docs/cache/decorators'', ''/docs/cache/decorators'',
     ''/docs/cache/decorators'', ''/docs/cache/backends'', ''/docs/cache/backends'',
     ''/docs/cache/backends'', ''/docs/cache/decorators'', ''/docs/http/client'',
     ''/docs/http/sessions'', ''/docs/http/integration'', ''/docs/http/client'',
     ''/docs/http/client'', ''/docs/http/api/multipart'', ''/docs/i18n/api-reference'',
     ''/docs/i18n/architecture'', ''/docs/i18n/configuration'', ''/docs/i18n/integration'',
     ''/docs/i18n/api-reference''] \<subseteq> set [
     ''/docs/cache/service'', ''/docs/cache/decorators'', ''/docs/cache/backends'',
     ''/docs/http/client'', ''/docs/http/sessions'', ''/docs/http/integration'',
     ''/docs/http/api/multipart'', ''/docs/i18n/api-reference'', ''/docs/i18n/architecture'',
     ''/docs/i18n/configuration'', ''/docs/i18n/integration'']"
    by (simp only: list.set insert_subset insert_iff simp_thms empty_subsetI)
  moreover have "set [
     ''/docs/cache/service'', ''/docs/cache/decorators'', ''/docs/cache/backends'',
     ''/docs/http/client'', ''/docs/http/sessions'', ''/docs/http/integration'',
     ''/docs/http/api/multipart'', ''/docs/i18n/api-reference'', ''/docs/i18n/architecture'',
     ''/docs/i18n/configuration'', ''/docs/i18n/integration''] \<subseteq> set linked_pages \<union> set dead_pages"
    unfolding linked_pages_def dead_pages_def
    by (simp only: concat.simps append.simps list.set Un_insert_left Un_empty_left insert_subset insert_iff simp_thms empty_subsetI)
  ultimately show ?thesis by (rule href_sub)
qed

lemma hrefs_websocketsTemplatesMail: "set (map de_docsHref entities_websocketsTemplatesMail) \<subseteq> (Some \<circ> js) ` (set linked_pages \<union> set dead_pages)"
proof -
  have "map de_docsHref entities_websocketsTemplatesMail = map (Some \<circ> js) [
     ''/docs/websockets/controllers'', ''/docs/websockets/controllers'', ''/docs/websockets/controllers'',
     ''/docs/websockets/adapters'', ''/docs/websockets/adapters'', ''/docs/websockets/controllers'',
     ''/docs/websockets/controllers'', ''/docs/templates/engine'', ''/docs/templates/loaders'',
     ''/docs/templates/engine'', ''/docs/templates/security'', ''/docs/mail/service'',
     ''/docs/mail/service'', ''/docs/mail/templates'', ''/docs/mail/service'']"
    by (simp only: entities_websocketsTemplatesMail_def ent_sockets_SocketController_def ent_sockets_Connection_def ent_sockets_MessageEnvelope_def ent_sockets_InMemoryAdapter_def ent_sockets_RedisAdapter_def ent_sockets_HandshakeAuthGuard_def ent_sockets_RateLimitGuard_def ent_templates_TemplateEngine_def ent_templates_TemplateLoader_def ent_templates_SurpBytecodeCache_def ent_templates_TemplateSandbox_def ent_mail_MailService_def ent_mail_EmailMessage_def ent_mail_TemplateMessage_def ent_mail_MailIntegration_def list.map comp_apply doc_entity.select_convs)
  moreover have "set [
     ''/docs/websockets/controllers'', ''/docs/websockets/controllers'', ''/docs/websockets/controllers'',
     ''/docs/websockets/adapters'', ''/docs/websockets/adapters'', ''/docs/websockets/controllers'',
     ''/docs/websockets/controllers'', ''/docs/templates/engine'', ''/docs/templates/loaders'',
     ''/docs/templates/engine'', ''/docs/templates/security'', ''/docs/mail/service'',
     ''/docs/mail/service'', ''/docs/mail/templates'', ''/docs/mail/service''] \<subseteq> set [
     ''/docs/websockets/controllers'', ''/docs/websockets/adapters'', ''/docs/templates/engine'',
     ''/docs/templates/loaders'', ''/docs/templates/security'', ''/docs/mail/service'',
     ''/docs/mail/templates'']"
    by (simp only: list.set insert_subset insert_iff simp_thms empty_subsetI)
  moreover have "set [
     ''/docs/websockets/controllers'', ''/docs/websockets/adapters'', ''/docs/templates/engine'',
     ''/docs/templates/loaders'', ''/docs/templates/security'', ''/docs/mail/service'',
     ''/docs/mail/templates''] \<subseteq> set linked_pages \<union> set dead_pages"
    unfolding linked_pages_def dead_pages_def
    by (simp only: concat.simps append.simps list.set Un_insert_left Un_empty_left insert_subset insert_iff simp_thms empty_subsetI)
  ultimately show ?thesis by (rule href_sub)
qed

lemma hrefs_providers: "set (map de_docsHref entities_providers) \<subseteq> (Some \<circ> js) ` (set linked_pages \<union> set dead_pages)"
proof -
  have "map de_docsHref entities_providers = map (Some \<circ> js) [
     ''/docs/providers/render'', ''/docs/providers/render'', ''/docs/providers/render'',
     ''/docs/providers/security'', ''/docs/providers/render'', ''/docs/providers/cli'',
     ''/docs/providers/cli'', ''/docs/providers/cli'', ''/docs/providers/cli'',
     ''/docs/providers/cli'']"
    by (simp only: entities_providers_def ent_provider_RenderIntegration_def ent_provider_RenderClient_def ent_provider_RenderDeployer_def ent_provider_RenderCredentialStore_def ent_provider_RenderDeployConfig_def ent_cli_deploy_render_def ent_cli_provider_login_render_def ent_cli_provider_status_render_def ent_cli_provider_logout_render_def ent_cli_provider_render_env_set_def list.map comp_apply doc_entity.select_convs)
  moreover have "set [
     ''/docs/providers/render'', ''/docs/providers/render'', ''/docs/providers/render'',
     ''/docs/providers/security'', ''/docs/providers/render'', ''/docs/providers/cli'',
     ''/docs/providers/cli'', ''/docs/providers/cli'', ''/docs/providers/cli'',
     ''/docs/providers/cli''] \<subseteq> set [
     ''/docs/providers/render'', ''/docs/providers/security'', ''/docs/providers/cli'']"
    by (simp only: list.set insert_subset insert_iff simp_thms empty_subsetI)
  moreover have "set [
     ''/docs/providers/render'', ''/docs/providers/security'', ''/docs/providers/cli''] \<subseteq> set linked_pages \<union> set dead_pages"
    unfolding linked_pages_def dead_pages_def
    by (simp only: concat.simps append.simps list.set Un_insert_left Un_empty_left insert_subset insert_iff simp_thms empty_subsetI)
  ultimately show ?thesis by (rule href_sub)
qed

lemma hrefs_ormAdvancedEntities: "set (map de_docsHref entities_ormAdvancedEntities) \<subseteq> (Some \<circ> js) ` (set linked_pages \<union> set dead_pages)"
proof -
  have "map de_docsHref entities_ormAdvancedEntities = map (Some \<circ> js) [
     ''/docs/models/window-functions'', ''/docs/models/window-functions'', ''/docs/models/window-functions'',
     ''/docs/models/window-functions'', ''/docs/models/window-functions'', ''/docs/models/window-functions'',
     ''/docs/models/window-functions'', ''/docs/models/window-functions'', ''/docs/models/window-functions'',
     ''/docs/models/window-functions'', ''/docs/models/window-functions'', ''/docs/models/cte'',
     ''/docs/models/cte'', ''/docs/models/cte'', ''/docs/models/recursive-cte'',
     ''/docs/models/cte'', ''/docs/models/bulk-operations'', ''/docs/models/bulk-operations'',
     ''/docs/models/bulk-operations'', ''/docs/models/bulk-operations'', ''/docs/models/transactions'',
     ''/docs/models/queryset'', ''/docs/models/queryset'', ''/docs/models/queryset'']"
    by (simp only: entities_ormAdvancedEntities_def ent_orm_window_def ent_orm_window_rank_def ent_orm_window_dense_rank_def ent_orm_window_row_number_def ent_orm_window_ntile_def ent_orm_window_lag_def ent_orm_window_lead_def ent_orm_window_first_value_def ent_orm_window_last_value_def ent_orm_window_nth_value_def ent_orm_window_frame_def ent_orm_cte_def ent_orm_cte_with_cte_def ent_orm_cte_cte_method_def ent_orm_cte_recursive_def ent_orm_cte_col_def ent_orm_queryset_in_bulk_def ent_orm_queryset_find_or_create_def ent_orm_queryset_bulk_create_def ent_orm_queryset_iterator_def ent_orm_queryset_select_for_update_def ent_orm_queryset_explain_def ent_orm_queryset_union_def ent_orm_queryset_only_def list.map comp_apply doc_entity.select_convs)
  moreover have "set [
     ''/docs/models/window-functions'', ''/docs/models/window-functions'', ''/docs/models/window-functions'',
     ''/docs/models/window-functions'', ''/docs/models/window-functions'', ''/docs/models/window-functions'',
     ''/docs/models/window-functions'', ''/docs/models/window-functions'', ''/docs/models/window-functions'',
     ''/docs/models/window-functions'', ''/docs/models/window-functions'', ''/docs/models/cte'',
     ''/docs/models/cte'', ''/docs/models/cte'', ''/docs/models/recursive-cte'',
     ''/docs/models/cte'', ''/docs/models/bulk-operations'', ''/docs/models/bulk-operations'',
     ''/docs/models/bulk-operations'', ''/docs/models/bulk-operations'', ''/docs/models/transactions'',
     ''/docs/models/queryset'', ''/docs/models/queryset'', ''/docs/models/queryset''] \<subseteq> set [
     ''/docs/models/window-functions'', ''/docs/models/cte'', ''/docs/models/recursive-cte'',
     ''/docs/models/bulk-operations'', ''/docs/models/transactions'', ''/docs/models/queryset'']"
    by (simp only: list.set insert_subset insert_iff simp_thms empty_subsetI)
  moreover have "set [
     ''/docs/models/window-functions'', ''/docs/models/cte'', ''/docs/models/recursive-cte'',
     ''/docs/models/bulk-operations'', ''/docs/models/transactions'', ''/docs/models/queryset''] \<subseteq> set linked_pages \<union> set dead_pages"
    unfolding linked_pages_def dead_pages_def
    by (simp only: concat.simps append.simps list.set Un_insert_left Un_empty_left insert_subset insert_iff simp_thms empty_subsetI)
  ultimately show ?thesis by (rule href_sub)
qed

lemma hrefs_vectordbEntities: "set (map de_docsHref entities_vectordbEntities) \<subseteq> (Some \<circ> js) ` (set linked_pages \<union> set dead_pages)"
proof -
  have "map de_docsHref entities_vectordbEntities = map (Some \<circ> js) [
     ''/docs/vectordb/models'', ''/docs/vectordb/models'', ''/docs/vectordb/queries'',
     ''/docs/vectordb/queries'', ''/docs/vectordb/queries'', ''/docs/vectordb/queries'',
     ''/docs/config/integrations'']"
    by (simp only: entities_vectordbEntities_def ent_vectordb_VectorModel_def ent_vectordb_VectorField_def ent_vectordb_VectorManager_def ent_vectordb_VectorQuery_def ent_vectordb_VF_def ent_vectordb_Hit_def ent_vectordb_integration_def list.map comp_apply doc_entity.select_convs)
  moreover have "set [
     ''/docs/vectordb/models'', ''/docs/vectordb/models'', ''/docs/vectordb/queries'',
     ''/docs/vectordb/queries'', ''/docs/vectordb/queries'', ''/docs/vectordb/queries'',
     ''/docs/config/integrations''] \<subseteq> set [
     ''/docs/vectordb/models'', ''/docs/vectordb/queries'', ''/docs/config/integrations'']"
    by (simp only: list.set insert_subset insert_iff simp_thms empty_subsetI)
  moreover have "set [
     ''/docs/vectordb/models'', ''/docs/vectordb/queries'', ''/docs/config/integrations''] \<subseteq> set linked_pages \<union> set dead_pages"
    unfolding linked_pages_def dead_pages_def
    by (simp only: concat.simps append.simps list.set Un_insert_left Un_empty_left insert_subset insert_iff simp_thms empty_subsetI)
  ultimately show ?thesis by (rule href_sub)
qed

lemma hrefs_devPlatform: "set (map de_docsHref entities_devPlatform) \<subseteq> (Some \<circ> js) ` (set linked_pages \<union> set dead_pages)"
proof -
  have "map de_docsHref entities_devPlatform = map (Some \<circ> js) [
     ''/docs/devplatform/configuration'', ''/docs/devplatform/getting-started'', ''/docs/devplatform/plugins'',
     ''/docs/devplatform/diagnostics'', ''/docs/devplatform/diagnostics'', ''/docs/devplatform/diagnostics'',
     ''/docs/devplatform/faults'', ''/docs/devplatform/faults'', ''/docs/devplatform/faults'',
     ''/docs/devplatform/faults'', ''/docs/devplatform/faults'', ''/docs/devplatform/faults'',
     ''/docs/devplatform/faults'', ''/docs/devplatform/hot-reload'', ''/docs/devplatform/terminal-ui'']"
    by (simp only: entities_devPlatform_def ent_devplatform_config_def ent_devplatform_server_def ent_devplatform_platform_def ent_devplatform_runtime_state_store_def ent_devplatform_request_record_def ent_devplatform_trace_span_def ent_devplatform_fault_base_def ent_devplatform_fault_startup_def ent_devplatform_fault_reload_def ent_devplatform_fault_inspector_def ent_devplatform_fault_worker_def ent_devplatform_fault_configuration_def ent_devplatform_report_fault_def ent_devplatform_watcher_def ent_devplatform_ui_def list.map comp_apply doc_entity.select_convs)
  moreover have "set [
     ''/docs/devplatform/configuration'', ''/docs/devplatform/getting-started'', ''/docs/devplatform/plugins'',
     ''/docs/devplatform/diagnostics'', ''/docs/devplatform/diagnostics'', ''/docs/devplatform/diagnostics'',
     ''/docs/devplatform/faults'', ''/docs/devplatform/faults'', ''/docs/devplatform/faults'',
     ''/docs/devplatform/faults'', ''/docs/devplatform/faults'', ''/docs/devplatform/faults'',
     ''/docs/devplatform/faults'', ''/docs/devplatform/hot-reload'', ''/docs/devplatform/terminal-ui''] \<subseteq> set [
     ''/docs/devplatform/configuration'', ''/docs/devplatform/getting-started'', ''/docs/devplatform/plugins'',
     ''/docs/devplatform/diagnostics'', ''/docs/devplatform/faults'', ''/docs/devplatform/hot-reload'',
     ''/docs/devplatform/terminal-ui'']"
    by (simp only: list.set insert_subset insert_iff simp_thms empty_subsetI)
  moreover have "set [
     ''/docs/devplatform/configuration'', ''/docs/devplatform/getting-started'', ''/docs/devplatform/plugins'',
     ''/docs/devplatform/diagnostics'', ''/docs/devplatform/faults'', ''/docs/devplatform/hot-reload'',
     ''/docs/devplatform/terminal-ui''] \<subseteq> set linked_pages \<union> set dead_pages"
    unfolding linked_pages_def dead_pages_def
    by (simp only: concat.simps append.simps list.set Un_insert_left Un_empty_left insert_subset insert_iff simp_thms empty_subsetI)
  ultimately show ?thesis by (rule href_sub)
qed

lemmas href_facts = hrefs_serverLifecycle hrefs_showcase hrefs_adminPanel hrefs_configEntities hrefs_requestResponse hrefs_controllers hrefs_ormEntities hrefs_dbEntities hrefs_contractEntities hrefs_diEntities hrefs_authEntities hrefs_sessionsEntities hrefs_subsystemEntities hrefs_cliEntities hrefs_testingEntities hrefs_speculaEntities hrefs_aquiliaEntities hrefs_cacheHttpI18n hrefs_websocketsTemplatesMail hrefs_providers hrefs_ormAdvancedEntities hrefs_vectordbEntities hrefs_devPlatform

lemma links_placed: "set (map de_docsHref all_entities) \<subseteq> (Some \<circ> js) ` (set linked_pages \<union> set dead_pages)"
  unfolding all_entities_def entity_modules_def concat.simps map_append append_Nil2 set_append
  by (intro Un_least href_facts)

text \<open>C33: The documentation link of an entity leads to a page of the route table, with the exception of
  thirteen addresses no route declares: a reader who follows one of these from a panel comes to the
  page that says that nothing was found.\<close>

theorem entity_links_declared:
  "list_all (\<lambda>e. case de_docsHref e of None \<Rightarrow> True
     | Some h \<Rightarrow> (h \<in> set declared_paths) = (h \<notin> js ` set dead_pages)) all_entities"
proof -
  have "(h \<in> set declared_paths) = (h \<notin> js ` set dead_pages)" if "e \<in> set all_entities" "de_docsHref e = Some h" for e h
  proof -
    have "Some h \<in> (Some \<circ> js) ` (set linked_pages \<union> set dead_pages)"
      using links_placed that by (force simp: subset_iff)
    then have "h \<in> js ` set linked_pages \<or> h \<in> js ` set dead_pages" by auto
    then show ?thesis using linked_declared dead_not_declared by blast
  qed
  then show ?thesis by (auto simp: list_all_iff split: option.splits)
qed

end
