(* ===== verification/SiteChrome.thy ===== *)
theory SiteChrome
  imports SiteNav Announcements JsJson Machine
begin

text \<open>
  What surrounds every page: the theme (\<open>context/ThemeContext.tsx\<close>), the bar at the top with its
  announcement banner and its menu (\<open>components/Navbar.tsx\<close>), the tags of the document head
  (\<open>components/SEO.tsx\<close>) and the cookie panel (\<open>components/CookiePreferences.tsx\<close>).
  \<open>localStorage\<close> is a map of texts. The class names of the markup are left out, and the height of
  the bar, which is measured and written to a style variable.
\<close>

type_synonym local_storage = "(jstr, jstr) jmap"

subsection \<open>The theme\<close>

text \<open>The theme is any text, as the value read back from the storage is not checked.
  \<open>th_attribute\<close> is the attribute \<open>data-theme\<close> of the document.\<close>

record theme_state =
  th_theme :: jstr
  th_attribute :: jstr
  th_storage :: local_storage

definition theme_key :: jstr where
  "theme_key = js ''aq-theme''"

definition stored_theme :: "bool \<Rightarrow> local_storage \<Rightarrow> jstr" where
  "stored_theme has_window saved =
     (if has_window then str_or (jm_get saved theme_key) (js ''dark'') else js ''dark'')"

definition theme_effect :: "theme_state \<Rightarrow> theme_state" where
  "theme_effect s = s\<lparr>th_attribute := th_theme s, th_storage := jm_set theme_key (th_theme s) (th_storage s)\<rparr>"

definition theme_mount :: "jstr \<Rightarrow> local_storage \<Rightarrow> theme_state" where
  "theme_mount attribute saved =
     theme_effect \<lparr>th_theme = stored_theme True saved, th_attribute = attribute, th_storage = saved\<rparr>"

definition toggled_theme :: "jstr \<Rightarrow> jstr" where
  "toggled_theme t = (if t = js ''dark'' then js ''light'' else js ''dark'')"

definition theme_toggle :: "theme_state \<Rightarrow> theme_state" where
  "theme_toggle s = theme_effect (s\<lparr>th_theme := toggled_theme (th_theme s)\<rparr>)"

subsection \<open>The bar at the top\<close>

text \<open>\<open>announcement.version\<close>, as a template literal prints it: a property every object inherits is a
  function or an object without a version. The last case never arises, see
  \<open>getLatestAnnouncement_Some\<close>.\<close>

definition announcement_version :: "jstr \<Rightarrow> jstr" where
  "announcement_version v = (case getLatestAnnouncement (Some v) of
     Some (Own a) \<Rightarrow> an_version a
   | Some (Inherited k) \<Rightarrow> js ''undefined''
   | None \<Rightarrow> js ''undefined'')"

definition banner_key :: "jstr \<Rightarrow> jstr" where
  "banner_key v = js ''aquilia-announcement-banner-'' @ announcement_version v"

definition dismissed_mark :: jstr where
  "dismissed_mark = js ''dismissed''"

definition banner_saved :: "jstr \<Rightarrow> local_storage \<Rightarrow> bool" where
  "banner_saved v saved = (jm_get saved (banner_key v) \<noteq> Some dismissed_mark)"

record navbar_state =
  nb_version :: jstr
  nb_path :: jstr
  nb_showBanner :: bool
  nb_menuOpen :: bool
  nb_storage :: local_storage
  nb_toggled :: nat

definition navbar_mount :: "jstr \<Rightarrow> jstr \<Rightarrow> local_storage \<Rightarrow> navbar_state" where
  "navbar_mount v path saved = \<lparr>nb_version = v, nb_path = path, nb_showBanner = banner_saved v saved,
     nb_menuOpen = False, nb_storage = saved, nb_toggled = 0\<rparr>"

text \<open>The version hook hands a new version over; the effect runs when the announcement's version
  has changed with it.\<close>

definition version_changed :: "jstr \<Rightarrow> navbar_state \<Rightarrow> navbar_state" where
  "version_changed v s =
     (if announcement_version v = announcement_version (nb_version s) then s\<lparr>nb_version := v\<rparr>
      else s\<lparr>nb_version := v, nb_showBanner := banner_saved v (nb_storage s)\<rparr>)"

text \<open>The cross is there while the banner is shown.\<close>

definition dismissBanner :: "navbar_state \<Rightarrow> navbar_state" where
  "dismissBanner s =
     (if nb_showBanner s
      then s\<lparr>nb_storage := jm_set (banner_key (nb_version s)) dismissed_mark (nb_storage s), nb_showBanner := False\<rparr>
      else s)"

definition path_changed :: "jstr \<Rightarrow> navbar_state \<Rightarrow> navbar_state" where
  "path_changed path s = (if path = nb_path s then s else s\<lparr>nb_path := path, nb_menuOpen := False\<rparr>)"

text \<open>The three bars are not shown in the documentation; elsewhere they open the sidebar of the page
  when there is one (\<open>has_sidebar\<close>, the calls are counted), and else the menu.\<close>

definition hamburger_clicked :: "bool \<Rightarrow> navbar_state \<Rightarrow> navbar_state" where
  "hamburger_clicked has_sidebar s =
     (if starts_with (nb_path s) (js ''/docs'') then s
      else if has_sidebar then s\<lparr>nb_toggled := Suc (nb_toggled s)\<rparr>
      else s\<lparr>nb_menuOpen := \<not> nb_menuOpen s\<rparr>)"

definition menu_shown :: "bool \<Rightarrow> navbar_state \<Rightarrow> bool" where
  "menu_shown has_sidebar s \<longleftrightarrow> nb_menuOpen s \<and> \<not> has_sidebar"

datatype navbar_event = NavVersion jstr | NavDismiss | NavPath jstr | NavHamburger

fun navbar_step :: "bool \<Rightarrow> navbar_event \<Rightarrow> navbar_state \<Rightarrow> navbar_state" where
  "navbar_step has_sidebar (NavVersion v) s = version_changed v s"
| "navbar_step has_sidebar NavDismiss s = dismissBanner s"
| "navbar_step has_sidebar (NavPath path) s = path_changed path s"
| "navbar_step has_sidebar NavHamburger s = hamburger_clicked has_sidebar s"

text \<open>The links of the bar: label, address, whether the link is marked as the current one.\<close>

definition navbar_links :: "jstr \<Rightarrow> jstr \<Rightarrow> (jstr \<times> jstr \<times> bool) list" where
  "navbar_links v path = [
     (js ''Documentation'', js ''/docs'', starts_with path (js ''/docs'')),
     (js ''Benchmark'', js ''/benchmark'', path = js ''/benchmark''),
     (js ''Changelogs'', js ''/changelogs'', path = js ''/changelogs''),
     (js ''Releases'', js ''/releases'', path = js ''/releases''),
     (js ''Release Notes'', js ''/releases/'' @ v, starts_with path (js ''/releases/''))]"

text \<open>The links of the menu of small screens; the first is never marked.\<close>

definition mobile_links :: "jstr \<Rightarrow> jstr \<Rightarrow> (jstr \<times> jstr \<times> bool) list" where
  "mobile_links v path = [
     (js ''Documentation'', js ''/docs'', False),
     (js ''Changelogs'', js ''/changelogs'', path = js ''/changelogs''),
     (js ''Benchmark'', js ''/benchmark'', path = js ''/benchmark''),
     (js ''Releases'', js ''/releases'', path = js ''/releases''),
     (js ''Release Notes'', js ''/releases/'' @ v, starts_with path (js ''/releases/''))]"

text \<open>The links of the footer (\<open>components/Footer.tsx\<close>).\<close>

definition footer_links :: "(jstr \<times> jstr) list" where
  "footer_links = [
     (js ''Help'', js ''/help''), (js ''Community'', js ''/community''),
     (js ''Privacy'', js ''/privacy''), (js ''Terms & Conditions'', js ''/terms'')]"

subsection \<open>The head of the document\<close>

text \<open>The elements the component looks for: a \<open>meta\<close> element with a name or a property, a \<open>link\<close>
  with its relation, a \<open>script\<close> with its identifier; their last argument is the content, the address,
  the text. Two elements are in the same slot when the same selector finds both.\<close>

datatype head_element =
    MetaName jstr jstr
  | MetaProperty jstr jstr
  | HeadLink jstr jstr
  | HeadScript jstr jstr

fun same_slot :: "head_element \<Rightarrow> head_element \<Rightarrow> bool" where
  "same_slot (MetaName k v) (MetaName k' v') = (k = k')"
| "same_slot (MetaProperty k v) (MetaProperty k' v') = (k = k')"
| "same_slot (HeadLink k v) (HeadLink k' v') = (k = k')"
| "same_slot (HeadScript k v) (HeadScript k' v') = (k = k')"
| "same_slot _ _ = False"

record doc_head =
  hd_title :: jstr
  hd_elements :: "head_element list"

text \<open>\<open>querySelector\<close> finds the first element of the slot; it is written to when it is there, and
  a new one is appended otherwise.\<close>

fun put_element :: "head_element \<Rightarrow> head_element list \<Rightarrow> head_element list" where
  "put_element x [] = [x]"
| "put_element x (y # ys) = (if same_slot x y then x # ys else y # put_element x ys)"

fun remove_element :: "head_element \<Rightarrow> head_element list \<Rightarrow> head_element list" where
  "remove_element x [] = []"
| "remove_element x (y # ys) = (if same_slot x y then ys else y # remove_element x ys)"

definition updateMeta :: "bool \<Rightarrow> jstr \<Rightarrow> jstr \<Rightarrow> head_element list \<Rightarrow> head_element list" where
  "updateMeta isProperty nameOrProperty value =
     put_element (if isProperty then MetaProperty nameOrProperty value else MetaName nameOrProperty value)"

record seo_props =
  seo_title :: jstr
  seo_description :: jstr
  seo_keywords :: "jstr option"
  seo_canonical :: "jstr option"
  seo_ogType :: "jstr option"
  seo_ogImage :: "jstr option"
  seo_schema :: "json option"

definition LOGO_URL :: jstr where
  "LOGO_URL = js ''https://tubox.cloud/logo.png''"

definition og_type :: "seo_props \<Rightarrow> jstr" where
  "og_type p = (case seo_ogType p of None \<Rightarrow> js ''website'' | Some t \<Rightarrow> t)"

definition og_image :: "seo_props \<Rightarrow> jstr" where
  "og_image p = (case seo_ogImage p of None \<Rightarrow> LOGO_URL | Some u \<Rightarrow> u)"

definition canonical_url :: "seo_props \<Rightarrow> jstr \<Rightarrow> jstr" where
  "canonical_url p path = str_or (seo_canonical p) (BASE_URL @ path)"

definition schema_id :: jstr where
  "schema_id = js ''dynamic-seo-schema''"

definition put_keywords :: "seo_props \<Rightarrow> head_element list \<Rightarrow> head_element list" where
  "put_keywords p = (if truthy (seo_keywords p) then updateMeta False (js ''keywords'') (the (seo_keywords p)) else id)"

definition put_schema :: "(jstr \<Rightarrow> jstr) \<Rightarrow> seo_props \<Rightarrow> head_element list \<Rightarrow> head_element list" where
  "put_schema show_num p = (case seo_schema p of
     Some v \<Rightarrow> put_element (HeadScript schema_id (json_stringify show_num v))
   | None \<Rightarrow> remove_element (HeadScript schema_id []))"

definition seo_effect :: "(jstr \<Rightarrow> jstr) \<Rightarrow> seo_props \<times> jstr \<Rightarrow> doc_head \<Rightarrow> doc_head" where
  "seo_effect show_num page d = (case page of (p, path) \<Rightarrow>
     d\<lparr>hd_title := seo_title p, hd_elements :=
       (put_schema show_num p \<circ>
        put_element (HeadLink (js ''canonical'') (canonical_url p path)) \<circ>
        updateMeta False (js ''twitter:url'') (canonical_url p path) \<circ>
        updateMeta False (js ''twitter:image'') (og_image p) \<circ>
        updateMeta False (js ''twitter:description'') (seo_description p) \<circ>
        updateMeta False (js ''twitter:title'') (seo_title p) \<circ>
        updateMeta True (js ''og:url'') (canonical_url p path) \<circ>
        updateMeta True (js ''og:image'') (og_image p) \<circ>
        updateMeta True (js ''og:type'') (og_type p) \<circ>
        updateMeta True (js ''og:description'') (seo_description p) \<circ>
        updateMeta True (js ''og:title'') (seo_title p) \<circ>
        put_keywords p \<circ>
        updateMeta False (js ''description'') (seo_description p)) (hd_elements d)\<rparr>)"

text \<open>The head the site is delivered with (\<open>index.html\<close>): its title and the elements that have a slot.\<close>

definition index_head :: doc_head where
  "index_head = \<lparr>hd_title = (js ''Aquilia '' @ [8212] @ js '' High-Performance Async Python Web Framework''), hd_elements = [
     MetaName (js ''viewport'') (js ''width=device-width, initial-scale=1.0''),
     MetaName (js ''title'') (js ''Aquilia '' @ [8212] @ js '' High-Performance Async Python Web Framework''),
     MetaName (js ''description'') (js ''Aquilia is a Manifest-First, async-native Python web framework with zero boilerplate. Built-in ORM, DI, auth, sessions, caching, WebSockets, Docker/K8s manifests, and admin dashboard. Production-ready from day one.''),
     MetaName (js ''keywords'') (js ''Python web framework, async Python, Python API framework, Python REST API, manifest-first, dependency injection Python, Python ORM, background tasks, Python microservices, Docker Kubernetes deployment, Python admin dashboard, Aquilia framework, high-performance Python''),
     MetaName (js ''author'') (js ''Aquilia Team''),
     MetaName (js ''robots'') (js ''index, follow, max-image-preview:large, max-snippet:-1, max-video-preview:-1''),
     MetaName (js ''googlebot'') (js ''index, follow''),
     MetaName (js ''theme-color'') (js ''#22c55e''),
     MetaName (js ''color-scheme'') (js ''dark light''),
     MetaName (js ''generator'') (js ''Aquilia Docs v1.0''),
     HeadLink (js ''canonical'') (js ''https://tubox.cloud/''),
     MetaProperty (js ''og:type'') (js ''website''),
     MetaProperty (js ''og:site_name'') (js ''Aquilia''),
     MetaProperty (js ''og:url'') (js ''https://tubox.cloud/''),
     MetaProperty (js ''og:title'') (js ''Aquilia '' @ [8212] @ js '' High-Performance Async Python Web Framework''),
     MetaProperty (js ''og:description'') (js ''Aquilia is the Python framework for teams building production APIs. Write controllers and services. Aquilia discovers everything, manages its own architecture, and deploys itself.''),
     MetaProperty (js ''og:image'') (js ''https://tubox.cloud/logo.png''),
     MetaProperty (js ''og:image:width'') (js ''1200''),
     MetaProperty (js ''og:image:height'') (js ''630''),
     MetaProperty (js ''og:image:alt'') (js ''Aquilia Framework '' @ [8212] @ js '' Zero-Boilerplate Python''),
     MetaProperty (js ''og:locale'') (js ''en_US''),
     MetaName (js ''twitter:card'') (js ''summary_large_image''),
     MetaName (js ''twitter:url'') (js ''https://tubox.cloud/''),
     MetaName (js ''twitter:title'') (js ''Aquilia '' @ [8212] @ js '' High-Performance Async Python Web Framework''),
     MetaName (js ''twitter:description'') (js ''Aquilia is the Python framework for teams building production APIs. Write controllers and services. Aquilia discovers everything, manages its own architecture, and deploys itself.''),
     MetaName (js ''twitter:image'') (js ''https://tubox.cloud/logo.png''),
     MetaName (js ''twitter:image:alt'') (js ''Aquilia Framework logo'')]\<rparr>"

subsection \<open>The cookie panel\<close>

record cookie_choice =
  ck_essential :: bool
  ck_analytics :: bool
  ck_marketing :: bool

record cookie_state =
  ck_open :: bool
  ck_details :: bool
  ck_preferences :: cookie_choice
  ck_now :: nat
  ck_timer :: "nat option"
  ck_storage :: local_storage

definition consent_key :: jstr where
  "consent_key = js ''aquilia_cookie_consent''"

text \<open>\<open>JSON.stringify\<close> of the three answers; there is no number in it.\<close>

definition consent_json :: "cookie_choice \<Rightarrow> json" where
  "consent_json c = JObj [(js ''essential'', JBool (ck_essential c)), (js ''analytics'', JBool (ck_analytics c)),
     (js ''marketing'', JBool (ck_marketing c))]"

definition consent_text :: "cookie_choice \<Rightarrow> jstr" where
  "consent_text c = json_stringify (\<lambda>l. l) (consent_json c)"

definition default_choice :: cookie_choice where
  "default_choice = \<lparr>ck_essential = True, ck_analytics = True, ck_marketing = False\<rparr>"

text \<open>On mount a timer of 1500 ms is set when no consent is stored.\<close>

definition cookie_mount :: "local_storage \<Rightarrow> nat \<Rightarrow> cookie_state" where
  "cookie_mount saved t = \<lparr>ck_open = False, ck_details = False, ck_preferences = default_choice, ck_now = t,
     ck_timer = (if truthy (jm_get saved consent_key) then None else Some (t + 1500)), ck_storage = saved\<rparr>"

definition handleAcceptAll :: "cookie_state \<Rightarrow> cookie_state" where
  "handleAcceptAll s = s\<lparr>ck_storage := jm_set consent_key
     (consent_text \<lparr>ck_essential = True, ck_analytics = True, ck_marketing = True\<rparr>) (ck_storage s), ck_open := False\<rparr>"

definition handleSave :: "cookie_state \<Rightarrow> cookie_state" where
  "handleSave s = s\<lparr>ck_storage := jm_set consent_key (consent_text (ck_preferences s)) (ck_storage s), ck_open := False\<rparr>"

definition time_passes :: "nat \<Rightarrow> cookie_state \<Rightarrow> cookie_state" where
  "time_passes n s = (case ck_timer s of
     Some due \<Rightarrow> if due \<le> ck_now s + n then s\<lparr>ck_now := ck_now s + n, ck_timer := None, ck_open := True\<rparr>
       else s\<lparr>ck_now := ck_now s + n\<rparr>
   | None \<Rightarrow> s\<lparr>ck_now := ck_now s + n\<rparr>)"

datatype cookie_event = CkTime nat | CkClose | CkCustomize | CkAnalytics | CkMarketing | CkSave | CkAcceptAll

text \<open>The buttons are there while the panel is open; the two switches and \<open>Save Preferences\<close> with the
  details, \<open>Accept All\<close> without them.\<close>

fun cookie_step :: "cookie_event \<Rightarrow> cookie_state \<Rightarrow> cookie_state" where
  "cookie_step (CkTime n) s = time_passes n s"
| "cookie_step CkClose s = (if ck_open s then s\<lparr>ck_open := False\<rparr> else s)"
| "cookie_step CkCustomize s = (if ck_open s then s\<lparr>ck_details := \<not> ck_details s\<rparr> else s)"
| "cookie_step CkAnalytics s =
     (if ck_open s \<and> ck_details s
      then s\<lparr>ck_preferences := (ck_preferences s)\<lparr>ck_analytics := \<not> ck_analytics (ck_preferences s)\<rparr>\<rparr> else s)"
| "cookie_step CkMarketing s =
     (if ck_open s \<and> ck_details s
      then s\<lparr>ck_preferences := (ck_preferences s)\<lparr>ck_marketing := \<not> ck_marketing (ck_preferences s)\<rparr>\<rparr> else s)"
| "cookie_step CkSave s = (if ck_open s \<and> ck_details s then handleSave s else s)"
| "cookie_step CkAcceptAll s = (if ck_open s \<and> \<not> ck_details s then handleAcceptAll s else s)"

end
