(* ===== verification/SiteChromeFacts.thy ===== *)
theory SiteChromeFacts
  imports SiteChrome SiteNavFacts
begin

text \<open>
  What holds of the theme, the bar at the top, the document head and the cookie panel: the theme on
  the page is the one a reload restores, a dismissed banner does not come back, at most one link of
  the bar is marked; the tags of the head are those of the page shown, but for the keywords, which
  stay when a page has none; a consent once given is neither asked for nor changed again.
\<close>

lemma jm_set_same: "jm_get m k = Some v \<Longrightarrow> jm_set k v m = m"
  by (induction m) (auto split: if_splits)

subsection \<open>The theme\<close>

lemma theme_steps [simp]:
  "th_attribute (theme_effect s) = th_theme s" "th_theme (theme_effect s) = th_theme s"
  "th_attribute (theme_toggle s) = th_theme (theme_toggle s)"
  "th_theme (theme_toggle s) = toggled_theme (th_theme s)"
  "jm_get (th_storage (theme_effect s)) theme_key = Some (th_theme s)"
  "jm_get (th_storage (theme_toggle s)) theme_key = Some (toggled_theme (th_theme s))"
  by (simp_all add: theme_effect_def theme_toggle_def jm_get_set)

lemma toggled_nonempty [simp]: "toggled_theme t \<noteq> []"
  by (simp add: toggled_theme_def js_def)

lemma stored_nonempty: "stored_theme w saved \<noteq> []"
  by (simp add: stored_theme_def str_or_def js_def split: option.split)

text \<open>After the mount and any number of switches the attribute of the document is the theme, a reload
  starts with the same theme, and after a switch the theme is one of the two the site has.\<close>

theorem theme_survives_reload:
  fixes n saved attribute
  defines "s \<equiv> (theme_toggle ^^ n) (theme_mount attribute saved)"
  shows "th_attribute s = th_theme s \<and> theme_mount (th_attribute s) (th_storage s) = s \<and>
    (n = 0 \<or> th_theme s \<in> {js ''dark'', js ''light''})"
proof -
  have "th_attribute s = th_theme s \<and> jm_get (th_storage s) theme_key = Some (th_theme s) \<and> th_theme s \<noteq> []"
    unfolding s_def by (cases n) (simp_all add: theme_mount_def stored_nonempty)
  then have "theme_mount (th_attribute s) (th_storage s) = s"
    by (simp add: theme_mount_def stored_theme_def str_or_def theme_effect_def jm_set_same)
  moreover have "n = 0 \<or> th_theme s \<in> {js ''dark'', js ''light''}"
    unfolding s_def by (cases n) (simp_all add: toggled_theme_def)
  ultimately show ?thesis using \<open>th_attribute s = th_theme s \<and> _\<close> by simp
qed

subsection \<open>The bar at the top\<close>

definition navbar_ok :: "navbar_state \<Rightarrow> bool" where
  "navbar_ok s \<longleftrightarrow> nb_showBanner s = banner_saved (nb_version s) (nb_storage s)"

text \<open>What is dismissed stays dismissed.\<close>

definition keeps_dismissed :: "navbar_state \<Rightarrow> navbar_state \<Rightarrow> bool" where
  "keeps_dismissed s t \<longleftrightarrow>
     (\<forall>k. jm_get (nb_storage s) k = Some dismissed_mark \<longrightarrow> jm_get (nb_storage t) k = Some dismissed_mark)"

lemmas navbar_defs = version_changed_def dismissBanner_def path_changed_def hamburger_clicked_def

lemma banner_saved_dismissed [simp]: "\<not> banner_saved v (jm_set (banner_key v) dismissed_mark m)"
  by (simp add: banner_saved_def jm_get_set)

lemma banner_saved_cong: "announcement_version v = announcement_version w \<Longrightarrow> banner_saved v m = banner_saved w m"
  by (simp add: banner_saved_def banner_key_def)

lemma version_changed_ok: "navbar_ok s \<Longrightarrow> navbar_ok (version_changed v s)"
  using banner_saved_cong [of v "nb_version s" "nb_storage s"]
  by (simp add: version_changed_def navbar_ok_def)

lemma navbar_ok_step: "navbar_ok s \<Longrightarrow> navbar_ok (navbar_step b e s)"
  by (cases e) (simp_all add: version_changed_ok, simp_all add: navbar_defs navbar_ok_def)

lemma keeps_dismissed_step: "keeps_dismissed s (navbar_step b e s)"
  by (cases e) (simp_all add: navbar_defs keeps_dismissed_def jm_get_set)

lemma keeps_dismissed_order:
  "keeps_dismissed s s" "keeps_dismissed s t \<Longrightarrow> keeps_dismissed t u \<Longrightarrow> keeps_dismissed s u"
  by (simp_all add: keeps_dismissed_def)

interpretation navbar: event_machine "navbar_step b" navbar_ok keeps_dismissed for b
  by unfold_locales (auto intro: navbar_ok_step keeps_dismissed_order keeps_dismissed_step)

text \<open>The banner is shown exactly while the storage does not name its announcement as dismissed. Once
  it is dismissed, it is not shown again for an announcement of the same version, whatever follows;
  nor is it after a reload.\<close>

theorem banner_stays_dismissed:
  fixes b v path saved evs evs'
  defines "s \<equiv> fold (navbar_step b) evs (navbar_mount v path saved)"
  defines "t \<equiv> fold (navbar_step b) evs' (dismissBanner s)"
  shows "nb_showBanner s = banner_saved (nb_version s) (nb_storage s) \<and>
    \<not> (nb_showBanner t \<and> announcement_version (nb_version t) = announcement_version (nb_version s)) \<and>
    \<not> nb_showBanner (navbar_mount (nb_version s) path' (nb_storage t))"
proof -
  have s: "navbar_ok s"
    unfolding s_def by (rule navbar.inv_fold) (simp add: navbar_ok_def navbar_mount_def)
  then have d: "navbar_ok (dismissBanner s)" using navbar_ok_step [of s b NavDismiss] by simp
  then have t: "navbar_ok t" unfolding t_def by (rule navbar.inv_fold)
  have "\<not> banner_saved (nb_version s) (nb_storage (dismissBanner s))"
    using s by (auto simp: dismissBanner_def navbar_ok_def)
  then have "\<not> banner_saved (nb_version s) (nb_storage t)"
    using navbar.grows_fold [OF d] by (auto simp: keeps_dismissed_def t_def banner_saved_def)
  then show ?thesis
    using s t banner_saved_cong [of "nb_version t" "nb_version s" "nb_storage t"]
    by (auto simp: navbar_ok_def navbar_mount_def)
qed

text \<open>The menu closes when the page changes, and it is never shown where a page has a sidebar.\<close>

theorem menu_closes:
  "path \<noteq> nb_path s \<Longrightarrow> \<not> menu_shown b (navbar_step b (NavPath path) s)"
  by (simp add: menu_shown_def path_changed_def)

text \<open>At most one link of the bar is marked as the current one, and so it is in the menu.\<close>

definition marked_links :: "(jstr \<times> jstr \<times> bool) list \<Rightarrow> jstr list" where
  "marked_links ls = map fst (filter (\<lambda>l. snd (snd l)) ls)"

lemma at_most_one_marked:
  "length (marked_links (navbar_links v path)) \<le> 1"
  "length (marked_links (mobile_links v path)) \<le> 1"
  by (auto simp: marked_links_def navbar_links_def mobile_links_def starts_with_iff js_def)

text \<open>The addresses of the footer and those of the bar that are constant are paths of declared routes.\<close>

lemma chrome_links_declared:
  "list_all (\<lambda>p. p \<in> set (map rt_path site_routes))
     (map snd footer_links @ map (\<lambda>l. fst (snd l)) (take 4 (navbar_links v path) @ take 4 (mobile_links v path)))"
proof -
  have "list_all (\<lambda>p. p \<in> set (map rt_path site_routes))
     (map snd footer_links @ map js [''/docs'', ''/benchmark'', ''/changelogs'', ''/releases''])"
    by code_simp
  then show ?thesis by (simp add: navbar_links_def mobile_links_def)
qed

subsection \<open>The head of the document\<close>

declare js_Cons [simp del] js_Nil [simp del]

lemma same_slot_sym: "same_slot x y = same_slot y x"
  by (cases x; cases y) auto

lemma same_slot_trans: "same_slot x y \<Longrightarrow> same_slot y z = same_slot x z"
  by (cases x; cases y; cases z) auto

lemma same_slot_refl [simp]: "same_slot x x"
  by (cases x) auto

definition slot_content :: "head_element \<Rightarrow> head_element list \<Rightarrow> head_element option" where
  "slot_content x es = find (same_slot x) es"

lemma slot_cong: "same_slot x y \<Longrightarrow> slot_content x es = slot_content y es"
  by (induction es) (auto simp: slot_content_def same_slot_trans same_slot_sym [of y x])

lemma slot_put: "slot_content z (put_element x es) = (if same_slot z x then Some x else slot_content z es)"
  by (induction es) (auto simp: slot_content_def same_slot_sym dest: same_slot_trans)

lemma put_present: "slot_content x es = Some x \<Longrightarrow> put_element x es = es"
  by (induction es) (auto simp: slot_content_def split: if_splits)

lemma slot_remove_other: "\<not> same_slot z x \<Longrightarrow> slot_content z (remove_element x es) = slot_content z es"
  by (induction es) (auto simp: slot_content_def same_slot_sym dest: same_slot_trans)

lemma remove_absent: "slot_content x es = None \<Longrightarrow> remove_element x es = es"
  by (induction es) (auto simp: slot_content_def split: if_splits)

text \<open>No two elements are in one slot.\<close>

definition slots_apart :: "head_element list \<Rightarrow> bool" where
  "slots_apart es = sorted_wrt (\<lambda>x y. \<not> same_slot x y) es"

lemma set_put: "y \<in> set (put_element x es) \<Longrightarrow> y = x \<or> y \<in> set es"
  by (induction es) (auto split: if_splits)

lemma set_remove: "y \<in> set (remove_element x es) \<Longrightarrow> y \<in> set es"
  by (induction es) (auto split: if_splits)

lemma apart_put: "slots_apart es \<Longrightarrow> slots_apart (put_element x es)"
proof (induction es)
  case (Cons y es)
  then have tail: "\<And>z. z \<in> set es \<Longrightarrow> \<not> same_slot y z" "slots_apart (put_element x es)" "slots_apart es"
    by (auto simp: slots_apart_def)
  show ?case
  proof (cases "same_slot x y")
    case True
    with tail show ?thesis by (simp add: slots_apart_def same_slot_trans)
  next
    case False
    then have "\<not> same_slot y x" by (simp add: same_slot_sym)
    with False tail show ?thesis by (auto simp: slots_apart_def dest: set_put)
  qed
qed (simp add: slots_apart_def)

lemma apart_remove:
  "slots_apart es \<Longrightarrow> slots_apart (remove_element x es) \<and> slot_content x (remove_element x es) = None"
proof (induction es)
  case (Cons y es)
  then have tail: "\<And>z. z \<in> set es \<Longrightarrow> \<not> same_slot y z" "slots_apart es"
    by (auto simp: slots_apart_def)
  show ?case
  proof (cases "same_slot x y")
    case True
    with tail show ?thesis by (auto simp: slots_apart_def slot_content_def find_None_iff same_slot_trans)
  next
    case False
    with Cons.IH tail show ?thesis by (auto simp: slots_apart_def slot_content_def dest: set_remove)
  qed
qed (simp add: slots_apart_def slot_content_def)

text \<open>What the page with the properties \<open>p\<close> at \<open>path\<close> writes, whatever else the page has.\<close>

definition page_tags :: "seo_props \<Rightarrow> jstr \<Rightarrow> head_element list" where
  "page_tags p path = [
     MetaName (js ''description'') (seo_description p),
     MetaProperty (js ''og:title'') (seo_title p), MetaProperty (js ''og:description'') (seo_description p),
     MetaProperty (js ''og:type'') (og_type p), MetaProperty (js ''og:image'') (og_image p),
     MetaProperty (js ''og:url'') (canonical_url p path),
     MetaName (js ''twitter:title'') (seo_title p), MetaName (js ''twitter:description'') (seo_description p),
     MetaName (js ''twitter:image'') (og_image p), MetaName (js ''twitter:url'') (canonical_url p path),
     HeadLink (js ''canonical'') (canonical_url p path)]"

abbreviation keywords_slot :: head_element where
  "keywords_slot \<equiv> MetaName (js ''keywords'') []"

abbreviation schema_slot :: head_element where
  "schema_slot \<equiv> HeadScript schema_id []"

definition page_keywords :: "seo_props \<Rightarrow> head_element option" where
  "page_keywords p = (if truthy (seo_keywords p) then Some (MetaName (js ''keywords'') (the (seo_keywords p))) else None)"

definition page_schema :: "(jstr \<Rightarrow> jstr) \<Rightarrow> seo_props \<Rightarrow> head_element option" where
  "page_schema show_num p = map_option (\<lambda>v. HeadScript schema_id (json_stringify show_num v)) (seo_schema p)"

lemma same_slot_empty: "same_slot z (HeadScript k v) = same_slot z (HeadScript k [])"
  by (cases z) auto

lemma slot_put_schema: "\<not> same_slot z schema_slot \<Longrightarrow> slot_content z (put_schema show_num p es) = slot_content z es"
  by (auto simp: put_schema_def slot_put slot_remove_other same_slot_empty [of z _ "json_stringify _ _"] split: option.split)

lemma slot_put_keywords: "\<not> same_slot z keywords_slot \<Longrightarrow> slot_content z (put_keywords p es) = slot_content z es"
  by (cases z) (auto simp: put_keywords_def updateMeta_def slot_put)

lemma slot_keywords:
  "slot_content keywords_slot (put_keywords p es) =
     (case page_keywords p of Some x \<Rightarrow> Some x | None \<Rightarrow> slot_content keywords_slot es)"
  by (simp add: put_keywords_def page_keywords_def updateMeta_def slot_put)

lemma slot_schema: "slots_apart es \<Longrightarrow> slot_content schema_slot (put_schema show_num p es) = page_schema show_num p"
  by (simp add: put_schema_def page_schema_def slot_put apart_remove split: option.split)

lemma slots_apart_effect: "slots_apart (hd_elements d) \<Longrightarrow> slots_apart (hd_elements (seo_effect show_num v d))"
  by (simp add: seo_effect_def updateMeta_def put_keywords_def put_schema_def apart_put apart_remove
      split: prod.split option.split)

lemmas effect_simps = seo_effect_def updateMeta_def slot_put slot_put_keywords slot_put_schema js_inj

lemma effect_tags:
  "list_all (\<lambda>x. slot_content x (hd_elements (seo_effect show_num (p, path) d)) = Some x) (page_tags p path)"
  by (simp add: page_tags_def effect_simps)

lemma effect_keywords:
  "slot_content keywords_slot (hd_elements (seo_effect show_num (p, path) d)) =
     (case page_keywords p of Some x \<Rightarrow> Some x | None \<Rightarrow> slot_content keywords_slot (hd_elements d))"
  by (simp add: effect_simps slot_keywords split: option.split)

lemma effect_schema:
  "slots_apart (hd_elements d) \<Longrightarrow>
   slot_content schema_slot (hd_elements (seo_effect show_num (p, path) d)) = page_schema show_num p"
  by (simp add: seo_effect_def slot_schema apart_put updateMeta_def put_keywords_def)

text \<open>Running the effect once more changes nothing.\<close>

lemma put_keywords_present:
  assumes "page_keywords p = None \<or> slot_content keywords_slot es = page_keywords p"
  shows "put_keywords p es = es"
  using assms slot_cong [of keywords_slot "MetaName (js ''keywords'') (the (seo_keywords p))" es]
  by (auto simp: put_keywords_def page_keywords_def updateMeta_def intro: put_present)

lemma put_schema_present:
  assumes "slot_content schema_slot es = page_schema show_num p"
  shows "put_schema show_num p es = es"
  using assms slot_cong [of schema_slot "HeadScript schema_id (json_stringify show_num (the (seo_schema p)))" es]
  by (auto simp: put_schema_def page_schema_def put_present remove_absent split: option.splits)

lemma effect_stable:
  assumes "hd_title d = seo_title p" "list_all (\<lambda>x. slot_content x (hd_elements d) = Some x) (page_tags p path)"
    "page_keywords p = None \<or> slot_content keywords_slot (hd_elements d) = page_keywords p"
    "slot_content schema_slot (hd_elements d) = page_schema show_num p"
  shows "seo_effect show_num (p, path) d = d"
  using assms
  by (simp add: seo_effect_def updateMeta_def page_tags_def put_present put_keywords_present put_schema_present
     )

definition delivered_keywords :: "head_element option" where
  "delivered_keywords = slot_content keywords_slot (hd_elements index_head)"

definition keywords_in_force :: "(seo_props \<times> jstr) list \<Rightarrow> head_element option" where
  "keywords_in_force vs =
     last (delivered_keywords # filter (\<lambda>k. k \<noteq> None) (map (\<lambda>v. page_keywords (fst v)) vs))"

lemma index_apart: "slots_apart (hd_elements index_head)"
  by code_simp

lemma visits_apart: "slots_apart (hd_elements d) \<Longrightarrow> slots_apart (hd_elements (fold (seo_effect show_num) vs d))"
  by (induction vs arbitrary: d) (auto simp: slots_apart_effect)

lemma visits_keywords:
  "slot_content keywords_slot (hd_elements (fold (seo_effect show_num) vs index_head)) = keywords_in_force vs"
proof (induction vs rule: rev_induct)
  case Nil
  show ?case by (simp add: keywords_in_force_def delivered_keywords_def)
next
  case (snoc v vs)
  then show ?case by (cases v) (simp add: effect_keywords keywords_in_force_def split: option.split)
qed

text \<open>C13: Whatever pages were shown before, the head is that of the page shown: its title, description,
  preview tags, address and structured data, those of an earlier page being replaced or removed; only
  the keywords are those of the last page that has any, or the delivered ones. The effect may run any
  number of times.\<close>

theorem head_of_page:
  fixes show_num vs p path
  defines "d \<equiv> fold (seo_effect show_num) (vs @ [(p, path)]) index_head"
  shows "hd_title d = seo_title p \<and>
    list_all (\<lambda>x. slot_content x (hd_elements d) = Some x) (page_tags p path) \<and>
    slot_content schema_slot (hd_elements d) = page_schema show_num p \<and>
    slot_content keywords_slot (hd_elements d) = keywords_in_force (vs @ [(p, path)]) \<and>
    slots_apart (hd_elements d) \<and> seo_effect show_num (p, path) d = d"
proof -
  let ?d = "fold (seo_effect show_num) vs index_head"
  have d: "d = seo_effect show_num (p, path) ?d" by (simp add: d_def)
  have title: "hd_title d = seo_title p" by (simp add: d seo_effect_def)
  have tags: "list_all (\<lambda>x. slot_content x (hd_elements d) = Some x) (page_tags p path)"
    unfolding d by (rule effect_tags)
  have schema: "slot_content schema_slot (hd_elements d) = page_schema show_num p"
    unfolding d by (rule effect_schema) (rule visits_apart [OF index_apart])
  have kept: "slot_content keywords_slot (hd_elements d) = keywords_in_force (vs @ [(p, path)])"
    unfolding d_def by (rule visits_keywords)
  have "page_keywords p = None \<or> slot_content keywords_slot (hd_elements d) = page_keywords p"
    unfolding d effect_keywords by (cases "page_keywords p") simp_all
  then have "seo_effect show_num (p, path) d = d" using title tags schema by (intro effect_stable)
  moreover have "slots_apart (hd_elements d)" unfolding d_def by (rule visits_apart [OF index_apart])
  ultimately show ?thesis using title tags schema kept by simp
qed

text \<open>The keywords of a page stay in the head of the pages after it that have none.\<close>

lemma keywords_linger:
  "page_keywords p \<noteq> None \<Longrightarrow> list_all (\<lambda>v. \<not> truthy (seo_keywords (fst v))) vs \<Longrightarrow>
   slot_content keywords_slot (hd_elements (fold (seo_effect show_num) ((p, path) # vs) index_head)) = page_keywords p"
  unfolding visits_keywords
  by (auto simp: keywords_in_force_def page_keywords_def filter_empty_conv list_all_iff)

subsection \<open>The cookie panel\<close>

text \<open>Without a stored consent the panel opens once, 1500 ms after the mount; a consent is stored by one
  of the two buttons only, which close the panel for good.\<close>

definition cookie_ok :: "local_storage \<Rightarrow> cookie_state \<Rightarrow> bool" where
  "cookie_ok saved s \<longleftrightarrow> ck_essential (ck_preferences s) \<and>
     (ck_storage s = saved \<or>
        \<not> ck_open s \<and> ck_timer s = None \<and>
        (\<exists>c. ck_essential c \<and> ck_storage s = jm_set consent_key (consent_text c) saved)) \<and>
     (ck_open s \<longrightarrow> ck_timer s = None) \<and>
     (truthy (jm_get saved consent_key) \<longrightarrow> \<not> ck_open s \<and> ck_timer s = None \<and> ck_storage s = saved)"

lemma cookie_ok_mount: "cookie_ok saved (cookie_mount saved t)"
  by (simp add: cookie_ok_def cookie_mount_def default_choice_def)

lemma cookie_ok_step: "cookie_ok saved s \<Longrightarrow> cookie_ok saved (cookie_step e s)"
proof (cases e)
  case (CkTime n)
  assume "cookie_ok saved s"
  with CkTime show ?thesis by (auto simp: cookie_ok_def time_passes_def split: option.splits)
next
  case CkSave
  assume "cookie_ok saved s"
  with CkSave show ?thesis by (auto simp: cookie_ok_def handleSave_def)
next
  case CkAcceptAll
  assume "cookie_ok saved s"
  with CkAcceptAll show ?thesis
    by (auto simp: cookie_ok_def handleAcceptAll_def intro!: exI [of _ "\<lparr>ck_essential = True, ck_analytics = True, ck_marketing = True\<rparr>"])
qed (auto simp: cookie_ok_def)

interpretation cookies: event_machine cookie_step "cookie_ok saved" "\<lambda>s t. True" for saved
  by unfold_locales (auto intro: cookie_ok_step)

lemma consent_read_back: "json_parse (consent_text c) = Some (consent_json c)"
proof -
  have "\<forall>a b d. json_parse (consent_text \<lparr>ck_essential = a, ck_analytics = b, ck_marketing = d\<rparr>) =
      Some (consent_json \<lparr>ck_essential = a, ck_analytics = b, ck_marketing = d\<rparr>)"
    by code_simp
  then show ?thesis by (cases c) simp
qed

text \<open>Nothing can be stored but the answers of one of the two buttons, the essential cookies being
  always on, and what is stored is read back as these answers. Once a consent is stored, on this
  visit or an earlier one, the panel stays closed, after a reload too: the choice cannot be changed.\<close>

theorem consent_is_final:
  fixes saved t evs
  defines "s \<equiv> fold cookie_step evs (cookie_mount saved t)"
  shows "(ck_storage s = saved \<or>
      (\<exists>c. ck_essential c \<and> ck_storage s = jm_set consent_key (consent_text c) saved \<and>
        json_parse (consent_text c) = Some (consent_json c))) \<and>
    \<not> (truthy (jm_get (ck_storage s) consent_key) \<and>
        (ck_open s \<or> ck_open (fold cookie_step evs' (cookie_mount (ck_storage s) t'))))"
proof -
  have s: "cookie_ok saved s"
    unfolding s_def by (rule cookies.inv_fold) (rule cookie_ok_mount)
  have "cookie_ok (ck_storage s) (fold cookie_step evs' (cookie_mount (ck_storage s) t'))"
    by (rule cookies.inv_fold) (rule cookie_ok_mount)
  with s show ?thesis by (auto simp: cookie_ok_def consent_read_back)
qed

end
