(* ===== verification/Spec2Isabelle.thy ===== *)
theory Spec2Isabelle
  imports MermaidEdges MermaidText MermaidLayoutFacts PanelPosition DocRegistry DocPreviewFacts
    VersionFacts Announcements SiteNavFacts SearchFacts SearchHighlight SearchSite
    ChangelogFacts ChangelogItems ChangelogPage ChatWitness ChatTeaser MarkdownFacts ReleaseListFacts
    DiagramSvgFacts CodeBlockFacts TableOfContentsFacts DocEntitiesFacts SiteChromeFacts
begin

text \<open>
  A verification development of the documentation site of Aquilia, the TypeScript program under
  \<open>src/aqdocx/src\<close>. It models the parts of the site that compute something; paths below are
  relative to that directory.

  \<^bold>\<open>The parts and how they interact.\<close> A page is reached by the route table (\<open>App.tsx\<close>) and
  shown inside \<open>components/DocsLayout.tsx\<close> with the menu of \<open>components/Sidebar.tsx\<close>, its
  breadcrumbs, its date and the suggestions of \<open>components/NextSteps.tsx\<close>. The search
  (\<open>components/UniversalSearch.tsx\<close>) reads the text of \<open>App.tsx\<close> and of the pages themselves.
  Terms of a page open a hover panel (\<open>context/DocPreviewContext.tsx\<close>,
  \<open>components/docPreview/DocTerm.tsx\<close>) whose content comes from a registry and whose place is
  computed (\<open>lib/docPreview\<close>). Diagrams are parsed and laid out by \<open>components/mermaid/parser.ts\<close>
  and \<open>layout.ts\<close>. The version shown everywhere is fetched once (\<open>hooks/useVersion.ts\<close>) and
  chooses the banner (\<open>constants/announcements.ts\<close>) and the entry of the changelog
  (\<open>pages/Changelogs.tsx\<close>) to open. The release pages (\<open>pages/Releases.tsx\<close>,
  \<open>pages/ReleaseDetail.tsx\<close>) show the tags and the notes GitHub answers with, rendered by
  \<open>components/MarkdownBridge.tsx\<close>, whose code spans become terms of the registry. A page shows
  code (\<open>components/CodeBlock.tsx\<close>), diagrams (\<open>components/MermaidDiagram.tsx\<close>) and its table of
  contents (\<open>components/TableOfContents.tsx\<close>). The chat assistant (\<open>components/Chatbox.tsx\<close>) searches the
  generated documentation for a question, sends it to a service and types the streamed answer.

  \<^bold>\<open>The library.\<close> JsPrelude, JsString, JsMap, JsNum, JsSort, JsRegex and JsJson model what the program
  uses of the language: strings as lists of UTF-16 code units, \<open>Map\<close> and objects as association
  lists in insertion order, numbers as rationals with the infinities and \<open>NaN\<close>, the stable
  \<open>sort\<close> with a comparator, regular expressions with the backtracking matcher of the language
  definition, and \<open>JSON.parse\<close> with \<open>JSON.stringify\<close>, which are shown to undo each other. Machine states the two contracts of stateful components, JsMap that of a keyed
  map and JsSort that of a comparator, as locales; each is interpreted on the model's own
  definitions, and the invariants below are facts of these interpretations.

  \<^bold>\<open>Theories and sources.\<close>
  \<^item> MermaidTypes, MermaidNode, MermaidParser: \<open>components/mermaid/parser.ts\<close>, function by function;
    the regular expressions are definitions of type \<open>rx\<close> beside the function that uses them.
    MermaidText, MermaidNode, MermaidEdges, MermaidFlowInv and MermaidSequence prove round trips of
    the notation, which edges a line has, and that every parsed diagram is well formed.
  \<^item> MermaidLayout: \<open>components/mermaid/layout.ts\<close>, with a result that may be endless, an exception
    or a value: the lookups the source marks with \<open>!\<close> throw where the map has no such key. MermaidRank
    proves that the rank search ends, MermaidPlace reasons about the placement without the lookups that
    can throw, MermaidChecked shows that none of them does, so that the two layouts agree, and
    MermaidLayoutFacts that every node is placed, boxes do not
    overlap, edges of an acyclic graph run forward, and everything lies on the canvas.
  \<^item> DiagramView, DiagramSvg: \<open>components/MermaidDiagram.tsx\<close>: the view of one diagram with its
    gestures as an event machine, and the SVG elements of both renderers. DiagramViewFacts and
    DiagramSvgFacts prove that every source is drawn, the bounds of the zoom, and where labels,
    circles, messages and arrow heads come to lie.
  \<^item> CodeBlock, CodeBlockFacts: \<open>components/CodeBlock.tsx\<close>: views, languages and the colours of
    identifiers, which are shown to depend on the text of the line only. TableOfContents,
    TableOfContentsFacts: \<open>components/TableOfContents.tsx\<close> as an event machine.
  \<^item> PanelPosition: \<open>lib/docPreview/position.ts\<close>. DocRegistry: \<open>registry.ts\<close> and \<open>types.ts\<close>.
    DocPreview, DocPreviewFacts: the provider, the term and the panel as one machine with timers.
  \<^item> EntitiesOrm, EntitiesSubsystems, EntitiesSecurity, EntitiesCli, EntitiesSite, DocEntities: the
    430 entities of \<open>data/docEntities\<close> and the order in which \<open>index.ts\<close> registers them.
    DocEntitiesFacts compares them with the registry and with the route table.
  \<^item> VersionHook, VersionFacts: \<open>hooks/useVersion.ts\<close>, \<open>constants/version.ts\<close>. Announcements:
    \<open>constants/announcements.ts\<close>.
  \<^item> SidebarData, RouteData, LastUpdated: the tables of \<open>Sidebar.tsx\<close>, \<open>App.tsx\<close> and
    \<open>data/lastUpdatedDates.ts\<close>. SiteNav, SiteNavFacts: the functions over them.
  \<^item> SearchText, SearchIndex, SearchPanel: \<open>UniversalSearch.tsx\<close>: reading sources, index and
    ranking, and the dialog as an event machine. SearchFacts, SearchHighlight, SearchRoutes and
    SearchSite hold its properties, the last one against the route table.
  \<^item> Changelog, ChangelogData, ChangelogPage: \<open>pages/Changelogs.tsx\<close>: the parser of the changelog,
    the blocks of an item, the entries the page falls back to and its state. ChangelogFacts and
    ChangelogItems prove that both parsers read back what a changelog of the usual form says, and what
    the first one loses.
  \<^item> ReleaseData, ReleaseNotes, ReleaseList: the tables of releases, \<open>pages/ReleaseDetail.tsx\<close> as a
    machine of visits and answers, \<open>pages/Releases.tsx\<close> and \<open>components/ReleaseTimeline.tsx\<close>.
    Markdown: \<open>components/MarkdownBridge.tsx\<close> from the tokens of the marked library on. ReleaseFacts,
    ReleaseListFacts and MarkdownFacts hold their properties.
  \<^item> ChatSearch, ChatStream, ChatPrompt, ChatBox, ChatTeaser: \<open>Chatbox.tsx\<close>: the search over the
    chunks of the documentation, the event stream with the memory of the session, the system
    prompt, the conversation as an event machine whose requests in flight are suspended calls of
    \<open>handleSendMessage\<close>, and the lines shown while the chat is closed. ChatStreamFacts and
    ChatSearchFacts prove what is read and what is found, ChatBoxInv the invariant of the machine,
    ChatFacts an answer from the question to the message, whatever typing, effects and timers come between, ChatSafety what the user can rely on and
    where the chat breaks its own rules; ChatWitness runs the machine on concrete inputs.
  \<^item> SiteChrome: the theme, the bar at the top with its banner, the tags of the document head and the
    cookie panel (\<open>context/ThemeContext.tsx\<close>, \<open>Navbar.tsx\<close>, \<open>SEO.tsx\<close>, \<open>CookiePreferences.tsx\<close>).
    SiteChromeFacts: what a reload keeps, and what the head says after any visits. The first head is that of
    \<open>index.html\<close>; the build script \<open>scripts/prerender.cjs\<close>, which rewrites it in the copies it makes for the routes, is not modelled.

  \<^bold>\<open>Termination and bounds.\<close> No fuel is used. Loops are recursive functions with termination
  proofs; the rank search of the layout is a \<open>while\<close> loop over a queue that could run forever, so the
  result of the layout is of a type with a case for a run without end, beside one for a thrown error (the
  component catches the second, not the first); it is shown to end because each node enters the queue at most once. The \<open>while\<close> loop of \<open>NextSteps\<close> has no bound of its
  own and is driven by the list of random draws: its result is an option, \<open>None\<close> when the draws
  do not fill the list, and enough different draws are shown to fill it.

  \<^bold>\<open>Parameters.\<close> What is not in the repository is an argument: the answer of the tags request, the
  random draws, the modules of the bundler's \<open>import.meta.glob\<close>, the text measures of the DOM, what
  the chat service answers and the strings its bytes decode to, the environment file, what GitHub
  answers about tags and notes, the tokens of the marked and Prism libraries, \<open>Math.hypot\<close>, and the
  elements and reports of the document the table of contents reads. The chunks of
  the documentation, a generated table of 19 MB, and the text JavaScript gives a number are
  arguments of the chat.
  \<open>toLowerCase\<close>, \<open>localeCompare\<close> and the case folding of the flag \<open>i\<close> on a user's query, which the
  language takes from Unicode and locale tables, are arguments of the search; a property that
  needs something of them says so.

  \<^bold>\<open>Idealisations.\<close> Numbers are exact: the sizes and coordinates of a layout are rationals, as in
  binary64 while they stay halves of integers below \<open>2^53\<close>; the scores of the chat's search are
  rationals too, where the code rounds the share of the terms found. Outside the search the case mappings
  are the ASCII ones (and the Kelvin sign), since their results are only compared with ASCII
  text. React is modelled as handlers and effects on an explicit state: one step is an event with
  the effects that follow it; in the chat, whose timers race with them, the effects are an event of
  their own.

  \<^bold>\<open>Not modelled.\<close> Markup, styling, icons and the prose of the pages under \<open>pages/docs\<close>; the
  benchmark page, whose charts draw constant figures; the product video of the landing page and the
  error boundary; the generated tables \<open>data/docsContent.ts\<close> and
  \<open>data/localReleases.ts\<close>; the rendering of the chat's Markdown; geometry the browser computes; the
  marked, Prism, React and router libraries.
\<close>

text \<open>Whatever answer the tags request gets and however the components that use the version
  mount and unmount, the banner of the navigation bar, chosen by the version the hook shows, is
  the announcement of 1.4.2: an adopted version is never older than the bundled one, and no
  other entry of the table is for a version as new.\<close>

theorem banner_is_the_bundled_one:
  assumes "reachable version_step version_init s" "jm_get (vs_hooks s) h = Some v"
  shows "getLatestAnnouncement (Some v) = Some (Own announcement_1_4_2)"
proof -
  have inv: "version_inv s" using assms(1) by (rule version.inv_reachable)
  have "v \<in> set (jm_values (vs_hooks s))"
    using assms(2) by (force simp: jm_values_def dest: jm_get_in)
  then have "v = vs_cachedVersion s \<or> v = AQUILIA_VERSION" using inv by (auto simp: version_inv_def)
  then have ge: "isGreaterOrEqual v AQUILIA_VERSION" using inv bundled_refl by (auto simp: version_inv_def)
  have "map_of ANNOUNCEMENTS v \<in> {None, Some announcement_1_4_2}"
    using newest_announcement(1) ge
    by (cases "map_of ANNOUNCEMENTS v") (force simp: list_all_iff dest: map_of_SomeD)+
  moreover have "v \<notin> set object_prototype" using newest_announcement(2) ge by (auto simp: list_all_iff)
  ultimately show ?thesis by (auto simp: getLatestAnnouncement_Some)
qed

theorem banner_is_the_bundled_one_witness:
  "getLatestAnnouncement (Some (js ''2.0.0'')) = Some (Own announcement_1_4_2)"
  using banner_is_the_bundled_one [OF late_reachable, of 0 "js ''2.0.0''"] by (simp add: late_fields)

lemma static_versions:
  "map ce_version staticChangelogs = map js [''1.3.8'', ''1.3.7'', ''1.3.6'', ''1.3.5'', ''1.3.4'', ''1.3.2'', ''1.2.2'',
     ''1.2.1'', ''1.2.0'', ''1.1.2'', ''1.1.1'', ''1.1.0'', ''1.0.5'', ''1.0.4'', ''1.0.1'', ''1.0.0'']"
  by (simp add: staticChangelogs_def changelog_1_3_8_def changelog_1_3_7_def changelog_1_3_6_def changelog_1_3_5_def
      changelog_1_3_4_def changelog_1_3_2_def changelog_1_2_2_def changelog_1_2_1_def changelog_1_2_0_def
      changelog_1_1_2_def changelog_1_1_1_def changelog_1_1_0_def changelog_1_0_5_def changelog_1_0_4_def
      changelog_1_0_1_def changelog_1_0_0_def del: js_Cons js_Nil)

lemma static_versions_old: "list_all (\<lambda>v. \<not> isGreaterOrEqual v AQUILIA_VERSION) (map ce_version staticChangelogs)"
  unfolding static_versions by code_simp

text \<open>When the changelog cannot be fetched, the page falls back to the entries it has and opens
  the entry of the version the hook shows; but the newest of these entries is 1.3.8, older than any
  version the hook can show, so no entry is open, whatever the filter.\<close>

theorem fallback_opens_nothing:
  assumes "reachable version_step version_init s" "jm_get (vs_hooks s) h = Some v"
  shows "cp_changelogData (load_failed v page) = staticChangelogs \<and>
    filter (is_shown_expanded (load_failed v page)) (filteredChangelogs (load_failed v page)) = []"
proof -
  have "version_inv s" using assms(1) by (rule version.inv_reachable)
  moreover have "v \<in> set (jm_values (vs_hooks s))"
    using assms(2) by (force simp: jm_values_def dest: jm_get_in)
  ultimately have "isGreaterOrEqual v AQUILIA_VERSION" using bundled_refl by (auto simp: version_inv_def)
  then have "v \<notin> ce_version ` set staticChangelogs"
    using static_versions_old by (auto simp: list_all_iff)
  moreover have "ce_version ` set (filteredChangelogs (load_failed v page)) \<subseteq> ce_version ` set staticChangelogs"
    by (auto simp: filteredChangelogs_def load_failed_def)
  ultimately show ?thesis
    by (auto simp: filter_empty_conv is_shown_expanded_def load_failed_def split: if_splits)
qed

theorem fallback_opens_nothing_witness:
  "filter (is_shown_expanded (load_failed (js ''2.0.0'') (page_init False)))
     (filteredChangelogs (load_failed (js ''2.0.0'') (page_init False))) = []"
  using fallback_opens_nothing [OF late_reachable, of 0 "js ''2.0.0''"] by (simp add: late_fields)

end
